(* ===== verification/Ppc_Prelude.thy ===== *)
theory Ppc_Prelude
  imports Main "HOL-Library.Word" "HOL-Library.Signed_Division"
begin

text \<open>
  Shared vocabulary of the development: the fixed-width integer types of
  src/system/types.h as words, the host's shift instructions, and the generic lemmas on
  words and masks that the component theories use.

  A C++ shift by a count of 32 or more is undefined; the hosts the emulator is built for
  (x86, x86_64, aarch64) take the count of a 32-bit shift modulo 32.  \<open>shl32\<close> and
  \<open>shr32\<close> are that instruction; they are used wherever the count is not a constant.
\<close>

unbundle bit_operations_syntax

type_synonym uint8 = "8 word"
type_synonym uint16 = "16 word"
type_synonym uint32 = "32 word"
type_synonym uint64 = "64 word"

named_theorems cpu_defs \<open>unfolding rules of the register-level operations\<close>
named_theorems sem_defs \<open>unfolding rules of the instruction templates\<close>

definition shl32 :: "uint32 \<Rightarrow> nat \<Rightarrow> uint32" where
  "shl32 a n = push_bit (n mod 32) a"

definition shr32 :: "uint32 \<Rightarrow> nat \<Rightarrow> uint32" where
  "shr32 a n = drop_bit (n mod 32) a"

text \<open>A C condition on an integer: non-zero is true.\<close>

abbreviation (input) istrue :: "'a::len word \<Rightarrow> bool" where
  "istrue w \<equiv> w \<noteq> 0"

lemma shl32_small [simp]: "n < 32 \<Longrightarrow> shl32 a n = push_bit n a"
  by (simp add: shl32_def)

lemma shr32_small [simp]: "n < 32 \<Longrightarrow> shr32 a n = drop_bit n a"
  by (simp add: shr32_def)

subsection \<open>Bits and masks\<close>

lemma and_1_eq_0_iff: "w AND 1 = 0 \<longleftrightarrow> \<not> bit w 0" for w :: "'a::len word"
  by (simp add: and_one_eq bit_0 odd_iff_mod_2_eq_one even_iff_mod_2_eq_zero)

lemma and_push_1_eq_0_iff:
  "w AND push_bit n 1 = 0 \<longleftrightarrow> \<not> (n < LENGTH('a) \<and> bit w n)" for w :: "'a::len word"
proof
  assume z: "w AND push_bit n 1 = 0"
  show "\<not> (n < LENGTH('a) \<and> bit w n)"
  proof
    assume "n < LENGTH('a) \<and> bit w n"
    then have "bit (w AND push_bit n 1) n"
      by (simp add: bit_simps)
    with z show False by simp
  qed
next
  assume "\<not> (n < LENGTH('a) \<and> bit w n)"
  then show "w AND push_bit n 1 = 0"
    by (intro bit_word_eqI) (auto simp: bit_simps)
qed

lemma and_exp_eq_0_iff:
  "w AND 2 ^ n = 0 \<longleftrightarrow> \<not> (n < LENGTH('a) \<and> bit w n)" for w :: "'a::len word"
  using and_push_1_eq_0_iff[of w n] by (simp add: push_bit_eq_mult)

lemma unat_and_31_less [simp]: "unat (w AND 31) < 32" for w :: uint32
proof -
  have "unat (w AND 31) \<le> unat (31 :: uint32)"
    by (rule word_and_le1 [THEN word_le_nat_alt [THEN iffD1]])
  then show ?thesis by simp
qed

text \<open>Two words agree on a mask when they have the same bits there.\<close>

definition agree_on :: "'a::len word \<Rightarrow> 'a word \<Rightarrow> 'a word \<Rightarrow> bool" where
  "agree_on m a b \<longleftrightarrow> a AND m = b AND m"

lemma agree_on_bits: "agree_on m a b \<longleftrightarrow> (\<forall>n<LENGTH('a). bit m n \<longrightarrow> bit a n = bit b n)"
  for a :: "'a::len word"
  unfolding agree_on_def
  by (auto simp: bit_eq_iff bit_and_iff)

lemma agree_on_refl [simp]: "agree_on m a a"
  by (simp add: agree_on_def)

lemma agree_on_sym: "agree_on m a b \<Longrightarrow> agree_on m b a"
  by (simp add: agree_on_def)

lemma agree_on_trans: "agree_on m a b \<Longrightarrow> agree_on m b c \<Longrightarrow> agree_on m a c"
  by (simp add: agree_on_def)

lemma agree_on_0 [simp]: "agree_on 0 a b"
  by (simp add: agree_on_def)

lemma agree_on_full [simp]: "agree_on (- 1) a b \<longleftrightarrow> a = b"
  by (simp add: agree_on_def)

lemma agree_on_or: "agree_on (m OR n) a b \<longleftrightarrow> agree_on m a b \<and> agree_on n a b"
  by (auto simp: agree_on_bits bit_simps)

subsection \<open>Words as numbers\<close>

lemma and_mask_eq_0_iff: "w AND mask n = 0 \<longleftrightarrow> 2 ^ n dvd unat w" for w :: "'a::len word"
proof -
  have "w AND mask n = 0 \<longleftrightarrow> unat (take_bit n w) = 0"
    by (simp add: take_bit_eq_mask unat_eq_0)
  also have "\<dots> \<longleftrightarrow> 2 ^ n dvd unat w"
    by (simp only: unsigned_take_bit_eq take_bit_eq_0_iff)
  finally show ?thesis .
qed

lemma unat_push_bit: "unat (push_bit k w) = unat w * 2 ^ k" if "unat w * 2 ^ k < 2 ^ LENGTH('a)"
  for w :: "'a::len word"
proof -
  have "unat (push_bit k w) = take_bit LENGTH('a) (push_bit k (unat w))" by (rule unsigned_push_bit_eq)
  also have "push_bit k (unat w) = unat w * 2 ^ k" by (rule push_bit_nat_def)
  finally show ?thesis using that by (simp only: take_bit_nat_eq_self)
qed

lemma unat_and_mask_less: "unat (w AND mask n) < 2 ^ n" for w :: "'a::len word"
  by (simp only: take_bit_eq_mask[symmetric] unsigned_take_bit_eq) simp

lemma unat_plus_of_nat: "unat (a + of_nat k) = unat a + k" if "unat a + k < 2 ^ 32" for a :: uint32
proof -
  have "a + of_nat k = of_nat (unat a + k)" by simp
  then show ?thesis using that by (simp only: unat_of_nat) simp
qed

end
