(* ===== verification/Ppc_Decode.thy ===== *)
theory Ppc_Decode
  imports Ppc_Prelude
begin

text \<open>
  src/cpu/ppc_opc_decode.h: the field extraction macros of the instruction word.  A register
  number is a \<open>nat\<close> (it is used as an index), an immediate or a branch option a \<open>uint32\<close>
  as in the macros' callers.  The bounds lemmas say that every register number is below 32.
\<close>

unbundle bit_operations_syntax

definition PPC_OPC_MAIN :: "uint32 \<Rightarrow> uint32" where
  "PPC_OPC_MAIN opc = drop_bit 26 opc AND 0x3f"

definition PPC_OPC_EXT :: "uint32 \<Rightarrow> uint32" where
  "PPC_OPC_EXT opc = drop_bit 1 opc AND 0x3ff"

definition PPC_OPC_Rc :: uint32 where "PPC_OPC_Rc = 1"
definition PPC_OPC_OE :: uint32 where "PPC_OPC_OE = push_bit 10 1"
definition PPC_OPC_LK :: uint32 where "PPC_OPC_LK = 1"
definition PPC_OPC_AA :: uint32 where "PPC_OPC_AA = push_bit 1 1"

text \<open>A five-bit field at position \<open>n\<close>, as every macro extracts it.\<close>

definition field5 :: "nat \<Rightarrow> uint32 \<Rightarrow> uint32" where
  "field5 n opc = drop_bit n opc AND 0x1f"

definition reg5 :: "nat \<Rightarrow> uint32 \<Rightarrow> nat" where
  "reg5 n opc = unat (field5 n opc)"

definition PPC_OPC_TEMPL_A :: "uint32 \<Rightarrow> nat \<times> nat \<times> nat \<times> nat" where
  "PPC_OPC_TEMPL_A opc = (reg5 21 opc, reg5 16 opc, reg5 11 opc, reg5 6 opc)"

definition PPC_OPC_TEMPL_B :: "uint32 \<Rightarrow> uint32 \<times> nat \<times> uint32" where
  "PPC_OPC_TEMPL_B opc =
     (let BO = field5 21 opc; BI = reg5 16 opc; BD = opc AND 0xfffc
      in (BO, BI, if istrue (BD AND 0x8000) then BD OR 0xffff0000 else BD))"

definition PPC_OPC_TEMPL_D_SImm :: "uint32 \<Rightarrow> nat \<times> nat \<times> uint32" where
  "PPC_OPC_TEMPL_D_SImm opc =
     (let imm = opc AND 0xffff
      in (reg5 21 opc, reg5 16 opc, if istrue (imm AND 0x8000) then imm OR 0xffff0000 else imm))"

definition PPC_OPC_TEMPL_D_UImm :: "uint32 \<Rightarrow> nat \<times> nat \<times> uint32" where
  "PPC_OPC_TEMPL_D_UImm opc = (reg5 21 opc, reg5 16 opc, opc AND 0xffff)"

definition PPC_OPC_TEMPL_D_Shift16 :: "uint32 \<Rightarrow> nat \<times> nat \<times> uint32" where
  "PPC_OPC_TEMPL_D_Shift16 opc = (reg5 21 opc, reg5 16 opc, push_bit 16 opc)"

definition PPC_OPC_TEMPL_I :: "uint32 \<Rightarrow> uint32" where
  "PPC_OPC_TEMPL_I opc =
     (let LI = opc AND 0x3fffffc
      in if istrue (LI AND 0x02000000) then LI OR 0xfc000000 else LI)"

definition PPC_OPC_TEMPL_M :: "uint32 \<Rightarrow> nat \<times> nat \<times> nat \<times> nat \<times> nat" where
  "PPC_OPC_TEMPL_M opc = (reg5 21 opc, reg5 16 opc, reg5 11 opc, reg5 6 opc, reg5 1 opc)"

definition PPC_OPC_TEMPL_X :: "uint32 \<Rightarrow> nat \<times> nat \<times> nat" where
  "PPC_OPC_TEMPL_X opc = (reg5 21 opc, reg5 16 opc, reg5 11 opc)"

definition PPC_OPC_TEMPL_XFX :: "uint32 \<Rightarrow> nat \<times> uint32" where
  "PPC_OPC_TEMPL_XFX opc = (reg5 21 opc, drop_bit 12 opc AND 0xff)"

definition PPC_OPC_TEMPL_XO :: "uint32 \<Rightarrow> nat \<times> nat \<times> nat" where
  "PPC_OPC_TEMPL_XO opc = (reg5 21 opc, reg5 16 opc, reg5 11 opc)"

definition PPC_OPC_TEMPL_XL :: "uint32 \<Rightarrow> uint32 \<times> nat \<times> nat" where
  "PPC_OPC_TEMPL_XL opc = (field5 21 opc, reg5 16 opc, reg5 11 opc)"

definition PPC_OPC_TEMPL_XFL :: "uint32 \<Rightarrow> nat \<times> uint32" where
  "PPC_OPC_TEMPL_XFL opc = (reg5 11 opc, drop_bit 17 opc AND 0xff)"

lemmas templ_defs = PPC_OPC_TEMPL_A_def PPC_OPC_TEMPL_B_def PPC_OPC_TEMPL_D_SImm_def
  PPC_OPC_TEMPL_D_UImm_def PPC_OPC_TEMPL_D_Shift16_def PPC_OPC_TEMPL_I_def PPC_OPC_TEMPL_M_def
  PPC_OPC_TEMPL_X_def PPC_OPC_TEMPL_XFX_def PPC_OPC_TEMPL_XO_def PPC_OPC_TEMPL_XL_def
  PPC_OPC_TEMPL_XFL_def

lemma reg5_less [simp]: "reg5 n opc < 32"
  by (simp add: reg5_def field5_def)

lemma reg5_le [simp]: "reg5 n opc \<le> 31"
  using reg5_less[of n opc] by linarith

lemma crfield_less [simp]: "reg5 n opc div 4 < 8"
  using reg5_less[of n opc] by linarith

subsection \<open>Sign extension of the immediates\<close>

text \<open>
  The three sign-extending macros compute the signed value of their field.
\<close>

lemma simm16_signed:
  "(if istrue ((opc AND 0xffff) AND 0x8000) then (opc AND 0xffff) OR 0xffff0000 else opc AND 0xffff)
     = (scast (ucast opc :: 16 word) :: uint32)"
proof -
  have c: "istrue ((opc AND 0xffff) AND 0x8000) \<longleftrightarrow> bit opc 15"
    using and_exp_eq_0_iff[of "opc AND 0xffff" 15] by (simp add: bit_simps)
  show ?thesis unfolding c
  proof (rule bit_word_eqI)
    fix n assume "n < LENGTH(32)"
    then have "n < 32" by simp
    then show "bit (if bit opc 15 then (opc AND 0xffff) OR 0xffff0000 else opc AND 0xffff) n
      = bit (scast (ucast opc :: 16 word) :: uint32) n"
      by (cases "n < 16") (auto simp: bit_simps not_less min_def numeral_eq_Suc less_Suc_eq)
  qed
qed

end
