(* ===== verification/Ppc_Cpu.thy ===== *)
theory Ppc_Cpu
  imports Ppc_Decode
begin

text \<open>
  The processor state of src/cpu/cpu_generic/ppc_cpu.h and the architectural constants of
  src/cpu/common.h.  The register arrays are functions on the index (all indices the code
  forms are five-bit fields or literals).  A vector register is the 128-bit value whose most
  significant byte is element 0 of the big-endian view; the host pointer
  \<open>physical_code_page\<close> is the offset into \<open>gMemory\<close> it points to.
\<close>

unbundle bit_operations_syntax

record cpu =
  gpr :: "nat \<Rightarrow> uint32"
  fpr :: "nat \<Rightarrow> uint64"
  cr :: uint32
  fpscr :: uint32
  xer :: uint32
  xer_ca :: uint32
  lr :: uint32
  ctr :: uint32
  msr :: uint32
  pvr :: uint32
  ibatu :: "nat \<Rightarrow> uint32"
  ibatl :: "nat \<Rightarrow> uint32"
  ibat_bl17 :: "nat \<Rightarrow> uint32"
  dbatu :: "nat \<Rightarrow> uint32"
  dbatl :: "nat \<Rightarrow> uint32"
  dbat_bl17 :: "nat \<Rightarrow> uint32"
  sdr1 :: uint32
  sr :: "nat \<Rightarrow> uint32"
  dar :: uint32
  dsisr :: uint32
  sprg :: "nat \<Rightarrow> uint32"
  srr :: "nat \<Rightarrow> uint32"
  dec :: uint32
  ear :: uint32
  pir :: uint32
  tb :: uint64
  hid :: "nat \<Rightarrow> uint32"
  pc :: uint32
  npc :: uint32
  current_opc :: uint32
  exception_pending :: bool
  dec_exception :: bool
  ext_exception :: bool
  stop_exception :: bool
  singlestep_ignore :: bool
  pagetable_base :: uint32
  pagetable_hashmask :: uint32
  reserve :: uint32
  have_reservation :: bool
  effective_code_page :: uint32
  physical_code_page :: uint32
  pdec :: uint64
  ptb :: uint64
  vscr :: uint32
  vrsave :: uint32
  vr :: "nat \<Rightarrow> 128 word"
  vtemp :: uint32

subsection \<open>Reset\<close>

text \<open>
  \<open>ppc_cpu_init\<close> of src/cpu/cpu_generic/ppc_cpu.cc: every field zero but \<open>pvr\<close>, from the
  configuration, and the segment registers; \<open>ppc_dec_init\<close> and the mutex have no part in this state.
\<close>

definition ppc_cpu_init :: "uint32 \<Rightarrow> cpu" where
  "ppc_cpu_init pvr' =
    \<lparr>gpr = (\<lambda>_. 0), fpr = (\<lambda>_. 0), cr = 0, fpscr = 0,
     xer = 0, xer_ca = 0, lr = 0, ctr = 0,
     msr = 0, pvr = pvr', ibatu = (\<lambda>_. 0), ibatl = (\<lambda>_. 0),
     ibat_bl17 = (\<lambda>_. 0), dbatu = (\<lambda>_. 0), dbatl = (\<lambda>_. 0), dbat_bl17 = (\<lambda>_. 0),
     sdr1 = 0, sr = (\<lambda>i. if i < 16 then 0x2aa * of_nat i else 0), dar = 0, dsisr = 0,
     sprg = (\<lambda>_. 0), srr = (\<lambda>_. 0), dec = 0, ear = 0,
     pir = 0, tb = 0, hid = (\<lambda>_. 0), pc = 0,
     npc = 0, current_opc = 0, exception_pending = False, dec_exception = False,
     ext_exception = False, stop_exception = False, singlestep_ignore = False, pagetable_base = 0,
     pagetable_hashmask = 0, reserve = 0, have_reservation = False, effective_code_page = 0,
     physical_code_page = 0, pdec = 0, ptb = 0, vscr = 0,
     vrsave = 0, vr = (\<lambda>_. 0), vtemp = 0\<rparr>"

subsection \<open>Condition register and XER\<close>

definition CR_CR0_LT :: uint32 where "CR_CR0_LT = push_bit 31 1"
definition CR_CR0_GT :: uint32 where "CR_CR0_GT = push_bit 30 1"
definition CR_CR0_EQ :: uint32 where "CR_CR0_EQ = push_bit 29 1"
definition CR_CR0_SO :: uint32 where "CR_CR0_SO = push_bit 28 1"

definition XER_SO :: uint32 where "XER_SO = push_bit 31 1"
definition XER_OV :: uint32 where "XER_OV = push_bit 30 1"
definition XER_CA :: uint32 where "XER_CA = push_bit 29 1"

definition XER_n :: "uint32 \<Rightarrow> nat" where "XER_n v = unat (v AND 0x7f)"

text \<open>The mask of condition register field \<open>f\<close> (\<open>0xfu << ((7 - f) * 4)\<close>).\<close>

definition cr_field_mask :: "nat \<Rightarrow> uint32" where
  "cr_field_mask f = push_bit ((7 - f) * 4) 0xf"

text \<open>The mask of condition register bit \<open>b\<close> (\<open>1u << (31 - b)\<close>).\<close>

definition cr_bit_mask :: "nat \<Rightarrow> uint32" where
  "cr_bit_mask b = push_bit (31 - b) 1"

subsection \<open>Machine state register\<close>

definition MSR_UNKNOWN :: uint32 where "MSR_UNKNOWN = push_bit 30 1"
definition MSR_UNKNOWN2 :: uint32 where "MSR_UNKNOWN2 = push_bit 27 1"
definition MSR_VEC :: uint32 where "MSR_VEC = push_bit 25 1"
definition MSR_POW :: uint32 where "MSR_POW = push_bit 18 1"
definition MSR_EE :: uint32 where "MSR_EE = push_bit 15 1"
definition MSR_PR :: uint32 where "MSR_PR = push_bit 14 1"
definition MSR_FP :: uint32 where "MSR_FP = push_bit 13 1"
definition MSR_ME :: uint32 where "MSR_ME = push_bit 12 1"
definition MSR_FE0 :: uint32 where "MSR_FE0 = push_bit 11 1"
definition MSR_SE :: uint32 where "MSR_SE = push_bit 10 1"
definition MSR_FE1 :: uint32 where "MSR_FE1 = push_bit 8 1"
definition MSR_IR :: uint32 where "MSR_IR = push_bit 5 1"
definition MSR_DR :: uint32 where "MSR_DR = push_bit 4 1"
definition MSR_RI :: uint32 where "MSR_RI = push_bit 1 1"

definition PPC_CPU_UNSUPPORTED_MSR_BITS :: uint32 where
  "PPC_CPU_UNSUPPORTED_MSR_BITS =
     NOT (MSR_POW OR MSR_UNKNOWN OR MSR_UNKNOWN2 OR MSR_VEC OR MSR_EE OR MSR_PR OR MSR_FP
          OR MSR_ME OR MSR_FE0 OR MSR_SE OR MSR_FE1 OR MSR_IR OR MSR_DR OR MSR_RI)"

definition MSR_RFI_SAVE_MASK :: uint32 where "MSR_RFI_SAVE_MASK = 0x87c0ff73"

lemmas msr_defs = MSR_UNKNOWN_def MSR_UNKNOWN2_def MSR_VEC_def MSR_POW_def MSR_EE_def MSR_PR_def
  MSR_FP_def MSR_ME_def MSR_FE0_def MSR_SE_def MSR_FE1_def MSR_IR_def MSR_DR_def MSR_RI_def

subsection \<open>BAT registers, SDR1, segment registers, addresses and page table entries\<close>

definition BATU_BEPI :: "uint32 \<Rightarrow> uint32" where "BATU_BEPI v = v AND 0xfffe0000"
definition BATU_BL :: "uint32 \<Rightarrow> uint32" where "BATU_BL v = drop_bit 2 (v AND 0x1ffc)"
definition BATU_Vs :: uint32 where "BATU_Vs = push_bit 1 1"
definition BATU_Vp :: uint32 where "BATU_Vp = 1"
definition BATL_BRPN :: "uint32 \<Rightarrow> uint32" where "BATL_BRPN v = v AND 0xfffe0000"
definition BAT_EA_OFFSET :: "uint32 \<Rightarrow> uint32" where "BAT_EA_OFFSET v = v AND 0x1ffff"
definition BAT_EA_11 :: "uint32 \<Rightarrow> uint32" where "BAT_EA_11 v = v AND 0x0ffe0000"

definition SDR1_HTABORG :: "uint32 \<Rightarrow> uint32" where "SDR1_HTABORG v = drop_bit 16 v AND 0xffff"
definition SDR1_HTABMASK :: "uint32 \<Rightarrow> uint32" where "SDR1_HTABMASK v = v AND 0x1ff"

definition SR_T :: uint32 where "SR_T = push_bit 31 1"
definition SR_Ks :: uint32 where "SR_Ks = push_bit 30 1"
definition SR_Kp :: uint32 where "SR_Kp = push_bit 29 1"
definition SR_N :: uint32 where "SR_N = push_bit 28 1"
definition SR_VSID :: "uint32 \<Rightarrow> uint32" where "SR_VSID v = v AND 0xffffff"

definition EA_SR :: "uint32 \<Rightarrow> nat" where "EA_SR v = unat (drop_bit 28 v AND 0xf)"
definition EA_PageIndex :: "uint32 \<Rightarrow> uint32" where "EA_PageIndex v = drop_bit 12 v AND 0xffff"
definition EA_Offset :: "uint32 \<Rightarrow> uint32" where "EA_Offset v = v AND 0xfff"
definition EA_API :: "uint32 \<Rightarrow> uint32" where "EA_API v = drop_bit 22 v AND 0x3f"
definition PA_RPN :: "uint32 \<Rightarrow> uint32" where "PA_RPN v = drop_bit 12 v AND 0xfffff"

definition PTE1_V :: uint32 where "PTE1_V = push_bit 31 1"
definition PTE1_VSID :: "uint32 \<Rightarrow> uint32" where "PTE1_VSID v = drop_bit 7 v AND 0xffffff"
definition PTE1_H :: uint32 where "PTE1_H = push_bit 6 1"
definition PTE1_API :: "uint32 \<Rightarrow> uint32" where "PTE1_API v = v AND 0x3f"
definition PTE2_RPN :: "uint32 \<Rightarrow> uint32" where "PTE2_RPN v = v AND 0xfffff000"
definition PTE2_R :: uint32 where "PTE2_R = push_bit 8 1"
definition PTE2_C :: uint32 where "PTE2_C = push_bit 7 1"
definition PTE2_PP :: "uint32 \<Rightarrow> nat" where "PTE2_PP v = unat (v AND 3)"

end
