(* ===== verification/Ppc_Sem.thy ===== *)
theory Ppc_Sem
  imports Ppc_Cpu
begin

text \<open>
  The interface of the template parameter \<open>S\<close> of src/cpu/ppc_semantics_*.h.  A C++
  template is instantiated by duck typing; here the back end is a record of its operations
  over its own state \<open>'s\<close>, and a template is a function of that record.  Every operation
  takes the back end's state explicitly.  \<open>Value\<close> is \<open>uint32\<close> for both back ends
  (\<open>ConcreteSemantics\<close> uses \<open>uint32\<close>, \<open>LivenessSemantics\<close> a dummy \<open>int\<close> that is
  always 0).  Division is the one computation C++ leaves undefined for some arguments of the
  guest's choosing, so it may yield a \<open>host_trap\<close> (which also names the shifts by too much and the
  overflows of a signed sum that other parts of the interpreter can reach).

  \<open>alu_sem\<close> holds what the ALU and SPR templates use; \<open>sem\<close> adds the memory, FPR and
  control-flow operations, which only \<open>LivenessSemantics\<close> provides.
\<close>

unbundle bit_operations_syntax

datatype host_trap = Div_By_Zero | Div_Overflow | Shift_Count | Signed_Overflow

record 's alu_sem =
  s_read_gpr :: "nat \<Rightarrow> 's \<Rightarrow> uint32 \<times> 's"
  s_write_gpr :: "nat \<Rightarrow> uint32 \<Rightarrow> 's \<Rightarrow> 's"
  s_read_lr :: "'s \<Rightarrow> uint32 \<times> 's"
  s_write_lr :: "uint32 \<Rightarrow> 's \<Rightarrow> 's"
  s_read_ctr :: "'s \<Rightarrow> uint32 \<times> 's"
  s_write_ctr :: "uint32 \<Rightarrow> 's \<Rightarrow> 's"
  s_read_xer :: "'s \<Rightarrow> uint32 \<times> 's"
  s_write_xer :: "uint32 \<Rightarrow> 's \<Rightarrow> 's"
  s_read_cr :: "'s \<Rightarrow> uint32 \<times> 's"
  s_write_cr_masked :: "uint32 \<Rightarrow> uint32 \<Rightarrow> 's \<Rightarrow> 's"
  s_read_cr_field :: "nat \<Rightarrow> 's \<Rightarrow> uint32 \<times> 's"
  s_write_cr_field :: "nat \<Rightarrow> uint32 \<Rightarrow> 's \<Rightarrow> 's"
  s_everything :: "'s \<Rightarrow> 's"
  s_read_xer_ca :: "'s \<Rightarrow> uint32 \<times> 's"
  s_write_xer_ca :: "bool \<Rightarrow> 's \<Rightarrow> 's"
  s_write_cr0_from_result :: "uint32 \<Rightarrow> 's \<Rightarrow> 's"
  s_write_cr_field_signed :: "nat \<Rightarrow> uint32 \<Rightarrow> uint32 \<Rightarrow> 's \<Rightarrow> 's"
  s_write_cr_field_unsigned :: "nat \<Rightarrow> uint32 \<Rightarrow> uint32 \<Rightarrow> 's \<Rightarrow> 's"
  s_write_cr_bit :: "nat \<Rightarrow> bool \<Rightarrow> 's \<Rightarrow> 's"
  s_get_cr_bit :: "nat \<Rightarrow> 's \<Rightarrow> bool \<times> 's"
  s_imm :: "uint32 \<Rightarrow> uint32"
  s_add :: "uint32 \<Rightarrow> uint32 \<Rightarrow> uint32"
  s_and :: "uint32 \<Rightarrow> uint32 \<Rightarrow> uint32"
  s_or :: "uint32 \<Rightarrow> uint32 \<Rightarrow> uint32"
  s_xor :: "uint32 \<Rightarrow> uint32 \<Rightarrow> uint32"
  s_not :: "uint32 \<Rightarrow> uint32"
  s_neg :: "uint32 \<Rightarrow> uint32"
  s_nand :: "uint32 \<Rightarrow> uint32 \<Rightarrow> uint32"
  s_nor :: "uint32 \<Rightarrow> uint32 \<Rightarrow> uint32"
  s_andc :: "uint32 \<Rightarrow> uint32 \<Rightarrow> uint32"
  s_orc :: "uint32 \<Rightarrow> uint32 \<Rightarrow> uint32"
  s_eqv :: "uint32 \<Rightarrow> uint32 \<Rightarrow> uint32"
  s_mul :: "uint32 \<Rightarrow> uint32 \<Rightarrow> uint32"
  s_mulhs :: "uint32 \<Rightarrow> uint32 \<Rightarrow> uint32"
  s_mulhu :: "uint32 \<Rightarrow> uint32 \<Rightarrow> uint32"
  s_div_s :: "uint32 \<Rightarrow> uint32 \<Rightarrow> host_trap + uint32"
  s_div_u :: "uint32 \<Rightarrow> uint32 \<Rightarrow> host_trap + uint32"
  s_shl :: "uint32 \<Rightarrow> uint32 \<Rightarrow> uint32"
  s_shr :: "uint32 \<Rightarrow> uint32 \<Rightarrow> uint32"
  s_sraw :: "uint32 \<Rightarrow> uint32 \<Rightarrow> 's \<Rightarrow> (uint32 \<times> bool) \<times> 's"
  s_rotl :: "uint32 \<Rightarrow> uint32 \<Rightarrow> uint32"
  s_mask :: "nat \<Rightarrow> nat \<Rightarrow> uint32"
  s_extend_sign_byte :: "uint32 \<Rightarrow> uint32"
  s_extend_sign_half :: "uint32 \<Rightarrow> uint32"
  s_cntlzw :: "uint32 \<Rightarrow> uint32"
  s_carry_add :: "uint32 \<Rightarrow> uint32 \<Rightarrow> bool"
  s_carry_3 :: "uint32 \<Rightarrow> uint32 \<Rightarrow> uint32 \<Rightarrow> bool"

record 's sem = "'s alu_sem" +
  s_read_fpr :: "nat \<Rightarrow> 's \<Rightarrow> uint32 \<times> 's"
  s_write_fpr :: "nat \<Rightarrow> uint32 \<Rightarrow> 's \<Rightarrow> 's"
  s_read_cr_bit :: "nat \<Rightarrow> 's \<Rightarrow> 's"
  s_read_mem :: "uint32 \<Rightarrow> nat \<Rightarrow> 's \<Rightarrow> uint32 \<times> 's"
  s_read_mem_sign_extend :: "uint32 \<Rightarrow> nat \<Rightarrow> 's \<Rightarrow> uint32 \<times> 's"
  s_write_mem :: "uint32 \<Rightarrow> uint32 \<Rightarrow> nat \<Rightarrow> 's \<Rightarrow> 's"
  s_branch :: "'s \<Rightarrow> 's"
  s_branch_cond :: "'s \<Rightarrow> 's"

text \<open>The condition that ends most ALU templates: \<open>if (opc & PPC_OPC_Rc)\<close>.\<close>

definition sem_rc :: "('s, 'z) alu_sem_scheme \<Rightarrow> uint32 \<Rightarrow> uint32 \<Rightarrow> 's \<Rightarrow> 's" where
  "sem_rc S opc val s =
     (if istrue (opc AND PPC_OPC_Rc) then s_write_cr0_from_result S val s else s)"

text \<open>The base register of an address: \<open>(rA == 0) ? s.imm(0) : s.read_gpr(rA)\<close>.\<close>

definition sem_base :: "('s, 'z) alu_sem_scheme \<Rightarrow> nat \<Rightarrow> 's \<Rightarrow> uint32 \<times> 's" where
  "sem_base S rA s = (if rA = 0 then (s_imm S 0, s) else s_read_gpr S rA s)"

end
