(* ===== verification/Ppc_Concrete.thy ===== *)
theory Ppc_Concrete
  imports Ppc_Sem
begin

text \<open>
  src/cpu/ppc_concrete_sem.h: \<open>ConcreteSemantics<PPC_CPU_State>\<close>, the back end of the
  generic interpreter.  The operations are functions of the \<open>cpu\<close> record; \<open>concrete_sem\<close>
  packs them into the interface of Ppc_Sem.
\<close>

unbundle bit_operations_syntax

subsection \<open>State access\<close>

definition write_gpr :: "nat \<Rightarrow> uint32 \<Rightarrow> cpu \<Rightarrow> cpu" where
  "write_gpr r v c = c\<lparr>gpr := (gpr c)(r := v)\<rparr>"

definition write_cr_masked :: "uint32 \<Rightarrow> uint32 \<Rightarrow> cpu \<Rightarrow> cpu" where
  "write_cr_masked src m c = c\<lparr>cr := (src AND m) OR (cr c AND NOT m)\<rparr>"

definition read_cr_field :: "nat \<Rightarrow> cpu \<Rightarrow> uint32" where
  "read_cr_field f c = drop_bit ((7 - f) * 4) (cr c) AND 0xf"

definition write_cr_field :: "nat \<Rightarrow> uint32 \<Rightarrow> cpu \<Rightarrow> cpu" where
  "write_cr_field f nibble c =
     (let shift = (7 - f) * 4
      in c\<lparr>cr := (cr c AND NOT (push_bit shift 0xf)) OR push_bit shift (nibble AND 0xf)\<rparr>)"

definition read_xer_ca :: "cpu \<Rightarrow> uint32" where
  "read_xer_ca c = (if istrue (xer c AND XER_CA) then 1 else 0)"

definition write_xer_ca :: "bool \<Rightarrow> cpu \<Rightarrow> cpu" where
  "write_xer_ca carry c =
     (if carry then c\<lparr>xer := xer c OR XER_CA\<rparr> else c\<lparr>xer := xer c AND NOT XER_CA\<rparr>)"

definition read_xer_so :: "cpu \<Rightarrow> bool" where
  "read_xer_so c = istrue (xer c AND XER_SO)"

definition write_cr0_from_result :: "uint32 \<Rightarrow> cpu \<Rightarrow> cpu" where
  "write_cr0_from_result r c =
     (let x = cr c AND 0x0fffffff;
          x = (if r = 0 then x OR CR_CR0_EQ
               else if istrue (r AND 0x80000000) then x OR CR_CR0_LT
               else x OR CR_CR0_GT);
          x = (if istrue (xer c AND XER_SO) then x OR CR_CR0_SO else x)
      in c\<lparr>cr := x\<rparr>)"

definition write_cr_field_signed :: "nat \<Rightarrow> uint32 \<Rightarrow> uint32 \<Rightarrow> cpu \<Rightarrow> cpu" where
  "write_cr_field_signed field a b c =
     (let x = (if a <s b then 8 else if b <s a then 4 else 2 :: uint32);
          x = (if istrue (xer c AND XER_SO) then x OR 1 else x);
          shift = (7 - field) * 4
      in c\<lparr>cr := (cr c AND NOT (push_bit shift 0xf)) OR push_bit shift x\<rparr>)"

definition write_cr_field_unsigned :: "nat \<Rightarrow> uint32 \<Rightarrow> uint32 \<Rightarrow> cpu \<Rightarrow> cpu" where
  "write_cr_field_unsigned field a b c =
     (let x = (if a < b then 8 else if b < a then 4 else 2 :: uint32);
          x = (if istrue (xer c AND XER_SO) then x OR 1 else x);
          shift = (7 - field) * 4
      in c\<lparr>cr := (cr c AND NOT (push_bit shift 0xf)) OR push_bit shift x\<rparr>)"

definition write_cr_bit :: "nat \<Rightarrow> bool \<Rightarrow> cpu \<Rightarrow> cpu" where
  "write_cr_bit b val c =
     (if val then c\<lparr>cr := cr c OR push_bit (31 - b) 1\<rparr>
      else c\<lparr>cr := cr c AND NOT (push_bit (31 - b) 1)\<rparr>)"

definition get_cr_bit :: "nat \<Rightarrow> cpu \<Rightarrow> bool" where
  "get_cr_bit b c = istrue (cr c AND push_bit (31 - b) 1)"

subsection \<open>Computation\<close>

definition ppc_neg :: "uint32 \<Rightarrow> uint32" where
  "ppc_neg a = word_of_int (- sint a)"

definition ppc_mulhs :: "uint32 \<Rightarrow> uint32 \<Rightarrow> uint32" where
  "ppc_mulhs a b =
     (let r = word_of_int (sint a * sint b) :: uint64 in ucast (drop_bit 32 r))"

definition ppc_mulhu :: "uint32 \<Rightarrow> uint32 \<Rightarrow> uint32" where
  "ppc_mulhu a b = (let r = ucast a * ucast b :: uint64 in ucast (drop_bit 32 r))"

text \<open>
  \<open>(uint32)((sint32)a / (sint32)b)\<close> truncates towards zero; C++ leaves a zero divisor and
  the quotient of the least integer by -1 undefined (x86 hosts trap, aarch64 hosts do not).
\<close>

definition ppc_div_s :: "uint32 \<Rightarrow> uint32 \<Rightarrow> host_trap + uint32" where
  "ppc_div_s a b =
     (if b = 0 then Inl Div_By_Zero
      else if a = 0x80000000 \<and> b = 0xffffffff then Inl Div_Overflow
      else Inr (word_of_int (sint a sdiv sint b)))"

definition ppc_div_u :: "uint32 \<Rightarrow> uint32 \<Rightarrow> host_trap + uint32" where
  "ppc_div_u a b = (if b = 0 then Inl Div_By_Zero else Inr (a div b))"

definition ppc_shl :: "uint32 \<Rightarrow> uint32 \<Rightarrow> uint32" where
  "ppc_shl a sh = (let s = sh AND 0x3f in if 31 < s then 0 else push_bit (unat s) a)"

definition ppc_shr :: "uint32 \<Rightarrow> uint32 \<Rightarrow> uint32" where
  "ppc_shr a sh = (let s = sh AND 0x3f in if 31 < s then 0 else drop_bit (unat s) a)"

text \<open>The loop of \<open>sraw\<close> on a negative operand; the first argument counts down from \<open>s\<close>.\<close>

fun sraw_loop :: "nat \<Rightarrow> uint32 \<Rightarrow> bool \<Rightarrow> uint32 \<times> bool" where
  "sraw_loop 0 result carry_out = (result, carry_out)"
| "sraw_loop (Suc n) result carry_out =
     sraw_loop n (drop_bit 1 result OR 0x80000000) (istrue (result AND 1) \<or> carry_out)"

definition ppc_sraw :: "uint32 \<Rightarrow> uint32 \<Rightarrow> uint32 \<times> bool" where
  "ppc_sraw a sh =
     (let s = sh AND 0x3f
      in if istrue (a AND 0x80000000) then sraw_loop (unat s) a False
         else (if 31 < s then 0 else drop_bit (unat s) a, False))"

definition ppc_rotl :: "uint32 \<Rightarrow> uint32 \<Rightarrow> uint32" where
  "ppc_rotl a w = (let n = unat (w AND 0x1f) in shl32 a n OR shr32 a (32 - n))"

definition ppc_mask :: "nat \<Rightarrow> nat \<Rightarrow> uint32" where
  "ppc_mask MB ME =
     (if MB \<le> ME then
        if ME - MB = 31 then 0xffffffff
        else shl32 (shl32 1 (ME - MB + 1) - 1) (31 - ME)
      else
        let m = shl32 1 (32 - MB + ME + 1) - 1;
            n = (31 - ME) mod 32
        in shl32 m n OR shr32 m (32 - n))"

definition ppc_extend_sign_byte :: "uint32 \<Rightarrow> uint32" where
  "ppc_extend_sign_byte a = (if istrue (a AND 0x80) then a OR 0xffffff00 else a AND 0xff)"

definition ppc_extend_sign_half :: "uint32 \<Rightarrow> uint32" where
  "ppc_extend_sign_half a = (if istrue (a AND 0x8000) then a OR 0xffff0000 else a AND 0xffff)"

text \<open>The loop of \<open>cntlzw\<close>; its first argument is \<open>32 - n\<close>, so \<open>0\<close> is the \<open>break\<close>.\<close>

fun cntlzw_loop :: "nat \<Rightarrow> uint32 \<Rightarrow> uint32 \<Rightarrow> nat" where
  "cntlzw_loop 0 v x = 32"
| "cntlzw_loop (Suc k) v x =
     (if istrue (v AND x) then 32 - Suc k else cntlzw_loop k v (drop_bit 1 x))"

definition ppc_cntlzw :: "uint32 \<Rightarrow> uint32" where
  "ppc_cntlzw v = of_nat (cntlzw_loop 32 v 0x80000000)"

definition carry_add :: "uint32 \<Rightarrow> uint32 \<Rightarrow> bool" where
  "carry_add a b \<longleftrightarrow> a + b < a"

definition carry_3 :: "uint32 \<Rightarrow> uint32 \<Rightarrow> uint32 \<Rightarrow> bool" where
  "carry_3 a b c \<longleftrightarrow> (if a + b < a then True else if a + b + c < c then True else False)"

subsection \<open>The back end\<close>

definition concrete_sem :: "cpu alu_sem" where
  "concrete_sem = \<lparr>
     s_read_gpr = (\<lambda>r c. (gpr c r, c)),
     s_write_gpr = write_gpr,
     s_read_lr = (\<lambda>c. (lr c, c)),
     s_write_lr = (\<lambda>v c. c\<lparr>lr := v\<rparr>),
     s_read_ctr = (\<lambda>c. (ctr c, c)),
     s_write_ctr = (\<lambda>v c. c\<lparr>ctr := v\<rparr>),
     s_read_xer = (\<lambda>c. (xer c, c)),
     s_write_xer = (\<lambda>v c. c\<lparr>xer := v\<rparr>),
     s_read_cr = (\<lambda>c. (cr c, c)),
     s_write_cr_masked = write_cr_masked,
     s_read_cr_field = (\<lambda>f c. (read_cr_field f c, c)),
     s_write_cr_field = write_cr_field,
     s_everything = (\<lambda>c. c),
     s_read_xer_ca = (\<lambda>c. (read_xer_ca c, c)),
     s_write_xer_ca = write_xer_ca,
     s_write_cr0_from_result = write_cr0_from_result,
     s_write_cr_field_signed = write_cr_field_signed,
     s_write_cr_field_unsigned = write_cr_field_unsigned,
     s_write_cr_bit = write_cr_bit,
     s_get_cr_bit = (\<lambda>b c. (get_cr_bit b c, c)),
     s_imm = (\<lambda>v. v),
     s_add = (\<lambda>a b. a + b),
     s_and = (\<lambda>a b. a AND b),
     s_or = (\<lambda>a b. a OR b),
     s_xor = (\<lambda>a b. a XOR b),
     s_not = (\<lambda>a. NOT a),
     s_neg = ppc_neg,
     s_nand = (\<lambda>a b. NOT (a AND b)),
     s_nor = (\<lambda>a b. NOT (a OR b)),
     s_andc = (\<lambda>a b. a AND NOT b),
     s_orc = (\<lambda>a b. a OR NOT b),
     s_eqv = (\<lambda>a b. NOT (a XOR b)),
     s_mul = (\<lambda>a b. a * b),
     s_mulhs = ppc_mulhs,
     s_mulhu = ppc_mulhu,
     s_div_s = ppc_div_s,
     s_div_u = ppc_div_u,
     s_shl = ppc_shl,
     s_shr = ppc_shr,
     s_sraw = (\<lambda>a sh c. (ppc_sraw a sh, c)),
     s_rotl = ppc_rotl,
     s_mask = ppc_mask,
     s_extend_sign_byte = ppc_extend_sign_byte,
     s_extend_sign_half = ppc_extend_sign_half,
     s_cntlzw = ppc_cntlzw,
     s_carry_add = carry_add,
     s_carry_3 = carry_3 \<rparr>"

end

