(* ===== verification/Ppc_Sem_Alu.thy ===== *)
theory Ppc_Sem_Alu
  imports Ppc_Sem
begin

text \<open>
  src/cpu/ppc_semantics_alu.h: one function per template, in the order of the file (the
  templates \<open>addic_\<close>, \<open>andi_\<close> and \<open>andis_\<close> are named \<open>_rc\<close> here).  The
  reads, the computation and the writes are those of the template; the order of the reads
  inside one C++ argument list is left to right.
\<close>

unbundle bit_operations_syntax

subsection \<open>Add instructions\<close>

definition ppc_sem_addx :: "('s, 'z) alu_sem_scheme \<Rightarrow> uint32 \<Rightarrow> 's \<Rightarrow> 's" where
  "ppc_sem_addx S opc s =
    (let (rD, rA, rB) = PPC_OPC_TEMPL_XO opc;
         (a, s) = s_read_gpr S rA s;
         (b, s) = s_read_gpr S rB s;
         val = s_add S a b;
         s = s_write_gpr S rD val s
     in sem_rc S opc val s)"

definition ppc_sem_addcx :: "('s, 'z) alu_sem_scheme \<Rightarrow> uint32 \<Rightarrow> 's \<Rightarrow> 's" where
  "ppc_sem_addcx S opc s =
    (let (rD, rA, rB) = PPC_OPC_TEMPL_XO opc;
         (a, s) = s_read_gpr S rA s;
         (b, s) = s_read_gpr S rB s;
         val = s_add S a b;
         s = s_write_gpr S rD val s;
         s = s_write_xer_ca S (s_carry_add S a b) s
     in sem_rc S opc val s)"

definition ppc_sem_addex :: "('s, 'z) alu_sem_scheme \<Rightarrow> uint32 \<Rightarrow> 's \<Rightarrow> 's" where
  "ppc_sem_addex S opc s =
    (let (rD, rA, rB) = PPC_OPC_TEMPL_XO opc;
         (a, s) = s_read_gpr S rA s;
         (b, s) = s_read_gpr S rB s;
         (ca, s) = s_read_xer_ca S s;
         val = s_add S (s_add S a b) (s_imm S ca);
         s = s_write_gpr S rD val s;
         s = s_write_xer_ca S (s_carry_3 S a b ca) s
     in sem_rc S opc val s)"

definition ppc_sem_addi :: "('s, 'z) alu_sem_scheme \<Rightarrow> uint32 \<Rightarrow> 's \<Rightarrow> 's" where
  "ppc_sem_addi S opc s =
    (let (rD, rA, imm) = PPC_OPC_TEMPL_D_SImm opc;
         (base, s) = sem_base S rA s;
         val = s_add S base (s_imm S imm)
     in s_write_gpr S rD val s)"

definition ppc_sem_addic :: "('s, 'z) alu_sem_scheme \<Rightarrow> uint32 \<Rightarrow> 's \<Rightarrow> 's" where
  "ppc_sem_addic S opc s =
    (let (rD, rA, imm) = PPC_OPC_TEMPL_D_SImm opc;
         (a, s) = s_read_gpr S rA s;
         val = s_add S a (s_imm S imm);
         s = s_write_gpr S rD val s
     in s_write_xer_ca S (s_carry_add S a imm) s)"

definition ppc_sem_addic_rc :: "('s, 'z) alu_sem_scheme \<Rightarrow> uint32 \<Rightarrow> 's \<Rightarrow> 's" where
  "ppc_sem_addic_rc S opc s =
    (let (rD, rA, imm) = PPC_OPC_TEMPL_D_SImm opc;
         (a, s) = s_read_gpr S rA s;
         val = s_add S a (s_imm S imm);
         s = s_write_gpr S rD val s;
         s = s_write_xer_ca S (s_carry_add S a imm) s
     in s_write_cr0_from_result S val s)"

definition ppc_sem_addis :: "('s, 'z) alu_sem_scheme \<Rightarrow> uint32 \<Rightarrow> 's \<Rightarrow> 's" where
  "ppc_sem_addis S opc s =
    (let (rD, rA, imm) = PPC_OPC_TEMPL_D_Shift16 opc;
         (base, s) = sem_base S rA s;
         val = s_add S base (s_imm S imm)
     in s_write_gpr S rD val s)"

definition ppc_sem_addmex :: "('s, 'z) alu_sem_scheme \<Rightarrow> uint32 \<Rightarrow> 's \<Rightarrow> 's" where
  "ppc_sem_addmex S opc s =
    (let (rD, rA, rB) = PPC_OPC_TEMPL_XO opc;
         (a, s) = s_read_gpr S rA s;
         (ca, s) = s_read_xer_ca S s;
         val = s_add S (s_add S a (s_imm S ca)) (s_imm S 0xffffffff);
         s = s_write_gpr S rD val s;
         s = s_write_xer_ca S (istrue a \<or> istrue ca) s
     in sem_rc S opc val s)"

definition ppc_sem_addzex :: "('s, 'z) alu_sem_scheme \<Rightarrow> uint32 \<Rightarrow> 's \<Rightarrow> 's" where
  "ppc_sem_addzex S opc s =
    (let (rD, rA, rB) = PPC_OPC_TEMPL_XO opc;
         (a, s) = s_read_gpr S rA s;
         (ca, s) = s_read_xer_ca S s;
         val = s_add S a (s_imm S ca);
         s = s_write_gpr S rD val s;
         s = s_write_xer_ca S (a = 0xffffffff \<and> istrue ca) s
     in sem_rc S opc val s)"

subsection \<open>Logic instructions\<close>

definition ppc_sem_andx :: "('s, 'z) alu_sem_scheme \<Rightarrow> uint32 \<Rightarrow> 's \<Rightarrow> 's" where
  "ppc_sem_andx S opc s =
    (let (rS, rA, rB) = PPC_OPC_TEMPL_X opc;
         (v, s) = s_read_gpr S rS s;
         (b, s) = s_read_gpr S rB s;
         val = s_and S v b;
         s = s_write_gpr S rA val s
     in sem_rc S opc val s)"

definition ppc_sem_andcx :: "('s, 'z) alu_sem_scheme \<Rightarrow> uint32 \<Rightarrow> 's \<Rightarrow> 's" where
  "ppc_sem_andcx S opc s =
    (let (rS, rA, rB) = PPC_OPC_TEMPL_X opc;
         (v, s) = s_read_gpr S rS s;
         (b, s) = s_read_gpr S rB s;
         val = s_andc S v b;
         s = s_write_gpr S rA val s
     in sem_rc S opc val s)"

definition ppc_sem_andi_rc :: "('s, 'z) alu_sem_scheme \<Rightarrow> uint32 \<Rightarrow> 's \<Rightarrow> 's" where
  "ppc_sem_andi_rc S opc s =
    (let (rS, rA, imm) = PPC_OPC_TEMPL_D_UImm opc;
         (v, s) = s_read_gpr S rS s;
         val = s_and S v (s_imm S imm);
         s = s_write_gpr S rA val s
     in s_write_cr0_from_result S val s)"

definition ppc_sem_andis_rc :: "('s, 'z) alu_sem_scheme \<Rightarrow> uint32 \<Rightarrow> 's \<Rightarrow> 's" where
  "ppc_sem_andis_rc S opc s =
    (let (rS, rA, imm) = PPC_OPC_TEMPL_D_Shift16 opc;
         (v, s) = s_read_gpr S rS s;
         val = s_and S v (s_imm S imm);
         s = s_write_gpr S rA val s
     in s_write_cr0_from_result S val s)"

definition ppc_sem_orx :: "('s, 'z) alu_sem_scheme \<Rightarrow> uint32 \<Rightarrow> 's \<Rightarrow> 's" where
  "ppc_sem_orx S opc s =
    (let (rS, rA, rB) = PPC_OPC_TEMPL_X opc;
         (v, s) = s_read_gpr S rS s;
         (b, s) = s_read_gpr S rB s;
         val = s_or S v b;
         s = s_write_gpr S rA val s
     in sem_rc S opc val s)"

definition ppc_sem_orcx :: "('s, 'z) alu_sem_scheme \<Rightarrow> uint32 \<Rightarrow> 's \<Rightarrow> 's" where
  "ppc_sem_orcx S opc s =
    (let (rS, rA, rB) = PPC_OPC_TEMPL_X opc;
         (v, s) = s_read_gpr S rS s;
         (b, s) = s_read_gpr S rB s;
         val = s_orc S v b;
         s = s_write_gpr S rA val s
     in sem_rc S opc val s)"

definition ppc_sem_ori :: "('s, 'z) alu_sem_scheme \<Rightarrow> uint32 \<Rightarrow> 's \<Rightarrow> 's" where
  "ppc_sem_ori S opc s =
    (let (rS, rA, imm) = PPC_OPC_TEMPL_D_UImm opc;
         (v, s) = s_read_gpr S rS s;
         val = s_or S v (s_imm S imm)
     in s_write_gpr S rA val s)"

definition ppc_sem_oris :: "('s, 'z) alu_sem_scheme \<Rightarrow> uint32 \<Rightarrow> 's \<Rightarrow> 's" where
  "ppc_sem_oris S opc s =
    (let (rS, rA, imm) = PPC_OPC_TEMPL_D_Shift16 opc;
         (v, s) = s_read_gpr S rS s;
         val = s_or S v (s_imm S imm)
     in s_write_gpr S rA val s)"

definition ppc_sem_xorx :: "('s, 'z) alu_sem_scheme \<Rightarrow> uint32 \<Rightarrow> 's \<Rightarrow> 's" where
  "ppc_sem_xorx S opc s =
    (let (rS, rA, rB) = PPC_OPC_TEMPL_X opc;
         (v, s) = s_read_gpr S rS s;
         (b, s) = s_read_gpr S rB s;
         val = s_xor S v b;
         s = s_write_gpr S rA val s
     in sem_rc S opc val s)"

definition ppc_sem_xori :: "('s, 'z) alu_sem_scheme \<Rightarrow> uint32 \<Rightarrow> 's \<Rightarrow> 's" where
  "ppc_sem_xori S opc s =
    (let (rS, rA, imm) = PPC_OPC_TEMPL_D_UImm opc;
         (v, s) = s_read_gpr S rS s;
         val = s_xor S v (s_imm S imm)
     in s_write_gpr S rA val s)"

definition ppc_sem_xoris :: "('s, 'z) alu_sem_scheme \<Rightarrow> uint32 \<Rightarrow> 's \<Rightarrow> 's" where
  "ppc_sem_xoris S opc s =
    (let (rS, rA, imm) = PPC_OPC_TEMPL_D_Shift16 opc;
         (v, s) = s_read_gpr S rS s;
         val = s_xor S v (s_imm S imm)
     in s_write_gpr S rA val s)"

definition ppc_sem_nandx :: "('s, 'z) alu_sem_scheme \<Rightarrow> uint32 \<Rightarrow> 's \<Rightarrow> 's" where
  "ppc_sem_nandx S opc s =
    (let (rS, rA, rB) = PPC_OPC_TEMPL_X opc;
         (v, s) = s_read_gpr S rS s;
         (b, s) = s_read_gpr S rB s;
         val = s_nand S v b;
         s = s_write_gpr S rA val s
     in sem_rc S opc val s)"

definition ppc_sem_norx :: "('s, 'z) alu_sem_scheme \<Rightarrow> uint32 \<Rightarrow> 's \<Rightarrow> 's" where
  "ppc_sem_norx S opc s =
    (let (rS, rA, rB) = PPC_OPC_TEMPL_X opc;
         (v, s) = s_read_gpr S rS s;
         (b, s) = s_read_gpr S rB s;
         val = s_nor S v b;
         s = s_write_gpr S rA val s
     in sem_rc S opc val s)"

definition ppc_sem_eqvx :: "('s, 'z) alu_sem_scheme \<Rightarrow> uint32 \<Rightarrow> 's \<Rightarrow> 's" where
  "ppc_sem_eqvx S opc s =
    (let (rS, rA, rB) = PPC_OPC_TEMPL_X opc;
         (v, s) = s_read_gpr S rS s;
         (b, s) = s_read_gpr S rB s;
         val = s_eqv S v b;
         s = s_write_gpr S rA val s
     in sem_rc S opc val s)"

subsection \<open>Compare instructions\<close>

definition ppc_sem_cmp :: "('s, 'z) alu_sem_scheme \<Rightarrow> uint32 \<Rightarrow> 's \<Rightarrow> 's" where
  "ppc_sem_cmp S opc s =
    (let (crf, rA, rB) = PPC_OPC_TEMPL_X opc;
         (a, s) = s_read_gpr S rA s;
         (b, s) = s_read_gpr S rB s
     in s_write_cr_field_signed S (crf div 4) a b s)"

definition ppc_sem_cmpi :: "('s, 'z) alu_sem_scheme \<Rightarrow> uint32 \<Rightarrow> 's \<Rightarrow> 's" where
  "ppc_sem_cmpi S opc s =
    (let (crf, rA, imm) = PPC_OPC_TEMPL_D_SImm opc;
         (a, s) = s_read_gpr S rA s
     in s_write_cr_field_signed S (crf div 4) a (s_imm S imm) s)"

definition ppc_sem_cmpl :: "('s, 'z) alu_sem_scheme \<Rightarrow> uint32 \<Rightarrow> 's \<Rightarrow> 's" where
  "ppc_sem_cmpl S opc s =
    (let (crf, rA, rB) = PPC_OPC_TEMPL_X opc;
         (a, s) = s_read_gpr S rA s;
         (b, s) = s_read_gpr S rB s
     in s_write_cr_field_unsigned S (crf div 4) a b s)"

definition ppc_sem_cmpli :: "('s, 'z) alu_sem_scheme \<Rightarrow> uint32 \<Rightarrow> 's \<Rightarrow> 's" where
  "ppc_sem_cmpli S opc s =
    (let (crf, rA, imm) = PPC_OPC_TEMPL_D_UImm opc;
         (a, s) = s_read_gpr S rA s
     in s_write_cr_field_unsigned S (crf div 4) a (s_imm S imm) s)"

subsection \<open>Subtract instructions\<close>

definition ppc_sem_subfx :: "('s, 'z) alu_sem_scheme \<Rightarrow> uint32 \<Rightarrow> 's \<Rightarrow> 's" where
  "ppc_sem_subfx S opc s =
    (let (rD, rA, rB) = PPC_OPC_TEMPL_XO opc;
         (a, s) = s_read_gpr S rA s;
         (b, s) = s_read_gpr S rB s;
         val = s_add S (s_add S (s_not S a) b) (s_imm S 1);
         s = s_write_gpr S rD val s
     in sem_rc S opc val s)"

definition ppc_sem_subfcx :: "('s, 'z) alu_sem_scheme \<Rightarrow> uint32 \<Rightarrow> 's \<Rightarrow> 's" where
  "ppc_sem_subfcx S opc s =
    (let (rD, rA, rB) = PPC_OPC_TEMPL_XO opc;
         (a, s) = s_read_gpr S rA s;
         (b, s) = s_read_gpr S rB s;
         na = s_not S a;
         val = s_add S (s_add S na b) (s_imm S 1);
         s = s_write_gpr S rD val s;
         s = s_write_xer_ca S (s_carry_3 S (NOT a) b 1) s
     in sem_rc S opc val s)"

definition ppc_sem_subfex :: "('s, 'z) alu_sem_scheme \<Rightarrow> uint32 \<Rightarrow> 's \<Rightarrow> 's" where
  "ppc_sem_subfex S opc s =
    (let (rD, rA, rB) = PPC_OPC_TEMPL_XO opc;
         (a, s) = s_read_gpr S rA s;
         (b, s) = s_read_gpr S rB s;
         (ca, s) = s_read_xer_ca S s;
         na = s_not S a;
         val = s_add S (s_add S na b) (s_imm S ca);
         s = s_write_gpr S rD val s;
         s = s_write_xer_ca S (s_carry_3 S (NOT a) b ca) s
     in sem_rc S opc val s)"

definition ppc_sem_subfic :: "('s, 'z) alu_sem_scheme \<Rightarrow> uint32 \<Rightarrow> 's \<Rightarrow> 's" where
  "ppc_sem_subfic S opc s =
    (let (rD, rA, imm) = PPC_OPC_TEMPL_D_SImm opc;
         (a, s) = s_read_gpr S rA s;
         val = s_add S (s_add S (s_not S a) (s_imm S imm)) (s_imm S 1);
         s = s_write_gpr S rD val s
     in s_write_xer_ca S (s_carry_3 S (NOT a) imm 1) s)"

definition ppc_sem_subfmex :: "('s, 'z) alu_sem_scheme \<Rightarrow> uint32 \<Rightarrow> 's \<Rightarrow> 's" where
  "ppc_sem_subfmex S opc s =
    (let (rD, rA, rB) = PPC_OPC_TEMPL_XO opc;
         (a, s) = s_read_gpr S rA s;
         (ca, s) = s_read_xer_ca S s;
         na = s_not S a;
         val = s_add S (s_add S na (s_imm S ca)) (s_imm S 0xffffffff);
         s = s_write_gpr S rD val s;
         s = s_write_xer_ca S (a \<noteq> 0xffffffff \<or> istrue ca) s
     in sem_rc S opc val s)"

definition ppc_sem_subfzex :: "('s, 'z) alu_sem_scheme \<Rightarrow> uint32 \<Rightarrow> 's \<Rightarrow> 's" where
  "ppc_sem_subfzex S opc s =
    (let (rD, rA, rB) = PPC_OPC_TEMPL_XO opc;
         (a, s) = s_read_gpr S rA s;
         (ca, s) = s_read_xer_ca S s;
         na = s_not S a;
         val = s_add S na (s_imm S ca);
         s = s_write_gpr S rD val s;
         s = s_write_xer_ca S (a = 0 \<and> istrue ca) s
     in sem_rc S opc val s)"

subsection \<open>Negate and multiply instructions\<close>

definition ppc_sem_negx :: "('s, 'z) alu_sem_scheme \<Rightarrow> uint32 \<Rightarrow> 's \<Rightarrow> 's" where
  "ppc_sem_negx S opc s =
    (let (rD, rA, rB) = PPC_OPC_TEMPL_XO opc;
         (a, s) = s_read_gpr S rA s;
         val = s_neg S a;
         s = s_write_gpr S rD val s
     in sem_rc S opc val s)"

definition ppc_sem_mulli :: "('s, 'z) alu_sem_scheme \<Rightarrow> uint32 \<Rightarrow> 's \<Rightarrow> 's" where
  "ppc_sem_mulli S opc s =
    (let (rD, rA, imm) = PPC_OPC_TEMPL_D_SImm opc;
         (a, s) = s_read_gpr S rA s;
         val = s_mul S a (s_imm S imm)
     in s_write_gpr S rD val s)"

definition ppc_sem_mullwx :: "('s, 'z) alu_sem_scheme \<Rightarrow> uint32 \<Rightarrow> 's \<Rightarrow> 's" where
  "ppc_sem_mullwx S opc s =
    (let (rD, rA, rB) = PPC_OPC_TEMPL_XO opc;
         (a, s) = s_read_gpr S rA s;
         (b, s) = s_read_gpr S rB s;
         val = s_mul S a b;
         s = s_write_gpr S rD val s
     in sem_rc S opc val s)"

definition ppc_sem_mulhwx :: "('s, 'z) alu_sem_scheme \<Rightarrow> uint32 \<Rightarrow> 's \<Rightarrow> 's" where
  "ppc_sem_mulhwx S opc s =
    (let (rD, rA, rB) = PPC_OPC_TEMPL_XO opc;
         (a, s) = s_read_gpr S rA s;
         (b, s) = s_read_gpr S rB s;
         val = s_mulhs S a b;
         s = s_write_gpr S rD val s
     in sem_rc S opc val s)"

definition ppc_sem_mulhwux :: "('s, 'z) alu_sem_scheme \<Rightarrow> uint32 \<Rightarrow> 's \<Rightarrow> 's" where
  "ppc_sem_mulhwux S opc s =
    (let (rD, rA, rB) = PPC_OPC_TEMPL_XO opc;
         (a, s) = s_read_gpr S rA s;
         (b, s) = s_read_gpr S rB s;
         val = s_mulhu S a b;
         s = s_write_gpr S rD val s
     in sem_rc S opc val s)"

subsection \<open>Divide instructions\<close>

text \<open>Where the host's division is undefined the template has no result.\<close>

definition ppc_sem_divwx :: "('s, 'z) alu_sem_scheme \<Rightarrow> uint32 \<Rightarrow> 's \<Rightarrow> host_trap + 's" where
  "ppc_sem_divwx S opc s =
    (let (rD, rA, rB) = PPC_OPC_TEMPL_XO opc;
         (a, s) = s_read_gpr S rA s;
         (b, s) = s_read_gpr S rB s
     in case s_div_s S a b of
          Inl t \<Rightarrow> Inl t
        | Inr val \<Rightarrow> Inr (sem_rc S opc val (s_write_gpr S rD val s)))"

definition ppc_sem_divwux :: "('s, 'z) alu_sem_scheme \<Rightarrow> uint32 \<Rightarrow> 's \<Rightarrow> host_trap + 's" where
  "ppc_sem_divwux S opc s =
    (let (rD, rA, rB) = PPC_OPC_TEMPL_XO opc;
         (a, s) = s_read_gpr S rA s;
         (b, s) = s_read_gpr S rB s
     in case s_div_u S a b of
          Inl t \<Rightarrow> Inl t
        | Inr val \<Rightarrow> Inr (sem_rc S opc val (s_write_gpr S rD val s)))"

subsection \<open>Shift instructions\<close>

definition ppc_sem_slwx :: "('s, 'z) alu_sem_scheme \<Rightarrow> uint32 \<Rightarrow> 's \<Rightarrow> 's" where
  "ppc_sem_slwx S opc s =
    (let (rS, rA, rB) = PPC_OPC_TEMPL_X opc;
         (v, s) = s_read_gpr S rS s;
         (b, s) = s_read_gpr S rB s;
         val = s_shl S v b;
         s = s_write_gpr S rA val s
     in sem_rc S opc val s)"

definition ppc_sem_srwx :: "('s, 'z) alu_sem_scheme \<Rightarrow> uint32 \<Rightarrow> 's \<Rightarrow> 's" where
  "ppc_sem_srwx S opc s =
    (let (rS, rA, rB) = PPC_OPC_TEMPL_X opc;
         (v, s) = s_read_gpr S rS s;
         (b, s) = s_read_gpr S rB s;
         val = s_shr S v b;
         s = s_write_gpr S rA val s
     in sem_rc S opc val s)"

definition ppc_sem_srawx :: "('s, 'z) alu_sem_scheme \<Rightarrow> uint32 \<Rightarrow> 's \<Rightarrow> 's" where
  "ppc_sem_srawx S opc s =
    (let (rS, rA, rB) = PPC_OPC_TEMPL_X opc;
         (v, s) = s_read_gpr S rS s;
         (b, s) = s_read_gpr S rB s;
         ((val, carry), s) = s_sraw S v b s;
         s = s_write_gpr S rA val s;
         s = s_write_xer_ca S (carry) s
     in sem_rc S opc val s)"

definition ppc_sem_srawix :: "('s, 'z) alu_sem_scheme \<Rightarrow> uint32 \<Rightarrow> 's \<Rightarrow> 's" where
  "ppc_sem_srawix S opc s =
    (let (rS, rA, SH) = PPC_OPC_TEMPL_X opc;
         (v, s) = s_read_gpr S rS s;
         ((val, carry), s) = s_sraw S v (s_imm S (of_nat SH)) s;
         s = s_write_gpr S rA val s;
         s = s_write_xer_ca S (carry) s
     in sem_rc S opc val s)"

subsection \<open>Rotate and mask instructions\<close>

definition ppc_sem_rlwinmx :: "('s, 'z) alu_sem_scheme \<Rightarrow> uint32 \<Rightarrow> 's \<Rightarrow> 's" where
  "ppc_sem_rlwinmx S opc s =
    (let (rS, rA, SH, MB, ME) = PPC_OPC_TEMPL_M opc;
         (v, s) = s_read_gpr S rS s;
         r = s_rotl S v (of_nat SH);
         m = s_mask S MB ME;
         val = s_and S r (s_imm S m);
         s = s_write_gpr S rA val s
     in sem_rc S opc val s)"

definition ppc_sem_rlwnmx :: "('s, 'z) alu_sem_scheme \<Rightarrow> uint32 \<Rightarrow> 's \<Rightarrow> 's" where
  "ppc_sem_rlwnmx S opc s =
    (let (rS, rA, rB, MB, ME) = PPC_OPC_TEMPL_M opc;
         (v, s) = s_read_gpr S rS s;
         (b, s) = s_read_gpr S rB s;
         r = s_rotl S v b;
         m = s_mask S MB ME;
         val = s_and S r (s_imm S m);
         s = s_write_gpr S rA val s
     in sem_rc S opc val s)"

definition ppc_sem_rlwimix :: "('s, 'z) alu_sem_scheme \<Rightarrow> uint32 \<Rightarrow> 's \<Rightarrow> 's" where
  "ppc_sem_rlwimix S opc s =
    (let (rS, rA, SH, MB, ME) = PPC_OPC_TEMPL_M opc;
         (v, s) = s_read_gpr S rS s;
         r = s_rotl S v (of_nat SH);
         m = s_mask S MB ME;
         (a, s) = s_read_gpr S rA s;
         val = s_or S (s_and S r (s_imm S m)) (s_and S a (s_imm S (NOT m)));
         s = s_write_gpr S rA val s
     in sem_rc S opc val s)"

subsection \<open>Sign extension, count leading zeros\<close>

definition ppc_sem_extsbx :: "('s, 'z) alu_sem_scheme \<Rightarrow> uint32 \<Rightarrow> 's \<Rightarrow> 's" where
  "ppc_sem_extsbx S opc s =
    (let (rS, rA, rB) = PPC_OPC_TEMPL_X opc;
         (v, s) = s_read_gpr S rS s;
         val = s_extend_sign_byte S v;
         s = s_write_gpr S rA val s
     in sem_rc S opc val s)"

definition ppc_sem_extshx :: "('s, 'z) alu_sem_scheme \<Rightarrow> uint32 \<Rightarrow> 's \<Rightarrow> 's" where
  "ppc_sem_extshx S opc s =
    (let (rS, rA, rB) = PPC_OPC_TEMPL_X opc;
         (v, s) = s_read_gpr S rS s;
         val = s_extend_sign_half S v;
         s = s_write_gpr S rA val s
     in sem_rc S opc val s)"

definition ppc_sem_cntlzwx :: "('s, 'z) alu_sem_scheme \<Rightarrow> uint32 \<Rightarrow> 's \<Rightarrow> 's" where
  "ppc_sem_cntlzwx S opc s =
    (let (rS, rA, rB) = PPC_OPC_TEMPL_X opc;
         (v, s) = s_read_gpr S rS s;
         val = s_cntlzw S v;
         s = s_write_gpr S rA val s
     in sem_rc S opc val s)"

subsection \<open>Condition register logical instructions\<close>

definition ppc_sem_crand :: "('s, 'z) alu_sem_scheme \<Rightarrow> uint32 \<Rightarrow> 's \<Rightarrow> 's" where
  "ppc_sem_crand S opc s =
    (let (crD, crA, crB) = PPC_OPC_TEMPL_X opc;
         (a, s) = s_get_cr_bit S crA s;
         (b, s) = s_get_cr_bit S crB s
     in s_write_cr_bit S crD (a \<and> b) s)"

definition ppc_sem_crandc :: "('s, 'z) alu_sem_scheme \<Rightarrow> uint32 \<Rightarrow> 's \<Rightarrow> 's" where
  "ppc_sem_crandc S opc s =
    (let (crD, crA, crB) = PPC_OPC_TEMPL_X opc;
         (a, s) = s_get_cr_bit S crA s;
         (b, s) = s_get_cr_bit S crB s
     in s_write_cr_bit S crD (a \<and> \<not> b) s)"

definition ppc_sem_creqv :: "('s, 'z) alu_sem_scheme \<Rightarrow> uint32 \<Rightarrow> 's \<Rightarrow> 's" where
  "ppc_sem_creqv S opc s =
    (let (crD, crA, crB) = PPC_OPC_TEMPL_X opc;
         (a, s) = s_get_cr_bit S crA s;
         (b, s) = s_get_cr_bit S crB s
     in s_write_cr_bit S crD (a = b) s)"

definition ppc_sem_crnand :: "('s, 'z) alu_sem_scheme \<Rightarrow> uint32 \<Rightarrow> 's \<Rightarrow> 's" where
  "ppc_sem_crnand S opc s =
    (let (crD, crA, crB) = PPC_OPC_TEMPL_X opc;
         (a, s) = s_get_cr_bit S crA s;
         (b, s) = s_get_cr_bit S crB s
     in s_write_cr_bit S crD (\<not> (a \<and> b)) s)"

definition ppc_sem_crnor :: "('s, 'z) alu_sem_scheme \<Rightarrow> uint32 \<Rightarrow> 's \<Rightarrow> 's" where
  "ppc_sem_crnor S opc s =
    (let (crD, crA, crB) = PPC_OPC_TEMPL_X opc;
         (a, s) = s_get_cr_bit S crA s;
         (b, s) = s_get_cr_bit S crB s
     in s_write_cr_bit S crD (\<not> (a \<or> b)) s)"

definition ppc_sem_cror :: "('s, 'z) alu_sem_scheme \<Rightarrow> uint32 \<Rightarrow> 's \<Rightarrow> 's" where
  "ppc_sem_cror S opc s =
    (let (crD, crA, crB) = PPC_OPC_TEMPL_X opc;
         (a, s) = s_get_cr_bit S crA s;
         (b, s) = s_get_cr_bit S crB s
     in s_write_cr_bit S crD (a \<or> b) s)"

definition ppc_sem_crorc :: "('s, 'z) alu_sem_scheme \<Rightarrow> uint32 \<Rightarrow> 's \<Rightarrow> 's" where
  "ppc_sem_crorc S opc s =
    (let (crD, crA, crB) = PPC_OPC_TEMPL_X opc;
         (a, s) = s_get_cr_bit S crA s;
         (b, s) = s_get_cr_bit S crB s
     in s_write_cr_bit S crD (a \<or> \<not> b) s)"

definition ppc_sem_crxor :: "('s, 'z) alu_sem_scheme \<Rightarrow> uint32 \<Rightarrow> 's \<Rightarrow> 's" where
  "ppc_sem_crxor S opc s =
    (let (crD, crA, crB) = PPC_OPC_TEMPL_X opc;
         (a, s) = s_get_cr_bit S crA s;
         (b, s) = s_get_cr_bit S crB s
     in s_write_cr_bit S crD (a \<noteq> b) s)"

lemmas sem_alu_defs = ppc_sem_addx_def
  ppc_sem_addcx_def
  ppc_sem_addex_def
  ppc_sem_addi_def
  ppc_sem_addic_def
  ppc_sem_addic_rc_def
  ppc_sem_addis_def
  ppc_sem_addmex_def
  ppc_sem_addzex_def
  ppc_sem_andx_def
  ppc_sem_andcx_def
  ppc_sem_andi_rc_def
  ppc_sem_andis_rc_def
  ppc_sem_orx_def
  ppc_sem_orcx_def
  ppc_sem_ori_def
  ppc_sem_oris_def
  ppc_sem_xorx_def
  ppc_sem_xori_def
  ppc_sem_xoris_def
  ppc_sem_nandx_def
  ppc_sem_norx_def
  ppc_sem_eqvx_def
  ppc_sem_cmp_def
  ppc_sem_cmpi_def
  ppc_sem_cmpl_def
  ppc_sem_cmpli_def
  ppc_sem_subfx_def
  ppc_sem_subfcx_def
  ppc_sem_subfex_def
  ppc_sem_subfic_def
  ppc_sem_subfmex_def
  ppc_sem_subfzex_def
  ppc_sem_negx_def
  ppc_sem_mulli_def
  ppc_sem_mullwx_def
  ppc_sem_mulhwx_def
  ppc_sem_mulhwux_def
  ppc_sem_divwx_def
  ppc_sem_divwux_def
  ppc_sem_slwx_def
  ppc_sem_srwx_def
  ppc_sem_srawx_def
  ppc_sem_srawix_def
  ppc_sem_rlwinmx_def
  ppc_sem_rlwnmx_def
  ppc_sem_rlwimix_def
  ppc_sem_extsbx_def
  ppc_sem_extshx_def
  ppc_sem_cntlzwx_def
  ppc_sem_crand_def
  ppc_sem_crandc_def
  ppc_sem_creqv_def
  ppc_sem_crnand_def
  ppc_sem_crnor_def
  ppc_sem_cror_def
  ppc_sem_crorc_def
  ppc_sem_crxor_def

end
