(* ===== verification/Ppc_Sem_Mem.thy ===== *)
theory Ppc_Sem_Mem
  imports Ppc_Sem
begin

text \<open>
  src/cpu/ppc_semantics_mem.h and src/cpu/ppc_semantics_fpu.h: the load and store templates and
  the floating point templates.  Only \<open>LivenessSemantics\<close> provides \<open>read_mem\<close>; the interpreter's
  own loads and stores are modelled in Ppc_Mmu_Opc.
\<close>

unbundle bit_operations_syntax

subsection \<open>Load word\<close>

definition ppc_sem_lwz :: "('s, 'z) sem_scheme \<Rightarrow> uint32 \<Rightarrow> 's \<Rightarrow> 's" where
  "ppc_sem_lwz S opc s =
    (let (rD, rA, imm) = PPC_OPC_TEMPL_D_SImm opc;
         (addr, s) = sem_base S rA s;
         addr = s_add S addr (s_imm S imm);
         (val, s) = s_read_mem S addr 4 s
     in s_write_gpr S rD val s)"

definition ppc_sem_lwzu :: "('s, 'z) sem_scheme \<Rightarrow> uint32 \<Rightarrow> 's \<Rightarrow> 's" where
  "ppc_sem_lwzu S opc s =
    (let (rD, rA, imm) = PPC_OPC_TEMPL_D_SImm opc;
         (a, s) = s_read_gpr S rA s;
         addr = s_add S a (s_imm S imm);
         (val, s) = s_read_mem S addr 4 s;
         s = s_write_gpr S rD val s
     in s_write_gpr S rA addr s)"

definition ppc_sem_lwzx :: "('s, 'z) sem_scheme \<Rightarrow> uint32 \<Rightarrow> 's \<Rightarrow> 's" where
  "ppc_sem_lwzx S opc s =
    (let (rD, rA, rB) = PPC_OPC_TEMPL_X opc;
         (addr, s) = sem_base S rA s;
         (b, s) = s_read_gpr S rB s;
         addr = s_add S addr b;
         (val, s) = s_read_mem S addr 4 s
     in s_write_gpr S rD val s)"

definition ppc_sem_lwzux :: "('s, 'z) sem_scheme \<Rightarrow> uint32 \<Rightarrow> 's \<Rightarrow> 's" where
  "ppc_sem_lwzux S opc s =
    (let (rD, rA, rB) = PPC_OPC_TEMPL_X opc;
         (a, s) = s_read_gpr S rA s;
         (b, s) = s_read_gpr S rB s;
         addr = s_add S a b;
         (val, s) = s_read_mem S addr 4 s;
         s = s_write_gpr S rD val s
     in s_write_gpr S rA addr s)"

subsection \<open>Load half word\<close>

definition ppc_sem_lhz :: "('s, 'z) sem_scheme \<Rightarrow> uint32 \<Rightarrow> 's \<Rightarrow> 's" where
  "ppc_sem_lhz S opc s =
    (let (rD, rA, imm) = PPC_OPC_TEMPL_D_SImm opc;
         (addr, s) = sem_base S rA s;
         addr = s_add S addr (s_imm S imm);
         (val, s) = s_read_mem S addr 2 s
     in s_write_gpr S rD val s)"

definition ppc_sem_lhzu :: "('s, 'z) sem_scheme \<Rightarrow> uint32 \<Rightarrow> 's \<Rightarrow> 's" where
  "ppc_sem_lhzu S opc s =
    (let (rD, rA, imm) = PPC_OPC_TEMPL_D_SImm opc;
         (a, s) = s_read_gpr S rA s;
         addr = s_add S a (s_imm S imm);
         (val, s) = s_read_mem S addr 2 s;
         s = s_write_gpr S rD val s
     in s_write_gpr S rA addr s)"

definition ppc_sem_lha :: "('s, 'z) sem_scheme \<Rightarrow> uint32 \<Rightarrow> 's \<Rightarrow> 's" where
  "ppc_sem_lha S opc s =
    (let (rD, rA, imm) = PPC_OPC_TEMPL_D_SImm opc;
         (addr, s) = sem_base S rA s;
         addr = s_add S addr (s_imm S imm);
         (val, s) = s_read_mem_sign_extend S addr 2 s
     in s_write_gpr S rD val s)"

definition ppc_sem_lhau :: "('s, 'z) sem_scheme \<Rightarrow> uint32 \<Rightarrow> 's \<Rightarrow> 's" where
  "ppc_sem_lhau S opc s =
    (let (rD, rA, imm) = PPC_OPC_TEMPL_D_SImm opc;
         (a, s) = s_read_gpr S rA s;
         addr = s_add S a (s_imm S imm);
         (val, s) = s_read_mem_sign_extend S addr 2 s;
         s = s_write_gpr S rD val s
     in s_write_gpr S rA addr s)"

subsection \<open>Load byte\<close>

definition ppc_sem_lbz :: "('s, 'z) sem_scheme \<Rightarrow> uint32 \<Rightarrow> 's \<Rightarrow> 's" where
  "ppc_sem_lbz S opc s =
    (let (rD, rA, imm) = PPC_OPC_TEMPL_D_SImm opc;
         (addr, s) = sem_base S rA s;
         addr = s_add S addr (s_imm S imm);
         (val, s) = s_read_mem S addr 1 s
     in s_write_gpr S rD val s)"

definition ppc_sem_lbzu :: "('s, 'z) sem_scheme \<Rightarrow> uint32 \<Rightarrow> 's \<Rightarrow> 's" where
  "ppc_sem_lbzu S opc s =
    (let (rD, rA, imm) = PPC_OPC_TEMPL_D_SImm opc;
         (a, s) = s_read_gpr S rA s;
         addr = s_add S a (s_imm S imm);
         (val, s) = s_read_mem S addr 1 s;
         s = s_write_gpr S rD val s
     in s_write_gpr S rA addr s)"

subsection \<open>Store word, half word, byte\<close>

definition ppc_sem_stw :: "('s, 'z) sem_scheme \<Rightarrow> uint32 \<Rightarrow> 's \<Rightarrow> 's" where
  "ppc_sem_stw S opc s =
    (let (rS, rA, imm) = PPC_OPC_TEMPL_D_SImm opc;
         (addr, s) = sem_base S rA s;
         addr = s_add S addr (s_imm S imm);
         (v, s) = s_read_gpr S rS s
     in s_write_mem S addr v 4 s)"

definition ppc_sem_stwu :: "('s, 'z) sem_scheme \<Rightarrow> uint32 \<Rightarrow> 's \<Rightarrow> 's" where
  "ppc_sem_stwu S opc s =
    (let (rS, rA, imm) = PPC_OPC_TEMPL_D_SImm opc;
         (a, s) = s_read_gpr S rA s;
         addr = s_add S a (s_imm S imm);
         (v, s) = s_read_gpr S rS s;
         s = s_write_mem S addr v 4 s
     in s_write_gpr S rA addr s)"

definition ppc_sem_stwx :: "('s, 'z) sem_scheme \<Rightarrow> uint32 \<Rightarrow> 's \<Rightarrow> 's" where
  "ppc_sem_stwx S opc s =
    (let (rS, rA, rB) = PPC_OPC_TEMPL_X opc;
         (addr, s) = sem_base S rA s;
         (b, s) = s_read_gpr S rB s;
         addr = s_add S addr b;
         (v, s) = s_read_gpr S rS s
     in s_write_mem S addr v 4 s)"

definition ppc_sem_stwux :: "('s, 'z) sem_scheme \<Rightarrow> uint32 \<Rightarrow> 's \<Rightarrow> 's" where
  "ppc_sem_stwux S opc s =
    (let (rS, rA, rB) = PPC_OPC_TEMPL_X opc;
         (a, s) = s_read_gpr S rA s;
         (b, s) = s_read_gpr S rB s;
         addr = s_add S a b;
         (v, s) = s_read_gpr S rS s;
         s = s_write_mem S addr v 4 s
     in s_write_gpr S rA addr s)"

definition ppc_sem_sth :: "('s, 'z) sem_scheme \<Rightarrow> uint32 \<Rightarrow> 's \<Rightarrow> 's" where
  "ppc_sem_sth S opc s =
    (let (rS, rA, imm) = PPC_OPC_TEMPL_D_SImm opc;
         (addr, s) = sem_base S rA s;
         addr = s_add S addr (s_imm S imm);
         (v, s) = s_read_gpr S rS s
     in s_write_mem S addr v 2 s)"

definition ppc_sem_sthu :: "('s, 'z) sem_scheme \<Rightarrow> uint32 \<Rightarrow> 's \<Rightarrow> 's" where
  "ppc_sem_sthu S opc s =
    (let (rS, rA, imm) = PPC_OPC_TEMPL_D_SImm opc;
         (a, s) = s_read_gpr S rA s;
         addr = s_add S a (s_imm S imm);
         (v, s) = s_read_gpr S rS s;
         s = s_write_mem S addr v 2 s
     in s_write_gpr S rA addr s)"

definition ppc_sem_stb :: "('s, 'z) sem_scheme \<Rightarrow> uint32 \<Rightarrow> 's \<Rightarrow> 's" where
  "ppc_sem_stb S opc s =
    (let (rS, rA, imm) = PPC_OPC_TEMPL_D_SImm opc;
         (addr, s) = sem_base S rA s;
         addr = s_add S addr (s_imm S imm);
         (v, s) = s_read_gpr S rS s
     in s_write_mem S addr v 1 s)"

definition ppc_sem_stbu :: "('s, 'z) sem_scheme \<Rightarrow> uint32 \<Rightarrow> 's \<Rightarrow> 's" where
  "ppc_sem_stbu S opc s =
    (let (rS, rA, imm) = PPC_OPC_TEMPL_D_SImm opc;
         (a, s) = s_read_gpr S rA s;
         addr = s_add S a (s_imm S imm);
         (v, s) = s_read_gpr S rS s;
         s = s_write_mem S addr v 1 s
     in s_write_gpr S rA addr s)"

subsection \<open>Indexed loads and stores\<close>

definition ppc_sem_lbzx :: "('s, 'z) sem_scheme \<Rightarrow> uint32 \<Rightarrow> 's \<Rightarrow> 's" where
  "ppc_sem_lbzx S opc s =
    (let (rD, rA, rB) = PPC_OPC_TEMPL_X opc;
         (addr, s) = sem_base S rA s;
         (b, s) = s_read_gpr S rB s;
         addr = s_add S addr b;
         (val, s) = s_read_mem S addr 1 s
     in s_write_gpr S rD val s)"

definition ppc_sem_lbzux :: "('s, 'z) sem_scheme \<Rightarrow> uint32 \<Rightarrow> 's \<Rightarrow> 's" where
  "ppc_sem_lbzux S opc s =
    (let (rD, rA, rB) = PPC_OPC_TEMPL_X opc;
         (a, s) = s_read_gpr S rA s;
         (b, s) = s_read_gpr S rB s;
         addr = s_add S a b;
         (val, s) = s_read_mem S addr 1 s;
         s = s_write_gpr S rD val s
     in s_write_gpr S rA addr s)"

definition ppc_sem_lhzx :: "('s, 'z) sem_scheme \<Rightarrow> uint32 \<Rightarrow> 's \<Rightarrow> 's" where
  "ppc_sem_lhzx S opc s =
    (let (rD, rA, rB) = PPC_OPC_TEMPL_X opc;
         (addr, s) = sem_base S rA s;
         (b, s) = s_read_gpr S rB s;
         addr = s_add S addr b;
         (val, s) = s_read_mem S addr 2 s
     in s_write_gpr S rD val s)"

definition ppc_sem_lhzux :: "('s, 'z) sem_scheme \<Rightarrow> uint32 \<Rightarrow> 's \<Rightarrow> 's" where
  "ppc_sem_lhzux S opc s =
    (let (rD, rA, rB) = PPC_OPC_TEMPL_X opc;
         (a, s) = s_read_gpr S rA s;
         (b, s) = s_read_gpr S rB s;
         addr = s_add S a b;
         (val, s) = s_read_mem S addr 2 s;
         s = s_write_gpr S rD val s
     in s_write_gpr S rA addr s)"

definition ppc_sem_lhax :: "('s, 'z) sem_scheme \<Rightarrow> uint32 \<Rightarrow> 's \<Rightarrow> 's" where
  "ppc_sem_lhax S opc s =
    (let (rD, rA, rB) = PPC_OPC_TEMPL_X opc;
         (addr, s) = sem_base S rA s;
         (b, s) = s_read_gpr S rB s;
         addr = s_add S addr b;
         (val, s) = s_read_mem_sign_extend S addr 2 s
     in s_write_gpr S rD val s)"

definition ppc_sem_lhaux :: "('s, 'z) sem_scheme \<Rightarrow> uint32 \<Rightarrow> 's \<Rightarrow> 's" where
  "ppc_sem_lhaux S opc s =
    (let (rD, rA, rB) = PPC_OPC_TEMPL_X opc;
         (a, s) = s_read_gpr S rA s;
         (b, s) = s_read_gpr S rB s;
         addr = s_add S a b;
         (val, s) = s_read_mem_sign_extend S addr 2 s;
         s = s_write_gpr S rD val s
     in s_write_gpr S rA addr s)"

definition ppc_sem_stbx :: "('s, 'z) sem_scheme \<Rightarrow> uint32 \<Rightarrow> 's \<Rightarrow> 's" where
  "ppc_sem_stbx S opc s =
    (let (rS, rA, rB) = PPC_OPC_TEMPL_X opc;
         (addr, s) = sem_base S rA s;
         (b, s) = s_read_gpr S rB s;
         addr = s_add S addr b;
         (v, s) = s_read_gpr S rS s
     in s_write_mem S addr v 1 s)"

definition ppc_sem_stbux :: "('s, 'z) sem_scheme \<Rightarrow> uint32 \<Rightarrow> 's \<Rightarrow> 's" where
  "ppc_sem_stbux S opc s =
    (let (rS, rA, rB) = PPC_OPC_TEMPL_X opc;
         (a, s) = s_read_gpr S rA s;
         (b, s) = s_read_gpr S rB s;
         addr = s_add S a b;
         (v, s) = s_read_gpr S rS s;
         s = s_write_mem S addr v 1 s
     in s_write_gpr S rA addr s)"

definition ppc_sem_sthx :: "('s, 'z) sem_scheme \<Rightarrow> uint32 \<Rightarrow> 's \<Rightarrow> 's" where
  "ppc_sem_sthx S opc s =
    (let (rS, rA, rB) = PPC_OPC_TEMPL_X opc;
         (addr, s) = sem_base S rA s;
         (b, s) = s_read_gpr S rB s;
         addr = s_add S addr b;
         (v, s) = s_read_gpr S rS s
     in s_write_mem S addr v 2 s)"

definition ppc_sem_sthux :: "('s, 'z) sem_scheme \<Rightarrow> uint32 \<Rightarrow> 's \<Rightarrow> 's" where
  "ppc_sem_sthux S opc s =
    (let (rS, rA, rB) = PPC_OPC_TEMPL_X opc;
         (a, s) = s_read_gpr S rA s;
         (b, s) = s_read_gpr S rB s;
         addr = s_add S a b;
         (v, s) = s_read_gpr S rS s;
         s = s_write_mem S addr v 2 s
     in s_write_gpr S rA addr s)"

subsection \<open>Load and store multiple word\<close>

text \<open>The loops \<open>for (int r = rD; r <= 31; r++)\<close>; the first argument counts the registers left.\<close>

fun sem_lmw_loop :: "('s, 'z) sem_scheme \<Rightarrow> nat \<Rightarrow> nat \<Rightarrow> uint32 \<Rightarrow> 's \<Rightarrow> 's" where
  "sem_lmw_loop S 0 r addr s = s"
| "sem_lmw_loop S (Suc n) r addr s =
     (let (v, s) = s_read_mem S addr 4 s;
          s = s_write_gpr S r v s
      in sem_lmw_loop S n (r + 1) (s_add S addr (s_imm S 4)) s)"

fun sem_stmw_loop :: "('s, 'z) sem_scheme \<Rightarrow> nat \<Rightarrow> nat \<Rightarrow> uint32 \<Rightarrow> 's \<Rightarrow> 's" where
  "sem_stmw_loop S 0 r addr s = s"
| "sem_stmw_loop S (Suc n) r addr s =
     (let (v, s) = s_read_gpr S r s;
          s = s_write_mem S addr v 4 s
      in sem_stmw_loop S n (r + 1) (s_add S addr (s_imm S 4)) s)"

definition ppc_sem_lmw :: "('s, 'z) sem_scheme \<Rightarrow> uint32 \<Rightarrow> 's \<Rightarrow> 's" where
  "ppc_sem_lmw S opc s =
    (let (rD, rA, imm) = PPC_OPC_TEMPL_D_SImm opc;
         (addr, s) = sem_base S rA s;
         addr = s_add S addr (s_imm S imm)
     in sem_lmw_loop S (32 - rD) rD addr s)"

definition ppc_sem_stmw :: "('s, 'z) sem_scheme \<Rightarrow> uint32 \<Rightarrow> 's \<Rightarrow> 's" where
  "ppc_sem_stmw S opc s =
    (let (rS, rA, imm) = PPC_OPC_TEMPL_D_SImm opc;
         (addr, s) = sem_base S rA s;
         addr = s_add S addr (s_imm S imm)
     in sem_stmw_loop S (32 - rS) rS addr s)"

lemmas sem_mem_defs = ppc_sem_lwz_def
  ppc_sem_lwzu_def
  ppc_sem_lwzx_def
  ppc_sem_lwzux_def
  ppc_sem_lhz_def
  ppc_sem_lhzu_def
  ppc_sem_lha_def
  ppc_sem_lhau_def
  ppc_sem_lbz_def
  ppc_sem_lbzu_def
  ppc_sem_stw_def
  ppc_sem_stwu_def
  ppc_sem_stwx_def
  ppc_sem_stwux_def
  ppc_sem_sth_def
  ppc_sem_sthu_def
  ppc_sem_stb_def
  ppc_sem_stbu_def
  ppc_sem_lbzx_def
  ppc_sem_lbzux_def
  ppc_sem_lhzx_def
  ppc_sem_lhzux_def
  ppc_sem_lhax_def
  ppc_sem_lhaux_def
  ppc_sem_stbx_def
  ppc_sem_stbux_def
  ppc_sem_sthx_def
  ppc_sem_sthux_def
  ppc_sem_lmw_def
  ppc_sem_stmw_def

subsection \<open>Floating point compare and arithmetic\<close>

definition ppc_sem_fcmpx :: "('s, 'z) sem_scheme \<Rightarrow> uint32 \<Rightarrow> 's \<Rightarrow> 's" where
  "ppc_sem_fcmpx S opc s =
    (let (crfD, frA, frB) = PPC_OPC_TEMPL_X opc;
         (_, s) = s_read_fpr S frA s;
         (_, s) = s_read_fpr S frB s
     in s_write_cr_field_signed S (crfD div 4) (s_imm S 0) (s_imm S 0) s)"

definition ppc_sem_fpu_arith :: "('s, 'z) sem_scheme \<Rightarrow> uint32 \<Rightarrow> 's \<Rightarrow> 's" where
  "ppc_sem_fpu_arith S opc s =
     (if istrue (opc AND PPC_OPC_Rc)
      then s_write_cr_masked S (s_imm S 0) (cr_field_mask 1) s else s)"

subsection \<open>Floating point loads and stores\<close>

definition ppc_sem_lfs :: "('s, 'z) sem_scheme \<Rightarrow> uint32 \<Rightarrow> 's \<Rightarrow> 's" where
  "ppc_sem_lfs S opc s =
    (let (frD, rA, imm) = PPC_OPC_TEMPL_D_SImm opc;
         (addr, s) = sem_base S rA s;
         addr = s_add S addr (s_imm S imm);
         (val, s) = s_read_mem S addr 4 s
     in s_write_fpr S frD val s)"

definition ppc_sem_lfsu :: "('s, 'z) sem_scheme \<Rightarrow> uint32 \<Rightarrow> 's \<Rightarrow> 's" where
  "ppc_sem_lfsu S opc s =
    (let (frD, rA, imm) = PPC_OPC_TEMPL_D_SImm opc;
         (a, s) = s_read_gpr S rA s;
         addr = s_add S a (s_imm S imm);
         (val, s) = s_read_mem S addr 4 s;
         s = s_write_fpr S frD val s
     in s_write_gpr S rA addr s)"

definition ppc_sem_lfd :: "('s, 'z) sem_scheme \<Rightarrow> uint32 \<Rightarrow> 's \<Rightarrow> 's" where
  "ppc_sem_lfd S opc s =
    (let (frD, rA, imm) = PPC_OPC_TEMPL_D_SImm opc;
         (addr, s) = sem_base S rA s;
         addr = s_add S addr (s_imm S imm);
         (val, s) = s_read_mem S addr 8 s
     in s_write_fpr S frD val s)"

definition ppc_sem_lfdu :: "('s, 'z) sem_scheme \<Rightarrow> uint32 \<Rightarrow> 's \<Rightarrow> 's" where
  "ppc_sem_lfdu S opc s =
    (let (frD, rA, imm) = PPC_OPC_TEMPL_D_SImm opc;
         (a, s) = s_read_gpr S rA s;
         addr = s_add S a (s_imm S imm);
         (val, s) = s_read_mem S addr 8 s;
         s = s_write_fpr S frD val s
     in s_write_gpr S rA addr s)"

definition ppc_sem_stfs :: "('s, 'z) sem_scheme \<Rightarrow> uint32 \<Rightarrow> 's \<Rightarrow> 's" where
  "ppc_sem_stfs S opc s =
    (let (frS, rA, imm) = PPC_OPC_TEMPL_D_SImm opc;
         (addr, s) = sem_base S rA s;
         addr = s_add S addr (s_imm S imm);
         (_, s) = s_read_fpr S frS s
     in s_write_mem S addr (s_imm S 0) 4 s)"

definition ppc_sem_stfsu :: "('s, 'z) sem_scheme \<Rightarrow> uint32 \<Rightarrow> 's \<Rightarrow> 's" where
  "ppc_sem_stfsu S opc s =
    (let (frS, rA, imm) = PPC_OPC_TEMPL_D_SImm opc;
         (a, s) = s_read_gpr S rA s;
         addr = s_add S a (s_imm S imm);
         (_, s) = s_read_fpr S frS s;
         s = s_write_mem S addr (s_imm S 0) 4 s
     in s_write_gpr S rA addr s)"

definition ppc_sem_stfd :: "('s, 'z) sem_scheme \<Rightarrow> uint32 \<Rightarrow> 's \<Rightarrow> 's" where
  "ppc_sem_stfd S opc s =
    (let (frS, rA, imm) = PPC_OPC_TEMPL_D_SImm opc;
         (addr, s) = sem_base S rA s;
         addr = s_add S addr (s_imm S imm);
         (_, s) = s_read_fpr S frS s
     in s_write_mem S addr (s_imm S 0) 8 s)"

definition ppc_sem_stfdu :: "('s, 'z) sem_scheme \<Rightarrow> uint32 \<Rightarrow> 's \<Rightarrow> 's" where
  "ppc_sem_stfdu S opc s =
    (let (frS, rA, imm) = PPC_OPC_TEMPL_D_SImm opc;
         (a, s) = s_read_gpr S rA s;
         addr = s_add S a (s_imm S imm);
         (_, s) = s_read_fpr S frS s;
         s = s_write_mem S addr (s_imm S 0) 8 s
     in s_write_gpr S rA addr s)"

definition ppc_sem_lfsx :: "('s, 'z) sem_scheme \<Rightarrow> uint32 \<Rightarrow> 's \<Rightarrow> 's" where
  "ppc_sem_lfsx S opc s =
    (let (frD, rA, rB) = PPC_OPC_TEMPL_X opc;
         (addr, s) = sem_base S rA s;
         (b, s) = s_read_gpr S rB s;
         addr = s_add S addr b;
         (val, s) = s_read_mem S addr 4 s
     in s_write_fpr S frD val s)"

definition ppc_sem_lfsux :: "('s, 'z) sem_scheme \<Rightarrow> uint32 \<Rightarrow> 's \<Rightarrow> 's" where
  "ppc_sem_lfsux S opc s =
    (let (frD, rA, rB) = PPC_OPC_TEMPL_X opc;
         (a, s) = s_read_gpr S rA s;
         (b, s) = s_read_gpr S rB s;
         addr = s_add S a b;
         (val, s) = s_read_mem S addr 4 s;
         s = s_write_fpr S frD val s
     in s_write_gpr S rA addr s)"

definition ppc_sem_lfdx :: "('s, 'z) sem_scheme \<Rightarrow> uint32 \<Rightarrow> 's \<Rightarrow> 's" where
  "ppc_sem_lfdx S opc s =
    (let (frD, rA, rB) = PPC_OPC_TEMPL_X opc;
         (addr, s) = sem_base S rA s;
         (b, s) = s_read_gpr S rB s;
         addr = s_add S addr b;
         (val, s) = s_read_mem S addr 8 s
     in s_write_fpr S frD val s)"

definition ppc_sem_lfdux :: "('s, 'z) sem_scheme \<Rightarrow> uint32 \<Rightarrow> 's \<Rightarrow> 's" where
  "ppc_sem_lfdux S opc s =
    (let (frD, rA, rB) = PPC_OPC_TEMPL_X opc;
         (a, s) = s_read_gpr S rA s;
         (b, s) = s_read_gpr S rB s;
         addr = s_add S a b;
         (val, s) = s_read_mem S addr 8 s;
         s = s_write_fpr S frD val s
     in s_write_gpr S rA addr s)"

definition ppc_sem_stfsx :: "('s, 'z) sem_scheme \<Rightarrow> uint32 \<Rightarrow> 's \<Rightarrow> 's" where
  "ppc_sem_stfsx S opc s =
    (let (frS, rA, rB) = PPC_OPC_TEMPL_X opc;
         (addr, s) = sem_base S rA s;
         (b, s) = s_read_gpr S rB s;
         addr = s_add S addr b;
         (_, s) = s_read_fpr S frS s
     in s_write_mem S addr (s_imm S 0) 4 s)"

definition ppc_sem_stfsux :: "('s, 'z) sem_scheme \<Rightarrow> uint32 \<Rightarrow> 's \<Rightarrow> 's" where
  "ppc_sem_stfsux S opc s =
    (let (frS, rA, rB) = PPC_OPC_TEMPL_X opc;
         (a, s) = s_read_gpr S rA s;
         (b, s) = s_read_gpr S rB s;
         addr = s_add S a b;
         (_, s) = s_read_fpr S frS s;
         s = s_write_mem S addr (s_imm S 0) 4 s
     in s_write_gpr S rA addr s)"

definition ppc_sem_stfdx :: "('s, 'z) sem_scheme \<Rightarrow> uint32 \<Rightarrow> 's \<Rightarrow> 's" where
  "ppc_sem_stfdx S opc s =
    (let (frS, rA, rB) = PPC_OPC_TEMPL_X opc;
         (addr, s) = sem_base S rA s;
         (b, s) = s_read_gpr S rB s;
         addr = s_add S addr b;
         (_, s) = s_read_fpr S frS s
     in s_write_mem S addr (s_imm S 0) 8 s)"

definition ppc_sem_stfdux :: "('s, 'z) sem_scheme \<Rightarrow> uint32 \<Rightarrow> 's \<Rightarrow> 's" where
  "ppc_sem_stfdux S opc s =
    (let (frS, rA, rB) = PPC_OPC_TEMPL_X opc;
         (a, s) = s_read_gpr S rA s;
         (b, s) = s_read_gpr S rB s;
         addr = s_add S a b;
         (_, s) = s_read_fpr S frS s;
         s = s_write_mem S addr (s_imm S 0) 8 s
     in s_write_gpr S rA addr s)"

lemmas sem_fpu_defs = ppc_sem_fcmpx_def
  ppc_sem_fpu_arith_def
  ppc_sem_lfs_def
  ppc_sem_lfsu_def
  ppc_sem_lfd_def
  ppc_sem_lfdu_def
  ppc_sem_stfs_def
  ppc_sem_stfsu_def
  ppc_sem_stfd_def
  ppc_sem_stfdu_def
  ppc_sem_lfsx_def
  ppc_sem_lfsux_def
  ppc_sem_lfdx_def
  ppc_sem_lfdux_def
  ppc_sem_stfsx_def
  ppc_sem_stfsux_def
  ppc_sem_stfdx_def
  ppc_sem_stfdux_def

end
