(* ===== verification/Ppc_Sem_Spr.thy ===== *)
theory Ppc_Sem_Spr
  imports Ppc_Sem
begin

text \<open>
  src/cpu/ppc_semantics_spr.h and src/cpu/ppc_semantics_branch.h: moves from and to the special
  purpose and condition registers, and the read and write sets of the branches (the
  branch templates are instantiated by the liveness back end only; what a branch does is
  \<open>ppc_opc_bx\<close> and its relatives in Ppc_Opc).
\<close>

unbundle bit_operations_syntax

subsection \<open>Special purpose and condition registers\<close>

definition ppc_sem_mfspr :: "('s, 'z) alu_sem_scheme \<Rightarrow> uint32 \<Rightarrow> 's \<Rightarrow> 's" where
  "ppc_sem_mfspr S opc s =
    (let (rD, spr1, spr2) = PPC_OPC_TEMPL_XO opc
     in if spr2 = 0 \<and> spr1 = 1 then (let (v, s) = s_read_xer S s in s_write_gpr S rD v s)
        else if spr2 = 0 \<and> spr1 = 8 then (let (v, s) = s_read_lr S s in s_write_gpr S rD v s)
        else if spr2 = 0 \<and> spr1 = 9 then (let (v, s) = s_read_ctr S s in s_write_gpr S rD v s)
        else s_everything S s)"

definition ppc_sem_mtspr :: "('s, 'z) alu_sem_scheme \<Rightarrow> uint32 \<Rightarrow> 's \<Rightarrow> 's" where
  "ppc_sem_mtspr S opc s =
    (let (rS, spr1, spr2) = PPC_OPC_TEMPL_XO opc
     in if spr2 = 0 \<and> spr1 = 1 then (let (v, s) = s_read_gpr S rS s in s_write_xer S v s)
        else if spr2 = 0 \<and> spr1 = 8 then (let (v, s) = s_read_gpr S rS s in s_write_lr S v s)
        else if spr2 = 0 \<and> spr1 = 9 then (let (v, s) = s_read_gpr S rS s in s_write_ctr S v s)
        else s_everything S s)"

definition ppc_sem_mfcr :: "('s, 'z) alu_sem_scheme \<Rightarrow> uint32 \<Rightarrow> 's \<Rightarrow> 's" where
  "ppc_sem_mfcr S opc s =
    (let (rD, rA, rB) = PPC_OPC_TEMPL_X opc;
         (v, s) = s_read_cr S s
     in s_write_gpr S rD v s)"

text \<open>The expansion of the eight-bit field mask of \<open>mtcrf\<close>, the loop over \<open>i = 0..7\<close>.\<close>

fun crm_expand :: "uint32 \<Rightarrow> nat \<Rightarrow> uint32 \<Rightarrow> uint32" where
  "crm_expand crm 0 m = m"
| "crm_expand crm (Suc n) m =
     (let i = 7 - n
      in crm_expand crm n (if istrue (crm AND push_bit (7 - i) 1)
                           then m OR cr_field_mask i else m))"

definition ppc_sem_mtcrf :: "('s, 'z) alu_sem_scheme \<Rightarrow> uint32 \<Rightarrow> 's \<Rightarrow> 's" where
  "ppc_sem_mtcrf S opc s =
    (let (rS, crm) = PPC_OPC_TEMPL_XFX opc;
         (val, s) = s_read_gpr S rS s
     in s_write_cr_masked S val (crm_expand crm 8 0) s)"

definition ppc_sem_mcrf :: "('s, 'z) alu_sem_scheme \<Rightarrow> uint32 \<Rightarrow> 's \<Rightarrow> 's" where
  "ppc_sem_mcrf S opc s =
    (let (crD, crS, bla) = PPC_OPC_TEMPL_X opc;
         (v, s) = s_read_cr_field S (crS div 4) s
     in s_write_cr_field S (crD div 4) v s)"

subsection \<open>Branches\<close>

definition sem_lk :: "('s, 'z) sem_scheme \<Rightarrow> uint32 \<Rightarrow> 's \<Rightarrow> 's" where
  "sem_lk S opc s = (if istrue (opc AND PPC_OPC_LK) then s_write_lr S 0 s else s)"

definition ppc_sem_bx :: "('s, 'z) sem_scheme \<Rightarrow> uint32 \<Rightarrow> 's \<Rightarrow> 's" where
  "ppc_sem_bx S opc s = s_branch S (sem_lk S opc s)"

definition ppc_sem_bcx :: "('s, 'z) sem_scheme \<Rightarrow> uint32 \<Rightarrow> 's \<Rightarrow> 's" where
  "ppc_sem_bcx S opc s =
    (let (BO, BI, BD) = PPC_OPC_TEMPL_B opc;
         s = (if BO AND 4 = 0 then s_write_ctr S 0 (snd (s_read_ctr S s)) else s);
         s = (if BO AND 16 = 0 then s_read_cr_bit S BI s else s)
     in s_branch_cond S (sem_lk S opc s))"

definition ppc_sem_bcctrx :: "('s, 'z) sem_scheme \<Rightarrow> uint32 \<Rightarrow> 's \<Rightarrow> 's" where
  "ppc_sem_bcctrx S opc s =
    (let (BO, BI, BD) = PPC_OPC_TEMPL_XL opc;
         (_, s) = s_read_ctr S s;
         s = (if BO AND 16 = 0 then s_read_cr_bit S BI s else s)
     in s_branch_cond S (sem_lk S opc s))"

definition ppc_sem_bclrx :: "('s, 'z) sem_scheme \<Rightarrow> uint32 \<Rightarrow> 's \<Rightarrow> 's" where
  "ppc_sem_bclrx S opc s =
    (let (BO, BI, BD) = PPC_OPC_TEMPL_XL opc;
         (_, s) = s_read_lr S s;
         s = (if BO AND 4 = 0 then s_write_ctr S 0 (snd (s_read_ctr S s)) else s);
         s = (if BO AND 16 = 0 then s_read_cr_bit S BI s else s)
     in s_branch_cond S (sem_lk S opc s))"

lemmas sem_spr_defs = ppc_sem_mfspr_def ppc_sem_mtspr_def ppc_sem_mfcr_def ppc_sem_mtcrf_def
  ppc_sem_mcrf_def

lemmas sem_branch_defs = sem_lk_def ppc_sem_bx_def ppc_sem_bcx_def ppc_sem_bcctrx_def
  ppc_sem_bclrx_def

end
