(* ===== verification/Ppc_Liveness_Sem.thy ===== *)
theory Ppc_Liveness_Sem
  imports Ppc_Sem
begin

text \<open>
  src/cpu/ppc_liveness_sem.h: the read and write set of one instruction (\<open>InsnEffect\<close>) and
  the back end that records it (\<open>LivenessSemantics\<close>).  Every value it returns is the dummy 0,
  and none of its operations fails.
\<close>

unbundle bit_operations_syntax

definition XER_BIT_CA :: uint8 where "XER_BIT_CA = 1"
definition XER_BIT_OV :: uint8 where "XER_BIT_OV = 2"
definition XER_BIT_SO :: uint8 where "XER_BIT_SO = 4"
definition XER_BIT_ALL :: uint8 where "XER_BIT_ALL = 7"

lemmas xer_bit_defs = XER_BIT_CA_def XER_BIT_OV_def XER_BIT_SO_def XER_BIT_ALL_def

record InsnEffect =
  gpr_read :: uint32
  gpr_write :: uint32
  cr_read :: uint32
  cr_write :: uint32
  xer_read :: uint8
  xer_write :: uint8
  lr_read :: bool
  lr_write :: bool
  ctr_read :: bool
  ctr_write :: bool
  reads_memory :: bool
  writes_memory :: bool
  is_branch :: bool
  is_everything :: bool

definition insn_effect_zero :: InsnEffect where
  "insn_effect_zero = \<lparr>gpr_read = 0, gpr_write = 0, cr_read = 0, cr_write = 0, xer_read = 0,
     xer_write = 0, lr_read = False, lr_write = False, ctr_read = False, ctr_write = False,
     reads_memory = False, writes_memory = False, is_branch = False, is_everything = False\<rparr>"

definition InsnEffect_everything :: InsnEffect where
  "InsnEffect_everything = \<lparr>gpr_read = 0xffffffff, gpr_write = 0xffffffff,
     cr_read = 0xffffffff, cr_write = 0xffffffff, xer_read = XER_BIT_ALL,
     xer_write = XER_BIT_ALL, lr_read = True, lr_write = True, ctr_read = True, ctr_write = True,
     reads_memory = True, writes_memory = True, is_branch = False, is_everything = True\<rparr>"

subsection \<open>Queries\<close>

definition reads_gpr :: "InsnEffect \<Rightarrow> nat \<Rightarrow> bool" where
  "reads_gpr e r = istrue (gpr_read e AND push_bit r 1)"

definition writes_gpr :: "InsnEffect \<Rightarrow> nat \<Rightarrow> bool" where
  "writes_gpr e r = istrue (gpr_write e AND push_bit r 1)"

definition reads_cr_bit :: "InsnEffect \<Rightarrow> nat \<Rightarrow> bool" where
  "reads_cr_bit e b = istrue (cr_read e AND push_bit (31 - b) 1)"

definition writes_cr_bit :: "InsnEffect \<Rightarrow> nat \<Rightarrow> bool" where
  "writes_cr_bit e b = istrue (cr_write e AND push_bit (31 - b) 1)"

definition writes_cr_field :: "InsnEffect \<Rightarrow> nat \<Rightarrow> bool" where
  "writes_cr_field e f = (cr_write e AND cr_field_mask f = cr_field_mask f)"

definition reads_xer_ca :: "InsnEffect \<Rightarrow> bool" where
  "reads_xer_ca e = istrue (xer_read e AND XER_BIT_CA)"

definition reads_xer_so :: "InsnEffect \<Rightarrow> bool" where
  "reads_xer_so e = istrue (xer_read e AND XER_BIT_SO)"

definition writes_xer_ca :: "InsnEffect \<Rightarrow> bool" where
  "writes_xer_ca e = istrue (xer_write e AND XER_BIT_CA)"

subsection \<open>Recording\<close>

definition live_read_gpr :: "nat \<Rightarrow> InsnEffect \<Rightarrow> uint32 \<times> InsnEffect" where
  "live_read_gpr r fx = (0, fx\<lparr>gpr_read := gpr_read fx OR push_bit r 1\<rparr>)"

definition live_write_gpr :: "nat \<Rightarrow> uint32 \<Rightarrow> InsnEffect \<Rightarrow> InsnEffect" where
  "live_write_gpr r v fx = fx\<lparr>gpr_write := gpr_write fx OR push_bit r 1\<rparr>"

definition live_read_xer_ca :: "InsnEffect \<Rightarrow> uint32 \<times> InsnEffect" where
  "live_read_xer_ca fx = (0, fx\<lparr>xer_read := xer_read fx OR XER_BIT_CA\<rparr>)"

definition live_write_xer_ca :: "bool \<Rightarrow> InsnEffect \<Rightarrow> InsnEffect" where
  "live_write_xer_ca c fx = fx\<lparr>xer_write := xer_write fx OR XER_BIT_CA\<rparr>"

definition live_write_cr0_from_result :: "uint32 \<Rightarrow> InsnEffect \<Rightarrow> InsnEffect" where
  "live_write_cr0_from_result v fx =
     fx\<lparr>cr_write := cr_write fx OR push_bit 28 0xf, xer_read := xer_read fx OR XER_BIT_SO\<rparr>"

definition live_write_cr_field_cmp :: "nat \<Rightarrow> uint32 \<Rightarrow> uint32 \<Rightarrow> InsnEffect \<Rightarrow> InsnEffect" where
  "live_write_cr_field_cmp field a b fx =
     fx\<lparr>cr_write := cr_write fx OR push_bit ((7 - field) * 4) 0xf,
        xer_read := xer_read fx OR XER_BIT_SO\<rparr>"

definition live_read_cr_bit :: "nat \<Rightarrow> InsnEffect \<Rightarrow> InsnEffect" where
  "live_read_cr_bit b fx = fx\<lparr>cr_read := cr_read fx OR push_bit (31 - b) 1\<rparr>"

definition live_write_cr_bit :: "nat \<Rightarrow> bool \<Rightarrow> InsnEffect \<Rightarrow> InsnEffect" where
  "live_write_cr_bit b v fx = fx\<lparr>cr_write := cr_write fx OR push_bit (31 - b) 1\<rparr>"

definition live_get_cr_bit :: "nat \<Rightarrow> InsnEffect \<Rightarrow> bool \<times> InsnEffect" where
  "live_get_cr_bit b fx = (False, fx\<lparr>cr_read := cr_read fx OR push_bit (31 - b) 1\<rparr>)"

definition live_read_cr_field :: "nat \<Rightarrow> InsnEffect \<Rightarrow> uint32 \<times> InsnEffect" where
  "live_read_cr_field f fx = (0, fx\<lparr>cr_read := cr_read fx OR push_bit ((7 - f) * 4) 0xf\<rparr>)"

definition live_write_cr_field :: "nat \<Rightarrow> uint32 \<Rightarrow> InsnEffect \<Rightarrow> InsnEffect" where
  "live_write_cr_field f v fx = fx\<lparr>cr_write := cr_write fx OR push_bit ((7 - f) * 4) 0xf\<rparr>"

definition live_sraw :: "uint32 \<Rightarrow> uint32 \<Rightarrow> InsnEffect \<Rightarrow> (uint32 \<times> bool) \<times> InsnEffect" where
  "live_sraw a sh fx = ((0, True), fx\<lparr>xer_write := xer_write fx OR XER_BIT_CA\<rparr>)"

definition liveness_sem :: "InsnEffect sem" where
  "liveness_sem = \<lparr>
     s_read_gpr = live_read_gpr,
     s_write_gpr = live_write_gpr,
     s_read_lr = (\<lambda>fx. (0, fx\<lparr>lr_read := True\<rparr>)),
     s_write_lr = (\<lambda>v fx. fx\<lparr>lr_write := True\<rparr>),
     s_read_ctr = (\<lambda>fx. (0, fx\<lparr>ctr_read := True\<rparr>)),
     s_write_ctr = (\<lambda>v fx. fx\<lparr>ctr_write := True\<rparr>),
     s_read_xer = (\<lambda>fx. (0, fx\<lparr>xer_read := xer_read fx OR XER_BIT_ALL\<rparr>)),
     s_write_xer = (\<lambda>v fx. fx\<lparr>xer_write := xer_write fx OR XER_BIT_ALL\<rparr>),
     s_read_cr = (\<lambda>fx. (0, fx\<lparr>cr_read := 0xffffffff\<rparr>)),
     s_write_cr_masked = (\<lambda>v m fx. fx\<lparr>cr_write := cr_write fx OR m\<rparr>),
     s_read_cr_field = live_read_cr_field,
     s_write_cr_field = live_write_cr_field,
     s_everything = (\<lambda>fx. InsnEffect_everything),
     s_read_xer_ca = live_read_xer_ca,
     s_write_xer_ca = live_write_xer_ca,
     s_write_cr0_from_result = live_write_cr0_from_result,
     s_write_cr_field_signed = live_write_cr_field_cmp,
     s_write_cr_field_unsigned = live_write_cr_field_cmp,
     s_write_cr_bit = live_write_cr_bit,
     s_get_cr_bit = live_get_cr_bit,
     s_imm = (\<lambda>v. 0),
     s_add = (\<lambda>a b. 0), s_and = (\<lambda>a b. 0), s_or = (\<lambda>a b. 0), s_xor = (\<lambda>a b. 0),
     s_not = (\<lambda>a. 0), s_neg = (\<lambda>a. 0), s_nand = (\<lambda>a b. 0), s_nor = (\<lambda>a b. 0),
     s_andc = (\<lambda>a b. 0), s_orc = (\<lambda>a b. 0), s_eqv = (\<lambda>a b. 0), s_mul = (\<lambda>a b. 0),
     s_mulhs = (\<lambda>a b. 0), s_mulhu = (\<lambda>a b. 0),
     s_div_s = (\<lambda>a b. Inr 0), s_div_u = (\<lambda>a b. Inr 0),
     s_shl = (\<lambda>a b. 0), s_shr = (\<lambda>a b. 0),
     s_sraw = live_sraw,
     s_rotl = (\<lambda>a n. 0), s_mask = (\<lambda>MB ME. 0),
     s_extend_sign_byte = (\<lambda>a. 0), s_extend_sign_half = (\<lambda>a. 0), s_cntlzw = (\<lambda>a. 0),
     s_carry_add = (\<lambda>a b. False), s_carry_3 = (\<lambda>a b c. False),
     s_read_fpr = (\<lambda>r fx. (0, fx)),
     s_write_fpr = (\<lambda>r v fx. fx),
     s_read_cr_bit = live_read_cr_bit,
     s_read_mem = (\<lambda>a n fx. (0, fx\<lparr>reads_memory := True\<rparr>)),
     s_read_mem_sign_extend = (\<lambda>a n fx. (0, fx\<lparr>reads_memory := True\<rparr>)),
     s_write_mem = (\<lambda>a v n fx. fx\<lparr>writes_memory := True\<rparr>),
     s_branch = (\<lambda>fx. fx\<lparr>is_branch := True\<rparr>),
     s_branch_cond = (\<lambda>fx. fx\<lparr>is_branch := True\<rparr>) \<rparr>"

end
