(* ===== verification/Ppc_Dispatch.thy ===== *)
theory Ppc_Dispatch
  imports Ppc_Sem_Alu Ppc_Sem_Mem Ppc_Sem_Spr Ppc_Liveness_Sem
begin

text \<open>
  src/cpu/ppc_semantics_dispatch.h: \<open>ppc_analyze_insn\<close> maps an instruction word to its read and
  write set by running the matching template on the liveness back end, and
  \<open>ppc_is_cr_field_dead_at\<close> scans forward in a page.
\<close>

unbundle bit_operations_syntax

text \<open>
  \<open>LivenessSemantics s; ppc_sem_...(s, opc); return s.fx;\<close>.  The two divide templates return
  through the back end's \<open>div_s\<close> and \<open>div_u\<close>, which do not fail here.
\<close>

definition live_run :: "(InsnEffect sem \<Rightarrow> uint32 \<Rightarrow> InsnEffect \<Rightarrow> InsnEffect) \<Rightarrow> uint32 \<Rightarrow> InsnEffect" where
  "live_run t opc = t liveness_sem opc insn_effect_zero"

definition live_run_div ::
  "(InsnEffect sem \<Rightarrow> uint32 \<Rightarrow> InsnEffect \<Rightarrow> host_trap + InsnEffect) \<Rightarrow> uint32 \<Rightarrow> InsnEffect" where
  "live_run_div t opc =
     (case t liveness_sem opc insn_effect_zero of Inl e \<Rightarrow> insn_effect_zero | Inr fx \<Rightarrow> fx)"

definition ppc_analyze_group1 :: "uint32 \<Rightarrow> InsnEffect" where
  "ppc_analyze_group1 opc =
    (let ext = PPC_OPC_EXT opc in
     if ext = 33 then live_run ppc_sem_crnor opc
     else if ext = 129 then live_run ppc_sem_crandc opc
     else if ext = 193 then live_run ppc_sem_crxor opc
     else if ext = 225 then live_run ppc_sem_crnand opc
     else if ext = 257 then live_run ppc_sem_crand opc
     else if ext = 289 then live_run ppc_sem_creqv opc
     else if ext = 417 then live_run ppc_sem_crorc opc
     else if ext = 449 then live_run ppc_sem_cror opc
     else if ext = 16 then live_run ppc_sem_bclrx opc
     else if ext = 528 then live_run ppc_sem_bcctrx opc
     else if ext = 0 then live_run ppc_sem_mcrf opc
     else InsnEffect_everything)"

definition ppc_analyze_group2 :: "uint32 \<Rightarrow> InsnEffect" where
  "ppc_analyze_group2 opc =
    (let ext = PPC_OPC_EXT opc in
     if ext = 0 then live_run ppc_sem_cmp opc
     else if ext = 32 then live_run ppc_sem_cmpl opc
     else if ext = 8 then live_run ppc_sem_subfcx opc
     else if ext = 40 then live_run ppc_sem_subfx opc
     else if ext = 136 then live_run ppc_sem_subfex opc
     else if ext = 200 then live_run ppc_sem_subfzex opc
     else if ext = 232 then live_run ppc_sem_subfmex opc
     else if ext = 10 then live_run ppc_sem_addcx opc
     else if ext = 138 then live_run ppc_sem_addex opc
     else if ext = 202 then live_run ppc_sem_addzex opc
     else if ext = 234 then live_run ppc_sem_addmex opc
     else if ext = 266 then live_run ppc_sem_addx opc
     else if ext = 11 then live_run ppc_sem_mulhwux opc
     else if ext = 75 then live_run ppc_sem_mulhwx opc
     else if ext = 235 then live_run ppc_sem_mullwx opc
     else if ext = 459 then live_run_div ppc_sem_divwux opc
     else if ext = 491 then live_run_div ppc_sem_divwx opc
     else if ext = 28 then live_run ppc_sem_andx opc
     else if ext = 60 then live_run ppc_sem_andcx opc
     else if ext = 124 then live_run ppc_sem_norx opc
     else if ext = 284 then live_run ppc_sem_eqvx opc
     else if ext = 316 then live_run ppc_sem_xorx opc
     else if ext = 412 then live_run ppc_sem_orcx opc
     else if ext = 444 then live_run ppc_sem_orx opc
     else if ext = 476 then live_run ppc_sem_nandx opc
     else if ext = 104 then live_run ppc_sem_negx opc
     else if ext = 24 then live_run ppc_sem_slwx opc
     else if ext = 536 then live_run ppc_sem_srwx opc
     else if ext = 792 then live_run ppc_sem_srawx opc
     else if ext = 824 then live_run ppc_sem_srawix opc
     else if ext = 26 then live_run ppc_sem_cntlzwx opc
     else if ext = 922 then live_run ppc_sem_extshx opc
     else if ext = 954 then live_run ppc_sem_extsbx opc
     else if ext = 23 then live_run ppc_sem_lwzx opc
     else if ext = 55 then live_run ppc_sem_lwzux opc
     else if ext = 87 then live_run ppc_sem_lbzx opc
     else if ext = 119 then live_run ppc_sem_lbzux opc
     else if ext = 279 then live_run ppc_sem_lhzx opc
     else if ext = 311 then live_run ppc_sem_lhzux opc
     else if ext = 343 then live_run ppc_sem_lhax opc
     else if ext = 375 then live_run ppc_sem_lhaux opc
     else if ext = 151 then live_run ppc_sem_stwx opc
     else if ext = 183 then live_run ppc_sem_stwux opc
     else if ext = 215 then live_run ppc_sem_stbx opc
     else if ext = 247 then live_run ppc_sem_stbux opc
     else if ext = 407 then live_run ppc_sem_sthx opc
     else if ext = 439 then live_run ppc_sem_sthux opc
     else if ext = 19 then live_run ppc_sem_mfcr opc
     else if ext = 144 then live_run ppc_sem_mtcrf opc
     else if ext = 339 then live_run ppc_sem_mfspr opc
     else if ext = 467 then live_run ppc_sem_mtspr opc
     else if ext = 535 then live_run ppc_sem_lfsx opc
     else if ext = 567 then live_run ppc_sem_lfsux opc
     else if ext = 599 then live_run ppc_sem_lfdx opc
     else if ext = 631 then live_run ppc_sem_lfdux opc
     else if ext = 663 then live_run ppc_sem_stfsx opc
     else if ext = 695 then live_run ppc_sem_stfsux opc
     else if ext = 727 then live_run ppc_sem_stfdx opc
     else if ext = 759 then live_run ppc_sem_stfdux opc
     else InsnEffect_everything)"

definition ppc_analyze_insn :: "uint32 \<Rightarrow> InsnEffect" where
  "ppc_analyze_insn opc =
    (let mainopc = PPC_OPC_MAIN opc in
     if mainopc = 8 then live_run ppc_sem_subfic opc
     else if mainopc = 10 then live_run ppc_sem_cmpli opc
     else if mainopc = 11 then live_run ppc_sem_cmpi opc
     else if mainopc = 12 then live_run ppc_sem_addic opc
     else if mainopc = 13 then live_run ppc_sem_addic_rc opc
     else if mainopc = 14 then live_run ppc_sem_addi opc
     else if mainopc = 15 then live_run ppc_sem_addis opc
     else if mainopc = 19 then ppc_analyze_group1 opc
     else if mainopc = 20 then live_run ppc_sem_rlwimix opc
     else if mainopc = 21 then live_run ppc_sem_rlwinmx opc
     else if mainopc = 23 then live_run ppc_sem_rlwnmx opc
     else if mainopc = 24 then live_run ppc_sem_ori opc
     else if mainopc = 25 then live_run ppc_sem_oris opc
     else if mainopc = 26 then live_run ppc_sem_xori opc
     else if mainopc = 27 then live_run ppc_sem_xoris opc
     else if mainopc = 28 then live_run ppc_sem_andi_rc opc
     else if mainopc = 29 then live_run ppc_sem_andis_rc opc
     else if mainopc = 31 then ppc_analyze_group2 opc
     else if mainopc = 7 then live_run ppc_sem_mulli opc
     else if mainopc = 16 then live_run ppc_sem_bcx opc
     else if mainopc = 18 then live_run ppc_sem_bx opc
     else if mainopc = 32 then live_run ppc_sem_lwz opc
     else if mainopc = 33 then live_run ppc_sem_lwzu opc
     else if mainopc = 34 then live_run ppc_sem_lbz opc
     else if mainopc = 35 then live_run ppc_sem_lbzu opc
     else if mainopc = 36 then live_run ppc_sem_stw opc
     else if mainopc = 37 then live_run ppc_sem_stwu opc
     else if mainopc = 38 then live_run ppc_sem_stb opc
     else if mainopc = 39 then live_run ppc_sem_stbu opc
     else if mainopc = 40 then live_run ppc_sem_lhz opc
     else if mainopc = 41 then live_run ppc_sem_lhzu opc
     else if mainopc = 42 then live_run ppc_sem_lha opc
     else if mainopc = 43 then live_run ppc_sem_lhau opc
     else if mainopc = 44 then live_run ppc_sem_sth opc
     else if mainopc = 45 then live_run ppc_sem_sthu opc
     else if mainopc = 46 then live_run ppc_sem_lmw opc
     else if mainopc = 47 then live_run ppc_sem_stmw opc
     else if mainopc = 48 then live_run ppc_sem_lfs opc
     else if mainopc = 49 then live_run ppc_sem_lfsu opc
     else if mainopc = 50 then live_run ppc_sem_lfd opc
     else if mainopc = 51 then live_run ppc_sem_lfdu opc
     else if mainopc = 52 then live_run ppc_sem_stfs opc
     else if mainopc = 53 then live_run ppc_sem_stfsu opc
     else if mainopc = 54 then live_run ppc_sem_stfd opc
     else if mainopc = 55 then live_run ppc_sem_stfdu opc
     else if mainopc = 59 then live_run ppc_sem_fpu_arith opc
     else if mainopc = 63 then
       (let ext = PPC_OPC_EXT opc in
        if ext = 0 \<or> ext = 32 then live_run ppc_sem_fcmpx opc
        else live_run ppc_sem_fpu_arith opc)
     else InsnEffect_everything)"

subsection \<open>Reading a code page\<close>

text \<open>
  \<open>ppc_word_from_BE(*(uint32 *)&physpage[ofs])\<close>: a page is a function from the byte offset to
  the byte; the word is read big-endian.
\<close>

type_synonym page = "nat \<Rightarrow> uint8"

definition page_word :: "page \<Rightarrow> nat \<Rightarrow> uint32" where
  "page_word physpage ofs =
     push_bit 24 (ucast (physpage ofs)) OR push_bit 16 (ucast (physpage (ofs + 1)))
     OR push_bit 8 (ucast (physpage (ofs + 2))) OR ucast (physpage (ofs + 3))"

function ppc_is_cr_field_dead_at :: "page \<Rightarrow> nat \<Rightarrow> nat \<Rightarrow> bool" where
  "ppc_is_cr_field_dead_at physpage ofs crField =
     (if ofs < 4096 then
        let fx = ppc_analyze_insn (page_word physpage ofs);
            m = cr_field_mask crField
        in if is_everything fx then False
           else if istrue (cr_read fx AND m) then False
           else if cr_write fx AND m = m then True
           else if is_branch fx then False
           else ppc_is_cr_field_dead_at physpage (ofs + 4) crField
      else False)"
  by pat_completeness auto
termination
  by (relation "measure (\<lambda>(p, ofs, f). 4096 - ofs)") auto

declare ppc_is_cr_field_dead_at.simps [simp del]

end
