(* ===== verification/Ppc_Liveness.thy ===== *)
theory Ppc_Liveness
  imports Ppc_Dispatch "HOL-Library.While_Combinator"
begin

text \<open>
  src/cpu/ppc_liveness.h: backward liveness inside a block (\<open>ppc_compute_liveness\<close>), the live
  sets of the page-level analysis, the branch-target decoder, the block scanner, the
  depth-first discovery of the blocks of a page with its fixed-size work list, the successor
  edges, and the fixed-point solver.  The solver's \<open>while (changed)\<close> is a \<open>while_option\<close>: that
  it stops is a theorem of Ppc_Live_Solver.
\<close>

unbundle bit_operations_syntax

subsection \<open>Liveness inside a block\<close>

record LivenessState =
  ls_gpr :: uint32
  ls_cr :: uint32
  ls_xer :: uint8

record LivenessInfo =
  dead_gpr :: uint32
  dead_cr :: uint32
  dead_xer :: uint8

definition is_dead_gpr :: "LivenessInfo \<Rightarrow> nat \<Rightarrow> bool" where
  "is_dead_gpr i r = istrue (dead_gpr i AND push_bit r 1)"

definition is_dead_cr_field :: "LivenessInfo \<Rightarrow> nat \<Rightarrow> bool" where
  "is_dead_cr_field i f = (dead_cr i AND cr_field_mask f = cr_field_mask f)"

definition is_dead_xer_ca :: "LivenessInfo \<Rightarrow> bool" where
  "is_dead_xer_ca i = istrue (dead_xer i AND XER_BIT_CA)"

definition ls_all :: LivenessState where
  "ls_all = \<lparr>ls_gpr = 0xffffffff, ls_cr = 0xffffffff, ls_xer = XER_BIT_ALL\<rparr>"

text \<open>
  The loop runs from the last instruction to the first; on a list that is structural
  recursion with the state of the later instructions computed first.
\<close>

fun ppc_compute_liveness :: "InsnEffect list \<Rightarrow> LivenessInfo list \<times> LivenessState" where
  "ppc_compute_liveness [] = ([], ls_all)"
| "ppc_compute_liveness (fx # insns) =
     (let (out, live) = ppc_compute_liveness insns
      in if is_everything fx
         then (\<lparr>dead_gpr = 0, dead_cr = 0, dead_xer = 0\<rparr> # out, ls_all)
         else (\<lparr>dead_gpr = gpr_write fx AND NOT (ls_gpr live),
                dead_cr = cr_write fx AND NOT (ls_cr live),
                dead_xer = xer_write fx AND NOT (ls_xer live)\<rparr> # out,
               \<lparr>ls_gpr = (ls_gpr live AND NOT (gpr_write fx)) OR gpr_read fx,
                ls_cr = (ls_cr live AND NOT (cr_write fx)) OR cr_read fx,
                ls_xer = (ls_xer live AND NOT (xer_write fx)) OR xer_read fx\<rparr>))"

subsection \<open>Live sets\<close>

datatype LiveSet = LiveSet (lv_gpr: uint32) (lv_cr: uint32) (lv_xer: uint8) (lv_lr: bool) (lv_ctr: bool)

definition LiveSet_all_live :: LiveSet where
  "LiveSet_all_live = LiveSet 0xFFFFFFFF 0xFFFFFFFF XER_BIT_ALL True True"

definition LiveSet_none :: LiveSet where
  "LiveSet_none = LiveSet 0 0 0 False False"

definition is_gpr_dead :: "LiveSet \<Rightarrow> nat \<Rightarrow> bool" where
  "is_gpr_dead s r = (lv_gpr s AND push_bit r 1 = 0)"

definition is_cr_field_dead :: "LiveSet \<Rightarrow> nat \<Rightarrow> bool" where
  "is_cr_field_dead s f = (lv_cr s AND cr_field_mask f = 0)"

definition is_xer_ca_dead :: "LiveSet \<Rightarrow> bool" where
  "is_xer_ca_dead s = (lv_xer s AND XER_BIT_CA = 0)"

fun LiveSet_and :: "LiveSet \<Rightarrow> LiveSet \<Rightarrow> LiveSet" where
  "LiveSet_and (LiveSet g c x l t) (LiveSet g' c' x' l' t') =
     LiveSet (g AND g') (c AND c') (x AND x') (l \<and> l') (t \<and> t')"

fun LiveSet_not :: "LiveSet \<Rightarrow> LiveSet" where
  "LiveSet_not (LiveSet g c x l t) = LiveSet (NOT g) (NOT c) (NOT x AND XER_BIT_ALL) (\<not> l) (\<not> t)"

text \<open>
  The union \<open>operator|\<close> is the supremum of the inclusion order of live sets; the solver's
  convergence is stated in that order.
\<close>

fun LiveSet_or :: "LiveSet \<Rightarrow> LiveSet \<Rightarrow> LiveSet" where
  "LiveSet_or (LiveSet g c x l t) (LiveSet g' c' x' l' t') =
     LiveSet (g OR g') (c OR c') (x OR x') (l \<or> l') (t \<or> t')"

instantiation LiveSet :: semilattice_sup
begin

definition sup_LiveSet :: "LiveSet \<Rightarrow> LiveSet \<Rightarrow> LiveSet" where
  "sup_LiveSet = LiveSet_or"

definition less_eq_LiveSet :: "LiveSet \<Rightarrow> LiveSet \<Rightarrow> bool" where
  "less_eq_LiveSet a b = (LiveSet_or a b = b)"

definition less_LiveSet :: "LiveSet \<Rightarrow> LiveSet \<Rightarrow> bool" where
  "less_LiveSet a b = (a \<le> b \<and> a \<noteq> b)"

lemma LiveSet_or_commute: "LiveSet_or a b = LiveSet_or b a"
  by (cases a; cases b) (auto simp: or.commute)

lemma LiveSet_or_assoc: "LiveSet_or (LiveSet_or a b) c = LiveSet_or a (LiveSet_or b c)"
  by (cases a; cases b; cases c) (simp add: or.assoc)

lemma LiveSet_or_idem: "LiveSet_or a a = a"
  by (cases a) simp

lemmas LiveSet_or_ac = LiveSet_or_commute LiveSet_or_assoc LiveSet_or_idem

instance
proof
  fix x y z :: LiveSet
  show "(x < y) = (x \<le> y \<and> \<not> y \<le> x)"
    by (metis LiveSet_or_ac(1) less_LiveSet_def less_eq_LiveSet_def)
  show "x \<le> x"
    by (simp add: less_eq_LiveSet_def LiveSet_or_ac)
  show "x \<le> y \<Longrightarrow> y \<le> z \<Longrightarrow> x \<le> z"
    by (metis LiveSet_or_ac(2) less_eq_LiveSet_def)
  show "x \<le> y \<Longrightarrow> y \<le> x \<Longrightarrow> x = y"
    by (metis LiveSet_or_ac(1) less_eq_LiveSet_def)
  show "x \<le> sup x y"
    by (metis LiveSet_or_ac(2,3) less_eq_LiveSet_def sup_LiveSet_def)
  show "y \<le> sup x y"
    by (metis LiveSet_or_ac less_eq_LiveSet_def sup_LiveSet_def)
  show "y \<le> x \<Longrightarrow> z \<le> x \<Longrightarrow> sup y z \<le> x"
    by (metis LiveSet_or_ac(2) less_eq_LiveSet_def sup_LiveSet_def)
qed

end

subsection \<open>Blocks of a page\<close>

definition PAGE_SUCC_NONE :: int where "PAGE_SUCC_NONE = -1"
definition PAGE_SUCC_OFF_PAGE :: int where "PAGE_SUCC_OFF_PAGE = -2"

record PageBlock =
  startOfs :: nat
  endOfs :: nat
  blk_gen :: LiveSet
  blk_kill :: LiveSet
  live_in :: LiveSet
  live_out :: LiveSet
  succ0 :: int
  succ1 :: int
  numSucc :: nat

text \<open>\<open>blocks\<close> holds the first \<open>numBlocks\<close> entries of the array of 512.\<close>

record PageCFG =
  blocks :: "PageBlock list"
  blockAtOfs :: "nat \<Rightarrow> int"

definition blockForOfs :: "PageCFG \<Rightarrow> nat \<Rightarrow> int" where
  "blockForOfs cfg ofs = (if 4096 \<le> ofs then -1 else blockAtOfs cfg (ofs div 4))"

definition ppc_decode_branch_target :: "uint32 \<Rightarrow> nat \<Rightarrow> int" where
  "ppc_decode_branch_target opc instrOfs =
     (let mainopc = PPC_OPC_MAIN opc in
      if mainopc = 18 then
        (let li = opc AND 0x03FFFFFC;
             li = (if istrue (li AND 0x02000000) then li OR 0xFC000000 else li);
             aa = istrue (opc AND PPC_OPC_AA);
             target = (if aa then sint li else sint (of_nat instrOfs + li))
         in if 0 \<le> target \<and> target < 4096 then target else -1)
      else if mainopc = 16 then
        (let BD = opc AND 0xfffc;
             BD = (if istrue (BD AND 0x8000) then BD OR 0xffff0000 else BD);
             aa = istrue (opc AND PPC_OPC_AA);
             target = (if aa then sint BD else sint (of_nat instrOfs + BD))
         in if 0 \<le> target \<and> target < 4096 then target else -1)
      else -1)"

definition ppc_is_unconditional_branch :: "uint32 \<Rightarrow> bool" where
  "ppc_is_unconditional_branch opc =
     (let mainopc = PPC_OPC_MAIN opc in
      if mainopc = 18 then True
      else if mainopc = 16 then (drop_bit 21 opc AND 0x1f) AND 0x14 = 0x14
      else if mainopc = 19 then
        (let ext = PPC_OPC_EXT opc in
         if ext = 16 \<or> ext = 528 then (drop_bit 21 opc AND 0x1f) AND 0x14 = 0x14 else False)
      else False)"

text \<open>
  The loop of \<open>ppc_scan_block\<close>: \<open>gen\<close> collects the reads not preceded by a write of the
  block, \<open>kill\<close> the writes.  It stops after a branch, after an opaque instruction and at the
  end of the page, and nowhere else.
\<close>

definition gen_step :: "InsnEffect \<Rightarrow> LiveSet \<Rightarrow> LiveSet \<Rightarrow> LiveSet" where
  "gen_step fx gen kill =
     LiveSet (lv_gpr gen OR (gpr_read fx AND NOT (lv_gpr kill)))
             (lv_cr gen OR (cr_read fx AND NOT (lv_cr kill)))
             (lv_xer gen OR (xer_read fx AND NOT (lv_xer kill)))
             (if lr_read fx \<and> \<not> lv_lr kill then True else lv_lr gen)
             (if ctr_read fx \<and> \<not> lv_ctr kill then True else lv_ctr gen)"

definition kill_step :: "InsnEffect \<Rightarrow> LiveSet \<Rightarrow> LiveSet" where
  "kill_step fx kill =
     LiveSet (lv_gpr kill OR gpr_write fx) (lv_cr kill OR cr_write fx) (lv_xer kill OR xer_write fx)
             (if lr_write fx then True else lv_lr kill)
             (if ctr_write fx then True else lv_ctr kill)"

function scan_loop ::
  "page \<Rightarrow> (uint32 \<Rightarrow> InsnEffect) \<Rightarrow> nat \<Rightarrow> LiveSet \<Rightarrow> LiveSet \<Rightarrow> nat \<times> LiveSet \<times> LiveSet" where
  "scan_loop physpage analyze ofs gen kill =
     (if ofs < 4096 then
        let fx = analyze (page_word physpage ofs)
        in if is_everything fx then (ofs + 4, LiveSet_all_live, LiveSet_all_live)
           else
             let gen = gen_step fx gen kill;
                 kill = kill_step fx kill
             in if is_branch fx then (ofs + 4, gen, kill)
                else scan_loop physpage analyze (ofs + 4) gen kill
      else (ofs, gen, kill))"
  by pat_completeness auto
termination
  by (relation "measure (\<lambda>(p, an, ofs, g, k). 4096 - ofs)") auto

declare scan_loop.simps [simp del]

definition ppc_scan_block :: "page \<Rightarrow> nat \<Rightarrow> (uint32 \<Rightarrow> InsnEffect) \<Rightarrow> PageCFG \<Rightarrow> PageCFG \<times> nat" where
  "ppc_scan_block physpage start analyze cfg =
     (let blockIdx = length (blocks cfg);
          (ofs, gen, kill) = scan_loop physpage analyze start LiveSet_none LiveSet_none;
          blk = \<lparr>startOfs = start, endOfs = ofs, blk_gen = gen, blk_kill = kill,
                 live_in = LiveSet_none, live_out = LiveSet_none,
                 succ0 = PAGE_SUCC_NONE, succ1 = PAGE_SUCC_NONE, numSucc = 0\<rparr>
      in (\<lparr>blocks = blocks cfg @ [blk],
           blockAtOfs = (blockAtOfs cfg)(start div 4 := int blockIdx)\<rparr>, ofs))"

subsection \<open>Discovery of the blocks\<close>

text \<open>
  The work list is \<open>uint32 worklist[512]\<close>, pushed without a bounds check.  Here it is a list
  (its head is the top of the stack) and a push onto 512 entries is the error
  \<open>Worklist_Overflow\<close>: the write past the array.
\<close>

datatype cfg_error = Worklist_Overflow

definition wl_push :: "nat \<Rightarrow> nat list \<Rightarrow> cfg_error + nat list" where
  "wl_push x wl = (if length wl < 512 then Inr (x # wl) else Inl Worklist_Overflow)"

definition dfs_push :: "page \<Rightarrow> (uint32 \<Rightarrow> InsnEffect) \<Rightarrow> nat \<Rightarrow> nat list \<Rightarrow> cfg_error + nat list" where
  "dfs_push physpage analyze end_ofs wl =
     (let lastOfs = end_ofs - 4;
          lastOpc = page_word physpage lastOfs;
          lastFx = analyze lastOpc
      in if is_branch lastFx then
           let target = ppc_decode_branch_target lastOpc lastOfs;
               uncond = ppc_is_unconditional_branch lastOpc
           in (case (if 0 \<le> target \<and> target < 4096 then wl_push (nat target) wl else Inr wl) of
                 Inl e \<Rightarrow> Inl e
               | Inr wl \<Rightarrow> if \<not> uncond \<and> end_ofs < 4096 then wl_push end_ofs wl else Inr wl)
         else if is_everything lastFx then
           (if end_ofs < 4096 then wl_push end_ofs wl else Inr wl)
         else Inr wl)"

lemma length_blocks_scan:
  "length (blocks (fst (ppc_scan_block p s an cfg))) = Suc (length (blocks cfg))"
  by (simp add: ppc_scan_block_def Let_def split: prod.splits)

function dfs_loop ::
  "page \<Rightarrow> (uint32 \<Rightarrow> InsnEffect) \<Rightarrow> nat list \<Rightarrow> PageCFG \<Rightarrow> cfg_error + PageCFG" where
  "dfs_loop physpage analyze [] cfg = Inr cfg"
| "dfs_loop physpage analyze (entryOfs # wl) cfg =
     (if length (blocks cfg) < 512 then
        if 4096 \<le> entryOfs then dfs_loop physpage analyze wl cfg
        else if 0 \<le> blockAtOfs cfg (entryOfs div 4) then dfs_loop physpage analyze wl cfg
        else
          let r = ppc_scan_block physpage entryOfs analyze cfg
          in if snd r \<le> entryOfs then dfs_loop physpage analyze wl (fst r)
             else (case dfs_push physpage analyze (snd r) wl of
                     Inl e \<Rightarrow> Inl e
                   | Inr wl \<Rightarrow> dfs_loop physpage analyze wl (fst r))
      else Inr cfg)"
  by pat_completeness auto
termination
  by (relation "measures [\<lambda>(p, an, wl, cfg). 512 - length (blocks cfg), \<lambda>(p, an, wl, cfg). length wl]")
     (auto simp: length_blocks_scan)

declare dfs_loop.simps [simp del]

subsection \<open>Successor edges\<close>

definition succ_of_ofs :: "PageCFG \<Rightarrow> nat \<Rightarrow> int" where
  "succ_of_ofs cfg ofs =
     (let t = blockForOfs cfg ofs in if 0 \<le> t then t else PAGE_SUCC_OFF_PAGE)"

definition build_edges :: "page \<Rightarrow> (uint32 \<Rightarrow> InsnEffect) \<Rightarrow> PageCFG \<Rightarrow> PageBlock \<Rightarrow> PageBlock" where
  "build_edges physpage analyze cfg blk =
     (let lastOfs = endOfs blk - 4;
          lastOpc = page_word physpage lastOfs;
          lastFx = analyze lastOpc
      in if is_branch lastFx then
           let target = ppc_decode_branch_target lastOpc lastOfs;
               uncond = ppc_is_unconditional_branch lastOpc;
               blk = blk\<lparr>succ0 := if 0 \<le> target \<and> target < 4096
                                 then succ_of_ofs cfg (nat target) else PAGE_SUCC_OFF_PAGE\<rparr>
           in if uncond then blk\<lparr>numSucc := 1\<rparr>
              else blk\<lparr>succ1 := if endOfs blk < 4096 then succ_of_ofs cfg (endOfs blk)
                               else PAGE_SUCC_OFF_PAGE,
                       numSucc := 2\<rparr>
         else if is_everything lastFx then
           blk\<lparr>succ0 := if endOfs blk < 4096 then succ_of_ofs cfg (endOfs blk)
                        else PAGE_SUCC_OFF_PAGE,
               numSucc := 1\<rparr>
         else blk\<lparr>numSucc := 0\<rparr>)"

subsection \<open>The fixed-point solver\<close>

definition succs :: "PageBlock \<Rightarrow> int list" where
  "succs blk = take (numSucc blk) [succ0 blk, succ1 blk]"

fun live_out_loop :: "PageBlock list \<Rightarrow> int list \<Rightarrow> LiveSet \<Rightarrow> LiveSet" where
  "live_out_loop bs [] acc = acc"
| "live_out_loop bs (s # ss) acc =
     (if s = PAGE_SUCC_OFF_PAGE then LiveSet_all_live
      else if 0 \<le> s then live_out_loop bs ss (LiveSet_or acc (live_in (bs ! nat s)))
      else live_out_loop bs ss acc)"

definition new_live_out :: "PageBlock list \<Rightarrow> PageBlock \<Rightarrow> LiveSet" where
  "new_live_out bs blk =
     (if numSucc blk = 0 then LiveSet_all_live else live_out_loop bs (succs blk) LiveSet_none)"

definition new_live_in :: "PageBlock \<Rightarrow> LiveSet \<Rightarrow> LiveSet" where
  "new_live_in blk out = LiveSet_or (blk_gen blk) (LiveSet_and out (LiveSet_not (blk_kill blk)))"

text \<open>One pass over the blocks, from the last to the first, updating in place.\<close>

fun solver_pass :: "nat \<Rightarrow> PageBlock list \<Rightarrow> bool \<Rightarrow> PageBlock list \<times> bool" where
  "solver_pass 0 bs changed = (bs, changed)"
| "solver_pass (Suc i) bs changed =
     (let blk = bs ! i;
          out = new_live_out bs blk;
          inn = new_live_in blk out
      in if inn \<noteq> live_in blk
         then solver_pass i (bs[i := blk\<lparr>live_in := inn, live_out := out\<rparr>]) True
         else solver_pass i (bs[i := blk\<lparr>live_out := out\<rparr>]) changed)"

definition solve :: "PageBlock list \<Rightarrow> (PageBlock list \<times> bool) option" where
  "solve bs = while_option snd (\<lambda>(bs, changed). solver_pass (length bs) bs False) (bs, True)"

definition clear_live :: "PageBlock \<Rightarrow> PageBlock" where
  "clear_live blk = blk\<lparr>live_in := LiveSet_none, live_out := LiveSet_none\<rparr>"

definition ppc_build_page_cfg ::
  "page \<Rightarrow> nat \<Rightarrow> (uint32 \<Rightarrow> InsnEffect) \<Rightarrow> cfg_error + PageCFG option" where
  "ppc_build_page_cfg physpage start analyze =
     (case dfs_loop physpage analyze [start] \<lparr>blocks = [], blockAtOfs = (\<lambda>_. -1)\<rparr> of
        Inl e \<Rightarrow> Inl e
      | Inr cfg \<Rightarrow>
          let bs = map (clear_live \<circ> build_edges physpage analyze cfg) (blocks cfg)
          in Inr (map_option (\<lambda>r. cfg\<lparr>blocks := fst r\<rparr>) (solve bs)))"

end
