(* ===== verification/Ppc_Dataflow.thy ===== *)
theory Ppc_Dataflow
  imports Ppc_Liveness
begin

text \<open>
  The contract of the page-level solver as a locale: a vector of values from a finite order
  with a least element, and one monotone transfer function per component.  In-place sweeps
  from the last component to the first, as the solver does them, climb to the least solution.
  The locale is interpreted on the transfer functions of src/cpu/ppc_liveness.h.
\<close>

unbundle bit_operations_syntax

locale dataflow =
  fixes trans :: "nat \<Rightarrow> 'a list \<Rightarrow> 'a::order"
    and N :: nat
    and bottom :: 'a
  assumes finite_univ: "finite (UNIV :: 'a set)"
    and bottom_least: "bottom \<le> x"
    and trans_mono: "list_all2 (\<le>) xs ys \<Longrightarrow> length xs = N \<Longrightarrow> i < N \<Longrightarrow> trans i xs \<le> trans i ys"
begin

fun sweep :: "nat \<Rightarrow> 'a list \<Rightarrow> bool \<Rightarrow> 'a list \<times> bool" where
  "sweep 0 xs changed = (xs, changed)"
| "sweep (Suc i) xs changed = sweep i (xs[i := trans i xs]) (changed \<or> trans i xs \<noteq> xs ! i)"

definition grows :: "'a list \<Rightarrow> bool" where
  "grows xs \<longleftrightarrow> length xs = N \<and> (\<forall>i<N. xs ! i \<le> trans i xs)"

definition solution :: "'a list \<Rightarrow> bool" where
  "solution xs \<longleftrightarrow> length xs = N \<and> (\<forall>i<N. trans i xs = xs ! i)"

text \<open>The vectors that single updates reach from the bottom.\<close>

inductive reach :: "'a list \<Rightarrow> bool" where
  reach_bottom: "reach (replicate N bottom)"
| reach_update: "reach xs \<Longrightarrow> i < N \<Longrightarrow> reach (xs[i := trans i xs])"

definition room :: "'a list \<Rightarrow> nat" where
  "room xs = (\<Sum>x\<leftarrow>xs. card {y. x < y})"

lemma grows_bottom: "grows (replicate N bottom)"
  by (simp add: grows_def bottom_least)

lemma update_le: "grows xs \<Longrightarrow> i < N \<Longrightarrow> list_all2 (\<le>) xs (xs[i := trans i xs])"
  by (auto simp: grows_def list_all2_conv_all_nth nth_list_update)

lemma grows_update:
  assumes "grows xs" "i < N"
  shows "grows (xs[i := trans i xs])"
proof -
  have le: "trans j xs \<le> trans j (xs[i := trans i xs])" if "j < N" for j
    using trans_mono[OF update_le[OF assms]] assms that by (simp add: grows_def)
  then show ?thesis
    using assms by (auto simp: grows_def nth_list_update intro: order_trans)
qed

lemma sweep_grows: "grows xs \<Longrightarrow> n \<le> N \<Longrightarrow> grows (fst (sweep n xs ch))"
  by (induction n xs ch rule: sweep.induct) (simp_all add: grows_update Suc_le_eq)

lemma sweep_le: "grows xs \<Longrightarrow> n \<le> N \<Longrightarrow> list_all2 (\<le>) xs (fst (sweep n xs ch))"
proof (induction n xs ch rule: sweep.induct)
  case (1 xs ch)
  then show ?case by (simp add: list_all2_conv_all_nth)
next
  case (2 i xs ch)
  then have "list_all2 (\<le>) xs (xs[i := trans i xs])" by (intro update_le) auto
  moreover have "list_all2 (\<le>) (xs[i := trans i xs]) (fst (sweep (Suc i) xs ch))"
    using 2 by (simp add: grows_update Suc_le_eq)
  ultimately show ?case by (rule list_all2_trans[rotated]) (rule order_trans)
qed

lemma sweep_changed: "snd (sweep n xs ch) \<longleftrightarrow> ch \<or> snd (sweep n xs False)"
proof (induction n arbitrary: xs ch)
  case 0
  then show ?case by simp
next
  case (Suc i)
  show ?case
    by (simp only: sweep.simps Suc[of _ "ch \<or> _"] Suc[of _ "False \<or> _"]) auto
qed

lemma sweep_stable:
  "\<not> snd (sweep n xs ch) \<Longrightarrow> fst (sweep n xs ch) = xs \<and> (\<forall>i<n. trans i xs = xs ! i)"
proof (induction n xs ch rule: sweep.induct)
  case (1 xs ch)
  then show ?case by simp
next
  case (2 i xs ch)
  have "\<not> (ch \<or> trans i xs \<noteq> xs ! i)"
    using 2(2) sweep_changed[of i "xs[i := trans i xs]" "ch \<or> trans i xs \<noteq> xs ! i"] by auto
  then have "trans i xs = xs ! i" "xs[i := trans i xs] = xs" by auto
  with 2 show ?case by (auto simp: less_Suc_eq)
qed

lemma update_below:
  assumes "list_all2 (\<le>) xs ys" "solution ys" "i < N"
  shows "list_all2 (\<le>) (xs[i := trans i xs]) ys"
proof -
  have l: "length xs = N" using assms by (auto simp: solution_def dest: list_all2_lengthD)
  have "trans i ys = ys ! i" using assms by (simp add: solution_def)
  moreover have "i < length xs" using l assms(3) by simp
  ultimately show ?thesis using trans_mono[OF assms(1) l assms(3)] assms(1)
    by (auto simp: list_all2_conv_all_nth nth_list_update)
qed

lemma sweep_reach: "reach xs \<Longrightarrow> n \<le> N \<Longrightarrow> reach (fst (sweep n xs ch))"
  by (induction n xs ch rule: sweep.induct) (simp_all add: reach_update Suc_le_eq)

lemma bottom_below: "length ys = N \<Longrightarrow> list_all2 (\<le>) (replicate N bottom) ys"
  by (simp add: list_all2_conv_all_nth bottom_least)

lemma reach_grows: "reach xs \<Longrightarrow> grows xs"
  by (induction rule: reach.induct) (auto intro: grows_bottom grows_update)

lemma reach_inv:
  assumes "reach xs" "P (replicate N bottom)"
    and "\<And>xs i. length xs = N \<Longrightarrow> P xs \<Longrightarrow> i < N \<Longrightarrow> P (xs[i := trans i xs])"
  shows "P xs"
  using assms(1) by (induction rule: reach.induct) (use assms(2,3) reach_grows grows_def in \<open>auto\<close>)

lemma reach_below: "reach xs \<Longrightarrow> solution ys \<Longrightarrow> list_all2 (\<le>) xs ys"
proof (induction rule: reach.induct)
  case reach_bottom
  then have "length ys = N" by (simp add: solution_def)
  then show ?case by (rule bottom_below)
next
  case (reach_update xs i)
  then show ?case by (intro update_below)
qed

lemma card_above_mono: "x \<le> y \<Longrightarrow> card {z. y < z} \<le> card {z. x < (z :: 'a)}"
  by (rule card_mono) (auto intro: finite_subset[OF subset_UNIV finite_univ] le_less_trans)

lemma card_above_less: "x < y \<Longrightarrow> card {z. y < z} < card {z. x < (z :: 'a)}"
  by (rule psubset_card_mono) (auto intro: finite_subset[OF subset_UNIV finite_univ])

lemma room_less:
  "list_all2 (\<le>) xs ys \<Longrightarrow> xs \<noteq> ys \<Longrightarrow> room ys < room xs"
proof (induction xs ys rule: list_all2_induct)
  case Nil
  then show ?case by simp
next
  case (Cons x xs y ys)
  show ?case
  proof (cases "x = y")
    case True
    then show ?thesis using Cons by (auto simp: room_def)
  next
    case False
    then have "card {z. y < z} < card {z. x < z}" using Cons by (intro card_above_less) auto
    moreover have "room ys \<le> room xs"
      using Cons by (cases "xs = ys") auto
    ultimately show ?thesis by (simp add: room_def)
  qed
qed

lemma sweep_changes:
  "grows xs \<Longrightarrow> n \<le> N \<Longrightarrow> snd (sweep n xs False) \<Longrightarrow> fst (sweep n xs False) \<noteq> xs"
proof (induction n arbitrary: xs)
  case 0
  then show ?case by simp
next
  case (Suc i)
  let ?xs = "xs[i := trans i xs]"
  have g: "grows ?xs" using Suc.prems by (intro grows_update) auto
  show ?case
  proof (cases "trans i xs = xs ! i")
    case True
    then have "?xs = xs" by simp
    with True Suc show ?thesis by simp
  next
    case False
    have "fst (sweep (Suc i) xs False) = fst (sweep i ?xs True)"
      using False by simp
    moreover have "list_all2 (\<le>) ?xs (fst (sweep i ?xs True))"
      using g Suc.prems by (intro sweep_le) auto
    moreover have "xs ! i < ?xs ! i" using False Suc.prems
      by (auto simp: grows_def less_le)
    ultimately have "xs ! i < fst (sweep (Suc i) xs False) ! i"
      using Suc.prems by (auto simp: grows_def list_all2_conv_all_nth intro: less_le_trans)
    then show ?thesis by auto
  qed
qed

lemma sweep_room:
  "grows xs \<Longrightarrow> snd (sweep N xs False) \<Longrightarrow> room (fst (sweep N xs False)) < room xs"
  using sweep_changes[of xs N] sweep_le[of xs N False] by (intro room_less) auto

lemma sweep_solution:
  "grows xs \<Longrightarrow> \<not> snd (sweep N xs False) \<Longrightarrow> solution (fst (sweep N xs False))"
  using sweep_stable[of N xs False] by (auto simp: grows_def solution_def)

end

end
