(* ===== verification/Ppc_Live_Solver.thy ===== *)
theory Ppc_Live_Solver
  imports Ppc_Dataflow
begin

text \<open>
  The solver of \<open>ppc_build_page_cfg\<close> (src/cpu/ppc_liveness.h): its pass is the sweep of the
  locale \<open>dataflow\<close>, its loop ends, and what it leaves in the blocks is the least solution
  of the liveness equations.
\<close>

unbundle bit_operations_syntax

subsection \<open>Live sets as sets of resources\<close>

datatype resource = RGpr nat | RCr nat | RXer nat | RLr | RCtr

fun live :: "LiveSet \<Rightarrow> resource \<Rightarrow> bool" where
  "live L (RGpr n) = bit (lv_gpr L) n"
| "live L (RCr n) = bit (lv_cr L) n"
| "live L (RXer n) = bit (lv_xer L) n"
| "live L RLr = lv_lr L"
| "live L RCtr = lv_ctr L"

text \<open>The resources the analysis tracks: 32 GPRs, 32 CR bits, CA, OV and SO, LR and CTR.\<close>

fun tracked :: "resource \<Rightarrow> bool" where
  "tracked (RGpr n) = (n < 32)"
| "tracked (RCr n) = (n < 32)"
| "tracked (RXer n) = (n < 3)"
| "tracked RLr = True"
| "tracked RCtr = True"

lemma bit_XER_BIT_ALL: "bit XER_BIT_ALL n \<longleftrightarrow> n < 3"
proof -
  have "XER_BIT_ALL = mask 3" by (simp add: xer_bit_defs mask_eq_exp_minus_1)
  then show ?thesis unfolding \<open>XER_BIT_ALL = mask 3\<close> by (auto simp: bit_mask_iff simp del: mask_numeral)
qed

lemma live_none [simp]: "\<not> live LiveSet_none r"
  by (cases r) (simp_all add: LiveSet_none_def)

lemma live_all [simp]: "live LiveSet_all_live r \<longleftrightarrow> tracked r"
proof -
  have "(0xFFFFFFFF :: uint32) = - 1" by simp
  then have "bit (0xFFFFFFFF :: uint32) n \<longleftrightarrow> n < 32" for n
    by (simp only: bit_minus_1_iff) simp
  then show ?thesis by (cases r) (simp_all add: LiveSet_all_live_def bit_XER_BIT_ALL)
qed

lemma live_or [simp]: "live (LiveSet_or a b) r \<longleftrightarrow> live a r \<or> live b r"
  by (cases a; cases b; cases r) (simp_all add: bit_or_iff)

lemma live_and [simp]: "live (LiveSet_and a b) r \<longleftrightarrow> live a r \<and> live b r"
  by (cases a; cases b; cases r) (simp_all add: bit_and_iff)

lemma live_not [simp]: "live (LiveSet_not a) r \<longleftrightarrow> tracked r \<and> \<not> live a r"
  by (cases a; cases r) (auto simp: bit_not_iff bit_and_iff bit_XER_BIT_ALL)

lemma LiveSet_eqI: "(\<And>r. live a r \<longleftrightarrow> live b r) \<Longrightarrow> a = b"
proof (cases a; cases b)
  fix g c x l t g' c' x' l' t'
  assume e: "\<And>r. live a r \<longleftrightarrow> live b r" and "a = LiveSet g c x l t" "b = LiveSet g' c' x' l' t'"
  then have "bit g = bit g'" "bit c = bit c'" "bit x = bit x'" "l = l'" "t = t'"
    using e[of "RGpr _"] e[of "RCr _"] e[of "RXer _"] e[of RLr] e[of RCtr] by auto
  then show "a = b" using \<open>a = _\<close> \<open>b = _\<close> by (auto simp: bit_eq_iff)
qed

lemma LiveSet_le_iff: "a \<le> b \<longleftrightarrow> (\<forall>r. live a r \<longrightarrow> live b r)"
proof
  assume "a \<le> b"
  then have "LiveSet_or a b = b" by (simp add: less_eq_LiveSet_def)
  then show "\<forall>r. live a r \<longrightarrow> live b r" by (metis live_or)
next
  assume "\<forall>r. live a r \<longrightarrow> live b r"
  then have "LiveSet_or a b = b" by (intro LiveSet_eqI) auto
  then show "a \<le> b" by (simp add: less_eq_LiveSet_def)
qed

lemma finite_LiveSet: "finite (UNIV :: LiveSet set)"
proof -
  have "inj (\<lambda>L. (lv_gpr L, lv_cr L, lv_xer L, lv_lr L, lv_ctr L))"
    by (rule injI) (simp add: LiveSet.expand)
  moreover have "finite (UNIV :: (uint32 \<times> uint32 \<times> uint8 \<times> bool \<times> bool) set)"
    by simp
  ultimately show ?thesis
    using finite_imageD[OF finite_subset[OF subset_UNIV]] by blast
qed

subsection \<open>The transfer functions\<close>

text \<open>\<open>wf_blocks\<close>: the successor indices of the blocks are indices of blocks.\<close>

definition wf_blocks :: "PageBlock list \<Rightarrow> bool" where
  "wf_blocks bs \<longleftrightarrow> (\<forall>b\<in>set bs. \<forall>s\<in>set (succs b). s < int (length bs))"

definition with_live_in :: "PageBlock list \<Rightarrow> LiveSet list \<Rightarrow> PageBlock list" where
  "with_live_in bs xs = map2 (\<lambda>b x. b\<lparr>live_in := x\<rparr>) bs xs"

definition block_trans :: "PageBlock list \<Rightarrow> nat \<Rightarrow> LiveSet list \<Rightarrow> LiveSet" where
  "block_trans bs i xs = new_live_in (bs ! i) (new_live_out (with_live_in bs xs) (bs ! i))"

text \<open>The liveness equations of the source's comment, over the blocks' own fields.\<close>

definition live_equations :: "PageBlock list \<Rightarrow> bool" where
  "live_equations bs \<longleftrightarrow>
     (\<forall>i<length bs. live_out (bs ! i) = new_live_out bs (bs ! i) \<and>
                    live_in (bs ! i) = new_live_in (bs ! i) (live_out (bs ! i)))"

lemma length_with_live_in [simp]: "length xs = length bs \<Longrightarrow> length (with_live_in bs xs) = length bs"
  by (simp add: with_live_in_def)

lemma nth_with_live_in [simp]:
  "length xs = length bs \<Longrightarrow> i < length bs \<Longrightarrow> with_live_in bs xs ! i = (bs ! i)\<lparr>live_in := xs ! i\<rparr>"
  by (simp add: with_live_in_def)

lemma live_out_loop_mono:
  assumes "\<forall>s\<in>set ss. s < int n" "\<forall>i<n. live_in (bs ! i) \<le> live_in (bs' ! i)" "acc \<le> acc'"
  shows "live_out_loop bs ss acc \<le> live_out_loop bs' ss acc'"
  using assms
proof (induction ss arbitrary: acc acc')
  case Nil
  then show ?case by simp
next
  case (Cons s ss)
  have "LiveSet_or acc (live_in (bs ! nat s)) \<le> LiveSet_or acc' (live_in (bs' ! nat s))" if "0 \<le> s"
  proof -
    have "live_in (bs ! nat s) \<le> live_in (bs' ! nat s)" using that Cons.prems by auto
    with Cons.prems(3) show ?thesis by (auto simp: LiveSet_le_iff)
  qed
  then show ?case using Cons by auto
qed

lemma new_live_out_mono:
  assumes "\<forall>s\<in>set (succs b). s < int n" "\<forall>i<n. live_in (bs ! i) \<le> live_in (bs' ! i)"
  shows "new_live_out bs b \<le> new_live_out bs' b"
  using live_out_loop_mono[OF assms order_refl] by (auto simp: new_live_out_def)

lemma new_live_in_mono: "a \<le> b \<Longrightarrow> new_live_in blk a \<le> new_live_in blk b"
  by (auto simp: LiveSet_le_iff new_live_in_def)

lemma block_trans_mono:
  assumes "wf_blocks bs" "list_all2 (\<le>) xs ys" "length xs = length bs" "i < length bs"
  shows "block_trans bs i xs \<le> block_trans bs i ys"
proof -
  have "length ys = length bs" using assms by (auto dest: list_all2_lengthD)
  moreover have "\<forall>j<length bs. xs ! j \<le> ys ! j" using assms by (auto simp: list_all2_conv_all_nth)
  ultimately show ?thesis
    unfolding block_trans_def using assms
    by (intro new_live_in_mono new_live_out_mono[where n = "length bs"]) (auto simp: wf_blocks_def)
qed

subsection \<open>The pass\<close>

definition same_code :: "PageBlock list \<Rightarrow> PageBlock list \<Rightarrow> bool" where
  "same_code bs cs \<longleftrightarrow> map clear_live cs = map clear_live bs"

lemma same_code_length: "same_code bs cs \<Longrightarrow> length cs = length bs"
  unfolding same_code_def by (rule map_eq_imp_length_eq)

lemma same_code_nth: "same_code bs cs \<Longrightarrow> i < length bs \<Longrightarrow> clear_live (cs ! i) = clear_live (bs ! i)"
  unfolding same_code_def by (metis length_map nth_map)

lemma clear_live_fields:
  "clear_live a = clear_live b \<Longrightarrow> blk_gen a = blk_gen b \<and> blk_kill a = blk_kill b \<and> succs a = succs b \<and> numSucc a = numSucc b"
  by (cases a; cases b) (simp add: clear_live_def succs_def)

lemma same_code_update:
  "same_code bs cs \<Longrightarrow> i < length bs \<Longrightarrow> same_code bs (cs[i := (cs ! i)\<lparr>live_in := x, live_out := y\<rparr>])"
  "same_code bs cs \<Longrightarrow> i < length bs \<Longrightarrow> same_code bs (cs[i := (cs ! i)\<lparr>live_out := y\<rparr>])"
proof -
  assume s: "same_code bs cs" and i: "i < length bs"
  have "map clear_live cs ! i = clear_live (cs ! i)" using i same_code_length[OF s] by simp
  then have "(map clear_live cs)[i := clear_live (cs ! i)] = map clear_live cs"
    by (metis list_update_id)
  then show "same_code bs (cs[i := (cs ! i)\<lparr>live_in := x, live_out := y\<rparr>])"
    and "same_code bs (cs[i := (cs ! i)\<lparr>live_out := y\<rparr>])"
    using s by (simp_all add: same_code_def map_update clear_live_def)
qed

lemma live_out_loop_cong:
  assumes "\<forall>s\<in>set ss. s < int n" "\<forall>i<n. live_in (bs ! i) = live_in (bs' ! i)"
  shows "live_out_loop bs ss acc = live_out_loop bs' ss acc"
  using assms by (induction ss arbitrary: acc) auto

lemma new_live_out_cong:
  assumes "\<forall>s\<in>set (succs b). s < int n" "\<forall>i<n. live_in (bs ! i) = live_in (bs' ! i)"
    "succs b = succs b'" "numSucc b = numSucc b'"
  shows "new_live_out bs b = new_live_out bs' b'"
  using assms(3,4) live_out_loop_cong[OF assms(1,2)] by (simp add: new_live_out_def)

lemma block_trans_live_in:
  assumes "wf_blocks bs" "same_code bs cs" "i < length bs"
  shows "block_trans bs i (map live_in cs) = new_live_in (cs ! i) (new_live_out cs (cs ! i))"
proof -
  note l = same_code_length[OF assms(2)]
  note f = clear_live_fields[OF same_code_nth[OF assms(2,3)]]
  have "new_live_out (with_live_in bs (map live_in cs)) (bs ! i) = new_live_out cs (cs ! i)"
    using assms l f by (intro new_live_out_cong[where n = "length bs"]) (auto simp: wf_blocks_def)
  then show ?thesis using f by (simp add: block_trans_def new_live_in_def)
qed

interpretation flow: dataflow "block_trans bs" "if wf_blocks bs then length bs else 0" LiveSet_none for bs
proof
  show "finite (UNIV :: LiveSet set)" by (rule finite_LiveSet)
  show "LiveSet_none \<le> x" for x by (simp add: LiveSet_le_iff)
  show "block_trans bs i xs \<le> block_trans bs i ys"
    if "list_all2 (\<le>) xs ys" "length xs = (if wf_blocks bs then length bs else 0)"
      "i < (if wf_blocks bs then length bs else 0)" for xs ys i
    using that block_trans_mono[of bs xs ys i] by (auto split: if_splits)
qed

lemma solver_pass_sweep:
  assumes "wf_blocks bs" "same_code bs cs" "n \<le> length bs"
  shows "same_code bs (fst (solver_pass n cs ch)) \<and>
    map live_in (fst (solver_pass n cs ch)) = fst (dataflow.sweep (block_trans bs) n (map live_in cs) ch) \<and>
    snd (solver_pass n cs ch) = snd (dataflow.sweep (block_trans bs) n (map live_in cs) ch)"
  using assms(2,3)
proof (induction n arbitrary: cs ch)
  case 0
  then show ?case by simp
next
  case (Suc i)
  let ?x = "block_trans bs i (map live_in cs)"
  let ?o = "new_live_out cs (cs ! i)"
  have i: "i < length bs" using Suc.prems by simp
  note l = same_code_length[OF Suc.prems(1)]
  note x = block_trans_live_in[OF assms(1) Suc.prems(1) i]
  note sc = same_code_update[OF Suc.prems(1) i]
  have nth: "map live_in cs ! i = live_in (cs ! i)" using i l by simp
  show ?case
  proof (cases "?x = live_in (cs ! i)")
    case True
    have "map live_in (cs[i := (cs ! i)\<lparr>live_out := ?o\<rparr>]) = (map live_in cs)[i := ?x]"
      using True i l by (simp add: map_update)
    with Suc.IH[OF sc(2)[of ?o], of ch] True x nth i show ?thesis by (simp add: Let_def)
  next
    case False
    have "map live_in (cs[i := (cs ! i)\<lparr>live_in := ?x, live_out := ?o\<rparr>]) = (map live_in cs)[i := ?x]"
      using i l by (simp add: map_update)
    with Suc.IH[OF sc(1)[where x = ?x and y = ?o], of True] False x nth i show ?thesis by (simp add: Let_def)
  qed
qed

text \<open>After a pass that changes nothing, the live-out of each block is up to date as well.\<close>

lemma solver_pass_live_out:
  assumes "wf_blocks bs" "same_code bs cs" "n \<le> length bs" "\<not> snd (solver_pass n cs ch)"
  shows "(\<forall>i. i \<ge> n \<and> i < length bs \<longrightarrow> live_out (cs ! i) = new_live_out cs (cs ! i)) \<Longrightarrow>
    \<forall>i<length bs. live_out (fst (solver_pass n cs ch) ! i) =
      new_live_out (fst (solver_pass n cs ch)) (fst (solver_pass n cs ch) ! i)"
  using assms(2-4)
proof (induction n arbitrary: cs ch)
  case 0
  then show ?case by simp
next
  case (Suc i)
  let ?o = "new_live_out cs (cs ! i)"
  let ?cs = "cs[i := (cs ! i)\<lparr>live_out := ?o\<rparr>]"
  have i: "i < length bs" using Suc.prems by simp
  note l = same_code_length[OF Suc.prems(2)]
  note sc = same_code_update[OF Suc.prems(2) i]
  have not: "new_live_in (cs ! i) ?o = live_in (cs ! i)"
  proof (rule ccontr)
    assume a: "\<not> ?thesis"
    then have s: "solver_pass (Suc i) cs ch =
      solver_pass i (cs[i := (cs ! i)\<lparr>live_in := new_live_in (cs ! i) ?o, live_out := ?o\<rparr>]) True"
      by (simp add: Let_def)
    have "snd (solver_pass (Suc i) cs ch)"
      unfolding s using solver_pass_sweep[OF assms(1) sc(1)[where x = "new_live_in (cs ! i) ?o" and y = ?o], of i True]
        flow.sweep_changed[of bs i _ True] i by simp
    with Suc.prems show False by simp
  qed
  have s: "solver_pass (Suc i) cs ch = solver_pass i ?cs ch" using not by (simp add: Let_def)
  have wf: "\<forall>s\<in>set (succs (cs ! j)). s < int (length bs)" if "j < length bs" for j
    using assms(1) that clear_live_fields[OF same_code_nth[OF Suc.prems(2) that]]
    by (auto simp: wf_blocks_def)
  have cong: "new_live_out ?cs (?cs ! j) = new_live_out cs (cs ! j)" if "j < length bs" for j
    using wf that i l
    by (intro new_live_out_cong[where n = "length bs"]) (auto simp: nth_list_update succs_def)
  have upd: "\<forall>j. i \<le> j \<and> j < length bs \<longrightarrow> live_out (?cs ! j) = new_live_out ?cs (?cs ! j)"
    using Suc.prems(1) cong i l by (auto simp: nth_list_update)
  have ns: "\<not> snd (solver_pass i ?cs ch)" using Suc.prems(4) unfolding s .
  show ?case
    unfolding s using i by (intro Suc.IH[OF upd sc(2) _ ns]) simp
qed

subsection \<open>The loop\<close>

definition solver_inv :: "PageBlock list \<Rightarrow> PageBlock list \<times> bool \<Rightarrow> bool" where
  "solver_inv bs st \<longleftrightarrow>
     (case st of (cs, ch) \<Rightarrow>
        same_code bs cs \<and>
        dataflow.reach (block_trans bs) (length bs) LiveSet_none (map live_in cs) \<and>
        (\<not> ch \<longrightarrow> live_equations cs))"

lemma solver_step:
  assumes wf: "wf_blocks bs" and inv: "solver_inv bs (cs, ch)"
  shows "solver_inv bs (solver_pass (length cs) cs False)"
    and "snd (solver_pass (length cs) cs False) \<Longrightarrow>
      dataflow.room (map live_in (fst (solver_pass (length cs) cs False))) < dataflow.room (map live_in cs)"
proof -
  note fl = flow.reach_grows[where bs = bs] flow.sweep_reach[where bs = bs]
    flow.sweep_solution[where bs = bs] flow.sweep_room[where bs = bs]
  note fl = fl[unfolded if_P[OF wf]]
  have sc: "same_code bs cs"
    and r: "dataflow.reach (block_trans bs) (length bs) LiveSet_none (map live_in cs)"
    using inv by (auto simp: solver_inv_def)
  note g = fl(1)[OF r]
  have l: "length cs = length bs" by (rule same_code_length[OF sc])
  let ?p = "solver_pass (length bs) cs False"
  note p = solver_pass_sweep[OF wf sc order_refl, of False]
  have "live_equations (fst ?p)" if n: "\<not> snd ?p"
  proof -
    have sc': "same_code bs (fst ?p)" using p by simp
    have lo: "\<forall>i<length bs. live_out (fst ?p ! i) = new_live_out (fst ?p) (fst ?p ! i)"
      by (rule solver_pass_live_out[OF wf sc order_refl n]) auto
    have sol: "dataflow.solution (block_trans bs) (length bs) (map live_in (fst ?p))"
      using fl(3)[OF g] n p by simp
    have "live_in (fst ?p ! i) = new_live_in (fst ?p ! i) (live_out (fst ?p ! i))" if i: "i < length bs" for i
    proof -
      have "block_trans bs i (map live_in (fst ?p)) = map live_in (fst ?p) ! i"
        using sol i flow.solution_def[where bs = bs] wf by simp
      then show ?thesis
        using block_trans_live_in[OF wf sc' i] lo i same_code_length[OF sc'] by simp
    qed
    with lo show ?thesis by (simp add: live_equations_def same_code_length[OF sc'])
  qed
  then show "solver_inv bs (solver_pass (length cs) cs False)"
    unfolding solver_inv_def l using fl(2)[OF r order_refl] p
    by (auto split: prod.splits)
  show "snd (solver_pass (length cs) cs False) \<Longrightarrow>
      dataflow.room (map live_in (fst (solver_pass (length cs) cs False))) < dataflow.room (map live_in cs)"
    unfolding l using fl(4)[OF g] p by simp
qed

lemma solver_inv_init:
  assumes "wf_blocks bs" "\<forall>b\<in>set bs. live_in b = LiveSet_none"
  shows "solver_inv bs (bs, True)"
proof -
  have r: "map live_in bs = replicate (length bs) LiveSet_none"
    using assms(2) by (intro replicate_eqI) auto
  show ?thesis
    using flow.reach_bottom[where bs = bs, unfolded if_P[OF assms(1)]]
    by (simp add: solver_inv_def same_code_def r)
qed

lemma solve_returns:
  assumes "wf_blocks bs" "\<forall>b\<in>set bs. live_in b = LiveSet_none"
  shows "\<exists>cs. solve bs = Some (cs, False) \<and> solver_inv bs (cs, False)"
proof -
  let ?c = "\<lambda>(cs, ch). solver_pass (length cs) cs False"
  let ?m = "\<lambda>(cs, ch). if ch then Suc (dataflow.room (map live_in cs)) else 0"
  have step: "solver_inv bs st \<Longrightarrow> snd st \<Longrightarrow> solver_inv bs (?c st) \<and> ?m (?c st) < ?m st" for st
    using solver_step[OF assms(1), of "fst st" "snd st"] by (auto split: prod.splits)
  have "\<exists>r. solve bs = Some r"
    unfolding solve_def
    by (rule measure_while_option_Some[where P = "solver_inv bs" and f = ?m])
      (use step solver_inv_init[OF assms] in \<open>blast+\<close>)
  then obtain st where s: "while_option snd ?c (bs, True) = Some st"
    by (auto simp: solve_def)
  have "\<not> snd st" using while_option_stop[OF s] .
  moreover have "solver_inv bs st"
    using while_option_rule[where P = "solver_inv bs", OF _ s solver_inv_init[OF assms]] step by blast
  ultimately show ?thesis using s by (cases st) (auto simp: solve_def)
qed

subsection \<open>The blocks of a page\<close>

definition cfg_ok :: "PageCFG \<Rightarrow> bool" where
  "cfg_ok cfg \<longleftrightarrow> length (blocks cfg) \<le> 512 \<and> (\<forall>k. blockAtOfs cfg k < int (length (blocks cfg)))"

lemma cfg_ok_scan:
  assumes "cfg_ok cfg" "length (blocks cfg) < 512"
  shows "cfg_ok (fst (ppc_scan_block p s an cfg))"
proof -
  obtain ofs gen kill where e: "scan_loop p an s LiveSet_none LiveSet_none = (ofs, gen, kill)"
    by (cases "scan_loop p an s LiveSet_none LiveSet_none") auto
  have "blockAtOfs cfg k < 1 + int (length (blocks cfg))" for k
  proof -
    have "blockAtOfs cfg k < int (length (blocks cfg))" using assms(1) by (simp add: cfg_ok_def)
    then show ?thesis by simp
  qed
  then show ?thesis using assms(2) by (simp add: cfg_ok_def ppc_scan_block_def e)
qed

lemma dfs_loop_ok: "cfg_ok cfg \<Longrightarrow> dfs_loop p an wl cfg = Inr cfg' \<Longrightarrow> cfg_ok cfg'"
proof (induction p an wl cfg rule: dfs_loop.induct)
  case (1 p an cfg)
  then show ?case by (simp add: dfs_loop.simps)
next
  case (2 p an e wl cfg)
  show ?case
  proof (cases "length (blocks cfg) < 512")
    case False
    then show ?thesis using 2 by (simp add: dfs_loop.simps)
  next
    case True
    note ok = cfg_ok_scan[OF 2(5) True]
    show ?thesis
      using 2(6) True ok 2(1-4) 2(5)
      by (subst (asm) (1) dfs_loop.simps) (auto simp: Let_def split: if_splits sum.splits)
  qed
qed

lemma wf_build_edges:
  assumes "cfg_ok cfg"
  shows "wf_blocks (map (clear_live \<circ> build_edges p an cfg) (blocks cfg))"
proof -
  have b: "succ_of_ofs cfg k < int (length (blocks cfg))" for k
    using assms by (simp add: succ_of_ofs_def Let_def blockForOfs_def cfg_ok_def PAGE_SUCC_OFF_PAGE_def)
  have "s < int (length (blocks cfg))"
    if "s \<in> set (succs (build_edges p an cfg blk))" for s blk
    using that b
    by (auto simp: succs_def build_edges_def Let_def PAGE_SUCC_OFF_PAGE_def numeral_2_eq_2 split: if_splits)
  moreover have "succs (clear_live blk) = succs blk" for blk
    by (simp add: succs_def clear_live_def)
  ultimately show ?thesis by (auto simp: wf_blocks_def)
qed

lemma page_cfg_solved:
  "ppc_build_page_cfg p s an = Inl Worklist_Overflow \<or>
   (\<exists>bs cfg. ppc_build_page_cfg p s an = Inr (Some cfg) \<and> wf_blocks bs \<and> length bs \<le> 512 \<and>
      solver_inv bs (blocks cfg, False))"
proof (cases "dfs_loop p an [s] \<lparr>blocks = [], blockAtOfs = (\<lambda>_. -1)\<rparr>")
  case (Inl e)
  then show ?thesis by (cases e) (simp add: ppc_build_page_cfg_def)
next
  case (Inr cfg)
  let ?bs = "map (clear_live \<circ> build_edges p an cfg) (blocks cfg)"
  have ok: "cfg_ok cfg" by (rule dfs_loop_ok[OF _ Inr]) (simp add: cfg_ok_def)
  have "\<exists>cs. solve ?bs = Some (cs, False) \<and> solver_inv ?bs (cs, False)"
    by (rule solve_returns[OF wf_build_edges[OF ok]]) (auto simp: clear_live_def)
  then obtain cs where "solve ?bs = Some (cs, False)" "solver_inv ?bs (cs, False)" by blast
  then have "ppc_build_page_cfg p s an = Inr (Some (cfg\<lparr>blocks := cs\<rparr>)) \<and> wf_blocks ?bs \<and>
      length ?bs \<le> 512 \<and> solver_inv ?bs (blocks (cfg\<lparr>blocks := cs\<rparr>), False)"
    using Inr wf_build_edges[OF ok] ok by (simp add: ppc_build_page_cfg_def cfg_ok_def)
  then show ?thesis by blast
qed

subsection \<open>Liveness along the paths of the page\<close>

text \<open>
  A resource is exposed at a block when some path of successor edges from it reaches a read
  before any write: a read in \<open>gen\<close>, or leaving the page, where every resource counts as read.
\<close>

inductive exposed :: "PageBlock list \<Rightarrow> nat \<Rightarrow> resource \<Rightarrow> bool" for bs where
  exposed_gen: "i < length bs \<Longrightarrow> live (blk_gen (bs ! i)) r \<Longrightarrow> exposed bs i r"
| exposed_end: "i < length bs \<Longrightarrow> numSucc (bs ! i) = 0 \<or> PAGE_SUCC_OFF_PAGE \<in> set (succs (bs ! i)) \<Longrightarrow>
    tracked r \<Longrightarrow> \<not> live (blk_kill (bs ! i)) r \<Longrightarrow> exposed bs i r"
| exposed_succ: "i < length bs \<Longrightarrow> int j \<in> set (succs (bs ! i)) \<Longrightarrow> exposed bs j r \<Longrightarrow>
    tracked r \<Longrightarrow> \<not> live (blk_kill (bs ! i)) r \<Longrightarrow> exposed bs i r"

inductive_cases exposedE: "exposed bs i r"

lemma live_out_loop_iff:
  "live (live_out_loop bs ss acc) r \<longleftrightarrow>
     (if PAGE_SUCC_OFF_PAGE \<in> set ss then tracked r
      else live acc r \<or> (\<exists>s\<in>set ss. 0 \<le> s \<and> live (live_in (bs ! nat s)) r))"
  by (induction ss arbitrary: acc) (auto simp: PAGE_SUCC_OFF_PAGE_def)

lemma live_new_live_in:
  "live (new_live_in b (new_live_out bs b')) r \<longleftrightarrow> live (blk_gen b) r \<or>
     tracked r \<and> \<not> live (blk_kill b) r \<and>
     (numSucc b' = 0 \<or> PAGE_SUCC_OFF_PAGE \<in> set (succs b') \<or>
      (\<exists>s\<in>set (succs b'). 0 \<le> s \<and> live (live_in (bs ! nat s)) r))"
  by (auto simp: new_live_in_def new_live_out_def live_out_loop_iff)

lemma live_in_equation:
  assumes "live_equations bs" "i < length bs"
  shows "live (live_in (bs ! i)) r \<longleftrightarrow> live (blk_gen (bs ! i)) r \<or>
     tracked r \<and> \<not> live (blk_kill (bs ! i)) r \<and>
     (numSucc (bs ! i) = 0 \<or> PAGE_SUCC_OFF_PAGE \<in> set (succs (bs ! i)) \<or>
      (\<exists>s\<in>set (succs (bs ! i)). 0 \<le> s \<and> live (live_in (bs ! nat s)) r))"
proof -
  have "live_in (bs ! i) = new_live_in (bs ! i) (new_live_out bs (bs ! i))"
    using assms by (simp add: live_equations_def)
  then show ?thesis by (simp only: live_new_live_in)
qed

lemma exposed_sound:
  assumes "live_equations bs"
  shows "exposed bs i r \<Longrightarrow> live (live_in (bs ! i)) r"
proof (induction rule: exposed.induct)
  case (exposed_gen i r)
  then show ?case using live_in_equation[OF assms exposed_gen(1)] by blast
next
  case (exposed_end i r)
  then show ?case using live_in_equation[OF assms exposed_end(1)] by blast
next
  case (exposed_succ i j r)
  have "0 \<le> int j \<and> live (live_in (bs ! nat (int j))) r" using exposed_succ by simp
  then show ?case
    using live_in_equation[OF assms exposed_succ(1)] exposed_succ by blast
qed

lemma reach_exposed:
  assumes "wf_blocks bs" "dataflow.reach (block_trans bs) (length bs) LiveSet_none xs"
  shows "\<forall>i r. i < length bs \<longrightarrow> live (xs ! i) r \<longrightarrow> exposed bs i r"
proof (rule flow.reach_inv[where bs = bs, unfolded if_P[OF assms(1)], OF assms(2)])
  show "\<forall>i r. i < length bs \<longrightarrow> live (replicate (length bs) LiveSet_none ! i) r \<longrightarrow> exposed bs i r"
    by simp
next
  fix xs k
  assume l: "length xs = length bs" and k: "k < length bs"
    and IH: "\<forall>i r. i < length bs \<longrightarrow> live (xs ! i) r \<longrightarrow> exposed bs i r"
  have "exposed bs k r" if r: "live (block_trans bs k xs) r" for r
  proof (cases "\<exists>s\<in>set (succs (bs ! k)). 0 \<le> s \<and> live (live_in (with_live_in bs xs ! nat s)) r
      \<and> tracked r \<and> \<not> live (blk_kill (bs ! k)) r")
    case True
    then obtain s where s: "s \<in> set (succs (bs ! k))" "0 \<le> s" "live (live_in (with_live_in bs xs ! nat s)) r"
      "tracked r" "\<not> live (blk_kill (bs ! k)) r" by blast
    then have "s < int (length bs)" using assms(1) nth_mem[OF k] s(1) unfolding wf_blocks_def by blast
    then have "nat s < length bs" using s(2) by simp
    then have "exposed bs (nat s) r" using s(3) l IH by simp
    then show ?thesis using s k by (intro exposed_succ[of k bs "nat s"]) auto
  next
    case False
    then show ?thesis
      using r k unfolding block_trans_def live_new_live_in by (blast intro: exposed_gen exposed_end)
  qed
  then show "\<forall>i r. i < length bs \<longrightarrow> live (xs[k := block_trans bs k xs] ! i) r \<longrightarrow> exposed bs i r"
    using IH l k by (auto simp: nth_list_update)
qed

lemma exposed_same_code:
  assumes "same_code bs cs"
  shows "exposed bs i r \<Longrightarrow> exposed cs i r"
proof (induction rule: exposed.induct)
  case (exposed_gen i r)
  then show ?case
    using clear_live_fields[OF same_code_nth[OF assms]] same_code_length[OF assms]
    by (intro exposed.exposed_gen) auto
next
  case (exposed_end i r)
  then show ?case
    using clear_live_fields[OF same_code_nth[OF assms exposed_end(1)]] same_code_length[OF assms]
    by (intro exposed.exposed_end) auto
next
  case (exposed_succ i j r)
  then show ?case
    using clear_live_fields[OF same_code_nth[OF assms exposed_succ(1)]] same_code_length[OF assms]
    by (intro exposed.exposed_succ[of i cs j]) auto
qed

lemma solver_inv_exposed:
  assumes "wf_blocks bs" "solver_inv bs (cs, False)" "i < length cs"
  shows "live (live_in (cs ! i)) r \<longleftrightarrow> exposed cs i r"
proof
  have sc: "same_code bs cs" using assms(2) by (simp add: solver_inv_def)
  assume "live (live_in (cs ! i)) r"
  then have "exposed bs i r"
    using reach_exposed[OF assms(1), of "map live_in cs"] assms(2,3) same_code_length[OF sc]
    by (auto simp: solver_inv_def)
  then show "exposed cs i r" by (rule exposed_same_code[OF sc])
next
  assume "exposed cs i r"
  then show "live (live_in (cs ! i)) r"
    using assms(2) by (intro exposed_sound) (simp_all add: solver_inv_def)
qed

subsection \<open>A page for the witnesses\<close>

text \<open>A page that starts with \<open>li r3,1\<close> and \<open>blr\<close>: \<open>r3\<close> is dead at its start, everything else live.\<close>

definition dead_page :: page where
  "dead_page n = (if n < 8 then [0x38, 0x60, 0, 1, 0x4E, 0x80, 0, 0x20] ! n else 0)"

definition dead_block :: PageBlock where
  "dead_block = \<lparr>startOfs = 0, endOfs = 8, blk_gen = LiveSet 0 0 0 True False, blk_kill = LiveSet 8 0 0 False False,
     live_in = LiveSet 0xfffffff7 0xffffffff XER_BIT_ALL True True, live_out = LiveSet_all_live,
     succ0 = PAGE_SUCC_OFF_PAGE, succ1 = PAGE_SUCC_NONE, numSucc = 1\<rparr>"

lemma dead_page_words: "page_word dead_page 0 = 0x38600001" "page_word dead_page 4 = 0x4E800020"
  by (simp_all add: page_word_def dead_page_def)

lemma dead_page_effects:
  "ppc_analyze_insn 0x38600001 = insn_effect_zero\<lparr>gpr_write := 8\<rparr>"
  "ppc_analyze_insn 0x4E800020 = insn_effect_zero\<lparr>lr_read := True, is_branch := True\<rparr>"
  by code_simp+

lemma dead_page_scan:
  "scan_loop dead_page ppc_analyze_insn 0 LiveSet_none LiveSet_none =
     (8, LiveSet 0 0 0 True False, LiveSet 8 0 0 False False)"
  by (simp add: scan_loop.simps Let_def dead_page_words dead_page_effects insn_effect_zero_def
      gen_step_def kill_step_def LiveSet_none_def)

lemma dead_page_branch:
  "ppc_decode_branch_target 0x4E800020 4 = -1" "ppc_is_unconditional_branch 0x4E800020"
  by code_simp+

lemma dead_page_cfg:
  "ppc_build_page_cfg dead_page 0 ppc_analyze_insn =
     Inr (Some \<lparr>blocks = [dead_block], blockAtOfs = (\<lambda>_. -1)(0 := 0)\<rparr>)"
proof -
  have d: "dfs_loop dead_page ppc_analyze_insn [0] \<lparr>blocks = [], blockAtOfs = (\<lambda>_. -1)\<rparr> =
      Inr \<lparr>blocks = [dead_block\<lparr>live_in := LiveSet_none, live_out := LiveSet_none, succ0 := PAGE_SUCC_NONE, numSucc := 0\<rparr>],
           blockAtOfs = (\<lambda>_. -1)(0 := 0)\<rparr>"
    by (simp add: dfs_loop.simps ppc_scan_block_def dead_page_scan dfs_push_def dead_page_words dead_page_effects
        insn_effect_zero_def Let_def dead_page_branch dead_block_def fun_eq_iff)
  show ?thesis
    by (simp add: ppc_build_page_cfg_def d build_edges_def dead_page_words dead_page_effects insn_effect_zero_def
        Let_def dead_page_branch dead_block_def clear_live_def solve_def while_option_unfold new_live_out_def
        new_live_in_def succs_def LiveSet_none_def LiveSet_all_live_def PAGE_SUCC_OFF_PAGE_def PAGE_SUCC_NONE_def xer_bit_defs)
qed

subsection \<open>Properties\<close>

text \<open>
  C4: The fixed-point loop of \<open>ppc_build_page_cfg\<close> always ends: for every page, start offset
  and analysis function the function returns a CFG of at most 512 blocks, unless the block
  discovery writes past its work list.
\<close>

theorem ppc_build_page_cfg_returns:
  "ppc_build_page_cfg physpage start analyze = Inl Worklist_Overflow \<or>
   (\<exists>cfg. ppc_build_page_cfg physpage start analyze = Inr (Some cfg) \<and> length (blocks cfg) \<le> 512)"
proof -
  have "length cs = length bs" if "solver_inv bs (cs, False)" for bs cs
    using that same_code_length by (auto simp: solver_inv_def)
  then show ?thesis using page_cfg_solved[of physpage start analyze] by metis
qed

text \<open>
  The live sets of a returned CFG satisfy the equations of the source's comment: live-out is
  the union of the successors' live-in (everything, when a successor is off the page or there is
  none), and live-in is \<open>gen | (live_out & ~kill)\<close>.
\<close>

theorem ppc_build_page_cfg_equations:
  assumes "ppc_build_page_cfg physpage start analyze = Inr (Some cfg)"
  shows "live_equations (blocks cfg)"
  using page_cfg_solved[of physpage start analyze] assms by (auto simp: solver_inv_def)

theorem ppc_build_page_cfg_equations_witness: "live_equations [dead_block]"
  using ppc_build_page_cfg_equations[OF dead_page_cfg] by simp

text \<open>
  C3: The solver is exact: a resource is in the live-in set of a block of a returned CFG if and
  only if some path of successor edges from that block reads it before writing it, leaving the
  page counting as a read of everything.  Nothing live is missed, and nothing is kept live
  without such a path.
\<close>

theorem ppc_build_page_cfg_paths:
  assumes "ppc_build_page_cfg physpage start analyze = Inr (Some cfg)" "i < length (blocks cfg)"
  shows "live (live_in (blocks cfg ! i)) r \<longleftrightarrow> exposed (blocks cfg) i r"
  using page_cfg_solved[of physpage start analyze] assms solver_inv_exposed by auto

theorem ppc_build_page_cfg_paths_witness:
  "exposed [dead_block] 0 (RGpr 4) \<and> \<not> exposed [dead_block] 0 (RGpr 3)"
  using ppc_build_page_cfg_paths[OF dead_page_cfg, of 0 "RGpr 4"] ppc_build_page_cfg_paths[OF dead_page_cfg, of 0 "RGpr 3"]
  by (simp add: dead_block_def)

subsection \<open>The work list of the block discovery\<close>

text \<open>
  A word at offset \<open>ofs\<close> is a forking branch: a branch that may fall through, with a target
  on the page.
\<close>

definition forks :: "page \<Rightarrow> (uint32 \<Rightarrow> InsnEffect) \<Rightarrow> nat \<Rightarrow> bool" where
  "forks p an ofs \<longleftrightarrow>
     (let opc = page_word p ofs
      in is_branch (an opc) \<and> \<not> is_everything (an opc) \<and> \<not> ppc_is_unconditional_branch opc \<and>
         0 \<le> ppc_decode_branch_target opc ofs \<and> ppc_decode_branch_target opc ofs < 4096)"

lemma scan_loop_fork:
  assumes "forks p an ofs" "ofs < 4096"
  shows "fst (scan_loop p an ofs g k) = ofs + 4"
  using assms by (subst scan_loop.simps) (simp add: forks_def Let_def)

lemma ppc_scan_block_fork:
  assumes "forks p an ofs" "ofs < 4096"
  shows "snd (ppc_scan_block p ofs an cfg) = ofs + 4"
    and "length (blocks (fst (ppc_scan_block p ofs an cfg))) = Suc (length (blocks cfg))"
    and "blockAtOfs (fst (ppc_scan_block p ofs an cfg)) = (blockAtOfs cfg)(ofs div 4 := int (length (blocks cfg)))"
  using scan_loop_fork[OF assms, of LiveSet_none LiveSet_none]
  by (auto simp: ppc_scan_block_def split: prod.splits)

lemma dfs_push_fork:
  assumes "forks p an ofs" "ofs + 4 < 4096"
  shows "dfs_push p an (ofs + 4) wl =
    (if length wl < 511
     then Inr ((ofs + 4) # nat (ppc_decode_branch_target (page_word p ofs) ofs) # wl)
     else Inl Worklist_Overflow)"
  using assms by (auto simp: dfs_push_def forks_def Let_def wl_push_def)

lemma dfs_loop_overflow:
  assumes f: "\<forall>j<512. forks p an (4 * j)"
    and "k + d = 511" "length wl = k" "length (blocks cfg) = k" "\<forall>j\<ge>k. blockAtOfs cfg j = -1"
  shows "dfs_loop p an (4 * k # wl) cfg = Inl Worklist_Overflow"
  using assms(2-)
proof (induction d arbitrary: k wl cfg)
  case 0
  then have k: "k = 511" by simp
  have fk: "forks p an 2044" using f[rule_format, of 511] by simp
  note s = ppc_scan_block_fork[OF fk, of cfg]
  show ?case
    using 0 k s dfs_push_fork[OF fk, of wl] by (simp add: dfs_loop.simps Let_def)
next
  case (Suc d)
  have k: "k < 511" using Suc.prems by simp
  then have fk: "forks p an (4 * k)" using f by simp
  note s = ppc_scan_block_fork[OF fk, of cfg]
  let ?cfg = "fst (ppc_scan_block p (4 * k) an cfg)"
  let ?wl = "nat (ppc_decode_branch_target (page_word p (4 * k)) (4 * k)) # wl"
  have "dfs_loop p an (4 * Suc k # ?wl) ?cfg = Inl Worklist_Overflow"
    using Suc.prems s k by (intro Suc.IH) auto
  then show ?case
    using Suc.prems k s dfs_push_fork[OF fk, of wl]
    by (subst dfs_loop.simps) (simp add: Let_def add.commute)
qed

text \<open>
  C5: A page whose first 512 instructions are all conditional branches with targets on the page,
  entered at its start, makes the block discovery push a 513th entry onto \<open>worklist[512]\<close>: the
  guest's code page overflows the array.
\<close>

theorem ppc_build_page_cfg_overflow:
  assumes "\<forall>j<512. forks physpage analyze (4 * j)"
  shows "ppc_build_page_cfg physpage 0 analyze = Inl Worklist_Overflow"
  using dfs_loop_overflow[OF assms, of 0 511 "[]" "\<lparr>blocks = [], blockAtOfs = (\<lambda>_. -1)\<rparr>"]
  by (simp add: ppc_build_page_cfg_def)

text \<open>A page of 1024 times \<open>beq +0\<close>.\<close>

definition beq_page :: page where
  "beq_page n = (if n mod 4 = 0 then 0x41 else if n mod 4 = 1 then 0x82 else 0)"

lemma beq_page_word: "page_word beq_page (4 * j) = 0x41820000"
  by (simp add: page_word_def beq_page_def mod_Suc)

lemma beq_effect: "is_branch (ppc_analyze_insn 0x41820000)" "\<not> is_everything (ppc_analyze_insn 0x41820000)"
  by code_simp+

lemma beq_forks: "j < 512 \<Longrightarrow> forks beq_page ppc_analyze_insn (4 * j)"
proof -
  assume j: "j < 512"
  have "sint (of_nat (4 * j) :: uint32) = int (4 * j)"
    using j signed_take_bit_int_eq_self[of 31 "int (4 * j)"] signed_of_nat[of "4 * j", where 'b = 32 and 'a = int]
    by simp
  then have "ppc_decode_branch_target 0x41820000 (4 * j) = int (4 * j)"
    using j by (simp add: ppc_decode_branch_target_def PPC_OPC_MAIN_def PPC_OPC_AA_def)
  moreover have "\<not> ppc_is_unconditional_branch 0x41820000" by code_simp
  ultimately show ?thesis
    using j beq_effect by (simp add: forks_def beq_page_word)
qed

theorem ppc_build_page_cfg_overflow_witness:
  "ppc_build_page_cfg beq_page 0 ppc_analyze_insn = Inl Worklist_Overflow"
  by (rule ppc_build_page_cfg_overflow) (simp add: beq_forks)

end
