(* ===== verification/Ppc_Live_Sound.thy ===== *)
theory Ppc_Live_Sound
  imports Ppc_Concrete Ppc_Live_Solver
begin

text \<open>
  The contract between the instruction templates and a back end, as a locale: reading depends
  only on the resource read, and writing a resource makes it agree.  From the contract
  alone each ALU, CR and SPR template is shown to respect the read and write set that the liveness back end
  records for it (\<open>effect_ok\<close>).  Ppc_Live_Sound interprets the locale on the interpreter's
  \<open>concrete_sem\<close>.
\<close>

unbundle bit_operations_syntax

subsection \<open>Read and write sets as live sets\<close>

definition fx_reads :: "InsnEffect \<Rightarrow> LiveSet" where
  "fx_reads fx = LiveSet (gpr_read fx) (cr_read fx) (xer_read fx) (lr_read fx) (ctr_read fx)"

definition fx_writes :: "InsnEffect \<Rightarrow> LiveSet" where
  "fx_writes fx = LiveSet (gpr_write fx) (cr_write fx) (xer_write fx) (lr_write fx) (ctr_write fx)"

definition word_le :: "'a::len word \<Rightarrow> 'a word \<Rightarrow> bool" where
  "word_le m g \<longleftrightarrow> (\<forall>n. bit m n \<longrightarrow> bit g n)"

lemma word_le_0 [simp]: "word_le 0 g"
  by (simp add: word_le_def)

lemma word_le_or [simp]: "word_le (a OR b) g \<longleftrightarrow> word_le a g \<and> word_le b g"
  by (auto simp: word_le_def bit_or_iff)

lemma word_le_exp [simp]: "word_le (2 ^ n) g \<longleftrightarrow> (n < LENGTH('a) \<longrightarrow> bit g n)" for g :: "'a::len word"
  by (auto simp: word_le_def bit_exp_iff)

lemma word_le_orI: "word_le a x \<Longrightarrow> word_le a (x OR y)"
  by (auto simp: word_le_def bit_or_iff)

lemma LiveSet_le_fields:
  "LiveSet g c x l t \<le> LiveSet g' c' x' l' t' \<longleftrightarrow>
     word_le g g' \<and> word_le c c' \<and> word_le x x' \<and> (l \<longrightarrow> l') \<and> (t \<longrightarrow> t')"
proof
  assume "LiveSet g c x l t \<le> LiveSet g' c' x' l' t'"
  note le = this[unfolded LiveSet_le_iff, rule_format]
  show "word_le g g' \<and> word_le c c' \<and> word_le x x' \<and> (l \<longrightarrow> l') \<and> (t \<longrightarrow> t')"
    using le[of "RGpr _"] le[of "RCr _"] le[of "RXer _"] le[of RLr] le[of RCtr]
    by (auto simp: word_le_def)
next
  assume "word_le g g' \<and> word_le c c' \<and> word_le x x' \<and> (l \<longrightarrow> l') \<and> (t \<longrightarrow> t')"
  then show "LiveSet g c x l t \<le> LiveSet g' c' x' l' t'"
    unfolding LiveSet_le_iff by (intro allI, rename_tac r, case_tac r) (auto simp: word_le_def)
qed

lemmas liveness_ops = liveness_sem_def live_read_gpr_def live_write_gpr_def live_read_xer_ca_def
  live_write_xer_ca_def live_write_cr0_from_result_def live_write_cr_field_cmp_def live_write_cr_bit_def
  live_get_cr_bit_def live_read_cr_field_def live_write_cr_field_def live_sraw_def live_read_cr_bit_def

text \<open>The operations of the liveness back end, selector by selector.\<close>

lemma liveness_simps [simp]:
  "s_read_gpr liveness_sem = live_read_gpr"
  "s_write_gpr liveness_sem = live_write_gpr"
  "s_read_lr liveness_sem fx = (0, fx\<lparr>lr_read := True\<rparr>)"
  "s_write_lr liveness_sem v fx = fx\<lparr>lr_write := True\<rparr>"
  "s_read_ctr liveness_sem fx = (0, fx\<lparr>ctr_read := True\<rparr>)"
  "s_write_ctr liveness_sem v fx = fx\<lparr>ctr_write := True\<rparr>"
  "s_read_xer liveness_sem fx = (0, fx\<lparr>xer_read := xer_read fx OR XER_BIT_ALL\<rparr>)"
  "s_write_xer liveness_sem v fx = fx\<lparr>xer_write := xer_write fx OR XER_BIT_ALL\<rparr>"
  "s_read_cr liveness_sem fx = (0, fx\<lparr>cr_read := 0xffffffff\<rparr>)"
  "s_write_cr_masked liveness_sem v m fx = fx\<lparr>cr_write := cr_write fx OR m\<rparr>"
  "s_read_cr_field liveness_sem = live_read_cr_field"
  "s_write_cr_field liveness_sem = live_write_cr_field"
  "s_read_xer_ca liveness_sem = live_read_xer_ca"
  "s_write_xer_ca liveness_sem = live_write_xer_ca"
  "s_write_cr0_from_result liveness_sem = live_write_cr0_from_result"
  "s_write_cr_field_signed liveness_sem = live_write_cr_field_cmp"
  "s_write_cr_field_unsigned liveness_sem = live_write_cr_field_cmp"
  "s_write_cr_bit liveness_sem = live_write_cr_bit"
  "s_get_cr_bit liveness_sem = live_get_cr_bit"
  "s_sraw liveness_sem = live_sraw"
  "s_div_s liveness_sem a b = Inr 0"
  "s_div_u liveness_sem a b = Inr 0"
  by (simp_all add: liveness_sem_def)

subsection \<open>The contract\<close>

locale backend =
  fixes S :: "'s alu_sem"
    and agree :: "LiveSet \<Rightarrow> 's \<Rightarrow> 's \<Rightarrow> bool"
    and rd_gpr :: "nat \<Rightarrow> 's \<Rightarrow> uint32"
    and rd_lr :: "'s \<Rightarrow> uint32"
    and rd_ctr :: "'s \<Rightarrow> uint32"
    and rd_xer :: "'s \<Rightarrow> uint32"
    and rd_ca :: "'s \<Rightarrow> uint32"
    and rd_cr :: "'s \<Rightarrow> uint32"
    and rd_field :: "nat \<Rightarrow> 's \<Rightarrow> uint32"
    and rd_bit :: "nat \<Rightarrow> 's \<Rightarrow> bool"
    and sraw :: "uint32 \<Rightarrow> uint32 \<Rightarrow> uint32 \<times> bool"
  assumes reads:
    "s_read_gpr S r s = (rd_gpr r s, s)"
    "s_read_lr S s = (rd_lr s, s)"
    "s_read_ctr S s = (rd_ctr s, s)"
    "s_read_xer S s = (rd_xer s, s)"
    "s_read_xer_ca S s = (rd_ca s, s)"
    "s_read_cr S s = (rd_cr s, s)"
    "s_read_cr_field S f s = (rd_field f s, s)"
    "s_get_cr_bit S i s = (rd_bit i s, s)"
    "s_sraw S a b s = (sraw a b, s)"
    and agree_mono: "agree M s1 s2 \<Longrightarrow> L \<le> M \<Longrightarrow> agree L s1 s2"
    and rd_gpr: "agree (LiveSet g c x l t) s1 s2 \<Longrightarrow> r < 32 \<Longrightarrow> bit g r \<Longrightarrow> rd_gpr r s1 = rd_gpr r s2"
    and rd_lr: "agree (LiveSet g c x True t) s1 s2 \<Longrightarrow> rd_lr s1 = rd_lr s2"
    and rd_ctr: "agree (LiveSet g c x l True) s1 s2 \<Longrightarrow> rd_ctr s1 = rd_ctr s2"
    and rd_xer: "agree (LiveSet g c x l t) s1 s2 \<Longrightarrow> word_le XER_BIT_ALL x \<Longrightarrow> rd_xer s1 = rd_xer s2"
    and rd_ca: "agree (LiveSet g c x l t) s1 s2 \<Longrightarrow> word_le XER_BIT_CA x \<Longrightarrow> rd_ca s1 = rd_ca s2"
    and rd_cr: "agree (LiveSet g c x l t) s1 s2 \<Longrightarrow> word_le 0xffffffff c \<Longrightarrow> rd_cr s1 = rd_cr s2"
    and rd_field: "agree (LiveSet g c x l t) s1 s2 \<Longrightarrow> word_le (push_bit ((7 - f) * 4) 0xf) c \<Longrightarrow>
      rd_field f s1 = rd_field f s2"
    and rd_bit: "agree (LiveSet g c x l t) s1 s2 \<Longrightarrow> bit c (31 - i) \<Longrightarrow> rd_bit i s1 = rd_bit i s2"
    and wr_gpr: "agree (LiveSet g c x l t) s1 s2 \<Longrightarrow> r < 32 \<Longrightarrow>
      agree (LiveSet (g OR 2 ^ r) c x l t) (s_write_gpr S r v s1) (s_write_gpr S r v s2)"
    and wr_lr: "agree (LiveSet g c x l t) s1 s2 \<Longrightarrow>
      agree (LiveSet g c x True t) (s_write_lr S v s1) (s_write_lr S v s2)"
    and wr_ctr: "agree (LiveSet g c x l t) s1 s2 \<Longrightarrow>
      agree (LiveSet g c x l True) (s_write_ctr S v s1) (s_write_ctr S v s2)"
    and wr_xer: "agree (LiveSet g c x l t) s1 s2 \<Longrightarrow>
      agree (LiveSet g c (x OR XER_BIT_ALL) l t) (s_write_xer S v s1) (s_write_xer S v s2)"
    and wr_ca: "agree (LiveSet g c x l t) s1 s2 \<Longrightarrow>
      agree (LiveSet g c (x OR XER_BIT_CA) l t) (s_write_xer_ca S p s1) (s_write_xer_ca S p s2)"
    and wr_masked: "agree (LiveSet g c x l t) s1 s2 \<Longrightarrow>
      agree (LiveSet g (c OR m) x l t) (s_write_cr_masked S v m s1) (s_write_cr_masked S v m s2)"
    and wr_field: "agree (LiveSet g c x l t) s1 s2 \<Longrightarrow>
      agree (LiveSet g (c OR push_bit ((7 - f) * 4) 0xf) x l t) (s_write_cr_field S f v s1) (s_write_cr_field S f v s2)"
    and wr_cr0: "agree (LiveSet g c x l t) s1 s2 \<Longrightarrow> word_le XER_BIT_SO x \<Longrightarrow>
      agree (LiveSet g (c OR 0xF0000000) x l t) (s_write_cr0_from_result S v s1) (s_write_cr0_from_result S v s2)"
    and wr_signed: "agree (LiveSet g c x l t) s1 s2 \<Longrightarrow> word_le XER_BIT_SO x \<Longrightarrow>
      agree (LiveSet g (c OR push_bit ((7 - f) * 4) 0xf) x l t)
        (s_write_cr_field_signed S f a b s1) (s_write_cr_field_signed S f a b s2)"
    and wr_unsigned: "agree (LiveSet g c x l t) s1 s2 \<Longrightarrow> word_le XER_BIT_SO x \<Longrightarrow>
      agree (LiveSet g (c OR push_bit ((7 - f) * 4) 0xf) x l t)
        (s_write_cr_field_unsigned S f a b s1) (s_write_cr_field_unsigned S f a b s2)"
    and wr_bit: "agree (LiveSet g c x l t) s1 s2 \<Longrightarrow>
      agree (LiveSet g (c OR 2 ^ (31 - i)) x l t) (s_write_cr_bit S i p s1) (s_write_cr_bit S i p s2)"
begin

text \<open>
  \<open>effect_ok fx f\<close>: on two states that agree where \<open>fx\<close> reads, \<open>f\<close> gives states that agree
  where they did before and where \<open>fx\<close> writes.
\<close>

definition effect_ok :: "InsnEffect \<Rightarrow> ('s \<Rightarrow> 's) \<Rightarrow> bool" where
  "effect_ok fx f \<longleftrightarrow>
     (\<forall>M s1 s2. fx_reads fx \<le> M \<longrightarrow> agree M s1 s2 \<longrightarrow> agree (LiveSet_or M (fx_writes fx)) (f s1) (f s2))"

definition effect_ok_div :: "InsnEffect \<Rightarrow> ('s \<Rightarrow> host_trap + 's) \<Rightarrow> bool" where
  "effect_ok_div fx f \<longleftrightarrow>
     (\<forall>M s1 s2. fx_reads fx \<le> M \<longrightarrow> agree M s1 s2 \<longrightarrow>
        (case (f s1, f s2) of
           (Inl e1, Inl e2) \<Rightarrow> e1 = e2
         | (Inr t1, Inr t2) \<Rightarrow> agree (LiveSet_or M (fx_writes fx)) t1 t2
         | _ \<Rightarrow> False))"

lemmas wr = wr_gpr wr_lr wr_ctr wr_xer wr_ca wr_masked wr_field wr_cr0 wr_signed wr_unsigned wr_bit

lemma effect_okI:
  assumes "\<And>g c x l t s1 s2. word_le (gpr_read fx) g \<Longrightarrow> word_le (cr_read fx) c \<Longrightarrow> word_le (xer_read fx) x \<Longrightarrow>
     (lr_read fx \<longrightarrow> l) \<Longrightarrow> (ctr_read fx \<longrightarrow> t) \<Longrightarrow> agree (LiveSet g c x l t) s1 s2 \<Longrightarrow>
     agree (LiveSet (g OR gpr_write fx) (c OR cr_write fx) (x OR xer_write fx) (l \<or> lr_write fx) (t \<or> ctr_write fx))
       (f s1) (f s2)"
  shows "effect_ok fx f"
  unfolding effect_ok_def
proof (intro allI impI)
  fix M s1 s2 assume "fx_reads fx \<le> M" "agree M s1 s2"
  then show "agree (LiveSet_or M (fx_writes fx)) (f s1) (f s2)"
    by (cases M) (simp add: fx_reads_def fx_writes_def LiveSet_le_fields assms)
qed

lemmas live_defs = live_run_def live_run_div_def insn_effect_zero_def sem_rc_def sem_base_def
  live_read_gpr_def live_write_gpr_def live_read_xer_ca_def live_write_xer_ca_def
  live_write_cr0_from_result_def live_write_cr_field_cmp_def live_write_cr_bit_def
  live_get_cr_bit_def live_read_cr_field_def live_write_cr_field_def live_sraw_def
  PPC_OPC_TEMPL_X_def PPC_OPC_TEMPL_XO_def PPC_OPC_TEMPL_M_def PPC_OPC_TEMPL_XFX_def

text \<open>One statement per template; the bundle unfolds both runs and the contract does the rest.\<close>

lemmas ok_simps = live_defs Let_def split_beta reads rd_gpr rd_ca rd_cr rd_field rd_bit
  PPC_OPC_TEMPL_D_SImm_def PPC_OPC_TEMPL_D_UImm_def PPC_OPC_TEMPL_D_Shift16_def
  sem_alu_defs sem_spr_defs

lemma effect_ok_add:
  "effect_ok (live_run ppc_sem_addx opc) (ppc_sem_addx S opc)"
  "effect_ok (live_run ppc_sem_addcx opc) (ppc_sem_addcx S opc)"
  "effect_ok (live_run ppc_sem_addex opc) (ppc_sem_addex S opc)"
  "effect_ok (live_run ppc_sem_addi opc) (ppc_sem_addi S opc)"
  "effect_ok (live_run ppc_sem_addic opc) (ppc_sem_addic S opc)"
  "effect_ok (live_run ppc_sem_addic_rc opc) (ppc_sem_addic_rc S opc)"
  "effect_ok (live_run ppc_sem_addis opc) (ppc_sem_addis S opc)"
  "effect_ok (live_run ppc_sem_addmex opc) (ppc_sem_addmex S opc)"
  "effect_ok (live_run ppc_sem_addzex opc) (ppc_sem_addzex S opc)"
  by (rule effect_okI; auto simp: ok_simps intro!: wr word_le_orI split: if_splits)+

lemma effect_ok_logic:
  "effect_ok (live_run ppc_sem_andx opc) (ppc_sem_andx S opc)"
  "effect_ok (live_run ppc_sem_andcx opc) (ppc_sem_andcx S opc)"
  "effect_ok (live_run ppc_sem_andi_rc opc) (ppc_sem_andi_rc S opc)"
  "effect_ok (live_run ppc_sem_andis_rc opc) (ppc_sem_andis_rc S opc)"
  "effect_ok (live_run ppc_sem_orx opc) (ppc_sem_orx S opc)"
  "effect_ok (live_run ppc_sem_orcx opc) (ppc_sem_orcx S opc)"
  "effect_ok (live_run ppc_sem_ori opc) (ppc_sem_ori S opc)"
  "effect_ok (live_run ppc_sem_oris opc) (ppc_sem_oris S opc)"
  "effect_ok (live_run ppc_sem_xorx opc) (ppc_sem_xorx S opc)"
  "effect_ok (live_run ppc_sem_xori opc) (ppc_sem_xori S opc)"
  "effect_ok (live_run ppc_sem_xoris opc) (ppc_sem_xoris S opc)"
  "effect_ok (live_run ppc_sem_nandx opc) (ppc_sem_nandx S opc)"
  "effect_ok (live_run ppc_sem_norx opc) (ppc_sem_norx S opc)"
  "effect_ok (live_run ppc_sem_eqvx opc) (ppc_sem_eqvx S opc)"
  by (rule effect_okI; auto simp: ok_simps intro!: wr word_le_orI split: if_splits)+

lemma effect_ok_compare:
  "effect_ok (live_run ppc_sem_cmp opc) (ppc_sem_cmp S opc)"
  "effect_ok (live_run ppc_sem_cmpi opc) (ppc_sem_cmpi S opc)"
  "effect_ok (live_run ppc_sem_cmpl opc) (ppc_sem_cmpl S opc)"
  "effect_ok (live_run ppc_sem_cmpli opc) (ppc_sem_cmpli S opc)"
  by (rule effect_okI; auto simp: ok_simps intro!: wr word_le_orI split: if_splits)+

lemma effect_ok_subtract:
  "effect_ok (live_run ppc_sem_subfx opc) (ppc_sem_subfx S opc)"
  "effect_ok (live_run ppc_sem_subfcx opc) (ppc_sem_subfcx S opc)"
  "effect_ok (live_run ppc_sem_subfex opc) (ppc_sem_subfex S opc)"
  "effect_ok (live_run ppc_sem_subfic opc) (ppc_sem_subfic S opc)"
  "effect_ok (live_run ppc_sem_subfmex opc) (ppc_sem_subfmex S opc)"
  "effect_ok (live_run ppc_sem_subfzex opc) (ppc_sem_subfzex S opc)"
  by (rule effect_okI; auto simp: ok_simps intro!: wr word_le_orI split: if_splits)+

lemma effect_ok_multiply:
  "effect_ok (live_run ppc_sem_negx opc) (ppc_sem_negx S opc)"
  "effect_ok (live_run ppc_sem_mulli opc) (ppc_sem_mulli S opc)"
  "effect_ok (live_run ppc_sem_mullwx opc) (ppc_sem_mullwx S opc)"
  "effect_ok (live_run ppc_sem_mulhwx opc) (ppc_sem_mulhwx S opc)"
  "effect_ok (live_run ppc_sem_mulhwux opc) (ppc_sem_mulhwux S opc)"
  by (rule effect_okI; auto simp: ok_simps intro!: wr word_le_orI split: if_splits)+

lemma effect_ok_shift:
  "effect_ok (live_run ppc_sem_slwx opc) (ppc_sem_slwx S opc)"
  "effect_ok (live_run ppc_sem_srwx opc) (ppc_sem_srwx S opc)"
  "effect_ok (live_run ppc_sem_srawx opc) (ppc_sem_srawx S opc)"
  "effect_ok (live_run ppc_sem_srawix opc) (ppc_sem_srawix S opc)"
  by (rule effect_okI; auto simp: ok_simps intro!: wr word_le_orI split: if_splits)+

lemma effect_ok_rotate:
  "effect_ok (live_run ppc_sem_rlwinmx opc) (ppc_sem_rlwinmx S opc)"
  "effect_ok (live_run ppc_sem_rlwnmx opc) (ppc_sem_rlwnmx S opc)"
  "effect_ok (live_run ppc_sem_rlwimix opc) (ppc_sem_rlwimix S opc)"
  by (rule effect_okI; auto simp: ok_simps intro!: wr word_le_orI split: if_splits)+

lemma effect_ok_extend:
  "effect_ok (live_run ppc_sem_extsbx opc) (ppc_sem_extsbx S opc)"
  "effect_ok (live_run ppc_sem_extshx opc) (ppc_sem_extshx S opc)"
  "effect_ok (live_run ppc_sem_cntlzwx opc) (ppc_sem_cntlzwx S opc)"
  by (rule effect_okI; auto simp: ok_simps intro!: wr word_le_orI split: if_splits)+

lemma effect_ok_cr_logic:
  "effect_ok (live_run ppc_sem_crand opc) (ppc_sem_crand S opc)"
  "effect_ok (live_run ppc_sem_crandc opc) (ppc_sem_crandc S opc)"
  "effect_ok (live_run ppc_sem_creqv opc) (ppc_sem_creqv S opc)"
  "effect_ok (live_run ppc_sem_crnand opc) (ppc_sem_crnand S opc)"
  "effect_ok (live_run ppc_sem_crnor opc) (ppc_sem_crnor S opc)"
  "effect_ok (live_run ppc_sem_cror opc) (ppc_sem_cror S opc)"
  "effect_ok (live_run ppc_sem_crorc opc) (ppc_sem_crorc S opc)"
  "effect_ok (live_run ppc_sem_crxor opc) (ppc_sem_crxor S opc)"
  by (rule effect_okI; auto simp: ok_simps intro!: wr word_le_orI split: if_splits)+

lemma effect_ok_move_cr:
  "effect_ok (live_run ppc_sem_mfcr opc) (ppc_sem_mfcr S opc)"
  "effect_ok (live_run ppc_sem_mtcrf opc) (ppc_sem_mtcrf S opc)"
  "effect_ok (live_run ppc_sem_mcrf opc) (ppc_sem_mcrf S opc)"
  by (rule effect_okI; auto simp: ok_simps intro!: wr word_le_orI split: if_splits)+

lemma effect_ok_divI:
  assumes "\<And>g c x l t s1 s2. word_le (gpr_read fx) g \<Longrightarrow> word_le (cr_read fx) c \<Longrightarrow> word_le (xer_read fx) x \<Longrightarrow>
     (lr_read fx \<longrightarrow> l) \<Longrightarrow> (ctr_read fx \<longrightarrow> t) \<Longrightarrow> agree (LiveSet g c x l t) s1 s2 \<Longrightarrow>
     (\<exists>e. f s1 = Inl e \<and> f s2 = Inl e) \<or>
     (\<exists>t1 t2. f s1 = Inr t1 \<and> f s2 = Inr t2 \<and>
       agree (LiveSet (g OR gpr_write fx) (c OR cr_write fx) (x OR xer_write fx) (l \<or> lr_write fx) (t \<or> ctr_write fx)) t1 t2)"
  shows "effect_ok_div fx f"
  unfolding effect_ok_div_def
proof (intro allI impI)
  fix M s1 s2 assume "fx_reads fx \<le> M" "agree M s1 s2"
  then have "(\<exists>e. f s1 = Inl e \<and> f s2 = Inl e) \<or>
     (\<exists>t1 t2. f s1 = Inr t1 \<and> f s2 = Inr t2 \<and> agree (LiveSet_or M (fx_writes fx)) t1 t2)"
    using assms[of "lv_gpr M" "lv_cr M" "lv_xer M" "lv_lr M" "lv_ctr M" s1 s2]
    by (cases M) (simp add: fx_reads_def fx_writes_def LiveSet_le_fields)
  then show "case (f s1, f s2) of (Inl e1, Inl e2) \<Rightarrow> e1 = e2
      | (Inr t1, Inr t2) \<Rightarrow> agree (LiveSet_or M (fx_writes fx)) t1 t2 | _ \<Rightarrow> False"
    by auto
qed

lemma effect_ok_divide:
  "effect_ok_div (live_run_div ppc_sem_divwx opc) (ppc_sem_divwx S opc)"
  "effect_ok_div (live_run_div ppc_sem_divwux opc) (ppc_sem_divwux S opc)"
  by (rule effect_ok_divI; auto simp: ok_simps intro!: wr word_le_orI split: if_splits sum.splits)+

end

text \<open>
  The interpreter's back end satisfies the contract of Ppc_Live_Sound: two CPU states agree on a
  live set when they have the same value in every resource of the set, and in everything
  the analysis does not track.
\<close>


subsection \<open>Agreement of CPU states\<close>

text \<open>
  The bits of XER behind the three tracked ones are SO (31), OV (30) and CA (29); the
  low 29 bits are not tracked and always agree.
\<close>

definition xer_live_mask :: "uint8 \<Rightarrow> uint32" where
  "xer_live_mask x = mask 29 OR push_bit 29 (ucast x)"

definition untracked :: "cpu \<Rightarrow> cpu" where
  "untracked c = c\<lparr>gpr := \<lambda>_. 0, cr := 0, xer := 0, lr := 0, ctr := 0\<rparr>"

definition cpu_agree :: "LiveSet \<Rightarrow> cpu \<Rightarrow> cpu \<Rightarrow> bool" where
  "cpu_agree L c1 c2 \<longleftrightarrow>
     (\<forall>r<32. bit (lv_gpr L) r \<longrightarrow> gpr c1 r = gpr c2 r) \<and>
     agree_on (lv_cr L) (cr c1) (cr c2) \<and>
     agree_on (xer_live_mask (lv_xer L)) (xer c1) (xer c2) \<and>
     (lv_lr L \<longrightarrow> lr c1 = lr c2) \<and> (lv_ctr L \<longrightarrow> ctr c1 = ctr c2) \<and>
     untracked c1 = untracked c2"

lemma untracked_simps [simp]:
  "untracked (c\<lparr>gpr := g\<rparr>) = untracked c" "untracked (c\<lparr>cr := w\<rparr>) = untracked c"
  "untracked (c\<lparr>xer := w\<rparr>) = untracked c" "untracked (c\<lparr>lr := w\<rparr>) = untracked c"
  "untracked (c\<lparr>ctr := w\<rparr>) = untracked c"
  by (simp_all add: untracked_def)

lemma bit_xer_live_mask:
  "n < 32 \<Longrightarrow> bit (xer_live_mask x) n \<longleftrightarrow> n < 29 \<or> bit x (n - 29)"
  by (auto simp: xer_live_mask_def bit_or_iff bit_push_bit_iff bit_mask_iff bit_ucast_iff
    simp del: mask_numeral)

lemma agree_on_cr_mono: "agree_on m a b \<Longrightarrow> word_le k m \<Longrightarrow> agree_on k a b"
  by (auto simp: agree_on_bits word_le_def)

lemma agree_on_xer_mono:
  "agree_on (xer_live_mask x) a b \<Longrightarrow> word_le y x \<Longrightarrow> agree_on (xer_live_mask y) a b"
  by (auto simp: agree_on_bits word_le_def bit_xer_live_mask)

lemma cpu_agree_mono:
  assumes "cpu_agree M c1 c2" "L \<le> M"
  shows "cpu_agree L c1 c2"
proof -
  have "word_le (lv_gpr L) (lv_gpr M)" "word_le (lv_cr L) (lv_cr M)" "word_le (lv_xer L) (lv_xer M)"
    "lv_lr L \<longrightarrow> lv_lr M" "lv_ctr L \<longrightarrow> lv_ctr M"
    using assms(2) LiveSet_le_fields[of "lv_gpr L" "lv_cr L" "lv_xer L" "lv_lr L" "lv_ctr L"
      "lv_gpr M" "lv_cr M" "lv_xer M" "lv_lr M" "lv_ctr M"] by simp_all
  then show ?thesis using assms(1)
    by (auto simp: cpu_agree_def word_le_def[of "lv_gpr L"] intro: agree_on_cr_mono agree_on_xer_mono)
qed

subsection \<open>Reading\<close>

lemma agree_gpr: "cpu_agree (LiveSet g c x l t) c1 c2 \<Longrightarrow> r < 32 \<Longrightarrow> bit g r \<Longrightarrow> gpr c1 r = gpr c2 r"
  by (simp add: cpu_agree_def)

lemma agree_xer_bit:
  "cpu_agree (LiveSet g c x l t) c1 c2 \<Longrightarrow> n < 32 \<Longrightarrow> n < 29 \<or> bit x (n - 29) \<Longrightarrow> bit (xer c1) n = bit (xer c2) n"
  by (auto simp: cpu_agree_def agree_on_bits bit_xer_live_mask)

lemma agree_cr_bit:
  "cpu_agree (LiveSet g c x l t) c1 c2 \<Longrightarrow> bit c n \<Longrightarrow> bit (cr c1) n = bit (cr c2) n"
  using bit_imp_le_length[of c n] by (simp add: cpu_agree_def agree_on_bits)

lemma XER_bits:
  "xer c AND XER_CA = 0 \<longleftrightarrow> \<not> bit (xer c) 29" "xer c AND XER_SO = 0 \<longleftrightarrow> \<not> bit (xer c) 31"
  by (simp_all only: XER_CA_def XER_SO_def and_push_1_eq_0_iff) simp_all

lemma word_le_xer:
  "word_le XER_BIT_CA x \<longleftrightarrow> bit x 0" "word_le XER_BIT_SO x \<longleftrightarrow> bit x 2"
  "word_le XER_BIT_ALL x \<longleftrightarrow> bit x 0 \<and> bit x 1 \<and> bit x 2"
proof -
  have e: "XER_BIT_CA = 2 ^ 0" "XER_BIT_SO = 2 ^ 2" by (simp_all add: xer_bit_defs)
  show "word_le XER_BIT_CA x \<longleftrightarrow> bit x 0" "word_le XER_BIT_SO x \<longleftrightarrow> bit x 2"
    unfolding e word_le_exp by simp_all
  show "word_le XER_BIT_ALL x \<longleftrightarrow> bit x 0 \<and> bit x 1 \<and> bit x 2"
    unfolding word_le_def bit_XER_BIT_ALL
    by (auto simp: numeral_3_eq_3 less_Suc_eq numeral_2_eq_2)
qed

lemma agree_xer: "cpu_agree (LiveSet g c x l t) c1 c2 \<Longrightarrow> word_le XER_BIT_ALL x \<Longrightarrow> xer c1 = xer c2"
proof (rule bit_word_eqI)
  fix n assume a: "cpu_agree (LiveSet g c x l t) c1 c2" "word_le XER_BIT_ALL x" and "n < LENGTH(32)"
  then have n: "n < 32" by simp
  moreover have "n < 29 \<or> n - 29 = 0 \<or> n - 29 = 1 \<or> n - 29 = 2" using n by arith
  ultimately show "bit (xer c1) n = bit (xer c2) n"
    using agree_xer_bit[OF a(1) n] a(2) by (auto simp: word_le_xer)
qed

lemma agree_cr: "cpu_agree (LiveSet g c x l t) c1 c2 \<Longrightarrow> word_le 0xffffffff c \<Longrightarrow> cr c1 = cr c2"
proof (rule bit_word_eqI)
  fix n assume a: "cpu_agree (LiveSet g c x l t) c1 c2" "word_le 0xffffffff c" and n: "n < LENGTH(32)"
  have "(0xffffffff :: uint32) = - 1" by simp
  then have "bit c n" using a(2) n unfolding word_le_def by (metis bit_minus_1_iff possible_bit_word)
  then show "bit (cr c1) n = bit (cr c2) n" using agree_cr_bit[OF a(1)] by blast
qed

lemma bit_nibble: "bit (0xf :: uint32) n \<longleftrightarrow> n < 4" "bit (0xf :: int) n \<longleftrightarrow> n < 4"
proof -
  have e: "(0xf :: uint32) = mask 4" "(0xf :: int) = mask 4" by (simp_all add: mask_eq_exp_minus_1)
  show "bit (0xf :: uint32) n \<longleftrightarrow> n < 4" "bit (0xf :: int) n \<longleftrightarrow> n < 4"
    unfolding e by (auto simp: bit_mask_iff simp del: mask_numeral)
qed

lemma agree_read_cr_field:
  assumes "cpu_agree (LiveSet g c x l t) c1 c2" "word_le (push_bit ((7 - f) * 4) 0xf) c"
  shows "read_cr_field f c1 = read_cr_field f c2"
proof (rule bit_word_eqI)
  fix n assume "n < LENGTH(32)"
  have k: "(7 - f) * 4 + n < 32" if "n < 4" using that by arith
  have "bit c ((7 - f) * 4 + n)" if "n < 4"
    using assms(2)[unfolded word_le_def, rule_format, of "(7 - f) * 4 + n"] k[OF that] that
    by (simp add: bit_push_bit_iff bit_nibble)
  then show "bit (read_cr_field f c1) n = bit (read_cr_field f c2) n"
    using agree_cr_bit[OF assms(1)]
    by (auto simp: read_cr_field_def bit_and_iff bit_drop_bit_eq bit_nibble)
qed

lemma agree_get_cr_bit:
  "cpu_agree (LiveSet g c x l t) c1 c2 \<Longrightarrow> bit c (31 - i) \<Longrightarrow> get_cr_bit i c1 = get_cr_bit i c2"
  using agree_cr_bit[of g c x l t c1 c2 "31 - i"] by (simp add: get_cr_bit_def and_push_1_eq_0_iff del: push_bit_of_1)

lemma agree_read_xer_ca:
  "cpu_agree (LiveSet g c x l t) c1 c2 \<Longrightarrow> word_le XER_BIT_CA x \<Longrightarrow> read_xer_ca c1 = read_xer_ca c2"
  using agree_xer_bit[of g c x l t c1 c2 29] by (simp add: read_xer_ca_def XER_bits word_le_xer)

subsection \<open>Writing\<close>

lemma agree_set_gpr:
  "cpu_agree (LiveSet g c x l t) c1 c2 \<Longrightarrow>
   cpu_agree (LiveSet (g OR 2 ^ r) c x l t) (write_gpr r v c1) (write_gpr r v c2)"
  by (auto simp: cpu_agree_def write_gpr_def bit_or_iff bit_exp_iff)

lemma agree_set_cr:
  assumes "cpu_agree (LiveSet g c x l t) c1 c2"
    and "\<And>n. n < 32 \<Longrightarrow> bit m n \<Longrightarrow> bit (f (cr c1)) n = bit (f' (cr c2)) n"
    and "\<And>n. n < 32 \<Longrightarrow> \<not> bit m n \<Longrightarrow> bit (f (cr c1)) n = bit (cr c1) n \<and> bit (f' (cr c2)) n = bit (cr c2) n"
  shows "cpu_agree (LiveSet g (c OR m) x l t) (c1\<lparr>cr := f (cr c1)\<rparr>) (c2\<lparr>cr := f' (cr c2)\<rparr>)"
  using assms by (auto simp: cpu_agree_def agree_on_bits bit_or_iff)

lemma agree_write_masked:
  "cpu_agree (LiveSet g c x l t) c1 c2 \<Longrightarrow>
   cpu_agree (LiveSet g (c OR m) x l t) (write_cr_masked v m c1) (write_cr_masked v m c2)"
  unfolding write_cr_masked_def
  by (rule agree_set_cr) (auto simp: bit_or_iff bit_and_iff bit_not_iff)

lemma agree_insert:
  "cpu_agree (LiveSet g c x l t) c1 c2 \<Longrightarrow> word_le w m \<Longrightarrow>
   cpu_agree (LiveSet g (c OR m) x l t) (c1\<lparr>cr := (cr c1 AND NOT m) OR w\<rparr>) (c2\<lparr>cr := (cr c2 AND NOT m) OR w\<rparr>)"
  by (rule agree_set_cr) (auto simp: bit_or_iff bit_and_iff bit_not_iff word_le_def)

lemma word_le_field: "word_le v 0xf \<Longrightarrow> word_le (push_bit k v) (push_bit k 0xf)" for v :: uint32
  by (auto simp: word_le_def bit_push_bit_iff)

lemma word_le_and: "word_le a b \<longleftrightarrow> a AND b = a"
  by (auto simp: word_le_def bit_eq_iff bit_and_iff dest: bit_imp_le_length)

lemma word_le_small: "v \<in> {8, 4, 2, 9, 5, 3} \<Longrightarrow> word_le v 0xf" for v :: uint32
  by (auto simp: word_le_and)

lemma agree_write_cr_field:
  assumes "cpu_agree (LiveSet g c x l t) c1 c2"
  shows "cpu_agree (LiveSet g (c OR push_bit ((7 - f) * 4) 0xf) x l t) (write_cr_field f v c1) (write_cr_field f v c2)"
  unfolding write_cr_field_def Let_def
  by (rule agree_insert[OF assms word_le_field]) (auto simp: word_le_def bit_and_iff)

lemma agree_so: "cpu_agree (LiveSet g c x l t) c1 c2 \<Longrightarrow> word_le XER_BIT_SO x \<Longrightarrow>
    (xer c1 AND XER_SO = 0) = (xer c2 AND XER_SO = 0)"
  using agree_xer_bit[of g c x l t c1 c2 31] by (simp add: XER_bits word_le_xer)

lemma agree_write_cmp:
  assumes "cpu_agree (LiveSet g c x l t) c1 c2" "word_le XER_BIT_SO x"
  shows "cpu_agree (LiveSet g (c OR push_bit ((7 - f) * 4) 0xf) x l t)
      (write_cr_field_signed f a b c1) (write_cr_field_signed f a b c2)"
    and "cpu_agree (LiveSet g (c OR push_bit ((7 - f) * 4) 0xf) x l t)
      (write_cr_field_unsigned f a b c1) (write_cr_field_unsigned f a b c2)"
  unfolding write_cr_field_signed_def write_cr_field_unsigned_def Let_def agree_so[OF assms]
  by (rule agree_insert[OF assms(1) word_le_field]; rule word_le_small; simp)+

lemma agree_write_cr0:
  assumes "cpu_agree (LiveSet g c x l t) c1 c2" "word_le XER_BIT_SO x"
  shows "cpu_agree (LiveSet g (c OR 0xF0000000) x l t) (write_cr0_from_result v c1) (write_cr0_from_result v c2)"
proof -
  define w :: uint32 where "w = (if v = 0 then CR_CR0_EQ else if istrue (v AND 0x80000000) then CR_CR0_LT
    else CR_CR0_GT) OR (if istrue (xer c2 AND XER_SO) then CR_CR0_SO else 0)"
  have w: "write_cr0_from_result v d = d\<lparr>cr := (cr d AND 0x0fffffff) OR w\<rparr>"
    if "(xer d AND XER_SO = 0) = (xer c2 AND XER_SO = 0)" for d
    using that by (simp add: write_cr0_from_result_def w_def or.assoc)
  have n: "NOT (0xF0000000 :: uint32) = 0x0fffffff" by simp
  have "word_le w 0xF0000000"
    unfolding w_def by (simp add: CR_CR0_EQ_def CR_CR0_LT_def CR_CR0_GT_def CR_CR0_SO_def) (simp add: word_le_and)
  then show ?thesis
    using agree_insert[OF assms(1), of w "0xF0000000", unfolded n] by (simp add: w agree_so[OF assms])
qed

lemma agree_write_cr_bit:
  assumes "cpu_agree (LiveSet g c x l t) c1 c2"
  shows "cpu_agree (LiveSet g (c OR 2 ^ (31 - i)) x l t) (write_cr_bit i p c1) (write_cr_bit i p c2)"
proof -
  have "write_cr_bit i p d = d\<lparr>cr := (cr d AND NOT (2 ^ (31 - i))) OR (if p then 2 ^ (31 - i) else 0)\<rparr>" for d
    by (auto simp: write_cr_bit_def intro!: arg_cong[where f = "\<lambda>w. d\<lparr>cr := w\<rparr>"] bit_word_eqI simp: bit_or_iff bit_and_iff bit_not_iff)
  then show ?thesis
    using agree_insert[OF assms, of "if p then 2 ^ (31 - i) else 0" "2 ^ (31 - i)"] by (simp add: word_le_def)
qed

lemma agree_set_xer:
  assumes "cpu_agree (LiveSet g c x l t) c1 c2"
    and "\<And>n. n < 32 \<Longrightarrow> n < 29 \<or> bit y (n - 29) \<Longrightarrow> bit v1 n = bit v2 n"
  shows "cpu_agree (LiveSet g c y l t) (c1\<lparr>xer := v1\<rparr>) (c2\<lparr>xer := v2\<rparr>)"
  using assms by (auto simp: cpu_agree_def agree_on_bits bit_xer_live_mask)

lemma agree_write_ca:
  assumes "cpu_agree (LiveSet g c x l t) c1 c2"
  shows "cpu_agree (LiveSet g c (x OR XER_BIT_CA) l t) (write_xer_ca p c1) (write_xer_ca p c2)"
proof -
  have e: "bit XER_CA n \<longleftrightarrow> n = 29" for n
    by (auto simp: XER_CA_def bit_push_bit_iff bit_1_iff simp del: push_bit_of_1)
  have "bit (x OR XER_BIT_CA) k \<longleftrightarrow> bit x k \<or> k = 0" for k
    by (auto simp: bit_or_iff xer_bit_defs bit_1_iff)
  then show ?thesis
    using agree_xer_bit[OF assms]
    by (auto simp: write_xer_ca_def bit_or_iff bit_and_iff bit_not_iff e intro!: agree_set_xer[OF assms])
qed

subsection \<open>The interpretation\<close>

lemma concrete_simps [simp]:
  "s_read_gpr concrete_sem r c = (gpr c r, c)" "s_write_gpr concrete_sem = write_gpr"
  "s_read_lr concrete_sem c = (lr c, c)" "s_write_lr concrete_sem v c = c\<lparr>lr := v\<rparr>"
  "s_read_ctr concrete_sem c = (ctr c, c)" "s_write_ctr concrete_sem v c = c\<lparr>ctr := v\<rparr>"
  "s_read_xer concrete_sem c = (xer c, c)" "s_write_xer concrete_sem v c = c\<lparr>xer := v\<rparr>"
  "s_read_cr concrete_sem c = (cr c, c)" "s_write_cr_masked concrete_sem = write_cr_masked"
  "s_read_cr_field concrete_sem f c = (read_cr_field f c, c)" "s_write_cr_field concrete_sem = write_cr_field"
  "s_read_xer_ca concrete_sem c = (read_xer_ca c, c)" "s_write_xer_ca concrete_sem = write_xer_ca"
  "s_write_cr0_from_result concrete_sem = write_cr0_from_result"
  "s_write_cr_field_signed concrete_sem = write_cr_field_signed"
  "s_write_cr_field_unsigned concrete_sem = write_cr_field_unsigned"
  "s_write_cr_bit concrete_sem = write_cr_bit" "s_get_cr_bit concrete_sem i c = (get_cr_bit i c, c)"
  "s_sraw concrete_sem a b c = (ppc_sraw a b, c)"
  by (simp_all add: concrete_sem_def)

text \<open>
  The relation also fixes what the analysis does not track: the templates of the contract
  leave it alone.
\<close>

definition cpu_agree_in :: "cpu \<Rightarrow> LiveSet \<Rightarrow> cpu \<Rightarrow> cpu \<Rightarrow> bool" where
  "cpu_agree_in u L c1 c2 \<longleftrightarrow> cpu_agree L c1 c2 \<and> untracked c1 = u"

lemma untracked_writes [simp]:
  "untracked (write_gpr r v c) = untracked c" "untracked (write_cr_masked v m c) = untracked c"
  "untracked (write_cr_field f v c) = untracked c" "untracked (write_cr0_from_result v c) = untracked c"
  "untracked (write_cr_field_signed f a b c) = untracked c"
  "untracked (write_cr_field_unsigned f a b c) = untracked c"
  "untracked (write_cr_bit i p c) = untracked c" "untracked (write_xer_ca p c) = untracked c"
  by (simp_all add: write_gpr_def write_cr_masked_def write_cr_field_def write_cr0_from_result_def
    write_cr_field_signed_def write_cr_field_unsigned_def write_cr_bit_def write_xer_ca_def Let_def)

lemma agree_write_reg:
  assumes "cpu_agree (LiveSet g c x l t) c1 c2"
  shows "cpu_agree (LiveSet g c x True t) (c1\<lparr>lr := v\<rparr>) (c2\<lparr>lr := v\<rparr>)"
    and "cpu_agree (LiveSet g c x l True) (c1\<lparr>ctr := v\<rparr>) (c2\<lparr>ctr := v\<rparr>)"
    and "cpu_agree (LiveSet g c (x OR XER_BIT_ALL) l t) (c1\<lparr>xer := v\<rparr>) (c2\<lparr>xer := v\<rparr>)"
  using assms by (simp_all add: cpu_agree_def agree_on_def)

lemma agree_regs:
  "cpu_agree (LiveSet g c x True t) c1 c2 \<Longrightarrow> lr c1 = lr c2"
  "cpu_agree (LiveSet g c x l True) c1 c2 \<Longrightarrow> ctr c1 = ctr c2"
  by (simp_all add: cpu_agree_def)

interpretation conc: backend concrete_sem "cpu_agree_in u" "\<lambda>r c. gpr c r" lr ctr xer read_xer_ca cr
  read_cr_field get_cr_bit ppc_sraw for u
  by (unfold_locales; (unfold cpu_agree_in_def)?; (elim conjE)?;
    ((rule conjI, erule (1) cpu_agree_mono, assumption)
      | simp add: agree_gpr agree_cr agree_xer agree_regs agree_read_xer_ca agree_read_cr_field agree_get_cr_bit
          agree_set_gpr agree_write_reg agree_write_masked agree_write_cr_field agree_write_cr0 agree_write_cmp
          agree_write_cr_bit agree_write_ca))

end
