(* ===== verification/Ppc_Exc.thy ===== *)
theory Ppc_Exc
  imports Ppc_Concrete
begin

text \<open>
  src/cpu/cpu_generic/ppc_exc.cc and the exception flags of ppc_cpu.cc.  A \<open>PPC_*_ERR\<close> message
  is \<open>ppc_fatal\<close>, which ends the process: the error value \<open>Ppc_Fatal\<close>.  The other errors are
  the host's undefined behaviour: a division without a result and an access outside an array.
\<close>

unbundle bit_operations_syntax

datatype cpu_error = Ppc_Fatal | Host_Undefined host_trap | Bad_Access | Endless

definition PPC_EXC_MACHINE_CHECK :: uint32 where "PPC_EXC_MACHINE_CHECK = 0x200"
definition PPC_EXC_DSI :: uint32 where "PPC_EXC_DSI = 0x300"
definition PPC_EXC_ISI :: uint32 where "PPC_EXC_ISI = 0x400"
definition PPC_EXC_EXT_INT :: uint32 where "PPC_EXC_EXT_INT = 0x500"
definition PPC_EXC_PROGRAM :: uint32 where "PPC_EXC_PROGRAM = 0x700"
definition PPC_EXC_NO_FPU :: uint32 where "PPC_EXC_NO_FPU = 0x800"
definition PPC_EXC_DEC :: uint32 where "PPC_EXC_DEC = 0x900"
definition PPC_EXC_SC :: uint32 where "PPC_EXC_SC = 0xC00"
definition PPC_EXC_TRACE2 :: uint32 where "PPC_EXC_TRACE2 = 0xD00"
definition PPC_EXC_FLOAT_ASSIST :: uint32 where "PPC_EXC_FLOAT_ASSIST = 0xE00"
definition PPC_EXC_NO_VEC :: uint32 where "PPC_EXC_NO_VEC = 0xF20"

lemmas exc_type_defs = PPC_EXC_MACHINE_CHECK_def PPC_EXC_DSI_def PPC_EXC_ISI_def PPC_EXC_EXT_INT_def
  PPC_EXC_PROGRAM_def PPC_EXC_NO_FPU_def PPC_EXC_DEC_def PPC_EXC_SC_def PPC_EXC_TRACE2_def
  PPC_EXC_FLOAT_ASSIST_def PPC_EXC_NO_VEC_def

definition PPC_EXC_DSISR_PAGE :: uint32 where "PPC_EXC_DSISR_PAGE = push_bit 30 1"
definition PPC_EXC_DSISR_PROT :: uint32 where "PPC_EXC_DSISR_PROT = push_bit 27 1"
definition PPC_EXC_DSISR_STORE :: uint32 where "PPC_EXC_DSISR_STORE = push_bit 25 1"
definition PPC_EXC_SRR1_PAGE :: uint32 where "PPC_EXC_SRR1_PAGE = PPC_EXC_DSISR_PAGE"
definition PPC_EXC_SRR1_GUARD :: uint32 where "PPC_EXC_SRR1_GUARD = push_bit 28 1"
definition PPC_EXC_SRR1_PROT :: uint32 where "PPC_EXC_SRR1_PROT = PPC_EXC_DSISR_PROT"
definition PPC_EXC_PROGRAM_PRIV :: uint32 where "PPC_EXC_PROGRAM_PRIV = push_bit 18 1"
definition PPC_EXC_PROGRAM_TRAP :: uint32 where "PPC_EXC_PROGRAM_TRAP = push_bit 17 1"
definition PPC_EXC_PROGRAM_NEXT :: uint32 where "PPC_EXC_PROGRAM_NEXT = push_bit 16 1"

definition ppc_mmu_tlb_invalidate :: "cpu \<Rightarrow> cpu" where
  "ppc_mmu_tlb_invalidate c = c\<lparr>effective_code_page := 0xffffffff\<rparr>"

text \<open>The save registers an exception leaves: \<open>srr[0]\<close> and \<open>srr[1]\<close>.\<close>

definition save_srr :: "uint32 \<Rightarrow> uint32 \<Rightarrow> cpu \<Rightarrow> cpu" where
  "save_srr s0 s1 c = c\<lparr>srr := (srr c)(0 := s0, 1 := s1)\<rparr>"

definition exc_prologue :: "uint32 \<Rightarrow> uint32 \<Rightarrow> uint32 \<Rightarrow> cpu \<Rightarrow> cpu_error + cpu" where
  "exc_prologue type flags a c =
     (let saved = msr c AND 0x87c0ffff in
      if type = PPC_EXC_DSI then Inr ((save_srr (pc c) saved c)\<lparr>dar := a, dsisr := flags\<rparr>)
      else if type = PPC_EXC_ISI then Inr (save_srr (pc c) (saved OR flags) c)
      else if type = PPC_EXC_DEC then Inr (save_srr (pc c) saved c)
      else if type = PPC_EXC_EXT_INT then Inr (save_srr (pc c) saved c)
      else if type = PPC_EXC_SC then Inr (save_srr (npc c) saved c)
      else if type = PPC_EXC_NO_FPU then Inr (save_srr (pc c) saved c)
      else if type = PPC_EXC_NO_VEC then Inr (save_srr (pc c) saved c)
      else if type = PPC_EXC_PROGRAM then
        Inr (save_srr (if istrue (flags AND PPC_EXC_PROGRAM_NEXT) then npc c else pc c) (saved OR flags) c)
      else if type = PPC_EXC_FLOAT_ASSIST then Inr (save_srr (pc c) saved c)
      else if type = PPC_EXC_MACHINE_CHECK then
        (if msr c AND MSR_ME = 0 then Inl Ppc_Fatal else Inr (save_srr (pc c) (saved OR MSR_RI) c))
      else if type = PPC_EXC_TRACE2 then Inr (save_srr (pc c) saved c)
      else Inl Ppc_Fatal)"

definition ppc_exception :: "uint32 \<Rightarrow> uint32 \<Rightarrow> uint32 \<Rightarrow> cpu \<Rightarrow> cpu_error + cpu" where
  "ppc_exception type flags a c =
     (case exc_prologue type flags a c of
        Inl e \<Rightarrow> Inl e
      | Inr c \<Rightarrow> Inr ((ppc_mmu_tlb_invalidate c)\<lparr>msr := 0, npc := type\<rparr>))"

subsection \<open>The exception flags\<close>

text \<open>Each of these runs under \<open>exception_mutex\<close>, as one step.\<close>

definition ppc_cpu_atomic_raise_ext_exception :: "cpu \<Rightarrow> cpu" where
  "ppc_cpu_atomic_raise_ext_exception c = c\<lparr>ext_exception := True, exception_pending := True\<rparr>"

definition ppc_cpu_atomic_cancel_ext_exception :: "cpu \<Rightarrow> cpu" where
  "ppc_cpu_atomic_cancel_ext_exception c =
     (let c = c\<lparr>ext_exception := False\<rparr>
      in if \<not> dec_exception c then c\<lparr>exception_pending := False\<rparr> else c)"

definition ppc_cpu_atomic_raise_dec_exception :: "cpu \<Rightarrow> cpu" where
  "ppc_cpu_atomic_raise_dec_exception c = c\<lparr>dec_exception := True, exception_pending := True\<rparr>"

definition ppc_cpu_stop :: "cpu \<Rightarrow> cpu" where
  "ppc_cpu_stop c = c\<lparr>stop_exception := True, exception_pending := True\<rparr>"

definition ppc_cpu_raise_ext_exception :: "cpu \<Rightarrow> cpu" where
  "ppc_cpu_raise_ext_exception = ppc_cpu_atomic_raise_ext_exception"

definition ppc_cpu_cancel_ext_exception :: "cpu \<Rightarrow> cpu" where
  "ppc_cpu_cancel_ext_exception = ppc_cpu_atomic_cancel_ext_exception"

lemmas exc_flag_defs = ppc_cpu_atomic_raise_ext_exception_def ppc_cpu_atomic_cancel_ext_exception_def
  ppc_cpu_atomic_raise_dec_exception_def ppc_cpu_stop_def

end
