(* ===== verification/Ppc_Alu.thy ===== *)
theory Ppc_Alu
  imports Ppc_Sem_Alu Ppc_Exc
begin

text \<open>
  src/cpu/cpu_generic/ppc_alu.cc: the interpreter's integer handlers.  Each runs its template
  on the concrete back end; the forms with overflow recording end in \<open>PPC_ALU_ERR\<close>
  after the template has run; the divides warn about a zero divisor and divide all the same.
\<close>

definition run_sem :: "(cpu alu_sem \<Rightarrow> uint32 \<Rightarrow> cpu \<Rightarrow> cpu) \<Rightarrow> cpu \<Rightarrow> cpu_error + cpu" where
  "run_sem t c = Inr (t concrete_sem (current_opc c) c)"

definition run_sem_err :: "(cpu alu_sem \<Rightarrow> uint32 \<Rightarrow> cpu \<Rightarrow> cpu) \<Rightarrow> cpu \<Rightarrow> cpu_error + cpu" where
  "run_sem_err t c = (case run_sem t c of Inl e \<Rightarrow> Inl e | Inr c \<Rightarrow> Inl Ppc_Fatal)"

definition run_div :: "(cpu alu_sem \<Rightarrow> uint32 \<Rightarrow> cpu \<Rightarrow> host_trap + cpu) \<Rightarrow> cpu \<Rightarrow> cpu_error + cpu" where
  "run_div t c = (case t concrete_sem (current_opc c) c of Inl e \<Rightarrow> Inl (Host_Undefined e) | Inr c \<Rightarrow> Inr c)"

definition ppc_opc_addx :: "cpu \<Rightarrow> cpu_error + cpu" where
  "ppc_opc_addx = run_sem ppc_sem_addx"

definition ppc_opc_addox :: "cpu \<Rightarrow> cpu_error + cpu" where
  "ppc_opc_addox = run_sem_err ppc_sem_addx"

definition ppc_opc_addcx :: "cpu \<Rightarrow> cpu_error + cpu" where
  "ppc_opc_addcx = run_sem ppc_sem_addcx"

definition ppc_opc_addcox :: "cpu \<Rightarrow> cpu_error + cpu" where
  "ppc_opc_addcox = run_sem_err ppc_sem_addcx"

definition ppc_opc_addex :: "cpu \<Rightarrow> cpu_error + cpu" where
  "ppc_opc_addex = run_sem ppc_sem_addex"

definition ppc_opc_addeox :: "cpu \<Rightarrow> cpu_error + cpu" where
  "ppc_opc_addeox = run_sem_err ppc_sem_addex"

definition ppc_opc_addi :: "cpu \<Rightarrow> cpu_error + cpu" where
  "ppc_opc_addi = run_sem ppc_sem_addi"

definition ppc_opc_addic :: "cpu \<Rightarrow> cpu_error + cpu" where
  "ppc_opc_addic = run_sem ppc_sem_addic"

definition ppc_opc_addic_rc :: "cpu \<Rightarrow> cpu_error + cpu" where
  "ppc_opc_addic_rc = run_sem ppc_sem_addic_rc"

definition ppc_opc_addis :: "cpu \<Rightarrow> cpu_error + cpu" where
  "ppc_opc_addis = run_sem ppc_sem_addis"

definition ppc_opc_addmex :: "cpu \<Rightarrow> cpu_error + cpu" where
  "ppc_opc_addmex = run_sem ppc_sem_addmex"

definition ppc_opc_addmeox :: "cpu \<Rightarrow> cpu_error + cpu" where
  "ppc_opc_addmeox = run_sem_err ppc_sem_addmex"

definition ppc_opc_addzex :: "cpu \<Rightarrow> cpu_error + cpu" where
  "ppc_opc_addzex = run_sem ppc_sem_addzex"

definition ppc_opc_addzeox :: "cpu \<Rightarrow> cpu_error + cpu" where
  "ppc_opc_addzeox = run_sem_err ppc_sem_addzex"

definition ppc_opc_andx :: "cpu \<Rightarrow> cpu_error + cpu" where
  "ppc_opc_andx = run_sem ppc_sem_andx"

definition ppc_opc_andcx :: "cpu \<Rightarrow> cpu_error + cpu" where
  "ppc_opc_andcx = run_sem ppc_sem_andcx"

definition ppc_opc_andi_rc :: "cpu \<Rightarrow> cpu_error + cpu" where
  "ppc_opc_andi_rc = run_sem ppc_sem_andi_rc"

definition ppc_opc_andis_rc :: "cpu \<Rightarrow> cpu_error + cpu" where
  "ppc_opc_andis_rc = run_sem ppc_sem_andis_rc"

definition ppc_opc_cmp :: "cpu \<Rightarrow> cpu_error + cpu" where
  "ppc_opc_cmp = run_sem ppc_sem_cmp"

definition ppc_opc_cmpi :: "cpu \<Rightarrow> cpu_error + cpu" where
  "ppc_opc_cmpi = run_sem ppc_sem_cmpi"

definition ppc_opc_cmpl :: "cpu \<Rightarrow> cpu_error + cpu" where
  "ppc_opc_cmpl = run_sem ppc_sem_cmpl"

definition ppc_opc_cmpli :: "cpu \<Rightarrow> cpu_error + cpu" where
  "ppc_opc_cmpli = run_sem ppc_sem_cmpli"

definition ppc_opc_cntlzwx :: "cpu \<Rightarrow> cpu_error + cpu" where
  "ppc_opc_cntlzwx = run_sem ppc_sem_cntlzwx"

definition ppc_opc_crand :: "cpu \<Rightarrow> cpu_error + cpu" where
  "ppc_opc_crand = run_sem ppc_sem_crand"

definition ppc_opc_crandc :: "cpu \<Rightarrow> cpu_error + cpu" where
  "ppc_opc_crandc = run_sem ppc_sem_crandc"

definition ppc_opc_creqv :: "cpu \<Rightarrow> cpu_error + cpu" where
  "ppc_opc_creqv = run_sem ppc_sem_creqv"

definition ppc_opc_crnand :: "cpu \<Rightarrow> cpu_error + cpu" where
  "ppc_opc_crnand = run_sem ppc_sem_crnand"

definition ppc_opc_crnor :: "cpu \<Rightarrow> cpu_error + cpu" where
  "ppc_opc_crnor = run_sem ppc_sem_crnor"

definition ppc_opc_cror :: "cpu \<Rightarrow> cpu_error + cpu" where
  "ppc_opc_cror = run_sem ppc_sem_cror"

definition ppc_opc_crorc :: "cpu \<Rightarrow> cpu_error + cpu" where
  "ppc_opc_crorc = run_sem ppc_sem_crorc"

definition ppc_opc_crxor :: "cpu \<Rightarrow> cpu_error + cpu" where
  "ppc_opc_crxor = run_sem ppc_sem_crxor"

definition ppc_opc_divwx :: "cpu \<Rightarrow> cpu_error + cpu" where
  "ppc_opc_divwx = run_div ppc_sem_divwx"

definition ppc_opc_divwox :: "cpu \<Rightarrow> cpu_error + cpu" where
  "ppc_opc_divwox c =
     (let (rD, rA, rB) = PPC_OPC_TEMPL_XO (current_opc c)
      in if gpr c rB = 0 then Inl Ppc_Fatal
         else case run_div ppc_sem_divwx c of Inl e \<Rightarrow> Inl e | Inr c \<Rightarrow> Inl Ppc_Fatal)"

definition ppc_opc_divwux :: "cpu \<Rightarrow> cpu_error + cpu" where
  "ppc_opc_divwux = run_div ppc_sem_divwux"

definition ppc_opc_divwuox :: "cpu \<Rightarrow> cpu_error + cpu" where
  "ppc_opc_divwuox c = (case run_div ppc_sem_divwux c of Inl e \<Rightarrow> Inl e | Inr c \<Rightarrow> Inl Ppc_Fatal)"

definition ppc_opc_eqvx :: "cpu \<Rightarrow> cpu_error + cpu" where
  "ppc_opc_eqvx = run_sem ppc_sem_eqvx"

definition ppc_opc_extsbx :: "cpu \<Rightarrow> cpu_error + cpu" where
  "ppc_opc_extsbx = run_sem ppc_sem_extsbx"

definition ppc_opc_extshx :: "cpu \<Rightarrow> cpu_error + cpu" where
  "ppc_opc_extshx = run_sem ppc_sem_extshx"

definition ppc_opc_mulhwx :: "cpu \<Rightarrow> cpu_error + cpu" where
  "ppc_opc_mulhwx = run_sem ppc_sem_mulhwx"

definition ppc_opc_mulhwux :: "cpu \<Rightarrow> cpu_error + cpu" where
  "ppc_opc_mulhwux = run_sem ppc_sem_mulhwux"

definition ppc_opc_mulli :: "cpu \<Rightarrow> cpu_error + cpu" where
  "ppc_opc_mulli = run_sem ppc_sem_mulli"

definition ppc_opc_mullwx :: "cpu \<Rightarrow> cpu_error + cpu" where
  "ppc_opc_mullwx = run_sem ppc_sem_mullwx"

definition ppc_opc_nandx :: "cpu \<Rightarrow> cpu_error + cpu" where
  "ppc_opc_nandx = run_sem ppc_sem_nandx"

definition ppc_opc_negx :: "cpu \<Rightarrow> cpu_error + cpu" where
  "ppc_opc_negx = run_sem ppc_sem_negx"

definition ppc_opc_negox :: "cpu \<Rightarrow> cpu_error + cpu" where
  "ppc_opc_negox = run_sem_err ppc_sem_negx"

definition ppc_opc_norx :: "cpu \<Rightarrow> cpu_error + cpu" where
  "ppc_opc_norx = run_sem ppc_sem_norx"

definition ppc_opc_orx :: "cpu \<Rightarrow> cpu_error + cpu" where
  "ppc_opc_orx = run_sem ppc_sem_orx"

definition ppc_opc_orcx :: "cpu \<Rightarrow> cpu_error + cpu" where
  "ppc_opc_orcx = run_sem ppc_sem_orcx"

definition ppc_opc_ori :: "cpu \<Rightarrow> cpu_error + cpu" where
  "ppc_opc_ori = run_sem ppc_sem_ori"

definition ppc_opc_oris :: "cpu \<Rightarrow> cpu_error + cpu" where
  "ppc_opc_oris = run_sem ppc_sem_oris"

definition ppc_opc_rlwimix :: "cpu \<Rightarrow> cpu_error + cpu" where
  "ppc_opc_rlwimix = run_sem ppc_sem_rlwimix"

definition ppc_opc_rlwinmx :: "cpu \<Rightarrow> cpu_error + cpu" where
  "ppc_opc_rlwinmx = run_sem ppc_sem_rlwinmx"

definition ppc_opc_rlwnmx :: "cpu \<Rightarrow> cpu_error + cpu" where
  "ppc_opc_rlwnmx = run_sem ppc_sem_rlwnmx"

definition ppc_opc_slwx :: "cpu \<Rightarrow> cpu_error + cpu" where
  "ppc_opc_slwx = run_sem ppc_sem_slwx"

definition ppc_opc_srawx :: "cpu \<Rightarrow> cpu_error + cpu" where
  "ppc_opc_srawx = run_sem ppc_sem_srawx"

definition ppc_opc_srawix :: "cpu \<Rightarrow> cpu_error + cpu" where
  "ppc_opc_srawix = run_sem ppc_sem_srawix"

definition ppc_opc_srwx :: "cpu \<Rightarrow> cpu_error + cpu" where
  "ppc_opc_srwx = run_sem ppc_sem_srwx"

definition ppc_opc_subfx :: "cpu \<Rightarrow> cpu_error + cpu" where
  "ppc_opc_subfx = run_sem ppc_sem_subfx"

definition ppc_opc_subfox :: "cpu \<Rightarrow> cpu_error + cpu" where
  "ppc_opc_subfox = run_sem_err ppc_sem_subfx"

definition ppc_opc_subfcx :: "cpu \<Rightarrow> cpu_error + cpu" where
  "ppc_opc_subfcx = run_sem ppc_sem_subfcx"

definition ppc_opc_subfcox :: "cpu \<Rightarrow> cpu_error + cpu" where
  "ppc_opc_subfcox = run_sem_err ppc_sem_subfcx"

definition ppc_opc_subfex :: "cpu \<Rightarrow> cpu_error + cpu" where
  "ppc_opc_subfex = run_sem ppc_sem_subfex"

definition ppc_opc_subfeox :: "cpu \<Rightarrow> cpu_error + cpu" where
  "ppc_opc_subfeox = run_sem_err ppc_sem_subfex"

definition ppc_opc_subfic :: "cpu \<Rightarrow> cpu_error + cpu" where
  "ppc_opc_subfic = run_sem ppc_sem_subfic"

definition ppc_opc_subfmex :: "cpu \<Rightarrow> cpu_error + cpu" where
  "ppc_opc_subfmex = run_sem ppc_sem_subfmex"

definition ppc_opc_subfmeox :: "cpu \<Rightarrow> cpu_error + cpu" where
  "ppc_opc_subfmeox = run_sem_err ppc_sem_subfmex"

definition ppc_opc_subfzex :: "cpu \<Rightarrow> cpu_error + cpu" where
  "ppc_opc_subfzex = run_sem ppc_sem_subfzex"

definition ppc_opc_subfzeox :: "cpu \<Rightarrow> cpu_error + cpu" where
  "ppc_opc_subfzeox = run_sem_err ppc_sem_subfzex"

definition ppc_opc_xorx :: "cpu \<Rightarrow> cpu_error + cpu" where
  "ppc_opc_xorx = run_sem ppc_sem_xorx"

definition ppc_opc_xori :: "cpu \<Rightarrow> cpu_error + cpu" where
  "ppc_opc_xori = run_sem ppc_sem_xori"

definition ppc_opc_xoris :: "cpu \<Rightarrow> cpu_error + cpu" where
  "ppc_opc_xoris = run_sem ppc_sem_xoris"

lemmas alu_handler_defs = ppc_opc_addx_def
  ppc_opc_addox_def
  ppc_opc_addcx_def
  ppc_opc_addcox_def
  ppc_opc_addex_def
  ppc_opc_addeox_def
  ppc_opc_addi_def
  ppc_opc_addic_def
  ppc_opc_addic_rc_def
  ppc_opc_addis_def
  ppc_opc_addmex_def
  ppc_opc_addmeox_def
  ppc_opc_addzex_def
  ppc_opc_addzeox_def
  ppc_opc_andx_def
  ppc_opc_andcx_def
  ppc_opc_andi_rc_def
  ppc_opc_andis_rc_def
  ppc_opc_cmp_def
  ppc_opc_cmpi_def
  ppc_opc_cmpl_def
  ppc_opc_cmpli_def
  ppc_opc_cntlzwx_def
  ppc_opc_crand_def
  ppc_opc_crandc_def
  ppc_opc_creqv_def
  ppc_opc_crnand_def
  ppc_opc_crnor_def
  ppc_opc_cror_def
  ppc_opc_crorc_def
  ppc_opc_crxor_def
  ppc_opc_divwx_def
  ppc_opc_divwox_def
  ppc_opc_divwux_def
  ppc_opc_divwuox_def
  ppc_opc_eqvx_def
  ppc_opc_extsbx_def
  ppc_opc_extshx_def
  ppc_opc_mulhwx_def
  ppc_opc_mulhwux_def
  ppc_opc_mulli_def
  ppc_opc_mullwx_def
  ppc_opc_nandx_def
  ppc_opc_negx_def
  ppc_opc_negox_def
  ppc_opc_norx_def
  ppc_opc_orx_def
  ppc_opc_orcx_def
  ppc_opc_ori_def
  ppc_opc_oris_def
  ppc_opc_rlwimix_def
  ppc_opc_rlwinmx_def
  ppc_opc_rlwnmx_def
  ppc_opc_slwx_def
  ppc_opc_srawx_def
  ppc_opc_srawix_def
  ppc_opc_srwx_def
  ppc_opc_subfx_def
  ppc_opc_subfox_def
  ppc_opc_subfcx_def
  ppc_opc_subfcox_def
  ppc_opc_subfex_def
  ppc_opc_subfeox_def
  ppc_opc_subfic_def
  ppc_opc_subfmex_def
  ppc_opc_subfmeox_def
  ppc_opc_subfzex_def
  ppc_opc_subfzeox_def
  ppc_opc_xorx_def
  ppc_opc_xori_def
  ppc_opc_xoris_def

end
