(* ===== verification/Ppc_Opc.thy ===== *)
theory Ppc_Opc
  imports Ppc_Alu Ppc_Sem_Spr
begin

text \<open>
  src/cpu/cpu_generic/ppc_opc.cc: branches, moves to and from the machine state, special-purpose,
  segment, condition and FPSCR registers, returns from interrupts, system calls, traps and the
  cache and TLB instructions; and \<open>ppc_mmu_set_sdr1\<close> of ppc_mmu.cc, which \<open>mtspr\<close> calls.
  \<open>PPC_OPC_ASSERT\<close> is empty and \<open>PPC_CPU_ENABLE_SINGLESTEP\<close> is not defined in the
  source; \<open>SINGLESTEP\<close> only sets a flag of the debugger, which is not part of the state.
\<close>

unbundle bit_operations_syntax

type_synonym opc_function = "cpu \<Rightarrow> cpu_error + cpu"

subsection \<open>Machine state and privilege\<close>

definition ppc_set_msr :: "uint32 \<Rightarrow> opc_function" where
  "ppc_set_msr newmsr c =
     (let c = ppc_mmu_tlb_invalidate c
      in if istrue (newmsr AND PPC_CPU_UNSUPPORTED_MSR_BITS) then Inl Ppc_Fatal
         else let newmsr = (if istrue (newmsr AND MSR_POW) then newmsr AND NOT MSR_POW else newmsr)
              in Inr (c\<lparr>msr := newmsr\<rparr>))"

text \<open>The guard \<open>if (gCPU.msr & MSR_PR) { ppc_exception(PROGRAM, PRIV); return; }\<close>.\<close>

definition privileged :: "opc_function \<Rightarrow> opc_function" where
  "privileged f c =
     (if istrue (msr c AND MSR_PR) then ppc_exception PPC_EXC_PROGRAM PPC_EXC_PROGRAM_PRIV 0 c else f c)"

subsection \<open>Branches\<close>

definition set_lr_if_lk :: "cpu \<Rightarrow> cpu" where
  "set_lr_if_lk c = (if istrue (current_opc c AND PPC_OPC_LK) then c\<lparr>lr := pc c + 4\<rparr> else c)"

definition ppc_opc_bx :: opc_function where
  "ppc_opc_bx c =
     (let li = PPC_OPC_TEMPL_I (current_opc c);
          li = (if current_opc c AND PPC_OPC_AA = 0 then li + pc c else li);
          c = set_lr_if_lk c
      in Inr (c\<lparr>npc := li\<rparr>))"

definition branch_ctr_ok :: "uint32 \<Rightarrow> cpu \<Rightarrow> bool" where
  "branch_ctr_ok BO c = (istrue (BO AND 4) \<or> ((ctr c \<noteq> 0) \<noteq> istrue (BO AND 2)))"

definition branch_cr_ok :: "uint32 \<Rightarrow> nat \<Rightarrow> cpu \<Rightarrow> bool" where
  "branch_cr_ok BO BI c =
     (istrue (BO AND 16) \<or> \<not> (istrue (cr c AND push_bit (31 - BI) 1) \<noteq> istrue (BO AND 8)))"

definition ppc_opc_bcx :: opc_function where
  "ppc_opc_bcx c =
     (let (BO, BI, BD) = PPC_OPC_TEMPL_B (current_opc c);
          c = (if BO AND 4 = 0 then c\<lparr>ctr := ctr c - 1\<rparr> else c)
      in if branch_ctr_ok BO c \<and> branch_cr_ok BO BI c then
           let BD = (if current_opc c AND PPC_OPC_AA = 0 then BD + pc c else BD);
               c = set_lr_if_lk c
           in Inr (c\<lparr>npc := BD\<rparr>)
         else Inr c)"

definition ppc_opc_bcctrx :: opc_function where
  "ppc_opc_bcctrx c =
     (let (BO, BI, BD) = PPC_OPC_TEMPL_XL (current_opc c)
      in if branch_cr_ok BO BI c then
           let c = set_lr_if_lk c in Inr (c\<lparr>npc := ctr c AND 0xfffffffc\<rparr>)
         else Inr c)"

definition ppc_opc_bclrx :: opc_function where
  "ppc_opc_bclrx c =
     (let (BO, BI, BD) = PPC_OPC_TEMPL_XL (current_opc c);
          c = (if BO AND 4 = 0 then c\<lparr>ctr := ctr c - 1\<rparr> else c)
      in if branch_ctr_ok BO c \<and> branch_cr_ok BO BI c then
           let BD = lr c AND 0xfffffffc;
               c = set_lr_if_lk c
           in Inr (c\<lparr>npc := BD\<rparr>)
         else Inr c)"

subsection \<open>No operation, and not implemented\<close>

definition ppc_opc_dcbf :: opc_function where "ppc_opc_dcbf c = Inr c"
definition ppc_opc_dcbi :: opc_function where "ppc_opc_dcbi = privileged Inr"
definition ppc_opc_dcbst :: opc_function where "ppc_opc_dcbst c = Inr c"
definition ppc_opc_dcbt :: opc_function where "ppc_opc_dcbt c = Inr c"
definition ppc_opc_dcbtst :: opc_function where "ppc_opc_dcbtst c = Inr c"
definition ppc_opc_eciwx :: opc_function where "ppc_opc_eciwx c = Inl Ppc_Fatal"
definition ppc_opc_ecowx :: opc_function where "ppc_opc_ecowx c = Inl Ppc_Fatal"
definition ppc_opc_eieio :: opc_function where "ppc_opc_eieio c = Inr c"
definition ppc_opc_icbi :: opc_function where "ppc_opc_icbi c = Inr c"
definition ppc_opc_isync :: opc_function where "ppc_opc_isync c = Inr c"
definition ppc_opc_sync :: opc_function where "ppc_opc_sync c = Inr c"
definition ppc_opc_dcba :: opc_function where "ppc_opc_dcba c = Inr c"

subsection \<open>Condition register\<close>

definition ppc_opc_mcrf :: opc_function where "ppc_opc_mcrf = run_sem ppc_sem_mcrf"
definition ppc_opc_mcrfs :: opc_function where "ppc_opc_mcrfs c = Inl Ppc_Fatal"
definition ppc_opc_mcrxr :: opc_function where "ppc_opc_mcrxr c = Inl Ppc_Fatal"
definition ppc_opc_mfcr :: opc_function where "ppc_opc_mfcr = run_sem ppc_sem_mfcr"
definition ppc_opc_mtcrf :: opc_function where "ppc_opc_mtcrf = run_sem ppc_sem_mtcrf"

subsection \<open>FPSCR\<close>

text \<open>The record forms have done their work when they end in \<open>PPC_OPC_ERR\<close>.\<close>

definition rc_unimplemented :: opc_function where
  "rc_unimplemented c = (if istrue (current_opc c AND PPC_OPC_Rc) then Inl Ppc_Fatal else Inr c)"

definition ppc_opc_mffsx :: opc_function where
  "ppc_opc_mffsx c =
     (let (frD, rA, rB) = PPC_OPC_TEMPL_X (current_opc c)
      in rc_unimplemented (c\<lparr>fpr := (fpr c)(frD := ucast (fpscr c))\<rparr>))"

definition ppc_opc_mtfsb0x :: opc_function where
  "ppc_opc_mtfsb0x c =
     (let (crbD, n1, n2) = PPC_OPC_TEMPL_X (current_opc c)
      in rc_unimplemented
           (if crbD \<noteq> 1 \<and> crbD \<noteq> 2 then c\<lparr>fpscr := fpscr c AND NOT (push_bit (31 - crbD) 1)\<rparr> else c))"

definition ppc_opc_mtfsb1x :: opc_function where
  "ppc_opc_mtfsb1x c =
     (let (crbD, n1, n2) = PPC_OPC_TEMPL_X (current_opc c)
      in rc_unimplemented
           (if crbD \<noteq> 1 \<and> crbD \<noteq> 2 then c\<lparr>fpscr := fpscr c OR push_bit (31 - crbD) 1\<rparr> else c))"

definition ppc_opc_mtfsfx :: opc_function where
  "ppc_opc_mtfsfx c =
     (let (frB, fm) = PPC_OPC_TEMPL_XFL (current_opc c);
          FM = (if istrue (fm AND 0x80) then 0xf0000000 else 0) OR (if istrue (fm AND 0x40) then 0x0f000000 else 0)
            OR (if istrue (fm AND 0x20) then 0x00f00000 else 0) OR (if istrue (fm AND 0x10) then 0x000f0000 else 0)
            OR (if istrue (fm AND 0x08) then 0x0000f000 else 0) OR (if istrue (fm AND 0x04) then 0x00000f00 else 0)
            OR (if istrue (fm AND 0x02) then 0x000000f0 else 0) OR (if istrue (fm AND 0x01) then 0x0000000f else 0)
      in rc_unimplemented
           (c\<lparr>fpscr := ucast (fpr c frB AND ucast FM) OR (fpscr c AND NOT FM)\<rparr>))"

definition ppc_cmp_and_mask :: "nat \<Rightarrow> uint32" where
  "ppc_cmp_and_mask i = [0xfffffff0, 0xffffff0f, 0xfffff0ff, 0xffff0fff, 0xfff0ffff, 0xff0fffff, 0xf0ffffff, 0x0fffffff] ! i"

definition ppc_opc_mtfsfix :: opc_function where
  "ppc_opc_mtfsfix c =
     (let (crfD, n1, imm) = PPC_OPC_TEMPL_X (current_opc c);
          crfD = 7 - crfD div 4;
          imm = of_nat (imm div 2) :: uint32
      in rc_unimplemented (c\<lparr>fpscr := (fpscr c AND ppc_cmp_and_mask crfD) OR push_bit (crfD * 4) imm\<rparr>))"

subsection \<open>Moves from registers\<close>

definition ppc_opc_mfmsr :: opc_function where
  "ppc_opc_mfmsr = privileged (\<lambda>c.
     let (rD, rA, rB) = PPC_OPC_TEMPL_X (current_opc c) in Inr (write_gpr rD (msr c) c))"

definition TB_TO_PTB_FACTOR :: uint64 where "TB_TO_PTB_FACTOR = 10"

definition update_tb :: "cpu \<Rightarrow> cpu" where
  "update_tb c = c\<lparr>tb := ptb c div TB_TO_PTB_FACTOR\<rparr>"

text \<open>
  \<open>mfspr\<close>: the registers every mode reads; the cases of \<open>spr2 = 0\<close> fall through into
  those of 8.
\<close>

definition mfspr_user :: "nat \<Rightarrow> nat \<Rightarrow> cpu \<Rightarrow> uint32 option" where
  "mfspr_user spr1 spr2 c =
     (if spr2 = 0 \<and> spr1 = 1 then Some (xer c)
      else if spr2 = 0 \<and> spr1 = 8 then Some (lr c)
      else if spr2 = 0 \<and> spr1 = 9 then Some (ctr c)
      else if (spr2 = 0 \<or> spr2 = 8) \<and> spr1 = 0 then Some (vrsave c)
      else None)"

text \<open>
  The supervisor's registers; the cases of 29 fall through into those of 31.  A value and the
  state (reading DEC or the time base updates it from the precise counter).
\<close>

definition mfspr_super :: "nat \<Rightarrow> nat \<Rightarrow> cpu \<Rightarrow> (uint32 \<times> cpu) option" where
  "mfspr_super spr1 spr2 c =
     (if spr2 = 0 then
        (if spr1 = 18 then Some (dsisr c, c)
         else if spr1 = 19 then Some (dar c, c)
         else if spr1 = 22 then
           (let c = c\<lparr>dec := ucast (pdec c div TB_TO_PTB_FACTOR)\<rparr> in Some (dec c, c))
         else if spr1 = 25 then Some (sdr1 c, c)
         else if spr1 = 26 then Some (srr c 0, c)
         else if spr1 = 27 then Some (srr c 1, c)
         else None)
      else if spr2 = 8 then
        (if spr1 = 12 then (let c = update_tb c in Some (ucast (tb c), c))
         else if spr1 = 13 then (let c = update_tb c in Some (ucast (drop_bit 32 (tb c)), c))
         else if 16 \<le> spr1 \<and> spr1 \<le> 19 then Some (sprg c (spr1 - 16), c)
         else if spr1 = 26 then Some (ear c, c)
         else if spr1 = 31 then Some (pvr c, c)
         else None)
      else if spr2 = 16 then
        (if 16 \<le> spr1 \<and> spr1 \<le> 23 then
           Some (if even spr1 then ibatu c ((spr1 - 16) div 2) else ibatl c ((spr1 - 16) div 2), c)
         else if 24 \<le> spr1 \<and> spr1 \<le> 31 then
           Some (if even spr1 then dbatu c ((spr1 - 24) div 2) else dbatl c ((spr1 - 24) div 2), c)
         else None)
      else if spr2 = 29 \<and> spr1 \<in> {16, 17, 18, 24, 25, 26, 28, 29, 30} then Some (0, c)
      else if spr2 = 29 \<or> spr2 = 31 then
        (if spr1 = 16 then Some (hid c 0, c)
         else if spr1 = 17 then Some (hid c 1, c)
         else if spr1 \<in> {18, 21, 22, 23, 25, 27, 28, 29, 30, 31} then Some (0, c)
         else None)
      else None)"

definition ppc_opc_mfspr :: opc_function where
  "ppc_opc_mfspr c =
     (let (rD, spr1, spr2) = PPC_OPC_TEMPL_XO (current_opc c)
      in case mfspr_user spr1 spr2 c of
           Some v \<Rightarrow> Inr (write_gpr rD v c)
         | None \<Rightarrow>
             privileged (\<lambda>c. case mfspr_super spr1 spr2 c of
                               Some (v, c) \<Rightarrow> Inr (write_gpr rD v c)
                             | None \<Rightarrow> Inr c) c)"

definition ppc_opc_mfsr :: opc_function where
  "ppc_opc_mfsr = privileged (\<lambda>c.
     let (rD, SR, rB) = PPC_OPC_TEMPL_X (current_opc c) in Inr (write_gpr rD (sr c (SR mod 16)) c))"

definition ppc_opc_mfsrin :: opc_function where
  "ppc_opc_mfsrin = privileged (\<lambda>c.
     let (rD, rA, rB) = PPC_OPC_TEMPL_X (current_opc c)
     in Inr (write_gpr rD (sr c (unat (drop_bit 28 (gpr c rB)))) c))"

definition ppc_opc_mftb :: opc_function where
  "ppc_opc_mftb c =
     (let (rD, spr1, spr2) = PPC_OPC_TEMPL_X (current_opc c)
      in if spr2 = 8 \<and> spr1 = 12 then (let c = update_tb c in Inr (write_gpr rD (ucast (tb c)) c))
         else if spr2 = 8 \<and> spr1 = 13 then (let c = update_tb c in Inr (write_gpr rD (ucast (drop_bit 32 (tb c))) c))
         else Inr c)"

subsection \<open>The page table register\<close>

text \<open>
  The loop of \<open>ppc_mmu_set_sdr1\<close> collects the low one-bits of the mask, at most nine; the
  argument counts down from 9 and the results are \<open>xx\<close> and \<open>x\<close>.
\<close>

fun sdr1_loop :: "nat \<Rightarrow> uint32 \<Rightarrow> uint32 \<Rightarrow> uint32 \<Rightarrow> uint32" where
  "sdr1_loop 0 htabmask x xx = xx"
| "sdr1_loop (Suc k) htabmask x xx =
     (if istrue (htabmask AND x) then sdr1_loop k htabmask (push_bit 1 x) (xx OR x) else xx)"

definition ppc_mmu_set_sdr1 :: "uint32 \<Rightarrow> cpu \<Rightarrow> bool \<times> cpu" where
  "ppc_mmu_set_sdr1 newval c =
     (let htabmask = SDR1_HTABMASK newval;
          xx = sdr1_loop 9 htabmask 1 0;
          htaborg = SDR1_HTABORG newval
      in if istrue (htabmask AND NOT xx) then (False, c)
         else if istrue (htaborg AND xx) then (False, c)
         else (True, c\<lparr>pagetable_base := push_bit 16 htaborg, sdr1 := newval,
                       pagetable_hashmask := push_bit 10 xx OR 0x3ff\<rparr>))"

subsection \<open>Moves to registers\<close>

definition ppc_opc_mtmsr :: opc_function where
  "ppc_opc_mtmsr = privileged (\<lambda>c.
     let (rS, rA, rB) = PPC_OPC_TEMPL_X (current_opc c) in ppc_set_msr (gpr c rS) c)"

definition mtspr_user :: "nat \<Rightarrow> nat \<Rightarrow> uint32 \<Rightarrow> cpu \<Rightarrow> cpu option" where
  "mtspr_user spr1 spr2 v c =
     (if spr2 = 0 \<and> spr1 = 1 then Some (c\<lparr>xer := v\<rparr>)
      else if spr2 = 0 \<and> spr1 = 8 then Some (c\<lparr>lr := v\<rparr>)
      else if spr2 = 0 \<and> spr1 = 9 then Some (c\<lparr>ctr := v\<rparr>)
      else if (spr2 = 0 \<or> spr2 = 8) \<and> spr1 = 0 then Some (c\<lparr>vrsave := v\<rparr>)
      else None)"

definition bat_bl17 :: "uint32 \<Rightarrow> uint32" where
  "bat_bl17 batu = NOT (push_bit 17 (BATU_BL batu))"

definition mtspr_super :: "nat \<Rightarrow> nat \<Rightarrow> uint32 \<Rightarrow> cpu \<Rightarrow> cpu_error + cpu" where
  "mtspr_super spr1 spr2 v c =
     (if spr2 = 0 then
        (if spr1 = 22 then Inr (c\<lparr>dec := v, pdec := ucast v * TB_TO_PTB_FACTOR\<rparr>)
         else if spr1 = 25 then
           (let (ok, c) = ppc_mmu_set_sdr1 v c in if ok then Inr c else Inl Ppc_Fatal)
         else if spr1 = 26 then Inr (c\<lparr>srr := (srr c)(0 := v)\<rparr>)
         else if spr1 = 27 then Inr (c\<lparr>srr := (srr c)(1 := v)\<rparr>)
         else Inr c)
      else if spr2 = 8 then
        (if 16 \<le> spr1 \<and> spr1 \<le> 19 then Inr (c\<lparr>sprg := (sprg c)(spr1 - 16 := v)\<rparr>) else Inr c)
      else if spr2 = 16 then
        (if 16 \<le> spr1 \<and> spr1 \<le> 23 then
           (let i = (spr1 - 16) div 2
            in if even spr1 then Inr (c\<lparr>ibatu := (ibatu c)(i := v), ibat_bl17 := (ibat_bl17 c)(i := bat_bl17 v)\<rparr>)
               else Inr (c\<lparr>ibatl := (ibatl c)(i := v)\<rparr>))
         else if 24 \<le> spr1 \<and> spr1 \<le> 31 then
           (let i = (spr1 - 24) div 2
            in if even spr1 then Inr (c\<lparr>dbatu := (dbatu c)(i := v), dbat_bl17 := (dbat_bl17 c)(i := bat_bl17 v)\<rparr>)
               else Inr (c\<lparr>dbatl := (dbatl c)(i := v)\<rparr>))
         else Inr c)
      else if spr2 = 29 \<and> spr1 \<in> {17, 24, 25, 26} then Inr c
      else if spr2 = 29 \<or> spr2 = 31 then
        (if spr1 = 16 then Inr (c\<lparr>hid := (hid c)(0 := v)\<rparr>)
         else if spr1 = 18 \<or> spr1 = 21 then Inl Ppc_Fatal
         else Inr c)
      else Inr c)"

definition ppc_opc_mtspr :: opc_function where
  "ppc_opc_mtspr c =
     (let (rS, spr1, spr2) = PPC_OPC_TEMPL_X (current_opc c)
      in case mtspr_user spr1 spr2 (gpr c rS) c of
           Some c \<Rightarrow> Inr c
         | None \<Rightarrow> privileged (mtspr_super spr1 spr2 (gpr c rS)) c)"

definition ppc_opc_mtsr :: opc_function where
  "ppc_opc_mtsr = privileged (\<lambda>c.
     let (rS, SR, rB) = PPC_OPC_TEMPL_X (current_opc c) in Inr (c\<lparr>sr := (sr c)(SR mod 16 := gpr c rS)\<rparr>))"

definition ppc_opc_mtsrin :: opc_function where
  "ppc_opc_mtsrin = privileged (\<lambda>c.
     let (rS, rA, rB) = PPC_OPC_TEMPL_X (current_opc c)
     in Inr (c\<lparr>sr := (sr c)(unat (drop_bit 28 (gpr c rB)) := gpr c rS)\<rparr>))"

subsection \<open>Interrupts, system calls, TLB and traps\<close>

definition ppc_opc_rfi :: opc_function where
  "ppc_opc_rfi = privileged (\<lambda>c.
     case ppc_set_msr (srr c 1 AND MSR_RFI_SAVE_MASK) c of
       Inl e \<Rightarrow> Inl e
     | Inr c \<Rightarrow> Inr (c\<lparr>npc := srr c 0 AND 0xfffffffc\<rparr>))"

text \<open>\<open>gcard_osi\<close> is the graphics card's call interface, a parameter.\<close>

definition ppc_opc_sc :: "opc_function \<Rightarrow> opc_function" where
  "ppc_opc_sc gcard_osi c =
     (if gpr c 3 = 0x113724fa \<and> gpr c 4 = 0x77810f9b then gcard_osi c
      else ppc_exception PPC_EXC_SC 0 0 c)"

definition ppc_opc_tlbia :: opc_function where
  "ppc_opc_tlbia = privileged (\<lambda>c. Inr (ppc_mmu_tlb_invalidate c))"

definition ppc_opc_tlbie :: opc_function where
  "ppc_opc_tlbie = privileged (\<lambda>c. Inr (ppc_mmu_tlb_invalidate c))"

definition ppc_opc_tlbsync :: opc_function where
  "ppc_opc_tlbsync = privileged (\<lambda>c. Inr (ppc_mmu_tlb_invalidate c))"

definition trap_cond :: "nat \<Rightarrow> uint32 \<Rightarrow> uint32 \<Rightarrow> bool" where
  "trap_cond TO a b \<longleftrightarrow>
     (bit TO 4 \<and> a <s b) \<or> (bit TO 3 \<and> b <s a) \<or> (bit TO 2 \<and> a = b) \<or> (bit TO 1 \<and> a < b) \<or> (bit TO 0 \<and> b < a)"

definition ppc_opc_tw :: opc_function where
  "ppc_opc_tw c =
     (let (TO, rA, rB) = PPC_OPC_TEMPL_X (current_opc c)
      in if trap_cond TO (gpr c rA) (gpr c rB) then ppc_exception PPC_EXC_PROGRAM PPC_EXC_PROGRAM_TRAP 0 c
         else Inr c)"

definition ppc_opc_twi :: opc_function where
  "ppc_opc_twi c =
     (let (TO, rA, imm) = PPC_OPC_TEMPL_D_SImm (current_opc c)
      in if trap_cond TO (gpr c rA) imm then ppc_exception PPC_EXC_PROGRAM PPC_EXC_PROGRAM_TRAP 0 c
         else Inr c)"

end
