(* ===== verification/Ppc_Mmu.thy ===== *)
theory Ppc_Mmu
  imports Ppc_Opc
begin

text \<open>
  src/cpu/cpu_generic/ppc_mmu.cc up to the DMA and PROM interfaces: guest memory, address
  translation by BAT registers and by the hashed page table, physical and effective accesses, accesses
  that cross a page.  The device side of an access (\<open>io_mem_read\<close> and its relatives of
  src/io/io.h, and the devices behind them) is a record of functions, \<open>bus\<close>.
\<close>

unbundle bit_operations_syntax

subsection \<open>The machine\<close>

record 'io mach =
  mcpu :: cpu
  gMemory :: "nat \<Rightarrow> uint8"
  gMemorySize :: uint32
  io :: 'io

datatype mmu_ret = PPC_MMU_OK | PPC_MMU_EXC | PPC_MMU_FATAL

record 'io bus =
  io_mem_read :: "uint32 \<Rightarrow> nat \<Rightarrow> 'io mach \<Rightarrow> cpu_error + (mmu_ret \<times> uint32) \<times> 'io mach"
  io_mem_write :: "uint32 \<Rightarrow> uint32 \<Rightarrow> nat \<Rightarrow> 'io mach \<Rightarrow> cpu_error + mmu_ret \<times> 'io mach"
  io_mem_read64 :: "uint32 \<Rightarrow> 'io mach \<Rightarrow> cpu_error + (mmu_ret \<times> uint64) \<times> 'io mach"
  io_mem_write64 :: "uint32 \<Rightarrow> uint64 \<Rightarrow> 'io mach \<Rightarrow> cpu_error + mmu_ret \<times> 'io mach"

definition and_then :: "'e + 'a \<Rightarrow> ('a \<Rightarrow> 'e + 'b) \<Rightarrow> 'e + 'b" where
  "and_then r f = (case r of Inl e \<Rightarrow> Inl e | Inr x \<Rightarrow> f x)"

lemma and_then_simps [simp]: "and_then (Inl e) f = Inl e" "and_then (Inr x) f = f x"
  by (simp_all add: and_then_def)

lemma and_then_Inr_iff: "and_then r f = Inr y \<longleftrightarrow> (\<exists>x. r = Inr x \<and> f x = Inr y)"
  by (cases r) auto

definition on_cpu :: "opc_function \<Rightarrow> 'io mach \<Rightarrow> cpu_error + 'io mach" where
  "on_cpu f m = and_then (f (mcpu m)) (\<lambda>c. Inr (m\<lparr>mcpu := c\<rparr>))"

subsection \<open>Guest memory\<close>

text \<open>
  Guest memory is big-endian.  \<open>mem_get n\<close> is the number in the \<open>n\<close> bytes at an address
  and \<open>mem_put\<close> stores one.  The code tests only the first address of an access
  against \<open>gMemorySize\<close>: an access that runs over the end is \<open>Bad_Access\<close>.
\<close>

fun mem_get :: "(nat \<Rightarrow> uint8) \<Rightarrow> nat \<Rightarrow> nat \<Rightarrow> nat" where
  "mem_get M a 0 = 0"
| "mem_get M a (Suc n) = mem_get M a n * 256 + unat (M (a + n))"

fun mem_put :: "(nat \<Rightarrow> uint8) \<Rightarrow> nat \<Rightarrow> nat \<Rightarrow> nat \<Rightarrow> nat \<Rightarrow> uint8" where
  "mem_put M a 0 v = M"
| "mem_put M a (Suc n) v = (mem_put M a n (v div 256))(a + n := of_nat v)"

definition ram_read :: "nat \<Rightarrow> uint32 \<Rightarrow> 'io mach \<Rightarrow> cpu_error + nat" where
  "ram_read n addr m =
     (if unat addr + n \<le> unat (gMemorySize m) then Inr (mem_get (gMemory m) (unat addr) n) else Inl Bad_Access)"

definition ram_write :: "nat \<Rightarrow> uint32 \<Rightarrow> nat \<Rightarrow> 'io mach \<Rightarrow> cpu_error + 'io mach" where
  "ram_write n addr v m =
     (if unat addr + n \<le> unat (gMemorySize m)
      then Inr (m\<lparr>gMemory := mem_put (gMemory m) (unat addr) n v\<rparr>) else Inl Bad_Access)"

subsection \<open>Physical accesses\<close>

definition ppc_bswap_half :: "uint16 \<Rightarrow> uint16" where
  "ppc_bswap_half w = push_bit 8 w OR drop_bit 8 w"

definition ppc_bswap_word :: "uint32 \<Rightarrow> uint32" where
  "ppc_bswap_word w = push_bit 24 w OR (push_bit 8 w AND 0x00ff0000) OR (drop_bit 8 w AND 0x0000ff00) OR drop_bit 24 w"

definition ppc_bswap_dword :: "uint64 \<Rightarrow> uint64" where
  "ppc_bswap_dword w =
     push_bit 32 (ucast (ppc_bswap_word (ucast w))) OR ucast (ppc_bswap_word (ucast (drop_bit 32 w)))"

type_synonym ('io, 'a) rd = "'io mach \<Rightarrow> cpu_error + (mmu_ret \<times> 'a) \<times> 'io mach"
type_synonym 'io wr = "'io mach \<Rightarrow> cpu_error + mmu_ret \<times> 'io mach"

definition ppc_read_physical_dword :: "'io bus \<Rightarrow> uint32 \<Rightarrow> ('io, uint64) rd" where
  "ppc_read_physical_dword B addr m =
     (if addr < gMemorySize m then and_then (ram_read 8 addr m) (\<lambda>v. Inr ((PPC_MMU_OK, of_nat v), m))
      else and_then (io_mem_read64 B addr m) (\<lambda>((r, v), m). Inr ((r, ppc_bswap_dword v), m)))"

definition ppc_read_physical_word :: "'io bus \<Rightarrow> uint32 \<Rightarrow> ('io, uint32) rd" where
  "ppc_read_physical_word B addr m =
     (if addr < gMemorySize m then and_then (ram_read 4 addr m) (\<lambda>v. Inr ((PPC_MMU_OK, of_nat v), m))
      else and_then (io_mem_read B addr 4 m) (\<lambda>((r, v), m). Inr ((r, ppc_bswap_word v), m)))"

definition ppc_read_physical_half :: "'io bus \<Rightarrow> uint32 \<Rightarrow> ('io, uint16) rd" where
  "ppc_read_physical_half B addr m =
     (if addr < gMemorySize m then and_then (ram_read 2 addr m) (\<lambda>v. Inr ((PPC_MMU_OK, of_nat v), m))
      else and_then (io_mem_read B addr 2 m) (\<lambda>((r, v), m). Inr ((r, ppc_bswap_half (ucast v)), m)))"

definition ppc_read_physical_byte :: "'io bus \<Rightarrow> uint32 \<Rightarrow> ('io, uint8) rd" where
  "ppc_read_physical_byte B addr m =
     (if addr < gMemorySize m then and_then (ram_read 1 addr m) (\<lambda>v. Inr ((PPC_MMU_OK, of_nat v), m))
      else and_then (io_mem_read B addr 1 m) (\<lambda>((r, v), m). Inr ((r, ucast v), m)))"

text \<open>Two of the six writers fold the device's result into \<open>OK\<close> and \<open>FATAL\<close>.\<close>

definition ppc_write_physical_dword :: "'io bus \<Rightarrow> uint32 \<Rightarrow> uint64 \<Rightarrow> 'io wr" where
  "ppc_write_physical_dword B addr data m =
     (if addr < gMemorySize m then and_then (ram_write 8 addr (unat data) m) (\<lambda>m. Inr (PPC_MMU_OK, m))
      else and_then (io_mem_write64 B addr (ppc_bswap_dword data) m)
             (\<lambda>(r, m). Inr (if r = PPC_MMU_OK then PPC_MMU_OK else PPC_MMU_FATAL, m)))"

definition ppc_write_physical_word :: "'io bus \<Rightarrow> uint32 \<Rightarrow> uint32 \<Rightarrow> 'io wr" where
  "ppc_write_physical_word B addr data m =
     (if addr < gMemorySize m then and_then (ram_write 4 addr (unat data) m) (\<lambda>m. Inr (PPC_MMU_OK, m))
      else io_mem_write B addr (ppc_bswap_word data) 4 m)"

definition ppc_write_physical_half :: "'io bus \<Rightarrow> uint32 \<Rightarrow> uint16 \<Rightarrow> 'io wr" where
  "ppc_write_physical_half B addr data m =
     (if addr < gMemorySize m then and_then (ram_write 2 addr (unat data) m) (\<lambda>m. Inr (PPC_MMU_OK, m))
      else io_mem_write B addr (ucast (ppc_bswap_half data)) 2 m)"

definition ppc_write_physical_byte :: "'io bus \<Rightarrow> uint32 \<Rightarrow> uint8 \<Rightarrow> 'io wr" where
  "ppc_write_physical_byte B addr data m =
     (if addr < gMemorySize m then and_then (ram_write 1 addr (unat data) m) (\<lambda>m. Inr (PPC_MMU_OK, m))
      else io_mem_write B addr (ucast data) 1 m)"

subsection \<open>Address translation\<close>

definition PPC_MMU_READ :: uint32 where "PPC_MMU_READ = 1"
definition PPC_MMU_WRITE :: uint32 where "PPC_MMU_WRITE = 2"
definition PPC_MMU_CODE :: uint32 where "PPC_MMU_CODE = 4"
definition PPC_MMU_SV :: uint32 where "PPC_MMU_SV = 8"
definition PPC_MMU_NO_EXC :: uint32 where "PPC_MMU_NO_EXC = 16"

lemmas mmu_flag_defs = PPC_MMU_READ_def PPC_MMU_WRITE_def PPC_MMU_CODE_def PPC_MMU_SV_def PPC_MMU_NO_EXC_def

definition ppc_pte_protection :: "nat \<Rightarrow> bool" where
  "ppc_pte_protection i =
     ([True, True, True, True, False, True, True, True,
       True, True, True, False, False, False, True, False] ! i)"

text \<open>The scan of the four BAT registers; the first argument counts down from 4.\<close>

fun bat_loop ::
  "nat \<Rightarrow> uint32 \<Rightarrow> (nat \<Rightarrow> uint32) \<Rightarrow> (nat \<Rightarrow> uint32) \<Rightarrow> (nat \<Rightarrow> uint32) \<Rightarrow> uint32 \<Rightarrow> uint32 option" where
  "bat_loop 0 batu up low bl addr = None"
| "bat_loop (Suc k) batu up low bl addr =
     (let i = 3 - k;
          bl17 = bl i;
          addr2 = addr AND (bl17 OR 0xf001ffff)
      in if BATU_BEPI addr2 = BATU_BEPI (up i) \<and> istrue (up i AND batu) then
           let offset = BAT_EA_OFFSET addr;
               page = (BAT_EA_11 addr AND NOT bl17) OR BATL_BRPN (low i)
           in Some (page OR offset)
         else bat_loop k batu up low bl addr)"

definition exc_ret :: "uint32 \<Rightarrow> uint32 \<Rightarrow> uint32 \<Rightarrow> ('io, uint32) rd" where
  "exc_ret type flags a m =
     and_then (on_cpu (ppc_exception type flags a) m) (\<lambda>m. Inr ((PPC_MMU_EXC, 0), m))"

text \<open>What an access that a page table entry forbids, or that has no entry, ends in.\<close>

definition mmu_fault :: "uint32 \<Rightarrow> uint32 \<Rightarrow> uint32 \<Rightarrow> uint32 \<Rightarrow> uint32 \<Rightarrow> ('io, uint32) rd" where
  "mmu_fault addr flags isi isi_a dsi m =
     (if istrue (flags AND PPC_MMU_NO_EXC) then Inr ((PPC_MMU_FATAL, 0), m)
      else if istrue (flags AND PPC_MMU_CODE) then exc_ret PPC_EXC_ISI isi isi_a m
      else if istrue (flags AND PPC_MMU_WRITE) then exc_ret PPC_EXC_DSI (dsi OR PPC_EXC_DSISR_STORE) addr m
      else exc_ret PPC_EXC_DSI dsi addr m)"

definition pt_read_failed :: "uint32 \<Rightarrow> ('io, uint32) rd" where
  "pt_read_failed flags m =
     (if istrue (flags AND PPC_MMU_NO_EXC) then Inr ((PPC_MMU_FATAL, 0), m) else Inl Ppc_Fatal)"

definition pte_key :: "uint32 \<Rightarrow> uint32 \<Rightarrow> nat" where
  "pte_key msr' seg =
     (if istrue (msr' AND MSR_PR) then (if istrue (seg AND SR_Kp) then 4 else 0)
      else (if istrue (seg AND SR_Ks) then 4 else 0))"

text \<open>
  The scan of the eight entries of a PTEG, for the primary (\<open>h = 0\<close>) and the secondary hash
  (\<open>h = PTE1_H\<close>): \<open>None\<close> when no entry belongs to the page.
\<close>

fun pteg_loop ::
  "nat \<Rightarrow> 'io bus \<Rightarrow> uint32 \<Rightarrow> uint32 \<Rightarrow> uint32 \<Rightarrow> uint32 \<Rightarrow> uint32 \<Rightarrow> 'io mach \<Rightarrow>
   cpu_error + (mmu_ret \<times> uint32) option \<times> 'io mach" where
  "pteg_loop 0 B h addr flags seg pteg_addr m = Inr (None, m)"
| "pteg_loop (Suc k) B h addr flags seg pteg_addr m =
     and_then (ppc_read_physical_word B pteg_addr m) (\<lambda>((r, pte), m).
       if r \<noteq> PPC_MMU_OK then and_then (pt_read_failed flags m) (\<lambda>(x, m). Inr (Some x, m))
       else if istrue (pte AND PTE1_V) \<and> (pte AND PTE1_H) = h \<and> SR_VSID seg = PTE1_VSID pte \<and> EA_API addr = PTE1_API pte then
         and_then (ppc_read_physical_word B (pteg_addr + 4) m) (\<lambda>((r, pte), m).
           if r \<noteq> PPC_MMU_OK then and_then (pt_read_failed flags m) (\<lambda>(x, m). Inr (Some x, m))
           else if \<not> ppc_pte_protection ((if istrue (flags AND PPC_MMU_WRITE) then 8 else 0)
                       + pte_key (msr (mcpu m)) seg + PTE2_PP pte) then
             and_then (mmu_fault addr flags PPC_EXC_SRR1_PROT addr PPC_EXC_DSISR_PROT m) (\<lambda>(x, m). Inr (Some x, m))
           else
             let result = PTE2_RPN pte OR EA_Offset addr;
                 pte = (if istrue (flags AND PPC_MMU_WRITE) then pte OR (PTE2_C OR PTE2_R) else pte OR PTE2_R)
             in and_then (ppc_write_physical_word B (pteg_addr + 4) pte m)
                  (\<lambda>(_, m). Inr (Some (PPC_MMU_OK, result), m)))
       else pteg_loop k B h addr flags seg (pteg_addr + 8) m)"

definition pteg_address :: "uint32 \<Rightarrow> cpu \<Rightarrow> uint32" where
  "pteg_address hash c = push_bit 6 (hash AND pagetable_hashmask c) OR pagetable_base c"

definition page_translate :: "'io bus \<Rightarrow> uint32 \<Rightarrow> uint32 \<Rightarrow> uint32 \<Rightarrow> ('io, uint32) rd" where
  "page_translate B addr flags seg m =
     (let hash1 = SR_VSID seg XOR EA_PageIndex addr
      in and_then (pteg_loop 8 B 0 addr flags seg (pteg_address hash1 (mcpu m)) m) (\<lambda>(x, m).
           case x of
             Some x \<Rightarrow> Inr (x, m)
           | None \<Rightarrow>
               and_then (pteg_loop 8 B PTE1_H addr flags seg (pteg_address (NOT hash1) (mcpu m)) m) (\<lambda>(x, m).
                 case x of
                   Some x \<Rightarrow> Inr (x, m)
                 | None \<Rightarrow> mmu_fault addr flags PPC_EXC_SRR1_PAGE 0 PPC_EXC_DSISR_PAGE m)))"

definition ppc_effective_to_physical :: "'io bus \<Rightarrow> uint32 \<Rightarrow> uint32 \<Rightarrow> ('io, uint32) rd" where
  "ppc_effective_to_physical B addr flags m =
     (let c = mcpu m;
          code = istrue (flags AND PPC_MMU_CODE);
          batu = (if istrue (msr c AND MSR_PR) then BATU_Vp else BATU_Vs)
      in if msr c AND (if code then MSR_IR else MSR_DR) = 0 then Inr ((PPC_MMU_OK, addr), m)
         else case (if code then bat_loop 4 batu (ibatu c) (ibatl c) (ibat_bl17 c) addr
                    else bat_loop 4 batu (dbatu c) (dbatl c) (dbat_bl17 c) addr) of
                Some p \<Rightarrow> Inr ((PPC_MMU_OK, p), m)
              | None \<Rightarrow>
                  let seg = sr c (EA_SR addr)
                  in if istrue (seg AND SR_T) then Inl Ppc_Fatal
                     else if code \<and> istrue (seg AND SR_N) then
                       (if istrue (flags AND PPC_MMU_NO_EXC) then Inr ((PPC_MMU_FATAL, 0), m)
                        else exc_ret PPC_EXC_ISI PPC_EXC_SRR1_GUARD 0 m)
                     else page_translate B addr flags seg m)"

subsection \<open>Direct access to guest memory\<close>

text \<open>A host pointer into guest memory is its offset.\<close>

definition ppc_direct_physical_memory_handle :: "uint32 \<Rightarrow> 'io mach \<Rightarrow> mmu_ret \<times> uint32" where
  "ppc_direct_physical_memory_handle addr m =
     (if addr < gMemorySize m then (PPC_MMU_OK, addr) else (PPC_MMU_FATAL, 0))"

text \<open>Translate and go on with the physical address, or return the code of the failure.\<close>

definition with_physical ::
  "'io bus \<Rightarrow> uint32 \<Rightarrow> uint32 \<Rightarrow> 'a \<Rightarrow> (uint32 \<Rightarrow> ('io, 'a) rd) \<Rightarrow> ('io, 'a) rd" where
  "with_physical B addr flags dflt f m =
     and_then (ppc_effective_to_physical B addr flags m) (\<lambda>((r, p), m).
       if r = PPC_MMU_OK then f p m else Inr ((r, dflt), m))"

definition ppc_direct_effective_memory_handle :: "'io bus \<Rightarrow> uint32 \<Rightarrow> ('io, uint32) rd" where
  "ppc_direct_effective_memory_handle B addr =
     with_physical B addr PPC_MMU_READ 0 (\<lambda>p m. Inr (ppc_direct_physical_memory_handle p m, m))"

definition ppc_direct_effective_memory_handle_code :: "'io bus \<Rightarrow> uint32 \<Rightarrow> ('io, uint32) rd" where
  "ppc_direct_effective_memory_handle_code B addr =
     with_physical B addr (PPC_MMU_READ OR PPC_MMU_CODE) 0 (\<lambda>p m. Inr (ppc_direct_physical_memory_handle p m, m))"

subsection \<open>Effective reads\<close>

text \<open>
  An access of \<open>n\<close> bytes that crosses into the next page: the last \<open>n - 1\<close> bytes of the first
  page and the first \<open>n - 1\<close> of the second go through a buffer.  The result of the
  second translation of the first page is not tested in the source: its output is kept when it fails.
\<close>

definition crossing ::
  "nat \<Rightarrow> 'io bus \<Rightarrow> uint32 \<Rightarrow> uint32 \<Rightarrow> uint32 \<Rightarrow> 'a \<Rightarrow> (uint32 \<Rightarrow> uint32 \<Rightarrow> ('io, 'a) rd) \<Rightarrow> ('io, 'a) rd" where
  "crossing n B addr flags p dflt f m =
     and_then (ppc_effective_to_physical B ((addr AND NOT 0xfff) + of_nat (4097 - n)) flags m) (\<lambda>((r, p'), m).
       let p = (if r = PPC_MMU_OK then p' else p);
           (r, r1) = ppc_direct_physical_memory_handle p m
       in if r \<noteq> PPC_MMU_OK then Inr ((r, dflt), m)
          else with_physical B ((addr AND NOT 0xfff) + 4096) flags dflt (\<lambda>p m.
            let (r, r2) = ppc_direct_physical_memory_handle p m
            in if r \<noteq> PPC_MMU_OK then Inr ((r, dflt), m) else f r1 r2 m) m)"

definition cross_buffer :: "nat \<Rightarrow> uint32 \<Rightarrow> uint32 \<Rightarrow> 'io mach \<Rightarrow> cpu_error + (nat \<Rightarrow> uint8)" where
  "cross_buffer n r1 r2 m =
     and_then (ram_read (n - 1) r1 m) (\<lambda>_. and_then (ram_read (n - 1) r2 m) (\<lambda>_.
       Inr (\<lambda>i. if i < n - 1 then gMemory m (unat r1 + i) else gMemory m (unat r2 + (i - (n - 1))))))"

definition cross_read :: "nat \<Rightarrow> 'io bus \<Rightarrow> uint32 \<Rightarrow> uint32 \<Rightarrow> nat \<Rightarrow> ('io, nat) rd" where
  "cross_read n B addr p old =
     crossing n B addr PPC_MMU_READ p old (\<lambda>r1 r2 m.
       and_then (cross_buffer n r1 r2 m) (\<lambda>b.
         Inr ((PPC_MMU_OK, mem_get b (unat (EA_Offset addr) - (4097 - n)) n), m)))"

definition rd_map :: "('a \<Rightarrow> 'b) \<Rightarrow> ('io, 'a) rd \<Rightarrow> ('io, 'b) rd" where
  "rd_map g f m = and_then (f m) (\<lambda>((r, v), m). Inr ((r, g v), m))"

definition ppc_read_effective_dword :: "'io bus \<Rightarrow> uint32 \<Rightarrow> ('io, uint64) rd" where
  "ppc_read_effective_dword B addr =
     with_physical B addr PPC_MMU_READ 0 (\<lambda>p.
       if 4088 < EA_Offset addr then rd_map of_nat (cross_read 8 B addr p 0) else ppc_read_physical_dword B p)"

text \<open>
  The result of a read is a reference parameter: when the access fails before anything
  is read it keeps its old value, the argument \<open>old\<close>.
\<close>

definition ppc_read_effective_word_to :: "'io bus \<Rightarrow> uint32 \<Rightarrow> uint32 \<Rightarrow> ('io, uint32) rd" where
  "ppc_read_effective_word_to B addr old =
     with_physical B addr PPC_MMU_READ old (\<lambda>p.
       if 4092 < EA_Offset addr then rd_map of_nat (cross_read 4 B addr p (unat old))
       else ppc_read_physical_word B p)"

definition ppc_read_effective_word :: "'io bus \<Rightarrow> uint32 \<Rightarrow> ('io, uint32) rd" where
  "ppc_read_effective_word B addr = ppc_read_effective_word_to B addr 0"

definition ppc_read_effective_half :: "'io bus \<Rightarrow> uint32 \<Rightarrow> ('io, uint16) rd" where
  "ppc_read_effective_half B addr =
     with_physical B addr PPC_MMU_READ 0 (\<lambda>p m.
       if 4094 < EA_Offset addr then
         and_then (ppc_effective_to_physical B ((addr AND NOT 0xfff) + 4095) PPC_MMU_READ m) (\<lambda>((r, p'), m).
           and_then (ppc_read_physical_byte B (if r = PPC_MMU_OK then p' else p) m) (\<lambda>((r, b1), m).
             if r \<noteq> PPC_MMU_OK then Inr ((r, 0), m)
             else with_physical B ((addr AND NOT 0xfff) + 4096) PPC_MMU_READ 0 (\<lambda>p m.
               and_then (ppc_read_physical_byte B p m) (\<lambda>((r, b2), m).
                 if r \<noteq> PPC_MMU_OK then Inr ((r, 0), m)
                 else Inr ((PPC_MMU_OK, push_bit 8 (ucast b1) OR ucast b2), m))) m))
       else ppc_read_physical_half B p m)"

definition ppc_read_effective_byte :: "'io bus \<Rightarrow> uint32 \<Rightarrow> ('io, uint8) rd" where
  "ppc_read_effective_byte B addr = with_physical B addr PPC_MMU_READ 0 (ppc_read_physical_byte B)"

definition ppc_read_effective_code :: "'io bus \<Rightarrow> uint32 \<Rightarrow> ('io, uint32) rd" where
  "ppc_read_effective_code B addr m =
     (if istrue (addr AND 3) then Inr ((PPC_MMU_FATAL, 0), m)
      else with_physical B addr (PPC_MMU_READ OR PPC_MMU_CODE) 0 (ppc_read_physical_word B) m)"

subsection \<open>Effective writes\<close>

definition wr_rd :: "'io wr \<Rightarrow> ('io, unit) rd" where
  "wr_rd f m = and_then (f m) (\<lambda>(r, m). Inr ((r, ()), m))"

definition rd_wr :: "('io, unit) rd \<Rightarrow> 'io wr" where
  "rd_wr f m = and_then (f m) (\<lambda>((r, _), m). Inr (r, m))"

definition copy_bytes :: "nat \<Rightarrow> nat \<Rightarrow> (nat \<Rightarrow> uint8) \<Rightarrow> (nat \<Rightarrow> uint8) \<Rightarrow> nat \<Rightarrow> uint8" where
  "copy_bytes dst k b M = (\<lambda>a. if dst \<le> a \<and> a < dst + k then b (a - dst) else M a)"

definition cross_write :: "nat \<Rightarrow> 'io bus \<Rightarrow> uint32 \<Rightarrow> uint32 \<Rightarrow> nat \<Rightarrow> ('io, unit) rd" where
  "cross_write n B addr p data =
     crossing n B addr PPC_MMU_WRITE p () (\<lambda>r1 r2 m.
       and_then (cross_buffer n r1 r2 m) (\<lambda>b.
         let b = mem_put b (unat (EA_Offset addr) - (4097 - n)) n data;
             M = copy_bytes (unat r1) (n - 1) b (gMemory m);
             M = copy_bytes (unat r2) (n - 1) (\<lambda>i. b (n - 1 + i)) M
         in Inr ((PPC_MMU_OK, ()), m\<lparr>gMemory := M\<rparr>)))"

definition ppc_write_effective_dword :: "'io bus \<Rightarrow> uint32 \<Rightarrow> uint64 \<Rightarrow> 'io wr" where
  "ppc_write_effective_dword B addr data =
     rd_wr (with_physical B addr PPC_MMU_WRITE () (\<lambda>p.
       if 4088 < EA_Offset addr then cross_write 8 B addr p (unat data)
       else wr_rd (ppc_write_physical_dword B p data)))"

definition ppc_write_effective_word :: "'io bus \<Rightarrow> uint32 \<Rightarrow> uint32 \<Rightarrow> 'io wr" where
  "ppc_write_effective_word B addr data =
     rd_wr (with_physical B addr PPC_MMU_WRITE () (\<lambda>p.
       if 4092 < EA_Offset addr then cross_write 4 B addr p (unat data)
       else wr_rd (ppc_write_physical_word B p data)))"

definition ppc_write_effective_half :: "'io bus \<Rightarrow> uint32 \<Rightarrow> uint16 \<Rightarrow> 'io wr" where
  "ppc_write_effective_half B addr data =
     rd_wr (with_physical B addr PPC_MMU_WRITE () (\<lambda>p m.
       if 4094 < EA_Offset addr then
         and_then (ppc_effective_to_physical B ((addr AND NOT 0xfff) + 4095) PPC_MMU_WRITE m) (\<lambda>((r, p'), m).
           and_then (ppc_write_physical_byte B (if r = PPC_MMU_OK then p' else p) (ucast (drop_bit 8 data)) m) (\<lambda>(r, m).
             if r \<noteq> PPC_MMU_OK then Inr ((r, ()), m)
             else with_physical B ((addr AND NOT 0xfff) + 4096) PPC_MMU_WRITE ()
                    (\<lambda>p. wr_rd (ppc_write_physical_byte B p (ucast data))) m))
       else wr_rd (ppc_write_physical_half B p data) m))"

definition ppc_write_effective_byte :: "'io bus \<Rightarrow> uint32 \<Rightarrow> uint8 \<Rightarrow> 'io wr" where
  "ppc_write_effective_byte B addr data =
     rd_wr (with_physical B addr PPC_MMU_WRITE () (\<lambda>p. wr_rd (ppc_write_physical_byte B p data)))"

subsection \<open>Creating a page table entry\<close>

fun create_loop ::
  "nat \<Rightarrow> 'io bus \<Rightarrow> uint32 \<Rightarrow> uint32 \<Rightarrow> uint32 \<Rightarrow> 'io mach \<Rightarrow> cpu_error + bool option \<times> 'io mach" where
  "create_loop 0 B pte1 pte2 pteg_addr m = Inr (None, m)"
| "create_loop (Suc k) B pte1 pte2 pteg_addr m =
     and_then (ppc_read_physical_word B pteg_addr m) (\<lambda>((r, pte), m).
       if r \<noteq> PPC_MMU_OK then Inl Ppc_Fatal
       else if pte AND PTE1_V = 0 then
         and_then (ppc_write_physical_word B pteg_addr pte1 m) (\<lambda>(r, m).
           if r \<noteq> PPC_MMU_OK then Inr (Some False, m)
           else and_then (ppc_write_physical_word B (pteg_addr + 4) pte2 m) (\<lambda>(r, m).
             Inr (Some (r = PPC_MMU_OK), m)))
       else create_loop k B pte1 pte2 (pteg_addr + 8) m)"

definition ppc_mmu_page_create :: "'io bus \<Rightarrow> uint32 \<Rightarrow> uint32 \<Rightarrow> 'io mach \<Rightarrow> cpu_error + bool \<times> 'io mach" where
  "ppc_mmu_page_create B ea pa m =
     (let seg = sr (mcpu m) (EA_SR ea);
          VSID = SR_VSID seg;
          api = EA_API ea;
          hash1 = VSID XOR EA_PageIndex ea;
          pte1 = (\<lambda>h. PTE1_V OR push_bit 7 VSID OR h OR api);
          pte2 = push_bit 12 (PA_RPN pa)
      in and_then (create_loop 8 B (pte1 0) pte2 (pteg_address hash1 (mcpu m)) m) (\<lambda>(x, m).
           case x of
             Some b \<Rightarrow> Inr (b, m)
           | None \<Rightarrow>
               and_then (create_loop 8 B (pte1 PTE1_H) pte2 (pteg_address (NOT hash1) (mcpu m)) m) (\<lambda>(x, m).
                 Inr (case x of Some b \<Rightarrow> b | None \<Rightarrow> False, m))))"

definition ppc_prom_page_create :: "'io bus \<Rightarrow> uint32 \<Rightarrow> uint32 \<Rightarrow> 'io mach \<Rightarrow> cpu_error + bool \<times> 'io mach" where
  "ppc_prom_page_create = ppc_mmu_page_create"

definition ppc_prom_effective_to_physical :: "'io bus \<Rightarrow> uint32 \<Rightarrow> 'io mach \<Rightarrow> cpu_error + (bool \<times> uint32) \<times> 'io mach" where
  "ppc_prom_effective_to_physical B ea m =
     and_then (ppc_effective_to_physical B ea (PPC_MMU_READ OR PPC_MMU_SV OR PPC_MMU_NO_EXC) m)
       (\<lambda>((r, p), m). Inr ((r = PPC_MMU_OK, p), m))"

subsection \<open>DMA\<close>

text \<open>
  The test \<open>dest > gMemorySize || (dest+size) > gMemorySize\<close> is in 32-bit arithmetic; the copy is
  not: where it leaves the array the result is \<open>Bad_Access\<close>.
\<close>

definition dma_in_range :: "uint32 \<Rightarrow> uint32 \<Rightarrow> 'io mach \<Rightarrow> bool" where
  "dma_in_range dest n m \<longleftrightarrow> \<not> (gMemorySize m < dest \<or> gMemorySize m < dest + n)"

definition dma_copy_ok :: "uint32 \<Rightarrow> uint32 \<Rightarrow> 'io mach \<Rightarrow> bool" where
  "dma_copy_ok dest n m \<longleftrightarrow> n = 0 \<or> unat dest + unat n \<le> unat (gMemorySize m)"

definition ppc_dma_write :: "uint32 \<Rightarrow> (nat \<Rightarrow> uint8) \<Rightarrow> uint32 \<Rightarrow> 'io mach \<Rightarrow> cpu_error + bool \<times> 'io mach" where
  "ppc_dma_write dest src n m =
     (if \<not> dma_in_range dest n m then Inr (False, m)
      else if dma_copy_ok dest n m
      then Inr (True, m\<lparr>gMemory := copy_bytes (unat dest) (unat n) src (gMemory m)\<rparr>)
      else Inl Bad_Access)"

definition ppc_dma_read :: "uint32 \<Rightarrow> uint32 \<Rightarrow> 'io mach \<Rightarrow> cpu_error + uint8 list option" where
  "ppc_dma_read src n m =
     (if \<not> dma_in_range src n m then Inr None
      else if dma_copy_ok src n m
      then Inr (Some (map (\<lambda>i. gMemory m (unat src + i)) [0..<unat n]))
      else Inl Bad_Access)"

definition ppc_dma_set :: "uint32 \<Rightarrow> uint8 \<Rightarrow> uint32 \<Rightarrow> 'io mach \<Rightarrow> cpu_error + bool \<times> 'io mach" where
  "ppc_dma_set dest c n m =
     (if \<not> dma_in_range dest n m then Inr (False, m)
      else if dma_copy_ok dest n m
      then Inr (True, m\<lparr>gMemory := copy_bytes (unat dest) (unat n) (\<lambda>_. c) (gMemory m)\<rparr>)
      else Inl Bad_Access)"

end
