(* ===== verification/Ppc_Mem_Opc.thy ===== *)
theory Ppc_Mem_Opc
  imports Ppc_Mmu
begin

text \<open>
  The load and store handlers of src/cpu/cpu_generic/ppc_mmu.cc: integer, byte-reversed, multiple,
  string, reserved and double-precision accesses.  A handler whose access fails leaves the registers as
  they are (the access has raised the exception).  Single-precision and vector
  accesses are not modelled here.
\<close>

unbundle bit_operations_syntax

type_synonym 'io mem_function = "'io bus \<Rightarrow> 'io mach \<Rightarrow> cpu_error + 'io mach"

text \<open>\<open>(rA ? gCPU.gpr[rA] : 0)\<close>.\<close>

definition base :: "nat \<Rightarrow> cpu \<Rightarrow> uint32" where
  "base rA c = (if rA = 0 then 0 else gpr c rA)"

text \<open>\<open>if (ret == PPC_MMU_OK) ...\<close> after a read and after a write.\<close>

definition after_read :: "('io, 'a) rd \<Rightarrow> ('a \<Rightarrow> cpu \<Rightarrow> cpu) \<Rightarrow> 'io mach \<Rightarrow> cpu_error + 'io mach" where
  "after_read f k m =
     and_then (f m) (\<lambda>((r, v), m). Inr (if r = PPC_MMU_OK then m\<lparr>mcpu := k v (mcpu m)\<rparr> else m))"

definition after_write :: "'io wr \<Rightarrow> (cpu \<Rightarrow> cpu) \<Rightarrow> 'io mach \<Rightarrow> cpu_error + 'io mach" where
  "after_write f k m =
     and_then (f m) (\<lambda>(r, m). Inr (if r = PPC_MMU_OK then m\<lparr>mcpu := k (mcpu m)\<rparr> else m))"

definition add_gpr :: "nat \<Rightarrow> uint32 \<Rightarrow> cpu \<Rightarrow> cpu" where
  "add_gpr rA x c = write_gpr rA (gpr c rA + x) c"

text \<open>The guard of the floating-point accesses.\<close>

definition needs_fpu :: "('io mach \<Rightarrow> cpu_error + 'io mach) \<Rightarrow> 'io mach \<Rightarrow> cpu_error + 'io mach" where
  "needs_fpu f m =
     (if msr (mcpu m) AND MSR_FP = 0 then on_cpu (ppc_exception PPC_EXC_NO_FPU 0 0) m else f m)"

definition sext_half :: "uint16 \<Rightarrow> uint32" where
  "sext_half r = (if istrue (r AND 0x8000) then ucast r OR 0xffff0000 else ucast r)"

definition write_fpr :: "nat \<Rightarrow> uint64 \<Rightarrow> cpu \<Rightarrow> cpu" where
  "write_fpr r v c = c\<lparr>fpr := (fpr c)(r := v)\<rparr>"

subsection \<open>Loads\<close>

definition ppc_opc_lbz :: "'io mem_function" where
  "ppc_opc_lbz B m =
     (let (rD, rA, imm) = PPC_OPC_TEMPL_D_SImm (current_opc (mcpu m))
      in after_read (ppc_read_effective_byte B (base rA (mcpu m) + imm)) (\<lambda>v. write_gpr rD (ucast v)) m)"

definition ppc_opc_lbzu :: "'io mem_function" where
  "ppc_opc_lbzu B m =
     (let (rD, rA, imm) = PPC_OPC_TEMPL_D_SImm (current_opc (mcpu m))
      in after_read (ppc_read_effective_byte B (gpr (mcpu m) rA + imm)) (\<lambda>v c. write_gpr rD (ucast v) (add_gpr rA imm c)) m)"

definition ppc_opc_lbzux :: "'io mem_function" where
  "ppc_opc_lbzux B m =
     (let (rD, rA, rB) = PPC_OPC_TEMPL_X (current_opc (mcpu m))
      in after_read (ppc_read_effective_byte B (gpr (mcpu m) rA + gpr (mcpu m) rB))
           (\<lambda>v c. write_gpr rD (ucast v) (add_gpr rA (gpr c rB) c)) m)"

definition ppc_opc_lbzx :: "'io mem_function" where
  "ppc_opc_lbzx B m =
     (let (rD, rA, rB) = PPC_OPC_TEMPL_X (current_opc (mcpu m))
      in after_read (ppc_read_effective_byte B (base rA (mcpu m) + gpr (mcpu m) rB)) (\<lambda>v. write_gpr rD (ucast v)) m)"

definition ppc_opc_lhz :: "'io mem_function" where
  "ppc_opc_lhz B m =
     (let (rD, rA, imm) = PPC_OPC_TEMPL_D_SImm (current_opc (mcpu m))
      in after_read (ppc_read_effective_half B (base rA (mcpu m) + imm)) (\<lambda>v. write_gpr rD (ucast v)) m)"

definition ppc_opc_lhzu :: "'io mem_function" where
  "ppc_opc_lhzu B m =
     (let (rD, rA, imm) = PPC_OPC_TEMPL_D_SImm (current_opc (mcpu m))
      in after_read (ppc_read_effective_half B (gpr (mcpu m) rA + imm)) (\<lambda>v c. add_gpr rA imm (write_gpr rD (ucast v) c)) m)"

definition ppc_opc_lhzux :: "'io mem_function" where
  "ppc_opc_lhzux B m =
     (let (rD, rA, rB) = PPC_OPC_TEMPL_X (current_opc (mcpu m))
      in after_read (ppc_read_effective_half B (gpr (mcpu m) rA + gpr (mcpu m) rB))
           (\<lambda>v c. write_gpr rD (ucast v) (add_gpr rA (gpr c rB) c)) m)"

definition ppc_opc_lhzx :: "'io mem_function" where
  "ppc_opc_lhzx B m =
     (let (rD, rA, rB) = PPC_OPC_TEMPL_X (current_opc (mcpu m))
      in after_read (ppc_read_effective_half B (base rA (mcpu m) + gpr (mcpu m) rB)) (\<lambda>v. write_gpr rD (ucast v)) m)"

definition ppc_opc_lha :: "'io mem_function" where
  "ppc_opc_lha B m =
     (let (rD, rA, imm) = PPC_OPC_TEMPL_D_SImm (current_opc (mcpu m))
      in after_read (ppc_read_effective_half B (base rA (mcpu m) + imm)) (\<lambda>v. write_gpr rD (sext_half v)) m)"

definition ppc_opc_lhau :: "'io mem_function" where
  "ppc_opc_lhau B m =
     (let (rD, rA, imm) = PPC_OPC_TEMPL_D_SImm (current_opc (mcpu m))
      in after_read (ppc_read_effective_half B (gpr (mcpu m) rA + imm)) (\<lambda>v c. write_gpr rD (sext_half v) (add_gpr rA imm c)) m)"

definition ppc_opc_lhaux :: "'io mem_function" where
  "ppc_opc_lhaux B m =
     (let (rD, rA, rB) = PPC_OPC_TEMPL_X (current_opc (mcpu m))
      in after_read (ppc_read_effective_half B (gpr (mcpu m) rA + gpr (mcpu m) rB))
           (\<lambda>v c. write_gpr rD (sext_half v) (add_gpr rA (gpr c rB) c)) m)"

definition ppc_opc_lhax :: "'io mem_function" where
  "ppc_opc_lhax B m =
     (let (rD, rA, rB) = PPC_OPC_TEMPL_X (current_opc (mcpu m))
      in after_read (ppc_read_effective_half B (base rA (mcpu m) + gpr (mcpu m) rB)) (\<lambda>v. write_gpr rD (sext_half v)) m)"

definition ppc_opc_lwz :: "'io mem_function" where
  "ppc_opc_lwz B m =
     (let (rD, rA, imm) = PPC_OPC_TEMPL_D_SImm (current_opc (mcpu m))
      in after_read (ppc_read_effective_word B (base rA (mcpu m) + imm)) (\<lambda>v. write_gpr rD (v)) m)"

definition ppc_opc_lwzu :: "'io mem_function" where
  "ppc_opc_lwzu B m =
     (let (rD, rA, imm) = PPC_OPC_TEMPL_D_SImm (current_opc (mcpu m))
      in after_read (ppc_read_effective_word B (gpr (mcpu m) rA + imm)) (\<lambda>v c. write_gpr rD (v) (add_gpr rA imm c)) m)"

definition ppc_opc_lwzux :: "'io mem_function" where
  "ppc_opc_lwzux B m =
     (let (rD, rA, rB) = PPC_OPC_TEMPL_X (current_opc (mcpu m))
      in after_read (ppc_read_effective_word B (gpr (mcpu m) rA + gpr (mcpu m) rB))
           (\<lambda>v c. write_gpr rD (v) (add_gpr rA (gpr c rB) c)) m)"

definition ppc_opc_lwzx :: "'io mem_function" where
  "ppc_opc_lwzx B m =
     (let (rD, rA, rB) = PPC_OPC_TEMPL_X (current_opc (mcpu m))
      in after_read (ppc_read_effective_word B (base rA (mcpu m) + gpr (mcpu m) rB)) (\<lambda>v. write_gpr rD (v)) m)"

definition ppc_opc_lhbrx :: "'io mem_function" where
  "ppc_opc_lhbrx B m =
     (let (rD, rA, rB) = PPC_OPC_TEMPL_X (current_opc (mcpu m))
      in after_read (ppc_read_effective_half B (base rA (mcpu m) + gpr (mcpu m) rB)) (\<lambda>v. write_gpr rD (ucast (ppc_bswap_half v))) m)"

definition ppc_opc_lwbrx :: "'io mem_function" where
  "ppc_opc_lwbrx B m =
     (let (rD, rA, rB) = PPC_OPC_TEMPL_X (current_opc (mcpu m))
      in after_read (ppc_read_effective_word B (base rA (mcpu m) + gpr (mcpu m) rB)) (\<lambda>v. write_gpr rD (ppc_bswap_word v)) m)"

definition ppc_opc_lfd :: "'io mem_function" where
  "ppc_opc_lfd B m =
     needs_fpu (\<lambda>m.
       let (frD, rA, imm) = PPC_OPC_TEMPL_D_SImm (current_opc (mcpu m))
       in after_read (ppc_read_effective_dword B (base rA (mcpu m) + imm)) (\<lambda>v. write_fpr frD v) m) m"

definition ppc_opc_lfdu :: "'io mem_function" where
  "ppc_opc_lfdu B m =
     needs_fpu (\<lambda>m.
       let (frD, rA, imm) = PPC_OPC_TEMPL_D_SImm (current_opc (mcpu m))
       in after_read (ppc_read_effective_dword B (gpr (mcpu m) rA + imm))
            (\<lambda>v c. add_gpr rA imm (write_fpr frD v c)) m) m"

definition ppc_opc_lfdux :: "'io mem_function" where
  "ppc_opc_lfdux B m =
     needs_fpu (\<lambda>m.
       let (frD, rA, rB) = PPC_OPC_TEMPL_X (current_opc (mcpu m))
       in after_read (ppc_read_effective_dword B (gpr (mcpu m) rA + gpr (mcpu m) rB))
            (\<lambda>v c. write_fpr frD v (add_gpr rA (gpr c rB) c)) m) m"

definition ppc_opc_lfdx :: "'io mem_function" where
  "ppc_opc_lfdx B m =
     needs_fpu (\<lambda>m.
       let (frD, rA, rB) = PPC_OPC_TEMPL_X (current_opc (mcpu m))
       in after_read (ppc_read_effective_dword B (base rA (mcpu m) + gpr (mcpu m) rB)) (\<lambda>v. write_fpr frD v) m) m"

text \<open>
  \<open>lmw\<close> reads each word straight into its register, so a device that fails after delivering a
  value leaves that value there.
\<close>

function lmw_loop :: "'io bus \<Rightarrow> nat \<Rightarrow> uint32 \<Rightarrow> 'io mach \<Rightarrow> cpu_error + 'io mach" where
  "lmw_loop B rD ea m =
     (if rD \<le> 31 then
        and_then (ppc_read_effective_word_to B ea (gpr (mcpu m) rD) m) (\<lambda>((r, v), m).
          let m = m\<lparr>mcpu := write_gpr rD v (mcpu m)\<rparr>
          in if r \<noteq> PPC_MMU_OK then Inr m else lmw_loop B (rD + 1) (ea + 4) m)
      else Inr m)"
  by pat_completeness auto
termination
  by (relation "measure (\<lambda>(B, rD, ea, m). 32 - rD)") auto

declare lmw_loop.simps [simp del]

definition ppc_opc_lmw :: "'io mem_function" where
  "ppc_opc_lmw B m =
     (let (rD, rA, imm) = PPC_OPC_TEMPL_D_SImm (current_opc (mcpu m))
      in lmw_loop B rD (base rA (mcpu m) + imm) m)"

text \<open>
  The loop of the string loads: \<open>NB\<close> bytes are left, \<open>i\<close> of them fit into the word \<open>r\<close>
  being collected for \<open>rD\<close>.
\<close>

fun lsw_loop :: "'io bus \<Rightarrow> nat \<Rightarrow> nat \<Rightarrow> uint32 \<Rightarrow> uint32 \<Rightarrow> nat \<Rightarrow> 'io mach \<Rightarrow> cpu_error + 'io mach" where
  "lsw_loop B 0 i r ea rD m = Inr (m\<lparr>mcpu := write_gpr rD (push_bit (8 * i) r) (mcpu m)\<rparr>)"
| "lsw_loop B (Suc NB) i r ea rD m =
     (let (i, r, rD, m) =
        (if i = 0 then (4, 0, (rD + 1) mod 32, m\<lparr>mcpu := write_gpr rD r (mcpu m)\<rparr>) else (i, r, rD, m))
      in and_then (ppc_read_effective_byte B ea m) (\<lambda>((ret, v), m).
           if ret \<noteq> PPC_MMU_OK then Inr m
           else lsw_loop B NB (i - 1) (push_bit 8 r OR ucast v) (ea + 1) rD m))"

definition ppc_opc_lswi :: "'io mem_function" where
  "ppc_opc_lswi B m =
     (let (rD, rA, NB) = PPC_OPC_TEMPL_X (current_opc (mcpu m))
      in lsw_loop B (if NB = 0 then 32 else NB) 4 0 (base rA (mcpu m)) rD m)"

definition ppc_opc_lswx :: "'io mem_function" where
  "ppc_opc_lswx B m =
     (let (rD, rA, rB) = PPC_OPC_TEMPL_X (current_opc (mcpu m))
      in lsw_loop B (XER_n (xer (mcpu m))) 4 0 (gpr (mcpu m) rB + base rA (mcpu m)) rD m)"

definition ppc_opc_lwarx :: "'io mem_function" where
  "ppc_opc_lwarx B m =
     (let (rD, rA, rB) = PPC_OPC_TEMPL_X (current_opc (mcpu m))
      in after_read (ppc_read_effective_word B (base rA (mcpu m) + gpr (mcpu m) rB))
           (\<lambda>v c. (write_gpr rD v c)\<lparr>reserve := v, have_reservation := True\<rparr>) m)"

subsection \<open>Stores\<close>

definition ppc_opc_stb :: "'io mem_function" where
  "ppc_opc_stb B m =
     (let (rS, rA, imm) = PPC_OPC_TEMPL_D_SImm (current_opc (mcpu m))
      in after_write (ppc_write_effective_byte B (base rA (mcpu m) + imm) (ucast (gpr (mcpu m) rS))) (\<lambda>c. c) m)"

definition ppc_opc_stbu :: "'io mem_function" where
  "ppc_opc_stbu B m =
     (let (rS, rA, imm) = PPC_OPC_TEMPL_D_SImm (current_opc (mcpu m))
      in after_write (ppc_write_effective_byte B (gpr (mcpu m) rA + imm) (ucast (gpr (mcpu m) rS))) (add_gpr rA imm) m)"

definition ppc_opc_stbux :: "'io mem_function" where
  "ppc_opc_stbux B m =
     (let (rS, rA, rB) = PPC_OPC_TEMPL_X (current_opc (mcpu m))
      in after_write (ppc_write_effective_byte B (gpr (mcpu m) rA + gpr (mcpu m) rB) (ucast (gpr (mcpu m) rS)))
           (\<lambda>c. add_gpr rA (gpr c rB) c) m)"

definition ppc_opc_stbx :: "'io mem_function" where
  "ppc_opc_stbx B m =
     (let (rS, rA, rB) = PPC_OPC_TEMPL_X (current_opc (mcpu m))
      in after_write (ppc_write_effective_byte B (base rA (mcpu m) + gpr (mcpu m) rB) (ucast (gpr (mcpu m) rS))) (\<lambda>c. c) m)"

definition ppc_opc_sth :: "'io mem_function" where
  "ppc_opc_sth B m =
     (let (rS, rA, imm) = PPC_OPC_TEMPL_D_SImm (current_opc (mcpu m))
      in after_write (ppc_write_effective_half B (base rA (mcpu m) + imm) (ucast (gpr (mcpu m) rS))) (\<lambda>c. c) m)"

definition ppc_opc_sthu :: "'io mem_function" where
  "ppc_opc_sthu B m =
     (let (rS, rA, imm) = PPC_OPC_TEMPL_D_SImm (current_opc (mcpu m))
      in after_write (ppc_write_effective_half B (gpr (mcpu m) rA + imm) (ucast (gpr (mcpu m) rS))) (add_gpr rA imm) m)"

definition ppc_opc_sthux :: "'io mem_function" where
  "ppc_opc_sthux B m =
     (let (rS, rA, rB) = PPC_OPC_TEMPL_X (current_opc (mcpu m))
      in after_write (ppc_write_effective_half B (gpr (mcpu m) rA + gpr (mcpu m) rB) (ucast (gpr (mcpu m) rS)))
           (\<lambda>c. add_gpr rA (gpr c rB) c) m)"

definition ppc_opc_sthx :: "'io mem_function" where
  "ppc_opc_sthx B m =
     (let (rS, rA, rB) = PPC_OPC_TEMPL_X (current_opc (mcpu m))
      in after_write (ppc_write_effective_half B (base rA (mcpu m) + gpr (mcpu m) rB) (ucast (gpr (mcpu m) rS))) (\<lambda>c. c) m)"

definition ppc_opc_stw :: "'io mem_function" where
  "ppc_opc_stw B m =
     (let (rS, rA, imm) = PPC_OPC_TEMPL_D_SImm (current_opc (mcpu m))
      in after_write (ppc_write_effective_word B (base rA (mcpu m) + imm) (gpr (mcpu m) rS)) (\<lambda>c. c) m)"

definition ppc_opc_stwu :: "'io mem_function" where
  "ppc_opc_stwu B m =
     (let (rS, rA, imm) = PPC_OPC_TEMPL_D_SImm (current_opc (mcpu m))
      in after_write (ppc_write_effective_word B (gpr (mcpu m) rA + imm) (gpr (mcpu m) rS)) (add_gpr rA imm) m)"

definition ppc_opc_stwux :: "'io mem_function" where
  "ppc_opc_stwux B m =
     (let (rS, rA, rB) = PPC_OPC_TEMPL_X (current_opc (mcpu m))
      in after_write (ppc_write_effective_word B (gpr (mcpu m) rA + gpr (mcpu m) rB) (gpr (mcpu m) rS))
           (\<lambda>c. add_gpr rA (gpr c rB) c) m)"

definition ppc_opc_stwx :: "'io mem_function" where
  "ppc_opc_stwx B m =
     (let (rS, rA, rB) = PPC_OPC_TEMPL_X (current_opc (mcpu m))
      in after_write (ppc_write_effective_word B (base rA (mcpu m) + gpr (mcpu m) rB) (gpr (mcpu m) rS)) (\<lambda>c. c) m)"

definition ppc_opc_sthbrx :: "'io mem_function" where
  "ppc_opc_sthbrx B m =
     (let (rS, rA, rB) = PPC_OPC_TEMPL_X (current_opc (mcpu m))
      in after_write (ppc_write_effective_half B (base rA (mcpu m) + gpr (mcpu m) rB)
           (ppc_bswap_half (ucast (gpr (mcpu m) rS)))) (\<lambda>c. c) m)"

definition ppc_opc_stwbrx :: "'io mem_function" where
  "ppc_opc_stwbrx B m =
     (let (rS, rA, rB) = PPC_OPC_TEMPL_X (current_opc (mcpu m))
      in after_write (ppc_write_effective_word B (base rA (mcpu m) + gpr (mcpu m) rB)
           (ppc_bswap_word (gpr (mcpu m) rS))) (\<lambda>c. c) m)"

definition ppc_opc_stfd :: "'io mem_function" where
  "ppc_opc_stfd B m =
     needs_fpu (\<lambda>m.
       let (frS, rA, imm) = PPC_OPC_TEMPL_D_SImm (current_opc (mcpu m))
       in after_write (ppc_write_effective_dword B (base rA (mcpu m) + imm) (fpr (mcpu m) frS)) (\<lambda>c. c) m) m"

definition ppc_opc_stfdu :: "'io mem_function" where
  "ppc_opc_stfdu B m =
     needs_fpu (\<lambda>m.
       let (frS, rA, imm) = PPC_OPC_TEMPL_D_SImm (current_opc (mcpu m))
       in after_write (ppc_write_effective_dword B (gpr (mcpu m) rA + imm) (fpr (mcpu m) frS)) (add_gpr rA imm) m) m"

definition ppc_opc_stfdux :: "'io mem_function" where
  "ppc_opc_stfdux B m =
     needs_fpu (\<lambda>m.
       let (frS, rA, rB) = PPC_OPC_TEMPL_X (current_opc (mcpu m))
       in after_write (ppc_write_effective_dword B (gpr (mcpu m) rA + gpr (mcpu m) rB) (fpr (mcpu m) frS))
            (\<lambda>c. add_gpr rA (gpr c rB) c) m) m"

definition ppc_opc_stfdx :: "'io mem_function" where
  "ppc_opc_stfdx B m =
     needs_fpu (\<lambda>m.
       let (frS, rA, rB) = PPC_OPC_TEMPL_X (current_opc (mcpu m))
       in after_write (ppc_write_effective_dword B (base rA (mcpu m) + gpr (mcpu m) rB) (fpr (mcpu m) frS)) (\<lambda>c. c) m) m"

definition ppc_opc_stfiwx :: "'io mem_function" where
  "ppc_opc_stfiwx B m =
     needs_fpu (\<lambda>m.
       let (frS, rA, rB) = PPC_OPC_TEMPL_X (current_opc (mcpu m))
       in after_write (ppc_write_effective_word B (base rA (mcpu m) + gpr (mcpu m) rB) (ucast (fpr (mcpu m) frS))) (\<lambda>c. c) m) m"

function stmw_loop :: "'io bus \<Rightarrow> nat \<Rightarrow> uint32 \<Rightarrow> 'io mach \<Rightarrow> cpu_error + 'io mach" where
  "stmw_loop B rS ea m =
     (if rS \<le> 31 then
        and_then (ppc_write_effective_word B ea (gpr (mcpu m) rS) m) (\<lambda>(r, m).
          if r \<noteq> PPC_MMU_OK then Inr m else stmw_loop B (rS + 1) (ea + 4) m)
      else Inr m)"
  by pat_completeness auto
termination
  by (relation "measure (\<lambda>(B, rS, ea, m). 32 - rS)") auto

declare stmw_loop.simps [simp del]

definition ppc_opc_stmw :: "'io mem_function" where
  "ppc_opc_stmw B m =
     (let (rS, rA, imm) = PPC_OPC_TEMPL_D_SImm (current_opc (mcpu m))
      in stmw_loop B rS (base rA (mcpu m) + imm) m)"

fun stsw_loop :: "'io bus \<Rightarrow> nat \<Rightarrow> nat \<Rightarrow> uint32 \<Rightarrow> uint32 \<Rightarrow> nat \<Rightarrow> 'io mach \<Rightarrow> cpu_error + 'io mach" where
  "stsw_loop B 0 i r ea rS m = Inr m"
| "stsw_loop B (Suc NB) i r ea rS m =
     (let (i, r, rS) = (if i = 0 then (4, gpr (mcpu m) rS, (rS + 1) mod 32) else (i, r, rS))
      in and_then (ppc_write_effective_byte B ea (ucast (drop_bit 24 r)) m) (\<lambda>(ret, m).
           if ret \<noteq> PPC_MMU_OK then Inr m
           else stsw_loop B NB (i - 1) (push_bit 8 r) (ea + 1) rS m))"

definition ppc_opc_stswi :: "'io mem_function" where
  "ppc_opc_stswi B m =
     (let (rS, rA, NB) = PPC_OPC_TEMPL_X (current_opc (mcpu m))
      in stsw_loop B (if NB = 0 then 32 else NB) 0 0 (base rA (mcpu m)) rS m)"

definition ppc_opc_stswx :: "'io mem_function" where
  "ppc_opc_stswx B m =
     (let (rS, rA, rB) = PPC_OPC_TEMPL_X (current_opc (mcpu m))
      in stsw_loop B (XER_n (xer (mcpu m))) 0 0 (gpr (mcpu m) rB + base rA (mcpu m)) rS m)"

definition ppc_opc_stwcx_rc :: "'io mem_function" where
  "ppc_opc_stwcx_rc B m =
     (let (rS, rA, rB) = PPC_OPC_TEMPL_X (current_opc (mcpu m));
          set_cr = (\<lambda>w m. m\<lparr>mcpu := (mcpu m)\<lparr>cr := cr (mcpu m) OR w\<rparr>\<rparr>);
          finish = (\<lambda>m. Inr (if istrue (xer (mcpu m) AND XER_SO) then set_cr CR_CR0_SO m else m));
          m = m\<lparr>mcpu := (mcpu m)\<lparr>cr := cr (mcpu m) AND 0x0fffffff\<rparr>\<rparr>
      in if \<not> have_reservation (mcpu m) then Inr m
         else
           let m = m\<lparr>mcpu := (mcpu m)\<lparr>have_reservation := False\<rparr>\<rparr>
           in and_then (ppc_read_effective_word B (base rA (mcpu m) + gpr (mcpu m) rB) m) (\<lambda>((r, v), m).
                if r \<noteq> PPC_MMU_OK then Inr m
                else if v = reserve (mcpu m) then
                  and_then (ppc_write_effective_word B (base rA (mcpu m) + gpr (mcpu m) rB) (gpr (mcpu m) rS) m)
                    (\<lambda>(r, m). if r \<noteq> PPC_MMU_OK then Inr m else finish (set_cr CR_CR0_EQ m))
                else finish m))"

definition ppc_opc_dcbz :: "'io mem_function" where
  "ppc_opc_dcbz B m =
     (let (rD, rA, rB) = PPC_OPC_TEMPL_X (current_opc (mcpu m));
          a = (base rA (mcpu m) + gpr (mcpu m) rB) AND NOT 0x1f;
          zero = (\<lambda>a k m. and_then (ppc_write_effective_dword B a 0 m)
                    (\<lambda>(r, m). if r \<noteq> PPC_MMU_OK then Inr m else k m))
      in zero a (zero (a + 8) (zero (a + 16) (zero (a + 24) Inr))) m)"

lemmas mem_handler_defs = ppc_opc_lbz_def
  ppc_opc_lbzu_def
  ppc_opc_lbzux_def
  ppc_opc_lbzx_def
  ppc_opc_lhz_def
  ppc_opc_lhzu_def
  ppc_opc_lhzux_def
  ppc_opc_lhzx_def
  ppc_opc_lha_def
  ppc_opc_lhau_def
  ppc_opc_lhaux_def
  ppc_opc_lhax_def
  ppc_opc_lwz_def
  ppc_opc_lwzu_def
  ppc_opc_lwzux_def
  ppc_opc_lwzx_def
  ppc_opc_lhbrx_def
  ppc_opc_lwbrx_def
  ppc_opc_lfd_def
  ppc_opc_lfdu_def
  ppc_opc_lfdux_def
  ppc_opc_lfdx_def
  ppc_opc_lmw_def
  ppc_opc_lswi_def
  ppc_opc_lswx_def
  ppc_opc_lwarx_def
  ppc_opc_stb_def
  ppc_opc_stbu_def
  ppc_opc_stbux_def
  ppc_opc_stbx_def
  ppc_opc_sth_def
  ppc_opc_sthu_def
  ppc_opc_sthux_def
  ppc_opc_sthx_def
  ppc_opc_stw_def
  ppc_opc_stwu_def
  ppc_opc_stwux_def
  ppc_opc_stwx_def
  ppc_opc_sthbrx_def
  ppc_opc_stwbrx_def
  ppc_opc_stfd_def
  ppc_opc_stfdu_def
  ppc_opc_stfdux_def
  ppc_opc_stfdx_def
  ppc_opc_stfiwx_def
  ppc_opc_stmw_def
  ppc_opc_stswi_def
  ppc_opc_stswx_def
  ppc_opc_stwcx_rc_def
  ppc_opc_dcbz_def

end
