(* ===== verification/Ppc_Dec.thy ===== *)
theory Ppc_Dec
  imports Ppc_Mem_Opc
begin

text \<open>
  src/cpu/cpu_generic/ppc_dec.cc: the instruction dispatch of the interpreter, by the main
  opcode, by the extended opcode of groups 19 and 31 and, when the processor version is a 7400's, the
  vector loads and stores.  A table entry names its handler; the handlers that are not modelled (single-precision and
  vector accesses, the floating-point and vector groups, and what the invalid opcode does) are
  names, and \<open>handlers\<close> holds a function for each.
\<close>

unbundle bit_operations_syntax

datatype single_op = S_lfs | S_lfsu | S_lfsux | S_lfsx | S_stfs | S_stfsu | S_stfsux | S_stfsx

datatype vec_op = V_lvsl | V_lvebx | V_lvsr | V_lvehx | V_lvewx | V_lvx | V_stvebx | V_stvehx | V_stvewx | V_stvx | V_dst | V_lvxl | V_dstst | V_stvxl | V_dss

datatype 'io handler =
    Cpu_op opc_function
  | Mem_op "'io mem_function"
  | Single_op single_op
  | Vec_op vec_op
  | Sc_op
  | Group_f1
  | Group_f2
  | Group_v
  | Invalid
  | Invalid_Overrun

subsection \<open>Main opcode 19\<close>

definition ppc_opc_group_1 :: "uint32 \<Rightarrow> 'io handler" where
  "ppc_opc_group_1 opc =
     (let ext = PPC_OPC_EXT opc
      in if istrue (ext AND 1) then
           (if ext \<le> 225 then
              (if ext = 33 then Cpu_op ppc_opc_crnor
               else if ext = 129 then Cpu_op ppc_opc_crandc
               else if ext = 193 then Cpu_op ppc_opc_crxor
               else if ext = 225 then Cpu_op ppc_opc_crnand
               else Invalid)
            else
              (if ext = 257 then Cpu_op ppc_opc_crand
               else if ext = 289 then Cpu_op ppc_opc_creqv
               else if ext = 417 then Cpu_op ppc_opc_crorc
               else if ext = 449 then Cpu_op ppc_opc_cror
               else Invalid))
         else if istrue (ext AND push_bit 9 1) then
           (if ext = 528 then Cpu_op ppc_opc_bcctrx else Invalid)
         else
           (if ext = 16 then Cpu_op ppc_opc_bclrx
            else if ext = 0 then Cpu_op ppc_opc_mcrf
            else if ext = 50 then Cpu_op ppc_opc_rfi
            else if ext = 150 then Cpu_op ppc_opc_isync
            else Invalid))"

subsection \<open>Main opcode 31\<close>

text \<open>The assignments of \<open>ppc_opc_init_group2\<close> over a table of \<open>ppc_opc_invalid\<close>.\<close>

definition group2_entries :: "(nat \<times> 'io handler) list" where
  "group2_entries = [
   (0, Cpu_op ppc_opc_cmp),
   (4, Cpu_op ppc_opc_tw),
   (8, Cpu_op ppc_opc_subfcx),
   (10, Cpu_op ppc_opc_addcx),
   (11, Cpu_op ppc_opc_mulhwux),
   (19, Cpu_op ppc_opc_mfcr),
   (20, Mem_op ppc_opc_lwarx),
   (23, Mem_op ppc_opc_lwzx),
   (24, Cpu_op ppc_opc_slwx),
   (26, Cpu_op ppc_opc_cntlzwx),
   (28, Cpu_op ppc_opc_andx),
   (32, Cpu_op ppc_opc_cmpl),
   (40, Cpu_op ppc_opc_subfx),
   (54, Cpu_op ppc_opc_dcbst),
   (55, Mem_op ppc_opc_lwzux),
   (60, Cpu_op ppc_opc_andcx),
   (75, Cpu_op ppc_opc_mulhwx),
   (83, Cpu_op ppc_opc_mfmsr),
   (86, Cpu_op ppc_opc_dcbf),
   (87, Mem_op ppc_opc_lbzx),
   (104, Cpu_op ppc_opc_negx),
   (119, Mem_op ppc_opc_lbzux),
   (124, Cpu_op ppc_opc_norx),
   (136, Cpu_op ppc_opc_subfex),
   (138, Cpu_op ppc_opc_addex),
   (144, Cpu_op ppc_opc_mtcrf),
   (146, Cpu_op ppc_opc_mtmsr),
   (150, Mem_op ppc_opc_stwcx_rc),
   (151, Mem_op ppc_opc_stwx),
   (183, Mem_op ppc_opc_stwux),
   (200, Cpu_op ppc_opc_subfzex),
   (202, Cpu_op ppc_opc_addzex),
   (210, Cpu_op ppc_opc_mtsr),
   (215, Mem_op ppc_opc_stbx),
   (232, Cpu_op ppc_opc_subfmex),
   (234, Cpu_op ppc_opc_addmex),
   (235, Cpu_op ppc_opc_mullwx),
   (242, Cpu_op ppc_opc_mtsrin),
   (246, Cpu_op ppc_opc_dcbtst),
   (247, Mem_op ppc_opc_stbux),
   (266, Cpu_op ppc_opc_addx),
   (278, Cpu_op ppc_opc_dcbt),
   (279, Mem_op ppc_opc_lhzx),
   (284, Cpu_op ppc_opc_eqvx),
   (306, Cpu_op ppc_opc_tlbie),
   (310, Cpu_op ppc_opc_eciwx),
   (311, Mem_op ppc_opc_lhzux),
   (316, Cpu_op ppc_opc_xorx),
   (339, Cpu_op ppc_opc_mfspr),
   (343, Mem_op ppc_opc_lhax),
   (370, Cpu_op ppc_opc_tlbia),
   (371, Cpu_op ppc_opc_mftb),
   (375, Mem_op ppc_opc_lhaux),
   (407, Mem_op ppc_opc_sthx),
   (412, Cpu_op ppc_opc_orcx),
   (438, Cpu_op ppc_opc_ecowx),
   (439, Mem_op ppc_opc_sthux),
   (444, Cpu_op ppc_opc_orx),
   (459, Cpu_op ppc_opc_divwux),
   (467, Cpu_op ppc_opc_mtspr),
   (470, Cpu_op ppc_opc_dcbi),
   (476, Cpu_op ppc_opc_nandx),
   (491, Cpu_op ppc_opc_divwx),
   (512, Cpu_op ppc_opc_mcrxr),
   (533, Mem_op ppc_opc_lswx),
   (534, Mem_op ppc_opc_lwbrx),
   (535, Single_op S_lfsx),
   (536, Cpu_op ppc_opc_srwx),
   (566, Cpu_op ppc_opc_tlbsync),
   (567, Single_op S_lfsux),
   (595, Cpu_op ppc_opc_mfsr),
   (597, Mem_op ppc_opc_lswi),
   (598, Cpu_op ppc_opc_sync),
   (599, Mem_op ppc_opc_lfdx),
   (631, Mem_op ppc_opc_lfdux),
   (659, Cpu_op ppc_opc_mfsrin),
   (661, Mem_op ppc_opc_stswx),
   (662, Mem_op ppc_opc_stwbrx),
   (663, Single_op S_stfsx),
   (695, Single_op S_stfsux),
   (725, Mem_op ppc_opc_stswi),
   (727, Mem_op ppc_opc_stfdx),
   (758, Cpu_op ppc_opc_dcba),
   (759, Mem_op ppc_opc_stfdux),
   (790, Mem_op ppc_opc_lhbrx),
   (792, Cpu_op ppc_opc_srawx),
   (824, Cpu_op ppc_opc_srawix),
   (854, Cpu_op ppc_opc_eieio),
   (918, Mem_op ppc_opc_sthbrx),
   (922, Cpu_op ppc_opc_extshx),
   (954, Cpu_op ppc_opc_extsbx),
   (982, Cpu_op ppc_opc_icbi),
   (983, Mem_op ppc_opc_stfiwx),
   (1014, Mem_op ppc_opc_dcbz)]"

definition group2_altivec :: "(nat \<times> 'io handler) list" where
  "group2_altivec = [
   (6, Vec_op V_lvsl),
   (7, Vec_op V_lvebx),
   (38, Vec_op V_lvsr),
   (39, Vec_op V_lvehx),
   (71, Vec_op V_lvewx),
   (103, Vec_op V_lvx),
   (135, Vec_op V_stvebx),
   (167, Vec_op V_stvehx),
   (199, Vec_op V_stvewx),
   (231, Vec_op V_stvx),
   (342, Vec_op V_dst),
   (359, Vec_op V_lvxl),
   (374, Vec_op V_dstst),
   (487, Vec_op V_stvxl),
   (822, Vec_op V_dss)]"

definition is_altivec :: "uint32 \<Rightarrow> bool" where
  "is_altivec pvr' \<longleftrightarrow> pvr' AND 0xffff0000 = 0x000c0000"

definition ppc_opc_table_group2 :: "uint32 \<Rightarrow> nat \<Rightarrow> 'io handler" where
  "ppc_opc_table_group2 pvr' i =
     (case (if is_altivec pvr' then map_of group2_altivec i else None) of
        Some h \<Rightarrow> h
      | None \<Rightarrow> (case map_of group2_entries i of Some h \<Rightarrow> h | None \<Rightarrow> Invalid))"

text \<open>
  The table has 1015 entries.  For a larger extended opcode the code calls \<open>ppc_opc_invalid\<close>
  and then, there being no \<open>return\<close>, the function pointer behind the end of the table.
\<close>

definition ppc_opc_group_2 :: "uint32 \<Rightarrow> uint32 \<Rightarrow> 'io handler" where
  "ppc_opc_group_2 pvr' opc =
     (let ext = unat (PPC_OPC_EXT opc)
      in if 1015 \<le> ext then Invalid_Overrun else ppc_opc_table_group2 pvr' ext)"

subsection \<open>The main table\<close>

definition ppc_opc_table_main :: "uint32 \<Rightarrow> uint32 \<Rightarrow> nat \<Rightarrow> 'io handler" where
  "ppc_opc_table_main pvr' opc i =
     (let G1 = ppc_opc_group_1 opc; G2 = ppc_opc_group_2 pvr' opc;
          group_v = (if is_altivec pvr' then Group_v else Invalid)
      in [Invalid,
   Invalid,
   Invalid,
   Cpu_op ppc_opc_twi,
   group_v,
   Invalid,
   Invalid,
   Cpu_op ppc_opc_mulli,
   Cpu_op ppc_opc_subfic,
   Invalid,
   Cpu_op ppc_opc_cmpli,
   Cpu_op ppc_opc_cmpi,
   Cpu_op ppc_opc_addic,
   Cpu_op ppc_opc_addic_rc,
   Cpu_op ppc_opc_addi,
   Cpu_op ppc_opc_addis,
   Cpu_op ppc_opc_bcx,
   Sc_op,
   Cpu_op ppc_opc_bx,
   G1,
   Cpu_op ppc_opc_rlwimix,
   Cpu_op ppc_opc_rlwinmx,
   Invalid,
   Cpu_op ppc_opc_rlwnmx,
   Cpu_op ppc_opc_ori,
   Cpu_op ppc_opc_oris,
   Cpu_op ppc_opc_xori,
   Cpu_op ppc_opc_xoris,
   Cpu_op ppc_opc_andi_rc,
   Cpu_op ppc_opc_andis_rc,
   Invalid,
   G2,
   Mem_op ppc_opc_lwz,
   Mem_op ppc_opc_lwzu,
   Mem_op ppc_opc_lbz,
   Mem_op ppc_opc_lbzu,
   Mem_op ppc_opc_stw,
   Mem_op ppc_opc_stwu,
   Mem_op ppc_opc_stb,
   Mem_op ppc_opc_stbu,
   Mem_op ppc_opc_lhz,
   Mem_op ppc_opc_lhzu,
   Mem_op ppc_opc_lha,
   Mem_op ppc_opc_lhau,
   Mem_op ppc_opc_sth,
   Mem_op ppc_opc_sthu,
   Mem_op ppc_opc_lmw,
   Mem_op ppc_opc_stmw,
   Single_op S_lfs,
   Single_op S_lfsu,
   Mem_op ppc_opc_lfd,
   Mem_op ppc_opc_lfdu,
   Single_op S_stfs,
   Single_op S_stfsu,
   Mem_op ppc_opc_stfd,
   Mem_op ppc_opc_stfdu,
   Invalid,
   Invalid,
   Invalid,
   Group_f1,
   Invalid,
   Invalid,
   Invalid,
   Group_f2] ! i)"

definition ppc_exec_opc :: "uint32 \<Rightarrow> uint32 \<Rightarrow> 'io handler" where
  "ppc_exec_opc pvr' opc = ppc_opc_table_main pvr' opc (unat (PPC_OPC_MAIN opc))"

subsection \<open>Executing a handler\<close>

record 'io handlers =
  run_single :: "single_op \<Rightarrow> 'io mem_function"
  run_vec :: "vec_op \<Rightarrow> 'io mem_function"
  run_f1 :: "'io mem_function"
  run_f2 :: "'io mem_function"
  run_v :: "'io mem_function"
  run_invalid :: "'io mem_function"
  run_gcard_osi :: opc_function

fun execute :: "'io handlers \<Rightarrow> 'io handler \<Rightarrow> 'io mem_function" where
  "execute X (Cpu_op f) B m = on_cpu f m"
| "execute X (Mem_op f) B m = f B m"
| "execute X (Single_op f) B m = run_single X f B m"
| "execute X (Vec_op f) B m = run_vec X f B m"
| "execute X Sc_op B m = on_cpu (ppc_opc_sc (run_gcard_osi X)) m"
| "execute X Group_f1 B m =
     (if msr (mcpu m) AND MSR_FP = 0 then on_cpu (ppc_exception PPC_EXC_NO_FPU 0 0) m else run_f1 X B m)"
| "execute X Group_f2 B m =
     (if msr (mcpu m) AND MSR_FP = 0 then on_cpu (ppc_exception PPC_EXC_NO_FPU 0 0) m else run_f2 X B m)"
| "execute X Group_v B m =
     (if msr (mcpu m) AND MSR_VEC = 0 then on_cpu (ppc_exception PPC_EXC_NO_VEC 0 0) m else run_v X B m)"
| "execute X Invalid B m = run_invalid X B m"
| "execute X Invalid_Overrun B m = and_then (run_invalid X B m) (\<lambda>_. Inl Bad_Access)"

end
