(* ===== verification/Ppc_Exec_Sound.thy ===== *)
theory Ppc_Exec_Sound
  imports Ppc_Live_Sound Ppc_Dec
begin

text \<open>
  The two dispatchers agree: for each instruction that src/cpu/ppc_semantics_dispatch.h gives a
  read and write set and that the interpreter of ppc_dec.cc executes on the CPU state alone, the
  execution respects that set.  From there to sequences of instructions and to the \<open>gen\<close>
  and \<open>kill\<close> sets of \<open>ppc_scan_block\<close>.
\<close>

unbundle bit_operations_syntax

context backend begin

lemma effect_ok_spr:
  assumes "reg5 11 opc = 0" "reg5 16 opc \<in> {1, 8, 9}"
  shows "effect_ok (live_run ppc_sem_mfspr opc) (ppc_sem_mfspr S opc)"
    "effect_ok (live_run ppc_sem_mtspr opc) (ppc_sem_mtspr S opc)"
  by (rule effect_okI; use assms in \<open>auto simp: ok_simps rd_lr rd_ctr rd_xer
    intro!: wr word_le_orI split: if_splits\<close>)+

end

subsection \<open>Executions that respect a read and write set\<close>

definition same_outcome :: "LiveSet \<Rightarrow> cpu_error + cpu \<Rightarrow> cpu_error + cpu \<Rightarrow> bool" where
  "same_outcome L r1 r2 \<longleftrightarrow>
     (case (r1, r2) of (Inl e1, Inl e2) \<Rightarrow> e1 = e2 | (Inr c1, Inr c2) \<Rightarrow> cpu_agree L c1 c2 | _ \<Rightarrow> False)"

text \<open>
  \<open>obeys fx h opc\<close>: states that agree on a set containing the reads go to states that agree on
  that set and the writes, or fail alike; and what the analysis does not track stays, except that
  a branch sets \<open>npc\<close>.
\<close>

definition frame_ok :: "InsnEffect \<Rightarrow> cpu \<Rightarrow> cpu \<Rightarrow> bool" where
  "frame_ok fx c c' \<longleftrightarrow> untracked (c'\<lparr>npc := npc c\<rparr>) = untracked c \<and> (\<not> is_branch fx \<longrightarrow> npc c' = npc c)"

definition obeys :: "InsnEffect \<Rightarrow> opc_function \<Rightarrow> uint32 \<Rightarrow> bool" where
  "obeys fx h opc \<longleftrightarrow>
     (\<forall>M c1 c2. current_opc c1 = opc \<longrightarrow> fx_reads fx \<le> M \<longrightarrow> cpu_agree M c1 c2 \<longrightarrow>
        same_outcome (LiveSet_or M (fx_writes fx)) (h c1) (h c2)) \<and>
     (\<forall>c c'. current_opc c = opc \<longrightarrow> h c = Inr c' \<longrightarrow> frame_ok fx c c')"

lemma same_outcome_simps [simp]:
  "same_outcome L (Inl e1) (Inl e2) \<longleftrightarrow> e1 = e2"
  "same_outcome L (Inr c1) (Inr c2) \<longleftrightarrow> cpu_agree L c1 c2"
  "\<not> same_outcome L (Inl e1) (Inr c2)"
  "\<not> same_outcome L (Inr c1) (Inl e2)"
  by (simp_all add: same_outcome_def)

lemma agree_untracked: "cpu_agree M c1 c2 \<Longrightarrow> untracked c1 = untracked c2"
  by (simp add: cpu_agree_def)

lemma untracked_pcs [simp]:
  "npc (untracked c) = npc c" "pc (untracked c) = pc c" "current_opc (untracked c) = current_opc c"
  "pvr (untracked c) = pvr c"
  by (simp_all add: untracked_def)

lemma agree_current_opc: "cpu_agree M c1 c2 \<Longrightarrow> current_opc c1 = current_opc c2"
  using arg_cong[where f = current_opc, OF agree_untracked] by simp

lemma cpu_agree_refl [simp]: "cpu_agree M c c"
  by (simp add: cpu_agree_def agree_on_def)

lemma untracked_npc: "untracked (c\<lparr>npc := x\<rparr>) = (untracked c)\<lparr>npc := x\<rparr>"
  by (simp add: untracked_def)

lemma untracked_self: "(untracked c)\<lparr>npc := npc c\<rparr> = untracked c"
  by (simp add: untracked_def)

lemma frame_okI: "untracked c' = untracked c \<Longrightarrow> frame_ok fx c c'"
  by (simp add: frame_ok_def untracked_npc untracked_self) (metis untracked_pcs(1))

lemma effect_ok_conc:
  assumes "\<And>u. conc.effect_ok u fx f"
  shows "fx_reads fx \<le> M \<Longrightarrow> cpu_agree M c1 c2 \<Longrightarrow> cpu_agree (LiveSet_or M (fx_writes fx)) (f c1) (f c2)"
    and "untracked (f c) = untracked c"
proof -
  show "fx_reads fx \<le> M \<Longrightarrow> cpu_agree M c1 c2 \<Longrightarrow> cpu_agree (LiveSet_or M (fx_writes fx)) (f c1) (f c2)"
    using assms unfolding conc.effect_ok_def cpu_agree_in_def by blast
  show "untracked (f c) = untracked c"
    using assms[of "untracked c"] order_refl[of "fx_reads fx"] cpu_agree_refl[of "fx_reads fx" c]
    unfolding conc.effect_ok_def cpu_agree_in_def by blast
qed

lemma obeys_run_sem:
  assumes "\<And>u. conc.effect_ok u fx (tc concrete_sem opc)"
  shows "obeys fx (run_sem tc) opc"
  unfolding obeys_def
proof (intro conjI allI impI)
  fix M c1 c2 assume o: "current_opc c1 = opc" and r: "fx_reads fx \<le> M" and a: "cpu_agree M c1 c2"
  then show "same_outcome (LiveSet_or M (fx_writes fx)) (run_sem tc c1) (run_sem tc c2)"
    using effect_ok_conc(1)[OF assms r a] agree_current_opc[OF a] by (simp add: run_sem_def)
next
  fix c c' assume "current_opc c = opc" "run_sem tc c = Inr c'"
  then show "frame_ok fx c c'" using effect_ok_conc(2)[OF assms] by (auto simp: run_sem_def intro: frame_okI)
qed

lemma obeys_run_div:
  assumes "\<And>u. conc.effect_ok_div u fx (tc concrete_sem opc)"
  shows "obeys fx (run_div tc) opc"
proof -
  have *: "case (tc concrete_sem opc c1, tc concrete_sem opc c2) of (Inl e1, Inl e2) \<Rightarrow> e1 = e2
       | (Inr t1, Inr t2) \<Rightarrow> cpu_agree (LiveSet_or M (fx_writes fx)) t1 t2 \<and> untracked t1 = untracked c1 | _ \<Rightarrow> False"
    if "fx_reads fx \<le> M" "cpu_agree M c1 c2" for M c1 c2
    using assms[of "untracked c1"] that unfolding conc.effect_ok_div_def cpu_agree_in_def by blast
  show ?thesis
    unfolding obeys_def
  proof (intro conjI allI impI)
    fix M c1 c2 assume o: "current_opc c1 = opc" and r: "fx_reads fx \<le> M" and a: "cpu_agree M c1 c2"
    then show "same_outcome (LiveSet_or M (fx_writes fx)) (run_div tc c1) (run_div tc c2)"
      using *[OF r a] agree_current_opc[OF a] by (auto simp: run_div_def split: sum.splits)
  next
    fix c c' assume "current_opc c = opc" "run_div tc c = Inr c'"
    then show "frame_ok fx c c'"
      using *[OF order_refl cpu_agree_refl, of c] by (auto simp: run_div_def intro: frame_okI split: sum.splits)
  qed
qed

lemma obeys_cong:
  "obeys fx f opc \<Longrightarrow> (\<And>c. current_opc c = opc \<Longrightarrow> h c = f c) \<Longrightarrow> obeys fx h opc"
  unfolding obeys_def by (metis agree_current_opc)

lemma plain_spr:
  "\<not> is_everything (live_run ppc_sem_mfspr opc) \<Longrightarrow> reg5 11 opc = 0 \<and> reg5 16 opc \<in> {1, 8, 9}"
  "\<not> is_everything (live_run ppc_sem_mtspr opc) \<Longrightarrow> reg5 11 opc = 0 \<and> reg5 16 opc \<in> {1, 8, 9}"
  by (auto simp: live_run_def ppc_sem_mfspr_def ppc_sem_mtspr_def PPC_OPC_TEMPL_XO_def liveness_sem_def
    InsnEffect_everything_def split: if_splits)

lemma obeys_spr:
  "\<not> is_everything (live_run ppc_sem_mfspr opc) \<Longrightarrow> obeys (live_run ppc_sem_mfspr opc) ppc_opc_mfspr opc"
  "\<not> is_everything (live_run ppc_sem_mtspr opc) \<Longrightarrow> obeys (live_run ppc_sem_mtspr opc) ppc_opc_mtspr opc"
proof -
  assume "\<not> is_everything (live_run ppc_sem_mfspr opc)"
  then have p: "reg5 11 opc = 0" "reg5 16 opc \<in> {1, 8, 9}" using plain_spr by blast+
  have "ppc_opc_mfspr c = run_sem ppc_sem_mfspr c" if "current_opc c = opc" for c
    using p that by (auto simp: ppc_opc_mfspr_def run_sem_def ppc_sem_mfspr_def PPC_OPC_TEMPL_XO_def mfspr_user_def)
  then show "obeys (live_run ppc_sem_mfspr opc) ppc_opc_mfspr opc"
    using obeys_run_sem[where tc = ppc_sem_mfspr, OF conc.effect_ok_spr(1)[OF p]] by (rule obeys_cong[rotated])
next
  assume "\<not> is_everything (live_run ppc_sem_mtspr opc)"
  then have p: "reg5 11 opc = 0" "reg5 16 opc \<in> {1, 8, 9}" using plain_spr by blast+
  have "ppc_opc_mtspr c = run_sem ppc_sem_mtspr c" if "current_opc c = opc" for c
    using p that by (auto simp: ppc_opc_mtspr_def run_sem_def ppc_sem_mtspr_def PPC_OPC_TEMPL_XO_def
      PPC_OPC_TEMPL_X_def mtspr_user_def)
  then show "obeys (live_run ppc_sem_mtspr opc) ppc_opc_mtspr opc"
    using obeys_run_sem[where tc = ppc_sem_mtspr, OF conc.effect_ok_spr(2)[OF p]] by (rule obeys_cong[rotated])
qed

lemmas obeys_rules = obeys_run_sem obeys_run_div conc.effect_ok_add conc.effect_ok_logic
  conc.effect_ok_compare conc.effect_ok_subtract conc.effect_ok_multiply conc.effect_ok_shift
  conc.effect_ok_rotate conc.effect_ok_extend conc.effect_ok_cr_logic conc.effect_ok_move_cr
  conc.effect_ok_divide

subsection \<open>Branches\<close>

lemma agree_set_npc: "cpu_agree M c1 c2 \<Longrightarrow> cpu_agree M (c1\<lparr>npc := x\<rparr>) (c2\<lparr>npc := x\<rparr>)"
  by (simp add: cpu_agree_def untracked_npc)

lemma agree_pc: "cpu_agree M c1 c2 \<Longrightarrow> pc c1 = pc c2"
  using arg_cong[where f = pc, OF agree_untracked] by simp

lemma agree_ctr_dec:
  "cpu_agree (LiveSet g c x l t) c1 c2 \<Longrightarrow> b \<longrightarrow> t \<Longrightarrow>
   cpu_agree (LiveSet g c x l t) (if b then c1\<lparr>ctr := ctr c1 - 1\<rparr> else c1) (if b then c2\<lparr>ctr := ctr c2 - 1\<rparr> else c2)"
  by (auto simp: cpu_agree_def)

lemma branch_cr_ok_agree:
  assumes "cpu_agree (LiveSet g c x l t) c1 c2" "BO AND 16 = 0 \<longrightarrow> bit c (31 - BI)"
  shows "branch_cr_ok BO BI c1 = branch_cr_ok BO BI c2"
  using agree_get_cr_bit[OF assms(1), of BI] assms(2) by (auto simp: branch_cr_ok_def get_cr_bit_def)

lemma branch_ctr_ok_agree:
  assumes "cpu_agree (LiveSet g c x l t) c1 c2" "BO AND 4 = 0 \<longrightarrow> t"
  shows "branch_ctr_ok BO c1 = branch_ctr_ok BO c2"
  using assms by (auto simp: branch_ctr_ok_def cpu_agree_def)

lemma obeysI:
  assumes "\<And>g c x l t c1 c2. word_le (gpr_read fx) g \<Longrightarrow> word_le (cr_read fx) c \<Longrightarrow> word_le (xer_read fx) x \<Longrightarrow>
     (lr_read fx \<longrightarrow> l) \<Longrightarrow> (ctr_read fx \<longrightarrow> t) \<Longrightarrow> current_opc c1 = opc \<Longrightarrow> current_opc c2 = opc \<Longrightarrow>
     cpu_agree (LiveSet g c x l t) c1 c2 \<Longrightarrow>
     same_outcome (LiveSet (g OR gpr_write fx) (c OR cr_write fx) (x OR xer_write fx) (l \<or> lr_write fx) (t \<or> ctr_write fx))
       (f c1) (f c2)"
    and "\<And>d d'. current_opc d = opc \<Longrightarrow> f d = Inr d' \<Longrightarrow> frame_ok fx d d'"
  shows "obeys fx f opc"
  unfolding obeys_def
proof (intro conjI allI impI)
  fix M c1 c2 assume "current_opc c1 = opc" "fx_reads fx \<le> M" and a: "cpu_agree M c1 c2"
  then show "same_outcome (LiveSet_or M (fx_writes fx)) (f c1) (f c2)"
    using agree_current_opc[OF a]
    by (cases M) (simp add: fx_reads_def fx_writes_def LiveSet_le_fields assms)
qed (rule assms(2))

lemma agree_add_ctr: "t \<Longrightarrow> cpu_agree (LiveSet g c x l (t \<or> b)) c1 c2 = cpu_agree (LiveSet g c x l t) c1 c2"
  by simp

lemmas branch_live = live_run_def sem_branch_defs insn_effect_zero_def PPC_OPC_TEMPL_XL_def
  live_read_cr_bit_def

lemma liveness_branch_simps [simp]:
  "s_branch liveness_sem fx = fx\<lparr>is_branch := True\<rparr>"
  "s_branch_cond liveness_sem fx = fx\<lparr>is_branch := True\<rparr>"
  "s_read_cr_bit liveness_sem = live_read_cr_bit"
  by (simp_all add: liveness_sem_def)

lemma obeys_bx: "obeys (live_run ppc_sem_bx opc) ppc_opc_bx opc"
proof (rule obeysI)
  fix g c x l t c1 c2
  assume o: "current_opc c1 = opc" "current_opc c2 = opc" and a: "cpu_agree (LiveSet g c x l t) c1 c2"
  have "cpu_agree (LiveSet g c x True t) (c1\<lparr>lr := w\<rparr>) (c2\<lparr>lr := w\<rparr>)" for w
    using a by (simp add: cpu_agree_def)
  then show "same_outcome (LiveSet (g OR gpr_write (live_run ppc_sem_bx opc)) (c OR cr_write (live_run ppc_sem_bx opc))
      (x OR xer_write (live_run ppc_sem_bx opc)) (l \<or> lr_write (live_run ppc_sem_bx opc)) (t \<or> ctr_write (live_run ppc_sem_bx opc)))
      (ppc_opc_bx c1) (ppc_opc_bx c2)"
    using a o agree_pc[OF a]
    by (auto simp: ppc_opc_bx_def branch_live set_lr_if_lk_def Let_def intro!: agree_set_npc)
next
  fix d d' assume "ppc_opc_bx d = Inr d'"
  then show "frame_ok (live_run ppc_sem_bx opc) d d'"
    by (auto simp: frame_ok_def ppc_opc_bx_def branch_live set_lr_if_lk_def Let_def untracked_npc intro: untracked_self)
qed

lemma same_branch:
  assumes "cpu_agree M c1 c2" "p1 = p2" "p1 \<Longrightarrow> x1 = x2"
  shows "same_outcome M (if p1 then Inr (c1\<lparr>npc := x1\<rparr>) else Inr c1) (if p2 then Inr (c2\<lparr>npc := x2\<rparr>) else Inr c2)"
  using assms by (auto intro: agree_set_npc)

text \<open>The effects of the conditional branches that do not set the link register.\<close>

lemma bcx_effect:
  assumes "opc AND PPC_OPC_LK = 0"
  defines "BO \<equiv> field5 21 opc" and "BI \<equiv> reg5 16 opc"
  shows "live_run ppc_sem_bcx opc = insn_effect_zero\<lparr>is_branch := True, ctr_read := (BO AND 4 = 0),
      ctr_write := (BO AND 4 = 0), cr_read := (if BO AND 16 = 0 then 2 ^ (31 - BI) else 0)\<rparr>"
    and "live_run ppc_sem_bclrx opc = insn_effect_zero\<lparr>is_branch := True, lr_read := True, ctr_read := (BO AND 4 = 0),
      ctr_write := (BO AND 4 = 0), cr_read := (if BO AND 16 = 0 then 2 ^ (31 - BI) else 0)\<rparr>"
    and "live_run ppc_sem_bcctrx opc = insn_effect_zero\<lparr>is_branch := True, ctr_read := True,
      cr_read := (if BO AND 16 = 0 then 2 ^ (31 - BI) else 0)\<rparr>"
  using assms(1) by (simp_all add: branch_live PPC_OPC_TEMPL_B_def Let_def BO_def BI_def)

lemma obeys_branch:
  assumes fx: "fx = insn_effect_zero\<lparr>is_branch := True, lr_read := a, ctr_read := r, ctr_write := b, cr_read := m\<rparr>"
    and br: "b \<longrightarrow> r"
    and f: "\<And>d. current_opc d = opc \<Longrightarrow> f d =
      (let d = (if b then d\<lparr>ctr := ctr d - 1\<rparr> else d) in if P d then Inr (d\<lparr>npc := X d\<rparr>) else Inr d)"
    and P: "\<And>g c x l t c1 c2. cpu_agree (LiveSet g c x l t) c1 c2 \<Longrightarrow> word_le m c \<Longrightarrow> r \<longrightarrow> t \<Longrightarrow> a \<longrightarrow> l \<Longrightarrow>
      P c1 = P c2 \<and> X c1 = X c2"
  shows "obeys fx f opc"
proof (rule obeysI)
  fix g c x l t c1 c2
  assume r: "word_le (cr_read fx) c" "lr_read fx \<longrightarrow> l" "ctr_read fx \<longrightarrow> t"
    and o: "current_opc c1 = opc" "current_opc c2 = opc" and a: "cpu_agree (LiveSet g c x l t) c1 c2"
  let ?d = "\<lambda>c. if b then c\<lparr>ctr := ctr c - 1\<rparr> else c"
  have m: "word_le m c" "r \<longrightarrow> t" "a \<longrightarrow> l" using r by (simp_all add: fx)
  have d: "cpu_agree (LiveSet g c x l t) (?d c1) (?d c2)" by (rule agree_ctr_dec[OF a]) (use m br in auto)
  have "same_outcome (LiveSet g c x l t) (f c1) (f c2)"
    unfolding f[OF o(1)] f[OF o(2)] Let_def using P[OF d m] by (intro same_branch[OF d]) auto
  moreover have "LiveSet (g OR gpr_write fx) (c OR cr_write fx) (x OR xer_write fx) (l \<or> lr_write fx) (t \<or> ctr_write fx)
      = LiveSet g c x l t"
    using m br by (auto simp: fx insn_effect_zero_def)
  ultimately show "same_outcome (LiveSet (g OR gpr_write fx) (c OR cr_write fx) (x OR xer_write fx) (l \<or> lr_write fx)
      (t \<or> ctr_write fx)) (f c1) (f c2)" by simp
next
  fix d d' assume "current_opc d = opc" "f d = Inr d'"
  then show "frame_ok fx d d'"
    by (auto simp: f frame_ok_def fx Let_def untracked_npc intro: untracked_self split: if_splits)
qed

lemma obeys_cond_branches:
  assumes lk: "opc AND PPC_OPC_LK = 0"
  shows "obeys (live_run ppc_sem_bcx opc) ppc_opc_bcx opc"
    and "obeys (live_run ppc_sem_bclrx opc) ppc_opc_bclrx opc"
    and "obeys (live_run ppc_sem_bcctrx opc) ppc_opc_bcctrx opc"
proof -
  let ?BO = "field5 21 opc" and ?BI = "reg5 16 opc"
  let ?P = "\<lambda>d. branch_ctr_ok ?BO d \<and> branch_cr_ok ?BO ?BI d"
  note fx = bcx_effect[OF lk]
  have nolk: "set_lr_if_lk c = c" if "current_opc c = opc" for c
    using that lk by (simp add: set_lr_if_lk_def)
  let ?m = "if ?BO AND 16 = 0 then 2 ^ (31 - ?BI) else 0 :: uint32"
  have crok: "branch_cr_ok ?BO ?BI c1 = branch_cr_ok ?BO ?BI c2"
    if "cpu_agree (LiveSet g c x l t) c1 c2" "word_le ?m c" for g c x l t c1 c2
    using that by (intro branch_cr_ok_agree[OF that(1)]) (auto split: if_splits)
  have P: "?P c1 = ?P c2"
    if "cpu_agree (LiveSet g c x l t) c1 c2" "word_le ?m c" "?BO AND 4 = 0 \<longrightarrow> t" for g c x l t c1 c2
    using crok[OF that(1,2)] branch_ctr_ok_agree[OF that(1,3)] by simp
  have regs: "t \<longrightarrow> ctr c1 = ctr c2" "l \<longrightarrow> lr c1 = lr c2" "pc c1 = pc c2"
    if "cpu_agree (LiveSet g c x l t) c1 c2" for g c x l t c1 c2
    using that agree_pc[OF that] by (auto simp: cpu_agree_def)
  show "obeys (live_run ppc_sem_bcx opc) ppc_opc_bcx opc"
  proof (rule obeys_branch[where a = False and b = "?BO AND 4 = 0" and r = "?BO AND 4 = 0" and m = ?m and P = "?P"
        and X = "\<lambda>d. snd (snd (PPC_OPC_TEMPL_B opc)) + (if opc AND PPC_OPC_AA = 0 then pc d else 0)"])
    show "ppc_opc_bcx d = (let d = (if ?BO AND 4 = 0 then d\<lparr>ctr := ctr d - 1\<rparr> else d) in if (?P) d
        then Inr (d\<lparr>npc := (\<lambda>d. snd (snd (PPC_OPC_TEMPL_B opc)) + (if opc AND PPC_OPC_AA = 0 then pc d else 0)) d\<rparr>) else Inr d)" if "current_opc d = opc" for d
      using that nolk by (simp add: ppc_opc_bcx_def PPC_OPC_TEMPL_B_def Let_def)
    show "(?P) c1 = (?P) c2 \<and> (\<lambda>d. snd (snd (PPC_OPC_TEMPL_B opc)) + (if opc AND PPC_OPC_AA = 0 then pc d else 0)) c1 = (\<lambda>d. snd (snd (PPC_OPC_TEMPL_B opc)) + (if opc AND PPC_OPC_AA = 0 then pc d else 0)) c2"
      if "cpu_agree (LiveSet g c x l t) c1 c2" "word_le ?m c" "?BO AND 4 = 0 \<longrightarrow> t" "False \<longrightarrow> l" for g c x l t c1 c2
      by (rule conjI[OF P[OF that(1,2,3)]]) (use regs[OF that(1)] that in simp)
  qed (use fx(1) in \<open>simp_all add: insn_effect_zero_def\<close>)
  show "obeys (live_run ppc_sem_bclrx opc) ppc_opc_bclrx opc"
  proof (rule obeys_branch[where a = True and b = "?BO AND 4 = 0" and r = "?BO AND 4 = 0" and m = ?m and P = "?P"
        and X = "\<lambda>d. lr d AND 0xfffffffc"])
    show "ppc_opc_bclrx d = (let d = (if ?BO AND 4 = 0 then d\<lparr>ctr := ctr d - 1\<rparr> else d) in if (?P) d
        then Inr (d\<lparr>npc := (\<lambda>d. lr d AND 0xfffffffc) d\<rparr>) else Inr d)" if "current_opc d = opc" for d
      using that nolk by (simp add: ppc_opc_bclrx_def PPC_OPC_TEMPL_XL_def Let_def)
    show "(?P) c1 = (?P) c2 \<and> (\<lambda>d. lr d AND 0xfffffffc) c1 = (\<lambda>d. lr d AND 0xfffffffc) c2"
      if "cpu_agree (LiveSet g c x l t) c1 c2" "word_le ?m c" "?BO AND 4 = 0 \<longrightarrow> t" "True \<longrightarrow> l" for g c x l t c1 c2
      by (rule conjI[OF P[OF that(1,2,3)]]) (use regs[OF that(1)] that in simp)
  qed (use fx(2) in \<open>simp_all add: insn_effect_zero_def\<close>)
  show "obeys (live_run ppc_sem_bcctrx opc) ppc_opc_bcctrx opc"
  proof (rule obeys_branch[where a = False and b = "False" and r = "True" and m = ?m and P = "branch_cr_ok ?BO ?BI"
        and X = "\<lambda>d. ctr d AND 0xfffffffc"])
    show "ppc_opc_bcctrx d = (let d = (if False then d\<lparr>ctr := ctr d - 1\<rparr> else d) in if (branch_cr_ok ?BO ?BI) d
        then Inr (d\<lparr>npc := (\<lambda>d. ctr d AND 0xfffffffc) d\<rparr>) else Inr d)" if "current_opc d = opc" for d
      using that nolk by (simp add: ppc_opc_bcctrx_def PPC_OPC_TEMPL_XL_def Let_def)
    show "(branch_cr_ok ?BO ?BI) c1 = (branch_cr_ok ?BO ?BI) c2 \<and> (\<lambda>d. ctr d AND 0xfffffffc) c1 = (\<lambda>d. ctr d AND 0xfffffffc) c2"
      if "cpu_agree (LiveSet g c x l t) c1 c2" "word_le ?m c" "True \<longrightarrow> t" "False \<longrightarrow> l" for g c x l t c1 c2
      by (rule conjI[OF crok[OF that(1,2)]]) (use regs[OF that(1)] that in simp)
  qed (use fx(3) in \<open>simp_all add: insn_effect_zero_def\<close>)
qed

subsection \<open>The dispatchers agree\<close>

lemma is_branch_bc:
  "is_branch (live_run ppc_sem_bcctrx opc)" "is_branch (live_run ppc_sem_bclrx opc)"
  "is_branch (live_run ppc_sem_bcx opc)" "is_branch (live_run ppc_sem_bx opc)"
  by (simp_all add: branch_live PPC_OPC_TEMPL_B_def Let_def)

lemma everything_is_everything: "is_everything InsnEffect_everything"
  by (simp add: InsnEffect_everything_def)

lemma group1_obeys:
  assumes "ppc_opc_group_1 opc = Cpu_op h" "\<not> is_everything (ppc_analyze_group1 opc)"
    "is_branch (ppc_analyze_group1 opc) \<longrightarrow> opc AND PPC_OPC_LK = 0"
  shows "obeys (ppc_analyze_group1 opc) h opc"
  using assms
  by (auto simp: ppc_opc_group_1_def ppc_analyze_group1_def Let_def alu_handler_defs ppc_opc_mcrf_def
      everything_is_everything is_branch_bc split: if_splits intro!: obeys_rules obeys_cond_branches)

lemma unat_eqD: "unat w = n \<Longrightarrow> w = of_nat n"
  by auto

lemma group2_lookup:
  assumes "(ppc_opc_group_2 v opc :: 'io handler) = Cpu_op h"
  shows "(unat (PPC_OPC_EXT opc), Cpu_op h :: 'io handler) \<in> set (group2_entries @ group2_altivec)"
  using assms
  by (auto simp: ppc_opc_group_2_def ppc_opc_table_group2_def Let_def dest!: map_of_SomeD
      split: if_splits option.splits)

lemma group2_obeys:
  assumes "(ppc_opc_group_2 v opc :: 'io handler) = Cpu_op h" "\<not> is_everything (ppc_analyze_group2 opc)"
  shows "obeys (ppc_analyze_group2 opc) h opc"
proof -
  note c = group2_lookup[OF assms(1), unfolded group2_entries_def group2_altivec_def, simplified]
  show ?thesis
    apply (insert c assms(2))
    apply (elim disjE conjE)
    apply (drule unat_eqD; simp add: Let_def ppc_analyze_group2_def alu_handler_defs ppc_opc_mfcr_def
        ppc_opc_mtcrf_def everything_is_everything; (intro obeys_rules | intro obeys_spr, assumption)?)+
    done
qed

text \<open>The slots of a table, numbered by opcode.\<close>

fun numbered :: "uint32 \<Rightarrow> 'a list \<Rightarrow> (uint32 \<times> 'a) list" where
  "numbered n [] = []"
| "numbered n (x # xs) = (n, x) # numbered (n + 1) xs"

lemma numbered_nth: "i < length xs \<Longrightarrow> (n + of_nat i, xs ! i) \<in> set (numbered n xs)"
proof (induction xs arbitrary: i n)
  case (Cons x xs)
  show ?case
  proof (cases i)
    case (Suc j)
    then show ?thesis using Cons.IH[of j "n + 1"] Cons.prems by (simp add: algebra_simps)
  qed simp
qed simp

lemma group_v_not_cpu [simp]: "(Cpu_op h = (if b then Group_v else Invalid)) = False"
  by simp

lemma PPC_OPC_MAIN_less: "unat (PPC_OPC_MAIN opc) < 64"
proof -
  have "PPC_OPC_MAIN opc \<le> 0x3f" unfolding PPC_OPC_MAIN_def by (rule word_and_le1)
  then show ?thesis by (simp add: word_le_nat_alt)
qed

lemma main_slot:
  assumes "xs ! unat (PPC_OPC_MAIN opc) = y" "length xs = 64"
  shows "(PPC_OPC_MAIN opc, y) \<in> set (numbered 0 xs)"
  using numbered_nth[of "unat (PPC_OPC_MAIN opc)" xs 0] PPC_OPC_MAIN_less assms by simp

text \<open>C2: For every instruction that the analysis does not treat as opaque and that the interpreter
  executes on the CPU state alone, the interpreter respects the read and write set of
  \<open>ppc_analyze_insn\<close>: from two states that agree on a set of registers containing the reads it reaches
  states that agree on that set and the writes (or the same error), and outside the tracked registers it
  changes nothing but \<open>npc\<close>, which only branches change.  A branch that sets the link register is
  excepted: there the two disagree, see \<open>branch_link_divergence\<close>.\<close>

theorem dispatch_sound:
  assumes "\<not> is_everything (ppc_analyze_insn opc)"
    and "(ppc_exec_opc v opc :: 'io handler) = Cpu_op h"
    and "is_branch (ppc_analyze_insn opc) \<longrightarrow> opc AND PPC_OPC_LK = 0"
  shows "obeys (ppc_analyze_insn opc) h opc"
proof -
  note c = main_slot[OF assms(2)[unfolded ppc_exec_opc_def ppc_opc_table_main_def Let_def], simplified]
  show ?thesis
    apply (insert c assms(1,3))
    apply (elim disjE conjE)
    apply (simp add: Let_def ppc_analyze_insn_def alu_handler_defs everything_is_everything is_branch_bc;
        (intro obeys_rules | intro obeys_bx | intro obeys_cond_branches, assumption | erule group1_obeys[OF sym], assumption+ | erule group2_obeys[OF sym], assumption+)?)+
    done
qed

theorem dispatch_sound_witness:
  "obeys (insn_effect_zero\<lparr>gpr_write := 8\<rparr>) ppc_opc_addi 0x38600001"
proof -
  have "(ppc_exec_opc 0 0x38600001 :: unit handler) = Cpu_op ppc_opc_addi"
    by (simp add: ppc_exec_opc_def ppc_opc_table_main_def PPC_OPC_MAIN_def Let_def)
  from dispatch_sound[OF _ this] show ?thesis
    by (simp add: dead_page_effects insn_effect_zero_def)
qed

lemma bcx_not_taken:
  assumes "PPC_OPC_TEMPL_B (current_opc c) = (BO, BI, BD)"
    and "\<not> (branch_ctr_ok BO (if BO AND 4 = 0 then c\<lparr>ctr := ctr c - 1\<rparr> else c) \<and> branch_cr_ok BO BI c)"
  shows "ppc_opc_bcx c = Inr (if BO AND 4 = 0 then c\<lparr>ctr := ctr c - 1\<rparr> else c)"
  using assms by (auto simp: ppc_opc_bcx_def Let_def branch_cr_ok_def)

text \<open>A conditional branch with link that is not taken: the semantic template says that the link register
  is written (as the architecture does), the interpreter leaves it as it was.  The page analysis, which takes
  the register for dead before such a branch, does not describe the interpreter here.\<close>

theorem branch_link_divergence:
  assumes "PPC_OPC_MAIN (current_opc c) = 16" "istrue (current_opc c AND PPC_OPC_LK)"
    and "PPC_OPC_TEMPL_B (current_opc c) = (BO, BI, BD)" "istrue (BO AND 4)" "\<not> branch_cr_ok BO BI c"
  shows "lr_write (ppc_analyze_insn (current_opc c)) \<and> (ppc_exec_opc v (current_opc c) :: 'io handler) = Cpu_op ppc_opc_bcx \<and>
    ppc_opc_bcx c = Inr c"
  using assms bcx_not_taken[OF assms(3)] 
  by (simp add: ppc_analyze_insn_def ppc_exec_opc_def ppc_opc_table_main_def Let_def branch_live PPC_OPC_TEMPL_B_def)

text \<open>\<open>beql\<close> with the EQ bit clear.\<close>

theorem branch_link_divergence_witness:
  "lr_write (ppc_analyze_insn 0x41820009) \<and>
   ppc_opc_bcx ((ppc_cpu_init 0)\<lparr>current_opc := 0x41820009\<rparr>) = Inr ((ppc_cpu_init 0)\<lparr>current_opc := 0x41820009\<rparr>)"
proof -
  let ?c = "(ppc_cpu_init 0)\<lparr>current_opc := 0x41820009\<rparr>"
  have "\<not> branch_cr_ok 12 2 ?c" by (simp add: branch_cr_ok_def ppc_cpu_init_def)
  from branch_link_divergence[of ?c 12 2 8 0, where 'io = unit, OF _ _ _ _ this] show ?thesis
    by (simp add: PPC_OPC_MAIN_def PPC_OPC_TEMPL_B_def Let_def field5_def reg5_def PPC_OPC_LK_def)
qed

end
