(* ===== verification/Ppc_Run.thy ===== *)
theory Ppc_Run
  imports Ppc_Dec
begin

text \<open>
  \<open>ppc_cpu_run\<close> of src/cpu/cpu_generic/ppc_cpu.cc: one turn of the interpreter's loop (fetch through
  the cached code page, execute, time base and decrementer, pending exceptions), and the exception
  flags under concurrent device threads as a step relation.  The operation count, the trace file, the
  breakpoints and the memory dumps at the end are not modelled.
\<close>

unbundle bit_operations_syntax

subsection \<open>Time base and decrementer\<close>

text \<open>
  \<open>0xffffffff * TB_TO_PTB_FACTOR\<close> is a product of an \<open>unsigned int\<close> and an \<open>int\<close>: it is
  computed in 32 bits before it is stored in the 64-bit \<open>pdec\<close>.
\<close>

definition pdec_reload :: uint64 where
  "pdec_reload = ucast (0xffffffff * 10 :: uint32)"

definition tick :: "cpu \<Rightarrow> cpu" where
  "tick c =
     (let c = c\<lparr>ptb := ptb c + 1\<rparr>
      in if pdec c = 0 then c\<lparr>exception_pending := True, dec_exception := True, pdec := pdec_reload\<rparr>
         else c\<lparr>pdec := pdec c - 1\<rparr>)"

subsection \<open>Pending exceptions\<close>

text \<open>The region between \<open>sys_lock_mutex\<close> and \<open>sys_unlock_mutex\<close>.\<close>

definition service :: "cpu \<Rightarrow> cpu_error + cpu" where
  "service c =
     (if ext_exception c then
        (case ppc_exception PPC_EXC_EXT_INT 0 0 c of
           Inl e \<Rightarrow> Inl e
         | Inr c \<Rightarrow>
             let c = c\<lparr>ext_exception := False, pc := npc c\<rparr>
             in Inr (if \<not> dec_exception c then c\<lparr>exception_pending := False\<rparr> else c))
      else if dec_exception c then
        (case ppc_exception PPC_EXC_DEC 0 0 c of
           Inl e \<Rightarrow> Inl e
         | Inr c \<Rightarrow> Inr (c\<lparr>dec_exception := False, pc := npc c, exception_pending := False\<rparr>))
      else Inl Ppc_Fatal)"

datatype turn = Next | Stopped

definition check_pending :: "cpu \<Rightarrow> cpu_error + turn \<times> cpu" where
  "check_pending c =
     (if exception_pending c then
        if stop_exception c then
          (let c = c\<lparr>stop_exception := False\<rparr>
           in Inr (Stopped, if \<not> dec_exception c \<and> \<not> ext_exception c then c\<lparr>exception_pending := False\<rparr> else c))
        else if istrue (msr c AND MSR_EE) then
          (case service c of Inl e \<Rightarrow> Inl e | Inr c \<Rightarrow> Inr (Next, c))
        else Inr (Next, c)
      else Inr (Next, c))"

subsection \<open>One turn of the loop\<close>

definition code_page :: "uint32 \<Rightarrow> uint32" where
  "code_page a = a AND NOT 0xfff"

definition cpu_turn :: "'io handlers \<Rightarrow> 'io bus \<Rightarrow> 'io mach \<Rightarrow> cpu_error + turn \<times> 'io mach" where
  "cpu_turn X B m =
     (let m = m\<lparr>mcpu := (mcpu m)\<lparr>npc := pc (mcpu m) + 4\<rparr>\<rparr>;
          c = mcpu m
      in if code_page (pc c) = effective_code_page c then
           and_then (ram_read 4 (physical_code_page c + (pc c AND 0xfff)) m) (\<lambda>w.
             let opc = of_nat w;
                 m = m\<lparr>mcpu := c\<lparr>current_opc := opc\<rparr>\<rparr>
             in and_then (execute X (ppc_exec_opc (pvr c) opc) B m) (\<lambda>m.
                  let c = tick (mcpu m)
                  in and_then (check_pending (c\<lparr>pc := npc c\<rparr>)) (\<lambda>(t, c). Inr (t, m\<lparr>mcpu := c\<rparr>))))
         else
           and_then (ppc_direct_effective_memory_handle_code B (code_page (pc c)) m) (\<lambda>((r, p), m).
             let c = mcpu m
             in if r = PPC_MMU_OK then
                  Inr (Next, m\<lparr>mcpu := c\<lparr>physical_code_page := p, effective_code_page := code_page (pc c)\<rparr>\<rparr>)
                else if r = PPC_MMU_EXC then Inr (Next, m\<lparr>mcpu := c\<lparr>pc := npc c\<rparr>\<rparr>)
                else Inl Ppc_Fatal))"

subsection \<open>Concurrent devices\<close>

text \<open>
  The loop tests \<open>exception_pending\<close>, \<open>stop_exception\<close> and \<open>MSR[EE]\<close> before it takes the lock
  (\<open>Begin_Check\<close>), and looks at the flags again under it (\<open>Do_Service\<close>); \<open>Take_Stop\<close> is the
  exit from the loop.  The operations of the device threads each take the lock and may come at any moment.
\<close>

datatype cpu_phase = Outside | Checked

datatype flag_event = Raise_Ext | Cancel_Ext | Raise_Dec | Stop | Begin_Check | Do_Service | Take_Stop

inductive flag_step :: "flag_event \<Rightarrow> cpu \<times> cpu_phase \<Rightarrow> cpu \<times> cpu_phase \<Rightarrow> bool" where
  raise_ext: "flag_step Raise_Ext (c, p) (ppc_cpu_atomic_raise_ext_exception c, p)"
| cancel_ext: "flag_step Cancel_Ext (c, p) (ppc_cpu_atomic_cancel_ext_exception c, p)"
| raise_dec: "flag_step Raise_Dec (c, p) (ppc_cpu_atomic_raise_dec_exception c, p)"
| stop: "flag_step Stop (c, p) (ppc_cpu_stop c, p)"
| begin_check: "exception_pending c \<Longrightarrow> \<not> stop_exception c \<Longrightarrow> istrue (msr c AND MSR_EE) \<Longrightarrow>
    flag_step Begin_Check (c, Outside) (c, Checked)"
| do_service: "service c = Inr c' \<Longrightarrow> flag_step Do_Service (c, Checked) (c', Outside)"
| take_stop: "exception_pending c \<Longrightarrow> stop_exception c \<Longrightarrow> check_pending c = Inr (Stopped, c') \<Longrightarrow>
    flag_step Take_Stop (c, Outside) (c', Outside)"

inductive_simps flag_step_simps: "flag_step e (c, p) (c', p')"
inductive_cases flag_stepE: "flag_step e (c, p) s"

inductive flag_run :: "flag_event list \<Rightarrow> cpu \<times> cpu_phase \<Rightarrow> cpu \<times> cpu_phase \<Rightarrow> bool" where
  run_nil: "flag_run [] s s"
| run_snoc: "flag_run es s t \<Longrightarrow> flag_step e t u \<Longrightarrow> flag_run (es @ [e]) s u"

end
