(* ===== verification/Ppc_Page_Run.thy ===== *)
theory Ppc_Page_Run
  imports Ppc_Exec_Sound Ppc_Run Ppc_Live_Solver
begin

text \<open>
  The blocks of a CFG returned by \<open>ppc_build_page_cfg\<close> are the blocks of the scan, at aligned
  offsets, and their successor fields are those of \<open>build_edges\<close>; the branch targets that the
  analysis decodes, as words.
\<close>

unbundle bit_operations_syntax

subsection \<open>The blocks come from the scan\<close>

definition scanned :: "page \<Rightarrow> (uint32 \<Rightarrow> InsnEffect) \<Rightarrow> PageBlock \<Rightarrow> bool" where
  "scanned p an b \<longleftrightarrow> startOfs b mod 4 = 0 \<and> startOfs b < 4096 \<and>
     scan_loop p an (startOfs b) LiveSet_none LiveSet_none = (endOfs b, blk_gen b, blk_kill b)"

definition cfg_scanned :: "page \<Rightarrow> (uint32 \<Rightarrow> InsnEffect) \<Rightarrow> PageCFG \<Rightarrow> bool" where
  "cfg_scanned p an cfg \<longleftrightarrow> (\<forall>b\<in>set (blocks cfg). scanned p an b) \<and>
     (\<forall>k j. blockAtOfs cfg k = int j \<longrightarrow> j < length (blocks cfg) \<and> startOfs (blocks cfg ! j) = 4 * k)"

lemma cfg_scanned_scan:
  assumes "cfg_scanned p an cfg" "s mod 4 = 0" "s < 4096"
  shows "cfg_scanned p an (fst (ppc_scan_block p s an cfg))"
proof -
  obtain e g k where sc: "scan_loop p an s LiveSet_none LiveSet_none = (e, g, k)"
    by (cases "scan_loop p an s LiveSet_none LiveSet_none") auto
  have "4 * (s div 4) = s" using assms(2) by auto
  then show ?thesis
    using assms unfolding cfg_scanned_def ppc_scan_block_def sc
    by (auto simp: scanned_def sc nth_append intro: less_SucI)
qed

lemma scan_loop_aligned: "fst (scan_loop p an ofs g k) mod 4 = ofs mod 4"
proof (induction p an ofs g k rule: scan_loop.induct)
  case (1 p an ofs g k)
  then show ?case by (subst scan_loop.simps) (auto simp: Let_def)
qed

lemma scan_loop_bound: "ofs mod 4 = 0 \<Longrightarrow> ofs \<le> 4096 \<Longrightarrow> fst (scan_loop p an ofs g k) \<le> 4096"
proof (induction p an ofs g k rule: scan_loop.induct)
  case (1 p an ofs g k)
  have "ofs + 4 \<le> 4096" if "ofs < 4096" using that 1(2) by presburger
  then show ?case using 1 by (subst scan_loop.simps) (auto simp: Let_def)
qed

lemma scan_loop_ge: "ofs \<le> fst (scan_loop p an ofs g k)"
proof (induction p an ofs g k rule: scan_loop.induct)
  case (1 p an ofs g k)
  show ?case
    by (subst scan_loop.simps) (auto simp: Let_def intro: order_trans[OF _ 1])
qed

lemma snd_scan_block: "snd (ppc_scan_block p s an cfg) = fst (scan_loop p an s LiveSet_none LiveSet_none)"
  by (simp add: ppc_scan_block_def split: prod.splits)

subsection \<open>Branch targets\<close>

definition on_page :: "uint32 \<Rightarrow> int" where
  "on_page w = (if unat w < 4096 then uint w else -1)"

lemma on_page_sint: "(if 0 \<le> sint w \<and> sint w < 4096 then sint w else -1) = on_page w" for w :: uint32
proof -
  have "uint w div 2147483648 = 1" if "\<not> uint w < 2147483648"
    using that unsigned_less[of w, where 'a = int] by (intro int_div_pos_eq[where r = "uint w - 2147483648"]) auto
  then have "sint w = (if uint w < 2 ^ 31 then uint w else uint w - 2 ^ 32)"
    using unsigned_less[of w, where 'a = int] unsigned_greater_eq[of w, where 'a = int]
    by (simp add: sint_uint signed_take_bit_int_eq_self signed_take_bit_eq_take_bit_minus take_bit_int_eq_self bit_iff_odd)
  moreover have "unat w < 4096 \<longleftrightarrow> uint w < 4096" by (simp flip: nat_uint_eq add: nat_less_iff)
  ultimately show ?thesis using unsigned_less[of w, where 'a = int] by (auto simp: on_page_def)
qed

lemma decode_target_18:
  "PPC_OPC_MAIN opc = 18 \<Longrightarrow> ppc_decode_branch_target opc ofs =
     on_page (if istrue (opc AND PPC_OPC_AA) then PPC_OPC_TEMPL_I opc else of_nat ofs + PPC_OPC_TEMPL_I opc)"
  unfolding on_page_sint[symmetric] by (simp add: ppc_decode_branch_target_def PPC_OPC_TEMPL_I_def Let_def)

lemma decode_target_16:
  "PPC_OPC_MAIN opc = 16 \<Longrightarrow> ppc_decode_branch_target opc ofs =
     on_page (if istrue (opc AND PPC_OPC_AA) then snd (snd (PPC_OPC_TEMPL_B opc)) else of_nat ofs + snd (snd (PPC_OPC_TEMPL_B opc)))"
  unfolding on_page_sint[symmetric] by (simp add: ppc_decode_branch_target_def PPC_OPC_TEMPL_B_def Let_def)

lemma decode_target_other:
  "PPC_OPC_MAIN opc \<noteq> 18 \<Longrightarrow> PPC_OPC_MAIN opc \<noteq> 16 \<Longrightarrow> ppc_decode_branch_target opc ofs = -1"
  by (simp add: ppc_decode_branch_target_def)

lemma unat_plus_mod4: "unat (a + b) mod 4 = (unat a + unat b) mod 4" for a b :: uint32
  by (simp add: unat_word_ariths mod_mod_cancel)

lemma unat_mod4: "unat w mod 4 = 0 \<longleftrightarrow> w AND 3 = 0" for w :: uint32
proof -
  have "w AND 3 = take_bit 2 w" by (simp add: take_bit_eq_mask mask_eq_exp_minus_1)
  then have "unat (w AND 3) = unat w mod 4" by (simp add: take_bit_eq_mod unat_mod)
  then show ?thesis by (metis unat_eq_zero)
qed

lemma templ_aligned: "unat (PPC_OPC_TEMPL_I opc) mod 4 = 0" "unat (snd (snd (PPC_OPC_TEMPL_B opc))) mod 4 = 0"
  unfolding unat_mod4 by (simp_all add: PPC_OPC_TEMPL_I_def PPC_OPC_TEMPL_B_def Let_def and.assoc bit.conj_disj_distrib2)

lemma decode_target_aligned:
  assumes "ofs mod 4 = 0" "ofs < 4096" "0 \<le> ppc_decode_branch_target opc ofs"
  shows "nat (ppc_decode_branch_target opc ofs) mod 4 = 0"
proof -
  have u: "unat (of_nat ofs :: uint32) = ofs" using assms(2) by (simp add: unat_of_nat take_bit_nat_eq_self)
  have n: "nat (on_page w) mod 4 = 0" if "unat w mod 4 = 0" "0 \<le> on_page w" for w
    using that by (simp add: on_page_def split: if_splits)
  have al: "unat (of_nat ofs + x) mod 4 = 0" if "unat x mod 4 = 0" for x :: uint32
    using that assms(1) by (simp add: unat_plus_mod4 u mod_add_eq[symmetric])
  consider "PPC_OPC_MAIN opc = 18" | "PPC_OPC_MAIN opc = 16" | "PPC_OPC_MAIN opc \<noteq> 18" "PPC_OPC_MAIN opc \<noteq> 16" by blast
  then show ?thesis
  proof cases
    case 1
    show ?thesis using assms(3) unfolding decode_target_18[OF 1]
      by (rule n[rotated]) (simp add: templ_aligned al)
  next
    case 2
    show ?thesis using assms(3) unfolding decode_target_16[OF 2]
      by (rule n[rotated]) (simp add: templ_aligned al)
  next
    case 3
    then show ?thesis using assms(3) by (simp add: decode_target_other)
  qed
qed

lemma cfg_scanned_dfs:
  assumes "\<And>x. x \<in> set wl \<Longrightarrow> x mod 4 = 0"
  shows "cfg_scanned p an cfg \<Longrightarrow> dfs_loop p an wl cfg = Inr cfg' \<Longrightarrow> cfg_scanned p an cfg'"
  using assms
proof (induction p an wl cfg rule: dfs_loop.induct)
  case (1 p an cfg)
  then show ?case by (simp add: dfs_loop.simps)
next
  case (2 p an e wl cfg)
  note wl = 2(7)
  let ?r = "ppc_scan_block p e an cfg"
  have aln: "e mod 4 = 0" using wl by simp
  have sc: "cfg_scanned p an (fst ?r)" if "e < 4096" using cfg_scanned_scan[OF 2(5) aln that] .
  have end_al: "snd ?r mod 4 = 0"
    using aln scan_loop_aligned[of p an e LiveSet_none LiveSet_none]
    by (simp add: snd_scan_block)
  have push: "x mod 4 = 0" if "dfs_push p an (snd ?r) wl = Inr wl'" "x \<in> set wl'" "e < snd ?r" "e < 4096" for wl' x
  proof -
    have o: "(snd ?r - 4) mod 4 = 0" "snd ?r - 4 < 4096"
      using end_al that(3,4) aln scan_loop_bound[of e p an LiveSet_none LiveSet_none] by (auto simp: snd_scan_block mod_diff_right_eq)
    show ?thesis
      using that(1,2) wl end_al decode_target_aligned[OF o, of "page_word p (snd ?r - 4)"]
      by (auto simp: dfs_push_def Let_def wl_push_def split: if_splits sum.splits)
  qed
  show ?case
    using 2(6) 2(5) wl sc push 2(1-4)
    by (subst (asm) dfs_loop.simps) (fastforce simp: Let_def split: if_splits sum.splits)
qed

subsection \<open>The blocks and edges of a returned CFG\<close>

lemma clear_live_more:
  "clear_live a = clear_live b \<Longrightarrow> startOfs a = startOfs b \<and> endOfs a = endOfs b"
  by (cases a; cases b) (simp add: clear_live_def)

lemma build_edges_fields [simp]:
  "startOfs (build_edges p an cfg b) = startOfs b" "endOfs (build_edges p an cfg b) = endOfs b"
  "blk_gen (build_edges p an cfg b) = blk_gen b" "blk_kill (build_edges p an cfg b) = blk_kill b"
  by (simp_all add: build_edges_def Let_def)

lemma clear_live_idem [simp]: "clear_live (clear_live b) = clear_live b"
  by (simp add: clear_live_def)

lemma page_cfg_edges:
  assumes "ppc_build_page_cfg p s an = Inr (Some cfg)" "s mod 4 = 0"
  obtains cfg0 where "cfg_scanned p an cfg0" "length (blocks cfg) = length (blocks cfg0)" "live_equations (blocks cfg)"
    "\<And>i. i < length (blocks cfg) \<Longrightarrow> scanned p an (blocks cfg ! i) \<and> startOfs (blocks cfg ! i) = startOfs (blocks cfg0 ! i) \<and>
       succs (blocks cfg ! i) = succs (build_edges p an cfg0 (blocks cfg ! i)) \<and>
       numSucc (blocks cfg ! i) = numSucc (build_edges p an cfg0 (blocks cfg ! i))"
proof -
  obtain cfg0 where d: "dfs_loop p an [s] \<lparr>blocks = [], blockAtOfs = (\<lambda>_. -1)\<rparr> = Inr cfg0"
    using assms(1) by (auto simp: ppc_build_page_cfg_def split: sum.splits)
  let ?bs = "map (clear_live \<circ> build_edges p an cfg0) (blocks cfg0)"
  have ok: "cfg_ok cfg0" by (rule dfs_loop_ok[OF _ d]) (simp add: cfg_ok_def)
  have sc: "cfg_scanned p an cfg0"
    by (rule cfg_scanned_dfs[OF _ _ d]) (use assms(2) in \<open>auto simp: cfg_scanned_def\<close>)
  have "\<exists>cs. solve ?bs = Some (cs, False) \<and> solver_inv ?bs (cs, False)"
    by (rule solve_returns[OF wf_build_edges[OF ok]]) (auto simp: clear_live_def)
  then obtain cs where "solve ?bs = Some (cs, False)" and inv: "solver_inv ?bs (cs, False)" by blast
  then have cs: "blocks cfg = cs" using assms(1) d by (auto simp: ppc_build_page_cfg_def)
  have same: "same_code ?bs cs" and eq: "live_equations cs" using inv by (auto simp: solver_inv_def)
  have len: "length cs = length (blocks cfg0)" using same_code_length[OF same] by simp
  have "scanned p an (cs ! i) \<and> startOfs (cs ! i) = startOfs (blocks cfg0 ! i) \<and>
       succs (cs ! i) = succs (build_edges p an cfg0 (cs ! i)) \<and>
       numSucc (cs ! i) = numSucc (build_edges p an cfg0 (cs ! i))" if i: "i < length cs" for i
  proof -
    have "clear_live (cs ! i) = clear_live (build_edges p an cfg0 (blocks cfg0 ! i))"
      using same_code_nth[OF same, of i] i len by simp
    note f = clear_live_fields[OF this] clear_live_more[OF this]
    have "scanned p an (blocks cfg0 ! i)" using sc i len by (simp add: cfg_scanned_def)
    moreover have "succs (build_edges p an cfg0 (cs ! i)) = succs (build_edges p an cfg0 (blocks cfg0 ! i))"
      "numSucc (build_edges p an cfg0 (cs ! i)) = numSucc (build_edges p an cfg0 (blocks cfg0 ! i))"
      using f by (auto simp: succs_def build_edges_def Let_def)
    ultimately show ?thesis using f by (simp add: scanned_def)
  qed
  then show thesis using that[of cfg0] sc len eq cs by simp
qed

text \<open>
  The interpreter running instruction after instruction inside a code page, up to the first
  instruction that is opaque to the analysis, and where its branches go.
\<close>


subsection \<open>Running a page\<close>

text \<open>
  \<open>plain_op\<close>: the handler of an instruction that runs on the CPU state alone, is not opaque to
  the analysis, and is not a branch that links or has an absolute target.
\<close>

definition plain_op :: "uint32 \<Rightarrow> uint32 \<Rightarrow> opc_function option" where
  "plain_op v opc =
     (case (ppc_exec_opc v opc :: unit handler) of
        Cpu_op h \<Rightarrow>
          if is_everything (ppc_analyze_insn opc) \<or>
             is_branch (ppc_analyze_insn opc) \<and> (istrue (opc AND PPC_OPC_LK) \<or> istrue (opc AND PPC_OPC_AA))
          then None else Some h
      | _ \<Rightarrow> None)"

definition insn_run :: "opc_function \<Rightarrow> uint32 \<Rightarrow> opc_function" where
  "insn_run h opc c =
     (case h (c\<lparr>npc := pc c + 4, current_opc := opc\<rparr>) of Inl e \<Rightarrow> Inl e | Inr c \<Rightarrow> Inr (c\<lparr>pc := npc c\<rparr>))"

fun page_run :: "page \<Rightarrow> uint32 \<Rightarrow> nat \<Rightarrow> opc_function" where
  "page_run p P 0 c = Inr c"
| "page_run p P (Suc n) c =
     (if code_page (pc c) \<noteq> P then Inr c
      else let opc = page_word p (unat (pc c AND 0xfff))
           in (case plain_op (pvr c) opc of
                 None \<Rightarrow> Inr c
               | Some h \<Rightarrow> (case insn_run h opc c of Inl e \<Rightarrow> Inl e | Inr c \<Rightarrow> page_run p P n c)))"

lemma plain_opD:
  assumes "plain_op v opc = Some h"
  shows "(ppc_exec_opc v opc :: unit handler) = Cpu_op h" "\<not> is_everything (ppc_analyze_insn opc)"
    "is_branch (ppc_analyze_insn opc) \<longrightarrow> opc AND PPC_OPC_LK = 0 \<and> opc AND PPC_OPC_AA = 0"
  using assms by (auto simp: plain_op_def split: handler.splits if_splits)

lemma agree_set_pc: "cpu_agree M c1 c2 \<Longrightarrow> cpu_agree M (c1\<lparr>pc := x\<rparr>) (c2\<lparr>pc := x\<rparr>)"
proof -
  have "untracked (c\<lparr>pc := x\<rparr>) = (untracked c)\<lparr>pc := x\<rparr>" for c by (simp add: untracked_def)
  then show "cpu_agree M c1 c2 \<Longrightarrow> ?thesis" by (simp add: cpu_agree_def)
qed

lemma agree_set_opc: "cpu_agree M c1 c2 \<Longrightarrow> cpu_agree M (c1\<lparr>current_opc := x\<rparr>) (c2\<lparr>current_opc := x\<rparr>)"
proof -
  have "untracked (c\<lparr>current_opc := x\<rparr>) = (untracked c)\<lparr>current_opc := x\<rparr>" for c by (simp add: untracked_def)
  then show "cpu_agree M c1 c2 \<Longrightarrow> ?thesis" by (simp add: cpu_agree_def)
qed

lemma agree_npc_pvr: "cpu_agree M c1 c2 \<Longrightarrow> npc c1 = npc c2 \<and> pvr c1 = pvr c2"
  using arg_cong[where f = npc, OF agree_untracked] arg_cong[where f = pvr, OF agree_untracked] by simp

lemma insn_run_sound:
  assumes p: "plain_op v opc = Some h" and r: "fx_reads (ppc_analyze_insn opc) \<le> M" and a: "cpu_agree M c1 c2"
  shows "same_outcome (LiveSet_or M (fx_writes (ppc_analyze_insn opc))) (insn_run h opc c1) (insn_run h opc c2)"
    and "\<not> is_branch (ppc_analyze_insn opc) \<Longrightarrow> insn_run h opc c1 = Inr c1' \<Longrightarrow> pc c1' = pc c1 + 4"
proof -
  note ob = dispatch_sound[OF plain_opD(2)[OF p] plain_opD(1)[OF p], unfolded obeys_def]
  let ?d = "\<lambda>c. c\<lparr>npc := pc c1 + 4, current_opc := opc\<rparr>"
  have "cpu_agree M (?d c1) (?d c2)"
    using agree_set_opc[OF agree_set_npc[OF a, of "pc c1 + 4"]] .
  then have "same_outcome (LiveSet_or M (fx_writes (ppc_analyze_insn opc))) (h (?d c1)) (h (?d c2))"
    using ob plain_opD(3)[OF p] r by simp
  then show "same_outcome (LiveSet_or M (fx_writes (ppc_analyze_insn opc))) (insn_run h opc c1) (insn_run h opc c2)"
    using agree_pc[OF a] agree_npc_pvr
    by (cases "h (?d c1)"; cases "h (?d c2)") (auto simp: insn_run_def dest: agree_set_pc)
  show "pc c1' = pc c1 + 4" if b: "\<not> is_branch (ppc_analyze_insn opc)" and i: "insn_run h opc c1 = Inr c1'"
  proof -
    obtain c where c: "h (?d c1) = Inr c" "c1' = c\<lparr>pc := npc c\<rparr>"
      using i by (auto simp: insn_run_def split: sum.splits)
    then have "frame_ok (ppc_analyze_insn opc) (?d c1) c"
      using ob plain_opD(3)[OF p] by simp
    then show ?thesis using b c by (simp add: frame_ok_def)
  qed
qed

subsection \<open>Where branches go\<close>

lemma liveness_everything [simp]: "s_everything liveness_sem fx = InsnEffect_everything"
  by (simp add: liveness_sem_def)

text \<open>Only the branch templates set \<open>is_branch\<close>.\<close>

lemma not_branch:
  "\<not> is_branch (live_run ppc_sem_addx opc)"
  "\<not> is_branch (live_run ppc_sem_addcx opc)"
  "\<not> is_branch (live_run ppc_sem_addex opc)"
  "\<not> is_branch (live_run ppc_sem_addi opc)"
  "\<not> is_branch (live_run ppc_sem_addic opc)"
  "\<not> is_branch (live_run ppc_sem_addic_rc opc)"
  "\<not> is_branch (live_run ppc_sem_addis opc)"
  "\<not> is_branch (live_run ppc_sem_addmex opc)"
  "\<not> is_branch (live_run ppc_sem_addzex opc)"
  "\<not> is_branch (live_run ppc_sem_andx opc)"
  "\<not> is_branch (live_run ppc_sem_andcx opc)"
  "\<not> is_branch (live_run ppc_sem_andi_rc opc)"
  "\<not> is_branch (live_run ppc_sem_andis_rc opc)"
  "\<not> is_branch (live_run ppc_sem_orx opc)"
  "\<not> is_branch (live_run ppc_sem_orcx opc)"
  "\<not> is_branch (live_run ppc_sem_ori opc)"
  "\<not> is_branch (live_run ppc_sem_oris opc)"
  "\<not> is_branch (live_run ppc_sem_xorx opc)"
  "\<not> is_branch (live_run ppc_sem_xori opc)"
  "\<not> is_branch (live_run ppc_sem_xoris opc)"
  "\<not> is_branch (live_run ppc_sem_nandx opc)"
  "\<not> is_branch (live_run ppc_sem_norx opc)"
  "\<not> is_branch (live_run ppc_sem_eqvx opc)"
  "\<not> is_branch (live_run ppc_sem_cmp opc)"
  "\<not> is_branch (live_run ppc_sem_cmpi opc)"
  "\<not> is_branch (live_run ppc_sem_cmpl opc)"
  "\<not> is_branch (live_run ppc_sem_cmpli opc)"
  "\<not> is_branch (live_run ppc_sem_subfx opc)"
  "\<not> is_branch (live_run ppc_sem_subfcx opc)"
  "\<not> is_branch (live_run ppc_sem_subfex opc)"
  "\<not> is_branch (live_run ppc_sem_subfic opc)"
  "\<not> is_branch (live_run ppc_sem_subfmex opc)"
  "\<not> is_branch (live_run ppc_sem_subfzex opc)"
  "\<not> is_branch (live_run ppc_sem_negx opc)"
  "\<not> is_branch (live_run ppc_sem_mulli opc)"
  "\<not> is_branch (live_run ppc_sem_mullwx opc)"
  "\<not> is_branch (live_run ppc_sem_mulhwx opc)"
  "\<not> is_branch (live_run ppc_sem_mulhwux opc)"
  "\<not> is_branch (live_run ppc_sem_slwx opc)"
  "\<not> is_branch (live_run ppc_sem_srwx opc)"
  "\<not> is_branch (live_run ppc_sem_srawx opc)"
  "\<not> is_branch (live_run ppc_sem_srawix opc)"
  "\<not> is_branch (live_run ppc_sem_rlwinmx opc)"
  "\<not> is_branch (live_run ppc_sem_rlwnmx opc)"
  "\<not> is_branch (live_run ppc_sem_rlwimix opc)"
  "\<not> is_branch (live_run ppc_sem_extsbx opc)"
  "\<not> is_branch (live_run ppc_sem_extshx opc)"
  "\<not> is_branch (live_run ppc_sem_cntlzwx opc)"
  "\<not> is_branch (live_run ppc_sem_crand opc)"
  "\<not> is_branch (live_run ppc_sem_crandc opc)"
  "\<not> is_branch (live_run ppc_sem_creqv opc)"
  "\<not> is_branch (live_run ppc_sem_crnand opc)"
  "\<not> is_branch (live_run ppc_sem_crnor opc)"
  "\<not> is_branch (live_run ppc_sem_cror opc)"
  "\<not> is_branch (live_run ppc_sem_crorc opc)"
  "\<not> is_branch (live_run ppc_sem_crxor opc)"
  "\<not> is_branch (live_run ppc_sem_mfcr opc)"
  "\<not> is_branch (live_run ppc_sem_mtcrf opc)"
  "\<not> is_branch (live_run ppc_sem_mcrf opc)"
  "\<not> is_branch (live_run ppc_sem_mfspr opc)"
  "\<not> is_branch (live_run ppc_sem_mtspr opc)"
  "\<not> is_branch (live_run_div ppc_sem_divwx opc)"
  "\<not> is_branch (live_run_div ppc_sem_divwux opc)"
  "\<not> is_branch InsnEffect_everything"
  by (simp_all add: conc.live_defs InsnEffect_everything_def Let_def split_beta PPC_OPC_TEMPL_D_SImm_def
    PPC_OPC_TEMPL_D_UImm_def PPC_OPC_TEMPL_D_Shift16_def sem_alu_defs sem_spr_defs)

lemma not_branch_mem:
  "\<not> is_branch (live_run ppc_sem_lwzx opc)"
  "\<not> is_branch (live_run ppc_sem_lwzux opc)"
  "\<not> is_branch (live_run ppc_sem_lbzx opc)"
  "\<not> is_branch (live_run ppc_sem_lbzux opc)"
  "\<not> is_branch (live_run ppc_sem_lhzx opc)"
  "\<not> is_branch (live_run ppc_sem_lhzux opc)"
  "\<not> is_branch (live_run ppc_sem_lhax opc)"
  "\<not> is_branch (live_run ppc_sem_lhaux opc)"
  "\<not> is_branch (live_run ppc_sem_stwx opc)"
  "\<not> is_branch (live_run ppc_sem_stwux opc)"
  "\<not> is_branch (live_run ppc_sem_stbx opc)"
  "\<not> is_branch (live_run ppc_sem_stbux opc)"
  "\<not> is_branch (live_run ppc_sem_sthx opc)"
  "\<not> is_branch (live_run ppc_sem_sthux opc)"
  "\<not> is_branch (live_run ppc_sem_lfsx opc)"
  "\<not> is_branch (live_run ppc_sem_lfsux opc)"
  "\<not> is_branch (live_run ppc_sem_lfdx opc)"
  "\<not> is_branch (live_run ppc_sem_lfdux opc)"
  "\<not> is_branch (live_run ppc_sem_stfsx opc)"
  "\<not> is_branch (live_run ppc_sem_stfsux opc)"
  "\<not> is_branch (live_run ppc_sem_stfdx opc)"
  "\<not> is_branch (live_run ppc_sem_stfdux opc)"
  by (simp_all add: conc.live_defs Let_def split_beta PPC_OPC_TEMPL_D_SImm_def sem_mem_defs sem_fpu_defs liveness_sem_def)

lemma not_branch_group2: "\<not> is_branch (ppc_analyze_group2 opc)"
  by (simp add: ppc_analyze_group2_def Let_def not_branch not_branch_mem)

lemma group1_branch:
  assumes "(ppc_opc_group_1 opc :: 'io handler) = Cpu_op h" "is_branch (ppc_analyze_group1 opc)"
  shows "PPC_OPC_EXT opc = 16 \<and> h = ppc_opc_bclrx \<or> PPC_OPC_EXT opc = 528 \<and> h = ppc_opc_bcctrx"
  using assms by (auto simp: ppc_opc_group_1_def ppc_analyze_group1_def Let_def not_branch split: if_splits)

lemma branch_kinds:
  assumes "(ppc_exec_opc v opc :: 'io handler) = Cpu_op h" and "is_branch (ppc_analyze_insn opc)"
  shows "PPC_OPC_MAIN opc = 18 \<and> h = ppc_opc_bx \<or> PPC_OPC_MAIN opc = 16 \<and> h = ppc_opc_bcx \<or>
    PPC_OPC_MAIN opc = 19 \<and> (PPC_OPC_EXT opc = 16 \<and> h = ppc_opc_bclrx \<or> PPC_OPC_EXT opc = 528 \<and> h = ppc_opc_bcctrx)"
proof -
  note c = main_slot[OF assms(1)[unfolded ppc_exec_opc_def ppc_opc_table_main_def Let_def], simplified]
  show ?thesis
    apply (insert c assms(2))
    apply (elim disjE conjE)
    apply (simp add: Let_def ppc_analyze_insn_def not_branch not_branch_group2;
        (drule sym[of "Cpu_op h"], drule group1_branch; simp)?)+
    done
qed

end
