(* ===== verification/Ppc_Page_Sound.thy ===== *)
theory Ppc_Page_Sound
  imports Ppc_Page_Run
begin

text \<open>
  The page analysis is sound for the interpreter: two runs of a code page that start a block
  agreeing on its live-in set stay in lockstep, and agree on every register when they leave the
  page or reach an opaque instruction.
\<close>

unbundle bit_operations_syntax

subsection \<open>Addresses of a page\<close>

lemma masked_parts:
  fixes m :: "'a::len word"
  shows "(x AND NOT m) + (x AND m) = x"
    and "P AND m = 0 \<Longrightarrow> w AND m = w \<Longrightarrow> P + w = P OR w"
    and "P AND m = 0 \<Longrightarrow> w AND m = w \<Longrightarrow> (P OR w) AND NOT m = P"
    and "P AND m = 0 \<Longrightarrow> w AND m = w \<Longrightarrow> (P OR w) AND m = w"
proof -
  show "(x AND NOT m) + (x AND m) = x"
    by (subst disjunctive_add_eq_or) (auto simp: bit_eq_iff bit_and_iff bit_or_iff bit_not_iff)
  show "P AND m = 0 \<Longrightarrow> w AND m = w \<Longrightarrow> P + w = P OR w"
    by (rule disjunctive_add_eq_or) (auto simp: bit_eq_iff bit_and_iff)
  show "P AND m = 0 \<Longrightarrow> w AND m = w \<Longrightarrow> (P OR w) AND NOT m = P"
    and "P AND m = 0 \<Longrightarrow> w AND m = w \<Longrightarrow> (P OR w) AND m = w"
    by (auto simp: bit_eq_iff bit_and_iff bit_or_iff bit_not_iff)
qed

lemma unat_low: "unat w < 4096 \<longleftrightarrow> w AND 0xfff = w" for w :: uint32
proof -
  have "w AND 0xfff = take_bit 12 w" by (simp add: take_bit_eq_mask mask_eq_exp_minus_1)
  then have "unat (w AND 0xfff) = unat w mod 4096" by (simp add: take_bit_eq_mod unat_mod)
  then show ?thesis by (metis mod_less mod_less_divisor unsigned_word_eqI zero_less_numeral)
qed

lemma code_page_add:
  assumes "P AND 0xfff = 0"
  shows "code_page (P + w) = P \<longleftrightarrow> unat w < 4096" and "unat w < 4096 \<Longrightarrow> (P + w) AND 0xfff = w"
proof -
  note parts = masked_parts(2-4)[OF assms, of w, folded unat_low]
  show "unat w < 4096 \<Longrightarrow> (P + w) AND 0xfff = w" using parts by simp
  show "code_page (P + w) = P \<longleftrightarrow> unat w < 4096"
  proof
    assume "code_page (P + w) = P"
    then have "P + ((P + w) AND 0xfff) = P + w"
      using masked_parts(1)[of "P + w" "0xfff"] unfolding code_page_def by simp
    then have "(P + w) AND 0xfff = w" by simp
    then show "unat w < 4096" unfolding unat_low by (metis and.assoc and.idem)
  next
    assume "unat w < 4096"
    then show "code_page (P + w) = P" using parts unfolding code_page_def by simp
  qed
qed

subsection \<open>Where a branch goes\<close>

text \<open>
  The three ways a branch at offset \<open>ofs\<close> of the page \<open>P\<close> can go: through a register, on to the next
  instruction when it is conditional, or to the target that the analysis decodes.
\<close>

lemma ctr_cond_always:
  "BO AND 0x14 = 0x14 \<Longrightarrow> branch_ctr_ok BO c \<and> branch_cr_ok BO BI c"
proof -
  assume a: "BO AND 0x14 = 0x14"
  have "BO AND 4 = (BO AND 0x14) AND 4" "BO AND 16 = (BO AND 0x14) AND 16" by (simp_all add: and.assoc)
  then have "BO AND 4 = 4" "BO AND 16 = 16" unfolding a by simp_all
  then show ?thesis by (simp add: branch_ctr_ok_def branch_cr_ok_def)
qed

lemma branch_goes:
  assumes p: "plain_op v opc = Some h" and b: "is_branch (ppc_analyze_insn opc)"
    and r: "insn_run h opc c = Inr c'" and pc: "pc c = P + of_nat ofs"
  shows "PPC_OPC_MAIN opc = 19 \<or> \<not> ppc_is_unconditional_branch opc \<and> pc c' = pc c + 4 \<or>
    (\<exists>w. ppc_decode_branch_target opc ofs = on_page w \<and> pc c' = P + w)"
    and "PPC_OPC_MAIN opc = 19 \<Longrightarrow> ppc_decode_branch_target opc ofs = -1"
proof -
  have nolk: "opc AND PPC_OPC_LK = 0" "opc AND PPC_OPC_AA = 0" using plain_opD(3)[OF p] b by simp_all
  let ?d = "c\<lparr>npc := pc c + 4, current_opc := opc\<rparr>"
  obtain d where d: "h ?d = Inr d" "pc c' = npc d"
    using r by (auto simp: insn_run_def split: sum.splits)
  consider "PPC_OPC_MAIN opc = 18" "h = ppc_opc_bx" | "PPC_OPC_MAIN opc = 16" "h = ppc_opc_bcx"
    | "PPC_OPC_MAIN opc = 19" using branch_kinds[OF plain_opD(1)[OF p] b] by blast
  then show "PPC_OPC_MAIN opc = 19 \<or> \<not> ppc_is_unconditional_branch opc \<and> pc c' = pc c + 4 \<or>
    (\<exists>w. ppc_decode_branch_target opc ofs = on_page w \<and> pc c' = P + w)"
  proof cases
    case 1
    then have "pc c' = P + (of_nat ofs + PPC_OPC_TEMPL_I opc)"
      using d nolk pc by (auto simp: ppc_opc_bx_def set_lr_if_lk_def Let_def algebra_simps)
    then show ?thesis using decode_target_18[OF 1(1), of ofs] nolk by auto
  next
    case 2
    let ?BO = "field5 21 opc" and ?BD = "snd (snd (PPC_OPC_TEMPL_B opc))"
    have "ppc_is_unconditional_branch opc \<Longrightarrow> ?BO AND 0x14 = 0x14"
      using 2 by (simp add: ppc_is_unconditional_branch_def Let_def field5_def)
    then have "\<not> ppc_is_unconditional_branch opc \<and> pc c' = pc c + 4 \<or> pc c' = P + (of_nat ofs + ?BD)"
      using d nolk pc 2 ctr_cond_always[of ?BO]
      by (auto simp: ppc_opc_bcx_def set_lr_if_lk_def Let_def split_beta PPC_OPC_TEMPL_B_def algebra_simps split: if_splits)
    then show ?thesis using decode_target_16[OF 2(1), of ofs] nolk by auto
  qed simp
  show "PPC_OPC_MAIN opc = 19 \<Longrightarrow> ppc_decode_branch_target opc ofs = -1"
    by (simp add: decode_target_other)
qed

subsection \<open>Two runs in lockstep\<close>

text \<open>Agreement depends on the tracked resources of the set only.\<close>

lemma cpu_agree_tracked:
  assumes "cpu_agree M c1 c2" "\<And>r. tracked r \<Longrightarrow> live L r \<Longrightarrow> live M r"
  shows "cpu_agree L c1 c2"
proof -
  have "bit (lv_gpr L) n \<Longrightarrow> n < 32 \<Longrightarrow> bit (lv_gpr M) n" "bit (lv_cr L) n \<Longrightarrow> n < 32 \<Longrightarrow> bit (lv_cr M) n"
    "bit (lv_xer L) n \<Longrightarrow> n < 3 \<Longrightarrow> bit (lv_xer M) n" for n
    using assms(2)[of "RGpr n"] assms(2)[of "RCr n"] assms(2)[of "RXer n"] by simp_all
  then show ?thesis
    using assms(1) assms(2)[of RLr] assms(2)[of RCtr]
    by (auto simp: cpu_agree_def agree_on_bits bit_xer_live_mask)
qed

lemma cpu_agree_all: "cpu_agree LiveSet_all_live c1 c2 \<Longrightarrow> cpu_agree M c1 c2"
  by (erule cpu_agree_tracked) simp

text \<open>
  \<open>in_sync\<close>: the states agree on every register, or they are at an offset inside a block, with the
  scan of the block under way, and agree on the block's live-in set and what it has written so far.
\<close>

definition in_block :: "page \<Rightarrow> uint32 \<Rightarrow> PageBlock \<Rightarrow> cpu \<Rightarrow> cpu \<Rightarrow> bool" where
  "in_block p P b c1 c2 \<longleftrightarrow>
     (\<exists>ofs g k. ofs mod 4 = 0 \<and> ofs < 4096 \<and> pc c1 = P + of_nat ofs \<and>
        scan_loop p ppc_analyze_insn ofs g k = (endOfs b, blk_gen b, blk_kill b) \<and>
        cpu_agree (LiveSet_or (live_in b) k) c1 c2)"

definition in_sync :: "page \<Rightarrow> uint32 \<Rightarrow> PageBlock list \<Rightarrow> cpu \<Rightarrow> cpu \<Rightarrow> bool" where
  "in_sync p P bs c1 c2 \<longleftrightarrow> cpu_agree LiveSet_all_live c1 c2 \<or> (\<exists>b\<in>set bs. in_block p P b c1 c2)"

lemma live_gen_step: "live (gen_step fx g k) r \<longleftrightarrow> live g r \<or> live (fx_reads fx) r \<and> \<not> live k r"
  by (cases r) (auto simp: gen_step_def fx_reads_def bit_or_iff bit_and_iff bit_not_iff dest: bit_imp_le_length)

lemma kill_step_or: "kill_step fx k = LiveSet_or k (fx_writes fx)"
  by (cases k) (simp add: kill_step_def fx_writes_def)

lemma scan_loop_gen:
  "scan_loop p an ofs g k = (e, g', k') \<Longrightarrow> tracked r \<Longrightarrow> live g r \<Longrightarrow> live g' r"
proof (induction p an ofs g k rule: scan_loop.induct)
  case (1 p an ofs g k)
  show ?case
    using 1(2-4) 1(1)[OF _ refl _ refl refl]
    by (subst (asm) scan_loop.simps) (auto simp: Let_def live_gen_step split: if_splits)
qed

lemma scan_loop_stop:
  assumes "scan_loop p an ofs g k = (e, g', k')" "ofs < 4096"
  shows "is_everything (an (page_word p ofs)) \<Longrightarrow> g' = LiveSet_all_live"
    and "\<not> is_everything (an (page_word p ofs)) \<Longrightarrow> is_branch (an (page_word p ofs)) \<Longrightarrow>
      e = ofs + 4 \<and> k' = kill_step (an (page_word p ofs)) k"
    and "\<not> is_everything (an (page_word p ofs)) \<Longrightarrow> \<not> is_branch (an (page_word p ofs)) \<Longrightarrow>
      scan_loop p an (ofs + 4) (gen_step (an (page_word p ofs)) g k) (kill_step (an (page_word p ofs)) k) = (e, g', k')"
    and "\<not> is_everything (an (page_word p ofs)) \<Longrightarrow> tracked r \<Longrightarrow> live (fx_reads (an (page_word p ofs))) r \<Longrightarrow>
      live g' r \<or> live k r"
proof -
  show 1: "is_everything (an (page_word p ofs)) \<Longrightarrow> g' = LiveSet_all_live"
    and 2: "\<not> is_everything (an (page_word p ofs)) \<Longrightarrow> is_branch (an (page_word p ofs)) \<Longrightarrow>
      e = ofs + 4 \<and> k' = kill_step (an (page_word p ofs)) k"
    and 3: "\<not> is_everything (an (page_word p ofs)) \<Longrightarrow> \<not> is_branch (an (page_word p ofs)) \<Longrightarrow>
      scan_loop p an (ofs + 4) (gen_step (an (page_word p ofs)) g k) (kill_step (an (page_word p ofs)) k) = (e, g', k')"
    using assms by (simp_all add: scan_loop.simps[of p an ofs] Let_def)
  assume n: "\<not> is_everything (an (page_word p ofs))" "tracked r" "live (fx_reads (an (page_word p ofs))) r"
  show "live g' r \<or> live k r"
  proof (cases "is_branch (an (page_word p ofs))")
    case True
    then have "g' = gen_step (an (page_word p ofs)) g k"
      using assms n by (simp add: scan_loop.simps[of p an ofs] Let_def)
    then show ?thesis using n(3) by (auto simp: live_gen_step)
  next
    case False
    then show ?thesis
      using scan_loop_gen[OF 3[OF n(1) False] n(2)] n(3) by (auto simp: live_gen_step)
  qed
qed

subsection \<open>Following an edge\<close>

definition edges_ok :: "page \<Rightarrow> PageCFG \<Rightarrow> PageBlock list \<Rightarrow> bool" where
  "edges_ok p cfg0 bs \<longleftrightarrow> cfg_scanned p ppc_analyze_insn cfg0 \<and> length bs = length (blocks cfg0) \<and> live_equations bs \<and>
     (\<forall>i<length bs. scanned p ppc_analyze_insn (bs ! i) \<and> startOfs (bs ! i) = startOfs (blocks cfg0 ! i) \<and>
        succs (bs ! i) = succs (build_edges p ppc_analyze_insn cfg0 (bs ! i)) \<and>
        numSucc (bs ! i) = numSucc (build_edges p ppc_analyze_insn cfg0 (bs ! i)))"

lemma live_out_agree:
  assumes "edges_ok p cfg0 bs" "b \<in> set bs" "cpu_agree (LiveSet_or (live_in b) (blk_kill b)) c1 c2"
  shows "cpu_agree (new_live_out bs b) c1 c2"
proof (rule cpu_agree_tracked[OF assms(3)])
  obtain i where i: "i < length bs" "b = bs ! i" using assms(2) by (auto simp: in_set_conv_nth)
  fix r assume "tracked r" "live (new_live_out bs b) r"
  then show "live (LiveSet_or (live_in b) (blk_kill b)) r"
    using assms(1) i by (auto simp: edges_ok_def live_equations_def new_live_in_def)
qed

lemma follow_off_page:
  assumes "edges_ok p cfg0 bs" "b \<in> set bs" "cpu_agree (LiveSet_or (live_in b) (blk_kill b)) c1 c2"
    and "numSucc b = 0 \<or> PAGE_SUCC_OFF_PAGE \<in> set (succs b)"
  shows "cpu_agree LiveSet_all_live c1 c2"
  using live_out_agree[OF assms(1-3)] assms(4)
  by (elim cpu_agree_tracked) (auto simp: new_live_out_def live_out_loop_iff)

lemma follow_edge:
  assumes ok: "edges_ok p cfg0 bs" and b: "b \<in> set bs" "cpu_agree (LiveSet_or (live_in b) (blk_kill b)) c1 c2"
    and s: "succ_of_ofs cfg0 x \<in> set (succs b)" and x: "x < 4096" "x mod 4 = 0" "pc c1 = P + of_nat x"
  shows "in_sync p P bs c1 c2"
proof (cases "succ_of_ofs cfg0 x = PAGE_SUCC_OFF_PAGE")
  case True
  then show ?thesis using follow_off_page[OF ok b] s by (simp add: in_sync_def)
next
  case False
  then obtain j where j: "succ_of_ofs cfg0 x = int j" "blockAtOfs cfg0 (x div 4) = int j"
    using x(1) by (auto simp: succ_of_ofs_def Let_def blockForOfs_def split: if_splits elim: nonneg_int_cases)
  then have l: "j < length bs" "startOfs (bs ! j) = x"
    using ok x(2) by (auto simp: edges_ok_def cfg_scanned_def)
  have "numSucc b \<noteq> 0" using s by (cases "numSucc b") (simp_all add: succs_def)
  then have "live (new_live_out bs b) r" if "tracked r" "live (live_in (bs ! j)) r" for r
    using that s[unfolded j(1)] by (auto simp: new_live_out_def live_out_loop_iff intro!: bexI[of _ "int j"])
  then have "cpu_agree (live_in (bs ! j)) c1 c2"
    using live_out_agree[OF ok b] by (rule cpu_agree_tracked[rotated])
  then have "in_block p P (bs ! j) c1 c2"
    using ok l x unfolding in_block_def edges_ok_def scanned_def
    by (intro exI[of _ x] exI[of _ LiveSet_none]) (auto elim: cpu_agree_tracked)
  then show ?thesis using l by (auto simp: in_sync_def)
qed

text \<open>The instruction that ends a block, with the two sets as the scan left them.\<close>

lemma block_end:
  assumes ok: "edges_ok p cfg0 bs" and b: "b \<in> set bs" and a: "cpu_agree (LiveSet_or (live_in b) (blk_kill b)) c1' c2'"
    and al: "P AND 0xfff = 0" "ofs mod 4 = 0" "ofs < 4096" "pc c1 = P + of_nat ofs" and e: "endOfs b = ofs + 4"
    and i: "plain_op v (page_word p ofs) = Some h" "insn_run h (page_word p ofs) c1 = Inr c1'"
    and br: "is_branch (ppc_analyze_insn (page_word p ofs))"
  shows "in_sync p P bs c1' c2'"
proof -
  let ?opc = "page_word p ofs" and ?t = "ppc_decode_branch_target (page_word p ofs) ofs"
  note edges = ok[unfolded edges_ok_def] 
  have su: "succs b = succs (build_edges p ppc_analyze_insn cfg0 b)"
    using edges b by (auto simp: in_set_conv_nth)
  have all: "in_sync p P bs c1' c2'" if "PAGE_SUCC_OFF_PAGE \<in> set (succs b)"
    using follow_off_page[OF ok b a] that by (simp add: in_sync_def)
  have succs: "0 \<le> ?t \<and> ?t < 4096 \<Longrightarrow> succ_of_ofs cfg0 (nat ?t) \<in> set (succs b)"
    "\<not> (0 \<le> ?t \<and> ?t < 4096) \<Longrightarrow> PAGE_SUCC_OFF_PAGE \<in> set (succs b)"
    "\<not> ppc_is_unconditional_branch ?opc \<Longrightarrow> ofs + 4 < 4096 \<Longrightarrow> succ_of_ofs cfg0 (ofs + 4) \<in> set (succs b)"
    "\<not> ppc_is_unconditional_branch ?opc \<Longrightarrow> \<not> ofs + 4 < 4096 \<Longrightarrow> PAGE_SUCC_OFF_PAGE \<in> set (succs b)"
    unfolding su using br e by (auto simp: build_edges_def Let_def succs_def numeral_2_eq_2)
  consider "PPC_OPC_MAIN ?opc = 19" | "\<not> ppc_is_unconditional_branch ?opc" "pc c1' = pc c1 + 4"
    | w where "?t = on_page w" "pc c1' = P + w"
    using branch_goes(1)[OF i(1) br i(2) al(4)] by blast
  then show ?thesis
  proof cases
    case 1
    then show ?thesis using succs(2) branch_goes(2)[OF i(1) br i(2) al(4)] by (intro all) simp
  next
    case 2
    show ?thesis
    proof (cases "ofs + 4 < 4096")
      case True
      show ?thesis
        using al(2) 2(2) al(4) by (intro follow_edge[OF ok b a succs(3)[OF 2(1) True] True]) (simp_all add: add.commute)
    qed (use succs(4)[OF 2(1)] all in blast)
  next
    case (3 w)
    show ?thesis
    proof (cases "unat w < 4096")
      case True
      then have t: "nat ?t = unat w" "0 \<le> ?t \<and> ?t < 4096"
        using 3(1) by (auto simp: on_page_def) (simp flip: nat_uint_eq add: nat_less_iff)
      show ?thesis
        using decode_target_aligned[OF al(2,3), of ?opc] t True 3(2)
        by (intro follow_edge[OF ok b a succs(1)[OF t(2)]]) auto
    next
      case False
      then show ?thesis using succs(2) 3(1) by (intro all) (simp add: on_page_def)
    qed
  qed
qed

subsection \<open>Instruction by instruction\<close>

lemma offset_of_pc:
  assumes "P AND 0xfff = 0" "ofs < 4096" "pc c = P + of_nat ofs"
  shows "code_page (pc c) = P" "unat (pc c AND 0xfff) = ofs"
proof -
  have "unat (of_nat ofs :: uint32) = ofs" using assms(2) by (simp add: unat_of_nat take_bit_nat_eq_self)
  then show "code_page (pc c) = P" "unat (pc c AND 0xfff) = ofs"
    using code_page_add[OF assms(1), of "of_nat ofs"] assms(2,3) by simp_all
qed

lemma in_sync_pc: "in_sync p P bs c1 c2 \<Longrightarrow> pc c1 = pc c2 \<and> pvr c1 = pvr c2 \<and> untracked c1 = untracked c2"
  by (auto simp: in_sync_def in_block_def dest: agree_pc agree_npc_pvr agree_untracked)

lemma in_block_step:
  assumes ok: "edges_ok p cfg0 bs" and P: "P AND 0xfff = 0" and b: "b \<in> set bs" "in_block p P b c1 c2"
    and o: "opc = page_word p (unat (pc c1 AND 0xfff))" and nev: "\<not> is_everything (ppc_analyze_insn opc)"
  obtains ofs g k where "ofs mod 4 = 0" "ofs < 4096" "pc c1 = P + of_nat ofs" "opc = page_word p ofs"
    "scan_loop p ppc_analyze_insn ofs g k = (endOfs b, blk_gen b, blk_kill b)"
    "cpu_agree (LiveSet_or (LiveSet_or (live_in b) k) (fx_reads (ppc_analyze_insn opc))) c1 c2"
proof -
  from b(2) obtain ofs g k where ofs: "ofs mod 4 = 0" "ofs < 4096" "pc c1 = P + of_nat ofs"
    and sc: "scan_loop p ppc_analyze_insn ofs g k = (endOfs b, blk_gen b, blk_kill b)"
    and a: "cpu_agree (LiveSet_or (live_in b) k) c1 c2"
    unfolding in_block_def by (elim exE conjE)
  have opc: "opc = page_word p ofs" using o offset_of_pc(2)[OF P ofs(2,3)] by simp
  have gi: "live (blk_gen b) x \<Longrightarrow> live (live_in b) x" for x
    using ok b(1) by (auto simp: edges_ok_def in_set_conv_nth live_equations_def new_live_in_def)
  have "cpu_agree (LiveSet_or (LiveSet_or (live_in b) k) (fx_reads (ppc_analyze_insn opc))) c1 c2"
    using scan_loop_stop(4)[OF sc ofs(2), folded opc, OF nev] gi by (intro cpu_agree_tracked[OF a]) auto
  then show thesis by (rule that[OF ofs opc sc])
qed

lemma insn_same_outcome:
  assumes ok: "edges_ok p cfg0 bs" and P: "P AND 0xfff = 0" and s: "in_sync p P bs c1 c2"
    and o: "opc = page_word p (unat (pc c1 AND 0xfff))" and i: "plain_op v opc = Some h"
  shows "same_outcome LiveSet_none (insn_run h opc c1) (insn_run h opc c2)"
proof -
  have "\<exists>M. fx_reads (ppc_analyze_insn opc) \<le> M \<and> cpu_agree M c1 c2"
    using s unfolding in_sync_def
  proof (elim disjE bexE)
    assume "cpu_agree LiveSet_all_live c1 c2"
    then show ?thesis using cpu_agree_all by blast
  next
    fix b assume "b \<in> set bs" "in_block p P b c1 c2"
    then obtain M where "cpu_agree (LiveSet_or M (fx_reads (ppc_analyze_insn opc))) c1 c2"
      by (rule in_block_step[OF ok P _ _ o plain_opD(2)[OF i]])
    then show ?thesis by (intro exI[of _ "LiveSet_or M (fx_reads (ppc_analyze_insn opc))"]) (simp add: LiveSet_le_iff)
  qed
  then obtain M where "same_outcome (LiveSet_or M (fx_writes (ppc_analyze_insn opc))) (insn_run h opc c1) (insn_run h opc c2)"
    using insn_run_sound(1)[OF i] by blast
  then show ?thesis
    by (auto simp: same_outcome_def elim!: cpu_agree_tracked split: sum.splits)
qed

lemma insn_in_sync:
  assumes ok: "edges_ok p cfg0 bs" and P: "P AND 0xfff = 0" and s: "in_sync p P bs c1 c2"
    and o: "opc = page_word p (unat (pc c1 AND 0xfff))" and i: "plain_op v opc = Some h"
    and r: "insn_run h opc c1 = Inr c1'" "insn_run h opc c2 = Inr c2'"
  shows "in_sync p P bs c1' c2'"
  using s unfolding in_sync_def
proof (elim disjE bexE)
  let ?fx = "ppc_analyze_insn opc"
  assume a: "cpu_agree LiveSet_all_live c1 c2"
  have "cpu_agree (LiveSet_or (LiveSet_or LiveSet_all_live (fx_reads ?fx)) (fx_writes ?fx)) c1' c2'"
    using insn_run_sound(1)[OF i _ cpu_agree_all[OF a], of "LiveSet_or LiveSet_all_live (fx_reads ?fx)"] r
    by (simp add: LiveSet_le_iff)
  then have "cpu_agree LiveSet_all_live c1' c2'" by (rule cpu_agree_tracked) simp
  then show "cpu_agree LiveSet_all_live c1' c2' \<or> (\<exists>b\<in>set bs. in_block p P b c1' c2')" ..
next
  let ?fx = "ppc_analyze_insn opc"
  fix b assume b: "b \<in> set bs" and ib: "in_block p P b c1 c2"
  note nev = plain_opD(2)[OF i]
  from in_block_step[OF ok P b ib o nev] obtain ofs g k
    where ofs: "ofs mod 4 = 0" "ofs < 4096" "pc c1 = P + of_nat ofs" and opc: "opc = page_word p ofs"
      and sc: "scan_loop p ppc_analyze_insn ofs g k = (endOfs b, blk_gen b, blk_kill b)"
      and a: "cpu_agree (LiveSet_or (LiveSet_or (live_in b) k) (fx_reads ?fx)) c1 c2" .
  note stop = scan_loop_stop[OF sc ofs(2), folded opc]
  let ?M = "LiveSet_or (LiveSet_or (live_in b) k) (fx_reads ?fx)"
  from a have "cpu_agree (LiveSet_or ?M (fx_writes ?fx)) c1' c2'"
    using insn_run_sound(1)[OF i, of ?M c1 c2] r by (simp add: LiveSet_le_iff)
  then have a': "cpu_agree (LiveSet_or (live_in b) (kill_step ?fx k)) c1' c2'"
    by (rule cpu_agree_tracked) (auto simp: kill_step_or)
  show "cpu_agree LiveSet_all_live c1' c2' \<or> (\<exists>b\<in>set bs. in_block p P b c1' c2')"
  proof (cases "is_branch ?fx")
    case True
    have "in_sync p P bs c1' c2'"
      using a' stop(2)[OF nev True] True i r(1) unfolding opc
      by (intro block_end[OF ok b _ P ofs]) simp_all
    then show ?thesis by (simp add: in_sync_def)
  next
    case False
    have pc': "pc c1' = P + of_nat (ofs + 4)" 
      using insn_run_sound(2)[OF i order_refl cpu_agree_refl False r(1)] ofs(3) by (simp add: add.assoc add.commute)
    show ?thesis
    proof (cases "ofs + 4 < 4096")
      case True
      then have "in_block p P b c1' c2'"
        using ofs(1) pc' a' stop(3)[OF nev False] unfolding in_block_def by (intro exI[of _ "ofs + 4"]) auto
      then show ?thesis using b by blast
    next
      case f: False
      then have e: "blk_kill b = kill_step ?fx k" "endOfs b = ofs + 4"
        using stop(3)[OF nev False] by (simp_all add: scan_loop.simps[of p _ "ofs + 4"])
      have "numSucc b = numSucc (build_edges p ppc_analyze_insn cfg0 b)"
        using ok b by (auto simp: edges_ok_def in_set_conv_nth)
      then have "numSucc b = 0" using False nev e(2) by (simp add: build_edges_def Let_def opc)
      then show ?thesis using follow_off_page[OF ok b] a' e(1) by simp
    qed
  qed
qed

lemma page_run_sync:
  assumes ok: "edges_ok p cfg0 bs" and P: "P AND 0xfff = 0"
  shows "in_sync p P bs c1 c2 \<Longrightarrow>
    (case (page_run p P n c1, page_run p P n c2) of
       (Inl e1, Inl e2) \<Rightarrow> e1 = e2 | (Inr d1, Inr d2) \<Rightarrow> in_sync p P bs d1 d2 | _ \<Rightarrow> False)"
proof (induction n arbitrary: c1 c2)
  case (Suc n)
  note pcs = in_sync_pc[OF Suc.prems]
  let ?opc = "page_word p (unat (pc c2 AND 0xfff))"
  show ?case
  proof (cases "code_page (pc c2) = P \<and> plain_op (pvr c2) ?opc \<noteq> None")
    case False
    then show ?thesis using Suc.prems pcs by (auto simp: Let_def)
  next
    case True
    then obtain h where h: "plain_op (pvr c2) ?opc = Some h" by blast
    have so: "same_outcome LiveSet_none (insn_run h ?opc c1) (insn_run h ?opc c2)"
      by (rule insn_same_outcome[OF ok P Suc.prems _ h]) (simp add: pcs)
    show ?thesis
    proof (cases "insn_run h ?opc c1")
      case (Inl e)
      then show ?thesis using so True h pcs by (cases "insn_run h ?opc c2") (simp_all add: Let_def)
    next
      case (Inr d1)
      then obtain d2 where d2: "insn_run h ?opc c2 = Inr d2" using so by (cases "insn_run h ?opc c2") simp_all
      then have "in_sync p P bs d1 d2"
        using Inr by (intro insn_in_sync[OF ok P Suc.prems _ h]) (simp_all add: pcs)
      then show ?thesis using Suc.IH[of d1 d2] True h pcs Inr d2 by (simp add: Let_def)
    qed
  qed
qed simp

lemma in_sync_stop:
  assumes ok: "edges_ok p cfg0 bs" and P: "P AND 0xfff = 0" and s: "in_sync p P bs c1 c2"
    and st: "code_page (pc c1) \<noteq> P \<or> is_everything (ppc_analyze_insn (page_word p (unat (pc c1 AND 0xfff))))"
  shows "cpu_agree LiveSet_all_live c1 c2"
  using s unfolding in_sync_def
proof (elim disjE bexE)
  fix b assume b: "b \<in> set bs" "in_block p P b c1 c2"
  then obtain ofs g k where ofs: "ofs < 4096" "pc c1 = P + of_nat ofs"
    and sc: "scan_loop p ppc_analyze_insn ofs g k = (endOfs b, blk_gen b, blk_kill b)"
    and a: "cpu_agree (LiveSet_or (live_in b) k) c1 c2"
    unfolding in_block_def by (elim exE conjE)
  have "blk_gen b = LiveSet_all_live"
    using st offset_of_pc[OF P ofs] scan_loop_stop(1)[OF sc ofs(1)] by simp
  moreover have "live (blk_gen b) x \<Longrightarrow> live (live_in b) x" for x
    using ok b(1) by (auto simp: edges_ok_def in_set_conv_nth live_equations_def new_live_in_def)
  ultimately show ?thesis by (intro cpu_agree_tracked[OF a]) simp
qed

text \<open>Two states that differ in the dead register \<open>r3\<close> only.\<close>

definition dead_page_cpu :: "uint32 \<Rightarrow> cpu" where
  "dead_page_cpu v = (ppc_cpu_init 0x000c0201)\<lparr>pc := 0x1000, gpr := (\<lambda>_. 0)(3 := v)\<rparr>"

lemma dead_page_agree: "cpu_agree (live_in dead_block) (dead_page_cpu v) (dead_page_cpu w)"
  by (auto simp: cpu_agree_def dead_page_cpu_def dead_block_def untracked_def)

text \<open>C1: The page analysis is sound for the interpreter.  Take a block of a CFG returned for a code page and
  two CPU states at its start that agree on the block's live-in set and on everything outside the tracked
  registers, but may differ in the registers the analysis calls dead.  Run both, instruction by instruction,
  for any number of instructions up to the first one that is not \<open>plain_op\<close> (that is opaque to the analysis, needs more than
  the CPU state, as loads, stores, floating-point and vector instructions do, or is a branch with link or to an absolute
  address): the runs stay in lockstep (same
  program counter, same untracked state, same errors), and once they have left the page or stand at an opaque instruction
  they agree on every register.\<close>

theorem ppc_build_page_cfg_sound:
  assumes "ppc_build_page_cfg physpage start ppc_analyze_insn = Inr (Some cfg)" "start mod 4 = 0"
    and "i < length (blocks cfg)" "P AND 0xfff = 0"
    and "pc c1 = P + of_nat (startOfs (blocks cfg ! i))" "cpu_agree (live_in (blocks cfg ! i)) c1 c2"
  shows "same_outcome LiveSet_none (page_run physpage P n c1) (page_run physpage P n c2) \<and>
    (\<forall>d1 d2. page_run physpage P n c1 = Inr d1 \<longrightarrow> page_run physpage P n c2 = Inr d2 \<longrightarrow>
       code_page (pc d1) \<noteq> P \<or> is_everything (ppc_analyze_insn (page_word physpage (unat (pc d1 AND 0xfff)))) \<longrightarrow>
       cpu_agree LiveSet_all_live d1 d2)"
proof -
  obtain cfg0 where ok: "edges_ok physpage cfg0 (blocks cfg)"
    using page_cfg_edges[OF assms(1,2)] unfolding edges_ok_def by metis
  have "in_block physpage P (blocks cfg ! i) c1 c2"
    using ok assms(3,5,6) unfolding in_block_def edges_ok_def scanned_def
    by (intro exI[of _ "startOfs (blocks cfg ! i)"] exI[of _ LiveSet_none]) (auto elim: cpu_agree_tracked)
  then have s: "in_sync physpage P (blocks cfg) c1 c2" using assms(3) by (auto simp: in_sync_def)
  note r = page_run_sync[OF ok assms(4) s, of n]
  have "same_outcome LiveSet_none (page_run physpage P n c1) (page_run physpage P n c2)"
    using r by (auto simp: same_outcome_def in_sync_def in_block_def elim: cpu_agree_tracked split: sum.splits)
  then show ?thesis using r in_sync_stop[OF ok assms(4)] by (auto split: sum.splits)
qed

theorem ppc_build_page_cfg_sound_witness:
  "same_outcome LiveSet_none (page_run dead_page 0x1000 2 (dead_page_cpu 7)) (page_run dead_page 0x1000 2 (dead_page_cpu 9))"
proof -
  let ?cfg = "\<lparr>blocks = [dead_block], blockAtOfs = (\<lambda>_. -1)(0 := 0)\<rparr>"
  have "pc (dead_page_cpu 7) = 0x1000 + of_nat (startOfs (blocks ?cfg ! 0))"
    by (simp add: dead_page_cpu_def dead_block_def)
  moreover have "cpu_agree (live_in (blocks ?cfg ! 0)) (dead_page_cpu 7) (dead_page_cpu 9)"
    using dead_page_agree by simp
  ultimately show ?thesis
    using ppc_build_page_cfg_sound[OF dead_page_cfg, of 0 "0x1000" "dead_page_cpu 7" "dead_page_cpu 9" 2] by simp
qed

end
