(* ===== verification/Ppc_Interrupts.thy ===== *)
theory Ppc_Interrupts
  imports Ppc_Run
begin

text \<open>
  Exceptions and interrupts: entering an exception and returning from it, the exception flags under
  concurrent device threads, the decrementer.
\<close>

unbundle bit_operations_syntax

subsection \<open>The exception flags\<close>

lemmas exc_unfold = ppc_exception_def exc_prologue_def exc_type_defs save_srr_def ppc_mmu_tlb_invalidate_def

lemma ext_exception_enters:
  "ppc_exception PPC_EXC_EXT_INT 0 0 c =
     Inr ((save_srr (pc c) (msr c AND 0x87c0ffff) c)\<lparr>effective_code_page := 0xffffffff, msr := 0, npc := 0x500\<rparr>)"
  "ppc_exception PPC_EXC_DEC 0 0 c =
     Inr ((save_srr (pc c) (msr c AND 0x87c0ffff) c)\<lparr>effective_code_page := 0xffffffff, msr := 0, npc := 0x900\<rparr>)"
  by (simp_all add: exc_unfold)

text \<open>What holds before the lock is taken: a pending flag has a cause.\<close>

definition has_cause :: "cpu \<times> cpu_phase \<Rightarrow> bool" where
  "has_cause s \<longleftrightarrow>
     (case s of (c, p) \<Rightarrow> (exception_pending c \<and> \<not> stop_exception c \<longrightarrow> ext_exception c \<or> dec_exception c) \<and>
        (p = Checked \<longrightarrow> ext_exception c \<or> dec_exception c))"

lemma has_cause_step:
  assumes "flag_step e s s'" "e \<noteq> Cancel_Ext" "has_cause s"
  shows "has_cause s'"
  using assms
  by (cases rule: flag_step.cases)
    (auto simp: has_cause_def exc_flag_defs service_def check_pending_def ext_exception_enters save_srr_def Let_def
      split: if_splits)

lemma has_cause_run: "flag_run es s s' \<Longrightarrow> Cancel_Ext \<notin> set es \<Longrightarrow> has_cause s \<Longrightarrow> has_cause s'"
  by (induction rule: flag_run.induct) (auto intro: has_cause_step)

text \<open>As long as no device withdraws its interrupt, the CPU never takes the lock for nothing: after any
  interleaving of raised external and decrementer interrupts, stop requests and services, a CPU that has passed the
  unlocked test of \<open>exception_pending\<close> finds an interrupt to service.\<close>

theorem service_finds_interrupt:
  assumes "flag_run es (c, Outside) (c', Checked)" "Cancel_Ext \<notin> set es" "has_cause (c, Outside)"
  shows "\<exists>c''. service c' = Inr c''"
  using has_cause_run[OF assms] by (auto simp: has_cause_def service_def ext_exception_enters Let_def)

lemma run_one: "flag_step e s t \<Longrightarrow> flag_run [e] s t"
  using run_snoc[OF run_nil] by simp

lemma run_two: "flag_step e1 s t \<Longrightarrow> flag_step e2 t u \<Longrightarrow> flag_run [e1, e2] s u"
  using run_snoc[OF run_one] by simp

lemma run_three: "flag_step e1 s t \<Longrightarrow> flag_step e2 t u \<Longrightarrow> flag_step e3 u v \<Longrightarrow> flag_run [e1, e2, e3] s v"
  using run_snoc[OF run_two] by simp

definition ee_cpu :: cpu where
  "ee_cpu = (ppc_cpu_init 0x000c0201)\<lparr>msr := MSR_EE, pc := 0x1000\<rparr>"

lemma ee_cpu_simps [simp]:
  "msr ee_cpu = MSR_EE" "\<not> ext_exception ee_cpu" "\<not> dec_exception ee_cpu" "\<not> stop_exception ee_cpu"
  "\<not> exception_pending ee_cpu" "pc ee_cpu = 0x1000"
  by (simp_all add: ee_cpu_def ppc_cpu_init_def)

theorem service_finds_interrupt_witness:
  "\<exists>c''. service (ppc_cpu_atomic_raise_ext_exception (ppc_cpu_atomic_raise_dec_exception ee_cpu)) = Inr c''"
proof (rule service_finds_interrupt)
  show "flag_run [Raise_Dec, Begin_Check, Raise_Ext] (ee_cpu, Outside)
      (ppc_cpu_atomic_raise_ext_exception (ppc_cpu_atomic_raise_dec_exception ee_cpu), Checked)"
    by (rule run_three[OF flag_step.raise_dec flag_step.begin_check flag_step.raise_ext])
      (simp_all add: MSR_EE_def exc_flag_defs)
qed (simp_all add: has_cause_def)

text \<open>The test of the flags and their service are two critical sections, and a device that withdraws its
  interrupt in between makes the emulator abort: from any state with no flag set and interrupts enabled, raising an external
  interrupt, passing the test and withdrawing the interrupt leads to a service that ends in the fatal error
  \<open>no interrupt, but signaled?!\<close>.\<close>

theorem withdrawn_interrupt_is_fatal:
  assumes "istrue (msr c AND MSR_EE)" "\<not> stop_exception c" "\<not> dec_exception c"
  shows "\<exists>c'. flag_run [Raise_Ext, Begin_Check, Cancel_Ext] (c, Outside) (c', Checked) \<and> service c' = Inl Ppc_Fatal"
proof (intro exI conjI)
  let ?c = "ppc_cpu_atomic_cancel_ext_exception (ppc_cpu_atomic_raise_ext_exception c)"
  show "flag_run [Raise_Ext, Begin_Check, Cancel_Ext] (c, Outside) (?c, Checked)"
    by (rule run_three[OF flag_step.raise_ext flag_step.begin_check flag_step.cancel_ext])
      (use assms in \<open>simp_all add: exc_flag_defs\<close>)
  show "service ?c = Inl Ppc_Fatal" using assms by (simp add: service_def exc_flag_defs Let_def)
qed

theorem withdrawn_interrupt_is_fatal_witness:
  "\<exists>c'. flag_run [Raise_Ext, Begin_Check, Cancel_Ext] (ee_cpu, Outside) (c', Checked) \<and> service c' = Inl Ppc_Fatal"
  by (rule withdrawn_interrupt_is_fatal) (simp_all add: MSR_EE_def)

text \<open>A stop request is lost when a device withdraws an interrupt before the loop has seen it: the withdrawal
  clears \<open>exception_pending\<close>, and the next turn goes on with \<open>stop_exception\<close> still set.\<close>

theorem stop_lost_on_cancel:
  assumes "\<not> dec_exception c"
  shows "\<exists>c'. check_pending (ppc_cpu_atomic_cancel_ext_exception (ppc_cpu_stop c)) = Inr (Next, c') \<and> stop_exception c'"
  using assms by (simp add: check_pending_def exc_flag_defs Let_def)

theorem stop_lost_on_cancel_witness:
  "\<exists>c'. check_pending (ppc_cpu_atomic_cancel_ext_exception (ppc_cpu_stop ee_cpu)) = Inr (Next, c') \<and> stop_exception c'"
  by (rule stop_lost_on_cancel) simp

subsection \<open>Entering an exception and returning from it\<close>

text \<open>The bits \<open>ppc_set_msr\<close> lets through.\<close>

definition msr_ok :: "uint32 \<Rightarrow> bool" where
  "msr_ok w \<longleftrightarrow> w AND (PPC_CPU_UNSUPPORTED_MSR_BITS OR MSR_POW) = 0"

lemma msr_ok_masked:
  assumes "msr_ok w"
  shows "(w AND k) AND PPC_CPU_UNSUPPORTED_MSR_BITS = 0" "(w AND k) AND MSR_POW = 0"
proof -
  have z: "w AND PPC_CPU_UNSUPPORTED_MSR_BITS = 0 \<and> w AND MSR_POW = 0"
    using assms by (simp add: msr_ok_def bit.conj_disj_distrib or_eq_0_iff)
  have "(w AND k) AND m = (w AND m) AND k" for m by (simp add: ac_simps)
  then show "(w AND k) AND PPC_CPU_UNSUPPORTED_MSR_BITS = 0" "(w AND k) AND MSR_POW = 0"
    using z by simp_all
qed

lemma rfi_mask:
  "(m AND 0x87c0ffff) AND MSR_RFI_SAVE_MASK = m AND MSR_RFI_SAVE_MASK"
  "flags AND MSR_RFI_SAVE_MASK = 0 \<Longrightarrow> ((m AND 0x87c0ffff) OR flags) AND MSR_RFI_SAVE_MASK = m AND MSR_RFI_SAVE_MASK"
  by (simp_all add: MSR_RFI_SAVE_MASK_def bit.conj_disj_distrib2 and.assoc)

lemma rfi_resumes:
  assumes "msr c = 0" "srr c 1 AND MSR_RFI_SAVE_MASK = m AND MSR_RFI_SAVE_MASK" "msr_ok m"
  shows "ppc_opc_rfi c = Inr (c\<lparr>effective_code_page := 0xffffffff, msr := m AND MSR_RFI_SAVE_MASK,
    npc := srr c 0 AND 0xfffffffc\<rparr>)"
  using msr_ok_masked[OF assms(3)] assms(1,2)
  by (simp add: ppc_opc_rfi_def privileged_def ppc_set_msr_def ppc_mmu_tlb_invalidate_def Let_def)

text \<open>C19: An exception is undone by \<open>rfi\<close>: entering any exception but a machine check and executing \<open>rfi\<close> in the
  handler brings back the machine state register (its bits \<open>0x87c0ff73\<close>) and continues at the interrupted
  instruction or the next one; the exception has changed nothing but SRR0, SRR1, DAR, DSISR, MSR, \<open>npc\<close> and the
  cached code page.\<close>

theorem exception_rfi_roundtrip:
  assumes "ppc_exception type flags a c = Inr c1" "msr_ok (msr c)" "type \<noteq> PPC_EXC_MACHINE_CHECK"
    and "flags AND MSR_RFI_SAVE_MASK = 0"
  shows "ppc_opc_rfi c1 = Inr (c1\<lparr>msr := msr c AND MSR_RFI_SAVE_MASK, npc := srr c1 0 AND 0xfffffffc\<rparr>) \<and>
    srr c1 0 \<in> {pc c, npc c} \<and>
    c1\<lparr>srr := srr c, dar := dar c, dsisr := dsisr c, msr := msr c, npc := npc c,
       effective_code_page := effective_code_page c\<rparr> = c"
proof -
  have c1: "msr c1 = 0" "effective_code_page c1 = 0xffffffff" "srr c1 0 \<in> {pc c, npc c}"
    "srr c1 1 AND MSR_RFI_SAVE_MASK = msr c AND MSR_RFI_SAVE_MASK"
    "c1\<lparr>srr := srr c, dar := dar c, dsisr := dsisr c, msr := msr c, npc := npc c,
       effective_code_page := effective_code_page c\<rparr> = c"
    using assms(1,3,4)
    by (auto simp: ppc_exception_def exc_prologue_def save_srr_def ppc_mmu_tlb_invalidate_def Let_def rfi_mask
        split: if_splits sum.splits)
  then show ?thesis using rfi_resumes[OF c1(1,4) assms(2)] by simp
qed

theorem exception_rfi_roundtrip_witness:
  "\<exists>c1. ppc_exception PPC_EXC_PROGRAM PPC_EXC_PROGRAM_TRAP 0 ee_cpu = Inr c1 \<and>
     ppc_opc_rfi c1 = Inr (c1\<lparr>msr := msr ee_cpu AND MSR_RFI_SAVE_MASK, npc := srr c1 0 AND 0xfffffffc\<rparr>)"
proof -
  obtain c1 where c1: "ppc_exception PPC_EXC_PROGRAM PPC_EXC_PROGRAM_TRAP 0 ee_cpu = Inr c1"
    by (simp add: exc_unfold)
  have "ppc_opc_rfi c1 = Inr (c1\<lparr>msr := msr ee_cpu AND MSR_RFI_SAVE_MASK, npc := srr c1 0 AND 0xfffffffc\<rparr>)"
    by (rule exception_rfi_roundtrip[OF c1, THEN conjunct1])
      (simp_all add: msr_ok_def msr_defs PPC_CPU_UNSUPPORTED_MSR_BITS_def exc_type_defs PPC_EXC_PROGRAM_TRAP_def MSR_RFI_SAVE_MASK_def)
  then show ?thesis using c1 by blast
qed

text \<open>C20: Servicing an interrupt follows the priority of the code (external before decrementer), goes to the vector
  with translation and interrupts off, keeps the address of the interrupted instruction, clears exactly the flag it serviced, and
  leaves \<open>exception_pending\<close> set when the decrementer is still waiting.  An \<open>rfi\<close> then resumes the interrupted
  program with its machine state.\<close>

theorem service_and_resume:
  assumes "service c = Inr c1" "msr_ok (msr c)"
  shows "pc c1 = (if ext_exception c then PPC_EXC_EXT_INT else PPC_EXC_DEC) \<and> msr c1 = 0 \<and>
    (ext_exception c \<or> dec_exception c) \<and> \<not> ext_exception c1 \<and>
    (dec_exception c1 \<longleftrightarrow> ext_exception c \<and> dec_exception c) \<and>
    (exception_pending c1 \<longleftrightarrow> dec_exception c1 \<and> exception_pending c) \<and> gpr c1 = gpr c \<and>
    (\<exists>c2. ppc_opc_rfi c1 = Inr c2 \<and> npc c2 = pc c AND 0xfffffffc \<and> msr c2 = msr c AND MSR_RFI_SAVE_MASK \<and> gpr c2 = gpr c)"
proof -
  have c1: "msr c1 = 0 \<and> srr c1 1 AND MSR_RFI_SAVE_MASK = msr c AND MSR_RFI_SAVE_MASK \<and> srr c1 0 = pc c \<and> gpr c1 = gpr c"
    "pc c1 = (if ext_exception c then PPC_EXC_EXT_INT else PPC_EXC_DEC) \<and>
    (ext_exception c \<or> dec_exception c) \<and> \<not> ext_exception c1 \<and>
    (dec_exception c1 \<longleftrightarrow> ext_exception c \<and> dec_exception c) \<and>
    (exception_pending c1 \<longleftrightarrow> dec_exception c1 \<and> exception_pending c)"
    using assms(1)
    by (auto simp: service_def ext_exception_enters[unfolded exc_type_defs] save_srr_def Let_def rfi_mask exc_type_defs
        split: if_splits)
  then show ?thesis using rfi_resumes[OF _ _ assms(2), of c1] by simp
qed

theorem service_and_resume_witness:
  "\<exists>c1. service (ee_cpu\<lparr>dec_exception := True, exception_pending := True\<rparr>) = Inr c1 \<and> pc c1 = PPC_EXC_DEC"
proof -
  let ?c = "ee_cpu\<lparr>dec_exception := True, exception_pending := True\<rparr>"
  obtain c1 where c1: "service ?c = Inr c1" by (simp add: service_def ext_exception_enters Let_def)
  have "pc c1 = PPC_EXC_DEC"
    using service_and_resume[OF c1] by (simp add: msr_ok_def msr_defs PPC_CPU_UNSUPPORTED_MSR_BITS_def)
  then show ?thesis using c1 by blast
qed

subsection \<open>The decrementer\<close>

lemma tick_simps:
  "pdec c \<noteq> 0 \<Longrightarrow> tick c = c\<lparr>ptb := ptb c + 1, pdec := pdec c - 1\<rparr>"
  "pdec c = 0 \<Longrightarrow> tick c = c\<lparr>ptb := ptb c + 1, exception_pending := True, dec_exception := True, pdec := pdec_reload\<rparr>"
  by (simp_all add: tick_def Let_def)

lemma tick_keeps_dec: "dec_exception c \<Longrightarrow> dec_exception ((tick ^^ n) c)"
  by (induction n) (auto simp: tick_def Let_def)

lemma ticks_below:
  "n \<le> unat (pdec c) \<Longrightarrow> dec_exception ((tick ^^ n) c) = dec_exception c \<and> unat (pdec ((tick ^^ n) c)) = unat (pdec c) - n"
proof (induction n)
  case (Suc n)
  let ?d = "(tick ^^ n) c"
  have d: "dec_exception ?d = dec_exception c" "unat (pdec ?d) = unat (pdec c) - n" using Suc by simp_all
  then have nz: "pdec ?d \<noteq> 0" using Suc.prems by auto
  then have "unat (pdec ?d - 1) = unat (pdec ?d) - 1" by (simp add: unat_minus_one)
  then show ?case using d nz by (simp add: tick_simps)
qed simp

lemma decrementer_fires:
  assumes "\<not> dec_exception c"
  shows "dec_exception ((tick ^^ n) c) \<longleftrightarrow> unat (pdec c) < n"
proof (cases "n \<le> unat (pdec c)")
  case False
  let ?k = "unat (pdec c)"
  have "pdec ((tick ^^ ?k) c) = 0" using ticks_below[of ?k c] by (simp add: unat_eq_zero)
  then have "dec_exception ((tick ^^ Suc ?k) c)" by (simp add: tick_simps)
  then have "dec_exception ((tick ^^ (n - Suc ?k)) ((tick ^^ Suc ?k) c))" by (rule tick_keeps_dec)
  moreover have "(tick ^^ n) c = (tick ^^ (n - Suc ?k)) ((tick ^^ Suc ?k) c)"
    using False funpow_add[of "n - Suc ?k" "Suc ?k" tick] by (simp del: funpow.simps)
  ultimately show ?thesis using False by simp
qed (use ticks_below assms in simp)

text \<open>Writing a value \<open>v\<close> to the decrementer in supervisor mode (\<open>mtspr DEC\<close>) arms it exactly: with no
  decrementer exception outstanding, one is raised after \<open>n\<close> instructions if and only if \<open>n\<close> is more than \<open>10 * v\<close>,
  \<open>TB_TO_PTB_FACTOR\<close> instructions for each unit.\<close>

theorem mtdec_arms_decrementer:
  assumes "ppc_opc_mtspr c = Inr d" "reg5 11 (current_opc c) = 0" "reg5 16 (current_opc c) = 22"
    and "msr c AND MSR_PR = 0" "\<not> dec_exception c"
  shows "dec_exception ((tick ^^ n) d) \<longleftrightarrow> 10 * unat (gpr c (reg5 21 (current_opc c))) < n"
proof -
  let ?v = "gpr c (reg5 21 (current_opc c))"
  have d: "d = c\<lparr>dec := ?v, pdec := ucast ?v * TB_TO_PTB_FACTOR\<rparr>"
    using assms(1-4) by (simp add: ppc_opc_mtspr_def PPC_OPC_TEMPL_X_def mtspr_user_def privileged_def mtspr_super_def)
  have "unat ?v < 2 ^ 32" using unsigned_less[of ?v] by simp
  then have "unat (ucast ?v * TB_TO_PTB_FACTOR :: uint64) = 10 * unat ?v"
    by (simp add: unat_word_ariths TB_TO_PTB_FACTOR_def unsigned_ucast_eq take_bit_nat_eq_self)
  then show ?thesis using decrementer_fires[of d n] assms(5) d by simp
qed

text \<open>The decrementer that has run out restarts from the wrong value: after the tick that finds it at zero,
  \<open>mfspr DEC\<close> reads \<open>0x19999998\<close>, because the product \<open>0xffffffff * TB_TO_PTB_FACTOR\<close> is taken in 32
  bits, where the architecture goes on to \<open>0xffffffff\<close>.\<close>

theorem decrementer_reload_wraps:
  assumes "pdec c = 0" "msr c AND MSR_PR = 0" "reg5 11 (current_opc c) = 0" "reg5 16 (current_opc c) = 22"
  shows "\<exists>d. ppc_opc_mfspr (tick c) = Inr d \<and> gpr d (reg5 21 (current_opc c)) = 0x19999998"
proof -
  have "tick c = c\<lparr>ptb := ptb c + 1, exception_pending := True, dec_exception := True, pdec := 0xFFFFFFF6\<rparr>"
    using assms(1) by (simp add: tick_simps pdec_reload_def)
  then show ?thesis
    using assms(2-4) by (simp add: ppc_opc_mfspr_def PPC_OPC_TEMPL_XO_def mfspr_user_def privileged_def mfspr_super_def
      write_gpr_def Let_def TB_TO_PTB_FACTOR_def)
qed

text \<open>\<open>mtspr DEC,r3\<close> and \<open>mfspr r3,DEC\<close>.\<close>

definition dec_cpu :: "uint32 \<Rightarrow> cpu" where
  "dec_cpu opc = ee_cpu\<lparr>current_opc := opc, gpr := (\<lambda>_. 0)(3 := 5)\<rparr>"

lemma dec_cpu_simps [simp]:
  "msr (dec_cpu opc) = MSR_EE" "current_opc (dec_cpu opc) = opc" "\<not> dec_exception (dec_cpu opc)" "pdec (dec_cpu opc) = 0"
  by (simp_all add: dec_cpu_def ee_cpu_def ppc_cpu_init_def)

lemma dec_opcodes:
  "reg5 11 0x7C7603A6 = 0" "reg5 16 0x7C7603A6 = 22" "reg5 21 0x7C7603A6 = 3"
  "reg5 11 0x7C7602A6 = 0" "reg5 16 0x7C7602A6 = 22" "reg5 21 0x7C7602A6 = 3"
  by (simp_all add: reg5_def field5_def)

theorem mtdec_arms_decrementer_witness:
  "\<exists>d. ppc_opc_mtspr (dec_cpu 0x7C7603A6) = Inr d \<and> \<not> dec_exception ((tick ^^ 50) d) \<and> dec_exception ((tick ^^ 51) d)"
proof -
  obtain d where d: "ppc_opc_mtspr (dec_cpu 0x7C7603A6) = Inr d"
    by (simp add: ppc_opc_mtspr_def PPC_OPC_TEMPL_X_def dec_opcodes mtspr_user_def privileged_def mtspr_super_def msr_defs)
  have "dec_exception ((tick ^^ n) d) \<longleftrightarrow> 50 < n" for n
    using mtdec_arms_decrementer[OF d, of n] by (simp add: dec_opcodes msr_defs) (simp add: dec_cpu_def)
  then show ?thesis using d by auto
qed

theorem decrementer_reload_wraps_witness:
  "\<exists>d. ppc_opc_mfspr (tick (dec_cpu 0x7C7602A6)) = Inr d \<and> gpr d 3 = 0x19999998"
  using decrementer_reload_wraps[of "dec_cpu 0x7C7602A6"] by (simp add: dec_opcodes msr_defs)

end
