(* ===== verification/Ppc_User_Mode.thy ===== *)
theory Ppc_User_Mode
  imports Ppc_Exec_Sound
begin

text \<open>
  Privilege: what a user-mode instruction that runs on the CPU state alone can do to the supervisor
  state, and the values of the machine state register that can arise.
\<close>

unbundle bit_operations_syntax

subsection \<open>Supervisor state\<close>

text \<open>
  The state a user program owns is its general, floating-point and vector registers, CR, XER, LR,
  CTR and the next instruction; \<open>tb\<close> is a copy of the time base that reading it refreshes.  The rest is the
  supervisor's.
\<close>

definition supervisor :: "cpu \<Rightarrow> cpu" where
  "supervisor c = c\<lparr>gpr := \<lambda>_. 0, fpr := \<lambda>_. 0, cr := 0, fpscr := 0, xer := 0, lr := 0, ctr := 0,
     tb := 0, npc := 0, vrsave := 0, vscr := 0, vr := \<lambda>_. 0, vtemp := 0\<rparr>"

definition user_safe :: "opc_function \<Rightarrow> bool" where
  "user_safe h \<longleftrightarrow>
     (\<forall>c c'. istrue (msr c AND MSR_PR) \<longrightarrow> h c = Inr c' \<longrightarrow>
        supervisor c' = supervisor c \<or> (\<exists>type flags. ppc_exception type flags 0 c = Inr c'))"

lemma supervisor_simps [simp]:
  "supervisor (c\<lparr>gpr := g\<rparr>) = supervisor c" "supervisor (c\<lparr>xer := w\<rparr>) = supervisor c"
  "supervisor (c\<lparr>lr := w\<rparr>) = supervisor c" "supervisor (c\<lparr>ctr := w\<rparr>) = supervisor c"
  "supervisor (c\<lparr>npc := w\<rparr>) = supervisor c" "supervisor (c\<lparr>tb := d\<rparr>) = supervisor c"
  "supervisor (c\<lparr>vrsave := w\<rparr>) = supervisor c" "supervisor (write_gpr r w c) = supervisor c"
  "supervisor (untracked c) = supervisor c"
  by (simp_all add: supervisor_def write_gpr_def untracked_def)

lemma supervisor_untracked: "untracked c' = untracked c \<Longrightarrow> supervisor c' = supervisor c"
  by (metis supervisor_simps(9))

lemmas template_keeps =
  conc.effect_ok_add[THEN effect_ok_conc(2)] conc.effect_ok_logic[THEN effect_ok_conc(2)]
  conc.effect_ok_compare[THEN effect_ok_conc(2)] conc.effect_ok_subtract[THEN effect_ok_conc(2)]
  conc.effect_ok_multiply[THEN effect_ok_conc(2)] conc.effect_ok_shift[THEN effect_ok_conc(2)]
  conc.effect_ok_rotate[THEN effect_ok_conc(2)] conc.effect_ok_extend[THEN effect_ok_conc(2)]
  conc.effect_ok_cr_logic[THEN effect_ok_conc(2)] conc.effect_ok_move_cr[THEN effect_ok_conc(2)]

lemma user_safe_run_sem:
  assumes "\<And>opc c. untracked (tc concrete_sem opc c) = untracked c"
  shows "user_safe (run_sem tc)"
  using assms by (auto simp: user_safe_def run_sem_def intro: supervisor_untracked)

lemma effect_ok_div_conc:
  assumes "\<And>u. conc.effect_ok_div u fx f" "f c = Inr t"
  shows "untracked t = untracked c"
proof -
  from assms(1)[of "untracked c", unfolded conc.effect_ok_div_def cpu_agree_in_def, rule_format,
      of "fx_reads fx" c c] show ?thesis using assms(2) by simp
qed

lemma user_safe_divide: "user_safe (run_div ppc_sem_divwx)" "user_safe (run_div ppc_sem_divwux)"
  using effect_ok_div_conc[OF conc.effect_ok_divide(1)] effect_ok_div_conc[OF conc.effect_ok_divide(2)]
  by (auto simp: user_safe_def run_div_def split: sum.splits intro: supervisor_untracked)

lemma user_safe_privileged: "user_safe (privileged f)"
  by (auto simp: user_safe_def privileged_def)

lemma supervisor_vrsave_get [simp]: "supervisor (if p then c\<lparr>ctr := x\<rparr> else c) = supervisor c"
  by simp

lemma user_safe_branches:
  "user_safe ppc_opc_bx" "user_safe ppc_opc_bcx" "user_safe ppc_opc_bcctrx" "user_safe ppc_opc_bclrx"
  by (auto simp: user_safe_def ppc_opc_bx_def ppc_opc_bcx_def ppc_opc_bcctrx_def ppc_opc_bclrx_def
      set_lr_if_lk_def Let_def split_beta split: if_splits)

lemma user_safe_nops:
  "user_safe ppc_opc_dcbf" "user_safe ppc_opc_dcbst" "user_safe ppc_opc_dcbt" "user_safe ppc_opc_dcbtst"
  "user_safe ppc_opc_eciwx" "user_safe ppc_opc_ecowx" "user_safe ppc_opc_eieio" "user_safe ppc_opc_icbi"
  "user_safe ppc_opc_isync" "user_safe ppc_opc_sync" "user_safe ppc_opc_dcba" "user_safe ppc_opc_mcrxr"
  by (simp_all add: user_safe_def ppc_opc_dcbf_def ppc_opc_dcbst_def ppc_opc_dcbt_def ppc_opc_dcbtst_def
      ppc_opc_eciwx_def ppc_opc_ecowx_def ppc_opc_eieio_def ppc_opc_icbi_def ppc_opc_isync_def
      ppc_opc_sync_def ppc_opc_dcba_def ppc_opc_mcrxr_def)

lemma user_safe_privileged_ops:
  "user_safe ppc_opc_dcbi" "user_safe ppc_opc_mfmsr" "user_safe ppc_opc_mfsr" "user_safe ppc_opc_mfsrin"
  "user_safe ppc_opc_mtmsr" "user_safe ppc_opc_mtsr" "user_safe ppc_opc_mtsrin" "user_safe ppc_opc_rfi"
  "user_safe ppc_opc_tlbia" "user_safe ppc_opc_tlbie" "user_safe ppc_opc_tlbsync"
  unfolding ppc_opc_dcbi_def ppc_opc_mfmsr_def ppc_opc_mfsr_def ppc_opc_mfsrin_def ppc_opc_mtmsr_def
    ppc_opc_mtsr_def ppc_opc_mtsrin_def ppc_opc_rfi_def ppc_opc_tlbia_def ppc_opc_tlbie_def ppc_opc_tlbsync_def
  by (rule user_safe_privileged)+

lemma user_safe_traps: "user_safe ppc_opc_tw" "user_safe ppc_opc_twi"
  by (auto simp: user_safe_def ppc_opc_tw_def ppc_opc_twi_def Let_def split_beta split: if_splits)

lemma user_safe_moves: "user_safe ppc_opc_mfspr" "user_safe ppc_opc_mtspr" "user_safe ppc_opc_mftb"
  by (auto simp: user_safe_def ppc_opc_mfspr_def ppc_opc_mtspr_def ppc_opc_mftb_def mfspr_user_def mtspr_user_def
      privileged_def update_tb_def Let_def split_beta split: if_splits option.splits)

lemmas user_safe_simps = user_safe_run_sem template_keeps user_safe_divide user_safe_branches user_safe_nops user_safe_privileged_ops
  user_safe_traps user_safe_moves alu_handler_defs ppc_opc_mfcr_def ppc_opc_mtcrf_def ppc_opc_mcrf_def

lemma group1_user_safe: "(ppc_opc_group_1 opc :: 'io handler) = Cpu_op h \<Longrightarrow> user_safe h"
  by (auto simp: ppc_opc_group_1_def Let_def user_safe_simps split: if_splits)

lemma group2_user_safe:
  assumes "(ppc_opc_group_2 v opc :: 'io handler) = Cpu_op h"
  shows "user_safe h"
  using group2_lookup[OF assms, unfolded group2_entries_def group2_altivec_def, simplified]
  by (elim disjE conjE; simp add: user_safe_simps)

lemma user_safe_dispatch:
  assumes "(ppc_exec_opc v opc :: 'io handler) = Cpu_op h"
  shows "user_safe h"
  by (insert main_slot[OF assms[unfolded ppc_exec_opc_def ppc_opc_table_main_def Let_def], simplified],
      elim disjE conjE;
      (erule group1_user_safe[OF sym] | erule group2_user_safe[OF sym] | simp add: user_safe_simps))

text \<open>C18: A user-mode instruction that runs on the CPU state alone cannot touch supervisor state: with
  \<open>MSR[PR]\<close> set, every such handler of the interpreter's tables either leaves the machine state register, the
  address translation, the timers, the save registers and all other supervisor state as they are, or does
  nothing but take an exception.\<close>

theorem user_mode_confined:
  assumes "(ppc_exec_opc v opc :: 'io handler) = Cpu_op h" "istrue (msr c AND MSR_PR)" "h c = Inr c'"
  shows "supervisor c' = supervisor c \<or> (\<exists>type flags. ppc_exception type flags 0 c = Inr c')"
  using user_safe_dispatch[OF assms(1)] assms(2,3) by (simp add: user_safe_def)

theorem user_mode_confined_witness:
  "\<exists>c'. ppc_opc_twi ((ppc_cpu_init 0)\<lparr>msr := MSR_PR, current_opc := 0x0FE00000\<rparr>) = Inr c' \<and>
     (supervisor c' = supervisor ((ppc_cpu_init 0)\<lparr>msr := MSR_PR, current_opc := 0x0FE00000\<rparr>) \<or>
      (\<exists>type flags. ppc_exception type flags 0 ((ppc_cpu_init 0)\<lparr>msr := MSR_PR, current_opc := 0x0FE00000\<rparr>) = Inr c'))"
proof -
  let ?c = "(ppc_cpu_init 0)\<lparr>msr := MSR_PR, current_opc := 0x0FE00000\<rparr>"
  have "ppc_exception PPC_EXC_PROGRAM PPC_EXC_PROGRAM_TRAP 0 ?c \<noteq> Inl e" for e
    by (simp add: ppc_exception_def exc_prologue_def exc_type_defs)
  then obtain c' where c': "ppc_opc_twi ?c = Inr c'"
    by (cases "ppc_opc_twi ?c") (auto simp: ppc_opc_twi_def Let_def split_beta split: if_splits)
  have "(ppc_exec_opc 0 0x0FE00000 :: unit handler) = Cpu_op ppc_opc_twi"
    by (simp add: ppc_exec_opc_def ppc_opc_table_main_def PPC_OPC_MAIN_def Let_def)
  from user_mode_confined[OF this _ c'] show ?thesis using c' by (simp add: msr_defs)
qed

end
