(* ===== verification/Ppc_Store.thy ===== *)
theory Ppc_Store
  imports Ppc_Mem_Opc
begin

text \<open>
  Guest memory as a store: what reading after writing returns, stated once as the locale \<open>store\<close>, its
  interpretation on the big-endian accesses of the memory model, and the physical accesses that hit guest
  memory written with it.
\<close>

unbundle bit_operations_syntax

subsection \<open>The laws of a store\<close>

definition apart :: "nat \<Rightarrow> nat \<Rightarrow> nat \<Rightarrow> nat \<Rightarrow> bool" where
  "apart a n b k \<longleftrightarrow> a + n \<le> b \<or> b + k \<le> a"

lemma apart_sym: "apart a n b k \<Longrightarrow> apart b k a n"
  by (auto simp: apart_def)

locale store =
  fixes get :: "'m \<Rightarrow> nat \<Rightarrow> nat \<Rightarrow> nat"
    and put :: "'m \<Rightarrow> nat \<Rightarrow> nat \<Rightarrow> nat \<Rightarrow> 'm"
  assumes get_put: "get (put M a n v) a n = v mod 256 ^ n"
    and get_put_apart: "apart a n b k \<Longrightarrow> get (put M a n v) b k = get M b k"
    and put_put: "put (put M a n v) a n w = put M a n w"
    and put_get: "put M a n (get M a n) = M"
begin

lemma get_less: "get M a n < 256 ^ n"
  using get_put[of M a n "get M a n"] by (metis put_get mod_less_divisor zero_less_power zero_less_numeral)

lemma get_put_exact: "v < 256 ^ n \<Longrightarrow> get (put M a n v) a n = v"
  by (simp add: get_put)

lemma get_put_below:
  assumes "apart a n b k" "v < 256 ^ n"
  shows "get (put (put M a n v) b k w) a n = v"
  using assms by (simp add: get_put_apart[OF apart_sym] get_put)

lemma put_restore: "put (put M a n v) a n (get M a n) = M"
  by (simp add: put_put put_get)

lemma get_put_congruent: "v mod 256 ^ n = w mod 256 ^ n \<Longrightarrow> get (put M a n v) a n = get (put M a n w) a n"
  by (simp add: get_put)

end

subsection \<open>Big-endian memory is a store\<close>

lemma mem_get_cong: "(\<And>i. i < n \<Longrightarrow> M (a + i) = N (b + i)) \<Longrightarrow> mem_get M a n = mem_get N b n"
  by (induction n) auto

lemma mem_put_out [simp]: "x < a \<or> a + n \<le> x \<Longrightarrow> mem_put M a n v x = M x"
  by (induction n arbitrary: v) auto

lemma mem_put_byte: "i < n \<Longrightarrow> mem_put M a n v (a + i) = of_nat (v div 256 ^ (n - Suc i))"
proof (induction n arbitrary: v)
  case (Suc n)
  show ?case
  proof (cases "i = n")
    case False
    then have "256 ^ (n - i) = 256 * (256::nat) ^ (n - Suc i)" using Suc.prems by (simp flip: power_Suc add: Suc_diff_Suc)
    then show ?thesis using Suc False by (simp add: div_mult2_eq)
  qed simp
qed simp

lemma mem_get_put: "mem_get (mem_put M a n v) a n = v mod 256 ^ n"
proof (induction n arbitrary: v)
  case (Suc n)
  have "mem_get (mem_put M a (Suc n) v) a n = mem_get (mem_put M a n (v div 256)) a n"
    by (rule mem_get_cong) simp
  moreover have "unat (mem_put M a (Suc n) v (a + n)) = v mod 256" by (simp add: unat_of_nat)
  ultimately show ?case using Suc by (simp add: mod_mult2_eq mult.commute del: mem_put.simps)
qed simp

lemma mem_get_byte: "i < n \<Longrightarrow> mem_get M a n div 256 ^ (n - Suc i) mod 256 = unat (M (a + i))"
proof (induction n)
  case (Suc n)
  show ?case
  proof (cases "i = n")
    case True
    then show ?thesis using unsigned_less[of "M (a + n)", where ?'a = nat] by (simp add: mod_mult_self3)
  next
    case False
    then have "256 ^ (n - i) = 256 * (256::nat) ^ (n - Suc i)" using Suc.prems by (simp flip: power_Suc add: Suc_diff_Suc)
    moreover have "(mem_get M a n * 256 + unat (M (a + n))) div 256 = mem_get M a n"
      using unsigned_less[of "M (a + n)", where ?'a = nat] by simp
    ultimately show ?thesis using Suc False by (simp add: div_mult2_eq)
  qed
qed simp

lemma mem_put_cong_out:
  assumes "\<And>x::nat. x < a \<or> a + n \<le> x \<Longrightarrow> M x = N x" "\<And>i. i < n \<Longrightarrow> M (a + i) = N (a + i)"
  shows "M = N"
proof
  fix x
  show "M x = N x"
    using assms(1)[of x] assms(2)[of "x - a"] by (cases "x < a \<or> a + n \<le> x") auto
qed

interpretation mem: store mem_get mem_put
proof
  fix M :: "nat \<Rightarrow> uint8" and a n b k v w
  show "mem_get (mem_put M a n v) a n = v mod 256 ^ n" by (rule mem_get_put)
  show "apart a n b k \<Longrightarrow> mem_get (mem_put M a n v) b k = mem_get M b k"
    by (rule mem_get_cong) (auto simp: apart_def)
  show "mem_put (mem_put M a n v) a n w = mem_put M a n w"
    by (rule mem_put_cong_out[of a n]) (auto simp: mem_put_byte)
  show "mem_put M a n (mem_get M a n) = M"
  proof (rule mem_put_cong_out[of a n])
    fix i assume i: "i < n"
    have "(of_nat (mem_get M a n div 256 ^ (n - Suc i)) :: uint8) = of_nat (mem_get M a n div 256 ^ (n - Suc i) mod 256)"
      by (simp add: word_unat_eq_iff unat_of_nat)
    then show "mem_put M a n (mem_get M a n) (a + i) = M (a + i)"
      using i by (simp add: mem_put_byte mem_get_byte)
  qed simp
qed

subsection \<open>Words of guest memory\<close>

definition word_at :: "'io mach \<Rightarrow> uint32 \<Rightarrow> uint32" where
  "word_at m a = of_nat (mem_get (gMemory m) (unat a) 4)"

definition put_word :: "uint32 \<Rightarrow> uint32 \<Rightarrow> 'io mach \<Rightarrow> 'io mach" where
  "put_word a v m = m\<lparr>gMemory := mem_put (gMemory m) (unat a) 4 (unat v)\<rparr>"

abbreviation in_ram :: "nat \<Rightarrow> uint32 \<Rightarrow> 'io mach \<Rightarrow> bool" where
  "in_ram n a m \<equiv> unat a + n \<le> unat (gMemorySize m)"

lemma put_word_simps [simp]:
  "mcpu (put_word a v m) = mcpu m" "gMemorySize (put_word a v m) = gMemorySize m" "io (put_word a v m) = io m"
  by (simp_all add: put_word_def)

lemma word_at_put_word [simp]: "word_at (put_word a v m) a = v"
  using unsigned_less[of v, where ?'a = nat] by (simp add: word_at_def put_word_def mem.get_put_exact)

lemma word_at_put_apart [simp]: "apart (unat a) 4 (unat b) 4 \<Longrightarrow> word_at (put_word a v m) b = word_at m b"
  by (simp add: word_at_def put_word_def mem.get_put_apart)

lemma in_ram_less: "in_ram n a m \<Longrightarrow> 0 < n \<Longrightarrow> a < gMemorySize m"
  by (simp add: word_less_nat_alt)

lemma read_word_ram: "in_ram 4 a m \<Longrightarrow> ppc_read_physical_word B a m = Inr ((PPC_MMU_OK, word_at m a), m)"
  using in_ram_less[of a 4 m] by (simp add: ppc_read_physical_word_def ram_read_def word_at_def)

lemma write_word_ram: "in_ram 4 a m \<Longrightarrow> ppc_write_physical_word B a v m = Inr (PPC_MMU_OK, put_word a v m)"
  using in_ram_less[of a 4 m] by (simp add: ppc_write_physical_word_def ram_write_def put_word_def)

end
