(* ===== verification/Ppc_Page_Table.thy ===== *)
theory Ppc_Page_Table
  imports Ppc_Store
begin

text \<open>
  The hashed page table: which values of SDR1 are accepted, where the groups of entries lie, and the round trip from
  \<open>ppc_mmu_page_create\<close> to the address translation.
\<close>

unbundle bit_operations_syntax

lemma sdr1_loop_run:
  "\<exists>j. i \<le> j \<and> j \<le> i + k \<and> sdr1_loop k m (2 ^ i) (mask i) = mask j \<and>
     (\<forall>t. i \<le> t \<longrightarrow> t < j \<longrightarrow> bit m t) \<and> (j < i + k \<longrightarrow> \<not> bit m j)" if "i + k \<le> 32"
  using that
proof (induction k arbitrary: i)
  case (Suc k)
  show ?case
  proof (cases "bit m i")
    case True
    then have step: "sdr1_loop (Suc k) m (2 ^ i) (mask i) = sdr1_loop k m (2 ^ Suc i) (mask (Suc i))"
      using Suc.prems by (simp add: and_exp_eq_0_iff mask_Suc_exp or.commute push_bit_eq_mult mult.commute)
    from Suc.IH[of "Suc i"] Suc.prems obtain j where
      "Suc i \<le> j" "j \<le> Suc i + k" "sdr1_loop k m (2 ^ Suc i) (mask (Suc i)) = mask j"
      and run: "\<forall>t. Suc i \<le> t \<longrightarrow> t < j \<longrightarrow> bit m t" and "j < Suc i + k \<longrightarrow> \<not> bit m j" by auto
    moreover have "bit m t" if "i \<le> t" "t < j" for t using that run True by (cases "t = i") auto
    ultimately show ?thesis using step by (intro exI[of _ j]) auto
  next
    case False
    then show ?thesis using Suc.prems by (intro exI[of _ i]) (auto simp: and_exp_eq_0_iff)
  qed
qed auto

lemma mask_inj: "m = n" if "(mask m :: uint32) = mask n" "m \<le> 32" "n \<le> 32"
  using arg_cong[OF that(1), of "\<lambda>w. bit w m"] arg_cong[OF that(1), of "\<lambda>w. bit w n"] that(2,3)
  by (cases m n rule: linorder_cases) (auto simp: bit_simps)

lemma sdr1_mask_ok:
  assumes "m < 512"
  shows "m AND NOT (sdr1_loop 9 m 1 0) = 0 \<longleftrightarrow> (\<exists>n\<le>9. m = mask n)"
    and "m = mask n \<Longrightarrow> n \<le> 9 \<Longrightarrow> sdr1_loop 9 m 1 0 = mask n"
proof -
  obtain j where j: "j \<le> 9" "sdr1_loop 9 m 1 0 = mask j" "\<forall>t<j. bit m t" "j < 9 \<longrightarrow> \<not> bit m j"
    using sdr1_loop_run[of 0 9 m] by auto
  have eq: "m AND NOT (mask j) = 0 \<longleftrightarrow> m = mask j"
    using j(3) by (auto simp: bit_eq_iff bit_simps not_less)
  have uniq: "n = j" if "m = mask n" "n \<le> 9" for n
    using that j by (cases n j rule: linorder_cases) (auto simp: bit_simps)
  show "m AND NOT (sdr1_loop 9 m 1 0) = 0 \<longleftrightarrow> (\<exists>n\<le>9. m = mask n)"
    using eq j(1,2) uniq by auto
  show "m = mask n \<Longrightarrow> n \<le> 9 \<Longrightarrow> sdr1_loop 9 m 1 0 = mask n"
    using j(2) uniq by auto
qed

lemma SDR1_HTABMASK_less: "SDR1_HTABMASK v < 512"
proof -
  have "SDR1_HTABMASK v \<le> 0x1ff" unfolding SDR1_HTABMASK_def by (rule word_and_le1)
  then show ?thesis by (simp add: word_less_nat_alt word_le_nat_alt)
qed

lemma ppc_mmu_set_sdr1_eq:
  "ppc_mmu_set_sdr1 v c =
     (if \<exists>n\<le>9. SDR1_HTABMASK v = mask n \<and> 2 ^ n dvd unat (SDR1_HTABORG v)
      then (True, c\<lparr>pagetable_base := push_bit 16 (SDR1_HTABORG v), sdr1 := v,
                    pagetable_hashmask := push_bit 10 (SDR1_HTABMASK v) OR 0x3ff\<rparr>)
      else (False, c))"
proof (cases "\<exists>n\<le>9. SDR1_HTABMASK v = mask n")
  case True
  then obtain n where n: "n \<le> 9" "SDR1_HTABMASK v = mask n" by auto
  have uniq: "k = n" if "k \<le> 9" "(mask n :: uint32) = mask k" for k
    using mask_inj[of k n] that n(1) by simp
  note ok = sdr1_mask_ok(2)[OF SDR1_HTABMASK_less n(2,1)]
  have "(\<exists>k\<le>9. SDR1_HTABMASK v = mask k \<and> 2 ^ k dvd unat (SDR1_HTABORG v)) = (2 ^ n dvd unat (SDR1_HTABORG v))"
    using n uniq by auto
  then show ?thesis
    using ok n(2) by (auto simp: ppc_mmu_set_sdr1_def Let_def and_mask_eq_0_iff)
next
  case False
  then show ?thesis
    using sdr1_mask_ok(1)[OF SDR1_HTABMASK_less[of v]] by (auto simp: ppc_mmu_set_sdr1_def Let_def)
qed

text \<open>A value of SDR1 is accepted exactly when its mask is a run of low ones (the loop of the source finds it)
  and the table's origin is aligned to the size the mask means; then the base and the hash mask are derived from
  it, otherwise nothing changes.\<close>

theorem sdr1_accepted:
  "ppc_mmu_set_sdr1 v c =
     (if \<exists>n\<le>9. SDR1_HTABMASK v = mask n \<and> 2 ^ n dvd unat (SDR1_HTABORG v)
      then (True, c\<lparr>pagetable_base := push_bit 16 (SDR1_HTABORG v), sdr1 := v,
                    pagetable_hashmask := push_bit 10 (SDR1_HTABMASK v) OR 0x3ff\<rparr>)
      else (False, c))"
  by (rule ppc_mmu_set_sdr1_eq)

subsection \<open>Groups of page table entries\<close>

lemma or_aligned: "a OR b = a + b" if "unat a < 2 ^ k" "2 ^ k dvd unat b" for a b :: "'a::len word"
proof -
  have b: "take_bit k b = 0" using that(2) and_mask_eq_0_iff[of b k] by (simp only: take_bit_eq_mask)
  have "unat (take_bit k a) = unat a"
    using that(1) by (simp only: unsigned_take_bit_eq take_bit_nat_eq_self)
  then have a: "take_bit k a = a" by (rule word_unat_eq_iff[THEN iffD2])
  have "a AND b = take_bit k a AND b" by (simp only: a)
  also have "\<dots> = a AND take_bit k b" by (intro bit_eqI) (auto simp: bit_simps)
  finally show ?thesis by (simp add: b disjunctive_add_eq_or)
qed

lemma hashmask_eq: "push_bit 10 (mask n) OR 0x3ff = (mask (10 + n) :: uint32)"
proof -
  have "(0x3ff :: uint32) = mask 10" by (simp add: mask_eq_exp_minus_1)
  then show ?thesis by (auto simp: bit_eq_iff bit_simps)
qed

text \<open>The page table an accepted SDR1 describes: \<open>2 ^ (16 + n)\<close> bytes at a base aligned to that size.\<close>

lemma sdr1_table:
  assumes "ppc_mmu_set_sdr1 v c = (True, c')"
  obtains n where "n \<le> 9" "pagetable_hashmask c' = mask (10 + n)" "2 ^ (16 + n) dvd unat (pagetable_base c')"
    "unat (pagetable_base c') + 2 ^ (16 + n) \<le> 2 ^ 32"
proof -
  obtain n where n: "n \<le> 9" "SDR1_HTABMASK v = mask n" "2 ^ n dvd unat (SDR1_HTABORG v)"
    and c': "c' = c\<lparr>pagetable_base := push_bit 16 (SDR1_HTABORG v), sdr1 := v,
                    pagetable_hashmask := push_bit 10 (SDR1_HTABMASK v) OR 0x3ff\<rparr>"
    using assms by (auto simp: ppc_mmu_set_sdr1_eq split: if_splits)
  have lt: "unat (SDR1_HTABORG v) < 2 ^ 16"
    using unat_and_mask_less[of "drop_bit 16 v" 16] by (simp add: SDR1_HTABORG_def mask_eq_exp_minus_1)
  have base: "unat (pagetable_base c') = unat (SDR1_HTABORG v) * 2 ^ 16"
    using lt unat_push_bit[of "SDR1_HTABORG v" 16] by (simp add: c')
  have d: "2 ^ (16 + n) dvd unat (pagetable_base c')"
    using n(3) by (simp add: base power_add mult.commute)
  have "unat (pagetable_base c') + 2 ^ (16 + n) \<le> 2 ^ 32"
  proof -
    have "(2::nat) ^ 32 = 2 ^ (16 + n) * 2 ^ (16 - n)" using n(1) by (simp flip: power_add)
    moreover obtain q where q: "unat (pagetable_base c') = 2 ^ (16 + n) * q" using d by (elim dvdE)
    moreover have "unat (pagetable_base c') < 2 ^ 32" using unsigned_less[of "pagetable_base c'"] by simp
    ultimately have "q < 2 ^ (16 - n)" by (metis mult_less_cancel1)
    then have "2 ^ (16 + n) * (q + 1) \<le> 2 ^ (16 + n) * 2 ^ (16 - n)" by (intro mult_left_mono) auto
    then show ?thesis using q \<open>2 ^ 32 = _\<close> by (simp add: algebra_simps)
  qed
  then show ?thesis using that[of n] n d by (simp add: c' hashmask_eq)
qed

text \<open>C22: Once a value of SDR1 is accepted, the page table is aligned to its size and does not wrap around, and every
  group of entries the hash of an address selects is 64-byte aligned and inside the table.\<close>

theorem pteg_in_table:
  assumes "ppc_mmu_set_sdr1 v c = (True, c')"
  shows "\<exists>n\<le>9. 2 ^ (16 + n) dvd unat (pagetable_base c') \<and> unat (pagetable_base c') + 2 ^ (16 + n) \<le> 2 ^ 32 \<and>
    64 dvd unat (pteg_address hash c') \<and> unat (pagetable_base c') \<le> unat (pteg_address hash c') \<and>
    unat (pteg_address hash c') + 64 \<le> unat (pagetable_base c') + 2 ^ (16 + n)"
proof -
  obtain n where n: "n \<le> 9" "pagetable_hashmask c' = mask (10 + n)" "2 ^ (16 + n) dvd unat (pagetable_base c')"
    "unat (pagetable_base c') + 2 ^ (16 + n) \<le> 2 ^ 32" using sdr1_table[OF assms] .
  let ?i = "hash AND pagetable_hashmask c'"
  have i: "unat ?i < 2 ^ (10 + n)" unfolding n(2) by (rule unat_and_mask_less)
  moreover have "(2::nat) ^ (10 + n) \<le> 2 ^ 19" using n(1) by (intro power_increasing) auto
  ultimately have g: "unat (push_bit 6 ?i) = unat ?i * 64" using unat_push_bit[of ?i 6] by simp
  have le: "unat ?i * 64 + 64 \<le> 2 ^ (16 + n)" using i by (simp add: power_add)
  then have "pteg_address hash c' = push_bit 6 ?i + pagetable_base c'"
    unfolding pteg_address_def using g n(3) by (intro or_aligned) auto
  moreover have "64 dvd unat (pagetable_base c')"
    using dvd_trans[OF _ n(3), of 64] by (simp add: power_add)
  ultimately show ?thesis using n g le by (intro exI[of _ n]) (simp add: unat_word_ariths)
qed

theorem pteg_in_table_witness:
  "\<exists>c'. ppc_mmu_set_sdr1 0x00300003 (ppc_cpu_init 0) = (True, c') \<and> 64 dvd unat (pteg_address 0xdeadbeef c')"
proof -
  have "SDR1_HTABMASK 0x00300003 = mask 2 \<and> 2 ^ 2 dvd unat (SDR1_HTABORG 0x00300003)"
    by (simp add: SDR1_HTABMASK_def SDR1_HTABORG_def mask_eq_exp_minus_1)
  then have "\<exists>n\<le>9. SDR1_HTABMASK 0x00300003 = mask n \<and> 2 ^ n dvd unat (SDR1_HTABORG 0x00300003)"
    by (intro exI[of _ 2]) simp
  then have "fst (ppc_mmu_set_sdr1 0x00300003 (ppc_cpu_init 0))" by (simp add: ppc_mmu_set_sdr1_eq)
  then obtain c' where "ppc_mmu_set_sdr1 0x00300003 (ppc_cpu_init 0) = (True, c')" by (metis surjective_pairing)
  with pteg_in_table[OF this, of "0xdeadbeef"] show ?thesis by auto
qed

text \<open>The primary and the secondary group of a hash never overlap.\<close>

lemma pteg_apart:
  assumes "pagetable_hashmask c = mask (10 + n)" "n \<le> 9" "2 ^ (16 + n) dvd unat (pagetable_base c)"
    "unat (pagetable_base c) + 2 ^ (16 + n) \<le> s"  "s < 2 ^ 32"
  shows "unat (pteg_address hash c) + 64 \<le> s" 
    "apart (unat (pteg_address hash c)) 64 (unat (pteg_address (NOT hash) c)) 64"
proof -
  have g: "unat (pteg_address h c) = unat (h AND pagetable_hashmask c) * 64 + unat (pagetable_base c) \<and>
     unat (h AND pagetable_hashmask c) * 64 + 64 \<le> 2 ^ (16 + n)" for h
  proof -
    let ?i = "h AND pagetable_hashmask c"
    have i: "unat ?i < 2 ^ (10 + n)" unfolding assms(1) by (rule unat_and_mask_less)
    moreover have "(2::nat) ^ (10 + n) \<le> 2 ^ 19" using assms(2) by (intro power_increasing) auto
    ultimately have g: "unat (push_bit 6 ?i) = unat ?i * 64" using unat_push_bit[of ?i 6] by simp
    have le: "unat ?i * 64 + 64 \<le> 2 ^ (16 + n)" using i by (simp add: power_add)
    then have "pteg_address h c = push_bit 6 ?i + pagetable_base c"
      unfolding pteg_address_def using g assms(3) by (intro or_aligned) auto
    then show ?thesis using g le assms(4,5) by (simp add: unat_word_ariths)
  qed
  show "unat (pteg_address hash c) + 64 \<le> s" using g[of hash] assms(4) by simp
  have "bit (hash AND pagetable_hashmask c) 0 \<noteq> bit (NOT hash AND pagetable_hashmask c) 0"
    by (simp add: assms(1) bit_simps)
  then have "unat (hash AND pagetable_hashmask c) \<noteq> unat (NOT hash AND pagetable_hashmask c)" 
    by (metis word_unat_eq_iff)
  then show "apart (unat (pteg_address hash c)) 64 (unat (pteg_address (NOT hash) c)) 64"
    using g[of hash] g[of "NOT hash"] by (auto simp: apart_def)
qed

subsection \<open>Searching and filling a group\<close>

definition pte_matches :: "uint32 \<Rightarrow> uint32 \<Rightarrow> uint32 \<Rightarrow> uint32 \<Rightarrow> bool" where
  "pte_matches h seg addr pte \<longleftrightarrow>
     istrue (pte AND PTE1_V) \<and> (pte AND PTE1_H) = h \<and> SR_VSID seg = PTE1_VSID pte \<and> EA_API addr = PTE1_API pte"

definition slot :: "uint32 \<Rightarrow> nat \<Rightarrow> uint32" where
  "slot a i = a + 8 * of_nat i"

lemma slot_0 [simp]: "slot a 0 = a"
  by (simp add: slot_def)

lemma slot_Suc: "slot (a + 8) i = slot a (Suc i)"
  by (simp add: slot_def algebra_simps)

lemma unat_slot:
  fixes k i :: nat
  assumes "in_ram (8 * k) a m" "i < k"
  shows "unat (slot a i) = unat a + 8 * i" "unat (slot a i + 4) = unat a + 8 * i + 4"
proof -
  have lt: "unat a + 8 * i + 4 < 2 ^ 32"
    using assms unsigned_less[of "gMemorySize m", where ?'a = nat] by simp
  have "slot a i = of_nat (unat a + 8 * i)" "slot a i + 4 = of_nat (unat a + 8 * i + 4)" by (simp_all add: slot_def)
  then show "unat (slot a i) = unat a + 8 * i" "unat (slot a i + 4) = unat a + 8 * i + 4"
    using lt by (simp_all only: unat_of_nat) simp_all
qed

lemma in_ram_Suc: "in_ram (8 * Suc k) a m \<Longrightarrow> in_ram (8 * k) (a + 8) m \<or> k = 0"
  using unat_slot(1)[of a "Suc k" m 1] slot_Suc[of a 0] by (cases "k = 0") auto

lemma pteg_loop_ram:
  assumes "in_ram 4 a m"
  shows "pteg_loop (Suc k) B h addr flags seg a m =
    (if pte_matches h seg addr (word_at m a) then
       and_then (ppc_read_physical_word B (a + 4) m) (\<lambda>((r, pte), m).
         if r \<noteq> PPC_MMU_OK then and_then (pt_read_failed flags m) (\<lambda>(x, m). Inr (Some x, m))
         else if \<not> ppc_pte_protection ((if istrue (flags AND PPC_MMU_WRITE) then 8 else 0)
                     + pte_key (msr (mcpu m)) seg + PTE2_PP pte) then
           and_then (mmu_fault addr flags PPC_EXC_SRR1_PROT addr PPC_EXC_DSISR_PROT m) (\<lambda>(x, m). Inr (Some x, m))
         else
           and_then (ppc_write_physical_word B (a + 4)
               (if istrue (flags AND PPC_MMU_WRITE) then pte OR (PTE2_C OR PTE2_R) else pte OR PTE2_R) m)
             (\<lambda>(_, m). Inr (Some (PPC_MMU_OK, PTE2_RPN pte OR EA_Offset addr), m)))
     else pteg_loop k B h addr flags seg (a + 8) m)"
  by (simp only: pteg_loop.simps read_word_ram[OF assms] and_then_simps prod.case pte_matches_def Let_def simp_thms if_True if_False)

lemma pteg_miss:
  assumes "\<forall>i<k. \<not> pte_matches h seg addr (word_at m (slot a i))" "in_ram (8 * k) a m"
  shows "pteg_loop k B h addr flags seg a m = Inr (None, m)"
  using assms
proof (induction k arbitrary: a)
  case (Suc k)
  have m0: "\<not> pte_matches h seg addr (word_at m a)" using Suc.prems(1) by auto
  have rest: "\<forall>i<k. \<not> pte_matches h seg addr (word_at m (slot (a + 8) i))"
    using Suc.prems(1) unfolding slot_Suc by auto
  have "pteg_loop k B h addr flags seg (a + 8) m = Inr (None, m)"
    using Suc.IH[OF rest] in_ram_Suc[OF Suc.prems(2)] by auto
  then show ?case
    using m0 Suc.prems(2) by (subst pteg_loop_ram) auto
qed simp

lemma pteg_hit:
  assumes "j < k" "\<forall>i<j. \<not> pte_matches h seg addr (word_at m (slot a i))" "in_ram (8 * k) a m"
    and "pte_matches h seg addr (word_at m (slot a j))"
    and "ppc_pte_protection ((if istrue (flags AND PPC_MMU_WRITE) then 8 else 0) + pte_key (msr (mcpu m)) seg
           + PTE2_PP (word_at m (slot a j + 4)))"
  shows "pteg_loop k B h addr flags seg a m =
    Inr (Some (PPC_MMU_OK, PTE2_RPN (word_at m (slot a j + 4)) OR EA_Offset addr),
      put_word (slot a j + 4) (if istrue (flags AND PPC_MMU_WRITE) then word_at m (slot a j + 4) OR (PTE2_C OR PTE2_R)
        else word_at m (slot a j + 4) OR PTE2_R) m)"
  using assms
proof (induction k arbitrary: a j)
  case (Suc k)
  show ?case
  proof (cases j)
    case 0
    have "in_ram 4 a m" "in_ram 4 (a + 4) m"
      using unat_slot[OF Suc.prems(3), of 0] Suc.prems(3) by auto
    then show ?thesis
      using Suc.prems(4,5) 0 by (subst pteg_loop_ram) (simp_all add: read_word_ram write_word_ram)
  next
    case (Suc i)
    have "\<not> pte_matches h seg addr (word_at m a)" using Suc.prems(2) Suc by auto
    moreover have "in_ram 4 a m" using Suc.prems(3) by simp
    ultimately have step: "pteg_loop (Suc k) B h addr flags seg a m = pteg_loop k B h addr flags seg (a + 8) m"
      by (subst pteg_loop_ram) auto
    have "in_ram (8 * k) (a + 8) m" using in_ram_Suc[OF Suc.prems(3)] Suc.prems(1) Suc by auto
    then show ?thesis
      unfolding step using Suc.IH[of i "a + 8"] Suc.prems Suc unfolding slot_Suc by auto
  qed
qed simp

lemma create_loop_result:
  assumes "create_loop k B p1 p2 a m = Inr (x, m')" "in_ram (8 * k) a m"
  shows "(x = None \<and> m' = m \<and> (\<forall>i<k. istrue (word_at m (slot a i) AND PTE1_V))) \<or>
    (\<exists>j<k. (\<forall>i<j. istrue (word_at m (slot a i) AND PTE1_V)) \<and> word_at m (slot a j) AND PTE1_V = 0 \<and> x = Some True \<and>
       m' = put_word (slot a j + 4) p2 (put_word (slot a j) p1 m))"
  using assms
proof (induction k arbitrary: a)
  case (Suc k)
  have r: "in_ram 4 a m" "in_ram 4 (a + 4) m"
    using unat_slot[OF Suc.prems(2), of 0] Suc.prems(2) by auto
  show ?case
  proof (cases "word_at m a AND PTE1_V = 0")
    case True
    then show ?thesis
      using Suc.prems(1) r by (intro disjI2 exI[of _ 0]) (auto simp: read_word_ram write_word_ram)
  next
    case False
    then have "create_loop k B p1 p2 (a + 8) m = Inr (x, m')"
      using Suc.prems(1) r by (simp add: read_word_ram)
    moreover have "in_ram (8 * k) (a + 8) m \<or> k = 0" using in_ram_Suc[OF Suc.prems(2)] .
    ultimately have "(x = None \<and> m' = m \<and> (\<forall>i<k. istrue (word_at m (slot (a + 8) i) AND PTE1_V))) \<or>
      (\<exists>j<k. (\<forall>i<j. istrue (word_at m (slot (a + 8) i) AND PTE1_V)) \<and> word_at m (slot (a + 8) j) AND PTE1_V = 0 \<and>
         x = Some True \<and> m' = put_word (slot (a + 8) j + 4) p2 (put_word (slot (a + 8) j) p1 m))"
      using Suc.IH[of "a + 8"] by (cases "k = 0") auto
    then show ?thesis
      unfolding slot_Suc
    proof (elim disjE exE conjE)
      assume "x = None" "m' = m" "\<forall>i<k. istrue (word_at m (slot a (Suc i)) AND PTE1_V)"
      then show ?thesis using False by (simp add: All_less_Suc2)
    next
      fix j assume "j < k" "\<forall>i<j. istrue (word_at m (slot a (Suc i)) AND PTE1_V)" "word_at m (slot a (Suc j)) AND PTE1_V = 0"
        "x = Some True" "m' = put_word (slot a (Suc j) + 4) p2 (put_word (slot a (Suc j)) p1 m)"
      then show ?thesis using False by (intro disjI2 exI[of _ "Suc j"]) (simp add: All_less_Suc2)
    qed
  qed
qed simp

subsection \<open>A created page is found\<close>

definition table_in_ram :: "'io mach \<Rightarrow> bool" where
  "table_in_ram m \<longleftrightarrow> (\<exists>n\<le>9. pagetable_hashmask (mcpu m) = mask (10 + n) \<and>
     2 ^ (16 + n) dvd unat (pagetable_base (mcpu m)) \<and>
     unat (pagetable_base (mcpu m)) + 2 ^ (16 + n) \<le> unat (gMemorySize m))"

lemma table_in_ramD:
  assumes "table_in_ram m"
  shows "in_ram (8 * 8) (pteg_address hash (mcpu m)) m"
    "apart (unat (pteg_address hash (mcpu m))) 64 (unat (pteg_address (NOT hash) (mcpu m))) 64"
  using assms pteg_apart[of "mcpu m", where s = "unat (gMemorySize m)"]
    unsigned_less[of "gMemorySize m", where ?'a = nat]
  by (auto simp: table_in_ram_def)

abbreviation hash_of :: "uint32 \<Rightarrow> uint32 \<Rightarrow> uint32" where
  "hash_of seg ea \<equiv> SR_VSID seg XOR EA_PageIndex ea"

definition unmapped :: "uint32 \<Rightarrow> 'io mach \<Rightarrow> bool" where
  "unmapped ea m \<longleftrightarrow> (let seg = sr (mcpu m) (EA_SR ea); hash = hash_of seg ea in
     \<forall>i<8. \<not> pte_matches 0 seg ea (word_at m (slot (pteg_address hash (mcpu m)) i)) \<and>
           \<not> pte_matches PTE1_H seg ea (word_at m (slot (pteg_address (NOT hash) (mcpu m)) i)))"

definition paged :: "uint32 \<Rightarrow> uint32 \<Rightarrow> cpu \<Rightarrow> bool" where
  "paged flags ea c \<longleftrightarrow> (let code = istrue (flags AND PPC_MMU_CODE); seg = sr c (EA_SR ea);
        batu = (if istrue (msr c AND MSR_PR) then BATU_Vp else BATU_Vs) in
     istrue (msr c AND (if code then MSR_IR else MSR_DR)) \<and>
     (if code then bat_loop 4 batu (ibatu c) (ibatl c) (ibat_bl17 c) ea
      else bat_loop 4 batu (dbatu c) (dbatl c) (dbat_bl17 c) ea) = None \<and>
     seg AND SR_T = 0 \<and> \<not> (code \<and> istrue (seg AND SR_N)))"

lemma paged_translate:
  "paged flags ea (mcpu m) \<Longrightarrow>
   ppc_effective_to_physical B ea flags m = page_translate B ea flags (sr (mcpu m) (EA_SR ea)) m"
  by (auto simp: paged_def ppc_effective_to_physical_def Let_def)

lemma bit_PTE1: "bit PTE1_V n \<longleftrightarrow> n = 31" "bit PTE1_H n \<longleftrightarrow> n = 6"
  unfolding PTE1_V_def PTE1_H_def by (simp_all only: bit_push_bit_iff bit_1_iff) auto

lemma pte1_matches:
  assumes "h = 0 \<or> h = PTE1_H"
  shows "pte_matches h seg ea (PTE1_V OR push_bit 7 (SR_VSID seg) OR h OR EA_API ea)"
proof -
  have v: "SR_VSID seg = take_bit 24 seg" by (simp add: SR_VSID_def take_bit_eq_mask mask_eq_exp_minus_1)
  have a: "EA_API ea = take_bit 6 (drop_bit 22 ea)" by (simp add: EA_API_def take_bit_eq_mask mask_eq_exp_minus_1)
  have m: "(0xffffff :: uint32) = mask 24" "(0x3f :: uint32) = mask 6" by (simp_all add: mask_eq_exp_minus_1)
  let ?p = "PTE1_V OR push_bit 7 (take_bit 24 seg) OR h OR take_bit 6 (drop_bit 22 ea)"
  have "bit (?p AND PTE1_V) 31" by (simp add: bit_PTE1 bit_simps)
  then have "istrue (?p AND PTE1_V)" by (metis bit_0_eq bot_apply bot_bool_def)
  moreover have "?p AND PTE1_H = h"
    using assms by (intro bit_word_eqI) (auto simp: bit_PTE1 bit_simps)
  moreover have "PTE1_VSID ?p = take_bit 24 seg"
    using assms by (intro bit_word_eqI) (auto simp: PTE1_VSID_def m bit_PTE1 bit_simps)
  moreover have "PTE1_API ?p = take_bit 6 (drop_bit 22 ea)"
    using assms by (intro bit_word_eqI) (auto simp: PTE1_API_def m bit_PTE1 bit_simps)
  ultimately show ?thesis unfolding pte_matches_def v a by simp
qed

lemma pte2_fields:
  "PTE2_RPN (push_bit 12 (PA_RPN pa)) = pa AND NOT 0xfff" "PTE2_PP (push_bit 12 (PA_RPN pa)) = 0"
proof -
  have m: "(0xfffff :: uint32) = mask 20" "(0xfff :: uint32) = mask 12" "(3 :: uint32) = mask 2"
    "(0xfffff000 :: uint32) = NOT (mask 12)"
    by (simp_all add: mask_eq_exp_minus_1)
  show "PTE2_RPN (push_bit 12 (PA_RPN pa)) = pa AND NOT 0xfff"
    unfolding PTE2_RPN_def PA_RPN_def m by (intro bit_word_eqI) (auto simp: bit_simps)
  have "push_bit 12 (PA_RPN pa) AND 3 = 0"
    unfolding PA_RPN_def m by (intro bit_word_eqI) (auto simp: bit_simps)
  then show "PTE2_PP (push_bit 12 (PA_RPN pa)) = 0" by (simp add: PTE2_PP_def)
qed


text \<open>What a search that hits the written entry returns.\<close>

lemma translate_written:
  assumes "in_ram (8 * 8) a m" "j < 8" "\<forall>i<j. \<not> pte_matches h seg ea (word_at m (slot a i))"
    and "m' = put_word (slot a j + 4) (push_bit 12 (PA_RPN pa)) (put_word (slot a j) p1 m)"
    and "pte_matches h seg ea p1" "pte_key (msr (mcpu m)) seg = 0"
  shows "\<exists>m''. pteg_loop 8 B h ea flags seg a m' = Inr (Some (PPC_MMU_OK, (pa AND NOT 0xfff) OR EA_Offset ea), m'') \<and>
    mcpu m'' = mcpu m"
proof -
  note u = unat_slot[OF assms(1)]
  have ap: "apart (unat (slot a j + 4)) 4 (unat (slot a i)) 4" if "i \<le> j" for i
    using u[of i] u[of j] assms(2) that by (auto simp: apart_def)
  have ap': "apart (unat (slot a j)) 4 (unat (slot a i)) 4" if "i < j" for i
    using u[of i] u[of j] assms(2) that by (auto simp: apart_def)
  have "\<forall>i<j. \<not> pte_matches h seg ea (word_at m' (slot a i))"
    using assms(3) ap ap' by (simp add: assms(4))
  moreover have "word_at m' (slot a j) = p1" using ap[of j] by (simp add: assms(4))
  moreover have "word_at m' (slot a j + 4) = push_bit 12 (PA_RPN pa)" by (simp add: assms(4))
  moreover have "in_ram (8 * 8) a m'" "msr (mcpu m') = msr (mcpu m)" "mcpu m' = mcpu m" using assms(1) by (simp_all add: assms(4))
  ultimately show ?thesis
    using pteg_hit[of j 8 h seg ea m' a flags B] assms(2,5,6)
    by (simp add: pte2_fields ppc_pte_protection_def)
qed

lemma miss_unchanged:
  assumes "\<forall>i<8. \<not> pte_matches h seg ea (word_at m (slot a i))" "in_ram (8 * 8) a m" "in_ram (8 * 8) b m" "j < 8"
    and "apart (unat a) 64 (unat b) 64" "m' = put_word (slot b j + 4) p2 (put_word (slot b j) p1 m)"
  shows "pteg_loop 8 B h ea flags seg a m' = Inr (None, m')"
proof (rule pteg_miss)
  show "in_ram (8 * 8) a m'" using assms(2) by (simp add: assms(6))
  have "apart (unat (slot b j + 4)) 4 (unat (slot a i)) 4 \<and> apart (unat (slot b j)) 4 (unat (slot a i)) 4" if "i < 8" for i
    using unat_slot[OF assms(2) that] unat_slot[OF assms(3,4)] assms(4,5) that by (auto simp: apart_def)
  then show "\<forall>i<8. \<not> pte_matches h seg ea (word_at m' (slot a i))"
    using assms(1) by (simp add: assms(6))
qed

lemma page_create_translate_same:
  assumes "ppc_mmu_page_create B ea pa m = Inr (True, m')" "table_in_ram m" "unmapped ea m"
    and "paged flags ea (mcpu m)" "pte_key (msr (mcpu m)) (sr (mcpu m) (EA_SR ea)) = 0"
  shows "\<exists>m''. ppc_effective_to_physical B ea flags m' =
      Inr ((PPC_MMU_OK, (pa AND NOT 0xfff) OR EA_Offset ea), m'') \<and> mcpu m'' = mcpu m"
proof -
  let ?seg = "sr (mcpu m) (EA_SR ea)" and ?hash = "hash_of (sr (mcpu m) (EA_SR ea)) ea"
  let ?a1 = "pteg_address ?hash (mcpu m)" and ?a2 = "pteg_address (NOT ?hash) (mcpu m)"
  let ?p = "\<lambda>h. PTE1_V OR push_bit 7 (SR_VSID ?seg) OR h OR EA_API ea" and ?p2 = "push_bit 12 (PA_RPN pa)"
  note ram = table_in_ramD(1)[OF assms(2)]
  have un: "\<forall>i<8. \<not> pte_matches 0 ?seg ea (word_at m (slot ?a1 i))" "\<forall>i<8. \<not> pte_matches PTE1_H ?seg ea (word_at m (slot ?a2 i))"
    using assms(3) by (auto simp: unmapped_def Let_def)
  obtain x1 m1 where c1: "create_loop 8 B (?p 0) ?p2 ?a1 m = Inr (x1, m1)"
    using assms(1) by (auto simp: ppc_mmu_page_create_def Let_def and_then_Inr_iff)
  show ?thesis
  proof (cases x1)
    case (Some b)
    with create_loop_result[OF c1 ram] obtain j where j: "j < 8" "b = True" "m1 = put_word (slot ?a1 j + 4) ?p2 (put_word (slot ?a1 j) (?p 0) m)"
      by auto
    have m': "m' = m1" using assms(1) c1 Some by (simp add: ppc_mmu_page_create_def Let_def)
    have "\<forall>i<j. \<not> pte_matches 0 ?seg ea (word_at m (slot ?a1 i))" using un(1) j(1) by auto
    from translate_written[OF ram j(1) this j(3) pte1_matches assms(5)] 
    obtain m'' where "pteg_loop 8 B 0 ea flags ?seg ?a1 m' = Inr (Some (PPC_MMU_OK, (pa AND NOT 0xfff) OR EA_Offset ea), m'')"
      "mcpu m'' = mcpu m" unfolding m' by auto
    moreover have "mcpu m' = mcpu m" by (simp add: m' j(3))
    ultimately show ?thesis using assms(4) by (simp add: paged_translate page_translate_def Let_def)
  next
    case None
    have m1: "m1 = m" using create_loop_result[OF c1 ram] None by auto
    obtain x2 where c2: "create_loop 8 B (?p PTE1_H) ?p2 ?a2 m = Inr (x2, m')" and x2: "x2 = Some True"
      using assms(1) c1 None m1 by (auto simp: ppc_mmu_page_create_def Let_def and_then_Inr_iff split: option.splits)
    with create_loop_result[OF c2 ram] obtain j where j: "j < 8" "m' = put_word (slot ?a2 j + 4) ?p2 (put_word (slot ?a2 j) (?p PTE1_H) m)"
      by auto
    have miss: "pteg_loop 8 B 0 ea flags ?seg ?a1 m' = Inr (None, m')"
      using miss_unchanged[OF un(1) ram ram j(1) table_in_ramD(2)[OF assms(2)] j(2)] .
    have "\<forall>i<j. \<not> pte_matches PTE1_H ?seg ea (word_at m (slot ?a2 i))" using un(2) j(1) by auto
    from translate_written[OF ram j(1) this j(2) pte1_matches assms(5)]
    obtain m'' where "pteg_loop 8 B PTE1_H ea flags ?seg ?a2 m' = Inr (Some (PPC_MMU_OK, (pa AND NOT 0xfff) OR EA_Offset ea), m'')"
      "mcpu m'' = mcpu m" by auto
    moreover have "mcpu m' = mcpu m" by (simp add: j(2))
    ultimately show ?thesis using assms(4) miss by (simp add: paged_translate page_translate_def Let_def)
  qed
qed

lemma same_page:
  assumes "ea' AND NOT 0xfff = ea AND NOT 0xfff"
  shows "EA_SR ea' = EA_SR ea" "EA_PageIndex ea' = EA_PageIndex ea" "EA_API ea' = EA_API ea"
proof -
  have "drop_bit 12 (w AND NOT (mask 12)) = drop_bit 12 w" for w :: uint32
    by (intro bit_word_eqI) (auto simp: bit_simps dest: bit_imp_le_length)
  moreover have "(0xfff :: uint32) = mask 12" by (simp add: mask_eq_exp_minus_1)
  ultimately have d: "drop_bit 12 ea' = drop_bit 12 ea" using assms by metis
  have "drop_bit 28 w = drop_bit 16 (drop_bit 12 w)" "drop_bit 22 w = drop_bit 10 (drop_bit 12 w)" for w :: uint32
    by simp_all
  then show "EA_SR ea' = EA_SR ea" "EA_PageIndex ea' = EA_PageIndex ea" "EA_API ea' = EA_API ea"
    unfolding EA_SR_def EA_PageIndex_def EA_API_def using d by presburger+
qed

text \<open>C21: A page table entry that \<open>ppc_mmu_page_create\<close> reports as created is the one the address translation finds:
  with the page table in guest memory and no entry for the page before, every access to an address of the page
  that is translated by the page table (no BAT register covers it, the segment is an ordinary one) and whose
  protection key is clear reaches the same offset of the physical page, for reads, writes and instruction
  fetches, whether the entry went to the primary or to the secondary group.\<close>

theorem page_create_translate:
  assumes "ppc_mmu_page_create B ea pa m = Inr (True, m')" "table_in_ram m" "unmapped ea m"
    and "ea' AND NOT 0xfff = ea AND NOT 0xfff" "paged flags ea' (mcpu m)"
    and "pte_key (msr (mcpu m)) (sr (mcpu m) (EA_SR ea)) = 0"
  shows "\<exists>m''. ppc_effective_to_physical B ea' flags m' =
      Inr ((PPC_MMU_OK, (pa AND NOT 0xfff) OR EA_Offset ea'), m'') \<and> mcpu m'' = mcpu m"
proof -
  have "ppc_mmu_page_create B ea' pa m = Inr (True, m')" "unmapped ea' m"
    using assms(1,3) by (simp_all add: ppc_mmu_page_create_def unmapped_def same_page[OF assms(4)] pte_matches_def)
  then show ?thesis
    using page_create_translate_same[OF _ assms(2) _ assms(5)] assms(6) by (simp add: same_page[OF assms(4)])
qed

text \<open>A machine of 16 MB with an empty page table of 64 KB.\<close>

definition no_devices :: "'io bus" where
  "no_devices = \<lparr>io_mem_read = (\<lambda>_ _ _. Inl Ppc_Fatal), io_mem_write = (\<lambda>_ _ _ _. Inl Ppc_Fatal),
     io_mem_read64 = (\<lambda>_ _. Inl Ppc_Fatal), io_mem_write64 = (\<lambda>_ _ _. Inl Ppc_Fatal)\<rparr>"

definition blank_mach :: "unit mach" where
  "blank_mach = \<lparr>mcpu = (ppc_cpu_init 0)\<lparr>msr := MSR_DR, sr := (\<lambda>_. 0), pagetable_base := 0x00300000,
     pagetable_hashmask := 0x3ff\<rparr>, gMemory = (\<lambda>_. 0), gMemorySize = 0x01000000, io = ()\<rparr>"

lemma bat_loop_off: "(\<And>i. up i = 0) \<Longrightarrow> bat_loop k batu up low bl addr = None"
  by (induction k) simp_all

lemma blank_word: "word_at blank_mach a = 0"
  by (simp add: word_at_def blank_mach_def eval_nat_numeral)

lemma blank_unmapped: "unmapped ea blank_mach"
  by (simp add: unmapped_def blank_word pte_matches_def)

lemma blank_table: "table_in_ram blank_mach"
  unfolding table_in_ram_def by (rule exI[of _ 0]) (simp add: blank_mach_def mask_eq_exp_minus_1)

theorem page_create_translate_witness:
  "\<exists>m' m''. ppc_mmu_page_create no_devices 0x10002000 0x00345000 blank_mach = Inr (True, m') \<and>
     ppc_effective_to_physical no_devices 0x10002abc PPC_MMU_WRITE m' = Inr ((PPC_MMU_OK, 0x00345abc), m'')"
proof -
  let ?a = "pteg_address (hash_of 0 0x10002000) (mcpu blank_mach)"
  have seg: "sr (mcpu blank_mach) i = 0" for i by (simp add: blank_mach_def)
  have ram: "in_ram 4 ?a blank_mach" "in_ram 4 (?a + 4) blank_mach"
    using table_in_ramD(1)[OF blank_table, of "hash_of 0 0x10002000"]
      unat_slot(2)[OF table_in_ramD(1)[OF blank_table, of "hash_of 0 0x10002000"], of 0] by auto
  obtain m' where m': "ppc_mmu_page_create no_devices 0x10002000 0x00345000 blank_mach = Inr (True, m')"
    using ram by (simp add: ppc_mmu_page_create_def Let_def seg eval_nat_numeral read_word_ram write_word_ram blank_word)
  have "paged PPC_MMU_WRITE 0x10002abc (mcpu blank_mach)"
    by (simp add: paged_def blank_mach_def msr_defs mmu_flag_defs ppc_cpu_init_def Let_def bat_loop_off)
  moreover have "pte_key f 0 = 0" for f by (simp add: pte_key_def)
  ultimately show ?thesis
    using page_create_translate[OF m' blank_table blank_unmapped, of "0x10002abc" PPC_MMU_WRITE] m'
    by (auto simp: seg EA_Offset_def)
qed

end
