(* ===== verification/Ppc_Access.thy ===== *)
theory Ppc_Access
  imports Ppc_Page_Table
begin

text \<open>
  Effective accesses with address translation off: the path through a buffer for an access that crosses a
  page is the plain access; what happens at the end of guest memory; DMA; and the reservation.
\<close>

unbundle bit_operations_syntax

abbreviation real_mode :: "'io mach \<Rightarrow> bool" where
  "real_mode m \<equiv> msr (mcpu m) AND MSR_DR = 0"

lemma real_mode_translate:
  assumes "real_mode m" "flags AND PPC_MMU_CODE = 0"
  shows "ppc_effective_to_physical B addr flags m = Inr ((PPC_MMU_OK, addr), m)"
  using assms by (simp add: ppc_effective_to_physical_def Let_def)

lemma data_flags [simp]: "PPC_MMU_READ AND PPC_MMU_CODE = 0" "PPC_MMU_WRITE AND PPC_MMU_CODE = 0"
  by (simp_all add: mmu_flag_defs)

lemma page_split:
  fixes a :: uint32
  shows "unat a = unat (a AND NOT 0xfff) + unat (EA_Offset a)" "unat (EA_Offset a) < 4096" "4096 dvd unat (a AND NOT 0xfff)"
proof -
  have m: "(0xfff :: uint32) = mask 12" by (simp add: mask_eq_exp_minus_1)
  have d: "unat (drop_bit 12 a) = unat a div 4096" 
    using unsigned_less[of a, where ?'a = nat]
    by (simp only: unsigned_drop_bit_eq) (simp add: drop_bit_eq_div take_bit_nat_eq_self)
  have "a AND NOT (mask 12) = push_bit 12 (drop_bit 12 a)" by (intro bit_word_eqI) (auto simp: bit_simps)
  moreover have "unat (drop_bit 12 a) * 2 ^ 12 < 2 ^ 32"
    unfolding d using unsigned_less[of a, where ?'a = nat] by simp
  ultimately have p: "unat (a AND NOT 0xfff) = unat a div 4096 * 4096"
    using unat_push_bit[of "drop_bit 12 a" 12] by (simp add: m d)
  have o: "unat (EA_Offset a) = unat a mod 4096"
    unfolding EA_Offset_def m by (simp only: take_bit_eq_mask[symmetric] unsigned_take_bit_eq) (simp add: take_bit_eq_mod)
  show "unat a = unat (a AND NOT 0xfff) + unat (EA_Offset a)" "unat (EA_Offset a) < 4096" "4096 dvd unat (a AND NOT 0xfff)"
    unfolding p o by simp_all
qed

text \<open>The buffer of a crossing access is a window of guest memory.\<close>

lemma crossing_flat:
  assumes "real_mode m" "flags AND PPC_MMU_CODE = 0" "in_ram n addr m" "gMemorySize m AND 0xfff = 0"
    and "n \<in> {4, 8}" "4096 < unat (EA_Offset addr) + n"
  defines "P \<equiv> addr AND NOT 0xfff"
  shows "crossing n B addr flags p d f m = f (P + of_nat (4097 - n)) (P + 4096) m"
    "unat (P + of_nat (4097 - n)) = unat P + (4097 - n)" "unat (P + 4096) = unat P + 4096"
    "unat P + 8192 \<le> unat (gMemorySize m)"
proof -
  obtain q where q: "unat P = 4096 * q" using page_split(3)[of addr] unfolding P_def by (rule dvdE)
  have "unat (gMemorySize m) = unat (gMemorySize m AND NOT 0xfff)"
    using page_split(1)[of "gMemorySize m"] by (simp add: EA_Offset_def assms(4))
  moreover obtain z where "unat (gMemorySize m AND NOT 0xfff) = 4096 * z"
    using page_split(3)[of "gMemorySize m"] by (rule dvdE)
  ultimately have z: "unat (gMemorySize m) = 4096 * z" by (rule trans)
  have a: "unat addr = unat P + unat (EA_Offset addr)" unfolding P_def by (rule page_split(1))
  then have "unat P + 4096 < unat (gMemorySize m)" using assms(3,6) by linarith
  then have "4096 * (q + 1) < 4096 * z" unfolding q z by simp
  then have "q + 1 < z" by (rule mult_less_cancel1[THEN iffD1, THEN conjunct2])
  then have "q + 2 \<le> z" by linarith
  then have "4096 * (q + 2) \<le> 4096 * z" by (rule mult_le_mono2)
  then show b: "unat P + 8192 \<le> unat (gMemorySize m)" unfolding q z by simp
  have lt: "unat (gMemorySize m) < 2 ^ 32" using unsigned_less[of "gMemorySize m", where ?'a = nat] by simp
  have "unat P + k < 2 ^ 32" if "k \<le> 4097" for k using b lt that by linarith
  then have "unat (P + of_nat k) = unat P + k" if "k \<le> 4097" for k using that unat_plus_of_nat by blast
  from this[of "4097 - n"] this[of 4096]
  show u: "unat (P + of_nat (4097 - n)) = unat P + (4097 - n)" "unat (P + 4096) = unat P + 4096" by simp_all
  have "P + of_nat (4097 - n) < gMemorySize m" "P + 4096 < gMemorySize m"
    using u b assms(5) by (auto simp: word_less_nat_alt)
  then show "crossing n B addr flags p d f m = f (P + of_nat (4097 - n)) (P + 4096) m"
    using assms(1,2)
    by (simp add: crossing_def real_mode_translate ppc_direct_physical_memory_handle_def with_physical_def P_def)
qed

lemma cross_read_flat:
  assumes "real_mode m" "in_ram n addr m" "gMemorySize m AND 0xfff = 0" "n \<in> {4, 8}" "4096 < unat (EA_Offset addr) + n"
  shows "cross_read n B addr p d m = Inr ((PPC_MMU_OK, mem_get (gMemory m) (unat addr) n), m)"
proof -
  let ?P = "addr AND NOT 0xfff" and ?k = "unat (EA_Offset addr) - (4097 - n)"
  note c = crossing_flat[OF assms(1) data_flags(1) assms(2-5)]
  let ?b = "\<lambda>i. if i < n - 1 then gMemory m (unat ?P + (4097 - n) + i) else gMemory m (unat ?P + 4096 + (i - (n - 1)))"
  have b: "?b i = gMemory m (unat ?P + (4097 - n) + i)" for i
    using assms(4) by (auto intro!: arg_cong[of _ _ "gMemory m"])
  have buf: "cross_buffer n (?P + of_nat (4097 - n)) (?P + 4096) m = Inr ?b"
    using c(2-4) assms(4) by (auto simp: cross_buffer_def ram_read_def)
  have a: "unat ?P + (4097 - n) + (?k + i) = unat addr + i" for i
    using page_split(1,2)[of addr] assms(4,5) by auto
  have "mem_get ?b ?k n = mem_get (gMemory m) (unat addr) n"
    by (intro mem_get_cong trans[OF b]) (simp only: a)
  then show ?thesis by (simp only: cross_read_def c(1) buf and_then_simps)
qed

lemma cross_write_flat:
  assumes "real_mode m" "in_ram n addr m" "gMemorySize m AND 0xfff = 0" "n \<in> {4, 8}" "4096 < unat (EA_Offset addr) + n"
  shows "cross_write n B addr p v m = Inr ((PPC_MMU_OK, ()), m\<lparr>gMemory := mem_put (gMemory m) (unat addr) n v\<rparr>)"
proof -
  let ?P = "addr AND NOT 0xfff" and ?k = "unat (EA_Offset addr) - (4097 - n)"
  note c = crossing_flat[OF assms(1) data_flags(2) assms(2-5)]
  let ?b = "\<lambda>i. if i < n - 1 then gMemory m (unat ?P + (4097 - n) + i) else gMemory m (unat ?P + 4096 + (i - (n - 1)))"
  let ?r = "unat ?P + (4097 - n)"
  have b: "?b i = gMemory m (?r + i)" for i
    using assms(4) by (auto intro!: arg_cong[of _ _ "gMemory m"])
  have buf: "cross_buffer n (?P + of_nat (4097 - n)) (?P + 4096) m = Inr ?b"
    using c(2-4) assms(4) by (auto simp: cross_buffer_def ram_read_def)
  have k: "?r + ?k = unat addr" "?k + n \<le> 2 * n - 2"
    using page_split(1,2)[of addr] assms(4,5) by auto
  let ?b' = "mem_put ?b ?k n v"
  have "copy_bytes (unat ?P + 4096) (n - 1) (\<lambda>i. ?b' (n - 1 + i)) (copy_bytes ?r (n - 1) ?b' (gMemory m)) x =
      mem_put (gMemory m) (unat addr) n v x" for x
  proof -
    have win: "?b' i = mem_put (gMemory m) (unat addr) n v (?r + i)" for i
    proof (cases "?k \<le> i \<and> i < ?k + n")
      case True
      then obtain j where j: "i = ?k + j" "j < n" by (auto simp: le_iff_add)
      then have "?r + i = unat addr + j" using k(1) by simp
      then show ?thesis using j by (simp only: mem_put_byte)
    next
      case False
      then show ?thesis using k(1) b[of i] by (subst (1 2) mem_put_out) auto
    qed
    show ?thesis
      unfolding copy_bytes_def win using k assms(4) by auto
  qed
  then have "copy_bytes (unat ?P + 4096) (n - 1) (\<lambda>i. ?b' (n - 1 + i)) (copy_bytes ?r (n - 1) ?b' (gMemory m)) =
      mem_put (gMemory m) (unat addr) n v" by (rule ext)
  then show ?thesis by (simp only: cross_write_def c(1-3) buf and_then_simps Let_def)
qed
subsection \<open>Effective is physical\<close>

lemma crosses:
  "4092 < EA_Offset addr \<longleftrightarrow> 4096 < unat (EA_Offset addr) + 4"
  "4088 < EA_Offset addr \<longleftrightarrow> 4096 < unat (EA_Offset addr) + 8"
  by (auto simp: word_less_nat_alt)

lemma read_word_flat:
  assumes "real_mode m" "in_ram 4 addr m" "gMemorySize m AND 0xfff = 0"
  shows "ppc_read_effective_word B addr m = Inr ((PPC_MMU_OK, word_at m addr), m)"
  using crosses(1)[of addr] cross_read_flat[OF assms, of B addr 0] read_word_ram[OF assms(2), of B]
  by (simp add: ppc_read_effective_word_def ppc_read_effective_word_to_def with_physical_def
      real_mode_translate[OF assms(1)] rd_map_def word_at_def)

lemma write_word_flat:
  assumes "real_mode m" "in_ram 4 addr m" "gMemorySize m AND 0xfff = 0"
  shows "ppc_write_effective_word B addr v m = Inr (PPC_MMU_OK, put_word addr v m)"
  using crosses(1)[of addr] cross_write_flat[OF assms, of B addr "unat v"] write_word_ram[OF assms(2), of B v]
  by (simp add: ppc_write_effective_word_def rd_wr_def wr_rd_def with_physical_def
      real_mode_translate[OF assms(1)] put_word_def)

lemma dword_flat:
  assumes "real_mode m" "in_ram 8 addr m" "gMemorySize m AND 0xfff = 0"
  shows "ppc_read_effective_dword B addr m = ppc_read_physical_dword B addr m"
    "ppc_write_effective_dword B addr w m = ppc_write_physical_dword B addr w m"
  using crosses(2)[of addr] cross_write_flat[OF assms, of B addr "unat w"] cross_read_flat[OF assms, of B addr 0]
    in_ram_less[OF assms(2)] assms(2)
  by (simp_all add: ppc_write_effective_dword_def rd_wr_def wr_rd_def with_physical_def rd_map_def
      ppc_read_effective_dword_def real_mode_translate[OF assms(1)] ppc_read_physical_dword_def
      ppc_write_physical_dword_def ram_read_def ram_write_def)

text \<open>With address translation off, an effective access to guest memory is the physical access, also when it
  crosses a page and goes through the buffer: every word and double word that lies in guest memory is read and
  written at its own address, whatever its alignment.\<close>

theorem effective_access_transparent:
  assumes "real_mode m" "in_ram 4 addr m" "gMemorySize m AND 0xfff = 0"
  shows "ppc_read_effective_word B addr m = ppc_read_physical_word B addr m \<and>
    ppc_write_effective_word B addr v m = ppc_write_physical_word B addr v m \<and>
    (in_ram 8 addr m \<longrightarrow> ppc_read_effective_dword B addr m = ppc_read_physical_dword B addr m \<and>
       ppc_write_effective_dword B addr w m = ppc_write_physical_dword B addr w m)"
  using read_word_flat[OF assms] write_word_flat[OF assms] dword_flat[OF assms(1) _ assms(3)]
    read_word_ram[OF assms(2)] write_word_ram[OF assms(2)] by simp

text \<open>The physical accesses test only the first byte: a word that begins inside guest memory and ends outside it is
  read from and written to memory that does not belong to it.\<close>

theorem end_of_memory_overrun:
  assumes "addr < gMemorySize m" "unat (gMemorySize m) < unat addr + 4"
  shows "ppc_read_physical_word B addr m = Inl Bad_Access \<and> ppc_write_physical_word B addr v m = Inl Bad_Access"
  using assms by (simp add: ppc_read_physical_word_def ppc_write_physical_word_def ram_read_def ram_write_def)

text \<open>A machine of 64 KB with translation off.\<close>

definition real_mach :: "unit mach" where
  "real_mach = \<lparr>mcpu = (ppc_cpu_init 0)\<lparr>msr := 0\<rparr>, gMemory = (\<lambda>_. 0), gMemorySize = 0x10000, io = ()\<rparr>"

theorem effective_access_transparent_witness:
  "ppc_write_effective_word no_devices 0x1ffe 0xdeadbeef real_mach = ppc_write_physical_word no_devices 0x1ffe 0xdeadbeef real_mach"
  using effective_access_transparent[of real_mach "0x1ffe"] by (simp add: real_mach_def)

theorem end_of_memory_overrun_witness:
  "ppc_read_physical_word no_devices 0xfffd real_mach = Inl Bad_Access"
  using end_of_memory_overrun[of "0xfffd" real_mach no_devices] by (simp add: real_mach_def)

subsection \<open>DMA\<close>

lemma dma_no_wrap:
  assumes "dma_in_range dest n m" "unat dest + unat n < 2 ^ 32"
  shows "dma_copy_ok dest n m"
proof -
  have "unat (dest + n) = unat dest + unat n" using assms(2) by (simp add: unat_word_ariths)
  then show ?thesis using assms(1) by (simp add: dma_in_range_def dma_copy_ok_def not_less word_le_nat_alt)
qed

text \<open>A DMA transfer whose end does not wrap around 32 bits is safe: it is either refused without effect or
  stores exactly the bytes of its source, and reading the range back returns them.\<close>

theorem dma_roundtrip:
  assumes "unat dest + unat n < 2 ^ 32"
  shows "ppc_dma_write dest src n m = Inr (False, m) \<or>
    (\<exists>m'. ppc_dma_write dest src n m = Inr (True, m') \<and> ppc_dma_read dest n m' = Inr (Some (map src [0..<unat n])) \<and>
       (\<forall>a. a < unat dest \<or> unat dest + unat n \<le> a \<longrightarrow> gMemory m' a = gMemory m a))"
proof (cases "dma_in_range dest n m")
  case True
  note ok = dma_no_wrap[OF True assms]
  let ?m = "m\<lparr>gMemory := copy_bytes (unat dest) (unat n) src (gMemory m)\<rparr>"
  have "dma_in_range dest n ?m" "dma_copy_ok dest n ?m" using True ok by (simp_all add: dma_in_range_def dma_copy_ok_def)
  then show ?thesis
    using True ok by (intro disjI2 exI[of _ ?m]) (auto simp: ppc_dma_write_def ppc_dma_read_def copy_bytes_def)
qed (simp add: ppc_dma_write_def)

text \<open>The bound of a DMA transfer is checked in 32 bits: a transfer that begins in guest memory and whose length
  makes the end wrap to an address in guest memory passes the check and runs over the end of the array.\<close>

theorem dma_wrap_overrun:
  assumes "dest \<le> gMemorySize m" "dest + n \<le> gMemorySize m" "2 ^ 32 \<le> unat dest + unat n"
  shows "ppc_dma_write dest src n m = Inl Bad_Access \<and> ppc_dma_read dest n m = Inl Bad_Access \<and>
    ppc_dma_set dest b n m = Inl Bad_Access"
proof -
  have "n \<noteq> 0" using assms(3) unsigned_less[of dest, where ?'a = nat] by auto
  then have "\<not> dma_copy_ok dest n m"
    using assms(3) unsigned_less[of "gMemorySize m", where ?'a = nat] by (simp add: dma_copy_ok_def)
  then show ?thesis
    using assms(1,2) by (simp add: ppc_dma_write_def ppc_dma_read_def ppc_dma_set_def dma_in_range_def not_less)
qed

theorem dma_roundtrip_witness:
  "\<exists>m'. ppc_dma_write 0x100 (\<lambda>i. of_nat i) 4 real_mach = Inr (True, m') \<and> ppc_dma_read 0x100 4 m' = Inr (Some [0, 1, 2, 3])"
proof -
  have "ppc_dma_write 0x100 (\<lambda>i. of_nat i) 4 real_mach \<noteq> Inr (False, real_mach)"
    by (simp add: ppc_dma_write_def dma_in_range_def dma_copy_ok_def real_mach_def)
  then show ?thesis using dma_roundtrip[of "0x100" 4 "\<lambda>i. of_nat i" real_mach] by (auto simp: upt_conv_Cons)
qed

theorem dma_wrap_overrun_witness:
  "ppc_dma_write 0x8000 (\<lambda>_. 0) 0xffffc000 real_mach = Inl Bad_Access"
  using dma_wrap_overrun[of "0x8000" real_mach "0xffffc000"] by (simp add: real_mach_def)

subsection \<open>The reservation\<close>

lemma base_simps [simp]: "base rA (c\<lparr>cr := x\<rparr>) = base rA c" "base rA (c\<lparr>have_reservation := b\<rparr>) = base rA c"
  by (simp_all add: base_def)

definition stwcx_address :: "cpu \<Rightarrow> uint32" where
  "stwcx_address c = (let (rS, rA, rB) = PPC_OPC_TEMPL_X (current_opc c) in base rA c + gpr c rB)"

definition stwcx_source :: "cpu \<Rightarrow> uint32" where
  "stwcx_source c = (let (rS, rA, rB) = PPC_OPC_TEMPL_X (current_opc c) in gpr c rS)"

text \<open>C24: \<open>stwcx.\<close> on guest memory stores its register exactly when there is a reservation and the word still has the value
  that \<open>lwarx\<close> saw, gives the reservation up in any case, and reports the store in the EQ bit of CR0; the other
  fields of CR are kept.  The summary overflow bit reaches CR0 only if there was a reservation.\<close>

theorem stwcx_spec:
  assumes "real_mode m" "in_ram 4 (stwcx_address (mcpu m)) m" "gMemorySize m AND 0xfff = 0"
  defines "ok \<equiv> have_reservation (mcpu m) \<and> word_at m (stwcx_address (mcpu m)) = reserve (mcpu m)"
  shows "\<exists>m'. ppc_opc_stwcx_rc B m = Inr m' \<and> \<not> have_reservation (mcpu m') \<and>
    gMemory m' = gMemory (if ok then put_word (stwcx_address (mcpu m)) (stwcx_source (mcpu m)) m else m) \<and>
    cr (mcpu m') = (cr (mcpu m) AND 0x0fffffff) OR (if ok then CR_CR0_EQ else 0) OR
      (if have_reservation (mcpu m) \<and> istrue (xer (mcpu m) AND XER_SO) then CR_CR0_SO else 0)"
proof -
  obtain rS rA rB where t: "PPC_OPC_TEMPL_X (current_opc (mcpu m)) = (rS, rA, rB)" by (cases "PPC_OPC_TEMPL_X (current_opc (mcpu m))")
  define m1 where "m1 = m\<lparr>mcpu := (mcpu m)\<lparr>cr := cr (mcpu m) AND 0x0fffffff, have_reservation := False\<rparr>\<rparr>"
  have a: "base rA (mcpu m) + gpr (mcpu m) rB = stwcx_address (mcpu m)" "gpr (mcpu m) rS = stwcx_source (mcpu m)"
    by (simp_all add: stwcx_address_def stwcx_source_def t)
  have r: "ppc_read_effective_word B (stwcx_address (mcpu m)) m1 = Inr ((PPC_MMU_OK, word_at m (stwcx_address (mcpu m))), m1)"
    "ppc_write_effective_word B (stwcx_address (mcpu m)) v m1 = Inr (PPC_MMU_OK, put_word (stwcx_address (mcpu m)) v m1)" for v
    using assms(1-3) read_word_flat[of m1] write_word_flat[of m1] by (simp_all add: m1_def word_at_def)
  show ?thesis
  proof (cases "have_reservation (mcpu m)")
    case False
    then show ?thesis by (simp add: ppc_opc_stwcx_rc_def t ok_def Let_def)
  next
    case True
    then show ?thesis
      using r[unfolded m1_def] by (cases "word_at m (stwcx_address (mcpu m)) = reserve (mcpu m)")
        (simp_all add: ppc_opc_stwcx_rc_def t ok_def Let_def a put_word_def or.assoc)
  qed
qed

text \<open>\<open>stwcx. r0,0,r2\<close> after a reservation of the word at 0x1000, which is still zero.\<close>

definition reserved_mach :: "unit mach" where
  "reserved_mach = real_mach\<lparr>mcpu := (ppc_cpu_init 0)\<lparr>msr := 0, current_opc := 0x7c00112d, have_reservation := True,
     reserve := 0, gpr := (\<lambda>i. if i = 2 then 0x1000 else 7), cr := 0x12345678, xer := 0\<rparr>\<rparr>"

theorem stwcx_spec_witness:
  "\<exists>m'. ppc_opc_stwcx_rc no_devices reserved_mach = Inr m' \<and> word_at m' 0x1000 = 7 \<and> cr (mcpu m') = 0x22345678"
proof -
  have t: "PPC_OPC_TEMPL_X 0x7c00112d = (0, 0, 2)" by (simp add: PPC_OPC_TEMPL_X_def Let_def field5_def reg5_def)
  have a: "stwcx_address (mcpu reserved_mach) = 0x1000" "stwcx_source (mcpu reserved_mach) = 7"
    by (simp_all add: stwcx_address_def stwcx_source_def reserved_mach_def t base_def)
  have w: "word_at reserved_mach 0x1000 = 0"
    by (simp add: word_at_def reserved_mach_def real_mach_def eval_nat_numeral)
  have c: "have_reservation (mcpu reserved_mach)" "reserve (mcpu reserved_mach) = 0" "cr (mcpu reserved_mach) = 0x12345678"
    "xer (mcpu reserved_mach) = 0" "real_mode reserved_mach" "gMemorySize reserved_mach = 0x10000"
    by (simp_all add: reserved_mach_def real_mach_def)
  obtain m' where m': "ppc_opc_stwcx_rc no_devices reserved_mach = Inr m'"
    "gMemory m' = gMemory (put_word 0x1000 7 reserved_mach)" "cr (mcpu m') = 0x22345678"
    using stwcx_spec[of reserved_mach no_devices] by (auto simp: a w c CR_CR0_EQ_def)
  have "word_at m' 0x1000 = word_at (put_word 0x1000 7 reserved_mach) 0x1000"
    by (simp only: word_at_def m'(2))
  then show ?thesis using m' by auto
qed

end
