(* ===== verification/Ppc_Paged_Access.thy ===== *)
theory Ppc_Paged_Access
  imports Ppc_Access
begin

text \<open>
  Effective accesses through the address translation: which pages are mapped where, by the BAT registers, by the page
  table or not at all, and the loads and stores of words and double words over it, across the boundary of two pages that
  are mapped to different frames.
\<close>

unbundle bit_operations_syntax

subsection \<open>Mapped pages\<close>

text \<open>The effective page at \<open>P\<close> is mapped to the frame at \<open>Q\<close> for loads and stores: every address of the page is translated
  to its place in the frame, nothing else happens, and that depends on no memory outside \<open>T\<close>.\<close>

definition page_maps :: "'io bus \<Rightarrow> nat set \<Rightarrow> 'io mach \<Rightarrow> uint32 \<Rightarrow> uint32 \<Rightarrow> bool" where
  "page_maps B T m P Q \<longleftrightarrow> 4096 dvd unat Q \<and>
     (\<forall>k<4096. \<forall>M. \<forall>f\<in>{PPC_MMU_READ, PPC_MMU_WRITE}. (\<forall>i\<in>T. M i = gMemory m i) \<longrightarrow>
        ppc_effective_to_physical B (P + of_nat k) f (m\<lparr>gMemory := M\<rparr>) = Inr ((PPC_MMU_OK, Q + of_nat k), m\<lparr>gMemory := M\<rparr>))"

lemma page_mapsD:
  assumes "page_maps B T m P Q" "k < 4096" "\<forall>i\<in>T. M i = gMemory m i" "f \<in> {PPC_MMU_READ, PPC_MMU_WRITE}"
  shows "ppc_effective_to_physical B (P + of_nat k) f (m\<lparr>gMemory := M\<rparr>) = Inr ((PPC_MMU_OK, Q + of_nat k), m\<lparr>gMemory := M\<rparr>)"
  using assms unfolding page_maps_def by blast

text \<open>The frame lies in guest memory.\<close>

definition frame_in_ram :: "'io mach \<Rightarrow> uint32 \<Rightarrow> bool" where
  "frame_in_ram m Q \<longleftrightarrow> unat Q + 4096 \<le> unat (gMemorySize m)"

lemma frame_unat: "frame_in_ram m Q \<Longrightarrow> k < 4096 \<Longrightarrow> unat (Q + of_nat k) = unat Q + k"
  using unsigned_less[of "gMemorySize m", where ?'a = nat] by (auto simp: frame_in_ram_def intro: unat_plus_of_nat)

lemma frame_less: "frame_in_ram m Q \<Longrightarrow> k < 4096 \<Longrightarrow> Q + of_nat k < gMemorySize m"
  using frame_unat[of m Q k] by (simp add: word_less_nat_alt frame_in_ram_def)

subsection \<open>The bytes of an access\<close>

text \<open>Where the \<open>i\<close>th byte of an access at offset \<open>o'\<close> of a page is, when the page is at \<open>Q\<close> and the next one at \<open>Q2\<close>.\<close>

definition place :: "uint32 \<Rightarrow> uint32 \<Rightarrow> nat \<Rightarrow> nat \<Rightarrow> nat" where
  "place Q Q2 o' i = (if o' + i < 4096 then unat Q + o' + i else unat Q2 + (o' + i - 4096))"

text \<open>The big-endian number \<open>v\<close> of \<open>n\<close> bytes is at the places \<open>p\<close>, and everything else is as in \<open>M\<close>.\<close>

definition stored :: "(nat \<Rightarrow> nat) \<Rightarrow> nat \<Rightarrow> nat \<Rightarrow> (nat \<Rightarrow> uint8) \<Rightarrow> (nat \<Rightarrow> uint8) \<Rightarrow> bool" where
  "stored p n v M M' \<longleftrightarrow> (\<forall>i<n. M' (p i) = of_nat (v div 256 ^ (n - Suc i))) \<and> (\<forall>x. x \<notin> p ` {..<n} \<longrightarrow> M' x = M x)"

lemma stored_put: "stored (\<lambda>i. a + i) n v M (mem_put M a n v)"
proof -
  have "mem_put M a n v x = M x" if "x \<notin> (\<lambda>i. a + i) ` {..<n}" for x
  proof (rule mem_put_out)
    show "x < a \<or> a + n \<le> x"
    proof (rule ccontr)
      assume "\<not> (x < a \<or> a + n \<le> x)"
      then have "x = a + (x - a)" "x - a < n" by linarith+
      then show False using that by blast
    qed
  qed
  then show ?thesis by (simp add: stored_def mem_put_byte)
qed

lemma stored_cong:
  assumes "stored p n v M M'" "\<And>i. i < n \<Longrightarrow> p i = q i"
  shows "stored q n v M M'"
proof -
  have "p ` {..<n} = q ` {..<n}" using assms(2) by auto
  then show ?thesis using assms unfolding stored_def by metis
qed

lemma stored_outside:
  assumes "stored p n v M M'" "\<forall>i<n. p i \<notin> T"
  shows "\<forall>x\<in>T. M' x = M x"
proof
  fix x assume "x \<in> T"
  then have "x \<notin> p ` {..<n}" using assms(2) by auto
  then show "M' x = M x" using assms(1) unfolding stored_def by blast
qed

text \<open>The two windows that a crossing access copies.\<close>

definition window :: "nat \<Rightarrow> nat \<Rightarrow> nat \<Rightarrow> nat \<Rightarrow> nat" where
  "window n p q j = (if j < n - 1 then p + j else q + (j - (n - 1)))"

lemma cross_buffer_window:
  assumes "unat r1 + (n - 1) \<le> unat (gMemorySize m)" "unat r2 + (n - 1) \<le> unat (gMemorySize m)"
  shows "cross_buffer n r1 r2 m = Inr (\<lambda>j. gMemory m (window n (unat r1) (unat r2) j))"
  using assms by (auto simp: cross_buffer_def ram_read_def window_def)

lemma window_copy:
  fixes b M :: "nat \<Rightarrow> uint8"
  assumes "apart p (n - 1) q (n - 1)"
  defines "M' \<equiv> copy_bytes q (n - 1) (\<lambda>i. b (n - 1 + i)) (copy_bytes p (n - 1) b M)"
  shows "j < 2 * n - 2 \<Longrightarrow> M' (window n p q j) = b j"
    "x \<notin> window n p q ` {..<2 * n - 2} \<Longrightarrow> M' x = M x"
proof -
  show "M' (window n p q j) = b j" if "j < 2 * n - 2"
    using assms(1) that by (auto simp: M'_def copy_bytes_def window_def apart_def)
  show "M' x = M x" if x: "x \<notin> window n p q ` {..<2 * n - 2}"
  proof -
    have "\<not> (p \<le> x \<and> x < p + (n - 1))"
    proof
      assume a: "p \<le> x \<and> x < p + (n - 1)"
      then have "x = window n p q (x - p)" "x - p < 2 * n - 2" by (auto simp: window_def)
      then show False using x by blast
    qed
    moreover have "\<not> (q \<le> x \<and> x < q + (n - 1))"
    proof
      assume a: "q \<le> x \<and> x < q + (n - 1)"
      then have "x = window n p q (x - q + (n - 1))" "x - q + (n - 1) < 2 * n - 2" by (auto simp: window_def)
      then show False using x by blast
    qed
    ultimately show ?thesis unfolding M'_def copy_bytes_def by metis
  qed
qed

text \<open>Writing \<open>n\<close> bytes at \<open>k\<close> of the buffer and copying the buffer back stores them at their places in the windows.\<close>

lemma window_store:
  fixes M :: "nat \<Rightarrow> uint8" and v :: nat
  assumes "apart p (n - 1) q (n - 1)" "k + n \<le> 2 * n - 2"
  defines "b \<equiv> mem_put (\<lambda>j. M (window n p q j)) k n v"
  defines "M' \<equiv> copy_bytes q (n - 1) (\<lambda>i. b (n - 1 + i)) (copy_bytes p (n - 1) b M)"
  shows "stored (\<lambda>i. window n p q (k + i)) n v M M'"
    "v < 256 ^ n \<Longrightarrow> mem_get (\<lambda>j. M' (window n p q j)) k n = v"
proof -
  note w = window_copy[OF assms(1), of _ b M, folded M'_def]
  show "stored (\<lambda>i. window n p q (k + i)) n v M M'"
    unfolding stored_def
  proof (intro conjI allI impI)
    fix i assume "i < n"
    then show "M' (window n p q (k + i)) = of_nat (v div 256 ^ (n - Suc i))"
      using w(1)[of "k + i"] assms(2) by (simp add: b_def mem_put_byte)
  next
    fix x assume x: "x \<notin> (\<lambda>i. window n p q (k + i)) ` {..<n}"
    show "M' x = M x"
    proof (cases "x \<in> window n p q ` {..<2 * n - 2}")
      case True
      then obtain j where j: "x = window n p q j" "j < 2 * n - 2" by blast
      have "j < k \<or> k + n \<le> j"
      proof (rule ccontr)
        assume "\<not> (j < k \<or> k + n \<le> j)"
        then have "x = window n p q (k + (j - k))" "j - k < n" unfolding j(1) by auto
        then show False using x by blast
      qed
      then show ?thesis using w(1)[OF j(2)] by (simp add: b_def j(1))
    qed (use w(2) in blast)
  qed
  show "mem_get (\<lambda>j. M' (window n p q j)) k n = v" if "v < 256 ^ n"
  proof -
    have "mem_get (\<lambda>j. M' (window n p q j)) k n = mem_get b k n"
      using w(1) assms(2) by (intro mem_get_cong) simp
    then show ?thesis using that by (simp add: b_def mem.get_put_exact)
  qed
qed

subsection \<open>Words and double words\<close>

lemma page_of:
  "addr = (addr AND NOT 0xfff) + of_nat (unat (EA_Offset addr))" "unat (EA_Offset addr) < 4096" for addr :: uint32
proof -
  show "unat (EA_Offset addr) < 4096" by (rule page_split(2))
  have "unat ((addr AND NOT 0xfff) + of_nat (unat (EA_Offset addr))) = unat addr"
    using page_split(1)[of addr] unsigned_less[of addr, where ?'a = nat]
    by (simp add: unat_word_ariths)
  then show "addr = (addr AND NOT 0xfff) + of_nat (unat (EA_Offset addr))" by (simp only: word_unat_eq_iff)
qed

text \<open>Frames are whole pages, so that the end of one and the beginning of another do not overlap.\<close>

lemma frames_apart:
  fixes Q Q2 :: uint32
  assumes "4096 dvd unat Q" "4096 dvd unat Q2" "n \<in> {4, 8}"
  shows "apart (unat Q + (4097 - n)) (n - 1) (unat Q2) (n - 1)"
proof -
  obtain q q2 where "unat Q = 4096 * q" "unat Q2 = 4096 * q2" using assms(1,2) by (auto elim!: dvdE)
  moreover have "q2 \<le> q \<or> q + 1 \<le> q2" by linarith
  then have "4096 * q2 \<le> 4096 * q \<or> 4096 * q + 4096 \<le> 4096 * q2" by auto
  ultimately show ?thesis using assms(3) unfolding apart_def by (elim insertE emptyE disjE) simp_all
qed

lemma place_window:
  assumes "o' + i < 8192" "4097 - n \<le> o'" "n \<le> 4097" "o' < 4096"
  shows "place Q Q2 o' i = window n (unat Q + (4097 - n)) (unat Q2) (o' - (4097 - n) + i)"
  using assms by (auto simp: place_def window_def)

text \<open>The translations that a crossing access makes, on a machine whose memory agrees on the page tables.\<close>

lemma crossing_mapped:
  assumes "page_maps B T m P Q" "page_maps B T m (P + 4096) Q2" "frame_in_ram m Q" "frame_in_ram m Q2"
    and "\<forall>i\<in>T. M i = gMemory m i" "fl \<in> {PPC_MMU_READ, PPC_MMU_WRITE}" "n \<in> {4, 8}" "P = addr AND NOT 0xfff"
  shows "crossing n B addr fl p d f (m\<lparr>gMemory := M\<rparr>) = f (Q + of_nat (4097 - n)) Q2 (m\<lparr>gMemory := M\<rparr>)"
proof -
  have t: "ppc_effective_to_physical B (P + of_nat (4097 - n)) fl (m\<lparr>gMemory := M\<rparr>) =
      Inr ((PPC_MMU_OK, Q + of_nat (4097 - n)), m\<lparr>gMemory := M\<rparr>)"
    using page_mapsD[OF assms(1) _ assms(5,6), of "4097 - n"] assms(7) by auto
  have t2: "ppc_effective_to_physical B (P + 4096) fl (m\<lparr>gMemory := M\<rparr>) = Inr ((PPC_MMU_OK, Q2), m\<lparr>gMemory := M\<rparr>)"
    using page_mapsD[OF assms(2) _ assms(5,6), of 0] by simp
  have "Q + of_nat (4097 - n) < gMemorySize m" "Q2 < gMemorySize m"
    using frame_less[OF assms(3), of "4097 - n"] frame_less[OF assms(4), of 0] assms(7) by auto
  then show ?thesis
    using t t2 unfolding crossing_def with_physical_def assms(8)[symmetric]
    by (simp add: ppc_direct_physical_memory_handle_def)
qed

lemma cross_mapped:
  fixes m :: "'io mach"
  assumes "page_maps B T m P Q" "page_maps B T m (P + 4096) Q2" "frame_in_ram m Q" "frame_in_ram m Q2"
    and "n \<in> {4, 8}" "P = addr AND NOT 0xfff" "4096 < unat (EA_Offset addr) + n" "v < 256 ^ n"
    and "\<forall>i<n. place Q Q2 (unat (EA_Offset addr)) i \<notin> T"
  shows "\<exists>M. (\<forall>p. cross_write n B addr p v m = Inr ((PPC_MMU_OK, ()), m\<lparr>gMemory := M\<rparr>)) \<and>
    stored (place Q Q2 (unat (EA_Offset addr))) n v (gMemory m) M \<and>
    (\<forall>p d. cross_read n B addr p d (m\<lparr>gMemory := M\<rparr>) = Inr ((PPC_MMU_OK, v), m\<lparr>gMemory := M\<rparr>))"
proof -
  let ?o = "unat (EA_Offset addr)" and ?p = "unat Q + (4097 - n)" and ?q = "unat Q2"
  let ?k = "?o - (4097 - n)" and ?r = "Q + of_nat (4097 - n)"
  let ?b = "mem_put (\<lambda>j. gMemory m (window n ?p ?q j)) ?k n v"
  let ?M = "copy_bytes ?q (n - 1) (\<lambda>i. ?b (n - 1 + i)) (copy_bytes ?p (n - 1) ?b (gMemory m))"
  have o: "?o < 4096" by (rule page_of(2))
  have k: "?k + n \<le> 2 * n - 2" "4097 - n \<le> ?o" "n \<le> 4097" using o assms(5,7) by auto
  have a: "4096 dvd unat Q" "4096 dvd unat Q2" using assms(1,2) by (simp_all add: page_maps_def)
  have u: "unat ?r = ?p" using frame_unat[OF assms(3), of "4097 - n"] assms(5) by auto
  have ram: "unat ?r + (n - 1) \<le> unat (gMemorySize m)" "unat Q2 + (n - 1) \<le> unat (gMemorySize m)"
    using assms(3,4,5) unfolding u frame_in_ram_def by auto
  note ws = window_store[OF frames_apart[OF a assms(5)] k(1), where M = "gMemory m" and v = v]
  have pl: "window n ?p ?q (?k + i) = place Q Q2 ?o i" if "i < n" for i
  proof -
    have "n \<le> 8" using assms(5) by auto
    then have "?o + i < 8192" using that o by linarith
    from place_window[OF this k(2,3) o] show ?thesis by (rule sym)
  qed
  have st: "stored (place Q Q2 ?o) n v (gMemory m) ?M" by (rule stored_cong[OF ws(1) pl])
  have T: "\<forall>i\<in>T. ?M i = gMemory m i" by (rule stored_outside[OF st assms(9)])
  note c = crossing_mapped[OF assms(1-4) _ _ assms(5,6)]
  have c1: "crossing n B addr PPC_MMU_WRITE p () f m = f ?r Q2 m" for p and f :: "uint32 \<Rightarrow> uint32 \<Rightarrow> ('io, unit) rd"
    using c[of "gMemory m" PPC_MMU_WRITE] by simp
  have w: "cross_write n B addr p v m = Inr ((PPC_MMU_OK, ()), m\<lparr>gMemory := ?M\<rparr>)" for p
    unfolding cross_write_def c1 cross_buffer_window[OF ram] and_then_simps u Let_def ..
  have "unat ?r + (n - 1) \<le> unat (gMemorySize (m\<lparr>gMemory := ?M\<rparr>))" "unat Q2 + (n - 1) \<le> unat (gMemorySize (m\<lparr>gMemory := ?M\<rparr>))"
    using ram by simp_all
  note cb = cross_buffer_window[OF this]
  have c2: "crossing n B addr PPC_MMU_READ p d f (m\<lparr>gMemory := ?M\<rparr>) = f ?r Q2 (m\<lparr>gMemory := ?M\<rparr>)"
    for p d and f :: "uint32 \<Rightarrow> uint32 \<Rightarrow> ('io, nat) rd"
    by (rule c[OF T]) simp
  have r: "cross_read n B addr p d (m\<lparr>gMemory := ?M\<rparr>) = Inr ((PPC_MMU_OK, v), m\<lparr>gMemory := ?M\<rparr>)" for p d
    unfolding cross_read_def c2 cb and_then_simps u using ws(2)[OF assms(8)] by simp
  show ?thesis using w st r by blast
qed

lemma in_page_mapped:
  assumes "page_maps B T m P Q" "frame_in_ram m Q" "P = addr AND NOT 0xfff" "unat (EA_Offset addr) + n \<le> 4096" "0 < n"
    and "v < 256 ^ n" "\<forall>i<n. place Q Q2 (unat (EA_Offset addr)) i \<notin> T"
  defines "p \<equiv> Q + of_nat (unat (EA_Offset addr))"
  defines "M \<equiv> mem_put (gMemory m) (unat p) n v"
  shows "ppc_effective_to_physical B addr PPC_MMU_WRITE m = Inr ((PPC_MMU_OK, p), m)"
    "ppc_effective_to_physical B addr PPC_MMU_READ (m\<lparr>gMemory := M\<rparr>) = Inr ((PPC_MMU_OK, p), m\<lparr>gMemory := M\<rparr>)"
    "p < gMemorySize m" "unat p + n \<le> unat (gMemorySize m)" "stored (place Q Q2 (unat (EA_Offset addr))) n v (gMemory m) M"
proof -
  let ?o = "unat (EA_Offset addr)"
  have o: "?o < 4096" by (rule page_of(2))
  have a: "addr = P + of_nat ?o" unfolding assms(3) by (rule page_of(1))
  have u: "unat p = unat Q + ?o" unfolding p_def by (rule frame_unat[OF assms(2) o])
  show "p < gMemorySize m" unfolding p_def by (rule frame_less[OF assms(2) o])
  show "unat p + n \<le> unat (gMemorySize m)" using assms(2,4) unfolding u frame_in_ram_def by linarith
  show st: "stored (place Q Q2 ?o) n v (gMemory m) M"
    unfolding M_def u
  proof (rule stored_cong[OF stored_put])
    show "unat Q + ?o + i = place Q Q2 ?o i" if "i < n" for i using that assms(4) by (simp add: place_def)
  qed
  have T: "\<forall>i\<in>T. M i = gMemory m i" by (rule stored_outside[OF st assms(7)])
  show "ppc_effective_to_physical B addr PPC_MMU_WRITE m = Inr ((PPC_MMU_OK, p), m)"
    using page_mapsD[OF assms(1) o, of "gMemory m" PPC_MMU_WRITE] unfolding a[symmetric] p_def by simp
  show "ppc_effective_to_physical B addr PPC_MMU_READ (m\<lparr>gMemory := M\<rparr>) = Inr ((PPC_MMU_OK, p), m\<lparr>gMemory := M\<rparr>)"
    using page_mapsD[OF assms(1) o T, of PPC_MMU_READ] unfolding a[symmetric] p_def by simp
qed

text \<open>The translations that an access of \<open>n\<close> bytes needs: of its page, and of the next page if it crosses into that.\<close>

definition access_mapped :: "'io bus \<Rightarrow> nat set \<Rightarrow> 'io mach \<Rightarrow> uint32 \<Rightarrow> nat \<Rightarrow> uint32 \<Rightarrow> uint32 \<Rightarrow> bool" where
  "access_mapped B T m addr n Q Q2 \<longleftrightarrow>
     page_maps B T m (addr AND NOT 0xfff) Q \<and> frame_in_ram m Q \<and>
     (4096 < unat (EA_Offset addr) + n \<longrightarrow> page_maps B T m ((addr AND NOT 0xfff) + 4096) Q2 \<and> frame_in_ram m Q2) \<and>
     (\<forall>i<n. place Q Q2 (unat (EA_Offset addr)) i \<notin> T)"

lemma word_paged:
  assumes "access_mapped B T m addr 4 Q Q2"
  shows "\<exists>M. ppc_write_effective_word B addr v m = Inr (PPC_MMU_OK, m\<lparr>gMemory := M\<rparr>) \<and>
    stored (place Q Q2 (unat (EA_Offset addr))) 4 (unat v) (gMemory m) M \<and>
    ppc_read_effective_word B addr (m\<lparr>gMemory := M\<rparr>) = Inr ((PPC_MMU_OK, v), m\<lparr>gMemory := M\<rparr>)"
proof -
  have v: "unat v < 256 ^ 4" using unsigned_less[of v, where ?'a = nat] by simp
  have A: "page_maps B T m (addr AND NOT 0xfff) Q" "frame_in_ram m Q" "\<forall>i<4. place Q Q2 (unat (EA_Offset addr)) i \<notin> T"
    using assms by (simp_all add: access_mapped_def)
  have o: "unat (EA_Offset addr) < 4096" "addr = (addr AND NOT 0xfff) + of_nat (unat (EA_Offset addr))" by (rule page_of)+
  show ?thesis
  proof (cases "4096 < unat (EA_Offset addr) + 4")
    case False
    then have le: "unat (EA_Offset addr) + 4 \<le> 4096" "\<not> 4092 < EA_Offset addr" by (simp_all add: word_less_nat_alt)
    note I = in_page_mapped[OF A(1,2) refl le(1) _ v A(3)]
    show ?thesis using I le(2) v
      by (intro exI[of _ "mem_put (gMemory m) (unat (Q + of_nat (unat (EA_Offset addr)))) 4 (unat v)"])
        (simp add: ppc_write_effective_word_def ppc_read_effective_word_def ppc_read_effective_word_to_def rd_wr_def wr_rd_def
          with_physical_def ppc_write_physical_word_def ppc_read_physical_word_def ram_write_def ram_read_def mem.get_put_exact
          del: mem_put.simps mem_get.simps)
  next
    case True
    then have c: "4092 < EA_Offset addr" by (simp add: word_less_nat_alt)
    from True assms have A2: "page_maps B T m ((addr AND NOT 0xfff) + 4096) Q2" "frame_in_ram m Q2"
      by (simp_all add: access_mapped_def)
    obtain M where M: "\<forall>p. cross_write 4 B addr p (unat v) m = Inr ((PPC_MMU_OK, ()), m\<lparr>gMemory := M\<rparr>)"
      "stored (place Q Q2 (unat (EA_Offset addr))) 4 (unat v) (gMemory m) M"
      "\<forall>p d. cross_read 4 B addr p d (m\<lparr>gMemory := M\<rparr>) = Inr ((PPC_MMU_OK, unat v), m\<lparr>gMemory := M\<rparr>)"
      using cross_mapped[OF A(1) A2(1) A(2) A2(2) _ refl True v A(3)] by blast
    have T: "\<forall>i\<in>T. M i = gMemory m i" by (rule stored_outside[OF M(2) A(3)])
    have w: "ppc_effective_to_physical B addr PPC_MMU_WRITE m = Inr ((PPC_MMU_OK, Q + of_nat (unat (EA_Offset addr))), m)"
      using page_mapsD[OF A(1) o(1), of "gMemory m" PPC_MMU_WRITE] unfolding o(2)[symmetric] by simp
    have r: "ppc_effective_to_physical B addr PPC_MMU_READ (m\<lparr>gMemory := M\<rparr>) =
        Inr ((PPC_MMU_OK, Q + of_nat (unat (EA_Offset addr))), m\<lparr>gMemory := M\<rparr>)"
      using page_mapsD[OF A(1) o(1) T, of PPC_MMU_READ] unfolding o(2)[symmetric] by simp
    show ?thesis using w r M c
      by (intro exI[of _ M]) (simp add: ppc_write_effective_word_def ppc_read_effective_word_def ppc_read_effective_word_to_def
        rd_wr_def with_physical_def rd_map_def)
  qed
qed

lemma dword_paged:
  assumes "access_mapped B T m addr 8 Q Q2"
  shows "\<exists>M. ppc_write_effective_dword B addr v m = Inr (PPC_MMU_OK, m\<lparr>gMemory := M\<rparr>) \<and>
    stored (place Q Q2 (unat (EA_Offset addr))) 8 (unat v) (gMemory m) M \<and>
    ppc_read_effective_dword B addr (m\<lparr>gMemory := M\<rparr>) = Inr ((PPC_MMU_OK, v), m\<lparr>gMemory := M\<rparr>)"
proof -
  have v: "unat v < 256 ^ 8" using unsigned_less[of v, where ?'a = nat] by simp
  have A: "page_maps B T m (addr AND NOT 0xfff) Q" "frame_in_ram m Q" "\<forall>i<8. place Q Q2 (unat (EA_Offset addr)) i \<notin> T"
    using assms by (simp_all add: access_mapped_def)
  have o: "unat (EA_Offset addr) < 4096" "addr = (addr AND NOT 0xfff) + of_nat (unat (EA_Offset addr))" by (rule page_of)+
  show ?thesis
  proof (cases "4096 < unat (EA_Offset addr) + 8")
    case False
    then have le: "unat (EA_Offset addr) + 8 \<le> 4096" "\<not> 4088 < EA_Offset addr" by (simp_all add: word_less_nat_alt)
    note I = in_page_mapped[OF A(1,2) refl le(1) _ v A(3)]
    show ?thesis using I le(2) v
      by (intro exI[of _ "mem_put (gMemory m) (unat (Q + of_nat (unat (EA_Offset addr)))) 8 (unat v)"])
        (simp add: ppc_write_effective_dword_def ppc_read_effective_dword_def rd_wr_def wr_rd_def
          with_physical_def ppc_write_physical_dword_def ppc_read_physical_dword_def ram_write_def ram_read_def mem.get_put_exact
          del: mem_put.simps mem_get.simps)
  next
    case True
    then have c: "4088 < EA_Offset addr" by (simp add: word_less_nat_alt)
    from True assms have A2: "page_maps B T m ((addr AND NOT 0xfff) + 4096) Q2" "frame_in_ram m Q2"
      by (simp_all add: access_mapped_def)
    obtain M where M: "\<forall>p. cross_write 8 B addr p (unat v) m = Inr ((PPC_MMU_OK, ()), m\<lparr>gMemory := M\<rparr>)"
      "stored (place Q Q2 (unat (EA_Offset addr))) 8 (unat v) (gMemory m) M"
      "\<forall>p d. cross_read 8 B addr p d (m\<lparr>gMemory := M\<rparr>) = Inr ((PPC_MMU_OK, unat v), m\<lparr>gMemory := M\<rparr>)"
      using cross_mapped[OF A(1) A2(1) A(2) A2(2) _ refl True v A(3)] by blast
    have T: "\<forall>i\<in>T. M i = gMemory m i" by (rule stored_outside[OF M(2) A(3)])
    have w: "ppc_effective_to_physical B addr PPC_MMU_WRITE m = Inr ((PPC_MMU_OK, Q + of_nat (unat (EA_Offset addr))), m)"
      using page_mapsD[OF A(1) o(1), of "gMemory m" PPC_MMU_WRITE] unfolding o(2)[symmetric] by simp
    have r: "ppc_effective_to_physical B addr PPC_MMU_READ (m\<lparr>gMemory := M\<rparr>) =
        Inr ((PPC_MMU_OK, Q + of_nat (unat (EA_Offset addr))), m\<lparr>gMemory := M\<rparr>)"
      using page_mapsD[OF A(1) o(1) T, of PPC_MMU_READ] unfolding o(2)[symmetric] by simp
    show ?thesis using w r M c
      by (intro exI[of _ M]) (simp add: ppc_write_effective_dword_def ppc_read_effective_dword_def
        rd_wr_def with_physical_def rd_map_def)
  qed
qed

subsection \<open>How pages are mapped\<close>

lemma aligned_or: "P + of_nat k = P OR of_nat k" if "4096 dvd unat P" "k < 4096" for P :: uint32
proof -
  have "of_nat k OR P = of_nat k + P" by (rule or_aligned[of _ 12]) (use that in \<open>simp_all add: unat_of_nat\<close>)
  then show ?thesis by (simp add: or.commute add.commute)
qed

lemma offset_bits: "bit k n \<Longrightarrow> k < 4096 \<Longrightarrow> n < 12" for k n :: nat
proof (rule ccontr)
  assume b: "bit k n" and k: "k < 4096" and n: "\<not> n < 12"
  have "take_bit 12 k = k" using k by (simp add: take_bit_nat_eq_self)
  then show False using b n by (metis bit_take_bit_iff)
qed

lemma page_aligned: "4096 dvd unat P \<longleftrightarrow> P AND 0xfff = 0" for P :: uint32
  using and_mask_eq_0_iff[of P 12] by (simp add: mask_eq_exp_minus_1)

lemma page_maps_real: "real_mode m \<Longrightarrow> 4096 dvd unat P \<Longrightarrow> page_maps B {} m P P"
  by (auto simp: page_maps_def real_mode_translate)

text \<open>The BAT registers map blocks of at least 128 KB.\<close>

lemma masks:
  "(0xfff :: uint32) = mask 12" "(0xfffe0000 :: uint32) = NOT (mask 17)" "(0x1ffff :: uint32) = mask 17"
  "(0x0ffe0000 :: uint32) = push_bit 17 (mask 11)" "(0xfffff000 :: uint32) = NOT (mask 12)"
  by (simp_all add: mask_eq_exp_minus_1)

lemma bat_loop_page:
  fixes P :: uint32
  assumes "n < 4096"
  shows "bat_loop k batu up low bl (P OR of_nat n) = map_option (\<lambda>q. q OR of_nat n) (bat_loop k batu up low bl P)"
proof (induction k)
  case (Suc k)
  let ?i = "3 - k"
  have "BATU_BEPI ((P OR of_nat n) AND (bl ?i OR 0xf001ffff)) = BATU_BEPI (P AND (bl ?i OR 0xf001ffff))"
    unfolding BATU_BEPI_def masks by (rule bit_word_eqI) (auto simp: bit_simps dest: offset_bits[OF _ assms])
  moreover have "BAT_EA_OFFSET (P OR of_nat n) = BAT_EA_OFFSET P OR of_nat n"
    unfolding BAT_EA_OFFSET_def masks by (rule bit_word_eqI) (auto simp: bit_simps dest: offset_bits[OF _ assms])
  moreover have "BAT_EA_11 (P OR of_nat n) = BAT_EA_11 P"
    unfolding BAT_EA_11_def masks by (rule bit_word_eqI) (auto simp: bit_simps dest: offset_bits[OF _ assms])
  ultimately show ?case using Suc.IH by (simp add: Let_def or.assoc)
qed simp

lemma bat_loop_aligned: "bat_loop k batu up low bl P = Some Q \<Longrightarrow> P AND 0xfff = 0 \<Longrightarrow> Q AND 0xfff = 0"
proof (induction k)
  case (Suc k)
  let ?i = "3 - k"
  have "(BAT_EA_11 P AND NOT (bl ?i) OR BATL_BRPN (low ?i) OR BAT_EA_OFFSET P) AND 0xfff = 0" if "P AND 0xfff = 0"
    using that unfolding BAT_EA_11_def BATL_BRPN_def BAT_EA_OFFSET_def masks bit_eq_iff by (auto simp: bit_simps)
  then show ?case using Suc by (auto simp: Let_def or.assoc split: if_splits)
qed simp

lemma page_maps_bat:
  assumes "istrue (msr (mcpu m) AND MSR_DR)" "4096 dvd unat P"
    and "bat_loop 4 (if istrue (msr (mcpu m) AND MSR_PR) then BATU_Vp else BATU_Vs)
           (dbatu (mcpu m)) (dbatl (mcpu m)) (dbat_bl17 (mcpu m)) P = Some Q"
  shows "page_maps B {} m P Q"
proof -
  have Q: "4096 dvd unat Q" using bat_loop_aligned[OF assms(3)] assms(2) by (simp only: page_aligned)
  show ?thesis
    unfolding page_maps_def using assms(1,3) Q
    by (auto simp: aligned_or[OF assms(2)] aligned_or[OF Q] ppc_effective_to_physical_def Let_def bat_loop_page)
qed

text \<open>An entry of the primary group of the page table that was already used for a store: its reference and change bits are
  set, so that using it changes nothing.\<close>

lemma word_at_agree:
  assumes "\<forall>i\<in>{unat a..<unat a + 64}. M i = gMemory m i" "in_ram 64 a m" "i < 8"
  shows "word_at (m\<lparr>gMemory := M\<rparr>) (slot a i) = word_at m (slot a i)"
    "word_at (m\<lparr>gMemory := M\<rparr>) (slot a i + 4) = word_at m (slot a i + 4)"
proof -
  note u = unat_slot[where k = 8 and a = a and m = m and i = i]
  show "word_at (m\<lparr>gMemory := M\<rparr>) (slot a i) = word_at m (slot a i)"
    "word_at (m\<lparr>gMemory := M\<rparr>) (slot a i + 4) = word_at m (slot a i + 4)"
    using u assms unfolding word_at_def by (auto intro!: arg_cong[of _ _ of_nat] mem_get_cong)
qed

lemma page_maps_entry:
  fixes m :: "'io mach"
  defines "c \<equiv> mcpu m"
  assumes "paged PPC_MMU_READ P c" "4096 dvd unat P"
  defines "seg \<equiv> sr c (EA_SR P)"
  defines "a \<equiv> pteg_address (hash_of seg P) c"
  assumes "in_ram 64 a m" "j < 8" "\<forall>i<j. \<not> pte_matches 0 seg P (word_at m (slot a i))"
    and "pte_matches 0 seg P (word_at m (slot a j))"
  defines "e \<equiv> word_at m (slot a j + 4)"
  assumes "e OR (PTE2_C OR PTE2_R) = e" "ppc_pte_protection (pte_key (msr c) seg + PTE2_PP e)"
    "ppc_pte_protection (8 + pte_key (msr c) seg + PTE2_PP e)"
  shows "page_maps B {unat a..<unat a + 64} m P (PTE2_RPN e)"
proof -
  have Q: "4096 dvd unat (PTE2_RPN e)"
    unfolding page_aligned PTE2_RPN_def masks bit_eq_iff
    by (auto simp: bit_simps)
  have RPN: "PTE2_RPN e OR EA_Offset (P OR of_nat k) = PTE2_RPN e + of_nat k" if "k < 4096" for k
  proof -
    have "P AND 0xfff = 0" using assms(3) by (simp only: page_aligned)
    then have "EA_Offset (P OR of_nat k) = of_nat k"
      unfolding EA_Offset_def masks bit_eq_iff by (auto simp: bit_simps dest: offset_bits[OF _ that])
    then show ?thesis using aligned_or[OF Q that] by simp
  qed
  have er: "e OR PTE2_R = e" using assms(11) by (metis or.assoc or.right_idem)
  have "ppc_effective_to_physical B (P + of_nat k) f (m\<lparr>gMemory := M\<rparr>) =
      Inr ((PPC_MMU_OK, PTE2_RPN e + of_nat k), m\<lparr>gMemory := M\<rparr>)"
    if k: "k < 4096" and f: "f \<in> {PPC_MMU_READ, PPC_MMU_WRITE}" and M: "\<forall>i\<in>{unat a..<unat a + 64}. M i = gMemory m i" for k M f
  proof -
    let ?m = "m\<lparr>gMemory := M\<rparr>" and ?e = "P OR of_nat k"
    have page: "?e AND NOT 0xfff = P AND NOT 0xfff"
      unfolding masks by (rule bit_word_eqI) (auto simp: bit_simps dest: offset_bits[OF _ k])
    note same = same_page[OF page]
    have pm: "pte_matches 0 seg ?e x = pte_matches 0 seg P x" for x by (simp add: pte_matches_def same)
    have pg: "paged f ?e (mcpu ?m)"
      using assms(2) f unfolding paged_def c_def by (auto simp: Let_def bat_loop_page[OF k] same)
    note w = word_at_agree[OF M assms(6)]
    have loop: "pteg_loop 8 B 0 ?e f seg a ?m = Inr (Some (PPC_MMU_OK, PTE2_RPN e OR EA_Offset ?e), put_word (slot a j + 4) e ?m)"
    proof -
      have e: "word_at ?m (slot a j + 4) = e" using w(2)[OF assms(7)] by (simp add: e_def)
      have "\<forall>i<j. \<not> pte_matches 0 seg ?e (word_at ?m (slot a i))" using assms(7,8) w(1) pm by auto
      moreover have "pte_matches 0 seg ?e (word_at ?m (slot a j))" using assms(9) w(1)[OF assms(7)] pm by simp
      moreover have "in_ram (8 * 8) a ?m" using assms(6) by simp
      moreover have "ppc_pte_protection ((if istrue (f AND PPC_MMU_WRITE) then 8 else 0) + pte_key (msr (mcpu ?m)) seg + PTE2_PP (word_at ?m (slot a j + 4)))"
        using assms(12,13) f unfolding e by (auto simp: c_def mmu_flag_defs)
      ultimately show ?thesis
        using pteg_hit[of j 8 0 seg ?e ?m a f B] assms(7,11) er unfolding e by simp
    qed
    have "put_word (slot a j + 4) e ?m = ?m"
    proof -
      have "e = word_at ?m (slot a j + 4)" using w(2)[OF assms(7)] by (simp add: e_def)
      moreover have "put_word b (word_at ?m b) ?m = ?m" for b
        using mem.get_less[of M "unat b" 4] by (simp add: put_word_def word_at_def unat_of_nat mem.put_get del: mem_put.simps mem_get.simps)
      ultimately show ?thesis by metis
    qed
    with loop pg show ?thesis
      unfolding aligned_or[OF assms(3) k]
      by (simp add: paged_translate page_translate_def Let_def same RPN[OF k] seg_def a_def c_def)
  qed
  then show ?thesis unfolding page_maps_def using Q by blast
qed

text \<open>C23: Words and double words that the guest stores through the address translation, at any alignment.  The page of the
  address is mapped to one frame of guest memory and, if the access crosses the page, the next page to another frame, which
  need not be the next one.  The store puts the bytes of the value, most significant first, at the places where the
  translation maps the addresses, the first part at the end of the first frame and the rest at the beginning of the second,
  changes nothing else, and the load from the same address returns the value.  (Pages are mapped so by switching the
  translation off, by a BAT register, and by an entry of the page table that was used: \<open>page_maps_real\<close>, \<open>page_maps_bat\<close> and
  \<open>page_maps_entry\<close>; the access must not hit the page table itself.)\<close>

theorem effective_access_paged:
  "(access_mapped B T m addr 4 Q Q2 \<longrightarrow>
     (\<exists>M. ppc_write_effective_word B addr v m = Inr (PPC_MMU_OK, m\<lparr>gMemory := M\<rparr>) \<and>
       stored (place Q Q2 (unat (EA_Offset addr))) 4 (unat v) (gMemory m) M \<and>
       ppc_read_effective_word B addr (m\<lparr>gMemory := M\<rparr>) = Inr ((PPC_MMU_OK, v), m\<lparr>gMemory := M\<rparr>))) \<and>
   (access_mapped B T m addr 8 Q Q2 \<longrightarrow>
     (\<exists>M. ppc_write_effective_dword B addr w m = Inr (PPC_MMU_OK, m\<lparr>gMemory := M\<rparr>) \<and>
       stored (place Q Q2 (unat (EA_Offset addr))) 8 (unat w) (gMemory m) M \<and>
       ppc_read_effective_dword B addr (m\<lparr>gMemory := M\<rparr>) = Inr ((PPC_MMU_OK, w), m\<lparr>gMemory := M\<rparr>)))"
  using word_paged dword_paged by blast

text \<open>Two blocks of 128 KB that follow each other for the guest, mapped by two BAT registers far apart and in the opposite
  order: a word across their boundary has its first byte at the end of one and three at the beginning of the other.\<close>

definition bat_mach :: "unit mach" where
  "bat_mach = \<lparr>mcpu = (ppc_cpu_init 0)\<lparr>msr := MSR_DR, dbatu := (\<lambda>i. if i = 0 then 0x40000002 else if i = 1 then 0x40020002 else 0),
      dbatl := (\<lambda>i. if i = 0 then 0x00060002 else if i = 1 then 0x00020002 else 0), dbat_bl17 := (\<lambda>_. NOT 0)\<rparr>,
     gMemory = (\<lambda>_. 0), gMemorySize = 0x100000, io = ()\<rparr>"

lemma bat_loop_4: "bat_loop 4 = bat_loop (Suc (Suc (Suc (Suc 0))))"
  by (rule arg_cong[of _ _ bat_loop]) simp

lemma bat_mach_maps:
  "page_maps B {} bat_mach 0x4001f000 0x0007f000" "page_maps B {} bat_mach 0x40020000 0x00020000"
proof -
  show "page_maps B {} bat_mach 0x4001f000 0x0007f000"
    by (rule page_maps_bat[unfolded bat_loop_4])
      (simp_all add: bat_mach_def msr_defs BATU_BEPI_def BATL_BRPN_def BAT_EA_OFFSET_def BAT_EA_11_def BATU_Vs_def Let_def)
  show "page_maps B {} bat_mach 0x40020000 0x00020000"
    by (rule page_maps_bat[unfolded bat_loop_4])
      (simp_all add: bat_mach_def msr_defs BATU_BEPI_def BATL_BRPN_def BAT_EA_OFFSET_def BAT_EA_11_def BATU_Vs_def Let_def)
qed

theorem effective_access_paged_witness:
  "\<exists>M. ppc_write_effective_word no_devices 0x4001ffff 0x11223344 bat_mach = Inr (PPC_MMU_OK, bat_mach\<lparr>gMemory := M\<rparr>) \<and>
     M 0x7ffff = 0x11 \<and> M 0x20000 = 0x22 \<and> M 0x20002 = 0x44 \<and> M 0x80000 = 0 \<and>
     ppc_read_effective_word no_devices 0x4001ffff (bat_mach\<lparr>gMemory := M\<rparr>) = Inr ((PPC_MMU_OK, 0x11223344), bat_mach\<lparr>gMemory := M\<rparr>)"
proof -
  have p: "0x4001ffff AND NOT (0xfff :: uint32) = 0x4001f000" "EA_Offset 0x4001ffff = 0xfff" by (simp_all add: EA_Offset_def)
  have "access_mapped no_devices {} bat_mach 0x4001ffff 4 0x0007f000 0x00020000"
    unfolding access_mapped_def p using bat_mach_maps by (simp add: frame_in_ram_def bat_mach_def)
  from effective_access_paged[THEN conjunct1, THEN mp, OF this, of "0x11223344"] obtain M where
    M: "ppc_write_effective_word no_devices 0x4001ffff 0x11223344 bat_mach = Inr (PPC_MMU_OK, bat_mach\<lparr>gMemory := M\<rparr>)"
    "stored (place 0x0007f000 0x00020000 4095) 4 0x11223344 (\<lambda>_. 0) M"
    "ppc_read_effective_word no_devices 0x4001ffff (bat_mach\<lparr>gMemory := M\<rparr>) = Inr ((PPC_MMU_OK, 0x11223344), bat_mach\<lparr>gMemory := M\<rparr>)"
    unfolding p by (auto simp: bat_mach_def)
  have "M (place 0x0007f000 0x00020000 4095 0) = 0x11" "M (place 0x0007f000 0x00020000 4095 1) = 0x22"
    "M (place 0x0007f000 0x00020000 4095 3) = 0x44"
    using M(2) unfolding stored_def by auto
  moreover have "0x80000 \<notin> place 0x0007f000 0x00020000 4095 ` {..<4}" by (auto simp: place_def)
  then have "M 0x80000 = 0" using M(2) unfolding stored_def by blast
  ultimately show ?thesis using M(1,3) by (auto simp: place_def)
qed

end
