(* ===== verification/Ppc_Arith.thy ===== *)
theory Ppc_Arith
  imports Ppc_Concrete
begin

text \<open>
  What the interpreter's integer computations (Ppc_Concrete) compute: carries as the overflow
  of the unsigned sum, rotation as \<open>word_rotl\<close>, the shift loops as arithmetic shift and carry,
  the leading-zero loop, the high words of the products, and the rotate masks bit by bit.
\<close>

unbundle bit_operations_syntax

subsection \<open>Carries\<close>

lemma uint_add32: "uint (a + b) = (if uint a + uint b < 2 ^ 32 then uint a + uint b else uint a + uint b - 2 ^ 32)"
  for a b :: uint32
  using uint_plus_if'[of a b] by (simp add: not_less)

lemma carry_add_iff: "carry_add a b \<longleftrightarrow> 2 ^ 32 \<le> uint a + uint b"
  using uint_lt2p[of a] uint_lt2p[of b]
  by (simp add: carry_add_def word_less_def uint_add32)

lemma carry_3_iff:
  assumes "c \<le> 1"
  shows "carry_3 a b c \<longleftrightarrow> 2 ^ 32 \<le> uint a + uint b + uint c"
proof -
  obtain A B C where e: "uint a = A" "uint b = B" "uint c = C" by blast
  have "C \<le> 1" "0 \<le> C" using assms uint_ge_0[of c] unfolding word_le_def e by simp_all
  moreover have "0 \<le> A" "0 \<le> B" "A < 2 ^ 32" "B < 2 ^ 32"
    using uint_lt2p[of a] uint_lt2p[of b] uint_ge_0[of a] uint_ge_0[of b] unfolding e by simp_all
  ultimately show ?thesis
    unfolding carry_3_def word_less_def uint_add32 e by auto
qed

lemma uint_carry_3:
  assumes "c \<le> 1"
  shows "uint (a + b + c) + (if carry_3 a b c then 2 ^ 32 else 0) = uint a + uint b + uint c"
proof -
  obtain A B C where e: "uint a = A" "uint b = B" "uint c = C" by blast
  have "C \<le> 1" "0 \<le> C" using assms uint_ge_0[of c] unfolding word_le_def e by simp_all
  moreover have "0 \<le> A" "0 \<le> B" "A < 2 ^ 32" "B < 2 ^ 32"
    using uint_lt2p[of a] uint_lt2p[of b] uint_ge_0[of a] uint_ge_0[of b] unfolding e by simp_all
  ultimately show ?thesis
    unfolding carry_3_iff[OF assms] uint_add32 e by auto
qed

lemma uint_carry_add:
  "uint (a + b) + (if carry_add a b then 2 ^ 32 else 0) = uint a + uint b"
  by (simp add: carry_add_iff uint_add32)

subsection \<open>Rotation and masks\<close>

lemma ppc_rotl_eq: "ppc_rotl a w = word_rotl (unat (w AND 0x1f)) a"
proof (rule bit_word_eqI)
  fix n assume "n < LENGTH(32)"
  then have n: "n < 32" by simp
  define k where "k = unat (w AND 0x1f)"
  have k: "k < 32" by (simp add: k_def)
  show "bit (ppc_rotl a w) n = bit (word_rotl (unat (w AND 0x1f)) a) n"
  proof (cases "k = 0")
    case True
    then show ?thesis using n k unfolding k_def
      by (auto simp: ppc_rotl_def Let_def shl32_def shr32_def bit_word_rotl_iff)
  next
    case False
    have m: "(n + 32 - k) mod 32 = (if k \<le> n then n - k else n + 32 - k)"
      using n k False by (auto simp: mod_if)
    have m32: "(32 - k) mod 32 = 32 - k" using False k by simp
    show ?thesis using n k False m unfolding k_def[symmetric]
      by (simp add: ppc_rotl_def Let_def k_def[symmetric] bit_word_rotl_iff bit_or_iff shl32_def shr32_def
        bit_push_bit_iff bit_drop_bit_eq m32)
       (auto dest: bit_imp_le_length simp: not_le add.commute)
  qed
qed

lemma ppc_mask_bit:
  assumes "MB < 32" "ME < 32" "n < 32" "MB \<noteq> ME + 1"
  shows "bit (ppc_mask MB ME) (31 - n) \<longleftrightarrow> (if MB \<le> ME then MB \<le> n \<and> n \<le> ME else MB \<le> n \<or> n \<le> ME)"
proof (cases "MB \<le> ME")
  case True
  show ?thesis
  proof (cases "ME - MB = 31")
    case f: True
    then have "MB = 0" "ME = 31" using assms by auto
    then have "ppc_mask MB ME = - 1" by (simp add: ppc_mask_def)
    then show ?thesis using \<open>MB = 0\<close> \<open>ME = 31\<close> assms by (simp only: bit_minus_1_iff) simp
  next
    case False
    then show ?thesis using True assms
     by (simp add: ppc_mask_def bit_push_bit_iff bit_mask_iff del: One_nat_def flip: mask_eq_exp_minus_1) auto
  qed
next
  case False
  have "32 - MB + ME + 1 < 32" using False assms by auto
  moreover have "(31 - ME) mod 32 = 31 - ME" "31 - ME > 0" using False assms by auto
  moreover have "32 - (31 - ME) = ME + 1" "ME + 1 < 32" using False assms by auto
  ultimately show ?thesis using False assms
    by (simp add: ppc_mask_def Let_def bit_or_iff bit_push_bit_iff bit_drop_bit_eq bit_mask_iff del: One_nat_def flip: mask_eq_exp_minus_1) auto
qed

lemma ppc_mask_wrap_0: "ME < 31 \<Longrightarrow> ppc_mask (ME + 1) ME = 0"
  by (simp add: ppc_mask_def shl32_def shr32_def)

subsection \<open>Arithmetic shift right\<close>

lemma msb32_iff: "a AND 0x80000000 = 0 \<longleftrightarrow> \<not> bit a 31" for a :: uint32
  using and_exp_eq_0_iff[of a 31] by simp

text \<open>Bit \<open>i\<close> of the infinite sign extension of a negative word.\<close>

definition ext1 :: "uint32 \<Rightarrow> nat \<Rightarrow> bool" where
  "ext1 a i \<longleftrightarrow> 32 \<le> i \<or> bit a i"

lemma ext1_step: "bit a 31 \<Longrightarrow> ext1 (drop_bit (Suc 0) a OR 0x80000000) i = ext1 a (Suc i)"
proof -
  assume a: "bit a 31"
  have "bit (0x80000000 :: uint32) i \<longleftrightarrow> i = 31"
    using bit_exp_iff[of 31 i, where 'a=uint32] bit_imp_le_length[of "0x80000000 :: uint32" i] by auto
  moreover have "bit a (Suc i) \<Longrightarrow> i < 31" using bit_imp_le_length[of a "Suc i"] by simp
  ultimately show ?thesis using a
    by (cases "i = 31") (auto simp: ext1_def bit_or_iff bit_drop_bit_eq)
qed

lemma sraw_loop_value:
  assumes "bit a 31"
  shows "n < 32 \<Longrightarrow> bit (fst (sraw_loop k a c)) n = ext1 a (n + k)"
  using assms
proof (induction k arbitrary: a c)
  case 0
  then show ?case by (simp add: ext1_def)
next
  case (Suc k)
  let ?a = "drop_bit (Suc 0) a OR 0x80000000 :: uint32"
  have "bit ?a 31" using ext1_step[OF Suc.prems(2), of 31] by (simp add: ext1_def)
  from Suc.IH[OF Suc.prems(1) this] show ?case
    by (simp add: ext1_step[OF Suc.prems(2)])
qed

lemma sraw_loop_carry:
  assumes "bit a 31"
  shows "snd (sraw_loop k a c) \<longleftrightarrow> c \<or> (\<exists>i<k. ext1 a i)"
  using assms
proof (induction k arbitrary: a c)
  case 0
  then show ?case by simp
next
  case (Suc k)
  let ?a = "drop_bit (Suc 0) a OR 0x80000000 :: uint32"
  have b: "bit ?a 31" using ext1_step[OF Suc.prems, of 31] by (simp add: ext1_def)
  have z: "bit a 0 = ext1 a 0" by (simp add: ext1_def)
  have "(\<exists>i<Suc k. ext1 a i) \<longleftrightarrow> ext1 a 0 \<or> (\<exists>i<k. ext1 a (Suc i))"
    by (rule Ex_less_Suc2)
  then show ?case
    by (simp add: Suc.IH[OF b] ext1_step[OF Suc.prems] and_1_eq_0_iff z disj_ac del: ex_simps)
qed

lemma ppc_sraw_value: "fst (ppc_sraw a sh) = signed_drop_bit (unat (sh AND 0x3f)) a"
proof (rule bit_word_eqI)
  fix n assume "n < LENGTH(32)"
  then have n: "n < 32" by simp
  obtain k where k: "unat (sh AND 0x3f) = k" by blast
  have s: "bit (signed_drop_bit k a) n = bit a (if n + k < 32 then n + k else 31)"
  proof -
    have "(32 - k \<le> n \<and> n < 32) = (\<not> n + k < 32)" using n by auto
    moreover have "LENGTH(32) = 32" "LENGTH(32) - Suc 0 = 31" by simp_all
    ultimately show ?thesis by (simp only: bit_signed_drop_bit_iff add.commute[of k n] if_not_P split: if_split) auto
  qed
  show "bit (fst (ppc_sraw a sh)) n = bit (signed_drop_bit (unat (sh AND 0x3f)) a) n"
  proof (cases "bit a 31")
    case True
    then show ?thesis unfolding k s
      using sraw_loop_value[OF True n, of k False] 
      by (simp add: ppc_sraw_def Let_def msb32_iff k ext1_def not_less)
  next
    case False
    have "31 < sh AND 0x3f \<longleftrightarrow> \<not> k < 32" using k by (simp add: word_less_nat_alt not_less) arith
    moreover have "\<not> bit a j" if "31 \<le> j" for j
      using False that bit_imp_le_length[of a j] by (cases "j = 31") auto
    ultimately show ?thesis using False unfolding k s
      by (simp add: ppc_sraw_def Let_def msb32_iff k bit_drop_bit_eq ac_simps)
  qed
qed

lemma ppc_sraw_carry:
  "snd (ppc_sraw a sh) \<longleftrightarrow> bit a 31 \<and> (\<exists>i<unat (sh AND 0x3f). ext1 a i)"
  by (cases "bit a 31") (simp_all add: sraw_loop_carry ppc_sraw_def Let_def msb32_iff)

subsection \<open>Leading zeros\<close>

lemma cntlzw_loop_spec:
  assumes "k \<le> 32" and "\<forall>i. k \<le> i \<longrightarrow> \<not> bit v i"
  shows "cntlzw_loop k v (if k = 0 then 0 else 2 ^ (k - 1)) = n \<longleftrightarrow> n \<le> 32 \<and> 32 - k \<le> n \<and> (\<forall>i. 32 - n \<le> i \<longrightarrow> \<not> bit v i) \<and> (n < 32 \<longrightarrow> bit v (31 - n))"
  using assms
proof (induction k)
  case 0
  then show ?case by auto
next
  case (Suc k)
  have dr: "drop_bit 1 (2 ^ k :: uint32) = (if k = 0 then 0 else 2 ^ (k - 1))"
    by (rule bit_word_eqI) (use Suc.prems in \<open>auto simp: bit_simps\<close>)
  show ?case
  proof (cases "bit v k")
    case True
    have "v AND 2 ^ k \<noteq> 0" using True Suc.prems by (simp add: and_exp_eq_0_iff)
    moreover have "31 - k = n \<longleftrightarrow> n \<le> 32 \<and> 32 - Suc k \<le> n
      \<and> (\<forall>i. 32 - n \<le> i \<longrightarrow> \<not> bit v i) \<and> (n < 32 \<longrightarrow> bit v (31 - n))" (is "?l = ?r")
    proof
      assume n: "?l"
      then have "32 - n = Suc k" "31 - n = k" using Suc.prems by auto
      with n True Suc.prems show ?r by auto
    next
      assume r: ?r
      have "\<not> 31 - k < n"
      proof
        assume "31 - k < n"
        then have "32 - n \<le> k" by arith
        with r True show False by blast
      qed
      with r show ?l by auto
    qed
    ultimately show ?thesis by simp
  next
    case False
    then have "\<forall>i. k \<le> i \<longrightarrow> \<not> bit v i" using Suc.prems by (metis le_antisym not_less_eq_eq)
    then have "cntlzw_loop k v (if k = 0 then 0 else 2 ^ (k - 1)) = n \<longleftrightarrow> n \<le> 32 \<and> 32 - k \<le> n \<and> (\<forall>i. 32 - n \<le> i \<longrightarrow> \<not> bit v i) \<and> (n < 32 \<longrightarrow> bit v (31 - n))"
      using Suc.IH Suc.prems by simp
    moreover have "cntlzw_loop (Suc k) v (2 ^ k) = cntlzw_loop k v (if k = 0 then 0 else 2 ^ (k - 1))"
      using False by (simp only: cntlzw_loop.simps and_exp_eq_0_iff dr) simp
    moreover have "32 - k \<le> n \<longleftrightarrow> 32 - Suc k \<le> n"
      if "n \<le> 32" "n < 32 \<longrightarrow> bit v (31 - n)"
    proof -
      have "n \<noteq> 31 - k"
        using that False Suc.prems(1) by (auto simp: diff_diff_cancel)
      then show ?thesis by auto
    qed
    ultimately show ?thesis by auto
  qed
qed

subsection \<open>Products, quotients and sign extension\<close>

lemma uint_ppc_mulhu: "uint (ppc_mulhu a b) = uint a * uint b div 2 ^ 32"
proof -
  have r: "uint a * uint b < 2 ^ 32 * 2 ^ 32"
    using mult_strict_mono[of "uint a" "2 ^ 32" "uint b" "2 ^ 32"] uint_lt2p[of a] uint_lt2p[of b] by simp
  have u: "uint (ucast x :: uint64) = uint x" for x :: uint32
    using uint_lt2p[of x] by (simp add: unsigned_ucast_eq take_bit_int_eq_self)
  have "uint (ucast a * ucast b :: uint64) = uint a * uint b"
    using r by (simp add: uint_word_ariths(3) u)
  moreover have "uint a * uint b div 2 ^ 32 < 2 ^ 32"
    using r by (simp add: div_less_iff_less_mult)
  ultimately show ?thesis
    using take_bit_int_eq_self[of "uint a * uint b div 2 ^ 32" 32]
    by (simp add: ppc_mulhu_def Let_def unsigned_ucast_eq unsigned_drop_bit_eq drop_bit_eq_div uint_div pos_imp_zdiv_nonneg_iff)
qed

lemma ppc_div_u_spec: "b \<noteq> 0 \<Longrightarrow> \<exists>q. ppc_div_u a b = Inr q \<and> unat q = unat a div unat b"
  by (simp add: ppc_div_u_def unat_div)

lemma sint_ppc_mulhs: "sint (ppc_mulhs a b) = sint a * sint b div 2 ^ 32"
proof -
  have A: "- (2^31) \<le> sint a" "sint a < 2^31" using sint_ge[of a] sint_lt[of a] by simp_all
  have B: "- (2^31) \<le> sint b" "sint b < 2^31" using sint_ge[of b] sint_lt[of b] by simp_all
  have le: "\<bar>sint a * sint b\<bar> \<le> 2 ^ 31 * 2 ^ 31"
    unfolding abs_mult using A B by (intro mult_mono) auto
  define p where "p = sint a * sint b"
  have p: "- (2 ^ 62) \<le> p" "p \<le> 2 ^ 62" using le unfolding p_def by (auto simp: abs_le_iff)
  have d: "p div 2 ^ 32 = drop_bit 32 p" by (simp add: drop_bit_eq_div)
  have "ppc_mulhs a b = word_of_int (p div 2 ^ 32)"
    unfolding ppc_mulhs_def Let_def p_def[symmetric] d
    by (rule bit_word_eqI) (simp add: bit_simps)
  moreover have "- (2^31) \<le> p div 2 ^ 32" "p div 2 ^ 32 < 2 ^ 31" using p by (auto simp: )
  ultimately show ?thesis unfolding p_def[symmetric]
    by (simp add: sint_sbintrunc' signed_take_bit_int_eq_self)
qed

lemma ppc_extend_sign_byte_eq: "ppc_extend_sign_byte a = scast (ucast a :: 8 word)"
proof -
  have "a AND 0x80 = 0 \<longleftrightarrow> \<not> bit a 7" using and_exp_eq_0_iff[of a 7] by simp
  then show ?thesis unfolding ppc_extend_sign_byte_def
    by (intro bit_word_eqI) (auto simp: bit_simps not_less min_def numeral_eq_Suc less_Suc_eq)
qed

lemma ppc_extend_sign_half_eq: "ppc_extend_sign_half a = scast (ucast a :: 16 word)"
proof -
  have "a AND 0x8000 = 0 \<longleftrightarrow> \<not> bit a 15" using and_exp_eq_0_iff[of a 15] by simp
  then show ?thesis unfolding ppc_extend_sign_half_def
    by (intro bit_word_eqI) (auto simp: bit_simps not_less min_def numeral_eq_Suc less_Suc_eq)
qed

lemma ppc_neg_eq: "ppc_neg a = - a"
  by (simp add: ppc_neg_def)

lemma ppc_div_s_spec:
  assumes "b \<noteq> 0" "\<not> (a = 0x80000000 \<and> b = 0xffffffff)"
  shows "ppc_div_s a b = Inr (word_of_int (sint a sdiv sint b))"
  using assms by (simp add: ppc_div_s_def)

end
