(* ===== verification/Ppc_Insn_Props.thy ===== *)
theory Ppc_Insn_Props
  imports Ppc_Alu Ppc_Arith
begin

text \<open>
  What sequences of the interpreter's integer instructions compute: double-word addition, subtraction and
  multiplication, signed division by a power of two, field extraction, leading zeros, comparison, and the
  divisions the host leaves undefined.
\<close>

unbundle bit_operations_syntax

definition exec :: "(cpu \<Rightarrow> cpu_error + cpu) \<Rightarrow> uint32 \<Rightarrow> cpu \<Rightarrow> cpu_error + cpu" where
  "exec h opc c = h (c\<lparr>current_opc := opc\<rparr>)"

definition pair64 :: "uint32 \<Rightarrow> uint32 \<Rightarrow> int" where
  "pair64 h l = uint h * 2 ^ 32 + uint l"

lemma read_xer_ca_write [simp]: "read_xer_ca (write_xer_ca b c) = (if b then 1 else 0)"
proof -
  have x: "bit XER_CA n \<longleftrightarrow> n = 29" for n
    unfolding XER_CA_def by (simp only: bit_push_bit_iff bit_1_iff) auto
  have z: "w AND XER_CA = 0 \<longleftrightarrow> \<not> bit w 29" for w :: uint32
    using and_push_1_eq_0_iff[of w 29] by (simp add: XER_CA_def)
  show ?thesis by (auto simp: read_xer_ca_def write_xer_ca_def z x bit_simps)
qed

lemma rc_simps [simp]:
  "gpr (sem_rc concrete_sem opc v c) = gpr c" "read_xer_ca (sem_rc concrete_sem opc v c) = read_xer_ca c"
  "read_xer_ca (c\<lparr>current_opc := x\<rparr>) = read_xer_ca c" "gpr (write_xer_ca b c) = gpr c"
  by (simp_all add: sem_rc_def concrete_sem_def write_cr0_from_result_def read_xer_ca_def write_xer_ca_def Let_def)

lemma concrete_selectors [simp]:
  "s_read_gpr concrete_sem = (\<lambda>r c. (gpr c r, c))" "s_write_gpr concrete_sem = write_gpr"
  "s_read_xer_ca concrete_sem = (\<lambda>c. (read_xer_ca c, c))" "s_write_xer_ca concrete_sem = write_xer_ca"
  "s_imm concrete_sem = (\<lambda>v. v)" "s_add concrete_sem = (\<lambda>a b. a + b)" "s_and concrete_sem = (\<lambda>a b. a AND b)"
  "s_or concrete_sem = (\<lambda>a b. a OR b)" "s_not concrete_sem = (\<lambda>a. NOT a)" "s_mul concrete_sem = (\<lambda>a b. a * b)"
  "s_mulhs concrete_sem = ppc_mulhs" "s_mulhu concrete_sem = ppc_mulhu" "s_div_s concrete_sem = ppc_div_s"
  "s_div_u concrete_sem = ppc_div_u" "s_sraw concrete_sem = (\<lambda>a sh c. (ppc_sraw a sh, c))" "s_rotl concrete_sem = ppc_rotl"
  "s_mask concrete_sem = ppc_mask" "s_cntlzw concrete_sem = ppc_cntlzw" "s_carry_add concrete_sem = carry_add"
  "s_carry_3 concrete_sem = carry_3" "s_write_cr_field_signed concrete_sem = write_cr_field_signed"
  "s_write_cr_field_unsigned concrete_sem = write_cr_field_unsigned"
  by (simp_all add: concrete_sem_def)

lemma gpr_write_gpr [simp]: "gpr (write_gpr r v c) = (gpr c)(r := v)" 
  by (simp add: write_gpr_def)

lemma ca_le_1: "read_xer_ca c \<le> 1"
  by (simp add: read_xer_ca_def)

lemma run_sem_exec: "exec (run_sem t) opc c = Inr (t concrete_sem opc (c\<lparr>current_opc := opc\<rparr>))"
  by (simp add: exec_def run_sem_def)

lemma addcx_effect:
  assumes "PPC_OPC_TEMPL_XO opc = (rD, rA, rB)" "exec ppc_opc_addcx opc c = Inr c'"
  shows "gpr c' = (gpr c)(rD := gpr c rA + gpr c rB)"
    "read_xer_ca c' = (if carry_add (gpr c rA) (gpr c rB) then 1 else 0)"
  using assms by (auto simp: ppc_opc_addcx_def run_sem_exec ppc_sem_addcx_def Let_def)

lemma addex_effect:
  assumes "PPC_OPC_TEMPL_XO opc = (rD, rA, rB)" "exec ppc_opc_addex opc c = Inr c'"
  shows "gpr c' = (gpr c)(rD := gpr c rA + gpr c rB + read_xer_ca c)"
  using assms by (auto simp: ppc_opc_addex_def run_sem_exec ppc_sem_addex_def Let_def)

lemma subfcx_effect:
  assumes "PPC_OPC_TEMPL_XO opc = (rD, rA, rB)" "exec ppc_opc_subfcx opc c = Inr c'"
  shows "gpr c' = (gpr c)(rD := NOT (gpr c rA) + gpr c rB + 1)"
    "read_xer_ca c' = (if carry_3 (NOT (gpr c rA)) (gpr c rB) 1 then 1 else 0)"
  using assms by (auto simp: ppc_opc_subfcx_def run_sem_exec ppc_sem_subfcx_def Let_def)

lemma subfex_effect:
  assumes "PPC_OPC_TEMPL_XO opc = (rD, rA, rB)" "exec ppc_opc_subfex opc c = Inr c'"
  shows "gpr c' = (gpr c)(rD := NOT (gpr c rA) + gpr c rB + read_xer_ca c)"
  using assms by (auto simp: ppc_opc_subfex_def run_sem_exec ppc_sem_subfex_def Let_def)

subsection \<open>Double-word arithmetic\<close>

lemma mod_without_carry:
  "0 \<le> x \<Longrightarrow> x < 2 ^ 64 \<Longrightarrow> x = (x + (if p then 2 ^ 64 else 0)) mod 2 ^ 64" for x :: int
  by simp

lemma pair64_range: "0 \<le> pair64 h l" "pair64 h l < 2 ^ 64"
  using uint_lt2p[of h] uint_lt2p[of l] uint_ge_0[of h] uint_ge_0[of l] by (simp_all add: pair64_def)

lemma pair64_eqI: "pair64 h l + (if p then 2 ^ 64 else 0) = x \<Longrightarrow> pair64 h l = x mod 2 ^ 64"
  using mod_without_carry[OF pair64_range, of h l p] by simp

lemma uint_not: "uint (NOT a) = 2 ^ 32 - 1 - uint a" for a :: uint32
proof -
  have "NOT a = (- 1) - a" by (simp add: not_eq_complement)
  then have "uint (NOT a) = uint (- 1 :: uint32) - uint a"
    using uint_sub_if'[of "- 1" a] word_n1_ge[of a] by (simp add: word_le_def)
  then show ?thesis by (simp add: unsigned_minus_1_eq_mask mask_eq_exp_minus_1)
qed

text \<open>\<open>addc\<close> on the low and \<open>adde\<close> on the high words add two 64-bit numbers held in register pairs, modulo
  \<open>2 ^ 64\<close>: the carry the first instruction leaves in XER is the one the second takes up.\<close>

theorem addc_adde:
  assumes "PPC_OPC_TEMPL_XO op1 = (d1, a1, b1)" "PPC_OPC_TEMPL_XO op2 = (d2, a2, b2)"
    and "d1 \<noteq> a2" "d1 \<noteq> b2" "d1 \<noteq> d2"
    and "exec ppc_opc_addcx op1 c = Inr c1" "exec ppc_opc_addex op2 c1 = Inr c2"
  shows "pair64 (gpr c2 d2) (gpr c2 d1) = (pair64 (gpr c a2) (gpr c a1) + pair64 (gpr c b2) (gpr c b1)) mod 2 ^ 64"
proof -
  note e1 = addcx_effect[OF assms(1,6)] and e2 = addex_effect[OF assms(2,7)]
  let ?l = "gpr c a1 + gpr c b1" and ?ca = "read_xer_ca c1"
  have lo: "uint ?l + 2 ^ 32 * uint ?ca = uint (gpr c a1) + uint (gpr c b1)"
    using uint_carry_add[of "gpr c a1" "gpr c b1"] by (auto simp: e1(2) split: if_splits)
  have hi: "uint (gpr c a2 + gpr c b2 + ?ca) + (if carry_3 (gpr c a2) (gpr c b2) ?ca then 2 ^ 32 else 0) =
      uint (gpr c a2) + uint (gpr c b2) + uint ?ca"
    by (rule uint_carry_3[OF ca_le_1])
  have r: "gpr c2 d2 = gpr c a2 + gpr c b2 + ?ca" "gpr c2 d1 = ?l" using assms(3-5) by (simp_all add: e1 e2)
  show ?thesis
    unfolding r by (rule pair64_eqI[where p = "carry_3 (gpr c a2) (gpr c b2) ?ca"])
      (use lo hi in \<open>simp add: pair64_def split: if_splits\<close>)
qed

text \<open>\<open>subfc\<close> and \<open>subfe\<close> subtract two 64-bit numbers held in register pairs, modulo \<open>2 ^ 64\<close>.\<close>

theorem subfc_subfe:
  assumes "PPC_OPC_TEMPL_XO op1 = (d1, a1, b1)" "PPC_OPC_TEMPL_XO op2 = (d2, a2, b2)"
    and "d1 \<noteq> a2" "d1 \<noteq> b2" "d1 \<noteq> d2"
    and "exec ppc_opc_subfcx op1 c = Inr c1" "exec ppc_opc_subfex op2 c1 = Inr c2"
  shows "pair64 (gpr c2 d2) (gpr c2 d1) = (pair64 (gpr c b2) (gpr c b1) - pair64 (gpr c a2) (gpr c a1)) mod 2 ^ 64"
proof -
  note e1 = subfcx_effect[OF assms(1,6)] and e2 = subfex_effect[OF assms(2,7)]
  let ?l = "NOT (gpr c a1) + gpr c b1 + 1" and ?ca = "read_xer_ca c1"
  have lo: "uint ?l + 2 ^ 32 * uint ?ca = uint (NOT (gpr c a1)) + uint (gpr c b1) + 1"
    using uint_carry_3[of 1 "NOT (gpr c a1)" "gpr c b1"] by (auto simp: e1(2) split: if_splits)
  have hi: "uint (NOT (gpr c a2) + gpr c b2 + ?ca) + (if carry_3 (NOT (gpr c a2)) (gpr c b2) ?ca then 2 ^ 32 else 0) =
      uint (NOT (gpr c a2)) + uint (gpr c b2) + uint ?ca"
    by (rule uint_carry_3[OF ca_le_1])
  have r: "gpr c2 d2 = NOT (gpr c a2) + gpr c b2 + ?ca" "gpr c2 d1 = ?l" using assms(3-5) by (simp_all add: e1 e2)
  let ?x = "pair64 (gpr c b2) (gpr c b1) - pair64 (gpr c a2) (gpr c a1)"
  have "pair64 (gpr c2 d2) (gpr c2 d1) = (?x + 2 ^ 64) mod 2 ^ 64"
    unfolding r by (rule pair64_eqI[where p = "carry_3 (NOT (gpr c a2)) (gpr c b2) ?ca"])
      (use lo hi in \<open>simp add: pair64_def uint_not split: if_splits\<close>)
  then show ?thesis by simp
qed

text \<open>\<open>mullw\<close> and \<open>mulhwu\<close> together compute the exact 64-bit product of two unsigned words.\<close>

theorem mulhw_mullw:
  assumes "PPC_OPC_TEMPL_XO op1 = (d1, a, b)" "PPC_OPC_TEMPL_XO op2 = (d2, a, b)" "d1 \<notin> {a, b, d2}"
    and "exec ppc_opc_mullwx op1 c = Inr c1" "exec ppc_opc_mulhwux op2 c1 = Inr c2"
  shows "pair64 (gpr c2 d2) (gpr c2 d1) = uint (gpr c a) * uint (gpr c b)"
proof -
  have r: "gpr c2 d1 = gpr c a * gpr c b" "gpr c2 d2 = ppc_mulhu (gpr c a) (gpr c b)"
    using assms by (auto simp: ppc_opc_mullwx_def ppc_opc_mulhwux_def run_sem_exec ppc_sem_mullwx_def ppc_sem_mulhwux_def Let_def)
  show ?thesis
    unfolding r by (simp add: pair64_def uint_ppc_mulhu uint_word_ariths(3))
qed

subsection \<open>Division by a power of two\<close>

lemma srawix_effect:
  assumes "PPC_OPC_TEMPL_X opc = (rS, rA, SH)" "exec ppc_opc_srawix opc c = Inr c'"
  shows "gpr c' = (gpr c)(rA := fst (ppc_sraw (gpr c rS) (of_nat SH)))"
    "read_xer_ca c' = (if snd (ppc_sraw (gpr c rS) (of_nat SH)) then 1 else 0)"
  using assms by (auto simp: ppc_opc_srawix_def run_sem_exec ppc_sem_srawix_def Let_def split_beta)

lemma addzex_effect:
  assumes "PPC_OPC_TEMPL_XO opc = (rD, rA, rB)" "exec ppc_opc_addzex opc c = Inr c'"
  shows "gpr c' = (gpr c)(rD := gpr c rA + read_xer_ca c)"
  using assms by (auto simp: ppc_opc_addzex_def run_sem_exec ppc_sem_addzex_def Let_def)

lemma sdiv_pow2: "x sdiv 2 ^ n = (if x < 0 \<and> x mod 2 ^ n \<noteq> 0 then x div 2 ^ n + 1 else x div 2 ^ n)" for x :: int
proof (cases "x < 0")
  case True
  have "x sdiv 2 ^ n = - ((- x) div 2 ^ n)"
    using True by (simp add: signed_divide_int_def)
  also have "\<dots> = (if x mod 2 ^ n \<noteq> 0 then x div 2 ^ n + 1 else x div 2 ^ n)"
    by (simp add: zdiv_zminus1_eq_if)
  finally show ?thesis using True by simp
qed (simp add: signed_divide_int_def sgn_if)

lemma shift_count: "n < 32 \<Longrightarrow> unat (of_nat n AND 0x3f :: uint32) = n"
proof -
  assume n: "n < 32"
  have m: "(0x3f :: uint32) = mask 6" by (simp add: mask_eq_exp_minus_1)
  show ?thesis using n
    by (simp only: m take_bit_eq_mask[symmetric] unsigned_take_bit_eq) (simp add: unat_of_nat take_bit_nat_eq_self)
qed

lemma sraw_carry_mod:
  assumes "n < 32"
  shows "snd (ppc_sraw v (of_nat n)) \<longleftrightarrow> sint v < 0 \<and> sint v mod 2 ^ n \<noteq> 0"
proof -
  note n = shift_count[OF assms]
  have "(\<exists>i<n. ext1 v i) \<longleftrightarrow> take_bit n (sint v) \<noteq> 0"
    using assms by (auto simp: ext1_def bit_eq_iff[of "take_bit n (sint v)"] bit_simps min_def intro: less_trans)
  moreover have "bit v 31 \<longleftrightarrow> sint v < 0" using bit_last_iff[of v] by simp
  ultimately show ?thesis by (simp add: ppc_sraw_carry n take_bit_eq_mod)
qed

text \<open>\<open>srawi\<close> followed by \<open>addze\<close> divides a signed word by a power of two rounding towards zero: the carry that the
  shift's loop collects is set exactly when a negative number loses one-bits.\<close>

theorem srawi_addze:
  assumes "PPC_OPC_TEMPL_X op1 = (rS, rA, n)" "n < 32" "PPC_OPC_TEMPL_XO op2 = (rD, rA, rB)"
    and "exec ppc_opc_srawix op1 c = Inr c1" "exec ppc_opc_addzex op2 c1 = Inr c2"
  shows "sint (gpr c2 rD) = sint (gpr c rS) sdiv 2 ^ n"
proof -
  note e1 = srawix_effect[OF assms(1,4)] and e2 = addzex_effect[OF assms(3,5)]
  define v where "v = gpr c rS"
  have n: "unat (of_nat n AND 0x3f :: uint32) = n" using assms(2) by (rule shift_count)
  have x: "- (2 ^ 31) \<le> sint v" "sint v < 2 ^ 31" using sint_ge[of v] sint_lt[of v] by simp_all
  have s: "sint (signed_drop_bit n v) = sint v div 2 ^ n"
    by (simp add: sint_signed_drop_bit_eq drop_bit_eq_div)
  have inc: "sint (signed_drop_bit n v + 1) = sint v div 2 ^ n + 1" if "sint v < 0"
  proof -
    have "sint v div 2 ^ n < 0" using that by (simp add: div_neg_pos_less0)
    moreover have "sint v \<le> sint v div 2 ^ n"
      using that zdiv_mono2_neg[of "sint v" 1 "2 ^ n"] by simp
    ultimately show ?thesis
      using x by (simp add: sint_word_ariths(1) s signed_take_bit_int_eq_self)
  qed
  have "gpr c2 rD = (if sint v < 0 \<and> sint v mod 2 ^ n \<noteq> 0 then signed_drop_bit n v + 1 else signed_drop_bit n v)"
    by (simp add: e1 e2 ppc_sraw_value n sraw_carry_mod[OF assms(2)] flip: v_def)
  then show ?thesis unfolding v_def[symmetric] by (auto simp: inc s sdiv_pow2)
qed

subsection \<open>Leading zeros, comparison, undefined divisions\<close>

lemma ppc_cntlzw_bits:
  "unat (ppc_cntlzw v) \<le> 32 \<and> (\<forall>i\<ge>32 - unat (ppc_cntlzw v). \<not> bit v i) \<and>
   (unat (ppc_cntlzw v) < 32 \<longrightarrow> bit v (31 - unat (ppc_cntlzw v)))"
proof -
  have "cntlzw_loop 32 v (if (32::nat) = 0 then 0 else 2 ^ (32 - 1)) = cntlzw_loop 32 v 0x80000000" by simp
  then have n: "cntlzw_loop 32 v 0x80000000 \<le> 32 \<and> (\<forall>i. 32 - cntlzw_loop 32 v 0x80000000 \<le> i \<longrightarrow> \<not> bit v i) \<and>
      (cntlzw_loop 32 v 0x80000000 < 32 \<longrightarrow> bit v (31 - cntlzw_loop 32 v 0x80000000))"
    using cntlzw_loop_spec[of 32 v "cntlzw_loop 32 v 0x80000000"] bit_imp_le_length[of v] by fastforce
  moreover from n have "unat (ppc_cntlzw v) = cntlzw_loop 32 v 0x80000000"
    by (simp add: ppc_cntlzw_def unat_of_nat)
  ultimately show ?thesis by simp
qed

text \<open>\<open>cntlzw\<close> counts the leading zeros: 32 for zero, and otherwise the number that places the operand between two
  consecutive powers of two.\<close>

theorem cntlzw_counts:
  assumes "PPC_OPC_TEMPL_X opc = (rS, rA, rB)" "exec ppc_opc_cntlzwx opc c = Inr c'"
  shows "(gpr c rS = 0 \<and> gpr c' rA = 32) \<or> (unat (gpr c' rA) < 32 \<and>
      2 ^ (31 - unat (gpr c' rA)) \<le> unat (gpr c rS) \<and> unat (gpr c rS) < 2 ^ (32 - unat (gpr c' rA)))"
proof -
  have r: "gpr c' rA = ppc_cntlzw (gpr c rS)"
    using assms by (auto simp: ppc_opc_cntlzwx_def run_sem_exec ppc_sem_cntlzwx_def Let_def)
  define v where "v = gpr c rS"
  define n where "n = unat (ppc_cntlzw v)"
  have b: "n \<le> 32" "\<forall>i\<ge>32 - n. \<not> bit v i" "n < 32 \<longrightarrow> bit v (31 - n)"
    using ppc_cntlzw_bits[of v] unfolding n_def by auto
  have "take_bit (32 - n) v = v" using b(2) by (intro bit_eqI) (auto simp: bit_simps, meson leI)
  then have "unat v = take_bit (32 - n) (unat v)" by (metis unsigned_take_bit_eq)
  then have hi: "unat v < 2 ^ (32 - n)" by (metis take_bit_nat_less_exp)
  show ?thesis
  proof (cases "n = 32")
    case True
    then have "v = 0" using hi by (simp add: unat_eq_0)
    moreover have "ppc_cntlzw v = 32" using True n_def by (intro word_unat_eq_iff[THEN iffD2]) simp
    ultimately show ?thesis by (simp add: r v_def)
  next
    case False
    then have "bit (unat v) (31 - n)" using b by (simp add: bit_unsigned_iff)
    moreover have "\<not> bit (unat v) (31 - n)" if "unat v < 2 ^ (31 - n)"
      using bit_take_bit_iff[of "31 - n" "unat v" "31 - n"] take_bit_nat_eq_self[OF that] by simp
    ultimately have "2 ^ (31 - n) \<le> unat v" using leI by blast
    then show ?thesis using False b(1) hi by (simp add: r n_def v_def)
  qed
qed

text \<open>C36: \<open>divw\<close> divides rounding towards zero, except for the two operand pairs whose quotient C++ leaves undefined: they reach
  the division of the host.\<close>

theorem divw_spec:
  assumes "PPC_OPC_TEMPL_XO opc = (rD, rA, rB)" "opc AND PPC_OPC_Rc = 0"
  shows "exec ppc_opc_divwx opc c =
    (if gpr c rB = 0 then Inl (Host_Undefined Div_By_Zero)
     else if sint (gpr c rA) = - (2 ^ 31) \<and> sint (gpr c rB) = - 1 then Inl (Host_Undefined Div_Overflow)
     else Inr (write_gpr rD (word_of_int (sint (gpr c rA) sdiv sint (gpr c rB))) (c\<lparr>current_opc := opc\<rparr>)))"
proof -
  have "a = 0x80000000 \<longleftrightarrow> sint a = - (2 ^ 31)" "a = 0xffffffff \<longleftrightarrow> sint a = - 1" for a :: uint32
    by (auto simp: signed_word_eqI)
  then show ?thesis
    using assms by (simp add: exec_def ppc_opc_divwx_def run_div_def ppc_sem_divwx_def ppc_div_s_def sem_rc_def Let_def)
qed

subsection \<open>Examples\<close>

lemma exec_returns: "\<exists>c'. exec (run_sem t) opc c = Inr c'"
  by (simp add: run_sem_exec)

lemmas decode_simps = PPC_OPC_TEMPL_XO_def PPC_OPC_TEMPL_X_def Let_def field5_def reg5_def

definition pair_cpu :: cpu where
  "pair_cpu = (ppc_cpu_init 0)\<lparr>gpr := (\<lambda>i. if i = 5 then 0xffffffff else if i = 7 then 2 else if i = 3 then 0xfffffff9 else 1)\<rparr>"

theorem addc_adde_witness:
  "\<exists>c1 c2. exec ppc_opc_addcx 0x7C653814 pair_cpu = Inr c1 \<and> exec ppc_opc_addex 0x7C864114 c1 = Inr c2 \<and>
     pair64 (gpr c2 4) (gpr c2 3) = 0x300000001"
proof -
  obtain c1 c2 where e: "exec ppc_opc_addcx 0x7C653814 pair_cpu = Inr c1" "exec ppc_opc_addex 0x7C864114 c1 = Inr c2"
    using exec_returns unfolding ppc_opc_addcx_def ppc_opc_addex_def by metis
  have "PPC_OPC_TEMPL_XO 0x7C653814 = (3, 5, 7)" "PPC_OPC_TEMPL_XO 0x7C864114 = (4, 6, 8)" by (simp_all add: decode_simps)
  from addc_adde[OF this _ _ _ e] show ?thesis using e by (simp add: pair64_def pair_cpu_def)
qed

theorem subfc_subfe_witness:
  "\<exists>c1 c2. exec ppc_opc_subfcx 0x7C653810 pair_cpu = Inr c1 \<and> exec ppc_opc_subfex 0x7C864110 c1 = Inr c2 \<and>
     pair64 (gpr c2 4) (gpr c2 3) = 0xffffffff00000003"
proof -
  obtain c1 c2 where e: "exec ppc_opc_subfcx 0x7C653810 pair_cpu = Inr c1" "exec ppc_opc_subfex 0x7C864110 c1 = Inr c2"
    using exec_returns unfolding ppc_opc_subfcx_def ppc_opc_subfex_def by metis
  have "PPC_OPC_TEMPL_XO 0x7C653810 = (3, 5, 7)" "PPC_OPC_TEMPL_XO 0x7C864110 = (4, 6, 8)" by (simp_all add: decode_simps)
  from subfc_subfe[OF this _ _ _ e] show ?thesis using e by (simp add: pair64_def pair_cpu_def)
qed

theorem mulhw_mullw_witness:
  "\<exists>c1 c2. exec ppc_opc_mullwx 0x7C6539D6 pair_cpu = Inr c1 \<and> exec ppc_opc_mulhwux 0x7C853816 c1 = Inr c2 \<and>
     pair64 (gpr c2 4) (gpr c2 3) = 0x1fffffffe"
proof -
  obtain c1 c2 where e: "exec ppc_opc_mullwx 0x7C6539D6 pair_cpu = Inr c1" "exec ppc_opc_mulhwux 0x7C853816 c1 = Inr c2"
    using exec_returns unfolding ppc_opc_mullwx_def ppc_opc_mulhwux_def by metis
  have "PPC_OPC_TEMPL_XO 0x7C6539D6 = (3, 5, 7)" "PPC_OPC_TEMPL_XO 0x7C853816 = (4, 5, 7)" by (simp_all add: decode_simps)
  from mulhw_mullw[OF this _ e] show ?thesis using e by (simp add: pair64_def pair_cpu_def)
qed

theorem srawi_addze_witness:
  "\<exists>c1 c2. exec ppc_opc_srawix 0x7C641670 pair_cpu = Inr c1 \<and> exec ppc_opc_addzex 0x7CA40194 c1 = Inr c2 \<and>
     sint (gpr c2 5) = - 1"
proof -
  obtain c1 c2 where e: "exec ppc_opc_srawix 0x7C641670 pair_cpu = Inr c1" "exec ppc_opc_addzex 0x7CA40194 c1 = Inr c2"
    using exec_returns unfolding ppc_opc_srawix_def ppc_opc_addzex_def by metis
  have "PPC_OPC_TEMPL_X 0x7C641670 = (3, 4, 2)" "PPC_OPC_TEMPL_XO 0x7CA40194 = (5, 4, 0)" by (simp_all add: decode_simps)
  moreover have "sint (gpr pair_cpu 3) = - 7" by (simp add: pair_cpu_def)
  ultimately show ?thesis using srawi_addze[OF _ _ _ e] e by (simp add: signed_divide_int_def)
qed

theorem cntlzw_counts_witness:
  "\<exists>c'. exec ppc_opc_cntlzwx 0x7CE40034 pair_cpu = Inr c' \<and> unat (gpr c' 4) < 32 \<and> 2 ^ (31 - unat (gpr c' 4)) \<le> (2::nat)"
proof -
  obtain c' where e: "exec ppc_opc_cntlzwx 0x7CE40034 pair_cpu = Inr c'"
    using exec_returns unfolding ppc_opc_cntlzwx_def by metis
  have "PPC_OPC_TEMPL_X 0x7CE40034 = (7, 4, 0)" by (simp add: decode_simps)
  from cntlzw_counts[OF this e] show ?thesis using e by (auto simp: pair_cpu_def)
qed

theorem divw_spec_witness:
  "exec ppc_opc_divwx 0x7CA33BD6 pair_cpu = Inr (write_gpr 5 (- 3) (pair_cpu\<lparr>current_opc := 0x7CA33BD6\<rparr>))"
proof -
  have "PPC_OPC_TEMPL_XO 0x7CA33BD6 = (5, 3, 7)" "0x7CA33BD6 AND PPC_OPC_Rc = 0"
    by (simp_all add: decode_simps PPC_OPC_Rc_def)
  moreover have "sint (gpr pair_cpu 3) = - 7" "sint (gpr pair_cpu 7) = 2" "gpr pair_cpu 7 \<noteq> 0" by (simp_all add: pair_cpu_def)
  ultimately show ?thesis using divw_spec[of "0x7CA33BD6" 5 3 7 pair_cpu] by (simp add: signed_divide_int_def)
qed

end
