(* ===== verification/Io_Pic.thy ===== *)
theory Io_Pic
  imports Ppc_Run
begin

text \<open>
  src/io/pic/pic.cc: the interrupt controller.  Its operations act on the controller's registers and on the
  exception flags of the CPU, which they raise and withdraw; over a history of inputs they keep a promise that is stated
  on the history alone.  The enable loop of \<open>pic_write\<close> only traces;
  \<open>IO_PIC_ERR\<close> is \<open>ppc_fatal\<close>.
\<close>

unbundle bit_operations_syntax

record pic =
  PIC_enable_low :: uint32
  PIC_enable_high :: uint32
  PIC_pending_low :: uint32
  PIC_pending_high :: uint32
  PIC_pending_level :: uint32

definition IO_PIC_PA_START :: uint32 where "IO_PIC_PA_START = 0x80800000"
definition IO_PIC_PA_END :: uint32 where "IO_PIC_PA_END = 0x80800040"
definition IO_PIC_LEVEL_TYPE :: uint32 where "IO_PIC_LEVEL_TYPE = 0x1ff00000"

subsection \<open>Operations\<close>

definition pic_init :: pic where
  "pic_init = \<lparr>PIC_enable_low = 0, PIC_enable_high = 0, PIC_pending_low = 0, PIC_pending_high = 0, PIC_pending_level = 0\<rparr>"

definition pic_active :: "pic \<Rightarrow> bool" where
  "pic_active p \<longleftrightarrow>
     istrue ((PIC_pending_low p OR PIC_pending_level p) AND PIC_enable_low p) \<or> istrue (PIC_pending_high p AND PIC_enable_high p)"

definition pic_renew_interrupts :: "pic \<times> cpu \<Rightarrow> pic \<times> cpu" where
  "pic_renew_interrupts = (\<lambda>(p, c).
     (p, if pic_active p then ppc_cpu_raise_ext_exception c else ppc_cpu_cancel_ext_exception c))"

definition pic_write :: "uint32 \<Rightarrow> uint32 \<Rightarrow> pic \<times> cpu \<Rightarrow> cpu_error + pic \<times> cpu" where
  "pic_write addr data = (\<lambda>(p, c).
     let addr = addr - IO_PIC_PA_START
     in if addr = 0x14 then Inr (pic_renew_interrupts (p\<lparr>PIC_enable_high := data\<rparr>, c))
        else if addr = 0x24 then Inr (pic_renew_interrupts (p\<lparr>PIC_enable_low := data\<rparr>, c))
        else if addr = 0x18 then Inr (pic_renew_interrupts (p\<lparr>PIC_pending_high := PIC_pending_high p AND NOT data\<rparr>, c))
        else if addr = 0x28 then Inr (pic_renew_interrupts (p\<lparr>PIC_pending_low := PIC_pending_low p AND NOT data\<rparr>, c))
        else if addr = 0x38 then Inr (pic_renew_interrupts (p, c))
        else Inl Ppc_Fatal)"

definition pic_read :: "uint32 \<Rightarrow> pic \<Rightarrow> cpu_error + uint32" where
  "pic_read addr p =
     (let addr = addr - IO_PIC_PA_START
      in if addr = 0x14 then Inr (PIC_enable_high p)
         else if addr = 0x24 then Inr (PIC_enable_low p)
         else if addr = 0x10 then Inr (PIC_pending_high p)
         else if addr = 0x1c then Inr 0
         else if addr = 0x20 then Inr (PIC_pending_low p)
         else if addr = 0x2c then Inr (PIC_pending_level p)
         else if addr = 0x38 then Inr 0
         else Inl Ppc_Fatal)"

definition pic_raise_interrupt :: "nat \<Rightarrow> pic \<times> cpu \<Rightarrow> pic \<times> cpu" where
  "pic_raise_interrupt intr = (\<lambda>(p, c).
     let (mask, pending, line) =
           (if 31 < intr then (PIC_enable_high p, PIC_pending_high p, intr - 32)
            else (PIC_enable_low p, PIC_pending_low p, intr));
         ibit = shl32 1 line;
         level = (\<not> 31 < intr \<and> istrue (IO_PIC_LEVEL_TYPE AND ibit));
         p = (if 31 < intr then p\<lparr>PIC_pending_high := PIC_pending_high p OR ibit\<rparr>
              else p\<lparr>PIC_pending_low := PIC_pending_low p OR ibit,
                     PIC_pending_level := (if level then PIC_pending_level p OR ibit else PIC_pending_level p)\<rparr>)
     in (p, if istrue (mask AND ibit) \<and> (level \<or> pending AND ibit = 0) then ppc_cpu_raise_ext_exception c else c))"

definition pic_cancel_interrupt :: "nat \<Rightarrow> pic \<times> cpu \<Rightarrow> pic \<times> cpu" where
  "pic_cancel_interrupt intr = (\<lambda>(p, c).
     pic_renew_interrupts
       (if 31 < intr then p\<lparr>PIC_pending_high := PIC_pending_high p AND NOT (shl32 1 (intr - 32))\<rparr>
        else p\<lparr>PIC_pending_low := PIC_pending_low p AND NOT (shl32 1 intr),
               PIC_pending_level := PIC_pending_level p AND NOT (shl32 1 intr)\<rparr>, c))"

text \<open>
  \<open>pic_write\<close> does not take \<open>PIC_mutex\<close>, which \<open>pic_raise_interrupt\<close> holds on a device thread.  An
  acknowledgement is therefore a load of the pending register and a later store, and a device may come
  in between; the third component is the value the CPU thread has loaded.
\<close>

datatype pic_event = Ack_Load | Ack_Store uint32 | Device_Raise nat

inductive pic_step :: "pic_event \<Rightarrow> pic \<times> cpu \<times> uint32 option \<Rightarrow> pic \<times> cpu \<times> uint32 option \<Rightarrow> bool" where
  ack_load: "pic_step Ack_Load (p, c, None) (p, c, Some (PIC_pending_low p))"
| ack_store: "pic_renew_interrupts (p\<lparr>PIC_pending_low := v AND NOT data\<rparr>, c) = (p', c') \<Longrightarrow>
    pic_step (Ack_Store data) (p, c, Some v) (p', c', None)"
| device_raise: "pic_raise_interrupt intr (p, c) = (p', c') \<Longrightarrow> pic_step (Device_Raise intr) (p, c, x) (p', c', x)"

inductive_simps pic_step_simps: "pic_step e (p, c, x) s"

subsection \<open>Properties\<close>

lemma renew_line:
  "fst (pic_renew_interrupts s) = fst s" "ext_exception (snd (pic_renew_interrupts s)) = pic_active (fst s)"
  "msr (snd (pic_renew_interrupts s)) = msr (snd s)"
  by (auto simp: pic_renew_interrupts_def ppc_cpu_raise_ext_exception_def ppc_cpu_cancel_ext_exception_def exc_flag_defs
      Let_def split: prod.splits)

lemma line_bit: "intr < 32 \<Longrightarrow> bit (2 ^ intr :: uint32) i \<longleftrightarrow> i = intr"
  by (auto simp: bit_exp_iff)

lemma and_line_eq_0: "intr < 32 \<Longrightarrow> w AND 2 ^ intr = 0 \<longleftrightarrow> \<not> bit w intr" for w :: uint32
  using and_exp_eq_0_iff[of w intr] by simp

lemma raise_low:
  assumes "intr < 32" "bit (PIC_enable_low p) intr"
    and "bit IO_PIC_LEVEL_TYPE intr \<or> \<not> bit (PIC_pending_low p) intr"
  shows "snd (pic_raise_interrupt intr (p, c)) = ppc_cpu_raise_ext_exception c"
    "bit (PIC_pending_low (fst (pic_raise_interrupt intr (p, c)))) intr"
  using assms by (auto simp: pic_raise_interrupt_def Let_def and_line_eq_0 line_bit bit_or_iff)

text \<open>An interrupt that a device raises is delivered: with interrupt line \<open>intr\<close> unmasked, and of level type or not
  yet pending, the next turn of the CPU's loop with interrupts enabled and no stop request enters the external
  interrupt handler, and the handler finds the line in the pending register.\<close>

theorem pic_delivers:
  assumes "intr < 32" "bit (PIC_enable_low p) intr" "bit IO_PIC_LEVEL_TYPE intr \<or> \<not> bit (PIC_pending_low p) intr"
    and "pic_raise_interrupt intr (p, c) = (p', c')" "istrue (msr c AND MSR_EE)" "\<not> stop_exception c"
  shows "\<exists>d. check_pending c' = Inr (Next, d) \<and> pc d = PPC_EXC_EXT_INT \<and> msr d = 0 \<and> \<not> ext_exception d \<and>
    (\<exists>w. pic_read (IO_PIC_PA_START + 0x20) p' = Inr w \<and> bit w intr)"
proof -
  note r = raise_low[OF assms(1-3), of c, unfolded assms(4), simplified]
  have "ppc_exception PPC_EXC_EXT_INT 0 0 c' \<noteq> Inl e" for e
    by (simp add: ppc_exception_def exc_prologue_def exc_type_defs Let_def)
  then obtain d where d: "ppc_exception PPC_EXC_EXT_INT 0 0 c' = Inr d" by (cases "ppc_exception PPC_EXC_EXT_INT 0 0 c'") auto
  then have d': "npc d = PPC_EXC_EXT_INT" "msr d = 0" by (auto simp: ppc_exception_def split: sum.splits)
  show ?thesis
    using r assms(5,6) d d'
    by (auto simp: check_pending_def service_def ppc_cpu_raise_ext_exception_def exc_flag_defs Let_def pic_read_def)
qed

theorem pic_delivers_witness:
  "\<exists>d. check_pending (snd (pic_raise_interrupt 18 (pic_init\<lparr>PIC_enable_low := 0x00040000\<rparr>, (ppc_cpu_init 0)\<lparr>msr := MSR_EE\<rparr>))) =
     Inr (Next, d) \<and> pc d = 0x500"
proof -
  let ?p = "pic_init\<lparr>PIC_enable_low := 0x00040000\<rparr>" and ?c = "(ppc_cpu_init 0)\<lparr>msr := MSR_EE\<rparr>"
  obtain p' c' where r: "pic_raise_interrupt 18 (?p, ?c) = (p', c')" by fastforce
  have "bit (PIC_enable_low ?p) 18" "\<not> bit (PIC_pending_low ?p) 18" "istrue (msr ?c AND MSR_EE)" "\<not> stop_exception ?c"
    by (simp_all add: pic_init_def MSR_EE_def ppc_cpu_init_def)
  from pic_delivers[OF _ this(1) disjI2[OF this(2)] r this(3,4)] show ?thesis by (auto simp: r exc_type_defs)
qed

text \<open>A masked interrupt is not lost: it stays pending while the mask is clear, without disturbing the CPU, and
  raises the external interrupt flag as soon as the guest unmasks it.\<close>

theorem pic_masked_kept:
  assumes "intr < 32" "\<not> bit (PIC_enable_low p) intr" "bit enable intr"
    and "pic_raise_interrupt intr (p, c) = (p', c')"
  shows "c' = c \<and> (\<exists>p'' c''. pic_write (IO_PIC_PA_START + 0x24) enable (p', c') = Inr (p'', c'') \<and> ext_exception c'' \<and> exception_pending c'')"
proof -
  have "c' = c" "bit (PIC_pending_low p') intr"
    using assms by (auto simp: pic_raise_interrupt_def Let_def and_line_eq_0 line_bit bit_or_iff)
  moreover from this(2) have "pic_active (p'\<lparr>PIC_enable_low := enable\<rparr>)"
    using assms(1,3) by (auto simp: pic_active_def bit_eq_iff bit_simps)
  ultimately show ?thesis
    by (simp add: pic_write_def pic_renew_interrupts_def ppc_cpu_raise_ext_exception_def exc_flag_defs)
qed

theorem pic_masked_kept_witness:
  "\<exists>p c. pic_write 0x80800024 0x00040000 (pic_raise_interrupt 18 (pic_init, ppc_cpu_init 0)) = Inr (p, c) \<and> ext_exception c"
proof -
  obtain p' c' where r: "pic_raise_interrupt 18 (pic_init, ppc_cpu_init 0) = (p', c')" by fastforce
  have "bit (0x00040000 :: uint32) 18" "\<not> bit (PIC_enable_low pic_init) 18" by (simp_all add: pic_init_def)
  from pic_masked_kept[OF _ this(2,1) r] show ?thesis by (auto simp: r IO_PIC_PA_START_def)
qed

text \<open>C26: An interrupt can get lost in an acknowledgement: the controller's registers are written without the lock the
  devices hold, and an edge interrupt that arrives between the load and the store of the pending register, with
  nothing else active, is neither pending nor signalled afterwards, although the guest acknowledged other lines.\<close>

theorem pic_ack_loses_interrupt:
  assumes "intr < 32" "bit (PIC_enable_low p) intr" "\<not> bit (PIC_pending_low p) intr" "\<not> bit IO_PIC_LEVEL_TYPE intr"
    and "\<not> pic_active (p\<lparr>PIC_pending_low := PIC_pending_low p AND NOT data\<rparr>)"
  shows "\<exists>s1 s2 p' c'. pic_step Ack_Load (p, c, None) s1 \<and> pic_step (Device_Raise intr) s1 s2 \<and>
    ext_exception (fst (snd s2)) \<and> pic_step (Ack_Store data) s2 (p', c', None) \<and>
    \<not> bit (PIC_pending_low p') intr \<and> \<not> ext_exception c'"
proof -
  let ?r = "pic_raise_interrupt intr (p, c)"
  let ?p2 = "(fst ?r)\<lparr>PIC_pending_low := PIC_pending_low p AND NOT data\<rparr>"
  have up: "ext_exception (snd ?r)"
    using raise_low(1)[of intr p c] assms(1-3) by (simp add: ppc_cpu_raise_ext_exception_def exc_flag_defs)
  have "?p2 = p\<lparr>PIC_pending_low := PIC_pending_low p AND NOT data\<rparr>"
    using assms(1,4) by (simp add: pic_raise_interrupt_def Let_def and_line_eq_0)
  then have "\<not> pic_active ?p2" "\<not> bit (PIC_pending_low ?p2) intr" using assms(3,5) by (simp_all add: bit_simps)
  then have "\<not> ext_exception (snd (pic_renew_interrupts (?p2, snd ?r)))" "fst (pic_renew_interrupts (?p2, snd ?r)) = ?p2"
    "\<not> bit (PIC_pending_low ?p2) intr"
    using renew_line[of "(?p2, snd ?r)"] by simp_all
  then show ?thesis
    using up
    by (intro exI[of _ "(p, c, Some (PIC_pending_low p))"] exI[of _ "(fst ?r, snd ?r, Some (PIC_pending_low p))"]
        exI[of _ ?p2] exI[of _ "snd (pic_renew_interrupts (?p2, snd ?r))"])
      (auto simp: pic_step_simps prod_eq_iff)
qed

theorem pic_ack_loses_interrupt_witness:
  "\<exists>s1 s2 p' c'. pic_step Ack_Load (pic_init\<lparr>PIC_enable_low := 0x00040020, PIC_pending_low := 0x20\<rparr>, ppc_cpu_init 0, None) s1 \<and>
     pic_step (Device_Raise 18) s1 s2 \<and> pic_step (Ack_Store 0x20) s2 (p', c', None) \<and> \<not> bit (PIC_pending_low p') 18"
proof -
  let ?p = "pic_init\<lparr>PIC_enable_low := 0x00040020, PIC_pending_low := 0x20\<rparr>"
  have "bit (PIC_enable_low ?p) 18" "\<not> bit (PIC_pending_low ?p) 18" "\<not> bit IO_PIC_LEVEL_TYPE 18"
    "\<not> pic_active (?p\<lparr>PIC_pending_low := PIC_pending_low ?p AND NOT 0x20\<rparr>)"
    by (simp_all add: pic_init_def IO_PIC_LEVEL_TYPE_def pic_active_def)
  then show ?thesis using pic_ack_loses_interrupt[of 18 ?p "0x20" "ppc_cpu_init 0"] by fastforce
qed

subsection \<open>Histories\<close>

text \<open>What can happen to the controller, and a history of it, the latest input first: devices raise and withdraw their
  lines, the guest writes a register, the CPU's loop serves the external interrupt if its flag is up.\<close>

datatype pic_input = Raise_Line nat | Cancel_Line nat | Write_Register uint32 uint32 | Take_Interrupt

fun pic_do :: "pic_input \<Rightarrow> pic \<times> cpu \<Rightarrow> cpu_error + pic \<times> cpu" where
  "pic_do (Raise_Line n) s = Inr (pic_raise_interrupt n s)"
| "pic_do (Cancel_Line n) s = Inr (pic_cancel_interrupt n s)"
| "pic_do (Write_Register a d) s = pic_write (IO_PIC_PA_START + a) d s"
| "pic_do Take_Interrupt (p, c) = (if ext_exception c then and_then (service c) (\<lambda>c. Inr (p, c)) else Inr (p, c))"

fun pic_after :: "pic_input list \<Rightarrow> cpu \<Rightarrow> cpu_error + pic \<times> cpu" where
  "pic_after [] c = Inr (pic_init, c)"
| "pic_after (e # h) c = and_then (pic_after h c) (pic_do e)"

text \<open>The promise, from the history alone.  A line is enabled by the last mask written; it is latched from its last
  request until it is acknowledged or withdrawn; the lines 20 to 28 also ask for service as long as the device holds them,
  acknowledged or not.\<close>

fun line_enabled :: "nat \<Rightarrow> pic_input list \<Rightarrow> bool" where
  "line_enabled n [] = False"
| "line_enabled n (e # h) =
     (case e of Write_Register a d \<Rightarrow> if a = (if n < 32 then 0x24 else 0x14) then bit d (n mod 32) else line_enabled n h | _ \<Rightarrow> line_enabled n h)"

fun line_latched :: "nat \<Rightarrow> pic_input list \<Rightarrow> bool" where
  "line_latched n [] = False"
| "line_latched n (e # h) =
     (case e of
        Raise_Line m \<Rightarrow> m = n \<or> line_latched n h
      | Cancel_Line m \<Rightarrow> m \<noteq> n \<and> line_latched n h
      | Write_Register a d \<Rightarrow> line_latched n h \<and> \<not> (a = (if n < 32 then 0x28 else 0x18) \<and> bit d (n mod 32))
      | Take_Interrupt \<Rightarrow> line_latched n h)"

fun line_held :: "nat \<Rightarrow> pic_input list \<Rightarrow> bool" where
  "line_held n [] = False"
| "line_held n (e # h) = (case e of Raise_Line m \<Rightarrow> m = n \<or> line_held n h | Cancel_Line m \<Rightarrow> m \<noteq> n \<and> line_held n h | _ \<Rightarrow> line_held n h)"

definition line_wanted :: "pic_input list \<Rightarrow> bool" where
  "line_wanted h \<longleftrightarrow> (\<exists>n<64. line_enabled n h \<and> (line_latched n h \<or> n \<in> {20..28} \<and> line_held n h))"

text \<open>The CPU did not enter the handler after the last store to a register or withdrawal.\<close>

fun settled :: "pic_input list \<Rightarrow> bool" where
  "settled [] = True"
| "settled (e # h) = (case e of Raise_Line m \<Rightarrow> settled h | Take_Interrupt \<Rightarrow> False | _ \<Rightarrow> True)"

text \<open>The controller has 64 lines and five registers that can be written.\<close>

definition history_ok :: "pic_input list \<Rightarrow> bool" where
  "history_ok h \<longleftrightarrow> list_all (\<lambda>e. case e of Raise_Line n \<Rightarrow> n < 64 | Cancel_Line n \<Rightarrow> n < 64
     | Write_Register a d \<Rightarrow> a \<in> {0x14, 0x18, 0x24, 0x28, 0x38} | Take_Interrupt \<Rightarrow> True) h"

definition line_bits :: "uint32 \<Rightarrow> uint32 \<Rightarrow> nat \<Rightarrow> bool" where
  "line_bits low high n \<longleftrightarrow> (if n < 32 then bit low n else bit high (n - 32))"

definition pic_matches :: "pic_input list \<Rightarrow> pic \<Rightarrow> bool" where
  "pic_matches h p \<longleftrightarrow> (\<forall>n<64. line_bits (PIC_enable_low p) (PIC_enable_high p) n = line_enabled n h \<and>
     line_bits (PIC_pending_low p) (PIC_pending_high p) n = line_latched n h \<and>
     line_bits (PIC_pending_level p) 0 n = (n \<in> {20..28} \<and> line_held n h))"

lemma level_lines: "bit IO_PIC_LEVEL_TYPE n \<longleftrightarrow> n \<in> {20..28}"
proof (cases "n < 32")
  case True
  then have "n \<in> set [0..<32]" by simp
  then show ?thesis unfolding IO_PIC_LEVEL_TYPE_def by (auto simp: upt_rec)
next
  case False
  then show ?thesis by (auto dest: bit_imp_le_length)
qed

lemma istrue_bit: "istrue w \<longleftrightarrow> (\<exists>n<32. bit w n)" for w :: uint32
  by (auto simp: bit_eq_iff)

lemma line_split: "(\<exists>n<64. P n) \<longleftrightarrow> (\<exists>n<32. P n) \<or> (\<exists>n<32. P (n + 32))" for P :: "nat \<Rightarrow> bool"
proof
  assume "\<exists>n<64. P n"
  then obtain n where n: "n < 64" "P n" by blast
  show "(\<exists>n<32. P n) \<or> (\<exists>n<32. P (n + 32))"
  proof (cases "n < 32")
    case False
    then have "n - 32 < 32" "P (n - 32 + 32)" using n by simp_all
    then show ?thesis by blast
  qed (use n in blast)
next
  assume "(\<exists>n<32. P n) \<or> (\<exists>n<32. P (n + 32))"
  then show "\<exists>n<64. P n"
  proof
    assume "\<exists>n<32. P n"
    then obtain n where "n < 32" "P n" by blast
    then show ?thesis by (intro exI[of _ n]) simp
  next
    assume "\<exists>n<32. P (n + 32)"
    then obtain n where "n < 32" "P (n + 32)" by blast
    then show ?thesis by (intro exI[of _ "n + 32"]) simp
  qed
qed

lemma active_wanted:
  assumes "pic_matches h p"
  shows "pic_active p \<longleftrightarrow> line_wanted h"
proof -
  have m: "n < 64 \<Longrightarrow> line_enabled n h = line_bits (PIC_enable_low p) (PIC_enable_high p) n"
    "n < 64 \<Longrightarrow> line_latched n h = line_bits (PIC_pending_low p) (PIC_pending_high p) n"
    "n < 64 \<Longrightarrow> (n \<in> {20..28} \<and> line_held n h) = line_bits (PIC_pending_level p) 0 n" for n
    using assms by (simp_all add: pic_matches_def)
  have "line_wanted h \<longleftrightarrow> (\<exists>n<64. line_bits (PIC_enable_low p) (PIC_enable_high p) n \<and>
      (line_bits (PIC_pending_low p) (PIC_pending_high p) n \<or> line_bits (PIC_pending_level p) 0 n))"
    unfolding line_wanted_def using m by (auto simp del: atLeastAtMost_iff)
  also have "\<dots> \<longleftrightarrow> pic_active p"
    unfolding line_split by (auto simp: line_bits_def pic_active_def istrue_bit bit_simps)
  finally show ?thesis ..
qed

text \<open>What the operations do to one line.\<close>

lemma raise_lines:
  assumes "k < 64" "n < 64"
  shows "let p' = fst (pic_raise_interrupt n (p, c)) in
    PIC_enable_low p' = PIC_enable_low p \<and> PIC_enable_high p' = PIC_enable_high p \<and>
    line_bits (PIC_pending_low p') (PIC_pending_high p') k = (n = k \<or> line_bits (PIC_pending_low p) (PIC_pending_high p) k) \<and>
    line_bits (PIC_pending_level p') 0 k = (n = k \<and> k \<in> {20..28} \<or> line_bits (PIC_pending_level p) 0 k)"
  using assms unfolding level_lines[symmetric]
  by (auto simp: pic_raise_interrupt_def Let_def line_bits_def and_line_eq_0 line_bit bit_or_iff shl32_def
      dest: bit_imp_le_length)

lemma cancel_lines:
  assumes "k < 64" "n < 64"
  shows "let p' = fst (pic_cancel_interrupt n (p, c)) in
    PIC_enable_low p' = PIC_enable_low p \<and> PIC_enable_high p' = PIC_enable_high p \<and>
    line_bits (PIC_pending_low p') (PIC_pending_high p') k = (n \<noteq> k \<and> line_bits (PIC_pending_low p) (PIC_pending_high p) k) \<and>
    line_bits (PIC_pending_level p') 0 k = (n \<noteq> k \<and> line_bits (PIC_pending_level p) 0 k)"
  using assms
  by (auto simp: pic_cancel_interrupt_def renew_line Let_def line_bits_def line_bit bit_simps shl32_def)

lemma write_lines:
  assumes "k < 64" "pic_write (IO_PIC_PA_START + a) d (p, c) = Inr (p', c')"
  shows "line_bits (PIC_enable_low p') (PIC_enable_high p') k =
      (if a = (if k < 32 then 0x24 else 0x14) then bit d (k mod 32) else line_bits (PIC_enable_low p) (PIC_enable_high p) k) \<and>
    line_bits (PIC_pending_low p') (PIC_pending_high p') k =
      (line_bits (PIC_pending_low p) (PIC_pending_high p) k \<and> \<not> (a = (if k < 32 then 0x28 else 0x18) \<and> bit d (k mod 32))) \<and>
    PIC_pending_level p' = PIC_pending_level p"
proof -
  have m: "k mod 32 = (if k < 32 then k else k - 32)" using assms(1) by (simp add: mod_if)
  show ?thesis unfolding m using assms
    by (auto simp: pic_write_def pic_renew_interrupts_def Let_def line_bits_def bit_simps split: if_splits)
qed

lemma matches_raise:
  assumes "pic_matches h p" "n < 64" "pic_raise_interrupt n (p, c) = (p', c')"
  shows "pic_matches (Raise_Line n # h) p'"
  using assms(1) raise_lines[OF _ assms(2), of _ p c] unfolding pic_matches_def assms(3) Let_def by auto

lemma matches_cancel:
  assumes "pic_matches h p" "n < 64" "pic_cancel_interrupt n (p, c) = (p', c')"
  shows "pic_matches (Cancel_Line n # h) p'"
  using assms(1) cancel_lines[OF _ assms(2), of _ p c] unfolding pic_matches_def assms(3) Let_def by auto

lemma matches_write:
  assumes "pic_matches h p" "pic_write (IO_PIC_PA_START + a) d (p, c) = Inr (p', c')"
  shows "pic_matches (Write_Register a d # h) p'"
  using assms(1) write_lines[OF _ assms(2)] unfolding pic_matches_def by auto

lemma matches_take: "pic_matches h p \<Longrightarrow> pic_matches (Take_Interrupt # h) p"
  by (simp add: pic_matches_def)

text \<open>What they do to the flag of the CPU.\<close>

lemma raise_flag:
  assumes "pic_matches h p" "n < 64" "pic_raise_interrupt n (p, c) = (p', c')"
  shows "ext_exception c' \<longleftrightarrow> ext_exception c \<or> line_enabled n h \<and> (n \<in> {20..28} \<or> \<not> line_latched n h)"
proof -
  have e: "line_enabled n h = line_bits (PIC_enable_low p) (PIC_enable_high p) n"
    "line_latched n h = line_bits (PIC_pending_low p) (PIC_pending_high p) n"
    using assms(1,2) by (simp_all add: pic_matches_def)
  have "ext_exception (snd (pic_raise_interrupt n (p, c))) \<longleftrightarrow>
      ext_exception c \<or> line_enabled n h \<and> (n \<in> {20..28} \<or> \<not> line_latched n h)"
    unfolding e level_lines[symmetric] using assms(2)
    by (auto simp: pic_raise_interrupt_def Let_def line_bits_def and_line_eq_0 shl32_def ppc_cpu_raise_ext_exception_def
        exc_flag_defs dest: bit_imp_le_length)
  then show ?thesis by (simp add: assms(3))
qed

lemma write_flag:
  "pic_write addr data s = Inr s' \<or> s' = pic_cancel_interrupt intr s \<Longrightarrow> ext_exception (snd s') = pic_active (fst s')"
  using renew_line by (auto simp: pic_write_def pic_cancel_interrupt_def Let_def split: prod.splits if_splits)

lemma service_ext: "ext_exception c \<Longrightarrow> \<exists>c'. service c = Inr c' \<and> \<not> ext_exception c'"
  by (auto simp: service_def ppc_exception_def exc_prologue_def exc_type_defs Let_def)

lemma write_exists: "a \<in> {0x14, 0x18, 0x24, 0x28, 0x38} \<Longrightarrow> \<exists>p' c'. pic_write (IO_PIC_PA_START + a) d (p, c) = Inr (p', c')"
  by (auto simp: pic_write_def pic_renew_interrupts_def)

lemma line_wanted_raise: "n < 64 \<Longrightarrow> line_wanted (Raise_Line n # h) \<longleftrightarrow> line_wanted h \<or> line_enabled n h"
  by (auto simp: line_wanted_def)

lemma history_invariant:
  assumes "\<not> ext_exception c0"
  shows "history_ok h \<Longrightarrow> \<exists>p c. pic_after h c0 = Inr (p, c) \<and> pic_matches h p \<and> (ext_exception c \<longrightarrow> line_wanted h) \<and>
    (settled h \<longrightarrow> line_wanted h \<longrightarrow> ext_exception c)"
proof (induction h)
  case Nil
  then show ?case using assms by (simp add: pic_matches_def pic_init_def line_bits_def line_wanted_def)
next
  case (Cons e h)
  then obtain p c where IH: "pic_after h c0 = Inr (p, c)" "pic_matches h p" "ext_exception c \<longrightarrow> line_wanted h"
    "settled h \<longrightarrow> line_wanted h \<longrightarrow> ext_exception c" by (auto simp: history_ok_def)
  show ?case
  proof (cases e)
    case (Raise_Line n)
    obtain p' c' where r: "pic_raise_interrupt n (p, c) = (p', c')" by fastforce
    have n: "n < 64" using Cons.prems by (simp add: history_ok_def Raise_Line)
    have "\<not> line_wanted h \<Longrightarrow> line_enabled n h \<Longrightarrow> \<not> line_latched n h" using n by (auto simp: line_wanted_def)
    then show ?thesis using IH r matches_raise[OF IH(2) n r] raise_flag[OF IH(2) n r] line_wanted_raise[OF n, of h]
      by (auto simp: Raise_Line)
  next
    case (Cancel_Line n)
    obtain p' c' where r: "pic_cancel_interrupt n (p, c) = (p', c')" by fastforce
    have n: "n < 64" using Cons.prems by (simp add: history_ok_def Cancel_Line)
    show ?thesis using IH r active_wanted[OF matches_cancel[OF IH(2) n r]] matches_cancel[OF IH(2) n r]
        write_flag[OF disjI2[OF r[symmetric]]] by (auto simp: Cancel_Line)
  next
    case (Write_Register a d)
    then obtain p' c' where r: "pic_write (IO_PIC_PA_START + a) d (p, c) = Inr (p', c')"
      using write_exists[of a d p c] Cons.prems by (auto simp: history_ok_def)
    show ?thesis using IH r active_wanted[OF matches_write[OF IH(2) r]] matches_write[OF IH(2) r]
        write_flag[OF disjI1[OF r]] by (auto simp: Write_Register)
  next
    case Take_Interrupt
    have "line_wanted (Take_Interrupt # h) = line_wanted h" by (simp add: line_wanted_def)
    then show ?thesis using IH service_ext[of c] matches_take[OF IH(2)] by (auto simp: Take_Interrupt)
  qed
qed

text \<open>C25: The interrupt controller keeps its promise over every history of requests, withdrawals, register stores and
  interrupts taken, from its initial state on.  The guest reads from the pending and level registers exactly the lines
  that are latched and held.  The CPU's external interrupt flag is up only if some line is enabled and latched, or enabled
  and one of the lines 20 to 28 and still held; and it is up whenever that is so, unless the CPU took the interrupt after
  the last register store or withdrawal.  Also after that, the request of an enabled line raises it, unless the line is of
  edge type and already latched.\<close>

theorem pic_follows_history:
  assumes "history_ok h" "\<not> ext_exception c0"
  shows "\<exists>p c. pic_after h c0 = Inr (p, c) \<and>
    (\<exists>lo hi lev. pic_read (IO_PIC_PA_START + 0x20) p = Inr lo \<and> pic_read (IO_PIC_PA_START + 0x10) p = Inr hi \<and>
       pic_read (IO_PIC_PA_START + 0x2c) p = Inr lev \<and>
       (\<forall>n<32. bit lo n = line_latched n h \<and> bit hi n = line_latched (n + 32) h \<and>
          bit lev n = (n \<in> {20..28} \<and> line_held n h))) \<and>
    (ext_exception c \<longrightarrow> line_wanted h) \<and> (settled h \<longrightarrow> ext_exception c = line_wanted h) \<and>
    (\<forall>n h'. h = Raise_Line n # h' \<and> line_enabled n h' \<and> (n \<in> {20..28} \<or> \<not> line_latched n h') \<longrightarrow> ext_exception c)"
proof -
  obtain p c where A: "pic_after h c0 = Inr (p, c)" "pic_matches h p" "ext_exception c \<longrightarrow> line_wanted h"
    "settled h \<longrightarrow> line_wanted h \<longrightarrow> ext_exception c"
    using history_invariant[OF assms(2,1)] by blast
  have regs: "\<forall>n<32. bit (PIC_pending_low p) n = line_latched n h \<and> bit (PIC_pending_high p) n = line_latched (n + 32) h \<and>
      bit (PIC_pending_level p) n = (n \<in> {20..28} \<and> line_held n h)"
  proof (intro allI impI)
    fix n :: nat assume "n < 32"
    then have "n < 64" "n + 32 < 64" by simp_all
    with A(2) have "line_bits (PIC_pending_low p) (PIC_pending_high p) n = line_latched n h"
      "line_bits (PIC_pending_low p) (PIC_pending_high p) (n + 32) = line_latched (n + 32) h"
      "line_bits (PIC_pending_level p) 0 n = (n \<in> {20..28} \<and> line_held n h)" unfolding pic_matches_def by blast+
    then show "bit (PIC_pending_low p) n = line_latched n h \<and> bit (PIC_pending_high p) n = line_latched (n + 32) h \<and>
      bit (PIC_pending_level p) n = (n \<in> {20..28} \<and> line_held n h)" using \<open>n < 32\<close> by (simp add: line_bits_def)
  qed
  have up: "ext_exception c" if h: "h = Raise_Line n # h'" and e: "line_enabled n h'" "n \<in> {20..28} \<or> \<not> line_latched n h'" for n h'
  proof -
    have n: "n < 64" "history_ok h'" using assms(1) h by (simp_all add: history_ok_def)
    obtain p1 c1 where B: "pic_after h' c0 = Inr (p1, c1)" "pic_matches h' p1" using history_invariant[OF assms(2) n(2)] by blast
    then have "pic_raise_interrupt n (p1, c1) = (p, c)" using A(1) h by simp
    from raise_flag[OF B(2) n(1) this] e show ?thesis by blast
  qed
  have "ext_exception c = line_wanted h" if "settled h" using A(3,4) that by blast
  with A(1,3) regs up show ?thesis by (auto simp: pic_read_def simp del: atLeastAtMost_iff)
qed

text \<open>The line 20 is acknowledged while its device still holds it, and the flag stays up; after the withdrawal it falls.\<close>

theorem pic_follows_history_witness:
  "\<exists>p c p' c'. pic_after [Write_Register 0x28 0x100000, Raise_Line 20, Write_Register 0x24 0x100000] (ppc_cpu_init 0) = Inr (p, c) \<and>
     ext_exception c \<and>
     pic_after [Cancel_Line 20, Write_Register 0x28 0x100000, Raise_Line 20, Write_Register 0x24 0x100000] (ppc_cpu_init 0) = Inr (p', c') \<and>
     \<not> ext_exception c'"
proof -
  let ?h = "[Write_Register 0x28 0x100000, Raise_Line 20, Write_Register 0x24 0x100000]"
  have ok: "history_ok ?h" "history_ok (Cancel_Line 20 # ?h)" "settled ?h" "settled (Cancel_Line 20 # ?h)" "\<not> ext_exception (ppc_cpu_init 0)"
    by (simp_all add: history_ok_def ppc_cpu_init_def)
  have w: "line_wanted ?h" by (auto simp: line_wanted_def intro!: exI[of _ 20])
  have nw: "\<not> line_wanted (Cancel_Line 20 # ?h)"
  proof
    assume "line_wanted (Cancel_Line 20 # ?h)"
    then obtain n where n: "line_enabled n ?h" "n < 64" "line_latched n (Cancel_Line 20 # ?h) \<or> line_held n (Cancel_Line 20 # ?h)"
      unfolding line_wanted_def by auto
    then show False by (auto split: if_splits)
  qed
  show ?thesis using pic_follows_history[OF ok(1,5)] pic_follows_history[OF ok(2,5)] ok(3,4) w nw by blast
qed

end
