(* ===== verification/Io_Cuda.thy ===== *)
theory Io_Cuda
  imports Io_Pic
begin

text \<open>
  src/io/cuda/cuda.cc: the VIA and the CUDA microcontroller behind it (keyboard and mouse on the Apple Desktop
  Bus, clock, power).  The state is the register file and the transfer buffer of \<open>cuda_control\<close>; the operations
  also act on the interrupt controller and through it on the CPU.  The host's clocks and the keyboard's LEDs
  are a parameter, \<open>cuda_env\<close>.  The lock around each operation makes it one step.  \<open>IO_CUDA_ERR\<close> is
  \<open>ppc_fatal\<close>; an index outside the buffer of 100 bytes is \<open>Bad_Access\<close>.  The counter
  \<open>cuda_ifr_read_count\<close> only serves a warning and is left out.
\<close>

unbundle bit_operations_syntax

subsection \<open>Registers and bits\<close>

definition IO_CUDA_PA_START :: uint32 where "IO_CUDA_PA_START = 0x80816000"
definition IO_CUDA_PA_END :: uint32 where "IO_CUDA_PA_END = 0x80817E00"
definition IO_PIC_IRQ_CUDA :: nat where "IO_PIC_IRQ_CUDA = 18"

definition TREQ :: "'a::len word" where "TREQ = 0x08"
definition TACK :: "'a::len word" where "TACK = 0x10"
definition TIP :: "'a::len word" where "TIP = 0x20"
definition SR_OUT :: uint8 where "SR_OUT = 0x10"
definition SR_INT :: uint8 where "SR_INT = 0x04"
definition T1_INT :: uint8 where "T1_INT = 0x40"

definition ADB_PACKET :: uint8 where "ADB_PACKET = 0"
definition CUDA_PACKET :: uint8 where "CUDA_PACKET = 1"

definition VIA_TIMER_FREQ_DIV_HZ_TIMES_1000 :: uint64 where "VIA_TIMER_FREQ_DIV_HZ_TIMES_1000 = 783361404"

lemmas via_bit_defs = TREQ_def TACK_def TIP_def SR_OUT_def SR_INT_def T1_INT_def

datatype cuda_state = Cuda_idle | Cuda_writing | Cuda_reading

record cuda_control =
  rA :: uint8
  rB :: uint8
  rDIRB :: uint8
  rDIRA :: uint8
  rT1CL :: uint8
  rT1CH :: uint8
  rT1LL :: uint8
  rT1LH :: uint8
  rT2CL :: uint8
  rT2CH :: uint8
  rSR :: uint8
  rACR :: uint8
  rPCR :: uint8
  rIFR :: uint8
  rIER :: uint8
  rANH :: uint8
  T1_end :: uint64
  autopoll :: bool
  cu_state :: cuda_state
  cu_left :: int
  cu_pos :: int
  cu_data :: "nat \<Rightarrow> uint8"
  keybaddr :: int
  keybhandler :: int
  mouseaddr :: int
  mousehandler :: int

record cuda_env =
  hiresclk_ticks :: uint64
  hiresclk_ticks_per_second :: uint64
  host_time :: uint32
  keyb_leds :: uint32

type_synonym cuda_io = "cuda_control \<times> pic \<times> cpu"

definition cuda_init :: cuda_control where
  "cuda_init = \<lparr>rA = 0, rB = 0, rDIRB = 0, rDIRA = 0, rT1CL = 0, rT1CH = 0, rT1LL = 0xff, rT1LH = 0xff, rT2CL = 0, rT2CH = 0,
     rSR = 0, rACR = 0, rPCR = 0, rIFR = 0, rIER = 0, rANH = 0, T1_end = 0, autopoll = False, cu_state = Cuda_idle,
     cu_left = 0, cu_pos = 0, cu_data = (\<lambda>_. 0), keybaddr = 2, keybhandler = 1, mouseaddr = 3, mousehandler = 2\<rparr>"

subsection \<open>Packets to the guest\<close>

fun put_bytes :: "nat \<Rightarrow> uint8 list \<Rightarrow> (nat \<Rightarrow> uint8) \<Rightarrow> nat \<Rightarrow> uint8" where
  "put_bytes i [] d = d"
| "put_bytes i (b # bs) d = put_bytes (Suc i) bs (d(i := b))"

definition cuda_send_packet :: "uint8 \<Rightarrow> uint8 list \<Rightarrow> cuda_io \<Rightarrow> cuda_io" where
  "cuda_send_packet type bs = (\<lambda>(g, s).
     let g = g\<lparr>cu_data := put_bytes 1 bs ((cu_data g)(0 := type)), cu_pos := 0, cu_left := int (length bs) + 1\<rparr>;
         g = g\<lparr>rIFR := rIFR g OR SR_INT, rB := (rB g AND NOT TREQ) OR TIP\<rparr>
     in (g, pic_raise_interrupt IO_PIC_IRQ_CUDA s))"

definition reply :: "uint8 \<Rightarrow> uint8 list \<Rightarrow> cuda_io \<Rightarrow> cpu_error + cuda_io" where
  "reply type bs gs = Inr (cuda_send_packet type bs gs)"

subsection \<open>Packets from the guest\<close>

definition adb_change :: "((int \<Rightarrow> int) \<Rightarrow> cuda_control \<Rightarrow> cuda_control) \<Rightarrow> ((int \<Rightarrow> int) \<Rightarrow> cuda_control \<Rightarrow> cuda_control) \<Rightarrow>
    cuda_io \<Rightarrow> cpu_error + cuda_io" where
  "adb_change set_addr set_handler = (\<lambda>(g, s).
     let d2 = uint (cu_data g 2 AND 0xf); d3 = cu_data g 3 in
     if d3 = 0xff then reply ADB_PACKET [0] (g, s)
     else if d3 = 0xfe \<or> d3 = 0xfd \<or> d3 = 0x00 then reply ADB_PACKET [0] (set_addr (\<lambda>_. d2) g, s)
     else reply ADB_PACKET [0] (set_handler (\<lambda>_. uint d3) (set_addr (\<lambda>_. d2) g), s))"

definition adb_write :: "nat \<Rightarrow> int \<Rightarrow> cuda_io \<Rightarrow> cpu_error + cuda_io" where
  "adb_write reg devaddr = (\<lambda>(g, s).
     if reg = 2 then
       (if devaddr = keybaddr g then reply ADB_PACKET [0] (g, s)
        else if devaddr = mouseaddr g then reply ADB_PACKET [0] (g, s)
        else reply ADB_PACKET [2] (g, s))
     else if reg = 3 then
       (if devaddr = keybaddr g then adb_change keybaddr_update keybhandler_update (g, s)
        else if devaddr = mouseaddr g then adb_change mouseaddr_update mousehandler_update (g, s)
        else reply ADB_PACKET [2] (g, s))
     else Inl Ppc_Fatal)"

definition KEYB_LED_NUM :: uint32 where "KEYB_LED_NUM = 1"
definition KEYB_LED_CAPS :: uint32 where "KEYB_LED_CAPS = 2"
definition KEYB_LED_SCROLL :: uint32 where "KEYB_LED_SCROLL = 3"

definition adb_leds :: "uint32 \<Rightarrow> uint8" where
  "adb_leds ledstat =
     (let keyb = 0xff;
          keyb = (if ledstat AND KEYB_LED_NUM = 0 then keyb AND NOT 0x80 else keyb);
          keyb = (if ledstat AND KEYB_LED_SCROLL = 0 then keyb AND NOT 0x40 else keyb)
      in (if ledstat AND KEYB_LED_CAPS = 0 then keyb AND NOT 0x20 else keyb))"

definition adb_read :: "cuda_env \<Rightarrow> nat \<Rightarrow> int \<Rightarrow> cuda_io \<Rightarrow> cpu_error + cuda_io" where
  "adb_read env reg devaddr = (\<lambda>(g, s).
     if reg = 1 then
       (if devaddr = keybaddr g then reply ADB_PACKET [0] (g, s)
        else if devaddr = mouseaddr g then reply ADB_PACKET [0] (g, s)
        else reply ADB_PACKET [2] (g, s))
     else if reg = 2 then
       (if devaddr = keybaddr g then reply ADB_PACKET [0, 0xff, adb_leds (keyb_leds env)] (g, s)
        else if devaddr = mouseaddr g then Inr (g, s)
        else reply ADB_PACKET [2] (g, s))
     else if reg = 3 then
       (if devaddr = keybaddr g then reply ADB_PACKET [0, word_of_int (keybhandler g), word_of_int (keybaddr g)] (g, s)
        else if devaddr = mouseaddr g then reply ADB_PACKET [0, word_of_int (mousehandler g), word_of_int (mouseaddr g)] (g, s)
        else reply ADB_PACKET [2] (g, s))
     else Inl Ppc_Fatal)"

definition cuda_receive_adb_packet :: "cuda_env \<Rightarrow> cuda_io \<Rightarrow> cpu_error + cuda_io" where
  "cuda_receive_adb_packet env = (\<lambda>(g, s).
     let d1 = cu_data g 1 in
     if d1 = 0 then reply ADB_PACKET [0, 0] (g, s)
     else
       let devaddr = uint (drop_bit 4 d1);
           cmd = d1 AND 0xf
       in if cmd = 1 then reply ADB_PACKET [0, 0] (g, s)
          else
            let reg = unat (cmd AND 3);
                cmd = cmd AND 0xc
            in if cmd = 8 then adb_write reg devaddr (g, s)
               else if cmd = 0xc then adb_read env reg devaddr (g, s)
               else Inl Ppc_Fatal)"

definition cuda_receive_cuda_packet :: "cuda_env \<Rightarrow> cuda_io \<Rightarrow> cpu_error + cuda_io" where
  "cuda_receive_cuda_packet env = (\<lambda>(g, p, c).
     let d1 = cu_data g 1 in
     if d1 = 0x1 then reply CUDA_PACKET [cu_data g 2] (g\<lparr>autopoll := istrue (cu_data g 2)\<rparr>, p, c)
     else if d1 = 0x3 then
       (let t = host_time env + 2082844800
        in reply CUDA_PACKET [0, 0, ucast (drop_bit 24 t), ucast (drop_bit 16 t), ucast (drop_bit 8 t), ucast t] (g, p, c))
     else if d1 = 0x9 then reply CUDA_PACKET [0] (g, p, c)
     else if d1 = 0x11 then Inr (g, p, ppc_cpu_stop c)
     else if d1 = 0x13 then reply CUDA_PACKET [0] (g, p, c)
     else if d1 = 0x19 then reply CUDA_PACKET [0] (g, p, c)
     else if d1 = 0x14 then reply CUDA_PACKET [0] (g, p, c)
     else if d1 = 0x21 then reply CUDA_PACKET [0] (g, p, c)
     else if d1 = 0xa then Inr (g, p, ppc_cpu_stop c)
     else Inl Ppc_Fatal)"

definition cuda_receive_packet :: "cuda_env \<Rightarrow> cuda_io \<Rightarrow> cpu_error + cuda_io" where
  "cuda_receive_packet env gs =
     (if cu_data (fst gs) 0 = ADB_PACKET then cuda_receive_adb_packet env gs
      else if cu_data (fst gs) 0 = CUDA_PACKET then cuda_receive_cuda_packet env gs
      else Inl Ppc_Fatal)"

subsection \<open>Timer 1\<close>

definition div64 :: "uint64 \<Rightarrow> uint64 \<Rightarrow> cpu_error + uint64" where
  "div64 a b = (if b = 0 then Inl (Host_Undefined Div_By_Zero) else Inr (a div b))"

definition set_T1 :: "uint64 \<Rightarrow> cuda_control \<Rightarrow> cuda_control" where
  "set_T1 T1 g = g\<lparr>rT1CL := ucast T1, rT1CH := ucast (drop_bit 8 T1)\<rparr>"

definition cuda_update_T1 :: "cuda_env \<Rightarrow> cuda_control \<Rightarrow> cpu_error + cuda_control" where
  "cuda_update_T1 env g =
     (let clk = hiresclk_ticks env;
          ticks_per_sec = 1000 * hiresclk_ticks_per_second env
      in if clk < T1_end g then
           and_then (div64 ((T1_end g - clk) * VIA_TIMER_FREQ_DIV_HZ_TIMES_1000) ticks_per_sec) (\<lambda>T1.
             Inr ((set_T1 T1 g)\<lparr>rIFR := rIFR g AND NOT T1_INT\<rparr>))
         else
           let T1_latch = push_bit 8 (ucast (rT1LH g)) OR ucast (rT1LL g);
               full = (T1_latch + 1) * ticks_per_sec div VIA_TIMER_FREQ_DIV_HZ_TIMES_1000
           in if full = 0 then Inl (Host_Undefined Div_By_Zero)
              else
                let e = clk + full - (clk - T1_end g) mod full
                in and_then (div64 ((e - clk) * VIA_TIMER_FREQ_DIV_HZ_TIMES_1000) ticks_per_sec) (\<lambda>T1.
                     Inr ((set_T1 T1 (g\<lparr>T1_end := e\<rparr>))\<lparr>rIFR := rIFR g OR T1_INT\<rparr>)))"

definition cuda_start_T1 :: "cuda_env \<Rightarrow> cuda_control \<Rightarrow> cuda_control" where
  "cuda_start_T1 env g =
     (let clk = hiresclk_ticks env;
          ticks_per_sec = 1000 * hiresclk_ticks_per_second env;
          T1 = push_bit 8 (ucast (rT1CH g)) OR ucast (rT1CL g) :: uint32
      in g\<lparr>T1_end := clk + ucast T1 * ticks_per_sec div VIA_TIMER_FREQ_DIV_HZ_TIMES_1000,
           rIFR := rIFR g AND NOT T1_INT\<rparr>)"

subsection \<open>Writing register B\<close>

text \<open>
  The five parts of the case \<open>B\<close> of \<open>cuda_write\<close> in their order: the acknowledge line changes, a byte from the
  guest is collected, the last byte to the guest is announced, a transfer starts, a transfer ends.
\<close>

definition b_ack :: "uint32 \<Rightarrow> cuda_control \<Rightarrow> bool \<times> uint32 \<times> cuda_control" where
  "b_ack data g =
     (if istrue (rB g AND TACK) then
        if data AND TACK = 0 then
          (True, if cu_state g = Cuda_idle then data AND NOT TREQ else data, g\<lparr>rIFR := rIFR g OR SR_INT\<rparr>)
        else (False, data, g)
      else if istrue (data AND TACK) then
        (True, if cu_state g = Cuda_idle then if istrue (data AND TIP) then data OR TREQ else data AND NOT TREQ else data,
         g\<lparr>rIFR := rIFR g OR SR_INT\<rparr>)
      else (False, data, g))"

definition b_collect :: "bool \<Rightarrow> uint32 \<Rightarrow> cuda_control \<Rightarrow> cpu_error + cuda_control" where
  "b_collect ack data g =
     (if cu_state g = Cuda_reading \<and> ack \<and> istrue (rACR g AND SR_OUT) \<and> \<not> (rB g AND TIP = 0 \<and> istrue (data AND TIP)) then
        if cu_pos g < 0 \<or> 100 \<le> cu_pos g then Inl Bad_Access
        else
          let g = g\<lparr>cu_data := (cu_data g)(nat (cu_pos g) := rSR g), cu_pos := cu_pos g + 1\<rparr>
          in if 10 < cu_pos g then Inl Ppc_Fatal else Inr g
      else Inr g)"

definition b_last :: "bool \<Rightarrow> uint32 \<Rightarrow> cuda_control \<Rightarrow> uint32" where
  "b_last ack data g = (if cu_state g = Cuda_writing \<and> ack \<and> cu_left g \<le> 1 then data OR TREQ else data)"

definition b_start :: "uint32 \<Rightarrow> cuda_control \<Rightarrow> uint32 \<times> cuda_control" where
  "b_start data g =
     (if istrue (rB g AND TIP) \<and> data AND TIP = 0 then
        let g = g\<lparr>rIFR := rIFR g OR SR_INT\<rparr>
        in if istrue (rACR g AND SR_OUT) then
             (data OR TREQ, g\<lparr>cu_state := Cuda_reading, cu_pos := 1, cu_data := (cu_data g)(0 := rSR g)\<rparr>)
           else (data AND NOT TREQ, if cu_left g \<noteq> 0 then g\<lparr>cu_state := Cuda_writing\<rparr> else g)
      else (data, g))"

definition b_end :: "cuda_env \<Rightarrow> uint32 \<Rightarrow> cuda_io \<Rightarrow> cpu_error + cuda_io" where
  "b_end env data = (\<lambda>(g, s).
     if rB g AND TIP = 0 \<and> istrue (data AND TIP) then
       let g = g\<lparr>rIFR := rIFR g OR SR_INT, rB := ucast (data OR (TREQ OR TIP))\<rparr>
       in and_then
            (if cu_state g = Cuda_reading then
               and_then (cuda_receive_packet env (g, s)) (\<lambda>(g, s).
                 Inr (if cu_left g = 0 then g\<lparr>rIFR := rIFR g AND NOT SR_INT\<rparr> else g, s))
             else if cu_state g = Cuda_writing then Inr (g\<lparr>cu_left := 0, cu_pos := 0\<rparr>, s)
             else Inr (g, s))
            (\<lambda>(g, s). Inr (g\<lparr>cu_state := Cuda_idle\<rparr>, s))
     else Inr (g\<lparr>rB := ucast data\<rparr>, s))"

definition cuda_write_B :: "cuda_env \<Rightarrow> uint32 \<Rightarrow> cuda_io \<Rightarrow> cpu_error + cuda_io" where
  "cuda_write_B env data = (\<lambda>(g, s).
     let (ack, data, g) = b_ack data g
     in and_then (b_collect ack data g) (\<lambda>g.
          let data = b_last ack data g;
              (data, g) = b_start data g;
              s = (if istrue (rIFR g AND SR_INT) then pic_raise_interrupt IO_PIC_IRQ_CUDA s else s)
          in b_end env data (g, s)))"

subsection \<open>Register accesses\<close>

definition cuda_write :: "cuda_env \<Rightarrow> uint32 \<Rightarrow> uint32 \<Rightarrow> cuda_io \<Rightarrow> cpu_error + cuda_io" where
  "cuda_write env addr data = (\<lambda>(g, s).
     let addr = addr - IO_CUDA_PA_START; d = ucast data :: uint8 in
     if addr = 0x200 then Inr (g\<lparr>rA := d\<rparr>, s)
     else if addr = 0 then cuda_write_B env data (g, s)
     else if addr = 0x400 then Inr (g\<lparr>rDIRB := d\<rparr>, s)
     else if addr = 0x600 then Inr (g\<lparr>rDIRA := d\<rparr>, s)
     else if addr = 0x800 then Inr (g\<lparr>rT1CL := d, rT1LL := d\<rparr>, s)
     else if addr = 0xa00 then Inr (cuda_start_T1 env (g\<lparr>rT1LH := d, rT1CH := d, rT1CL := rT1LL g\<rparr>), s)
     else if addr = 0xc00 then Inr (g\<lparr>rT1CL := d, rT1LL := d\<rparr>, s)
     else if addr = 0xe00 then Inr (g\<lparr>rT1LH := d\<rparr>, s)
     else if addr = 0x1600 then Inr (g\<lparr>rACR := d\<rparr>, s)
     else if addr = 0x1400 then Inr (g\<lparr>rSR := d\<rparr>, s)
     else if addr = 0x1800 then Inr (g\<lparr>rPCR := d\<rparr>, s)
     else if addr = 0x1a00 then Inr (g\<lparr>rIFR := d\<rparr>, s)
     else if addr = 0x1c00 then Inr (g\<lparr>rIER := d\<rparr>, s)
     else if addr = 0x1e00 then Inr (g\<lparr>rANH := d\<rparr>, s)
     else Inl Ppc_Fatal)"

definition cuda_read_SR :: "cuda_control \<Rightarrow> cpu_error + uint32 \<times> cuda_control" where
  "cuda_read_SR g =
     (let data = ucast (rSR g) in
      if cu_state g = Cuda_writing then
        and_then
          (if cu_left g \<noteq> 0 then
             if cu_pos g < 0 \<or> 100 \<le> cu_pos g then Inl Bad_Access
             else Inr (ucast (cu_data g (nat (cu_pos g))), g\<lparr>cu_pos := cu_pos g + 1, cu_left := cu_left g - 1\<rparr>)
           else Inr (data, g))
          (\<lambda>(data, g).
             let g = (if cu_left g \<le> 0 then g\<lparr>rB := (rB g OR TREQ) AND NOT TIP\<rparr> else g)
             in Inr (data, g\<lparr>rIFR := rIFR g AND NOT SR_INT\<rparr>))
      else if cu_state g = Cuda_reading then
        Inr (data, g\<lparr>rB := rB g AND NOT TREQ, rIFR := rIFR g AND NOT SR_INT\<rparr>)
      else Inr (data, g\<lparr>rB := rB g OR TREQ, rIFR := rIFR g AND NOT SR_INT\<rparr>))"

definition cuda_read :: "cuda_env \<Rightarrow> uint32 \<Rightarrow> cuda_control \<Rightarrow> cpu_error + uint32 \<times> cuda_control" where
  "cuda_read env addr g =
     (let addr = addr - IO_CUDA_PA_START; ret = (\<lambda>r g. Inr (ucast (r g :: uint8), g)) in
      if addr = 0x200 then ret rA g
      else if addr = 0 then ret rB g
      else if addr = 0x400 then ret rDIRB g
      else if addr = 0x600 then ret rDIRA g
      else if addr = 0x800 then and_then (cuda_update_T1 env g) (ret rT1CL)
      else if addr = 0xa00 then and_then (cuda_update_T1 env g) (ret rT1CH)
      else if addr = 0xc00 then ret rT1LL g
      else if addr = 0xe00 then ret rT1LH g
      else if addr = 0x1600 then ret rACR g
      else if addr = 0x1400 then cuda_read_SR g
      else if addr = 0x1800 then ret rPCR g
      else if addr = 0x1a00 then and_then (cuda_update_T1 env g) (\<lambda>g'. Inr (ucast (rIFR g), g'))
      else if addr = 0x1c00 then ret rIER g
      else if addr = 0x1e00 then ret rANH g
      else Inl Ppc_Fatal)"

subsection \<open>Events of keyboard and mouse\<close>

datatype SystemEvent =
    Key_Event (keycode: uint32) (pressed: bool)
  | Mouse_Event (relx: int) (rely: int) (button1: bool) (button2: bool)
  | No_Event

definition clamp63 :: "int \<Rightarrow> int" where
  "clamp63 d = (let d = (if d < - 63 then - 63 else d) in if 63 < d then 63 else d)"

definition mouse_byte :: "int \<Rightarrow> bool \<Rightarrow> uint8" where
  "mouse_byte d button =
     (let b = word_of_int (clamp63 d) AND 0x7f in if \<not> button then b OR 0x80 else b)"

definition doProcessCudaEvent :: "SystemEvent \<Rightarrow> cuda_io \<Rightarrow> bool \<times> cuda_io" where
  "doProcessCudaEvent ev gs =
     (case ev of
        Key_Event k p \<Rightarrow>
          (let k = ucast k :: uint8; k = (if \<not> p then k OR 0x80 else k)
           in (True, cuda_send_packet ADB_PACKET [0x40, 0x2c, k, 0xff] gs))
      | Mouse_Event dx dy b1 b2 \<Rightarrow>
          (True, cuda_send_packet ADB_PACKET [0x40, 0x3c, mouse_byte dy b1, mouse_byte dx b2] gs)
      | No_Event \<Rightarrow> (False, gs))"

text \<open>One attempt of \<open>tryProcessCudaEvent\<close>: \<open>None\<close> when the controller is busy and the caller waits.\<close>

definition try_event :: "SystemEvent \<Rightarrow> cuda_io \<Rightarrow> (bool \<times> cuda_io) option" where
  "try_event ev gs =
     (if cu_state (fst gs) = Cuda_idle \<and> cu_left (fst gs) = 0 then Some (doProcessCudaEvent ev gs) else None)"

definition cuda_prom_get_key :: "cuda_control \<Rightarrow> uint32 option \<times> cuda_control" where
  "cuda_prom_get_key g =
     (if cu_left g = 5 \<and> cu_data g 2 = 0x2c then (Some (ucast (cu_data g 3)), g\<lparr>cu_left := 0\<rparr>)
      else (None, g\<lparr>cu_left := 0\<rparr>))"


subsection \<open>The transfer buffer\<close>

text \<open>Everything that changes the controller: register accesses of the guest, events of the host, the PROM's key poll.  Each is
  one step, under the lock that the code takes; \<open>cuda_prom_get_key\<close> takes none, and that an event arrives between its loads and its
  last store is left out.\<close>

datatype cuda_access = Write_Reg uint32 uint32 | Read_Reg uint32 | Host_Event SystemEvent | Prom_Key

fun cuda_op :: "cuda_env \<Rightarrow> cuda_access \<Rightarrow> cuda_io \<Rightarrow> cpu_error + cuda_io" where
  "cuda_op env (Write_Reg addr data) gs = cuda_write env addr data gs"
| "cuda_op env (Read_Reg addr) gs = and_then (cuda_read env addr (fst gs)) (\<lambda>(_, g). Inr (g, snd gs))"
| "cuda_op env (Host_Event ev) gs = Inr (case try_event ev gs of None \<Rightarrow> gs | Some (_, gs) \<Rightarrow> gs)"
| "cuda_op env Prom_Key gs = Inr (snd (cuda_prom_get_key (fst gs)), snd gs)"

fun cuda_run :: "(cuda_env \<times> cuda_access) list \<Rightarrow> cuda_io \<Rightarrow> cpu_error + cuda_io" where
  "cuda_run [] gs = Inr gs"
| "cuda_run ((env, op) # ops) gs = and_then (cuda_op env op gs) (cuda_run ops)"

definition cuda_ok :: "cuda_control \<Rightarrow> bool" where
  "cuda_ok g \<longleftrightarrow> 0 \<le> cu_pos g \<and> 0 \<le> cu_left g \<and> cu_left g \<le> 7 \<and> cu_pos g + cu_left g \<le> 17 \<and>
     (cu_state g = Cuda_reading \<longrightarrow> cu_pos g \<le> 10)"

definition keeps_ok :: "cpu_error + cuda_io \<Rightarrow> bool" where
  "keeps_ok r = (case r of Inl e \<Rightarrow> e \<noteq> Bad_Access | Inr gs \<Rightarrow> cuda_ok (fst gs))"

lemma keeps_ok_simps [simp]: "keeps_ok (Inl e) \<longleftrightarrow> e \<noteq> Bad_Access" "keeps_ok (Inr gs) \<longleftrightarrow> cuda_ok (fst gs)"
  by (simp_all add: keeps_ok_def)

lemma cuda_send_ok: "length bs \<le> 6 \<Longrightarrow> cuda_ok (fst (cuda_send_packet type bs gs))"
  by (cases gs) (simp add: cuda_send_packet_def cuda_ok_def Let_def)

lemma reply_ok: "length bs \<le> 6 \<Longrightarrow> keeps_ok (reply type bs gs)"
  by (simp add: reply_def cuda_send_ok)

lemma adb_change_ok: "keeps_ok (adb_change set_addr set_handler gs)"
  by (cases gs rule: prod.exhaust) (simp add: adb_change_def Let_def reply_ok)

lemma adb_write_ok: "keeps_ok (adb_write reg devaddr gs)"
  by (cases gs rule: prod.exhaust) (simp add: adb_write_def adb_change_ok reply_ok)

lemma adb_read_ok: "cuda_ok (fst gs) \<Longrightarrow> keeps_ok (adb_read env reg devaddr gs)"
  by (cases gs rule: prod.exhaust) (simp add: adb_read_def reply_ok)

lemma adb_packet_ok: "cuda_ok (fst gs) \<Longrightarrow> keeps_ok (cuda_receive_adb_packet env gs)"
  by (cases gs rule: prod.exhaust) (simp add: cuda_receive_adb_packet_def Let_def reply_ok adb_write_ok adb_read_ok)

lemma cuda_packet_ok: "cuda_ok (fst gs) \<Longrightarrow> keeps_ok (cuda_receive_cuda_packet env gs)"
  by (cases gs) (simp add: cuda_receive_cuda_packet_def Let_def reply_ok)

lemma cuda_receive_ok: "cuda_ok (fst gs) \<Longrightarrow> keeps_ok (cuda_receive_packet env gs)"
  by (simp add: cuda_receive_packet_def adb_packet_ok cuda_packet_ok)

lemma b_ack_same: "b_ack data g = (ack, data', g') \<Longrightarrow>
    cu_state g' = cu_state g \<and> cu_pos g' = cu_pos g \<and> cu_left g' = cu_left g"
  by (auto simp: b_ack_def split: if_splits)

lemma b_start_ok: "b_start data g = (data', g') \<Longrightarrow> cuda_ok g \<Longrightarrow> cuda_ok g'"
  by (auto simp: b_start_def cuda_ok_def Let_def split: if_splits)

lemma b_collect_ok: "cuda_ok g \<Longrightarrow> (case b_collect ack data g of Inl e \<Rightarrow> e \<noteq> Bad_Access | Inr g' \<Rightarrow> cuda_ok g')"
  by (auto simp: b_collect_def cuda_ok_def Let_def)

lemma b_end_ok:
  assumes "cuda_ok (fst gs)"
  shows "keeps_ok (b_end env data gs)"
proof (cases gs rule: prod.exhaust)
  case (Pair g s)
  let ?g = "g\<lparr>rIFR := rIFR g OR SR_INT, rB := ucast (data OR (TREQ OR TIP))\<rparr>"
  have "cuda_ok ?g" using assms Pair by (simp add: cuda_ok_def)
  then show ?thesis
    using assms Pair cuda_receive_ok[of "(?g, s)" env]
    by (cases "cuda_receive_packet env (?g, s)") (auto simp: b_end_def Let_def cuda_ok_def split: prod.splits)
qed

lemma cuda_write_ok:
  assumes "cuda_ok (fst gs)"
  shows "keeps_ok (cuda_write env addr data gs)"
proof (cases gs rule: prod.exhaust)
  case (Pair g s)
  obtain ack d g1 where a: "b_ack data g = (ack, d, g1)" by (cases "b_ack data g") auto
  have g1: "cuda_ok g1" using b_ack_same[OF a] assms Pair by (simp add: cuda_ok_def)
  have B: "keeps_ok (cuda_write_B env data (g, s))"
  proof (cases "b_collect ack d g1")
    case (Inl e)
    then show ?thesis using b_collect_ok[OF g1, of ack d] by (simp add: cuda_write_B_def a)
  next
    case (Inr g2)
    obtain d3 g3 where st: "b_start (b_last ack d g2) g2 = (d3, g3)" by fastforce
    have "cuda_ok g2" using b_collect_ok[OF g1, of ack d] Inr by simp
    then have "cuda_ok g3" by (rule b_start_ok[OF st])
    then show ?thesis using b_end_ok[of "(g3, _)"] by (simp add: cuda_write_B_def a Inr st Let_def)
  qed
  then show ?thesis
    using assms Pair by (simp add: cuda_write_def cuda_start_T1_def cuda_ok_def Let_def)
qed

lemma cuda_update_T1_same: "cuda_update_T1 env g = Inr g' \<Longrightarrow>
    cu_state g' = cu_state g \<and> cu_pos g' = cu_pos g \<and> cu_left g' = cu_left g"
  by (auto simp: cuda_update_T1_def div64_def set_T1_def Let_def split: if_splits)

lemma cuda_update_T1_safe: "cuda_update_T1 env g \<noteq> Inl Bad_Access"
  by (auto simp: cuda_update_T1_def div64_def Let_def)

lemma cuda_read_ok:
  assumes "cuda_ok g"
  shows "case cuda_read env addr g of Inl e \<Rightarrow> e \<noteq> Bad_Access | Inr (_, g') \<Rightarrow> cuda_ok g'"
proof -
  have "case cuda_read_SR g of Inl e \<Rightarrow> e \<noteq> Bad_Access | Inr (_, g') \<Rightarrow> cuda_ok g'"
    using assms by (auto simp: cuda_read_SR_def cuda_ok_def Let_def)
  moreover have "cuda_update_T1 env g = Inr g' \<Longrightarrow> cuda_ok g'" for g'
    using cuda_update_T1_same assms by (auto simp: cuda_ok_def)
  ultimately show ?thesis
    using assms cuda_update_T1_safe[of env g]
    by (cases "cuda_update_T1 env g") (simp_all add: cuda_read_def Let_def)
qed

lemma cuda_op_ok:
  assumes "cuda_ok (fst gs)"
  shows "keeps_ok (cuda_op env op gs)"
proof (cases op)
  case (Write_Reg addr data)
  then show ?thesis using cuda_write_ok[OF assms] by simp
next
  case (Read_Reg addr)
  then show ?thesis using cuda_read_ok[OF assms, of env addr] by (cases "cuda_read env addr (fst gs)") auto
next
  case (Host_Event ev)
  then show ?thesis
    using assms by (auto simp: try_event_def doProcessCudaEvent_def Let_def cuda_send_ok split: option.splits SystemEvent.splits)
next
  case Prom_Key
  then show ?thesis using assms by (simp add: cuda_prom_get_key_def cuda_ok_def)
qed

lemma cuda_run_ok: "cuda_ok (fst gs) \<Longrightarrow> keeps_ok (cuda_run ops gs)"
proof (induction ops arbitrary: gs)
  case (Cons eo ops)
  obtain env op where "eo = (env, op)" by fastforce
  then show ?case
    using cuda_op_ok[OF Cons.prems, of env op] Cons.IH by (cases "cuda_op env op gs") auto
qed simp

text \<open>C29: No sequence of register accesses by the guest, whatever it writes, of host events and of PROM polls makes the
  controller access its transfer buffer out of bounds; the transfer indices always stay within the first 17 bytes.\<close>

theorem cuda_buffer_safe:
  "case cuda_run ops (cuda_init, s) of
     Inl e \<Rightarrow> e \<noteq> Bad_Access
   | Inr (g, _) \<Rightarrow> 0 \<le> cu_pos g \<and> 0 \<le> cu_left g \<and> cu_pos g + cu_left g \<le> 17"
proof -
  have "cuda_ok cuda_init" by (simp add: cuda_ok_def cuda_init_def)
  then show ?thesis
    using cuda_run_ok[of "(cuda_init, s)" ops] by (auto simp: cuda_ok_def split: sum.splits)
qed

end
