(* ===== verification/Io_Cuda_Protocol.thy ===== *)
theory Io_Cuda_Protocol
  imports Io_Cuda
begin

text \<open>
  The byte protocol between a guest driver and the CUDA controller of \<open>Io_Cuda\<close> over the VIA's shift register: what
  the guest does in each direction, which states the controller goes through, and what that means for the events
  of the host's keyboard and mouse and for the guest's requests.
\<close>

unbundle bit_operations_syntax

subsection \<open>The transfer protocol\<close>

text \<open>
  The guest's side of the protocol, the way a driver plays it: it sends by dropping TIP with the shift register
  set to output, toggling TACK for every further byte and raising TIP and TACK at the end; it receives by
  dropping TIP with the shift register set to input, reading a byte and toggling TACK until TREQ tells that the
  byte it reads is the last one.
\<close>

definition via_write :: "cuda_env \<Rightarrow> uint32 \<Rightarrow> uint8 \<Rightarrow> cuda_io \<Rightarrow> cpu_error + cuda_io" where
  "via_write env reg v = cuda_write env (IO_CUDA_PA_START + reg) (ucast v)"

definition via_read :: "cuda_env \<Rightarrow> uint32 \<Rightarrow> cuda_io \<Rightarrow> cpu_error + uint8 \<times> cuda_io" where
  "via_read env reg gs = and_then (cuda_read env (IO_CUDA_PA_START + reg) (fst gs)) (\<lambda>(v, g). Inr (ucast v, g, snd gs))"

definition change_B :: "cuda_env \<Rightarrow> (uint8 \<Rightarrow> uint8) \<Rightarrow> cuda_io \<Rightarrow> cpu_error + cuda_io" where
  "change_B env f gs = and_then (via_read env 0 gs) (\<lambda>(b, gs). via_write env 0 (f b) gs)"

fun receive_bytes :: "nat \<Rightarrow> cuda_env \<Rightarrow> cuda_io \<Rightarrow> cpu_error + uint8 list \<times> cuda_io" where
  "receive_bytes 0 env gs = Inr ([], gs)"
| "receive_bytes (Suc n) env gs =
     and_then (via_read env 0 gs) (\<lambda>(status, gs).
     and_then (via_read env 0x1400 gs) (\<lambda>(byte, gs).
       if istrue (status AND TREQ) then
         and_then (change_B env (\<lambda>b. b OR (TACK OR TIP)) gs) (\<lambda>gs. Inr ([byte], gs))
       else
         and_then (change_B env (\<lambda>b. b XOR TACK) gs) (\<lambda>gs.
         and_then (receive_bytes n env gs) (\<lambda>(bytes, gs). Inr (byte # bytes, gs)))))"

definition guest_receive :: "nat \<Rightarrow> cuda_env \<Rightarrow> cuda_io \<Rightarrow> cpu_error + uint8 list \<times> cuda_io" where
  "guest_receive n env gs = and_then (change_B env (\<lambda>b. b AND NOT TIP) gs) (receive_bytes n env)"

fun send_bytes :: "cuda_env \<Rightarrow> uint8 list \<Rightarrow> cuda_io \<Rightarrow> cpu_error + cuda_io" where
  "send_bytes env [] gs = Inr gs"
| "send_bytes env (b # bs) gs =
     and_then (via_write env 0x1400 b gs) (\<lambda>gs. and_then (change_B env (\<lambda>b. b XOR TACK) gs) (send_bytes env bs))"

definition guest_send :: "cuda_env \<Rightarrow> uint8 \<Rightarrow> uint8 list \<Rightarrow> cuda_io \<Rightarrow> cpu_error + cuda_io" where
  "guest_send env b bs gs =
     and_then (via_write env 0x1600 (rACR (fst gs) OR SR_OUT) gs) (\<lambda>gs.
     and_then (via_write env 0x1400 b gs) (\<lambda>gs.
     and_then (change_B env (\<lambda>b. b AND NOT TIP) gs) (\<lambda>gs.
     and_then (send_bytes env bs gs) (\<lambda>gs.
     and_then (via_write env 0x1600 (rACR (fst gs) AND NOT SR_OUT) gs) (\<lambda>gs.
       change_B env (\<lambda>b. b OR (TACK OR TIP)) gs)))))"

lemma ucast_back: "ucast (ucast b :: uint32) = b" for b :: uint8
  by (rule bit_word_eqI) (simp add: bit_simps)

lemma via_regs:
  "via_write env 0x1600 v (g, s) = Inr (g\<lparr>rACR := v\<rparr>, s)"
  "via_write env 0x1400 v (g, s) = Inr (g\<lparr>rSR := v\<rparr>, s)"
  "via_write env 0 v (g, s) = cuda_write_B env (ucast v) (g, s)"
  "via_read env 0 (g, s) = Inr (rB g, g, s)"
  "via_read env 0x1400 (g, s) = and_then (cuda_read_SR g) (\<lambda>(v, g). Inr (ucast v, g, s))"
  "change_B env f (g, s) = cuda_write_B env (ucast (f (rB g))) (g, s)"
  by (simp_all add: via_write_def via_read_def change_B_def cuda_write_def cuda_read_def Let_def ucast_back)

lemma and_bit_tests: "w AND 8 = 0 \<longleftrightarrow> \<not> bit w 3" "w AND 16 = 0 \<longleftrightarrow> \<not> bit w 4" "w AND 32 = 0 \<longleftrightarrow> \<not> bit w 5"
  for w :: "'a::len word"
  using and_exp_eq_0_iff[of w 3] and_exp_eq_0_iff[of w 4] and_exp_eq_0_iff[of w 5] by (auto dest: bit_imp_le_length)

lemma bit_power: "bit (2 ^ n :: 'a::len word) i \<longleftrightarrow> i = n \<and> i < LENGTH('a)"
  by (auto simp: bit_exp_iff)

lemma via_powers: "TREQ = 2 ^ 3" "TACK = 2 ^ 4" "TIP = 2 ^ 5"
  by (simp_all add: via_bit_defs)

lemmas via_bits = bit_power[of 3, folded via_powers] bit_power[of 4, folded via_powers] bit_power[of 5, folded via_powers]

lemma via_bit_tests: "w AND TREQ = 0 \<longleftrightarrow> \<not> bit w 3" "w AND TACK = 0 \<longleftrightarrow> \<not> bit w 4" "w AND TIP = 0 \<longleftrightarrow> \<not> bit w 5"
  for w :: "'a::len word"
  by (simp_all add: via_bit_defs and_bit_tests)

text \<open>The state of a transfer to the guest that still has to deliver \<open>bytes\<close>.\<close>

definition delivering :: "uint8 list \<Rightarrow> cuda_control \<Rightarrow> bool" where
  "delivering bytes g \<longleftrightarrow> cu_state g = Cuda_writing \<and> rACR g AND SR_OUT = 0 \<and> \<not> bit (rB g) 5 \<and> bytes \<noteq> [] \<and> (bit (rB g) 3 \<longleftrightarrow> length bytes = 1) \<and>
     cu_left g = int (length bytes) \<and> 0 \<le> cu_pos g \<and> cu_pos g + cu_left g \<le> 100 \<and>
     map (cu_data g) [nat (cu_pos g)..<nat (cu_pos g) + length bytes] = bytes"

definition resting :: "cuda_control \<Rightarrow> bool" where
  "resting g \<longleftrightarrow> cu_state g = Cuda_idle \<and> rACR g AND SR_OUT = 0 \<and> cu_left g = 0 \<and> bit (rB g) 5"

definition same_ids :: "cuda_control \<Rightarrow> cuda_control \<Rightarrow> bool" where
  "same_ids g h \<longleftrightarrow> keybaddr h = keybaddr g \<and> keybhandler h = keybhandler g \<and> mouseaddr h = mouseaddr g \<and>
     mousehandler h = mousehandler g"

lemma SR_INT_nonzero [simp]: "SR_INT \<noteq> 0"
  by (simp add: SR_INT_def)

lemma toggle_TACK:
  assumes "cu_state g = Cuda_writing" "\<not> bit (rB g) 5"
  shows "cuda_write_B env (ucast (rB g XOR TACK)) (g, s) =
    Inr (g\<lparr>rIFR := rIFR g OR SR_INT, rB := (if cu_left g \<le> 1 then (rB g XOR TACK) OR TREQ else rB g XOR TACK)\<rparr>,
      pic_raise_interrupt IO_PIC_IRQ_CUDA s)"
proof -
  have "b_ack (ucast (rB g XOR TACK)) g = (True, ucast (rB g XOR TACK), g\<lparr>rIFR := rIFR g OR SR_INT\<rparr>)"
    using assms by (simp add: b_ack_def via_bit_tests bit_simps via_bits)
  moreover have "ucast (ucast (rB g XOR TACK) OR (TREQ :: uint32)) = (rB g XOR TACK) OR TREQ"
    by (rule bit_word_eqI) (auto simp: bit_simps via_bits)
  ultimately show ?thesis
    using assms by (simp add: cuda_write_B_def b_collect_def b_start_def b_last_def b_end_def Let_def via_bit_tests bit_simps
        via_bits ucast_back)
qed


lemma raise_TIP:
  assumes "cu_state g = Cuda_writing" "\<not> bit (rB g) 5" "rACR g AND SR_OUT = 0"
  shows "\<exists>g' s'. cuda_write_B env (ucast (rB g OR (TACK OR TIP))) (g, s) = Inr (g', s') \<and> resting g' \<and> same_ids g g'"
proof -
  let ?d = "ucast (rB g OR (TACK OR TIP)) :: uint32"
  have "b_ack ?d g = (\<not> bit (rB g) 4, ?d, if bit (rB g) 4 then g else g\<lparr>rIFR := rIFR g OR SR_INT\<rparr>)"
    using assms(1) by (simp add: b_ack_def via_bit_tests bit_simps via_bits)
  then show ?thesis
    using assms by (simp add: cuda_write_B_def b_collect_def b_start_def b_last_def b_end_def Let_def via_bit_tests bit_simps
        via_bits resting_def same_ids_def)
qed

lemma read_SR_delivers:
  assumes "delivering (b # bytes) g"
  shows "\<exists>rb ri. cuda_read_SR g = Inr (ucast b, g\<lparr>cu_pos := cu_pos g + 1, cu_left := int (length bytes), rB := rb, rIFR := ri\<rparr>) \<and>
    \<not> bit rb 5 \<and> (bytes \<noteq> [] \<longrightarrow> rb = rB g)"
proof -
  have "cu_data g (nat (cu_pos g)) = b"
    using assms by (simp add: delivering_def upt_conv_Cons del: upt_Suc)
  then show ?thesis
    using assms by (auto simp: cuda_read_SR_def delivering_def Let_def bit_simps via_bits intro!: exI)
qed

lemma receive_bytes_ok:
  assumes "delivering bytes g" "length bytes \<le> n"
  shows "\<exists>g' s'. receive_bytes n env (g, s) = Inr (bytes, g', s') \<and> resting g' \<and> same_ids g g'"
  using assms
proof (induction bytes arbitrary: n g s)
  case Nil
  then show ?case by (simp add: delivering_def)
next
  case (Cons b bytes)
  obtain m where n: "n = Suc m" using Cons.prems(2) by (cases n) auto
  obtain rb ri where r: "cuda_read_SR g = Inr (ucast b, g\<lparr>cu_pos := cu_pos g + 1, cu_left := int (length bytes), rB := rb, rIFR := ri\<rparr>)"
    "\<not> bit rb 5" "bytes \<noteq> [] \<Longrightarrow> rb = rB g"
    using read_SR_delivers[OF Cons.prems(1)] by blast
  define h where "h = g\<lparr>cu_pos := cu_pos g + 1, cu_left := int (length bytes), rB := rb, rIFR := ri\<rparr>"
  have st: "cu_state h = Cuda_writing" "\<not> bit (rB h) 5" and acr: "rACR h AND SR_OUT = 0" using Cons.prems(1) r(2) by (simp_all add: delivering_def h_def)
  have ids: "same_ids g h" by (simp add: same_ids_def h_def)
  note reads = via_regs r(1)[folded h_def] ucast_back via_bit_tests
  show ?case
  proof (cases "bytes = []")
    case True
    then have "bit (rB g) 3" using Cons.prems(1) by (simp add: delivering_def)
    then show ?thesis
      using raise_TIP[OF st acr, of env s] True ids by (auto simp: n reads same_ids_def)
  next
    case False
    let ?k = "h\<lparr>rIFR := rIFR h OR SR_INT, rB := (if cu_left h \<le> 1 then (rB h XOR TACK) OR TREQ else rB h XOR TACK)\<rparr>"
    have low: "\<not> bit (rB g) 3" using Cons.prems(1) False by (simp add: delivering_def)
    have "map (cu_data g) [nat (cu_pos g + 1)..<nat (cu_pos g + 1) + length bytes] = bytes"
      using Cons.prems(1) by (simp add: delivering_def upt_conv_Cons nat_add_distrib del: upt_Suc)
    then have k: "delivering bytes ?k"
      using Cons.prems(1) False st acr r(3)[OF False] low
      by (auto simp: delivering_def h_def bit_simps via_bits Suc_le_eq intro: le_antisym)
    have "length bytes \<le> m" using Cons.prems(2) n by simp
    from Cons.IH[OF k this] obtain g' s'
      where "receive_bytes m env (?k, pic_raise_interrupt IO_PIC_IRQ_CUDA s) = Inr (bytes, g', s')" "resting g'" "same_ids ?k g'"
      by blast
    then show ?thesis
      using toggle_TACK[OF st, of env s] low ids by (simp add: n reads same_ids_def)
  qed
qed


lemma drop_TIP:
  assumes "cu_state g = Cuda_idle" "bit (rB g) 5" "rACR g AND SR_OUT = 0" "cu_left g \<noteq> 0"
  shows "\<exists>rb ri s'. cuda_write_B env (ucast (rB g AND NOT TIP)) (g, s) =
    Inr (g\<lparr>cu_state := Cuda_writing, rB := rb, rIFR := ri\<rparr>, s') \<and> \<not> bit rb 5 \<and> \<not> bit rb 3"
proof -
  have "b_ack (ucast (rB g AND NOT TIP)) g = (False, ucast (rB g AND NOT TIP), g)"
    using assms by (simp add: b_ack_def via_bit_tests bit_simps via_bits)
  then show ?thesis
    using assms
    by (intro exI[of _ "ucast (ucast (rB g AND NOT TIP) AND NOT TREQ :: uint32)"] exI[of _ "rIFR g OR SR_INT"])
      (simp add: cuda_write_B_def b_collect_def b_start_def b_last_def b_end_def Let_def via_bit_tests bit_simps via_bits)
qed

lemma put_bytes_low: "j < i \<Longrightarrow> put_bytes i bs d j = d j"
  by (induction bs arbitrary: i d) auto

lemma put_bytes_map: "map (put_bytes i bs d) [i..<i + length bs] = bs"
proof (induction bs arbitrary: i d)
  case (Cons b bs)
  have "map (put_bytes (Suc i) bs (d(i := b))) [Suc i..<Suc i + length bs] = bs" by (rule Cons)
  then show ?case by (simp add: upt_conv_Cons put_bytes_low del: upt_Suc fun_upd_apply) simp
qed simp

lemma guest_receive_packet:
  assumes "cu_state g = Cuda_idle" "rACR g AND SR_OUT = 0" "bs \<noteq> []" "length bs < n" "length bs < 100"
  shows "\<exists>g' s'. guest_receive n env (cuda_send_packet type bs (g, s)) = Inr (type # bs, g', s') \<and> resting g' \<and> same_ids g g'"
proof -
  let ?g = "fst (cuda_send_packet type bs (g, s))"
  have sent: "cu_state ?g = Cuda_idle" "cu_left ?g = int (length bs) + 1" "cu_pos ?g = 0" "bit (rB ?g) 5"
    "cu_data ?g = put_bytes 1 bs ((cu_data g)(0 := type))" "rACR ?g AND SR_OUT = 0" "same_ids g ?g"
    using assms(1,2) by (simp_all add: cuda_send_packet_def Let_def bit_simps via_bits same_ids_def)
  have "map (put_bytes 1 bs ((cu_data g)(0 := type))) [0..<Suc (length bs)] = type # bs"
    using put_bytes_map[of 1 bs "(cu_data g)(0 := type)"] by (simp add: upt_conv_Cons put_bytes_low del: upt_Suc)
  then have data: "map (cu_data ?g) [0..<Suc (length bs)] = type # bs" by (simp only: sent)
  obtain rb ri s1 where d: "cuda_write_B env (ucast (rB ?g AND NOT TIP)) (?g, snd (cuda_send_packet type bs (g, s))) =
      Inr (?g\<lparr>cu_state := Cuda_writing, rB := rb, rIFR := ri\<rparr>, s1)" "\<not> bit rb 5" "\<not> bit rb 3"
    using drop_TIP[of ?g env "snd (cuda_send_packet type bs (g, s))"] sent by auto
  let ?h = "?g\<lparr>cu_state := Cuda_writing, rB := rb, rIFR := ri\<rparr>"
  have "delivering (type # bs) ?h"
    using sent(2,3,6) d(2,3) data assms(3,5) by (simp add: delivering_def del: upt_Suc)
  then obtain g' s' where "receive_bytes n env (?h, s1) = Inr (type # bs, g', s')" "resting g'" "same_ids ?h g'"
    using receive_bytes_ok[of "type # bs" ?h n env s1] assms(4) by fastforce
  moreover have "change_B env (\<lambda>b. b AND NOT TIP) (cuda_send_packet type bs (g, s)) = Inr (?h, s1)"
    using d(1) via_regs(6)[of env "\<lambda>b. b AND NOT TIP" ?g "snd (cuda_send_packet type bs (g, s))"] by simp
  ultimately show ?thesis using sent(7) by (auto simp: guest_receive_def same_ids_def)
qed


subsection \<open>Events of the host\<close>

text \<open>How a guest driver reads an event packet: seven bits of key code or movement, and a button or release bit on top.\<close>

definition signed7 :: "uint8 \<Rightarrow> int" where
  "signed7 b = signed_take_bit 6 (uint b)"

definition adb_event :: "uint8 list \<Rightarrow> SystemEvent" where
  "adb_event bytes =
     (if take 3 bytes = [0, 0x40, 0x2c] then Key_Event (ucast (bytes ! 3 AND 0x7f)) (\<not> bit (bytes ! 3) 7)
      else if take 3 bytes = [0, 0x40, 0x3c] then
        Mouse_Event (signed7 (bytes ! 4)) (signed7 (bytes ! 3)) (\<not> bit (bytes ! 3) 7) (\<not> bit (bytes ! 4) 7)
      else No_Event)"

definition fit_adb :: "SystemEvent \<Rightarrow> SystemEvent" where
  "fit_adb ev = (case ev of Mouse_Event dx dy b1 b2 \<Rightarrow> Mouse_Event (clamp63 dx) (clamp63 dy) b1 b2 | _ \<Rightarrow> ev)"

lemma byte_7f: "bit (0x7f :: 'a::len word) i \<longleftrightarrow> i < 7 \<and> i < LENGTH('a)"
proof -
  have "(0x7f :: 'a word) = mask 7" by (simp add: mask_eq_exp_minus_1)
  then show ?thesis by (simp only: bit_mask_iff) auto
qed

lemma byte_80: "bit (0x80 :: uint8) i \<longleftrightarrow> i = 7"
  using bit_power[of 7 i, where ?'a = 8] by auto

lemma mouse_byte_bit: "bit (mouse_byte d button) 7 \<longleftrightarrow> \<not> button"
  by (simp add: mouse_byte_def Let_def bit_simps byte_80 byte_7f)

lemma int_7f: "bit (0x7f :: int) i \<longleftrightarrow> i < 7" "bit (0x80 :: int) i \<longleftrightarrow> i = 7"
  using bit_mask_iff[of 7 i, where ?'a = int] bit_exp_iff[of 7 i, where ?'a = int] by (auto simp: mask_eq_exp_minus_1)

lemma mouse_byte_low: "n < 7 \<Longrightarrow> bit (mouse_byte d button) n \<longleftrightarrow> bit (clamp63 d) n"
  by (simp add: mouse_byte_def Let_def bit_simps byte_80 byte_7f int_7f)

lemma mouse_byte_value: "signed7 (mouse_byte d button) = clamp63 d"
proof -
  have r: "- 64 \<le> clamp63 d" "clamp63 d < 64" by (auto simp: clamp63_def Let_def)
  have "take_bit 7 (uint (mouse_byte d button)) = take_bit 7 (clamp63 d)"
    by (rule bit_eqI) (auto simp: bit_take_bit_iff bit_uint_iff mouse_byte_low)
  then have "signed7 (mouse_byte d button) = signed_take_bit 6 (clamp63 d)"
    unfolding signed7_def by (simp add: signed_take_bit_eq_iff_take_bit_eq)
  then show ?thesis using r by (simp add: signed_take_bit_int_eq_self)
qed

lemma key_byte:
  fixes k :: uint32 and p :: bool
  assumes "k < 128"
  defines "b \<equiv> (let b = ucast k :: uint8 in if \<not> p then b OR 0x80 else b)"
  shows "ucast (b AND 0x7f) = k" "bit b 7 \<longleftrightarrow> \<not> p"
proof -
  have "take_bit 7 (unat k) = unat k" using assms(1) by (simp add: word_less_nat_alt take_bit_nat_eq_self)
  then have "bit (unat k) n \<longleftrightarrow> n < 7 \<and> bit (unat k) n" for n by (metis bit_take_bit_iff)
  then have "bit k n \<longleftrightarrow> n < 7 \<and> bit k n" for n by (simp add: bit_unsigned_iff)
  then have low: "bit k n \<Longrightarrow> n < 7" for n by blast
  show "ucast (b AND 0x7f) = k"
    by (rule bit_word_eqI) (auto simp: b_def Let_def bit_simps byte_80 byte_7f int_7f dest: low)
  show "bit b 7 \<longleftrightarrow> \<not> p"
    by (auto simp: b_def Let_def bit_simps byte_80 byte_7f dest: low)
qed

text \<open>C27: Every event of the host's keyboard and mouse reaches the guest.  With the controller at rest the event is
  accepted at once, a driver that follows the transfer protocol reads exactly one packet, the packet decodes to the
  event (movements cut to 63 steps), and the controller is at rest again for the next event.\<close>

theorem cuda_event_delivered:
  assumes "resting g" "ev \<noteq> No_Event" "\<And>k p. ev = Key_Event k p \<Longrightarrow> k < 128" "5 \<le> n"
  shows "\<exists>gs bytes g' s'. try_event ev (g, s) = Some (True, gs) \<and> guest_receive n env gs = Inr (bytes, g', s') \<and>
    adb_event bytes = fit_adb ev \<and> resting g'"
proof -
  have idle: "cu_state g = Cuda_idle" "cu_left g = 0" "rACR g AND SR_OUT = 0" using assms(1) by (simp_all add: resting_def)
  obtain bs where bs: "doProcessCudaEvent ev (g, s) = (True, cuda_send_packet ADB_PACKET bs (g, s))" "length bs = 4"
    "adb_event (ADB_PACKET # bs) = fit_adb ev"
  proof (cases ev)
    case (Key_Event k p)
    with assms(3) key_byte[of k p] show ?thesis
      by (intro that) (auto simp: doProcessCudaEvent_def adb_event_def fit_adb_def ADB_PACKET_def Let_def)
  next
    case (Mouse_Event dx dy b1 b2)
    then show ?thesis
      by (intro that) (auto simp: doProcessCudaEvent_def adb_event_def fit_adb_def ADB_PACKET_def mouse_byte_bit mouse_byte_value)
  next
    case No_Event
    with assms(2) show ?thesis by simp
  qed
  moreover have "bs \<noteq> []" "length bs < n" "length bs < 100" using bs(2) assms(4) by auto
  from guest_receive_packet[OF idle(1,3) this] obtain g' s' where
    "guest_receive n env (cuda_send_packet ADB_PACKET bs (g, s)) = Inr (ADB_PACKET # bs, g', s')" "resting g'" by blast
  ultimately show ?thesis using idle by (auto simp: try_event_def)
qed


theorem cuda_event_delivered_witness:
  "\<exists>gs bytes g' s'. try_event (Mouse_Event 100 (- 5) True False) (cuda_init\<lparr>rB := TIP\<rparr>, pic_init, ppc_cpu_init 0) = Some (True, gs) \<and>
    guest_receive 5 \<lparr>hiresclk_ticks = 0, hiresclk_ticks_per_second = 1, host_time = 0, keyb_leds = 0\<rparr> gs = Inr (bytes, g', s') \<and>
    adb_event bytes = Mouse_Event 63 (- 5) True False"
proof -
  have "resting (cuda_init\<lparr>rB := TIP\<rparr>)" by (simp add: resting_def cuda_init_def via_bits)
  from cuda_event_delivered[OF this, of "Mouse_Event 100 (- 5) True False" 5] show ?thesis
    by (fastforce simp: fit_adb_def clamp63_def)
qed

subsection \<open>Requests of the guest\<close>

text \<open>The state of a transfer from the guest that has delivered \<open>bytes\<close>.\<close>

definition collecting :: "uint8 list \<Rightarrow> cuda_control \<Rightarrow> bool" where
  "collecting bytes g \<longleftrightarrow> cu_state g = Cuda_reading \<and> rACR g AND SR_OUT \<noteq> 0 \<and> \<not> bit (rB g) 5 \<and> cu_left g = 0 \<and>
     cu_pos g = int (length bytes) \<and> map (cu_data g) [0..<length bytes] = bytes"

lemma begin_send:
  assumes "cu_state g = Cuda_idle" "bit (rB g) 5" "rACR g AND SR_OUT \<noteq> 0" "cu_left g = 0"
  shows "\<exists>g' s'. cuda_write_B env (ucast (rB g AND NOT TIP)) (g, s) = Inr (g', s') \<and> collecting [rSR g] g' \<and> same_ids g g'"
proof -
  have "b_ack (ucast (rB g AND NOT TIP)) g = (False, ucast (rB g AND NOT TIP), g)"
    using assms by (simp add: b_ack_def via_bit_tests bit_simps via_bits)
  then show ?thesis
    using assms
    by (simp add: cuda_write_B_def b_collect_def b_start_def b_last_def b_end_def Let_def via_bit_tests bit_simps via_bits
        collecting_def same_ids_def)
qed

lemma send_byte:
  assumes "collecting bytes g"
  shows "if length bytes < 10
    then \<exists>g' s'. cuda_write_B env (ucast (rB g XOR TACK)) (g, s) = Inr (g', s') \<and> collecting (bytes @ [rSR g]) g' \<and> same_ids g g'
    else cuda_write_B env (ucast (rB g XOR TACK)) (g, s) = Inl (if length bytes < 100 then Ppc_Fatal else Bad_Access)"
proof -
  let ?g = "g\<lparr>rIFR := rIFR g OR SR_INT\<rparr>"
  have a: "b_ack (ucast (rB g XOR TACK)) g = (True, ucast (rB g XOR TACK), ?g)"
    using assms by (simp add: b_ack_def via_bit_tests bit_simps via_bits collecting_def)
  have m: "map ((cu_data g)(length bytes := rSR g)) [0..<Suc (length bytes)] = bytes @ [rSR g]"
    using assms by (simp add: collecting_def)
  show ?thesis
    using assms m
    by (simp add: a cuda_write_B_def b_collect_def b_start_def b_last_def b_end_def Let_def via_bit_tests bit_simps via_bits
        collecting_def same_ids_def)
qed

lemma end_send:
  assumes "collecting bytes g"
  shows "\<exists>g1 s1. map (cu_data g1) [0..<length bytes] = bytes \<and> same_ids g g1 \<and> rACR g1 = rACR g AND NOT SR_OUT \<and> cu_left g1 = 0 \<and>
    cuda_write_B env (ucast (rB g OR (TACK OR TIP))) (g\<lparr>rACR := rACR g AND NOT SR_OUT\<rparr>, s) =
      and_then (cuda_receive_packet env (g1, s1)) (\<lambda>(g, s).
        Inr ((if cu_left g = 0 then g\<lparr>rIFR := rIFR g AND NOT SR_INT\<rparr> else g)\<lparr>cu_state := Cuda_idle\<rparr>, s))"
proof -
  let ?d = "ucast (rB g OR (TACK OR TIP)) :: uint32" and ?h = "g\<lparr>rACR := rACR g AND NOT SR_OUT\<rparr>"
  have "\<exists>ack g1. b_ack ?d ?h = (ack, ?d, g1) \<and> cu_state g1 = Cuda_reading \<and> rB g1 = rB g \<and> cu_left g1 = 0 \<and>
    rACR g1 = rACR g AND NOT SR_OUT \<and> cu_data g1 = cu_data g \<and> same_ids g g1"
    using assms by (cases "bit (rB g) 4") (auto simp: b_ack_def via_bit_tests bit_simps via_bits collecting_def same_ids_def)
  then obtain ack g1 where a: "b_ack ?d ?h = (ack, ?d, g1)" and
    g1: "cu_state g1 = Cuda_reading" "rB g1 = rB g" "cu_left g1 = 0" "rACR g1 = rACR g AND NOT SR_OUT" "cu_data g1 = cu_data g"
      "same_ids g g1" by blast
  have low: "\<not> bit (rB g) 5" and d: "map (cu_data g) [0..<length bytes] = bytes"
    using assms by (simp_all add: collecting_def)
  have steps: "b_collect ack ?d g1 = Inr g1" "b_last ack ?d g1 = ?d" "b_start ?d g1 = (?d, g1)"
    using g1 low by (simp_all add: b_collect_def b_last_def b_start_def via_bit_tests bit_simps via_bits and.assoc)
  let ?g2 = "g1\<lparr>rIFR := rIFR g1 OR SR_INT, rB := ucast (?d OR (TREQ OR TIP))\<rparr>"
  let ?s2 = "if istrue (rIFR g1 AND SR_INT) then pic_raise_interrupt IO_PIC_IRQ_CUDA s else s"
  have "cuda_write_B env ?d (?h, s) = b_end env ?d (g1, ?s2)"
    by (simp add: cuda_write_B_def a steps Let_def)
  also have "\<dots> = and_then (cuda_receive_packet env (?g2, ?s2)) (\<lambda>(g, s).
        Inr ((if cu_left g = 0 then g\<lparr>rIFR := rIFR g AND NOT SR_INT\<rparr> else g)\<lparr>cu_state := Cuda_idle\<rparr>, s))"
    using g1 low by (cases "cuda_receive_packet env (?g2, ?s2)")
      (auto simp: b_end_def Let_def via_bit_tests bit_simps via_bits split: prod.splits)
  finally show ?thesis using g1 d by (intro exI[of _ ?g2] exI[of _ ?s2]) (simp add: same_ids_def)
qed


lemma send_bytes_ok:
  assumes "collecting sent g" "length sent + length bytes \<le> 10"
  shows "\<exists>g' s'. send_bytes env bytes (g, s) = Inr (g', s') \<and> collecting (sent @ bytes) g' \<and> same_ids g g'"
  using assms
proof (induction bytes arbitrary: sent g s)
  case (Cons b bytes)
  let ?g = "g\<lparr>rSR := b\<rparr>"
  have "collecting sent ?g" "length sent < 10" using Cons.prems by (simp_all add: collecting_def)
  then obtain g1 s1 where one: "cuda_write_B env (ucast (rB ?g XOR TACK)) (?g, s) = Inr (g1, s1)"
    "collecting (sent @ [b]) g1" "same_ids ?g g1"
    using send_byte[of sent ?g env s] by auto
  have "length (sent @ [b]) + length bytes \<le> 10" using Cons.prems(2) by simp
  from Cons.IH[OF one(2) this] obtain g' s' where "send_bytes env bytes (g1, s1) = Inr (g', s')"
    "collecting ((sent @ [b]) @ bytes) g'" "same_ids g1 g'" by blast
  then show ?case using one by (simp add: via_regs same_ids_def)
qed (simp add: same_ids_def)

lemma send_bytes_overflow:
  assumes "collecting sent g" "length sent \<le> 10" "10 < length sent + length bytes"
  shows "send_bytes env bytes (g, s) = Inl Ppc_Fatal"
  using assms
proof (induction bytes arbitrary: sent g s)
  case (Cons b bytes)
  let ?g = "g\<lparr>rSR := b\<rparr>"
  have c: "collecting sent ?g" using Cons.prems by (simp add: collecting_def)
  show ?case
  proof (cases "length sent < 10")
    case True
    then obtain g1 s1 where one: "cuda_write_B env (ucast (rB ?g XOR TACK)) (?g, s) = Inr (g1, s1)" "collecting (sent @ [b]) g1"
      using send_byte[OF c, of env s] by auto
    then show ?thesis using Cons.IH[OF one(2)] Cons.prems(3) True by (simp add: via_regs)
  next
    case False
    then show ?thesis using send_byte[OF c, of env s] Cons.prems(2) by (simp add: via_regs)
  qed
qed simp

lemma SR_OUT_bits: "(w OR SR_OUT) AND SR_OUT \<noteq> 0" "(w AND NOT SR_OUT) AND SR_OUT = 0"
  by (simp_all add: SR_OUT_def and.assoc)

lemma guest_send_start:
  assumes "resting g"
  shows "\<exists>g' s'. cuda_write_B env (ucast (rB g AND NOT TIP)) (g\<lparr>rACR := rACR g OR SR_OUT, rSR := b\<rparr>, s) = Inr (g', s') \<and>
    collecting [b] g' \<and> same_ids g g'"
proof -
  let ?g = "g\<lparr>rACR := rACR g OR SR_OUT, rSR := b\<rparr>"
  have "cu_state ?g = Cuda_idle" "bit (rB ?g) 5" "rACR ?g AND SR_OUT \<noteq> 0" "cu_left ?g = 0"
    using assms SR_OUT_bits by (simp_all add: resting_def)
  from begin_send[OF this, of env s] show ?thesis by (auto simp: same_ids_def)
qed

text \<open>What the device does with a packet, as a transaction: the packet in, the reply out.\<close>

lemma guest_exchange:
  assumes "resting g" "length bs < 10" "rs \<noteq> []" "length rs < n" "length rs < 100"
    and "\<And>g1 s1. map (cu_data g1) [0..<length (b # bs)] = b # bs \<Longrightarrow> same_ids g g1 \<Longrightarrow>
      cuda_receive_packet env (g1, s1) = reply type rs (h g1, s1)"
    and "\<And>g1. rACR (h g1) = rACR g1" "\<And>g1 g2. same_ids g1 g2 \<Longrightarrow> same_ids (h g1) (h g2)"
  shows "\<exists>gs g' s'. guest_send env b bs (g, s) = Inr gs \<and> guest_receive n env gs = Inr (type # rs, g', s') \<and> resting g' \<and>
    same_ids (h g) g'"
proof -
  obtain g1 s1 where start: "cuda_write_B env (ucast (rB g AND NOT TIP)) (g\<lparr>rACR := rACR g OR SR_OUT, rSR := b\<rparr>, s) = Inr (g1, s1)"
    "collecting [b] g1" "same_ids g g1"
    using guest_send_start[OF assms(1), of env b s] by blast
  have "length [b] + length bs \<le> 10" using assms(2) by simp
  from send_bytes_ok[OF start(2) this] obtain g2 s2 where two: "send_bytes env bs (g1, s1) = Inr (g2, s2)"
    "collecting ([b] @ bs) g2" "same_ids g1 g2" by blast
  from end_send[OF two(2), of env s2] obtain g3 s3 where three: "map (cu_data g3) [0..<length (b # bs)] = b # bs" "same_ids g2 g3"
    "rACR g3 = rACR g2 AND NOT SR_OUT"
    "cuda_write_B env (ucast (rB g2 OR (TACK OR TIP))) (g2\<lparr>rACR := rACR g2 AND NOT SR_OUT\<rparr>, s2) =
      and_then (cuda_receive_packet env (g3, s3)) (\<lambda>(g, s).
        Inr ((if cu_left g = 0 then g\<lparr>rIFR := rIFR g AND NOT SR_INT\<rparr> else g)\<lparr>cu_state := Cuda_idle\<rparr>, s))"
    by auto
  have ids: "same_ids g g3" using start(3) two(3) three(2) by (simp add: same_ids_def)
  let ?g = "(h g3)\<lparr>cu_state := Cuda_idle\<rparr>"
  have "cuda_receive_packet env (g3, s3) = reply type rs (h g3, s3)" by (rule assms(6)[OF three(1) ids])
  then have "guest_send env b bs (g, s) = Inr (cuda_send_packet type rs (?g, s3))"
    using three(4) by (simp add: guest_send_def start(1) two(1) via_regs reply_def cuda_send_packet_def Let_def)
  moreover have "cu_state ?g = Cuda_idle" "rACR ?g AND SR_OUT = 0" using three(3) SR_OUT_bits by (simp_all add: assms(7))
  from guest_receive_packet[OF this assms(3-5), of env type s3]
  obtain g' s' where "guest_receive n env (cuda_send_packet type rs (?g, s3)) = Inr (type # rs, g', s')" "resting g'" "same_ids ?g g'"
    by blast
  ultimately show ?thesis using assms(8)[OF ids] by (auto simp: same_ids_def)
qed


definition adb_command :: "uint8 \<Rightarrow> uint8 \<Rightarrow> uint8" where
  "adb_command device cmd = push_bit 4 device OR cmd"

lemma nibble_bit: "k < 16 \<Longrightarrow> bit k n \<Longrightarrow> n < 4" for k :: uint8
proof -
  assume k: "k < 16" "bit k n"
  then have "take_bit 4 (unat k) = unat k" by (simp add: word_less_nat_alt take_bit_nat_eq_self)
  moreover have "bit (unat k) n" using k(2) bit_imp_le_length[OF k(2)] by (simp add: bit_unsigned_iff)
  ultimately show ?thesis by (metis bit_take_bit_iff)
qed

lemma adb_command_fields:
  assumes "k < 16" "c < 16"
  shows "drop_bit 4 (adb_command k c) = k" "adb_command k c AND 0xf = c"
proof -
  note low = nibble_bit[OF assms(1)] nibble_bit[OF assms(2)]
  have m: "(0xf :: uint8) = mask 4" by (simp add: mask_eq_exp_minus_1)
  show "drop_bit 4 (adb_command k c) = k"
    by (rule bit_word_eqI) (auto simp: adb_command_def bit_drop_bit_eq bit_or_iff bit_push_bit_iff dest: low)
  show "adb_command k c AND 0xf = c"
    unfolding m
    by (rule bit_word_eqI) (auto simp: adb_command_def bit_and_iff bit_mask_iff bit_or_iff bit_push_bit_iff dest: low)
qed

lemma adb_command_nonzero: "k < 16 \<Longrightarrow> c < 16 \<Longrightarrow> c \<noteq> 0 \<Longrightarrow> adb_command k c \<noteq> 0"
  using adb_command_fields(2)[of k c] by auto

lemma packet_bytes: "map (cu_data g) [0..<length (b # bs)] = b # bs \<Longrightarrow> i \<le> length bs \<Longrightarrow> cu_data g i = (b # bs) ! i"
  by (metis (no_types, lifting) add_0 diff_zero length_Cons length_upt less_Suc_eq_le nth_map nth_upt)

definition move_keyboard :: "uint8 \<Rightarrow> uint8 \<Rightarrow> cuda_control \<Rightarrow> cuda_control" where
  "move_keyboard a h g = g\<lparr>keybaddr := uint (a AND 0xf), keybhandler := uint h\<rparr>"

lemma listen_register3:
  assumes "keybaddr g = uint k" "k < 16" "h \<notin> {0, 0xfd, 0xfe, 0xff}"
    "map (cu_data g) [0..<length (ADB_PACKET # [adb_command k 0xb, a, h])] = ADB_PACKET # [adb_command k 0xb, a, h]"
  shows "cuda_receive_packet env (g, s) = reply ADB_PACKET [0] (move_keyboard a h g, s)"
proof -
  note d = packet_bytes[OF assms(4), where i = 0] packet_bytes[OF assms(4), where i = 1] packet_bytes[OF assms(4), where i = 2] packet_bytes[OF assms(4), where i = 3]
  show ?thesis
    using d assms(1,3) adb_command_fields[OF assms(2), of "0xb"] adb_command_nonzero[OF assms(2), of "0xb"]
    by (simp add: cuda_receive_packet_def cuda_receive_adb_packet_def adb_write_def adb_change_def Let_def move_keyboard_def)
qed

lemma talk_register3:
  assumes "keybaddr g = uint k" "k < 16" "keybhandler g = uint h"
    "map (cu_data g) [0..<length (ADB_PACKET # [adb_command k 0xf])] = ADB_PACKET # [adb_command k 0xf]"
  shows "cuda_receive_packet env (g, s) = reply ADB_PACKET [0, h, k] (g, s)"
proof -
  note d = packet_bytes[OF assms(4), where i = 0] packet_bytes[OF assms(4), where i = 1]
  show ?thesis
    using d assms(1,3) adb_command_fields[OF assms(2), of "0xf"] adb_command_nonzero[OF assms(2), of "0xf"]
    by (simp add: cuda_receive_packet_def cuda_receive_adb_packet_def adb_read_def Let_def)
qed

text \<open>C28: The keyboard can be moved on the bus: after the guest has sent the keyboard a new address and handler in
  register 3 and taken the acknowledgement, a request for register 3 at the new address returns that handler and
  that address, over the byte protocol of the shift register in both directions.\<close>

theorem adb_register3_roundtrip:
  assumes "resting g" "keybaddr g = uint k" "k < 16" "a < 16" "h \<notin> {0, 0xfd, 0xfe, 0xff}" "4 \<le> n"
  shows "\<exists>gs1 gs2 gs3 gs4. guest_send env ADB_PACKET [adb_command k 0xb, a, h] (g, s) = Inr gs1 \<and>
    guest_receive n env gs1 = Inr ([ADB_PACKET, 0], gs2) \<and>
    guest_send env ADB_PACKET [adb_command a 0xf] gs2 = Inr gs3 \<and>
    guest_receive n env gs3 = Inr ([ADB_PACKET, 0, h, a], gs4) \<and> resting (fst gs4)"
proof -
  have a: "a AND 0xf = a" using adb_command_fields(2)[of 0 a] assms(4) by (simp add: adb_command_def)
  have "cuda_receive_packet env (g1, s1) = reply ADB_PACKET [0] (move_keyboard a h g1, s1)"
    if "map (cu_data g1) [0..<length (ADB_PACKET # [adb_command k 0xb, a, h])] = ADB_PACKET # [adb_command k 0xb, a, h]"
      "same_ids g g1" for g1 s1
    using listen_register3[OF _ assms(3,5) that(1)] that(2) assms(2) by (simp add: same_ids_def)
  from guest_exchange[where h = "move_keyboard a h" and b = ADB_PACKET and bs = "[adb_command k 0xb, a, h]" and s = s, OF assms(1) _ _ _ _ this, of n]
  obtain gs1 g2 s2 where
    one: "guest_send env ADB_PACKET [adb_command k 0xb, a, h] (g, s) = Inr gs1"
      "guest_receive n env gs1 = Inr ([ADB_PACKET, 0], g2, s2)" "resting g2" "same_ids (move_keyboard a h g) g2"
    using assms(6) by (fastforce simp: move_keyboard_def same_ids_def)
  then have ids: "keybaddr g2 = uint a" "keybhandler g2 = uint h" by (simp_all add: move_keyboard_def same_ids_def a)
  have "cuda_receive_packet env (g1, s1) = reply ADB_PACKET [0, h, a] (g1, s1)"
    if "map (cu_data g1) [0..<length (ADB_PACKET # [adb_command a 0xf])] = ADB_PACKET # [adb_command a 0xf]" "same_ids g2 g1" for g1 s1
    using talk_register3[OF _ assms(4) _ that(1)] that(2) ids by (simp add: same_ids_def)
  from guest_exchange[where h = "\<lambda>g. g" and b = ADB_PACKET and bs = "[adb_command a 0xf]" and s = s2, OF one(3) _ _ _ _ this, of n]
  obtain gs3 g4 s4 where
    "guest_send env ADB_PACKET [adb_command a 0xf] (g2, s2) = Inr gs3"
    "guest_receive n env gs3 = Inr ([ADB_PACKET, 0, h, a], g4, s4)" "resting g4"
    using assms(6) by fastforce
  then show ?thesis using one(1,2) by fastforce
qed

theorem adb_register3_roundtrip_witness:
  "\<exists>gs1 gs2 gs3 gs4. guest_send \<lparr>hiresclk_ticks = 0, hiresclk_ticks_per_second = 1, host_time = 0, keyb_leds = 0\<rparr> ADB_PACKET
      [adb_command 2 0xb, 5, 3] (cuda_init\<lparr>rB := TIP\<rparr>, pic_init, ppc_cpu_init 0) = Inr gs1 \<and>
    guest_receive 4 \<lparr>hiresclk_ticks = 0, hiresclk_ticks_per_second = 1, host_time = 0, keyb_leds = 0\<rparr> gs1 = Inr ([ADB_PACKET, 0], gs2) \<and>
    guest_send \<lparr>hiresclk_ticks = 0, hiresclk_ticks_per_second = 1, host_time = 0, keyb_leds = 0\<rparr> ADB_PACKET [adb_command 5 0xf] gs2 = Inr gs3 \<and>
    guest_receive 4 \<lparr>hiresclk_ticks = 0, hiresclk_ticks_per_second = 1, host_time = 0, keyb_leds = 0\<rparr> gs3 = Inr ([ADB_PACKET, 0, 3, 5], gs4)"
proof -
  have "resting (cuda_init\<lparr>rB := TIP\<rparr>)" "keybaddr (cuda_init\<lparr>rB := TIP\<rparr>) = uint (2 :: uint8)"
    by (simp_all add: resting_def cuda_init_def via_bits)
  from adb_register3_roundtrip[OF this, of 5 3 4] show ?thesis by fastforce
qed

text \<open>A packet of more than ten bytes from the guest ends the emulator.\<close>

theorem cuda_packet_overflow:
  assumes "resting g" "10 < length (b # bs)"
  shows "guest_send env b bs (g, s) = Inl Ppc_Fatal"
proof -
  obtain g1 s1 where start: "cuda_write_B env (ucast (rB g AND NOT TIP)) (g\<lparr>rACR := rACR g OR SR_OUT, rSR := b\<rparr>, s) = Inr (g1, s1)"
    "collecting [b] g1"
    using guest_send_start[OF assms(1), of env b s] by blast
  have "send_bytes env bs (g1, s1) = Inl Ppc_Fatal" using send_bytes_overflow[OF start(2)] assms(2) by simp
  then show ?thesis by (simp add: guest_send_def start(1) via_regs)
qed

theorem cuda_packet_overflow_witness:
  "guest_send \<lparr>hiresclk_ticks = 0, hiresclk_ticks_per_second = 1, host_time = 0, keyb_leds = 0\<rparr> CUDA_PACKET (replicate 10 0)
     (cuda_init\<lparr>rB := TIP\<rparr>, pic_init, ppc_cpu_init 0) = Inl Ppc_Fatal"
proof -
  have "resting (cuda_init\<lparr>rB := TIP\<rparr>)" by (simp add: resting_def cuda_init_def via_bits)
  from cuda_packet_overflow[OF this] show ?thesis by simp
qed

end
