(* ===== verification/Io_Nvram.thy ===== *)
theory Io_Nvram
  imports Ppc_Exc
begin

text \<open>
  src/io/nvram/nvram.cc: the non-volatile memory, 8 KB in a file of the host.  The file is the list of its
  bytes; seeking behind its end and writing fills the gap with zeros, reading there transfers nothing.
  \<open>IO_NVRAM_ERR\<close> is \<open>ppc_fatal\<close>.
\<close>

unbundle bit_operations_syntax

definition NVRAM_IMAGE_SIZE :: nat where "NVRAM_IMAGE_SIZE = 0x2000"
definition NVRAM_FREE_PARTITION_MAGIC :: uint8 where "NVRAM_FREE_PARTITION_MAGIC = 0x7f"
definition NVRAM_PARTITION_HDR_SIZE :: nat where "NVRAM_PARTITION_HDR_SIZE = 16"
definition IO_NVRAM_PA_START :: uint32 where "IO_NVRAM_PA_START = 0x80860000"
definition IO_NVRAM_PA_END :: uint32 where "IO_NVRAM_PA_END = 0x80880000"

subsection \<open>The file\<close>

definition file_put :: "nat \<Rightarrow> uint8 \<Rightarrow> uint8 list \<Rightarrow> uint8 list" where
  "file_put pos b f = (if pos < length f then f[pos := b] else f @ replicate (pos - length f) 0 @ [b])"

definition file_get :: "nat \<Rightarrow> uint8 \<Rightarrow> uint8 list \<Rightarrow> uint8" where
  "file_get pos d f = (if pos < length f then f ! pos else d)"

subsection \<open>Operations\<close>

definition nvram_write :: "uint32 \<Rightarrow> uint32 \<Rightarrow> nat \<Rightarrow> uint8 list \<Rightarrow> cpu_error + uint8 list" where
  "nvram_write addr data size' f =
     (let addr = addr - IO_NVRAM_PA_START
      in if istrue (addr AND 0xf) then Inl Ppc_Fatal
         else let addr = drop_bit 4 addr
              in if NVRAM_IMAGE_SIZE \<le> unat addr then Inl Ppc_Fatal
                 else if size' \<noteq> 1 then Inl Ppc_Fatal
                 else Inr (file_put (unat addr) (ucast data) f))"

definition nvram_read :: "uint32 \<Rightarrow> nat \<Rightarrow> uint8 list \<Rightarrow> cpu_error + uint32" where
  "nvram_read addr size' f =
     (let addr = addr - IO_NVRAM_PA_START
      in if istrue (addr AND 0xf) then Inl Ppc_Fatal
         else let addr = drop_bit 4 addr
              in if NVRAM_IMAGE_SIZE \<le> unat addr then Inl Ppc_Fatal
                 else if size' \<noteq> 1 then Inl Ppc_Fatal
                 else Inr (ucast (file_get (unat addr) 0 f)))"

text \<open>The loop of \<open>calcChksum\<close>: addition with the carry brought round.\<close>

fun chksum_loop :: "uint8 list \<Rightarrow> uint8 \<Rightarrow> uint8" where
  "chksum_loop [] y = y"
| "chksum_loop (b # bs) y = (let x = y + b in chksum_loop bs (if x < y then x + 1 else x))"

definition calcChksum :: "uint8 list \<Rightarrow> uint8" where
  "calcChksum buf = chksum_loop (take NVRAM_PARTITION_HDR_SIZE buf) 0"

text \<open>The image \<open>nvram_init\<close> writes into a new file: one free partition that covers it.\<close>

definition nvram_new_image :: "uint8 list" where
  "nvram_new_image =
     (let buf = replicate NVRAM_IMAGE_SIZE 0;
          buf = buf[0 := NVRAM_FREE_PARTITION_MAGIC, 1 := 0, 2 := 0x02, 3 := 0x00];
          buf = foldl (\<lambda>b i. b[4 + i := 119]) buf [0..<12]
      in buf[1 := calcChksum buf])"

definition nvram_init :: "uint8 list option \<Rightarrow> uint8 list" where
  "nvram_init file = (case file of Some f \<Rightarrow> f | None \<Rightarrow> nvram_new_image)"

subsection \<open>Cells\<close>

lemma file_get_put: "file_get p d (file_put p b f) = b"
  by (simp add: file_get_def file_put_def nth_append)

lemma file_get_put_other: "p \<noteq> q \<Longrightarrow> file_get q 0 (file_put p b f) = file_get q 0 f"
  by (auto simp: file_get_def file_put_def nth_append nth_Cons')

text \<open>The cells of the address range are the multiples of 16.\<close>

definition nvram_cell :: "uint32 \<Rightarrow> bool" where
  "nvram_cell addr \<longleftrightarrow> IO_NVRAM_PA_START \<le> addr \<and> addr < IO_NVRAM_PA_END \<and> addr AND 0xf = 0"

lemma nvram_cell_offset:
  assumes "nvram_cell addr"
  shows "(addr - IO_NVRAM_PA_START) AND 0xf = 0" "unat (drop_bit 4 (addr - IO_NVRAM_PA_START)) < NVRAM_IMAGE_SIZE"
proof -
  have m: "(0xf :: uint32) = mask 4" by (simp add: mask_eq_exp_minus_1)
  have le: "IO_NVRAM_PA_START \<le> addr" and lt: "addr < IO_NVRAM_PA_END" and al: "addr AND 0xf = 0"
    using assms by (simp_all add: nvram_cell_def)
  have u: "unat (addr - IO_NVRAM_PA_START) = unat addr - 0x80860000" "0x80860000 \<le> unat addr" "unat addr < 0x80880000"
    using le lt by (simp_all add: unat_sub IO_NVRAM_PA_START_def IO_NVRAM_PA_END_def word_le_nat_alt word_less_nat_alt)
  show "unat (drop_bit 4 (addr - IO_NVRAM_PA_START)) < NVRAM_IMAGE_SIZE"
    using u unsigned_less[of addr, where ?'a = nat]
    by (simp only: unsigned_drop_bit_eq) (simp add: drop_bit_eq_div take_bit_nat_eq_self NVRAM_IMAGE_SIZE_def less_mult_imp_div_less)
  have "16 dvd unat addr" using al and_mask_eq_0_iff[of addr 4] by (simp add: m)
  then have "2 ^ 4 dvd unat (addr - IO_NVRAM_PA_START)" using u(1,2) by (simp add: dvd_diff_nat)
  then show "(addr - IO_NVRAM_PA_START) AND 0xf = 0"
    using and_mask_eq_0_iff[of "addr - IO_NVRAM_PA_START" 4] by (simp only: m)
qed

lemma nvram_cell_inj:
  assumes "nvram_cell a" "nvram_cell b" "drop_bit 4 (a - IO_NVRAM_PA_START) = drop_bit 4 (b - IO_NVRAM_PA_START)"
  shows "a = b"
proof -
  have m: "(0xf :: uint32) = mask 4" by (simp add: mask_eq_exp_minus_1)
  have "take_bit 4 (a - IO_NVRAM_PA_START) = take_bit 4 (b - IO_NVRAM_PA_START)"
    using nvram_cell_offset(1)[OF assms(1)] nvram_cell_offset(1)[OF assms(2)] by (simp only: m take_bit_eq_mask)
  then have "a - IO_NVRAM_PA_START = b - IO_NVRAM_PA_START"
    using assms(3) by (metis bits_ident)
  then show ?thesis by simp
qed

text \<open>Every cell of the address range of the memory can be used: writing a byte and reading the cell back returns it,
  no other cell changes, and neither access ends in an error, however long the file is.\<close>

theorem nvram_roundtrip:
  assumes "nvram_cell addr" "nvram_cell other" "other \<noteq> addr"
  shows "\<exists>f'. nvram_write addr data 1 f = Inr f' \<and> nvram_read addr 1 f' = Inr (data AND 0xff) \<and>
    nvram_read other 1 f' = nvram_read other 1 f"
proof -
  let ?o = "\<lambda>a. unat (drop_bit 4 (a - IO_NVRAM_PA_START))"
  have "?o other \<noteq> ?o addr" using nvram_cell_inj[OF assms(2,1)] assms(3) by (auto simp: word_unat_eq_iff)
  moreover have "ucast (ucast data :: uint8) = data AND 0xff"
  proof -
    have m: "(0xff :: uint32) = mask 8" by (simp add: mask_eq_exp_minus_1)
    show ?thesis unfolding m by (intro bit_word_eqI) (auto simp: bit_simps)
  qed
  ultimately show ?thesis
    using nvram_cell_offset[OF assms(1)] nvram_cell_offset[OF assms(2)]
    by (simp add: nvram_write_def nvram_read_def Let_def not_le file_get_put file_get_put_other)
qed

theorem nvram_roundtrip_witness:
  "\<exists>f'. nvram_write 0x80861230 0x7f 1 nvram_new_image = Inr f' \<and> nvram_read 0x80861230 1 f' = Inr 0x7f"
  using nvram_roundtrip[of "0x80861230" "0x80861240" "0x7f" nvram_new_image]
  by (auto simp: nvram_cell_def IO_NVRAM_PA_START_def IO_NVRAM_PA_END_def)

subsection \<open>The checksum\<close>

lemma chksum_step:
  fixes y b :: uint8
  defines "x \<equiv> y + b"
  defines "z \<equiv> (if x < y then x + 1 else x)"
  shows "unat z mod 255 = (unat y + unat b) mod 255" "z = 0 \<longleftrightarrow> y = 0 \<and> b = 0"
proof -
  obtain Y B where e: "unat y = Y" "unat b = B" by blast
  have r: "Y < 256" "B < 256" using unsigned_less[of y, where ?'a = nat] unsigned_less[of b, where ?'a = nat] unfolding e by simp_all
  have z: "unat z = (if 256 \<le> Y + B then Y + B - 255 else Y + B)"
    using r by (auto simp: z_def x_def word_less_nat_alt unat_word_ariths e mod_if)
  show "unat z mod 255 = (unat y + unat b) mod 255"
    unfolding z e by (auto simp: le_mod_geq)
  have "z = 0 \<longleftrightarrow> unat z = 0" by (simp add: unat_eq_0)
  also have "\<dots> \<longleftrightarrow> Y = 0 \<and> B = 0" unfolding z by auto
  finally show "z = 0 \<longleftrightarrow> y = 0 \<and> b = 0" by (simp add: unat_eq_0 flip: e)
qed

lemma chksum_loop_sum: "unat (chksum_loop bs y) mod 255 = (unat y + sum_list (map unat bs)) mod 255"
proof (induction bs arbitrary: y)
  case (Cons b bs)
  have "unat (chksum_loop (b # bs) y) mod 255 = (unat (if y + b < y then y + b + 1 else y + b) mod 255 + sum_list (map unat bs)) mod 255"
    unfolding chksum_loop.simps Let_def Cons.IH by (rule mod_add_left_eq[symmetric])
  also have "\<dots> = ((unat y + unat b) mod 255 + sum_list (map unat bs)) mod 255" by (simp only: chksum_step)
  finally show ?case by (simp add: mod_add_left_eq add.assoc)
qed simp

lemma chksum_loop_0: "chksum_loop bs y = 0 \<longleftrightarrow> y = 0 \<and> (\<forall>b\<in>set bs. b = 0)"
  by (induction bs arbitrary: y) (auto simp: chksum_step Let_def)

text \<open>The checksum of a partition header is the sum of its sixteen bytes modulo 255, and it is zero only for a header
  of zeros: the loop's carry is brought round and does not depend on the order of the bytes.\<close>

theorem calcChksum_sum:
  "unat (calcChksum buf) mod 255 = sum_list (map unat (take NVRAM_PARTITION_HDR_SIZE buf)) mod 255 \<and>
   (calcChksum buf = 0 \<longleftrightarrow> set (take NVRAM_PARTITION_HDR_SIZE buf) \<subseteq> {0})"
  by (auto simp: calcChksum_def chksum_loop_sum chksum_loop_0)

end
