(* ===== verification/Ppc_Vec_Base.thy ===== *)
theory Ppc_Vec_Base
  imports Ppc_Mem_Opc
begin

text \<open>
  The vector registers as the interpreter sees them: the union \<open>Vector_t\<close> of common.h on a little-endian host,
  the element macros of ppc_vec.h, the loops over elements, and the saturating conversions of ppc_vec.cc.  The
  union's members \<open>b\<close>, \<open>h\<close>, \<open>w\<close> and \<open>d\<close> are the lanes of a 128-bit word, counted from its least significant end,
  which is where a little-endian host has element 0; the macros count from the other end.
\<close>

unbundle bit_operations_syntax

definition lane :: "128 word \<Rightarrow> nat \<Rightarrow> 'a::len word" where
  "lane v i = ucast (drop_bit (LENGTH('a) * i) v)"

definition set_lane :: "nat \<Rightarrow> 'a::len word \<Rightarrow> 128 word \<Rightarrow> 128 word" where
  "set_lane i x v =
     (v AND NOT (push_bit (LENGTH('a) * i) (mask LENGTH('a)))) OR push_bit (LENGTH('a) * i) (ucast x)"

text \<open>\<open>VECT_B\<close>, \<open>VECT_H\<close>, \<open>VECT_W\<close>, \<open>VECT_D\<close> and their signed forms, by the type of the element.\<close>

definition VECT :: "128 word \<Rightarrow> nat \<Rightarrow> 'a::len word" where
  "VECT v i = lane v (128 div LENGTH('a) - 1 - i)"

definition set_VECT :: "nat \<Rightarrow> 'a::len word \<Rightarrow> 128 word \<Rightarrow> 128 word" where
  "set_VECT i x v = set_lane (128 div LENGTH('a) - 1 - i) x v"

definition VECT_EVEN :: "nat \<Rightarrow> nat" where "VECT_EVEN i = 2 * i + 1"
definition VECT_ODD :: "nat \<Rightarrow> nat" where "VECT_ODD i = 2 * i"

subsection \<open>Registers\<close>

text \<open>\<open>gCPU.vr[r].x[i]\<close>, by the type of the element, and the stores to it.\<close>

definition vreg :: "cpu \<Rightarrow> nat \<Rightarrow> nat \<Rightarrow> 'a::len word" where
  "vreg c r i = lane (vr c r) i"

definition set_vr :: "nat \<Rightarrow> 128 word \<Rightarrow> cpu \<Rightarrow> cpu" where
  "set_vr r v c = c\<lparr>vr := (vr c)(r := v)\<rparr>"

definition set_vreg :: "nat \<Rightarrow> nat \<Rightarrow> 'a::len word \<Rightarrow> cpu \<Rightarrow> cpu" where
  "set_vreg r i x c = set_vr r (set_lane i x (vr c r)) c"

abbreviation vb :: "cpu \<Rightarrow> nat \<Rightarrow> nat \<Rightarrow> uint8" where "vb \<equiv> vreg"
abbreviation vh :: "cpu \<Rightarrow> nat \<Rightarrow> nat \<Rightarrow> uint16" where "vh \<equiv> vreg"
abbreviation vw :: "cpu \<Rightarrow> nat \<Rightarrow> nat \<Rightarrow> uint32" where "vw \<equiv> vreg"
abbreviation vd :: "cpu \<Rightarrow> nat \<Rightarrow> nat \<Rightarrow> uint64" where "vd \<equiv> vreg"

definition with_X :: "(nat \<Rightarrow> nat \<Rightarrow> nat \<Rightarrow> cpu \<Rightarrow> 'a) \<Rightarrow> cpu \<Rightarrow> 'a" where
  "with_X f c = (let (vrD, vrA, vrB) = PPC_OPC_TEMPL_X (current_opc c) in f vrD vrA vrB c)"

definition with_A :: "(nat \<Rightarrow> nat \<Rightarrow> nat \<Rightarrow> nat \<Rightarrow> cpu \<Rightarrow> 'a) \<Rightarrow> cpu \<Rightarrow> 'a" where
  "with_A f c = (let (vrD, vrA, vrB, vrC) = PPC_OPC_TEMPL_A (current_opc c) in f vrD vrA vrB vrC c)"

subsection \<open>Loops\<close>

text \<open>
  \<open>for_lanes\<close> is the loop \<open>for (int i=0; i<n; i++)\<close> that writes element \<open>i\<close> of the destination register in
  place; \<open>for_lanes_sat\<close> the same when the element comes from a conversion that may set the saturation bit.
  \<open>build\<close> and \<open>build_sat\<close> fill a local \<open>Vector_t\<close> element by element, in the order of the macros.
\<close>

definition for_lanes :: "nat \<Rightarrow> nat \<Rightarrow> (nat \<Rightarrow> cpu \<Rightarrow> 'a::len word) \<Rightarrow> cpu \<Rightarrow> cpu" where
  "for_lanes n vrD f c = fold (\<lambda>i c. set_vreg vrD i (f i c) c) [0..<n] c"

definition for_lanes_sat :: "nat \<Rightarrow> nat \<Rightarrow> (nat \<Rightarrow> cpu \<Rightarrow> 'a::len word \<times> cpu) \<Rightarrow> cpu \<Rightarrow> cpu" where
  "for_lanes_sat n vrD f c = fold (\<lambda>i c. let (x, c) = f i c in set_vreg vrD i x c) [0..<n] c"

definition of_lanes :: "nat \<Rightarrow> (nat \<Rightarrow> 'a::len word) \<Rightarrow> 128 word" where
  "of_lanes n f = fold (\<lambda>i r. set_lane i (f i) r) [0..<n] 0"

definition build :: "nat \<Rightarrow> (nat \<Rightarrow> 'a::len word) \<Rightarrow> 128 word" where
  "build n f = fold (\<lambda>i r. set_VECT i (f i) r) [0..<n] 0"

definition build_sat :: "nat \<Rightarrow> (nat \<Rightarrow> cpu \<Rightarrow> 'a::len word \<times> cpu) \<Rightarrow> cpu \<Rightarrow> 128 word \<times> cpu" where
  "build_sat n f c = fold (\<lambda>i (r, c). let (x, c) = f i c in (set_VECT i x r, c)) [0..<n] (0, c)"

subsection \<open>Saturation\<close>

definition VSCR_SAT :: uint32 where "VSCR_SAT = 1"

definition set_sat :: "cpu \<Rightarrow> cpu" where
  "set_sat c = c\<lparr>vscr := vscr c OR VSCR_SAT\<rparr>"

definition SATURATE_UB :: "uint16 \<Rightarrow> cpu \<Rightarrow> uint8 \<times> cpu" where
  "SATURATE_UB val c = (if istrue (val AND 0xff00) then (0xff, set_sat c) else (ucast val, c))"

definition SATURATE_0B :: "uint16 \<Rightarrow> cpu \<Rightarrow> uint8 \<times> cpu" where
  "SATURATE_0B val c = (if istrue (val AND 0xff00) then (0, set_sat c) else (ucast val, c))"

definition SATURATE_UH :: "uint32 \<Rightarrow> cpu \<Rightarrow> uint16 \<times> cpu" where
  "SATURATE_UH val c = (if istrue (val AND 0xffff0000) then (0xffff, set_sat c) else (ucast val, c))"

definition SATURATE_0H :: "uint32 \<Rightarrow> cpu \<Rightarrow> uint16 \<times> cpu" where
  "SATURATE_0H val c = (if istrue (val AND 0xffff0000) then (0, set_sat c) else (ucast val, c))"

definition SATURATE_SB :: "uint16 \<Rightarrow> cpu \<Rightarrow> uint8 \<times> cpu" where
  "SATURATE_SB val c =
     (if 127 < sint val then (127, set_sat c)
      else if sint val < - 128 then (word_of_int (- 128), set_sat c)
      else (ucast val, c))"

definition SATURATE_USB :: "uint16 \<Rightarrow> cpu \<Rightarrow> uint8 \<times> cpu" where
  "SATURATE_USB val c =
     (if 0xff < sint val then (0xff, set_sat c)
      else if sint val < 0 then (0, set_sat c)
      else (ucast val, c))"

definition SATURATE_SH :: "uint32 \<Rightarrow> cpu \<Rightarrow> uint16 \<times> cpu" where
  "SATURATE_SH val c =
     (if 32767 < sint val then (32767, set_sat c)
      else if sint val < - 32768 then (word_of_int (- 32768), set_sat c)
      else (ucast val, c))"

definition SATURATE_USH :: "uint32 \<Rightarrow> cpu \<Rightarrow> uint16 \<times> cpu" where
  "SATURATE_USH val c =
     (if 0xffff < sint val then (0xffff, set_sat c)
      else if sint val < 0 then (0, set_sat c)
      else (ucast val, c))"

definition SATURATE_UW :: "uint64 \<Rightarrow> cpu \<Rightarrow> uint32 \<times> cpu" where
  "SATURATE_UW val c = (if 0xffffffff < sint val then (0xffffffff, set_sat c) else (ucast val, c))"

definition SATURATE_SW :: "uint64 \<Rightarrow> cpu \<Rightarrow> uint32 \<times> cpu" where
  "SATURATE_SW val c =
     (if 2147483647 < sint val then (2147483647, set_sat c)
      else if sint val < - 2147483648 then (word_of_int (- 2147483648), set_sat c)
      else (ucast val, c))"

subsection \<open>Pixels\<close>

definition PACK_PIXEL :: "uint32 \<Rightarrow> uint16" where
  "PACK_PIXEL clr =
     ucast (drop_bit 3 (clr AND 0x000000f8) OR drop_bit 6 (clr AND 0x0000f800) OR drop_bit 9 (clr AND 0x01f80000))"

definition UNPACK_PIXEL :: "uint16 \<Rightarrow> uint32" where
  "UNPACK_PIXEL clr =
     ucast (clr AND 0x001f) OR push_bit 3 (ucast (clr AND 0x03e0)) OR push_bit 6 (ucast (clr AND 0x7c00)) OR
     (if istrue (clr AND 0x8000) then 0xff000000 else 0)"

end
