(* ===== verification/Ppc_Vec.thy ===== *)
theory Ppc_Vec
  imports Ppc_Vec_Base
begin

text \<open>
  src/cpu/cpu_generic/ppc_vec.cc: the vector handlers on integers.  An element that the source computes in
  \<open>int\<close> and stores in a narrower type is computed at the width that keeps it exact.  A handler that can reach
  undefined behaviour of C++ returns an error; the others return the state.
\<close>

unbundle bit_operations_syntax

subsection \<open>Permutation and selection\<close>

definition ppc_opc_vperm :: "cpu \<Rightarrow> cpu" where
  "ppc_opc_vperm =
     with_A (\<lambda>vrD vrA vrB vrC c. set_vr vrD (of_lanes 16 (\<lambda>i.
       let sel = unat (vb c vrC i)
       in if bit sel 4 then VECT (vr c vrB) (sel mod 16) else VECT (vr c vrA) (sel mod 16) :: uint8)) c)"

definition ppc_opc_vsel :: "cpu \<Rightarrow> cpu" where
  "ppc_opc_vsel =
     with_A (\<lambda>vrD vrA vrB vrC. for_lanes 2 vrD (\<lambda>i c.
       let mask' = vd c vrC i
       in (vd c vrB i AND mask') OR (vd c vrA i AND NOT mask')))"

subsection \<open>Shifts and rotations of elements\<close>

definition ppc_opc_vsrb :: "cpu \<Rightarrow> cpu" where
  "ppc_opc_vsrb =
     with_X (\<lambda>vrD vrA vrB. for_lanes 16 vrD (\<lambda>i c. drop_bit (unat (vb c vrB i AND 0x7)) (vb c vrA i)))"

definition ppc_opc_vsrh :: "cpu \<Rightarrow> cpu" where
  "ppc_opc_vsrh =
     with_X (\<lambda>vrD vrA vrB. for_lanes 8 vrD (\<lambda>i c. drop_bit (unat (vh c vrB i AND 0xf)) (vh c vrA i)))"

definition ppc_opc_vsrw :: "cpu \<Rightarrow> cpu" where
  "ppc_opc_vsrw =
     with_X (\<lambda>vrD vrA vrB. for_lanes 4 vrD (\<lambda>i c. drop_bit (unat (vw c vrB i AND 0x1f)) (vw c vrA i)))"

definition ppc_opc_vsrab :: "cpu \<Rightarrow> cpu" where
  "ppc_opc_vsrab =
     with_X (\<lambda>vrD vrA vrB. for_lanes 16 vrD (\<lambda>i c. signed_drop_bit (unat (vb c vrB i AND 0x7)) (vb c vrA i)))"

definition ppc_opc_vsrah :: "cpu \<Rightarrow> cpu" where
  "ppc_opc_vsrah =
     with_X (\<lambda>vrD vrA vrB. for_lanes 8 vrD (\<lambda>i c. signed_drop_bit (unat (vh c vrB i AND 0xf)) (vh c vrA i)))"

definition ppc_opc_vsraw :: "cpu \<Rightarrow> cpu" where
  "ppc_opc_vsraw =
     with_X (\<lambda>vrD vrA vrB. for_lanes 4 vrD (\<lambda>i c. signed_drop_bit (unat (vw c vrB i AND 0x1f)) (vw c vrA i)))"

definition ppc_opc_vslb :: "cpu \<Rightarrow> cpu" where
  "ppc_opc_vslb =
     with_X (\<lambda>vrD vrA vrB. for_lanes 16 vrD (\<lambda>i c. push_bit (unat (vb c vrB i AND 0x7)) (vb c vrA i)))"

definition ppc_opc_vslh :: "cpu \<Rightarrow> cpu" where
  "ppc_opc_vslh =
     with_X (\<lambda>vrD vrA vrB. for_lanes 8 vrD (\<lambda>i c. push_bit (unat (vh c vrB i AND 0xf)) (vh c vrA i)))"

definition ppc_opc_vslw :: "cpu \<Rightarrow> cpu" where
  "ppc_opc_vslw =
     with_X (\<lambda>vrD vrA vrB. for_lanes 4 vrD (\<lambda>i c. push_bit (unat (vw c vrB i AND 0x1f)) (vw c vrA i)))"

text \<open>
  A rotation is two shifts.  For bytes and half words the operands are promoted to \<open>int\<close>, where a shift by the full
  width gives zero; for words a rotation by zero shifts right by 32, which C++ leaves undefined.
\<close>

definition ppc_opc_vrlb :: "cpu \<Rightarrow> cpu" where
  "ppc_opc_vrlb =
     with_X (\<lambda>vrD vrA vrB c. set_vr vrD (of_lanes 16 (\<lambda>i.
       let shift = unat (vb c vrB i AND 0x7)
       in push_bit shift (vb c vrA i) OR drop_bit (8 - shift) (vb c vrA i))) c)"

definition ppc_opc_vrlh :: "cpu \<Rightarrow> cpu" where
  "ppc_opc_vrlh =
     with_X (\<lambda>vrD vrA vrB c. set_vr vrD (of_lanes 8 (\<lambda>i.
       let shift = unat (vh c vrB i AND 0xf)
       in push_bit shift (vh c vrA i) OR drop_bit (16 - shift) (vh c vrA i))) c)"

definition ppc_opc_vrlw :: "opc_function" where
  "ppc_opc_vrlw =
     with_X (\<lambda>vrD vrA vrB c. if list_ex (\<lambda>i. vw c vrB i AND 0x1f = 0) [0..<4] then Inl (Host_Undefined Shift_Count)
       else Inr (set_vr vrD (of_lanes 4 (\<lambda>i.
         let shift = unat (vw c vrB i AND 0x1f)
         in push_bit shift (vw c vrA i) OR drop_bit (32 - shift) (vw c vrA i))) c))"

subsection \<open>Shifts of the whole register\<close>

text \<open>
  The bit shifts take the count from word 0 and move the bits that cross the middle by \<open>64 - shift\<close>, which is undefined
  for a count of zero.  The octet shifts run over the bytes of the host, so that a shift to the left moves to higher
  indices.
\<close>

definition ppc_opc_vsr :: "opc_function" where
  "ppc_opc_vsr =
     with_X (\<lambda>vrD vrA vrB c. let shift = unat (vw c vrB 0 AND 0x7) in
       if shift = 0 then Inl (Host_Undefined Shift_Count)
       else
         let r = of_lanes 2 (\<lambda>i. drop_bit shift (vd c vrA i))
         in Inr (set_vr vrD (set_VECT 1 (VECT r 1 OR push_bit (64 - shift) (VECT (vr c vrA) 0) :: uint64) r) c))"

definition ppc_opc_vsl :: "opc_function" where
  "ppc_opc_vsl =
     with_X (\<lambda>vrD vrA vrB c. let shift = unat (vw c vrB 0 AND 0x7) in
       if shift = 0 then Inl (Host_Undefined Shift_Count)
       else
         let r = of_lanes 2 (\<lambda>i. push_bit shift (vd c vrA i))
         in Inr (set_vr vrD (set_VECT 0 (VECT r 0 OR drop_bit (64 - shift) (VECT (vr c vrA) 1) :: uint64) r) c))"

definition ppc_opc_vsro :: "cpu \<Rightarrow> cpu" where
  "ppc_opc_vsro =
     with_X (\<lambda>vrD vrA vrB c. let shift = unat (drop_bit 3 (vw c vrB 0) AND 0xf)
       in set_vr vrD (of_lanes 16 (\<lambda>i. if i < 16 - shift then vb c vrA (i + shift) else 0)) c)"

definition ppc_opc_vslo :: "cpu \<Rightarrow> cpu" where
  "ppc_opc_vslo =
     with_X (\<lambda>vrD vrA vrB c. let shift = unat (drop_bit 3 (vw c vrB 0) AND 0xf)
       in set_vr vrD (of_lanes 16 (\<lambda>i. if i < shift then 0 else vb c vrA (i - shift))) c)"

definition ppc_opc_vsldoi :: "cpu \<Rightarrow> cpu" where
  "ppc_opc_vsldoi =
     with_A (\<lambda>vrD vrA vrB vrC c. let shift = vrC mod 16; ashift = 16 - shift
       in set_vr vrD (of_lanes 16 (\<lambda>i. if i < shift then vb c vrB (i + ashift) else vb c vrA (i - shift))) c)"

subsection \<open>Merging and splatting\<close>

definition ppc_opc_vmrghb :: "cpu \<Rightarrow> cpu" where
  "ppc_opc_vmrghb =
     with_X (\<lambda>vrD vrA vrB c. set_vr vrD (build 16 (\<lambda>i. VECT (vr c (if even i then vrA else vrB)) (i div 2) :: uint8)) c)"

definition ppc_opc_vmrghh :: "cpu \<Rightarrow> cpu" where
  "ppc_opc_vmrghh =
     with_X (\<lambda>vrD vrA vrB c. set_vr vrD (build 8 (\<lambda>i. VECT (vr c (if even i then vrA else vrB)) (i div 2) :: uint16)) c)"

definition ppc_opc_vmrghw :: "cpu \<Rightarrow> cpu" where
  "ppc_opc_vmrghw =
     with_X (\<lambda>vrD vrA vrB c. set_vr vrD (build 4 (\<lambda>i. VECT (vr c (if even i then vrA else vrB)) (i div 2) :: uint32)) c)"

definition ppc_opc_vmrglb :: "cpu \<Rightarrow> cpu" where
  "ppc_opc_vmrglb =
     with_X (\<lambda>vrD vrA vrB c. set_vr vrD (build 16 (\<lambda>i. VECT (vr c (if even i then vrA else vrB)) (8 + i div 2) :: uint8)) c)"

definition ppc_opc_vmrglh :: "cpu \<Rightarrow> cpu" where
  "ppc_opc_vmrglh =
     with_X (\<lambda>vrD vrA vrB c. set_vr vrD (build 8 (\<lambda>i. VECT (vr c (if even i then vrA else vrB)) (4 + i div 2) :: uint16)) c)"

definition ppc_opc_vmrglw :: "cpu \<Rightarrow> cpu" where
  "ppc_opc_vmrglw =
     with_X (\<lambda>vrD vrA vrB c. set_vr vrD (build 4 (\<lambda>i. VECT (vr c (if even i then vrA else vrB)) (2 + i div 2) :: uint32)) c)"

definition ppc_opc_vspltb :: "cpu \<Rightarrow> cpu" where
  "ppc_opc_vspltb =
     with_X (\<lambda>vrD uimm vrB c. let val = ucast (VECT (vr c vrB) (uimm mod 16) :: uint8) :: uint64;
           val = val OR push_bit 8 val;
           val = val OR push_bit 16 val;
           val = val OR push_bit 32 val
       in set_vreg vrD 1 val (set_vreg vrD 0 val c))"

definition ppc_opc_vsplth :: "cpu \<Rightarrow> cpu" where
  "ppc_opc_vsplth =
     with_X (\<lambda>vrD uimm vrB c. let val = ucast (VECT (vr c vrB) (uimm mod 8) :: uint16) :: uint64;
           val = val OR push_bit 16 val;
           val = val OR push_bit 32 val
       in set_vreg vrD 1 val (set_vreg vrD 0 val c))"

definition ppc_opc_vspltw :: "cpu \<Rightarrow> cpu" where
  "ppc_opc_vspltw =
     with_X (\<lambda>vrD uimm vrB c. let val = ucast (VECT (vr c vrB) (uimm mod 4) :: uint32) :: uint64;
           val = val OR push_bit 32 val
       in set_vreg vrD 1 val (set_vreg vrD 0 val c))"

definition ppc_opc_vspltisb :: "cpu \<Rightarrow> cpu" where
  "ppc_opc_vspltisb =
     with_X (\<lambda>vrD uimm vrB c. let val = if bit uimm 4 then of_nat uimm OR 0xe0 else of_nat uimm :: uint64;
           val = val OR push_bit 8 val;
           val = val OR push_bit 16 val;
           val = val OR push_bit 32 val
       in set_vreg vrD 1 val (set_vreg vrD 0 val c))"

definition ppc_opc_vspltish :: "cpu \<Rightarrow> cpu" where
  "ppc_opc_vspltish =
     with_X (\<lambda>vrD uimm vrB c. let val = if bit uimm 4 then of_nat uimm OR 0xffe0 else of_nat uimm :: uint64;
           val = val OR push_bit 16 val;
           val = val OR push_bit 32 val
       in set_vreg vrD 1 val (set_vreg vrD 0 val c))"

definition ppc_opc_vspltisw :: "cpu \<Rightarrow> cpu" where
  "ppc_opc_vspltisw =
     with_X (\<lambda>vrD uimm vrB c. let val = if bit uimm 4 then of_nat uimm OR 0xffffffe0 else of_nat uimm :: uint64;
           val = val OR push_bit 32 val
       in set_vreg vrD 1 val (set_vreg vrD 0 val c))"

subsection \<open>The status and control register\<close>

definition ppc_opc_mfvscr :: "cpu \<Rightarrow> cpu" where
  "ppc_opc_mfvscr =
     with_X (\<lambda>vrD vrA vrB c. set_vr vrD (set_VECT 0 (0 :: uint64) (set_VECT 2 (0 :: uint32) (set_VECT 3 (vscr c) (vr c vrD)))) c)"

definition ppc_opc_mtvscr :: "cpu \<Rightarrow> cpu" where
  "ppc_opc_mtvscr =
     with_X (\<lambda>vrD vrA vrB c. c\<lparr>vscr := VECT (vr c vrB) 3\<rparr>)"

subsection \<open>Packing and unpacking\<close>

definition ppc_opc_vpkuhum :: "cpu \<Rightarrow> cpu" where
  "ppc_opc_vpkuhum =
     with_X (\<lambda>vrD vrA vrB c. set_vr vrD (build 16 (\<lambda>i. VECT (vr c (if i < 8 then vrA else vrB)) (2 * (i mod 8) + 1) :: uint8)) c)"

definition ppc_opc_vpkuwum :: "cpu \<Rightarrow> cpu" where
  "ppc_opc_vpkuwum =
     with_X (\<lambda>vrD vrA vrB c. set_vr vrD (build 8 (\<lambda>i. VECT (vr c (if i < 4 then vrA else vrB)) (2 * (i mod 4) + 1) :: uint16)) c)"

definition ppc_opc_vpkpx :: "cpu \<Rightarrow> cpu" where
  "ppc_opc_vpkpx =
     with_X (\<lambda>vrD vrA vrB c. set_vr vrD (build 8 (\<lambda>i. PACK_PIXEL (VECT (vr c (if i < 4 then vrA else vrB)) (i mod 4)))) c)"

definition ppc_opc_vpkuhus :: "cpu \<Rightarrow> cpu" where
  "ppc_opc_vpkuhus =
     with_X (\<lambda>vrD vrA vrB c. let (r, c) = build_sat 16 (\<lambda>i c. SATURATE_UB (VECT (vr c (if i < 8 then vrA else vrB)) (i mod 8)) c) c
       in set_vr vrD r c)"

definition ppc_opc_vpkshss :: "cpu \<Rightarrow> cpu" where
  "ppc_opc_vpkshss =
     with_X (\<lambda>vrD vrA vrB c. let (r, c) = build_sat 16 (\<lambda>i c. SATURATE_SB (VECT (vr c (if i < 8 then vrA else vrB)) (i mod 8)) c) c
       in set_vr vrD r c)"

definition ppc_opc_vpkuwus :: "cpu \<Rightarrow> cpu" where
  "ppc_opc_vpkuwus =
     with_X (\<lambda>vrD vrA vrB c. let (r, c) = build_sat 8 (\<lambda>i c. SATURATE_UH (VECT (vr c (if i < 4 then vrA else vrB)) (i mod 4)) c) c
       in set_vr vrD r c)"

definition ppc_opc_vpkswss :: "cpu \<Rightarrow> cpu" where
  "ppc_opc_vpkswss =
     with_X (\<lambda>vrD vrA vrB c. let (r, c) = build_sat 8 (\<lambda>i c. SATURATE_SH (VECT (vr c (if i < 4 then vrA else vrB)) (i mod 4)) c) c
       in set_vr vrD r c)"

definition ppc_opc_vpkshus :: "cpu \<Rightarrow> cpu" where
  "ppc_opc_vpkshus =
     with_X (\<lambda>vrD vrA vrB c. let (r, c) = build_sat 16 (\<lambda>i c. SATURATE_USB (VECT (vr c (if i < 8 then vrA else vrB)) (i mod 8)) c) c
       in set_vr vrD r c)"

definition ppc_opc_vpkswus :: "cpu \<Rightarrow> cpu" where
  "ppc_opc_vpkswus =
     with_X (\<lambda>vrD vrA vrB c. let (r, c) = build_sat 8 (\<lambda>i c. SATURATE_USH (VECT (vr c (if i < 4 then vrA else vrB)) (i mod 4)) c) c
       in set_vr vrD r c)"

definition ppc_opc_vupkhsb :: "cpu \<Rightarrow> cpu" where
  "ppc_opc_vupkhsb =
     with_X (\<lambda>vrD vrA vrB c. set_vr vrD (build 8 (\<lambda>i. scast (VECT (vr c vrB) (i) :: uint8) :: uint16)) c)"

definition ppc_opc_vupkhpx :: "cpu \<Rightarrow> cpu" where
  "ppc_opc_vupkhpx =
     with_X (\<lambda>vrD vrA vrB c. set_vr vrD (build 4 (\<lambda>i. UNPACK_PIXEL (VECT (vr c vrB) (i)))) c)"

definition ppc_opc_vupkhsh :: "cpu \<Rightarrow> cpu" where
  "ppc_opc_vupkhsh =
     with_X (\<lambda>vrD vrA vrB c. set_vr vrD (build 4 (\<lambda>i. scast (VECT (vr c vrB) (i) :: uint16) :: uint32)) c)"

definition ppc_opc_vupklsb :: "cpu \<Rightarrow> cpu" where
  "ppc_opc_vupklsb =
     with_X (\<lambda>vrD vrA vrB c. set_vr vrD (build 8 (\<lambda>i. scast (VECT (vr c vrB) (8 + i) :: uint8) :: uint16)) c)"

definition ppc_opc_vupklpx :: "cpu \<Rightarrow> cpu" where
  "ppc_opc_vupklpx =
     with_X (\<lambda>vrD vrA vrB c. set_vr vrD (build 4 (\<lambda>i. UNPACK_PIXEL (VECT (vr c vrB) (4 + i)))) c)"

definition ppc_opc_vupklsh :: "cpu \<Rightarrow> cpu" where
  "ppc_opc_vupklsh =
     with_X (\<lambda>vrD vrA vrB c. set_vr vrD (build 4 (\<lambda>i. scast (VECT (vr c vrB) (4 + i) :: uint16) :: uint32)) c)"

subsection \<open>Addition\<close>

definition ppc_opc_vaddubm :: "cpu \<Rightarrow> cpu" where
  "ppc_opc_vaddubm =
     with_X (\<lambda>vrD vrA vrB. for_lanes 16 vrD (\<lambda>i c. vb c vrA i + vb c vrB i))"

definition ppc_opc_vadduhm :: "cpu \<Rightarrow> cpu" where
  "ppc_opc_vadduhm =
     with_X (\<lambda>vrD vrA vrB. for_lanes 8 vrD (\<lambda>i c. vh c vrA i + vh c vrB i))"

definition ppc_opc_vadduwm :: "cpu \<Rightarrow> cpu" where
  "ppc_opc_vadduwm =
     with_X (\<lambda>vrD vrA vrB. for_lanes 4 vrD (\<lambda>i c. vw c vrA i + vw c vrB i))"

definition ppc_opc_vaddcuw :: "cpu \<Rightarrow> cpu" where
  "ppc_opc_vaddcuw =
     with_X (\<lambda>vrD vrA vrB. for_lanes 4 vrD (\<lambda>i c.
       let res = vw c vrA i + vw c vrB i
       in if res < vw c vrA i then 1 else 0 :: uint32))"

definition ppc_opc_vaddubs :: "cpu \<Rightarrow> cpu" where
  "ppc_opc_vaddubs =
     with_X (\<lambda>vrD vrA vrB. for_lanes_sat 16 vrD (\<lambda>i c.
       let res = ucast (vb c vrA i) + ucast (vb c vrB i)
       in SATURATE_UB res c))"

definition ppc_opc_vadduhs :: "cpu \<Rightarrow> cpu" where
  "ppc_opc_vadduhs =
     with_X (\<lambda>vrD vrA vrB. for_lanes_sat 8 vrD (\<lambda>i c.
       let res = ucast (vh c vrA i) + ucast (vh c vrB i)
       in SATURATE_UH res c))"

definition ppc_opc_vaddsbs :: "cpu \<Rightarrow> cpu" where
  "ppc_opc_vaddsbs =
     with_X (\<lambda>vrD vrA vrB. for_lanes_sat 16 vrD (\<lambda>i c.
       let res = scast (vb c vrA i) + scast (vb c vrB i)
       in SATURATE_SB res c))"

definition ppc_opc_vaddshs :: "cpu \<Rightarrow> cpu" where
  "ppc_opc_vaddshs =
     with_X (\<lambda>vrD vrA vrB. for_lanes_sat 8 vrD (\<lambda>i c.
       let res = scast (vh c vrA i) + scast (vh c vrB i)
       in SATURATE_SH res c))"

definition ppc_opc_vadduws :: "cpu \<Rightarrow> cpu" where
  "ppc_opc_vadduws =
     with_X (\<lambda>vrD vrA vrB. for_lanes_sat 4 vrD (\<lambda>i c.
       let res = vw c vrA i + vw c vrB i
       in if res < vw c vrA i then (0xffffffff, set_sat c) else (res, c)))"

definition SIGN32 :: "uint32" where
  "SIGN32 =
     0x80000000"

definition ppc_opc_vaddsws :: "cpu \<Rightarrow> cpu" where
  "ppc_opc_vaddsws =
     with_X (\<lambda>vrD vrA vrB. for_lanes_sat 4 vrD (\<lambda>i c.
       let res = vw c vrA i + vw c vrB i
       in if (vw c vrA i XOR vw c vrB i) AND SIGN32 = 0 \<and> istrue ((res XOR vw c vrA i) AND SIGN32)
          then (if istrue (res AND SIGN32) then SIGN32 - 1 else SIGN32, set_sat c)
          else (res, c)))"

subsection \<open>Subtraction\<close>

definition ppc_opc_vsububm :: "cpu \<Rightarrow> cpu" where
  "ppc_opc_vsububm =
     with_X (\<lambda>vrD vrA vrB. for_lanes 16 vrD (\<lambda>i c. vb c vrA i - vb c vrB i))"

definition ppc_opc_vsubuhm :: "cpu \<Rightarrow> cpu" where
  "ppc_opc_vsubuhm =
     with_X (\<lambda>vrD vrA vrB. for_lanes 8 vrD (\<lambda>i c. vh c vrA i - vh c vrB i))"

definition ppc_opc_vsubuwm :: "cpu \<Rightarrow> cpu" where
  "ppc_opc_vsubuwm =
     with_X (\<lambda>vrD vrA vrB. for_lanes 4 vrD (\<lambda>i c. vw c vrA i - vw c vrB i))"

definition ppc_opc_vsubcuw :: "cpu \<Rightarrow> cpu" where
  "ppc_opc_vsubcuw =
     with_X (\<lambda>vrD vrA vrB. for_lanes 4 vrD (\<lambda>i c.
       let res = vw c vrA i - vw c vrB i
       in if res \<le> vw c vrA i then 1 else 0 :: uint32))"

definition ppc_opc_vsububs :: "cpu \<Rightarrow> cpu" where
  "ppc_opc_vsububs =
     with_X (\<lambda>vrD vrA vrB. for_lanes_sat 16 vrD (\<lambda>i c.
       let res = ucast (vb c vrA i) - ucast (vb c vrB i)
       in SATURATE_0B res c))"

definition ppc_opc_vsubuhs :: "cpu \<Rightarrow> cpu" where
  "ppc_opc_vsubuhs =
     with_X (\<lambda>vrD vrA vrB. for_lanes_sat 8 vrD (\<lambda>i c.
       let res = ucast (vh c vrA i) - ucast (vh c vrB i)
       in SATURATE_0H res c))"

definition ppc_opc_vsubsbs :: "cpu \<Rightarrow> cpu" where
  "ppc_opc_vsubsbs =
     with_X (\<lambda>vrD vrA vrB. for_lanes_sat 16 vrD (\<lambda>i c.
       let res = scast (vb c vrA i) - scast (vb c vrB i)
       in SATURATE_SB res c))"

definition ppc_opc_vsubshs :: "cpu \<Rightarrow> cpu" where
  "ppc_opc_vsubshs =
     with_X (\<lambda>vrD vrA vrB. for_lanes_sat 8 vrD (\<lambda>i c.
       let res = scast (vh c vrA i) - scast (vh c vrB i)
       in SATURATE_SH res c))"

definition ppc_opc_vsubuws :: "cpu \<Rightarrow> cpu" where
  "ppc_opc_vsubuws =
     with_X (\<lambda>vrD vrA vrB. for_lanes_sat 4 vrD (\<lambda>i c.
       let res = vw c vrA i - vw c vrB i
       in if vw c vrA i < res then (0, set_sat c) else (res, c)))"

definition ppc_opc_vsubsws :: "cpu \<Rightarrow> cpu" where
  "ppc_opc_vsubsws =
     with_X (\<lambda>vrD vrA vrB. for_lanes_sat 4 vrD (\<lambda>i c.
       let tmp = - vw c vrB i; res = vw c vrA i + tmp
       in if (vw c vrA i XOR tmp) AND SIGN32 = 0 \<and> istrue ((res XOR tmp) AND SIGN32)
          then (if istrue (res AND SIGN32) then SIGN32 - 1 else SIGN32, set_sat c)
          else (res, c)))"

subsection \<open>Products\<close>

definition ppc_opc_vmuleub :: "cpu \<Rightarrow> cpu" where
  "ppc_opc_vmuleub =
     with_X (\<lambda>vrD vrA vrB. for_lanes 8 vrD (\<lambda>i c.
       ucast (vb c vrA (VECT_EVEN i)) * ucast (vb c vrB (VECT_EVEN i)) :: uint16))"

definition ppc_opc_vmuleuh :: "cpu \<Rightarrow> cpu" where
  "ppc_opc_vmuleuh =
     with_X (\<lambda>vrD vrA vrB. for_lanes 4 vrD (\<lambda>i c.
       ucast (vh c vrA (VECT_EVEN i)) * ucast (vh c vrB (VECT_EVEN i)) :: uint32))"

definition ppc_opc_vmulesb :: "cpu \<Rightarrow> cpu" where
  "ppc_opc_vmulesb =
     with_X (\<lambda>vrD vrA vrB. for_lanes 8 vrD (\<lambda>i c.
       scast (vb c vrA (VECT_EVEN i)) * scast (vb c vrB (VECT_EVEN i)) :: uint16))"

definition ppc_opc_vmulesh :: "cpu \<Rightarrow> cpu" where
  "ppc_opc_vmulesh =
     with_X (\<lambda>vrD vrA vrB. for_lanes 4 vrD (\<lambda>i c.
       scast (vh c vrA (VECT_EVEN i)) * scast (vh c vrB (VECT_EVEN i)) :: uint32))"

definition ppc_opc_vmuloub :: "cpu \<Rightarrow> cpu" where
  "ppc_opc_vmuloub =
     with_X (\<lambda>vrD vrA vrB. for_lanes 8 vrD (\<lambda>i c.
       ucast (vb c vrA (VECT_ODD i)) * ucast (vb c vrB (VECT_ODD i)) :: uint16))"

definition ppc_opc_vmulouh :: "cpu \<Rightarrow> cpu" where
  "ppc_opc_vmulouh =
     with_X (\<lambda>vrD vrA vrB. for_lanes 4 vrD (\<lambda>i c.
       ucast (vh c vrA (VECT_ODD i)) * ucast (vh c vrB (VECT_ODD i)) :: uint32))"

definition ppc_opc_vmulosb :: "cpu \<Rightarrow> cpu" where
  "ppc_opc_vmulosb =
     with_X (\<lambda>vrD vrA vrB. for_lanes 8 vrD (\<lambda>i c.
       scast (vb c vrA (VECT_ODD i)) * scast (vb c vrB (VECT_ODD i)) :: uint16))"

definition ppc_opc_vmulosh :: "cpu \<Rightarrow> cpu" where
  "ppc_opc_vmulosh =
     with_X (\<lambda>vrD vrA vrB. for_lanes 4 vrD (\<lambda>i c.
       scast (vh c vrA (VECT_ODD i)) * scast (vh c vrB (VECT_ODD i)) :: uint32))"

definition ppc_opc_vmhaddshs :: "cpu \<Rightarrow> cpu" where
  "ppc_opc_vmhaddshs =
     with_A (\<lambda>vrD vrA vrB vrC. for_lanes_sat 8 vrD (\<lambda>i c.
       let prod = scast (vh c vrA i) * scast (vh c vrB i);
           prod = signed_drop_bit 15 prod + scast (vh c vrC i)
       in SATURATE_SH prod c))"

definition ppc_opc_vmladduhm :: "cpu \<Rightarrow> cpu" where
  "ppc_opc_vmladduhm =
     with_A (\<lambda>vrD vrA vrB vrC. for_lanes 8 vrD (\<lambda>i c.
       let prod = ucast (vh c vrA i) * ucast (vh c vrB i) + ucast (vh c vrC i) :: uint32
       in ucast prod :: uint16))"

definition ppc_opc_vmhraddshs :: "cpu \<Rightarrow> cpu" where
  "ppc_opc_vmhraddshs =
     with_A (\<lambda>vrD vrA vrB vrC. for_lanes_sat 8 vrD (\<lambda>i c.
       let prod = scast (vh c vrA i) * scast (vh c vrB i);
           prod = prod + 0x4000;
           prod = signed_drop_bit 15 prod + scast (vh c vrC i)
       in SATURATE_SH prod c))"

subsection \<open>Sums of products\<close>

text \<open>
  The unsigned sums wrap.  The signed ones add to an \<open>sint32\<close>, whose overflow C++ leaves undefined: \<open>add_sint32\<close>.
\<close>

definition ppc_opc_vmsumubm :: "cpu \<Rightarrow> cpu" where
  "ppc_opc_vmsumubm =
     with_A (\<lambda>vrD vrA vrB vrC. for_lanes 4 vrD (\<lambda>i c.
       vw c vrC i
       + ucast (vb c vrA (4 * i)) * ucast (vb c vrB (4 * i))
       + ucast (vb c vrA (4 * i + 1)) * ucast (vb c vrB (4 * i + 1))
       + ucast (vb c vrA (4 * i + 2)) * ucast (vb c vrB (4 * i + 2))
       + ucast (vb c vrA (4 * i + 3)) * ucast (vb c vrB (4 * i + 3))))"

definition ppc_opc_vmsumuhm :: "cpu \<Rightarrow> cpu" where
  "ppc_opc_vmsumuhm =
     with_A (\<lambda>vrD vrA vrB vrC. for_lanes 4 vrD (\<lambda>i c.
       vw c vrC i
       + ucast (vh c vrA (2 * i)) * ucast (vh c vrB (2 * i))
       + ucast (vh c vrA (2 * i + 1)) * ucast (vh c vrB (2 * i + 1))))"

definition add_sint32 :: "uint32 \<Rightarrow> uint32 \<Rightarrow> cpu_error + uint32" where
  "add_sint32 x y =
     (if sint x + sint y = sint (x + y) then Inr (x + y) else Inl (Host_Undefined Signed_Overflow))"

fun sum_sint32 :: "uint32 list \<Rightarrow> uint32 \<Rightarrow> cpu_error + uint32" where
  "sum_sint32 [] x = Inr x"
| "sum_sint32 (y # ys) x = and_then (add_sint32 x y) (sum_sint32 ys)"

fun for_lanes_err :: "nat list \<Rightarrow> nat \<Rightarrow> (nat \<Rightarrow> cpu \<Rightarrow> cpu_error + 'a::len word) \<Rightarrow> cpu \<Rightarrow> cpu_error + cpu" where
  "for_lanes_err [] vrD f c = Inr c"
| "for_lanes_err (i # is) vrD f c = and_then (f i c) (\<lambda>x. for_lanes_err is vrD f (set_vreg vrD i x c))"

definition ppc_opc_vmsummbm :: "opc_function" where
  "ppc_opc_vmsummbm =
     with_A (\<lambda>vrD vrA vrB vrC. for_lanes_err [0..<4] vrD (\<lambda>i c.
       sum_sint32 [scast (vb c vrA (4 * i)) * ucast (vb c vrB (4 * i)),
         scast (vb c vrA (4 * i + 1)) * ucast (vb c vrB (4 * i + 1)),
         scast (vb c vrA (4 * i + 2)) * ucast (vb c vrB (4 * i + 2)),
         scast (vb c vrA (4 * i + 3)) * ucast (vb c vrB (4 * i + 3))] (vw c vrC i)))"

definition ppc_opc_vmsumshm :: "opc_function" where
  "ppc_opc_vmsumshm =
     with_A (\<lambda>vrD vrA vrB vrC. for_lanes_err [0..<4] vrD (\<lambda>i c.
       sum_sint32 [scast (vh c vrA (2 * i)) * scast (vh c vrB (2 * i)),
         scast (vh c vrA (2 * i + 1)) * scast (vh c vrB (2 * i + 1))] (vw c vrC i)))"

definition ppc_opc_vmsumuhs :: "cpu \<Rightarrow> cpu" where
  "ppc_opc_vmsumuhs =
     with_A (\<lambda>vrD vrA vrB vrC. for_lanes_sat 4 vrD (\<lambda>i c.
       let temp = ucast (vw c vrC i) + ucast (ucast (vh c vrA (2 * i)) * ucast (vh c vrB (2 * i)) :: uint32)
           + ucast (ucast (vh c vrA (2 * i + 1)) * ucast (vh c vrB (2 * i + 1)) :: uint32)
       in SATURATE_UW temp c))"

definition ppc_opc_vmsumshs :: "cpu \<Rightarrow> cpu" where
  "ppc_opc_vmsumshs =
     with_A (\<lambda>vrD vrA vrB vrC. for_lanes_sat 4 vrD (\<lambda>i c.
       let temp = scast (vw c vrC i) + scast (scast (vh c vrA (2 * i)) * scast (vh c vrB (2 * i)) :: uint32)
           + scast (scast (vh c vrA (2 * i + 1)) * scast (vh c vrB (2 * i + 1)) :: uint32)
       in SATURATE_SW temp c))"

subsection \<open>Sums across elements\<close>

definition ppc_opc_vsum4ubs :: "cpu \<Rightarrow> cpu" where
  "ppc_opc_vsum4ubs =
     with_X (\<lambda>vrD vrA vrB. for_lanes_sat 4 vrD (\<lambda>i c.
       let res = ucast (vw c vrB i) + ucast (vb c vrA (4 * i)) + ucast (vb c vrA (4 * i + 1)) + ucast (vb c vrA (4 * i + 2))
           + ucast (vb c vrA (4 * i + 3))
       in SATURATE_UW res c))"

definition ppc_opc_vsum4sbs :: "cpu \<Rightarrow> cpu" where
  "ppc_opc_vsum4sbs =
     with_X (\<lambda>vrD vrA vrB. for_lanes_sat 4 vrD (\<lambda>i c.
       let res = scast (vw c vrB i) + scast (vb c vrA (4 * i)) + scast (vb c vrA (4 * i + 1)) + scast (vb c vrA (4 * i + 2))
           + scast (vb c vrA (4 * i + 3))
       in SATURATE_SW res c))"

definition ppc_opc_vsum4shs :: "cpu \<Rightarrow> cpu" where
  "ppc_opc_vsum4shs =
     with_X (\<lambda>vrD vrA vrB. for_lanes_sat 4 vrD (\<lambda>i c.
       let res = scast (vw c vrB i) + scast (vh c vrA (2 * i)) + scast (vh c vrA (2 * i + 1))
       in SATURATE_SW res c))"

definition ppc_opc_vsum2sws :: "cpu \<Rightarrow> cpu" where
  "ppc_opc_vsum2sws =
     with_X (\<lambda>vrD vrA vrB c. let sum2 = (\<lambda>j i c.
           let (x, c) = SATURATE_SW (scast (vw c vrA j) + scast (vw c vrA (j + 1)) + scast (vw c vrB (VECT_ODD i))) c
           in set_vreg vrD (VECT_EVEN i) (0 :: uint32) (set_vreg vrD (VECT_ODD i) x c))
       in sum2 2 1 (sum2 0 0 c))"

definition ppc_opc_vsumsws :: "cpu \<Rightarrow> cpu" where
  "ppc_opc_vsumsws =
     with_X (\<lambda>vrD vrA vrB c. let res = scast (vw c vrA 0) + scast (vw c vrA 1);
           res = res + (scast (vw c vrA 2) + scast (vw c vrA 3));
           res = res + ucast (VECT (vr c vrB) 3 :: uint32);
           (x, c) = SATURATE_SW res c;
           v = set_VECT 3 x (vr c vrD)
       in set_vr vrD (set_VECT 0 (0 :: uint32) (set_VECT 1 (0 :: uint32) (set_VECT 2 (0 :: uint32) v))) c)"

subsection \<open>Averages, maxima, minima\<close>

definition ppc_opc_vavgub :: "cpu \<Rightarrow> cpu" where
  "ppc_opc_vavgub =
     with_X (\<lambda>vrD vrA vrB. for_lanes 16 vrD (\<lambda>i c.
       let res = ucast (vb c vrA i) + ucast (vb c vrB i) + 1 :: uint16
       in ucast (drop_bit 1 res) :: uint8))"

definition ppc_opc_vavguh :: "cpu \<Rightarrow> cpu" where
  "ppc_opc_vavguh =
     with_X (\<lambda>vrD vrA vrB. for_lanes 8 vrD (\<lambda>i c.
       let res = ucast (vh c vrA i) + ucast (vh c vrB i) + 1 :: uint32
       in ucast (drop_bit 1 res) :: uint16))"

definition ppc_opc_vavguw :: "cpu \<Rightarrow> cpu" where
  "ppc_opc_vavguw =
     with_X (\<lambda>vrD vrA vrB. for_lanes 4 vrD (\<lambda>i c.
       let res = ucast (vw c vrA i) + ucast (vw c vrB i) + 1 :: uint64
       in ucast (drop_bit 1 res) :: uint32))"

definition ppc_opc_vavgsb :: "cpu \<Rightarrow> cpu" where
  "ppc_opc_vavgsb =
     with_X (\<lambda>vrD vrA vrB. for_lanes 16 vrD (\<lambda>i c.
       let res = scast (vb c vrA i) + scast (vb c vrB i) + 1 :: uint16
       in ucast (signed_drop_bit 1 res) :: uint8))"

definition ppc_opc_vavgsh :: "cpu \<Rightarrow> cpu" where
  "ppc_opc_vavgsh =
     with_X (\<lambda>vrD vrA vrB. for_lanes 8 vrD (\<lambda>i c.
       let res = scast (vh c vrA i) + scast (vh c vrB i) + 1 :: uint32
       in ucast (signed_drop_bit 1 res) :: uint16))"

definition ppc_opc_vavgsw :: "cpu \<Rightarrow> cpu" where
  "ppc_opc_vavgsw =
     with_X (\<lambda>vrD vrA vrB. for_lanes 4 vrD (\<lambda>i c.
       let res = scast (vw c vrA i) + scast (vw c vrB i) + 1 :: uint64
       in ucast (signed_drop_bit 1 res) :: uint32))"

definition ppc_opc_vmaxub :: "cpu \<Rightarrow> cpu" where
  "ppc_opc_vmaxub =
     with_X (\<lambda>vrD vrA vrB. for_lanes 16 vrD (\<lambda>i c. if vb c vrA i < vb c vrB i then vb c vrB i else vb c vrA i))"

definition ppc_opc_vmaxuh :: "cpu \<Rightarrow> cpu" where
  "ppc_opc_vmaxuh =
     with_X (\<lambda>vrD vrA vrB. for_lanes 8 vrD (\<lambda>i c. if vh c vrA i < vh c vrB i then vh c vrB i else vh c vrA i))"

definition ppc_opc_vmaxuw :: "cpu \<Rightarrow> cpu" where
  "ppc_opc_vmaxuw =
     with_X (\<lambda>vrD vrA vrB. for_lanes 4 vrD (\<lambda>i c. if vw c vrA i < vw c vrB i then vw c vrB i else vw c vrA i))"

definition ppc_opc_vmaxsb :: "cpu \<Rightarrow> cpu" where
  "ppc_opc_vmaxsb =
     with_X (\<lambda>vrD vrA vrB. for_lanes 16 vrD (\<lambda>i c. if sint (vb c vrA i) < sint (vb c vrB i) then vb c vrB i else vb c vrA i))"

definition ppc_opc_vmaxsh :: "cpu \<Rightarrow> cpu" where
  "ppc_opc_vmaxsh =
     with_X (\<lambda>vrD vrA vrB. for_lanes 8 vrD (\<lambda>i c. if sint (vh c vrA i) < sint (vh c vrB i) then vh c vrB i else vh c vrA i))"

definition ppc_opc_vmaxsw :: "cpu \<Rightarrow> cpu" where
  "ppc_opc_vmaxsw =
     with_X (\<lambda>vrD vrA vrB. for_lanes 4 vrD (\<lambda>i c. if sint (vw c vrA i) < sint (vw c vrB i) then vw c vrB i else vw c vrA i))"

definition ppc_opc_vminub :: "cpu \<Rightarrow> cpu" where
  "ppc_opc_vminub =
     with_X (\<lambda>vrD vrA vrB. for_lanes 16 vrD (\<lambda>i c. if vb c vrB i < vb c vrA i then vb c vrB i else vb c vrA i))"

definition ppc_opc_vminuh :: "cpu \<Rightarrow> cpu" where
  "ppc_opc_vminuh =
     with_X (\<lambda>vrD vrA vrB. for_lanes 8 vrD (\<lambda>i c. if vh c vrB i < vh c vrA i then vh c vrB i else vh c vrA i))"

definition ppc_opc_vminuw :: "cpu \<Rightarrow> cpu" where
  "ppc_opc_vminuw =
     with_X (\<lambda>vrD vrA vrB. for_lanes 4 vrD (\<lambda>i c. if vw c vrB i < vw c vrA i then vw c vrB i else vw c vrA i))"

definition ppc_opc_vminsb :: "cpu \<Rightarrow> cpu" where
  "ppc_opc_vminsb =
     with_X (\<lambda>vrD vrA vrB. for_lanes 16 vrD (\<lambda>i c. if sint (vb c vrB i) < sint (vb c vrA i) then vb c vrB i else vb c vrA i))"

definition ppc_opc_vminsh :: "cpu \<Rightarrow> cpu" where
  "ppc_opc_vminsh =
     with_X (\<lambda>vrD vrA vrB. for_lanes 8 vrD (\<lambda>i c. if sint (vh c vrB i) < sint (vh c vrA i) then vh c vrB i else vh c vrA i))"

definition ppc_opc_vminsw :: "cpu \<Rightarrow> cpu" where
  "ppc_opc_vminsw =
     with_X (\<lambda>vrD vrA vrB. for_lanes 4 vrD (\<lambda>i c. if sint (vw c vrB i) < sint (vw c vrA i) then vw c vrB i else vw c vrA i))"

subsection \<open>Logic\<close>

definition ppc_opc_vand :: "cpu \<Rightarrow> cpu" where
  "ppc_opc_vand =
     with_X (\<lambda>vrD vrA vrB. for_lanes 2 vrD (\<lambda>i c. vd c vrA i AND vd c vrB i))"

definition ppc_opc_vandc :: "cpu \<Rightarrow> cpu" where
  "ppc_opc_vandc =
     with_X (\<lambda>vrD vrA vrB. for_lanes 2 vrD (\<lambda>i c. vd c vrA i AND NOT (vd c vrB i)))"

definition ppc_opc_vor :: "cpu \<Rightarrow> cpu" where
  "ppc_opc_vor =
     with_X (\<lambda>vrD vrA vrB. for_lanes 2 vrD (\<lambda>i c. vd c vrA i OR vd c vrB i))"

definition ppc_opc_vnor :: "cpu \<Rightarrow> cpu" where
  "ppc_opc_vnor =
     with_X (\<lambda>vrD vrA vrB. for_lanes 2 vrD (\<lambda>i c. NOT (vd c vrA i OR vd c vrB i)))"

definition ppc_opc_vxor :: "cpu \<Rightarrow> cpu" where
  "ppc_opc_vxor =
     with_X (\<lambda>vrD vrA vrB. for_lanes 2 vrD (\<lambda>i c. vd c vrA i XOR vd c vrB i))"

subsection \<open>Comparisons\<close>

text \<open>
  All comparisons have the same body: an element of ones or zeros, and in CR6 whether all, some, not all or no
  elements compared true.
\<close>

definition PPC_OPC_VRc :: uint32 where "PPC_OPC_VRc = push_bit 10 1"
definition CR_CR6 :: uint32 where "CR_CR6 = 0x00f0"
definition CR_CR6_EQ :: uint32 where "CR_CR6_EQ = push_bit 7 1"
definition CR_CR6_NE_SOME :: uint32 where "CR_CR6_NE_SOME = push_bit 6 1"
definition CR_CR6_NE :: uint32 where "CR_CR6_NE = push_bit 5 1"
definition CR_CR6_EQ_SOME :: uint32 where "CR_CR6_EQ_SOME = push_bit 4 1"

definition write_CR6 :: "uint32 \<Rightarrow> cpu \<Rightarrow> cpu" where
  "write_CR6 tf c =
     (if istrue (PPC_OPC_VRc AND current_opc c) then c\<lparr>cr := (cr c AND NOT CR_CR6) OR tf\<rparr> else c)"

definition vcmp :: "nat \<Rightarrow> (uint32 \<times> cpu \<Rightarrow> nat \<Rightarrow> nat \<Rightarrow> nat \<Rightarrow> 'a::len word \<times> bool) \<Rightarrow> cpu \<Rightarrow> cpu" where
  "vcmp n f = with_X (\<lambda>vrD vrA vrB c.
     let (tf, c) = fold (\<lambda>i (tf, c).
           let (ones, holds) = f (tf, c) vrA vrB i
           in if holds then ((tf AND NOT CR_CR6_NE) OR CR_CR6_EQ_SOME, set_vreg vrD i ones c)
              else ((tf AND NOT CR_CR6_EQ) OR CR_CR6_NE_SOME, set_vreg vrD i (0 :: 'a word) c))
         [0..<n] (CR_CR6_EQ OR CR_CR6_NE, c)
     in write_CR6 tf c)"

definition ppc_opc_vcmpequbx :: "cpu \<Rightarrow> cpu" where
  "ppc_opc_vcmpequbx =
     vcmp 16 (\<lambda>(_, c) vrA vrB i. (0xff :: uint8, vb c vrA i = vb c vrB i))"

definition ppc_opc_vcmpequhx :: "cpu \<Rightarrow> cpu" where
  "ppc_opc_vcmpequhx =
     vcmp 8 (\<lambda>(_, c) vrA vrB i. (0xffff :: uint16, vh c vrA i = vh c vrB i))"

definition ppc_opc_vcmpequwx :: "cpu \<Rightarrow> cpu" where
  "ppc_opc_vcmpequwx =
     vcmp 4 (\<lambda>(_, c) vrA vrB i. (0xffffffff :: uint32, vw c vrA i = vw c vrB i))"

definition ppc_opc_vcmpgtubx :: "cpu \<Rightarrow> cpu" where
  "ppc_opc_vcmpgtubx =
     vcmp 16 (\<lambda>(_, c) vrA vrB i. (0xff :: uint8, vb c vrB i < vb c vrA i))"

definition ppc_opc_vcmpgtsbx :: "cpu \<Rightarrow> cpu" where
  "ppc_opc_vcmpgtsbx =
     vcmp 16 (\<lambda>(_, c) vrA vrB i. (0xff :: uint8, sint (vb c vrB i) < sint (vb c vrA i)))"

definition ppc_opc_vcmpgtuhx :: "cpu \<Rightarrow> cpu" where
  "ppc_opc_vcmpgtuhx =
     vcmp 8 (\<lambda>(_, c) vrA vrB i. (0xffff :: uint16, vh c vrB i < vh c vrA i))"

definition ppc_opc_vcmpgtshx :: "cpu \<Rightarrow> cpu" where
  "ppc_opc_vcmpgtshx =
     vcmp 8 (\<lambda>(_, c) vrA vrB i. (0xffff :: uint16, sint (vh c vrB i) < sint (vh c vrA i)))"

definition ppc_opc_vcmpgtuwx :: "cpu \<Rightarrow> cpu" where
  "ppc_opc_vcmpgtuwx =
     vcmp 4 (\<lambda>(_, c) vrA vrB i. (0xffffffff :: uint32, vw c vrB i < vw c vrA i))"

definition ppc_opc_vcmpgtswx :: "cpu \<Rightarrow> cpu" where
  "ppc_opc_vcmpgtswx =
     vcmp 4 (\<lambda>(_, c) vrA vrB i. (0xffffffff :: uint32, sint (vw c vrB i) < sint (vw c vrA i)))"

end
