(* ===== verification/Ppc_Vec_Props.thy ===== *)
theory Ppc_Vec_Props
  imports Ppc_Vec
begin

text \<open>
  Facts on the lanes of a vector register: what a lane holds after a store to another or the same one, that the
  lanes determine the register, and that a loop which updates a register in place, element by element, computes
  from the old elements even where the destination is one of its sources.
\<close>

unbundle bit_operations_syntax

lemma bit_lane: "bit (lane v i :: 'a::len word) n \<longleftrightarrow> n < LENGTH('a) \<and> bit v (LENGTH('a) * i + n)"
  by (auto simp: lane_def bit_simps dest: bit_imp_le_length)

lemma bit_set_lane: "bit (set_lane i (x :: 'a::len word) v) m \<longleftrightarrow>
    m < 128 \<and> (if LENGTH('a) * i \<le> m \<and> m < LENGTH('a) * i + LENGTH('a) then bit x (m - LENGTH('a) * i) else bit v m)"
  by (auto simp: set_lane_def bit_simps dest: bit_imp_le_length)

lemma lane_index:
  fixes n :: nat
  assumes "n < L"
  shows "L * i \<le> L * j + n \<and> L * j + n < L * i + L \<longleftrightarrow> i = j"
proof
  assume a: "L * i \<le> L * j + n \<and> L * j + n < L * i + L"
  have "(L * j + n) div L = j" using assms by simp
  moreover have "(L * j + n) div L = i" using a assms by (intro div_nat_eqI) (auto simp: algebra_simps)
  ultimately show "i = j" by simp
qed (use assms in simp)

lemma lane_set_lane:
  fixes x :: "'a::len word"
  assumes "LENGTH('a) * i + LENGTH('a) \<le> 128"
  shows "lane (set_lane i x v) j = (if i = j then x else lane v j)"
proof (rule bit_word_eqI)
  fix n assume n: "n < LENGTH('a)"
  show "bit (lane (set_lane i x v) j :: 'a word) n = bit (if i = j then x else lane v j) n"
    using n assms lane_index[OF n, of i j] by (auto simp: bit_lane bit_set_lane dest: bit_imp_le_length)
qed

lemma lanes_eqI:
  assumes "\<And>i. i < 128 div LENGTH('a::len) \<Longrightarrow> (lane v i :: 'a word) = lane w i" "LENGTH('a) dvd 128"
  shows "v = w"
proof (rule bit_word_eqI)
  fix m assume "m < LENGTH(128)"
  then have m: "m < 128" by simp
  let ?L = "LENGTH('a)"
  have "m div ?L < 128 div ?L" using m assms(2) by (auto elim!: dvdE simp: less_mult_imp_div_less mult.commute)
  then have "bit (lane v (m div ?L) :: 'a word) (m mod ?L) = bit (lane w (m div ?L) :: 'a word) (m mod ?L)"
    using assms(1) by simp
  then show "bit v m = bit w m" by (simp add: bit_lane)
qed

definition relane :: "nat \<Rightarrow> (nat \<Rightarrow> 'a::len word) \<Rightarrow> 128 word \<Rightarrow> 128 word" where
  "relane n f v = fold (\<lambda>i r. set_lane i (f i) r) [0..<n] v"

lemma lane_relane:
  fixes f :: "nat \<Rightarrow> 'a::len word"
  assumes "LENGTH('a) * n \<le> 128"
  shows "lane (relane n f v) j = (if j < n then f j else lane v j)"
  using assms
proof (induction n)
  case (Suc n)
  then have "LENGTH('a) * n + LENGTH('a) \<le> 128" by simp
  then show ?case using Suc by (auto simp: relane_def lane_set_lane less_Suc_eq)
qed (simp add: relane_def)

lemma of_lanes_relane: "of_lanes n f = relane n f 0"
  by (simp add: of_lanes_def relane_def)

subsection \<open>Loops in place\<close>

text \<open>Element \<open>i\<close> of the loop body is \<open>val\<close> of the elements \<open>i\<close> of registers \<open>vrA\<close> and \<open>vrB\<close>, and the saturation bit
  is set when \<open>sat\<close> holds of them.\<close>

lemma for_lanes_sat_Suc: "for_lanes_sat (Suc n) vrD f c =
    set_vreg vrD n (fst (f n (for_lanes_sat n vrD f c))) (snd (f n (for_lanes_sat n vrD f c)))"
  by (simp add: for_lanes_sat_def split_beta)

lemma for_lanes_sat_in_place:
  fixes val :: "'a::len word \<Rightarrow> 'a word \<Rightarrow> 'a word" and sat :: "'a word \<Rightarrow> 'a word \<Rightarrow> bool"
  assumes "\<And>i c. f i c = (val (vreg c vrA i) (vreg c vrB i), if sat (vreg c vrA i) (vreg c vrB i) then set_sat c else c)"
    and "LENGTH('a) * n \<le> 128"
  shows "for_lanes_sat n vrD f c =
    set_vr vrD (relane n (\<lambda>i. val (vreg c vrA i) (vreg c vrB i)) (vr c vrD))
      (if \<exists>i<n. sat (vreg c vrA i) (vreg c vrB i) then set_sat c else c)"
  using assms(2)
proof (induction n)
  case 0
  then show ?case by (simp add: for_lanes_sat_def set_vr_def relane_def)
next
  case (Suc n)
  let ?g = "\<lambda>i. val (vreg c vrA i) (vreg c vrB i)"
  let ?v = "relane n ?g (vr c vrD)"
  let ?s = "if \<exists>i<n. sat (vreg c vrA i) (vreg c vrB i) then set_sat c else c"
  have IH: "for_lanes_sat n vrD f c = set_vr vrD ?v ?s" using Suc by simp
  have "vreg (set_vr vrD ?v ?s) r n = (vreg c r n :: 'a word)" for r
    using lane_relane[of n ?g "vr c vrD" n] Suc.prems by (simp add: vreg_def set_vr_def set_sat_def)
  then have "for_lanes_sat (Suc n) vrD f c =
      set_vreg vrD n (?g n) (if sat (vreg c vrA n) (vreg c vrB n) then set_sat (set_vr vrD ?v ?s) else set_vr vrD ?v ?s)"
    by (simp only: for_lanes_sat_Suc IH assms(1) fst_conv snd_conv)
  then show ?case
    by (auto simp: set_vreg_def set_vr_def set_sat_def less_Suc_eq VSCR_SAT_def or.assoc relane_def)
qed

lemma for_lanes_as_sat: "for_lanes n vrD f c = for_lanes_sat n vrD (\<lambda>i c. (f i c, c)) c"
  by (simp add: for_lanes_def for_lanes_sat_def)

text \<open>
  What the vector instructions compute: saturating arithmetic with its 32-bit tricks, shifts of the whole register,
  and two instructions that do not compute what they are meant to.
\<close>


definition clamp :: "int \<Rightarrow> int \<Rightarrow> int \<Rightarrow> int" where
  "clamp lo hi x = max lo (min hi x)"

text \<open>
  \<open>lanes_clamped h n val f lo hi\<close>: the handler \<open>h\<close> leaves in each of the \<open>n\<close> elements of its destination the exact
  result of \<open>f\<close> on the old elements, clamped to the interval, and sets the saturation bit exactly when some
  element was outside; nothing else changes.  The three registers of the instruction may coincide.
\<close>

definition lanes_clamped ::
  "(cpu \<Rightarrow> cpu) \<Rightarrow> nat \<Rightarrow> ('a::len word \<Rightarrow> int) \<Rightarrow> (int \<Rightarrow> int \<Rightarrow> int) \<Rightarrow> int \<Rightarrow> int \<Rightarrow> bool" where
  "lanes_clamped h n val f lo hi \<longleftrightarrow> (\<forall>c.
     let (vrD, vrA, vrB) = PPC_OPC_TEMPL_X (current_opc c);
         x = (\<lambda>i. f (val (vreg c vrA i)) (val (vreg c vrB i)))
     in (\<forall>i<n. val (vreg (h c) vrD i) = clamp lo hi (x i)) \<and>
        h c = c\<lparr>vr := (vr c)(vrD := vr (h c) vrD),
                vscr := (if \<exists>i<n. x i \<notin> {lo..hi} then vscr c OR VSCR_SAT else vscr c)\<rparr>)"

lemma uint_of_int: "0 \<le> k \<Longrightarrow> k < 2 ^ LENGTH('a) \<Longrightarrow> uint (word_of_int k :: 'a::len word) = k"
  by (simp add: uint_word_of_int)

lemma sint_of_int: "- (2 ^ (LENGTH('a) - 1)) \<le> k \<Longrightarrow> k < 2 ^ (LENGTH('a) - 1) \<Longrightarrow> sint (word_of_int k :: 'a::len word) = k"
  by (simp add: sint_sbintrunc' signed_take_bit_int_eq_self)

lemma lanes_clampedI:
  fixes val :: "'a::len word \<Rightarrow> int" and g :: "nat \<Rightarrow> nat \<Rightarrow> nat \<Rightarrow> cpu \<Rightarrow> 'a word \<times> cpu"
  assumes "h = with_X (\<lambda>vrD vrA vrB. for_lanes_sat n vrD (g vrA vrB))"
    and "\<And>vrA vrB i c. g vrA vrB i c = (let x = f (val (vreg c vrA i)) (val (vreg c vrB i)) in
      (word_of_int (clamp lo hi x), if x \<notin> {lo..hi} then set_sat c else c))"
    and "\<And>y. lo \<le> y \<Longrightarrow> y \<le> hi \<Longrightarrow> val (word_of_int y) = y" "lo \<le> hi" "LENGTH('a) * n \<le> 128"
  shows "lanes_clamped h n val f lo hi"
proof -
  have r: "val (word_of_int (clamp lo hi x)) = clamp lo hi x" for x
    using assms(4) by (intro assms(3)) (auto simp: clamp_def)
  have "for_lanes_sat n vrD (g vrA vrB) c =
      set_vr vrD (relane n (\<lambda>i. word_of_int (clamp lo hi (f (val (vreg c vrA i)) (val (vreg c vrB i)))) :: 'a word) (vr c vrD))
        (if \<exists>i<n. f (val (vreg c vrA i)) (val (vreg c vrB i)) \<notin> {lo..hi} then set_sat c else c)" for vrA vrB vrD c
    using for_lanes_sat_in_place[where val = "\<lambda>a b. word_of_int (clamp lo hi (f (val a) (val b)))"
        and sat = "\<lambda>a b. f (val a) (val b) \<notin> {lo..hi}" and f = "g vrA vrB" and vrA = vrA and vrB = vrB, OF _ assms(5)]
    by (simp add: assms(2) Let_def)
  then show ?thesis
    unfolding lanes_clamped_def assms(1) with_X_def
    by (auto simp: Let_def vreg_def set_vr_def set_sat_def lane_relane[OF assms(5)] r split: prod.splits)
qed


subsection \<open>The saturating conversions\<close>

lemma high_bits: "w AND NOT (mask n) = 0 \<longleftrightarrow> uint w < 2 ^ n" for w :: "'a::len word"
proof -
  have "w AND NOT (mask n) = 0 \<longleftrightarrow> take_bit n w = w"
    by (auto simp: bit_eq_iff bit_simps)
  also have "\<dots> \<longleftrightarrow> take_bit n (uint w) = uint w"
    by (metis unsigned_take_bit_eq word_uint_eq_iff)
  also have "\<dots> \<longleftrightarrow> uint w < 2 ^ n"
    by (simp add: take_bit_int_eq_self_iff)
  finally show ?thesis .
qed

lemma above_byte: "istrue (w AND 0xff00) \<longleftrightarrow> 255 < uint w" for w :: uint16
proof -
  have "(0xff00 :: uint16) = NOT (mask 8)" by (simp add: mask_eq_exp_minus_1)
  then show ?thesis using high_bits[of w 8] by auto
qed

lemma above_half: "istrue (w AND 0xffff0000) \<longleftrightarrow> 65535 < uint w" for w :: uint32
proof -
  have "(0xffff0000 :: uint32) = NOT (mask 16)" by (simp add: mask_eq_exp_minus_1)
  then show ?thesis using high_bits[of w 16] by auto
qed

lemma ucast_of_int: "0 \<le> k \<Longrightarrow> k < 2 ^ LENGTH('a) \<Longrightarrow> (ucast (word_of_int k :: 'a::len word) :: 'b::len word) = word_of_int k"
  by (metis uint_of_int word_of_int_uint ucast_eq)

lemma saturate_unsigned:
  "0 \<le> x \<Longrightarrow> x < 65536 \<Longrightarrow> SATURATE_UB (word_of_int x) c = (word_of_int (clamp 0 255 x), if x \<notin> {0..255} then set_sat c else c)"
  "0 \<le> x \<Longrightarrow> x < 4294967296 \<Longrightarrow> SATURATE_UH (word_of_int x) c = (word_of_int (clamp 0 65535 x), if x \<notin> {0..65535} then set_sat c else c)"
  by (auto simp: SATURATE_UB_def SATURATE_UH_def above_byte above_half uint_of_int ucast_of_int clamp_def)

lemma uint_of_negative: "- (2 ^ LENGTH('a)) \<le> x \<Longrightarrow> x < 0 \<Longrightarrow> uint (word_of_int x :: 'a::len word) = x + 2 ^ LENGTH('a)"
proof -
  assume "- (2 ^ LENGTH('a)) \<le> x" "x < 0"
  then have "(x + 2 ^ LENGTH('a)) mod 2 ^ LENGTH('a) = x + 2 ^ LENGTH('a)" by (intro mod_pos_pos_trivial) auto
  then show ?thesis by (simp add: uint_word_of_int)
qed

lemma saturate_difference:
  "- 255 \<le> x \<Longrightarrow> x \<le> 255 \<Longrightarrow> SATURATE_0B (word_of_int x) c = (word_of_int (clamp 0 255 x), if x \<notin> {0..255} then set_sat c else c)"
  "- 65535 \<le> x \<Longrightarrow> x \<le> 65535 \<Longrightarrow> SATURATE_0H (word_of_int x) c = (word_of_int (clamp 0 65535 x), if x \<notin> {0..65535} then set_sat c else c)"
  by (cases "x < 0"; auto simp: SATURATE_0B_def SATURATE_0H_def above_byte above_half uint_of_int uint_of_negative ucast_of_int clamp_def)+

lemma ucast_of_sint: "- (2 ^ (LENGTH('a) - 1)) \<le> k \<Longrightarrow> k < 2 ^ (LENGTH('a) - 1) \<Longrightarrow> LENGTH('b) \<le> LENGTH('a) \<Longrightarrow>
    (ucast (word_of_int k :: 'a::len word) :: 'b::len word) = word_of_int k"
  by (rule bit_word_eqI) (simp add: bit_simps)

lemma saturate_signed:
  "- 32768 \<le> x \<Longrightarrow> x < 32768 \<Longrightarrow> SATURATE_SB (word_of_int x) c = (word_of_int (clamp (- 128) 127 x), if x \<notin> {- 128..127} then set_sat c else c)"
  "- 2147483648 \<le> y \<Longrightarrow> y < 2147483648 \<Longrightarrow> SATURATE_SH (word_of_int y) c = (word_of_int (clamp (- 32768) 32767 y), if y \<notin> {- 32768..32767} then set_sat c else c)"
  by (auto simp: SATURATE_SB_def SATURATE_SH_def sint_of_int ucast_of_sint clamp_def)


subsection \<open>The word forms\<close>

lemma uint_range: "0 \<le> uint w" "uint w < 2 ^ LENGTH('a)" for w :: "'a::len word"
  using uint_lt2p[of w] by auto

lemma sint_range: "- (2 ^ (LENGTH('a) - 1)) \<le> sint w" "sint w < 2 ^ (LENGTH('a) - 1)" for w :: "'a::len word"
  using sint_ge[of w] sint_lt[of w] by auto

lemma word_sums: "a + b = word_of_int (uint a + uint b)" "a - b = word_of_int (uint a - uint b)"
  "a + b = word_of_int (sint a + sint b)" for a b :: "'a::len word"
  by simp_all

lemma word_range: "0 \<le> uint w" "uint w \<le> 4294967295" "- 2147483648 \<le> sint w" "sint w \<le> 2147483647" for w :: uint32
  using uint_range[of w] sint_range[of w] by simp_all

lemma word32_zero: "(4294967296 :: uint32) = 0"
  by (simp add: word_uint_eq_iff)

lemma add_words_unsigned:
  "(let res = a + b in if res < a then (0xffffffff, set_sat c) else (res, c)) =
    (word_of_int (clamp 0 0xffffffff (uint a + uint b)), if uint a + uint b \<notin> {0..0xffffffff} then set_sat c else c)"
  for a b :: uint32
proof (cases "uint a + uint b \<le> 0xffffffff")
  case True
  then have "uint (a + b) = uint a + uint b"
    using uint_of_int[of "uint a + uint b", where ?'a = 32] by simp
  then show ?thesis using True word_range(1)[of a] word_range(1)[of b] by (auto simp: word_less_alt clamp_def Let_def)
next
  case False
  then have "uint (a + b) = uint a + uint b - 2 ^ 32"
    using word_range(1,2)[of a] word_range(1,2)[of b] uint_of_int[of "uint a + uint b - 2 ^ 32", where ?'a = 32]
    by (simp add: word32_zero)
  then show ?thesis using False word_range(2)[of a] word_range(2)[of b] by (auto simp: word_less_alt clamp_def Let_def)
qed

lemma sub_words_unsigned:
  "(let res = a - b in if a < res then (0, set_sat c) else (res, c)) =
    (word_of_int (clamp 0 0xffffffff (uint a - uint b)), if uint a - uint b \<notin> {0..0xffffffff} then set_sat c else c)"
  for a b :: uint32
proof (cases "uint b \<le> uint a")
  case True
  moreover have "uint a - uint b \<le> 4294967295" using word_range(2)[of a] word_range(1)[of b] by linarith
  ultimately have "uint (a - b) = uint a - uint b" using uint_of_int[of "uint a - uint b", where ?'a = 32] by simp
  then show ?thesis using True \<open>uint a - uint b \<le> 4294967295\<close> word_range(1)[of b]
    by (auto simp: word_less_alt clamp_def Let_def)
next
  case False
  moreover have "- 4294967295 \<le> uint a - uint b" using word_range(1)[of a] word_range(2)[of b] by linarith
  ultimately have "uint (a - b) = uint a - uint b + 2 ^ 32"
    using uint_of_negative[of "uint a - uint b", where ?'a = 32] by simp
  then show ?thesis using False word_range(2)[of b] by (auto simp: word_less_alt clamp_def Let_def)
qed

lemma sign_and: "w AND SIGN32 = 0 \<longleftrightarrow> \<not> sint w < 0" for w :: uint32
  using and_exp_eq_0_iff[of w 31] bit_last_iff[of w] by (simp add: SIGN32_def)

lemma sign_xor: "sint (a XOR b) < 0 \<longleftrightarrow> (sint a < 0 \<longleftrightarrow> 0 \<le> sint b)" for a b :: uint32
  using bit_last_iff[of "a XOR b"] bit_last_iff[of a] bit_last_iff[of b] by (auto simp: bit_xor_iff)

lemma add_words_signed:
  "(let res = a + b in if (a XOR b) AND SIGN32 = 0 \<and> istrue ((res XOR a) AND SIGN32)
      then (if istrue (res AND SIGN32) then SIGN32 - 1 else SIGN32, set_sat c) else (res, c)) =
    (word_of_int (clamp (- 2147483648) 2147483647 (sint a + sint b)),
     if sint a + sint b \<notin> {- 2147483648..2147483647} then set_sat c else c)"
  for a b :: uint32
proof -
  have r: "- 2147483648 \<le> sint a" "sint a < 2147483648" "- 2147483648 \<le> sint b" "sint b < 2147483648"
    using sint_range[of a] sint_range[of b] by simp_all
  have low: "sint (a + b) = sint a + sint b + 4294967296" if "sint a + sint b < - 2147483648"
    using sint_of_int[of "sint a + sint b + 4294967296", where ?'a = 32] r that by (simp add: word32_zero)
  have high: "sint (a + b) = sint a + sint b - 4294967296" if "2147483648 \<le> sint a + sint b"
    using sint_of_int[of "sint a + sint b - 4294967296", where ?'a = 32] r that by (simp add: word32_zero)
  have mid: "sint (a + b) = sint a + sint b" if "- 2147483648 \<le> sint a + sint b" "sint a + sint b < 2147483648"
    using sint_of_int[of "sint a + sint b", where ?'a = 32] r that by simp
  consider "sint a + sint b < - 2147483648" | "2147483648 \<le> sint a + sint b"
    | "- 2147483648 \<le> sint a + sint b" "sint a + sint b < 2147483648" by linarith
  then show ?thesis
  proof cases
    case 1
    then have "sint a < 0" "sint b < 0" "0 \<le> sint (a + b)" using r low[OF 1] by linarith+
    then show ?thesis using 1 by (simp add: sign_xor sign_and clamp_def Let_def) (simp add: SIGN32_def)
  next
    case 2
    then have "0 \<le> sint a" "0 \<le> sint b" "sint (a + b) < 0" using r high[OF 2] by linarith+
    then show ?thesis using 2 by (simp add: sign_xor sign_and clamp_def Let_def) (simp add: SIGN32_def)
  next
    case 3
    then have "(sint a < 0 \<longleftrightarrow> sint b < 0) \<longrightarrow> (sint (a + b) < 0 \<longleftrightarrow> sint a < 0)" using r mid[OF 3] by linarith
    then show ?thesis using 3 by (auto simp: sign_xor sign_and clamp_def Let_def)
  qed
qed


subsection \<open>Saturating arithmetic\<close>

lemma byte_ranges: "0 \<le> uint x" "uint x \<le> 255" "- 128 \<le> sint x" "sint x \<le> 127" for x :: uint8
  using uint_range[of x] sint_range[of x] by simp_all

lemma half_ranges: "0 \<le> uint x" "uint x \<le> 65535" "- 32768 \<le> sint x" "sint x \<le> 32767" for x :: uint16
  using uint_range[of x] sint_range[of x] by simp_all

lemma widened:
  "(ucast a + ucast b :: 'b::len word) = word_of_int (uint a + uint b)"
  "(ucast a - ucast b :: 'b word) = word_of_int (uint a - uint b)"
  "(scast a + scast b :: 'b word) = word_of_int (sint a + sint b)"
  "(scast a - scast b :: 'b word) = word_of_int (sint a - sint b)" for a b :: "'a::len word"
  by (simp_all only: ucast_eq scast_eq wi_hom_add wi_hom_sub)

lemma values_of_int:
  "0 \<le> y \<Longrightarrow> y \<le> 255 \<Longrightarrow> uint (word_of_int y :: uint8) = y" "0 \<le> y \<Longrightarrow> y \<le> 65535 \<Longrightarrow> uint (word_of_int y :: uint16) = y"
  "0 \<le> y \<Longrightarrow> y \<le> 0xffffffff \<Longrightarrow> uint (word_of_int y :: uint32) = y"
  "- 128 \<le> y \<Longrightarrow> y \<le> 127 \<Longrightarrow> sint (word_of_int y :: uint8) = y"
  "- 32768 \<le> y \<Longrightarrow> y \<le> 32767 \<Longrightarrow> sint (word_of_int y :: uint16) = y"
  "- 2147483648 \<le> y \<Longrightarrow> y \<le> 2147483647 \<Longrightarrow> sint (word_of_int y :: uint32) = y"
  using uint_of_int[of y, where ?'a = 8] uint_of_int[of y, where ?'a = 16] uint_of_int[of y, where ?'a = 32]
    sint_of_int[of y, where ?'a = 8] sint_of_int[of y, where ?'a = 16] sint_of_int[of y, where ?'a = 32] by simp_all


lemma byte_sums: "uint a + uint b \<le> 510" "0 \<le> uint a + uint b" "- 255 \<le> uint a - uint b" "uint a - uint b \<le> 255"
  "- 256 \<le> sint a + sint b" "sint a + sint b \<le> 254" "- 255 \<le> sint a - sint b" "sint a - sint b \<le> 255" for a b :: uint8
  using byte_ranges[of a] byte_ranges[of b] by linarith+

lemma half_sums: "uint a + uint b \<le> 131070" "0 \<le> uint a + uint b" "- 65535 \<le> uint a - uint b" "uint a - uint b \<le> 65535"
  "- 65536 \<le> sint a + sint b" "sint a + sint b \<le> 65534" "- 65535 \<le> sint a - sint b" "sint a - sint b \<le> 65535" for a b :: uint16
  using half_ranges[of a] half_ranges[of b] by linarith+

lemma saturating_byte_forms:
  "lanes_clamped ppc_opc_vaddubs 16 (uint :: uint8 \<Rightarrow> int) (+) 0 255"
  "lanes_clamped ppc_opc_vaddsbs 16 (sint :: uint8 \<Rightarrow> int) (+) (- 128) 127"
  "lanes_clamped ppc_opc_vsububs 16 (uint :: uint8 \<Rightarrow> int) (-) 0 255"
  "lanes_clamped ppc_opc_vsubsbs 16 (sint :: uint8 \<Rightarrow> int) (-) (- 128) 127"
proof -
  show "lanes_clamped ppc_opc_vaddubs 16 (uint :: uint8 \<Rightarrow> int) (+) 0 255"
  proof (rule lanes_clampedI[OF ppc_opc_vaddubs_def])
    fix vrA vrB i c
    show "(let res = ucast (vb c vrA i) + ucast (vb c vrB i) in SATURATE_UB res c) =
      (let x = uint (vb c vrA i) + uint (vb c vrB i)
       in (word_of_int (clamp 0 255 x), if x \<notin> {0..255} then set_sat c else c))"
      unfolding Let_def widened using byte_sums[of "vb c vrA i" "vb c vrB i"] by (intro saturate_unsigned(1)) linarith+
  qed (use values_of_int in auto)
  show "lanes_clamped ppc_opc_vaddsbs 16 (sint :: uint8 \<Rightarrow> int) (+) (- 128) 127"
  proof (rule lanes_clampedI[OF ppc_opc_vaddsbs_def])
    fix vrA vrB i c
    show "(let res = scast (vb c vrA i) + scast (vb c vrB i) in SATURATE_SB res c) =
      (let x = sint (vb c vrA i) + sint (vb c vrB i)
       in (word_of_int (clamp (- 128) 127 x), if x \<notin> {(- 128)..127} then set_sat c else c))"
      unfolding Let_def widened using byte_sums[of "vb c vrA i" "vb c vrB i"] by (intro saturate_signed(1)) linarith+
  qed (use values_of_int in auto)
  show "lanes_clamped ppc_opc_vsububs 16 (uint :: uint8 \<Rightarrow> int) (-) 0 255"
  proof (rule lanes_clampedI[OF ppc_opc_vsububs_def])
    fix vrA vrB i c
    show "(let res = ucast (vb c vrA i) - ucast (vb c vrB i) in SATURATE_0B res c) =
      (let x = uint (vb c vrA i) - uint (vb c vrB i)
       in (word_of_int (clamp 0 255 x), if x \<notin> {0..255} then set_sat c else c))"
      unfolding Let_def widened using byte_sums[of "vb c vrA i" "vb c vrB i"] by (intro saturate_difference(1)) linarith+
  qed (use values_of_int in auto)
  show "lanes_clamped ppc_opc_vsubsbs 16 (sint :: uint8 \<Rightarrow> int) (-) (- 128) 127"
  proof (rule lanes_clampedI[OF ppc_opc_vsubsbs_def])
    fix vrA vrB i c
    show "(let res = scast (vb c vrA i) - scast (vb c vrB i) in SATURATE_SB res c) =
      (let x = sint (vb c vrA i) - sint (vb c vrB i)
       in (word_of_int (clamp (- 128) 127 x), if x \<notin> {(- 128)..127} then set_sat c else c))"
      unfolding Let_def widened using byte_sums[of "vb c vrA i" "vb c vrB i"] by (intro saturate_signed(1)) linarith+
  qed (use values_of_int in auto)
qed

lemma saturating_half_forms:
  "lanes_clamped ppc_opc_vadduhs 8 (uint :: uint16 \<Rightarrow> int) (+) 0 65535"
  "lanes_clamped ppc_opc_vaddshs 8 (sint :: uint16 \<Rightarrow> int) (+) (- 32768) 32767"
  "lanes_clamped ppc_opc_vsubuhs 8 (uint :: uint16 \<Rightarrow> int) (-) 0 65535"
  "lanes_clamped ppc_opc_vsubshs 8 (sint :: uint16 \<Rightarrow> int) (-) (- 32768) 32767"
proof -
  show "lanes_clamped ppc_opc_vadduhs 8 (uint :: uint16 \<Rightarrow> int) (+) 0 65535"
  proof (rule lanes_clampedI[OF ppc_opc_vadduhs_def])
    fix vrA vrB i c
    show "(let res = ucast (vh c vrA i) + ucast (vh c vrB i) in SATURATE_UH res c) =
      (let x = uint (vh c vrA i) + uint (vh c vrB i)
       in (word_of_int (clamp 0 65535 x), if x \<notin> {0..65535} then set_sat c else c))"
      unfolding Let_def widened using half_sums[of "vh c vrA i" "vh c vrB i"] by (intro saturate_unsigned(2)) linarith+
  qed (use values_of_int in auto)
  show "lanes_clamped ppc_opc_vaddshs 8 (sint :: uint16 \<Rightarrow> int) (+) (- 32768) 32767"
  proof (rule lanes_clampedI[OF ppc_opc_vaddshs_def])
    fix vrA vrB i c
    show "(let res = scast (vh c vrA i) + scast (vh c vrB i) in SATURATE_SH res c) =
      (let x = sint (vh c vrA i) + sint (vh c vrB i)
       in (word_of_int (clamp (- 32768) 32767 x), if x \<notin> {(- 32768)..32767} then set_sat c else c))"
      unfolding Let_def widened using half_sums[of "vh c vrA i" "vh c vrB i"] by (intro saturate_signed(2)) linarith+
  qed (use values_of_int in auto)
  show "lanes_clamped ppc_opc_vsubuhs 8 (uint :: uint16 \<Rightarrow> int) (-) 0 65535"
  proof (rule lanes_clampedI[OF ppc_opc_vsubuhs_def])
    fix vrA vrB i c
    show "(let res = ucast (vh c vrA i) - ucast (vh c vrB i) in SATURATE_0H res c) =
      (let x = uint (vh c vrA i) - uint (vh c vrB i)
       in (word_of_int (clamp 0 65535 x), if x \<notin> {0..65535} then set_sat c else c))"
      unfolding Let_def widened using half_sums[of "vh c vrA i" "vh c vrB i"] by (intro saturate_difference(2)) linarith+
  qed (use values_of_int in auto)
  show "lanes_clamped ppc_opc_vsubshs 8 (sint :: uint16 \<Rightarrow> int) (-) (- 32768) 32767"
  proof (rule lanes_clampedI[OF ppc_opc_vsubshs_def])
    fix vrA vrB i c
    show "(let res = scast (vh c vrA i) - scast (vh c vrB i) in SATURATE_SH res c) =
      (let x = sint (vh c vrA i) - sint (vh c vrB i)
       in (word_of_int (clamp (- 32768) 32767 x), if x \<notin> {(- 32768)..32767} then set_sat c else c))"
      unfolding Let_def widened using half_sums[of "vh c vrA i" "vh c vrB i"] by (intro saturate_signed(2)) linarith+
  qed (use values_of_int in auto)
qed

lemma saturating_word_forms:
  "lanes_clamped ppc_opc_vadduws 4 (uint :: uint32 \<Rightarrow> int) (+) 0 0xffffffff"
  "lanes_clamped ppc_opc_vaddsws 4 (sint :: uint32 \<Rightarrow> int) (+) (- 2147483648) 2147483647"
  "lanes_clamped ppc_opc_vsubuws 4 (uint :: uint32 \<Rightarrow> int) (-) 0 0xffffffff"
proof -
  show "lanes_clamped ppc_opc_vadduws 4 (uint :: uint32 \<Rightarrow> int) (+) 0 0xffffffff"
  proof (rule lanes_clampedI[OF ppc_opc_vadduws_def])
    fix y :: int
    assume "0 \<le> y" "y \<le> 0xffffffff"
    then show "uint (word_of_int y :: uint32) = y" by (rule values_of_int(3))
  qed (use add_words_unsigned in \<open>simp_all add: Let_def\<close>)
  show "lanes_clamped ppc_opc_vaddsws 4 (sint :: uint32 \<Rightarrow> int) (+) (- 2147483648) 2147483647"
  proof (rule lanes_clampedI[OF ppc_opc_vaddsws_def])
    fix y :: int
    assume "(- 2147483648) \<le> y" "y \<le> 2147483647"
    then show "sint (word_of_int y :: uint32) = y" by (rule values_of_int(6))
  qed (use add_words_signed in \<open>simp_all add: Let_def\<close>)
  show "lanes_clamped ppc_opc_vsubuws 4 (uint :: uint32 \<Rightarrow> int) (-) 0 0xffffffff"
  proof (rule lanes_clampedI[OF ppc_opc_vsubuws_def])
    fix y :: int
    assume "0 \<le> y" "y \<le> 0xffffffff"
    then show "uint (word_of_int y :: uint32) = y" by (rule values_of_int(3))
  qed (use sub_words_unsigned in \<open>simp_all add: Let_def\<close>)
qed

end
