(* ===== verification/Ppc_Vec_Mem.thy ===== *)
theory Ppc_Vec_Mem
  imports Ppc_Vec
begin

text \<open>
  The vector loads and stores of src/cpu/cpu_generic/ppc_mmu.cc.  A quad word goes to the 16-byte block that holds
  its address; an element access goes to the element the address selects; \<open>lvsl\<close> and \<open>lvsr\<close> copy a window of a
  table of bytes.  The 128-bit device accesses of io.h are the record \<open>bus128\<close>.
\<close>

unbundle bit_operations_syntax

record 'io bus128 =
  io_mem_read128 :: "uint32 \<Rightarrow> 'io mach \<Rightarrow> cpu_error + (mmu_ret \<times> 128 word) \<times> 'io mach"
  io_mem_write128 :: "uint32 \<Rightarrow> 128 word \<Rightarrow> 'io mach \<Rightarrow> cpu_error + mmu_ret \<times> 'io mach"

type_synonym 'io vec_mem_function = "'io bus128 \<Rightarrow> 'io mem_function"

subsection \<open>Quad words\<close>

definition ppc_read_physical_qword :: "'io bus128 \<Rightarrow> uint32 \<Rightarrow> ('io, 128 word) rd" where
  "ppc_read_physical_qword Q addr m =
     (if addr < gMemorySize m then
        and_then (ram_read 8 addr m) (\<lambda>hi. and_then (ram_read 8 (addr + 8) m) (\<lambda>lo.
          Inr ((PPC_MMU_OK, set_VECT 1 (of_nat lo :: uint64) (set_VECT 0 (of_nat hi :: uint64) 0)), m)))
      else io_mem_read128 Q addr m)"

definition ppc_read_effective_qword :: "'io bus128 \<Rightarrow> 'io bus \<Rightarrow> uint32 \<Rightarrow> ('io, 128 word) rd" where
  "ppc_read_effective_qword Q B addr =
     with_physical B (addr AND NOT 0x0f) PPC_MMU_READ 0 (ppc_read_physical_qword Q)"

definition ppc_write_physical_qword :: "'io bus128 \<Rightarrow> uint32 \<Rightarrow> 128 word \<Rightarrow> 'io wr" where
  "ppc_write_physical_qword Q addr data m =
     (if addr < gMemorySize m then
        and_then (ram_write 8 addr (unat (VECT data 0 :: uint64)) m) (\<lambda>m.
        and_then (ram_write 8 (addr + 8) (unat (VECT data 1 :: uint64)) m) (\<lambda>m. Inr (PPC_MMU_OK, m)))
      else and_then (io_mem_write128 Q addr data m)
             (\<lambda>(r, m). Inr (if r = PPC_MMU_OK then PPC_MMU_OK else PPC_MMU_FATAL, m)))"

definition ppc_write_effective_qword :: "'io bus128 \<Rightarrow> 'io bus \<Rightarrow> uint32 \<Rightarrow> 128 word \<Rightarrow> 'io wr" where
  "ppc_write_effective_qword Q B addr data =
     rd_wr (with_physical B (addr AND NOT 0x0f) PPC_MMU_WRITE () (\<lambda>p. wr_rd (ppc_write_physical_qword Q p data)))"

subsection \<open>Handlers\<close>

definition needs_vec :: "('io mach \<Rightarrow> cpu_error + 'io mach) \<Rightarrow> 'io mach \<Rightarrow> cpu_error + 'io mach" where
  "needs_vec f m =
     (if msr (mcpu m) AND MSR_VEC = 0 then on_cpu (ppc_exception PPC_EXC_NO_VEC 0 0) m else f m)"

definition vec_ea :: "nat \<Rightarrow> nat \<Rightarrow> cpu \<Rightarrow> uint32" where
  "vec_ea rA rB c = base rA c + gpr c rB"

definition ppc_opc_lvx :: "'io vec_mem_function" where
  "ppc_opc_lvx Q B = needs_vec (\<lambda>m.
     let (vrD, rA, rB) = PPC_OPC_TEMPL_X (current_opc (mcpu m))
     in after_read (ppc_read_effective_qword Q B (vec_ea rA rB (mcpu m))) (set_vr vrD) m)"

definition ppc_opc_lvxl :: "'io vec_mem_function" where
  "ppc_opc_lvxl = ppc_opc_lvx"

definition ppc_opc_lvebx :: "'io mem_function" where
  "ppc_opc_lvebx B = needs_vec (\<lambda>m.
     let (vrD, rA, rB) = PPC_OPC_TEMPL_X (current_opc (mcpu m));
         ea = vec_ea rA rB (mcpu m)
     in after_read (ppc_read_effective_byte B ea)
          (\<lambda>r c. set_vr vrD (set_VECT (unat (ea AND 0xf)) r (vr c vrD)) c) m)"

definition ppc_opc_lvehx :: "'io mem_function" where
  "ppc_opc_lvehx B = needs_vec (\<lambda>m.
     let (vrD, rA, rB) = PPC_OPC_TEMPL_X (current_opc (mcpu m));
         ea = vec_ea rA rB (mcpu m) AND NOT 1
     in after_read (ppc_read_effective_half B ea)
          (\<lambda>r c. set_vr vrD (set_VECT (unat (drop_bit 1 (ea AND 0xf))) r (vr c vrD)) c) m)"

definition ppc_opc_lvewx :: "'io mem_function" where
  "ppc_opc_lvewx B = needs_vec (\<lambda>m.
     let (vrD, rA, rB) = PPC_OPC_TEMPL_X (current_opc (mcpu m));
         ea = vec_ea rA rB (mcpu m) AND NOT 3
     in after_read (ppc_read_effective_word B ea)
          (\<lambda>r c. set_vr vrD (set_VECT (unat (drop_bit 2 (ea AND 0xf))) r (vr c vrD)) c) m)"

definition lvsl_helper :: "uint8 list" where
  "lvsl_helper =
    [0x1f, 0x1e, 0x1d, 0x1c, 0x1b, 0x1a, 0x19, 0x18,
     0x17, 0x16, 0x15, 0x14, 0x13, 0x12, 0x11, 0x10,
     0x0f, 0x0e, 0x0d, 0x0c, 0x0b, 0x0a, 0x09, 0x08,
     0x07, 0x06, 0x05, 0x04, 0x03, 0x02, 0x01, 0x00]"

definition lvsl_window :: "nat \<Rightarrow> 128 word" where
  "lvsl_window k = of_lanes 16 (\<lambda>i. lvsl_helper ! (k + i))"

definition ppc_opc_lvsl :: "'io mem_function" where
  "ppc_opc_lvsl B = needs_vec (\<lambda>m.
     let (vrD, rA, rB) = PPC_OPC_TEMPL_X (current_opc (mcpu m));
         ea = vec_ea rA rB (mcpu m)
     in Inr (m\<lparr>mcpu := set_vr vrD (lvsl_window (0x10 - unat (ea AND 0xf))) (mcpu m)\<rparr>))"

definition ppc_opc_lvsr :: "'io mem_function" where
  "ppc_opc_lvsr B = needs_vec (\<lambda>m.
     let (vrD, rA, rB) = PPC_OPC_TEMPL_X (current_opc (mcpu m));
         ea = vec_ea rA rB (mcpu m)
     in Inr (m\<lparr>mcpu := set_vr vrD (lvsl_window (unat (ea AND 0xf))) (mcpu m)\<rparr>))"

definition ppc_opc_dst :: "'io mem_function" where "ppc_opc_dst B m = Inr m"
definition ppc_opc_dstst :: "'io mem_function" where "ppc_opc_dstst B m = Inr m"
definition ppc_opc_dss :: "'io mem_function" where "ppc_opc_dss B m = Inr m"

text \<open>The stores ignore the result of the access, which has raised its exception.\<close>

definition ignore :: "'io wr \<Rightarrow> 'io mach \<Rightarrow> cpu_error + 'io mach" where
  "ignore f m = and_then (f m) (\<lambda>(_, m). Inr m)"

definition ppc_opc_stvx :: "'io vec_mem_function" where
  "ppc_opc_stvx Q B = needs_vec (\<lambda>m.
     let (vrS, rA, rB) = PPC_OPC_TEMPL_X (current_opc (mcpu m))
     in ignore (ppc_write_effective_qword Q B (vec_ea rA rB (mcpu m)) (vr (mcpu m) vrS)) m)"

definition ppc_opc_stvxl :: "'io vec_mem_function" where
  "ppc_opc_stvxl = ppc_opc_stvx"

definition ppc_opc_stvebx :: "'io mem_function" where
  "ppc_opc_stvebx B = needs_vec (\<lambda>m.
     let (vrS, rA, rB) = PPC_OPC_TEMPL_X (current_opc (mcpu m));
         ea = vec_ea rA rB (mcpu m)
     in ignore (ppc_write_effective_byte B ea (VECT (vr (mcpu m) vrS) (unat (ea AND 0xf)))) m)"

definition ppc_opc_stvehx :: "'io mem_function" where
  "ppc_opc_stvehx B = needs_vec (\<lambda>m.
     let (vrS, rA, rB) = PPC_OPC_TEMPL_X (current_opc (mcpu m));
         ea = vec_ea rA rB (mcpu m) AND NOT 1
     in ignore (ppc_write_effective_half B ea (VECT (vr (mcpu m) vrS) (unat (drop_bit 1 (ea AND 0xf))))) m)"

definition ppc_opc_stvewx :: "'io mem_function" where
  "ppc_opc_stvewx B = needs_vec (\<lambda>m.
     let (vrS, rA, rB) = PPC_OPC_TEMPL_X (current_opc (mcpu m));
         ea = vec_ea rA rB (mcpu m) AND NOT 3
     in ignore (ppc_write_effective_word B ea (VECT (vr (mcpu m) vrS) (unat (drop_bit 2 (ea AND 0xf))))) m)"

end
