(* ===== verification/Ppc_Vec_Correct.thy ===== *)
theory Ppc_Vec_Correct
  imports Ppc_Vec_Props Ppc_Vec_Mem
begin

text \<open>
  The shifts of a whole vector register and the permutation that aligns a quad word, as operations on 128-bit words.
\<close>

unbundle bit_operations_syntax

lemma lane_of_lanes: "LENGTH('a::len) * n \<le> 128 \<Longrightarrow> lane (of_lanes n f) j = (if j < n then f j else 0 :: 'a word)"
  by (simp add: of_lanes_relane lane_relane) (simp add: lane_def)

lemma lane_push:
  "lane (push_bit (LENGTH('a::len) * s) v) i = (if i < s then 0 else lane v (i - s) :: 'a word)" if "LENGTH('a) * i + LENGTH('a) \<le> 128"
proof (cases "i < s")
  case True
  then have "LENGTH('a) * i + LENGTH('a) \<le> LENGTH('a) * s" by (metis Suc_leI mult_Suc_right mult_le_mono2 add.commute)
  then show ?thesis using True by (auto simp: bit_lane bit_simps intro!: bit_word_eqI)
next
  case False
  then have "LENGTH('a) * i = LENGTH('a) * (i - s) + LENGTH('a) * s" by (simp flip: distrib_left)
  then show ?thesis using False that by (auto simp: bit_lane bit_simps intro!: bit_word_eqI)
qed

lemma lane_drop:
  "lane (drop_bit (LENGTH('a::len) * s) v) i = (lane v (i + s) :: 'a word)"
  by (rule bit_word_eqI) (auto simp: bit_lane bit_simps algebra_simps)

lemma lane_beyond: "128 \<le> LENGTH('a::len) * i \<Longrightarrow> lane v i = (0 :: 'a word)"
  by (rule bit_word_eqI) (auto simp: bit_lane dest: bit_imp_le_length)

lemma lane_or: "lane (v OR w) i = (lane v i OR lane w i :: 'a::len word)"
  by (rule bit_word_eqI) (auto simp: bit_lane bit_simps)

lemma bytes_eqI: "(\<And>i. i < 16 \<Longrightarrow> (lane v i :: uint8) = lane w i) \<Longrightarrow> v = w"
  by (rule lanes_eqI[where 'a = 8]) simp_all

lemma octets_left: "of_lanes 16 (\<lambda>i. if i < s then 0 else lane v (i - s) :: uint8) = push_bit (8 * s) v"
  by (rule bytes_eqI) (use lane_push[where ?'a = 8] in \<open>simp add: lane_of_lanes\<close>)

lemma octets_right: "s \<le> 16 \<Longrightarrow> of_lanes 16 (\<lambda>i. if i < 16 - s then lane v (i + s) else 0 :: uint8) = drop_bit (8 * s) v"
  by (rule bytes_eqI) (use lane_drop[where ?'a = 8] in \<open>auto simp: lane_of_lanes lane_beyond\<close>)

lemma octets_double: "s \<le> 16 \<Longrightarrow>
    of_lanes 16 (\<lambda>i. if i < s then lane w (i + (16 - s)) else lane v (i - s) :: uint8) = push_bit (8 * s) v OR drop_bit (8 * (16 - s)) w"
  by (rule bytes_eqI)
    (use lane_push[where ?'a = 8] lane_drop[where ?'a = 8] in \<open>auto simp: lane_of_lanes lane_or lane_beyond\<close>)

lemma halves_left:
  assumes "0 < s" "s < 64"
  shows "(let r = of_lanes 2 (\<lambda>i. push_bit s (lane v i :: uint64))
      in set_VECT 0 (VECT r 0 OR drop_bit (64 - s) (VECT v 1) :: uint64) r) = push_bit s v"
proof (rule lanes_eqI[where 'a = 64])
  fix i assume "i < 128 div LENGTH(64)"
  then have "i = 0 \<or> i = 1" by auto
  then show "lane (let r = of_lanes 2 (\<lambda>i. push_bit s (lane v i :: uint64))
      in set_VECT 0 (VECT r 0 OR drop_bit (64 - s) (VECT v 1) :: uint64) r) i = (lane (push_bit s v) i :: uint64)"
    using assms by (auto simp: Let_def set_VECT_def VECT_def lane_set_lane lane_of_lanes bit_lane bit_simps intro!: bit_word_eqI)
qed simp

lemma drop_lanes:
  fixes v :: "128 word"
  assumes "0 < s" "s < 64"
  shows "(lane (drop_bit s v) 1 :: uint64) = drop_bit s (lane v 1)"
    and "(lane (drop_bit s v) 0 :: uint64) = drop_bit s (lane v 0) OR push_bit (64 - s) (lane v 1)"
proof -
  have le: "bit v m \<Longrightarrow> m < 128" for m by (drule bit_imp_le_length) simp
  show "(lane (drop_bit s v) 1 :: uint64) = drop_bit s (lane v 1)"
  proof (rule bit_word_eqI)
    fix n assume "n < LENGTH(64)"
    then have n: "n < 64" by simp
    have "s + n < 64" if "bit v (64 + (s + n))" using le[OF that] by simp
    moreover have eq: "s + (64 + n) = 64 + (s + n)" by simp
    ultimately show "bit (lane (drop_bit s v) 1 :: uint64) n = bit (drop_bit s (lane v 1) :: uint64) n"
      using n by (simp only: bit_lane bit_drop_bit_eq o_apply len_bit0 len_num1 mult_1_right add.commute[of _ s]) (auto simp: eq)
  qed
  show "(lane (drop_bit s v) 0 :: uint64) = drop_bit s (lane v 0) OR push_bit (64 - s) (lane v 1)"
  proof (rule bit_word_eqI)
    fix n assume "n < LENGTH(64)"
    then have n: "n < 64" by simp
    have "64 + (n - (64 - s)) = s + n \<and> 64 - s \<le> n \<and> n - (64 - s) < 64" if "64 \<le> s + n" using that n assms by auto
    moreover have "\<not> 64 - s \<le> n" if "s + n < 64" using that assms by auto
    ultimately show "bit (lane (drop_bit s v) 0 :: uint64) n = bit (drop_bit s (lane v 0) OR push_bit (64 - s) (lane v 1) :: uint64) n"
      using n by (cases "s + n < 64") (simp_all only: bit_lane bit_or_iff bit_drop_bit_eq bit_push_bit_iff possible_bit_word
        o_apply len_bit0 len_num1 mult_0_right mult_1_right add_0_left, auto)
  qed
qed

lemma halves_right:
  assumes "0 < s" "s < 64"
  shows "(let r = of_lanes 2 (\<lambda>i. drop_bit s (lane v i :: uint64))
      in set_VECT 1 (VECT r 1 OR push_bit (64 - s) (VECT v 0) :: uint64) r) = drop_bit s v"
proof (rule lanes_eqI[where 'a = 64])
  fix i assume "i < 128 div LENGTH(64)"
  then have "i = 0 \<or> i = 1" by auto
  then show "lane (let r = of_lanes 2 (\<lambda>i. drop_bit s (lane v i :: uint64))
      in set_VECT 1 (VECT r 1 OR push_bit (64 - s) (VECT v 0) :: uint64) r) i = (lane (drop_bit s v) i :: uint64)"
    using drop_lanes[OF assms, of v] by (auto simp: Let_def set_VECT_def VECT_def lane_set_lane lane_of_lanes)
qed simp

lemma shift_bits: "unat (w AND 0x7 :: uint32) < 8" "unat (w AND 0xf :: uint32) < 16"
  using word_and_le1[of w 7] word_and_le1[of w 15] by (simp_all add: word_le_nat_alt and.commute less_Suc_eq_le)

lemma whole_shifts:
  "ppc_opc_vslo c = (let (vrD, vrA, vrB) = PPC_OPC_TEMPL_X (current_opc c)
     in set_vr vrD (push_bit (8 * unat (drop_bit 3 (vw c vrB 0) AND 0xf)) (vr c vrA)) c)"
  "ppc_opc_vsro c = (let (vrD, vrA, vrB) = PPC_OPC_TEMPL_X (current_opc c)
     in set_vr vrD (drop_bit (8 * unat (drop_bit 3 (vw c vrB 0) AND 0xf)) (vr c vrA)) c)"
  "ppc_opc_vsl c = (let (vrD, vrA, vrB) = PPC_OPC_TEMPL_X (current_opc c); s = unat (vw c vrB 0 AND 0x7)
     in if s = 0 then Inl (Host_Undefined Shift_Count) else Inr (set_vr vrD (push_bit s (vr c vrA)) c))"
  "ppc_opc_vsr c = (let (vrD, vrA, vrB) = PPC_OPC_TEMPL_X (current_opc c); s = unat (vw c vrB 0 AND 0x7)
     in if s = 0 then Inl (Host_Undefined Shift_Count) else Inr (set_vr vrD (drop_bit s (vr c vrA)) c))"
proof -
  have s: "unat (w AND 0x7 :: uint32) < 64" "unat (w AND 0xf :: uint32) \<le> 16" for w using shift_bits[of w] by simp_all
  show "ppc_opc_vslo c = (let (vrD, vrA, vrB) = PPC_OPC_TEMPL_X (current_opc c)
     in set_vr vrD (push_bit (8 * unat (drop_bit 3 (vw c vrB 0) AND 0xf)) (vr c vrA)) c)"
    unfolding ppc_opc_vslo_def with_X_def Let_def vreg_def octets_left ..
  show "ppc_opc_vsro c = (let (vrD, vrA, vrB) = PPC_OPC_TEMPL_X (current_opc c)
     in set_vr vrD (drop_bit (8 * unat (drop_bit 3 (vw c vrB 0) AND 0xf)) (vr c vrA)) c)"
    unfolding ppc_opc_vsro_def with_X_def Let_def vreg_def octets_right[OF s(2)] ..
  show "ppc_opc_vsl c = (let (vrD, vrA, vrB) = PPC_OPC_TEMPL_X (current_opc c); s = unat (vw c vrB 0 AND 0x7)
     in if s = 0 then Inl (Host_Undefined Shift_Count) else Inr (set_vr vrD (push_bit s (vr c vrA)) c))"
    using halves_left[OF _ s(1)] by (simp add: ppc_opc_vsl_def with_X_def Let_def vreg_def split: prod.splits)
  show "ppc_opc_vsr c = (let (vrD, vrA, vrB) = PPC_OPC_TEMPL_X (current_opc c); s = unat (vw c vrB 0 AND 0x7)
     in if s = 0 then Inl (Host_Undefined Shift_Count) else Inr (set_vr vrD (drop_bit s (vr c vrA)) c))"
    using halves_right[OF _ s(1)] by (simp add: ppc_opc_vsr_def with_X_def Let_def vreg_def split: prod.splits)
qed

subsection \<open>Alignment\<close>

lemma below_32: "n < 32 \<Longrightarrow> n \<in> set [0..<32]" for n :: nat
  by simp

lemma helper_nth: "j < 32 \<Longrightarrow> unat (lvsl_helper ! j) = 31 - j"
proof -
  have "list_all (\<lambda>j. unat (lvsl_helper ! j) = 31 - j) [0..<32]" by code_simp
  then show "j < 32 \<Longrightarrow> unat (lvsl_helper ! j) = 31 - j" by (simp add: list_all_iff)
qed

lemma bit4: "n < 32 \<Longrightarrow> bit n 4 \<longleftrightarrow> 16 \<le> n" for n :: nat
proof -
  have "list_all (\<lambda>n :: nat. bit n 4 \<longleftrightarrow> 16 \<le> n) [0..<32]" by code_simp
  then show "n < 32 \<Longrightarrow> bit n 4 \<longleftrightarrow> 16 \<le> n" by (simp add: list_all_iff)
qed

lemma lane_window: "k \<le> 16 \<Longrightarrow> i < 16 \<Longrightarrow> unat (lane (lvsl_window k) i :: uint8) = 31 - (k + i)"
  by (simp add: lvsl_window_def lane_of_lanes helper_nth)

lemma of_lanes_cong: "(\<And>i. i < n \<Longrightarrow> f i = g i) \<Longrightarrow> of_lanes n f = of_lanes n g"
  unfolding of_lanes_def by (intro fold_cong) auto

lemma permute_window:
  assumes "s < 16"
  shows "of_lanes 16 (\<lambda>i. let sel = unat (lane (lvsl_window (16 - s)) i :: uint8)
      in if bit sel 4 then VECT w (sel mod 16) else VECT v (sel mod 16) :: uint8) =
    push_bit (8 * s) v OR drop_bit (8 * (16 - s)) w"
proof -
  have "(let sel = unat (lane (lvsl_window (16 - s)) i :: uint8)
      in if bit sel 4 then VECT w (sel mod 16) else VECT v (sel mod 16)) =
    (if i < s then lane w (i + (16 - s)) else lane v (i - s) :: uint8)" if i: "i < 16" for i
  proof -
    have e: "unat (lane (lvsl_window (16 - s)) i :: uint8) = 31 - (16 - s + i)" by (rule lane_window) (use assms i in auto)
    have b: "bit (31 - (16 - s + i)) 4 \<longleftrightarrow> i < s" using assms i by (subst bit4) auto
    have "(31 - (16 - s + i)) mod 16 = 15 - (16 - s + i)" if "i < s"
    proof -
      have e: "31 - (16 - s + i) = (15 - (16 - s + i)) + 16" using that assms by auto
      show ?thesis unfolding e mod_add_self2 by simp
    qed
    moreover have "(31 - (16 - s + i)) mod 16 = 31 - (16 - s + i)" if "\<not> i < s" using that assms i by auto
    ultimately show ?thesis
      unfolding Let_def e b using assms i by (auto simp: VECT_def add.commute)
  qed
  then show ?thesis using octets_double[of s w v] assms by (simp cong: of_lanes_cong)
qed

text \<open>The sixteen bytes that start at byte \<open>s\<close> of the quad word \<open>v\<close> and go on into \<open>w\<close>.\<close>

definition joined :: "nat \<Rightarrow> 128 word \<Rightarrow> 128 word \<Rightarrow> 128 word" where
  "joined s v w = push_bit (8 * s) v OR drop_bit (8 * (16 - s)) w"

lemma vsldoi_joined: "ppc_opc_vsldoi c = (let (vrD, vrA, vrB, vrC) = PPC_OPC_TEMPL_A (current_opc c)
    in set_vr vrD (joined (vrC mod 16) (vr c vrA) (vr c vrB)) c)"
  unfolding ppc_opc_vsldoi_def with_A_def Let_def vreg_def joined_def
  by (simp add: octets_double[OF less_imp_le_nat[OF mod_less_divisor]])

lemma vperm_joined:
  assumes "PPC_OPC_TEMPL_A (current_opc c) = (vrD, vrA, vrB, vrC)" "vr c vrC = lvsl_window (16 - s)" "s < 16"
  shows "ppc_opc_vperm c = set_vr vrD (joined s (vr c vrA) (vr c vrB)) c"
  by (simp only: ppc_opc_vperm_def with_A_def assms(1,2) vreg_def joined_def prod.case Let_def
      permute_window[OF assms(3), unfolded Let_def])

text \<open>
  What the vector instructions compute, as a program sees it: saturating arithmetic, shifts of a whole register,
  loads that are not aligned, and the instructions that do not compute what they are meant to.
\<close>


text \<open>C37: The saturating additions and subtractions: every element of the destination is the exact sum or difference of
  the old elements, clamped to the range of the element, and the saturation bit is set exactly when an element was
  outside that range, also where the destination is one of the sources.  This covers the conversions that test bits of
  a wider result and the word forms that find the overflow from the wrapped result.\<close>

theorem vector_saturating_arithmetic:
  "lanes_clamped ppc_opc_vaddubs 16 (uint :: uint8 \<Rightarrow> int) (+) 0 255 \<and>
   lanes_clamped ppc_opc_vaddsbs 16 (sint :: uint8 \<Rightarrow> int) (+) (- 128) 127 \<and>
   lanes_clamped ppc_opc_vsububs 16 (uint :: uint8 \<Rightarrow> int) (-) 0 255 \<and>
   lanes_clamped ppc_opc_vsubsbs 16 (sint :: uint8 \<Rightarrow> int) (-) (- 128) 127 \<and>
   lanes_clamped ppc_opc_vadduhs 8 (uint :: uint16 \<Rightarrow> int) (+) 0 65535 \<and>
   lanes_clamped ppc_opc_vaddshs 8 (sint :: uint16 \<Rightarrow> int) (+) (- 32768) 32767 \<and>
   lanes_clamped ppc_opc_vsubuhs 8 (uint :: uint16 \<Rightarrow> int) (-) 0 65535 \<and>
   lanes_clamped ppc_opc_vsubshs 8 (sint :: uint16 \<Rightarrow> int) (-) (- 32768) 32767 \<and>
   lanes_clamped ppc_opc_vadduws 4 (uint :: uint32 \<Rightarrow> int) (+) 0 0xffffffff \<and>
   lanes_clamped ppc_opc_vaddsws 4 (sint :: uint32 \<Rightarrow> int) (+) (- 2147483648) 2147483647 \<and>
   lanes_clamped ppc_opc_vsubuws 4 (uint :: uint32 \<Rightarrow> int) (-) 0 0xffffffff"
  by (intro conjI saturating_byte_forms saturating_half_forms saturating_word_forms)

text \<open>The shifts of a whole register: the octet forms shift the 128 bits by a multiple of eight, the bit forms by one
  to seven; a count of zero makes the bit forms shift a 64-bit half by 64, which the host leaves undefined.\<close>

theorem vector_whole_shifts:
  "ppc_opc_vslo c = (let (vrD, vrA, vrB) = PPC_OPC_TEMPL_X (current_opc c)
     in set_vr vrD (push_bit (8 * unat (drop_bit 3 (vw c vrB 0) AND 0xf)) (vr c vrA)) c) \<and>
   ppc_opc_vsro c = (let (vrD, vrA, vrB) = PPC_OPC_TEMPL_X (current_opc c)
     in set_vr vrD (drop_bit (8 * unat (drop_bit 3 (vw c vrB 0) AND 0xf)) (vr c vrA)) c) \<and>
   ppc_opc_vsl c = (let (vrD, vrA, vrB) = PPC_OPC_TEMPL_X (current_opc c); s = unat (vw c vrB 0 AND 0x7)
     in if s = 0 then Inl (Host_Undefined Shift_Count) else Inr (set_vr vrD (push_bit s (vr c vrA)) c)) \<and>
   ppc_opc_vsr c = (let (vrD, vrA, vrB) = PPC_OPC_TEMPL_X (current_opc c); s = unat (vw c vrB 0 AND 0x7)
     in if s = 0 then Inl (Host_Undefined Shift_Count) else Inr (set_vr vrD (drop_bit s (vr c vrA)) c))"
  by (intro conjI whole_shifts)

subsection \<open>Loads that are not aligned\<close>

lemma nibble: "unat (ea AND 0xf :: uint32) < 16"
  by (rule shift_bits(2))

text \<open>The sequence for a load that is not aligned: the control vector \<open>lvsl\<close> makes of an address lets \<open>vperm\<close> pick,
  of two neighbouring quad words, the sixteen bytes that start at the address.\<close>

theorem lvsl_vperm_aligns:
  assumes "PPC_OPC_TEMPL_X (current_opc (mcpu m)) = (vrT, rA, rB)" "msr (mcpu m) AND MSR_VEC \<noteq> 0"
    and "PPC_OPC_TEMPL_A opc = (vrD, vrA, vrB, vrT)" "vrT \<noteq> vrA" "vrT \<noteq> vrB"
  shows "\<exists>m'. ppc_opc_lvsl B m = Inr m' \<and>
    vr (ppc_opc_vperm (mcpu m'\<lparr>current_opc := opc\<rparr>)) vrD =
      joined (unat (vec_ea rA rB (mcpu m) AND 0xf)) (vr (mcpu m) vrA) (vr (mcpu m) vrB)"
proof -
  let ?s = "unat (vec_ea rA rB (mcpu m) AND 0xf)"
  let ?m = "m\<lparr>mcpu := set_vr vrT (lvsl_window (0x10 - ?s)) (mcpu m)\<rparr>"
  have "ppc_opc_lvsl B m = Inr ?m" using assms(1,2) by (simp add: ppc_opc_lvsl_def needs_vec_def)
  moreover have "ppc_opc_vperm (mcpu ?m\<lparr>current_opc := opc\<rparr>) =
      set_vr vrD (joined ?s (vr (mcpu ?m) vrA) (vr (mcpu ?m) vrB)) (mcpu ?m\<lparr>current_opc := opc\<rparr>)"
    using vperm_joined[of "mcpu ?m\<lparr>current_opc := opc\<rparr>", OF _ _ nibble[of "vec_ea rA rB (mcpu m)"]] assms(3)
    by (simp add: set_vr_def)
  ultimately show ?thesis using assms(4,5) by (simp add: set_vr_def)
qed

subsection \<open>Differences\<close>

lemma sub_words_code:
  "(let tmp = - b; res = a + tmp in if (a XOR tmp) AND SIGN32 = 0 \<and> istrue ((res XOR tmp) AND SIGN32)
      then (if istrue (res AND SIGN32) then SIGN32 - 1 else SIGN32, set_sat c) else (res, c)) =
    (word_of_int (clamp (- 2147483648) 2147483647 (sint a + sint (- b))),
     if sint a + sint (- b) \<notin> {- 2147483648..2147483647} then set_sat c else c)"
  for a b :: uint32
proof -
  have "(a XOR t) AND SIGN32 = 0 \<and> istrue ((res XOR t) AND SIGN32) \<longleftrightarrow> (a XOR t) AND SIGN32 = 0 \<and> istrue ((res XOR a) AND SIGN32)"
    for res t by (auto simp: sign_and sign_xor)
  then show ?thesis using add_words_signed[of a "- b" c] by (simp only: Let_def)
qed

lemma sint_negated: "sint (- b) = (if sint b = - 2147483648 then - 2147483648 else - sint b)" for b :: uint32
proof (cases "sint b = - 2147483648")
  case True
  have "word_of_int (sint b) = b" by simp
  then have "b = word_of_int (- 2147483648)" unfolding True by (rule sym)
  then show ?thesis using True by simp
next
  case False
  then have "sint (word_of_int (- sint b) :: uint32) = - sint b"
    using word_range(3,4)[of b] by (intro values_of_int(6)) linarith+
  then show ?thesis using False by simp
qed

lemma vsubsws_lanes:
  "ppc_opc_vsubsws c = (let (vrD, vrA, vrB) = PPC_OPC_TEMPL_X (current_opc c);
      x = (\<lambda>i. sint (vw c vrA i) + sint (- vw c vrB i))
    in set_vr vrD (relane 4 (\<lambda>i. word_of_int (clamp (- 2147483648) 2147483647 (x i)) :: uint32) (vr c vrD))
      (if \<exists>i<4. x i \<notin> {- 2147483648..2147483647} then set_sat c else c))"
proof -
  obtain vrD vrA vrB where x: "PPC_OPC_TEMPL_X (current_opc c) = (vrD, vrA, vrB)" by (rule prod_cases3)
  show ?thesis
    unfolding ppc_opc_vsubsws_def with_X_def x Let_def prod.case
    by (rule for_lanes_sat_in_place[where val = "\<lambda>a b. word_of_int (clamp (- 2147483648) 2147483647 (sint a + sint (- b)))"
        and sat = "\<lambda>a b. sint a + sint (- b) \<notin> {- 2147483648..2147483647}"])
      (rule sub_words_code[unfolded Let_def], simp)
qed

text \<open>The saturating difference of signed words is right in an element exactly when the subtrahend is not the least
  word: its negation overflows, and the sum with it goes the wrong way.\<close>

theorem vsubsws_correct_elements:
  assumes "PPC_OPC_TEMPL_X (current_opc c) = (vrD, vrA, vrB)" "i < 4"
  shows "sint (vw (ppc_opc_vsubsws c) vrD i) = clamp (- 2147483648) 2147483647 (sint (vw c vrA i) - sint (vw c vrB i)) \<longleftrightarrow>
    sint (vw c vrB i) \<noteq> - 2147483648"
proof -
  have r: "sint (word_of_int (clamp (- 2147483648) 2147483647 x) :: uint32) = clamp (- 2147483648) 2147483647 x" for x
    by (rule values_of_int(6)) (simp_all add: clamp_def)
  have "sint (vw (ppc_opc_vsubsws c) vrD i) = clamp (- 2147483648) 2147483647 (sint (vw c vrA i) + sint (- vw c vrB i))"
    using assms by (simp add: vsubsws_lanes vreg_def set_vr_def lane_relane r[unfolded vreg_def])
  then show ?thesis
    using word_range(3,4)[of "vw c vrA i"] by (auto simp: sint_negated clamp_def)
qed

lemma saturate_word: "- 9223372036854775808 \<le> y \<Longrightarrow> y < 9223372036854775808 \<Longrightarrow>
    SATURATE_SW (word_of_int y) c =
      (word_of_int (clamp (- 2147483648) 2147483647 y), if y \<notin> {- 2147483648..2147483647} then set_sat c else c)"
  by (auto simp: SATURATE_SW_def sint_of_int ucast_of_sint clamp_def)

lemma first_word: "(of_lanes 4 (\<lambda>i. if i = 0 then x else 0) :: 128 word) =
    set_VECT 0 (0 :: uint32) (set_VECT 1 (0 :: uint32) (set_VECT 2 (0 :: uint32) (set_VECT 3 x v)))" for x :: uint32
proof (rule lanes_eqI[where 'a = 32])
  fix i assume "i < 128 div LENGTH(32)"
  then have "i = 0 \<or> i = 1 \<or> i = 2 \<or> i = 3" by auto
  then show "(lane (of_lanes 4 (\<lambda>i. if i = 0 then x else 0)) i :: uint32) =
      lane (set_VECT 0 (0 :: uint32) (set_VECT 1 (0 :: uint32) (set_VECT 2 (0 :: uint32) (set_VECT 3 x v)))) i"
    by (auto simp: set_VECT_def lane_set_lane lane_of_lanes)
qed simp

text \<open>The sum across signed words adds the fourth element of the second source as an unsigned number: where that
  element is negative, the sum is larger by 2 to the 32.\<close>

theorem vsumsws_adds_unsigned:
  "ppc_opc_vsumsws c = (let (vrD, vrA, vrB) = PPC_OPC_TEMPL_X (current_opc c);
      a = (\<lambda>i. sint (vw c vrA i));
      x = a 0 + a 1 + a 2 + a 3 + uint (vw c vrB 0)
    in set_vr vrD (of_lanes 4 (\<lambda>i. if i = 0 then word_of_int (clamp (- 2147483648) 2147483647 x) else 0 :: uint32))
         (if x \<notin> {- 2147483648..2147483647} then set_sat c else c))"
proof -
  obtain vrD vrA vrB where t: "PPC_OPC_TEMPL_X (current_opc c) = (vrD, vrA, vrB)" by (rule prod_cases3)
  let ?x = "sint (vw c vrA 0) + sint (vw c vrA 1) + sint (vw c vrA 2) + sint (vw c vrA 3) + uint (vw c vrB 0)"
  have b: "- 9223372036854775808 \<le> ?x" "?x < 9223372036854775808"
    using word_range[of "vw c vrA 0"] word_range[of "vw c vrA 1"] word_range[of "vw c vrA 2"] word_range[of "vw c vrA 3"]
      word_range[of "vw c vrB 0"] by linarith+
  have w: "VECT v 3 = (lane v 0 :: uint32)" for v by (simp add: VECT_def)
  have "scast (vw c vrA 0) + scast (vw c vrA 1) + (scast (vw c vrA 2) + scast (vw c vrA 3)) +
      ucast (VECT (vr c vrB) 3 :: uint32) = (word_of_int ?x :: uint64)"
    by (simp only: scast_eq ucast_eq w vreg_def wi_hom_add add.assoc)
  moreover have "vr (if P then set_sat c else c) = vr c" for P by (simp add: set_sat_def)
  ultimately show ?thesis
    unfolding ppc_opc_vsumsws_def with_X_def t Let_def prod.case
    by (simp only: saturate_word[OF b] prod.case first_word[of _ "vr c vrD"])
qed

subsection \<open>Examples\<close>

definition vec_cpu :: cpu where
  "vec_cpu = (ppc_cpu_init 0)\<lparr>msr := MSR_VEC, gpr := (\<lambda>_. 0x1003), current_opc := 0x10221F80,
     vr := (\<lambda>i. if i = 3 then 0x80000000 else 0x7fffffff)\<rparr>"

definition vec_mach :: "unit mach" where
  "vec_mach = \<lparr>mcpu = vec_cpu\<lparr>current_opc := 0x7C00180C\<rparr>, gMemory = (\<lambda>_. 0), gMemorySize = 0x10000, io = ()\<rparr>"

theorem lvsl_vperm_aligns_witness:
  "\<forall>B. \<exists>m'. ppc_opc_lvsl B vec_mach = Inr m' \<and>
    vr (ppc_opc_vperm (mcpu m'\<lparr>current_opc := 0x1082182B\<rparr>)) 4 = joined 3 0x7fffffff 0x80000000"
proof -
  have "PPC_OPC_TEMPL_X 0x7C00180C = (0, 0, 3)" "PPC_OPC_TEMPL_A 0x1082182B = (4, 2, 3, 0)"
    by (simp_all add: PPC_OPC_TEMPL_X_def PPC_OPC_TEMPL_A_def field5_def reg5_def Let_def)
  then show ?thesis
    using lvsl_vperm_aligns[of vec_mach 0 0 3 "0x1082182B" 4 2 3]
    by (simp add: vec_mach_def vec_cpu_def vec_ea_def base_def MSR_VEC_def)
qed

theorem vsubsws_correct_elements_witness:
  "sint (vw (ppc_opc_vsubsws vec_cpu) 1 0) \<noteq> clamp (- 2147483648) 2147483647 (sint (vw vec_cpu 2 0) - sint (vw vec_cpu 3 0)) \<and>
   sint (vw (ppc_opc_vsubsws vec_cpu) 1 1) = clamp (- 2147483648) 2147483647 (sint (vw vec_cpu 2 1) - sint (vw vec_cpu 3 1))"
proof -
  have "PPC_OPC_TEMPL_X (current_opc vec_cpu) = (1, 2, 3)"
    by (simp add: vec_cpu_def PPC_OPC_TEMPL_X_def field5_def reg5_def Let_def)
  moreover have "sint (vw vec_cpu 3 0) = - 2147483648" "sint (vw vec_cpu 3 1) = 0"
    by (simp_all add: vec_cpu_def vreg_def lane_def)
  ultimately show ?thesis
    using vsubsws_correct_elements[of vec_cpu 1 2 3 0] vsubsws_correct_elements[of vec_cpu 1 2 3 1] by simp
qed

end
