(* ===== verification/Ppc_Vec_Dec.thy ===== *)
theory Ppc_Vec_Dec
  imports Ppc_Vec
begin

text \<open>
  src/cpu/cpu_generic/ppc_vec.cc: the vector handlers on floating-point elements.  They compute with the host's
  \<open>float\<close> and \<open>double\<close> and its mathematical library, which the C++ standard leaves to the implementation: the record
  \<open>host_float\<close> holds these operations, on the bits of a \<open>float\<close>.  The handlers are the loops around them.
\<close>

unbundle bit_operations_syntax

record host_float =
  h_add :: "uint32 \<Rightarrow> uint32 \<Rightarrow> uint32"
  h_sub :: "uint32 \<Rightarrow> uint32 \<Rightarrow> uint32"
  h_mul :: "uint32 \<Rightarrow> uint32 \<Rightarrow> uint32"
  h_div :: "uint32 \<Rightarrow> uint32 \<Rightarrow> uint32"
  h_madd :: "uint32 \<Rightarrow> uint32 \<Rightarrow> uint32 \<Rightarrow> uint32"
  h_nmsub :: "uint32 \<Rightarrow> uint32 \<Rightarrow> uint32 \<Rightarrow> uint32"
  h_neg :: "uint32 \<Rightarrow> uint32"
  h_less :: "uint32 \<Rightarrow> uint32 \<Rightarrow> bool"
  h_less_eq :: "uint32 \<Rightarrow> uint32 \<Rightarrow> bool"
  h_equal :: "uint32 \<Rightarrow> uint32 \<Rightarrow> bool"
  h_rint :: "uint32 \<Rightarrow> uint32"
  h_ceil :: "uint32 \<Rightarrow> uint32"
  h_floor :: "uint32 \<Rightarrow> uint32"
  h_trunc :: "uint32 \<Rightarrow> uint32"
  h_rsqrt :: "uint32 \<Rightarrow> uint32"
  h_log2 :: "uint32 \<Rightarrow> uint32"
  h_exp2 :: "uint32 \<Rightarrow> uint32"
  h_of_u32 :: "uint32 \<Rightarrow> uint32"
  h_of_s32 :: "uint32 \<Rightarrow> uint32"
  h_to_u32 :: "uint32 \<Rightarrow> uint32"
  h_to_s32 :: "uint32 \<Rightarrow> uint32"
  h_above_u32 :: "uint32 \<Rightarrow> bool"
  h_below_u32 :: "uint32 \<Rightarrow> bool"
  h_above_s32 :: "uint32 \<Rightarrow> bool"
  h_below_s32 :: "uint32 \<Rightarrow> bool"

text \<open>
  \<open>h_madd a c b\<close> is \<open>(float) (b + (double) a * c)\<close> and \<open>h_nmsub a c b\<close> is \<open>(float) (b - (double) a * c)\<close>, in
  \<open>double\<close>; \<open>h_above_s32\<close> to \<open>h_below_u32\<close> compare with the bounds of the conversions.
\<close>

definition ppc_opc_vaddfp :: "host_float \<Rightarrow> cpu \<Rightarrow> cpu" where
  "ppc_opc_vaddfp F =
     with_X (\<lambda>vrD vrA vrB. for_lanes 4 vrD (\<lambda>i c. h_add F (vw c vrA i) (vw c vrB i)))"

definition ppc_opc_vsubfp :: "host_float \<Rightarrow> cpu \<Rightarrow> cpu" where
  "ppc_opc_vsubfp F =
     with_X (\<lambda>vrD vrA vrB. for_lanes 4 vrD (\<lambda>i c. h_sub F (vw c vrA i) (vw c vrB i)))"

definition ppc_opc_vmaddfp :: "host_float \<Rightarrow> cpu \<Rightarrow> cpu" where
  "ppc_opc_vmaddfp F =
     with_A (\<lambda>vrD vrA vrB vrC. for_lanes 4 vrD (\<lambda>i c. h_madd F (vw c vrA i) (vw c vrC i) (vw c vrB i)))"

definition ppc_opc_vnmsubfp :: "host_float \<Rightarrow> cpu \<Rightarrow> cpu" where
  "ppc_opc_vnmsubfp F =
     with_A (\<lambda>vrD vrA vrB vrC. for_lanes 4 vrD (\<lambda>i c. h_nmsub F (vw c vrA i) (vw c vrC i) (vw c vrB i)))"

definition ppc_opc_vmaxfp :: "host_float \<Rightarrow> cpu \<Rightarrow> cpu" where
  "ppc_opc_vmaxfp F =
     with_X (\<lambda>vrD vrA vrB. for_lanes 4 vrD (\<lambda>i c. if h_less F (vw c vrA i) (vw c vrB i) then vw c vrB i else vw c vrA i))"

definition ppc_opc_vminfp :: "host_float \<Rightarrow> cpu \<Rightarrow> cpu" where
  "ppc_opc_vminfp F =
     with_X (\<lambda>vrD vrA vrB. for_lanes 4 vrD (\<lambda>i c. if h_less F (vw c vrB i) (vw c vrA i) then vw c vrB i else vw c vrA i))"

definition ppc_opc_vrfin :: "host_float \<Rightarrow> cpu \<Rightarrow> cpu" where
  "ppc_opc_vrfin F =
     with_X (\<lambda>vrD vrA vrB. for_lanes 4 vrD (\<lambda>i c. h_rint F (vw c vrB i)))"

definition ppc_opc_vrfip :: "host_float \<Rightarrow> cpu \<Rightarrow> cpu" where
  "ppc_opc_vrfip F =
     with_X (\<lambda>vrD vrA vrB. for_lanes 4 vrD (\<lambda>i c. h_ceil F (vw c vrB i)))"

definition ppc_opc_vrfim :: "host_float \<Rightarrow> cpu \<Rightarrow> cpu" where
  "ppc_opc_vrfim F =
     with_X (\<lambda>vrD vrA vrB. for_lanes 4 vrD (\<lambda>i c. h_floor F (vw c vrB i)))"

definition ppc_opc_vrfiz :: "host_float \<Rightarrow> cpu \<Rightarrow> cpu" where
  "ppc_opc_vrfiz F =
     with_X (\<lambda>vrD vrA vrB. for_lanes 4 vrD (\<lambda>i c. h_trunc F (vw c vrD i)))"

definition ppc_opc_vrefp :: "host_float \<Rightarrow> cpu \<Rightarrow> cpu" where
  "ppc_opc_vrefp F =
     with_X (\<lambda>vrD vrA vrB. for_lanes 4 vrD (\<lambda>i c. h_div F (h_of_s32 F 1) (vw c vrB i)))"

definition ppc_opc_vrsqrtefp :: "host_float \<Rightarrow> cpu \<Rightarrow> cpu" where
  "ppc_opc_vrsqrtefp F =
     with_X (\<lambda>vrD vrA vrB. for_lanes 4 vrD (\<lambda>i c. h_rsqrt F (vw c vrB i)))"

definition ppc_opc_vlogefp :: "host_float \<Rightarrow> cpu \<Rightarrow> cpu" where
  "ppc_opc_vlogefp F =
     with_X (\<lambda>vrD vrA vrB. for_lanes 4 vrD (\<lambda>i c. h_log2 F (vw c vrB i)))"

definition ppc_opc_vexptefp :: "host_float \<Rightarrow> cpu \<Rightarrow> cpu" where
  "ppc_opc_vexptefp F =
     with_X (\<lambda>vrD vrA vrB. for_lanes 4 vrD (\<lambda>i c. h_exp2 F (vw c vrB i)))"

definition ppc_opc_vcfux :: "host_float \<Rightarrow> cpu \<Rightarrow> cpu" where
  "ppc_opc_vcfux F =
     with_X (\<lambda>vrD uimm vrB. for_lanes 4 vrD (\<lambda>i c. h_div F (h_of_u32 F (vw c vrB i)) (h_of_s32 F (push_bit uimm 1))))"

definition ppc_opc_vcfsx :: "host_float \<Rightarrow> cpu \<Rightarrow> cpu" where
  "ppc_opc_vcfsx F =
     with_X (\<lambda>vrD uimm vrB. for_lanes 4 vrD (\<lambda>i c. h_div F (h_of_s32 F (vw c vrB i)) (h_of_s32 F (push_bit uimm 1))))"

definition ppc_opc_vctsxs :: "host_float \<Rightarrow> cpu \<Rightarrow> cpu" where
  "ppc_opc_vctsxs F =
     with_X (\<lambda>vrD uimm vrB. for_lanes_sat 4 vrD (\<lambda>i c.
       let ftmp = h_rint F (h_mul F (vw c vrB i) (h_of_s32 F (push_bit uimm 1)))
       in if h_above_s32 F ftmp then (2147483647, set_sat c)
          else if h_below_s32 F ftmp then (0x80000000, set_sat c)
          else (h_to_s32 F ftmp, c)))"

definition ppc_opc_vctuxs :: "host_float \<Rightarrow> cpu \<Rightarrow> cpu" where
  "ppc_opc_vctuxs F =
     with_X (\<lambda>vrD uimm vrB. for_lanes_sat 4 vrD (\<lambda>i c.
       let ftmp = h_rint F (h_mul F (vw c vrB i) (h_of_s32 F (push_bit uimm 1)))
       in if h_above_u32 F ftmp then (0xffffffff, set_sat c)
          else if h_below_u32 F ftmp then (0, set_sat c)
          else (h_to_u32 F ftmp, c)))"

definition ppc_opc_vcmpeqfpx :: "host_float \<Rightarrow> cpu \<Rightarrow> cpu" where
  "ppc_opc_vcmpeqfpx F =
     vcmp 4 (\<lambda>(_, c) vrA vrB i. (0xffffffff :: uint32, h_equal F (vw c vrA i) (vw c vrB i)))"

definition ppc_opc_vcmpgtfpx :: "host_float \<Rightarrow> cpu \<Rightarrow> cpu" where
  "ppc_opc_vcmpgtfpx F =
     vcmp 4 (\<lambda>(_, c) vrA vrB i. (0xffffffff :: uint32, h_less F (vw c vrB i) (vw c vrA i)))"

definition ppc_opc_vcmpgefpx :: "host_float \<Rightarrow> cpu \<Rightarrow> cpu" where
  "ppc_opc_vcmpgefpx F =
     vcmp 4 (\<lambda>(_, c) vrA vrB i. (0xffffffff :: uint32, h_less_eq F (vw c vrB i) (vw c vrA i)))"

definition ppc_opc_vcmpbfpx :: "host_float \<Rightarrow> cpu \<Rightarrow> cpu" where
  "ppc_opc_vcmpbfpx F =
     with_X (\<lambda>vrD vrA vrB c.
       let (ib, c) = fold (\<lambda>i (ib, c).
             let le = (if h_less_eq F (vw c vrA i) (vw c vrB i) then 0 else 0x80000000);
                 ge = (if h_less_eq F (h_neg F (vw c vrB i)) (vw c vrA i) then 0 else 0x40000000) :: uint32
             in (if istrue (le OR ge) then 0 else ib, set_vreg vrD i (le OR ge) c))
           [0..<4] (CR_CR6_NE, c)
       in write_CR6 ib c)"

text \<open>
  The dispatch of main opcode 4 in src/cpu/cpu_generic/ppc_dec.cc: the four-operand forms by the low five bits of the
  extended opcode, the comparisons by its low nine bits, everything else by a table.  \<open>None\<close> is \<open>ppc_opc_invalid\<close>.
\<close>


definition done_with :: "(cpu \<Rightarrow> cpu) \<Rightarrow> opc_function" where
  "done_with f c = Inr (f c)"

definition groupv_entries :: "host_float \<Rightarrow> (nat \<times> opc_function) list" where
  "groupv_entries F = [
   (0, done_with ppc_opc_vaddubm),
   (1, done_with ppc_opc_vmaxub),
   (2, done_with ppc_opc_vrlb),
   (4, done_with ppc_opc_vmuloub),
   (5, done_with (ppc_opc_vaddfp F)),
   (6, done_with ppc_opc_vmrghb),
   (7, done_with ppc_opc_vpkuhum),
   (32, done_with ppc_opc_vadduhm),
   (33, done_with ppc_opc_vmaxuh),
   (34, done_with ppc_opc_vrlh),
   (36, done_with ppc_opc_vmulouh),
   (37, done_with (ppc_opc_vsubfp F)),
   (38, done_with ppc_opc_vmrghh),
   (39, done_with ppc_opc_vpkuwum),
   (64, done_with ppc_opc_vadduwm),
   (65, done_with ppc_opc_vmaxuw),
   (66, ppc_opc_vrlw),
   (70, done_with ppc_opc_vmrghw),
   (71, done_with ppc_opc_vpkuhus),
   (103, done_with ppc_opc_vpkuwus),
   (129, done_with ppc_opc_vmaxsb),
   (130, done_with ppc_opc_vslb),
   (132, done_with ppc_opc_vmulosb),
   (133, done_with (ppc_opc_vrefp F)),
   (134, done_with ppc_opc_vmrglb),
   (135, done_with ppc_opc_vpkshus),
   (161, done_with ppc_opc_vmaxsh),
   (162, done_with ppc_opc_vslh),
   (164, done_with ppc_opc_vmulosh),
   (165, done_with (ppc_opc_vrsqrtefp F)),
   (166, done_with ppc_opc_vmrglh),
   (167, done_with ppc_opc_vpkswus),
   (192, done_with ppc_opc_vaddcuw),
   (193, done_with ppc_opc_vmaxsw),
   (194, done_with ppc_opc_vslw),
   (197, done_with (ppc_opc_vexptefp F)),
   (198, done_with ppc_opc_vmrglw),
   (199, done_with ppc_opc_vpkshss),
   (226, ppc_opc_vsl),
   (229, done_with (ppc_opc_vlogefp F)),
   (231, done_with ppc_opc_vpkswss),
   (256, done_with ppc_opc_vaddubs),
   (257, done_with ppc_opc_vminub),
   (258, done_with ppc_opc_vsrb),
   (260, done_with ppc_opc_vmuleub),
   (261, done_with (ppc_opc_vrfin F)),
   (262, done_with ppc_opc_vspltb),
   (263, done_with ppc_opc_vupkhsb),
   (288, done_with ppc_opc_vadduhs),
   (289, done_with ppc_opc_vminuh),
   (290, done_with ppc_opc_vsrh),
   (292, done_with ppc_opc_vmuleuh),
   (293, done_with (ppc_opc_vrfiz F)),
   (294, done_with ppc_opc_vsplth),
   (295, done_with ppc_opc_vupkhsh),
   (320, done_with ppc_opc_vadduws),
   (321, done_with ppc_opc_vminuw),
   (322, done_with ppc_opc_vsrw),
   (325, done_with (ppc_opc_vrfip F)),
   (326, done_with ppc_opc_vspltw),
   (327, done_with ppc_opc_vupklsb),
   (354, ppc_opc_vsr),
   (357, done_with (ppc_opc_vrfim F)),
   (359, done_with ppc_opc_vupklsh),
   (384, done_with ppc_opc_vaddsbs),
   (385, done_with ppc_opc_vminsb),
   (386, done_with ppc_opc_vsrab),
   (388, done_with ppc_opc_vmulesb),
   (389, done_with (ppc_opc_vcfux F)),
   (390, done_with ppc_opc_vspltisb),
   (391, done_with ppc_opc_vpkpx),
   (416, done_with ppc_opc_vaddshs),
   (417, done_with ppc_opc_vminsh),
   (418, done_with ppc_opc_vsrah),
   (420, done_with ppc_opc_vmulesh),
   (421, done_with (ppc_opc_vcfsx F)),
   (422, done_with ppc_opc_vspltish),
   (423, done_with ppc_opc_vupkhpx),
   (448, done_with ppc_opc_vaddsws),
   (449, done_with ppc_opc_vminsw),
   (450, done_with ppc_opc_vsraw),
   (453, done_with (ppc_opc_vctuxs F)),
   (454, done_with ppc_opc_vspltisw),
   (485, done_with (ppc_opc_vctsxs F)),
   (487, done_with ppc_opc_vupklpx),
   (512, done_with ppc_opc_vsububm),
   (513, done_with ppc_opc_vavgub),
   (514, done_with ppc_opc_vand),
   (517, done_with (ppc_opc_vmaxfp F)),
   (518, done_with ppc_opc_vslo),
   (544, done_with ppc_opc_vsubuhm),
   (545, done_with ppc_opc_vavguh),
   (546, done_with ppc_opc_vandc),
   (549, done_with (ppc_opc_vminfp F)),
   (550, done_with ppc_opc_vsro),
   (576, done_with ppc_opc_vsubuwm),
   (577, done_with ppc_opc_vavguw),
   (578, done_with ppc_opc_vor),
   (610, done_with ppc_opc_vxor),
   (641, done_with ppc_opc_vavgsb),
   (642, done_with ppc_opc_vnor),
   (673, done_with ppc_opc_vavgsh),
   (704, done_with ppc_opc_vsubcuw),
   (705, done_with ppc_opc_vavgsw),
   (768, done_with ppc_opc_vsububs),
   (770, done_with ppc_opc_mfvscr),
   (772, done_with ppc_opc_vsum4ubs),
   (800, done_with ppc_opc_vsubuhs),
   (802, done_with ppc_opc_mtvscr),
   (804, done_with ppc_opc_vsum4shs),
   (832, done_with ppc_opc_vsubuws),
   (836, done_with ppc_opc_vsum2sws),
   (896, done_with ppc_opc_vsubsbs),
   (900, done_with ppc_opc_vsum4sbs),
   (928, done_with ppc_opc_vsubshs),
   (960, done_with ppc_opc_vsubsws),
   (964, done_with ppc_opc_vsumsws)]"

definition groupv_compares :: "host_float \<Rightarrow> (nat \<times> opc_function) list" where
  "groupv_compares F = [
   (3, done_with ppc_opc_vcmpequbx),
   (35, done_with ppc_opc_vcmpequhx),
   (67, done_with ppc_opc_vcmpequwx),
   (99, done_with (ppc_opc_vcmpeqfpx F)),
   (227, done_with (ppc_opc_vcmpgefpx F)),
   (259, done_with ppc_opc_vcmpgtubx),
   (291, done_with ppc_opc_vcmpgtuhx),
   (323, done_with ppc_opc_vcmpgtuwx),
   (355, done_with (ppc_opc_vcmpgtfpx F)),
   (387, done_with ppc_opc_vcmpgtsbx),
   (419, done_with ppc_opc_vcmpgtshx),
   (451, done_with ppc_opc_vcmpgtswx),
   (483, done_with (ppc_opc_vcmpbfpx F))]"

definition groupv_four :: "host_float \<Rightarrow> bool \<Rightarrow> nat \<Rightarrow> opc_function option" where
  "groupv_four F rc n =
     (if n = 16 then Some (done_with (if rc then ppc_opc_vmhraddshs else ppc_opc_vmhaddshs))
      else if n = 17 then Some (done_with ppc_opc_vmladduhm)
      else if n = 18 then Some (if rc then ppc_opc_vmsummbm else done_with ppc_opc_vmsumubm)
      else if n = 19 then Some (done_with (if rc then ppc_opc_vmsumuhs else ppc_opc_vmsumuhm))
      else if n = 20 then Some (if rc then done_with ppc_opc_vmsumshs else ppc_opc_vmsumshm)
      else if n = 21 then Some (done_with (if rc then ppc_opc_vperm else ppc_opc_vsel))
      else if n = 22 then Some (done_with ppc_opc_vsldoi)
      else if n = 23 then Some (done_with (if rc then ppc_opc_vnmsubfp F else ppc_opc_vmaddfp F))
      else None)"

definition ppc_opc_group_v :: "host_float \<Rightarrow> uint32 \<Rightarrow> opc_function option" where
  "ppc_opc_group_v F opc =
     (let ext = PPC_OPC_EXT opc in
      case groupv_four F (istrue (opc AND PPC_OPC_Rc)) (unat (ext AND 0x1f)) of
        Some f \<Rightarrow> Some f
      | None \<Rightarrow>
          (case map_of (groupv_compares F) (unat (ext AND 0x1ff)) of
             Some f \<Rightarrow> Some f
           | None \<Rightarrow> if 965 \<le> unat ext then None else map_of (groupv_entries F) (unat ext)))"

end
