(* ===== verification/Ppc_Vec_Run.thy ===== *)
theory Ppc_Vec_Run
  imports Ppc_Dec Ppc_Vec_Dec Ppc_Vec_Mem
begin

text \<open>
  The vector instructions in the tables of ppc_dec.cc: the handlers that \<open>Ppc_Dec\<close> takes as parameters are those of
  ppc_vec.cc and of the vector part of ppc_mmu.cc.
\<close>

fun vec_op_function :: "'io bus128 \<Rightarrow> vec_op \<Rightarrow> 'io mem_function" where
  "vec_op_function Q V_lvsl = ppc_opc_lvsl"
| "vec_op_function Q V_lvebx = ppc_opc_lvebx"
| "vec_op_function Q V_lvsr = ppc_opc_lvsr"
| "vec_op_function Q V_lvehx = ppc_opc_lvehx"
| "vec_op_function Q V_lvewx = ppc_opc_lvewx"
| "vec_op_function Q V_lvx = ppc_opc_lvx Q"
| "vec_op_function Q V_stvebx = ppc_opc_stvebx"
| "vec_op_function Q V_stvehx = ppc_opc_stvehx"
| "vec_op_function Q V_stvewx = ppc_opc_stvewx"
| "vec_op_function Q V_stvx = ppc_opc_stvx Q"
| "vec_op_function Q V_dst = ppc_opc_dst"
| "vec_op_function Q V_lvxl = ppc_opc_lvxl Q"
| "vec_op_function Q V_dstst = ppc_opc_dstst"
| "vec_op_function Q V_stvxl = ppc_opc_stvxl Q"
| "vec_op_function Q V_dss = ppc_opc_dss"

definition run_group_v :: "host_float \<Rightarrow> 'io mem_function \<Rightarrow> 'io mem_function" where
  "run_group_v F invalid B m =
     (case ppc_opc_group_v F (current_opc (mcpu m)) of Some f \<Rightarrow> on_cpu f m | None \<Rightarrow> invalid B m)"

definition with_vectors :: "host_float \<Rightarrow> 'io bus128 \<Rightarrow> 'io handlers \<Rightarrow> 'io handlers" where
  "with_vectors F Q X = X\<lparr>run_vec := vec_op_function Q, run_v := run_group_v F (run_invalid X)\<rparr>"

definition is_stream_hint :: "vec_op \<Rightarrow> bool" where
  "is_stream_hint f \<longleftrightarrow> f \<in> {V_dst, V_dstst, V_dss}"

text \<open>While the vector unit is disabled, every vector instruction of the tables, loads and stores included, takes the
  exception for an unavailable vector unit and does nothing else; only the stream hints pass.\<close>

theorem vector_unit_disabled:
  assumes "msr (mcpu m) AND MSR_VEC = 0"
  shows "execute (with_vectors F Q X) Group_v B m = on_cpu (ppc_exception PPC_EXC_NO_VEC 0 0) m \<and>
    execute (with_vectors F Q X) (Vec_op f) B m =
      (if is_stream_hint f then Inr m else on_cpu (ppc_exception PPC_EXC_NO_VEC 0 0) m)"
  using assms
  by (cases f) (simp_all add: with_vectors_def is_stream_hint_def needs_vec_def ppc_opc_lvsl_def ppc_opc_lvebx_def
    ppc_opc_lvsr_def ppc_opc_lvehx_def ppc_opc_lvewx_def ppc_opc_lvx_def ppc_opc_stvebx_def ppc_opc_stvehx_def
    ppc_opc_stvewx_def ppc_opc_stvx_def ppc_opc_dst_def ppc_opc_lvxl_def ppc_opc_dstst_def ppc_opc_stvxl_def ppc_opc_dss_def)

definition vec_off_mach :: "unit mach" where
  "vec_off_mach = \<lparr>mcpu = (ppc_cpu_init 0)\<lparr>msr := 0\<rparr>, gMemory = (\<lambda>_. 0), gMemorySize = 0x10000, io = ()\<rparr>"

theorem vector_unit_disabled_witness:
  "\<forall>F Q X B. execute (with_vectors F Q X) (Vec_op V_lvx) B vec_off_mach =
     on_cpu (ppc_exception PPC_EXC_NO_VEC 0 0) vec_off_mach"
  using vector_unit_disabled[of vec_off_mach _ _ _ _ V_lvx] by (simp add: vec_off_mach_def is_stream_hint_def)

end
