(* ===== verification/Ppc_Fpu_Base.thy ===== *)
theory Ppc_Fpu_Base
  imports Ppc_Mem_Opc
begin

text \<open>
  ppc_fpu.h: unpacked floating-point numbers, their conversion from and to the words of the registers, rounding, and the
  conversion to integers.  An unpacked number of double precision has its leading bit at bit 55 of the mantissa: 53 bits
  and three more for rounding.  The C functions fill a structure passed by reference; where a branch leaves a member
  as it was, the definition takes the old structure as an argument.  The exponents are small numbers in an \<open>int\<close>.
\<close>

unbundle bit_operations_syntax

datatype ppc_fpr_type = ppc_fpr_norm | ppc_fpr_zero | ppc_fpr_NaN | ppc_fpr_Inf

record ppc_quadro =
  q_type :: ppc_fpr_type
  q_s :: uint32
  q_e :: int
  q_m0 :: uint64
  q_m1 :: uint64

record ppc_double =
  d_type :: ppc_fpr_type
  d_s :: uint32
  d_e :: int
  d_m :: uint64

record ppc_single =
  s_type :: ppc_fpr_type
  s_s :: uint32
  s_e :: int
  s_m :: uint32

subsection \<open>Fields of the words\<close>

definition FPU_SIGN_BIT :: uint64 where "FPU_SIGN_BIT = 0x8000000000000000"

definition FPD_SIGN :: "uint64 \<Rightarrow> uint32" where "FPD_SIGN v = (if v AND FPU_SIGN_BIT \<noteq> 0 then 1 else 0)"
definition FPD_EXP :: "uint64 \<Rightarrow> uint64" where "FPD_EXP v = drop_bit 52 v"
definition FPD_FRAC :: "uint64 \<Rightarrow> uint64" where "FPD_FRAC v = v AND 0x000fffffffffffff"

definition FPS_SIGN :: "uint32 \<Rightarrow> uint32" where "FPS_SIGN v = v AND 0x80000000"
definition FPS_EXP :: "uint32 \<Rightarrow> uint32" where "FPS_EXP v = drop_bit 23 v"
definition FPS_FRAC :: "uint32 \<Rightarrow> uint32" where "FPS_FRAC v = v AND 0x007fffff"

definition FPD_PACK_VAR :: "uint32 \<Rightarrow> int \<Rightarrow> uint64 \<Rightarrow> uint64" where
  "FPD_PACK_VAR s e m =
     (if s \<noteq> 0 then FPU_SIGN_BIT else 0) OR push_bit 52 (word_of_int e AND 0x7ff) OR (m AND 0x000fffffffffffff)"

definition FPS_PACK_VAR :: "uint32 \<Rightarrow> int \<Rightarrow> uint64 \<Rightarrow> uint32" where
  "FPS_PACK_VAR s e m =
     (if s \<noteq> 0 then 0x80000000 else 0) OR push_bit 23 (word_of_int e) OR ucast (m AND 0x7fffff)"

definition FPSCR_RN :: "uint32 \<Rightarrow> uint32" where "FPSCR_RN v = v AND 3"
definition FPSCR_RN_NEAR :: uint32 where "FPSCR_RN_NEAR = 0"
definition FPSCR_RN_ZERO :: uint32 where "FPSCR_RN_ZERO = 1"
definition FPSCR_RN_PINF :: uint32 where "FPSCR_RN_PINF = 2"
definition FPSCR_RN_MINF :: uint32 where "FPSCR_RN_MINF = 3"
definition FPSCR_OX :: uint32 where "FPSCR_OX = push_bit 28 1"
definition FPSCR_UX :: uint32 where "FPSCR_UX = push_bit 27 1"
definition FPSCR_XX :: uint32 where "FPSCR_XX = push_bit 25 1"
definition FPSCR_VXSNAN :: uint32 where "FPSCR_VXSNAN = push_bit 24 1"
definition FPSCR_VXISI :: uint32 where "FPSCR_VXISI = push_bit 23 1"
definition FPSCR_VXIDI :: uint32 where "FPSCR_VXIDI = push_bit 22 1"
definition FPSCR_VXZDZ :: uint32 where "FPSCR_VXZDZ = push_bit 21 1"
definition FPSCR_VXIMZ :: uint32 where "FPSCR_VXIMZ = push_bit 20 1"
definition FPSCR_VXVC :: uint32 where "FPSCR_VXVC = push_bit 19 1"
definition FPSCR_VXSQRT :: uint32 where "FPSCR_VXSQRT = push_bit 9 1"

subsection \<open>Leading zeros\<close>

text \<open>The halving steps that the three copies of the search share.\<close>

definition leading_zero_steps :: "int \<Rightarrow> uint32 \<Rightarrow> int" where
  "leading_zero_steps ret dd =
     (let (ret, dd) = if 0xffff < dd then (ret - 16, drop_bit 16 dd) else (ret, dd);
          (ret, dd) = if 0xff < dd then (ret - 8, drop_bit 8 dd) else (ret, dd);
          (ret, dd) = if istrue (dd AND 0xf0) then (ret - 4, drop_bit 4 dd) else (ret, dd);
          (ret, dd) = if istrue (dd AND 0xc) then (ret - 2, drop_bit 2 dd) else (ret, dd)
      in if istrue (dd AND 0x2) then ret - 1 else ret)"

definition ppc_count_leading_zeros :: "uint64 \<Rightarrow> int" where
  "ppc_count_leading_zeros i =
     (let dd = ucast (drop_bit 32 i) :: uint32
      in if dd \<noteq> 0 then leading_zero_steps 31 dd else leading_zero_steps 63 (ucast i))"

definition ppc_fpu_normalize_quadro :: "ppc_quadro \<Rightarrow> int" where
  "ppc_fpu_normalize_quadro d =
     (if q_m0 d \<noteq> 0 then ppc_count_leading_zeros (q_m0 d) else 64 + ppc_count_leading_zeros (q_m1 d))"

definition ppc_fpu_normalize :: "ppc_double \<Rightarrow> int" where
  "ppc_fpu_normalize d = ppc_count_leading_zeros (d_m d)"

definition ppc_fpu_normalize_single :: "ppc_single \<Rightarrow> int" where
  "ppc_fpu_normalize_single s = leading_zero_steps 31 (s_m s)"

subsection \<open>Unpacking\<close>

definition ppc_fpu_unpack_double :: "uint64 \<Rightarrow> ppc_double" where
  "ppc_fpu_unpack_double d =
     (let s = FPD_SIGN d; e = uint (FPD_EXP d AND 0x7ff); m = FPD_FRAC d
      in if e = 2047 then \<lparr>d_type = if m = 0 then ppc_fpr_Inf else ppc_fpr_NaN, d_s = s, d_e = e, d_m = m\<rparr>
         else if e = 0 then
           (if m = 0 then \<lparr>d_type = ppc_fpr_zero, d_s = s, d_e = e, d_m = m\<rparr>
            else let diff = ppc_count_leading_zeros m - 8
                 in \<lparr>d_type = ppc_fpr_norm, d_s = s, d_e = e - (1023 - 1 + diff), d_m = push_bit (nat (diff + 3)) m\<rparr>)
         else \<lparr>d_type = ppc_fpr_norm, d_s = s, d_e = e - 1023, d_m = push_bit 3 (m OR push_bit 52 1)\<rparr>)"

definition ppc_fpu_unpack_single :: "uint32 \<Rightarrow> ppc_single" where
  "ppc_fpu_unpack_single d =
     (let s = FPS_SIGN d; e = uint (FPS_EXP d AND 0xff); m = FPS_FRAC d
      in if e = 255 then \<lparr>s_type = if m = 0 then ppc_fpr_Inf else ppc_fpr_NaN, s_s = s, s_e = e, s_m = m\<rparr>
         else if e = 0 then
           (if m = 0 then \<lparr>s_type = ppc_fpr_zero, s_s = s, s_e = e, s_m = m\<rparr>
            else let diff = leading_zero_steps 31 m - 8
                 in \<lparr>s_type = ppc_fpr_norm, s_s = s, s_e = e - (127 - 1 + diff), s_m = push_bit (nat (diff + 3)) m\<rparr>)
         else \<lparr>s_type = ppc_fpr_norm, s_s = s, s_e = e - 127, s_m = push_bit 3 (m OR push_bit 23 1)\<rparr>)"

subsection \<open>Rounding\<close>

text \<open>
  The three functions \<open>ppc_fpu_round\<close> and \<open>ppc_fpu_round_single\<close> are one text on mantissas of different types.
  The result is the flag and the new mantissa.
\<close>

definition round_mantissa :: "uint32 \<Rightarrow> uint32 \<Rightarrow> 'a::len word \<Rightarrow> uint32 \<times> 'a word" where
  "round_mantissa fpscr' s m =
     (let rn = FPSCR_RN fpscr' in
      if rn = FPSCR_RN_NEAR then
        (if m AND 7 \<noteq> 0 then
           (FPSCR_XX, if m AND 7 \<noteq> 4 then m + 4 else if m AND 8 \<noteq> 0 then m + 4 else m)
         else (0, m))
      else if rn = FPSCR_RN_ZERO then (if m AND 7 \<noteq> 0 then FPSCR_XX else 0, m)
      else if rn = FPSCR_RN_PINF then (if s = 0 \<and> m AND 7 \<noteq> 0 then (FPSCR_XX, m + 8) else (0, m))
      else (if s \<noteq> 0 \<and> m AND 7 \<noteq> 0 then (FPSCR_XX, m + 8) else (0, m)))"

definition ppc_fpu_round :: "uint32 \<Rightarrow> ppc_double \<Rightarrow> uint32 \<times> ppc_double" where
  "ppc_fpu_round fpscr' d = (let (f, m) = round_mantissa fpscr' (d_s d) (d_m d) in (f, d\<lparr>d_m := m\<rparr>))"

definition ppc_fpu_round_single :: "uint32 \<Rightarrow> ppc_single \<Rightarrow> uint32 \<times> ppc_single" where
  "ppc_fpu_round_single fpscr' d = (let (f, m) = round_mantissa fpscr' (s_s d) (s_m d) in (f, d\<lparr>s_m := m\<rparr>))"

definition ppc_fpu_round_double_single :: "uint32 \<Rightarrow> ppc_double \<Rightarrow> uint32 \<times> ppc_double" where
  "ppc_fpu_round_double_single fpscr' d = (let (f, m) = round_mantissa fpscr' (d_s d) (d_m d) in (f, d\<lparr>d_m := m\<rparr>))"

subsection \<open>Packing\<close>

definition ppc_fpu_pack_double :: "uint32 \<Rightarrow> ppc_double \<Rightarrow> uint32 \<times> uint64" where
  "ppc_fpu_pack_double fpscr' d =
     (case d_type d of
        ppc_fpr_norm \<Rightarrow>
          (let e = d_e d + 1023
           in if 0 < e then
                let (ret, d) = ppc_fpu_round fpscr' d;
                    (e, m) = if d_m d AND push_bit 56 1 \<noteq> 0 then (e + 1, drop_bit 4 (d_m d)) else (e, drop_bit 3 (d_m d))
                in if 2047 \<le> e then (ret OR FPSCR_OX, FPD_PACK_VAR (d_s d) 2047 0)
                   else (ret, FPD_PACK_VAR (d_s d) e m)
              else
                let e = - e + 1
                in if e \<le> 56 then
                     let (ret, d) = ppc_fpu_round fpscr' (d\<lparr>d_m := drop_bit (nat e) (d_m d)\<rparr>);
                         m = push_bit 1 (d_m d)
                     in if m AND push_bit 56 1 \<noteq> 0 then (ret, FPD_PACK_VAR (d_s d) 1 0)
                        else (ret OR FPSCR_UX, FPD_PACK_VAR (d_s d) 0 (drop_bit 4 m))
                   else (FPSCR_UX, FPD_PACK_VAR (d_s d) 0 0))
      | ppc_fpr_zero \<Rightarrow> (0, FPD_PACK_VAR (d_s d) 0 0)
      | ppc_fpr_NaN \<Rightarrow> (0, FPD_PACK_VAR (d_s d) 2047 1)
      | ppc_fpr_Inf \<Rightarrow> (0, FPD_PACK_VAR (d_s d) 2047 0))"

definition ppc_fpu_pack_single :: "uint32 \<Rightarrow> ppc_double \<Rightarrow> uint32 \<times> uint32" where
  "ppc_fpu_pack_single fpscr' d =
     (case d_type d of
        ppc_fpr_norm \<Rightarrow>
          (let e = d_e d + 127; d = d\<lparr>d_m := drop_bit 29 (d_m d)\<rparr>
           in if 0 < e then
                let (ret, d) = ppc_fpu_round_double_single fpscr' d;
                    (e, m) = if d_m d AND push_bit 27 1 \<noteq> 0 then (e + 1, drop_bit 4 (d_m d)) else (e, drop_bit 3 (d_m d))
                in if 255 \<le> e then (ret OR FPSCR_OX, FPS_PACK_VAR (d_s d) 255 0)
                   else (ret, FPS_PACK_VAR (d_s d) e m)
              else
                let e = - e + 1
                in if e \<le> 27 then
                     let (ret, d) = ppc_fpu_round_double_single fpscr' (d\<lparr>d_m := drop_bit (nat e) (d_m d)\<rparr>);
                         m = push_bit 1 (d_m d)
                     in if m AND push_bit 27 1 \<noteq> 0 then (ret, FPS_PACK_VAR (d_s d) 1 0)
                        else (ret OR FPSCR_UX, FPS_PACK_VAR (d_s d) 0 (drop_bit 4 m))
                   else (FPSCR_UX, FPS_PACK_VAR (d_s d) 0 0))
      | ppc_fpr_zero \<Rightarrow> (0, FPS_PACK_VAR (d_s d) 0 0)
      | ppc_fpr_NaN \<Rightarrow> (0, FPS_PACK_VAR (d_s d) 255 1)
      | ppc_fpr_Inf \<Rightarrow> (0, FPS_PACK_VAR (d_s d) 255 0))"

definition ppc_fpu_single_to_double :: "ppc_single \<Rightarrow> ppc_double" where
  "ppc_fpu_single_to_double s = \<lparr>d_type = s_type s, d_s = s_s s, d_e = s_e s, d_m = push_bit 29 (ucast (s_m s))\<rparr>"

text \<open>
  The number rounded to single precision, in the format of double precision.  \<open>round_to_single\<close> is the switch over the
  type: the flags, the single and the exponent of \<open>d\<close> after it.
\<close>

definition round_to_single :: "uint32 \<Rightarrow> ppc_double \<Rightarrow> uint32 \<times> ppc_single \<times> int" where
  "round_to_single fpscr' d =
     (let s = \<lparr>s_type = d_type d, s_s = d_s d, s_e = d_e d, s_m = ucast (drop_bit 29 (d_m d))\<rparr>
      in case s_type s of
        ppc_fpr_norm \<Rightarrow>
          (let e = d_e d + 127
           in if 0 < e then
                let (ret, s) = ppc_fpu_round_single fpscr' s;
                    (e, m) = if s_m s AND push_bit 27 1 \<noteq> 0 then (e + 1, drop_bit 4 (s_m s)) else (e, drop_bit 3 (s_m s));
                    (ret, s) = if 255 \<le> e then (ret OR FPSCR_OX, s\<lparr>s_type := ppc_fpr_Inf, s_e := 255, s_m := 0\<rparr>)
                               else (ret, s\<lparr>s_e := e, s_m := m\<rparr>)
                in (ret, s, s_e s - 127)
              else
                let e = - e + 1
                in if e \<le> 27 then
                     let (ret, s) = ppc_fpu_round_single fpscr' (s\<lparr>s_m := drop_bit (nat e) (s_m s)\<rparr>);
                         m = push_bit 1 (s_m s)
                     in if m AND push_bit 27 1 \<noteq> 0 then (ret, s\<lparr>s_e := 1, s_m := 0\<rparr>, d_e d)
                        else (ret OR FPSCR_UX, s\<lparr>s_e := 0, s_m := drop_bit 4 m\<rparr>, d_e d)
                   else (FPSCR_UX, s\<lparr>s_type := ppc_fpr_zero, s_e := 0, s_m := 0\<rparr>, d_e d))
      | ppc_fpr_zero \<Rightarrow> (0, s\<lparr>s_e := 0, s_m := 0\<rparr>, d_e d)
      | ppc_fpr_NaN \<Rightarrow> (0, s\<lparr>s_e := 2047, s_m := 1\<rparr>, d_e d)
      | ppc_fpr_Inf \<Rightarrow> (0, s\<lparr>s_e := 2047, s_m := 0\<rparr>, d_e d))"

definition ppc_fpu_pack_double_as_single :: "uint32 \<Rightarrow> ppc_double \<Rightarrow> uint32 \<times> uint64" where
  "ppc_fpu_pack_double_as_single fpscr' d =
     (let (ret, s, e) = round_to_single fpscr' d;
          m = if s_type s = ppc_fpr_norm then push_bit 32 (ucast (s_m s)) else ucast (s_m s);
          (ret', res) = ppc_fpu_pack_double fpscr' (d\<lparr>d_e := e, d_m := m\<rparr>)
      in (ret OR ret', res))"

subsection \<open>Conversion to integers\<close>

text \<open>For an exponent of at least 31 and for numbers that are not finite the result is the end of the range on the side
  of the sign.\<close>

definition out_of_range :: "ppc_double \<Rightarrow> uint32" where
  "out_of_range d = (if d_s d \<noteq> 0 then 0x80000000 else 0x7fffffff)"

definition ppc_fpu_double_to_int :: "uint32 \<Rightarrow> ppc_double \<Rightarrow> uint32" where
  "ppc_fpu_double_to_int fpscr' d =
     (let rn = FPSCR_RN fpscr'; s = (d_s d \<noteq> 0)
      in case d_type d of
        ppc_fpr_norm \<Rightarrow>
          (if d_e d < 0 then
             (if rn = FPSCR_RN_NEAR then (if d_e d < - 1 then 0 else if s then - 1 else 1)
              else if rn = FPSCR_RN_ZERO then 0
              else if rn = FPSCR_RN_PINF then (if s then 0 else 1)
              else (if s then - 1 else 0))
           else if 31 \<le> d_e d then out_of_range d
           else
             let k = nat (56 - d_e d - 1);
                 mask' = push_bit k 1 - 1;
                 rest = (d_m d AND mask' \<noteq> 0);
                 i = (if rn = FPSCR_RN_NEAR then (if rest \<and> d_m d AND push_bit (k - 1) 1 \<noteq> 0 then 1 else 0)
                      else if rn = FPSCR_RN_ZERO then 0
                      else if rn = FPSCR_RN_PINF then (if \<not> s \<and> rest then 1 else 0)
                      else (if s \<and> rest then 1 else 0));
                 m = drop_bit k (d_m d) + i
             in ucast (if s then - m else m))
      | ppc_fpr_zero \<Rightarrow> 0
      | _ \<Rightarrow> out_of_range d)"

end
