(* ===== verification/Ppc_Fpu.thy ===== *)
theory Ppc_Fpu
  imports Ppc_Fpu_Base
begin

text \<open>
  The arithmetic of ppc_fpu.cc on unpacked numbers.  The first argument \<open>res\<close> of an operation is the result structure as
  it was: some branches set a few of its members only.  The shifts by a computed count are undefined in C++ outside
  the width of the word; they return a sum.
\<close>

unbundle bit_operations_syntax

definition shift_ok :: "int \<Rightarrow> 'a \<Rightarrow> cpu_error + 'a" where
  "shift_ok n x = (if 0 \<le> n \<and> n < 64 then Inr x else Inl (Host_Undefined Shift_Count))"

subsection \<open>Addition\<close>

text \<open>The mantissa of the smaller operand, moved to the exponent of the other.\<close>

definition align :: "int \<Rightarrow> uint64 \<Rightarrow> uint64" where
  "align diff m = (if diff \<le> 56 then drop_bit (nat diff) m else if m \<noteq> 0 then 1 else 0)"

definition add_norm :: "uint32 \<Rightarrow> ppc_double \<Rightarrow> ppc_double \<Rightarrow> ppc_double \<Rightarrow> cpu_error + ppc_double" where
  "add_norm fpscr' res a b =
     (let diff = d_e a - d_e b;
          (a, b, res) = if diff < 0 then (a\<lparr>d_m := align (- diff) (d_m a)\<rparr>, b, res\<lparr>d_e := d_e b\<rparr>)
                        else (a, b\<lparr>d_m := align diff (d_m b)\<rparr>, res\<lparr>d_e := d_e a\<rparr>);
          res = res\<lparr>d_type := ppc_fpr_norm\<rparr>
      in if d_s a = d_s b then
           let res = res\<lparr>d_s := d_s a, d_m := d_m a + d_m b\<rparr>
           in Inr (if d_m res AND push_bit 56 1 \<noteq> 0 then res\<lparr>d_m := drop_bit 1 (d_m res), d_e := d_e res + 1\<rparr> else res)
         else
           let res = res\<lparr>d_s := d_s a, d_m := d_m a - d_m b\<rparr>
           in if d_m res = 0 then
                Inr (res\<lparr>d_s := if FPSCR_RN fpscr' = FPSCR_RN_MINF then d_s res OR d_s b else d_s res AND d_s b,
                         d_type := ppc_fpr_zero\<rparr>)
              else
                let res = if sint (d_m res) < 0 then res\<lparr>d_m := d_m b - d_m a, d_s := d_s b\<rparr> else res;
                    diff = ppc_fpu_normalize res - 8
                in shift_ok diff (res\<lparr>d_e := d_e res - diff, d_m := push_bit (nat diff) (d_m res)\<rparr>))"

fun ppc_fpu_add_types ::
  "uint32 \<Rightarrow> ppc_double \<Rightarrow> ppc_double \<Rightarrow> ppc_double \<Rightarrow> ppc_fpr_type \<Rightarrow> ppc_fpr_type \<Rightarrow> cpu_error + ppc_double" where
  "ppc_fpu_add_types fp res a b ppc_fpr_norm ppc_fpr_norm = add_norm fp res a b"
| "ppc_fpu_add_types fp res a b ppc_fpr_NaN ppc_fpr_NaN = Inr (res\<lparr>d_s := d_s a, d_type := ppc_fpr_NaN\<rparr>)"
| "ppc_fpu_add_types fp res a b ppc_fpr_norm ppc_fpr_zero =
     Inr (res\<lparr>d_e := d_e a, d_s := d_s a, d_m := d_m a, d_type := d_type a\<rparr>)"
| "ppc_fpu_add_types fp res a b ppc_fpr_NaN _ = Inr (res\<lparr>d_s := d_s a, d_m := d_m a, d_type := d_type a\<rparr>)"
| "ppc_fpu_add_types fp res a b ppc_fpr_zero ppc_fpr_norm =
     Inr (res\<lparr>d_e := d_e b, d_s := d_s b, d_m := d_m b, d_type := d_type b\<rparr>)"
| "ppc_fpu_add_types fp res a b _ ppc_fpr_NaN = Inr (res\<lparr>d_s := d_s b, d_m := d_m b, d_type := d_type b\<rparr>)"
| "ppc_fpu_add_types fp res a b ppc_fpr_Inf ppc_fpr_Inf =
     Inr (if d_s a \<noteq> d_s b then res\<lparr>d_s := d_s a XOR d_s b, d_type := ppc_fpr_NaN\<rparr>
          else res\<lparr>d_s := d_s a, d_type := d_type a\<rparr>)"
| "ppc_fpu_add_types fp res a b ppc_fpr_Inf _ = Inr (res\<lparr>d_s := d_s a, d_type := d_type a\<rparr>)"
| "ppc_fpu_add_types fp res a b _ ppc_fpr_Inf = Inr (res\<lparr>d_s := d_s b, d_type := d_type b\<rparr>)"
| "ppc_fpu_add_types fp res a b ppc_fpr_zero ppc_fpr_zero =
     Inr (res\<lparr>d_type := ppc_fpr_zero, d_s := if d_s a \<noteq> 0 \<and> d_s b \<noteq> 0 then 1 else 0\<rparr>)"

definition ppc_fpu_add :: "uint32 \<Rightarrow> ppc_double \<Rightarrow> ppc_double \<Rightarrow> ppc_double \<Rightarrow> cpu_error + ppc_double" where
  "ppc_fpu_add fp res a b = ppc_fpu_add_types fp res a b (d_type a) (d_type b)"

subsection \<open>Double words\<close>

text \<open>A shift by zero, or by 64, moves a word by 64 - 0.\<close>

definition quadro_count :: "int \<Rightarrow> (nat \<Rightarrow> 'a) \<Rightarrow> cpu_error + 'a" where
  "quadro_count n f = (if 0 < n \<and> n < 64 then Inr (f (nat n)) else Inl (Host_Undefined Shift_Count))"

definition ppc_fpu_quadro_mshr :: "ppc_quadro \<Rightarrow> int \<Rightarrow> cpu_error + ppc_quadro" where
  "ppc_fpu_quadro_mshr q exp =
     (let (q, exp) = if 64 \<le> exp then (q\<lparr>q_m1 := q_m0 q, q_m0 := 0\<rparr>, exp - 64) else (q, exp)
      in quadro_count exp (\<lambda>n.
           let t = q_m0 q AND (push_bit n 1 - 1)
           in q\<lparr>q_m0 := drop_bit n (q_m0 q), q_m1 := drop_bit n (q_m1 q) OR push_bit (64 - n) t\<rparr>))"

definition ppc_fpu_quadro_mshl :: "ppc_quadro \<Rightarrow> int \<Rightarrow> cpu_error + ppc_quadro" where
  "ppc_fpu_quadro_mshl q exp =
     (let (q, exp) = if 64 \<le> exp then (q\<lparr>q_m0 := q_m1 q, q_m1 := 0\<rparr>, exp - 64) else (q, exp)
      in quadro_count exp (\<lambda>n.
           let t = drop_bit (64 - n) (q_m1 q) AND (push_bit n 1 - 1)
           in q\<lparr>q_m0 := push_bit n (q_m0 q) OR t, q_m1 := push_bit n (q_m1 q)\<rparr>))"

definition ppc_fpu_add_quadro_m :: "ppc_quadro \<Rightarrow> ppc_quadro \<Rightarrow> ppc_quadro \<Rightarrow> ppc_quadro" where
  "ppc_fpu_add_quadro_m res a b =
     (let m1 = q_m1 a + q_m1 b
      in res\<lparr>q_m1 := m1, q_m0 := if m1 < q_m1 a then q_m0 a + q_m0 b + 1 else q_m0 a + q_m0 b\<rparr>)"

definition ppc_fpu_sub_quadro_m :: "ppc_quadro \<Rightarrow> ppc_quadro \<Rightarrow> ppc_quadro \<Rightarrow> ppc_quadro" where
  "ppc_fpu_sub_quadro_m res a b =
     res\<lparr>q_m1 := q_m1 a - q_m1 b,
         q_m0 := if q_m1 a < q_m1 b then q_m0 a - q_m0 b - 1 else q_m0 a - q_m0 b\<rparr>"

definition quadro_align :: "int \<Rightarrow> ppc_quadro \<Rightarrow> cpu_error + ppc_quadro" where
  "quadro_align diff q =
     (if diff \<le> 107 then ppc_fpu_quadro_mshr q diff
      else Inr (q\<lparr>q_m0 := 0, q_m1 := if q_m0 q \<noteq> 0 \<or> q_m1 q \<noteq> 0 then 1 else 0\<rparr>))"

definition add_quadro_norm :: "uint32 \<Rightarrow> ppc_quadro \<Rightarrow> ppc_quadro \<Rightarrow> ppc_quadro \<Rightarrow> cpu_error + ppc_quadro" where
  "add_quadro_norm fpscr' res a b =
     (let diff = q_e a - q_e b in
      and_then (if diff < 0 then and_then (quadro_align (- diff) a) (\<lambda>a. Inr (a, b, res\<lparr>q_e := q_e b\<rparr>))
                else and_then (quadro_align diff b) (\<lambda>b. Inr (a, b, res\<lparr>q_e := q_e a\<rparr>)))
        (\<lambda>(a, b, res).
          let res = res\<lparr>q_type := ppc_fpr_norm, q_s := q_s a\<rparr>
          in if q_s a = q_s b then
               let res = ppc_fpu_add_quadro_m res a b; X_prime = q_m1 res AND 1
               in and_then (if q_m0 res AND push_bit (107 - 64) 1 \<noteq> 0
                            then and_then (ppc_fpu_quadro_mshr res 1) (\<lambda>res. Inr (res\<lparr>q_e := q_e res + 1\<rparr>)) else Inr res)
                    (\<lambda>res. Inr (res\<lparr>q_m1 := (q_m1 res AND 0xfffffffffffffffe) OR X_prime\<rparr>))
             else if q_m0 a = q_m0 b \<and> q_m1 a = q_m1 b then
               Inr (res\<lparr>q_s := if FPSCR_RN fpscr' = FPSCR_RN_MINF then q_s res OR q_s b else q_s res AND q_s b,
                        q_type := ppc_fpr_zero\<rparr>)
             else
               let res = if q_m0 a < q_m0 b \<or> q_m0 a = q_m0 b \<and> q_m1 a < q_m1 b
                         then (ppc_fpu_sub_quadro_m res b a)\<lparr>q_s := q_s b\<rparr> else ppc_fpu_sub_quadro_m res a b;
                   diff = ppc_fpu_normalize_quadro res - (128 - 107);
                   X_prime = q_m1 res AND 1
               in and_then (ppc_fpu_quadro_mshl (res\<lparr>q_m1 := q_m1 res AND 0xfffffffffffffffe\<rparr>) diff)
                    (\<lambda>res. Inr (res\<lparr>q_e := q_e res - diff, q_m1 := q_m1 res OR X_prime\<rparr>))))"

fun add_quadro_types ::
  "uint32 \<Rightarrow> ppc_quadro \<Rightarrow> ppc_quadro \<Rightarrow> ppc_quadro \<Rightarrow> ppc_fpr_type \<Rightarrow> ppc_fpr_type \<Rightarrow> cpu_error + ppc_quadro" where
  "add_quadro_types fp res a b ppc_fpr_norm ppc_fpr_norm = add_quadro_norm fp res a b"
| "add_quadro_types fp res a b ppc_fpr_NaN ppc_fpr_NaN = Inr (res\<lparr>q_s := q_s a, q_type := ppc_fpr_NaN\<rparr>)"
| "add_quadro_types fp res a b ppc_fpr_norm ppc_fpr_zero = Inr a"
| "add_quadro_types fp res a b ppc_fpr_NaN _ = Inr a"
| "add_quadro_types fp res a b ppc_fpr_zero ppc_fpr_norm = Inr b"
| "add_quadro_types fp res a b _ ppc_fpr_NaN = Inr b"
| "add_quadro_types fp res a b ppc_fpr_Inf ppc_fpr_Inf =
     Inr (if q_s a \<noteq> q_s b then res\<lparr>q_s := q_s a XOR q_s b, q_type := ppc_fpr_NaN\<rparr>
          else res\<lparr>q_s := q_s a, q_type := q_type a\<rparr>)"
| "add_quadro_types fp res a b ppc_fpr_Inf _ = Inr (res\<lparr>q_s := q_s a, q_type := q_type a\<rparr>)"
| "add_quadro_types fp res a b _ ppc_fpr_Inf = Inr (res\<lparr>q_s := q_s b, q_type := q_type b\<rparr>)"
| "add_quadro_types fp res a b ppc_fpr_zero ppc_fpr_zero =
     Inr (res\<lparr>q_type := ppc_fpr_zero, q_s := if q_s a \<noteq> 0 \<and> q_s b \<noteq> 0 then 1 else 0\<rparr>)"

definition ppc_fpu_add_quadro :: "uint32 \<Rightarrow> ppc_quadro \<Rightarrow> ppc_quadro \<Rightarrow> ppc_quadro \<Rightarrow> cpu_error + ppc_quadro" where
  "ppc_fpu_add_quadro fp res a b =
     and_then (if q_type a = ppc_fpr_norm then ppc_fpu_quadro_mshl a 1 else Inr a) (\<lambda>a.
     and_then (if q_type b = ppc_fpr_norm then ppc_fpu_quadro_mshl b 1 else Inr b) (\<lambda>b.
       add_quadro_types fp res a b (q_type a) (q_type b)))"

subsection \<open>Multiplication\<close>

text \<open>The 128 bits of the product of two mantissas, from four products of halves.\<close>

definition ppc_fpu_add_uint64_carry :: "uint64 \<Rightarrow> uint64 \<Rightarrow> uint64 \<times> uint64" where
  "ppc_fpu_add_uint64_carry a b = (a + b, if a + b < a then 1 else 0)"

definition mul_parts :: "uint64 \<Rightarrow> uint64 \<Rightarrow> uint64 \<times> uint64" where
  "mul_parts am bm =
     (let fL = (am AND 0xffffffff) * (bm AND 0xffffffff);
          fM1 = drop_bit 32 am * (bm AND 0xffffffff);
          fM2 = (am AND 0xffffffff) * drop_bit 32 bm;
          fH = drop_bit 32 am * drop_bit 32 bm;
          split' = fM1 + fM2;
          (rL, carry) = ppc_fpu_add_uint64_carry fL (push_bit 32 (split' AND 0xffffffff));
          rH = fH + carry + drop_bit 32 split'
      in (rH, rL))"

definition mul_norm :: "ppc_double \<Rightarrow> ppc_double \<Rightarrow> ppc_double \<Rightarrow> ppc_double" where
  "mul_norm res a b =
     (let (rH, rL) = mul_parts (d_m a) (d_m b);
          m = push_bit 9 rH OR drop_bit (64 - 9) rL;
          e = d_e a + d_e b;
          (m, e) = if m AND push_bit 57 1 \<noteq> 0 then (drop_bit 2 m, e + 2)
                   else if m AND push_bit 56 1 \<noteq> 0 then (drop_bit 1 m, e + 1) else (m, e)
      in res\<lparr>d_type := ppc_fpr_norm, d_e := e, d_m := m\<rparr>)"

fun ppc_fpu_mul_types ::
  "ppc_double \<Rightarrow> ppc_double \<Rightarrow> ppc_double \<Rightarrow> ppc_fpr_type \<Rightarrow> ppc_fpr_type \<Rightarrow> ppc_double" where
  "ppc_fpu_mul_types res a b ppc_fpr_norm ppc_fpr_norm = mul_norm res a b"
| "ppc_fpu_mul_types res a b ppc_fpr_NaN ppc_fpr_NaN = res\<lparr>d_type := d_type a, d_e := d_e a\<rparr>"
| "ppc_fpu_mul_types res a b ppc_fpr_NaN _ = res\<lparr>d_s := d_s a, d_type := d_type a\<rparr>"
| "ppc_fpu_mul_types res a b _ ppc_fpr_NaN = res\<lparr>d_s := d_s b, d_type := d_type b\<rparr>"
| "ppc_fpu_mul_types res a b ppc_fpr_Inf ppc_fpr_zero = res\<lparr>d_type := ppc_fpr_NaN\<rparr>"
| "ppc_fpu_mul_types res a b ppc_fpr_zero ppc_fpr_Inf = res\<lparr>d_type := ppc_fpr_NaN\<rparr>"
| "ppc_fpu_mul_types res a b ppc_fpr_norm _ = res\<lparr>d_type := d_type b\<rparr>"
| "ppc_fpu_mul_types res a b _ _ = res\<lparr>d_type := d_type a\<rparr>"

definition ppc_fpu_mul :: "ppc_double \<Rightarrow> ppc_double \<Rightarrow> ppc_double \<Rightarrow> ppc_double" where
  "ppc_fpu_mul res a b = ppc_fpu_mul_types (res\<lparr>d_s := d_s a XOR d_s b\<rparr>) a b (d_type a) (d_type b)"

definition mul_quadro_norm :: "ppc_quadro \<Rightarrow> ppc_double \<Rightarrow> ppc_double \<Rightarrow> int \<Rightarrow> cpu_error + ppc_quadro" where
  "mul_quadro_norm res a b prec =
     (let (rH, rL) = mul_parts (d_m a) (d_m b);
          res = res\<lparr>q_type := ppc_fpr_norm, q_e := d_e a + d_e b, q_m0 := rH, q_m1 := rL\<rparr>
      in if rH AND push_bit 48 1 \<noteq> 0 then
           and_then (ppc_fpu_quadro_mshr res (2 + (111 - prec))) (\<lambda>res. Inr (res\<lparr>q_e := q_e res + 2\<rparr>))
         else if rH AND push_bit 47 1 \<noteq> 0 then
           and_then (ppc_fpu_quadro_mshr res (1 + (111 - prec))) (\<lambda>res. Inr (res\<lparr>q_e := q_e res + 1\<rparr>))
         else ppc_fpu_quadro_mshr res (111 - prec))"

fun mul_quadro_types ::
  "ppc_quadro \<Rightarrow> ppc_double \<Rightarrow> ppc_double \<Rightarrow> int \<Rightarrow> ppc_fpr_type \<Rightarrow> ppc_fpr_type \<Rightarrow> cpu_error + ppc_quadro" where
  "mul_quadro_types res a b prec ppc_fpr_norm ppc_fpr_norm = mul_quadro_norm res a b prec"
| "mul_quadro_types res a b prec ppc_fpr_NaN ppc_fpr_NaN = Inr (res\<lparr>q_type := d_type a, q_e := d_e a\<rparr>)"
| "mul_quadro_types res a b prec ppc_fpr_NaN _ = Inr (res\<lparr>q_s := d_s a, q_type := d_type a\<rparr>)"
| "mul_quadro_types res a b prec _ ppc_fpr_NaN = Inr (res\<lparr>q_s := d_s b, q_type := d_type b\<rparr>)"
| "mul_quadro_types res a b prec ppc_fpr_Inf ppc_fpr_zero = Inr (res\<lparr>q_type := ppc_fpr_NaN\<rparr>)"
| "mul_quadro_types res a b prec ppc_fpr_zero ppc_fpr_Inf = Inr (res\<lparr>q_type := ppc_fpr_NaN\<rparr>)"
| "mul_quadro_types res a b prec ppc_fpr_norm _ = Inr (res\<lparr>q_type := d_type b\<rparr>)"
| "mul_quadro_types res a b prec _ _ = Inr (res\<lparr>q_type := d_type a\<rparr>)"

definition ppc_fpu_mul_quadro :: "ppc_quadro \<Rightarrow> ppc_double \<Rightarrow> ppc_double \<Rightarrow> int \<Rightarrow> cpu_error + ppc_quadro" where
  "ppc_fpu_mul_quadro res a b prec =
     mul_quadro_types (res\<lparr>q_s := d_s a XOR d_s b\<rparr>) a b prec (d_type a) (d_type b)"

text \<open>The two local quad numbers \<open>p\<close> and \<open>x\<close> start with what is on the stack, here \<open>p0\<close> and \<open>x0\<close>.\<close>

definition ppc_fpu_mul_add ::
  "uint32 \<Rightarrow> ppc_quadro \<Rightarrow> ppc_quadro \<Rightarrow> ppc_double \<Rightarrow> ppc_double \<Rightarrow> ppc_double \<Rightarrow> ppc_double \<Rightarrow> cpu_error + ppc_double" where
  "ppc_fpu_mul_add fp p0 x0 res m1 m2 s =
     and_then (ppc_fpu_mul_quadro p0 m1 m2 106) (\<lambda>p.
     and_then (ppc_fpu_quadro_mshl \<lparr>q_type = d_type s, q_s = d_s s, q_e = d_e s, q_m0 = 0, q_m1 = d_m s\<rparr> (106 - 56)) (\<lambda>q.
     and_then (ppc_fpu_add_quadro fp x0 p q) (\<lambda>x.
       Inr (res\<lparr>d_type := q_type x, d_s := q_s x, d_e := q_e x,
                d_m := if q_type x = ppc_fpr_norm
                       then push_bit 13 (q_m0 x) OR push_bit 1 (drop_bit (64 - 12) (q_m1 x)) OR (q_m1 x AND 1)
                       else d_m res\<rparr>))))"

subsection \<open>Division\<close>

text \<open>At most \<open>n\<close> more digits of the quotient; the result is what remains of the dividend, the digits, and the number of
  steps the loop did not take.\<close>

fun div_loop :: "nat \<Rightarrow> uint64 \<Rightarrow> uint64 \<Rightarrow> uint64 \<Rightarrow> uint64 \<times> uint64 \<times> nat" where
  "div_loop 0 am bm rm = (am, rm, 0)"
| "div_loop (Suc n) am bm rm =
     (if am = 0 then (am, rm, Suc n)
      else let rm = push_bit 1 rm;
               (rm, am) = if bm \<le> am then (rm OR 1, am - bm) else (rm, am)
           in div_loop n (push_bit 1 am) bm rm)"

definition div_norm :: "ppc_double \<Rightarrow> ppc_double \<Rightarrow> ppc_double \<Rightarrow> ppc_double" where
  "div_norm res a b =
     (let (am, m, left) = div_loop 56 (d_m a) (d_m b) 0;
          m = push_bit (left + 1) m;
          (m, e) = if m AND push_bit 56 1 \<noteq> 0 then (drop_bit 1 m, d_e a - d_e b) else (m, d_e a - d_e b - 1)
      in res\<lparr>d_type := ppc_fpr_norm, d_e := e, d_m := if am \<noteq> 0 then m OR 1 else m\<rparr>)"

fun ppc_fpu_div_types ::
  "ppc_double \<Rightarrow> ppc_double \<Rightarrow> ppc_double \<Rightarrow> ppc_fpr_type \<Rightarrow> ppc_fpr_type \<Rightarrow> ppc_double" where
  "ppc_fpu_div_types res a b ppc_fpr_norm ppc_fpr_norm = div_norm res a b"
| "ppc_fpu_div_types res a b ppc_fpr_NaN ppc_fpr_NaN = res\<lparr>d_e := d_e a, d_s := d_s a, d_type := d_type a\<rparr>"
| "ppc_fpu_div_types res a b ppc_fpr_NaN _ = res\<lparr>d_s := d_s a, d_type := d_type a\<rparr>"
| "ppc_fpu_div_types res a b _ ppc_fpr_NaN = res\<lparr>d_s := d_s b, d_type := d_type b\<rparr>"
| "ppc_fpu_div_types res a b _ ppc_fpr_norm = res\<lparr>d_type := d_type a\<rparr>"
| "ppc_fpu_div_types res a b ppc_fpr_norm ppc_fpr_Inf = res\<lparr>d_type := ppc_fpr_zero\<rparr>"
| "ppc_fpu_div_types res a b ppc_fpr_norm ppc_fpr_zero = res\<lparr>d_type := ppc_fpr_Inf\<rparr>"
| "ppc_fpu_div_types res a b _ _ = res\<lparr>d_type := ppc_fpr_NaN\<rparr>"

definition ppc_fpu_div :: "ppc_double \<Rightarrow> ppc_double \<Rightarrow> ppc_double \<Rightarrow> ppc_double" where
  "ppc_fpu_div res a b = ppc_fpu_div_types (res\<lparr>d_s := d_s a XOR d_s b\<rparr>) a b (d_type a) (d_type b)"

subsection \<open>Square root\<close>

text \<open>Six steps of Newton's iteration; \<open>junk\<close> is the quotient's structure before it is set.\<close>

primrec sqrt_loop :: "nat \<Rightarrow> uint32 \<Rightarrow> ppc_double \<Rightarrow> ppc_double \<Rightarrow> ppc_double \<Rightarrow> cpu_error + ppc_double" where
  "sqrt_loop 0 fp junk B D = Inr D"
| "sqrt_loop (Suc n) fp junk B D =
     and_then (ppc_fpu_add fp D D (ppc_fpu_div junk B D)) (\<lambda>D. sqrt_loop n fp junk B (D\<lparr>d_e := d_e D - 1\<rparr>))"

definition ppc_fpu_sqrt :: "uint32 \<Rightarrow> ppc_double \<Rightarrow> ppc_double \<Rightarrow> ppc_double \<Rightarrow> cpu_error + uint32 \<times> ppc_double" where
  "ppc_fpu_sqrt fp junk D B =
     (case d_type B of
        ppc_fpr_norm \<Rightarrow>
          (if d_s B \<noteq> 0 then Inr (fp OR FPSCR_VXSQRT, D\<lparr>d_type := ppc_fpr_NaN\<rparr>)
           else and_then (sqrt_loop 6 fp junk B (B\<lparr>d_e := (if d_e B < 0 then - (- d_e B div 2) else d_e B div 2)\<rparr>))
                  (\<lambda>D. Inr (fp, D)))
      | ppc_fpr_zero \<Rightarrow> Inr (fp, D\<lparr>d_type := ppc_fpr_zero, d_s := d_s B\<rparr>)
      | ppc_fpr_Inf \<Rightarrow>
          (if d_s B \<noteq> 0 then Inr (fp OR FPSCR_VXSQRT, D\<lparr>d_type := ppc_fpr_NaN\<rparr>)
           else Inr (fp, D\<lparr>d_type := ppc_fpr_Inf, d_s := 0\<rparr>))
      | ppc_fpr_NaN \<Rightarrow> Inr (fp, D\<lparr>d_type := ppc_fpr_NaN\<rparr>))"

subsection \<open>Comparison\<close>

definition ppc_fpu_compare :: "ppc_double \<Rightarrow> ppc_double \<Rightarrow> uint32" where
  "ppc_fpu_compare a b =
     (if d_type a = ppc_fpr_zero then
        (if d_type b = ppc_fpr_zero then 2 else if d_s b \<noteq> 0 then 4 else 8)
      else if d_type b = ppc_fpr_zero then (if d_s a \<noteq> 0 then 8 else 4)
      else if d_s a \<noteq> d_s b then (if d_s a \<noteq> 0 then 8 else 4)
      else if d_e b < d_e a then (if d_s a \<noteq> 0 then 8 else 4)
      else if d_e a < d_e b then (if d_s a \<noteq> 0 then 4 else 8)
      else if d_m b < d_m a then (if d_s a \<noteq> 0 then 8 else 4)
      else if d_m a < d_m b then (if d_s a \<noteq> 0 then 4 else 8)
      else 2)"

end
