(* ===== verification/Ppc_Fpu_Opc.thy ===== *)
theory Ppc_Fpu_Opc
  imports Ppc_Dec Ppc_Fpu
begin

text \<open>
  The floating-point instructions: the handlers of ppc_fpu.cc, the loads and stores of single precision in ppc_mmu.cc,
  the two floating-point groups of ppc_dec.cc, and the tables of \<open>Ppc_Dec\<close> with these in place of its parameters.
  \<open>junk\<close> holds what the local structures of a handler contain before they are set.
\<close>

unbundle bit_operations_syntax

record junk =
  junk_D :: ppc_double
  junk_Q :: ppc_double
  junk_div :: ppc_double
  junk_p :: ppc_quadro
  junk_x :: ppc_quadro

type_synonym pack = "uint32 \<Rightarrow> ppc_double \<Rightarrow> uint32 \<times> uint64"

definition fpu_result :: "pack \<Rightarrow> nat \<Rightarrow> ppc_double \<Rightarrow> opc_function" where
  "fpu_result pack frD D c =
     (let (f, v) = pack (fpscr c) D
      in rc_unimplemented (c\<lparr>fpr := (fpr c)(frD := v), fpscr := fpscr c OR f\<rparr>))"

definition set_fpscr :: "bool \<Rightarrow> uint32 \<Rightarrow> cpu \<Rightarrow> cpu" where
  "set_fpscr b f c = (if b then c\<lparr>fpscr := fpscr c OR f\<rparr> else c)"

definition flip_sign :: "ppc_double \<Rightarrow> ppc_double" where
  "flip_sign d = d\<lparr>d_s := d_s d XOR 1\<rparr>"

subsection \<open>Signs and moves\<close>

definition move_fpr :: "(uint64 \<Rightarrow> uint64) \<Rightarrow> opc_function" where
  "move_fpr f c =
     (let (frD, frA, frB) = PPC_OPC_TEMPL_X (current_opc c)
      in rc_unimplemented (c\<lparr>fpr := (fpr c)(frD := f (fpr c frB))\<rparr>))"

definition ppc_opc_fabsx :: opc_function where "ppc_opc_fabsx = move_fpr (\<lambda>v. v AND NOT FPU_SIGN_BIT)"
definition ppc_opc_fmrx :: opc_function where "ppc_opc_fmrx = move_fpr (\<lambda>v. v)"
definition ppc_opc_fnabsx :: opc_function where "ppc_opc_fnabsx = move_fpr (\<lambda>v. v OR FPU_SIGN_BIT)"
definition ppc_opc_fnegx :: opc_function where "ppc_opc_fnegx = move_fpr (\<lambda>v. v XOR FPU_SIGN_BIT)"

definition ppc_opc_fselx :: opc_function where
  "ppc_opc_fselx c =
     (let (frD, frA, frB, frC) = PPC_OPC_TEMPL_A (current_opc c);
          A = ppc_fpu_unpack_double (fpr c frA);
          r = if d_type A = ppc_fpr_NaN \<or> (d_type A \<noteq> ppc_fpr_zero \<and> d_s A \<noteq> 0) then frB else frC
      in rc_unimplemented (c\<lparr>fpr := (fpr c)(frD := fpr c r)\<rparr>))"

subsection \<open>Addition and subtraction\<close>

definition fpu_add :: "pack \<Rightarrow> bool \<Rightarrow> junk \<Rightarrow> opc_function" where
  "fpu_add pack negate J c =
     (let (frD, frA, frB, frC) = PPC_OPC_TEMPL_A (current_opc c);
          A = ppc_fpu_unpack_double (fpr c frA);
          B = ppc_fpu_unpack_double (fpr c frB);
          B = if negate \<and> d_type B \<noteq> ppc_fpr_NaN then flip_sign B else B;
          c = set_fpscr (d_s A \<noteq> d_s B \<and> d_type A = ppc_fpr_Inf \<and> d_type B = ppc_fpr_Inf) FPSCR_VXISI c
      in and_then (ppc_fpu_add (fpscr c) (junk_D J) A B) (\<lambda>D. fpu_result pack frD D c))"

definition ppc_opc_faddx :: "junk \<Rightarrow> opc_function" where "ppc_opc_faddx = fpu_add ppc_fpu_pack_double False"
definition ppc_opc_faddsx :: "junk \<Rightarrow> opc_function" where "ppc_opc_faddsx = fpu_add ppc_fpu_pack_double_as_single False"
definition ppc_opc_fsubx :: "junk \<Rightarrow> opc_function" where "ppc_opc_fsubx = fpu_add ppc_fpu_pack_double True"
definition ppc_opc_fsubsx :: "junk \<Rightarrow> opc_function" where "ppc_opc_fsubsx = fpu_add ppc_fpu_pack_double_as_single True"

subsection \<open>Multiplication and division\<close>

definition fpu_mul :: "pack \<Rightarrow> junk \<Rightarrow> opc_function" where
  "fpu_mul pack J c =
     (let (frD, frA, frB, frC) = PPC_OPC_TEMPL_A (current_opc c);
          A = ppc_fpu_unpack_double (fpr c frA);
          C = ppc_fpu_unpack_double (fpr c frC);
          c = set_fpscr (d_type A = ppc_fpr_Inf \<and> d_type C = ppc_fpr_zero \<or> d_type A = ppc_fpr_zero \<and> d_type C = ppc_fpr_Inf)
                FPSCR_VXIMZ c
      in fpu_result pack frD (ppc_fpu_mul (junk_D J) A C) c)"

definition ppc_opc_fmulx :: "junk \<Rightarrow> opc_function" where "ppc_opc_fmulx = fpu_mul ppc_fpu_pack_double"
definition ppc_opc_fmulsx :: "junk \<Rightarrow> opc_function" where "ppc_opc_fmulsx = fpu_mul ppc_fpu_pack_double_as_single"

definition fpu_div :: "pack \<Rightarrow> junk \<Rightarrow> opc_function" where
  "fpu_div pack J c =
     (let (frD, frA, frB, frC) = PPC_OPC_TEMPL_A (current_opc c);
          A = ppc_fpu_unpack_double (fpr c frA);
          B = ppc_fpu_unpack_double (fpr c frB);
          c = set_fpscr (d_type A = ppc_fpr_zero \<and> d_type B = ppc_fpr_zero) FPSCR_VXZDZ c;
          c = set_fpscr (d_type A = ppc_fpr_Inf \<and> d_type B = ppc_fpr_Inf) FPSCR_VXIDI c;
          c = set_fpscr (d_type B = ppc_fpr_zero \<and> d_type A \<noteq> ppc_fpr_zero) FPSCR_VXIDI c
      in fpu_result pack frD (ppc_fpu_div (junk_D J) A B) c)"

definition ppc_opc_fdivx :: "junk \<Rightarrow> opc_function" where "ppc_opc_fdivx = fpu_div ppc_fpu_pack_double"
definition ppc_opc_fdivsx :: "junk \<Rightarrow> opc_function" where "ppc_opc_fdivsx = fpu_div ppc_fpu_pack_double_as_single"

subsection \<open>Multiplication and addition in one\<close>

definition fpu_mul_add :: "pack \<Rightarrow> bool \<Rightarrow> bool \<Rightarrow> junk \<Rightarrow> opc_function" where
  "fpu_mul_add pack subtract negate J c =
     (let (frD, frA, frB, frC) = PPC_OPC_TEMPL_A (current_opc c);
          A = ppc_fpu_unpack_double (fpr c frA);
          B = ppc_fpu_unpack_double (fpr c frB);
          C = ppc_fpu_unpack_double (fpr c frC);
          B = if subtract then flip_sign B else B
      in and_then (ppc_fpu_mul_add (fpscr c) (junk_p J) (junk_x J) (junk_D J) A C B)
           (\<lambda>D. fpu_result pack frD (if negate then flip_sign D else D) c))"

definition ppc_opc_fmaddx :: "junk \<Rightarrow> opc_function" where "ppc_opc_fmaddx = fpu_mul_add ppc_fpu_pack_double False False"
definition ppc_opc_fmaddsx :: "junk \<Rightarrow> opc_function" where "ppc_opc_fmaddsx = fpu_mul_add ppc_fpu_pack_double_as_single False False"
definition ppc_opc_fmsubx :: "junk \<Rightarrow> opc_function" where "ppc_opc_fmsubx = fpu_mul_add ppc_fpu_pack_double True False"
definition ppc_opc_fmsubsx :: "junk \<Rightarrow> opc_function" where "ppc_opc_fmsubsx = fpu_mul_add ppc_fpu_pack_double_as_single True False"
definition ppc_opc_fnmaddx :: "junk \<Rightarrow> opc_function" where "ppc_opc_fnmaddx = fpu_mul_add ppc_fpu_pack_double False True"
definition ppc_opc_fnmaddsx :: "junk \<Rightarrow> opc_function" where "ppc_opc_fnmaddsx = fpu_mul_add ppc_fpu_pack_double_as_single False True"
definition ppc_opc_fnmsubx :: "junk \<Rightarrow> opc_function" where "ppc_opc_fnmsubx = fpu_mul_add ppc_fpu_pack_double True True"
definition ppc_opc_fnmsubsx :: "junk \<Rightarrow> opc_function" where "ppc_opc_fnmsubsx = fpu_mul_add ppc_fpu_pack_double_as_single True True"

subsection \<open>Square root and reciprocals\<close>

definition ppc_opc_fsqrtx :: "junk \<Rightarrow> opc_function" where
  "ppc_opc_fsqrtx J c =
     (let (frD, frA, frB, frC) = PPC_OPC_TEMPL_A (current_opc c);
          B = ppc_fpu_unpack_double (fpr c frB)
      in and_then (ppc_fpu_sqrt (fpscr c) (junk_div J) (junk_D J) B)
           (\<lambda>(fp, D). fpu_result ppc_fpu_pack_double frD D (c\<lparr>fpscr := fp\<rparr>)))"

definition ppc_opc_frsqrtex :: "junk \<Rightarrow> opc_function" where
  "ppc_opc_frsqrtex J c =
     (let (frD, frA, frB, frC) = PPC_OPC_TEMPL_A (current_opc c);
          B = ppc_fpu_unpack_double (fpr c frB);
          E = \<lparr>d_type = ppc_fpr_norm, d_s = 0, d_e = 0, d_m = 0x80000000000000\<rparr>
      in and_then (ppc_fpu_sqrt (fpscr c) (junk_div J) (junk_Q J) B)
           (\<lambda>(fp, Q). fpu_result ppc_fpu_pack_double frD (ppc_fpu_div (junk_D J) E Q) (c\<lparr>fpscr := fp\<rparr>)))"

definition ppc_opc_fresx :: opc_function where "ppc_opc_fresx c = Inl Ppc_Fatal"
definition ppc_opc_fsqrtsx :: opc_function where "ppc_opc_fsqrtsx c = Inl Ppc_Fatal"

subsection \<open>Conversion\<close>

definition ppc_opc_frspx :: opc_function where
  "ppc_opc_frspx c =
     (let (frD, frA, frB) = PPC_OPC_TEMPL_X (current_opc c)
      in fpu_result ppc_fpu_pack_double_as_single frD (ppc_fpu_unpack_double (fpr c frB)) c)"

definition fpu_to_int :: "(uint32 \<Rightarrow> uint32) \<Rightarrow> opc_function" where
  "fpu_to_int mode c =
     (let (frD, frA, frB) = PPC_OPC_TEMPL_X (current_opc c);
          B = ppc_fpu_unpack_double (fpr c frB)
      in rc_unimplemented (c\<lparr>fpr := (fpr c)(frD := ucast (ppc_fpu_double_to_int (mode (fpscr c)) B))\<rparr>))"

definition ppc_opc_fctiwx :: opc_function where "ppc_opc_fctiwx = fpu_to_int (\<lambda>fp. fp)"
definition ppc_opc_fctiwzx :: opc_function where "ppc_opc_fctiwzx = fpu_to_int (\<lambda>fp. (fp AND NOT 3) OR 1)"

subsection \<open>Comparison\<close>

definition ppc_fpu_cmp_and_mask :: "nat \<Rightarrow> uint32" where
  "ppc_fpu_cmp_and_mask i = [0xfffffff0, 0xffffff0f, 0xfffff0ff, 0xffff0fff, 0xfff0ffff, 0xff0fffff, 0xf0ffffff, 0x0fffffff] ! i"

definition fpu_cmp :: "uint32 \<Rightarrow> opc_function" where
  "fpu_cmp nan_flags c =
     (let (crfD, frA, frB) = PPC_OPC_TEMPL_X (current_opc c);
          A = ppc_fpu_unpack_double (fpr c frA);
          B = ppc_fpu_unpack_double (fpr c frB);
          (fp, cmp) = if d_type A = ppc_fpr_NaN \<or> d_type B = ppc_fpr_NaN then (fpscr c OR nan_flags, 1)
                      else (fpscr c, ppc_fpu_compare A B);
          crfD = 7 - crfD div 4
      in Inr (c\<lparr>fpscr := (fp AND NOT 0x1f000) OR push_bit 12 cmp,
                cr := (cr c AND ppc_fpu_cmp_and_mask crfD) OR push_bit (crfD * 4) cmp\<rparr>))"

definition ppc_opc_fcmpo :: opc_function where "ppc_opc_fcmpo = fpu_cmp (FPSCR_VXSNAN OR FPSCR_VXVC)"
definition ppc_opc_fcmpu :: opc_function where "ppc_opc_fcmpu = fpu_cmp FPSCR_VXSNAN"

subsection \<open>Loads and stores of single precision\<close>

definition load_single :: "nat \<Rightarrow> uint32 \<Rightarrow> cpu \<Rightarrow> cpu" where
  "load_single frD r c =
     write_fpr frD (snd (ppc_fpu_pack_double (fpscr c) (ppc_fpu_single_to_double (ppc_fpu_unpack_single r)))) c"

definition single_of :: "nat \<Rightarrow> cpu \<Rightarrow> uint32" where
  "single_of frS c = snd (ppc_fpu_pack_single (fpscr c) (ppc_fpu_unpack_double (fpr c frS)))"

definition ppc_opc_lfs :: "'io mem_function" where
  "ppc_opc_lfs B m =
     needs_fpu (\<lambda>m.
       let (frD, rA, imm) = PPC_OPC_TEMPL_D_SImm (current_opc (mcpu m))
       in after_read (ppc_read_effective_word B (base rA (mcpu m) + imm))
            (load_single frD) m) m"

definition ppc_opc_lfsu :: "'io mem_function" where
  "ppc_opc_lfsu B m =
     needs_fpu (\<lambda>m.
       let (frD, rA, imm) = PPC_OPC_TEMPL_D_SImm (current_opc (mcpu m))
       in after_read (ppc_read_effective_word B (gpr (mcpu m) rA + imm))
            (\<lambda>v c. add_gpr rA imm (load_single frD v c)) m) m"

definition ppc_opc_lfsux :: "'io mem_function" where
  "ppc_opc_lfsux B m =
     needs_fpu (\<lambda>m.
       let (frD, rA, rB) = PPC_OPC_TEMPL_X (current_opc (mcpu m))
       in after_read (ppc_read_effective_word B (gpr (mcpu m) rA + gpr (mcpu m) rB))
            (\<lambda>v c. load_single frD v (add_gpr rA (gpr c rB) c)) m) m"

definition ppc_opc_lfsx :: "'io mem_function" where
  "ppc_opc_lfsx B m =
     needs_fpu (\<lambda>m.
       let (frD, rA, rB) = PPC_OPC_TEMPL_X (current_opc (mcpu m))
       in after_read (ppc_read_effective_word B (base rA (mcpu m) + gpr (mcpu m) rB))
            (load_single frD) m) m"

definition ppc_opc_stfs :: "'io mem_function" where
  "ppc_opc_stfs B m =
     needs_fpu (\<lambda>m.
       let (frS, rA, imm) = PPC_OPC_TEMPL_D_SImm (current_opc (mcpu m))
       in after_write (ppc_write_effective_word B (base rA (mcpu m) + imm) (single_of frS (mcpu m)))
            (\<lambda>c. c) m) m"

definition ppc_opc_stfsu :: "'io mem_function" where
  "ppc_opc_stfsu B m =
     needs_fpu (\<lambda>m.
       let (frS, rA, imm) = PPC_OPC_TEMPL_D_SImm (current_opc (mcpu m))
       in after_write (ppc_write_effective_word B (gpr (mcpu m) rA + imm) (single_of frS (mcpu m)))
            (add_gpr rA imm) m) m"

definition ppc_opc_stfsux :: "'io mem_function" where
  "ppc_opc_stfsux B m =
     needs_fpu (\<lambda>m.
       let (frS, rA, rB) = PPC_OPC_TEMPL_X (current_opc (mcpu m))
       in after_write (ppc_write_effective_word B (gpr (mcpu m) rA + gpr (mcpu m) rB) (single_of frS (mcpu m)))
            (\<lambda>c. add_gpr rA (gpr c rB) c) m) m"

definition ppc_opc_stfsx :: "'io mem_function" where
  "ppc_opc_stfsx B m =
     needs_fpu (\<lambda>m.
       let (frS, rA, rB) = PPC_OPC_TEMPL_X (current_opc (mcpu m))
       in after_write (ppc_write_effective_word B (base rA (mcpu m) + gpr (mcpu m) rB) (single_of frS (mcpu m)))
            (\<lambda>c. c) m) m"

fun single_op_function :: "single_op \<Rightarrow> 'io mem_function" where
  "single_op_function S_lfs = ppc_opc_lfs"
| "single_op_function S_lfsu = ppc_opc_lfsu"
| "single_op_function S_lfsux = ppc_opc_lfsux"
| "single_op_function S_lfsx = ppc_opc_lfsx"
| "single_op_function S_stfs = ppc_opc_stfs"
| "single_op_function S_stfsu = ppc_opc_stfsu"
| "single_op_function S_stfsux = ppc_opc_stfsux"
| "single_op_function S_stfsx = ppc_opc_stfsx"

subsection \<open>Main opcodes 59 and 63\<close>

definition ppc_opc_group_f1 :: "junk \<Rightarrow> uint32 \<Rightarrow> opc_function option" where
  "ppc_opc_group_f1 J opc =
     map_of [
       (18, ppc_opc_fdivsx J), (20, ppc_opc_fsubsx J), (21, ppc_opc_faddsx J), (22, ppc_opc_fsqrtsx),
       (24, ppc_opc_fresx), (25, ppc_opc_fmulsx J), (28, ppc_opc_fmsubsx J), (29, ppc_opc_fmaddsx J),
       (30, ppc_opc_fnmsubsx J), (31, ppc_opc_fnmaddsx J)] (PPC_OPC_EXT opc AND 0x1f)"

definition ppc_opc_group_f2 :: "junk \<Rightarrow> uint32 \<Rightarrow> opc_function option" where
  "ppc_opc_group_f2 J opc =
     (let ext = PPC_OPC_EXT opc in
      if istrue (ext AND 16) then
        map_of [
          (18, ppc_opc_fdivx J), (20, ppc_opc_fsubx J), (21, ppc_opc_faddx J), (22, ppc_opc_fsqrtx J),
          (23, ppc_opc_fselx), (25, ppc_opc_fmulx J), (26, ppc_opc_frsqrtex J), (28, ppc_opc_fmsubx J),
          (29, ppc_opc_fmaddx J), (30, ppc_opc_fnmsubx J), (31, ppc_opc_fnmaddx J)] (ext AND 0x1f)
      else
        map_of [
          (0, ppc_opc_fcmpu), (12, ppc_opc_frspx), (14, ppc_opc_fctiwx), (15, ppc_opc_fctiwzx),
          (32, ppc_opc_fcmpo), (38, ppc_opc_mtfsb1x), (40, ppc_opc_fnegx), (64, ppc_opc_mcrfs),
          (70, ppc_opc_mtfsb0x), (72, ppc_opc_fmrx), (134, ppc_opc_mtfsfix), (136, ppc_opc_fnabsx),
          (264, ppc_opc_fabsx), (583, ppc_opc_mffsx), (711, ppc_opc_mtfsfx)] ext)"

definition run_group_f :: "(uint32 \<Rightarrow> opc_function option) \<Rightarrow> 'io mem_function \<Rightarrow> 'io mem_function" where
  "run_group_f table invalid B m =
     (case table (current_opc (mcpu m)) of Some f \<Rightarrow> on_cpu f m | None \<Rightarrow> invalid B m)"

definition with_fpu :: "junk \<Rightarrow> 'io handlers \<Rightarrow> 'io handlers" where
  "with_fpu J X =
     X\<lparr>run_single := single_op_function,
       run_f1 := run_group_f (ppc_opc_group_f1 J) (run_invalid X),
       run_f2 := run_group_f (ppc_opc_group_f2 J) (run_invalid X)\<rparr>"

end
