(* ===== verification/Ppc_Fpu_Round.thy ===== *)
theory Ppc_Fpu_Round
  imports Complex_Main Ppc_Fpu_Opc
begin

text \<open>
  The number a word of a floating-point register stands for, and the number an unpacked structure stands for; unpacking
  keeps it, packing an unpacked word gives the word back.
\<close>

unbundle bit_operations_syntax

subsection \<open>Fields\<close>

definition fpr_exp :: "uint64 \<Rightarrow> int" where "fpr_exp v = uint (FPD_EXP v AND 0x7ff)"
definition fpr_frac :: "uint64 \<Rightarrow> int" where "fpr_frac v = uint (FPD_FRAC v)"
definition fpr_neg :: "uint64 \<Rightarrow> bool" where "fpr_neg v \<longleftrightarrow> bit v 63"

text \<open>Powers of two with integer exponents; opaque, so that the large ones are not evaluated.\<close>

definition p2 :: "int \<Rightarrow> real" where "p2 n = 2 powi n"

lemma p2_add: "p2 (a + b) = p2 a * p2 b"
  by (simp add: p2_def power_int_add)

lemma p2_nat: "p2 (int n) = 2 ^ n"
  by (simp add: p2_def)

lemma p2_pos [simp]: "0 < p2 n"
  by (simp add: p2_def)

lemma p2_nonzero [simp]: "p2 n \<noteq> 0" "0 \<le> p2 n"
  using p2_pos[of n] by linarith+

lemma p2_split: "p2 (a + int n) = p2 a * 2 ^ n"
  by (simp add: p2_add p2_nat)

lemma p2_less: "p2 a < p2 b \<longleftrightarrow> a < b"
proof -
  have l: "p2 m < p2 n" if "m < n" for m n
    using that unfolding p2_def by (intro power_int_strict_increasing) auto
  show ?thesis using l[of a b] l[of b a] by (cases a b rule: linorder_cases) auto
qed

lemma p2_le: "p2 a \<le> p2 b \<longleftrightarrow> a \<le> b"
  using p2_less[of b a] by linarith

definition sgn_of :: "bool \<Rightarrow> real" where "sgn_of b = (if b then - 1 else 1)"

text \<open>Infinity counts as the first power of two that is too large; a word with \<open>fpr_exp\<close> 2047 and a fraction is no number.\<close>

definition fpr_value :: "uint64 \<Rightarrow> real" where
  "fpr_value v = sgn_of (fpr_neg v) *
     (if fpr_exp v = 0 then of_int (fpr_frac v) * p2 (- 1074)
      else of_int (2 ^ 52 + fpr_frac v) * p2 (fpr_exp v - 1075))"

definition fpr_nan :: "uint64 \<Rightarrow> bool" where "fpr_nan v \<longleftrightarrow> fpr_exp v = 2047 \<and> fpr_frac v \<noteq> 0"
definition fpr_normal :: "uint64 \<Rightarrow> bool" where "fpr_normal v \<longleftrightarrow> 0 < fpr_exp v \<and> fpr_exp v < 2047"

lemma exp_field: "FPD_EXP v AND 0x7ff = take_bit 11 (drop_bit 52 v)"
  by (simp add: FPD_EXP_def take_bit_eq_mask mask_eq_exp_minus_1)

lemma frac_field: "FPD_FRAC v = take_bit 52 v"
  by (simp add: FPD_FRAC_def take_bit_eq_mask mask_eq_exp_minus_1)

lemma exp_range: "0 \<le> fpr_exp v" "fpr_exp v < 2048"
  unfolding fpr_exp_def exp_field by (simp_all add: unsigned_take_bit_eq take_bit_int_less_exp[of 11, simplified])

lemma frac_range: "0 \<le> fpr_frac v" "fpr_frac v < 2 ^ 52"
  unfolding fpr_frac_def frac_field by (simp_all only: unsigned_take_bit_eq take_bit_nonnegative take_bit_int_less_exp)

lemma sign_field: "FPD_SIGN v = (if fpr_neg v then 1 else 0)"
  using and_exp_eq_0_iff[of v 63] by (simp add: FPD_SIGN_def FPU_SIGN_BIT_def fpr_neg_def)

lemma bit_exp: "n < 11 \<Longrightarrow> bit v (52 + n) \<longleftrightarrow> bit (fpr_exp v) n"
  by (auto simp: fpr_exp_def exp_field bit_simps dest: bit_imp_le_length)

lemma bit_frac: "n < 52 \<Longrightarrow> bit v n \<longleftrightarrow> bit (fpr_frac v) n"
  by (auto simp: fpr_frac_def frac_field bit_simps dest: bit_imp_le_length)

lemma fields_eqI:
  assumes "fpr_neg v = fpr_neg w" "fpr_exp v = fpr_exp w" "fpr_frac v = fpr_frac w"
  shows "v = w"
proof (rule bit_word_eqI)
  fix n assume "n < LENGTH(64)"
  then have "n < 64" by simp
  then consider "n < 52" | "52 \<le> n" "n < 63" | "n = 63" by linarith
  then show "bit v n = bit w n"
  proof cases
    case 2
    then have "n = 52 + (n - 52)" "n - 52 < 11" by auto
    then show ?thesis using bit_exp[of "n - 52" v] bit_exp[of "n - 52" w] assms by simp
  qed (use assms bit_frac in \<open>auto simp: fpr_neg_def\<close>)
qed

lemma bit_sign: "bit FPU_SIGN_BIT n \<longleftrightarrow> n = 63"
proof -
  have e: "FPU_SIGN_BIT = push_bit 63 1" by (simp add: FPU_SIGN_BIT_def)
  show ?thesis unfolding e bit_push_bit_iff bit_1_iff possible_bit_word by auto
qed

lemma pack_fields:
  assumes "0 \<le> e" "e < 2048"
  shows "fpr_neg (FPD_PACK_VAR s e m) = (s \<noteq> 0)" "fpr_exp (FPD_PACK_VAR s e m) = e"
    "fpr_frac (FPD_PACK_VAR s e m) = uint m mod 2 ^ 52"
proof -
  have "take_bit 11 e = e" using assms by (simp add: take_bit_int_eq_self_iff)
  then have e11: "bit e n \<Longrightarrow> n < 11" for n by (metis bit_take_bit_iff)
  have k: "(0x7ff :: uint64) = mask 11" "(0x000fffffffffffff :: uint64) = mask 52" by (simp_all add: mask_eq_exp_minus_1)
  have b: "bit (FPD_PACK_VAR s e m) n \<longleftrightarrow> n < 64 \<and>
      (n = 63 \<and> s \<noteq> 0 \<or> 52 \<le> n \<and> bit e (n - 52) \<or> n < 52 \<and> bit m n)" for n
    using e11[of "n - 52"] unfolding FPD_PACK_VAR_def k by (auto simp: bit_simps bit_sign dest: bit_imp_le_length)
  show "fpr_neg (FPD_PACK_VAR s e m) = (s \<noteq> 0)"
    unfolding fpr_neg_def b using e11[of 11] by auto
  have "take_bit 11 (drop_bit 52 (FPD_PACK_VAR s e m)) = word_of_int e"
    by (rule bit_word_eqI) (auto simp: bit_simps b dest: e11)
  then show "fpr_exp (FPD_PACK_VAR s e m) = e"
    unfolding fpr_exp_def exp_field using assms by (simp add: uint_word_of_int)
  have "FPD_FRAC (FPD_PACK_VAR s e m) = take_bit 52 m"
    unfolding frac_field by (rule bit_word_eqI) (auto simp: bit_simps b)
  then show "fpr_frac (FPD_PACK_VAR s e m) = uint m mod 2 ^ 52"
    unfolding fpr_frac_def by (simp only: unsigned_take_bit_eq) (simp add: take_bit_eq_mod)
qed

subsection \<open>Leading zeros\<close>

lemma step_bits:
  "list_all (\<lambda>n. istrue (word_of_nat n AND 0xf0 :: uint32) \<longleftrightarrow> 16 \<le> n) [0..<256]"
  "list_all (\<lambda>n. istrue (word_of_nat n AND 0xc :: uint32) \<longleftrightarrow> 4 \<le> n) [0..<16]"
  "list_all (\<lambda>n. istrue (word_of_nat n AND 0x2 :: uint32) \<longleftrightarrow> 2 \<le> n) [0..<4]"
  by code_simp+

lemma test_step:
  assumes "list_all (\<lambda>n. istrue (word_of_nat n AND m :: uint32) \<longleftrightarrow> l \<le> n) [0..<h]" "unat w < h"
  shows "istrue (w AND m) \<longleftrightarrow> l \<le> unat w"
  using bspec[OF assms(1)[unfolded list_all_iff], of "unat w"] assms(2) by simp

text \<open>\<open>top n w\<close>: the leading bit of \<open>w\<close> is bit \<open>n\<close>.\<close>

definition top :: "int \<Rightarrow> 'a::len word \<Rightarrow> bool" where
  "top n w \<longleftrightarrow> 0 \<le> n \<and> 2 ^ nat n \<le> unat w \<and> unat w < 2 ^ (nat n + 1)"

lemma unat_drop: "unat (drop_bit k w) = unat w div 2 ^ k" for w :: "'a::len word"
  unfolding unat_drop_bit_eq by (simp add: drop_bit_eq_div)

lemma top_drop: "top n (drop_bit k w) \<Longrightarrow> top (n + int k) w" for w :: "'a::len word"
proof -
  assume t: "top n (drop_bit k w)"
  then have n: "0 \<le> n" and l: "2 ^ nat n \<le> unat w div 2 ^ k" and u: "unat w div 2 ^ k < 2 ^ (nat n + 1)"
    unfolding top_def unat_drop by auto
  have "nat (n + int k) = nat n + k" using n by (simp add: nat_add_distrib)
  moreover have "2 ^ nat n * 2 ^ k \<le> unat w" using l by (simp add: less_eq_div_iff_mult_less_eq)
  moreover have "unat w < 2 ^ (nat n + 1) * 2 ^ k" using u by (simp add: div_less_iff_less_mult)
  ultimately show ?thesis using n by (simp add: top_def power_add algebra_simps)
qed

lemma leading_zero_steps_top:
  assumes "dd \<noteq> 0"
  shows "top (ret - leading_zero_steps ret dd) dd"
proof -
  define d1 where "d1 = (if 0xffff < dd then drop_bit 16 dd else dd)"
  define r1 where "r1 = (if 0xffff < dd then ret - 16 else ret)"
  define d2 where "d2 = (if 0xff < d1 then drop_bit 8 d1 else d1)"
  define r2 where "r2 = (if 0xff < d1 then r1 - 8 else r1)"
  define d3 where "d3 = (if istrue (d2 AND 0xf0) then drop_bit 4 d2 else d2)"
  define r3 where "r3 = (if istrue (d2 AND 0xf0) then r2 - 4 else r2)"
  define d4 where "d4 = (if istrue (d3 AND 0xc) then drop_bit 2 d3 else d3)"
  define r4 where "r4 = (if istrue (d3 AND 0xc) then r3 - 2 else r3)"
  define r5 where "r5 = (if istrue (d4 AND 0x2) then r4 - 1 else r4)"
  have l: "leading_zero_steps ret dd = r5"
    unfolding leading_zero_steps_def Let_def r5_def r4_def d4_def r3_def d3_def r2_def d2_def r1_def d1_def
    by (simp split: prod.splits if_splits)
  have "unat dd < 2 ^ 32" using unsigned_less[of dd, where ?'a = nat] by simp
  then have u1: "unat d1 < 65536" and z1: "1 \<le> unat d1"
    using unat_gt_0[of dd] assms by (auto simp: d1_def unat_drop word_less_nat_alt div_less_iff_less_mult less_eq_div_iff_mult_less_eq Suc_le_eq)
  then have u2: "unat d2 < 256" and z2: "1 \<le> unat d2"
    by (auto simp: d2_def unat_drop word_less_nat_alt div_less_iff_less_mult less_eq_div_iff_mult_less_eq)
  then have u3: "unat d3 < 16" and z3: "1 \<le> unat d3"
    using test_step[OF step_bits(1) u2] by (auto simp: d3_def unat_drop div_less_iff_less_mult less_eq_div_iff_mult_less_eq)
  then have u4: "unat d4 < 4" and z4: "1 \<le> unat d4"
    using test_step[OF step_bits(2) u3] by (auto simp: d4_def unat_drop div_less_iff_less_mult less_eq_div_iff_mult_less_eq)
  then have "top (r4 - r5) d4"
    using test_step[OF step_bits(3) u4] by (auto simp: r5_def top_def)
  then have "top (r3 - r5) d3" using top_drop[of "r4 - r5" 2 d3] by (auto simp: d4_def r4_def split: if_splits)
  then have "top (r2 - r5) d2" using top_drop[of "r3 - r5" 4 d2] by (auto simp: d3_def r3_def split: if_splits)
  then have "top (r1 - r5) d1" using top_drop[of "r2 - r5" 8 d1] by (auto simp: d2_def r2_def split: if_splits)
  then have "top (ret - r5) dd" using top_drop[of "r1 - r5" 16 dd] by (auto simp: d1_def r1_def split: if_splits)
  then show ?thesis by (simp add: l)
qed

lemma leading_zeros_top:
  assumes "m \<noteq> 0"
  shows "top (63 - ppc_count_leading_zeros m) m"
proof -
  define dd where "dd = (ucast (drop_bit 32 m) :: uint32)"
  have m: "unat m < 2 ^ 64" using unsigned_less[of m, where ?'a = nat] by simp
  then have dd: "unat dd = unat m div 2 ^ 32"
    by (simp add: dd_def unsigned_ucast_eq take_bit_eq_mod unat_drop div_less_iff_less_mult)
  show ?thesis
  proof (cases "dd = 0")
    case True
    then have "unat m < 2 ^ 32" using dd by (simp add: div_eq_0_iff)
    then have w: "unat (ucast m :: uint32) = unat m" by (simp add: unsigned_ucast_eq take_bit_eq_mod)
    then have "(ucast m :: uint32) \<noteq> 0" using assms by (metis unat_0 unat_eq_zero)
    from leading_zero_steps_top[OF this, of 63] w show ?thesis
      using True by (simp add: top_def ppc_count_leading_zeros_def dd_def Let_def)
  next
    case False
    from leading_zero_steps_top[OF this, of 31] have "top (31 - ppc_count_leading_zeros m) (drop_bit 32 m)"
      using False dd by (simp add: top_def ppc_count_leading_zeros_def dd_def Let_def unat_drop)
    from top_drop[OF this] show ?thesis by (simp add: algebra_simps)
  qed
qed

lemma top_unique: "top n w \<Longrightarrow> 2 ^ k \<le> unat w \<Longrightarrow> unat w < 2 ^ (k + 1) \<Longrightarrow> n = int k"
proof -
  assume t: "top n w" and k: "2 ^ k \<le> unat w" "unat w < 2 ^ (k + 1)"
  have "2 ^ nat n < (2 :: nat) ^ (k + 1)" "2 ^ k < (2 :: nat) ^ (nat n + 1)"
    using t k unfolding top_def by linarith+
  then have "nat n < k + 1" "k < nat n + 1"
    by (simp_all only: power_strict_increasing_iff one_less_numeral_iff semiring_norm(76))
  then show "n = int k" using t by (auto simp: top_def)
qed


subsection \<open>Unpacking\<close>

definition dval :: "ppc_double \<Rightarrow> real" where
  "dval d = sgn_of (d_s d \<noteq> 0) * (if d_type d = ppc_fpr_zero then 0 else real (unat (d_m d)) * p2 (d_e d - 55))"

lemma unpack_sign: "d_s (ppc_fpu_unpack_double v) = (if fpr_neg v then 1 else 0)"
  by (simp add: ppc_fpu_unpack_double_def Let_def sign_field)

lemma unpack_special:
  "fpr_exp v = 2047 \<Longrightarrow> ppc_fpu_unpack_double v =
     \<lparr>d_type = if fpr_frac v = 0 then ppc_fpr_Inf else ppc_fpr_NaN, d_s = d_s (ppc_fpu_unpack_double v), d_e = 2047, d_m = FPD_FRAC v\<rparr>"
  "fpr_exp v = 0 \<Longrightarrow> fpr_frac v = 0 \<Longrightarrow> d_type (ppc_fpu_unpack_double v) = ppc_fpr_zero"
  by (simp_all add: ppc_fpu_unpack_double_def Let_def fpr_exp_def fpr_frac_def uint_0_iff)

lemma frac_bound: "unat (FPD_FRAC v) < 2 ^ 52" "nat (fpr_frac v) = unat (FPD_FRAC v)"
proof -
  show "unat (FPD_FRAC v) < 2 ^ 52" unfolding frac_field unsigned_take_bit_eq by (rule take_bit_nat_less_exp)
qed (simp add: fpr_frac_def)

lemma unat_push: "unat w * 2 ^ k < 2 ^ LENGTH('a) \<Longrightarrow> unat (push_bit k w) = unat w * 2 ^ k" for w :: "'a::len word"
  unfolding unsigned_push_bit_eq by (simp add: push_bit_eq_mult take_bit_nat_eq_self)

lemma unpack_normal:
  assumes "fpr_normal v"
  shows "d_type (ppc_fpu_unpack_double v) = ppc_fpr_norm" "d_e (ppc_fpu_unpack_double v) = fpr_exp v - 1023"
    "unat (d_m (ppc_fpu_unpack_double v)) = (2 ^ 52 + nat (fpr_frac v)) * 8"
proof -
  let ?m = "FPD_FRAC v"
  have "?m OR push_bit 52 1 = ?m + push_bit 52 1"
  proof (rule disjunctive_add[symmetric])
    show "\<not> bit ?m n \<or> \<not> bit (push_bit 52 1 :: uint64) n" for n
      unfolding frac_field bit_push_bit_iff bit_1_iff bit_take_bit_iff by auto
  qed
  moreover have "unat (?m + push_bit 52 1) = unat ?m + 2 ^ 52"
    using frac_bound(1)[of v] by (simp add: unat_word_ariths)
  ultimately have "unat (push_bit 3 (?m OR push_bit 52 1)) = (unat ?m + 2 ^ 52) * 8"
    using frac_bound(1)[of v] by (subst unat_push) simp_all
  then show "unat (d_m (ppc_fpu_unpack_double v)) = (2 ^ 52 + nat (fpr_frac v)) * 8"
    using assms frac_bound(2)[of v] by (simp add: ppc_fpu_unpack_double_def Let_def fpr_normal_def fpr_exp_def)
  show "d_type (ppc_fpu_unpack_double v) = ppc_fpr_norm" "d_e (ppc_fpu_unpack_double v) = fpr_exp v - 1023"
    using assms by (simp_all add: ppc_fpu_unpack_double_def Let_def fpr_normal_def fpr_exp_def)
qed

text \<open>A denormalized word keeps its value, but its leading bit goes to bit 58, three places too far.\<close>

lemma unpack_denormal:
  assumes "fpr_exp v = 0" "fpr_frac v \<noteq> 0"
  obtains k where "2 ^ k \<le> nat (fpr_frac v)" "nat (fpr_frac v) < 2 ^ (k + 1)" "k < 52"
    "d_type (ppc_fpu_unpack_double v) = ppc_fpr_norm" "d_e (ppc_fpu_unpack_double v) = int k - 1077"
    "unat (d_m (ppc_fpu_unpack_double v)) = nat (fpr_frac v) * 2 ^ (58 - k)"
proof -
  let ?m = "FPD_FRAC v"
  have m0: "?m \<noteq> 0" using assms(2) by (auto simp: fpr_frac_def)
  define k where "k = nat (63 - ppc_count_leading_zeros ?m)"
  have t: "top (63 - ppc_count_leading_zeros ?m) ?m" by (rule leading_zeros_top[OF m0])
  then have k: "ppc_count_leading_zeros ?m = 63 - int k" "2 ^ k \<le> unat ?m" "unat ?m < 2 ^ (k + 1)"
    by (auto simp: k_def top_def)
  have "(2::nat) ^ k < 2 ^ 52" using k(2) frac_bound(1)[of v] by linarith
  then have k52: "k < 52" by (simp only: power_strict_increasing_iff one_less_numeral_iff semiring_norm)
  have "unat ?m * 2 ^ (58 - k) < 2 ^ (k + 1) * 2 ^ (58 - k)" using k(3) by simp
  also have "\<dots> = 2 ^ 59" using k52 by (simp flip: power_add)
  finally have "unat (push_bit (58 - k) ?m) = unat ?m * 2 ^ (58 - k)"
    by (intro unat_push) simp
  moreover have "nat (ppc_count_leading_zeros ?m - 8 + 3) = 58 - k" using k(1) k52 by simp
  ultimately show thesis
    using that[of k] k k52 assms m0 frac_bound(2)[of v]
    by (simp add: ppc_fpu_unpack_double_def Let_def fpr_exp_def)
qed

text \<open>
  Rounding and packing as arithmetic on the mantissa: the last three bits decide, in the current rounding mode, between the
  two neighbours.  An unpacked word packs to itself.
\<close>


subsection \<open>The number of an unpacked word\<close>

lemma value_unpack:
  assumes "fpr_exp v \<noteq> 2047"
  shows "dval (ppc_fpu_unpack_double v) = fpr_value v"
proof -
  have s: "sgn_of (d_s (ppc_fpu_unpack_double v) \<noteq> 0) = sgn_of (fpr_neg v)" by (simp add: unpack_sign)
  show ?thesis
  proof (cases "fpr_exp v = 0")
    case True
    show ?thesis
    proof (cases "fpr_frac v = 0")
      case True
      then show ?thesis using \<open>fpr_exp v = 0\<close> by (simp add: dval_def fpr_value_def unpack_special)
    next
      case False
      from unpack_denormal[OF True this] obtain k where k: "k < 52"
        "d_type (ppc_fpu_unpack_double v) = ppc_fpr_norm" "d_e (ppc_fpu_unpack_double v) = int k - 1077"
        "unat (d_m (ppc_fpu_unpack_double v)) = nat (fpr_frac v) * 2 ^ (58 - k)" by metis
      have "real (nat (fpr_frac v) * 2 ^ (58 - k)) * p2 (int k - 1077 - 55) =
          of_int (fpr_frac v) * p2 (int k - 1077 - 55 + int (58 - k))"
        using frac_range[of v] unfolding p2_split by simp
      also have "int k - 1077 - 55 + int (58 - k) = - 1074" using k(1) by simp
      finally show ?thesis using True k s by (simp add: dval_def fpr_value_def)
    qed
  next
    case False
    then have n: "fpr_normal v" using assms exp_range[of v] by (auto simp: fpr_normal_def)
    have "real ((2 ^ 52 + nat (fpr_frac v)) * 8) * p2 (fpr_exp v - 1023 - 55) =
        of_int (2 ^ 52 + fpr_frac v) * p2 (fpr_exp v - 1023 - 55 + int 3)"
      using frac_range[of v] unfolding p2_split by (simp add: algebra_simps)
    then show ?thesis using False s unpack_normal[OF n] by (simp add: dval_def fpr_value_def)
  qed
qed

subsection \<open>Rounding\<close>

definition rounds_up :: "uint32 \<Rightarrow> bool \<Rightarrow> nat \<Rightarrow> bool" where
  "rounds_up rn s m \<longleftrightarrow>
     (if rn = FPSCR_RN_NEAR then 4 < m mod 8 \<or> m mod 8 = 4 \<and> odd (m div 8)
      else if rn = FPSCR_RN_ZERO then False
      else if rn = FPSCR_RN_PINF then \<not> s \<and> m mod 8 \<noteq> 0
      else s \<and> m mod 8 \<noteq> 0)"

definition rounded :: "uint32 \<Rightarrow> bool \<Rightarrow> nat \<Rightarrow> nat" where
  "rounded rn s m = m div 8 + (if rounds_up rn s m then 1 else 0)"

lemma low_bits:
  fixes m :: "'a::len word"
  assumes "3 < LENGTH('a)"
  shows "unat (m AND 7) = unat m mod 8" "m AND 8 = 0 \<longleftrightarrow> even (unat m div 8)"
proof -
  have "m AND 7 = take_bit 3 m" by (simp add: take_bit_eq_mask mask_eq_exp_minus_1)
  then show "unat (m AND 7) = unat m mod 8" by (simp only: unsigned_take_bit_eq) (simp add: take_bit_eq_mod)
  have "m AND 8 = 0 \<longleftrightarrow> \<not> bit m 3" using and_exp_eq_0_iff[of m 3] assms by simp
  also have "\<dots> \<longleftrightarrow> \<not> bit (unat m) 3" using assms by (simp add: bit_unsigned_iff assms)
  finally show "m AND 8 = 0 \<longleftrightarrow> even (unat m div 8)" by (simp add: bit_iff_odd)
qed

lemma small_numeral: "3 < LENGTH('a) \<Longrightarrow> unat (4 :: 'a::len word) = 4 \<and> unat (8 :: 'a word) = 8"
proof -
  assume "3 < LENGTH('a)"
  then have "(2::nat) ^ 4 \<le> 2 ^ LENGTH('a)" by (intro power_increasing) auto
  then show ?thesis by (simp add: take_bit_nat_eq_self)
qed

lemma round_mantissa_nat:
  fixes m :: "'a::len word"
  assumes "3 < LENGTH('a)" "unat m + 8 < 2 ^ LENGTH('a)"
  shows "unat (snd (round_mantissa fp s m)) div 8 = rounded (FPSCR_RN fp) (s \<noteq> 0) (unat m)"
    and "unat (snd (round_mantissa fp s m)) \<le> unat m + 8"
proof -
  have z: "m AND 7 = 0 \<longleftrightarrow> unat m mod 8 = 0" "m AND 7 = 4 \<longleftrightarrow> unat m mod 8 = 4"
    using low_bits(1)[OF assms(1), of m] small_numeral[OF assms(1)] by (metis unat_0 word_unat_eq_iff)+
  have p: "unat (m + 4) = unat m + 4" "unat (m + 8) = unat m + 8"
    using assms(2) small_numeral[OF assms(1)] by (simp_all add: unat_word_ariths)
  have q: "(a + 4) div 8 = a div 8 + (if 4 \<le> a mod 8 then 1 else 0)" for a :: nat by presburger
  show "unat (snd (round_mantissa fp s m)) \<le> unat m + 8"
    using p by (auto simp: round_mantissa_def Let_def)
  show "unat (snd (round_mantissa fp s m)) div 8 = rounded (FPSCR_RN fp) (s \<noteq> 0) (unat m)"
    using low_bits(2)[OF assms(1), of m]
    by (auto simp: round_mantissa_def Let_def rounded_def rounds_up_def z p q)
qed

end
