(* ===== verification/Ppc_Fpu_Int.thy ===== *)
theory Ppc_Fpu_Int
  imports Ppc_Fpu_Round
begin

text \<open>
  What packing leaves in the register: the rounded mantissa at its exponent, for normal and for denormalized results; and the
  round trips through the unpacked form, of a register and of a word of memory in single precision.
\<close>

unbundle bit_operations_syntax

lemma test_bit_top: "m AND push_bit n 1 \<noteq> 0 \<longleftrightarrow> 2 ^ n \<le> unat m" if "unat m < 2 ^ (n + 1)" for m :: "'a::len word"
proof -
  have "m AND push_bit n 1 \<noteq> 0 \<longleftrightarrow> bit m n"
    using and_exp_eq_0_iff[of m n] by (auto simp: push_bit_eq_mult dest: bit_imp_le_length)
  also have "\<dots> \<longleftrightarrow> bit (unat m) n" by (auto simp: bit_unsigned_iff dest: bit_imp_le_length)
  also have "\<dots> \<longleftrightarrow> 2 ^ n \<le> unat m"
  proof -
    have "unat m div 2 ^ n < 2" using that by (simp add: div_less_iff_less_mult)
    then have "odd (unat m div 2 ^ n) \<longleftrightarrow> unat m div 2 ^ n \<noteq> 0" by (auto simp: less_2_cases_iff)
    then show ?thesis by (auto simp: bit_iff_odd div_eq_0_iff)
  qed
  finally show ?thesis .
qed

lemma rounded_bounds: "a * 8 \<le> m \<Longrightarrow> m < b * 8 \<Longrightarrow> a \<le> rounded rn s m \<and> rounded rn s m \<le> b"
  by (auto simp: rounded_def less_eq_div_iff_mult_less_eq div_less_iff_less_mult Suc_le_eq)

lemma rounded_exact: "rounded rn s (8 * q) = q"
  by (simp add: rounded_def rounds_up_def)

definition packed :: "bool \<Rightarrow> int \<Rightarrow> nat \<Rightarrow> uint64 \<Rightarrow> bool" where
  "packed s e f v \<longleftrightarrow> fpr_neg v = s \<and> fpr_exp v = e \<and> fpr_frac v = int f"

lemma packed_var: "0 \<le> e \<Longrightarrow> e < 2048 \<Longrightarrow> packed (s \<noteq> 0) e (unat m mod 2 ^ 52) (FPD_PACK_VAR s e m)"
  by (simp add: packed_def pack_fields of_nat_mod)

lemma pack_normal:
  fixes fp :: uint32
  assumes "d_type d = ppc_fpr_norm" "2 ^ 55 \<le> unat (d_m d)" "unat (d_m d) < 2 ^ 56" "0 < d_e d + 1023"
  defines "q \<equiv> rounded (FPSCR_RN fp) (d_s d \<noteq> 0) (unat (d_m d))"
  shows "q < 2 ^ 53 \<Longrightarrow> d_e d + 1023 < 2047 \<Longrightarrow> packed (d_s d \<noteq> 0) (d_e d + 1023) (q - 2 ^ 52) (snd (ppc_fpu_pack_double fp d))"
    and "q = 2 ^ 53 \<Longrightarrow> d_e d + 1024 < 2047 \<Longrightarrow> packed (d_s d \<noteq> 0) (d_e d + 1024) 0 (snd (ppc_fpu_pack_double fp d))"
    and "2047 \<le> d_e d + 1023 + (if q = 2 ^ 53 then 1 else 0) \<Longrightarrow> packed (d_s d \<noteq> 0) 2047 0 (snd (ppc_fpu_pack_double fp d))"
proof -
  define m where "m = snd (round_mantissa fp (d_s d) (d_m d))"
  have q: "unat m div 8 = q" and u: "unat m \<le> unat (d_m d) + 8"
    using round_mantissa_nat[of "d_m d" fp "d_s d"] assms(3) by (simp_all add: m_def q_def)
  have qb: "2 ^ 52 \<le> q \<and> q \<le> 2 ^ 53"
    unfolding q_def by (rule rounded_bounds) (use assms(2,3) in simp_all)
  have t: "m AND push_bit 56 1 \<noteq> 0 \<longleftrightarrow> q = 2 ^ 53"
  proof -
    have "m AND push_bit 56 1 \<noteq> 0 \<longleftrightarrow> 2 ^ 56 \<le> unat m" by (rule test_bit_top) (use u assms(3) in simp)
    also have "\<dots> \<longleftrightarrow> 2 ^ 53 \<le> q" unfolding q[symmetric] by (simp add: less_eq_div_iff_mult_less_eq)
    finally show ?thesis using qb by auto
  qed
  obtain f where rm: "round_mantissa fp (d_s d) (d_m d) = (f, m)" unfolding m_def by (metis prod.collapse)
  have r: "snd (ppc_fpu_pack_double fp d) =
      (let (e, m') = if q = 2 ^ 53 then (d_e d + 1024, drop_bit 4 m) else (d_e d + 1023, drop_bit 3 m)
       in if 2047 \<le> e then FPD_PACK_VAR (d_s d) 2047 0 else FPD_PACK_VAR (d_s d) e m')"
    using assms(1,4) t rm
    by (simp add: ppc_fpu_pack_double_def ppc_fpu_round_def Let_def add.commute)
  have d3: "unat (drop_bit 3 m) = q" using q by (simp add: unat_drop)
  have d4: "unat (drop_bit 4 m) = 2 ^ 52" if "q = 2 ^ 53"
  proof -
    have "unat m div 16 = unat m div 8 div 2" by (simp add: div_mult2_eq[symmetric])
    then show ?thesis using q that by (simp add: unat_drop)
  qed
  show "packed (d_s d \<noteq> 0) (d_e d + 1023) (q - 2 ^ 52) (snd (ppc_fpu_pack_double fp d))" if "q < 2 ^ 53" "d_e d + 1023 < 2047"
  proof -
    have "q mod 2 ^ 52 = q - 2 ^ 52" using that(1) qb by (simp add: mod_if)
    then show ?thesis using packed_var[of "d_e d + 1023" "d_s d" "drop_bit 3 m"] that assms(4) by (simp add: r d3)
  qed
  show "packed (d_s d \<noteq> 0) (d_e d + 1024) 0 (snd (ppc_fpu_pack_double fp d))" if "q = 2 ^ 53" "d_e d + 1024 < 2047"
    using packed_var[of "d_e d + 1024" "d_s d" "drop_bit 4 m"] d4[OF that(1)] that assms(4) by (simp add: r)
  show "packed (d_s d \<noteq> 0) 2047 0 (snd (ppc_fpu_pack_double fp d))" if "2047 \<le> d_e d + 1023 + (if q = 2 ^ 53 then 1 else 0)"
    using packed_var[of 2047 "d_s d" 0] that by (simp add: r split: if_splits)
qed

lemma pack_denormal:
  fixes fp :: uint32
  assumes "d_type d = ppc_fpr_norm" "d_e d + 1023 \<le> 0" "- (d_e d + 1023) + 1 \<le> 56"
    and "unat (d_m d) div 2 ^ nat (- d_e d - 1022) < 2 ^ 55"
  defines "q \<equiv> rounded (FPSCR_RN fp) (d_s d \<noteq> 0) (unat (d_m d) div 2 ^ nat (- d_e d - 1022))"
  shows "packed (d_s d \<noteq> 0) (if q = 2 ^ 52 then 1 else 0) (q mod 2 ^ 52) (snd (ppc_fpu_pack_double fp d))"
proof -
  define m0 where "m0 = drop_bit (nat (- d_e d - 1022)) (d_m d)"
  define m where "m = snd (round_mantissa fp (d_s d) m0)"
  have m0: "unat m0 = unat (d_m d) div 2 ^ nat (- d_e d - 1022)" by (simp add: m0_def unat_drop)
  have q: "unat m div 8 = q" and u: "unat m \<le> unat m0 + 8"
    using round_mantissa_nat[of m0 fp "d_s d"] assms(4) by (simp_all add: m_def q_def m0)
  have qb: "q \<le> 2 ^ 52"
    unfolding q_def using rounded_bounds[of 0 _ "2 ^ 52"] assms(4) by simp
  have m1: "unat (push_bit 1 m) = 2 * unat m"
    using unat_push[of m 1] u assms(4) m0 by simp
  have t: "push_bit 1 m AND push_bit 56 1 \<noteq> 0 \<longleftrightarrow> q = 2 ^ 52"
  proof -
    have "push_bit 1 m AND push_bit 56 1 \<noteq> 0 \<longleftrightarrow> 2 ^ 56 \<le> unat (push_bit 1 m)"
      by (rule test_bit_top) (use u assms(4) m0 m1 in simp)
    also have "\<dots> \<longleftrightarrow> 2 ^ 52 \<le> q" unfolding q[symmetric] m1 by (simp add: less_eq_div_iff_mult_less_eq)
    finally show ?thesis using qb by auto
  qed
  have e: "- 1022 - d_e d = - d_e d - 1022" by simp
  obtain f where rm: "round_mantissa fp (d_s d) m0 = (f, m)" unfolding m_def by (metis prod.collapse)
  have r: "snd (ppc_fpu_pack_double fp d) =
      (if q = 2 ^ 52 then FPD_PACK_VAR (d_s d) 1 0 else FPD_PACK_VAR (d_s d) 0 (drop_bit 4 (push_bit 1 m)))"
    using assms(1,2,3) t rm unfolding ppc_fpu_pack_double_def
    by (simp add: ppc_fpu_round_def Let_def e flip: m0_def)
  have "unat (drop_bit 4 (push_bit 1 m)) = q" using q unfolding unat_drop m1 by simp
  then show ?thesis
    using packed_var[of 0 "d_s d" "drop_bit 4 (push_bit 1 m)"] packed_var[of 1 "d_s d" 0] by (simp add: r)
qed

subsection \<open>Round trip of a register\<close>

lemma packed_eqI: "packed s e f v \<Longrightarrow> packed s e f w \<Longrightarrow> v = w"
  by (intro fields_eqI) (simp_all add: packed_def)

lemma packed_fields: "packed (fpr_neg v) (fpr_exp v) (nat (fpr_frac v)) v"
  using frac_range[of v] by (simp add: packed_def)

lemma fpr_cases:
  obtains (special) "fpr_exp v = 2047" | (zero) "fpr_exp v = 0" "fpr_frac v = 0"
    | (denormal) "fpr_exp v = 0" "fpr_frac v \<noteq> 0" | (normal) "fpr_normal v"
  using exp_range[of v] by (auto simp: fpr_normal_def) linarith

lemma unpack_neg: "d_s (ppc_fpu_unpack_double v) \<noteq> 0 \<longleftrightarrow> fpr_neg v"
  by (simp add: unpack_sign)

lemma unpack_special_parts:
  assumes "fpr_exp v = 2047"
  shows "d_type (ppc_fpu_unpack_double v) = (if fpr_frac v = 0 then ppc_fpr_Inf else ppc_fpr_NaN)"
    "d_e (ppc_fpu_unpack_double v) = 2047" "d_m (ppc_fpu_unpack_double v) = FPD_FRAC v"
  by (subst unpack_special(1)[OF assms], simp)+

lemma pack_unpack:
  assumes "\<not> fpr_nan v"
  shows "snd (ppc_fpu_pack_double fp (ppc_fpu_unpack_double v)) = v"
proof (rule packed_eqI[OF _ packed_fields])
  let ?d = "ppc_fpu_unpack_double v"
  show "packed (fpr_neg v) (fpr_exp v) (nat (fpr_frac v)) (snd (ppc_fpu_pack_double fp ?d))"
  proof (cases v rule: fpr_cases)
    case special
    then have "fpr_frac v = 0" using assms by (simp add: fpr_nan_def)
    then show ?thesis using packed_var[of 2047 "d_s ?d" 0] special unpack_special_parts[OF special]
      by (simp add: ppc_fpu_pack_double_def unpack_neg)
  next
    case zero
    then show ?thesis using packed_var[of 0 "d_s ?d" 0] unpack_special(2)[OF zero]
      by (simp add: ppc_fpu_pack_double_def unpack_neg)
  next
    case normal
    let ?q = "2 ^ 52 + nat (fpr_frac v)"
    have q: "rounded rn s (unat (d_m ?d)) = ?q" for rn s
      unfolding unpack_normal(3)[OF normal] mult.commute[of ?q 8] by (rule rounded_exact)
    have f: "nat (fpr_frac v) < 2 ^ 52" using frac_range[of v] by simp
    have "packed (d_s ?d \<noteq> 0) (d_e ?d + 1023) (?q - 2 ^ 52) (snd (ppc_fpu_pack_double fp ?d))"
      using pack_normal(1)[of ?d fp] unpack_normal[OF normal] normal f q by (simp add: fpr_normal_def)
    then show ?thesis using unpack_normal(2)[OF normal] by (simp add: unpack_neg)
  next
    case denormal
    from unpack_denormal[OF this] obtain k where k: "nat (fpr_frac v) < 2 ^ (k + 1)" "k < 52"
      "d_type ?d = ppc_fpr_norm" "d_e ?d = int k - 1077" "unat (d_m ?d) = nat (fpr_frac v) * 2 ^ (58 - k)" by metis
    have f: "nat (fpr_frac v) < 2 ^ 52" using frac_range[of v] by simp
    have "nat (- d_e ?d - 1022) = 55 - k" using k(2,4) by simp
    moreover have "58 - k = 3 + (55 - k)" using k(2) by simp
    then have "(2::nat) ^ (58 - k) = 8 * 2 ^ (55 - k)" by (simp only: power_add) simp
    ultimately have m: "unat (d_m ?d) div 2 ^ nat (- d_e ?d - 1022) = 8 * nat (fpr_frac v)" using k(5) by simp
    have q: "rounded rn s (unat (d_m ?d) div 2 ^ nat (- d_e ?d - 1022)) = nat (fpr_frac v)" for rn s
      unfolding m by (rule rounded_exact)
    show ?thesis
      using pack_denormal[of ?d fp] k(2,3,4) f m q denormal by (simp add: unpack_neg)
  qed
qed

lemma pack_nan: "fpr_nan v \<Longrightarrow> packed (fpr_neg v) 2047 1 (snd (ppc_fpu_pack_double fp (ppc_fpu_unpack_double v)))"
  using packed_var[of 2047 "d_s (ppc_fpu_unpack_double v)" 1] unpack_special_parts[of v]
  by (simp add: fpr_nan_def ppc_fpu_pack_double_def unpack_neg)

text \<open>
  Comparison of registers and conversion to integers, stated on the numbers the registers hold.
\<close>


subsection \<open>The leading exponent\<close>

definition lead :: "int \<Rightarrow> int" where
  "lead e = (if e < - 1022 then e + 3 else if e \<le> 1023 then e else 1024)"

definition magnitude :: "uint64 \<Rightarrow> real" where
  "magnitude v = (if fpr_exp v = 0 then of_int (fpr_frac v) * p2 (- 1074) else of_int (2 ^ 52 + fpr_frac v) * p2 (fpr_exp v - 1075))"

lemma value_magnitude: "fpr_value v = sgn_of (fpr_neg v) * magnitude v"
  by (simp add: fpr_value_def magnitude_def)

lemma unpack_magnitude:
  assumes "d_type (ppc_fpu_unpack_double v) = ppc_fpr_norm"
  shows "magnitude v = real (unat (d_m (ppc_fpu_unpack_double v))) * p2 (d_e (ppc_fpu_unpack_double v) - 55)"
proof -
  have "fpr_exp v \<noteq> 2047" using unpack_special_parts(1)[of v] assms by (auto split: if_splits)
  from value_unpack[OF this] show ?thesis
    using assms by (simp add: dval_def value_magnitude unpack_neg) (simp add: sgn_of_def split: if_splits)
qed

lemma p2_scale: "p2 (int n + a) = 2 ^ n * p2 a"
  using p2_split[of a n] by (simp add: add.commute)

lemma scaled_bounds:
  "2 ^ n \<le> m \<Longrightarrow> m < 2 ^ (n + 1) \<Longrightarrow> p2 (int n + a) \<le> real m * p2 a \<and> real m * p2 a < p2 (int n + a + 1)"
proof -
  assume m: "2 ^ n \<le> m" "m < 2 ^ (n + 1)"
  have "(2::real) ^ n \<le> real m" "real m < 2 ^ (n + 1)"
    using m by (metis of_nat_le_iff of_nat_less_iff of_nat_power of_nat_numeral)+
  then have "2 ^ n * p2 a \<le> real m * p2 a" "real m * p2 a < 2 ^ (n + 1) * p2 a"
    by (simp_all add: mult_right_mono)
  then show ?thesis using p2_scale[of n a] p2_scale[of "n + 1" a] by (simp add: add.commute add.left_commute)
qed

lemma lead_bounds:
  assumes "\<not> fpr_nan v" "d_type (ppc_fpu_unpack_double v) \<noteq> ppc_fpr_zero"
  defines "e \<equiv> d_e (ppc_fpu_unpack_double v)"
  shows "p2 (lead e) \<le> magnitude v" "magnitude v < p2 (lead e + 1)"
    "e \<le> - 1026 \<or> - 1022 \<le> e \<and> e \<le> 1023 \<or> e = 2047"
    "d_type (ppc_fpu_unpack_double v) = ppc_fpr_norm \<and> e \<noteq> 2047 \<or> e = 2047 \<and> d_m (ppc_fpu_unpack_double v) = 0 \<and>
       d_type (ppc_fpu_unpack_double v) = ppc_fpr_Inf"
proof -
  let ?d = "ppc_fpu_unpack_double v"
  have "p2 (lead e) \<le> magnitude v \<and> magnitude v < p2 (lead e + 1) \<and>
    (e \<le> - 1026 \<or> - 1022 \<le> e \<and> e \<le> 1023 \<or> e = 2047) \<and>
    (d_type ?d = ppc_fpr_norm \<and> e \<noteq> 2047 \<or> e = 2047 \<and> d_m ?d = 0 \<and> d_type ?d = ppc_fpr_Inf)"
  proof (cases v rule: fpr_cases)
    case special
    then have f: "fpr_frac v = 0" using assms(1) by (simp add: fpr_nan_def)
    have "magnitude v = 2 ^ 52 * p2 972" using special f by (simp add: magnitude_def)
    then have "magnitude v = p2 1024" using p2_scale[of 52 972] by simp
    then show ?thesis using unpack_special_parts[OF special] f p2_less[of 1024 1025]
      by (simp add: e_def lead_def) (simp add: fpr_frac_def uint_0_iff)
  next
    case zero
    then show ?thesis using assms(2) unpack_special(2) by simp
  next
    case denormal
    from unpack_denormal[OF this] obtain k where k: "2 ^ k \<le> nat (fpr_frac v)" "nat (fpr_frac v) < 2 ^ (k + 1)" "k < 52"
      "d_type ?d = ppc_fpr_norm" "e = int k - 1077" by (metis e_def)
    have "magnitude v = real (nat (fpr_frac v)) * p2 (- 1074)"
      using denormal frac_range[of v] by (simp add: magnitude_def)
    then show ?thesis using scaled_bounds[OF k(1,2), of "- 1074"] k by (simp add: lead_def)
  next
    case normal
    have "magnitude v = real (2 ^ 52 + nat (fpr_frac v)) * p2 (fpr_exp v - 1075)"
      using normal frac_range[of v] by (simp add: magnitude_def fpr_normal_def)
    moreover have "nat (fpr_frac v) < 2 ^ 52" using frac_range[of v] by simp
    ultimately show ?thesis
      using scaled_bounds[of 52 "2 ^ 52 + nat (fpr_frac v)" "fpr_exp v - 1075"] unpack_normal[OF normal] normal
      by (simp add: e_def lead_def fpr_normal_def)
  qed
  then show "p2 (lead e) \<le> magnitude v" "magnitude v < p2 (lead e + 1)"
    "e \<le> - 1026 \<or> - 1022 \<le> e \<and> e \<le> 1023 \<or> e = 2047"
    "d_type ?d = ppc_fpr_norm \<and> e \<noteq> 2047 \<or> e = 2047 \<and> d_m ?d = 0 \<and> d_type ?d = ppc_fpr_Inf" by blast+
qed

lemma zero_magnitude:
  "d_type (ppc_fpu_unpack_double v) = ppc_fpr_zero \<Longrightarrow> magnitude v = 0"
proof (cases v rule: fpr_cases)
  case denormal
  assume "d_type (ppc_fpu_unpack_double v) = ppc_fpr_zero"
  then show ?thesis using unpack_denormal[OF denormal] by (metis ppc_fpr_type.distinct(1))
qed (auto simp: magnitude_def unpack_special_parts unpack_normal split: if_splits)

subsection \<open>Comparison\<close>

lemma magnitude_less:
  assumes "\<not> fpr_nan v" "\<not> fpr_nan w" "d_type (ppc_fpu_unpack_double v) \<noteq> ppc_fpr_zero" "d_type (ppc_fpu_unpack_double w) \<noteq> ppc_fpr_zero"
    and "d_e (ppc_fpu_unpack_double v) < d_e (ppc_fpu_unpack_double w) \<or>
      d_e (ppc_fpu_unpack_double v) = d_e (ppc_fpu_unpack_double w) \<and> d_m (ppc_fpu_unpack_double v) < d_m (ppc_fpu_unpack_double w)"
  shows "magnitude v < magnitude w"
  using assms(5)
proof
  assume "d_e (ppc_fpu_unpack_double v) < d_e (ppc_fpu_unpack_double w)"
  then have "lead (d_e (ppc_fpu_unpack_double v)) + 1 \<le> lead (d_e (ppc_fpu_unpack_double w))"
    using lead_bounds(3)[OF assms(1,3)] lead_bounds(3)[OF assms(2,4)] by (auto simp: lead_def)
  then show ?thesis
    using lead_bounds(2)[OF assms(1,3)] lead_bounds(1)[OF assms(2,4)] p2_le by (meson less_le_trans order_trans)
next
  assume e: "d_e (ppc_fpu_unpack_double v) = d_e (ppc_fpu_unpack_double w) \<and> d_m (ppc_fpu_unpack_double v) < d_m (ppc_fpu_unpack_double w)"
  then have "d_type (ppc_fpu_unpack_double v) = ppc_fpr_norm" "d_type (ppc_fpu_unpack_double w) = ppc_fpr_norm"
    using lead_bounds(4)[OF assms(2,4)] lead_bounds(4)[OF assms(1,3)] by auto
  moreover have "real (unat (d_m (ppc_fpu_unpack_double v))) < real (unat (d_m (ppc_fpu_unpack_double w)))"
    using e by (simp only: word_less_nat_alt of_nat_less_iff)
  ultimately show ?thesis using e by (simp add: unpack_magnitude)
qed

lemma magnitude_pos:
  "\<not> fpr_nan v \<Longrightarrow> d_type (ppc_fpu_unpack_double v) \<noteq> ppc_fpr_zero \<Longrightarrow> 0 < magnitude v"
  using lead_bounds(1)[of v] p2_pos less_le_trans by blast

lemma unpack_infinity:
  assumes "d_type (ppc_fpu_unpack_double u) = ppc_fpr_Inf"
  shows "fpr_exp u = 2047 \<and> fpr_frac u = 0"
proof (cases u rule: fpr_cases)
  case denormal
  then show ?thesis using unpack_denormal[OF denormal] assms by (metis ppc_fpr_type.distinct(5))
qed (use assms in \<open>auto simp: unpack_special_parts unpack_special(2) unpack_normal split: if_splits\<close>)

lemma magnitude_equal:
  assumes "\<not> fpr_nan v" "\<not> fpr_nan w" "d_type (ppc_fpu_unpack_double v) \<noteq> ppc_fpr_zero" "d_type (ppc_fpu_unpack_double w) \<noteq> ppc_fpr_zero"
    and "d_e (ppc_fpu_unpack_double v) = d_e (ppc_fpu_unpack_double w)" "d_m (ppc_fpu_unpack_double v) = d_m (ppc_fpu_unpack_double w)"
  shows "magnitude v = magnitude w"
proof (cases "d_e (ppc_fpu_unpack_double v) = 2047")
  case True
  then have "d_type (ppc_fpu_unpack_double v) = ppc_fpr_Inf" "d_type (ppc_fpu_unpack_double w) = ppc_fpr_Inf"
    using lead_bounds(4)[OF assms(1,3)] lead_bounds(4)[OF assms(2,4)] assms(5) by auto
  then show ?thesis using unpack_infinity by (simp add: magnitude_def)
next
  case False
  then have "d_type (ppc_fpu_unpack_double v) = ppc_fpr_norm" "d_type (ppc_fpu_unpack_double w) = ppc_fpr_norm"
    using lead_bounds(4)[OF assms(1,3)] lead_bounds(4)[OF assms(2,4)] assms(5) by auto
  then show ?thesis using assms(5,6) by (simp add: unpack_magnitude)
qed

text \<open>The nibble for the order of two numbers.\<close>

definition order_nibble :: "real \<Rightarrow> real \<Rightarrow> uint32" where
  "order_nibble x y = (if x < y then 8 else if y < x then 4 else 2)"

lemma compare_orders:
  assumes "\<not> fpr_nan v" "\<not> fpr_nan w"
  shows "ppc_fpu_compare (ppc_fpu_unpack_double v) (ppc_fpu_unpack_double w) = order_nibble (fpr_value v) (fpr_value w)"
proof -
  let ?v = "ppc_fpu_unpack_double v" and ?w = "ppc_fpu_unpack_double w"
  have nn: "0 \<le> magnitude u" for u using frac_range[of u] by (simp add: magnitude_def)
  have pos: "d_type ?v \<noteq> ppc_fpr_zero \<Longrightarrow> 0 < magnitude v" "d_type ?w \<noteq> ppc_fpr_zero \<Longrightarrow> 0 < magnitude w"
    using magnitude_pos assms by blast+
  have z: "d_type ?v = ppc_fpr_zero \<Longrightarrow> magnitude v = 0" "d_type ?w = ppc_fpr_zero \<Longrightarrow> magnitude w = 0"
    using zero_magnitude by blast+
  show ?thesis
  proof (cases "d_type ?v = ppc_fpr_zero \<or> d_type ?w = ppc_fpr_zero \<or> fpr_neg v \<noteq> fpr_neg w")
    case True
    then show ?thesis using pos z
      by (auto simp: ppc_fpu_compare_def order_nibble_def value_magnitude unpack_sign sgn_of_def)
  next
    case False
    then have t: "d_type ?v \<noteq> ppc_fpr_zero" "d_type ?w \<noteq> ppc_fpr_zero" and s: "fpr_neg v = fpr_neg w" by auto
    consider "d_e ?v < d_e ?w \<or> d_e ?v = d_e ?w \<and> d_m ?v < d_m ?w" | "d_e ?w < d_e ?v \<or> d_e ?w = d_e ?v \<and> d_m ?w < d_m ?v"
      | "d_e ?v = d_e ?w" "d_m ?v = d_m ?w" by fastforce
    then show ?thesis
    proof cases
      case 1
      with magnitude_less[OF assms t this] t s show ?thesis
        by (auto simp: ppc_fpu_compare_def order_nibble_def value_magnitude unpack_sign sgn_of_def)
    next
      case 2
      with magnitude_less[OF assms(2,1) t(2,1) this] t s show ?thesis
        by (auto simp: ppc_fpu_compare_def order_nibble_def value_magnitude unpack_sign sgn_of_def)
    next
      case 3
      with magnitude_equal[OF assms t] t s show ?thesis
        by (auto simp: ppc_fpu_compare_def order_nibble_def value_magnitude unpack_sign sgn_of_def)
    qed
  qed
qed

text \<open>
  The conversion to a 32-bit integer in the four rounding modes.  To the nearest integer it rounds a tie away from zero.
\<close>


definition to_int_mode :: "uint32 \<Rightarrow> real \<Rightarrow> int" where
  "to_int_mode rn x =
     (if rn = FPSCR_RN_NEAR then (if x < 0 then - \<lfloor>1 / 2 - x\<rfloor> else \<lfloor>x + 1 / 2\<rfloor>)
      else if rn = FPSCR_RN_ZERO then (if x < 0 then - \<lfloor>- x\<rfloor> else \<lfloor>x\<rfloor>)
      else if rn = FPSCR_RN_PINF then \<lceil>x\<rceil>
      else \<lfloor>x\<rfloor>)"

text \<open>The same on sign and magnitude: the integer part, and one more when the rest asks for it.\<close>

definition goes_up :: "uint32 \<Rightarrow> bool \<Rightarrow> real \<Rightarrow> bool" where
  "goes_up rn s x \<longleftrightarrow>
     (if rn = FPSCR_RN_NEAR then 1 / 2 \<le> x - of_int \<lfloor>x\<rfloor>
      else if rn = FPSCR_RN_ZERO then False
      else if rn = FPSCR_RN_PINF then \<not> s \<and> x \<noteq> of_int \<lfloor>x\<rfloor>
      else s \<and> x \<noteq> of_int \<lfloor>x\<rfloor>)"

lemma ceiling_up: "\<lceil>x\<rceil> = \<lfloor>x\<rfloor> + (if x = of_int \<lfloor>x\<rfloor> then 0 else 1)" for x :: real
  by (simp add: ceiling_altdef)

lemma floor_half: "\<lfloor>x + 1 / 2\<rfloor> = \<lfloor>x\<rfloor> + (if 1 / 2 \<le> x - of_int \<lfloor>x\<rfloor> then 1 else 0)" for x :: real
  by (cases "1 / 2 \<le> x - of_int \<lfloor>x\<rfloor>"; simp; linarith)

lemma to_int_sign:
  assumes "0 \<le> x"
  shows "to_int_mode rn (sgn_of s * x) = (let n = \<lfloor>x\<rfloor> + (if goes_up rn s x then 1 else 0) in if s then - n else n)"
proof (cases "x = 0")
  case True
  then show ?thesis by (auto simp: to_int_mode_def goes_up_def Let_def)
next
  case False
  then have "0 < x" using assms by simp
  then show ?thesis
    using floor_half[of x] ceiling_up[of x]
    by (auto simp: to_int_mode_def goes_up_def sgn_of_def Let_def add.commute ceiling_minus floor_minus)
qed

lemma quotient_parts:
  fixes m :: nat
  assumes "0 < k"
  shows "\<lfloor>real m / 2 ^ k\<rfloor> = int (m div 2 ^ k)"
    "real m / 2 ^ k = of_int \<lfloor>real m / 2 ^ k\<rfloor> \<longleftrightarrow> m mod 2 ^ k = 0"
    "1 / 2 \<le> real m / 2 ^ k - of_int \<lfloor>real m / 2 ^ k\<rfloor> \<longleftrightarrow> 2 ^ (k - 1) \<le> m mod 2 ^ k"
proof -
  show f: "\<lfloor>real m / 2 ^ k\<rfloor> = int (m div 2 ^ k)"
    using floor_divide_of_nat_eq[of m "2 ^ k", where ?'a = real] by simp
  have "real m = real (m div 2 ^ k * 2 ^ k + m mod 2 ^ k)" by (simp only: div_mult_mod_eq)
  then have r: "real m / 2 ^ k = real (m div 2 ^ k) + real (m mod 2 ^ k) / 2 ^ k" by (simp add: add_divide_distrib)
  show "real m / 2 ^ k = of_int \<lfloor>real m / 2 ^ k\<rfloor> \<longleftrightarrow> m mod 2 ^ k = 0"
    unfolding f by (simp add: r)
  have "(2::real) ^ k = 2 * 2 ^ (k - 1)" using assms by (cases k) simp_all
  then have "1 / 2 \<le> real (m mod 2 ^ k) / 2 ^ k \<longleftrightarrow> 2 ^ (k - 1) \<le> real (m mod 2 ^ k)"
    by (simp add: field_simps)
  also have "\<dots> \<longleftrightarrow> 2 ^ (k - 1) \<le> m mod 2 ^ k" by (metis of_nat_le_iff of_nat_power of_nat_numeral)
  finally show "1 / 2 \<le> real m / 2 ^ k - of_int \<lfloor>real m / 2 ^ k\<rfloor> \<longleftrightarrow> 2 ^ (k - 1) \<le> m mod 2 ^ k"
    unfolding f by (simp add: r)
qed

lemma rest_bits:
  fixes m :: "'a::len word"
  assumes "k < LENGTH('a)" "0 < k"
  shows "m AND (push_bit k 1 - 1) \<noteq> 0 \<longleftrightarrow> unat m mod 2 ^ k \<noteq> 0"
    "m AND push_bit (k - 1) 1 \<noteq> 0 \<longleftrightarrow> 2 ^ (k - 1) \<le> unat m mod 2 ^ k"
proof -
  have "m AND (push_bit k 1 - 1) = take_bit k m"
    by (simp add: push_bit_eq_mult take_bit_eq_mask mask_eq_exp_minus_1)
  moreover have u: "unat (take_bit k m) = unat m mod 2 ^ k"
    unfolding unsigned_take_bit_eq by (simp add: take_bit_eq_mod)
  ultimately have "unat (m AND (push_bit k 1 - 1)) = unat m mod 2 ^ k" by simp
  then show "m AND (push_bit k 1 - 1) \<noteq> 0 \<longleftrightarrow> unat m mod 2 ^ k \<noteq> 0"
    by (metis unat_eq_zero)
  let ?t = "take_bit k m"
  have b: "unat ?t < 2 ^ (k - 1 + 1)" using assms(2) by (simp only: unsigned_take_bit_eq) (simp add: take_bit_nat_less_exp)
  have "m AND push_bit (k - 1) 1 = ?t AND push_bit (k - 1) 1"
    using assms(2) by (intro bit_word_eqI) (auto simp: bit_simps)
  then show "m AND push_bit (k - 1) 1 \<noteq> 0 \<longleftrightarrow> 2 ^ (k - 1) \<le> unat m mod 2 ^ k"
    using test_bit_top[OF b] u by simp
qed


lemma value_bound: "\<bar>fpr_value v\<bar> = magnitude v"
  using frac_range[of v] by (simp add: value_magnitude sgn_of_def magnitude_def abs_mult)

lemma rn_cases:
  obtains "FPSCR_RN fp = FPSCR_RN_NEAR" | "FPSCR_RN fp = FPSCR_RN_ZERO" | "FPSCR_RN fp = FPSCR_RN_PINF" | "FPSCR_RN fp = FPSCR_RN_MINF"
proof -
  have "unat (FPSCR_RN fp) < 4"
    using word_and_le1[of fp 3] by (simp add: FPSCR_RN_def word_le_nat_alt and.commute less_Suc_eq_le)
  then have "unat (FPSCR_RN fp) = unat FPSCR_RN_NEAR \<or> unat (FPSCR_RN fp) = unat FPSCR_RN_ZERO \<or>
    unat (FPSCR_RN fp) = unat FPSCR_RN_PINF \<or> unat (FPSCR_RN fp) = unat FPSCR_RN_MINF"
    by (auto simp: FPSCR_RN_NEAR_def FPSCR_RN_ZERO_def FPSCR_RN_PINF_def FPSCR_RN_MINF_def)
  then show thesis using that by (simp only: word_unat_eq_iff[symmetric]) blast
qed

lemma small_to_int:
  assumes "\<not> fpr_nan v" "d_type (ppc_fpu_unpack_double v) = ppc_fpr_norm" "d_e (ppc_fpu_unpack_double v) < 0"
  shows "ppc_fpu_double_to_int fp (ppc_fpu_unpack_double v) = word_of_int (to_int_mode (FPSCR_RN fp) (fpr_value v))"
proof -
  let ?e = "d_e (ppc_fpu_unpack_double v)"
  have nz: "d_type (ppc_fpu_unpack_double v) \<noteq> ppc_fpr_zero" using assms(2) by simp
  have b: "0 < magnitude v" "magnitude v < 1" "1 / 2 \<le> magnitude v \<longleftrightarrow> - 1 \<le> ?e"
  proof -
    show "0 < magnitude v" by (rule magnitude_pos[OF assms(1) nz])
    have l: "lead ?e + 1 \<le> 0" using lead_bounds(3)[OF assms(1) nz] assms(3) by (auto simp: lead_def)
    then have "magnitude v < p2 0" using lead_bounds(2)[OF assms(1) nz] p2_le by (meson less_le_trans)
    then show "magnitude v < 1" by (simp add: p2_def)
    have h: "p2 (- 1) = 1 / 2" by (simp add: p2_def)
    show "1 / 2 \<le> magnitude v \<longleftrightarrow> - 1 \<le> ?e"
    proof
      assume "- 1 \<le> ?e"
      then have "p2 (- 1) \<le> p2 (lead ?e)" using assms(3) by (simp add: p2_le lead_def)
      then show "1 / 2 \<le> magnitude v" using lead_bounds(1)[OF assms(1) nz] h by linarith
    next
      assume m: "1 / 2 \<le> magnitude v"
      show "- 1 \<le> ?e"
      proof (rule ccontr)
        assume "\<not> - 1 \<le> ?e"
        then have "p2 (lead ?e + 1) \<le> p2 (- 1)"
          using lead_bounds(3)[OF assms(1) nz] assms(3) by (auto simp: p2_le lead_def)
        then show False using lead_bounds(2)[OF assms(1) nz] m h by linarith
      qed
    qed
  qed
  then have f: "\<lfloor>magnitude v\<rfloor> = 0" by (simp add: floor_eq_iff)
  have "to_int_mode (FPSCR_RN fp) (fpr_value v) =
      (if goes_up (FPSCR_RN fp) (fpr_neg v) (magnitude v) then if fpr_neg v then - 1 else 1 else 0)"
    unfolding value_magnitude using b(1) by (subst to_int_sign) (auto simp: Let_def f)
  then show ?thesis
    using assms(2,3) b by (auto simp: ppc_fpu_double_to_int_def Let_def goes_up_def f unpack_neg)
qed

lemma middle_to_int:
  assumes "d_type (ppc_fpu_unpack_double v) = ppc_fpr_norm" "0 \<le> d_e (ppc_fpu_unpack_double v)" "d_e (ppc_fpu_unpack_double v) < 31"
  shows "ppc_fpu_double_to_int fp (ppc_fpu_unpack_double v) = word_of_int (to_int_mode (FPSCR_RN fp) (fpr_value v))"
proof -
  let ?d = "ppc_fpu_unpack_double v"
  define k where "k = nat (55 - d_e ?d)"
  have k: "0 < k" "k < 64" "d_e ?d - 55 = - int k" "nat (56 - d_e ?d - 1) = k" using assms(2,3) by (auto simp: k_def)
  define n where "n = unat (d_m ?d)"
  have g: "magnitude v = real n / 2 ^ k"
    unfolding unpack_magnitude[OF assms(1)] k(3) n_def by (simp add: p2_def power_int_minus divide_inverse)
  define up where "up = goes_up (FPSCR_RN fp) (fpr_neg v) (magnitude v)"
  have t: "to_int_mode (FPSCR_RN fp) (fpr_value v) =
      (let i = int (n div 2 ^ k) + (if up then 1 else 0) in if fpr_neg v then - i else i)"
  proof -
    have "0 \<le> magnitude v" by (simp add: g)
    from to_int_sign[OF this, of "FPSCR_RN fp" "fpr_neg v", folded value_magnitude up_def] show ?thesis
      unfolding g quotient_parts[OF k(1)] .
  qed
  define rest where "rest = (d_m ?d AND (push_bit k 1 - 1) \<noteq> 0)"
  define half where "half = (d_m ?d AND push_bit (k - 1) 1 \<noteq> 0)"
  have u: "up \<longleftrightarrow>
      (if FPSCR_RN fp = FPSCR_RN_NEAR then rest \<and> half
       else if FPSCR_RN fp = FPSCR_RN_ZERO then False
       else if FPSCR_RN fp = FPSCR_RN_PINF then \<not> fpr_neg v \<and> rest else fpr_neg v \<and> rest)"
  proof -
    have "2 ^ (k - 1) \<le> n mod 2 ^ k \<Longrightarrow> n mod 2 ^ k \<noteq> 0" by (metis le_zero_eq power_not_zero zero_neq_numeral)
    moreover have "rest \<longleftrightarrow> n mod 2 ^ k \<noteq> 0" "half \<longleftrightarrow> 2 ^ (k - 1) \<le> n mod 2 ^ k"
      unfolding rest_def half_def n_def using rest_bits[of k "d_m ?d"] k(1,2) by auto
    moreover have "magnitude v = of_int \<lfloor>magnitude v\<rfloor> \<longleftrightarrow> n mod 2 ^ k = 0"
      "1 / 2 \<le> magnitude v - of_int \<lfloor>magnitude v\<rfloor> \<longleftrightarrow> 2 ^ (k - 1) \<le> n mod 2 ^ k"
      using quotient_parts(2,3)[OF k(1), of n] unfolding g by blast+
    ultimately show ?thesis unfolding up_def goes_up_def by (auto simp only: split: if_split)
  qed
  have m: "word_of_int (int (n div 2 ^ k)) = drop_bit k (d_m ?d)"
    by (simp add: unat_drop[symmetric] n_def)
  have c: "ucast (word_of_int i :: uint64) = (word_of_int i :: uint32)" for i
    by (rule bit_word_eqI) (simp add: bit_simps)
  have "ppc_fpu_double_to_int fp ?d =
      ucast (if fpr_neg v then - (drop_bit k (d_m ?d) + (if up then 1 else 0)) else drop_bit k (d_m ?d) + (if up then 1 else 0))"
    using assms unfolding ppc_fpu_double_to_int_def Let_def unpack_neg k(4) rest_def[symmetric] half_def[symmetric]
    by (simp add: u)
  also have "\<dots> = ucast (word_of_int (to_int_mode (FPSCR_RN fp) (fpr_value v)) :: uint64)"
    unfolding t Let_def m[symmetric] by simp
  finally show ?thesis unfolding c .
qed

definition fctiw_result :: "uint32 \<Rightarrow> uint64 \<Rightarrow> uint32" where
  "fctiw_result rn v =
     (if \<bar>fpr_value v\<bar> < 2147483648 then word_of_int (to_int_mode rn (fpr_value v))
      else if fpr_neg v then 0x80000000 else 0x7fffffff)"

lemma double_to_int_value:
  assumes "\<not> fpr_nan v"
  shows "ppc_fpu_double_to_int fp (ppc_fpu_unpack_double v) = fctiw_result (FPSCR_RN fp) v"
proof (cases "d_type (ppc_fpu_unpack_double v) = ppc_fpr_zero")
  case True
  then have "fpr_value v = 0" by (simp add: value_magnitude zero_magnitude)
  then show ?thesis using True
    by (auto simp: fctiw_result_def ppc_fpu_double_to_int_def to_int_mode_def Let_def)
next
  case False
  let ?e = "d_e (ppc_fpu_unpack_double v)"
  have p: "p2 31 = 2147483648" by (simp add: p2_def)
  have big: "\<bar>fpr_value v\<bar> < 2147483648 \<longleftrightarrow> ?e < 31"
  proof
    assume "?e < 31"
    then have "lead ?e + 1 \<le> 31" by (simp add: lead_def)
    then show "\<bar>fpr_value v\<bar> < 2147483648"
      using lead_bounds(2)[OF assms False] p2_le unfolding value_bound p[symmetric] by (meson less_le_trans)
  next
    assume l: "\<bar>fpr_value v\<bar> < 2147483648"
    show "?e < 31"
    proof (rule ccontr)
      assume "\<not> ?e < 31"
      then have "p2 31 \<le> p2 (lead ?e)" using lead_bounds(3)[OF assms False] by (auto simp: p2_le lead_def)
      then show False using lead_bounds(1)[OF assms False] l unfolding value_bound p[symmetric] by linarith
    qed
  qed
  show ?thesis
  proof (cases "?e < 31")
    case True
    then have n: "d_type (ppc_fpu_unpack_double v) = ppc_fpr_norm" using lead_bounds(4)[OF assms False] by auto
    show ?thesis
      using small_to_int[OF assms n] middle_to_int[OF n] True big by (cases "?e < 0") (simp_all add: fctiw_result_def)
  next
    case False
    then have "ppc_fpu_double_to_int fp (ppc_fpu_unpack_double v) = out_of_range (ppc_fpu_unpack_double v)"
      using lead_bounds(4)[OF assms \<open>d_type (ppc_fpu_unpack_double v) \<noteq> ppc_fpr_zero\<close>]
      by (auto simp: ppc_fpu_double_to_int_def Let_def)
    then show ?thesis using False big by (simp add: fctiw_result_def out_of_range_def unpack_neg)
  qed
qed

end
