(* ===== verification/Ppc_Fpu_Nearest.thy ===== *)
theory Ppc_Fpu_Nearest
  imports Ppc_Fpu_Int
begin

text \<open>
  Correct rounding as a property of the result among all numbers of double precision, and how rounding a mantissa to an
  integer achieves it.
\<close>

unbundle bit_operations_syntax

definition fpr_finite :: "uint64 \<Rightarrow> bool" where "fpr_finite v \<longleftrightarrow> fpr_exp v \<noteq> 2047"

text \<open>\<open>r\<close> is the number that the rounding mode picks for the real number \<open>x\<close>: the closest one, of two equally close ones
  the one with an even fraction; or the closest that is not further from zero, not below, not above \<open>x\<close>.\<close>

definition correctly_rounded :: "uint32 \<Rightarrow> real \<Rightarrow> uint64 \<Rightarrow> bool" where
  "correctly_rounded rn x r \<longleftrightarrow> fpr_finite r \<and>
     (if rn = FPSCR_RN_NEAR then
        \<forall>w. fpr_finite w \<longrightarrow> \<bar>fpr_value r - x\<bar> \<le> \<bar>fpr_value w - x\<bar> \<and>
          (\<bar>fpr_value r - x\<bar> = \<bar>fpr_value w - x\<bar> \<and> fpr_value w \<noteq> fpr_value r \<longrightarrow> even (fpr_frac r))
      else if rn = FPSCR_RN_ZERO then
        \<bar>fpr_value r\<bar> \<le> \<bar>x\<bar> \<and> 0 \<le> fpr_value r * x \<and>
          (\<forall>w. fpr_finite w \<and> \<bar>fpr_value w\<bar> \<le> \<bar>x\<bar> \<longrightarrow> \<bar>fpr_value w\<bar> \<le> \<bar>fpr_value r\<bar>)
      else if rn = FPSCR_RN_PINF then
        x \<le> fpr_value r \<and> (\<forall>w. fpr_finite w \<and> x \<le> fpr_value w \<longrightarrow> fpr_value r \<le> fpr_value w)
      else fpr_value r \<le> x \<and> (\<forall>w. fpr_finite w \<and> fpr_value w \<le> x \<longrightarrow> fpr_value w \<le> fpr_value r))"

text \<open>A positive real number rounded to an integer, for a number with the sign \<open>s\<close>.\<close>

definition round_int :: "uint32 \<Rightarrow> bool \<Rightarrow> real \<Rightarrow> int" where
  "round_int rn s y =
     (if rn = FPSCR_RN_NEAR then
        \<lfloor>y\<rfloor> + (if 1 / 2 < y - of_int \<lfloor>y\<rfloor> \<or> y - of_int \<lfloor>y\<rfloor> = 1 / 2 \<and> odd \<lfloor>y\<rfloor> then 1 else 0)
      else if rn = FPSCR_RN_ZERO then \<lfloor>y\<rfloor>
      else if rn = FPSCR_RN_PINF then (if s then \<lfloor>y\<rfloor> else \<lceil>y\<rceil>)
      else (if s then \<lceil>y\<rceil> else \<lfloor>y\<rfloor>))"

subsection \<open>The grid of the numbers\<close>

lemma number_grid:
  assumes "fpr_finite w" "p2 E \<le> magnitude w" "- 1022 \<le> E"
  obtains j :: int where "magnitude w = of_int j * p2 (E - 52)" "2 ^ 52 \<le> j"
proof -
  have pE: "p2 E = 2 ^ 52 * p2 (E - 52)" using p2_scale[of 52 "E - 52"] by simp
  have normal: "fpr_exp w \<noteq> 0"
  proof
    assume "fpr_exp w = 0"
    then have "magnitude w = of_int (fpr_frac w) * p2 (- 1074)" by (simp add: magnitude_def)
    also have "\<dots> < 2 ^ 52 * p2 (- 1074)" using frac_range[of w] by simp
    also have "\<dots> = p2 (- 1022)" using p2_scale[of 52 "- 1074"] by simp
    also have "\<dots> \<le> p2 E" using assms(3) by (simp add: p2_le)
    finally show False using assms(2) by simp
  qed
  then have m: "magnitude w = of_int (2 ^ 52 + fpr_frac w) * p2 (fpr_exp w - 1075)" by (simp add: magnitude_def)
  have "E < fpr_exp w - 1022"
  proof -
    have "real_of_int (2 ^ 52 + fpr_frac w) < 2 ^ 53" using frac_range[of w] by simp
    then have "magnitude w < 2 ^ 53 * p2 (fpr_exp w - 1075)" unfolding m by (intro mult_strict_right_mono) simp_all
    also have "\<dots> = p2 (fpr_exp w - 1022)" using p2_scale[of 53 "fpr_exp w - 1075"] by simp
    finally have "p2 E < p2 (fpr_exp w - 1022)" using assms(2) by simp
    then show ?thesis by (simp add: p2_less)
  qed
  then have n: "fpr_exp w - 1075 = int (nat (fpr_exp w - 1023 - E)) + (E - 52)" (is "_ = int ?n + _") by simp
  have "magnitude w = of_int ((2 ^ 52 + fpr_frac w) * 2 ^ ?n) * p2 (E - 52)"
    unfolding m n p2_scale by simp
  moreover from this have "2 ^ 52 * p2 (E - 52) \<le> of_int ((2 ^ 52 + fpr_frac w) * 2 ^ ?n) * p2 (E - 52)"
    using assms(2) pE by simp
  then have "(2::int) ^ 52 \<le> (2 ^ 52 + fpr_frac w) * 2 ^ ?n"
    by (metis (mono_tags) mult_le_cancel_right_pos of_int_le_iff of_int_numeral of_int_power p2_pos)
  ultimately show thesis by (rule that)
qed

lemma nearest_int:
  fixes y :: real and j :: int and s :: bool
  defines "q \<equiv> round_int FPSCR_RN_NEAR s y"
  shows "\<bar>of_int q - y\<bar> \<le> \<bar>of_int j - y\<bar>"
    and "\<bar>of_int q - y\<bar> = \<bar>of_int j - y\<bar> \<Longrightarrow> j \<noteq> q \<Longrightarrow> even q"
proof -
  let ?f = "\<lfloor>y\<rfloor>"
  have f: "of_int ?f \<le> y" "y < of_int ?f + 1" by linarith+
  have j: "j \<le> ?f \<or> ?f + 1 \<le> j" by linarith
  then have jr: "(of_int j :: real) \<le> of_int ?f \<or> of_int ?f + 1 \<le> (of_int j :: real)" by (metis of_int_1 of_int_add of_int_le_iff)
  show "\<bar>of_int q - y\<bar> \<le> \<bar>of_int j - y\<bar>"
    using jr f unfolding q_def round_int_def by (auto split: if_splits)
  show "even q" if "\<bar>of_int q - y\<bar> = \<bar>of_int j - y\<bar>" "j \<noteq> q"
  proof (rule ccontr)
    assume o: "odd q"
    have "y - of_int ?f \<noteq> 1 / 2" using o unfolding q_def round_int_def by (auto split: if_splits)
    then show False using that jr f unfolding q_def round_int_def by (auto split: if_splits)
  qed
qed


lemma sgn_of_square [simp]: "sgn_of s * sgn_of s = 1" "sgn_of s * (sgn_of s * x) = x"
  by (simp_all add: sgn_of_def)

lemma grid_cases:
  assumes "fpr_finite w" "- 1022 \<le> E"
  obtains (small) y where "fpr_value w = sgn_of s * (y * p2 (E - 52))" "y < 2 ^ 52"
    | (grid) j :: int where "fpr_value w = sgn_of s * (of_int j * p2 (E - 52))" "2 ^ 52 \<le> j"
proof (cases "s = fpr_neg w \<and> p2 E \<le> magnitude w")
  case True
  then obtain j :: int where "magnitude w = of_int j * p2 (E - 52)" "2 ^ 52 \<le> j"
    using number_grid[OF assms(1) _ assms(2)] by metis
  then show thesis using True by (intro grid) (simp_all add: value_magnitude)
next
  case False
  have pE: "p2 E = 2 ^ 52 * p2 (E - 52)" using p2_scale[of 52 "E - 52"] by simp
  have nn: "0 \<le> magnitude w" using frac_range[of w] by (simp add: magnitude_def)
  let ?y = "sgn_of s * fpr_value w / p2 (E - 52)"
  have "sgn_of s * fpr_value w < p2 E"
  proof (cases "s = fpr_neg w")
    case True
    then show ?thesis using False by (simp add: value_magnitude)
  next
    case False
    then have "sgn_of s * fpr_value w = - magnitude w" by (auto simp: value_magnitude sgn_of_def)
    then show ?thesis using nn p2_pos[of E] by linarith
  qed
  then have "?y < 2 ^ 52" unfolding pE by (simp add: divide_less_eq)
  moreover have "fpr_value w = sgn_of s * (?y * p2 (E - 52))" by simp
  ultimately show thesis by (rule small[rotated])
qed

lemma correctly_roundedI:
  fixes y :: real and E :: int
  defines "u \<equiv> p2 (E - 52)"
  assumes x: "x = sgn_of s * (y * u)" and y: "2 ^ 52 \<le> y" and E: "- 1022 \<le> E" and fin: "fpr_finite r"
    and r: "fpr_value r = sgn_of s * (of_int (round_int rn s y) * u)"
    and even: "even (round_int rn s y) \<Longrightarrow> even (fpr_frac r)"
  shows "correctly_rounded rn x r"
proof -
  have u: "0 < u" by (simp add: u_def)
  have diff: "\<bar>sgn_of s * (a * u) - sgn_of s * (b * u)\<bar> = \<bar>a - b\<bar> * u" for a b
  proof -
    have "sgn_of s * (a * u) - sgn_of s * (b * u) = sgn_of s * ((a - b) * u)" by (simp add: algebra_simps)
    then show ?thesis using u by (simp add: abs_mult sgn_of_def)
  qed
  have abs: "\<bar>sgn_of s' * (a * u)\<bar> = \<bar>a\<bar> * u" for a s' using u by (simp add: sgn_of_def abs_mult)
  have near: "\<bar>fpr_value r - x\<bar> \<le> \<bar>fpr_value w - x\<bar> \<and>
      (\<bar>fpr_value r - x\<bar> = \<bar>fpr_value w - x\<bar> \<and> fpr_value w \<noteq> fpr_value r \<longrightarrow> even (fpr_frac r))"
    if w: "fpr_finite w" and n: "rn = FPSCR_RN_NEAR" for w
  proof (rule grid_cases[OF w E, where s = s])
    fix z assume z: "fpr_value w = sgn_of s * (z * p2 (E - 52))" "z < 2 ^ 52"
    have "\<bar>of_int (round_int rn s y) - y\<bar> \<le> \<bar>of_int (2 ^ 52) - y\<bar>"
      using nearest_int(1)[of s y "2 ^ 52"] n by simp
    also have "\<dots> < \<bar>z - y\<bar>" using z(2) y by simp
    finally show ?thesis unfolding x r z(1) u_def[symmetric] diff using u by simp
  next
    fix j :: int assume j: "fpr_value w = sgn_of s * (of_int j * p2 (E - 52))"
    have "\<bar>of_int (round_int rn s y) - y\<bar> \<le> \<bar>of_int j - y\<bar>"
      using nearest_int(1)[of s y j] n by simp
    moreover have "even (round_int rn s y)" if "\<bar>of_int (round_int rn s y) - y\<bar> = \<bar>of_int j - y\<bar>" "j \<noteq> round_int rn s y"
      using nearest_int(2)[of s y j] that n by simp
    ultimately show ?thesis unfolding x r j u_def[symmetric] diff using u even by auto
  qed
  have cancel: "z = z'" if "sgn_of s' * (z * u) = sgn_of s' * (z' * p2 (E - 52))" for z z' s'
    using that u by (simp add: u_def[symmetric] sgn_of_def split: if_splits)
  have below: "z \<le> of_int \<lfloor>y\<rfloor>" if "fpr_finite w" "fpr_value w = sgn_of s' * (z * u)" "z \<le> y" for w z s'
  proof (rule grid_cases[OF that(1) E, where s = s'])
    fix z' assume "fpr_value w = sgn_of s' * (z' * p2 (E - 52))" "z' < 2 ^ 52"
    then have "z < 2 ^ 52" using cancel that(2) by metis
    moreover have "(2::real) ^ 52 \<le> of_int \<lfloor>y\<rfloor>"
    proof -
      have "2 ^ 52 \<le> \<lfloor>y\<rfloor>" using y by (simp add: le_floor_iff)
      then show ?thesis by (metis of_int_le_iff of_int_numeral of_int_power)
    qed
    ultimately show ?thesis by linarith
  next
    fix j :: int assume "fpr_value w = sgn_of s' * (of_int j * p2 (E - 52))"
    then have "z = of_int j" using cancel that(2) by metis
    then show ?thesis using that(3) by (simp add: le_floor_iff)
  qed
  have above: "of_int \<lceil>y\<rceil> \<le> z" if "fpr_finite w" "fpr_value w = sgn_of s * (z * u)" "y \<le> z" for w z
  proof (rule grid_cases[OF that(1) E, where s = s])
    fix z' assume "fpr_value w = sgn_of s * (z' * p2 (E - 52))" "z' < 2 ^ 52"
    then have "z < 2 ^ 52" using cancel that(2) by metis
    then show ?thesis using y that(3) by linarith
  next
    fix j :: int assume "fpr_value w = sgn_of s * (of_int j * p2 (E - 52))"
    then have "z = of_int j" using cancel that(2) by metis
    then show ?thesis using that(3) by (simp add: ceiling_le_iff)
  qed
  have scaled: "\<exists>z. fpr_value w = sgn_of s' * (z * u)" for w s'
    using u by (intro exI[of _ "sgn_of s' * fpr_value w / u"]) simp
  have "0 \<le> y" using y by (rule order_trans[rotated]) simp
  then have fl: "0 \<le> \<lfloor>y\<rfloor>" "of_int \<lfloor>y\<rfloor> \<le> y" "y \<le> of_int \<lceil>y\<rceil>" by linarith+
  consider "rn = FPSCR_RN_NEAR" | (zero) "rn \<noteq> FPSCR_RN_NEAR" "rn = FPSCR_RN_ZERO"
    | (down) "rn \<noteq> FPSCR_RN_NEAR" "rn \<noteq> FPSCR_RN_ZERO" "(rn = FPSCR_RN_PINF) = s"
    | (up) "rn \<noteq> FPSCR_RN_NEAR" "rn \<noteq> FPSCR_RN_ZERO" "(rn = FPSCR_RN_PINF) \<noteq> s" by blast
  then show ?thesis
  proof cases
    case 1
    then show ?thesis using near fin by (simp add: correctly_rounded_def)
  next
    case zero
    then have v: "fpr_value r = sgn_of s * (of_int \<lfloor>y\<rfloor> * u)" using r by (simp add: round_int_def)
    have "\<bar>fpr_value w\<bar> \<le> \<bar>fpr_value r\<bar>" if w: "fpr_finite w" "\<bar>fpr_value w\<bar> \<le> \<bar>x\<bar>" for w
    proof -
      define s' where "s' = (fpr_value w < 0)"
      obtain z where z: "fpr_value w = sgn_of s' * (z * u)" using scaled by blast
      then have "0 \<le> z * u" by (auto simp: s'_def sgn_of_def split: if_splits)
      then have z0: "0 \<le> z" using u by (simp add: zero_le_mult_iff)
      have "z \<le> y" using w(2) z0 y u unfolding x z abs by simp
      from below[OF w(1) z this] show ?thesis using z0 fl u unfolding v z abs by simp
    qed
    moreover have "\<bar>fpr_value r\<bar> \<le> \<bar>x\<bar>" using fl u unfolding v x abs by simp
    moreover have "0 \<le> fpr_value r * x"
    proof -
      have "fpr_value r * x = (of_int \<lfloor>y\<rfloor> * u) * (y * u) * (sgn_of s * sgn_of s)" unfolding v x by (simp only: ac_simps)
      then show ?thesis using fl u by simp
    qed
    ultimately show ?thesis using zero fin by (simp add: correctly_rounded_def)
  next
    case down
    then have v: "fpr_value r = sgn_of s * (of_int \<lfloor>y\<rfloor> * u)" using r by (auto simp: round_int_def)
    have b: "z * u \<le> of_int \<lfloor>y\<rfloor> * u" if "fpr_finite w" "fpr_value w = sgn_of s * (z * u)" "z \<le> y" for w z
      using below[OF that] u by simp
    show ?thesis
    proof (cases s)
      case True
      have "fpr_value r \<le> fpr_value w" if w: "fpr_finite w" "x \<le> fpr_value w" for w
      proof -
        obtain z where z: "fpr_value w = sgn_of s * (z * u)" using scaled by blast
        have "z \<le> y" using w(2) True u unfolding x z by (simp add: sgn_of_def)
        from b[OF w(1) z this] show ?thesis unfolding v z using True by (simp add: sgn_of_def)
      qed
      then show ?thesis using down True fin fl u by (simp add: correctly_rounded_def v x sgn_of_def)
    next
      case False
      have "fpr_value w \<le> fpr_value r" if w: "fpr_finite w" "fpr_value w \<le> x" for w
      proof -
        obtain z where z: "fpr_value w = sgn_of s * (z * u)" using scaled by blast
        have "z \<le> y" using w(2) False u unfolding x z by (simp add: sgn_of_def)
        from b[OF w(1) z this] show ?thesis unfolding v z using False by (simp add: sgn_of_def)
      qed
      then show ?thesis using down False fin fl u by (simp add: correctly_rounded_def v x sgn_of_def)
    qed
  next
    case up
    then have v: "fpr_value r = sgn_of s * (of_int \<lceil>y\<rceil> * u)" using r by (auto simp: round_int_def)
    have b: "of_int \<lceil>y\<rceil> * u \<le> z * u" if "fpr_finite w" "fpr_value w = sgn_of s * (z * u)" "y \<le> z" for w z
      using above[OF that] u by simp
    show ?thesis
    proof (cases s)
      case True
      have "fpr_value w \<le> fpr_value r" if w: "fpr_finite w" "fpr_value w \<le> x" for w
      proof -
        obtain z where z: "fpr_value w = sgn_of s * (z * u)" using scaled by blast
        have "y \<le> z" using w(2) True u unfolding x z by (simp add: sgn_of_def)
        from b[OF w(1) z this] show ?thesis unfolding v z using True by (simp add: sgn_of_def)
      qed
      then show ?thesis using up True fin fl u by (simp add: correctly_rounded_def v x sgn_of_def)
    next
      case False
      have "fpr_value r \<le> fpr_value w" if w: "fpr_finite w" "x \<le> fpr_value w" for w
      proof -
        obtain z where z: "fpr_value w = sgn_of s * (z * u)" using scaled by blast
        have "y \<le> z" using w(2) False u unfolding x z by (simp add: sgn_of_def)
        from b[OF w(1) z this] show ?thesis unfolding v z using False by (simp add: sgn_of_def)
      qed
      then show ?thesis using up False fin fl u by (simp add: correctly_rounded_def v x sgn_of_def)
    qed
  qed
qed

end
