(* ===== verification/Ppc_Fpu_Div.thy ===== *)
theory Ppc_Fpu_Div
  imports Ppc_Fpu_Nearest
begin

text \<open>
  Rounding with a sticky bit is exact rounding, and division: the digits of the quotient, its sticky bit, and the correctly
  rounded result.
\<close>

unbundle bit_operations_syntax

subsection \<open>Sticky mantissas\<close>

text \<open>The mantissa \<open>m\<close> is \<open>y\<close>, or its last bit is set and stands for what is cut off.\<close>

definition sticky :: "nat \<Rightarrow> real \<Rightarrow> bool" where
  "sticky m y \<longleftrightarrow> y = real m \<or> odd m \<and> real m - 1 < y \<and> y < real m + 1"

lemma sticky_round:
  assumes "sticky m y"
  shows "int (rounded rn s m) = round_int rn s (y / 8)"
proof -
  define q r where "q = m div 8" and "r = m mod 8"
  have m: "m = 8 * q + r" "r < 8" by (simp_all add: q_def r_def)
  then have mr: "real m = 8 * real q + real r" by simp
  have o: "odd m \<longleftrightarrow> odd r" using m(1) by simp
  have rs: "r = 0 \<or> r = 1 \<or> r = 2 \<or> r = 3 \<or> r = 4 \<or> r = 5 \<or> r = 6 \<or> r = 7" using m(2) by linarith
  have lo: "real q \<le> y / 8" and hi: "y / 8 < real q + 1"
    using assms rs unfolding sticky_def o mr by auto
  then have f: "\<lfloor>y / 8\<rfloor> = int q" by (intro floor_unique) simp_all
  have z: "y / 8 = of_int \<lfloor>y / 8\<rfloor> \<longleftrightarrow> r = 0"
    using assms rs unfolding sticky_def o mr f by auto
  have half: "1 / 2 < y / 8 - of_int \<lfloor>y / 8\<rfloor> \<longleftrightarrow> 8 * real q + 4 < y"
    "y / 8 - of_int \<lfloor>y / 8\<rfloor> = 1 / 2 \<longleftrightarrow> y = 8 * real q + 4"
    unfolding f of_int_of_nat_eq by linarith+
  have h: "1 / 2 < y / 8 - of_int \<lfloor>y / 8\<rfloor> \<longleftrightarrow> 4 < r" "y / 8 - of_int \<lfloor>y / 8\<rfloor> = 1 / 2 \<longleftrightarrow> r = 4"
    using assms rs unfolding sticky_def o mr half by auto
  have c: "\<lceil>y / 8\<rceil> = int q + (if r = 0 then 0 else 1)" using z f ceiling_up[of "y / 8"] by simp
  show ?thesis
    unfolding rounded_def rounds_up_def round_int_def h c q_def[symmetric] r_def[symmetric] unfolding f by simp
qed

lemma sticky_lower:
  assumes "sticky m y" "even n" "n \<le> m"
  shows "real n \<le> y"
proof (cases "odd m")
  case True
  then have "n + 1 \<le> m" using assms(2,3) by (metis Suc_eq_plus1 Suc_leI le_neq_implies_less)
  then have "real n + 1 \<le> real m" by (metis of_nat_1 of_nat_add of_nat_le_iff)
  then show ?thesis using assms(1) by (auto simp: sticky_def)
qed (use assms in \<open>simp add: sticky_def\<close>)

lemma value_normal:
  "fpr_exp v \<noteq> 0 \<Longrightarrow> fpr_value v = sgn_of (fpr_neg v) * (of_int (2 ^ 52 + fpr_frac v) * p2 (fpr_exp v - 1075))"
  by (simp add: fpr_value_def)

lemma pack_rounds:
  fixes fp :: uint32
  assumes "d_type d = ppc_fpr_norm" "2 ^ 55 \<le> unat (d_m d)" "unat (d_m d) < 2 ^ 56" "- 1022 \<le> d_e d"
    and rd: "int (rounded (FPSCR_RN fp) (d_s d \<noteq> 0) (unat (d_m d))) = round_int (FPSCR_RN fp) (d_s d \<noteq> 0) (y / 8)"
    and y: "2 ^ 52 \<le> y / 8" and x: "x = sgn_of (d_s d \<noteq> 0) * (y / 8 * p2 (d_e d - 52))"
    and fin: "fpr_finite (snd (ppc_fpu_pack_double fp d))"
  shows "correctly_rounded (FPSCR_RN fp) x (snd (ppc_fpu_pack_double fp d))"
proof (rule correctly_roundedI[OF x])
  let ?s = "d_s d \<noteq> 0" and ?r = "snd (ppc_fpu_pack_double fp d)"
  define q where "q = rounded (FPSCR_RN fp) ?s (unat (d_m d))"
  have qr: "round_int (FPSCR_RN fp) ?s (y / 8) = int q" unfolding q_def by (rule rd[symmetric])
  have qb: "2 ^ 52 \<le> q" "q \<le> 2 ^ 53" using rounded_bounds[of "2 ^ 52" "unat (d_m d)" "2 ^ 53"] assms(2,3) by (simp_all add: q_def)
  have e: "0 < d_e d + 1023" using assms(4) by simp
  note pack = pack_normal[OF assms(1-3) e, of fp, folded q_def]
  have "\<not> 2047 \<le> d_e d + 1023 + (if q = 2 ^ 53 then 1 else 0)"
    using pack(3) fin by (auto simp: packed_def fpr_finite_def)
  then consider "q < 2 ^ 53" "d_e d + 1023 < 2047" | "q = 2 ^ 53" "d_e d + 1024 < 2047"
    using qb by (cases "q = 2 ^ 53") auto
  then have v: "fpr_value ?r = sgn_of ?s * (of_nat q * p2 (d_e d - 52)) \<and> (even q \<longrightarrow> even (fpr_frac ?r))"
  proof cases
    case 1
    from pack(1)[OF this] have p: "fpr_neg ?r = ?s" "fpr_exp ?r = d_e d + 1023" "fpr_frac ?r = int (q - 2 ^ 52)"
      unfolding packed_def by simp_all
    have "2 ^ 52 + fpr_frac ?r = int q" using qb(1) p(3) by simp
    then have "fpr_value ?r = sgn_of ?s * (of_int (int q) * p2 (d_e d + 1023 - 1075))"
      using e value_normal[of ?r] unfolding p(1,2) by simp
    moreover have "even q \<longrightarrow> even (fpr_frac ?r)" using qb(1) unfolding p(3) by simp
    ultimately show ?thesis by simp
  next
    case 2
    from pack(2)[OF this] have p: "fpr_neg ?r = ?s" "fpr_exp ?r = d_e d + 1024" "fpr_frac ?r = 0"
      unfolding packed_def by simp_all
    have "fpr_value ?r = sgn_of ?s * (2 ^ 52 * p2 (d_e d + 1024 - 1075))"
      using e value_normal[of ?r] unfolding p by simp
    also have "2 ^ 52 * p2 (d_e d + 1024 - 1075) = 2 ^ 53 * p2 (d_e d - 52)"
      using p2_scale[of 52 "d_e d - 51"] p2_scale[of 53 "d_e d - 52"] by simp
    finally show ?thesis using 2(1) p(3) by simp
  qed
  then show "fpr_value ?r = sgn_of ?s * (of_int (round_int (FPSCR_RN fp) ?s (y / 8)) * p2 (d_e d - 52))"
    unfolding qr by simp
  show "even (round_int (FPSCR_RN fp) ?s (y / 8)) \<Longrightarrow> even (fpr_frac ?r)" using v unfolding qr by simp
  show "2 ^ 52 \<le> y / 8" "- 1022 \<le> d_e d" "fpr_finite ?r" using y assms(4) fin .
qed

lemma pack_sticky:
  fixes fp :: uint32
  assumes "d_type d = ppc_fpr_norm" "2 ^ 55 \<le> unat (d_m d)" "unat (d_m d) < 2 ^ 56" "- 1022 \<le> d_e d"
    and y: "sticky (unat (d_m d)) y" and x: "x = sgn_of (d_s d \<noteq> 0) * (y / 8 * p2 (d_e d - 52))"
    and fin: "fpr_finite (snd (ppc_fpu_pack_double fp d))"
  shows "correctly_rounded (FPSCR_RN fp) x (snd (ppc_fpu_pack_double fp d))"
proof (rule pack_rounds[OF assms(1-4) sticky_round[OF y] _ x fin])
  have "real (2 ^ 55) \<le> y" by (rule sticky_lower[OF y _ assms(2)]) simp
  then show "2 ^ 52 \<le> y / 8" by simp
qed

subsection \<open>The digits of the quotient\<close>

text \<open>After each step the dividend is twice what remains, below twice the divisor.\<close>

lemma div_loop_digits:
  assumes "div_loop n am bm rm = (am', rm', left)" "unat am < 2 * unat bm" "0 < unat bm" "unat bm < 2 ^ 62"
    "unat rm < 2 ^ (56 - n)" "n \<le> 56"
  shows "left \<le> n \<and> (am' \<noteq> 0 \<longleftrightarrow> unat am * 2 ^ n mod (2 * unat bm) \<noteq> 0) \<and>
    unat rm' * 2 ^ left = unat rm * 2 ^ n + unat am * 2 ^ n div (2 * unat bm)"
  using assms
proof (induction n arbitrary: am rm)
  case 0
  then show ?case by (simp add: unat_eq_0)
next
  case (Suc n)
  show ?case
  proof (cases "am = 0")
    case True
    then show ?thesis using Suc.prems(1) by (auto simp: mult.commute)
  next
    case False
    let ?A = "unat am" and ?B = "unat bm"
    define b :: nat where "b = (if bm \<le> am then 1 else 0)"
    define am1 where "am1 = (if bm \<le> am then am - bm else am)"
    define rm1 where "rm1 = (if bm \<le> am then push_bit 1 rm OR 1 else push_bit 1 rm)"
    have step: "div_loop n (push_bit 1 am1) bm rm1 = (am', rm', left)"
      using Suc.prems(1) False by (simp add: am1_def rm1_def Let_def split: if_splits)
    have a1: "unat am1 = ?A - b * ?B" "b * ?B \<le> ?A" "?A - b * ?B < ?B"
      using Suc.prems(2) by (auto simp: am1_def b_def unat_sub word_le_nat_alt)
    have a2: "unat (push_bit 1 am1) = 2 * unat am1"
      using unat_push[of am1 1] a1 Suc.prems(4) by simp
    have lt: "unat rm < 2 ^ (55 - n)" using Suc.prems(5) by simp
    also have "(2::nat) ^ (55 - n) \<le> 2 ^ 55" by (intro power_increasing) auto
    finally have r55: "unat rm < 2 ^ 55" .
    have p: "unat (push_bit 1 rm) = 2 * unat rm" using unat_push[of rm 1] r55 by simp
    have "push_bit 1 rm OR 1 = push_bit 1 rm + 1"
    proof (rule disjunctive_add[symmetric])
      show "\<not> bit (push_bit 1 rm) k \<or> \<not> bit (1 :: uint64) k" for k
        unfolding bit_push_bit_iff bit_1_iff by auto
    qed
    then have r1: "unat rm1 = 2 * unat rm + b"
      using p r55 by (simp add: rm1_def b_def unat_word_ariths)
    have n: "56 - n = Suc (55 - n)" using Suc.prems(6) by simp
    have rl: "unat rm1 < 2 ^ (56 - n)" unfolding n power_Suc r1 using lt by (auto simp: b_def)
    have IH: "left \<le> n \<and> (am' \<noteq> 0 \<longleftrightarrow> unat (push_bit 1 am1) * 2 ^ n mod (2 * ?B) \<noteq> 0) \<and>
        unat rm' * 2 ^ left = unat rm1 * 2 ^ n + unat (push_bit 1 am1) * 2 ^ n div (2 * ?B)"
    proof (rule Suc.IH[OF step])
      show "unat (push_bit 1 am1) < 2 * ?B" using a1 a2 by simp
      show "n \<le> 56" using Suc.prems(6) by simp
    qed (use rl Suc.prems in auto)
    have A: "?A * 2 ^ Suc n = unat (push_bit 1 am1) * 2 ^ n + b * 2 ^ n * (2 * ?B)"
      unfolding a2 a1(1) using a1(2) by (simp add: algebra_simps diff_mult_distrib)
    have d: "?A * 2 ^ Suc n div (2 * ?B) = unat (push_bit 1 am1) * 2 ^ n div (2 * ?B) + b * 2 ^ n"
      unfolding A using Suc.prems(3) by simp
    have "?A * 2 ^ Suc n mod (2 * ?B) = unat (push_bit 1 am1) * 2 ^ n mod (2 * ?B)"
      unfolding A by simp
    then show ?thesis using IH unfolding d r1 by (simp add: algebra_simps)
  qed
qed

lemma div_quotient:
  assumes l: "div_loop 56 am bm 0 = (am', rm, left)"
    and a: "2 ^ 55 \<le> unat am" "unat am < 2 ^ 56" and b: "2 ^ 55 \<le> unat bm" "unat bm < 2 ^ 56"
  shows "unat (push_bit (left + 1) rm) = 2 * (unat am * 2 ^ 55 div unat bm)" "am' \<noteq> 0 \<longleftrightarrow> unat am * 2 ^ 55 mod unat bm \<noteq> 0"
proof -
  have e: "x * 2 ^ 56 div (2 * y) = x * 2 ^ 55 div y" "x * 2 ^ 56 mod (2 * y) = 2 * (x * 2 ^ 55 mod y)" for x y :: nat
  proof -
    have "x * 2 ^ 56 = 2 * (x * 2 ^ 55)" by simp
    then show "x * 2 ^ 56 div (2 * y) = x * 2 ^ 55 div y" "x * 2 ^ 56 mod (2 * y) = 2 * (x * 2 ^ 55 mod y)"
      by (simp_all only: div_mult_mult1_if mult_mod_right) simp
  qed
  have "left \<le> 56 \<and> (am' \<noteq> 0 \<longleftrightarrow> unat am * 2 ^ 56 mod (2 * unat bm) \<noteq> 0) \<and>
      unat rm * 2 ^ left = unat (0 :: uint64) * 2 ^ 56 + unat am * 2 ^ 56 div (2 * unat bm)"
    by (rule div_loop_digits[OF l]) (use a b in simp_all)
  then have d: "am' \<noteq> 0 \<longleftrightarrow> unat am * 2 ^ 55 mod unat bm \<noteq> 0" "unat rm * 2 ^ left = unat am * 2 ^ 55 div unat bm"
    unfolding e by simp_all
  have q: "unat am * 2 ^ 55 div unat bm < 2 ^ 56"
  proof -
    have "unat am * 2 ^ 55 < 2 ^ 56 * unat bm"
      using mult_less_le_imp_less[of "unat am" "2 ^ 56" "2 ^ 55" "unat bm"] a b by simp
    then show ?thesis using b(1) by (simp add: div_less_iff_less_mult)
  qed
  show "am' \<noteq> 0 \<longleftrightarrow> unat am * 2 ^ 55 mod unat bm \<noteq> 0" by (rule d)
  have "unat rm * 2 ^ (left + 1) = 2 * (unat am * 2 ^ 55 div unat bm)" using d(2) by simp
  then show "unat (push_bit (left + 1) rm) = 2 * (unat am * 2 ^ 55 div unat bm)"
    using unat_push[of rm "left + 1"] q by simp
qed

lemma or_one: "unat (m OR 1) = unat m + (if odd (unat m) then 0 else 1)" for m :: uint64
proof (cases "bit m 0")
  case True
  then have "m OR 1 = m" by (intro bit_word_eqI) (auto simp: bit_or_iff bit_1_iff)
  moreover have "bit (unat m) 0" using True unfolding bit_unsigned_iff by (simp only: possible_bit_0)
  ultimately show ?thesis by (simp add: bit_0)
next
  case False
  then have o: "even (unat m)" by (metis bit_0 bit_unsigned_iff)
  have "m OR 1 = m + 1" by (rule disjunctive_add[symmetric]) (use False in \<open>auto simp: bit_1_iff intro!: gr0I\<close>)
  moreover have "unat m + 1 < 2 ^ 64"
  proof -
    have "unat m < 2 ^ 64" using unsigned_less[of m, where ?'a = nat] by simp
    moreover have "unat m \<noteq> 2 ^ 64 - 1" using o by auto
    ultimately show ?thesis by simp
  qed
  ultimately show ?thesis using o by (simp add: unat_word_ariths)
qed

text \<open>The last bit set for what is cut off, of \<open>t\<close> or of the half of \<open>t\<close>.\<close>

lemma sticky_quotient:
  fixes x y :: nat
  assumes "0 < y"
  shows "sticky (2 * (x div y) + (if x mod y \<noteq> 0 then 1 else 0)) (2 * (real x / real y))"
    and "sticky (x div y + (if x mod y \<noteq> 0 \<and> even (x div y) then 1 else 0)) (real x / real y)"
proof -
  have xy: "real x = real y * real (x div y) + real (x mod y)"
    by (metis mult_div_mod_eq of_nat_add of_nat_mult)
  have "real (x mod y) < real y" using assms by simp
  then have lo: "real (x div y) \<le> real x / real y" and hi: "real x / real y < real (x div y) + 1"
    unfolding xy using assms by (simp_all add: field_simps)
  have ex: "real x / real y = real (x div y) \<longleftrightarrow> x mod y = 0"
    unfolding xy using assms by (simp add: field_simps)
  then have lo': "x mod y \<noteq> 0 \<Longrightarrow> real (x div y) < real x / real y" using lo by linarith
  show "sticky (2 * (x div y) + (if x mod y \<noteq> 0 then 1 else 0)) (2 * (real x / real y))"
    using ex lo' hi unfolding sticky_def by auto
  show "sticky (x div y + (if x mod y \<noteq> 0 \<and> even (x div y) then 1 else 0)) (real x / real y)"
    using ex lo' hi unfolding sticky_def by auto
qed

text \<open>The result of a division of normal numbers, for the quotient \<open>y / 8 * 2\<^sup>e\<close>.\<close>

lemma div_norm_sticky:
  fixes res a b :: ppc_double
  assumes a: "2 ^ 55 \<le> unat (d_m a)" "unat (d_m a) < 2 ^ 56" and b: "2 ^ 55 \<le> unat (d_m b)" "unat (d_m b) < 2 ^ 56"
  defines "d \<equiv> div_norm res a b"
  obtains y where "sticky (unat (d_m d)) y" "2 ^ 55 \<le> unat (d_m d)" "unat (d_m d) < 2 ^ 56" "y < 2 ^ 56"
    "real (unat (d_m a)) / real (unat (d_m b)) * p2 (d_e a - d_e b) = y / 8 * p2 (d_e d - 52)"
    "d_type d = ppc_fpr_norm" "d_s d = d_s res"
proof -
  define x z where "x = unat (d_m a) * 2 ^ 55" and "z = unat (d_m b)"
  have z: "0 < z" using b(1) by (simp add: z_def)
  obtain am' rm left where l: "div_loop 56 (d_m a) (d_m b) 0 = (am', rm, left)" by (metis prod_cases3)
  define m where "m = push_bit (left + 1) rm"
  have m: "unat m = 2 * (x div z)" and s: "am' \<noteq> 0 \<longleftrightarrow> x mod z \<noteq> 0"
    using div_quotient[OF l a b] by (simp_all add: m_def x_def z_def)
  have r: "real (unat (d_m a)) / real z = real x / real z / 2 ^ 55" by (simp add: x_def)
  have hi: "x < 2 ^ 56 * z" unfolding x_def z_def
    using mult_less_le_imp_less[of "unat (d_m a)" "2 ^ 56" "2 ^ 55" "unat (d_m b)"] a b by simp
  have lo: "2 ^ 54 * z \<le> x" unfolding x_def z_def
  proof -
    have "2 ^ 54 * unat (d_m b) \<le> 2 ^ 54 * 2 ^ 56" using b(2) by simp
    also have "\<dots> = 2 ^ 55 * (2::nat) ^ 55" by simp
    also have "\<dots> \<le> unat (d_m a) * 2 ^ 55" using a(1) by simp
    finally show "2 ^ 54 * unat (d_m b) \<le> unat (d_m a) * 2 ^ 55" .
  qed
  have qhi: "x div z < 2 ^ 56" using hi z by (simp add: div_less_iff_less_mult)
  have qlo: "2 ^ 54 \<le> x div z" using lo z by (simp add: less_eq_div_iff_mult_less_eq)
  have t: "m AND push_bit 56 1 \<noteq> 0 \<longleftrightarrow> 2 ^ 55 \<le> x div z"
  proof -
    have "m AND push_bit 56 1 \<noteq> 0 \<longleftrightarrow> 2 ^ 56 \<le> unat m" by (rule test_bit_top) (use m qhi in simp)
    then show ?thesis unfolding m by simp
  qed
  have d: "d = (if 2 ^ 55 \<le> x div z then res\<lparr>d_type := ppc_fpr_norm, d_e := d_e a - d_e b,
        d_m := if am' \<noteq> 0 then drop_bit 1 m OR 1 else drop_bit 1 m\<rparr>
      else res\<lparr>d_type := ppc_fpr_norm, d_e := d_e a - d_e b - 1, d_m := if am' \<noteq> 0 then m OR 1 else m\<rparr>)"
    unfolding d_def div_norm_def l using t unfolding m_def by (simp add: Let_def)
  show thesis
  proof (cases "2 ^ 55 \<le> x div z")
    case True
    define h where "h = drop_bit 1 m"
    have h: "unat h = x div z" unfolding h_def unat_drop m by simp
    have "d_m d = (if am' \<noteq> 0 then h OR 1 else h)" unfolding d h_def using True by simp
    then have u: "unat (d_m d) = x div z + (if x mod z \<noteq> 0 \<and> even (x div z) then 1 else 0)"
      using s by (simp add: or_one h)
    show thesis
    proof (rule that)
      show "sticky (unat (d_m d)) (real x / real z)" unfolding u by (rule sticky_quotient(2)[OF z])
      show "2 ^ 55 \<le> unat (d_m d)" using True unfolding u by simp
      show "unat (d_m d) < 2 ^ 56"
      proof -
        have "even (x div z) \<Longrightarrow> x div z + 1 < 2 ^ 56" using qhi by (cases "x div z = 2 ^ 56 - 1") auto
        then show ?thesis using qhi unfolding u by auto
      qed
      have "real x < real (2 ^ 56 * z)" using hi by (simp only: of_nat_less_iff)
      then show "real x / real z < 2 ^ 56" using z by (simp add: divide_less_eq)
      have "p2 (d_e d) = 2 ^ 52 * p2 (d_e d - 52)" using p2_scale[of 52 "d_e d - 52"] by simp
      moreover have "d_e d = d_e a - d_e b" unfolding d using True by simp
      ultimately show "real (unat (d_m a)) / real (unat (d_m b)) * p2 (d_e a - d_e b) = real x / real z / 8 * p2 (d_e d - 52)"
        unfolding z_def[symmetric] r by simp
    qed (use True in \<open>simp_all add: d\<close>)
  next
    case False
    have u: "unat (d_m d) = 2 * (x div z) + (if x mod z \<noteq> 0 then 1 else 0)"
      unfolding d using False s by (simp add: or_one m)
    show thesis
    proof (rule that)
      show "sticky (unat (d_m d)) (2 * (real x / real z))" unfolding u by (rule sticky_quotient(1)[OF z])
      show "2 ^ 55 \<le> unat (d_m d)" using qlo unfolding u by simp
      show "unat (d_m d) < 2 ^ 56" using False unfolding u by simp
      have "x div z < 2 ^ 55" using False by simp
      then have "x < 2 ^ 55 * z" using z by (simp add: div_less_iff_less_mult)
      then have "real x < real (2 ^ 55 * z)" by (simp only: of_nat_less_iff)
      then show "2 * (real x / real z) < 2 ^ 56" using z by (simp add: divide_less_eq)
      have "p2 (d_e d + 1) = 2 ^ 53 * p2 (d_e d - 52)" using p2_scale[of 53 "d_e d - 52"] by (simp add: add.commute)
      moreover have "d_e d + 1 = d_e a - d_e b" unfolding d using False by simp
      ultimately show "real (unat (d_m a)) / real (unat (d_m b)) * p2 (d_e a - d_e b) = 2 * (real x / real z) / 8 * p2 (d_e d - 52)"
        unfolding z_def[symmetric] r by simp
    qed (use False in \<open>simp_all add: d\<close>)
  qed
qed

subsection \<open>The instruction\<close>

lemma unpacked_bounds:
  assumes "fpr_normal v"
  shows "2 ^ 55 \<le> unat (d_m (ppc_fpu_unpack_double v))" "unat (d_m (ppc_fpu_unpack_double v)) < 2 ^ 56"
  using unpack_normal(3)[OF assms] frac_range[of v] by simp_all

lemma normal_value:
  assumes "fpr_normal v"
  shows "fpr_value v = sgn_of (fpr_neg v) *
    (real (unat (d_m (ppc_fpu_unpack_double v))) * p2 (d_e (ppc_fpu_unpack_double v) - 55))"
  using unpack_magnitude[OF unpack_normal(1)[OF assms]] by (simp add: value_magnitude)

lemma divide_rounds:
  fixes fp :: uint32 and va vb :: uint64 and res :: ppc_double
  assumes a: "fpr_normal va" and b: "fpr_normal vb" and low: "p2 (- 1022) \<le> \<bar>fpr_value va / fpr_value vb\<bar>"
  defines "r \<equiv> snd (ppc_fpu_pack_double fp (ppc_fpu_div res (ppc_fpu_unpack_double va) (ppc_fpu_unpack_double vb)))"
  assumes fin: "fpr_finite r"
  shows "correctly_rounded (FPSCR_RN fp) (fpr_value va / fpr_value vb) r"
proof -
  let ?a = "ppc_fpu_unpack_double va" and ?b = "ppc_fpu_unpack_double vb"
  define s where "s = d_s ?a XOR d_s ?b"
  have div: "ppc_fpu_div res ?a ?b = div_norm (res\<lparr>d_s := s\<rparr>) ?a ?b"
    by (simp add: ppc_fpu_div_def unpack_normal(1)[OF a] unpack_normal(1)[OF b] s_def)
  define d where "d = div_norm (res\<lparr>d_s := s\<rparr>) ?a ?b"
  obtain y where y: "sticky (unat (d_m d)) y" "2 ^ 55 \<le> unat (d_m d)" "unat (d_m d) < 2 ^ 56" "y < 2 ^ 56"
      "real (unat (d_m ?a)) / real (unat (d_m ?b)) * p2 (d_e ?a - d_e ?b) = y / 8 * p2 (d_e d - 52)"
      "d_type d = ppc_fpr_norm" "d_s d = s"
    using div_norm_sticky[OF unpacked_bounds[OF a] unpacked_bounds[OF b], of "res\<lparr>d_s := s\<rparr>"] unfolding d_def by auto
  have sg: "sgn_of (d_s d \<noteq> 0) = sgn_of (fpr_neg va) / sgn_of (fpr_neg vb)"
    unfolding y(7) s_def unpack_sign by (simp add: sgn_of_def)
  have pp: "p2 (d_e ?a - 55) = p2 (d_e ?a - d_e ?b) * p2 (d_e ?b - 55)"
    using p2_add[of "d_e ?a - d_e ?b" "d_e ?b - 55"] by simp
  have x: "fpr_value va / fpr_value vb = sgn_of (d_s d \<noteq> 0) * (y / 8 * p2 (d_e d - 52))"
    unfolding normal_value[OF a] normal_value[OF b] sg y(5)[symmetric] pp by simp
  have y0: "0 < y"
    using sticky_lower[OF y(1) _ y(2)] by (auto intro: less_le_trans)
  have "p2 (- 1022) \<le> y / 8 * p2 (d_e d - 52)"
    using low y0 unfolding x by (simp add: sgn_of_def abs_mult split: if_splits)
  also have "\<dots> < 2 ^ 53 * p2 (d_e d - 52)" using y(4) by simp
  also have "\<dots> = p2 (d_e d + 1)" using p2_scale[of 53 "d_e d - 52"] by (simp add: add.commute)
  finally have e: "- 1022 \<le> d_e d" unfolding p2_less by simp
  show ?thesis
    unfolding r_def div d_def[symmetric]
    by (rule pack_sticky[OF y(6,2,3) e y(1) x]) (use fin in \<open>simp add: r_def div d_def\<close>)
qed

end
