(* ===== verification/Ppc_Fpu_Formed.thy ===== *)
theory Ppc_Fpu_Formed
  imports Ppc_Fpu_Round Ppc_Fpu_Div
begin

text \<open>
  Multiplication: the four partial products are the product, and the mantissa is the leading part of it, without a sticky bit.
  The form of the mantissas that the four operations expect and produce.
\<close>

unbundle bit_operations_syntax

lemma halves:
  fixes m :: uint64
  shows "unat m = unat (drop_bit 32 m) * 2 ^ 32 + unat (m AND 0xffffffff)"
    "unat (m AND 0xffffffff) = unat m mod 2 ^ 32" "unat (m AND 0xffffffff) < 2 ^ 32"
proof -
  have m: "m AND 0xffffffff = take_bit 32 m" by (simp add: take_bit_eq_mask mask_eq_exp_minus_1)
  then show u: "unat (m AND 0xffffffff) = unat m mod 2 ^ 32"
    by (simp only: unsigned_take_bit_eq) (simp add: take_bit_eq_mod)
  then show "unat (m AND 0xffffffff) < 2 ^ 32" by simp
  show "unat m = unat (drop_bit 32 m) * 2 ^ 32 + unat (m AND 0xffffffff)"
    unfolding u unat_drop by simp
qed

lemma unat_add_small: "unat x + unat y < 2 ^ 64 \<Longrightarrow> unat (x + y) = unat x + unat y" for x y :: uint64
  by (simp add: unat_word_ariths)

lemma unat_mult_small: "unat x * unat y < 2 ^ 64 \<Longrightarrow> unat (x * y) = unat x * unat y" for x y :: uint64
  by (simp add: unat_word_ariths)

lemma add_carry:
  assumes "ppc_fpu_add_uint64_carry x y = (r, k)"
  shows "unat r + unat k * 2 ^ 64 = unat x + unat y" "unat k \<le> 1"
proof -
  have r: "r = x + y" and k: "k = (if x + y < x then 1 else 0)"
    using assms by (auto simp: ppc_fpu_add_uint64_carry_def)
  have b: "unat x < 2 ^ 64" "unat y < 2 ^ 64"
    using unsigned_less[of x, where ?'a = nat] unsigned_less[of y, where ?'a = nat] by simp_all
  have u: "unat (x + y) = (unat x + unat y) mod 2 ^ 64" by (simp add: unat_word_ariths)
  show "unat r + unat k * 2 ^ 64 = unat x + unat y"
    using b u by (auto simp: r k word_less_nat_alt mod_if split: if_splits)
  show "unat k \<le> 1" by (simp add: k)
qed

lemma product_bound: "x < a \<Longrightarrow> y < b \<Longrightarrow> x * y < a * b" for x y a b :: nat
  by (rule mult_strict_mono) auto

lemma mul_parts_product:
  assumes a: "unat am < 2 ^ 56" and b: "unat bm < 2 ^ 56" and p: "mul_parts am bm = (rH, rL)"
  shows "unat rH * 2 ^ 64 + unat rL = unat am * unat bm"
proof -
  define ah al bh bl where "ah = drop_bit 32 am" and "al = am AND 0xffffffff" and "bh = drop_bit 32 bm" and "bl = bm AND 0xffffffff"
  have A: "unat am = unat ah * 2 ^ 32 + unat al" "unat al < 2 ^ 32" and B: "unat bm = unat bh * 2 ^ 32 + unat bl" "unat bl < 2 ^ 32"
    unfolding ah_def al_def bh_def bl_def using halves(1,3) by blast+
  have h: "unat ah < 2 ^ 24" "unat bh < 2 ^ 24" using a b A B by simp_all
  have p1: "unat (al * bl) = unat al * unat bl"
    using product_bound[OF A(2) B(2)] by (intro unat_mult_small) simp
  have b2: "unat ah * unat bl < 2 ^ 56" "unat al * unat bh < 2 ^ 56" "unat ah * unat bh < 2 ^ 48"
    using product_bound[OF h(1) B(2)] product_bound[OF A(2) h(2)] product_bound[OF h] by simp_all
  then have p2: "unat (ah * bl) = unat ah * unat bl" "unat (al * bh) = unat al * unat bh" "unat (ah * bh) = unat ah * unat bh"
    by (auto intro!: unat_mult_small)
  define sp where "sp = ah * bl + al * bh"
  have s: "unat sp = unat ah * unat bl + unat al * unat bh"
    unfolding sp_def using p2 b2 by (subst unat_add_small) simp_all
  obtain k where k: "ppc_fpu_add_uint64_carry (al * bl) (push_bit 32 (sp AND 0xffffffff)) = (rL, k)" and H: "rH = ah * bh + k + drop_bit 32 sp"
    using p unfolding mul_parts_def Let_def ah_def al_def bh_def bl_def sp_def by (auto split: prod.splits)
  have l: "unat (push_bit 32 (sp AND 0xffffffff)) = unat (sp AND 0xffffffff) * 2 ^ 32"
    using unat_push[of "sp AND 0xffffffff" 32] halves(3)[of sp] by simp
  note c = add_carry[OF k, unfolded p1 l]
  have sd: "unat (drop_bit 32 sp) < 2 ^ 32" unfolding unat_drop using s b2 by simp
  have rH: "unat rH = unat ah * unat bh + unat k + unat (drop_bit 32 sp)"
  proof -
    have x: "unat (ah * bh + k) = unat ah * unat bh + unat k"
      using p2(3) c(2) b2(3) by (subst unat_add_small) simp_all
    then show ?thesis unfolding H using c(2) b2(3) sd by (subst unat_add_small) simp_all
  qed
  have "unat rH * 2 ^ 64 + unat rL = unat ah * unat bh * 2 ^ 64 + unat (drop_bit 32 sp) * 2 ^ 64 + (unat rL + unat k * 2 ^ 64)"
    unfolding rH by (simp add: algebra_simps)
  also have "\<dots> = unat ah * unat bh * 2 ^ 64 + unat (drop_bit 32 sp) * 2 ^ 64 + unat al * unat bl + unat (sp AND 0xffffffff) * 2 ^ 32"
    unfolding c(1) by simp
  also have "\<dots> = unat ah * unat bh * 2 ^ 64 + (unat (drop_bit 32 sp) * 2 ^ 32 + unat (sp AND 0xffffffff)) * 2 ^ 32 + unat al * unat bl"
    by (simp add: algebra_simps)
  also have "\<dots> = unat am * unat bm"
    unfolding halves(1)[of sp, symmetric] s unfolding A(1) B(1) by (simp add: algebra_simps)
  finally show ?thesis .
qed

subsection \<open>The mantissa of a product\<close>

text \<open>The form of the finite numbers: the leading bit is bit 55.\<close>

definition fpu_formed :: "ppc_double \<Rightarrow> bool" where
  "fpu_formed d \<longleftrightarrow> (d_type d = ppc_fpr_norm \<longrightarrow> 2 ^ 55 \<le> unat (d_m d) \<and> unat (d_m d) < 2 ^ 56)"

lemma mul_norm_mantissa:
  fixes res a b :: ppc_double
  assumes a: "2 ^ 55 \<le> unat (d_m a)" "unat (d_m a) < 2 ^ 56" and b: "2 ^ 55 \<le> unat (d_m b)" "unat (d_m b) < 2 ^ 56"
  defines "d \<equiv> mul_norm res a b" and "x \<equiv> unat (d_m a) * unat (d_m b)"
  shows "d_type d = ppc_fpr_norm" "d_s d = d_s res"
    and "if 2 ^ 111 \<le> x then unat (d_m d) = x div 2 ^ 56 \<and> d_e d = d_e a + d_e b + 1
         else unat (d_m d) = x div 2 ^ 55 \<and> d_e d = d_e a + d_e b"
    and "2 ^ 55 \<le> unat (d_m d)" "unat (d_m d) < 2 ^ 56"
proof -
  obtain rH rL where p: "mul_parts (d_m a) (d_m b) = (rH, rL)" by (metis prod.collapse)
  have x: "unat rH * 2 ^ 64 + unat rL = x" unfolding x_def by (rule mul_parts_product[OF a(2) b(2) p])
  have lo: "2 ^ 110 \<le> x" using mult_le_mono[OF a(1) b(1)] by (simp add: x_def)
  have hi: "x < 2 ^ 112" using product_bound[OF a(2) b(2)] by (simp add: x_def)
  have rL: "unat rL < 2 ^ 64" using unsigned_less[of rL, where ?'a = nat] by simp
  have rH: "unat rH < 2 ^ 48" using x hi rL by simp
  define m where "m = push_bit 9 rH OR drop_bit 55 rL"
  have me: "m = push_bit 9 rH + drop_bit 55 rL"
    unfolding m_def
  proof (rule disjunctive_add[symmetric])
    show "\<not> bit (push_bit 9 rH) n \<or> \<not> bit (drop_bit 55 rL) n" for n
      by (auto simp: bit_push_bit_iff bit_drop_bit_eq dest: bit_imp_le_length)
  qed
  have "unat (push_bit 9 rH) = unat rH * 512" using unat_push[of rH 9] rH by simp
  moreover have "unat rL div 2 ^ 55 < 512" using rL by (simp add: div_less_iff_less_mult)
  ultimately have "unat m = unat rH * 512 + unat rL div 2 ^ 55"
    using rH unfolding me by (subst unat_add_small) (simp_all add: unat_drop)
  also have "\<dots> = x div 2 ^ 55"
  proof -
    have "x = unat rL + (unat rH * 512) * 2 ^ 55" using x by simp
    then show ?thesis by (simp only: div_mult_self1) simp
  qed
  finally have m: "unat m = x div 2 ^ 55" .
  have mb: "2 ^ 55 \<le> unat m" "unat m < 2 ^ 57"
    using lo hi unfolding m by (simp_all add: less_eq_div_iff_mult_less_eq div_less_iff_less_mult)
  have t57: "\<not> m AND push_bit 57 1 \<noteq> 0" by (subst test_bit_top) (use mb in simp_all)
  have t56: "m AND push_bit 56 1 \<noteq> 0 \<longleftrightarrow> 2 ^ 111 \<le> x"
  proof -
    have "m AND push_bit 56 1 \<noteq> 0 \<longleftrightarrow> 2 ^ 56 \<le> unat m" by (rule test_bit_top) (use mb in simp)
    then show ?thesis unfolding m by (simp add: less_eq_div_iff_mult_less_eq)
  qed
  have d: "d = (if 2 ^ 111 \<le> x then res\<lparr>d_type := ppc_fpr_norm, d_e := d_e a + d_e b + 1, d_m := drop_bit 1 m\<rparr>
      else res\<lparr>d_type := ppc_fpr_norm, d_e := d_e a + d_e b, d_m := m\<rparr>)"
    using t57 t56 unfolding d_def mul_norm_def p by (simp add: Let_def m_def)
  show "d_type d = ppc_fpr_norm" "d_s d = d_s res" by (simp_all add: d)
  have "unat (drop_bit 1 m) = x div 2 ^ 56" unfolding unat_drop m by (simp flip: div_mult2_eq)
  then show f: "if 2 ^ 111 \<le> x then unat (d_m d) = x div 2 ^ 56 \<and> d_e d = d_e a + d_e b + 1
         else unat (d_m d) = x div 2 ^ 55 \<and> d_e d = d_e a + d_e b"
    using m by (simp add: d)
  show "2 ^ 55 \<le> unat (d_m d)" "unat (d_m d) < 2 ^ 56"
    using f lo hi by (auto simp: less_eq_div_iff_mult_less_eq div_less_iff_less_mult split: if_splits)
qed

lemma p2_minus: "p2 (- int k) = 1 / 2 ^ k"
  by (simp add: p2_def power_int_minus divide_inverse)

text \<open>\<open>x\<close> is \<open>p\<close> cut to 56 significant bits: its magnitude is the 56-bit integer below that of \<open>p\<close>, in units of the last of
  these bits.  There is only one such number.\<close>

definition cut_56 :: "real \<Rightarrow> real \<Rightarrow> bool" where
  "cut_56 p x \<longleftrightarrow> (\<exists>e n. 2 ^ 55 \<le> n \<and> n < 2 ^ 56 \<and> n = \<lfloor>\<bar>p\<bar> / p2 e\<rfloor> \<and> x = sgn p * (of_int n * p2 e))"

lemma cut_56_exponent:
  assumes "(2 :: int) ^ 55 \<le> n" "n < 2 ^ 56" "n = \<lfloor>\<bar>p\<bar> / p2 e\<rfloor>"
  shows "p2 (e + 55) \<le> \<bar>p\<bar>" "\<bar>p\<bar> < p2 (e + 56)"
proof -
  have "\<bar>p\<bar> / p2 e < of_int n + 1" "of_int n \<le> \<bar>p\<bar> / p2 e" using assms(3) by linarith+
  moreover have "real_of_int n + 1 \<le> 2 ^ 56"
  proof -
    have "n + 1 \<le> 2 ^ 56" using assms(2) by simp
    then have "real_of_int (n + 1) \<le> real_of_int (2 ^ 56)" by (simp only: of_int_le_iff)
    then show ?thesis by simp
  qed
  moreover have "2 ^ 55 \<le> real_of_int n"
  proof -
    have "real_of_int (2 ^ 55) \<le> real_of_int n" using assms(1) by (simp only: of_int_le_iff)
    then show ?thesis by simp
  qed
  ultimately have "2 ^ 55 \<le> \<bar>p\<bar> / p2 e" "\<bar>p\<bar> / p2 e < 2 ^ 56" by linarith+
  then show "p2 (e + 55) \<le> \<bar>p\<bar>" "\<bar>p\<bar> < p2 (e + 56)"
    using p2_scale[of 55 e] p2_scale[of 56 e] by (simp_all add: pos_le_divide_eq pos_divide_less_eq add.commute)
qed

lemma cut_56_unique:
  assumes "cut_56 p x" "cut_56 p x'"
  shows "x = x'"
proof -
  obtain e n where e: "2 ^ 55 \<le> n" "n < 2 ^ 56" "n = \<lfloor>\<bar>p\<bar> / p2 e\<rfloor>" "x = sgn p * (of_int n * p2 e)"
    using assms(1) by (auto simp: cut_56_def)
  obtain e' n' where e': "2 ^ 55 \<le> n'" "n' < 2 ^ 56" "n' = \<lfloor>\<bar>p\<bar> / p2 e'\<rfloor>" "x' = sgn p * (of_int n' * p2 e')"
    using assms(2) by (auto simp: cut_56_def)
  have "p2 (e + 55) < p2 (e' + 56)" "p2 (e' + 55) < p2 (e + 56)"
    using cut_56_exponent[OF e(1-3)] cut_56_exponent[OF e'(1-3)] by linarith+
  then have "e = e'" unfolding p2_less by simp
  then show ?thesis using e e' by simp
qed

text \<open>The product of two normal numbers is cut to 56 bits, then rounded.\<close>

lemma multiply_rounds:
  fixes fp :: uint32 and va vb :: uint64 and res :: ppc_double
  assumes a: "fpr_normal va" and b: "fpr_normal vb" and low: "p2 (- 1022) \<le> \<bar>fpr_value va * fpr_value vb\<bar>"
  defines "r \<equiv> snd (ppc_fpu_pack_double fp (ppc_fpu_mul res (ppc_fpu_unpack_double va) (ppc_fpu_unpack_double vb)))"
    and "p \<equiv> fpr_value va * fpr_value vb"
  assumes fin: "fpr_finite r"
  obtains x where "cut_56 p x" "correctly_rounded (FPSCR_RN fp) x r"
    "FPSCR_RN fp = FPSCR_RN_ZERO \<Longrightarrow> correctly_rounded (FPSCR_RN fp) p r"
proof -
  let ?a = "ppc_fpu_unpack_double va" and ?b = "ppc_fpu_unpack_double vb"
  define s where "s = d_s ?a XOR d_s ?b"
  have mul: "ppc_fpu_mul res ?a ?b = mul_norm (res\<lparr>d_s := s\<rparr>) ?a ?b"
    by (simp add: ppc_fpu_mul_def unpack_normal(1)[OF a] unpack_normal(1)[OF b] s_def)
  define d where "d = mul_norm (res\<lparr>d_s := s\<rparr>) ?a ?b"
  define X where "X = unat (d_m ?a) * unat (d_m ?b)"
  note mant = mul_norm_mantissa[OF unpacked_bounds[OF a] unpacked_bounds[OF b], of "res\<lparr>d_s := s\<rparr>", folded d_def X_def]
  define k where "k = (if 2 ^ 111 \<le> X then 56 else 55 :: nat)"
  define y where "y = real X / 2 ^ k"
  have m: "unat (d_m d) = X div 2 ^ k" and e: "d_e ?a + d_e ?b = d_e d + 55 - int k"
    using mant(3) by (auto simp: k_def split: if_splits)
  have fl: "\<lfloor>y\<rfloor> = int (unat (d_m d))" unfolding y_def m using floor_divide_of_nat_eq[of X "2 ^ k", where ?'a = real] by simp
  have yb: "real (unat (d_m d)) \<le> y" "y < real (unat (d_m d)) + 1" using fl by linarith+
  have sg: "sgn_of (d_s d \<noteq> 0) = sgn_of (fpr_neg va) * sgn_of (fpr_neg vb)"
    unfolding mant(2) by (simp add: s_def unpack_sign sgn_of_def)
  have p8: "p2 (- 3) = 1 / 8" using p2_minus[of 3] by simp
  have "p2 (d_e ?a - 55) * p2 (d_e ?b - 55) = p2 (d_e ?a - 55 + (d_e ?b - 55))" by (rule p2_add[symmetric])
  also have "d_e ?a - 55 + (d_e ?b - 55) = - int k + (- 3) + (d_e d - 52)" using e by simp
  also have "p2 \<dots> = p2 (d_e d - 52) / 2 ^ k / 8"
    unfolding p2_add p2_minus p8 by simp
  finally have pp: "p2 (d_e ?a - 55) * p2 (d_e ?b - 55) = p2 (d_e d - 52) / 2 ^ k / 8" .
  have "p = sgn_of (fpr_neg va) * sgn_of (fpr_neg vb) * (real X * (p2 (d_e ?a - 55) * p2 (d_e ?b - 55)))"
    unfolding p_def normal_value[OF a] normal_value[OF b] X_def by (simp add: ac_simps)
  then have p: "p = sgn_of (d_s d \<noteq> 0) * (y / 8 * p2 (d_e d - 52))" unfolding sg pp y_def by simp
  define m' where "m' = real (unat (d_m d))"
  have "real (2 ^ 55) \<le> real (unat (d_m d))" using mant(4) by (simp only: of_nat_le_iff)
  then have mb: "2 ^ 55 \<le> m'" by (simp add: m'_def)
  have "unat (d_m d) + 1 \<le> 2 ^ 56" using mant(5) by simp
  then have "real (unat (d_m d) + 1) \<le> real (2 ^ 56)" by (simp only: of_nat_le_iff)
  then have y56: "y < 2 ^ 56" using yb(2) by simp
  define x where "x = sgn_of (d_s d \<noteq> 0) * (m' / 8 * p2 (d_e d - 52))"
  have m0: "0 < m'" by (rule less_le_trans[OF _ mb]) simp
  then have y0: "0 < y" using yb(1) unfolding m'_def[symmetric] by (rule less_le_trans)
  have low': "p2 (- 1022) \<le> y / 8 * p2 (d_e d - 52)"
    using low y0 unfolding p_def[symmetric] p by (simp add: sgn_of_def abs_mult split: if_splits)
  also have "\<dots> < 2 ^ 53 * p2 (d_e d - 52)" using y56 by simp
  also have "\<dots> = p2 (d_e d + 1)" using p2_scale[of 53 "d_e d - 52"] by (simp add: add.commute)
  finally have E: "- 1022 \<le> d_e d" unfolding p2_less by simp
  have fin': "fpr_finite (snd (ppc_fpu_pack_double fp d))" using fin by (simp add: r_def mul d_def)
  have r: "r = snd (ppc_fpu_pack_double fp d)" by (simp add: r_def mul d_def)
  show thesis
  proof (rule that)
    show "cut_56 p x"
      unfolding cut_56_def
    proof (intro exI conjI)
      have u: "p2 (d_e d - 55) = p2 (d_e d - 52) / 8" using p2_add[of "- 3" "d_e d - 52"] p8 by simp
      have "\<bar>p\<bar> / p2 (d_e d - 55) = y" using y0 unfolding p u by (simp add: sgn_of_def abs_mult)
      then show "int (unat (d_m d)) = \<lfloor>\<bar>p\<bar> / p2 (d_e d - 55)\<rfloor>" by (simp only: fl)
      have "int (2 ^ 55) \<le> int (unat (d_m d))" "int (unat (d_m d)) < int (2 ^ 56)"
        using mant(4,5) by (simp_all only: of_nat_le_iff of_nat_less_iff)
      then show "2 ^ 55 \<le> int (unat (d_m d))" "int (unat (d_m d)) < 2 ^ 56" by (simp_all only: of_nat_power of_nat_numeral)
      have "sgn p = sgn_of (d_s d \<noteq> 0)" using y0 unfolding p by (simp add: sgn_mult sgn_of_def)
      then show "x = sgn p * (of_int (int (unat (d_m d))) * p2 (d_e d - 55))" by (simp add: x_def m'_def u)
    qed
    have st: "sticky (unat (d_m d)) m'" by (simp add: sticky_def m'_def)
    show "correctly_rounded (FPSCR_RN fp) x r"
      unfolding r by (rule pack_sticky[OF mant(1,4,5) E st x_def fin'])
    show "correctly_rounded (FPSCR_RN fp) p r" if z: "FPSCR_RN fp = FPSCR_RN_ZERO"
      unfolding r
    proof (rule pack_rounds[OF mant(1,4,5) E _ _ p fin'])
      have "rounded FPSCR_RN_ZERO t n = n div 8" for t n
        by (simp add: rounded_def rounds_up_def FPSCR_RN_ZERO_def FPSCR_RN_NEAR_def)
      moreover have "round_int FPSCR_RN_ZERO t z = \<lfloor>z\<rfloor>" for t z
        by (simp add: round_int_def FPSCR_RN_ZERO_def FPSCR_RN_NEAR_def)
      moreover have "\<lfloor>y / 8\<rfloor> = \<lfloor>y\<rfloor> div 8" using floor_divide_real_eq_div[of 8 y] by simp
      ultimately show "int (rounded (FPSCR_RN fp) (d_s d \<noteq> 0) (unat (d_m d))) = round_int (FPSCR_RN fp) (d_s d \<noteq> 0) (y / 8)"
        unfolding z fl by (simp add: zdiv_int)
      show "2 ^ 52 \<le> y / 8" using mb yb(1) unfolding m'_def[symmetric] by simp
    qed
  qed
qed

text \<open>
  The form of unpacked numbers is kept: the four operations of arithmetic and the square root take numbers with their leading
  bit in place to such numbers, and no shift leaves the word.  Only denormalized words unpack to another form.
\<close>


lemma unpack_formed:
  "fpu_formed (ppc_fpu_unpack_double v) \<longleftrightarrow> \<not> (fpr_exp v = 0 \<and> fpr_frac v \<noteq> 0)"
proof (cases v rule: fpr_cases)
  case denormal
  from unpack_denormal[OF this] obtain k where k: "2 ^ k \<le> nat (fpr_frac v)" "k < 52"
    "d_type (ppc_fpu_unpack_double v) = ppc_fpr_norm" "unat (d_m (ppc_fpu_unpack_double v)) = nat (fpr_frac v) * 2 ^ (58 - k)"
    by metis
  have "2 ^ k * 2 ^ (58 - k) \<le> unat (d_m (ppc_fpu_unpack_double v))" unfolding k(4) using k(1) by simp
  then have "(2::nat) ^ 58 \<le> unat (d_m (ppc_fpu_unpack_double v))" using k(2) by (simp flip: power_add)
  then show ?thesis using k(3) denormal by (simp add: fpu_formed_def)
next
  case normal
  then show ?thesis using unpacked_bounds[OF normal] by (simp add: fpu_formed_def fpr_normal_def)
next
  case special
  then show ?thesis by (simp add: fpu_formed_def unpack_special_parts)
next
  case zero
  then show ?thesis using unpack_special(2)[OF zero] by (simp add: fpu_formed_def)
qed

lemma formed_norm: "fpu_formed d \<Longrightarrow> d_type d = ppc_fpr_norm \<Longrightarrow> 2 ^ 55 \<le> unat (d_m d) \<and> unat (d_m d) < 2 ^ 56"
  by (simp add: fpu_formed_def)

lemma formedI: "2 ^ 55 \<le> unat (d_m d) \<Longrightarrow> unat (d_m d) < 2 ^ 56 \<Longrightarrow> fpu_formed d"
  by (simp add: fpu_formed_def)

lemma formed_other: "d_type d \<noteq> ppc_fpr_norm \<Longrightarrow> fpu_formed d"
  by (simp add: fpu_formed_def)

lemma mul_formed:
  assumes "fpu_formed a" "fpu_formed b"
  shows "fpu_formed (ppc_fpu_mul res a b)"
proof (cases "d_type a = ppc_fpr_norm \<and> d_type b = ppc_fpr_norm")
  case True
  then have "fpu_formed (mul_norm r a b)" for r
    using formed_norm[OF assms(1)] formed_norm[OF assms(2)] by (intro formedI mul_norm_mantissa) blast+
  then show ?thesis using True by (simp add: ppc_fpu_mul_def)
next
  case False
  then show ?thesis by (cases "d_type a"; cases "d_type b") (simp_all add: ppc_fpu_mul_def formed_other)
qed

lemma div_formed:
  assumes "fpu_formed a" "fpu_formed b"
  shows "fpu_formed (ppc_fpu_div res a b)"
proof (cases "d_type a = ppc_fpr_norm \<and> d_type b = ppc_fpr_norm")
  case True
  have "fpu_formed (div_norm r a b)" for r
    by (rule div_norm_sticky[of a b r]) (use True formed_norm[OF assms(1)] formed_norm[OF assms(2)] formedI in blast)+
  then show ?thesis using True by (simp add: ppc_fpu_div_def)
next
  case False
  then show ?thesis by (cases "d_type a"; cases "d_type b") (simp_all add: ppc_fpu_div_def formed_other)
qed

subsection \<open>Addition\<close>

lemma align_le: "unat (align n m) \<le> unat m"
proof -
  have "m \<noteq> 0 \<Longrightarrow> 1 \<le> unat m" by (simp add: Suc_le_eq unat_gt_0)
  then show ?thesis by (simp add: align_def unat_drop div_le_dividend)
qed

text \<open>Moving the leading bit to bit 55.\<close>

lemma normalize_shift:
  assumes "m \<noteq> 0" "unat m < 2 ^ 56"
  defines "n \<equiv> ppc_count_leading_zeros m - 8"
  shows "0 \<le> n \<and> n < 64" "2 ^ 55 \<le> unat (push_bit (nat n) m)" "unat (push_bit (nat n) m) < 2 ^ 56"
proof -
  define k where "k = nat (63 - ppc_count_leading_zeros m)"
  have t: "top (63 - ppc_count_leading_zeros m) m" by (rule leading_zeros_top[OF assms(1)])
  then have k: "ppc_count_leading_zeros m = 63 - int k" "2 ^ k \<le> unat m" "unat m < 2 ^ (k + 1)"
    by (auto simp: k_def top_def)
  have "(2::nat) ^ k < 2 ^ 56" using k(2) assms(2) by linarith
  then have k56: "k < 56" by (simp only: power_strict_increasing_iff one_less_numeral_iff semiring_norm)
  have n: "nat n = 55 - k" "n = 55 - int k" using k(1) k56 by (simp_all add: n_def)
  show "0 \<le> n \<and> n < 64" using n(2) k56 by simp
  have "unat m * 2 ^ (55 - k) < 2 ^ (k + 1) * 2 ^ (55 - k)" using k(3) by simp
  also have "\<dots> = 2 ^ 56" using k56 by (simp flip: power_add)
  finally have hi: "unat m * 2 ^ (55 - k) < 2 ^ 56" .
  then have u: "unat (push_bit (nat n) m) = unat m * 2 ^ (55 - k)"
    unfolding n(1) by (intro unat_push) simp
  show "unat (push_bit (nat n) m) < 2 ^ 56" unfolding u by (rule hi)
  have "2 ^ k * 2 ^ (55 - k) \<le> unat m * 2 ^ (55 - k)" using k(2) by simp
  then show "2 ^ 55 \<le> unat (push_bit (nat n) m)" unfolding u using k56 by (simp flip: power_add)
qed

text \<open>Both mantissas at one exponent: one of them has its leading bit in place, the other one is not longer.\<close>

lemma sum_formed:
  fixes x y :: uint64
  assumes "2 ^ 55 \<le> max (unat x) (unat y)" "unat x < 2 ^ 56" "unat y < 2 ^ 56"
  shows "x + y AND push_bit 56 1 \<noteq> 0 \<Longrightarrow> 2 ^ 55 \<le> unat (drop_bit 1 (x + y)) \<and> unat (drop_bit 1 (x + y)) < 2 ^ 56"
    and "x + y AND push_bit 56 1 = 0 \<Longrightarrow> 2 ^ 55 \<le> unat (x + y) \<and> unat (x + y) < 2 ^ 56"
proof -
  have s: "unat (x + y) = unat x + unat y" by (rule unat_add_small) (use assms in simp)
  have t: "x + y AND push_bit 56 1 \<noteq> 0 \<longleftrightarrow> 2 ^ 56 \<le> unat (x + y)"
    by (rule test_bit_top) (use s assms in simp)
  show "2 ^ 55 \<le> unat (drop_bit 1 (x + y)) \<and> unat (drop_bit 1 (x + y)) < 2 ^ 56" if "x + y AND push_bit 56 1 \<noteq> 0"
    using that s assms unfolding t unat_drop by (simp add: less_eq_div_iff_mult_less_eq div_less_iff_less_mult)
  show "2 ^ 55 \<le> unat (x + y) \<and> unat (x + y) < 2 ^ 56" if "x + y AND push_bit 56 1 = 0"
    using that s assms t by (simp add: max_def split: if_splits)
qed

lemma sint_difference:
  fixes x y :: uint64
  assumes "unat x < 2 ^ 56" "unat y < 2 ^ 56"
  shows "sint (x - y) = int (unat x) - int (unat y)"
proof -
  define i j where "i = unat x" and "j = unat y"
  have d: "x - y = word_of_int (int i - int j)" by (simp add: i_def j_def)
  have "sint (x - y) = signed_take_bit 63 (int i - int j)" unfolding d sint_sbintrunc' by simp
  also have "\<dots> = int i - int j"
    using assms unfolding i_def[symmetric] j_def[symmetric] by (intro signed_take_bit_int_eq_self) simp_all
  finally show ?thesis by (simp only: i_def j_def)
qed

lemma difference_small:
  fixes x y :: uint64
  assumes "unat x < 2 ^ 56" "unat y < 2 ^ 56" "x \<noteq> y"
  defines "m \<equiv> (if sint (x - y) < 0 then y - x else x - y)"
  shows "m \<noteq> 0" "unat m < 2 ^ 56"
proof -
  show "m \<noteq> 0" using assms(3) by (auto simp: m_def)
  show "unat m < 2 ^ 56"
  proof (cases "unat x < unat y")
    case True
    then show ?thesis using assms(1,2) unfolding m_def sint_difference[OF assms(1,2)]
      by (subst if_P) (linarith, simp add: unat_sub word_le_nat_alt)
  next
    case False
    then have "unat (x - y) = unat x - unat y" by (simp add: unat_sub word_le_nat_alt)
    then show ?thesis using False assms(1,2) unfolding m_def sint_difference[OF assms(1,2)]
      by (subst if_not_P) (linarith, simp)
  qed
qed

lemma add_norm_formed:
  fixes a b :: ppc_double
  assumes a: "2 ^ 55 \<le> unat (d_m a)" "unat (d_m a) < 2 ^ 56" and b: "2 ^ 55 \<le> unat (d_m b)" "unat (d_m b) < 2 ^ 56"
  shows "\<exists>r. add_norm fp res a b = Inr r \<and> fpu_formed r"
proof -
  define x where "x = (if d_e a - d_e b < 0 then align (- (d_e a - d_e b)) (d_m a) else d_m a)"
  define y where "y = (if d_e a - d_e b < 0 then d_m b else align (d_e a - d_e b) (d_m b))"
  define e where "e = (if d_e a - d_e b < 0 then d_e b else d_e a)"
  have xy: "2 ^ 55 \<le> max (unat x) (unat y)" "unat x < 2 ^ 56" "unat y < 2 ^ 56"
    using a b align_le[of "- (d_e a - d_e b)" "d_m a"] align_le[of "d_e a - d_e b" "d_m b"]
    by (auto simp: x_def y_def max_def)
  show ?thesis
  proof (cases "d_s a = d_s b")
    case True
    let ?r = "res\<lparr>d_e := e, d_type := ppc_fpr_norm, d_s := d_s a, d_m := x + y\<rparr>"
    have "add_norm fp res a b =
        Inr (if x + y AND push_bit 56 1 \<noteq> 0 then ?r\<lparr>d_m := drop_bit 1 (x + y), d_e := e + 1\<rparr> else ?r)"
      using True by (simp add: add_norm_def Let_def x_def y_def e_def)
    moreover have "fpu_formed (if x + y AND push_bit 56 1 \<noteq> 0 then ?r\<lparr>d_m := drop_bit 1 (x + y), d_e := e + 1\<rparr> else ?r)"
      using sum_formed[OF xy] by (auto simp: fpu_formed_def)
    ultimately show ?thesis by blast
  next
    case False
    show ?thesis
    proof (cases "x = y")
      case True
      then show ?thesis using False by (auto simp: add_norm_def Let_def x_def y_def fpu_formed_def)
    next
      case ne: False
      define m where "m = (if sint (x - y) < 0 then y - x else x - y)"
      note small = difference_small[OF xy(2,3) ne, folded m_def]
      let ?n = "ppc_count_leading_zeros m - 8"
      define r where "r = res\<lparr>d_e := e, d_type := ppc_fpr_norm, d_s := if sint (x - y) < 0 then d_s b else d_s a\<rparr>"
      have "add_norm fp res a b = shift_ok ?n (r\<lparr>d_e := d_e r - ?n, d_m := push_bit (nat ?n) m\<rparr>)"
        using False ne by (cases "d_e a - d_e b < 0"; cases "sint (x - y) < 0")
          (simp_all add: add_norm_def Let_def x_def y_def m_def e_def r_def ppc_fpu_normalize_def)
      then have "add_norm fp res a b = Inr (r\<lparr>d_e := d_e r - ?n, d_m := push_bit (nat ?n) m\<rparr>)"
        using normalize_shift(1)[OF small] by (simp add: shift_ok_def)
      moreover have "fpu_formed (r\<lparr>d_e := d_e r - ?n, d_m := push_bit (nat ?n) m\<rparr>)"
        using normalize_shift(2,3)[OF small] by (simp add: fpu_formed_def)
      ultimately show ?thesis by blast
    qed
  qed
qed

lemma add_formed:
  assumes "fpu_formed a" "fpu_formed b"
  shows "\<exists>r. ppc_fpu_add fp res a b = Inr r \<and> fpu_formed r"
proof (cases "d_type a = ppc_fpr_norm \<and> d_type b = ppc_fpr_norm")
  case True
  then show ?thesis
    using add_norm_formed[of a b fp res] formed_norm[OF assms(1)] formed_norm[OF assms(2)] by (simp add: ppc_fpu_add_def)
next
  case False
  then show ?thesis using assms
    by (cases "d_type a"; cases "d_type b") (auto simp: ppc_fpu_add_def fpu_formed_def)
qed

subsection \<open>Square root\<close>

lemma sqrt_loop_formed:
  assumes "fpu_formed B" "fpu_formed D"
  shows "\<exists>r. sqrt_loop n fp junk B D = Inr r \<and> fpu_formed r"
  using assms(2)
proof (induction n arbitrary: D)
  case (Suc n)
  obtain E where E: "ppc_fpu_add fp D D (ppc_fpu_div junk B D) = Inr E" "fpu_formed E"
    using add_formed[OF Suc.prems div_formed[OF assms(1) Suc.prems]] by blast
  then have "fpu_formed (E\<lparr>d_e := d_e E - 1\<rparr>)" by (simp add: fpu_formed_def)
  then show ?case using Suc.IH E(1) by (simp add: and_then_def)
qed simp

lemma sqrt_formed:
  assumes "fpu_formed B"
  shows "\<exists>fp' r. ppc_fpu_sqrt fp junk res B = Inr (fp', r) \<and> fpu_formed r"
proof (cases "d_type B = ppc_fpr_norm \<and> d_s B = 0")
  case True
  let ?D = "B\<lparr>d_e := (if d_e B < 0 then - (- d_e B div 2) else d_e B div 2)\<rparr>"
  have "fpu_formed ?D" using assms by (simp add: fpu_formed_def)
  from sqrt_loop_formed[OF assms this, of 6 fp junk] True show ?thesis
    by (auto simp: ppc_fpu_sqrt_def and_then_def)
next
  case False
  then show ?thesis by (cases "d_type B") (auto simp: ppc_fpu_sqrt_def fpu_formed_def)
qed

end
