(* ===== verification/Ppc_Fpu_Single.thy ===== *)
theory Ppc_Fpu_Single
  imports Ppc_Fpu_Formed
begin

text \<open>
  Words of single precision: their fields and value, what loading them leaves in a register, and that storing the register
  gives the word back.
\<close>

unbundle bit_operations_syntax

definition single_exp :: "uint32 \<Rightarrow> int" where "single_exp w = uint (FPS_EXP w AND 0xff)"
definition single_frac :: "uint32 \<Rightarrow> int" where "single_frac w = uint (FPS_FRAC w)"
definition single_neg :: "uint32 \<Rightarrow> bool" where "single_neg w \<longleftrightarrow> bit w 31"
definition single_nan :: "uint32 \<Rightarrow> bool" where "single_nan w \<longleftrightarrow> single_exp w = 255 \<and> single_frac w \<noteq> 0"

text \<open>Infinity has no value here.\<close>

definition single_value :: "uint32 \<Rightarrow> real" where
  "single_value w = sgn_of (single_neg w) *
     (if single_exp w = 0 then of_int (single_frac w) * p2 (- 149)
      else of_int (2 ^ 23 + single_frac w) * p2 (single_exp w - 150))"

lemma single_exp_field: "FPS_EXP w AND 0xff = take_bit 8 (drop_bit 23 w)"
  by (simp add: FPS_EXP_def take_bit_eq_mask mask_eq_exp_minus_1)

lemma single_frac_field: "FPS_FRAC w = take_bit 23 w"
  by (simp add: FPS_FRAC_def take_bit_eq_mask mask_eq_exp_minus_1)

lemma single_ranges: "0 \<le> single_exp w" "single_exp w < 256" "0 \<le> single_frac w" "single_frac w < 2 ^ 23"
  unfolding single_exp_def single_exp_field single_frac_def single_frac_field
  by (simp_all add: unsigned_take_bit_eq take_bit_int_less_exp[of 8, simplified] take_bit_int_less_exp[of 23, simplified])

lemma single_sign_field: "FPS_SIGN w \<noteq> 0 \<longleftrightarrow> single_neg w"
  using and_exp_eq_0_iff[of w 31] by (simp add: FPS_SIGN_def single_neg_def)

lemma bit_single_exp: "n < 8 \<Longrightarrow> bit w (23 + n) \<longleftrightarrow> bit (single_exp w) n"
  by (auto simp: single_exp_def single_exp_field bit_simps dest: bit_imp_le_length)

lemma bit_single_frac: "n < 23 \<Longrightarrow> bit w n \<longleftrightarrow> bit (single_frac w) n"
  by (auto simp: single_frac_def single_frac_field bit_simps dest: bit_imp_le_length)

lemma single_eqI:
  assumes "single_neg v = single_neg w" "single_exp v = single_exp w" "single_frac v = single_frac w"
  shows "v = w"
proof (rule bit_word_eqI)
  fix n assume "n < LENGTH(32)"
  then have "n < 32" by simp
  then consider "n < 23" | "23 \<le> n" "n < 31" | "n = 31" by linarith
  then show "bit v n = bit w n"
  proof cases
    case 2
    then have "n = 23 + (n - 23)" "n - 23 < 8" by auto
    then show ?thesis using bit_single_exp[of "n - 23" v] bit_single_exp[of "n - 23" w] assms by simp
  qed (use assms bit_single_frac in \<open>auto simp: single_neg_def\<close>)
qed

lemma pack_single_fields:
  assumes "0 \<le> e" "e < 256"
  shows "single_neg (FPS_PACK_VAR s e m) = (s \<noteq> 0)" "single_exp (FPS_PACK_VAR s e m) = e"
    "single_frac (FPS_PACK_VAR s e m) = uint m mod 2 ^ 23"
proof -
  have "take_bit 8 e = e" using assms by (simp add: take_bit_int_eq_self_iff)
  then have e8: "bit e n \<Longrightarrow> n < 8" for n by (metis bit_take_bit_iff)
  have k: "(0x7fffff :: uint64) = mask 23" by (simp add: mask_eq_exp_minus_1)
  define S where "S = (0x80000000 :: uint32)"
  have sb: "bit S n \<longleftrightarrow> n = 31" for n
  proof -
    have p: "S = push_bit 31 1" by (simp add: S_def)
    show ?thesis unfolding p bit_push_bit_iff bit_1_iff possible_bit_word by auto
  qed
  have b: "bit (FPS_PACK_VAR s e m) n \<longleftrightarrow> n < 32 \<and>
      (n = 31 \<and> s \<noteq> 0 \<or> 23 \<le> n \<and> bit e (n - 23) \<or> n < 23 \<and> bit m n)" for n
    using e8[of "n - 23"] unfolding FPS_PACK_VAR_def k S_def[symmetric] by (auto simp: bit_simps sb dest: bit_imp_le_length)
  show "single_neg (FPS_PACK_VAR s e m) = (s \<noteq> 0)"
    unfolding single_neg_def b using e8[of 8] by auto
  have "take_bit 8 (drop_bit 23 (FPS_PACK_VAR s e m)) = word_of_int e"
    by (rule bit_word_eqI) (auto simp: bit_simps b dest: e8)
  then show "single_exp (FPS_PACK_VAR s e m) = e"
    unfolding single_exp_def single_exp_field using assms by (simp add: uint_word_of_int)
  have "FPS_FRAC (FPS_PACK_VAR s e m) = ucast (take_bit 23 m)"
    unfolding single_frac_field by (rule bit_word_eqI) (auto simp: bit_simps b)
  then show "single_frac (FPS_PACK_VAR s e m) = uint m mod 2 ^ 23"
    unfolding single_frac_def
    by (simp only: unsigned_ucast_eq unsigned_take_bit_eq take_bit_take_bit) (simp add: take_bit_eq_mod)
qed

subsection \<open>Unpacking\<close>

lemma single_cases:
  obtains (special) "single_exp w = 255" | (zero) "single_exp w = 0" "single_frac w = 0"
    | (denormal) "single_exp w = 0" "single_frac w \<noteq> 0" | (normal) "0 < single_exp w" "single_exp w < 255"
  using single_ranges(1,2)[of w] by linarith

lemma single_frac_bound: "unat (FPS_FRAC w) < 2 ^ 23" "nat (single_frac w) = unat (FPS_FRAC w)"
proof -
  show "unat (FPS_FRAC w) < 2 ^ 23" unfolding single_frac_field unsigned_take_bit_eq by (rule take_bit_nat_less_exp)
qed (simp add: single_frac_def)

lemma unpack_single_normal:
  assumes "0 < single_exp w" "single_exp w < 255"
  shows "s_type (ppc_fpu_unpack_single w) = ppc_fpr_norm" "s_e (ppc_fpu_unpack_single w) = single_exp w - 127"
    "unat (s_m (ppc_fpu_unpack_single w)) = (2 ^ 23 + nat (single_frac w)) * 8"
proof -
  let ?m = "FPS_FRAC w"
  have "?m OR push_bit 23 1 = ?m + push_bit 23 1"
  proof (rule disjunctive_add[symmetric])
    show "\<not> bit ?m n \<or> \<not> bit (push_bit 23 1 :: uint32) n" for n
      unfolding single_frac_field bit_push_bit_iff bit_1_iff bit_take_bit_iff by auto
  qed
  moreover have "unat (?m + push_bit 23 1) = unat ?m + 2 ^ 23"
    using single_frac_bound(1)[of w] by (simp add: unat_word_ariths)
  ultimately have "unat (push_bit 3 (?m OR push_bit 23 1)) = (unat ?m + 2 ^ 23) * 8"
    using single_frac_bound(1)[of w] by (subst unat_push) simp_all
  then show "unat (s_m (ppc_fpu_unpack_single w)) = (2 ^ 23 + nat (single_frac w)) * 8"
    using assms single_frac_bound(2)[of w] by (simp add: ppc_fpu_unpack_single_def Let_def single_exp_def)
  show "s_type (ppc_fpu_unpack_single w) = ppc_fpr_norm" "s_e (ppc_fpu_unpack_single w) = single_exp w - 127"
    using assms by (simp_all add: ppc_fpu_unpack_single_def Let_def single_exp_def)
qed

lemma unpack_single_denormal:
  assumes "single_exp w = 0" "single_frac w \<noteq> 0"
  obtains k where "2 ^ k \<le> nat (single_frac w)" "nat (single_frac w) < 2 ^ (k + 1)" "k < 23"
    "s_type (ppc_fpu_unpack_single w) = ppc_fpr_norm" "s_e (ppc_fpu_unpack_single w) = int k - 149"
    "unat (s_m (ppc_fpu_unpack_single w)) = nat (single_frac w) * 2 ^ (26 - k)"
proof -
  let ?m = "FPS_FRAC w"
  have m0: "?m \<noteq> 0" using assms(2) by (auto simp: single_frac_def)
  define k where "k = nat (31 - leading_zero_steps 31 ?m)"
  have t: "top (31 - leading_zero_steps 31 ?m) ?m" by (rule leading_zero_steps_top[OF m0])
  then have k: "leading_zero_steps 31 ?m = 31 - int k" "2 ^ k \<le> unat ?m" "unat ?m < 2 ^ (k + 1)"
    by (auto simp: k_def top_def)
  have "(2::nat) ^ k < 2 ^ 23" using k(2) single_frac_bound(1)[of w] by linarith
  then have k23: "k < 23" by (simp only: power_strict_increasing_iff one_less_numeral_iff semiring_norm)
  have "unat ?m * 2 ^ (26 - k) < 2 ^ (k + 1) * 2 ^ (26 - k)" using k(3) by simp
  also have "\<dots> = 2 ^ 27" using k23 by (simp flip: power_add)
  finally have u: "unat (push_bit (26 - k) ?m) = unat ?m * 2 ^ (26 - k)" by (intro unat_push) simp
  have n: "nat (31 - int k - 8 + 3) = 26 - k" using k23 by simp
  have e: "single_exp w = uint (FPS_EXP w AND 0xff)" by (rule single_exp_def)
  have r: "ppc_fpu_unpack_single w =
      \<lparr>s_type = ppc_fpr_norm, s_s = FPS_SIGN w, s_e = int k - 149, s_m = push_bit (26 - k) ?m\<rparr>"
    using assms(1) m0 unfolding ppc_fpu_unpack_single_def Let_def k(1) n e by simp
  show thesis
    by (rule that[of k]) (use k k23 r u single_frac_bound(2)[of w] in simp_all)
qed

subsection \<open>Loading and storing\<close>

lemma round_exact: "m AND 7 = 0 \<Longrightarrow> snd (round_mantissa fp s m) = m"
  by (simp add: round_mantissa_def Let_def)

text \<open>A finite number of single precision in the form of double precision: the leading bit in place, the rest exact.\<close>

lemma single_to_double_finite:
  assumes "s_type (ppc_fpu_unpack_single w) = ppc_fpr_norm"
  defines "s \<equiv> ppc_fpu_unpack_single w"
  obtains n where "unat (s_m s) = n" "2 ^ 26 \<le> n" "n < 2 ^ 27" "- 149 \<le> s_e s" "s_e s < 128"
    "d_type (ppc_fpu_single_to_double s) = ppc_fpr_norm" "unat (d_m (ppc_fpu_single_to_double s)) = n * 2 ^ 29"
    "d_e (ppc_fpu_single_to_double s) = s_e s" "d_s (ppc_fpu_single_to_double s) = s_s s"
proof -
  have "2 ^ 26 \<le> unat (s_m s) \<and> unat (s_m s) < 2 ^ 27 \<and> - 149 \<le> s_e s \<and> s_e s < 128"
  proof (cases w rule: single_cases)
    case special
    then show ?thesis using assms(1) by (simp add: ppc_fpu_unpack_single_def Let_def single_exp_def split: if_splits)
  next
    case zero
    then show ?thesis using assms(1)
      by (simp add: ppc_fpu_unpack_single_def Let_def single_exp_def single_frac_def uint_0_iff split: if_splits)
  next
    case denormal
    from unpack_single_denormal[OF this] obtain k where k: "2 ^ k \<le> nat (single_frac w)" "nat (single_frac w) < 2 ^ (k + 1)" "k < 23"
      "s_e s = int k - 149" "unat (s_m s) = nat (single_frac w) * 2 ^ (26 - k)"
      unfolding s_def by metis
    have "2 ^ k * 2 ^ (26 - k) \<le> unat (s_m s)" "unat (s_m s) < 2 ^ (k + 1) * 2 ^ (26 - k)"
      unfolding k(5) using k(1,2) by simp_all
    moreover have "2 ^ k * 2 ^ (26 - k) = (2::nat) ^ 26" "2 ^ (k + 1) * 2 ^ (26 - k) = (2::nat) ^ 27"
      using k(3) by (simp_all flip: power_add)
    ultimately show ?thesis using k(3,4) by simp
  next
    case normal
    then show ?thesis using unpack_single_normal[OF normal] single_ranges(3,4)[of w] by (simp add: s_def)
  qed
  moreover from this have "unat (push_bit 29 (ucast (s_m s) :: uint64)) = unat (s_m s) * 2 ^ 29"
    by (subst unat_push) (simp_all add: unsigned_ucast_eq take_bit_nat_eq_self)
  ultimately show thesis using that[of "unat (s_m s)"] assms(1) by (simp add: ppc_fpu_single_to_double_def s_def)
qed

definition loaded :: "uint32 \<Rightarrow> uint32 \<Rightarrow> uint64" where
  "loaded fp w = snd (ppc_fpu_pack_double fp (ppc_fpu_single_to_double (ppc_fpu_unpack_single w)))"

definition stored :: "uint32 \<Rightarrow> uint64 \<Rightarrow> uint32" where
  "stored fp v = snd (ppc_fpu_pack_single fp (ppc_fpu_unpack_double v))"

lemma single_sign: "s_s (ppc_fpu_unpack_single w) \<noteq> 0 \<longleftrightarrow> single_neg w"
  using single_sign_field[of w] by (simp add: ppc_fpu_unpack_single_def Let_def)

text \<open>Unpacking what a load leaves in the register gives the number that was loaded.\<close>

lemma loaded_finite:
  fixes fp :: uint32
  assumes t: "s_type (ppc_fpu_unpack_single w) = ppc_fpr_norm"
  defines "s \<equiv> ppc_fpu_unpack_single w" and "d \<equiv> ppc_fpu_unpack_double (loaded fp w)"
  shows "fpr_normal (loaded fp w)" "fpr_neg (loaded fp w) = single_neg w" "d_type d = ppc_fpr_norm" "d_e d = s_e s"
    "unat (d_m d) = unat (s_m s) * 2 ^ 29"
proof -
  define n where "n = unat (s_m s)"
  define D where "D = ppc_fpu_single_to_double s"
  have n: "2 ^ 26 \<le> n" "n < 2 ^ 27" "- 149 \<le> s_e s" "s_e s < 128" and D: "d_type D = ppc_fpr_norm"
      "unat (d_m D) = n * 2 ^ 29" "d_e D = s_e s" "d_s D = s_s s"
    using single_to_double_finite[OF t] unfolding n_def D_def s_def by metis+
  have q: "rounded rn z (unat (d_m D)) = n * 2 ^ 26" for rn z
    using rounded_exact[of rn z "n * 2 ^ 26"] unfolding D(2) by (simp add: algebra_simps)
  have "packed (d_s D \<noteq> 0) (d_e D + 1023) (n * 2 ^ 26 - 2 ^ 52) (snd (ppc_fpu_pack_double fp D))"
    using pack_normal(1)[of D fp] D n unfolding q by simp
  moreover have ld: "loaded fp w = snd (ppc_fpu_pack_double fp D)" by (simp add: loaded_def D_def s_def)
  ultimately have p: "fpr_neg (loaded fp w) = single_neg w" "fpr_exp (loaded fp w) = s_e s + 1023"
      "fpr_frac (loaded fp w) = int (n * 2 ^ 26 - 2 ^ 52)"
    unfolding ld[symmetric] packed_def D(3,4) by (simp_all add: s_def single_sign)
  show "fpr_neg (loaded fp w) = single_neg w" by (rule p)
  show nm: "fpr_normal (loaded fp w)" using n by (simp add: fpr_normal_def p)
  show "d_type d = ppc_fpr_norm" "d_e d = s_e s" using unpack_normal[OF nm] by (simp_all add: d_def p)
  show "unat (d_m d) = unat (s_m s) * 2 ^ 29"
    using unpack_normal(3)[OF nm] n unfolding d_def p n_def[symmetric] by simp
qed

lemma stored_loaded_normal:
  assumes "0 < single_exp w" "single_exp w < 255"
  shows "stored fp (loaded fp w) = w"
proof -
  let ?d = "ppc_fpu_unpack_double (loaded fp w)" and ?f = "2 ^ 23 + nat (single_frac w)"
  note u = unpack_single_normal[OF assms]
  note l = loaded_finite[OF u(1), of fp]
  define m where "m = drop_bit 29 (d_m ?d)"
  have m: "unat m = ?f * 8" unfolding m_def unat_drop l(5) u(3) by simp
  have f: "nat (single_frac w) < 2 ^ 23" using single_ranges(3,4)[of w] by simp
  have "m AND 7 = 0"
  proof -
    have "unat (m AND 7) = 0" using low_bits(1)[of m] m by simp
    then show ?thesis by (simp only: unat_eq_zero)
  qed
  then obtain x where rm: "round_mantissa fp (d_s ?d) m = (x, m)" using round_exact by (metis prod.collapse)
  have t: "\<not> m AND push_bit 27 1 \<noteq> 0" by (subst test_bit_top) (use m f in simp_all)
  have "stored fp (loaded fp w) = FPS_PACK_VAR (d_s ?d) (single_exp w) (drop_bit 3 m)"
    using rm t assms
    by (simp add: stored_def ppc_fpu_pack_single_def l(3,4) u(2) ppc_fpu_round_double_single_def Let_def flip: m_def)
  moreover have "uint (drop_bit 3 m) mod 2 ^ 23 = single_frac w"
  proof -
    have "unat (drop_bit 3 m) mod 2 ^ 23 = nat (single_frac w)" unfolding unat_drop m using f by simp
    then have "int (unat (drop_bit 3 m) mod 2 ^ 23) = single_frac w" using single_ranges(3)[of w] by simp
    then show ?thesis by (simp add: of_nat_mod)
  qed
  ultimately show ?thesis
    using pack_single_fields[of "single_exp w" "d_s ?d" "drop_bit 3 m"] assms l(2)
    by (intro single_eqI) (simp_all add: unpack_neg)
qed

lemma stored_loaded_denormal:
  assumes "single_exp w = 0" "single_frac w \<noteq> 0"
  shows "stored fp (loaded fp w) = w"
proof -
  let ?d = "ppc_fpu_unpack_double (loaded fp w)" and ?f = "nat (single_frac w)"
  from unpack_single_denormal[OF assms] obtain k where k: "k < 23" "s_type (ppc_fpu_unpack_single w) = ppc_fpr_norm"
    "s_e (ppc_fpu_unpack_single w) = int k - 149" "unat (s_m (ppc_fpu_unpack_single w)) = ?f * 2 ^ (26 - k)" by metis
  note l = loaded_finite[OF k(2), of fp]
  define m where "m = drop_bit (nat (- 126 - d_e ?d) + 29) (d_m ?d)"
  have e: "nat (- 126 - d_e ?d) = 23 - k" using k(1,3) l(4) by simp
  have f: "?f < 2 ^ 23" using single_ranges(3,4)[of w] by simp
  have "26 - k = 3 + (23 - k)" using k(1) by simp
  then have pw: "(2::nat) ^ (26 - k) = 8 * 2 ^ (23 - k)" by (simp only: power_add) simp
  have m: "unat m = ?f * 8" unfolding m_def e unat_drop l(5) k(4) pw by (simp add: power_add)
  have "m AND 7 = 0"
  proof -
    have "unat (m AND 7) = 0" using low_bits(1)[of m] m by simp
    then show ?thesis by (simp only: unat_eq_zero)
  qed
  then obtain x where rm: "round_mantissa fp (d_s ?d) m = (x, m)" using round_exact by (metis prod.collapse)
  have m2: "unat (push_bit 1 m) = ?f * 16" using unat_push[of m 1] m f by simp
  have t: "\<not> push_bit 1 m AND push_bit 27 1 \<noteq> 0" by (subst test_bit_top) (use m2 f in simp_all)
  have e27: "\<not> 0 < d_e ?d + 127" "- (d_e ?d + 127) + 1 \<le> 27" using l(4) k(1,3) by simp_all
  have "stored fp (loaded fp w) = FPS_PACK_VAR (d_s ?d) 0 (drop_bit 4 (push_bit 1 m))"
    using rm t e27 l(3)
    by (simp add: stored_def ppc_fpu_pack_single_def ppc_fpu_round_double_single_def Let_def m_def[symmetric])
  moreover have "uint (drop_bit 4 (push_bit 1 m)) mod 2 ^ 23 = single_frac w"
  proof -
    have "unat (drop_bit 4 (push_bit 1 m)) mod 2 ^ 23 = ?f" unfolding unat_drop m2 using f by simp
    then have "int (unat (drop_bit 4 (push_bit 1 m)) mod 2 ^ 23) = single_frac w" using single_ranges(3)[of w] by simp
    then show ?thesis by (simp add: of_nat_mod)
  qed
  ultimately show ?thesis
    using pack_single_fields[of 0 "d_s ?d" "drop_bit 4 (push_bit 1 m)"] assms l(2)
    by (intro single_eqI) (simp_all add: unpack_neg)
qed

end
