(* ===== verification/Ppc_Fpu_Props.thy ===== *)
theory Ppc_Fpu_Props
  imports Ppc_Fpu_Single Ppc_Insn_Props
begin

text \<open>What the floating-point instructions guarantee, and where they leave the arithmetic of the architecture.\<close>

unbundle bit_operations_syntax

subsection \<open>Comparison\<close>

definition cr_nibble :: "nat \<Rightarrow> uint32 \<Rightarrow> uint32" where
  "cr_nibble n w = drop_bit (4 * n) w AND 0xf"

definition fcmp_nibble :: "uint64 \<Rightarrow> uint64 \<Rightarrow> uint32" where
  "fcmp_nibble a b = (if fpr_nan a \<or> fpr_nan b then 1 else order_nibble (fpr_value a) (fpr_value b))"

lemma unpack_nan: "d_type (ppc_fpu_unpack_double v) = ppc_fpr_NaN \<longleftrightarrow> fpr_nan v"
proof (cases v rule: fpr_cases)
  case denormal
  from unpack_denormal[OF this] have "d_type (ppc_fpu_unpack_double v) = ppc_fpr_norm" by metis
  then show ?thesis using denormal by (simp add: fpr_nan_def)
qed (simp_all add: fpr_nan_def unpack_special_parts unpack_special(2) unpack_normal(1) fpr_normal_def)

lemma compare_nibble: "fcmp_nibble a b \<in> {1, 2, 4, 8}"
  by (simp add: fcmp_nibble_def order_nibble_def)

lemma cr_set:
  fixes w n :: uint32
  assumes "k < 8" "n \<in> {1, 2, 4, 8}"
  defines "w' \<equiv> (w AND ppc_fpu_cmp_and_mask k) OR push_bit (k * 4) n"
  shows "j < 8 \<Longrightarrow> cr_nibble j w' = (if j = k then n else cr_nibble j w)"
proof -
  have b: "bit n i \<Longrightarrow> i < 4" for i
  proof (rule ccontr)
    assume "bit n i" "\<not> i < 4"
    moreover have "take_bit 4 n = n" using assms(2) by auto
    ultimately show False by (metis bit_take_bit_iff)
  qed
  have "k = 0 \<or> k = 1 \<or> k = 2 \<or> k = 3 \<or> k = 4 \<or> k = 5 \<or> k = 6 \<or> k = 7" using assms(1) by linarith
  then have m: "ppc_fpu_cmp_and_mask k = NOT (push_bit (k * 4) (mask 4))"
    by (elim disjE) (simp_all add: ppc_fpu_cmp_and_mask_def mask_eq_exp_minus_1)
  have f: "(0xf :: uint32) = mask 4" by (simp add: mask_eq_exp_minus_1)
  assume j: "j < 8"
  show "cr_nibble j w' = (if j = k then n else cr_nibble j w)"
  proof (rule bit_word_eqI)
    fix i assume "i < LENGTH(32)"
    have "bit n (4 * j + i - 4 * k) \<and> i < 4 \<and> 4 * k \<le> 4 * j + i \<Longrightarrow> j = k" using b[of "4 * j + i - 4 * k"] by auto
    then show "bit (cr_nibble j w') i = bit (if j = k then n else cr_nibble j w) i"
      using j assms(1) b[of i] unfolding cr_nibble_def w'_def m f
      by (auto simp: bit_simps mult.commute)
  qed
qed

lemma fprf_set: "n \<in> {1, 2, 4, 8} \<Longrightarrow> drop_bit 12 ((w AND NOT 0x1f000) OR push_bit 12 n) AND 0x1f = (n :: uint32)"
proof -
  assume n: "n \<in> {1, 2, 4, 8}"
  have f: "(0x1f000 :: uint32) = push_bit 12 (mask 5)" "(0x1f :: uint32) = mask 5" by (simp_all add: mask_eq_exp_minus_1)
  have b: "bit n i \<Longrightarrow> i < 5" for i
  proof (rule ccontr)
    assume "bit n i" "\<not> i < 5"
    moreover have "take_bit 5 n = n" using n by auto
    ultimately show False by (metis bit_take_bit_iff)
  qed
  show ?thesis unfolding f by (rule bit_word_eqI) (auto simp: bit_simps dest: b)
qed

text \<open>C32: a floating-point comparison sets the field of the condition register that the instruction names, and the condition
  code of FPSCR, to less, greater or equal as the values of the two registers compare, infinities included, and to unordered
  exactly when one of them is not a number; the other fields and all registers stay.\<close>

theorem fcmp_orders:
  assumes "h = ppc_opc_fcmpu \<or> h = ppc_opc_fcmpo" "PPC_OPC_TEMPL_X opc = (crfD, frA, frB)" "j < 8"
  shows "\<exists>c'. exec h opc c = Inr c' \<and> fpr c' = fpr c \<and>
    cr_nibble j (cr c') = (if j = 7 - crfD div 4 then fcmp_nibble (fpr c frA) (fpr c frB) else cr_nibble j (cr c)) \<and>
    drop_bit 12 (fpscr c') AND 0x1f = fcmp_nibble (fpr c frA) (fpr c frB)"
proof -
  obtain fl where h: "h = fpu_cmp fl" using assms(1) by (auto simp: ppc_opc_fcmpu_def ppc_opc_fcmpo_def)
  let ?n = "fcmp_nibble (fpr c frA) (fpr c frB)" and ?k = "7 - crfD div 4"
  define fp where "fp = (if fpr_nan (fpr c frA) \<or> fpr_nan (fpr c frB) then fpscr c OR fl else fpscr c)"
  have e: "exec h opc c = Inr (c\<lparr>current_opc := opc, fpscr := (fp AND NOT 0x1f000) OR push_bit 12 ?n,
      cr := (cr c AND ppc_fpu_cmp_and_mask ?k) OR push_bit (?k * 4) ?n\<rparr>)"
    using assms(2) by (simp add: exec_def h fpu_cmp_def unpack_nan fcmp_nibble_def fp_def compare_orders Let_def)
  show ?thesis
    unfolding e using cr_set[of ?k ?n j "cr c"] fprf_set[of ?n fp] compare_nibble assms(3) by simp
qed

subsection \<open>Single precision\<close>

lemma stored_loaded_special:
  assumes "single_exp w = 255" "\<not> single_nan w"
  shows "stored fp (loaded fp w) = w" "fpr_exp (loaded fp w) = 2047"
proof -
  have f: "single_frac w = 0" using assms by (simp add: single_nan_def)
  have u: "ppc_fpu_unpack_single w = \<lparr>s_type = ppc_fpr_Inf, s_s = FPS_SIGN w, s_e = 255, s_m = FPS_FRAC w\<rparr>"
    using assms(1) f by (simp add: ppc_fpu_unpack_single_def Let_def single_exp_def single_frac_def uint_0_iff)
  have l: "loaded fp w = FPD_PACK_VAR (FPS_SIGN w) 2047 0"
    by (simp add: loaded_def u ppc_fpu_single_to_double_def ppc_fpu_pack_double_def)
  have p: "packed (single_neg w) 2047 0 (loaded fp w)"
    using packed_var[of 2047 "FPS_SIGN w" 0] by (simp add: l single_sign_field)
  then show e: "fpr_exp (loaded fp w) = 2047" by (simp add: packed_def)
  have "stored fp (loaded fp w) = FPS_PACK_VAR (d_s (ppc_fpu_unpack_double (loaded fp w))) 255 0"
    using p unpack_special_parts(1)[OF e] by (simp add: stored_def ppc_fpu_pack_single_def packed_def)
  then show "stored fp (loaded fp w) = w"
    using pack_single_fields[of 255 "d_s (ppc_fpu_unpack_double (loaded fp w))" 0] p assms(1) f
    by (intro single_eqI) (simp_all add: unpack_neg packed_def)
qed

lemma stored_loaded_zero:
  assumes "single_exp w = 0" "single_frac w = 0"
  shows "stored fp (loaded fp w) = w" "fpr_value (loaded fp w) = 0"
proof -
  have u: "ppc_fpu_unpack_single w = \<lparr>s_type = ppc_fpr_zero, s_s = FPS_SIGN w, s_e = 0, s_m = FPS_FRAC w\<rparr>"
    using assms by (simp add: ppc_fpu_unpack_single_def Let_def single_exp_def single_frac_def uint_0_iff)
  have l: "loaded fp w = FPD_PACK_VAR (FPS_SIGN w) 0 0"
    by (simp add: loaded_def u ppc_fpu_single_to_double_def ppc_fpu_pack_double_def)
  have p: "fpr_neg (loaded fp w) = single_neg w" "fpr_exp (loaded fp w) = 0" "fpr_frac (loaded fp w) = 0"
    using packed_var[of 0 "FPS_SIGN w" 0] by (simp_all add: l single_sign_field packed_def)
  then show "fpr_value (loaded fp w) = 0" by (simp add: fpr_value_def)
  have "stored fp (loaded fp w) = FPS_PACK_VAR (d_s (ppc_fpu_unpack_double (loaded fp w))) 0 0"
    using unpack_special(2)[OF p(2,3)] by (simp add: stored_def ppc_fpu_pack_single_def)
  then show "stored fp (loaded fp w) = w"
    using pack_single_fields[of 0 "d_s (ppc_fpu_unpack_double (loaded fp w))" 0] p assms
    by (intro single_eqI) (simp_all add: unpack_neg)
qed

lemma unpacked_value:
  assumes "s_type (ppc_fpu_unpack_single w) = ppc_fpr_norm"
  shows "fpr_value (loaded fp w) = sgn_of (single_neg w) *
    (real (unat (s_m (ppc_fpu_unpack_single w))) * p2 (s_e (ppc_fpu_unpack_single w) - 26))"
proof -
  note l = loaded_finite[OF assms, of fp]
  let ?s = "ppc_fpu_unpack_single w"
  have "p2 (s_e ?s - 26) = 2 ^ 29 * p2 (s_e ?s - 55)" using p2_scale[of 29 "s_e ?s - 55"] by simp
  then show ?thesis unfolding normal_value[OF l(1)] l(2,4,5) by simp
qed

lemma loaded_value:
  assumes "single_exp w \<noteq> 255"
  shows "fpr_value (loaded fp w) = single_value w"
proof (cases w rule: single_cases)
  case zero
  then show ?thesis by (simp add: stored_loaded_zero single_value_def)
next
  case normal
  note u = unpack_single_normal[OF normal]
  have "p2 (single_exp w - 150) = 8 * p2 (single_exp w - 153)" using p2_scale[of 3 "single_exp w - 153"] by simp
  then show ?thesis
    using normal single_ranges(3)[of w] unfolding unpacked_value[OF u(1)] u single_value_def by simp
next
  case denormal
  from unpack_single_denormal[OF this] obtain k where k: "k < 23" "s_type (ppc_fpu_unpack_single w) = ppc_fpr_norm"
    "s_e (ppc_fpu_unpack_single w) = int k - 149" "unat (s_m (ppc_fpu_unpack_single w)) = nat (single_frac w) * 2 ^ (26 - k)" by metis
  have "p2 (- 149) = 2 ^ (26 - k) * p2 (int k - 149 - 26)"
    using k(1) p2_scale[of "26 - k" "int k - 149 - 26"] by simp
  then show ?thesis
    using denormal single_ranges(3)[of w] unfolding unpacked_value[OF k(2)] k(3,4) single_value_def by simp
qed (use assms in simp)

text \<open>C31: loading a word of single precision gives the register exactly the number the word stands for, in every rounding mode,
  denormalized numbers included, and storing the register gives the word back, unless it is not a number.\<close>

theorem single_roundtrip:
  assumes "\<not> single_nan w"
  shows "single_of frD (load_single frD w c) = w \<and>
    (single_exp w \<noteq> 255 \<longrightarrow> fpr_value (fpr (load_single frD w c) frD) = single_value w)"
proof -
  have r: "fpr (load_single frD w c) frD = loaded (fpscr c) w" "single_of frD (load_single frD w c) = stored (fpscr c) (loaded (fpscr c) w)"
    by (simp_all add: load_single_def single_of_def write_fpr_def loaded_def stored_def)
  have "stored (fpscr c) (loaded (fpscr c) w) = w"
    by (rule single_cases[of w])
      (simp_all add: stored_loaded_special(1)[OF _ assms] stored_loaded_zero(1) stored_loaded_denormal stored_loaded_normal)
  then show ?thesis using loaded_value[of w "fpscr c"] unfolding r by blast
qed

subsection \<open>Conversion to integers\<close>


subsection \<open>Arithmetic\<close>

text \<open>The state after an instruction that does not record.\<close>

definition fpu_written :: "nat \<Rightarrow> uint32 \<Rightarrow> ppc_double \<Rightarrow> cpu \<Rightarrow> cpu" where
  "fpu_written frD opc d c = c\<lparr>current_opc := opc, fpr := (fpr c)(frD := snd (ppc_fpu_pack_double (fpscr c) d)),
     fpscr := fpscr c OR fst (ppc_fpu_pack_double (fpscr c) d)\<rparr>"

lemma fpu_written_fpr: "fpr (fpu_written frD opc d c) frD = snd (ppc_fpu_pack_double (fpscr c) d)"
  by (simp add: fpu_written_def)

lemma fpu_result_written:
  "fpu_result ppc_fpu_pack_double frD d (c\<lparr>current_opc := opc\<rparr>) =
     (if istrue (opc AND PPC_OPC_Rc) then Inl Ppc_Fatal else Inr (fpu_written frD opc d c))"
  by (simp add: fpu_result_def rc_unimplemented_def fpu_written_def split: prod.splits)

lemma fdiv_run:
  assumes "PPC_OPC_TEMPL_A opc = (frD, frA, frB, frC)"
    "d_type (ppc_fpu_unpack_double (fpr c frA)) = ppc_fpr_norm" "d_type (ppc_fpu_unpack_double (fpr c frB)) = ppc_fpr_norm"
  shows "exec (ppc_opc_fdivx J) opc c = (if istrue (opc AND PPC_OPC_Rc) then Inl Ppc_Fatal
    else Inr (fpu_written frD opc (ppc_fpu_div (junk_D J) (ppc_fpu_unpack_double (fpr c frA)) (ppc_fpu_unpack_double (fpr c frB))) c))"
  using assms by (simp add: exec_def ppc_opc_fdivx_def fpu_div_def set_fpscr_def fpu_result_written)

lemma fmul_run:
  assumes "PPC_OPC_TEMPL_A opc = (frD, frA, frB, frC)"
    "d_type (ppc_fpu_unpack_double (fpr c frA)) = ppc_fpr_norm" "d_type (ppc_fpu_unpack_double (fpr c frC)) = ppc_fpr_norm"
  shows "exec (ppc_opc_fmulx J) opc c = (if istrue (opc AND PPC_OPC_Rc) then Inl Ppc_Fatal
    else Inr (fpu_written frD opc (ppc_fpu_mul (junk_D J) (ppc_fpu_unpack_double (fpr c frA)) (ppc_fpu_unpack_double (fpr c frC))) c))"
  using assms by (simp add: exec_def ppc_opc_fmulx_def fpu_mul_def set_fpscr_def fpu_result_written)

text \<open>C30: fdiv of two normal numbers is correctly rounded in each of the four rounding modes: no number of double precision is
  closer to the quotient on the side the mode allows, of two equally close ones it takes the even one; this for results
  that are neither too small for a normal number nor too large.\<close>

theorem fdiv_correctly_rounded:
  assumes "PPC_OPC_TEMPL_A opc = (frD, frA, frB, frC)" "exec (ppc_opc_fdivx J) opc c = Inr c'"
    and "fpr_normal (fpr c frA)" "fpr_normal (fpr c frB)" "p2 (- 1022) \<le> \<bar>fpr_value (fpr c frA) / fpr_value (fpr c frB)\<bar>"
    and "fpr_finite (fpr c' frD)"
  shows "correctly_rounded (FPSCR_RN (fpscr c)) (fpr_value (fpr c frA) / fpr_value (fpr c frB)) (fpr c' frD)"
proof -
  have "fpr c' frD = snd (ppc_fpu_pack_double (fpscr c)
      (ppc_fpu_div (junk_D J) (ppc_fpu_unpack_double (fpr c frA)) (ppc_fpu_unpack_double (fpr c frB))))"
    using fdiv_run[OF assms(1) unpack_normal(1)[OF assms(3)] unpack_normal(1)[OF assms(4)], of J] assms(2)
    by (auto simp: fpu_written_fpr split: if_splits)
  then show ?thesis using divide_rounds[OF assms(3,4,5)] assms(6) by simp
qed

lemma fmul_result:
  assumes "PPC_OPC_TEMPL_A opc = (frD, frA, frB, frC)" "exec (ppc_opc_fmulx J) opc c = Inr c'"
    and "fpr_normal (fpr c frA)" "fpr_normal (fpr c frC)"
  shows "fpr c' frD = snd (ppc_fpu_pack_double (fpscr c)
      (ppc_fpu_mul (junk_D J) (ppc_fpu_unpack_double (fpr c frA)) (ppc_fpu_unpack_double (fpr c frC))))"
  using fmul_run[OF assms(1) unpack_normal(1)[OF assms(3)] unpack_normal(1)[OF assms(4)], of J] assms(2)
  by (auto simp: fpu_written_fpr split: if_splits)

text \<open>C35: fmul of two normal numbers cuts the product to its 56 leading bits, dropping the others without a trace, and rounds
  that number correctly in the mode of FPSCR; in the mode that rounds towards zero this is the correctly rounded product.
  This for products that are neither too small for a normal number nor too large.\<close>

theorem fmul_cuts_and_rounds:
  assumes "PPC_OPC_TEMPL_A opc = (frD, frA, frB, frC)" "exec (ppc_opc_fmulx J) opc c = Inr c'"
    and "fpr_normal (fpr c frA)" "fpr_normal (fpr c frC)" "p2 (- 1022) \<le> \<bar>fpr_value (fpr c frA) * fpr_value (fpr c frC)\<bar>"
    and "fpr_finite (fpr c' frD)"
  shows "(\<exists>x. cut_56 (fpr_value (fpr c frA) * fpr_value (fpr c frC)) x \<and>
      correctly_rounded (FPSCR_RN (fpscr c)) x (fpr c' frD)) \<and>
    (FPSCR_RN (fpscr c) = FPSCR_RN_ZERO \<longrightarrow>
      correctly_rounded (FPSCR_RN (fpscr c)) (fpr_value (fpr c frA) * fpr_value (fpr c frC)) (fpr c' frD))"
  by (rule multiply_rounds[OF assms(3,4,5), of "fpscr c" "junk_D J"])
    (use assms(6) in \<open>auto simp: fmul_result[OF assms(1-4)]\<close>)

text \<open>C34: the arithmetic keeps the form of its numbers: the leading bit of a finite operand is bit 55 of the mantissa, and so it is
  in every sum, product, quotient and square root; none of them shifts a word by more than its width.  Unpacking gives this
  form to every register except the denormalized ones.\<close>

theorem fpu_form_kept:
  assumes "fpu_formed a" "fpu_formed b"
  shows "(\<exists>r. ppc_fpu_add fp res a b = Inr r \<and> fpu_formed r) \<and> fpu_formed (ppc_fpu_mul res a b) \<and>
    fpu_formed (ppc_fpu_div res a b) \<and> (\<exists>fp' r. ppc_fpu_sqrt fp junk res a = Inr (fp', r) \<and> fpu_formed r) \<and>
    (fpu_formed (ppc_fpu_unpack_double v) \<longleftrightarrow> \<not> (fpr_exp v = 0 \<and> fpr_frac v \<noteq> 0))"
  using add_formed[OF assms] mul_formed[OF assms] div_formed[OF assms] sqrt_formed[OF assms(1)] unpack_formed by simp

text \<open>Frsp of a normal number of at least 2 to the 128th leaves 2 to the 128th, a finite number that single precision
  does not have, instead of infinity or the largest number of single precision.\<close>

theorem frsp_overflow:
  assumes "PPC_OPC_TEMPL_X opc = (frD, frA, frB)" "opc AND PPC_OPC_Rc = 0" "fpr_normal (fpr c frB)"
    "p2 128 \<le> \<bar>fpr_value (fpr c frB)\<bar>"
  shows "\<exists>c'. exec ppc_opc_frspx opc c = Inr c' \<and> fpr_finite (fpr c' frD) \<and>
    fpr_value (fpr c' frD) = sgn_of (fpr_neg (fpr c frB)) * p2 128"
proof -
  define v where "v = fpr c frB"
  have n: "fpr_normal v" and big: "p2 128 \<le> \<bar>fpr_value v\<bar>" using assms(3,4) by (simp_all add: v_def)
  let ?d = "ppc_fpu_unpack_double v"
  have e: "128 \<le> d_e ?d"
  proof -
    have "real_of_int (2 ^ 52 + fpr_frac v) < 2 ^ 53" using frac_range[of v] by simp
    moreover have "\<bar>fpr_value v\<bar> = of_int (2 ^ 52 + fpr_frac v) * p2 (fpr_exp v - 1075)"
      using n by (simp add: value_bound magnitude_def fpr_normal_def)
    ultimately have "p2 128 < 2 ^ 53 * p2 (fpr_exp v - 1075)" using big by (simp add: order_le_less_trans)
    also have "\<dots> = p2 (fpr_exp v - 1022)" using p2_scale[of 53 "fpr_exp v - 1075"] by simp
    finally show ?thesis using unpack_normal(2)[OF n] unfolding p2_less by simp
  qed
  obtain f m where rm: "round_mantissa (fpscr c) (d_s ?d) (ucast (drop_bit 29 (d_m ?d)) :: uint32) = (f, m)" by (metis prod.collapse)
  have "snd (snd (round_to_single (fpscr c) ?d)) = 128 \<and> s_type (fst (snd (round_to_single (fpscr c) ?d))) = ppc_fpr_Inf \<and>
      s_m (fst (snd (round_to_single (fpscr c) ?d))) = 0"
    using rm e unpack_normal(1)[OF n] by (simp add: round_to_single_def ppc_fpu_round_single_def Let_def)
  then obtain ret s where rs: "round_to_single (fpscr c) ?d = (ret, s, 128)" "s_type s = ppc_fpr_Inf" "s_m s = 0"
    by (metis prod.collapse)
  have z: "round_mantissa (fpscr c) x (0 :: uint64) = (0, 0)" for x by (simp add: round_mantissa_def Let_def)
  define r where "r = snd (ppc_fpu_pack_double_as_single (fpscr c) ?d)"
  have r: "r = FPD_PACK_VAR (d_s ?d) 1151 0"
    using z unpack_normal(1)[OF n]
    by (simp add: r_def ppc_fpu_pack_double_as_single_def rs ppc_fpu_pack_double_def ppc_fpu_round_def Let_def)
  have p: "packed (fpr_neg v) 1151 0 r" using packed_var[of 1151 "d_s ?d" 0] by (simp add: r unpack_neg)
  then have "fpr_finite r" "fpr_value r = sgn_of (fpr_neg v) * (2 ^ 52 * p2 76)"
    by (simp_all add: packed_def fpr_finite_def fpr_value_def)
  moreover have "p2 128 = 2 ^ 52 * p2 76" using p2_scale[of 52 76] by simp
  moreover have "\<exists>c'. exec ppc_opc_frspx opc c = Inr c' \<and> fpr c' frD = r"
    using assms(1,2) by (simp add: exec_def ppc_opc_frspx_def fpu_result_def rc_unimplemented_def r_def v_def split: prod.splits)
  ultimately show ?thesis by (auto simp: v_def)
qed

subsection \<open>Concrete runs\<close>

definition fpu_cpu :: cpu where
  "fpu_cpu = (ppc_cpu_init 0)\<lparr>fpr := (\<lambda>i. if i = 1 then 0x4008000000000000 else if i = 2 then 0xc004000000000000 else 0x4800000000000000)\<rparr>"

definition no_double :: ppc_double where "no_double = \<lparr>d_type = ppc_fpr_zero, d_s = 0, d_e = 0, d_m = 0\<rparr>"
definition no_quadro :: ppc_quadro where "no_quadro = \<lparr>q_type = ppc_fpr_zero, q_s = 0, q_e = 0, q_m0 = 0, q_m1 = 0\<rparr>"
definition no_junk :: junk where
  "no_junk = \<lparr>junk_D = no_double, junk_Q = no_double, junk_div = no_double, junk_p = no_quadro, junk_x = no_quadro\<rparr>"

lemma fpu_cpu_regs:
  "fpr fpu_cpu 1 = 0x4008000000000000" "fpr fpu_cpu 2 = 0xc004000000000000" "fpr fpu_cpu 4 = 0x4800000000000000"
  "fpscr fpu_cpu = 0"
  by (simp_all add: fpu_cpu_def ppc_cpu_init_def)

lemma concrete_fields:
  "fpr_exp 0x4008000000000000 = 1024" "fpr_frac 0x4008000000000000 = 2251799813685248" "fpr_neg 0x4008000000000000 = False"
  "fpr_exp 0xc004000000000000 = 1024" "fpr_frac 0xc004000000000000 = 1125899906842624" "fpr_neg 0xc004000000000000 = True"
  "fpr_exp 0x4800000000000000 = 1152" "fpr_frac 0x4800000000000000 = 0" "fpr_neg 0x4800000000000000 = False"
  by code_simp+

lemma number_values:
  "fpr_value 0x4008000000000000 = 3" "fpr_value 0xc004000000000000 = - 5 / 2"
proof -
  have p: "p2 (- 51) = 1 / 2 ^ 51" using p2_minus[of 51] by (simp only: of_nat_numeral)
  show "fpr_value 0x4008000000000000 = 3" "fpr_value 0xc004000000000000 = - 5 / 2"
    by (simp_all add: fpr_value_def concrete_fields sgn_of_def p)
qed

lemma concrete_codes:
  "PPC_OPC_TEMPL_X 0xFC811000 = (4, 1, 2)" "PPC_OPC_TEMPL_A 0xFC611024 = (3, 1, 2, 0)" "PPC_OPC_TEMPL_A 0xFC6100B2 = (3, 1, 0, 2)"
  "PPC_OPC_TEMPL_X 0xFC60101C = (3, 0, 2)" "PPC_OPC_TEMPL_X 0xFC602018 = (3, 0, 4)"
  "0xFC60101C AND PPC_OPC_Rc = 0" "0xFC602018 AND PPC_OPC_Rc = 0" "0xFC611024 AND PPC_OPC_Rc = 0" "0xFC6100B2 AND PPC_OPC_Rc = 0"
  by (simp_all add: decode_simps PPC_OPC_TEMPL_A_def PPC_OPC_Rc_def)

lemma junk_unused:
  assumes "d_type a = ppc_fpr_norm" "d_type b = ppc_fpr_norm"
  shows "ppc_fpu_mul res a b = ppc_fpu_mul no_double a b" "ppc_fpu_div res a b = ppc_fpu_div no_double a b"
  by (cases res, simp add: ppc_fpu_mul_def ppc_fpu_div_def assms mul_norm_def div_norm_def no_double_def Let_def split: prod.splits)+

lemma concrete_normal: "fpr_normal 0x4008000000000000" "fpr_normal 0xc004000000000000" "fpr_normal 0x4800000000000000"
  by (simp_all add: fpr_normal_def concrete_fields)

lemma concrete_types: "d_type (ppc_fpu_unpack_double 0x4008000000000000) = ppc_fpr_norm"
  "d_type (ppc_fpu_unpack_double 0xc004000000000000) = ppc_fpr_norm"
  by (simp_all add: unpack_normal(1) concrete_normal)

theorem fcmp_orders_witness:
  "\<exists>c'. exec ppc_opc_fcmpu 0xFC811000 fpu_cpu = Inr c' \<and> cr_nibble 6 (cr c') = 4"
proof -
  have "\<not> fpr_nan 0x4008000000000000" "\<not> fpr_nan 0xc004000000000000" by (simp_all add: fpr_nan_def concrete_fields)
  then have "fcmp_nibble (fpr fpu_cpu 1) (fpr fpu_cpu 2) = 4"
    unfolding fpu_cpu_regs fcmp_nibble_def order_nibble_def number_values by simp
  then show ?thesis
    using fcmp_orders[of ppc_opc_fcmpu "0xFC811000" 4 1 2 6 fpu_cpu] concrete_codes(1) by auto
qed

theorem single_roundtrip_witness:
  "single_of 1 (load_single 1 0x80000001 fpu_cpu) = 0x80000001 \<and>
    fpr_value (fpr (load_single 1 0x80000001 fpu_cpu) 1) = - p2 (- 149)"
proof -
  have f: "single_exp 0x80000001 = 0" "single_frac 0x80000001 = 1" "single_neg 0x80000001" by code_simp+
  then have "\<not> single_nan 0x80000001" "single_value 0x80000001 = - p2 (- 149)"
    by (simp_all add: single_nan_def single_value_def sgn_of_def)
  then show ?thesis using single_roundtrip[of "0x80000001" 1 fpu_cpu] f by simp
qed


lemma concrete_quotient:
  "snd (ppc_fpu_pack_double 0 (ppc_fpu_div no_double (ppc_fpu_unpack_double 0x4008000000000000)
     (ppc_fpu_unpack_double 0xc004000000000000))) = 0xbff3333333333333"
  by code_simp

lemma small_power: "p2 (- 1022) \<le> 1"
  using p2_le[of "- 1022" 0] by (simp add: p2_def)

theorem fdiv_correctly_rounded_witness:
  "\<exists>c'. exec (ppc_opc_fdivx no_junk) 0xFC611024 fpu_cpu = Inr c' \<and> fpr c' 3 = 0xbff3333333333333 \<and>
    correctly_rounded FPSCR_RN_NEAR (- 6 / 5) (fpr c' 3)"
proof -
  define c' where "c' = fpu_written 3 0xFC611024 (ppc_fpu_div no_double (ppc_fpu_unpack_double 0x4008000000000000)
     (ppc_fpu_unpack_double 0xc004000000000000)) fpu_cpu"
  have e: "exec (ppc_opc_fdivx no_junk) 0xFC611024 fpu_cpu = Inr c'"
    using fdiv_run[OF concrete_codes(2), of fpu_cpu no_junk] concrete_codes(8) concrete_types
    unfolding fpu_cpu_regs junk_unused(2)[OF concrete_types, of "junk_D no_junk"] c'_def by simp
  have r: "fpr c' 3 = 0xbff3333333333333" unfolding c'_def fpu_written_fpr fpu_cpu_regs by (rule concrete_quotient)
  have "fpr_exp 0xbff3333333333333 = 1023" by code_simp
  then have "fpr_finite (fpr c' 3)" by (simp add: fpr_finite_def r)
  moreover have "p2 (- 1022) \<le> \<bar>3 / (- 5 / 2)\<bar>" using small_power by simp
  moreover have "FPSCR_RN 0 = FPSCR_RN_NEAR" by (simp add: FPSCR_RN_def FPSCR_RN_NEAR_def)
  ultimately have "correctly_rounded FPSCR_RN_NEAR (3 / (- 5 / 2)) (fpr c' 3)"
    using fdiv_correctly_rounded[OF concrete_codes(2) e] fpu_cpu_regs concrete_normal number_values by simp
  then show ?thesis using e r by auto
qed

theorem fmul_cuts_and_rounds_witness:
  "\<exists>c'. exec (ppc_opc_fmulx no_junk) 0xFC6100B2 (fpu_cpu\<lparr>fpscr := 1\<rparr>) = Inr c' \<and>
    correctly_rounded FPSCR_RN_ZERO (- 15 / 2) (fpr c' 3)"
proof -
  have m: "snd (ppc_fpu_pack_double 1 (ppc_fpu_mul no_double (ppc_fpu_unpack_double 0x4008000000000000)
     (ppc_fpu_unpack_double 0xc004000000000000))) = 0xc01e000000000000" by code_simp
  define c where "c = fpu_cpu\<lparr>fpscr := 1\<rparr>"
  have regs: "fpr c 1 = 0x4008000000000000" "fpr c 2 = 0xc004000000000000" "fpscr c = 1"
    using fpu_cpu_regs by (simp_all add: c_def)
  define c' where "c' = fpu_written 3 0xFC6100B2 (ppc_fpu_mul no_double (ppc_fpu_unpack_double 0x4008000000000000)
     (ppc_fpu_unpack_double 0xc004000000000000)) c"
  have e: "exec (ppc_opc_fmulx no_junk) 0xFC6100B2 c = Inr c'"
    using fmul_run[OF concrete_codes(3), of c no_junk] concrete_codes(9) concrete_types
    unfolding regs junk_unused(1)[OF concrete_types, of "junk_D no_junk"] c'_def by simp
  have r: "fpr c' 3 = 0xc01e000000000000" unfolding c'_def fpu_written_fpr regs by (rule m)
  have "fpr_exp 0xc01e000000000000 = 1025" by code_simp
  then have "fpr_finite (fpr c' 3)" by (simp add: fpr_finite_def r)
  moreover have "p2 (- 1022) \<le> \<bar>3 * (- 5 / 2)\<bar>" using small_power by simp
  moreover have "FPSCR_RN 1 = FPSCR_RN_ZERO" by (simp add: FPSCR_RN_def FPSCR_RN_ZERO_def)
  ultimately have "correctly_rounded FPSCR_RN_ZERO (3 * (- 5 / 2)) (fpr c' 3)"
    using fmul_cuts_and_rounds[OF concrete_codes(3) e] regs concrete_normal number_values by simp
  then show ?thesis using e unfolding c_def by auto
qed

theorem fpu_form_kept_witness:
  "\<exists>r. ppc_fpu_add 0 no_double (ppc_fpu_unpack_double 0x4008000000000000) (ppc_fpu_unpack_double 0xc004000000000000) = Inr r \<and>
    fpu_formed r"
proof -
  have "fpu_formed (ppc_fpu_unpack_double 0x4008000000000000)" "fpu_formed (ppc_fpu_unpack_double 0xc004000000000000)"
    by (simp_all add: unpack_formed concrete_fields)
  from fpu_form_kept[OF this, of 0 no_double no_double 0] show ?thesis by blast
qed

theorem frsp_overflow_witness:
  "\<exists>c'. exec ppc_opc_frspx 0xFC602018 fpu_cpu = Inr c' \<and> fpr_value (fpr c' 3) = p2 128"
proof -
  have "fpr_value 0x4800000000000000 = 2 ^ 52 * p2 77" by (simp add: fpr_value_def concrete_fields sgn_of_def)
  also have "\<dots> = p2 129" using p2_scale[of 52 77] by simp
  finally have "p2 128 \<le> \<bar>fpr_value (fpr fpu_cpu 4)\<bar>" using p2_le[of 128 129] by (simp add: fpu_cpu_regs)
  then show ?thesis
    using frsp_overflow[OF concrete_codes(5,7), of fpu_cpu] fpu_cpu_regs concrete_normal concrete_fields by (auto simp: sgn_of_def)
qed

text \<open>Fmul does not round to nearest: the bits below the 56 that it keeps are dropped, so a product just above the middle of two
  numbers is taken for the middle and the even neighbour is chosen, although the other one is closer.\<close>

theorem fmul_not_nearest:
  "\<exists>c c' w. FPSCR_RN (fpscr c) = FPSCR_RN_NEAR \<and> fpr_normal (fpr c 1) \<and> fpr_normal (fpr c 2) \<and>
    exec (ppc_opc_fmulx J) 0xFC6100B2 c = Inr c' \<and> fpr_finite w \<and>
    \<bar>fpr_value w - fpr_value (fpr c 1) * fpr_value (fpr c 2)\<bar> < \<bar>fpr_value (fpr c' 3) - fpr_value (fpr c 1) * fpr_value (fpr c 2)\<bar>"
proof -
  let ?a = "0x3ff0000000000001 :: uint64" and ?b = "0x3ff8000000000001 :: uint64" and ?r = "0x3ff8000000000002 :: uint64"
    and ?w = "0x3ff8000000000003 :: uint64"
  have f: "fpr_exp ?a = 1023" "fpr_exp ?b = 1023" "fpr_exp ?r = 1023" "fpr_exp ?w = 1023"
    "fpr_frac ?a = 1" "fpr_frac ?b = 2251799813685249" "fpr_frac ?r = 2251799813685250" "fpr_frac ?w = 2251799813685251"
    "\<not> fpr_neg ?a" "\<not> fpr_neg ?b" "\<not> fpr_neg ?r" "\<not> fpr_neg ?w"
    by code_simp+
  have n: "fpr_normal ?a" "fpr_normal ?b" by (simp_all add: fpr_normal_def f)
  note t = unpack_normal(1)[OF n(1)] unpack_normal(1)[OF n(2)]
  have p: "p2 (- 52) = 1 / 2 ^ 52" using p2_minus[of 52] by (simp only: of_nat_numeral)
  have m: "snd (ppc_fpu_pack_double 0 (ppc_fpu_mul no_double (ppc_fpu_unpack_double ?a) (ppc_fpu_unpack_double ?b))) = ?r"
    by code_simp
  define c where "c = fpu_cpu\<lparr>fpr := (\<lambda>i. if i = 1 then ?a else ?b)\<rparr>"
  have regs: "fpr c 1 = ?a" "fpr c 2 = ?b" "fpscr c = 0" using fpu_cpu_regs by (simp_all add: c_def)
  define c' where "c' = fpu_written 3 0xFC6100B2 (ppc_fpu_mul no_double (ppc_fpu_unpack_double ?a) (ppc_fpu_unpack_double ?b)) c"
  have e: "exec (ppc_opc_fmulx J) 0xFC6100B2 c = Inr c'"
    using fmul_run[OF concrete_codes(3), of c J] concrete_codes(9) t
    unfolding regs junk_unused(1)[OF t, of "junk_D J"] c'_def by simp
  have r: "fpr c' 3 = ?r" unfolding c'_def fpu_written_fpr regs by (rule m)
  have v: "fpr_value (fpr c 1) = 4503599627370497 / 2 ^ 52" "fpr_value (fpr c 2) = 6755399441055745 / 2 ^ 52"
    "fpr_value (fpr c' 3) = 6755399441055746 / 2 ^ 52" "fpr_value ?w = 6755399441055747 / 2 ^ 52"
    unfolding regs r by (simp_all add: fpr_value_def f sgn_of_def p)
  have "FPSCR_RN (fpscr c) = FPSCR_RN_NEAR" by (simp add: regs FPSCR_RN_def FPSCR_RN_NEAR_def)
  moreover have "fpr_finite ?w" by (simp add: fpr_finite_def f)
  moreover have "\<bar>fpr_value ?w - fpr_value (fpr c 1) * fpr_value (fpr c 2)\<bar> <
      \<bar>fpr_value (fpr c' 3) - fpr_value (fpr c 1) * fpr_value (fpr c 2)\<bar>"
    unfolding v by (simp add: divide_simps)
  moreover have "fpr_normal (fpr c 1)" "fpr_normal (fpr c 2)" unfolding regs by (rule n)+
  ultimately show ?thesis using e by blast
qed

end
