(* ===== verification/Tools_Array.thy ===== *)
theory Tools_Array
  imports Main
begin

text \<open>
  The arrays of tools/data.cc.  \<open>elems\<close> is the allocated buffer, null pointers are \<open>None\<close>; a handle is an index,
  \<open>InvObjHandle\<close> is \<open>None\<close>.  A failing assertion, a loop that does not end and an \<open>int\<close> that overflows are the value
  \<open>None\<close>.  The computation of the buffer's size runs in \<open>int\<close>, as in the code.  An operation that frees an object gives it
  back beside the array: it is freed only by an array that owns its objects.
\<close>

record 'a Array =
  own_objects :: bool
  elems :: "'a option list"
  ecount :: nat

abbreviation acount :: "'a Array \<Rightarrow> nat" where "acount A \<equiv> length (elems A)"

type_synonym handle = "nat option"

subsection \<open>The buffer\<close>

definition ARRAY_ALLOC_MIN :: int where "ARRAY_ALLOC_MIN = 4"
definition ARRAY_ALLOC_GROW_ABSMAX :: int where "ARRAY_ALLOC_GROW_ABSMAX = 64 * 1024"

text \<open>A result of signed 32-bit arithmetic, and the conversion of an \<open>uint\<close> to \<open>int\<close>.\<close>

definition fits_int :: "int \<Rightarrow> int option" where
  "fits_int v = (if - (2 ^ 31) \<le> v \<and> v < 2 ^ 31 then Some v else None)"

definition int_of_uint :: "nat \<Rightarrow> int" where
  "int_of_uint n = (int n + 2 ^ 31) mod 2 ^ 32 - 2 ^ 31"

partial_function (option) grow_loop :: "int \<Rightarrow> int \<Rightarrow> int option" where
  "grow_loop n min_newbufsize =
     (if n < min_newbufsize then Option.bind (fits_int (n * 3)) (\<lambda>n. grow_loop (n div 2) min_newbufsize) else Some n)"

partial_function (option) shrink_loop :: "int \<Rightarrow> int \<Rightarrow> int option" where
  "shrink_loop n min_newbufsize =
     (if min_newbufsize < n then Option.bind (fits_int (n * 2)) (\<lambda>n. shrink_loop (n div 3) min_newbufsize) else Some n)"

definition calcNewBufferSize :: "int \<Rightarrow> int \<Rightarrow> int option" where
  "calcNewBufferSize curbufsize min_newbufsize =
     (let n = (if curbufsize < ARRAY_ALLOC_MIN then ARRAY_ALLOC_MIN else curbufsize) in
      Option.bind (if n < min_newbufsize then grow_loop n min_newbufsize else shrink_loop n min_newbufsize) (\<lambda>n.
        Option.bind (fits_int (n - curbufsize)) (\<lambda>d.
          let n = (if d > ARRAY_ALLOC_GROW_ABSMAX then curbufsize + ARRAY_ALLOC_GROW_ABSMAX else n);
              n = (if n < ARRAY_ALLOC_MIN then ARRAY_ALLOC_MIN else n)
          in Some (if n < min_newbufsize then min_newbufsize else n))))"

definition Array_realloc :: "nat \<Rightarrow> 'a Array \<Rightarrow> 'a Array option" where
  "Array_realloc n A =
     (let n = (if n = 0 then 1 else n) in
      if n < ecount A then None else Some (A\<lparr>elems := take (ecount A) (elems A) @ replicate (n - ecount A) None\<rparr>))"

definition Array_new :: "bool \<Rightarrow> nat \<Rightarrow> 'a Array option" where
  "Array_new oo prealloc = Array_realloc prealloc \<lparr>own_objects = oo, elems = [], ecount = 0\<rparr>"

definition prepareWriteAccess :: "int \<Rightarrow> 'a Array \<Rightarrow> 'a Array option" where
  "prepareWriteAccess i A =
     Option.bind (fits_int (i + 1)) (\<lambda>m.
     Option.bind (calcNewBufferSize (int_of_uint (acount A)) m) (\<lambda>n.
       if int (acount A) < n then Array_realloc (nat n) A else Some A))"

text \<open>The object that is deleted: none for a null pointer, and none by an array that does not own its objects.\<close>

definition freeObj :: "'a Array \<Rightarrow> 'a option \<Rightarrow> 'a option" where
  "freeObj A obj = (if own_objects A then obj else None)"

definition Array_delAll :: "'a Array \<Rightarrow> 'a option list \<times> 'a Array" where
  "Array_delAll A = (map (freeObj A) (take (ecount A) (elems A)), A\<lparr>elems := [], ecount := 0\<rparr>)"

subsection \<open>Handles\<close>

definition validHandle :: "'a Array \<Rightarrow> handle \<Rightarrow> bool" where
  "validHandle A h \<longleftrightarrow> (case h of None \<Rightarrow> False | Some i \<Rightarrow> i < ecount A)"

definition Array_get :: "'a Array \<Rightarrow> handle \<Rightarrow> 'a option" where
  "Array_get A h = (case h of None \<Rightarrow> None | Some i \<Rightarrow> if i < ecount A then elems A ! i else None)"

definition Array_findByIdx :: "'a Array \<Rightarrow> int \<Rightarrow> handle" where
  "Array_findByIdx A i = (if 0 \<le> i \<and> validHandle A (Some (nat i)) then Some (nat i) else None)"

definition Array_findFirst :: "'a Array \<Rightarrow> handle" where
  "Array_findFirst A = (if ecount A \<noteq> 0 then Some 0 else None)"

definition Array_findLast :: "'a Array \<Rightarrow> handle" where
  "Array_findLast A = (if ecount A \<noteq> 0 then Some (ecount A - 1) else None)"

definition Array_findNext :: "'a Array \<Rightarrow> handle \<Rightarrow> handle" where
  "Array_findNext A h =
     (case h of None \<Rightarrow> Array_findFirst A
      | Some i \<Rightarrow> if \<not> validHandle A h then Array_findFirst A else if i < ecount A - 1 then Some (i + 1) else None)"

definition Array_findPrev :: "'a Array \<Rightarrow> handle \<Rightarrow> handle" where
  "Array_findPrev A h =
     (case h of None \<Rightarrow> Array_findLast A
      | Some i \<Rightarrow> if \<not> validHandle A h then Array_findLast A else if 0 < i then Some (i - 1) else None)"

subsection \<open>Operations\<close>

text \<open>\<open>memmove (elems + i, elems + i + 1, ecount - i - 1)\<close>: the slot behind the last object keeps what it held.\<close>

definition close_gap :: "nat \<Rightarrow> 'a Array \<Rightarrow> 'a option list" where
  "close_gap i A = take i (elems A) @ take (ecount A - i - 1) (drop (i + 1) (elems A)) @ drop (ecount A - 1) (elems A)"

text \<open>\<open>memmove (elems + i + 1, elems + i, ecount - i)\<close>; the buffer has a slot behind the last object.\<close>

definition open_gap :: "nat \<Rightarrow> 'a Array \<Rightarrow> 'a option list" where
  "open_gap i A = take (i + 1) (elems A) @ take (ecount A - i) (drop i (elems A)) @ drop (ecount A + 1) (elems A)"

definition Array_insert :: "'a option \<Rightarrow> 'a Array \<Rightarrow> (handle \<times> 'a Array) option" where
  "Array_insert obj A =
     map_option (\<lambda>A. (Some (ecount A), A\<lparr>elems := (elems A)[ecount A := obj], ecount := ecount A + 1\<rparr>))
       (prepareWriteAccess (int_of_uint (ecount A)) A)"

definition Array_insertAt :: "handle \<Rightarrow> 'a option \<Rightarrow> 'a Array \<Rightarrow> 'a Array option" where
  "Array_insertAt h obj A =
     (case h of
        None \<Rightarrow> map_option snd (Array_insert obj A)
      | Some i \<Rightarrow>
          if \<not> validHandle A h then map_option snd (Array_insert obj A)
          else map_option (\<lambda>A. A\<lparr>elems := (open_gap i A)[i := obj], ecount := ecount A + 1\<rparr>) (prepareWriteAccess (int_of_uint (ecount A)) A))"

definition Array_remove :: "handle \<Rightarrow> 'a Array \<Rightarrow> 'a option \<times> 'a Array" where
  "Array_remove h A =
     (case h of
        None \<Rightarrow> (None, A)
      | Some i \<Rightarrow>
          if \<not> validHandle A h then (None, A)
          else (elems A ! i, A\<lparr>elems := close_gap i A, ecount := ecount A - 1\<rparr>))"

definition Array_del :: "handle \<Rightarrow> 'a Array \<Rightarrow> bool \<times> 'a option \<times> 'a Array" where
  "Array_del h A =
     (if \<not> validHandle A h then (False, None, A)
      else let (obj, B) = Array_remove h A in (True, freeObj B obj, B))"

definition Array_moveTo :: "handle \<Rightarrow> handle \<Rightarrow> 'a Array \<Rightarrow> (bool \<times> 'a Array) option" where
  "Array_moveTo from_h to_h A =
     (case from_h of
        None \<Rightarrow> Some (False, A)
      | Some i \<Rightarrow>
          if \<not> validHandle A from_h \<or> \<not> validHandle A to_h then Some (False, A)
          else map_option (Pair True)
                 (Array_insertAt to_h (elems A ! i) (A\<lparr>elems := close_gap i A, ecount := ecount A - 1\<rparr>)))"

definition Array_set :: "handle \<Rightarrow> 'a option \<Rightarrow> 'a Array \<Rightarrow> bool \<times> 'a option \<times> 'a Array" where
  "Array_set h obj A =
     (case h of
        None \<Rightarrow> (False, None, A)
      | Some i \<Rightarrow> if \<not> validHandle A h then (False, None, A)
          else (True, freeObj A (elems A ! i), A\<lparr>elems := (elems A)[i := obj]\<rparr>))"

definition Array_swap :: "handle \<Rightarrow> handle \<Rightarrow> 'a Array \<Rightarrow> bool \<times> 'a Array" where
  "Array_swap h i A =
     (case (h, i) of
        (Some H, Some I) \<Rightarrow>
          if \<not> validHandle A h \<or> \<not> validHandle A i then (False, A)
          else (True, A\<lparr>elems := (elems A)[H := elems A ! I, I := elems A ! H]\<rparr>)
      | _ \<Rightarrow> (False, A))"

text \<open>The object that is freed and the array.\<close>

definition forceSetByIdx :: "int \<Rightarrow> 'a option \<Rightarrow> 'a Array \<Rightarrow> ('a option \<times> 'a Array) option" where
  "forceSetByIdx i obj A =
     (if i < 0 then None
      else map_option (\<lambda>A. (freeObj A (elems A ! nat i),
             A\<lparr>elems := (elems A)[nat i := obj], ecount := if ecount A \<le> nat i then nat i + 1 else ecount A\<rparr>))
           (prepareWriteAccess i A))"

subsection \<open>The size of the buffer\<close>

definition Array_ok :: "'a Array \<Rightarrow> bool" where
  "Array_ok A \<longleftrightarrow> ecount A \<le> acount A"

definition SAFE_SLOTS :: nat where "SAFE_SLOTS = 715827882"

lemma fits_int: "0 \<le> v \<Longrightarrow> v < 2 ^ 31 \<Longrightarrow> fits_int v = Some v"
  by (simp add: fits_int_def)

lemma int_of_uint: "n < 2 ^ 31 \<Longrightarrow> int_of_uint n = int n"
  by (simp add: int_of_uint_def)

lemma grow_ends: "2 \<le> n \<Longrightarrow> m \<le> int SAFE_SLOTS + 1 \<Longrightarrow> \<exists>k. grow_loop n m = Some k \<and> m \<le> k \<and> n \<le> k \<and> (n < m \<longrightarrow> k < 2 ^ 31)"
proof (induction "nat (m - n)" arbitrary: n rule: less_induct)
  case less
  show ?case
  proof (cases "n < m")
    case True
    have g: "n < n * 3 div 2" "n * 3 div 2 < 2 ^ 31" "n * 3 < 2 ^ 31" using less.prems True by (simp_all add: SAFE_SLOTS_def)
    then have "nat (m - n * 3 div 2) < nat (m - n)" "2 \<le> n * 3 div 2" using True less.prems by linarith+
    from less.hyps[OF this less.prems(2)] obtain k where
      "grow_loop (n * 3 div 2) m = Some k" "m \<le> k" "n * 3 div 2 \<le> k" "n * 3 div 2 < m \<longrightarrow> k < 2 ^ 31" by blast
    moreover from this have "k < 2 ^ 31" using g(2)
      by (cases "n * 3 div 2 < m") (simp_all add: grow_loop.simps[of "n * 3 div 2"])
    ultimately show ?thesis using True g(1,3) fits_int[of "n * 3"] less.prems(1)
      by (subst grow_loop.simps) (use order.trans in \<open>fastforce simp del: grow_loop.simps\<close>)
  next
    case False
    then show ?thesis by (subst grow_loop.simps) simp
  qed
qed

lemma shrink_ends: "0 \<le> m \<Longrightarrow> 0 \<le> n \<Longrightarrow> n < 2 ^ 30 \<Longrightarrow> \<exists>k. shrink_loop n m = Some k \<and> 0 \<le> k \<and> k \<le> m"
proof (induction "nat n" arbitrary: n rule: less_induct)
  case less
  show ?case
  proof (cases "m < n")
    case True
    then have "nat (n * 2 div 3) < nat n" "0 \<le> n * 2 div 3" "n * 2 div 3 < 2 ^ 30" using less.prems by linarith+
    from less.hyps[OF this(1) less.prems(1) this(2,3)] show ?thesis using True less.prems fits_int[of "n * 2"]
      by (subst shrink_loop.simps) simp
  next
    case False
    then show ?thesis using less.prems by (subst shrink_loop.simps) simp
  qed
qed

definition fit_size :: "int \<Rightarrow> int \<Rightarrow> int \<Rightarrow> int" where
  "fit_size c m n =
     (let n = (if n - c > ARRAY_ALLOC_GROW_ABSMAX then c + ARRAY_ALLOC_GROW_ABSMAX else n);
          n = (if n < ARRAY_ALLOC_MIN then ARRAY_ALLOC_MIN else n)
      in if n < m then m else n)"

lemma fit_size: "m \<le> fit_size c m n" "4 \<le> fit_size c m n"
  by (simp_all add: fit_size_def Let_def ARRAY_ALLOC_MIN_def)

lemma fit_size_le: "0 \<le> c \<Longrightarrow> m \<le> c + 65536 \<Longrightarrow> fit_size c m n \<le> c + 65536"
  by (auto simp: fit_size_def Let_def ARRAY_ALLOC_MIN_def ARRAY_ALLOC_GROW_ABSMAX_def)

lemma calcNewBufferSize_fit:
  assumes "0 \<le> c" "0 \<le> m" "c < 2 ^ 30" "m \<le> int SAFE_SLOTS + 1 \<or> m \<le> c"
  shows "\<exists>k. calcNewBufferSize c m = Some (fit_size c m k) \<and> (m \<le> c \<longrightarrow> k \<le> m)"
proof -
  define n where "n = (if c < ARRAY_ALLOC_MIN then ARRAY_ALLOC_MIN else c)"
  have n2: "2 \<le> n" "c \<le> n" "n < 2 ^ 30" using assms(3) by (simp_all add: n_def ARRAY_ALLOC_MIN_def)
  have "\<exists>k. (if n < m then grow_loop n m else shrink_loop n m) = Some k \<and> 0 \<le> k \<and> k < 2 ^ 31 \<and> (m \<le> c \<longrightarrow> k \<le> m)"
  proof (cases "n < m")
    case True
    then have "m \<le> int SAFE_SLOTS + 1" using assms(4) n2(2) by linarith
    from grow_ends[OF n2(1) this] show ?thesis using True n2 by auto
  next
    case False
    from shrink_ends[of m n] assms(2) n2 show ?thesis using False by fastforce
  qed
  then obtain k where k: "(if n < m then grow_loop n m else shrink_loop n m) = Some k" "0 \<le> k" "k < 2 ^ 31" "m \<le> c \<longrightarrow> k \<le> m"
    by blast
  have "fits_int (k - c) = Some (k - c)" using k(2,3) assms(1,3) by (simp add: fits_int_def)
  then have "calcNewBufferSize c m = Some (fit_size c m k)"
    unfolding calcNewBufferSize_def n_def[symmetric] Let_def k(1) fit_size_def by simp
  then show ?thesis using k(4) by blast
qed

lemma calcNewBufferSize_ok:
  assumes "0 \<le> c" "0 \<le> m" "c < 2 ^ 30" "m \<le> int SAFE_SLOTS + 1"
  shows "\<exists>n. calcNewBufferSize c m = Some n \<and> m \<le> n \<and> 4 \<le> n \<and> (m \<le> c + 65536 \<longrightarrow> n \<le> c + 65536)"
  using calcNewBufferSize_fit[of c m] fit_size fit_size_le assms by blast

lemma calcNewBufferSize_keep:
  assumes "4 \<le> c" "0 \<le> m" "m \<le> c" "c < 2 ^ 30"
  shows "\<exists>n. calcNewBufferSize c m = Some n \<and> n \<le> c"
proof -
  obtain k where k: "calcNewBufferSize c m = Some (fit_size c m k)" "k \<le> m"
    using calcNewBufferSize_fit[of c m] assms by auto
  have "fit_size c m k \<le> c" using assms k(2) by (auto simp: fit_size_def Let_def ARRAY_ALLOC_MIN_def ARRAY_ALLOC_GROW_ABSMAX_def)
  then show ?thesis using k(1) by blast
qed

text \<open>Above that bound the step of the growth no longer fits an \<open>int\<close>.\<close>

lemma calcNewBufferSize_overflows: "int SAFE_SLOTS < c \<Longrightarrow> c < m \<Longrightarrow> calcNewBufferSize c m = None"
  by (simp add: calcNewBufferSize_def ARRAY_ALLOC_MIN_def SAFE_SLOTS_def Let_def grow_loop.simps[of c m] fits_int_def)

lemma full_array_overflows:
  "Array_ok A \<Longrightarrow> ecount A = acount A \<Longrightarrow> SAFE_SLOTS < acount A \<Longrightarrow> acount A < 2 ^ 31 \<Longrightarrow> Array_insert x A = None"
  using calcNewBufferSize_overflows[of "int (acount A)" "int (acount A) + 1"]
  by (auto simp: Array_insert_def prepareWriteAccess_def int_of_uint fits_int_def bind_eq_None_conv)

subsection \<open>What the operations do\<close>

definition contents :: "'a Array \<Rightarrow> 'a option list" where
  "contents A = take (ecount A) (elems A)"

lemma Array_new_ok: "\<exists>A. Array_new oo n = Some A \<and> Array_ok A \<and> contents A = [] \<and> acount A = (if n = 0 then 1 else n) \<and> own_objects A = oo"
  by (auto simp: Array_new_def Array_realloc_def Array_ok_def contents_def Let_def)

lemma prepare_ok:
  assumes "Array_ok A" "acount A \<le> SAFE_SLOTS" "i \<le> SAFE_SLOTS"
  shows "\<exists>B. prepareWriteAccess (int i) A = Some B \<and> Array_ok B \<and> ecount B = ecount A \<and> i < acount B \<and>
    contents B = contents A \<and> own_objects B = own_objects A \<and> (i \<le> acount A \<longrightarrow> acount B \<le> acount A + 65536)"
proof -
  have c: "int_of_uint (acount A) = int (acount A)" "fits_int (int i + 1) = Some (int i + 1)" "int (acount A) < 2 ^ 30"
    "int i + 1 \<le> int SAFE_SLOTS + 1"
    using assms(2,3) by (simp_all add: int_of_uint fits_int SAFE_SLOTS_def)
  obtain n where n: "calcNewBufferSize (int (acount A)) (int i + 1) = Some n" "int i + 1 \<le> n" "4 \<le> n"
    "int i + 1 \<le> int (acount A) + 65536 \<longrightarrow> n \<le> int (acount A) + 65536"
    using calcNewBufferSize_ok[OF _ _ c(3,4)] by auto
  show ?thesis
  proof (cases "int (acount A) < n")
    case True
    then have "acount A \<le> nat n" "i < nat n" "nat n \<noteq> 0" "i \<le> acount A \<longrightarrow> nat n \<le> acount A + 65536" using n by linarith+
    then show ?thesis using assms n(1) True c(1,2)
      by (auto simp: prepareWriteAccess_def Array_realloc_def Array_ok_def contents_def Let_def nth_append)
  next
    case False
    then have "i < acount A" using n by linarith
    then show ?thesis using assms n(1) False c(1,2) by (auto simp: prepareWriteAccess_def)
  qed
qed

lemma prepare_end_ok:
  assumes "Array_ok A" "acount A \<le> SAFE_SLOTS"
  shows "\<exists>B. prepareWriteAccess (int_of_uint (ecount A)) A = Some B \<and> Array_ok B \<and> ecount B = ecount A \<and>
    ecount A < acount B \<and> contents B = contents A \<and> own_objects B = own_objects A \<and> acount B \<le> acount A + 65536"
proof -
  have e: "ecount A \<le> acount A" "ecount A \<le> SAFE_SLOTS" "int_of_uint (ecount A) = int (ecount A)"
    using assms int_of_uint[of "ecount A"] by (simp_all add: Array_ok_def SAFE_SLOTS_def)
  from prepare_ok[OF assms e(2)] e(1) show ?thesis unfolding e(3) by blast
qed

lemma insert_contents:
  assumes "Array_ok A" "acount A \<le> SAFE_SLOTS"
  shows "\<exists>B. Array_insert x A = Some (Some (ecount A), B) \<and> Array_ok B \<and> contents B = contents A @ [x] \<and>
    acount B \<le> acount A + 65536"
proof -
  obtain B where B: "prepareWriteAccess (int_of_uint (ecount A)) A = Some B" "Array_ok B" "ecount B = ecount A"
    "ecount A < acount B" "contents B = contents A" "acount B \<le> acount A + 65536" using prepare_end_ok[OF assms] by blast
  have "take (Suc (ecount A)) ((elems B)[ecount A := x]) = contents A @ [x]"
    using B(3-5) by (simp add: take_Suc_conv_app_nth contents_def)
  then show ?thesis using B by (auto simp: Array_insert_def Array_ok_def contents_def)
qed

lemma close_gap_contents:
  assumes "Array_ok A" "i < ecount A"
  shows "length (close_gap i A) = acount A"
    "take (ecount A - 1) (close_gap i A) = take i (contents A) @ drop (i + 1) (contents A)"
proof -
  show "length (close_gap i A) = acount A" using assms by (auto simp: close_gap_def Array_ok_def)
  show "take (ecount A - 1) (close_gap i A) = take i (contents A) @ drop (i + 1) (contents A)"
  proof -
    have "length (take i (elems A)) = i" "length (take (ecount A - i - 1) (drop (i + 1) (elems A))) = ecount A - 1 - i"
      using assms by (auto simp: Array_ok_def)
    then have "take (ecount A - 1) (close_gap i A) = take i (elems A) @ take (ecount A - i - 1) (drop (i + 1) (elems A))"
      using assms(2) unfolding close_gap_def by simp
    also have "\<dots> = take i (contents A) @ drop (i + 1) (contents A)"
      using assms(2) by (simp add: contents_def drop_take min_def)
    finally show ?thesis .
  qed
qed

lemma remove_contents:
  assumes "Array_ok A" "i < ecount A"
  shows "\<exists>B. Array_remove (Some i) A = (contents A ! i, B) \<and> Array_ok B \<and>
    contents B = take i (contents A) @ drop (i + 1) (contents A)"
  using assms close_gap_contents[OF assms] by (auto simp: Array_remove_def validHandle_def Array_ok_def contents_def)

lemma insertAt_contents:
  assumes "Array_ok A" "acount A \<le> SAFE_SLOTS"
  shows "\<exists>B. Array_insertAt (Some i) x A = Some B \<and> Array_ok B \<and>
    contents B = take i (contents A) @ [x] @ drop i (contents A)"
proof (cases "i < ecount A")
  case False
  then show ?thesis using insert_contents[OF assms, of x] by (auto simp: Array_insertAt_def validHandle_def contents_def)
next
  case True
  obtain B where B: "prepareWriteAccess (int_of_uint (ecount A)) A = Some B" "Array_ok B" "ecount B = ecount A"
    "ecount A < acount B" "contents B = contents A" using prepare_end_ok[OF assms] by blast
  have e: "elems B = contents A @ drop (ecount A) (elems B)" using B(3,5) by (metis append_take_drop_id contents_def)
  have l: "length (contents A) = ecount A" using assms(1) by (simp add: contents_def Array_ok_def)
  have "length (open_gap i B) = acount B" using True B(3,4) by (simp add: open_gap_def)
  moreover have "take (ecount A + 1) ((open_gap i B)[i := x]) = take i (contents A) @ [x] @ drop i (contents A)"
  proof (rule nth_equalityI)
    show "length (take (ecount A + 1) ((open_gap i B)[i := x])) = length (take i (contents A) @ [x] @ drop i (contents A))"
      using True B(3,4) l by (simp add: open_gap_def)
  next
    fix j assume "j < length (take (ecount A + 1) ((open_gap i B)[i := x]))"
    then have j: "j < ecount A + 1" by simp
    have c: "contents A ! k = elems B ! k" if "k < ecount A" for k using that B(3,5) by (metis contents_def nth_take)
    show "take (ecount A + 1) ((open_gap i B)[i := x]) ! j = (take i (contents A) @ [x] @ drop i (contents A)) ! j"
      using j True B(3,4) l c by (auto simp: open_gap_def nth_append nth_list_update nth_Cons' min_def)
  qed
  ultimately show ?thesis using B True by (auto simp: Array_insertAt_def validHandle_def Array_ok_def contents_def)
qed

lemma moveTo_contents:
  assumes "Array_ok A" "acount A \<le> SAFE_SLOTS" "i < ecount A" "t < ecount A"
  shows "\<exists>B. Array_moveTo (Some i) (Some t) A = Some (True, B) \<and> Array_ok B \<and>
    contents B = (let xs = take i (contents A) @ drop (i + 1) (contents A) in take t xs @ [contents A ! i] @ drop t xs)"
proof -
  let ?A = "A\<lparr>elems := close_gap i A, ecount := ecount A - 1\<rparr>"
  have "Array_ok ?A" "contents ?A = take i (contents A) @ drop (i + 1) (contents A)" "contents A ! i = elems A ! i"
    "acount ?A \<le> SAFE_SLOTS"
    using assms close_gap_contents[OF assms(1,3)] by (auto simp: Array_ok_def contents_def)
  then show ?thesis using insertAt_contents[of ?A t "elems A ! i"] assms(3,4)
    by (auto simp: Array_moveTo_def validHandle_def Let_def)
qed

lemma del_contents:
  assumes "Array_ok A" "i < ecount A"
  shows "\<exists>B. Array_del (Some i) A = (True, freeObj A (contents A ! i), B) \<and> Array_ok B \<and>
    contents B = take i (contents A) @ drop (i + 1) (contents A)"
  using assms close_gap_contents[OF assms]
  by (auto simp: Array_del_def Array_remove_def validHandle_def Array_ok_def contents_def freeObj_def)

lemma set_contents:
  "Array_ok A \<Longrightarrow> i < ecount A \<Longrightarrow>
     \<exists>B. Array_set (Some i) x A = (True, freeObj A (contents A ! i), B) \<and> Array_ok B \<and> contents B = (contents A)[i := x]"
  by (auto simp: Array_set_def validHandle_def Array_ok_def contents_def take_update_swap)

lemma swap_contents:
  "Array_ok A \<Longrightarrow> i < ecount A \<Longrightarrow> j < ecount A \<Longrightarrow>
     \<exists>B. Array_swap (Some i) (Some j) A = (True, B) \<and> Array_ok B \<and> contents B = (contents A)[i := contents A ! j, j := contents A ! i]"
  by (auto simp: Array_swap_def validHandle_def Array_ok_def contents_def take_update_swap)

text \<open>C14: An array is the list of its objects.  As long as its buffer has at most 715827882 slots, the computation of the
  buffer's size does not overflow, the buffer is made large enough, and inserting, inserting at an index, removing,
  deleting, replacing, moving and exchanging do on the list what they promise; the object that is deleted or replaced is
  freed exactly when the array owns its objects.  (A full array above that bound overflows: \<open>full_array_overflows\<close>.)\<close>

theorem array_refines_list:
  assumes "Array_ok A" "acount A \<le> 715827882" "i < ecount A" "j < ecount A"
  shows "(\<exists>B. Array_insert x A = Some (Some (ecount A), B) \<and> Array_ok B \<and> contents B = contents A @ [x]) \<and>
    (\<exists>B. Array_insertAt (Some i) x A = Some B \<and> Array_ok B \<and> contents B = take i (contents A) @ [x] @ drop i (contents A)) \<and>
    (\<exists>B. Array_remove (Some i) A = (contents A ! i, B) \<and> Array_ok B \<and>
      contents B = take i (contents A) @ drop (i + 1) (contents A)) \<and>
    (\<exists>B. Array_del (Some i) A = (True, if own_objects A then contents A ! i else None, B) \<and> Array_ok B \<and>
      contents B = take i (contents A) @ drop (i + 1) (contents A)) \<and>
    (\<exists>B. Array_set (Some i) x A = (True, if own_objects A then contents A ! i else None, B) \<and> Array_ok B \<and>
      contents B = (contents A)[i := x]) \<and>
    (\<exists>B. Array_swap (Some i) (Some j) A = (True, B) \<and> Array_ok B \<and>
      contents B = (contents A)[i := contents A ! j, j := contents A ! i]) \<and>
    (\<exists>B. Array_moveTo (Some i) (Some j) A = Some (True, B) \<and> Array_ok B \<and>
      contents B = (let xs = take i (contents A) @ drop (i + 1) (contents A) in take j xs @ [contents A ! i] @ drop j xs))"
proof -
  have n: "acount A \<le> SAFE_SLOTS" using assms(2) by (simp add: SAFE_SLOTS_def)
  show ?thesis
    using insert_contents[OF assms(1) n] insertAt_contents[OF assms(1) n] remove_contents[OF assms(1,3)]
      del_contents[OF assms(1,3), unfolded freeObj_def] set_contents[OF assms(1,3), unfolded freeObj_def]
      swap_contents[OF assms(1,3,4)] moveTo_contents[OF assms(1) n assms(3,4)] by blast
qed

definition sample_array :: "nat Array" where
  "sample_array = \<lparr>own_objects = True, elems = [Some 1, Some 2, Some 3, None], ecount = 3\<rparr>"

theorem array_refines_list_witness:
  "\<exists>B. Array_remove (Some 0) sample_array = (Some 1, B) \<and> Array_ok B \<and> contents B = [Some 2, Some 3]"
  using array_refines_list[of sample_array 0 0] by (simp add: sample_array_def Array_ok_def contents_def)

text \<open>C15: \<open>remove\<close> leaves the last object a second time in the slot behind the last one, and \<open>forceSetByIdx\<close> frees
  what it finds there: when an object other than the last is taken out and the slot behind the end is set next, an object
  that is still in the array is freed by an array that owns its objects.\<close>

theorem force_set_frees_live:
  assumes "Array_ok A" "own_objects A" "4 \<le> acount A" "acount A < 2 ^ 30" "i + 1 < ecount A" "Array_remove (Some i) A = (y, B)"
  shows "\<exists>C. forceSetByIdx (int (ecount B)) x B = Some (contents A ! (ecount A - 1), C) \<and>
    contents C ! (ecount B - 1) = contents A ! (ecount A - 1) \<and> ecount C = ecount A"
proof -
  let ?n = "ecount A"
  have a: "i < ?n" using assms(5) by simp
  have le: "?n \<le> acount A" using assms(1) by (simp add: Array_ok_def)
  have B: "B = A\<lparr>elems := close_gap i A, ecount := ?n - 1\<rparr>" using assms(6) a by (simp add: Array_remove_def validHandle_def)
  have len: "acount B = acount A" using close_gap_contents(1)[OF assms(1) a] by (simp add: B)
  have e: "elems B = take (?n - 1) (elems B) @ drop (?n - 1) (elems A)"
    using assms(5) le by (simp add: B close_gap_def)
  have t: "take (?n - 1) (elems B) = take i (contents A) @ drop (i + 1) (contents A)"
    using close_gap_contents(2)[OF assms(1) a] by (simp add: B)
  have n: "int (?n - 1) + 1 \<le> int (acount A)" using le a by linarith
  obtain k where k: "calcNewBufferSize (int (acount A)) (int (?n - 1) + 1) = Some k" "k \<le> int (acount A)"
    using calcNewBufferSize_keep[of "int (acount A)" "int (?n - 1) + 1"] assms(3,4) n by auto
  have "prepareWriteAccess (int (?n - 1)) B = Some B"
    using k assms(4) n by (simp add: prepareWriteAccess_def len int_of_uint fits_int)
  moreover have "elems B ! (?n - 1) = contents A ! (?n - 1)"
  proof -
    have "length (take (?n - 1) (elems B)) = ?n - 1" using le len by simp
    then have "(take (?n - 1) (elems B) @ drop (?n - 1) (elems A)) ! (?n - 1) = elems A ! (?n - 1)"
      using a le by (simp add: nth_append)
    then show ?thesis using e a by (simp add: contents_def)
  qed
  moreover have "elems B ! (?n - 2) = contents A ! (?n - 1)"
  proof -
    have "elems B ! (?n - 2) = take (?n - 1) (elems B) ! (?n - 2)" using assms(5) by simp
    also have "\<dots> = contents A ! (?n - 1)" unfolding t using assms(5) le
      by (simp add: nth_append contents_def min_def Suc_diff_Suc numeral_2_eq_2)
    finally show ?thesis .
  qed
  ultimately have p: "prepareWriteAccess (int (?n - 1)) B = Some B" "elems B ! (?n - 1) = contents A ! (?n - 1)"
    "elems B ! (?n - 2) = contents A ! (?n - 1)" by blast+
  have own: "own_objects B = own_objects A" by (simp add: B)
  define p where "p = ?n - 1"
  have q: "?n = Suc p" "ecount B = p" "p - 1 = ?n - 2" "p - 1 < p" using a assms(5) by (simp_all add: p_def B)
  have "forceSetByIdx (int p) x B = Some (contents A ! p, B\<lparr>elems := (elems B)[p := x], ecount := Suc p\<rparr>)"
    using p(1,2)[folded p_def] using assms(2) q(2) by (simp add: forceSetByIdx_def freeObj_def own)
  moreover have "contents (B\<lparr>elems := (elems B)[p := x], ecount := Suc p\<rparr>) ! (p - 1) = contents A ! p"
    using p(3)[folded p_def] q(3,4) by (simp add: contents_def q(1))
  ultimately show ?thesis by (auto simp: q(1,2))
qed

theorem force_set_frees_live_witness:
  "\<exists>C. forceSetByIdx 2 (Some 9) (snd (Array_remove (Some 0) sample_array)) = Some (Some 3, C) \<and> contents C ! 1 = Some 3"
  using force_set_frees_live[of sample_array 0 "Some 1" "\<lparr>own_objects = True, elems = [Some 2, Some 3, Some 3, None], ecount = 2\<rparr>" "Some 9"]
  by (simp add: sample_array_def Array_ok_def contents_def Array_remove_def validHandle_def close_gap_def) blast

end
