(* ===== verification/Tools_Tree.thy ===== *)
theory Tools_Tree
  imports Main
begin

text \<open>
  The binary trees of tools/data.cc.  A pointer to a node is read as the tree that hangs at it, so an \<open>ObjHandle\<close> is a tree
  as well and \<open>InvObjHandle\<close> the empty one; a pointer to a pointer is the path to it from the root.  Following a null
  pointer is the value \<open>None\<close>.  \<open>cmp\<close> is the comparator of the container; who owns the objects and frees them is left out.
\<close>

datatype 'a BinTreeNode = NULL
  | BinTreeNode (left: "'a BinTreeNode") (obj_key: 'a) (unbalance: int) (right: "'a BinTreeNode")
  where "unbalance NULL = 0"

type_synonym 'a comparator = "'a \<Rightarrow> 'a \<Rightarrow> int"

fun obj_get :: "'a BinTreeNode \<Rightarrow> 'a option" where
  "obj_get NULL = None"
| "obj_get (BinTreeNode l k u r) = Some k"

subsection \<open>Searching\<close>

fun findNode :: "'a comparator \<Rightarrow> 'a BinTreeNode \<Rightarrow> 'a \<Rightarrow> 'a BinTreeNode" where
  "findNode cmp NULL x = NULL"
| "findNode cmp (BinTreeNode l k u r) x =
     (let c = cmp k x in if c < 0 then findNode cmp r x else if 0 < c then findNode cmp l x else BinTreeNode l k u r)"

text \<open>The loops that keep the last node above, or below, the key; \<open>best\<close> starts as the null pointer.\<close>

fun findNodeG_loop :: "'a comparator \<Rightarrow> 'a BinTreeNode \<Rightarrow> 'a BinTreeNode \<Rightarrow> 'a \<Rightarrow> 'a BinTreeNode" where
  "findNodeG_loop cmp best NULL x = NULL"
| "findNodeG_loop cmp best (BinTreeNode l k u r) x =
     (if cmp x k < 0 then
        (if l = NULL then BinTreeNode l k u r else findNodeG_loop cmp (BinTreeNode l k u r) l x)
      else (if r = NULL then best else findNodeG_loop cmp best r x))"

definition findNodeG :: "'a comparator \<Rightarrow> 'a BinTreeNode \<Rightarrow> 'a \<Rightarrow> 'a BinTreeNode" where
  "findNodeG cmp node x = findNodeG_loop cmp NULL node x"

fun findNodeGE_loop :: "'a comparator \<Rightarrow> 'a BinTreeNode \<Rightarrow> 'a BinTreeNode \<Rightarrow> 'a \<Rightarrow> 'a BinTreeNode" where
  "findNodeGE_loop cmp best NULL x = NULL"
| "findNodeGE_loop cmp best (BinTreeNode l k u r) x =
     (let c = cmp x k in
      if c < 0 then (if l = NULL then BinTreeNode l k u r else findNodeGE_loop cmp (BinTreeNode l k u r) l x)
      else if 0 < c then (if r = NULL then best else findNodeGE_loop cmp best r x)
      else BinTreeNode l k u r)"

definition findNodeGE :: "'a comparator \<Rightarrow> 'a BinTreeNode \<Rightarrow> 'a \<Rightarrow> 'a BinTreeNode" where
  "findNodeGE cmp node x = findNodeGE_loop cmp NULL node x"

fun findNodeL_loop :: "'a comparator \<Rightarrow> 'a BinTreeNode \<Rightarrow> 'a BinTreeNode \<Rightarrow> 'a \<Rightarrow> 'a BinTreeNode" where
  "findNodeL_loop cmp best NULL x = NULL"
| "findNodeL_loop cmp best (BinTreeNode l k u r) x =
     (if cmp x k \<le> 0 then (if l = NULL then best else findNodeL_loop cmp best l x)
      else (if r = NULL then BinTreeNode l k u r else findNodeL_loop cmp (BinTreeNode l k u r) r x))"

definition findNodeL :: "'a comparator \<Rightarrow> 'a BinTreeNode \<Rightarrow> 'a \<Rightarrow> 'a BinTreeNode" where
  "findNodeL cmp node x = findNodeL_loop cmp NULL node x"

fun findNodeLE_loop :: "'a comparator \<Rightarrow> 'a BinTreeNode \<Rightarrow> 'a BinTreeNode \<Rightarrow> 'a \<Rightarrow> 'a BinTreeNode" where
  "findNodeLE_loop cmp best NULL x = NULL"
| "findNodeLE_loop cmp best (BinTreeNode l k u r) x =
     (let c = cmp x k in
      if c < 0 then (if l = NULL then best else findNodeLE_loop cmp best l x)
      else if 0 < c then (if r = NULL then BinTreeNode l k u r else findNodeLE_loop cmp (BinTreeNode l k u r) r x)
      else BinTreeNode l k u r)"

definition findNodeLE :: "'a comparator \<Rightarrow> 'a BinTreeNode \<Rightarrow> 'a \<Rightarrow> 'a BinTreeNode" where
  "findNodeLE cmp node x = findNodeLE_loop cmp NULL node x"

fun getLeftmost :: "'a BinTreeNode \<Rightarrow> 'a BinTreeNode" where
  "getLeftmost NULL = NULL"
| "getLeftmost (BinTreeNode l k u r) = (if l = NULL then BinTreeNode l k u r else getLeftmost l)"

fun getRightmost :: "'a BinTreeNode \<Rightarrow> 'a BinTreeNode" where
  "getRightmost NULL = NULL"
| "getRightmost (BinTreeNode l k u r) = (if r = NULL then BinTreeNode l k u r else getRightmost r)"

text \<open>The index \<open>i\<close> is passed by reference: it is returned with the node.\<close>

fun findByIdxR :: "'a BinTreeNode \<Rightarrow> int \<Rightarrow> 'a BinTreeNode \<times> int" where
  "findByIdxR NULL i = (NULL, i)"
| "findByIdxR (BinTreeNode l k u r) i =
     (let (h, i) = findByIdxR l i in
      if h \<noteq> NULL then (h, i)
      else if i = 0 then (BinTreeNode l k u r, i)
      else findByIdxR r (i - 1))"

definition findByIdx :: "'a BinTreeNode \<Rightarrow> int \<Rightarrow> 'a BinTreeNode" where
  "findByIdx root i = fst (findByIdxR root i)"

definition findFirst :: "'a BinTreeNode \<Rightarrow> 'a BinTreeNode" where "findFirst root = getLeftmost root"
definition findLast :: "'a BinTreeNode \<Rightarrow> 'a BinTreeNode" where "findLast root = getRightmost root"

fun next_loop :: "'a comparator \<Rightarrow> 'a BinTreeNode \<Rightarrow> 'a BinTreeNode \<Rightarrow> 'a \<Rightarrow> 'a BinTreeNode" where
  "next_loop cmp result NULL x = result"
| "next_loop cmp result (BinTreeNode l k u r) x =
     (if 0 < cmp k x then next_loop cmp (BinTreeNode l k u r) l x else next_loop cmp result r x)"

fun prev_loop :: "'a comparator \<Rightarrow> 'a BinTreeNode \<Rightarrow> 'a BinTreeNode \<Rightarrow> 'a \<Rightarrow> 'a BinTreeNode" where
  "prev_loop cmp result NULL x = result"
| "prev_loop cmp result (BinTreeNode l k u r) x =
     (if cmp k x < 0 then prev_loop cmp (BinTreeNode l k u r) r x else prev_loop cmp result l x)"

fun findNext :: "'a comparator \<Rightarrow> 'a BinTreeNode \<Rightarrow> 'a BinTreeNode \<Rightarrow> 'a BinTreeNode" where
  "findNext cmp root NULL = findFirst root"
| "findNext cmp root (BinTreeNode l k u r) = (if r \<noteq> NULL then getLeftmost r else next_loop cmp NULL root k)"

fun findPrev :: "'a comparator \<Rightarrow> 'a BinTreeNode \<Rightarrow> 'a BinTreeNode \<Rightarrow> 'a BinTreeNode" where
  "findPrev cmp root NULL = findLast root"
| "findPrev cmp root (BinTreeNode l k u r) = (if l \<noteq> NULL then getRightmost l else prev_loop cmp NULL root k)"

text \<open>The macro \<open>foreach\<close>: the objects it visits in order.  \<open>None\<close>: the loop does not end.\<close>

partial_function (option) foreach_loop :: "'a comparator \<Rightarrow> 'a BinTreeNode \<Rightarrow> 'a BinTreeNode \<Rightarrow> 'a list option" where
  "foreach_loop cmp root h =
     (case h of NULL \<Rightarrow> Some []
      | BinTreeNode l k u r \<Rightarrow> Option.bind (foreach_loop cmp root (findNext cmp root h)) (\<lambda>ks. Some (k # ks)))"

definition foreach :: "'a comparator \<Rightarrow> 'a BinTreeNode \<Rightarrow> 'a list option" where
  "foreach cmp root = foreach_loop cmp root (findFirst root)"

subsection \<open>The plain tree\<close>

text \<open>The member \<open>unbalance\<close> of the plain tree is never set; \<open>insertR\<close> returns the tree and the handle.\<close>

fun insertR :: "'a comparator \<Rightarrow> 'a BinTreeNode \<Rightarrow> 'a \<Rightarrow> 'a BinTreeNode \<times> 'a BinTreeNode" where
  "insertR cmp NULL x = (let n = BinTreeNode NULL x 0 NULL in (n, n))"
| "insertR cmp (BinTreeNode l k u r) x =
     (let c = cmp x k in
      if 0 < c then (let (r', h) = insertR cmp r x in (BinTreeNode l k u r', h))
      else if c < 0 then (let (l', h) = insertR cmp l x in (BinTreeNode l' k u r, h))
      else (BinTreeNode l k u r, NULL))"

subsection \<open>Paths\<close>

datatype dir = Lft | Rgt

fun child :: "dir \<Rightarrow> 'a BinTreeNode \<Rightarrow> 'a BinTreeNode" where
  "child d NULL = NULL"
| "child Lft (BinTreeNode l k u r) = l"
| "child Rgt (BinTreeNode l k u r) = r"

fun sub_at :: "dir list \<Rightarrow> 'a BinTreeNode \<Rightarrow> 'a BinTreeNode" where
  "sub_at [] t = t"
| "sub_at (d # ds) t = sub_at ds (child d t)"

fun put_at :: "dir list \<Rightarrow> 'a BinTreeNode \<Rightarrow> 'a BinTreeNode \<Rightarrow> 'a BinTreeNode" where
  "put_at [] x t = x"
| "put_at (d # ds) x NULL = NULL"
| "put_at (Lft # ds) x (BinTreeNode l k u r) = BinTreeNode (put_at ds x l) k u r"
| "put_at (Rgt # ds) x (BinTreeNode l k u r) = BinTreeNode l k u (put_at ds x r)"

text \<open>The loop of \<open>findNodePtr\<close> has no end but a node: if the key is absent, a null pointer is followed.\<close>

fun findNodePtr :: "'a comparator \<Rightarrow> 'a BinTreeNode \<Rightarrow> dir list \<Rightarrow> 'a \<Rightarrow> dir list option" where
  "findNodePtr cmp NULL x obj = None"
| "findNodePtr cmp (BinTreeNode l k u r) x obj =
     (let c = cmp k obj in
      if c < 0 then findNodePtr cmp r (x @ [Rgt]) obj else if 0 < c then findNodePtr cmp l (x @ [Lft]) obj else Some x)"

text \<open>The tree without its leftmost node: \<open>*p = (*p)->right\<close> for \<open>p = getLeftmostPtr\<close>.\<close>

fun unlinkLeftmost :: "'a BinTreeNode \<Rightarrow> 'a BinTreeNode" where
  "unlinkLeftmost NULL = NULL"
| "unlinkLeftmost (BinTreeNode l k u r) = (if l = NULL then r else BinTreeNode (unlinkLeftmost l) k u r)"

text \<open>The handle is the node at the path \<open>h\<close>.  The result: the object and the tree.\<close>

definition binary_remove :: "'a comparator \<Rightarrow> dir list \<Rightarrow> 'a BinTreeNode \<Rightarrow> ('a option \<times> 'a BinTreeNode) option" where
  "binary_remove cmp h root =
     (case sub_at h root of
        NULL \<Rightarrow> Some (None, root)
      | BinTreeNode l k u r \<Rightarrow>
          if l \<noteq> NULL \<and> r \<noteq> NULL then
            (case getLeftmost r of
               NULL \<Rightarrow> None
             | BinTreeNode dl dk du dr \<Rightarrow> Some (Some k, put_at h (BinTreeNode l dk u (unlinkLeftmost r)) root))
          else if l \<noteq> NULL \<or> r \<noteq> NULL then
            (case (if l \<noteq> NULL then l else r) of
               NULL \<Rightarrow> None
             | BinTreeNode dl dk du dr \<Rightarrow> Some (Some k, put_at h (BinTreeNode dl dk u dr) root))
          else map_option (\<lambda>p. (Some k, put_at p NULL root)) (findNodePtr cmp root [] k))"

text \<open>The copy of a tree, without the copies of the objects.\<close>

fun cloneR :: "('a \<Rightarrow> 't \<Rightarrow> 't option) \<Rightarrow> 'a BinTreeNode \<Rightarrow> 't \<Rightarrow> 't option" where
  "cloneR ins NULL c = Some c"
| "cloneR ins (BinTreeNode l k u r) c =
     (case ins k c of
        None \<Rightarrow> None
      | Some c \<Rightarrow> (case cloneR ins l c of None \<Rightarrow> None | Some c \<Rightarrow> cloneR ins r c))"

definition binary_clone :: "'a comparator \<Rightarrow> 'a BinTreeNode \<Rightarrow> 'a BinTreeNode option" where
  "binary_clone cmp root = cloneR (\<lambda>x t. Some (fst (insertR cmp t x))) root NULL"

subsection \<open>Insertion into the balanced tree\<close>

text \<open>The descent: \<open>node\<close> is \<open>*pp\<close>, \<open>t\<close> the last place on the way whose node is not balanced.  \<open>None\<close>: the key is there.\<close>

fun avl_search :: "'a comparator \<Rightarrow> 'a \<Rightarrow> 'a BinTreeNode \<Rightarrow> dir list \<Rightarrow> dir list \<Rightarrow> (dir list \<times> dir list) option" where
  "avl_search cmp x NULL pp t = Some (pp, t)"
| "avl_search cmp x (BinTreeNode l k u r) pp t =
     (let c = cmp x k in
      if c < 0 then avl_search cmp x l (pp @ [Lft]) (if l \<noteq> NULL \<and> unbalance l \<noteq> 0 then pp @ [Lft] else t)
      else if 0 < c then avl_search cmp x r (pp @ [Rgt]) (if r \<noteq> NULL \<and> unbalance r \<noteq> 0 then pp @ [Rgt] else t)
      else None)"

text \<open>The loop from \<open>p\<close> down to the new node, which is \<open>n\<close> steps below.\<close>

fun avl_mark :: "'a comparator \<Rightarrow> 'a \<Rightarrow> nat \<Rightarrow> 'a BinTreeNode \<Rightarrow> 'a BinTreeNode option" where
  "avl_mark cmp x 0 p = Some p"
| "avl_mark cmp x (Suc n) NULL = None"
| "avl_mark cmp x (Suc n) (BinTreeNode l k u r) =
     (if cmp x k < 0 then map_option (\<lambda>l'. BinTreeNode l' k (- 1) r) (avl_mark cmp x n l)
      else map_option (\<lambda>r'. BinTreeNode l k 1 r') (avl_mark cmp x n r))"

fun rotate_single :: "int \<Rightarrow> 'a BinTreeNode \<Rightarrow> 'a BinTreeNode option" where
  "rotate_single a (BinTreeNode sl sk su sr) =
     (if a < 0 then (case sl of BinTreeNode rl rk ru rr \<Rightarrow> Some (BinTreeNode rl rk 0 (BinTreeNode rr sk 0 sr)) | NULL \<Rightarrow> None)
      else (case sr of BinTreeNode rl rk ru rr \<Rightarrow> Some (BinTreeNode (BinTreeNode sl sk 0 rl) rk 0 rr) | NULL \<Rightarrow> None))"
| "rotate_single a NULL = None"

fun rotate_double :: "int \<Rightarrow> 'a BinTreeNode \<Rightarrow> 'a BinTreeNode option" where
  "rotate_double a (BinTreeNode sl sk su sr) =
     (if a < 0 then
        (case sl of BinTreeNode rl rk ru (BinTreeNode pl pk pu pr) \<Rightarrow>
           Some (BinTreeNode (BinTreeNode rl rk (if pu = - a then a else 0) pl) pk 0
                  (BinTreeNode pr sk (if pu = a then - a else 0) sr))
         | _ \<Rightarrow> None)
      else
        (case sr of BinTreeNode (BinTreeNode pl pk pu pr) rk ru rr \<Rightarrow>
           Some (BinTreeNode (BinTreeNode sl sk (if pu = a then - a else 0) pl) pk 0
                  (BinTreeNode pr rk (if pu = - a then a else 0) rr))
         | _ \<Rightarrow> None))"
| "rotate_double a NULL = None"

text \<open>The node \<open>s\<close> with the new node below it: the tree that takes its place.\<close>

fun avl_rebalance :: "'a comparator \<Rightarrow> 'a \<Rightarrow> nat \<Rightarrow> 'a BinTreeNode \<Rightarrow> 'a BinTreeNode option" where
  "avl_rebalance cmp x n NULL = None"
| "avl_rebalance cmp x n (BinTreeNode l k u r) =
     (let a = if cmp x k < 0 then - 1 else 1 in
      case avl_mark cmp x n (if a < 0 then l else r) of
        None \<Rightarrow> None
      | Some c \<Rightarrow>
          (let s = (if a < 0 then BinTreeNode c k u r else BinTreeNode l k u c) in
           if u = 0 then Some (if a < 0 then BinTreeNode c k a r else BinTreeNode l k a c)
           else if u = - a then Some (if a < 0 then BinTreeNode c k 0 r else BinTreeNode l k 0 c)
           else if c = NULL then None
           else if unbalance c = a then rotate_single a s
           else rotate_double a s))"

definition avl_insert :: "'a comparator \<Rightarrow> 'a \<Rightarrow> 'a BinTreeNode \<Rightarrow> ('a BinTreeNode \<times> bool) option" where
  "avl_insert cmp x root =
     (case avl_search cmp x root [] [] of
        None \<Rightarrow> Some (root, False)
      | Some (pp, t) \<Rightarrow>
          (let root' = put_at pp (BinTreeNode NULL x 0 NULL) root in
           if sub_at t root = NULL then Some (root', True)
           else map_option (\<lambda>s. (put_at t s root', True))
                  (avl_rebalance cmp x (length pp - length t - 1) (sub_at t root'))))"

subsection \<open>Removal from the balanced tree\<close>

text \<open>What \<open>removeR\<close> does to a node below which something was removed: the tree in its place and the change of its height.\<close>

fun avl_shrink :: "int \<Rightarrow> 'a BinTreeNode \<Rightarrow> ('a BinTreeNode \<times> int) option" where
  "avl_shrink decrease NULL = None"
| "avl_shrink decrease (BinTreeNode l k u r) =
     (let u = u - decrease; node = BinTreeNode l k u r in
      if decrease \<noteq> 0 then
        (if u \<noteq> 0 then
           (let (a, c) = if u < - 1 then (- 1, l) else if 1 < u then (1, r) else (0, NULL) in
            if a \<noteq> 0 then
              (case c of
                 NULL \<Rightarrow> None
               | BinTreeNode rl rk ru rr \<Rightarrow>
                   if ru = - a then map_option (\<lambda>p. (p, 1)) (rotate_double a node)
                   else (let change = (if ru \<noteq> 0 then 1 else 0) in
                     if 0 < a then Some (BinTreeNode (BinTreeNode l k (- (ru - 1)) rl) rk (ru - 1) rr, change)
                     else Some (BinTreeNode rl rk (ru + 1) (BinTreeNode rr k (- (ru + 1)) r), change)))
            else Some (node, 0))
         else Some (node, 1))
      else Some (node, 0))"

text \<open>The result: the key of the node to be freed, the tree and the change of its height.\<close>

fun removeR :: "'a comparator \<Rightarrow> 'a \<Rightarrow> int \<Rightarrow> 'a BinTreeNode \<Rightarrow> ('a option \<times> 'a BinTreeNode \<times> int) option" where
  "removeR cmp key mode NULL = Some (None, NULL, 0)"
| "removeR cmp key mode (BinTreeNode l k u r) =
     (let result = (if mode = 0 then sgn (cmp key k)
                    else if mode < 0 then (if l = NULL then 0 else - 1)
                    else (if r = NULL then 0 else 1)) in
      if result < 0 then
        (case removeR cmp key mode l of
           None \<Rightarrow> None
         | Some (None, l', change) \<Rightarrow> Some (None, BinTreeNode l' k u r, change)
         | Some (Some f, l', change) \<Rightarrow>
             map_option (\<lambda>(n, c). (Some f, n, c)) (avl_shrink (result * change) (BinTreeNode l' k u r)))
      else if 0 < result then
        (case removeR cmp key mode r of
           None \<Rightarrow> None
         | Some (None, r', change) \<Rightarrow> Some (None, BinTreeNode l k u r', change)
         | Some (Some f, r', change) \<Rightarrow>
             map_option (\<lambda>(n, c). (Some f, n, c)) (avl_shrink (result * change) (BinTreeNode l k u r')))
      else if l = NULL \<and> r = NULL then Some (Some k, NULL, 1)
      else if l = NULL \<or> r = NULL then Some (Some k, if r \<noteq> NULL then r else l, 1)
      else
        (case removeR cmp key (- 1) r of
           None \<Rightarrow> None
         | Some (None, r', decrease) \<Rightarrow> None
         | Some (Some f, r', decrease) \<Rightarrow>
             map_option (\<lambda>(n, c). (Some f, n, c)) (avl_shrink decrease (BinTreeNode l f u r'))))"

text \<open>Returns the object and the new root.\<close>

definition avl_remove :: "'a comparator \<Rightarrow> 'a BinTreeNode \<Rightarrow> 'a BinTreeNode \<Rightarrow> ('a option \<times> 'a BinTreeNode) option" where
  "avl_remove cmp h root =
     (case obj_get h of
        None \<Rightarrow> Some (None, root)
      | Some k \<Rightarrow> map_option (\<lambda>(f, t, c). (if f = None then None else Some k, t)) (removeR cmp k 0 root))"

definition avl_clone :: "'a comparator \<Rightarrow> 'a BinTreeNode \<Rightarrow> 'a BinTreeNode option" where
  "avl_clone cmp root = cloneR (\<lambda>x t. map_option fst (avl_insert cmp x t)) root NULL"

subsection \<open>The container\<close>

text \<open>The tree and the number of its objects.\<close>

record 'a AVLTree =
  root' :: "'a BinTreeNode"
  ecount :: nat

definition AVLTree_insert :: "'a comparator \<Rightarrow> 'a \<Rightarrow> 'a AVLTree \<Rightarrow> 'a AVLTree option" where
  "AVLTree_insert cmp obj c =
     map_option (\<lambda>(t, new). c\<lparr>root' := t, ecount := if new then ecount c + 1 else ecount c\<rparr>) (avl_insert cmp obj (root' c))"

definition AVLTree_remove :: "'a comparator \<Rightarrow> 'a BinTreeNode \<Rightarrow> 'a AVLTree \<Rightarrow> ('a option \<times> 'a AVLTree) option" where
  "AVLTree_remove cmp h c =
     map_option (\<lambda>(o1, t). (o1, c\<lparr>root' := t, ecount := if o1 \<noteq> None then ecount c - 1 else ecount c\<rparr>)) (avl_remove cmp h (root' c))"

end
