(* ===== verification/Tools_Avl_Ops.thy ===== *)
theory Tools_Avl_Ops
  imports Tools_Tree
begin

text \<open>
  The container that the trees implement: a list of objects in the order of the comparator, without two equal ones.
  Searching, stepping, inserting and removing do on the tree what they do on the list, and the balanced tree stays
  balanced, so that no null pointer is followed.
\<close>

fun inorder :: "'a BinTreeNode \<Rightarrow> 'a list" where
  "inorder NULL = []"
| "inorder (BinTreeNode l k u r) = inorder l @ k # inorder r"

fun height :: "'a BinTreeNode \<Rightarrow> nat" where
  "height NULL = 0"
| "height (BinTreeNode l k u r) = Suc (max (height l) (height r))"

fun avl :: "'a BinTreeNode \<Rightarrow> bool" where
  "avl NULL \<longleftrightarrow> True"
| "avl (BinTreeNode l k u r) \<longleftrightarrow> u = int (height r) - int (height l) \<and> \<bar>u\<bar> \<le> 1 \<and> avl l \<and> avl r"

lemma height_0 [simp]: "height t = 0 \<longleftrightarrow> t = NULL"
  by (cases t) simp_all

lemma inorder_Nil [simp]: "inorder t = [] \<longleftrightarrow> t = NULL" "[] = inorder t \<longleftrightarrow> t = NULL"
  by (cases t; simp)+

subsection \<open>Sorted lists\<close>

fun ins_list :: "('a \<Rightarrow> 'k::linorder) \<Rightarrow> 'a \<Rightarrow> 'a list \<Rightarrow> 'a list" where
  "ins_list key x [] = [x]"
| "ins_list key x (y # ys) =
     (if key x < key y then x # y # ys else if key x = key y then y # ys else y # ins_list key x ys)"

definition del_list :: "('a \<Rightarrow> 'k::linorder) \<Rightarrow> 'k \<Rightarrow> 'a list \<Rightarrow> 'a list" where
  "del_list key k xs = filter (\<lambda>x. key x \<noteq> k) xs"

abbreviation ordered :: "('a \<Rightarrow> 'k::linorder) \<Rightarrow> 'a list \<Rightarrow> bool" where
  "ordered key \<equiv> sorted_wrt (\<lambda>x y. key x < key y)"

lemma ins_list_left:
  "ordered key (xs @ a # ys) \<Longrightarrow> key x < key a \<Longrightarrow> ins_list key x (xs @ a # ys) = ins_list key x xs @ a # ys"
  by (induction xs) (auto simp: sorted_wrt_append)

lemma ins_list_right:
  "ordered key (xs @ a # ys) \<Longrightarrow> key a < key x \<Longrightarrow> ins_list key x (xs @ a # ys) = xs @ a # ins_list key x ys"
  by (induction xs) (auto simp: sorted_wrt_append)

lemma set_ins_list: "set (ins_list key x xs) \<subseteq> insert x (set xs)"
  by (induction xs) auto

lemma ordered_ins_list: "ordered key xs \<Longrightarrow> ordered key (ins_list key x xs)"
proof (induction xs)
  case (Cons y ys)
  then show ?case using set_ins_list[of key x ys] by fastforce
qed simp

lemma ordered_tree:
  "ordered key (inorder l @ k # inorder r) \<longleftrightarrow> ordered key (inorder l) \<and> ordered key (inorder r) \<and>
     (\<forall>x \<in> set (inorder l). key x < key k) \<and> (\<forall>x \<in> set (inorder r). key k < key x)"
  by (auto simp: sorted_wrt_append intro: order.strict_trans)

lemma del_list_left:
  "ordered key (xs @ a # ys) \<Longrightarrow> k < key a \<Longrightarrow> del_list key k (xs @ a # ys) = del_list key k xs @ a # ys"
proof -
  assume o: "ordered key (xs @ a # ys)" and k: "k < key a"
  then have "\<forall>y \<in> set ys. key y \<noteq> k" by (auto simp: sorted_wrt_append)
  then have "filter (\<lambda>x. key x \<noteq> k) ys = ys" by (simp add: filter_id_conv)
  then show ?thesis using k by (simp add: del_list_def)
qed

lemma del_list_right:
  "ordered key (xs @ a # ys) \<Longrightarrow> key a < k \<Longrightarrow> del_list key k (xs @ a # ys) = xs @ a # del_list key k ys"
proof -
  assume o: "ordered key (xs @ a # ys)" and k: "key a < k"
  then have "\<forall>y \<in> set xs. key y \<noteq> k" by (auto simp: sorted_wrt_append)
  then have "filter (\<lambda>x. key x \<noteq> k) xs = xs" by (simp add: filter_id_conv)
  then show ?thesis using k by (simp add: del_list_def)
qed

lemma del_list_here: "ordered key (xs @ a # ys) \<Longrightarrow> del_list key (key a) (xs @ a # ys) = xs @ ys"
proof -
  assume o: "ordered key (xs @ a # ys)"
  then have "\<forall>y \<in> set xs \<union> set ys. key y \<noteq> key a" by (auto simp: sorted_wrt_append)
  then have "filter (\<lambda>x. key x \<noteq> key a) xs = xs" "filter (\<lambda>x. key x \<noteq> key a) ys = ys" by (simp_all add: filter_id_conv)
  then show ?thesis by (simp add: del_list_def)
qed

subsection \<open>Paths\<close>

lemma sub_at_append: "sub_at (xs @ ys) t = sub_at ys (sub_at xs t)"
  by (induction xs t rule: sub_at.induct) simp_all

lemma sub_at_NULL [simp]: "sub_at ds NULL = NULL"
  by (induction ds) simp_all

lemma put_put: "put_at xs s (put_at (xs @ ys) x t) = put_at xs s t"
  by (induction xs x t rule: put_at.induct) simp_all

lemma sub_put: "sub_at xs t \<noteq> NULL \<Longrightarrow> sub_at xs (put_at (xs @ ys) x t) = put_at ys x (sub_at xs t)"
  by (induction xs x t rule: put_at.induct) simp_all

lemma put_avl:
  "avl t \<Longrightarrow> sub_at ds t \<noteq> NULL \<Longrightarrow> avl s \<Longrightarrow> height s = height (sub_at ds t) \<Longrightarrow>
     avl (put_at ds s t) \<and> height (put_at ds s t) = height t"
  by (induction ds s t rule: put_at.induct) auto

subsection \<open>Insertion\<close>

text \<open>The nodes on the way below the first one are balanced.\<close>

fun calm :: "dir list \<Rightarrow> 'a BinTreeNode \<Rightarrow> bool" where
  "calm [] t \<longleftrightarrow> True"
| "calm (d # ds) t \<longleftrightarrow> unbalance t = 0 \<and> calm ds (child d t)"

fun calm_below :: "dir list \<Rightarrow> 'a BinTreeNode \<Rightarrow> bool" where
  "calm_below [] t \<longleftrightarrow> True"
| "calm_below (d # ds) t \<longleftrightarrow> calm ds (child d t)"

text \<open>A comparator orders the objects by a key.\<close>

locale comparator =
  fixes cmp :: "'a comparator" and key :: "'a \<Rightarrow> 'k::linorder"
  assumes cmp_less: "cmp x y < 0 \<longleftrightarrow> key x < key y"
    and cmp_greater: "0 < cmp x y \<longleftrightarrow> key y < key x"
begin

fun follows :: "'a \<Rightarrow> dir list \<Rightarrow> 'a BinTreeNode \<Rightarrow> bool" where
  "follows x [] t \<longleftrightarrow> t = NULL"
| "follows x (d # ds) NULL \<longleftrightarrow> False"
| "follows x (d # ds) (BinTreeNode l k u r) \<longleftrightarrow>
     key x \<noteq> key k \<and> d = (if key x < key k then Lft else Rgt) \<and> follows x ds (if key x < key k then l else r)"

lemma follows_append: "follows x (xs @ ys) t \<Longrightarrow> follows x ys (sub_at xs t)"
proof (induction xs arbitrary: t)
  case (Cons d xs)
  then show ?case by (cases t) (auto split: if_splits)
qed simp

lemma search_path:
  assumes "avl_search cmp x node pp t = Some (pp', t')"
  shows "\<exists>ds. pp' = pp @ ds \<and> follows x ds node \<and>
    (t' = t \<and> calm_below ds node \<or>
     (\<exists>d1 d2. ds = d1 @ d2 \<and> d1 \<noteq> [] \<and> t' = pp @ d1 \<and> unbalance (sub_at d1 node) \<noteq> 0 \<and> calm_below d2 (sub_at d1 node)))"
  using assms
proof (induction node arbitrary: pp t)
  case NULL
  then show ?case by (intro exI[of _ "[]"]) simp
next
  case (BinTreeNode l k u r)
  define d where "d = (if key x < key k then Lft else Rgt)"
  define n where "n = (if key x < key k then l else r)"
  define t1 where "t1 = (if n \<noteq> NULL \<and> unbalance n \<noteq> 0 then pp @ [d] else t)"
  have ne: "key x \<noteq> key k" using BinTreeNode.prems by (auto simp: cmp_less cmp_greater)
  have run: "avl_search cmp x n (pp @ [d]) t1 = Some (pp', t')"
    using BinTreeNode.prems by (auto simp: cmp_less cmp_greater n_def d_def t1_def Let_def split: if_splits)
  have "\<exists>ds. pp' = (pp @ [d]) @ ds \<and> follows x ds n \<and>
    (t' = t1 \<and> calm_below ds n \<or>
     (\<exists>d1 d2. ds = d1 @ d2 \<and> d1 \<noteq> [] \<and> t' = (pp @ [d]) @ d1 \<and> unbalance (sub_at d1 n) \<noteq> 0 \<and> calm_below d2 (sub_at d1 n)))"
    using BinTreeNode.IH(1)[of "pp @ [d]" t1] BinTreeNode.IH(2)[of "pp @ [d]" t1] run by (auto simp: n_def split: if_splits)
  then obtain ds where ds: "pp' = (pp @ [d]) @ ds" "follows x ds n" and alt:
    "t' = t1 \<and> calm_below ds n \<or>
     (\<exists>d1 d2. ds = d1 @ d2 \<and> d1 \<noteq> [] \<and> t' = (pp @ [d]) @ d1 \<and> unbalance (sub_at d1 n) \<noteq> 0 \<and> calm_below d2 (sub_at d1 n))"
    by blast
  have c: "child d (BinTreeNode l k u r) = n" by (simp add: d_def n_def)
  have f: "follows x (d # ds) (BinTreeNode l k u r)" using ne ds(2) by (simp add: d_def n_def)
  from alt show ?case
  proof
    assume a: "t' = t1 \<and> calm_below ds n"
    show ?thesis
    proof (cases "n \<noteq> NULL \<and> unbalance n \<noteq> 0")
      case True
      have "d # ds = [d] @ ds" by simp
      moreover have "t' = pp @ [d]" using a True by (simp add: t1_def)
      ultimately show ?thesis using a True ds(1) f c by (metis append_Cons append_Nil append_assoc list.distinct(1) sub_at.simps)
    next
      case False
      then have "calm ds n" using a ds(2) by (cases ds; cases n) (auto split: if_splits)
      then show ?thesis using a False ds(1) f c by (intro exI[of _ "d # ds"]) (simp add: t1_def)
    qed
  next
    assume "\<exists>d1 d2. ds = d1 @ d2 \<and> d1 \<noteq> [] \<and> t' = (pp @ [d]) @ d1 \<and> unbalance (sub_at d1 n) \<noteq> 0 \<and> calm_below d2 (sub_at d1 n)"
    then obtain d1 d2 where "ds = d1 @ d2" "t' = pp @ (d # d1)" "unbalance (sub_at d1 n) \<noteq> 0" "calm_below d2 (sub_at d1 n)"
      by auto
    then show ?thesis using ds(1) f c by (intro exI[of _ "d # ds"]) (auto intro!: exI[of _ "d # d1"])
  qed
qed

lemma search_found:
  "avl_search cmp x node pp t = None \<longleftrightarrow> (\<exists>y \<in> set (inorder node). key y = key x)" if "ordered key (inorder node)"
  using that
proof (induction node arbitrary: pp t)
  case (BinTreeNode l k u r)
  have o: "ordered key (inorder l)" "ordered key (inorder r)"
    and lt: "\<And>y. y \<in> set (inorder l) \<Longrightarrow> key y < key k" and gt: "\<And>y. y \<in> set (inorder r) \<Longrightarrow> key k < key y"
    using BinTreeNode.prems by (auto simp: ordered_tree)
  consider "key x < key k" | "key k < key x" | "key x = key k" by (rule linorder_cases)
  then show ?case
  proof cases
    case 1
    then have "key y \<noteq> key x" if "y \<in> set (inorder r)" for y using gt[OF that] by auto
    then show ?thesis using 1 BinTreeNode.IH(1)[OF o(1)] by (auto simp: cmp_less Let_def)
  next
    case 2
    then have "key y \<noteq> key x" if "y \<in> set (inorder l)" for y using lt[OF that] by auto
    then show ?thesis using 2 BinTreeNode.IH(2)[OF o(2)] by (auto simp: cmp_less cmp_greater Let_def)
  next
    case 3
    then show ?thesis by (auto simp: cmp_less cmp_greater Let_def)
  qed
qed simp

abbreviation new_node :: "'a \<Rightarrow> 'a BinTreeNode" where "new_node x \<equiv> BinTreeNode NULL x 0 NULL"

lemma mark_correct:
  assumes "follows x ds p" "calm ds p" "avl p" "ordered key (inorder p)"
  shows "\<exists>q. avl_mark cmp x (length ds) (put_at ds (new_node x) p) = Some q \<and> avl q \<and> height q = Suc (height p) \<and>
    inorder q = ins_list key x (inorder p) \<and> (unbalance q = 0 \<longleftrightarrow> p = NULL)"
  using assms
proof (induction ds arbitrary: p)
  case Nil
  then show ?case by simp
next
  case (Cons d ds)
  then obtain l k u r where p: "p = BinTreeNode l k u r" by (cases p) auto
  have o: "ordered key (inorder l)" "ordered key (inorder r)" "ordered key (inorder l @ k # inorder r)"
    using Cons.prems(4) by (auto simp: p ordered_tree)
  show ?case
  proof (cases "key x < key k")
    case True
    have "follows x ds l" "calm ds l" "avl l" using Cons.prems True by (auto simp: p)
    from Cons.IH[OF this o(1)] show ?thesis
      using Cons.prems True ins_list_left[OF o(3) True] by (auto simp: p cmp_less)
  next
    case False
    then have g: "key k < key x" using Cons.prems(1) by (auto simp: p)
    have "follows x ds r" "calm ds r" "avl r" using Cons.prems False by (auto simp: p)
    from Cons.IH[OF this o(2)] show ?thesis
      using Cons.prems False ins_list_right[OF o(3) g] by (auto simp: p cmp_less)
  qed
qed

end

text \<open>The rotations: the side that is two levels higher loses one.\<close>

lemma rotate_single_correct:
  assumes "0 \<noteq> a" "\<bar>a\<bar> \<le> 1" "avl l" "avl r" "int (height r) - int (height l) = 2 * a"
    "unbalance (if a < 0 then l else r) = a"
  shows "\<exists>t. rotate_single a (BinTreeNode l k u r) = Some t \<and> avl t \<and> inorder t = inorder l @ k # inorder r \<and>
    height t = max (height l) (height r)"
proof (cases "a < 0")
  case True
  then have a: "a = - 1" using assms(1,2) by simp
  then obtain ll lk lu lr where "l = BinTreeNode ll lk lu lr" using assms(5) by (cases l) auto
  then show ?thesis using assms a by auto
next
  case False
  then have a: "a = 1" using assms(1,2) by simp
  then obtain ll lk lu lr where "r = BinTreeNode ll lk lu lr" using assms(5) by (cases r) auto
  then show ?thesis using assms a by auto
qed

lemma rotate_double_correct:
  assumes "0 \<noteq> a" "\<bar>a\<bar> \<le> 1" "avl l" "avl r" "int (height r) - int (height l) = 2 * a"
    "unbalance (if a < 0 then l else r) = - a"
  shows "\<exists>t. rotate_double a (BinTreeNode l k u r) = Some t \<and> avl t \<and> inorder t = inorder l @ k # inorder r \<and>
    height t = max (height l) (height r)"
proof (cases "a < 0")
  case True
  then have a: "a = - 1" using assms(1,2) by simp
  then obtain ll lk lu lr where l: "l = BinTreeNode ll lk lu lr" using assms(5) by (cases l) auto
  moreover obtain pl pk pu pr where "lr = BinTreeNode pl pk pu pr" using assms a l by (cases lr) auto
  ultimately show ?thesis using assms a by auto
next
  case False
  then have a: "a = 1" using assms(1,2) by simp
  then obtain ll lk lu lr where l: "r = BinTreeNode ll lk lu lr" using assms(5) by (cases r) auto
  moreover obtain pl pk pu pr where "ll = BinTreeNode pl pk pu pr" using assms a l by (cases ll) auto
  ultimately show ?thesis using assms a by auto
qed

context comparator
begin

text \<open>The node where the balance may be lost.\<close>

lemma rebalance_correct:
  assumes f: "follows x (d # ds) s" and c: "calm_below (d # ds) s" and b: "avl s" "ordered key (inorder s)"
  shows "\<exists>t. avl_rebalance cmp x (length ds) (put_at (d # ds) (new_node x) s) = Some t \<and> avl t \<and>
    inorder t = ins_list key x (inorder s) \<and> height t = height s + (if unbalance s = 0 then 1 else 0)"
proof -
  obtain l k u r where s: "s = BinTreeNode l k u r" using f by (cases s) auto
  have o: "ordered key (inorder l)" "ordered key (inorder r)" "ordered key (inorder l @ k # inorder r)"
    using b(2) by (auto simp: s ordered_tree)
  have u: "u = int (height r) - int (height l)" "\<bar>u\<bar> \<le> 1" "avl l" "avl r" using b(1) unfolding s avl.simps by blast+
  show ?thesis
  proof (cases "key x < key k")
    case True
    have "follows x ds l" "calm ds l" using f c True by (auto simp: s)
    from mark_correct[OF this u(3) o(1)] obtain q where q: "avl_mark cmp x (length ds) (put_at ds (new_node x) l) = Some q"
      "avl q" "height q = Suc (height l)" "inorder q = ins_list key x (inorder l)" "unbalance q = 0 \<longleftrightarrow> l = NULL" by blast
    have d: "d = Lft" using f True by (simp add: s)
    have q0: "q \<noteq> NULL" using q(3) by auto
    have i: "ins_list key x (inorder s) = inorder q @ k # inorder r" using ins_list_left[OF o(3) True] q(4) by (simp add: s)
    consider "u = 0" | "u = 1" | "u = - 1" using u(2) by linarith
    then show ?thesis
    proof cases
      case 3
      then have l0: "l \<noteq> NULL" using u(1) by auto
      have h: "int (height r) - int (height q) = 2 * - 1" using 3 u(1) q(3) by simp
      have "\<bar>unbalance q\<bar> \<le> 1" using q(2) by (cases q) auto
      then consider "unbalance q = - 1" | "unbalance q = 1" using q(5) l0 by linarith
      then show ?thesis
      proof cases
        case 1
        from rotate_single_correct[of "- 1" q r k u] 1 q u h show ?thesis
          using True 3 q0 i d by (auto simp: s cmp_less max_def simp del: rotate_single.simps rotate_double.simps)
      next
        case 2
        from rotate_double_correct[of "- 1" q r k u] 2 q u h show ?thesis
          using True 3 q0 i d by (auto simp: s cmp_less max_def simp del: rotate_single.simps rotate_double.simps)
      qed
    qed (use True q u i d in \<open>auto simp: s cmp_less max_def\<close>)
  next
    case False
    then have g: "key k < key x" using f by (auto simp: s)
    have "follows x ds r" "calm ds r" using f c False by (auto simp: s)
    from mark_correct[OF this u(4) o(2)] obtain q where q: "avl_mark cmp x (length ds) (put_at ds (new_node x) r) = Some q"
      "avl q" "height q = Suc (height r)" "inorder q = ins_list key x (inorder r)" "unbalance q = 0 \<longleftrightarrow> r = NULL" by blast
    have d: "d = Rgt" using f False by (simp add: s)
    have q0: "q \<noteq> NULL" using q(3) by auto
    have i: "ins_list key x (inorder s) = inorder l @ k # inorder q" using ins_list_right[OF o(3) g] q(4) by (simp add: s)
    consider "u = 0" | "u = - 1" | "u = 1" using u(2) by linarith
    then show ?thesis
    proof cases
      case 3
      then have l0: "r \<noteq> NULL" using u(1) by auto
      have h: "int (height q) - int (height l) = 2 * 1" using 3 u(1) q(3) by simp
      have "\<bar>unbalance q\<bar> \<le> 1" using q(2) by (cases q) auto
      then consider "unbalance q = 1" | "unbalance q = - 1" using q(5) l0 by linarith
      then show ?thesis
      proof cases
        case 1
        from rotate_single_correct[of 1 l q k u] 1 q u h show ?thesis
          using False 3 q0 i d by (auto simp: s cmp_less max_def simp del: rotate_single.simps rotate_double.simps)
      next
        case 2
        from rotate_double_correct[of 1 l q k u] 2 q u h show ?thesis
          using False 3 q0 i d by (auto simp: s cmp_less max_def simp del: rotate_single.simps rotate_double.simps)
      qed
    qed (use False q u i d in \<open>auto simp: s cmp_less max_def\<close>)
  qed
qed

lemma put_inorder:
  assumes "follows x (d1 @ d2) t" "sub_at d1 t \<noteq> NULL" "inorder s = ins_list key x (inorder (sub_at d1 t))" "ordered key (inorder t)"
  shows "inorder (put_at d1 s t) = ins_list key x (inorder t)"
  using assms
proof (induction d1 arbitrary: t)
  case (Cons d d1)
  then obtain l k u r where t: "t = BinTreeNode l k u r" by (cases t) auto
  have o: "ordered key (inorder l)" "ordered key (inorder r)" "ordered key (inorder l @ k # inorder r)"
    using Cons.prems(4) by (auto simp: t ordered_tree)
  show ?case
  proof (cases "key x < key k")
    case True
    then show ?thesis using Cons.prems Cons.IH[of l] o ins_list_left[OF o(3) True] by (simp add: t)
  next
    case False
    then have g: "key k < key x" using Cons.prems(1) by (auto simp: t)
    then show ?thesis using False Cons.prems Cons.IH[of r] o ins_list_right[OF o(3) g] by (simp add: t)
  qed
qed simp

lemma ordered_sub: "ordered key (inorder t) \<Longrightarrow> ordered key (inorder (sub_at ds t))"
proof (induction ds arbitrary: t)
  case (Cons d ds)
  then show ?case by (cases t; cases d) (auto simp: ordered_tree)
qed simp

lemma avl_sub: "avl t \<Longrightarrow> avl (sub_at ds t)"
proof (induction ds arbitrary: t)
  case (Cons d ds)
  then show ?case by (cases t; cases d) auto
qed simp

lemma ins_list_present: "ordered key xs \<Longrightarrow> y \<in> set xs \<Longrightarrow> key y = key x \<Longrightarrow> ins_list key x xs = xs"
  by (induction xs) auto

text \<open>Inserting into the balanced tree inserts into the list.\<close>

lemma insert_correct:
  assumes "avl root" "ordered key (inorder root)"
  shows "\<exists>t b. avl_insert cmp x root = Some (t, b) \<and> avl t \<and> inorder t = ins_list key x (inorder root) \<and>
    (b \<longleftrightarrow> (\<forall>y \<in> set (inorder root). key y \<noteq> key x))"
proof (cases "avl_search cmp x root [] []")
  case None
  then have "\<exists>y \<in> set (inorder root). key y = key x" using search_found[OF assms(2)] by blast
  then show ?thesis using None assms ins_list_present[OF assms(2)] by (auto simp: avl_insert_def)
next
  case (Some p)
  obtain pp t where p: "p = (pp, t)" by (cases p)
  have new: "\<forall>y \<in> set (inorder root). key y \<noteq> key x"
    using search_found[OF assms(2), of x "[]" "[]"] Some by auto
  obtain d1 d2 where d: "pp = d1 @ d2" "t = d1" "follows x (d1 @ d2) root" "calm_below d2 (sub_at d1 root)"
    "d1 = [] \<or> unbalance (sub_at d1 root) \<noteq> 0"
    using search_path[OF Some[unfolded p]] by (auto intro: that[of "[]"])
  show ?thesis
  proof (cases "sub_at d1 root = NULL")
    case True
    then have "d1 = []" using d(5) by auto
    then have "root = NULL" using True by simp
    then show ?thesis using Some by (auto simp: avl_insert_def p)
  next
    case False
    define s where "s = sub_at d1 root"
    have f: "follows x d2 s" unfolding s_def by (rule follows_append[OF d(3)])
    then obtain d' ds where d2: "d2 = d' # ds" using False by (cases d2) (auto simp: s_def)
    obtain t' where t': "avl_rebalance cmp x (length ds) (put_at d2 (new_node x) s) = Some t'" "avl t'"
      "inorder t' = ins_list key x (inorder s)" "height t' = height s + (if unbalance s = 0 then 1 else 0)"
      using rebalance_correct[of x d' ds s] f d(4) avl_sub[OF assms(1)] ordered_sub[OF assms(2)] by (auto simp: d2 s_def)
    have run: "avl_insert cmp x root = Some (put_at d1 t' root, True)"
      using Some False t'(1) sub_put[OF False, of d2 "new_node x"] put_put[of d1 t' d2 "new_node x" root]
      by (simp add: avl_insert_def p d(1,2) Let_def d2 s_def)
    have "avl (put_at d1 t' root)"
    proof (cases "d1 = []")
      case True
      then show ?thesis using t'(2) by simp
    next
      case ne: False
      then have "height t' = height (sub_at d1 root)" using d(5) t'(4) by (simp add: s_def)
      then show ?thesis using put_avl[OF assms(1) False t'(2)] by simp
    qed
    moreover have "inorder (put_at d1 t' root) = ins_list key x (inorder root)"
      by (rule put_inorder[OF d(3) False _ assms(2)]) (use t'(3) in \<open>simp add: s_def\<close>)
    ultimately show ?thesis using run new by blast
  qed
qed

end

text \<open>Removal from the balanced tree, the searches, and stepping through the objects.\<close>

subsection \<open>Removal\<close>

lemma shrink_correct:
  assumes a: "avl l" "avl r" "\<bar>u\<bar> \<le> 1" "int (height r) - int (height l) = u - d" "\<bar>d\<bar> \<le> 1"
  shows "\<exists>t c. avl_shrink d (BinTreeNode l k u r) = Some (t, c) \<and> avl t \<and> inorder t = inorder l @ k # inorder r \<and>
    (c = 0 \<or> c = 1) \<and> int (height t) + c = int (max (if d < 0 then Suc (height l) else height l) (if 0 < d then Suc (height r) else height r)) + 1"
proof (cases "\<bar>u - d\<bar> \<le> 1")
  case True
  then show ?thesis using a by (auto simp: Let_def)
next
  case False
  then consider "u = - 1" "d = 1" | "u = 1" "d = - 1" using a(3,5) by fastforce
  then show ?thesis
  proof cases
    case 1
    have h: "int (height r) - int (height l) = 2 * - 1" using 1 a(4) by simp
    then obtain rl rk ru rr where l: "l = BinTreeNode rl rk ru rr" by (cases l) auto
    have ru: "ru = int (height rr) - int (height rl)" "\<bar>ru\<bar> \<le> 1" "avl rl" "avl rr" using a(1) unfolding l avl.simps by blast+
    show ?thesis
    proof (cases "ru = 1")
      case True
      then have "unbalance (if (- 1 :: int) < 0 then l else r) = - (- 1)" by (simp add: l)
      from rotate_double_correct[OF _ _ a(1,2) h this, of k "u - d"] True show ?thesis
        using 1 h by (auto simp: Let_def l simp del: rotate_double.simps)
    next
      case False
      then show ?thesis using 1 h ru a(2) by (auto simp: Let_def l max_def split: if_splits)
    qed
  next
    case 2
    have h: "int (height r) - int (height l) = 2 * 1" using 2 a(4) by simp
    then obtain rl rk ru rr where l: "r = BinTreeNode rl rk ru rr" by (cases r) auto
    have ru: "ru = int (height rr) - int (height rl)" "\<bar>ru\<bar> \<le> 1" "avl rl" "avl rr" using a(2) unfolding l avl.simps by blast+
    show ?thesis
    proof (cases "ru = - 1")
      case True
      then have "unbalance (if (1 :: int) < 0 then l else r) = - 1" by (simp add: l)
      from rotate_double_correct[OF _ _ a(1,2) h this, of k "u - d"] True show ?thesis
        using 2 h by (auto simp: Let_def l simp del: rotate_double.simps)
    next
      case False
      then show ?thesis using 2 h ru a(1) by (auto simp: Let_def l max_def split: if_splits)
    qed
  qed
qed

text \<open>Taking out the leftmost node.\<close>

lemma remove_first:
  assumes "avl t" "t \<noteq> NULL"
  shows "\<exists>f t' c. removeR cmp key (- 1) t = Some (Some f, t', c) \<and> avl t' \<and> inorder t = f # inorder t' \<and>
    (c = 0 \<or> c = 1) \<and> int (height t') + c = int (height t)"
  using assms
proof (induction t)
  case (BinTreeNode l k u r)
  have u: "u = int (height r) - int (height l)" "\<bar>u\<bar> \<le> 1" "avl l" "avl r" using BinTreeNode.prems(1) unfolding avl.simps by blast+
  show ?case
  proof (cases "l = NULL")
    case True
    then show ?thesis using u by auto
  next
    case False
    from BinTreeNode.IH(1)[OF u(3) this] obtain f l' c where l: "removeR cmp key (- 1) l = Some (Some f, l', c)" "avl l'"
      "inorder l = f # inorder l'" "c = 0 \<or> c = 1" "int (height l') + c = int (height l)" by blast
    have "int (height r) - int (height l') = u - - c" using u(1) l(5) by simp
    from shrink_correct[OF l(2) u(4,2) this, of k] l(4) obtain t c' where t: "avl_shrink (- c) (BinTreeNode l' k u r) = Some (t, c')"
      "avl t" "inorder t = inorder l' @ k # inorder r" "c' = 0 \<or> c' = 1"
      "int (height t) + c' = int (max (if - c < 0 then Suc (height l') else height l') (if 0 < - c then Suc (height r) else height r)) + 1"
      by force
    have "height l = (if - c < 0 then Suc (height l') else height l')" using l(4,5) by auto
    then have "int (height t) + c' = int (height (BinTreeNode l k u r))" using t(5) l(4) by auto
    then show ?thesis using False l(1,3) t(1-4) by (auto simp: Let_def simp del: avl_shrink.simps)
  qed
qed simp

context comparator
begin

lemma sgn_cmp: "sgn (cmp x y) = (if key x < key y then - 1 else if key y < key x then 1 else 0)"
proof (cases "cmp x y" "0 :: int" rule: linorder_cases)
  case less
  then show ?thesis using cmp_less by simp
next
  case equal
  then show ?thesis using cmp_less[of x y] cmp_greater[of x y] by simp
next
  case greater
  then show ?thesis using cmp_greater[of x y] by auto
qed

lemma remove_correct:
  assumes "avl t" "ordered key (inorder t)"
  shows "\<exists>f t' c. removeR cmp x 0 t = Some (f, t', c) \<and> avl t' \<and> inorder t' = del_list key (key x) (inorder t) \<and>
    (f = None \<longleftrightarrow> (\<forall>y \<in> set (inorder t). key y \<noteq> key x)) \<and> (f = None \<longrightarrow> t' = t \<and> c = 0) \<and>
    (c = 0 \<or> c = 1) \<and> int (height t') + c = int (height t)"
  using assms
proof (induction t)
  case NULL
  then show ?case by (simp add: del_list_def)
next
  case (BinTreeNode l k u r)
  have u: "u = int (height r) - int (height l)" "\<bar>u\<bar> \<le> 1" "avl l" "avl r" using BinTreeNode.prems(1) unfolding avl.simps by blast+
  have o: "ordered key (inorder l)" "ordered key (inorder r)" "ordered key (inorder l @ k # inorder r)"
    and lt: "\<And>y. y \<in> set (inorder l) \<Longrightarrow> key y < key k" and gt: "\<And>y. y \<in> set (inorder r) \<Longrightarrow> key k < key y"
    using BinTreeNode.prems(2) by (auto simp: ordered_tree)
  consider (left) "key x < key k" | (right) "key k < key x" | (here) "key x = key k" by (rule linorder_cases)
  then show ?case
  proof cases
    case left
    have s: "sgn (cmp x k) = - 1" "cmp x k < 0" using left by (simp_all add: sgn_cmp cmp_less)
    have nr: "key y \<noteq> key x" if "y \<in> set (inorder r)" for y using gt[OF that] left by auto
    obtain f l' c where l: "removeR cmp x 0 l = Some (f, l', c)" "avl l'"
      "inorder l' = del_list key (key x) (inorder l)" "f = None \<longleftrightarrow> (\<forall>y \<in> set (inorder l). key y \<noteq> key x)"
      "f = None \<longrightarrow> l' = l \<and> c = 0" "c = 0 \<or> c = 1" "int (height l') + c = int (height l)"
      using BinTreeNode.IH(1)[OF u(3) o(1)] by blast
    have d: "del_list key (key x) (inorder (BinTreeNode l k u r)) = inorder l' @ k # inorder r"
      using del_list_left[OF o(3) left] l(3) by simp
    have ex: "(\<forall>y \<in> set (inorder (BinTreeNode l k u r)). key y \<noteq> key x) \<longleftrightarrow> f = None"
      using l(4) nr left by auto
    show ?thesis
    proof (cases f)
      case None
      then have "removeR cmp x 0 (BinTreeNode l k u r) = Some (None, BinTreeNode l k u r, 0)" using s l(1,5) by (simp add: Let_def)
      then show ?thesis unfolding ex using None l(5) d BinTreeNode.prems(1) by (auto simp del: removeR.simps)
    next
      case (Some g)
      have "int (height r) - int (height l') = u - - c" using u(1) l(7) by simp
      from shrink_correct[OF l(2) u(4,2) this, of k] l(6) obtain t c' where t: "avl_shrink (- c) (BinTreeNode l' k u r) = Some (t, c')"
        "avl t" "inorder t = inorder l' @ k # inorder r" "c' = 0 \<or> c' = 1"
        "int (height t) + c' = int (max (if - c < 0 then Suc (height l') else height l') (if 0 < - c then Suc (height r) else height r)) + 1"
        by force
      have "height l = (if - c < 0 then Suc (height l') else height l')" using l(6,7) by auto
      then have ht: "int (height t) + c' = int (height (BinTreeNode l k u r))" using t(5) l(6) by auto
      have "removeR cmp x 0 (BinTreeNode l k u r) = Some (Some g, t, c')"
        using s l(1) Some t(1) by (simp add: Let_def del: avl_shrink.simps)
      then show ?thesis unfolding ex d using Some t(2-4) ht by (auto simp del: removeR.simps)
    qed
  next
    case right
    have s: "sgn (cmp x k) = 1" "0 < cmp x k" "\<not> cmp x k < 0" using right by (auto simp: sgn_cmp cmp_less cmp_greater)
    have nl: "key y \<noteq> key x" if "y \<in> set (inorder l)" for y using lt[OF that] right by auto
    obtain f r' c where l: "removeR cmp x 0 r = Some (f, r', c)" "avl r'"
      "inorder r' = del_list key (key x) (inorder r)" "f = None \<longleftrightarrow> (\<forall>y \<in> set (inorder r). key y \<noteq> key x)"
      "f = None \<longrightarrow> r' = r \<and> c = 0" "c = 0 \<or> c = 1" "int (height r') + c = int (height r)"
      using BinTreeNode.IH(2)[OF u(4) o(2)] by blast
    have d: "del_list key (key x) (inorder (BinTreeNode l k u r)) = inorder l @ k # inorder r'"
      using del_list_right[OF o(3) right] l(3) by simp
    have ex: "(\<forall>y \<in> set (inorder (BinTreeNode l k u r)). key y \<noteq> key x) \<longleftrightarrow> f = None"
      using l(4) nl right by auto
    show ?thesis
    proof (cases f)
      case None
      then have "removeR cmp x 0 (BinTreeNode l k u r) = Some (None, BinTreeNode l k u r, 0)" using s l(1,5) by (simp add: Let_def)
      then show ?thesis unfolding ex using None l(5) d BinTreeNode.prems(1) by (auto simp del: removeR.simps)
    next
      case (Some g)
      have "int (height r') - int (height l) = u - c" using u(1) l(7) by simp
      from shrink_correct[OF u(3) l(2) u(2) this, of k] l(6) obtain t c' where t: "avl_shrink c (BinTreeNode l k u r') = Some (t, c')"
        "avl t" "inorder t = inorder l @ k # inorder r'" "c' = 0 \<or> c' = 1"
        "int (height t) + c' = int (max (if c < 0 then Suc (height l) else height l) (if 0 < c then Suc (height r') else height r')) + 1"
        by force
      have "height r = (if 0 < c then Suc (height r') else height r')" using l(6,7) by auto
      then have ht: "int (height t) + c' = int (height (BinTreeNode l k u r))" using t(5) l(6) by auto
      have "removeR cmp x 0 (BinTreeNode l k u r) = Some (Some g, t, c')"
        using s l(1) Some t(1) by (simp add: Let_def del: avl_shrink.simps)
      then show ?thesis unfolding ex d using Some t(2-4) ht by (auto simp del: removeR.simps)
    qed
  next
    case here
    have s: "cmp x k = 0" using here cmp_less[of x k] cmp_greater[of x k] by simp
    have d: "del_list key (key x) (inorder (BinTreeNode l k u r)) = inorder l @ inorder r"
      using del_list_here[OF o(3)] here by simp
    have ex: "\<not> (\<forall>y \<in> set (inorder (BinTreeNode l k u r)). key y \<noteq> key x)" using here by auto
    show ?thesis
    proof (cases "l = NULL \<or> r = NULL")
      case True
      define n where "n = (if r \<noteq> NULL then r else l)"
      have run: "removeR cmp x 0 (BinTreeNode l k u r) = Some (Some k, n, 1)"
        using True s by (cases "l = NULL"; cases "r = NULL"; simp add: Let_def n_def)
      have n: "n = l \<and> r = NULL \<or> n = r \<and> l = NULL" using True by (auto simp: n_def)
      then have "int (height n) + 1 = int (height (BinTreeNode l k u r))" by auto
      then show ?thesis unfolding d using run n u ex by (auto simp del: removeR.simps)
    next
      case False
      obtain f r' c where l: "removeR cmp x (- 1) r = Some (Some f, r', c)" "avl r'" "inorder r = f # inorder r'"
        "c = 0 \<or> c = 1" "int (height r') + c = int (height r)"
        using remove_first[OF u(4), of cmp x] False by blast
      have "int (height r') - int (height l) = u - c" using u(1) l(5) by simp
      from shrink_correct[OF u(3) l(2) u(2) this, of f] l(4) obtain t c' where t: "avl_shrink c (BinTreeNode l f u r') = Some (t, c')"
        "avl t" "inorder t = inorder l @ f # inorder r'" "c' = 0 \<or> c' = 1"
        "int (height t) + c' = int (max (if c < 0 then Suc (height l) else height l) (if 0 < c then Suc (height r') else height r')) + 1"
        by force
      have "height r = (if 0 < c then Suc (height r') else height r')" using l(4,5) by auto
      then have ht: "int (height t) + c' = int (height (BinTreeNode l k u r))" using t(5) l(4) by auto
      have "removeR cmp x 0 (BinTreeNode l k u r) = Some (Some f, t, c')"
        using s l(1) False t(1) by (simp add: Let_def del: avl_shrink.simps)
      then show ?thesis unfolding d using t(2-4) ht l(3) ex by (auto simp del: removeR.simps)
    qed
  qed
qed

subsection \<open>Searching\<close>

lemma find_append:
  "find P (xs @ y # ys) = (case find P xs of Some z \<Rightarrow> Some z | None \<Rightarrow> if P y then Some y else find P ys)"
  by (induction xs) auto

lemma find_none: "(\<And>y. y \<in> set xs \<Longrightarrow> \<not> P y) \<Longrightarrow> find P xs = None"
  by (auto simp: find_None_iff)

lemma find_key: "obj_get (findNode cmp t x) = find (\<lambda>y. key y = key x) (inorder t)" if "ordered key (inorder t)"
  using that
proof (induction t)
  case (BinTreeNode l k u r)
  have o: "ordered key (inorder l)" "ordered key (inorder r)"
    and lt: "\<And>y. y \<in> set (inorder l) \<Longrightarrow> key y < key k" and gt: "\<And>y. y \<in> set (inorder r) \<Longrightarrow> key k < key y"
    using BinTreeNode.prems by (auto simp: ordered_tree)
  consider "key x < key k" | "key k < key x" | "key x = key k" by (rule linorder_cases)
  then show ?case
  proof cases
    case 1
    then have "find (\<lambda>y. key y = key x) (inorder r) = None" using gt by (fastforce simp: find_None_iff)
    then show ?thesis using 1 BinTreeNode.IH(1)[OF o(1)] by (auto simp: cmp_less cmp_greater find_append Let_def split: option.splits)
  next
    case 2
    then have "find (\<lambda>y. key y = key x) (inorder l) = None" using lt by (fastforce simp: find_None_iff)
    then show ?thesis using 2 BinTreeNode.IH(2)[OF o(2)] by (auto simp: cmp_less cmp_greater find_append Let_def split: option.splits)
  next
    case 3
    then have "find (\<lambda>y. key y = key x) (inorder l) = None" using lt by (fastforce simp: find_None_iff)
    then show ?thesis using 3 by (simp add: cmp_less cmp_greater find_append Let_def)
  qed
qed simp

text \<open>The loops that search for a neighbour: what they hold in \<open>best\<close> lies behind what they still have to see.\<close>

lemma next_loop_find:
  "ordered key (inorder t) \<Longrightarrow>
   obj_get (next_loop cmp b t x) = (case find (\<lambda>y. key x < key y) (inorder t) of Some y \<Rightarrow> Some y | None \<Rightarrow> obj_get b)"
proof (induction t arbitrary: b)
  case (BinTreeNode l k u r)
  have o: "ordered key (inorder l)" "ordered key (inorder r)"
    and lt: "\<And>y. y \<in> set (inorder l) \<Longrightarrow> key y < key k"
    using BinTreeNode.prems by (auto simp: ordered_tree)
  show ?case
  proof (cases "key x < key k")
    case True
    then show ?thesis using BinTreeNode.IH(1)[OF o(1)] by (simp add: cmp_greater find_append split: option.splits)
  next
    case False
    then have "find (\<lambda>y. key x < key y) (inorder l) = None" using lt by (fastforce intro: find_none)
    then show ?thesis using False BinTreeNode.IH(2)[OF o(2)] by (simp add: cmp_greater find_append)
  qed
qed simp

lemma prev_loop_find:
  "ordered key (inorder t) \<Longrightarrow>
   obj_get (prev_loop cmp b t x) = (case find (\<lambda>y. key y < key x) (rev (inorder t)) of Some y \<Rightarrow> Some y | None \<Rightarrow> obj_get b)"
proof (induction t arbitrary: b)
  case (BinTreeNode l k u r)
  have o: "ordered key (inorder l)" "ordered key (inorder r)"
    and gt: "\<And>y. y \<in> set (inorder r) \<Longrightarrow> key k < key y"
    using BinTreeNode.prems by (auto simp: ordered_tree)
  show ?case
  proof (cases "key k < key x")
    case True
    then show ?thesis using BinTreeNode.IH(2)[OF o(2)] by (simp add: cmp_less find_append split: option.splits)
  next
    case False
    then have "find (\<lambda>y. key y < key x) (rev (inorder r)) = None" using gt by (fastforce intro: find_none)
    then show ?thesis using False BinTreeNode.IH(1)[OF o(1)] by (simp add: cmp_less find_append)
  qed
qed simp

lemma G_loop_find:
  "ordered key (inorder t) \<Longrightarrow> t \<noteq> NULL \<Longrightarrow>
   obj_get (findNodeG_loop cmp b t x) = (case find (\<lambda>y. key x < key y) (inorder t) of Some y \<Rightarrow> Some y | None \<Rightarrow> obj_get b)"
proof (induction t arbitrary: b)
  case (BinTreeNode l k u r)
  have o: "ordered key (inorder l)" "ordered key (inorder r)"
    and lt: "\<And>y. y \<in> set (inorder l) \<Longrightarrow> key y < key k"
    using BinTreeNode.prems by (auto simp: ordered_tree)
  show ?case
  proof (cases "key x < key k")
    case True
    then show ?thesis using BinTreeNode.IH(1)[OF o(1)] by (cases "l = NULL") (simp_all add: cmp_less find_append split: option.splits)
  next
    case False
    then have "find (\<lambda>y. key x < key y) (inorder l) = None" using lt by (fastforce intro: find_none)
    then show ?thesis using False BinTreeNode.IH(2)[OF o(2)] by (cases "r = NULL") (simp_all add: cmp_less find_append)
  qed
qed simp

lemma L_loop_find:
  "ordered key (inorder t) \<Longrightarrow> t \<noteq> NULL \<Longrightarrow>
   obj_get (findNodeL_loop cmp b t x) = (case find (\<lambda>y. key y < key x) (rev (inorder t)) of Some y \<Rightarrow> Some y | None \<Rightarrow> obj_get b)"
proof (induction t arbitrary: b)
  case (BinTreeNode l k u r)
  have o: "ordered key (inorder l)" "ordered key (inorder r)"
    and gt: "\<And>y. y \<in> set (inorder r) \<Longrightarrow> key k < key y"
    using BinTreeNode.prems by (auto simp: ordered_tree)
  have c: "cmp x k \<le> 0 \<longleftrightarrow> \<not> key k < key x" using cmp_greater[of x k] by auto
  show ?case
  proof (cases "key k < key x")
    case True
    then show ?thesis using BinTreeNode.IH(2)[OF o(2)] by (cases "r = NULL") (simp_all add: c find_append split: option.splits)
  next
    case False
    then have "find (\<lambda>y. key y < key x) (rev (inorder r)) = None" using gt by (fastforce intro: find_none)
    then show ?thesis using False BinTreeNode.IH(1)[OF o(1)] by (cases "l = NULL") (simp_all add: c find_append)
  qed
qed simp

lemma GE_loop_find:
  "ordered key (inorder t) \<Longrightarrow> t \<noteq> NULL \<Longrightarrow>
   obj_get (findNodeGE_loop cmp b t x) = (case find (\<lambda>y. key x \<le> key y) (inorder t) of Some y \<Rightarrow> Some y | None \<Rightarrow> obj_get b)"
proof (induction t arbitrary: b)
  case (BinTreeNode l k u r)
  have o: "ordered key (inorder l)" "ordered key (inorder r)"
    and lt: "\<And>y. y \<in> set (inorder l) \<Longrightarrow> key y < key k"
    using BinTreeNode.prems by (auto simp: ordered_tree)
  consider "key x < key k" | "key k < key x" | "key x = key k" by (rule linorder_cases)
  then show ?case
  proof cases
    case 1
    then show ?thesis using BinTreeNode.IH(1)[OF o(1)] less_imp_le[OF 1]
      by (cases "l = NULL") (simp_all add: cmp_less cmp_greater Let_def find_append split: option.splits)
  next
    case 2
    then have "find (\<lambda>y. key x \<le> key y) (inorder l) = None" using lt by (fastforce intro: find_none)
    moreover have "\<not> key x < key k" "\<not> key x \<le> key k" using 2 by simp_all
    ultimately show ?thesis using 2 BinTreeNode.IH(2)[OF o(2)]
      by (cases "r = NULL") (simp_all add: cmp_less cmp_greater Let_def find_append)
  next
    case 3
    then have "find (\<lambda>y. key x \<le> key y) (inorder l) = None" using lt by (fastforce intro: find_none)
    then show ?thesis using 3 by (simp add: cmp_less cmp_greater Let_def find_append)
  qed
qed simp

lemma LE_loop_find:
  "ordered key (inorder t) \<Longrightarrow> t \<noteq> NULL \<Longrightarrow>
   obj_get (findNodeLE_loop cmp b t x) = (case find (\<lambda>y. key y \<le> key x) (rev (inorder t)) of Some y \<Rightarrow> Some y | None \<Rightarrow> obj_get b)"
proof (induction t arbitrary: b)
  case (BinTreeNode l k u r)
  have o: "ordered key (inorder l)" "ordered key (inorder r)"
    and gt: "\<And>y. y \<in> set (inorder r) \<Longrightarrow> key k < key y"
    using BinTreeNode.prems by (auto simp: ordered_tree)
  consider "key x < key k" | "key k < key x" | "key x = key k" by (rule linorder_cases)
  then show ?case
  proof cases
    case 1
    then have "find (\<lambda>y. key y \<le> key x) (rev (inorder r)) = None" using gt by (fastforce intro: find_none)
    moreover have "\<not> key k \<le> key x" using 1 by simp
    ultimately show ?thesis using 1 BinTreeNode.IH(1)[OF o(1)]
      by (cases "l = NULL") (simp_all add: cmp_less cmp_greater Let_def find_append)
  next
    case 2
    then have "\<not> key x < key k" by simp
    then show ?thesis using 2 BinTreeNode.IH(2)[OF o(2)] less_imp_le[OF 2]
      by (cases "r = NULL") (simp_all add: cmp_less cmp_greater Let_def find_append split: option.splits)
  next
    case 3
    then have "find (\<lambda>y. key y \<le> key x) (rev (inorder r)) = None" using gt by (fastforce intro: find_none)
    then show ?thesis using 3 by (simp add: cmp_less cmp_greater Let_def find_append)
  qed
qed simp

end

end
