(* ===== verification/Tools_Props.thy ===== *)
theory Tools_Props
  imports Tools_Array "HOL-Library.Word" Tools_Avl_Ops
begin

text \<open>
  Stepping through the objects of a tree, the index of an object, the plain tree and copies: what the container
  promises of them over the list of its objects.
\<close>

subsection \<open>Handles\<close>

text \<open>The handles of a tree are its nodes.\<close>

fun nodes :: "'a BinTreeNode \<Rightarrow> 'a BinTreeNode set" where
  "nodes NULL = {}"
| "nodes (BinTreeNode l k u r) = insert (BinTreeNode l k u r) (nodes l \<union> nodes r)"

lemma leftmost_node: "t \<noteq> NULL \<Longrightarrow> getLeftmost t \<in> nodes t"
  by (induction t) auto

lemma rightmost_node: "t \<noteq> NULL \<Longrightarrow> getRightmost t \<in> nodes t"
  by (induction t) auto

lemma nodes_trans: "s \<in> nodes t \<Longrightarrow> nodes s \<subseteq> nodes t"
  by (induction t) auto

lemma nodes_obj: "BinTreeNode l k u r \<in> nodes t \<Longrightarrow> k \<in> set (inorder t)"
  by (induction t) auto

lemma leftmost_obj: "obj_get (getLeftmost t) = (if t = NULL then None else Some (hd (inorder t)))"
  by (induction t) (auto simp: hd_append)

lemma rightmost_obj: "obj_get (getRightmost t) = (if t = NULL then None else Some (List.last (inorder t)))"
  by (induction t) auto

lemma next_loop_node: "next_loop cmp b t x \<in> insert b (nodes t)"
proof (induction t arbitrary: b)
  case (BinTreeNode l k u r)
  then show ?case using BinTreeNode.IH(1)[of b] BinTreeNode.IH(1)[of "BinTreeNode l k u r"]
    BinTreeNode.IH(2)[of b] BinTreeNode.IH(2)[of "BinTreeNode l k u r"] by auto
qed simp

lemma prev_loop_node: "prev_loop cmp b t x \<in> insert b (nodes t)"
proof (induction t arbitrary: b)
  case (BinTreeNode l k u r)
  then show ?case using BinTreeNode.IH(1)[of b] BinTreeNode.IH(1)[of "BinTreeNode l k u r"]
    BinTreeNode.IH(2)[of b] BinTreeNode.IH(2)[of "BinTreeNode l k u r"] by auto
qed simp

lemma findNext_node: "h \<in> nodes t \<Longrightarrow> findNext cmp t h = NULL \<or> findNext cmp t h \<in> nodes t"
proof (cases h)
  case (BinTreeNode l k u r)
  moreover assume "h \<in> nodes t"
  ultimately have "r \<noteq> NULL \<Longrightarrow> getLeftmost r \<in> nodes t" using nodes_trans[of h t] leftmost_node[of r] by auto
  then show ?thesis using next_loop_node[of cmp NULL t k] BinTreeNode by auto
next
  case NULL
  moreover assume "h \<in> nodes t"
  ultimately have "t \<noteq> NULL" by auto
  then show ?thesis using NULL leftmost_node[of t] by (simp add: findFirst_def)
qed

lemma findPrev_node: "h \<in> nodes t \<Longrightarrow> findPrev cmp t h = NULL \<or> findPrev cmp t h \<in> nodes t"
proof (cases h)
  case (BinTreeNode l k u r)
  moreover assume "h \<in> nodes t"
  ultimately have "l \<noteq> NULL \<Longrightarrow> getRightmost l \<in> nodes t" using nodes_trans[of h t] rightmost_node[of l] by auto
  then show ?thesis using prev_loop_node[of cmp NULL t k] BinTreeNode by auto
next
  case NULL
  moreover assume "h \<in> nodes t"
  ultimately have "t \<noteq> NULL" by auto
  then show ?thesis using NULL rightmost_node[of t] by (simp add: findLast_def)
qed

lemma obj_get_None: "obj_get h = None \<longleftrightarrow> h = NULL"
  by (cases h) simp_all

subsection \<open>The index of an object\<close>

lemma findByIdxR_nth:
  "0 \<le> i \<Longrightarrow> findByIdxR t i = (h, j) \<Longrightarrow>
     (if nat i < length (inorder t) then obj_get h = Some (inorder t ! nat i) else h = NULL \<and> j = i - int (length (inorder t)))"
proof (induction t arbitrary: i h j)
  case (BinTreeNode l k u r)
  obtain h1 j1 where l: "findByIdxR l i = (h1, j1)" by fastforce
  note hl = BinTreeNode.IH(1)[OF BinTreeNode.prems(1) l]
  show ?case
  proof (cases "nat i < length (inorder l)")
    case True
    then have "h1 \<noteq> NULL" using hl by auto
    then show ?thesis using True hl l BinTreeNode.prems(2) by (auto simp: nth_append)
  next
    case False
    then have h1: "h1 = NULL" "j1 = i - int (length (inorder l))" using hl by auto
    show ?thesis
    proof (cases "j1 = 0")
      case True
      then show ?thesis using l h1 BinTreeNode.prems(2) False by (auto simp: nth_append)
    next
      case ne: False
      then have "0 \<le> j1 - 1" using h1 False ne BinTreeNode.prems(1) by linarith
      moreover have "findByIdxR r (j1 - 1) = (h, j)" using l h1 ne BinTreeNode.prems(2) by (simp add: Let_def)
      ultimately have "if nat (j1 - 1) < length (inorder r) then obj_get h = Some (inorder r ! nat (j1 - 1))
        else h = NULL \<and> j = j1 - 1 - int (length (inorder r))" by (rule BinTreeNode.IH(2))
      moreover have "nat i = length (inorder l) + Suc (nat (j1 - 1))" using h1 ne False BinTreeNode.prems(1) by auto
      ultimately show ?thesis using h1 by (auto simp: nth_append split: if_splits)
    qed
  qed
qed auto

lemma findByIdx_nth:
  "obj_get (findByIdx t (int n)) = (if n < length (inorder t) then Some (inorder t ! n) else None)"
  using findByIdxR_nth[of "int n" t] by (cases "findByIdxR t (int n)") (auto simp: findByIdx_def)

subsection \<open>The neighbours\<close>

lemma find_behind:
  "ordered key (xs @ k # ys) \<Longrightarrow> find (\<lambda>y. key k < key y) (xs @ k # ys) = (case ys of [] \<Rightarrow> None | y # _ \<Rightarrow> Some y)"
  by (induction xs) (auto split: list.splits)

fun shape :: "'a BinTreeNode \<Rightarrow> 'a BinTreeNode" where
  "shape NULL = NULL"
| "shape (BinTreeNode l k u r) = BinTreeNode (shape l) k 0 (shape r)"

fun preorder :: "'a BinTreeNode \<Rightarrow> 'a list" where
  "preorder NULL = []"
| "preorder (BinTreeNode l k u r) = k # preorder l @ preorder r"

lemma inorder_shape [simp]: "inorder (shape t) = inorder t"
  by (induction t) simp_all

subsection \<open>The container\<close>

definition container_ok :: "('a \<Rightarrow> 'k::linorder) \<Rightarrow> 'a AVLTree \<Rightarrow> bool" where
  "container_ok key c \<longleftrightarrow> avl (root' c) \<and> ordered key (inorder (root' c)) \<and> ecount c = length (inorder (root' c))"

lemma length_ins_list:
  "ordered key xs \<Longrightarrow> length (ins_list key x xs) = length xs + (if \<forall>y \<in> set xs. key y \<noteq> key x then 1 else 0)"
proof (induction xs)
  case (Cons y ys)
  have lt: "\<forall>z \<in> set ys. key y < key z" using Cons.prems by simp
  consider "key x < key y" | "key x = key y" | "key y < key x" by (rule linorder_cases)
  then show ?case
  proof cases
    case 1
    then have "\<forall>z \<in> set ys. key z \<noteq> key x" using lt by fastforce
    then show ?thesis using 1 by simp
  next
    case 3
    then have "\<not> key x < key y" "key x \<noteq> key y" by simp_all
    then show ?thesis using Cons by simp
  qed simp
qed simp

lemma length_del_list:
  "ordered key xs \<Longrightarrow> length (del_list key k xs) = length xs - (if \<forall>y \<in> set xs. key y \<noteq> k then 0 else 1)"
proof (cases "\<forall>y \<in> set xs. key y \<noteq> k")
  case True
  then have "filter (\<lambda>x. key x \<noteq> k) xs = xs" by (simp add: filter_id_conv)
  then show ?thesis using True by (simp add: del_list_def)
next
  case False
  assume o: "ordered key xs"
  obtain y where y: "y \<in> set xs" "key y = k" using False by blast
  obtain as bs where xs: "xs = as @ y # bs" using split_list[OF y(1)] by blast
  show ?thesis using del_list_here[of key as y bs] o False y(2) by (simp add: xs)
qed

context comparator
begin

lemma next_inside:
  "ordered key (inorder t) \<Longrightarrow> BinTreeNode l k u r \<in> nodes t \<Longrightarrow> r \<noteq> NULL \<Longrightarrow>
     find (\<lambda>y. key k < key y) (inorder t) = Some (hd (inorder r))"
proof (induction t)
  case (BinTreeNode tl tk tu tr)
  have o: "ordered key (inorder tl)" "ordered key (inorder tr)"
    and lt: "\<And>y. y \<in> set (inorder tl) \<Longrightarrow> key y < key tk" and gt: "\<And>y. y \<in> set (inorder tr) \<Longrightarrow> key tk < key y"
    using BinTreeNode.prems(1) by (auto simp: ordered_tree)
  consider "BinTreeNode l k u r = BinTreeNode tl tk tu tr" | "BinTreeNode l k u r \<in> nodes tl" | "BinTreeNode l k u r \<in> nodes tr"
    using BinTreeNode.prems(2) by auto
  then show ?case
  proof cases
    case 1
    then have "find (\<lambda>y. key k < key y) (inorder tl) = None" using lt by (fastforce intro: find_none)
    moreover obtain y ys where "inorder r = y # ys" using BinTreeNode.prems(3) by (cases "inorder r") auto
    ultimately show ?thesis using 1 gt by (auto simp: find_append)
  next
    case 2
    then show ?thesis using BinTreeNode.IH(1)[OF o(1) _ BinTreeNode.prems(3)] by (simp add: find_append)
  next
    case 3
    then have "key tk < key k" using gt[OF nodes_obj] by blast
    then have "find (\<lambda>y. key k < key y) (inorder tl) = None" "\<not> key k < key tk" using lt by (fastforce intro: find_none)+
    then show ?thesis using 3 BinTreeNode.IH(2)[OF o(2) _ BinTreeNode.prems(3)] by (simp add: find_append)
  qed
qed simp

lemma prev_inside:
  "ordered key (inorder t) \<Longrightarrow> BinTreeNode l k u r \<in> nodes t \<Longrightarrow> l \<noteq> NULL \<Longrightarrow>
     find (\<lambda>y. key y < key k) (rev (inorder t)) = Some (List.last (inorder l))"
proof (induction t)
  case (BinTreeNode tl tk tu tr)
  have o: "ordered key (inorder tl)" "ordered key (inorder tr)"
    and lt: "\<And>y. y \<in> set (inorder tl) \<Longrightarrow> key y < key tk" and gt: "\<And>y. y \<in> set (inorder tr) \<Longrightarrow> key tk < key y"
    using BinTreeNode.prems(1) by (auto simp: ordered_tree)
  consider "BinTreeNode l k u r = BinTreeNode tl tk tu tr" | "BinTreeNode l k u r \<in> nodes tl" | "BinTreeNode l k u r \<in> nodes tr"
    using BinTreeNode.prems(2) by auto
  then show ?case
  proof cases
    case 1
    then have "find (\<lambda>y. key y < key k) (rev (inorder tr)) = None" using gt by (fastforce intro: find_none)
    moreover obtain ys y where "inorder l = ys @ [y]" using BinTreeNode.prems(3) by (cases "inorder l" rule: rev_cases) auto
    ultimately show ?thesis using 1 lt by (auto simp: find_append)
  next
    case 3
    then show ?thesis using BinTreeNode.IH(2)[OF o(2) _ BinTreeNode.prems(3)] by (simp add: find_append)
  next
    case 2
    then have "key k < key tk" using lt[OF nodes_obj] by blast
    then have "find (\<lambda>y. key y < key k) (rev (inorder tr)) = None" "\<not> key tk < key k" using gt by (fastforce intro: find_none)+
    then show ?thesis using 2 BinTreeNode.IH(1)[OF o(1) _ BinTreeNode.prems(3)] by (simp add: find_append)
  qed
qed simp

lemma findNext_find:
  assumes "ordered key (inorder t)" "BinTreeNode l k u r \<in> nodes t"
  shows "obj_get (findNext cmp t (BinTreeNode l k u r)) = find (\<lambda>y. key k < key y) (inorder t)"
  using next_inside[OF assms] next_loop_find[OF assms(1), of NULL k] leftmost_obj[of r]
  by (auto split: option.splits)

lemma findPrev_find:
  assumes "ordered key (inorder t)" "BinTreeNode l k u r \<in> nodes t"
  shows "obj_get (findPrev cmp t (BinTreeNode l k u r)) = find (\<lambda>y. key y < key k) (rev (inorder t))"
  using prev_inside[OF assms] prev_loop_find[OF assms(1), of NULL k] rightmost_obj[of l]
  by (auto split: option.splits)

text \<open>The loop visits the objects behind its handle.\<close>

lemma foreach_from:
  assumes "ordered key (inorder t)"
  shows "h \<in> nodes t \<Longrightarrow> inorder t = xs @ k # ys \<Longrightarrow> obj_get h = Some k \<Longrightarrow> foreach_loop cmp t h = Some (k # ys)"
proof (induction ys arbitrary: h xs k)
  case Nil
  obtain l u r where h: "h = BinTreeNode l k u r" using Nil.prems(3) by (cases h) auto
  have "obj_get (findNext cmp t h) = None"
    using findNext_find[OF assms, of l k u r] find_behind[of key xs k "[]"] Nil.prems assms by (simp add: h)
  then have n: "findNext cmp t h = NULL" by (simp add: obj_get_None)
  have "foreach_loop cmp t NULL = Some []" by (subst foreach_loop.simps) simp
  then show ?case using n by (subst foreach_loop.simps) (simp add: h)
next
  case (Cons y ys)
  obtain l u r where h: "h = BinTreeNode l k u r" using Cons.prems(3) by (cases h) auto
  have g: "obj_get (findNext cmp t h) = Some y"
    using findNext_find[OF assms, of l k u r] find_behind[of key xs k "y # ys"] Cons.prems assms by (simp add: h)
  then have "findNext cmp t h \<in> nodes t" using findNext_node[OF Cons.prems(1), of cmp] by (auto simp: obj_get_None)
  from Cons.IH[OF this _ g, of "xs @ [k]"] Cons.prems(2) have "foreach_loop cmp t (findNext cmp t h) = Some (y # ys)" by simp
  then show ?case by (subst foreach_loop.simps) (simp add: h)
qed

lemma foreach_inorder:
  assumes "ordered key (inorder t)"
  shows "foreach cmp t = Some (inorder t)"
proof (cases t)
  case NULL
  then show ?thesis unfolding foreach_def findFirst_def by (subst foreach_loop.simps) simp
next
  case (BinTreeNode l k u r)
  then have n: "t \<noteq> NULL" by simp
  then obtain x xs where i: "inorder t = x # xs" by (cases "inorder t") auto
  then have "obj_get (getLeftmost t) = Some x" using n by (simp add: leftmost_obj)
  from foreach_from[OF assms leftmost_node[OF n] _ this, of "[]" xs] i show ?thesis by (simp add: foreach_def findFirst_def)
qed

subsection \<open>The plain tree\<close>

lemma insertR_correct:
  "ordered key (inorder t) \<Longrightarrow> inorder (fst (insertR cmp t x)) = ins_list key x (inorder t) \<and>
     (snd (insertR cmp t x) = NULL \<longleftrightarrow> (\<exists>y \<in> set (inorder t). key y = key x))"
proof (induction t)
  case (BinTreeNode l k u r)
  have o: "ordered key (inorder l)" "ordered key (inorder r)" "ordered key (inorder l @ k # inorder r)"
    and lt: "\<And>y. y \<in> set (inorder l) \<Longrightarrow> key y < key k" and gt: "\<And>y. y \<in> set (inorder r) \<Longrightarrow> key k < key y"
    using BinTreeNode.prems by (auto simp: ordered_tree)
  consider "key x < key k" | "key k < key x" | "key x = key k" by (rule linorder_cases)
  then show ?case
  proof cases
    case 1
    then have s: "insertR cmp (BinTreeNode l k u r) x = (let (l', h) = insertR cmp l x in (BinTreeNode l' k u r, h))"
      using cmp_less[of x k] cmp_greater[of x k] by simp
    have "\<And>y. y \<in> set (inorder r) \<Longrightarrow> key y \<noteq> key x" using gt 1 by fastforce
    then show ?thesis using 1 BinTreeNode.IH(1)[OF o(1)] ins_list_left[OF o(3)] unfolding s
      by (cases "insertR cmp l x") auto
  next
    case 2
    then have s: "insertR cmp (BinTreeNode l k u r) x = (let (r', h) = insertR cmp r x in (BinTreeNode l k u r', h))"
      using cmp_less[of x k] cmp_greater[of x k] by simp
    have "\<And>y. y \<in> set (inorder l) \<Longrightarrow> key y \<noteq> key x" using lt 2 by fastforce
    then show ?thesis using 2 BinTreeNode.IH(2)[OF o(2)] ins_list_right[OF o(3)] unfolding s
      by (cases "insertR cmp r x") auto
  next
    case 3
    then have s: "insertR cmp (BinTreeNode l k u r) x = (BinTreeNode l k u r, NULL)"
      using cmp_less[of x k] cmp_greater[of x k] by simp
    show ?thesis using 3 BinTreeNode.prems ins_list_present[OF o(3), of k x] unfolding s by auto
  qed
qed (simp add: Let_def)

text \<open>Inserting the objects of a tree from the root down gives the tree itself.\<close>

abbreviation plain_insert :: "'a \<Rightarrow> 'a BinTreeNode \<Rightarrow> 'a BinTreeNode option" where
  "plain_insert \<equiv> \<lambda>x t. Some (fst (insertR cmp t x))"

lemma clone_left:
  "(\<And>y. y \<in> set (inorder t) \<Longrightarrow> key y < key k) \<Longrightarrow>
     cloneR plain_insert t (BinTreeNode a k u b) = map_option (\<lambda>a. BinTreeNode a k u b) (cloneR plain_insert t a)"
proof (induction t arbitrary: a)
  case (BinTreeNode l x v r)
  have "key x < key k" using BinTreeNode.prems by simp
  then have "fst (insertR cmp (BinTreeNode a k u b) x) = BinTreeNode (fst (insertR cmp a x)) k u b"
    using cmp_less[of x k] cmp_greater[of x k] by (simp add: case_prod_unfold Let_def)
  then show ?case using BinTreeNode.IH[OF BinTreeNode.prems] by (auto split: option.splits)
qed simp

lemma clone_right:
  "(\<And>y. y \<in> set (inorder t) \<Longrightarrow> key k < key y) \<Longrightarrow>
     cloneR plain_insert t (BinTreeNode a k u b) = map_option (\<lambda>b. BinTreeNode a k u b) (cloneR plain_insert t b)"
proof (induction t arbitrary: b)
  case (BinTreeNode l x v r)
  have "key k < key x" using BinTreeNode.prems by simp
  then have "fst (insertR cmp (BinTreeNode a k u b) x) = BinTreeNode a k u (fst (insertR cmp b x))"
    using cmp_less[of x k] cmp_greater[of x k] by (simp add: case_prod_unfold Let_def)
  then show ?case using BinTreeNode.IH[OF BinTreeNode.prems] by (auto split: option.splits)
qed simp

lemma binary_clone_shape: "ordered key (inorder t) \<Longrightarrow> binary_clone cmp t = Some (shape t)"
proof (induction t)
  case (BinTreeNode l k u r)
  then show ?case unfolding binary_clone_def
    using clone_left[of l k NULL 0 NULL] clone_right[of r k "shape l" 0 NULL] by (simp add: ordered_tree Let_def)
qed (simp add: binary_clone_def)

lemma cloneR_fold:
  assumes "\<And>x c. I c \<Longrightarrow> \<exists>c'. ins x c = Some c' \<and> I c' \<and> inorder c' = ins_list key x (inorder c)"
  shows "I c \<Longrightarrow> \<exists>c'. cloneR ins t c = Some c' \<and> I c' \<and> inorder c' = fold (ins_list key) (preorder t) (inorder c)"
proof (induction t arbitrary: c)
  case (BinTreeNode l k u r)
  obtain c1 where c1: "ins k c = Some c1" "I c1" "inorder c1 = ins_list key k (inorder c)"
    using assms[OF BinTreeNode.prems] by blast
  obtain c2 where c2: "cloneR ins l c1 = Some c2" "I c2" "inorder c2 = fold (ins_list key) (preorder l) (inorder c1)"
    using BinTreeNode.IH(1)[OF c1(2)] by blast
  show ?case using BinTreeNode.IH(2)[OF c2(2)] c1 c2 by auto
qed simp

lemma avl_clone_correct:
  assumes "ordered key (inorder t)"
  shows "\<exists>c. avl_clone cmp t = Some c \<and> avl c \<and> inorder c = inorder t"
proof -
  let ?I = "\<lambda>c. ordered key (inorder c)"
  have "\<exists>c'. cloneR plain_insert t NULL = Some c' \<and> ?I c' \<and> inorder c' = fold (ins_list key) (preorder t) (inorder NULL)"
    by (rule cloneR_fold[of ?I]) (auto simp: insertR_correct ordered_ins_list)
  then have f: "fold (ins_list key) (preorder t) [] = inorder t"
    using binary_clone_shape[OF assms] by (auto simp: binary_clone_def)
  have "\<exists>c'. cloneR (\<lambda>x t. map_option fst (avl_insert cmp x t)) t NULL = Some c' \<and> (avl c' \<and> ?I c') \<and>
      inorder c' = fold (ins_list key) (preorder t) (inorder NULL)"
    by (rule cloneR_fold[of "\<lambda>c. avl c \<and> ?I c"]) (use insert_correct ordered_ins_list in \<open>force+\<close>)
  then show ?thesis using f by (auto simp: avl_clone_def)
qed

lemma inorder_context:
  "sub_at ds t \<noteq> NULL \<Longrightarrow> \<exists>xs ys. \<forall>s. inorder (put_at ds s t) = xs @ inorder s @ ys"
proof (induction ds t rule: sub_at.induct)
  case (1 t)
  show ?case by (auto intro: exI[of _ "[]"])
next
  case (2 d ds t)
  then obtain l k u r where t: "t = BinTreeNode l k u r" by (cases t) auto
  obtain xs ys where "\<forall>s. inorder (put_at ds s (child d t)) = xs @ inorder s @ ys" using 2 by auto
  note c = this
  show ?case
  proof (cases d)
    case Lft
    have "inorder (put_at (d # ds) s t) = xs @ inorder s @ (ys @ k # inorder r)" for s using c[rule_format, of s] by (simp add: t Lft)
    then show ?thesis by blast
  next
    case Rgt
    have "inorder (put_at (d # ds) s t) = (inorder l @ k # xs) @ inorder s @ ys" for s using c[rule_format, of s] by (simp add: t Rgt)
    then show ?thesis by blast
  qed
qed

lemma put_same: "put_at ds (sub_at ds t) t = t"
proof (induction ds t rule: sub_at.induct)
  case (2 d ds t)
  then show ?case by (cases t; cases d) simp_all
qed simp

lemma findNodePtr_path:
  "ordered key (inorder t) \<Longrightarrow> sub_at h t = BinTreeNode l k u r \<Longrightarrow> findNodePtr cmp t p k = Some (p @ h)"
proof (induction h arbitrary: t p)
  case Nil
  then show ?case using cmp_less[of k k] cmp_greater[of k k] by simp
next
  case (Cons d h)
  then obtain tl tk tu tr where t: "t = BinTreeNode tl tk tu tr" by (cases t) auto
  have o: "ordered key (inorder tl)" "ordered key (inorder tr)"
    and lt: "\<And>y. y \<in> set (inorder tl) \<Longrightarrow> key y < key tk" and gt: "\<And>y. y \<in> set (inorder tr) \<Longrightarrow> key tk < key y"
    using Cons.prems(1) by (auto simp: ordered_tree t)
  have k: "k \<in> set (inorder s)" if s: "sub_at h s = BinTreeNode l k u r" for s
  proof -
    obtain xs ys where "inorder (put_at h (sub_at h s) s) = xs @ inorder (sub_at h s) @ ys" using inorder_context[of h s] s by auto
    then show ?thesis using put_same[of h s] s by simp
  qed
  show ?case
  proof (cases d)
    case Lft
    then have s: "sub_at h tl = BinTreeNode l k u r" using Cons.prems(2) t by simp
    show ?thesis using lt[OF k[OF s]] Cons.IH[OF o(1) s] cmp_less[of tk k] cmp_greater[of tk k] Lft by (simp add: t)
  next
    case Rgt
    then have s: "sub_at h tr = BinTreeNode l k u r" using Cons.prems(2) t by simp
    show ?thesis using gt[OF k[OF s]] Cons.IH[OF o(2) s] cmp_less[of tk k] cmp_greater[of tk k] Rgt by (simp add: t)
  qed
qed

lemma unlink_first: "r \<noteq> NULL \<Longrightarrow> \<exists>dl dk du dr. getLeftmost r = BinTreeNode dl dk du dr \<and> inorder r = dk # inorder (unlinkLeftmost r)"
  by (induction r) auto

lemma binary_remove_correct:
  assumes o: "ordered key (inorder t)" and h: "sub_at h t = BinTreeNode l k u r"
  shows "\<exists>t'. binary_remove cmp h t = Some (Some k, t') \<and> inorder t' = del_list key (key k) (inorder t)"
proof -
  obtain xs ys where c: "\<And>s. inorder (put_at h s t) = xs @ inorder s @ ys" using inorder_context[of h t] h by auto
  have t: "inorder t = (xs @ inorder l) @ k # inorder r @ ys" using c[of "sub_at h t"] put_same[of h t] h by simp
  have d: "del_list key (key k) (inorder t) = xs @ (inorder l @ inorder r) @ ys"
    using del_list_here[of key "xs @ inorder l" k "inorder r @ ys"] o by (simp add: t)
  consider "l \<noteq> NULL" "r \<noteq> NULL" | "l = NULL" "r = NULL" | "l \<noteq> NULL" "r = NULL" | "l = NULL" "r \<noteq> NULL" by blast
  then show ?thesis
  proof cases
    case 1
    then show ?thesis unfolding d using unlink_first[OF 1(2)] c h by (auto simp: binary_remove_def)
  next
    case 2
    then show ?thesis unfolding d using findNodePtr_path[OF o h, of "[]"] c h by (auto simp: binary_remove_def)
  next
    case 3
    then show ?thesis unfolding d using c h by (cases l) (auto simp: binary_remove_def)
  next
    case 4
    then show ?thesis unfolding d using c h by (cases r) (auto simp: binary_remove_def)
  qed
qed

text \<open>The operations of the container.\<close>

lemma container_insert:
  assumes "container_ok key c"
  shows "\<exists>c'. AVLTree_insert cmp x c = Some c' \<and> container_ok key c' \<and> inorder (root' c') = ins_list key x (inorder (root' c))"
proof -
  have a: "avl (root' c)" "ordered key (inorder (root' c))" "ecount c = length (inorder (root' c))"
    using assms by (simp_all add: container_ok_def)
  obtain t b where "avl_insert cmp x (root' c) = Some (t, b)" "avl t" "inorder t = ins_list key x (inorder (root' c))"
    "b \<longleftrightarrow> (\<forall>y \<in> set (inorder (root' c)). key y \<noteq> key x)"
    using insert_correct[OF a(1,2), of x] by blast
  then show ?thesis using a ordered_ins_list[OF a(2), of x] length_ins_list[OF a(2), of x]
    by (auto simp: AVLTree_insert_def container_ok_def)
qed

lemma container_remove:
  assumes "container_ok key c" "obj_get h = Some x"
  shows "\<exists>c'. AVLTree_remove cmp h c = Some (if \<forall>y \<in> set (inorder (root' c)). key y \<noteq> key x then None else Some x, c') \<and>
    container_ok key c' \<and> inorder (root' c') = del_list key (key x) (inorder (root' c))"
proof -
  have a: "avl (root' c)" "ordered key (inorder (root' c))" "ecount c = length (inorder (root' c))"
    using assms(1) by (simp_all add: container_ok_def)
  obtain f t n where r: "removeR cmp x 0 (root' c) = Some (f, t, n)" "avl t" "inorder t = del_list key (key x) (inorder (root' c))"
    "f = None \<longleftrightarrow> (\<forall>y \<in> set (inorder (root' c)). key y \<noteq> key x)"
    using remove_correct[OF a(1,2), of x] by blast
  have "ordered key (inorder t)" using a(2) by (simp add: r(3) del_list_def sorted_wrt_filter)
  then show ?thesis using r a(3) assms(2) length_del_list[OF a(2), of "key x"]
    by (auto simp: AVLTree_remove_def avl_remove_def container_ok_def simp del: removeR.simps)
qed

end

text \<open>
  The comparators of the number objects of tools/data.cc, and what the containers promise of their objects.
\<close>

definition UInt_compareTo :: "32 word comparator" where
  "UInt_compareTo a b = (if a < b then - 1 else if b < a then 1 else 0)"

definition UInt64_compareTo :: "64 word comparator" where
  "UInt64_compareTo a b = (if a < b then - 1 else if b < a then 1 else 0)"

definition SInt64_compareTo :: "64 word comparator" where
  "SInt64_compareTo a b = (if sint a < sint b then - 1 else if sint b < sint a then 1 else 0)"

text \<open>The difference of two \<open>int\<close>s, as the hosts compute it.\<close>

definition SInt_compareTo :: "32 word comparator" where
  "SInt_compareTo a b = sint (a - b)"

interpretation uint: comparator UInt_compareTo unat
  by unfold_locales (auto simp: UInt_compareTo_def word_less_nat_alt)

interpretation uint64: comparator UInt64_compareTo unat
  by unfold_locales (auto simp: UInt64_compareTo_def word_less_nat_alt)

interpretation sint64: comparator SInt64_compareTo sint
  by unfold_locales (auto simp: SInt64_compareTo_def)

text \<open>C6: The balanced tree is the sorted list of its objects: inserting an object inserts it into the list unless an
  equal one is there, removing a handle takes its object out, and afterwards the count is the number of objects, the tree
  is ordered, every balance factor is the difference of the heights and none exceeds one, for every comparator that
  orders the objects by a key.  No null pointer is followed.\<close>

theorem avl_tree_refines_list:
  assumes "comparator cmp key" "container_ok key c" "obj_get h = Some y"
  shows "(\<exists>c'. AVLTree_insert cmp x c = Some c' \<and> container_ok key c' \<and> inorder (root' c') = ins_list key x (inorder (root' c))) \<and>
    (\<exists>c'. AVLTree_remove cmp h c = Some (if \<forall>z \<in> set (inorder (root' c)). key z \<noteq> key y then None else Some y, c') \<and>
      container_ok key c' \<and> inorder (root' c') = del_list key (key y) (inorder (root' c)))"
  using comparator.container_insert[OF assms(1,2), of x] comparator.container_remove[OF assms(1,2,3)] by blast

text \<open>C7: Searching and stepping through a tree, balanced or not, agree with its sorted list: \<open>find\<close> and its four
  relatives return the object that is equal, or next above or below, \<open>findByIdx\<close> the object at the index; from the handle
  of a node \<open>findNext\<close> and \<open>findPrev\<close> step to the next object above and below, and from a null handle to the first and
  the last one; the loop of \<open>foreach\<close> ends after it visited every object once in order; a copy has the same objects.\<close>

theorem tree_search_and_walk:
  assumes "comparator cmp key" "ordered key (inorder t)"
  shows "foreach cmp t = Some (inorder t) \<and>
    (\<forall>l k u r. BinTreeNode l k u r \<in> nodes t \<longrightarrow>
       obj_get (findNext cmp t (BinTreeNode l k u r)) = find (\<lambda>y. key k < key y) (inorder t) \<and>
       obj_get (findPrev cmp t (BinTreeNode l k u r)) = find (\<lambda>y. key y < key k) (rev (inorder t))) \<and>
    obj_get (findNext cmp t NULL) = (if t = NULL then None else Some (hd (inorder t))) \<and>
    obj_get (findPrev cmp t NULL) = (if t = NULL then None else Some (List.last (inorder t))) \<and>
    obj_get (findByIdx t (int n)) = (if n < length (inorder t) then Some (inorder t ! n) else None) \<and>
    obj_get (findNode cmp t x) = find (\<lambda>y. key y = key x) (inorder t) \<and>
    obj_get (findNodeG cmp t x) = find (\<lambda>y. key x < key y) (inorder t) \<and>
    obj_get (findNodeGE cmp t x) = find (\<lambda>y. key x \<le> key y) (inorder t) \<and>
    obj_get (findNodeL cmp t x) = find (\<lambda>y. key y < key x) (rev (inorder t)) \<and>
    obj_get (findNodeLE cmp t x) = find (\<lambda>y. key y \<le> key x) (rev (inorder t)) \<and>
    (\<exists>a b. binary_clone cmp t = Some a \<and> inorder a = inorder t \<and> avl_clone cmp t = Some b \<and> avl b \<and> inorder b = inorder t)"
proof (cases "t = NULL")
  case True
  then show ?thesis using comparator.foreach_inorder[OF assms(1), of NULL]
    by (simp add: findByIdx_def findNodeG_def findNodeGE_def findNodeL_def findNodeLE_def binary_clone_def avl_clone_def
        findFirst_def findLast_def)
next
  case False
  have step: "\<forall>l k u r. BinTreeNode l k u r \<in> nodes t \<longrightarrow>
       obj_get (findNext cmp t (BinTreeNode l k u r)) = find (\<lambda>y. key k < key y) (inorder t) \<and>
       obj_get (findPrev cmp t (BinTreeNode l k u r)) = find (\<lambda>y. key y < key k) (rev (inorder t))"
    using comparator.findNext_find[OF assms] comparator.findPrev_find[OF assms] by blast
  show ?thesis using False step comparator.foreach_inorder[OF assms] comparator.find_key[OF assms]
    comparator.G_loop_find[OF assms] comparator.GE_loop_find[OF assms] comparator.L_loop_find[OF assms]
    comparator.LE_loop_find[OF assms] findByIdx_nth[of t n] comparator.binary_clone_shape[OF assms]
    comparator.avl_clone_correct[OF assms] leftmost_obj[of t] rightmost_obj[of t]
    by (simp add: findNodeG_def findNodeGE_def findNodeL_def findNodeLE_def findFirst_def findLast_def del: findNext.simps(2) findPrev.simps(2) split: option.splits)
qed

definition sample_tree :: "32 word BinTreeNode" where
  "sample_tree = BinTreeNode (BinTreeNode NULL 3 0 NULL) 5 1 (BinTreeNode (BinTreeNode NULL 7 0 NULL) 8 0 (BinTreeNode NULL 9 0 NULL))"

theorem tree_search_and_walk_witness:
  "foreach UInt_compareTo sample_tree = Some [3, 5, 7, 8, 9] \<and>
   obj_get (findPrev UInt_compareTo sample_tree (BinTreeNode NULL 7 0 NULL)) = Some 5 \<and>
   obj_get (findNext UInt_compareTo sample_tree (BinTreeNode NULL 7 0 NULL)) = Some 8"
proof -
  have o: "ordered unat (inorder sample_tree)" by (simp add: sample_tree_def)
  have n: "BinTreeNode NULL 7 0 NULL \<in> nodes sample_tree" by (simp add: sample_tree_def)
  note walk = tree_search_and_walk[OF uint.comparator_axioms o, of 0 0]
  from walk n have "obj_get (findNext UInt_compareTo sample_tree (BinTreeNode NULL 7 0 NULL)) = find (\<lambda>y. unat (7 :: 32 word) < unat y) (inorder sample_tree)"
    "obj_get (findPrev UInt_compareTo sample_tree (BinTreeNode NULL 7 0 NULL)) = find (\<lambda>y. unat y < unat (7 :: 32 word)) (rev (inorder sample_tree))"
    by blast+
  with walk show ?thesis by (simp add: sample_tree_def del: findNext.simps(2) findPrev.simps(2))
qed

theorem avl_tree_refines_list_witness:
  "\<exists>c'. AVLTree_insert UInt_compareTo 6 \<lparr>root' = sample_tree, ecount = 5\<rparr> = Some c' \<and> inorder (root' c') = [3, 5, 6, 7, 8, 9]"
proof -
  have o: "container_ok unat \<lparr>root' = sample_tree, ecount = 5\<rparr>" by (simp add: sample_tree_def container_ok_def)
  have h: "obj_get (BinTreeNode NULL 3 0 NULL) = Some (3 :: 32 word)" by simp
  show ?thesis using avl_tree_refines_list[OF uint.comparator_axioms o h, of 6] by (auto simp: sample_tree_def)
qed

end
