(* ===== verification/Io_Pci.thy ===== *)
theory Io_Pci
  imports Tools_Props Ppc_Mmu
begin

text \<open>
  src/io/pci/pci.cc: the devices on the PCI bus, their configuration space and the ports of the host bridge.  A class of
  devices is its table of virtual functions; what a derived class adds to the members is the extension of the record.
  \<open>e\<close> is the rest of the machine, on which a device may act.  \<open>IO_PCI_ERR\<close> is \<open>ppc_fatal\<close>.
\<close>

unbundle bit_operations_syntax

definition IO_PCI_PA_START :: uint32 where "IO_PCI_PA_START = 0xfec00000"
definition IO_PCI_PA_END :: uint32 where "IO_PCI_PA_END = 0xfef00000"
definition IO_ISA_PA_START :: uint32 where "IO_ISA_PA_START = 0xfe000000"
definition IO_ISA_PA_END :: uint32 where "IO_ISA_PA_END = 0xfe200000"
definition IO_PCI_DEVICE_PA_START :: uint32 where "IO_PCI_DEVICE_PA_START = 0x80000000"
definition IO_PCI_DEVICE_PA_END :: uint32 where "IO_PCI_DEVICE_PA_END = 0x81000000"

definition PCI_ADDRESS_SPACE_MEM :: uint32 where "PCI_ADDRESS_SPACE_MEM = 0"
definition PCI_ADDRESS_SPACE_MEM_PREFETCH :: uint32 where "PCI_ADDRESS_SPACE_MEM_PREFETCH = 8"
definition PCI_ADDRESS_SPACE_IO :: uint32 where "PCI_ADDRESS_SPACE_IO = 1"

definition PCI_ADDRESS_ECD :: "uint32 \<Rightarrow> uint32" where "PCI_ADDRESS_ECD v = v AND 0x80000000"
definition PCI_ADDRESS_BUS :: "uint32 \<Rightarrow> uint32" where "PCI_ADDRESS_BUS v = drop_bit 16 v AND 0xff"
definition PCI_ADDRESS_UNIT :: "uint32 \<Rightarrow> uint32" where "PCI_ADDRESS_UNIT v = drop_bit 11 v AND 0x1f"
definition PCI_ADDRESS_FUNCT :: "uint32 \<Rightarrow> uint32" where "PCI_ADDRESS_FUNCT v = drop_bit 8 v AND 7"
definition PCI_ADDRESS_REG :: "uint32 \<Rightarrow> uint32" where "PCI_ADDRESS_REG v = v AND 0xfc"
definition PCI_ADDRESS_TYPE :: "uint32 \<Rightarrow> uint32" where "PCI_ADDRESS_TYPE v = v AND 3"

subsection \<open>A device\<close>

record PCI_Device =
  mConfig :: "uint8 list"
  mBus :: uint8
  mUnit :: uint8
  mIORegsCount :: nat
  mIORegSize :: "uint32 list"
  mIORegType :: "uint32 list"
  mAddress :: "uint32 list"
  mPort :: "uint32 list"

definition PCI_Device_init :: "uint8 \<Rightarrow> uint8 \<Rightarrow> 'd \<Rightarrow> 'd PCI_Device_scheme" where
  "PCI_Device_init aBus aUnit x =
     \<lparr>mConfig = replicate 256 0, mBus = aBus, mUnit = aUnit, mIORegsCount = 6, mIORegSize = replicate 6 0,
      mIORegType = replicate 6 0, mAddress = replicate 6 0, mPort = replicate 6 0, \<dots> = x\<rparr>"

definition PCI_Device_compareTo :: "'d PCI_Device_scheme comparator" where
  "PCI_Device_compareTo a b =
     (let busdelta = int (unat (mBus a)) - int (unat (mBus b)) in
      if busdelta = 0 then int (unat (mUnit a)) - int (unat (mUnit b)) else busdelta)"

text \<open>The word at an address of the configuration space, its low byte first.\<close>

definition le_bytes :: "uint32 \<Rightarrow> uint8 list" where
  "le_bytes w = [ucast w, ucast (drop_bit 8 w), ucast (drop_bit 16 w), ucast (drop_bit 24 w)]"

fun le_word :: "uint8 list \<Rightarrow> uint32" where
  "le_word [] = 0"
| "le_word (b # bs) = ucast b OR push_bit 8 (le_word bs)"

definition put_list :: "nat \<Rightarrow> 'a list \<Rightarrow> 'a list \<Rightarrow> 'a list" where
  "put_list i ys xs = take i xs @ ys @ drop (i + length ys) xs"

definition config_word :: "'d PCI_Device_scheme \<Rightarrow> nat \<Rightarrow> uint32" where
  "config_word d reg = le_word (take 4 (drop reg (mConfig d)))"

definition assignMemAddress :: "nat \<Rightarrow> uint32 \<Rightarrow> 'd PCI_Device_scheme \<Rightarrow> 'd PCI_Device_scheme" where
  "assignMemAddress r aAddress d =
     d\<lparr>mAddress := (mAddress d)[r := aAddress],
       mConfig := (mConfig d)[4 := mConfig d ! 4 OR 0x2,
         0x10 + 4 * r := ucast (aAddress OR mIORegType d ! r),
         0x11 + 4 * r := ucast (drop_bit 8 aAddress),
         0x12 + 4 * r := ucast (drop_bit 16 aAddress),
         0x13 + 4 * r := ucast (drop_bit 24 aAddress)]\<rparr>"

definition assignIOPort :: "nat \<Rightarrow> uint32 \<Rightarrow> 'd PCI_Device_scheme \<Rightarrow> 'd PCI_Device_scheme" where
  "assignIOPort r aPort d =
     d\<lparr>mPort := (mPort d)[r := aPort],
       mConfig := (mConfig d)[4 := mConfig d ! 4 OR 0x1,
         0x10 + 4 * r := ucast (aPort OR 1),
         0x11 + 4 * r := ucast (drop_bit 8 aPort),
         0x12 + 4 * r := ucast (drop_bit 16 aPort),
         0x13 + 4 * r := ucast (drop_bit 24 aPort)]\<rparr>"

subsection \<open>The virtual functions\<close>

type_synonym ('d, 'e) dev_state = "'d PCI_Device_scheme \<times> 'e"

text \<open>The arguments are the region, the address in it, the data and the size; a read gives \<open>None\<close> where the code
  returns \<open>false\<close>.  The access to a register takes and gives \<open>gPCI_Data\<close>.\<close>

record ('d, 'e) PCI_virtual =
  readDeviceMem :: "nat \<Rightarrow> uint32 \<Rightarrow> nat \<Rightarrow> ('d, 'e) dev_state \<Rightarrow> cpu_error + uint32 option \<times> ('d, 'e) dev_state"
  readDeviceIO :: "nat \<Rightarrow> uint32 \<Rightarrow> nat \<Rightarrow> ('d, 'e) dev_state \<Rightarrow> cpu_error + uint32 option \<times> ('d, 'e) dev_state"
  writeDeviceMem :: "nat \<Rightarrow> uint32 \<Rightarrow> uint32 \<Rightarrow> nat \<Rightarrow> ('d, 'e) dev_state \<Rightarrow> cpu_error + bool \<times> ('d, 'e) dev_state"
  writeDeviceIO :: "nat \<Rightarrow> uint32 \<Rightarrow> uint32 \<Rightarrow> nat \<Rightarrow> ('d, 'e) dev_state \<Rightarrow> cpu_error + bool \<times> ('d, 'e) dev_state"
  readConfig :: "nat \<Rightarrow> uint32 \<Rightarrow> ('d, 'e) dev_state \<Rightarrow> cpu_error + uint32 \<times> ('d, 'e) dev_state"
  writeConfig :: "nat \<Rightarrow> nat \<Rightarrow> nat \<Rightarrow> uint32 \<Rightarrow> ('d, 'e) dev_state \<Rightarrow> cpu_error + uint32 \<times> ('d, 'e) dev_state"

definition base_readConfig :: "nat \<Rightarrow> uint32 \<Rightarrow> ('d, 'e) dev_state \<Rightarrow> cpu_error + uint32 \<times> ('d, 'e) dev_state" where
  "base_readConfig reg data s = Inr (config_word (fst s) reg, s)"

text \<open>The loop that clears the bits of the address below the size of the region: \<open>n\<close> rounds are left.\<close>

fun size_loop :: "nat \<Rightarrow> uint32 \<Rightarrow> uint32 \<Rightarrow> uint32 \<Rightarrow> uint32" where
  "size_loop 0 size' x data = data"
| "size_loop (Suc n) size' x data =
     (let data = data AND NOT x; x = push_bit 1 x in if size' \<le> x then data else size_loop n size' x data)"

definition bar_mask :: "uint32 \<Rightarrow> uint32 \<Rightarrow> uint32 \<Rightarrow> uint32" where
  "bar_mask type' size' data =
     (if type' AND 1 = PCI_ADDRESS_SPACE_MEM then size_loop 29 size' 8 data AND NOT 0xf
      else size_loop 29 size' 2 data AND NOT 0x3) OR type'"

definition base_writeConfig :: "nat \<Rightarrow> nat \<Rightarrow> nat \<Rightarrow> uint32 \<Rightarrow> ('d, 'e) dev_state \<Rightarrow> cpu_error + uint32 \<times> ('d, 'e) dev_state" where
  "base_writeConfig reg offset size' data s =
     (let (d, e) = s;
          (data, d) =
            (if 0x10 \<le> reg \<and> reg < 4 * mIORegsCount d + 0x10 then
               (let rreg = (reg - 0x10) div 4 in
                if mIORegSize d ! rreg \<noteq> 0 then
                  (let d = (if data \<noteq> 0xffffffff \<and> data \<noteq> 0 then
                              if mIORegType d ! rreg = PCI_ADDRESS_SPACE_MEM then assignMemAddress rreg (data AND NOT 0xf) d
                              else assignIOPort rreg (data AND NOT 0x3) d
                            else d)
                   in (bar_mask (mIORegType d ! rreg) (mIORegSize d ! rreg) data, d))
                else (data, d))
             else (data, d))
      in Inr (data, d\<lparr>mConfig := put_list reg (le_bytes data) (mConfig d)\<rparr>, e))"

definition PCI_base :: "('d, 'e) PCI_virtual" where
  "PCI_base =
     \<lparr>readDeviceMem = (\<lambda>r a n s. Inr (None, s)), readDeviceIO = (\<lambda>r a n s. Inr (None, s)),
      writeDeviceMem = (\<lambda>r a x n s. Inr (False, s)), writeDeviceIO = (\<lambda>r a x n s. Inr (False, s)),
      readConfig = base_readConfig, writeConfig = base_writeConfig\<rparr>"

subsection \<open>The bus\<close>

record 'dev pci =
  gPCI_Address :: uint32
  gPCI_Data :: uint32
  gPCI_Data_LE :: "uint8 list"
  gPCI_Devices :: "'dev AVLTree"

text \<open>The devices are shared: what an operation does to a device is done to the object in the tree.\<close>

definition set_dev :: "'d PCI_Device_scheme \<Rightarrow> 'd PCI_Device_scheme pci \<Rightarrow> 'd PCI_Device_scheme pci" where
  "set_dev d P =
     P\<lparr>gPCI_Devices := (gPCI_Devices P)\<lparr>root' :=
        map_BinTreeNode (\<lambda>x. if PCI_Device_compareTo x d = 0 then d else x) (root' (gPCI_Devices P))\<rparr>\<rparr>"

text \<open>The loops over the regions of a device.\<close>

definition mem_region :: "uint32 \<Rightarrow> 'd PCI_Device_scheme \<Rightarrow> nat option" where
  "mem_region addr d =
     find (\<lambda>i. mIORegType d ! i AND 1 = PCI_ADDRESS_SPACE_MEM \<and> mAddress d ! i \<le> addr \<and> addr < mAddress d ! i + mIORegSize d ! i)
       [0..<mIORegsCount d]"

definition io_region :: "uint32 \<Rightarrow> 'd PCI_Device_scheme \<Rightarrow> nat option" where
  "io_region port d =
     find (\<lambda>i. mIORegType d ! i = PCI_ADDRESS_SPACE_IO \<and> mPort d ! i \<le> port \<and> port < mPort d ! i + mIORegSize d ! i)
       [0..<mIORegsCount d]"

text \<open>The loops over the devices: the first one that \<open>f\<close> claims, and what \<open>f\<close> gives.  \<open>None\<close>: the loop does not end.\<close>

partial_function (option) device_loop ::
  "('d PCI_Device_scheme \<Rightarrow> 'b option) \<Rightarrow> 'd PCI_Device_scheme BinTreeNode \<Rightarrow> 'd PCI_Device_scheme BinTreeNode \<Rightarrow>
     ('d PCI_Device_scheme \<times> 'b) option option" where
  "device_loop f root h =
     (case h of NULL \<Rightarrow> Some None
      | BinTreeNode l d u r \<Rightarrow>
          (case f d of Some y \<Rightarrow> Some (Some (d, y)) | None \<Rightarrow> device_loop f root (findNext PCI_Device_compareTo root h)))"

definition scan_devices :: "('d PCI_Device_scheme \<Rightarrow> 'b option) \<Rightarrow> 'd PCI_Device_scheme pci \<Rightarrow> cpu_error + ('d PCI_Device_scheme \<times> 'b) option" where
  "scan_devices f P =
     (case device_loop f (root' (gPCI_Devices P)) (findFirst (root' (gPCI_Devices P))) of None \<Rightarrow> Inl Endless | Some x \<Rightarrow> Inr x)"

type_synonym ('d, 'e) pci_state = "'d PCI_Device_scheme pci \<times> 'e"
type_synonym ('d, 'e) classes = "'d PCI_Device_scheme \<Rightarrow> ('d, 'e) PCI_virtual"

definition pci_read_device :: "('d, 'e) classes \<Rightarrow> uint32 \<Rightarrow> nat \<Rightarrow> ('d, 'e) pci_state \<Rightarrow> cpu_error + (bool \<times> uint32) \<times> ('d, 'e) pci_state" where
  "pci_read_device V addr size' s =
     (let (P, e) = s in
      and_then (scan_devices (mem_region addr) P) (\<lambda>x.
        case x of
          None \<Rightarrow> Inr ((False, 0), s)
        | Some (d, i) \<Rightarrow>
            and_then (readDeviceMem (V d) i (addr - mAddress d ! i) size' (d, e)) (\<lambda>(r, d, e).
              case r of None \<Rightarrow> Inl Ppc_Fatal | Some data \<Rightarrow> Inr ((True, data), set_dev d P, e))))"

definition pci_write_device :: "('d, 'e) classes \<Rightarrow> uint32 \<Rightarrow> uint32 \<Rightarrow> nat \<Rightarrow> ('d, 'e) pci_state \<Rightarrow> cpu_error + bool \<times> ('d, 'e) pci_state" where
  "pci_write_device V addr data size' s =
     (let (P, e) = s in
      and_then (scan_devices (mem_region addr) P) (\<lambda>x.
        case x of
          None \<Rightarrow> Inr (False, s)
        | Some (d, i) \<Rightarrow>
            and_then (writeDeviceMem (V d) i (addr - mAddress d ! i) data size' (d, e)) (\<lambda>(r, d, e).
              if r then Inr (True, set_dev d P, e) else Inl Ppc_Fatal)))"

definition isa_read :: "('d, 'e) classes \<Rightarrow> uint32 \<Rightarrow> nat \<Rightarrow> ('d, 'e) pci_state \<Rightarrow> cpu_error + (bool \<times> uint32) \<times> ('d, 'e) pci_state" where
  "isa_read V addr size' s =
     (let (P, e) = s; addr = addr - IO_ISA_PA_START in
      and_then (scan_devices (io_region addr) P) (\<lambda>x.
        case x of
          None \<Rightarrow> Inr ((False, 0), s)
        | Some (d, i) \<Rightarrow>
            and_then (readDeviceIO (V d) i (addr - mPort d ! i) size' (d, e)) (\<lambda>(r, d, e).
              case r of None \<Rightarrow> Inl Ppc_Fatal | Some data \<Rightarrow> Inr ((True, data), set_dev d P, e))))"

definition isa_write :: "('d, 'e) classes \<Rightarrow> uint32 \<Rightarrow> uint32 \<Rightarrow> nat \<Rightarrow> ('d, 'e) pci_state \<Rightarrow> cpu_error + bool \<times> ('d, 'e) pci_state" where
  "isa_write V addr data size' s =
     (let (P, e) = s; addr = addr - IO_ISA_PA_START in
      and_then (scan_devices (io_region addr) P) (\<lambda>x.
        case x of
          None \<Rightarrow> Inr (False, s)
        | Some (d, i) \<Rightarrow>
            and_then (writeDeviceIO (V d) i (addr - mPort d ! i) data size' (d, e)) (\<lambda>(r, d, e).
              if r then Inr (True, set_dev d P, e) else Inl Ppc_Fatal)))"

subsection \<open>The configuration ports\<close>

definition pci_config_read_write :: "('d, 'e) classes \<Rightarrow> 'd \<Rightarrow> bool \<Rightarrow> nat \<Rightarrow> nat \<Rightarrow> ('d, 'e) pci_state \<Rightarrow> cpu_error + ('d, 'e) pci_state" where
  "pci_config_read_write V x write offset size' s =
     (let (P, e) = s; a = gPCI_Address P; reg = unat (PCI_ADDRESS_REG a) in
      if istrue (PCI_ADDRESS_FUNCT a) then Inl Ppc_Fatal
      else if istrue (PCI_ADDRESS_TYPE a) then Inl Ppc_Fatal
      else if istrue (PCI_ADDRESS_ECD a) then
        (let empty' = PCI_Device_init (ucast (PCI_ADDRESS_BUS a)) (ucast (PCI_ADDRESS_UNIT a)) x in
         case obj_get (findNode PCI_Device_compareTo (root' (gPCI_Devices P)) empty') of
           None \<Rightarrow> Inr (if \<not> write then P\<lparr>gPCI_Data := 0\<rparr> else P, e)
         | Some d \<Rightarrow>
             if write then
               and_then (writeConfig (V d) reg offset size' (le_word (gPCI_Data_LE P)) (d, e))
                 (\<lambda>(data, d, e). Inr (set_dev d (P\<lparr>gPCI_Data := data\<rparr>), e))
             else
               and_then (readConfig (V d) reg (gPCI_Data P) (d, e))
                 (\<lambda>(data, d, e). Inr (set_dev d (P\<lparr>gPCI_Data := data, gPCI_Data_LE := le_bytes data\<rparr>), e)))
      else Inr s)"

text \<open>A write of \<open>n\<close> bytes at the byte \<open>i\<close> of the data port.\<close>

definition write_data_port :: "('d, 'e) classes \<Rightarrow> 'd \<Rightarrow> nat \<Rightarrow> nat \<Rightarrow> uint32 \<Rightarrow> ('d, 'e) pci_state \<Rightarrow> cpu_error + ('d, 'e) pci_state" where
  "write_data_port V x i n data s =
     (let (P, e) = s in
      pci_config_read_write V x True i n (P\<lparr>gPCI_Data_LE := put_list i (take n (le_bytes data)) (gPCI_Data_LE P)\<rparr>, e))"

definition pci_write :: "('d, 'e) classes \<Rightarrow> 'd \<Rightarrow> uint32 \<Rightarrow> uint32 \<Rightarrow> nat \<Rightarrow> ('d, 'e) pci_state \<Rightarrow> cpu_error + ('d, 'e) pci_state" where
  "pci_write V x addr data size' s =
     (let (P, e) = s; addr = addr - IO_PCI_PA_START in
      if addr = 0 \<or> addr = 0xcf8 then
        (if size' \<noteq> 4 then Inl Ppc_Fatal else pci_config_read_write V x False 0 4 (P\<lparr>gPCI_Address := data\<rparr>, e))
      else if addr = 0x200000 \<or> addr = 0x200cfc then
        (if size' = 1 then write_data_port V x 0 1 data s
         else if size' = 2 then write_data_port V x 0 2 data s
         else if size' \<noteq> 4 then Inl Ppc_Fatal
         else write_data_port V x 0 4 data s)
      else if addr = 0x200001 \<or> addr = 0x200cfd then
        (if size' \<noteq> 1 then Inl Ppc_Fatal else write_data_port V x 1 1 data s)
      else if addr = 0x200002 \<or> addr = 0x200cfe then
        (if 2 < size' then Inl Ppc_Fatal
         else if size' = 1 then write_data_port V x 2 1 data s else write_data_port V x 2 2 data s)
      else if addr = 0x200003 \<or> addr = 0x200cff then
        (if size' \<noteq> 1 then Inl Ppc_Fatal else write_data_port V x 3 1 data s)
      else Inr s)"

definition read_data_port :: "nat \<Rightarrow> nat \<Rightarrow> 'dev pci \<Rightarrow> uint32" where
  "read_data_port i n P = le_word (take n (drop i (gPCI_Data_LE P)))"

definition pci_read :: "uint32 \<Rightarrow> nat \<Rightarrow> 'dev pci \<Rightarrow> cpu_error + uint32" where
  "pci_read addr size' P =
     (let addr = addr - IO_PCI_PA_START in
      if addr = 0 \<or> addr = 0xcf8 then Inr (gPCI_Address P)
      else if addr = 0x200000 \<or> addr = 0x200cfc then
        (if size' = 1 then Inr (read_data_port 0 1 P)
         else if size' = 2 then Inr (read_data_port 0 2 P)
         else if size' \<noteq> 4 then Inl Ppc_Fatal
         else Inr (read_data_port 0 4 P))
      else if addr = 0x200001 \<or> addr = 0x200cfd then
        (if size' \<noteq> 1 then Inl Ppc_Fatal else Inr (read_data_port 1 1 P))
      else if addr = 0x200002 \<or> addr = 0x200cfe then
        (if 2 < size' then Inl Ppc_Fatal
         else if size' = 1 then Inr (read_data_port 2 1 P) else Inr (read_data_port 2 2 P))
      else if addr = 0x200003 \<or> addr = 0x200cff then
        (if size' \<noteq> 1 then Inl Ppc_Fatal else Inr (read_data_port 3 1 P))
      else Inr 0)"

end
