(* ===== verification/Io_Pci_Config.thy ===== *)
theory Io_Pci_Config
  imports Io_Pci
begin

text \<open>The devices of the bus as a list in the order of their places, and what the loops and the searches over them find.\<close>

unbundle bit_operations_syntax

definition dev_key :: "'d PCI_Device_scheme \<Rightarrow> nat" where
  "dev_key d = unat (mBus d) * 256 + unat (mUnit d)"

lemma dev_key_eq: "dev_key a = dev_key b \<longleftrightarrow> mBus a = mBus b \<and> mUnit a = mUnit b"
proof -
  obtain A B U V where e: "unat (mBus a) = A" "unat (mBus b) = B" "unat (mUnit a) = U" "unat (mUnit b) = V" by blast
  have "U < 256" "V < 256"
    using unsigned_less[of "mUnit a", where ?'a = nat] unsigned_less[of "mUnit b", where ?'a = nat] unfolding e by simp_all
  then have "A * 256 + U = B * 256 + V \<longleftrightarrow> A = B \<and> U = V" by (cases A B rule: linorder_cases) auto
  then show ?thesis unfolding dev_key_def word_unat_eq_iff e .
qed

interpretation pci_dev: comparator PCI_Device_compareTo dev_key
proof
  fix a b :: "'d PCI_Device_scheme"
  obtain A B U V where e: "unat (mBus a) = A" "unat (mBus b) = B" "unat (mUnit a) = U" "unat (mUnit b) = V" by blast
  have u: "U < 256" "V < 256"
    using unsigned_less[of "mUnit a", where ?'a = nat] unsigned_less[of "mUnit b", where ?'a = nat] unfolding e by simp_all
  show "PCI_Device_compareTo a b < 0 \<longleftrightarrow> dev_key a < dev_key b" "0 < PCI_Device_compareTo a b \<longleftrightarrow> dev_key b < dev_key a"
    unfolding PCI_Device_compareTo_def dev_key_def e Let_def using u by (cases A B rule: linorder_cases; auto)+
qed

abbreviation devices :: "'d PCI_Device_scheme pci \<Rightarrow> 'd PCI_Device_scheme list" where
  "devices P \<equiv> inorder (root' (gPCI_Devices P))"

definition devices_ok :: "'d PCI_Device_scheme pci \<Rightarrow> bool" where
  "devices_ok P \<longleftrightarrow> container_ok dev_key (gPCI_Devices P)"

lemma devices_ordered: "devices_ok P \<Longrightarrow> ordered dev_key (devices P)"
  by (simp add: devices_ok_def container_ok_def)

definition device_at :: "uint8 \<Rightarrow> uint8 \<Rightarrow> 'd PCI_Device_scheme pci \<Rightarrow> 'd PCI_Device_scheme option" where
  "device_at bus u P = find (\<lambda>d. mBus d = bus \<and> mUnit d = u) (devices P)"

lemma find_device:
  assumes "devices_ok P"
  shows "obj_get (findNode PCI_Device_compareTo (root' (gPCI_Devices P)) (PCI_Device_init bus u x)) = device_at bus u P"
  using pci_dev.find_key[OF devices_ordered[OF assms], of "PCI_Device_init bus u x"]
  by (simp add: device_at_def dev_key_eq PCI_Device_init_def)

subsection \<open>The loop over the devices\<close>

lemma scan_from:
  assumes "ordered dev_key (inorder t)"
  shows "h \<in> nodes t \<Longrightarrow> inorder t = xs @ k # ys \<Longrightarrow> obj_get h = Some k \<Longrightarrow>
     device_loop f t h = Some (map_option (\<lambda>d. (d, the (f d))) (find (\<lambda>d. f d \<noteq> None) (k # ys)))"
proof (induction ys arbitrary: h xs k)
  case Nil
  obtain l u r where h: "h = BinTreeNode l k u r" using Nil.prems(3) by (cases h) auto
  have "obj_get (findNext PCI_Device_compareTo t h) = None"
    using pci_dev.findNext_find[OF assms, of l k u r] find_behind[of dev_key xs k "[]"] Nil.prems assms by (simp add: h)
  then have n: "findNext PCI_Device_compareTo t h = NULL" by (simp add: obj_get_None)
  have "device_loop f t NULL = Some None" by (subst device_loop.simps) simp
  then show ?case using n by (subst device_loop.simps) (auto simp: h split: option.splits)
next
  case (Cons y ys)
  obtain l u r where h: "h = BinTreeNode l k u r" using Cons.prems(3) by (cases h) auto
  have g: "obj_get (findNext PCI_Device_compareTo t h) = Some y"
    using pci_dev.findNext_find[OF assms, of l k u r] find_behind[of dev_key xs k "y # ys"] Cons.prems assms by (simp add: h)
  then have "findNext PCI_Device_compareTo t h \<in> nodes t"
    using findNext_node[OF Cons.prems(1), of PCI_Device_compareTo] by (auto simp: obj_get_None)
  from Cons.IH[OF this _ g, of "xs @ [k]"] Cons.prems(2)
  have "device_loop f t (findNext PCI_Device_compareTo t h) =
    Some (map_option (\<lambda>d. (d, the (f d))) (find (\<lambda>d. f d \<noteq> None) (y # ys)))" by simp
  then show ?case by (subst device_loop.simps) (auto simp: h split: option.splits)
qed

lemma scan_devices_find:
  assumes "devices_ok P"
  shows "scan_devices f P = Inr (map_option (\<lambda>d. (d, the (f d))) (find (\<lambda>d. f d \<noteq> None) (devices P)))"
proof (cases "root' (gPCI_Devices P) = NULL")
  case True
  then show ?thesis unfolding scan_devices_def by (subst device_loop.simps) (simp add: findFirst_def)
next
  case False
  let ?t = "root' (gPCI_Devices P)"
  obtain x xs where i: "inorder ?t = x # xs" using False by (cases "inorder ?t") auto
  then have "obj_get (getLeftmost ?t) = Some x" using False by (simp add: leftmost_obj)
  from scan_from[OF devices_ordered[OF assms] leftmost_node[OF False] _ this, of "[]" xs f] i
  show ?thesis by (simp add: scan_devices_def findFirst_def)
qed

subsection \<open>Changing a device\<close>

lemma inorder_map: "inorder (map_BinTreeNode f t) = map f (inorder t)"
  by (induction t) simp_all

lemma map_NULL: "map_BinTreeNode f t = NULL \<longleftrightarrow> t = NULL"
  by (cases t) simp_all

lemma height_map: "height (map_BinTreeNode f t) = height t"
  by (induction t) simp_all

lemma avl_map: "avl (map_BinTreeNode f t) = avl t"
  by (induction t) (simp_all add: height_map)

lemma compare_0: "PCI_Device_compareTo a b = 0 \<longleftrightarrow> mBus a = mBus b \<and> mUnit a = mUnit b"
  using pci_dev.cmp_less[of a b] pci_dev.cmp_greater[of a b] dev_key_eq[of a b] by linarith

lemma devices_set_dev: "devices (set_dev d P) = map (\<lambda>x. if mBus x = mBus d \<and> mUnit x = mUnit d then d else x) (devices P)"
  by (simp add: set_dev_def inorder_map compare_0)

lemma devices_ok_set_dev: "devices_ok P \<Longrightarrow> devices_ok (set_dev d P)"
proof -
  assume ok: "devices_ok P"
  have "dev_key (if mBus x = mBus d \<and> mUnit x = mUnit d then d else x) = dev_key x" for x
    using dev_key_eq[of x d] by auto
  then have "ordered dev_key (devices (set_dev d P))"
    using ok by (simp add: devices_set_dev sorted_wrt_map devices_ordered)
  then show ?thesis using ok by (auto simp: devices_ok_def container_ok_def set_dev_def avl_map inorder_map)
qed

lemma device_at_set_dev:
  assumes "device_at (mBus d) (mUnit d) P \<noteq> None"
  shows "device_at bus u (set_dev d P) = (if bus = mBus d \<and> u = mUnit d then Some d else device_at bus u P)"
proof -
  have "find (\<lambda>y. mBus y = bus \<and> mUnit y = u) (map (\<lambda>x. if mBus x = mBus d \<and> mUnit x = mUnit d then d else x) ds) =
    (if bus = mBus d \<and> u = mUnit d \<and> find (\<lambda>y. mBus y = bus \<and> mUnit y = u) ds \<noteq> None then Some d
     else find (\<lambda>y. mBus y = bus \<and> mUnit y = u) ds)" for ds :: "'a PCI_Device_scheme list"
    by (induction ds) auto
  then show ?thesis using assms by (simp add: device_at_def devices_set_dev)
qed

lemma device_at_place: "device_at bus u P = Some d \<Longrightarrow> mBus d = bus \<and> mUnit d = u \<and> d \<in> set (devices P)"
  by (auto simp: device_at_def find_Some_iff)

text \<open>What does not touch the tree does not touch the devices.\<close>

lemma device_at_regs [simp]:
  "device_at bus u (P\<lparr>gPCI_Address := a\<rparr>) = device_at bus u P"
  "device_at bus u (P\<lparr>gPCI_Data := v\<rparr>) = device_at bus u P"
  "device_at bus u (P\<lparr>gPCI_Data_LE := bs\<rparr>) = device_at bus u P"
  by (simp_all add: device_at_def)

lemma devices_ok_regs [simp]:
  "devices_ok (P\<lparr>gPCI_Address := a\<rparr>) = devices_ok P"
  "devices_ok (P\<lparr>gPCI_Data := v\<rparr>) = devices_ok P"
  "devices_ok (P\<lparr>gPCI_Data_LE := bs\<rparr>) = devices_ok P"
  by (simp_all add: devices_ok_def)

lemma set_dev_regs [simp]:
  "gPCI_Address (set_dev d P) = gPCI_Address P" "gPCI_Data (set_dev d P) = gPCI_Data P"
  "gPCI_Data_LE (set_dev d P) = gPCI_Data_LE P"
  by (simp_all add: set_dev_def)

subsection \<open>Bytes and words\<close>

lemma le_word_bytes [simp]: "le_word (le_bytes w) = w"
proof (rule bit_word_eqI)
  fix n assume "n < LENGTH(32)"
  then consider "n < 8" | "8 \<le> n" "n < 16" | "16 \<le> n" "n < 24" | "24 \<le> n" "n < 32" by force
  then show "bit (le_word (le_bytes w)) n = bit w n"
    by cases (auto simp: le_bytes_def bit_simps less_diff_conv2)
qed

lemma length_le_bytes [simp]: "length (le_bytes w) = 4"
  by (simp add: le_bytes_def)

lemma put_list_get: "i + length ys \<le> length xs \<Longrightarrow> take (length ys) (drop i (put_list i ys xs)) = ys"
  by (simp add: put_list_def)

lemma length_put_list: "i + length ys \<le> length xs \<Longrightarrow> length (put_list i ys xs) = length xs"
  by (simp add: put_list_def)

lemma put_list_nth:
  "i + length ys \<le> length xs \<Longrightarrow> j < length xs \<Longrightarrow>
     put_list i ys xs ! j = (if i \<le> j \<and> j < i + length ys then ys ! (j - i) else xs ! j)"
  by (auto simp: put_list_def nth_append)

text \<open>
  The configuration space as a driver uses it: a register is selected at one port of the host bridge and read or written
  at the other.
\<close>


definition PCI_CONFIG_ADDRESS :: uint32 where "PCI_CONFIG_ADDRESS = 0xfec00cf8"
definition PCI_CONFIG_DATA :: uint32 where "PCI_CONFIG_DATA = 0xfee00cfc"

definition config_address :: "uint8 \<Rightarrow> uint8 \<Rightarrow> nat \<Rightarrow> uint32" where
  "config_address bus u reg = 0x80000000 OR push_bit 16 (ucast bus) OR push_bit 11 (ucast u) OR of_nat reg"

definition config_write :: "('d, 'e) classes \<Rightarrow> 'd \<Rightarrow> uint32 \<Rightarrow> uint32 \<Rightarrow> ('d, 'e) pci_state \<Rightarrow> cpu_error + ('d, 'e) pci_state" where
  "config_write V x a data s = and_then (pci_write V x PCI_CONFIG_ADDRESS a 4 s) (pci_write V x PCI_CONFIG_DATA data 4)"

definition config_read :: "('d, 'e) classes \<Rightarrow> 'd \<Rightarrow> uint32 \<Rightarrow> ('d, 'e) pci_state \<Rightarrow> cpu_error + uint32 \<times> ('d, 'e) pci_state" where
  "config_read V x a s =
     and_then (pci_write V x PCI_CONFIG_ADDRESS a 4 s) (\<lambda>s. and_then (pci_read PCI_CONFIG_DATA 4 (fst s)) (\<lambda>v. Inr (v, s)))"

subsection \<open>The address of a register\<close>

lemma bit_of_reg: "reg < 256 \<Longrightarrow> 4 dvd reg \<Longrightarrow> bit (of_nat reg :: uint32) n \<Longrightarrow> 2 \<le> n \<and> n < 8"
proof -
  assume r: "reg < 256" "4 dvd reg" and b: "bit (of_nat reg :: uint32) n"
  have m: "(of_nat reg :: uint32) AND mask 8 = of_nat reg"
  proof -
    have "take_bit 8 reg = reg" using r by (simp add: take_bit_nat_eq_self)
    then have "take_bit 8 (of_nat reg :: uint32) = of_nat reg" by (metis of_nat_take_bit)
    then show ?thesis by (simp add: take_bit_eq_mask)
  qed
  obtain q where q: "reg = q * 4" using r(2) by (metis dvd_def mult.commute)
  have s: "(of_nat reg :: uint32) = push_bit 2 (of_nat q)" by (simp add: q push_bit_eq_mult)
  have "n < 8" using b m by (metis bit_and_iff bit_mask_iff)
  moreover have "2 \<le> n" using b by (simp add: s bit_push_bit_iff)
  ultimately show ?thesis by simp
qed

lemma config_address_fields:
  assumes "unat u < 32" "reg < 256" "4 dvd reg"
  shows "PCI_ADDRESS_FUNCT (config_address bus u reg) = 0" "PCI_ADDRESS_TYPE (config_address bus u reg) = 0"
    "PCI_ADDRESS_ECD (config_address bus u reg) \<noteq> 0" "ucast (PCI_ADDRESS_BUS (config_address bus u reg)) = bus"
    "ucast (PCI_ADDRESS_UNIT (config_address bus u reg)) = u" "PCI_ADDRESS_REG (config_address bus u reg) = of_nat reg"
proof -
  obtain T :: uint32 where top: "0x80000000 = T" by blast
  have t: "bit T n \<longleftrightarrow> n = 31" for n
  proof -
    have "T = 2 ^ 31" using top by simp
    then show ?thesis by (simp only: bit_exp_iff) auto
  qed
  obtain R :: uint32 where R: "of_nat reg = R" by blast
  have r: "\<And>n. bit R n \<Longrightarrow> 2 \<le> n \<and> n < 8" using bit_of_reg[OF assms(2,3)] unfolding R .
  have masks: "(0xff :: uint32) = mask 8" "(0x1f :: uint32) = mask 5" "(7 :: uint32) = mask 3" "(3 :: uint32) = mask 2"
    "(0xfc :: uint32) = push_bit 2 (mask 6)"
    by (simp_all add: mask_eq_exp_minus_1)
  have "take_bit 5 u = u" using assms(1) by (simp add: word_unat_eq_iff unsigned_take_bit_eq take_bit_nat_eq_self)
  then have u: "\<And>n. bit u n \<Longrightarrow> n < 5" by (metis bit_take_bit_iff)
  have b: "\<And>n. bit bus n \<Longrightarrow> n < 8" using bit_imp_le_length by fastforce
  show "PCI_ADDRESS_FUNCT (config_address bus u reg) = 0"
    unfolding PCI_ADDRESS_FUNCT_def config_address_def top masks R
    by (intro bit_word_eqI) (auto simp: bit_simps t dest!: r)
  show "PCI_ADDRESS_TYPE (config_address bus u reg) = 0"
    unfolding PCI_ADDRESS_TYPE_def config_address_def top masks R
    by (intro bit_word_eqI) (auto simp: bit_simps t dest!: r)
  show "PCI_ADDRESS_ECD (config_address bus u reg) \<noteq> 0"
  proof -
    have "bit (PCI_ADDRESS_ECD (config_address bus u reg)) 31"
      unfolding PCI_ADDRESS_ECD_def config_address_def top by (simp add: bit_simps t)
    then show ?thesis by auto
  qed
  show "ucast (PCI_ADDRESS_BUS (config_address bus u reg)) = bus"
    unfolding PCI_ADDRESS_BUS_def config_address_def top masks R
    by (intro bit_word_eqI) (auto simp: bit_simps t dest!: r u)
  show "ucast (PCI_ADDRESS_UNIT (config_address bus u reg)) = u"
    unfolding PCI_ADDRESS_UNIT_def config_address_def top masks R
    by (intro bit_word_eqI) (auto simp: bit_simps t dest!: r dest: u)
  show "PCI_ADDRESS_REG (config_address bus u reg) = of_nat reg"
    unfolding PCI_ADDRESS_REG_def config_address_def top masks R
    by (intro bit_word_eqI) (auto simp: bit_simps t dest!: u dest: r)
qed

subsection \<open>Selecting, reading and writing a register\<close>

text \<open>The device inherits the access to its registers from the base class.\<close>

definition config_inherited :: "('d, 'e) classes \<Rightarrow> 'd PCI_Device_scheme \<Rightarrow> bool" where
  "config_inherited V d \<longleftrightarrow>
     (\<forall>d'. PCI_Device.more d' = PCI_Device.more d \<longrightarrow> readConfig (V d') = base_readConfig \<and> writeConfig (V d') = base_writeConfig)"

definition dev_ok :: "'d PCI_Device_scheme \<Rightarrow> bool" where
  "dev_ok d \<longleftrightarrow> length (mConfig d) = 256 \<and> mIORegsCount d \<le> 6 \<and> length (mIORegSize d) = 6 \<and> length (mIORegType d) = 6 \<and>
     length (mAddress d) = 6 \<and> length (mPort d) = 6"

lemma set_inorder: "set_BinTreeNode t = set (inorder t)"
  by (induction t) auto

lemma unique_place:
  "ordered dev_key ds \<Longrightarrow> find (\<lambda>d. mBus d = bus \<and> mUnit d = u) ds = Some d \<Longrightarrow> y \<in> set ds \<Longrightarrow> mBus y = bus \<Longrightarrow> mUnit y = u \<Longrightarrow> y = d"
proof (induction ds)
  case (Cons z zs)
  have lt: "dev_key z < dev_key w" if "w \<in> set zs" for w using Cons.prems(1) that by simp
  show ?case
  proof (cases "mBus z = bus \<and> mUnit z = u")
    case True
    then have "z = d" using Cons.prems(2) by simp
    moreover have "y \<notin> set zs" using lt[of y] Cons.prems(4,5) True dev_key_eq[of z y] by auto
    ultimately show ?thesis using Cons.prems(3) by simp
  next
    case False
    then show ?thesis using Cons by auto
  qed
qed simp

lemma set_dev_same:
  assumes "devices_ok P" "device_at bus u P = Some d"
  shows "set_dev d P = P"
proof -
  let ?t = "root' (gPCI_Devices P)"
  have pl: "mBus d = bus" "mUnit d = u" using device_at_place[OF assms(2)] by simp_all
  have "map_BinTreeNode (\<lambda>x. if PCI_Device_compareTo x d = 0 then d else x) ?t = map_BinTreeNode id ?t"
  proof (rule BinTreeNode.map_cong0)
    fix z assume "z \<in> set_BinTreeNode ?t"
    then show "(if PCI_Device_compareTo z d = 0 then d else z) = id z"
      using unique_place[OF devices_ordered[OF assms(1)] assms(2)[unfolded device_at_def], of z] pl
      by (auto simp: set_inorder compare_0)
  qed
  then show ?thesis by (simp add: set_dev_def BinTreeNode.map_id)
qed

lemma config_lookup:
  assumes "devices_ok Q" "gPCI_Address Q = config_address bus u reg" and u: "unat u < 32" and reg: "reg < 256" "4 dvd reg"
  shows "pci_config_read_write V x w i n (Q, e) =
    (case device_at bus u Q of
       None \<Rightarrow> Inr (if \<not> w then Q\<lparr>gPCI_Data := 0\<rparr> else Q, e)
     | Some d \<Rightarrow>
         if w then and_then (writeConfig (V d) reg i n (le_word (gPCI_Data_LE Q)) (d, e))
                     (\<lambda>(data, d, e). Inr (set_dev d (Q\<lparr>gPCI_Data := data\<rparr>), e))
         else and_then (readConfig (V d) reg (gPCI_Data Q) (d, e))
                (\<lambda>(data, d, e). Inr (set_dev d (Q\<lparr>gPCI_Data := data, gPCI_Data_LE := le_bytes data\<rparr>), e)))"
proof -
  have "unat (of_nat reg :: uint32) = reg" using reg(1) by (simp add: unat_of_nat take_bit_nat_eq_self)
  then show ?thesis
    using config_address_fields[OF u reg, of bus] find_device[OF assms(1), of bus u x]
    by (cases "device_at bus u Q"; cases w) (simp_all add: pci_config_read_write_def assms(2) Let_def)
qed

definition selected :: "uint8 \<Rightarrow> uint8 \<Rightarrow> nat \<Rightarrow> uint32 \<Rightarrow> 'dev pci \<Rightarrow> 'dev pci" where
  "selected bus u reg v P = P\<lparr>gPCI_Address := config_address bus u reg, gPCI_Data := v, gPCI_Data_LE := le_bytes v\<rparr>"

lemma selected_simps [simp]:
  "device_at b w (selected bus u reg v P) = device_at b w P" "devices_ok (selected bus u reg v P) = devices_ok P"
  "gPCI_Devices (selected bus u reg v P) = gPCI_Devices P" "gPCI_Address (selected bus u reg v P) = config_address bus u reg"
  "gPCI_Data_LE (selected bus u reg v P) = le_bytes v"
  by (simp_all add: selected_def)

lemma select_register:
  assumes "devices_ok P" "device_at bus u P = Some d" "config_inherited V d" "unat u < 32" "reg < 256" "4 dvd reg"
  shows "pci_write V x PCI_CONFIG_ADDRESS (config_address bus u reg) 4 (P, e) = Inr (selected bus u reg (config_word d reg) P, e)"
proof -
  let ?Q = "P\<lparr>gPCI_Address := config_address bus u reg\<rparr>"
  have r: "readConfig (V d) = base_readConfig" using assms(3) by (simp add: config_inherited_def)
  have "set_dev d (?Q\<lparr>gPCI_Data := v, gPCI_Data_LE := bs\<rparr>) = ?Q\<lparr>gPCI_Data := v, gPCI_Data_LE := bs\<rparr>" for v bs
    by (rule set_dev_same) (use assms(1,2) in simp_all)
  then have "pci_config_read_write V x False 0 4 (?Q, e) = Inr (selected bus u reg (config_word d reg) P, e)"
    using config_lookup[of ?Q bus u reg V x False 0 4 e] assms r by (simp add: base_readConfig_def selected_def)
  then show ?thesis by (simp add: pci_write_def PCI_CONFIG_ADDRESS_def IO_PCI_PA_START_def)
qed

lemma config_read_base:
  assumes "devices_ok P" "device_at bus u P = Some d" "config_inherited V d" "unat u < 32" "reg < 256" "4 dvd reg"
  shows "config_read V x (config_address bus u reg) (P, e) = Inr (config_word d reg, selected bus u reg (config_word d reg) P, e)"
  by (simp add: config_read_def select_register[OF assms] pci_read_def PCI_CONFIG_DATA_def IO_PCI_PA_START_def read_data_port_def)

text \<open>A write of \<open>n\<close> bytes behind the selection.\<close>

lemma write_selected:
  assumes "devices_ok P" "device_at bus u P = Some d" "config_inherited V d" "unat u < 32" "reg < 256" "4 dvd reg"
    and w: "base_writeConfig reg i n (le_word (put_list i (take n (le_bytes data)) (le_bytes v))) (d, e) = Inr (v', d', e)"
  shows "\<exists>Q. write_data_port V x i n data (selected bus u reg v P, e) = Inr (Q, e) \<and> gPCI_Devices Q = gPCI_Devices (set_dev d' P)"
proof -
  have c: "writeConfig (V d) = base_writeConfig" using assms(3) by (simp add: config_inherited_def)
  let ?Q = "(selected bus u reg v P)\<lparr>gPCI_Data_LE := put_list i (take n (le_bytes data)) (le_bytes v)\<rparr>"
  have "devices_ok ?Q" "device_at bus u ?Q = Some d" "gPCI_Address ?Q = config_address bus u reg"
    using assms(1,2) by simp_all
  then show ?thesis using config_lookup[of ?Q bus u reg V x True i n e] assms(4-6) w
    by (simp add: write_data_port_def c set_dev_def)
qed

lemma config_write_base:
  assumes "devices_ok P" "device_at bus u P = Some d" "config_inherited V d" "unat u < 32" "reg < 256" "4 dvd reg"
    and w: "base_writeConfig reg 0 4 data (d, e) = Inr (v, d', e)"
  shows "\<exists>Q. config_write V x (config_address bus u reg) data (P, e) = Inr (Q, e) \<and> gPCI_Devices Q = gPCI_Devices (set_dev d' P)"
proof -
  have "put_list 0 (take 4 (le_bytes data)) (le_bytes (config_word d reg)) = le_bytes data"
    by (simp add: put_list_def)
  then have "\<exists>Q. write_data_port V x 0 4 data (selected bus u reg (config_word d reg) P, e) = Inr (Q, e) \<and>
      gPCI_Devices Q = gPCI_Devices (set_dev d' P)"
    using write_selected[OF assms(1-6), of 0 4 data "config_word d reg" e v d'] w by simp
  moreover have "pci_write V x PCI_CONFIG_DATA data 4 s = write_data_port V x 0 4 data s" for s
    by (simp add: pci_write_def PCI_CONFIG_DATA_def IO_PCI_PA_START_def split_beta)
  ultimately show ?thesis by (simp add: config_write_def select_register[OF assms(1-6)])
qed

end
