(* ===== verification/Io_Pci_Bars.thy ===== *)
theory Io_Pci_Bars
  imports Io_Pci_Config
begin

text \<open>The base address registers: finding out the size of a region, placing it, and what answers at its addresses then.\<close>

unbundle bit_operations_syntax

lemma unat_two: "a < 32 \<Longrightarrow> unat ((2 :: uint32) ^ a) = 2 ^ a"
proof -
  assume "a < 32"
  then have "(2 :: nat) ^ a < 2 ^ 32" by (intro power_strict_increasing) simp_all
  then have "(2 :: nat) ^ a mod 2 ^ LENGTH(32) = 2 ^ a" by simp
  then have "unat (word_of_nat (2 ^ a) :: uint32) = 2 ^ a" by (rule trans[OF unat_of_nat])
  moreover have "(word_of_nat (2 ^ a) :: uint32) = 2 ^ a" by simp
  ultimately show ?thesis by (rule subst[of _ _ "\<lambda>w. unat w = 2 ^ a", rotated])
qed

lemma two_le: "a < 32 \<Longrightarrow> b < 32 \<Longrightarrow> (2 :: uint32) ^ a \<le> 2 ^ b \<longleftrightarrow> a \<le> b"
  by (simp add: word_le_nat_alt unat_two)

lemma size_loop_bits:
  "j < k \<Longrightarrow> k < 32 \<Longrightarrow> k \<le> j + n \<Longrightarrow> bit (size_loop n (2 ^ k) (2 ^ j) w) i \<longleftrightarrow> bit w i \<and> \<not> (j \<le> i \<and> i < k)"
proof (induction n arbitrary: j w)
  case (Suc n)
  have p: "push_bit 1 ((2 :: uint32) ^ j) = 2 ^ (j + 1)" by (simp add: push_bit_eq_mult)
  have b: "bit (w AND NOT (2 ^ j)) i \<longleftrightarrow> bit w i \<and> i \<noteq> j"
    using bit_imp_le_length[of w i] by (auto simp: bit_and_iff bit_not_iff bit_exp_iff)
  show ?case
  proof (cases "k = j + 1")
    case True
    have "(2 :: uint32) ^ k \<le> push_bit 1 (2 ^ j)" unfolding p True by (rule order_refl)
    then have "size_loop (Suc n) (2 ^ k) (2 ^ j) w = w AND NOT (2 ^ j)" by (simp add: Let_def)
    then show ?thesis using b True by auto
  next
    case False
    have "\<not> (2 :: uint32) ^ k \<le> push_bit 1 (2 ^ j)" unfolding p using two_le[of k "j + 1"] Suc.prems False by simp
    then have "size_loop (Suc n) (2 ^ k) (2 ^ j) w = size_loop n (2 ^ k) (2 ^ (j + 1)) (w AND NOT (2 ^ j))"
      unfolding size_loop.simps Let_def p by (simp only: if_False)
    then show ?thesis using Suc.IH[of "j + 1" "w AND NOT (2 ^ j)"] Suc.prems False b by auto
  qed
qed simp

lemma bar_mask_power:
  assumes "k < 31" "(t = PCI_ADDRESS_SPACE_MEM \<or> t = PCI_ADDRESS_SPACE_MEM_PREFETCH) \<and> 4 \<le> k \<or> t = PCI_ADDRESS_SPACE_IO \<and> 2 \<le> k"
  shows "bar_mask t (2 ^ k) w = (w AND NOT (mask k)) OR t"
proof -
  have x: "(8 :: uint32) = 2 ^ 3" "(2 :: uint32) = 2 ^ 1" by simp_all
  have m: "(0xf :: uint32) = mask 4" "(0x3 :: uint32) = mask 2" by (simp_all add: mask_eq_exp_minus_1)
  show ?thesis
  proof (cases "t = PCI_ADDRESS_SPACE_IO")
    case True
    have "2 \<le> k" using assms(2) by (auto simp: True PCI_ADDRESS_SPACE_IO_def PCI_ADDRESS_SPACE_MEM_def PCI_ADDRESS_SPACE_MEM_PREFETCH_def)
    have s1: "bit (size_loop 29 (2 ^ k) (2 ^ 1) w) i \<longleftrightarrow> bit w i \<and> \<not> (1 \<le> i \<and> i < k)" for i
      by (rule size_loop_bits) (use \<open>2 \<le> k\<close> assms(1) in simp_all)
    have "size_loop 29 (2 ^ k) (2 ^ 1) w AND NOT (mask 2) = w AND NOT (mask k)"
      using s1 \<open>2 \<le> k\<close> assms(1)
      by (intro bit_word_eqI) (auto simp only: bit_and_iff bit_not_iff bit_mask_iff)
    then show ?thesis
      by (simp add: bar_mask_def True PCI_ADDRESS_SPACE_IO_def PCI_ADDRESS_SPACE_MEM_def m(2))
  next
    case False
    then have t: "t AND 1 = PCI_ADDRESS_SPACE_MEM" "4 \<le> k"
      using assms(2) by (auto simp: PCI_ADDRESS_SPACE_MEM_def PCI_ADDRESS_SPACE_MEM_PREFETCH_def)
    have s3: "bit (size_loop 29 (2 ^ k) (2 ^ 3) w) i \<longleftrightarrow> bit w i \<and> \<not> (3 \<le> i \<and> i < k)" for i
      by (rule size_loop_bits) (use t(2) assms(1) in simp_all)
    have "size_loop 29 (2 ^ k) (2 ^ 3) w AND NOT (mask 4) = w AND NOT (mask k)"
      using s3 t(2) assms(1)
      by (intro bit_word_eqI) (auto simp only: bit_and_iff bit_not_iff bit_mask_iff)
    then show ?thesis by (simp add: bar_mask_def t(1) m(1))
  qed
qed

subsection \<open>A region of a device\<close>

text \<open>Region \<open>r\<close> of the device \<open>d\<close> is of \<open>2 ^ k\<close> bytes.\<close>

definition region_ok :: "nat \<Rightarrow> nat \<Rightarrow> 'd PCI_Device_scheme \<Rightarrow> bool" where
  "region_ok r k d \<longleftrightarrow> dev_ok d \<and> r < mIORegsCount d \<and> k < 31 \<and> mIORegSize d ! r = 2 ^ k \<and>
     ((mIORegType d ! r = PCI_ADDRESS_SPACE_MEM \<or> mIORegType d ! r = PCI_ADDRESS_SPACE_MEM_PREFETCH) \<and> 4 \<le> k \<or>
      mIORegType d ! r = PCI_ADDRESS_SPACE_IO \<and> 2 \<le> k)"

definition bar_reg :: "nat \<Rightarrow> nat" where "bar_reg r = 0x10 + 4 * r"

lemma bar_reg_ok: "region_ok r k d \<Longrightarrow> bar_reg r < 256 \<and> 4 dvd bar_reg r"
  by (auto simp: region_ok_def dev_ok_def bar_reg_def)

definition place_region :: "nat \<Rightarrow> uint32 \<Rightarrow> 'd PCI_Device_scheme \<Rightarrow> 'd PCI_Device_scheme" where
  "place_region r data d =
     (if data \<noteq> 0xffffffff \<and> data \<noteq> 0 then
        if mIORegType d ! r = PCI_ADDRESS_SPACE_MEM then assignMemAddress r (data AND NOT 0xf) d
        else assignIOPort r (data AND NOT 0x3) d
      else d)"

definition after_bar_write :: "nat \<Rightarrow> uint32 \<Rightarrow> 'd PCI_Device_scheme \<Rightarrow> 'd PCI_Device_scheme" where
  "after_bar_write r data d =
     (let d' = place_region r data d
      in d'\<lparr>mConfig := put_list (bar_reg r) (le_bytes (bar_mask (mIORegType d ! r) (mIORegSize d ! r) data)) (mConfig d')\<rparr>)"

lemma two_nonzero: "k < 32 \<Longrightarrow> (2 :: uint32) ^ k \<noteq> 0"
  using unat_two[of k] by (metis power_not_zero unat_0 zero_neq_numeral)

lemma assign_simps [simp]:
  "mIORegsCount (assignMemAddress r a d) = mIORegsCount d" "mIORegSize (assignMemAddress r a d) = mIORegSize d"
  "mIORegType (assignMemAddress r a d) = mIORegType d"
  "mIORegsCount (assignIOPort r a d) = mIORegsCount d" "mIORegSize (assignIOPort r a d) = mIORegSize d"
  "mIORegType (assignIOPort r a d) = mIORegType d"
  by (simp_all add: assignMemAddress_def assignIOPort_def)

lemma place_region_simps [simp]:
  "mBus (place_region r data d) = mBus d" "mUnit (place_region r data d) = mUnit d"
  "mIORegsCount (place_region r data d) = mIORegsCount d" "mIORegSize (place_region r data d) = mIORegSize d"
  "mIORegType (place_region r data d) = mIORegType d" "length (mConfig (place_region r data d)) = length (mConfig d)"
  "PCI_Device.more (place_region r data d) = PCI_Device.more d"
  by (simp_all add: place_region_def assignMemAddress_def assignIOPort_def)

lemma write_bar:
  assumes "region_ok r k d"
  shows "base_writeConfig (bar_reg r) i n data (d, e) = Inr (bar_mask (mIORegType d ! r) (mIORegSize d ! r) data, after_bar_write r data d, e)"
  using assms two_nonzero[of k]
  by (simp add: base_writeConfig_def region_ok_def bar_reg_def place_region_def after_bar_write_def Let_def)

lemma bar_word:
  assumes "region_ok r k d"
  shows "config_word (after_bar_write r data d) (bar_reg r) = (data AND NOT (mask k)) OR mIORegType d ! r"
proof -
  have l: "bar_reg r + length (le_bytes w) \<le> length (mConfig (place_region r data d))" for w
    using assms by (simp add: region_ok_def dev_ok_def bar_reg_def)
  have "config_word (after_bar_write r data d) (bar_reg r) = bar_mask (mIORegType d ! r) (2 ^ k) data"
    using put_list_get[OF l, of "bar_mask (mIORegType d ! r) (2 ^ k) data"] assms
    by (simp add: config_word_def after_bar_write_def region_ok_def Let_def)
  then show ?thesis using bar_mask_power[of k "mIORegType d ! r" data] assms by (simp add: region_ok_def)
qed

text \<open>What a driver writes to a base address register and then reads.\<close>

lemma config_write_bar:
  assumes "devices_ok P" "device_at bus u P = Some d" "config_inherited V d" "unat u < 32" "region_ok r k d"
  shows "\<exists>Q. config_write V x (config_address bus u (bar_reg r)) data (P, e) = Inr (Q, e) \<and> devices_ok Q \<and>
    gPCI_Devices Q = gPCI_Devices (set_dev (after_bar_write r data d) P) \<and>
    device_at bus u Q = Some (after_bar_write r data d) \<and> config_inherited V (after_bar_write r data d)"
proof -
  have reg: "bar_reg r < 256" "4 dvd bar_reg r" using bar_reg_ok[OF assms(5)] by simp_all
  obtain Q where Q: "config_write V x (config_address bus u (bar_reg r)) data (P, e) = Inr (Q, e)"
    "gPCI_Devices Q = gPCI_Devices (set_dev (after_bar_write r data d) P)"
    using config_write_base[OF assms(1-4) reg write_bar[OF assms(5)]] by blast
  have pl: "mBus (after_bar_write r data d) = bus" "mUnit (after_bar_write r data d) = u"
    "PCI_Device.more (after_bar_write r data d) = PCI_Device.more d"
    using device_at_place[OF assms(2)] by (simp_all add: after_bar_write_def Let_def)
  have "devices_ok Q" using devices_ok_set_dev[OF assms(1)] Q(2) by (simp add: devices_ok_def)
  moreover have "device_at bus u Q = Some (after_bar_write r data d)"
    using device_at_set_dev[of "after_bar_write r data d" P bus u] assms(2) pl Q(2) by (simp add: device_at_def)
  moreover have "config_inherited V (after_bar_write r data d)" using assms(3) pl(3) by (simp add: config_inherited_def)
  ultimately show ?thesis using Q by blast
qed

text \<open>C10: A driver learns the size of a region as the PCI specification says: it writes ones to the base address register
  of any region of \<open>2 ^ k\<close> bytes, at least 16 of memory or 4 of ports, and reads it back, and gets zeros in the \<open>k\<close> low
  bits, where the type of the region is, and ones above; no region of any device is moved by it.\<close>

theorem pci_bar_sizing:
  assumes "devices_ok P" "device_at bus u P = Some d" "config_inherited V d" "unat u < 32" "region_ok r k d"
  shows "\<exists>Q Q'. config_write V x (config_address bus u (bar_reg r)) 0xffffffff (P, e) = Inr (Q, e) \<and>
    config_read V x (config_address bus u (bar_reg r)) (Q, e) = Inr (NOT (mask k) OR mIORegType d ! r, Q', e) \<and>
    map mAddress (devices Q') = map mAddress (devices P) \<and> map mPort (devices Q') = map mPort (devices P)"
proof -
  have reg: "bar_reg r < 256" "4 dvd bar_reg r" using bar_reg_ok[OF assms(5)] by simp_all
  let ?d = "after_bar_write r 0xffffffff d"
  obtain Q where Q: "config_write V x (config_address bus u (bar_reg r)) 0xffffffff (P, e) = Inr (Q, e)" "devices_ok Q"
    "gPCI_Devices Q = gPCI_Devices (set_dev ?d P)" "device_at bus u Q = Some ?d" "config_inherited V ?d"
    using config_write_bar[OF assms, of x "0xffffffff" e] by blast
  have d: "mAddress ?d = mAddress d" "mPort ?d = mPort d" "mBus ?d = bus" "mUnit ?d = u"
    using device_at_place[OF assms(2)] by (simp_all add: after_bar_write_def place_region_def Let_def)
  have "y = d" if "y \<in> set (devices P)" "mBus y = bus" "mUnit y = u" for y
    using unique_place[OF devices_ordered[OF assms(1)] assms(2)[unfolded device_at_def] that] .
  then have m: "map mAddress (devices Q) = map mAddress (devices P)" "map mPort (devices Q) = map mPort (devices P)"
    using d by (auto simp: Q(3) devices_set_dev)
  have "0xffffffff AND w = w" for w :: uint32
  proof -
    have "(0xffffffff :: uint32) = - 1" by simp
    then show ?thesis by (simp only: and.left_neutral)
  qed
  then have "config_word ?d (bar_reg r) = NOT (mask k) OR mIORegType d ! r" using bar_word[OF assms(5), of "0xffffffff"] by simp
  then show ?thesis using Q(1) config_read_base[OF Q(2,4,5) assms(4) reg, of x e] m by fastforce
qed

lemma find_only: "z \<in> set xs \<Longrightarrow> Q z \<Longrightarrow> (\<And>y. y \<in> set xs \<Longrightarrow> y \<noteq> z \<Longrightarrow> \<not> Q y) \<Longrightarrow> find Q xs = Some z"
  by (induction xs) auto

text \<open>C11: When the address of a memory region is written to its base address register, the device answers there: an access
  \<open>off\<close> bytes behind the address, below the size, goes to the region at \<open>off\<close>, provided that no device and no other
  region of the device claims it, whatever the places of the devices on the bus.\<close>

theorem pci_memory_decode:
  assumes "devices_ok P" "device_at bus u P = Some d" "config_inherited V d" "unat u < 32" "region_ok r k d"
    and mem: "mIORegType d ! r = PCI_ADDRESS_SPACE_MEM" and base: "base AND 0xf = 0" "base \<noteq> 0"
    and off: "off < 2 ^ k" "unat base + 2 ^ k < 2 ^ 32"
    and free: "\<forall>y \<in> set (devices P). y \<noteq> d \<longrightarrow> mem_region (base + off) y = None"
    "\<forall>i < mIORegsCount d. i \<noteq> r \<longrightarrow> mIORegType d ! i AND 1 = PCI_ADDRESS_SPACE_MEM \<longrightarrow>
        \<not> (mAddress d ! i \<le> base + off \<and> base + off < mAddress d ! i + mIORegSize d ! i)"
    and dev: "readDeviceMem (V (after_bar_write r base d)) r off n (after_bar_write r base d, e) = Inr (Some v, d', e')"
  shows "\<exists>Q. config_write V x (config_address bus u (bar_reg r)) base (P, e) = Inr (Q, e) \<and>
    pci_read_device V (base + off) n (Q, e) = Inr ((True, v), set_dev d' Q, e')"
proof -
  let ?d = "after_bar_write r base d"
  obtain Q where Q: "config_write V x (config_address bus u (bar_reg r)) base (P, e) = Inr (Q, e)" "devices_ok Q"
    "gPCI_Devices Q = gPCI_Devices (set_dev ?d P)" "device_at bus u Q = Some ?d"
    using config_write_bar[OF assms(1-5), of x base e] by blast
  have pl: "mBus d = bus" "mUnit d = u" "d \<in> set (devices P)" using device_at_place[OF assms(2)] by simp_all
  have r: "r < mIORegsCount d" "mIORegSize d ! r = 2 ^ k" "k < 31" "r < length (mAddress d)"
    using assms(5) by (auto simp: region_ok_def dev_ok_def)
  have n15: "base \<noteq> 0xffffffff" using base(1) by auto
  have "base AND NOT 0xf = base"
  proof (rule bit_word_eqI)
    fix i assume "i < LENGTH(32)"
    have m: "(0xf :: uint32) = mask 4" by (simp add: mask_eq_exp_minus_1)
    have "\<not> bit (base AND mask 4) i" using base(1) by (simp add: m)
    then show "bit (base AND NOT 0xf) i = bit base i" unfolding m by (auto simp: bit_simps dest: bit_imp_le_length)
  qed
  then have a: "mAddress ?d = (mAddress d)[r := base]" "mIORegsCount ?d = mIORegsCount d" "mIORegSize ?d = mIORegSize d"
    "mIORegType ?d = mIORegType d" "mBus ?d = bus" "mUnit ?d = u"
    using mem base(2) n15 pl by (simp_all add: after_bar_write_def Let_def place_region_def assignMemAddress_def)
  have in_r: "base \<le> base + off" "base + off < base + 2 ^ k"
  proof -
    obtain B X where BX: "unat base = B" "unat off = X" by blast
    have "X < 2 ^ k" "B + 2 ^ k < 2 ^ 32" using off unat_two[of k] r(3) by (simp_all add: word_less_nat_alt BX)
    then have "unat (base + off) = B + X" "unat (base + 2 ^ k) = B + 2 ^ k"
      using unat_two[of k] r(3) by (simp_all add: unat_word_ariths BX)
    then show "base \<le> base + off" "base + off < base + 2 ^ k"
      using \<open>X < 2 ^ k\<close> by (simp_all add: word_le_nat_alt word_less_nat_alt BX)
  qed
  have reg: "mem_region (base + off) ?d = Some r"
    unfolding mem_region_def a
    by (rule find_only) (use r in_r mem free(2) in \<open>auto simp: PCI_ADDRESS_SPACE_MEM_def\<close>)
  have "find (\<lambda>y. mem_region (base + off) y \<noteq> None) (devices Q) = Some ?d"
  proof (rule find_only)
    show "?d \<in> set (devices Q)" using device_at_place[OF Q(4)] by simp
    show "mem_region (base + off) ?d \<noteq> None" using reg by simp
    fix y assume "y \<in> set (devices Q)" "y \<noteq> ?d"
    then have y: "y \<in> (\<lambda>x. if mBus x = bus \<and> mUnit x = u then ?d else x) ` set (devices P)" "y \<noteq> ?d"
      unfolding Q(3) devices_set_dev a(5,6) set_map by blast+
    from y(1) have "y \<in> set (devices P) \<and> y \<noteq> d"
    proof (rule imageE)
      fix z assume z: "y = (if mBus z = bus \<and> mUnit z = u then ?d else z)" "z \<in> set (devices P)"
      show ?thesis
      proof (cases "mBus z = bus \<and> mUnit z = u")
        case True
        then show ?thesis using z(1) y(2) by (simp only: if_True simp_thms)
      next
        case False
        then have "y = z" using z(1) by (simp only: if_False)
        then show ?thesis using z(2) False pl(1,2) by blast
      qed
    qed
    then show "\<not> mem_region (base + off) y \<noteq> None" using free(1) by simp
  qed
  then have "pci_read_device V (base + off) n (Q, e) = Inr ((True, v), set_dev d' Q, e')"
    using dev r(4) by (simp add: pci_read_device_def scan_devices_find[OF Q(2)] reg a(1))
  then show ?thesis using Q(1) by blast
qed

end
