(* ===== verification/Io_Pci_Devices.thy ===== *)
theory Io_Pci_Devices
  imports Io_Pci_Bars
begin

text \<open>
  The devices behind the PCI bus that have no state of their own or only registers: the bridge (src/io/pci/pci.cc), the
  place of the graphics card (io/graphic/gcard.cc), Mac I/O (io/macio/macio.cc), the USB controller (io/usb/usb.cc) and the
  serial port (io/serial/serial.cc); and the bus that \<open>pci_init\<close> sets up.  The drives and the network cards are
  devices given from outside, \<open>C_Other\<close>.
\<close>

unbundle bit_operations_syntax

subsection \<open>Registers of the USB controller\<close>

record ohci_hcregs =
  ohci_control :: uint32
  ohci_cmdstatus :: uint32
  ohci_intrstatus :: uint32
  ohci_intrenable :: uint32
  ohci_intrdisable :: uint32
  ohci_hcca :: uint32
  ohci_ed_periodcurrent :: uint32
  ohci_ed_controlhead :: uint32
  ohci_ed_controlcurrent :: uint32
  ohci_ed_bulkhead :: uint32
  ohci_ed_bulkcurrent :: uint32
  ohci_donehead :: uint32
  ohci_fminterval :: uint32
  ohci_fmremaining :: uint32
  ohci_fmnumber :: uint32
  ohci_periodicstart :: uint32
  ohci_lsthresh :: uint32
  roothub_a :: uint32
  roothub_b :: uint32
  roothub_status :: uint32
  roothub_portstatus :: "uint32 list"

definition MAX_ROOT_PORTS :: nat where "MAX_ROOT_PORTS = 15"
definition rootport_count :: uint32 where "rootport_count = 1"

definition OHCI_HCR :: uint32 where "OHCI_HCR = 1"
definition OHCI_REG_ROOTHUB_PORTS :: uint32 where "OHCI_REG_ROOTHUB_PORTS = 0x54"
definition OHCI_RH_PS_CCS :: uint32 where "OHCI_RH_PS_CCS = 0x1"
definition OHCI_RH_PS_PES :: uint32 where "OHCI_RH_PS_PES = 0x2"
definition OHCI_RH_PS_PSS :: uint32 where "OHCI_RH_PS_PSS = 0x4"
definition OHCI_RH_PS_PRS :: uint32 where "OHCI_RH_PS_PRS = 0x10"
definition OHCI_RH_PS_PPS :: uint32 where "OHCI_RH_PS_PPS = 0x100"
definition OHCI_RH_PS_CSC :: uint32 where "OHCI_RH_PS_CSC = 0x10000"
definition OHCI_RH_PS_PESC :: uint32 where "OHCI_RH_PS_PESC = 0x20000"
definition OHCI_RH_PS_PSSC :: uint32 where "OHCI_RH_PS_PSSC = 0x40000"
definition OHCI_RH_PS_OCIC :: uint32 where "OHCI_RH_PS_OCIC = 0x80000"
definition OHCI_RH_PS_PRSC :: uint32 where "OHCI_RH_PS_PRSC = 0x100000"

definition usb_reset :: ohci_hcregs where
  "usb_reset =
     \<lparr>ohci_control = 0, ohci_cmdstatus = 0, ohci_intrstatus = 0, ohci_intrenable = 0, ohci_intrdisable = 0, ohci_hcca = 0,
      ohci_ed_periodcurrent = 0, ohci_ed_controlhead = 0, ohci_ed_controlcurrent = 0, ohci_ed_bulkhead = 0,
      ohci_ed_bulkcurrent = 0, ohci_donehead = 0, ohci_fminterval = 0x2edf, ohci_fmremaining = 0, ohci_fmnumber = 0,
      ohci_periodicstart = 0, ohci_lsthresh = 0x628, roothub_a = push_bit 12 1 OR push_bit 9 1 OR rootport_count,
      roothub_b = 0, roothub_status = 0, roothub_portstatus = replicate MAX_ROOT_PORTS 0\<rparr>"

definition usb_read_reg :: "uint32 \<Rightarrow> ohci_hcregs \<Rightarrow> uint32 option" where
  "usb_read_reg address h =
     (if address = 0x00 then Some 0x10
      else if address = 0x04 then Some (ohci_control h)
      else if address = 0x08 then Some (ohci_cmdstatus h)
      else if address = 0x0c then Some (ohci_intrstatus h)
      else if address = 0x10 then Some (ohci_intrenable h)
      else if address = 0x14 then Some (ohci_intrdisable h)
      else if address = 0x18 then Some (ohci_hcca h)
      else if address = 0x1c then Some (ohci_ed_periodcurrent h)
      else if address = 0x20 then Some (ohci_ed_controlhead h)
      else if address = 0x24 then Some (ohci_ed_controlcurrent h)
      else if address = 0x28 then Some (ohci_ed_bulkhead h)
      else if address = 0x2c then Some (ohci_ed_bulkcurrent h)
      else if address = 0x30 then Some (ohci_donehead h)
      else if address = 0x34 then Some (ohci_fminterval h)
      else if address = 0x38 then Some (ohci_fmremaining h)
      else if address = 0x3c then Some (ohci_fmnumber h)
      else if address = 0x40 then Some (ohci_periodicstart h)
      else if address = 0x44 then Some (ohci_lsthresh h)
      else if address = 0x48 then Some (roothub_a h)
      else if address = 0x4c then Some (roothub_b h)
      else if address = 0x50 then Some (roothub_status h)
      else
        (let address = drop_bit 2 (address - OHCI_REG_ROOTHUB_PORTS) in
         if address < rootport_count then Some (roothub_portstatus h ! unat address) else None))"

definition port_write :: "uint32 \<Rightarrow> uint32 \<Rightarrow> uint32" where
  "port_write data s =
     (let s = (if istrue (data AND OHCI_RH_PS_CCS) then s AND NOT OHCI_RH_PS_PES else s);
          s = s AND NOT (data AND (OHCI_RH_PS_CSC OR OHCI_RH_PS_PESC OR OHCI_RH_PS_PSSC OR OHCI_RH_PS_OCIC OR OHCI_RH_PS_PRSC));
          p = data AND (OHCI_RH_PS_PES OR OHCI_RH_PS_PSS OR OHCI_RH_PS_PRS);
          s = (if istrue p then if istrue (s AND OHCI_RH_PS_CCS) then s OR p else s OR OHCI_RH_PS_CSC else s)
      in s OR OHCI_RH_PS_PPS)"

definition usb_write_reg :: "uint32 \<Rightarrow> uint32 \<Rightarrow> ohci_hcregs \<Rightarrow> ohci_hcregs" where
  "usb_write_reg address data h =
     (if address = 0x00 then h
      else if address = 0x04 then h\<lparr>ohci_control := data\<rparr>
      else if address = 0x08 then (if istrue (data AND OHCI_HCR) then usb_reset else h\<lparr>ohci_cmdstatus := data\<rparr>)
      else if address = 0x0c then h\<lparr>ohci_intrstatus := data\<rparr>
      else if address = 0x10 then h\<lparr>ohci_intrenable := data\<rparr>
      else if address = 0x14 then h\<lparr>ohci_intrdisable := data\<rparr>
      else if address = 0x18 then h\<lparr>ohci_hcca := data\<rparr>
      else if address = 0x1c then h\<lparr>ohci_ed_periodcurrent := data\<rparr>
      else if address = 0x20 then h\<lparr>ohci_ed_controlhead := data\<rparr>
      else if address = 0x24 then h\<lparr>ohci_ed_controlcurrent := data\<rparr>
      else if address = 0x28 then h\<lparr>ohci_ed_bulkhead := data\<rparr>
      else if address = 0x2c then h\<lparr>ohci_ed_bulkcurrent := data\<rparr>
      else if address = 0x30 then h\<lparr>ohci_donehead := data\<rparr>
      else if address = 0x34 then h\<lparr>ohci_fminterval := data\<rparr>
      else if address = 0x38 then h\<lparr>ohci_fmremaining := data\<rparr>
      else if address = 0x3c then h\<lparr>ohci_fmnumber := data\<rparr>
      else if address = 0x40 then h\<lparr>ohci_periodicstart := data\<rparr>
      else if address = 0x44 then h\<lparr>ohci_lsthresh := data\<rparr>
      else if address = 0x48 then h\<lparr>roothub_a := data\<rparr>
      else if address = 0x4c then h\<lparr>roothub_b := data\<rparr>
      else if address = 0x50 then h\<lparr>roothub_status := data\<rparr>
      else
        (let i = drop_bit 2 (address - OHCI_REG_ROOTHUB_PORTS) in
         if i < rootport_count
         then h\<lparr>roothub_portstatus := (roothub_portstatus h)[unat i := port_write data (roothub_portstatus h ! unat i)]\<rparr>
         else h))"

subsection \<open>Registers of the serial port\<close>

record SerialState =
  serial_intr :: uint8
  serial_intr_id :: uint8
  serial_format :: uint8
  serial_scratch :: uint8

definition serial_reset :: SerialState where
  "serial_reset = \<lparr>serial_intr = 0, serial_intr_id = 0, serial_format = 0, serial_scratch = 0\<rparr>"

definition FORMAT_DLAB :: uint8 where "FORMAT_DLAB = 0x80"

text \<open>Three ports answer without a value: the caller's variable keeps what it holds, \<open>junk\<close>.\<close>

definition serial_read_reg :: "uint32 \<Rightarrow> uint32 \<Rightarrow> SerialState \<Rightarrow> uint32 option" where
  "serial_read_reg junk address h =
     (if istrue (serial_format h AND FORMAT_DLAB) \<and> address AND 0xe = 0 then None
      else if address = 0 then Some 0
      else if address = 1 then Some (ucast (serial_intr h AND 0x0f))
      else if address = 2 then Some (ucast (serial_intr_id h AND 0x07))
      else if address = 3 then Some (ucast (serial_format h))
      else if address = 4 \<or> address = 5 \<or> address = 6 then Some junk
      else if address = 7 then Some (ucast (serial_scratch h))
      else None)"

definition serial_write_reg :: "uint32 \<Rightarrow> uint32 \<Rightarrow> SerialState \<Rightarrow> bool \<times> SerialState" where
  "serial_write_reg address data h =
     (if istrue (serial_format h AND FORMAT_DLAB) \<and> address AND 0xe = 0 then (False, h)
      else if address = 0 then (True, h)
      else if address = 1 then (True, h\<lparr>serial_intr := ucast data\<rparr>)
      else if address = 2 then (True, h\<lparr>serial_intr_id := ucast data\<rparr>)
      else if address = 3 \<or> address = 4 \<or> address = 5 \<or> address = 6 then (True, h)
      else if address = 7 then (True, h\<lparr>serial_scratch := ucast data\<rparr>)
      else (False, h))"

subsection \<open>The classes\<close>

datatype 'o dev_class = C_Bridge | C_GCard | C_MacIO | C_USB ohci_hcregs | C_Serial SerialState | C_Other 'o

type_synonym 'o device = "'o dev_class PCI_Device_scheme"

definition set_config :: "(nat \<times> uint8) list \<Rightarrow> 'd PCI_Device_scheme \<Rightarrow> 'd PCI_Device_scheme" where
  "set_config ws d = d\<lparr>mConfig := foldl (\<lambda>c (i, b). c[i := b]) (mConfig d) ws\<rparr>"

definition set_region :: "nat \<Rightarrow> uint32 \<Rightarrow> uint32 \<Rightarrow> 'd PCI_Device_scheme \<Rightarrow> 'd PCI_Device_scheme" where
  "set_region r size' type' d = d\<lparr>mIORegSize := (mIORegSize d)[r := size'], mIORegType := (mIORegType d)[r := type']\<rparr>"

definition PCI_BridgeP2P :: "'o device" where
  "PCI_BridgeP2P =
     set_config [(0x00, 0x11), (0x01, 0x10), (0x02, 0x26), (0x03, 0x00), (0x08, 0x02), (0x09, 0x00), (0x0a, 0x04), (0x0b, 0x06),
         (0x0e, 0x01), (0x18, 0x0), (0x19, 0x1), (0x1a, 0x1), (0x1c, 0x10), (0x1d, 0x20), (0x20, 0x80), (0x21, 0x80),
         (0x22, 0x90), (0x23, 0x80), (0x24, 0x00), (0x25, 0x84), (0x26, 0x00), (0x27, 0x85), (0x32, 0x00)]
       ((PCI_Device_init 0x00 0x0d C_Bridge)\<lparr>mIORegsCount := 2\<rparr>)"

definition IO_GCARD_FRAMEBUFFER_PA_START :: uint32 where "IO_GCARD_FRAMEBUFFER_PA_START = 0x84000000"
definition IO_GCARD_FRAMEBUFFER_PA_END :: uint32 where "IO_GCARD_FRAMEBUFFER_PA_END = 0x85000000"
definition IO_PIC_IRQ_GCARD :: nat where "IO_PIC_IRQ_GCARD = 23"

definition PCI_GCard :: "'o device" where
  "PCI_GCard =
     set_config [(0x3c, of_nat IO_PIC_IRQ_GCARD), (0x3d, 1), (0x3e, 0), (0x3f, 0)]
       (assignMemAddress 0 IO_GCARD_FRAMEBUFFER_PA_START
         (set_config [(0x00, 0x66), (0x01, 0x66), (0x02, 0x66), (0x03, 0x66), (0x08, 0x00), (0x09, 0x00), (0x0a, 0x00), (0x0b, 0x03),
             (0x0e, 0x00)]
           (set_region 0 (IO_GCARD_FRAMEBUFFER_PA_END - IO_GCARD_FRAMEBUFFER_PA_START) PCI_ADDRESS_SPACE_MEM_PREFETCH
             (PCI_Device_init 0x00 0x07 C_GCard))))"

definition PCI_MacIO :: "'o device" where
  "PCI_MacIO =
     set_config [(0x3c, 0x18), (0x3d, 1), (0x3e, 0), (0x3f, 0)]
       (assignMemAddress 0 0x80800000
         (set_config [(0x00, 0x6b), (0x01, 0x10), (0x02, 0x17), (0x03, 0x00), (0x08, 0x00), (0x09, 0x00), (0x0a, 0x00), (0x0b, 0xff),
             (0x0e, 0x00)]
           (set_region 0 0x80000 PCI_ADDRESS_SPACE_MEM (PCI_Device_init 0x01 0x05 C_MacIO))))"

definition PCI_USB :: "'o device" where
  "PCI_USB =
     set_config [(0x3c, 0x03), (0x3d, 0x03), (0x3e, 0x03), (0x3f, 0x03)]
       (assignMemAddress 0 0x80881000
         (set_config [(0x00, 0x45), (0x01, 0x10), (0x02, 0x61), (0x03, 0xc8), (0x08, 0x10), (0x09, 0x10), (0x0a, 0x03), (0x0b, 0x0c),
             (0x0e, 0x00)]
           (set_region 0 0x1000 PCI_ADDRESS_SPACE_MEM (PCI_Device_init 0x01 0x06 (C_USB usb_reset)))))"

definition PCI_Serial :: "'o device" where
  "PCI_Serial =
     set_config [(0x3c, 0x03), (0x3d, 0x03), (0x3e, 0x03), (0x3f, 0x03)]
       (assignIOPort 0 0x000003f8
         (set_config [(0x00, 0x00), (0x01, 0x00), (0x02, 0x00), (0x03, 0x00), (0x08, 0x00), (0x09, 0x00), (0x0a, 0x00), (0x0b, 0x00),
             (0x0e, 0x00)]
           (set_region 0 0x0010 PCI_ADDRESS_SPACE_IO (PCI_Device_init 0x01 0x42 (C_Serial serial_reset)))))"

subsection \<open>Their virtual functions\<close>

definition MACIO_DBDMA_registers :: "uint32 list" where
  "MACIO_DBDMA_registers = [0x00, 0x04, 0x08, 0x0c, 0x10, 0x14, 0x18, 0x1c, 0x20, 0x24, 0x2c]"

definition macio_readDeviceMem :: "nat \<Rightarrow> uint32 \<Rightarrow> nat \<Rightarrow> ('d, 'e) dev_state \<Rightarrow> cpu_error + uint32 option \<times> ('d, 'e) dev_state" where
  "macio_readDeviceMem r address size' s =
     (if r = 0 \<and> 0x8000 \<le> address \<and> address < 0x8100 then
        (if size' \<noteq> 4 then Inl Ppc_Fatal
         else if address - 0x8000 \<in> set MACIO_DBDMA_registers then Inr (Some 0, s) else Inr (None, s))
      else Inr (None, s))"

definition macio_writeDeviceMem :: "nat \<Rightarrow> uint32 \<Rightarrow> uint32 \<Rightarrow> nat \<Rightarrow> ('d, 'e) dev_state \<Rightarrow> cpu_error + bool \<times> ('d, 'e) dev_state" where
  "macio_writeDeviceMem r address data size' s =
     (if r = 0 \<and> 0x8000 \<le> address \<and> address < 0x8100 then
        (if size' \<noteq> 4 then Inl Ppc_Fatal else Inr (address - 0x8000 \<in> set MACIO_DBDMA_registers, s))
      else Inr (False, s))"

definition usb_readDeviceMem :: "ohci_hcregs \<Rightarrow> nat \<Rightarrow> uint32 \<Rightarrow> nat \<Rightarrow> ('d, 'e) dev_state \<Rightarrow> cpu_error + uint32 option \<times> ('d, 'e) dev_state" where
  "usb_readDeviceMem h r address size' s =
     Inr (if r \<noteq> 0 then None else if size' \<noteq> 4 then None else usb_read_reg address h, s)"

definition usb_writeDeviceMem ::
  "ohci_hcregs \<Rightarrow> nat \<Rightarrow> uint32 \<Rightarrow> uint32 \<Rightarrow> nat \<Rightarrow> ('o dev_class, 'e) dev_state \<Rightarrow> cpu_error + bool \<times> ('o dev_class, 'e) dev_state" where
  "usb_writeDeviceMem h r address data size' = (\<lambda>(d, e).
     if r \<noteq> 0 then Inr (False, d, e) else if size' \<noteq> 4 then Inr (False, d, e)
     else Inr (True, PCI_Device.more_update (\<lambda>_. C_USB (usb_write_reg address data h)) d, e))"

definition serial_readDeviceIO ::
  "uint32 \<Rightarrow> SerialState \<Rightarrow> nat \<Rightarrow> uint32 \<Rightarrow> nat \<Rightarrow> ('d, 'e) dev_state \<Rightarrow> cpu_error + uint32 option \<times> ('d, 'e) dev_state" where
  "serial_readDeviceIO junk h r address size' s =
     Inr (if r \<noteq> 0 then None else if size' \<noteq> 1 then None else serial_read_reg junk address h, s)"

definition serial_writeDeviceIO ::
  "SerialState \<Rightarrow> nat \<Rightarrow> uint32 \<Rightarrow> uint32 \<Rightarrow> nat \<Rightarrow> ('o dev_class, 'e) dev_state \<Rightarrow> cpu_error + bool \<times> ('o dev_class, 'e) dev_state" where
  "serial_writeDeviceIO h r address data size' = (\<lambda>(d, e).
     if r \<noteq> 0 then Inr (False, d, e) else if size' \<noteq> 1 then Inr (False, d, e)
     else (let (ok, h) = serial_write_reg address data h in Inr (ok, PCI_Device.more_update (\<lambda>_. C_Serial h) d, e)))"

text \<open>\<open>W\<close> gives the classes from outside, \<open>junk\<close> the contents of the caller's variable.\<close>

definition pci_classes :: "('o \<Rightarrow> ('o dev_class, 'e) PCI_virtual) \<Rightarrow> uint32 \<Rightarrow> ('o dev_class, 'e) classes" where
  "pci_classes W junk d =
     (case PCI_Device.more d of
        C_Bridge \<Rightarrow> PCI_base
      | C_GCard \<Rightarrow> PCI_base\<lparr>readDeviceMem := (\<lambda>r address size' s. Inr (Some 0, s)), writeDeviceMem := (\<lambda>r address data size' s. Inr (True, s))\<rparr>
      | C_MacIO \<Rightarrow> PCI_base\<lparr>readDeviceMem := macio_readDeviceMem, writeDeviceMem := macio_writeDeviceMem\<rparr>
      | C_USB h \<Rightarrow> PCI_base\<lparr>readDeviceMem := usb_readDeviceMem h, writeDeviceMem := usb_writeDeviceMem h\<rparr>
      | C_Serial h \<Rightarrow> PCI_base\<lparr>readDeviceIO := serial_readDeviceIO junk h, writeDeviceIO := serial_writeDeviceIO h\<rparr>
      | C_Other x \<Rightarrow> W x)"

subsection \<open>The bus at the start\<close>

fun insert_all :: "'o device list \<Rightarrow> 'o device AVLTree \<Rightarrow> 'o device AVLTree option" where
  "insert_all [] c = Some c"
| "insert_all (d # ds) c = Option.bind (AVLTree_insert PCI_Device_compareTo d c) (insert_all ds)"

text \<open>\<open>ide\<close> and \<open>net\<close> are the drives' and the network cards' devices, as the configuration says.\<close>

definition pci_init :: "'o device list \<Rightarrow> 'o device list \<Rightarrow> bool \<Rightarrow> bool \<Rightarrow> 'o device pci option" where
  "pci_init ide net usb_installed serial_installed =
     map_option (\<lambda>c. \<lparr>gPCI_Address = 0, gPCI_Data = 0, gPCI_Data_LE = replicate 4 0, gPCI_Devices = c\<rparr>)
       (insert_all ([PCI_BridgeP2P, PCI_GCard] @ ide @ [PCI_MacIO] @ net @
            (if usb_installed then [PCI_USB] else []) @ (if serial_installed then [PCI_Serial] else []))
          \<lparr>root' = NULL, ecount = 0\<rparr>)"

lemma insert_all_ok:
  "container_ok dev_key c \<Longrightarrow>
     \<exists>c'. insert_all ds c = Some c' \<and> container_ok dev_key c' \<and> inorder (root' c') = fold (ins_list dev_key) ds (inorder (root' c))"
proof (induction ds arbitrary: c)
  case (Cons d ds)
  obtain c1 where c1: "AVLTree_insert PCI_Device_compareTo d c = Some c1" "container_ok dev_key c1"
    "inorder (root' c1) = ins_list dev_key d (inorder (root' c))"
    using pci_dev.container_insert[OF Cons.prems, of d] by blast
  then show ?case using Cons.IH[OF c1(2)] by simp
qed simp

lemma pci_init_ok:
  "\<exists>P. pci_init ide net usb serial = Some P \<and> devices_ok P \<and>
     devices P = fold (ins_list dev_key) ([PCI_BridgeP2P, PCI_GCard] @ ide @ [PCI_MacIO] @ net @
       (if usb then [PCI_USB] else []) @ (if serial then [PCI_Serial] else [])) []"
proof -
  let ?ds = "[PCI_BridgeP2P, PCI_GCard] @ ide @ [PCI_MacIO] @ net @ (if usb then [PCI_USB] else []) @ (if serial then [PCI_Serial] else [])"
  have "container_ok dev_key \<lparr>root' = NULL, ecount = 0\<rparr>" by (simp add: container_ok_def)
  from insert_all_ok[OF this, of ?ds] obtain c where "insert_all ?ds \<lparr>root' = NULL, ecount = 0\<rparr> = Some c"
    "container_ok dev_key c" "inorder (root' c) = fold (ins_list dev_key) ?ds []" by auto
  then show ?thesis by (simp add: pci_init_def devices_ok_def)
qed

lemma place_simps:
  "mBus PCI_BridgeP2P = 0" "mUnit PCI_BridgeP2P = 13" "mBus PCI_GCard = 0" "mUnit PCI_GCard = 7"
  "mBus PCI_MacIO = 1" "mUnit PCI_MacIO = 5" "mBus PCI_USB = 1" "mUnit PCI_USB = 6" "mBus PCI_Serial = 1" "mUnit PCI_Serial = 66"
  by (simp_all add: PCI_BridgeP2P_def PCI_GCard_def PCI_MacIO_def PCI_USB_def PCI_Serial_def set_config_def assignMemAddress_def
    assignIOPort_def set_region_def PCI_Device_init_def)

lemma pci_init_bare:
  "\<exists>P. pci_init [] [] True True = Some P \<and> devices_ok P \<and> devices P = [PCI_GCard, PCI_BridgeP2P, PCI_MacIO, PCI_USB, PCI_Serial]"
  using pci_init_ok[of "[]" "[]" True True] by (simp add: dev_key_def place_simps)

lemma set_config_simps [simp]:
  "mBus (set_config ws d) = mBus d" "mUnit (set_config ws d) = mUnit d" "mIORegsCount (set_config ws d) = mIORegsCount d"
  "mIORegSize (set_config ws d) = mIORegSize d" "mIORegType (set_config ws d) = mIORegType d" "mAddress (set_config ws d) = mAddress d"
  "mPort (set_config ws d) = mPort d" "PCI_Device.more (set_config ws d) = PCI_Device.more d"
  by (simp_all add: set_config_def)

lemma length_set_config [simp]: "length (mConfig (set_config ws d)) = length (mConfig d)"
proof -
  have "length (foldl (\<lambda>c (i, b). c[i := b]) xs ws) = length xs" for xs :: "uint8 list"
    by (induction ws arbitrary: xs) auto
  then show ?thesis by (simp add: set_config_def)
qed

lemma usb_region: "region_ok 0 12 PCI_USB"
  by (simp add: region_ok_def dev_ok_def PCI_USB_def set_region_def PCI_Device_init_def assignMemAddress_def)

lemma gcard_region: "region_ok 0 24 PCI_GCard"
  by (simp add: region_ok_def dev_ok_def PCI_GCard_def set_region_def PCI_Device_init_def assignMemAddress_def
    IO_GCARD_FRAMEBUFFER_PA_START_def IO_GCARD_FRAMEBUFFER_PA_END_def)

lemma usb_config: "config_inherited (pci_classes W junk) PCI_USB"
  by (auto simp: config_inherited_def pci_classes_def PCI_base_def PCI_USB_def assignMemAddress_def set_region_def PCI_Device_init_def)

lemma gcard_config: "config_inherited (pci_classes W junk) PCI_GCard"
  by (auto simp: config_inherited_def pci_classes_def PCI_base_def PCI_GCard_def assignMemAddress_def set_region_def PCI_Device_init_def)

end
