(* ===== verification/Io_Gcard.thy ===== *)
theory Io_Gcard
  imports Io_Pci_Devices Io_Pic
begin

text \<open>
  src/io/graphic/gcard.cc and gcard.h: the frame buffer, the calls of the guest's video driver and the list of modes; with
  the damaged area, the palette and the cursor of system/display.h.  The frame buffer is the host's allocation: an access
  outside it is \<open>Bad_Access\<close>.  What the host's display answers to a change of resolution is a parameter, and so is the
  console, which only prints.  \<open>IO_GRAPHIC_ERR\<close> is \<open>ppc_fatal\<close>.
\<close>

unbundle bit_operations_syntax

record DisplayCharacteristics =
  dc_width :: int
  dc_height :: int
  bytesPerPixel :: int
  scanLineLength :: int
  vsyncFrequency :: int
  redShift :: int
  redSize :: int
  greenShift :: int
  greenSize :: int
  blueShift :: int
  blueSize :: int

record gcard =
  gFrameBuffer :: "nat \<Rightarrow> uint8"
  gFrameBufferSize :: nat
  gDamageAreaFirstAddr :: int
  gDamageAreaLastAddr :: int
  gVBLon :: bool
  gCurrentGraphicMode :: int
  gGraphicModes :: "DisplayCharacteristics Array"
  palette :: "nat \<Rightarrow> uint32"
  mHWCursor :: "uint32 \<times> uint32 \<times> bool"

subsection \<open>The frame buffer\<close>

definition damageFrameBuffer :: "uint32 \<Rightarrow> gcard \<Rightarrow> gcard" where
  "damageFrameBuffer addr g =
     (let a = sint addr; g = (if a < gDamageAreaFirstAddr g then g\<lparr>gDamageAreaFirstAddr := a\<rparr> else g)
      in if gDamageAreaLastAddr g < a then g\<lparr>gDamageAreaLastAddr := a\<rparr> else g)"

definition healFrameBuffer :: "gcard \<Rightarrow> gcard" where
  "healFrameBuffer g = g\<lparr>gDamageAreaFirstAddr := 0xffffff0, gDamageAreaLastAddr := 0\<rparr>"

text \<open>The accesses of 1, 2, 4, 8 and 16 bytes: the number is stored with its low byte first.\<close>

fun fb_put :: "nat \<Rightarrow> nat \<Rightarrow> nat \<Rightarrow> (nat \<Rightarrow> uint8) \<Rightarrow> nat \<Rightarrow> uint8" where
  "fb_put a 0 v M = M"
| "fb_put a (Suc n) v M = fb_put (a + 1) n (v div 256) (M(a := of_nat v))"

fun fb_get :: "nat \<Rightarrow> nat \<Rightarrow> (nat \<Rightarrow> uint8) \<Rightarrow> nat" where
  "fb_get a 0 M = 0"
| "fb_get a (Suc n) M = unat (M a) + 256 * fb_get (a + 1) n M"

definition gcard_write_n :: "nat \<Rightarrow> uint32 \<Rightarrow> nat \<Rightarrow> gcard \<Rightarrow> cpu_error + gcard" where
  "gcard_write_n n addr v g =
     (let addr = addr - IO_GCARD_FRAMEBUFFER_PA_START in
      if unat addr + n \<le> gFrameBufferSize g
      then Inr (damageFrameBuffer addr (g\<lparr>gFrameBuffer := fb_put (unat addr) n v (gFrameBuffer g)\<rparr>))
      else Inl Bad_Access)"

definition gcard_read_n :: "nat \<Rightarrow> uint32 \<Rightarrow> gcard \<Rightarrow> cpu_error + nat" where
  "gcard_read_n n addr g =
     (let addr = addr - IO_GCARD_FRAMEBUFFER_PA_START in
      if unat addr + n \<le> gFrameBufferSize g then Inr (fb_get (unat addr) n (gFrameBuffer g)) else Inl Bad_Access)"

definition gcard_write :: "uint32 \<Rightarrow> uint32 \<Rightarrow> nat \<Rightarrow> gcard \<Rightarrow> cpu_error + gcard" where
  "gcard_write addr data size' g =
     (if size' = 1 then gcard_write_n 1 addr (unat data) g
      else if size' = 2 then gcard_write_n 2 addr (unat data) g
      else if size' = 4 then gcard_write_n 4 addr (unat data) g
      else Inl Ppc_Fatal)"

definition gcard_read :: "uint32 \<Rightarrow> nat \<Rightarrow> gcard \<Rightarrow> cpu_error + uint32" where
  "gcard_read addr size' g =
     (if size' = 1 then and_then (gcard_read_n 1 addr g) (\<lambda>v. Inr (of_nat v))
      else if size' = 2 then and_then (gcard_read_n 2 addr g) (\<lambda>v. Inr (of_nat v))
      else if size' = 4 then and_then (gcard_read_n 4 addr g) (\<lambda>v. Inr (of_nat v))
      else Inl Ppc_Fatal)"

definition gcard_write64 :: "uint32 \<Rightarrow> uint64 \<Rightarrow> gcard \<Rightarrow> cpu_error + gcard" where
  "gcard_write64 addr data g = gcard_write_n 8 addr (unat data) g"

definition gcard_read64 :: "uint32 \<Rightarrow> gcard \<Rightarrow> cpu_error + uint64" where
  "gcard_read64 addr g = and_then (gcard_read_n 8 addr g) (\<lambda>v. Inr (of_nat v))"

text \<open>The bytes of a vector register go to the frame buffer in the guest's order, the high one first.\<close>

definition swap128 :: "128 word \<Rightarrow> 128 word" where
  "swap128 w = of_nat (fb_get 0 16 (\<lambda>i. ucast (drop_bit (8 * (15 - i)) w)))"

definition gcard_write128 :: "uint32 \<Rightarrow> 128 word \<Rightarrow> gcard \<Rightarrow> cpu_error + gcard" where
  "gcard_write128 addr data g = gcard_write_n 16 addr (unat (swap128 data)) g"

definition gcard_read128 :: "uint32 \<Rightarrow> gcard \<Rightarrow> cpu_error + 128 word" where
  "gcard_read128 addr g = and_then (gcard_read_n 16 addr g) (\<lambda>v. Inr (swap128 (of_nat v)))"

definition gcard_raise_interrupt :: "gcard \<Rightarrow> pic \<times> cpu \<Rightarrow> pic \<times> cpu" where
  "gcard_raise_interrupt g s = (if gVBLon g then pic_raise_interrupt IO_PIC_IRQ_GCARD s else s)"

subsection \<open>Modes\<close>

definition dc_fields :: "DisplayCharacteristics \<Rightarrow> int list" where
  "dc_fields c = [dc_width c, dc_height c, bytesPerPixel c, scanLineLength c, vsyncFrequency c, redShift c, redSize c,
     greenShift c, greenSize c, blueShift c, blueSize c]"

fun compare_fields :: "int list \<Rightarrow> int list \<Rightarrow> int" where
  "compare_fields (a # as) (b # bs) = (if a < b then - 1 else if b < a then 1 else compare_fields as bs)"
| "compare_fields _ _ = 0"

definition DisplayCharacteristics_compareTo :: "DisplayCharacteristics comparator" where
  "DisplayCharacteristics_compareTo a b = compare_fields (dc_fields a) (dc_fields b)"

text \<open>\<open>Enumerator::find\<close>: the objects of the array are compared one by one.\<close>

partial_function (option) Enumerator_find_loop :: "('a option \<Rightarrow> bool) \<Rightarrow> 'a Array \<Rightarrow> handle \<Rightarrow> handle option" where
  "Enumerator_find_loop equal' A h =
     (case h of None \<Rightarrow> Some None
      | Some i \<Rightarrow> if equal' (Array_get A h) then Some h else Enumerator_find_loop equal' A (Array_findNext A h))"

definition find_mode :: "DisplayCharacteristics \<Rightarrow> gcard \<Rightarrow> handle option" where
  "find_mode c g =
     Enumerator_find_loop (\<lambda>x. case x of None \<Rightarrow> False | Some d \<Rightarrow> DisplayCharacteristics_compareTo d c = 0)
       (gGraphicModes g) (Array_findFirst (gGraphicModes g))"

definition gcard_supports_characteristic :: "DisplayCharacteristics \<Rightarrow> gcard \<Rightarrow> bool option" where
  "gcard_supports_characteristic c g = map_option (\<lambda>h. h \<noteq> None) (find_mode c g)"

definition gcard_add_characteristic :: "DisplayCharacteristics \<Rightarrow> gcard \<Rightarrow> gcard option" where
  "gcard_add_characteristic c g =
     (case gcard_supports_characteristic c g of
        None \<Rightarrow> None
      | Some True \<Rightarrow> Some g
      | Some False \<Rightarrow> map_option (\<lambda>(h, A). g\<lparr>gGraphicModes := A\<rparr>) (Array_insert (Some c) (gGraphicModes g)))"

definition gcard_finish_characteristic :: "DisplayCharacteristics \<Rightarrow> bool \<times> DisplayCharacteristics" where
  "gcard_finish_characteristic c =
     (if dc_width c = - 1 \<or> dc_height c = - 1 \<or> bytesPerPixel c = - 1 then (False, c)
      else
        (let c = (if vsyncFrequency c = - 1 then c\<lparr>vsyncFrequency := 60\<rparr> else c);
             c = (if scanLineLength c = - 1 then c\<lparr>scanLineLength := dc_width c * bytesPerPixel c\<rparr> else c);
             fill = (\<lambda>rs rz gs gz bs bz c.
                c\<lparr>redShift := (if redShift c = - 1 then rs else redShift c), redSize := (if redSize c = - 1 then rz else redSize c),
                  greenShift := (if greenShift c = - 1 then gs else greenShift c),
                  greenSize := (if greenSize c = - 1 then gz else greenSize c),
                  blueShift := (if blueShift c = - 1 then bs else blueShift c),
                  blueSize := (if blueSize c = - 1 then bz else blueSize c)\<rparr>)
         in if bytesPerPixel c = 2 then (True, fill 10 5 5 5 0 5 c)
            else if bytesPerPixel c = 4 then (True, fill 16 8 8 8 0 8 c)
            else (False, c)))"

definition gcard_set_mode :: "DisplayCharacteristics \<Rightarrow> gcard \<Rightarrow> (bool \<times> gcard) option" where
  "gcard_set_mode mode g =
     (case find_mode mode g of
        None \<Rightarrow> None
      | Some None \<Rightarrow> Some (False, g)
      | Some (Some i) \<Rightarrow> Some (True, g\<lparr>gCurrentGraphicMode := int i\<rparr>))"

definition stdVModes :: "(int \<times> int) list" where
  "stdVModes = [(640, 480), (800, 600), (1024, 768), (1152, 864), (1280, 720), (1280, 768), (1280, 960), (1280, 1024),
     (1360, 768), (1600, 900), (1600, 1024), (1600, 1200)]"

definition std_mode :: "int \<Rightarrow> int \<Rightarrow> int \<Rightarrow> DisplayCharacteristics" where
  "std_mode w h b =
     snd (gcard_finish_characteristic
       \<lparr>dc_width = w, dc_height = h, bytesPerPixel = b, scanLineLength = - 1, vsyncFrequency = - 1, redShift = - 1, redSize = - 1,
        greenShift = - 1, greenSize = - 1, blueShift = - 1, blueSize = - 1\<rparr>)"

fun add_modes :: "DisplayCharacteristics list \<Rightarrow> gcard \<Rightarrow> gcard option" where
  "add_modes [] g = Some g"
| "add_modes (c # cs) g = Option.bind (gcard_add_characteristic c g) (add_modes cs)"

definition gcard_init_modes :: "gcard \<Rightarrow> gcard option" where
  "gcard_init_modes g =
     Option.bind (Array_new True 0) (\<lambda>A.
       add_modes (concat (map (\<lambda>(w, h). [std_mode w h 2, std_mode w h 4]) stdVModes)) (g\<lparr>gGraphicModes := A\<rparr>))"

text \<open>The modes of the host's display that fit into the address range of the frame buffer.\<close>

definition gcard_init_host_modes :: "DisplayCharacteristics list \<Rightarrow> gcard \<Rightarrow> gcard option" where
  "gcard_init_host_modes modes =
     add_modes
       (filter (\<lambda>c. \<not> IO_GCARD_FRAMEBUFFER_PA_END - IO_GCARD_FRAMEBUFFER_PA_START <
                  of_int (scanLineLength c) * of_int (dc_height c))
         (map (\<lambda>c. snd (gcard_finish_characteristic (c\<lparr>vsyncFrequency := - 1\<rparr>))) modes))"

subsection \<open>The calls of the guest's driver\<close>

definition get_mode :: "gcard \<Rightarrow> int \<Rightarrow> cpu_error + DisplayCharacteristics" where
  "get_mode g i =
     (case Array_get (gGraphicModes g) (Array_findByIdx (gGraphicModes g) i) of None \<Rightarrow> Inl Bad_Access | Some c \<Rightarrow> Inr c)"

definition osi_set_vmode :: "(DisplayCharacteristics \<Rightarrow> bool) \<Rightarrow> gcard \<times> cpu \<Rightarrow> cpu_error + gcard \<times> cpu" where
  "osi_set_vmode changeResolution = (\<lambda>(g, c).
     let vmode = gpr c 6 - 1 in
     if of_nat (Array.ecount (gGraphicModes g)) < vmode \<or> gpr c 7 \<noteq> 0 then Inr (g, write_gpr 3 1 c)
     else
       and_then (get_mode g (sint vmode)) (\<lambda>chr.
         if changeResolution chr then
           (case gcard_set_mode chr g of
              None \<Rightarrow> Inl Endless
            | Some (ok, g) \<Rightarrow> Inr (g, write_gpr 3 0 c))
         else Inr (g, write_gpr 3 1 c)))"

definition osi_get_vmode_info :: "gcard \<times> cpu \<Rightarrow> cpu_error + gcard \<times> cpu" where
  "osi_get_vmode_info = (\<lambda>(g, c).
     let n = int (Array.ecount (gGraphicModes g)); vmode = sint (gpr c 6 - 1) in
     and_then
       (if vmode = - 1 then and_then (get_mode g (gCurrentGraphicMode g)) (\<lambda>_. Inr (gCurrentGraphicMode g)) else Inr vmode)
       (\<lambda>vmode.
         if n < vmode \<or> vmode < 0 then Inr (g, write_gpr 3 1 c)
         else
           and_then (get_mode g vmode) (\<lambda>chr.
             let c = write_gpr 3 0 c;
                 c = write_gpr 4 (push_bit 16 (of_int n) OR of_int (vmode + 1)) c;
                 c = write_gpr 5 (push_bit 16 1 OR 0) c;
                 c = write_gpr 6 (push_bit 16 (of_int (dc_width chr)) OR of_int (dc_height chr)) c;
                 c = write_gpr 7 (push_bit 16 (of_int (vsyncFrequency chr))) c;
                 c = write_gpr 8 (of_int (bytesPerPixel chr * 8)) c;
                 c = write_gpr 9 (push_bit 16 (of_int (scanLineLength chr)) OR 0) c
             in Inr (g, c))))"

definition MK_RGB :: "uint32 \<Rightarrow> uint32 \<Rightarrow> uint32 \<Rightarrow> uint32" where
  "MK_RGB r g b = r OR push_bit 8 g OR push_bit 16 b"

definition setColor :: "int \<Rightarrow> uint32 \<Rightarrow> gcard \<Rightarrow> gcard" where
  "setColor idx color g = (if 0 \<le> idx \<and> idx < 256 then g\<lparr>palette := (palette g)(nat idx := color)\<rparr> else g)"

definition getColor :: "int \<Rightarrow> gcard \<Rightarrow> uint32" where
  "getColor idx g = (if 0 \<le> idx \<and> idx < 256 then palette g (nat idx) else 0)"

definition gcard_osi :: "(DisplayCharacteristics \<Rightarrow> bool) \<Rightarrow> gcard \<times> cpu \<Rightarrow> cpu_error + gcard \<times> cpu" where
  "gcard_osi changeResolution s =
     (let (g, c) = s; func = gpr c 5 in
      if func = 4 then Inr s
      else if func = 28 then osi_set_vmode changeResolution s
      else if func = 29 then osi_get_vmode_info s
      else if func = 31 then Inr (g, write_gpr 3 0 c)
      else if func = 39 then
        (if gpr c 6 = 0 then Inr (g\<lparr>gVBLon := False\<rparr>, write_gpr 3 0 c)
         else if gpr c 6 = 1 then Inr (g\<lparr>gVBLon := True\<rparr>, write_gpr 3 0 c)
         else Inl Ppc_Fatal)
      else if func = 47 then Inr s
      else if func = 59 then
        (let r7 = gpr c 7 in
         Inr (setColor (sint (gpr c 6)) (MK_RGB (drop_bit 16 r7 AND 0xff) (drop_bit 8 r7 AND 0xff) (r7 AND 0xff)) g, write_gpr 3 0 c))
      else if func = 64 then
        (let x = getColor (sint (gpr c 6)) g in
         Inr (g, write_gpr 3 (push_bit 16 (x AND 0xff) OR push_bit 8 (drop_bit 8 x AND 0xff) OR (drop_bit 16 x AND 0xff)) c))
      else if func = 116 then Inr (g\<lparr>mHWCursor := (gpr c 6, gpr c 7, gpr c 8 \<noteq> 0)\<rparr>, c)
      else Inl Ppc_Fatal)"

end
