(* ===== verification/Io_Gcard_Props.thy ===== *)
theory Io_Gcard_Props
  imports Io_Gcard
begin

text \<open>The list of modes of the graphics card and the calls of the guest's driver that use it.\<close>

unbundle bit_operations_syntax

subsection \<open>Searching an array\<close>

lemma Array_get_contents: "i < Array.ecount A \<Longrightarrow> Array_ok A \<Longrightarrow> Array_get A (Some i) = contents A ! i"
  by (simp add: Array_get_def contents_def)

lemma find_from:
  "Array_ok A \<Longrightarrow> i < Array.ecount A \<Longrightarrow>
     Enumerator_find_loop P A (Some i) = Some (find (\<lambda>j. P (contents A ! j)) [i..<Array.ecount A])"
proof (induction "Array.ecount A - i" arbitrary: i)
  case (Suc n)
  have c: "[i..<Array.ecount A] = i # [Suc i..<Array.ecount A]" using Suc.prems by (simp add: upt_conv_Cons)
  show ?case
  proof (cases "Suc i < Array.ecount A")
    case True
    have n: "Array_findNext A (Some i) = Some (Suc i)" using True Suc.prems by (auto simp: Array_findNext_def validHandle_def)
    show ?thesis using Suc.hyps(1)[of "Suc i"] Suc.hyps(2) Suc.prems True
      by (subst Enumerator_find_loop.simps) (simp add: c n Array_get_contents)
  next
    case False
    then have n: "Array_findNext A (Some i) = None" using Suc.prems by (auto simp: Array_findNext_def validHandle_def)
    have "Enumerator_find_loop P A None = Some None" by (subst Enumerator_find_loop.simps) simp
    then show ?thesis using Suc.prems False by (subst Enumerator_find_loop.simps) (simp add: c n Array_get_contents)
  qed
qed simp

lemma Enumerator_find:
  "Array_ok A \<Longrightarrow> Enumerator_find_loop P A (Array_findFirst A) = Some (find (\<lambda>j. P (contents A ! j)) [0..<Array.ecount A])"
  using find_from[of A 0 P] by (cases "Array.ecount A = 0") (auto simp: Array_findFirst_def Enumerator_find_loop.simps)

lemma compare_fields_0: "length xs = length ys \<Longrightarrow> compare_fields xs ys = 0 \<longleftrightarrow> xs = ys"
  by (induction xs ys rule: compare_fields.induct) auto

lemma compare_modes: "DisplayCharacteristics_compareTo a b = 0 \<longleftrightarrow> a = b"
  using compare_fields_0[of "dc_fields a" "dc_fields b"]
  by (auto simp: DisplayCharacteristics_compareTo_def dc_fields_def)

subsection \<open>The list of modes\<close>

definition modes_ok :: "gcard \<Rightarrow> bool" where
  "modes_ok g \<longleftrightarrow> Array_ok (gGraphicModes g) \<and> distinct (contents (gGraphicModes g)) \<and> None \<notin> set (contents (gGraphicModes g))"

definition mode_list :: "gcard \<Rightarrow> DisplayCharacteristics list" where
  "mode_list g = map the (contents (gGraphicModes g))"

lemma modes_contents: "modes_ok g \<Longrightarrow> contents (gGraphicModes g) = map Some (mode_list g)"
proof -
  assume "modes_ok g"
  then have "None \<notin> set (contents (gGraphicModes g))" by (simp add: modes_ok_def)
  then have "map (\<lambda>x. Some (the x)) (contents (gGraphicModes g)) = contents (gGraphicModes g)"
    by (intro map_idI) (metis option.collapse)
  then show ?thesis by (simp add: mode_list_def comp_def)
qed

lemma modes_okD:
  assumes "modes_ok g"
  shows "Array_ok (gGraphicModes g)" "distinct (map Some (mode_list g))" "Array.ecount (gGraphicModes g) = length (mode_list g)"
proof -
  show "Array_ok (gGraphicModes g)" using assms by (simp add: modes_ok_def)
  show "distinct (map Some (mode_list g))" unfolding modes_contents[OF assms, symmetric] using assms by (simp add: modes_ok_def)
  show "Array.ecount (gGraphicModes g) = length (mode_list g)"
    using assms by (simp add: mode_list_def modes_ok_def contents_def Array_ok_def)
qed

lemma distinct_modes: "modes_ok g \<Longrightarrow> distinct (mode_list g)"
  using modes_okD(2)[of g] by (simp add: distinct_map)

lemma modes_okI:
  "Array_ok A \<Longrightarrow> contents A = map Some ms \<Longrightarrow> distinct ms \<Longrightarrow>
     modes_ok (g\<lparr>gGraphicModes := A\<rparr>) \<and> mode_list (g\<lparr>gGraphicModes := A\<rparr>) = ms"
  by (auto simp: modes_ok_def mode_list_def distinct_map comp_def)

lemma find_index:
  "find (\<lambda>j. xs ! j = c) [0..<length xs] = None \<longleftrightarrow> c \<notin> set xs"
  by (auto simp: find_None_iff in_set_conv_nth)

lemma find_index_distinct: "distinct xs \<Longrightarrow> i < length xs \<Longrightarrow> find (\<lambda>j. xs ! j = xs ! i) [0..<length xs] = Some i"
  by (rule find_only) (auto simp: nth_eq_iff_index_eq)

lemma find_mode_index:
  assumes "modes_ok g"
  shows "find_mode c g = Some (find (\<lambda>j. mode_list g ! j = c) [0..<length (mode_list g)])"
proof -
  have "find_mode c g = Some (find (\<lambda>j. case map Some (mode_list g) ! j of None \<Rightarrow> False | Some d \<Rightarrow> d = c) [0..<length (mode_list g)])"
    unfolding find_mode_def Enumerator_find[OF modes_okD(1)[OF assms]] modes_contents[OF assms] modes_okD(3)[OF assms] compare_modes ..
  also have "find (\<lambda>j. case map Some (mode_list g) ! j of None \<Rightarrow> False | Some d \<Rightarrow> d = c) [0..<length (mode_list g)] =
      find (\<lambda>j. mode_list g ! j = c) [0..<length (mode_list g)]"
    by (rule find_cong) simp_all
  finally show ?thesis .
qed

lemma add_characteristic_ok:
  assumes "modes_ok g" "acount (gGraphicModes g) \<le> SAFE_SLOTS"
  shows "\<exists>g'. gcard_add_characteristic c g = Some g' \<and> modes_ok g' \<and>
    acount (gGraphicModes g') \<le> acount (gGraphicModes g) + 65536 \<and>
    mode_list g' = (if c \<in> set (mode_list g) then mode_list g else mode_list g @ [c])"
proof (cases "find (\<lambda>j. mode_list g ! j = c) [0..<length (mode_list g)]")
  case None
  then have new: "c \<notin> set (mode_list g)" using find_index by metis
  obtain A where A: "Array_insert (Some c) (gGraphicModes g) = Some (Some (Array.ecount (gGraphicModes g)), A)" "Array_ok A"
    "contents A = contents (gGraphicModes g) @ [Some c]" "acount A \<le> acount (gGraphicModes g) + 65536"
    using insert_contents[OF modes_okD(1)[OF assms(1)] assms(2)] by blast
  have "gcard_add_characteristic c g = Some (g\<lparr>gGraphicModes := A\<rparr>)"
    using A(1) None by (simp add: gcard_add_characteristic_def gcard_supports_characteristic_def find_mode_index[OF assms(1)])
  moreover have ms: "contents A = map Some (mode_list g @ [c])" using A(3) modes_contents[OF assms(1)] by simp
  have "modes_ok (g\<lparr>gGraphicModes := A\<rparr>)" "mode_list (g\<lparr>gGraphicModes := A\<rparr>) = mode_list g @ [c]"
    using modes_okI[OF A(2) ms, of g] new distinct_modes[OF assms(1)] by simp_all
  ultimately show ?thesis using new A(4) by auto
next
  case (Some i)
  then have "c \<in> set (mode_list g)" using find_index by (metis option.distinct(1))
  then show ?thesis using assms(1) Some
    by (simp add: gcard_add_characteristic_def gcard_supports_characteristic_def find_mode_index[OF assms(1)])
qed

lemma add_modes_ok:
  "modes_ok g \<Longrightarrow> acount (gGraphicModes g) + 65536 * length cs \<le> SAFE_SLOTS \<Longrightarrow>
     \<exists>g'. add_modes cs g = Some g' \<and> modes_ok g' \<and> set (mode_list g') = set (mode_list g) \<union> set cs"
proof (induction cs arbitrary: g)
  case (Cons c cs)
  obtain g1 where "gcard_add_characteristic c g = Some g1" "modes_ok g1"
    "acount (gGraphicModes g1) \<le> acount (gGraphicModes g) + 65536"
    "mode_list g1 = (if c \<in> set (mode_list g) then mode_list g else mode_list g @ [c])"
    using add_characteristic_ok[of g] Cons.prems by fastforce
  then show ?case using Cons.IH[of g1] Cons.prems(2) by (auto split: if_splits)
qed simp

lemma init_modes_ok:
  "\<exists>g'. gcard_init_modes g = Some g' \<and> modes_ok g' \<and>
     set (mode_list g') = set (concat (map (\<lambda>(w, h). [std_mode w h 2, std_mode w h 4]) stdVModes))"
proof -
  obtain A :: "DisplayCharacteristics Array" where A: "Array_new True 0 = Some A" "Array_ok A" "contents A = []" "acount A = 1"
    using Array_new_ok[of True 0] by auto
  then have "modes_ok (g\<lparr>gGraphicModes := A\<rparr>)" "mode_list (g\<lparr>gGraphicModes := A\<rparr>) = []" by (simp_all add: modes_ok_def mode_list_def)
  then show ?thesis using add_modes_ok[of "g\<lparr>gGraphicModes := A\<rparr>" "concat (map (\<lambda>(w, h). [std_mode w h 2, std_mode w h 4]) stdVModes)"]
    A(4)
    unfolding gcard_init_modes_def A(1) by (simp add: SAFE_SLOTS_def stdVModes_def)
qed

lemma get_mode_nth:
  assumes "modes_ok g" "i < length (mode_list g)"
  shows "get_mode g (int i) = Inr (mode_list g ! i)"
  using assms(2) modes_okD(1,3)[OF assms(1)]
  by (simp add: get_mode_def Array_findByIdx_def validHandle_def Array_get_contents modes_contents[OF assms(1)])

lemma get_mode_outside:
  assumes "modes_ok g" "\<not> (0 \<le> i \<and> i < int (length (mode_list g)))"
  shows "get_mode g i = Inl Bad_Access"
  using assms(2) modes_okD(3)[OF assms(1)]
  by (auto simp: get_mode_def Array_findByIdx_def validHandle_def Array_get_def)

subsection \<open>The driver's calls\<close>

definition vmode_info :: "gcard \<Rightarrow> nat \<Rightarrow> cpu \<Rightarrow> cpu" where
  "vmode_info g i c =
     (let chr = mode_list g ! i in
      c\<lparr>gpr := (gpr c)(3 := 0, 4 := push_bit 16 (of_nat (length (mode_list g))) OR of_int (int i + 1), 5 := push_bit 16 1 OR 0,
          6 := push_bit 16 (of_int (dc_width chr)) OR of_int (dc_height chr), 7 := push_bit 16 (of_int (vsyncFrequency chr)),
          8 := of_int (bytesPerPixel chr * 8), 9 := push_bit 16 (of_int (scanLineLength chr)) OR 0)\<rparr>)"

lemma sint_small: "n < 2 ^ 31 \<Longrightarrow> sint (of_nat n :: uint32) = int n"
  by (simp add: signed_take_bit_int_eq_self signed_of_nat)

lemma get_info:
  assumes "modes_ok g" "i < length (mode_list g)" "length (mode_list g) < 2 ^ 30"
    and "gpr c 6 = of_nat (i + 1) \<or> gpr c 6 = 0 \<and> gCurrentGraphicMode g = int i"
  shows "osi_get_vmode_info (g, c) = Inr (g, vmode_info g i c)"
proof -
  have n: "int (Array.ecount (gGraphicModes g)) = int (length (mode_list g))" using modes_okD(3)[OF assms(1)] by simp
  have w: "write_gpr 9 v9 (write_gpr 8 v8 (write_gpr 7 v7 (write_gpr 6 v6 (write_gpr 5 v5 (write_gpr 4 v4 (write_gpr 3 v3 c)))))) =
      c\<lparr>gpr := (gpr c)(3 := v3, 4 := v4, 5 := v5, 6 := v6, 7 := v7, 8 := v8, 9 := v9)\<rparr>" for v3 v4 v5 v6 v7 v8 v9
    by (simp add: write_gpr_def)
  show ?thesis using assms(4)
  proof
    assume "gpr c 6 = of_nat (i + 1)"
    then have "sint (gpr c 6 - 1) = int i" using sint_small[of i] assms(2,3) by simp
    then show ?thesis using assms(2) get_mode_nth[OF assms(1,2)]
      by (simp add: osi_get_vmode_info_def n w vmode_info_def Let_def)
  next
    assume z: "gpr c 6 = 0 \<and> gCurrentGraphicMode g = int i"
    then show ?thesis using assms(2) get_mode_nth[OF assms(1,2)]
      by (simp add: osi_get_vmode_info_def n w vmode_info_def Let_def)
  qed
qed

text \<open>C16: A mode of the list can be set: if the host takes the resolution, \<open>set_vmode\<close> makes it the current one, and
  \<open>get_vmode_info\<close> tells the driver the same of the current mode as of the mode by its number, the size of it and that of
  the list.  The list never has two equal modes, so that the number is the right one.\<close>

theorem gcard_mode_set:
  assumes "modes_ok g" "i < length (mode_list g)" "length (mode_list g) < 2 ^ 30"
    and "gpr c 6 = of_nat (i + 1)" "gpr c 7 = 0" "changeResolution (mode_list g ! i)"
  shows "\<exists>g' c'. osi_set_vmode changeResolution (g, c) = Inr (g', c') \<and> modes_ok g' \<and> gpr c' 3 = 0 \<and>
    osi_get_vmode_info (g', c'\<lparr>gpr := (gpr c')(6 := 0)\<rparr>) = Inr (g', vmode_info g i c') \<and>
    osi_get_vmode_info (g', c') = Inr (g', vmode_info g i c')"
proof -
  have l: "of_nat (Array.ecount (gGraphicModes g)) = (of_nat (length (mode_list g)) :: uint32)" using modes_okD(3)[OF assms(1)] by simp
  have v: "gpr c 6 - 1 = of_nat i" "sint (gpr c 6 - 1) = int i" using assms(2-4) sint_small[of i] by simp_all
  have "\<not> (of_nat (length (mode_list g)) :: uint32) < of_nat i"
    using assms(2,3) by (simp add: word_less_nat_alt unat_of_nat take_bit_nat_eq_self)
  moreover have "find_mode (mode_list g ! i) g = Some (Some i)"
    unfolding find_mode_index[OF assms(1)] using find_index_distinct[OF distinct_modes[OF assms(1)] assms(2)] by simp
  ultimately have run: "osi_set_vmode changeResolution (g, c) = Inr (g\<lparr>gCurrentGraphicMode := int i\<rparr>, write_gpr 3 0 c)"
    using get_mode_nth[OF assms(1,2)] assms(5,6) v by (simp add: osi_set_vmode_def gcard_set_mode_def l)
  let ?g = "g\<lparr>gCurrentGraphicMode := int i\<rparr>"
  have g: "modes_ok ?g" "mode_list ?g = mode_list g" using assms(1) by (simp_all add: modes_ok_def mode_list_def)
  have i: "vmode_info ?g i d = vmode_info g i d" "vmode_info g i (d\<lparr>gpr := (gpr d)(6 := 0)\<rparr>) = vmode_info g i d" for d
  proof -
    have f: "(h(6 := 0))(3 := v3, 4 := v4, 5 := v5, 6 := v6, 7 := v7, 8 := v8, 9 := v9) =
        h(3 := v3, 4 := v4, 5 := v5, 6 := v6, 7 := v7, 8 := v8, 9 := v9)" for h :: "nat \<Rightarrow> uint32" and v3 v4 v5 v6 v7 v8 v9
      by (rule ext) simp
    have u: "e\<lparr>gpr := a, gpr := b\<rparr> = e\<lparr>gpr := b\<rparr>" "gpr (e\<lparr>gpr := a\<rparr>) = a" for e :: cpu and a b by simp_all
    show "vmode_info ?g i d = vmode_info g i d" by (simp add: vmode_info_def g(2) Let_def)
    show "vmode_info g i (d\<lparr>gpr := (gpr d)(6 := 0)\<rparr>) = vmode_info g i d" by (simp only: vmode_info_def Let_def u f)
  qed
  define d where "d = write_gpr 3 0 c"
  have d: "gpr d 3 = 0" "gpr d 6 = of_nat (i + 1)" using assms(4) by (simp_all add: d_def write_gpr_def)
  have "osi_get_vmode_info (?g, d\<lparr>gpr := (gpr d)(6 := 0)\<rparr>) = Inr (?g, vmode_info g i d)"
    "osi_get_vmode_info (?g, d) = Inr (?g, vmode_info g i d)"
    using get_info[OF g(1), of i "d\<lparr>gpr := (gpr d)(6 := 0)\<rparr>"] get_info[OF g(1), of i d] assms(2,3) d(2)
    by (simp_all add: g(2) i)
  then show ?thesis using run g(1) d(1) by (auto simp: d_def[symmetric])
qed

text \<open>The number behind the last mode passes the range tests of both calls, and the code follows a null pointer: the
  guest's driver can end the emulator with it.\<close>

theorem gcard_mode_off_by_one:
  assumes "modes_ok g" "length (mode_list g) < 2 ^ 30" "gpr c 6 = of_nat (length (mode_list g) + 1)" "gpr c 7 = 0"
  shows "osi_set_vmode changeResolution (g, c) = Inl Bad_Access \<and> osi_get_vmode_info (g, c) = Inl Bad_Access"
proof -
  let ?n = "length (mode_list g)"
  have l: "Array.ecount (gGraphicModes g) = ?n" using modes_okD(3)[OF assms(1)] .
  have v: "gpr c 6 - 1 = of_nat ?n" "sint (gpr c 6 - 1) = int ?n" using assms(2,3) sint_small[of ?n] by simp_all
  have "get_mode g (int ?n) = Inl Bad_Access" using get_mode_outside[OF assms(1)] by simp
  then show ?thesis using v assms(4) by (simp add: osi_set_vmode_def osi_get_vmode_info_def l)
qed

definition sample_gcard :: gcard where
  "sample_gcard = \<lparr>gFrameBuffer = (\<lambda>_. 0), gFrameBufferSize = 0x12c000, gDamageAreaFirstAddr = 0xffffff0, gDamageAreaLastAddr = 0,
     gVBLon = False, gCurrentGraphicMode = 0,
     gGraphicModes = \<lparr>own_objects = True, elems = [Some (std_mode 640 480 2), Some (std_mode 640 480 4), None, None], Array.ecount = 2\<rparr>,
     palette = (\<lambda>_. 0), mHWCursor = (0, 0, False)\<rparr>"

lemma sample_modes: "modes_ok sample_gcard" "mode_list sample_gcard = [std_mode 640 480 2, std_mode 640 480 4]"
  by (simp_all add: modes_ok_def mode_list_def sample_gcard_def Array_ok_def contents_def std_mode_def gcard_finish_characteristic_def)

theorem gcard_mode_set_witness:
  "\<exists>g' c'. osi_set_vmode (\<lambda>_. True) (sample_gcard, (ppc_cpu_init 0)\<lparr>gpr := (\<lambda>_. 0)(6 := 2)\<rparr>) = Inr (g', c') \<and> gpr c' 3 = 0"
  using gcard_mode_set[of sample_gcard 1 "(ppc_cpu_init 0)\<lparr>gpr := (\<lambda>_. 0)(6 := 2)\<rparr>" "\<lambda>_. True"] sample_modes by auto

theorem gcard_mode_off_by_one_witness:
  "osi_get_vmode_info (sample_gcard, (ppc_cpu_init 0)\<lparr>gpr := (\<lambda>_. 0)(6 := 3)\<rparr>) = Inl Bad_Access"
  using gcard_mode_off_by_one[of sample_gcard "(ppc_cpu_init 0)\<lparr>gpr := (\<lambda>_. 0)(6 := 3)\<rparr>" "\<lambda>_. True"] sample_modes by auto

end
