(* ===== verification/Io_Bus.thy ===== *)
theory Io_Bus
  imports Io_Gcard Io_Cuda_Protocol Io_Nvram Ppc_Vec_Mem
begin

text \<open>
  src/io/io.h and io.cc: which device answers at a physical address.  The state of all devices is the \<open>io\<close> component of
  the machine, and the functions here fill the record \<open>bus\<close> that the memory management of the CPU calls.
  \<open>ppc_machine_check_exception\<close> of the interpreter and \<open>IO_CORE_ERR\<close> are \<open>ppc_fatal\<close>; \<open>IO_MEM_ACCESS_OK\<close>, \<open>EXC\<close> and
  \<open>FATAL\<close> have the values of \<open>PPC_MMU_OK\<close>, \<open>EXC\<close> and \<open>FATAL\<close>.
\<close>

record 'o io_state =
  io_pic :: pic
  io_cuda :: cuda_control
  io_cuda_env :: cuda_env
  io_nvram :: "uint8 list"
  io_pci :: "'o device pci"
  io_gcard :: gcard
  gIOReadReplay :: bool
  gIOReadCacheAddr :: uint32
  gIOReadCacheData :: uint32
  gIOReadCacheValid :: bool

type_synonym 'o machine = "'o io_state mach"

text \<open>The classes of the devices from outside; a device acts on the rest of the machine.\<close>

type_synonym 'o outside = "'o \<Rightarrow> ('o dev_class, 'o machine) PCI_virtual"

definition in_range :: "uint32 \<Rightarrow> uint32 \<Rightarrow> uint32 \<Rightarrow> bool" where
  "in_range a s e \<longleftrightarrow> s \<le> a \<and> a < e"

definition put_pic :: "pic \<times> cpu \<Rightarrow> 'o machine \<Rightarrow> 'o machine" where
  "put_pic s m = m\<lparr>mcpu := snd s, io := (io m)\<lparr>io_pic := fst s\<rparr>\<rparr>"

definition put_cuda :: "cuda_io \<Rightarrow> 'o machine \<Rightarrow> 'o machine" where
  "put_cuda s m = put_pic (snd s) (m\<lparr>io := (io m)\<lparr>io_cuda := fst s\<rparr>\<rparr>)"

definition put_pci :: "('o dev_class, 'o machine) pci_state \<Rightarrow> 'o machine" where
  "put_pci s = (snd s)\<lparr>io := (io (snd s))\<lparr>io_pci := fst s\<rparr>\<rparr>"

abbreviation cuda_of :: "'o machine \<Rightarrow> cuda_io" where
  "cuda_of m \<equiv> (io_cuda (io m), io_pic (io m), mcpu m)"

text \<open>The handle of an absent device in a search is a device of the base class.\<close>

definition io_mem_write_impl :: "'o outside \<Rightarrow> uint32 \<Rightarrow> uint32 \<Rightarrow> uint32 \<Rightarrow> nat \<Rightarrow> 'o machine \<Rightarrow> cpu_error + mmu_ret \<times> 'o machine" where
  "io_mem_write_impl W junk addr data size' m =
     (let ok = (\<lambda>m. Inr (PPC_MMU_OK, m)); V = pci_classes W junk in
      if in_range addr IO_GCARD_FRAMEBUFFER_PA_START IO_GCARD_FRAMEBUFFER_PA_END then
        and_then (gcard_write addr data size' (io_gcard (io m))) (\<lambda>g. ok (m\<lparr>io := (io m)\<lparr>io_gcard := g\<rparr>\<rparr>))
      else if in_range addr IO_PCI_PA_START IO_PCI_PA_END then
        and_then (pci_write V C_Bridge addr data size' (io_pci (io m), m)) (\<lambda>s. ok (put_pci s))
      else if in_range addr IO_PIC_PA_START IO_PIC_PA_END then
        and_then (pic_write addr data (io_pic (io m), mcpu m)) (\<lambda>s. ok (put_pic s m))
      else if in_range addr IO_CUDA_PA_START IO_CUDA_PA_END then
        and_then (cuda_write (io_cuda_env (io m)) addr data (cuda_of m)) (\<lambda>s. ok (put_cuda s m))
      else if in_range addr IO_NVRAM_PA_START IO_NVRAM_PA_END then
        and_then (nvram_write addr data size' (io_nvram (io m))) (\<lambda>f. ok (m\<lparr>io := (io m)\<lparr>io_nvram := f\<rparr>\<rparr>))
      else if in_range addr IO_PCI_DEVICE_PA_START IO_PCI_DEVICE_PA_END then
        and_then (pci_write_device V addr data size' (io_pci (io m), m)) (\<lambda>(b, s). ok (put_pci s))
      else if in_range addr IO_ISA_PA_START IO_ISA_PA_END then
        and_then (isa_write V addr data size' (io_pci (io m), m)) (\<lambda>(b, s). ok (put_pci s))
      else Inl Ppc_Fatal)"

definition io_write :: "'o outside \<Rightarrow> uint32 \<Rightarrow> uint32 \<Rightarrow> uint32 \<Rightarrow> nat \<Rightarrow> 'o machine \<Rightarrow> cpu_error + mmu_ret \<times> 'o machine" where
  "io_write W junk addr data size' m =
     (if gIOReadReplay (io m) then Inr (PPC_MMU_OK, m) else io_mem_write_impl W junk addr data size' m)"

definition io_mem_read_impl :: "'o outside \<Rightarrow> uint32 \<Rightarrow> uint32 \<Rightarrow> nat \<Rightarrow> 'o machine \<Rightarrow> cpu_error + (mmu_ret \<times> uint32) \<times> 'o machine" where
  "io_mem_read_impl W junk addr size' m =
     (let ok = (\<lambda>data m. Inr ((PPC_MMU_OK, data), m)); V = pci_classes W junk in
      if in_range addr IO_GCARD_FRAMEBUFFER_PA_START IO_GCARD_FRAMEBUFFER_PA_END then
        and_then (gcard_read addr size' (io_gcard (io m))) (\<lambda>data. ok data m)
      else if in_range addr IO_PCI_PA_START IO_PCI_PA_END then
        and_then (pci_read addr size' (io_pci (io m))) (\<lambda>data. ok data m)
      else if in_range addr IO_PIC_PA_START IO_PIC_PA_END then
        and_then (pic_read addr (io_pic (io m))) (\<lambda>data. ok data m)
      else if in_range addr IO_CUDA_PA_START IO_CUDA_PA_END then
        and_then (cuda_read (io_cuda_env (io m)) addr (io_cuda (io m))) (\<lambda>(data, g). ok data (m\<lparr>io := (io m)\<lparr>io_cuda := g\<rparr>\<rparr>))
      else if in_range addr IO_NVRAM_PA_START IO_NVRAM_PA_END then
        and_then (nvram_read addr size' (io_nvram (io m))) (\<lambda>data. ok data m)
      else if addr = 0xff000004 then ok 1 m
      else if in_range addr IO_PCI_DEVICE_PA_START IO_PCI_DEVICE_PA_END then
        and_then (pci_read_device V addr size' (io_pci (io m), m)) (\<lambda>((b, data), s). ok data (put_pci s))
      else if in_range addr IO_ISA_PA_START IO_ISA_PA_END then
        and_then (isa_read V addr size' (io_pci (io m), m)) (\<lambda>((b, data), s). ok data (put_pci s))
      else Inl Ppc_Fatal)"

definition io_read :: "'o outside \<Rightarrow> uint32 \<Rightarrow> uint32 \<Rightarrow> nat \<Rightarrow> 'o machine \<Rightarrow> cpu_error + (mmu_ret \<times> uint32) \<times> 'o machine" where
  "io_read W junk addr size' m =
     (if gIOReadReplay (io m) \<and> 0x80000000 \<le> addr then
        Inr ((PPC_MMU_OK, if gIOReadCacheValid (io m) \<and> gIOReadCacheAddr (io m) = addr then gIOReadCacheData (io m) else 0), m)
      else
        and_then (io_mem_read_impl W junk addr size' m) (\<lambda>((r, data), m).
          Inr ((r, data),
            if r = PPC_MMU_OK \<and> \<not> gIOReadReplay (io m)
            then m\<lparr>io := (io m)\<lparr>gIOReadCacheAddr := addr, gIOReadCacheData := data, gIOReadCacheValid := True\<rparr>\<rparr> else m)))"

definition io_write64 :: "uint32 \<Rightarrow> uint64 \<Rightarrow> 'o machine \<Rightarrow> cpu_error + mmu_ret \<times> 'o machine" where
  "io_write64 addr data m =
     (if in_range addr IO_GCARD_FRAMEBUFFER_PA_START IO_GCARD_FRAMEBUFFER_PA_END
      then and_then (gcard_write64 addr data (io_gcard (io m))) (\<lambda>g. Inr (PPC_MMU_OK, m\<lparr>io := (io m)\<lparr>io_gcard := g\<rparr>\<rparr>))
      else Inl Ppc_Fatal)"

definition io_read64 :: "uint32 \<Rightarrow> 'o machine \<Rightarrow> cpu_error + (mmu_ret \<times> uint64) \<times> 'o machine" where
  "io_read64 addr m =
     (if in_range addr IO_GCARD_FRAMEBUFFER_PA_START IO_GCARD_FRAMEBUFFER_PA_END
      then and_then (gcard_read64 addr (io_gcard (io m))) (\<lambda>data. Inr ((PPC_MMU_OK, data), m))
      else Inl Ppc_Fatal)"

definition io_write128 :: "uint32 \<Rightarrow> 128 word \<Rightarrow> 'o machine \<Rightarrow> cpu_error + mmu_ret \<times> 'o machine" where
  "io_write128 addr data m =
     (if in_range addr IO_GCARD_FRAMEBUFFER_PA_START IO_GCARD_FRAMEBUFFER_PA_END
      then and_then (gcard_write128 addr data (io_gcard (io m))) (\<lambda>g. Inr (PPC_MMU_OK, m\<lparr>io := (io m)\<lparr>io_gcard := g\<rparr>\<rparr>))
      else Inl Ppc_Fatal)"

definition io_read128 :: "uint32 \<Rightarrow> 'o machine \<Rightarrow> cpu_error + (mmu_ret \<times> 128 word) \<times> 'o machine" where
  "io_read128 addr m =
     (if in_range addr IO_GCARD_FRAMEBUFFER_PA_START IO_GCARD_FRAMEBUFFER_PA_END
      then and_then (gcard_read128 addr (io_gcard (io m))) (\<lambda>data. Inr ((PPC_MMU_OK, data), m))
      else Inl Ppc_Fatal)"

definition io_bus :: "'o outside \<Rightarrow> uint32 \<Rightarrow> 'o io_state bus" where
  "io_bus W junk =
     \<lparr>io_mem_read = io_read W junk, io_mem_write = io_write W junk, io_mem_read64 = io_read64, io_mem_write64 = io_write64\<rparr>"

definition io_bus128 :: "'o io_state bus128" where
  "io_bus128 = \<lparr>io_mem_read128 = io_read128, io_mem_write128 = io_write128\<rparr>"

end
