(* ===== verification/Io_Fb.thy ===== *)
theory Io_Fb
  imports Io_Bus Ppc_Store
begin

text \<open>
  The graphics card's frame buffer on the bus: the byte swaps of the CPU's accesses and the byte order of the card's
  accesses cancel, so that the guest sees the frame buffer as big-endian memory.
\<close>

unbundle bit_operations_syntax

lemma fb_put_out: "x < a \<or> a + n \<le> x \<Longrightarrow> fb_put a n v M x = M x"
  by (induction a n v M rule: fb_put.induct) auto

lemma fb_put_byte: "i < n \<Longrightarrow> fb_put a n v M (a + i) = of_nat (v div 256 ^ i)"
proof (induction n arbitrary: a v M i)
  case (Suc n)
  show ?case
  proof (cases i)
    case 0
    then show ?thesis by (simp add: fb_put_out)
  next
    case (Suc j)
    then show ?thesis using Suc.IH[of j "a + 1" "v div 256"] Suc.prems by (simp add: div_mult2_eq)
  qed
qed simp

lemma fb_get_put: "fb_get a n (fb_put a n v M) = v mod 256 ^ n"
  proof (induction n arbitrary: a v M)
  case (Suc n)
  have "unat (fb_put a (Suc n) v M a) = v mod 256" by (simp add: fb_put_out unat_of_nat)
  then show ?case using Suc[of "a + 1" "v div 256" "M(a := of_nat v)"] by (simp add: mod_mult2_eq del: fun_upd_apply)
qed simp

lemma byte_of: "(of_nat (unat w div 256 ^ i) :: uint8) = ucast (drop_bit (8 * i) w)"
proof -
  have "unat (drop_bit (8 * i) w) = unat w div 256 ^ i"
    unfolding unat_drop_bit_eq by (simp add: drop_bit_eq_div power_mult)
  then show ?thesis using of_nat_unat[of "drop_bit (8 * i) w", where ?'a = uint8] by simp
qed

lemma fb_put_mem_put:
  assumes "\<And>i. i < n \<Longrightarrow> (ucast (drop_bit (8 * i) w) :: uint8) = ucast (drop_bit (8 * (n - Suc i)) v)"
  shows "fb_put a n (unat w) M = mem_put M a n (unat v)"
proof (rule mem_put_cong_out[of a n])
  fix x :: nat assume "x < a \<or> a + n \<le> x"
  then show "fb_put a n (unat w) M x = mem_put M a n (unat v) x" by (simp add: fb_put_out)
next
  fix i assume "i < n"
  then show "fb_put a n (unat w) M (a + i) = mem_put M a n (unat v) (a + i)"
    by (simp only: fb_put_byte mem_put_byte byte_of assms)
qed

lemma less4: "i < (4::nat) \<Longrightarrow> i = 0 \<or> i = 1 \<or> i = 2 \<or> i = 3"
  by linarith

lemma bswap_half_bytes:
  "i < 2 \<Longrightarrow> (ucast (drop_bit (8 * i) (ppc_bswap_half v)) :: uint8) = ucast (drop_bit (8 * (2 - Suc i)) v)"
  by (cases i) (auto simp: ppc_bswap_half_def less_Suc_eq bit_simps intro!: bit_word_eqI)

lemma bit_mask_00ff0000: "bit (0x00ff0000 :: uint32) n \<longleftrightarrow> 16 \<le> n \<and> n < 24"
proof -
  have *: "(0x00ff0000 :: uint32) = push_bit 16 (Bit_Operations.mask 8)" by (simp add: mask_eq_exp_minus_1)
  show ?thesis unfolding * by (auto simp: bit_simps simp del: mask_numeral push_bit_numeral)
qed

lemma bit_mask_0000ff00: "bit (0x0000ff00 :: uint32) n \<longleftrightarrow> 8 \<le> n \<and> n < 16"
proof -
  have *: "(0x0000ff00 :: uint32) = push_bit 8 (Bit_Operations.mask 8)" by (simp add: mask_eq_exp_minus_1)
  show ?thesis unfolding * by (auto simp: bit_simps simp del: mask_numeral push_bit_numeral)
qed

lemma bit_bswap_word:
  "n < 32 \<Longrightarrow> bit (ppc_bswap_word v) n =
     (if n < 8 then bit v (n + 24) else if n < 16 then bit v (n + 8) else if n < 24 then bit v (n - 8) else bit v (n - 24))"
  unfolding ppc_bswap_word_def bit_or_iff bit_and_iff bit_mask_00ff0000 bit_mask_0000ff00
  by (auto simp: bit_simps add.commute dest: bit_imp_le_length)

lemma bswap_word_bytes:
  "i < 4 \<Longrightarrow> (ucast (drop_bit (8 * i) (ppc_bswap_word v)) :: uint8) = ucast (drop_bit (8 * (4 - Suc i)) v)"
  by (drule less4, elim disjE) (auto simp: bit_bswap_word bit_simps add.commute intro!: bit_word_eqI)

lemma bswap_word_word [simp]: "ppc_bswap_word (ppc_bswap_word v) = v"
  by (rule bit_word_eqI) (auto simp: bit_bswap_word)

lemma bswap_half_half [simp]: "ppc_bswap_half (ppc_bswap_half v) = v"
proof (rule bit_word_eqI)
  fix n assume n: "n < LENGTH(16)"
  have b: "bit (ppc_bswap_half w) k = (if k < 8 then bit w (k + 8) else bit w (k - 8))" if "k < 16" for w k
    using that by (auto simp: ppc_bswap_half_def bit_simps add.commute dest: bit_imp_le_length)
  show "bit (ppc_bswap_half (ppc_bswap_half v)) n = bit v n" using n by (auto simp: b)
qed

lemma bit_bswap_dword:
  "n < 64 \<Longrightarrow> bit (ppc_bswap_dword v) n = bit v ((7 - n div 8) * 8 + n mod 8)"
proof -
  assume n: "n < 64"
  have b: "bit (ppc_bswap_word w) k = bit w ((3 - k div 8) * 8 + k mod 8)" if "k < 32" for w k
  proof -
    have "k = k div 8 * 8 + k mod 8" "k div 8 < 4" using that by auto
    moreover have "k div 8 = 0 \<or> k div 8 = 1 \<or> k div 8 = 2 \<or> k div 8 = 3" using that by linarith
    ultimately show ?thesis using that
      by (auto simp: bit_bswap_word simp flip: minus_div_mult_eq_mod intro!: arg_cong[where f = "bit w"])
  qed
  show ?thesis
  proof (cases "n < 32")
    case True
    then have "n div 8 \<le> 3" by linarith
    then have l: "(3 - n div 8) * 8 + n mod 8 < 32" and e: "32 + ((3 - n div 8) * 8 + n mod 8) = (7 - n div 8) * 8 + n mod 8"
      by simp_all
    have "bit (ppc_bswap_dword v) n = bit v (32 + ((3 - n div 8) * 8 + n mod 8))"
      using True l by (simp add: ppc_bswap_dword_def bit_simps b)
    then show ?thesis by (simp only: e)
  next
    case False
    then have "(3 - (n - 32) div 8) * 8 + (n - 32) mod 8 = (7 - n div 8) * 8 + n mod 8"
      using n by (simp add: le_mod_geq le_div_geq)
    moreover have "\<not> bit (ppc_bswap_word w) n" for w
      using False bit_imp_le_length[of "ppc_bswap_word w" n] by auto
    moreover have "4 \<le> n div 8" using False by linarith
    then have "(7 - n div 8) * 8 + n mod 8 < 32" by linarith
    moreover have "n - 32 < 32" "n - 32 < 64" using n by linarith+
    ultimately show ?thesis using n False by (simp add: ppc_bswap_dword_def bit_simps b)
  qed
qed

lemma bswap_dword_dword [simp]: "ppc_bswap_dword (ppc_bswap_dword v) = v"
proof (rule bit_word_eqI)
  fix n assume n: "n < LENGTH(64)"
  then have "n div 8 \<le> 7" "((7 - n div 8) * 8 + n mod 8) div 8 = 7 - n div 8" "(7 - n div 8) * 8 + n mod 8 < 64" by simp_all
  then show "bit (ppc_bswap_dword (ppc_bswap_dword v)) n = bit v n" using n by (simp add: bit_bswap_dword)
qed

lemma bswap_dword_bytes:
  "i < 8 \<Longrightarrow> (ucast (drop_bit (8 * i) (ppc_bswap_dword v)) :: uint8) = ucast (drop_bit (8 * (8 - Suc i)) v)"
  by (rule bit_word_eqI) (simp add: bit_simps bit_bswap_dword mult.commute)

lemma fb_puts:
  "fb_put a 2 (unat (ppc_bswap_half h)) M = mem_put M a 2 (unat h)"
  "fb_put a 4 (unat (ppc_bswap_word w)) M = mem_put M a 4 (unat w)"
  "fb_put a 8 (unat (ppc_bswap_dword d)) M = mem_put M a 8 (unat d)"
  by (rule fb_put_mem_put, erule bswap_half_bytes bswap_word_bytes bswap_dword_bytes)+

text \<open>A read is the swap of the number that was stored: write what is there, and read it back.\<close>

lemma fb_get_mem_get:
  fixes bs :: "'a::len word \<Rightarrow> 'a word"
  assumes put: "\<And>v M. fb_put a n (unat (bs v)) M = mem_put M a n (unat v)" and inv: "\<And>v. bs (bs v) = v"
    and n: "8 * n = LENGTH('a)"
  shows "bs (of_nat (fb_get a n M)) = of_nat (mem_get M a n)"
proof -
  have e: "(256::nat) ^ n = 2 ^ LENGTH('a)" unfolding n[symmetric] by (simp add: power_mult)
  let ?v = "of_nat (mem_get M a n) :: 'a word"
  have "mem_get M a n < 2 ^ LENGTH('a)" using mem.get_less[of M a n] by (simp add: e)
  then have "unat ?v = mem_get M a n" by (simp add: unat_of_nat)
  then have "fb_put a n (unat (bs ?v)) M = M" using put[of ?v M] by (simp add: mem.put_get)
  then have "fb_get a n M = unat (bs ?v) mod 2 ^ LENGTH('a)" using fb_get_put[of a n "unat (bs ?v)" M] by (simp add: e)
  then have "fb_get a n M = unat (bs ?v)" by simp
  then show ?thesis by (simp add: inv)
qed

lemma fb_gets:
  "ppc_bswap_half (of_nat (fb_get a 2 M)) = of_nat (mem_get M a 2)"
  "ppc_bswap_word (of_nat (fb_get a 4 M)) = of_nat (mem_get M a 4)"
  "ppc_bswap_dword (of_nat (fb_get a 8 M)) = of_nat (mem_get M a 8)"
  by (rule fb_get_mem_get, simp_all only: fb_puts bswap_half_half bswap_word_word bswap_dword_dword, simp)+

end
