(* ===== verification/Io_Pci_Props.thy ===== *)
theory Io_Pci_Props
  imports Io_Pci_Devices
begin

text \<open>What a driver can rely on when it uses the configuration space, and where the bus differs from the specification.\<close>

unbundle bit_operations_syntax

text \<open>The classes when no device comes from outside.\<close>

abbreviation bare_classes :: "(unit dev_class, unit) classes" where
  "bare_classes \<equiv> pci_classes (\<lambda>_. PCI_base) 0"

subsection \<open>Sizes and addresses\<close>

theorem pci_bar_sizing_witness:
  "\<exists>P Q Q' :: unit device pci. pci_init [] [] True True = Some P \<and>
     config_write (bare_classes) C_Bridge (config_address 1 6 0x10) 0xffffffff (P, ()) = Inr (Q, ()) \<and>
     config_read (bare_classes) C_Bridge (config_address 1 6 0x10) (Q, ()) = Inr (- 0x1000, Q', ())"
proof -
  obtain P :: "unit device pci" where P: "pci_init [] [] True True = Some P" "devices_ok P"
    "devices P = [PCI_GCard, PCI_BridgeP2P, PCI_MacIO, PCI_USB, PCI_Serial]" using pci_init_bare by blast
  have "device_at 1 6 P = Some PCI_USB" by (simp add: device_at_def P(3) place_simps)
  from pci_bar_sizing[OF P(2) this usb_config _ usb_region, of "\<lambda>_. PCI_base" 0 C_Bridge "()"] P(1)
  show ?thesis by (simp add: bar_reg_def PCI_USB_def set_region_def PCI_Device_init_def PCI_ADDRESS_SPACE_MEM_def mask_eq_exp_minus_1) blast
qed

text \<open>The USB controller moved to \<open>0x80900000\<close>, and its revision register read there.\<close>

lemmas device_fields = PCI_GCard_def PCI_BridgeP2P_def PCI_MacIO_def PCI_Serial_def PCI_USB_def assignMemAddress_def
    assignIOPort_def set_region_def PCI_Device_init_def

lemma replicate6: "replicate 6 x = [x, x, x, x, x, x]"
  by (simp add: numeral_eq_Suc)

lemma region_fields:
  "mIORegType PCI_GCard = [8, 0, 0, 0, 0, 0]" "mIORegSize PCI_GCard = [0x1000000, 0, 0, 0, 0, 0]" "mAddress PCI_GCard = [0x84000000, 0, 0, 0, 0, 0]"
  "mIORegType PCI_MacIO = replicate 6 0" "mIORegSize PCI_MacIO = [0x80000, 0, 0, 0, 0, 0]" "mAddress PCI_MacIO = [0x80800000, 0, 0, 0, 0, 0]"
  "mIORegType PCI_BridgeP2P = replicate 6 0" "mIORegSize PCI_BridgeP2P = replicate 6 0" "mAddress PCI_BridgeP2P = replicate 6 0"
  "mIORegType PCI_Serial = [1, 0, 0, 0, 0, 0]" "mIORegSize PCI_Serial = [16, 0, 0, 0, 0, 0]" "mAddress PCI_Serial = replicate 6 0"
  "mIORegType PCI_USB = replicate 6 0" "mIORegSize PCI_USB = [0x1000, 0, 0, 0, 0, 0]" 
  "mIORegsCount PCI_GCard = 6" "mIORegsCount PCI_MacIO = 6" "mIORegsCount PCI_BridgeP2P = 2" "mIORegsCount PCI_Serial = 6"
  by (simp_all add: device_fields replicate6 IO_GCARD_FRAMEBUFFER_PA_START_def IO_GCARD_FRAMEBUFFER_PA_END_def
     PCI_ADDRESS_SPACE_MEM_def PCI_ADDRESS_SPACE_IO_def PCI_ADDRESS_SPACE_MEM_PREFETCH_def)

lemma upt6: "[0..<6] = [0, 1, 2, 3, 4, 5]" "[0..<2] = [0, 1]"
  by (simp_all add: upt_rec)

lemma no_region:
  "mem_region 0x80900000 PCI_GCard = None" "mem_region 0x80900000 PCI_BridgeP2P = None" "mem_region 0x80900000 PCI_MacIO = None"
  "mem_region 0x80900000 PCI_Serial = None"
  by (simp_all only: mem_region_def region_fields replicate6 upt6) (simp_all add: PCI_ADDRESS_SPACE_MEM_def)

theorem pci_memory_decode_witness:
  "\<exists>P Q Q' :: unit device pci. pci_init [] [] True True = Some P \<and>
     config_write bare_classes C_Bridge (config_address 1 6 0x10) 0x80900000 (P, ()) = Inr (Q, ()) \<and>
     pci_read_device bare_classes 0x80900000 4 (Q, ()) = Inr ((True, 0x10), Q', ())"
proof -
  obtain P :: "unit device pci" where P: "pci_init [] [] True True = Some P" "devices_ok P"
    "devices P = [PCI_GCard, PCI_BridgeP2P, PCI_MacIO, PCI_USB, PCI_Serial]" using pci_init_bare by blast
  have at: "device_at 1 6 P = Some PCI_USB" by (simp add: device_at_def P(3) place_simps)
  let ?d = "after_bar_write 0 0x80900000 (PCI_USB :: unit device)"
  have free: "\<forall>y \<in> set (devices P). y \<noteq> PCI_USB \<longrightarrow> mem_region (0x80900000 + 0) y = None"
    by (simp add: P(3) no_region)
  have fields: "mIORegsCount (PCI_USB :: unit device) = 6" "mIORegType (PCI_USB :: unit device) ! 0 = PCI_ADDRESS_SPACE_MEM"
    "mIORegSize (PCI_USB :: unit device) = [0x1000, 0, 0, 0, 0, 0]" "mAddress (PCI_USB :: unit device) = [0x80881000, 0, 0, 0, 0, 0]"
    by (simp_all add: region_fields replicate6 PCI_ADDRESS_SPACE_MEM_def) (simp_all add: device_fields replicate6)
  have other: "\<forall>i < mIORegsCount (PCI_USB :: unit device). i \<noteq> 0 \<longrightarrow> mIORegType (PCI_USB :: unit device) ! i AND 1 = PCI_ADDRESS_SPACE_MEM \<longrightarrow>
        \<not> (mAddress (PCI_USB :: unit device) ! i \<le> 0x80900000 + 0 \<and> 0x80900000 + 0 < mAddress (PCI_USB :: unit device) ! i + mIORegSize (PCI_USB :: unit device) ! i)"
  proof (intro allI impI)
    fix i :: nat assume "i < mIORegsCount (PCI_USB :: unit device)" "i \<noteq> 0"
    then have "i = 1 \<or> i = 2 \<or> i = 3 \<or> i = 4 \<or> i = 5" unfolding fields by linarith
    then show "\<not> (mAddress (PCI_USB :: unit device) ! i \<le> 0x80900000 + 0 \<and>
        0x80900000 + 0 < mAddress (PCI_USB :: unit device) ! i + mIORegSize (PCI_USB :: unit device) ! i)"
      by (elim disjE) (simp_all add: fields)
  qed
  have "PCI_Device.more ?d = C_USB usb_reset" by (simp add: after_bar_write_def place_region_def Let_def device_fields)
  then have dev: "readDeviceMem (bare_classes ?d) 0 0 4 (?d, ()) = Inr (Some 0x10, ?d, ())"
    by (simp add: pci_classes_def usb_readDeviceMem_def usb_read_reg_def)
  show ?thesis
    using pci_memory_decode[OF P(2) at usb_config _ usb_region fields(2) _ _ _ _ free other dev, of C_Bridge] P(1)
    by (simp add: bar_reg_def) blast
qed
lemma le_bytes_word: "length bs = 4 \<Longrightarrow> le_bytes (le_word bs) = bs"
proof -
  assume "length bs = 4"
  then obtain b0 b1 b2 b3 where bs: "bs = [b0, b1, b2, b3]"
    by (auto simp: numeral_eq_Suc length_Suc_conv)
  have b: "\<And>n (b :: uint8). bit b n \<Longrightarrow> n < 8" using bit_imp_le_length by fastforce
  show ?thesis unfolding bs le_bytes_def le_word.simps
    by (simp, intro conjI; intro bit_word_eqI) (auto simp: bit_simps dest: b)
qed

lemma put_byte: "i < length xs \<Longrightarrow> put_list i [b] xs = xs[i := b]"
  by (simp add: put_list_def upd_conv_take_nth_drop)

lemma put_word:
  assumes "reg + 4 \<le> length xs" "i < 4"
  shows "put_list reg ((take 4 (drop reg xs))[i := b]) xs = xs[reg + i := b]"
proof (rule nth_equalityI)
  show "length (put_list reg ((take 4 (drop reg xs))[i := b]) xs) = length (xs[reg + i := b])"
    using assms by (simp add: put_list_def)
  fix j assume "j < length (put_list reg ((take 4 (drop reg xs))[i := b]) xs)"
  then have "j < length xs" using assms by (simp add: put_list_def)
  then show "put_list reg ((take 4 (drop reg xs))[i := b]) xs ! j = xs[reg + i := b] ! j"
    using assms by (subst put_list_nth) (auto simp: nth_list_update)
qed

text \<open>C12: Writing one byte of a register outside the base addresses changes that byte of the configuration space and no
  other: the selection of the register has fetched the other bytes of the word.\<close>

theorem pci_config_byte_write:
  assumes "devices_ok P" "device_at bus u P = Some d" "config_inherited V d" "unat u < 32" "dev_ok d"
    and reg: "reg < 256" "4 dvd reg" "reg < 0x10 \<or> 4 * mIORegsCount d + 0x10 \<le> reg" and i: "i < 4"
  shows "\<exists>Q. and_then (pci_write V x PCI_CONFIG_ADDRESS (config_address bus u reg) 4 (P, e))
      (pci_write V x (PCI_CONFIG_DATA + of_nat i) data 1) = Inr (Q, e) \<and>
    device_at bus u Q = Some (d\<lparr>mConfig := (mConfig d)[reg + i := ucast data]\<rparr>)"
proof -
  have l: "length (mConfig d) = 256" using assms(5) by (simp add: dev_ok_def)
  have r: "reg + 4 \<le> 256" using reg by auto
  define bs where "bs = take 4 (drop reg (mConfig d))"
  have bl: "length bs = 4" using l r by (simp add: bs_def)
  have w: "le_bytes (config_word d reg) = bs" using le_bytes_word[OF bl] by (simp add: config_word_def bs_def)
  define d' where "d' = d\<lparr>mConfig := (mConfig d)[reg + i := ucast data]\<rparr>"
  have p: "put_list i (take 1 (le_bytes data)) bs = bs[i := ucast data]"
    using put_byte[of i bs "ucast data"] i bl by (simp add: le_bytes_def)
  have bw: "base_writeConfig reg i 1 (le_word (put_list i (take 1 (le_bytes data)) (le_bytes (config_word d reg)))) (d, e) =
      Inr (le_word (bs[i := ucast data]), d', e)"
    using reg(3) put_word[of reg "mConfig d" i "ucast data"] le_bytes_word[of "bs[i := ucast data]"] bl l r i
    unfolding w p by (auto simp: base_writeConfig_def d'_def bs_def[symmetric])
  obtain Q where Q: "write_data_port V x i 1 data (selected bus u reg (config_word d reg) P, e) = Inr (Q, e)"
    "gPCI_Devices Q = gPCI_Devices (set_dev d' P)"
    using write_selected[OF assms(1-4) reg(1,2) bw] by blast
  have "pci_write V x (PCI_CONFIG_DATA + of_nat i) data 1 s = write_data_port V x i 1 data s" for s
  proof -
    consider "i = 0" | "i = 1" | "i = 2" | "i = 3" using i by linarith
    then show ?thesis by cases (simp_all add: pci_write_def PCI_CONFIG_DATA_def IO_PCI_PA_START_def split_beta)
  qed
  moreover have "device_at bus u Q = Some d'"
    using device_at_set_dev[of d' P bus u] assms(2) device_at_place[OF assms(2)] Q(2) by (simp add: device_at_def d'_def)
  ultimately show ?thesis using Q(1) by (simp add: select_register[OF assms(1-4) reg(1,2)] d'_def)
qed

theorem pci_config_byte_write_witness:
  "\<exists>P Q :: unit device pci. pci_init [] [] True True = Some P \<and>
     and_then (pci_write (bare_classes) C_Bridge PCI_CONFIG_ADDRESS (config_address 1 6 0x3c) 4 (P, ()))
       (pci_write (bare_classes) C_Bridge (PCI_CONFIG_DATA + 1) 0x1c 1) = Inr (Q, ()) \<and>
     device_at 1 6 Q = Some (PCI_USB\<lparr>mConfig := (mConfig (PCI_USB :: unit device))[0x3d := 0x1c]\<rparr>)"
proof -
  obtain P :: "unit device pci" where P: "pci_init [] [] True True = Some P" "devices_ok P"
    "devices P = [PCI_GCard, PCI_BridgeP2P, PCI_MacIO, PCI_USB, PCI_Serial]" using pci_init_bare by blast
  have at: "device_at 1 6 P = Some PCI_USB" by (simp add: device_at_def P(3) place_simps)
  have ok: "dev_ok (PCI_USB :: unit device)" using usb_region[where ?'a = unit] by (simp add: region_ok_def)
  have n: "mIORegsCount (PCI_USB :: unit device) = 6" by (simp add: PCI_USB_def assignMemAddress_def set_region_def PCI_Device_init_def)
  obtain Q where "and_then (pci_write (bare_classes) C_Bridge PCI_CONFIG_ADDRESS (config_address 1 6 0x3c) 4 (P, ()))
      (pci_write (bare_classes) C_Bridge (PCI_CONFIG_DATA + of_nat 1) 0x1c 1) = Inr (Q, ())"
    "device_at 1 6 Q = Some (PCI_USB\<lparr>mConfig := (mConfig (PCI_USB :: unit device))[0x3c + 1 := ucast (0x1c :: uint32)]\<rparr>)"
    using pci_config_byte_write[OF P(2) at usb_config _ ok, of "0x3c" 1 "\<lambda>_. PCI_base" 0 C_Bridge "()" "0x1c"] n by auto
  then show ?thesis using P(1) by (intro exI[of _ P] exI[of _ Q]) simp
qed

subsection \<open>Differences from the specification\<close>

text \<open>Reading the configuration of a place without a device gives the data of the last access to some other device:
  the port's data are not replaced by zeros or ones.\<close>

theorem pci_absent_stale:
  assumes "devices_ok P" "device_at bus u P = None" "unat u < 32" "reg < 256" "4 dvd reg"
  shows "\<exists>Q. config_read V x (config_address bus u reg) (P, e) = Inr (read_data_port 0 4 P, Q, e)"
proof -
  let ?P = "P\<lparr>gPCI_Address := config_address bus u reg\<rparr>"
  have "pci_config_read_write V x False 0 4 (?P, e) = Inr (?P\<lparr>gPCI_Data := 0\<rparr>, e)"
    using config_lookup[of ?P bus u reg V x False 0 4 e] assms by simp
  then show ?thesis
    by (simp add: config_read_def pci_write_def pci_read_def PCI_CONFIG_ADDRESS_def PCI_CONFIG_DATA_def IO_PCI_PA_START_def
      read_data_port_def)
qed

theorem pci_absent_stale_witness:
  "\<exists>P Q Q' :: unit device pci. pci_init [] [] True True = Some P \<and>
     config_read (bare_classes) C_Bridge (config_address 1 6 0) (P, ()) = Inr (config_word (PCI_USB :: unit device) 0, Q, ()) \<and>
     config_read (bare_classes) C_Bridge (config_address 0 1 0) (Q, ()) = Inr (config_word (PCI_USB :: unit device) 0, Q', ())"
proof -
  obtain P :: "unit device pci" where P: "pci_init [] [] True True = Some P" "devices_ok P"
    "devices P = [PCI_GCard, PCI_BridgeP2P, PCI_MacIO, PCI_USB, PCI_Serial]" using pci_init_bare by blast
  have at: "device_at 1 6 P = Some PCI_USB" "device_at 0 1 P = None" by (simp_all add: device_at_def P(3) place_simps)
  let ?v = "config_word (PCI_USB :: unit device) 0"
  let ?Q = "selected 1 6 0 ?v P"
  have "config_read (bare_classes) C_Bridge (config_address 1 6 0) (P, ()) = Inr (?v, ?Q, ())"
    using config_read_base[OF P(2) at(1) usb_config, of 0] by simp
  moreover have "read_data_port 0 4 ?Q = ?v" by (simp add: read_data_port_def)
  ultimately show ?thesis using pci_absent_stale[of ?Q 0 1 0 "bare_classes" C_Bridge "()"] P(1,2) at(2) by auto
qed

lemma and_not_mask: "w AND mask k = 0 \<Longrightarrow> w AND NOT (mask k) = w" for w :: "'a::len word"
proof (rule bit_word_eqI)
  fix n assume m: "w AND mask k = 0" and "n < LENGTH('a)"
  have "\<not> bit (w AND mask k) n" using m by simp
  then show "bit (w AND NOT (mask k)) n = bit w n" by (auto simp: bit_simps dest: bit_imp_le_length)
qed

text \<open>C13: A driver that gives a prefetchable region a new address is told that it is there, but the region stays where it
  was: the code takes any region that is not plain memory for ports, and writes the address to the port of the region.\<close>

theorem pci_prefetch_not_moved:
  assumes "devices_ok P" "device_at bus u P = Some d" "config_inherited V d" "unat u < 32" "region_ok r k d"
    and t: "mIORegType d ! r = PCI_ADDRESS_SPACE_MEM_PREFETCH" and base: "base AND mask k = 0" "base \<noteq> 0"
  shows "\<exists>Q Q' d'. config_write V x (config_address bus u (bar_reg r)) base (P, e) = Inr (Q, e) \<and>
    config_read V x (config_address bus u (bar_reg r)) (Q, e) = Inr (base OR PCI_ADDRESS_SPACE_MEM_PREFETCH, Q', e) \<and>
    device_at bus u Q = Some d' \<and> mAddress d' = mAddress d \<and> mPort d' ! r = base AND NOT 0x3"
proof -
  have reg: "bar_reg r < 256" "4 dvd bar_reg r" using bar_reg_ok[OF assms(5)] by simp_all
  let ?d = "after_bar_write r base d"
  obtain Q where Q: "config_write V x (config_address bus u (bar_reg r)) base (P, e) = Inr (Q, e)" "devices_ok Q"
    "device_at bus u Q = Some ?d" "config_inherited V ?d"
    using config_write_bar[OF assms(1-5), of x base e] by blast
  have k: "4 \<le> k" "r < length (mPort d)" using assms(5) t
    by (auto simp: region_ok_def dev_ok_def PCI_ADDRESS_SPACE_MEM_PREFETCH_def PCI_ADDRESS_SPACE_IO_def)
  have "base AND NOT (mask k) = base" by (rule and_not_mask[OF base(1)])
  then have w: "config_word ?d (bar_reg r) = base OR PCI_ADDRESS_SPACE_MEM_PREFETCH"
    using bar_word[OF assms(5), of base] by (simp add: t)
  have "base \<noteq> 0xffffffff"
  proof
    assume "base = 0xffffffff"
    then have "base = - 1" by simp
    then have "mask k = (0 :: uint32)" using base(1) by simp
    then show False using k(1) by simp
  qed
  then have "mAddress ?d = mAddress d" "mPort ?d ! r = base AND NOT 0x3"
    using t base(2) k(2)
    by (simp_all add: after_bar_write_def Let_def place_region_def assignIOPort_def PCI_ADDRESS_SPACE_MEM_PREFETCH_def PCI_ADDRESS_SPACE_MEM_def)
  then show ?thesis using Q(1,3) config_read_base[OF Q(2-4) assms(4) reg, of x e] w by fastforce
qed

theorem pci_prefetch_not_moved_witness:
  "\<exists>P Q Q' :: unit device pci. \<exists>d'. pci_init [] [] True True = Some P \<and>
     config_write (bare_classes) C_Bridge (config_address 0 7 0x10) 0x86000000 (P, ()) = Inr (Q, ()) \<and>
     config_read (bare_classes) C_Bridge (config_address 0 7 0x10) (Q, ()) = Inr (0x86000008, Q', ()) \<and>
     device_at 0 7 Q = Some d' \<and> mAddress d' ! 0 = 0x84000000"
proof -
  obtain P :: "unit device pci" where P: "pci_init [] [] True True = Some P" "devices_ok P"
    "devices P = [PCI_GCard, PCI_BridgeP2P, PCI_MacIO, PCI_USB, PCI_Serial]" using pci_init_bare by blast
  have at: "device_at 0 7 P = Some PCI_GCard" by (simp add: device_at_def P(3) place_simps)
  have g: "mIORegType (PCI_GCard :: unit device) ! 0 = PCI_ADDRESS_SPACE_MEM_PREFETCH" "mAddress (PCI_GCard :: unit device) ! 0 = 0x84000000"
    by (simp_all add: PCI_GCard_def set_region_def PCI_Device_init_def assignMemAddress_def IO_GCARD_FRAMEBUFFER_PA_START_def)
  have m: "(0x86000000 :: uint32) AND mask 24 = 0" by (simp add: mask_eq_exp_minus_1)
  from pci_prefetch_not_moved[OF P(2) at gcard_config _ gcard_region g(1) m, of "\<lambda>_. PCI_base" 0 C_Bridge "()"] P(1)
  show ?thesis by (simp add: bar_reg_def PCI_ADDRESS_SPACE_MEM_PREFETCH_def) (metis g(2))
qed

end
