(* ===== verification/Io_Bus_Props.thy ===== *)
theory Io_Bus_Props
  imports Io_Fb Ppc_Interrupts Io_Pci_Props
begin

text \<open>
  The CPU, the bus and the devices together: what a load or store of the guest does to the graphics card and to the
  interrupt controller, what the replay of a second execution leaves untouched, and where an access ends the program.
\<close>

unbundle bit_operations_syntax

lemmas io_ranges = in_range_def IO_GCARD_FRAMEBUFFER_PA_START_def IO_GCARD_FRAMEBUFFER_PA_END_def IO_PCI_PA_START_def
  IO_PCI_PA_END_def IO_PIC_PA_START_def IO_PIC_PA_END_def IO_CUDA_PA_START_def IO_CUDA_PA_END_def IO_NVRAM_PA_START_def
  IO_NVRAM_PA_END_def IO_PCI_DEVICE_PA_START_def IO_PCI_DEVICE_PA_END_def IO_ISA_PA_START_def IO_ISA_PA_END_def

lemmas physical_accesses = ppc_read_physical_byte_def ppc_read_physical_half_def ppc_read_physical_word_def
  ppc_read_physical_dword_def ppc_write_physical_byte_def ppc_write_physical_half_def ppc_write_physical_word_def
  ppc_write_physical_dword_def

subsection \<open>The frame buffer\<close>

text \<open>An address of the frame buffer's range, and its place in the host's allocation.\<close>

definition fb_address :: "uint32 \<Rightarrow> 'o machine \<Rightarrow> bool" where
  "fb_address a m \<longleftrightarrow>
     in_range a IO_GCARD_FRAMEBUFFER_PA_START IO_GCARD_FRAMEBUFFER_PA_END \<and> \<not> a < gMemorySize m \<and> \<not> gIOReadReplay (io m)"

definition fb_offset :: "uint32 \<Rightarrow> nat" where
  "fb_offset a = unat (a - IO_GCARD_FRAMEBUFFER_PA_START)"

abbreviation fb_in :: "nat \<Rightarrow> uint32 \<Rightarrow> 'o machine \<Rightarrow> bool" where
  "fb_in n a m \<equiv> fb_offset a + n \<le> gFrameBufferSize (io_gcard (io m))"

definition fb_store :: "nat \<Rightarrow> uint32 \<Rightarrow> nat \<Rightarrow> 'o machine \<Rightarrow> 'o machine" where
  "fb_store n a v m =
     m\<lparr>io := (io m)\<lparr>io_gcard := damageFrameBuffer (a - IO_GCARD_FRAMEBUFFER_PA_START)
        ((io_gcard (io m))\<lparr>gFrameBuffer := mem_put (gFrameBuffer (io_gcard (io m))) (fb_offset a) n v\<rparr>)\<rparr>\<rparr>"

definition fb_value :: "nat \<Rightarrow> uint32 \<Rightarrow> 'o machine \<Rightarrow> nat" where
  "fb_value n a m = mem_get (gFrameBuffer (io_gcard (io m))) (fb_offset a) n"

text \<open>What a load from a device leaves in the machine: the replay cache.\<close>

definition cached :: "uint32 \<Rightarrow> uint32 \<Rightarrow> 'o machine \<Rightarrow> 'o machine" where
  "cached a d m = m\<lparr>io := (io m)\<lparr>gIOReadCacheAddr := a, gIOReadCacheData := d, gIOReadCacheValid := True\<rparr>\<rparr>"

lemma fb_write_n:
  assumes "\<And>M. fb_put (fb_offset a) n w M = mem_put M (fb_offset a) n v" "fb_in n a m"
  shows "and_then (gcard_write_n n a w (io_gcard (io m))) (\<lambda>g. Inr (PPC_MMU_OK, m\<lparr>io := (io m)\<lparr>io_gcard := g\<rparr>\<rparr>)) =
    Inr (PPC_MMU_OK, fb_store n a v m)"
  using assms by (simp add: gcard_write_n_def fb_store_def Let_def fb_offset_def)

lemma fb_byte_put: "fb_put a 1 (unat (ucast b :: uint32)) M = mem_put M a 1 (unat (b :: uint8))"
proof -
  have "unat (ucast b :: uint32) = unat b"
    using unsigned_less[of b, where ?'a = nat] by (simp add: unsigned_ucast_eq take_bit_nat_eq_self)
  then show ?thesis by simp
qed

lemma fb_half_put: "fb_put a 2 (unat (ucast h :: uint32)) M = fb_put a 2 (unat (h :: uint16)) M"
proof -
  have "unat (ucast h :: uint32) = unat h"
    using unsigned_less[of h, where ?'a = nat] by (simp add: unsigned_ucast_eq take_bit_nat_eq_self)
  then show ?thesis by simp
qed

lemma fb_writes:
  assumes "fb_address a m" "fb_in 8 a m"
  shows "ppc_write_physical_byte (io_bus W junk) a b m = Inr (PPC_MMU_OK, fb_store 1 a (unat b) m)"
    and "ppc_write_physical_half (io_bus W junk) a h m = Inr (PPC_MMU_OK, fb_store 2 a (unat h) m)"
    and "ppc_write_physical_word (io_bus W junk) a w m = Inr (PPC_MMU_OK, fb_store 4 a (unat w) m)"
    and "ppc_write_physical_dword (io_bus W junk) a d m = Inr (PPC_MMU_OK, fb_store 8 a (unat d) m)"
proof -
  have i: "fb_in 1 a m" "fb_in 2 a m" "fb_in 4 a m" using assms(2) by simp_all
  note s = physical_accesses io_bus_def io_write_def io_mem_write_impl_def io_write64_def gcard_write_def gcard_write64_def
    Let_def fb_address_def
  show "ppc_write_physical_byte (io_bus W junk) a b m = Inr (PPC_MMU_OK, fb_store 1 a (unat b) m)"
    using assms(1) fb_write_n[OF fb_byte_put i(1)] by (simp add: s)
  show "ppc_write_physical_half (io_bus W junk) a h m = Inr (PPC_MMU_OK, fb_store 2 a (unat h) m)"
    using assms(1) fb_write_n[OF trans[OF fb_half_put fb_puts(1)] i(2)] by (simp add: s)
  show "ppc_write_physical_word (io_bus W junk) a w m = Inr (PPC_MMU_OK, fb_store 4 a (unat w) m)"
    using assms(1) fb_write_n[OF fb_puts(2) i(3)] by (simp add: s)
  show "ppc_write_physical_dword (io_bus W junk) a d m = Inr (PPC_MMU_OK, fb_store 8 a (unat d) m)"
    using assms(1) fb_write_n[OF fb_puts(3) assms(2)] by (simp add: s)
qed

lemma fb_read_n:
  "fb_in n a m \<Longrightarrow> gcard_read_n n a (io_gcard (io m)) = Inr (fb_get (fb_offset a) n (gFrameBuffer (io_gcard (io m))))"
  by (simp add: gcard_read_n_def Let_def fb_offset_def)

lemma ucast_of_nat_half: "(ucast (of_nat n :: uint32) :: uint16) = of_nat n"
  by (rule bit_word_eqI) (simp add: unsigned_of_nat bit_simps)

lemma ucast_of_nat_byte: "(ucast (of_nat n :: uint32) :: uint8) = of_nat n"
  by (rule bit_word_eqI) (simp add: unsigned_of_nat bit_simps)

lemma fb_reads:
  assumes "fb_address a m" "fb_in 8 a m"
  shows "\<exists>x. ppc_read_physical_byte (io_bus W junk) a m = Inr ((PPC_MMU_OK, of_nat (fb_value 1 a m)), cached a x m)"
    and "\<exists>x. ppc_read_physical_half (io_bus W junk) a m = Inr ((PPC_MMU_OK, of_nat (fb_value 2 a m)), cached a x m)"
    and "\<exists>x. ppc_read_physical_word (io_bus W junk) a m = Inr ((PPC_MMU_OK, of_nat (fb_value 4 a m)), cached a x m)"
    and "ppc_read_physical_dword (io_bus W junk) a m = Inr ((PPC_MMU_OK, of_nat (fb_value 8 a m)), m)"
proof -
  have i: "fb_in 1 a m" "fb_in 2 a m" "fb_in 4 a m" using assms(2) by simp_all
  note s = physical_accesses io_bus_def io_read_def io_mem_read_impl_def io_read64_def gcard_read_def gcard_read64_def
    Let_def fb_address_def cached_def fb_value_def
  show "\<exists>x. ppc_read_physical_byte (io_bus W junk) a m = Inr ((PPC_MMU_OK, of_nat (fb_value 1 a m)), cached a x m)"
    using assms(1) fb_read_n[OF i(1)] by (auto simp: s ucast_of_nat_byte simp del: of_nat_unat fb_get.simps) (simp add: One_nat_def)
  show "\<exists>x. ppc_read_physical_half (io_bus W junk) a m = Inr ((PPC_MMU_OK, of_nat (fb_value 2 a m)), cached a x m)"
    using assms(1) fb_read_n[OF i(2)] by (auto simp: s ucast_of_nat_half fb_gets)
  show "\<exists>x. ppc_read_physical_word (io_bus W junk) a m = Inr ((PPC_MMU_OK, of_nat (fb_value 4 a m)), cached a x m)"
    using assms(1) fb_read_n[OF i(3)] by (auto simp: s fb_gets)
  show "ppc_read_physical_dword (io_bus W junk) a m = Inr ((PPC_MMU_OK, of_nat (fb_value 8 a m)), m)"
    using assms(1) fb_read_n[OF assms(2)] by (auto simp: s fb_gets)
qed


text \<open>C8: the frame buffer is big-endian memory on the bus: a store of 1, 2, 4 or 8 bytes by the CPU puts the same bytes
  there that a store to guest memory puts into guest memory, and a load returns the number that guest memory would
  give; the swap of the CPU and the card's byte order cancel.  A load changes the machine in the replay cache only, and a
  load of 8 bytes not at all.\<close>

theorem framebuffer_is_memory:
  assumes "fb_address a m" "fb_in 8 a m"
  shows "ppc_write_physical_byte (io_bus W junk) a b m = Inr (PPC_MMU_OK, fb_store 1 a (unat b) m) \<and>
    ppc_write_physical_half (io_bus W junk) a h m = Inr (PPC_MMU_OK, fb_store 2 a (unat h) m) \<and>
    ppc_write_physical_word (io_bus W junk) a w m = Inr (PPC_MMU_OK, fb_store 4 a (unat w) m) \<and>
    ppc_write_physical_dword (io_bus W junk) a d m = Inr (PPC_MMU_OK, fb_store 8 a (unat d) m) \<and>
    (\<exists>x. ppc_read_physical_byte (io_bus W junk) a m = Inr ((PPC_MMU_OK, of_nat (fb_value 1 a m)), cached a x m)) \<and>
    (\<exists>x. ppc_read_physical_half (io_bus W junk) a m = Inr ((PPC_MMU_OK, of_nat (fb_value 2 a m)), cached a x m)) \<and>
    (\<exists>x. ppc_read_physical_word (io_bus W junk) a m = Inr ((PPC_MMU_OK, of_nat (fb_value 4 a m)), cached a x m)) \<and>
    ppc_read_physical_dword (io_bus W junk) a m = Inr ((PPC_MMU_OK, of_nat (fb_value 8 a m)), m)"
  using fb_writes[OF assms] fb_reads[OF assms] by blast

text \<open>What the CPU stored is what it loads, through the bus and the card.\<close>

lemma fb_value_store: "v < 256 ^ n \<Longrightarrow> fb_value n a (fb_store n a v m) = v"
  by (simp add: fb_value_def fb_store_def damageFrameBuffer_def Let_def mem.get_put_exact)

subsection \<open>A machine to try\<close>

definition demo_io :: "unit io_state" where
  "demo_io =
     \<lparr>io_pic = pic_init\<lparr>PIC_pending_low := 0x800000\<rparr>, io_cuda = cuda_init,
      io_cuda_env = \<lparr>hiresclk_ticks = 0, hiresclk_ticks_per_second = 1, host_time = 0, keyb_leds = 0\<rparr>,
      io_nvram = [], io_pci = \<lparr>gPCI_Address = 0, gPCI_Data = 0, gPCI_Data_LE = replicate 4 0, gPCI_Devices = \<lparr>root' = NULL, ecount = 0\<rparr>\<rparr>,
      io_gcard = \<lparr>gFrameBuffer = (\<lambda>_. 0), gFrameBufferSize = 640 * 480 * 4, gDamageAreaFirstAddr = 0xffffff0, gDamageAreaLastAddr = 0,
        gVBLon = False, gCurrentGraphicMode = 0, gGraphicModes = \<lparr>own_objects = True, elems = [], ecount = 0\<rparr>, palette = (\<lambda>_. 0), mHWCursor = (0, 0, False)\<rparr>,
      gIOReadReplay = False, gIOReadCacheAddr = 0, gIOReadCacheData = 0, gIOReadCacheValid = False\<rparr>"

text \<open>16 MB of guest memory, a picture of 640 to 480 points, and an interrupt of the graphics card pending.\<close>

definition demo_machine :: "unit machine" where
  "demo_machine = \<lparr>mcpu = ee_cpu, gMemory = (\<lambda>_. 0), gMemorySize = 0x1000000, io = demo_io\<rparr>"

lemma demo_simps [simp]:
  "gMemorySize demo_machine = 0x1000000" "\<not> gIOReadReplay (io demo_machine)" "gFrameBufferSize (io_gcard (io demo_machine)) = 0x12C000"
  "io_pic (io demo_machine) = pic_init\<lparr>PIC_pending_low := 0x800000\<rparr>" "mcpu demo_machine = ee_cpu"
  by (simp_all add: demo_machine_def demo_io_def)

abbreviation bare_bus :: "unit io_state bus" where
  "bare_bus \<equiv> io_bus (\<lambda>_. PCI_base) 0"

theorem framebuffer_is_memory_witness:
  "ppc_write_physical_word bare_bus 0x84000010 0x11223344 demo_machine = Inr (PPC_MMU_OK, fb_store 4 0x84000010 0x11223344 demo_machine) \<and>
   (\<exists>x. ppc_read_physical_byte bare_bus 0x84000010 (fb_store 4 0x84000010 0x11223344 demo_machine) =
      Inr ((PPC_MMU_OK, 0x11), cached 0x84000010 x (fb_store 4 0x84000010 0x11223344 demo_machine)))"
proof -
  have a: "fb_address 0x84000010 demo_machine" "fb_in 8 0x84000010 demo_machine"
    by (simp_all add: fb_address_def io_ranges fb_offset_def)
  let ?m = "fb_store 4 0x84000010 0x11223344 demo_machine"
  have b: "fb_address 0x84000010 ?m" "fb_in 8 0x84000010 ?m"
    using a by (simp_all add: fb_address_def fb_store_def damageFrameBuffer_def Let_def)
  have v: "(of_nat (fb_value 1 0x84000010 ?m) :: uint8) = 0x11"
    using mem_put_byte[where i = 0 and n = 4 and a = "fb_offset 0x84000010" and v = "0x11223344" and M = "gFrameBuffer (io_gcard (io demo_machine))"]
    by (simp add: fb_value_def fb_store_def damageFrameBuffer_def Let_def del: mem_put.simps)
  show ?thesis
    using framebuffer_is_memory[OF a, where W = "\<lambda>_. PCI_base" and junk = 0 and w = "0x11223344"]
      framebuffer_is_memory[OF b, where W = "\<lambda>_. PCI_base" and junk = 0] v
    by (simp add: unat_of_nat)
qed

text \<open>The range of the frame buffer has 16 MB and the host's allocation only the bytes of the picture: a store behind
  the picture is passed on to the card and writes outside the allocation, and a load reads outside it.\<close>

theorem framebuffer_overrun:
  assumes "fb_address a m" "\<not> fb_in 4 a m"
  shows "ppc_write_physical_word (io_bus W junk) a w m = Inl Bad_Access \<and> ppc_read_physical_word (io_bus W junk) a m = Inl Bad_Access"
  using assms
  by (simp add: physical_accesses io_bus_def io_write_def io_mem_write_impl_def io_read_def io_mem_read_impl_def gcard_write_def
    gcard_read_def gcard_write_n_def gcard_read_n_def Let_def fb_address_def fb_offset_def)

theorem framebuffer_overrun_witness:
  "ppc_write_physical_word bare_bus 0x84200000 0 demo_machine = Inl Bad_Access"
  using framebuffer_overrun[of "0x84200000" demo_machine "\<lambda>_. PCI_base" 0 0]
  by (simp add: fb_address_def io_ranges fb_offset_def)

subsection \<open>Interrupts\<close>

text \<open>C9: when the guest enables the line of a device whose interrupt is pending, by a store of the byte-swapped mask to the
  interrupt controller, the CPU takes the external interrupt at its next check, with the address of the next instruction
  saved.\<close>

theorem enabled_interrupt_is_taken:
  assumes "gMemorySize m \<le> 0x80800024" "\<not> gIOReadReplay (io m)"
    and "PIC_pending_low (io_pic (io m)) AND ppc_bswap_word v \<noteq> 0"
    and "msr (mcpu m) AND MSR_EE \<noteq> 0" "\<not> stop_exception (mcpu m)"
  shows "\<exists>m' c. ppc_write_physical_word (io_bus W junk) 0x80800024 v m = Inr (PPC_MMU_OK, m') \<and>
    PIC_enable_low (io_pic (io m')) = ppc_bswap_word v \<and> gMemory m' = gMemory m \<and>
    check_pending (mcpu m') = Inr (Next, c) \<and> pc c = PPC_EXC_EXT_INT \<and> srr c 0 = pc (mcpu m) \<and> \<not> ext_exception c"
proof -
  let ?p = "(io_pic (io m))\<lparr>PIC_enable_low := ppc_bswap_word v\<rparr>"
  have "(PIC_pending_low ?p OR PIC_pending_level ?p) AND PIC_enable_low ?p \<noteq> 0"
    using assms(3) by (auto simp: bit_eq_iff bit_simps)
  then have active: "pic_active ?p" by (simp add: pic_active_def)
  let ?m = "put_pic (?p, ppc_cpu_raise_ext_exception (mcpu m)) m"
  have w: "ppc_write_physical_word (io_bus W junk) 0x80800024 v m = Inr (PPC_MMU_OK, ?m)"
    using assms(2) active leD[OF assms(1)]
    by (simp add: ppc_write_physical_word_def io_bus_def io_write_def io_mem_write_impl_def io_ranges Let_def pic_write_def
      pic_renew_interrupts_def)
  then show ?thesis
    using assms(4,5) by (simp add: put_pic_def ppc_cpu_raise_ext_exception_def exc_flag_defs check_pending_def service_def
      ext_exception_enters[unfolded exc_type_defs] Let_def save_srr_def exc_type_defs)
qed

theorem enabled_interrupt_is_taken_witness:
  "\<exists>m' c. ppc_write_physical_word bare_bus 0x80800024 0x8000 demo_machine = Inr (PPC_MMU_OK, m') \<and>
    PIC_enable_low (io_pic (io m')) = 0x800000 \<and> check_pending (mcpu m') = Inr (Next, c) \<and> pc c = PPC_EXC_EXT_INT"
proof -
  have b: "ppc_bswap_word 0x8000 = 0x800000" by (simp add: ppc_bswap_word_def)
  show ?thesis
    using enabled_interrupt_is_taken[of demo_machine "0x8000" "\<lambda>_. PCI_base" 0] unfolding b by (auto simp: pic_init_def msr_defs)
qed

subsection \<open>Replay\<close>

text \<open>The second execution of an instruction, by the interpreter against which the translated code is compared, must
  not touch the devices.\<close>

definition replaying :: "'o machine \<Rightarrow> 'o machine" where
  "replaying m = m\<lparr>io := (io m)\<lparr>gIOReadReplay := True\<rparr>\<rparr>"

text \<open>C17: in replay a load from a device gives again what the last load gave, whatever the device would answer now, and a load
  from any other device address gives 0; neither these loads nor any store of up to 4 bytes, to whatever device, changes
  anything: for the functions of the bus and for the CPU's accesses outside guest memory.  Stores of 8 bytes are not
  skipped: they go to the frame buffer a second time.\<close>

theorem replay_repeats_load:
  assumes "io_read W junk a n m = Inr ((PPC_MMU_OK, v), m')" "0x80000000 \<le> a" "\<not> gIOReadReplay (io m)" "\<not> gIOReadReplay (io m')"
  shows "(\<forall>k. io_read W junk a k (replaying m') = Inr ((PPC_MMU_OK, v), replaying m')) \<and>
    (\<forall>b k. 0x80000000 \<le> b \<and> b \<noteq> a \<longrightarrow> io_read W junk b k (replaying m') = Inr ((PPC_MMU_OK, 0), replaying m')) \<and>
    (\<forall>b x k. io_write W junk b x k (replaying m') = Inr (PPC_MMU_OK, replaying m')) \<and>
    (\<forall>b x y z. \<not> b < gMemorySize m' \<longrightarrow>
       ppc_write_physical_byte (io_bus W junk) b x (replaying m') = Inr (PPC_MMU_OK, replaying m') \<and>
       ppc_write_physical_half (io_bus W junk) b y (replaying m') = Inr (PPC_MMU_OK, replaying m') \<and>
       ppc_write_physical_word (io_bus W junk) b z (replaying m') = Inr (PPC_MMU_OK, replaying m')) \<and>
    (\<forall>b d. fb_address b m' \<and> fb_in 8 b m' \<longrightarrow>
       ppc_write_physical_dword (io_bus W junk) b d (replaying m') = Inr (PPC_MMU_OK, fb_store 8 b (unat d) (replaying m')))"
proof (intro conjI)
  obtain m1 where m1: "m' = m1\<lparr>io := (io m1)\<lparr>gIOReadCacheAddr := a, gIOReadCacheData := v, gIOReadCacheValid := True\<rparr>\<rparr>"
    using assms(1,3,4) by (auto simp: io_read_def and_then_def split: sum.splits prod.splits if_splits)
  show "\<forall>k. io_read W junk a k (replaying m') = Inr ((PPC_MMU_OK, v), replaying m')"
    using assms(2) by (simp add: m1 io_read_def replaying_def)
  show "\<forall>b k. 0x80000000 \<le> b \<and> b \<noteq> a \<longrightarrow> io_read W junk b k (replaying m') = Inr ((PPC_MMU_OK, 0), replaying m')"
    by (simp add: m1 io_read_def replaying_def)
  show "\<forall>b x k. io_write W junk b x k (replaying m') = Inr (PPC_MMU_OK, replaying m')"
    by (simp add: io_write_def replaying_def)
  show "\<forall>b x y z. \<not> b < gMemorySize m' \<longrightarrow>
       ppc_write_physical_byte (io_bus W junk) b x (replaying m') = Inr (PPC_MMU_OK, replaying m') \<and>
       ppc_write_physical_half (io_bus W junk) b y (replaying m') = Inr (PPC_MMU_OK, replaying m') \<and>
       ppc_write_physical_word (io_bus W junk) b z (replaying m') = Inr (PPC_MMU_OK, replaying m')"
    by (simp add: physical_accesses io_bus_def io_write_def replaying_def)
  show "\<forall>b d. fb_address b m' \<and> fb_in 8 b m' \<longrightarrow>
       ppc_write_physical_dword (io_bus W junk) b d (replaying m') = Inr (PPC_MMU_OK, fb_store 8 b (unat d) (replaying m'))"
  proof (intro allI impI)
    fix b d assume b: "fb_address b m' \<and> fb_in 8 b m'"
    then have "fb_in 8 b (replaying m')" by (simp add: replaying_def)
    note w = fb_write_n[OF fb_puts(3) this, of d]
    have "io_write64 b (ppc_bswap_dword d) (replaying m') = Inr (PPC_MMU_OK, fb_store 8 b (unat d) (replaying m'))"
      using w b by (simp add: io_write64_def gcard_write64_def fb_address_def)
    moreover have "gMemorySize (replaying m') = gMemorySize m'" by (simp add: replaying_def)
    ultimately show "ppc_write_physical_dword (io_bus W junk) b d (replaying m') = Inr (PPC_MMU_OK, fb_store 8 b (unat d) (replaying m'))"
      using b by (simp add: ppc_write_physical_dword_def io_bus_def fb_address_def)
  qed
qed

text \<open>The pending interrupts of the controller are read twice; a replayed store does not enable them.\<close>

theorem replay_repeats_load_witness:
  "\<exists>m'. io_read (\<lambda>_. PCI_base) 0 0x80800020 4 demo_machine = Inr ((PPC_MMU_OK, 0x800000), m') \<and>
     io_read (\<lambda>_. PCI_base) 0 0x80800020 4 (replaying m') = Inr ((PPC_MMU_OK, 0x800000), replaying m') \<and>
     io_read (\<lambda>_. PCI_base) 0 0x80816000 1 (replaying m') = Inr ((PPC_MMU_OK, 0), replaying m') \<and>
     ppc_write_physical_word bare_bus 0x80800024 0xffffffff (replaying m') = Inr (PPC_MMU_OK, replaying m') \<and>
     ppc_write_physical_dword bare_bus 0x84000000 1 (replaying m') = Inr (PPC_MMU_OK, fb_store 8 0x84000000 1 (replaying m'))"
proof -
  let ?m = "cached 0x80800020 0x800000 demo_machine"
  have r: "io_read (\<lambda>_. PCI_base) 0 0x80800020 4 demo_machine = Inr ((PPC_MMU_OK, 0x800000), ?m)"
    by (simp add: io_read_def io_mem_read_impl_def io_ranges Let_def pic_read_def pic_init_def cached_def)
  have f: "fb_address 0x84000000 ?m \<and> fb_in 8 0x84000000 ?m" "gMemorySize ?m = 0x1000000" "\<not> gIOReadReplay (io ?m)"
    by (simp_all add: fb_address_def io_ranges fb_offset_def cached_def)
  note replay = replay_repeats_load[OF r _ _ f(3)]
  have "io_read (\<lambda>_. PCI_base) 0 0x80800020 4 (replaying ?m) = Inr ((PPC_MMU_OK, 0x800000), replaying ?m)"
    "io_read (\<lambda>_. PCI_base) 0 0x80816000 1 (replaying ?m) = Inr ((PPC_MMU_OK, 0), replaying ?m)"
    using replay by simp_all
  moreover have "ppc_write_physical_word bare_bus 0x80800024 0xffffffff (replaying ?m) = Inr (PPC_MMU_OK, replaying ?m)"
    using replay f(2) by simp
  moreover have "ppc_write_physical_dword bare_bus 0x84000000 1 (replaying ?m) =
      Inr (PPC_MMU_OK, fb_store 8 0x84000000 (unat (1 :: uint64)) (replaying ?m))"
    using replay f(1) by simp
  ultimately show ?thesis using r by auto
qed

subsection \<open>Addresses without a device\<close>

text \<open>A load or store of a physical address outside memory that no device answers ends the emulator; the machine check
  exception that the bus means to raise is a fatal error of the interpreter, and the guest never gets it.\<close>

theorem unmapped_access_fatal:
  assumes "\<not> a < gMemorySize m" "\<not> gIOReadReplay (io m)" "a \<noteq> 0xff000004"
    and "\<not> in_range a IO_GCARD_FRAMEBUFFER_PA_START IO_GCARD_FRAMEBUFFER_PA_END" "\<not> in_range a IO_PCI_PA_START IO_PCI_PA_END"
    "\<not> in_range a IO_PCI_DEVICE_PA_START IO_PCI_DEVICE_PA_END" "\<not> in_range a IO_ISA_PA_START IO_ISA_PA_END"
  shows "ppc_read_physical_word (io_bus W junk) a m = Inl Ppc_Fatal \<and> ppc_write_physical_word (io_bus W junk) a v m = Inl Ppc_Fatal"
proof -
  have sub: "in_range a s e \<Longrightarrow> 0x80000000 \<le> s \<Longrightarrow> e \<le> 0x81000000 \<Longrightarrow> in_range a IO_PCI_DEVICE_PA_START IO_PCI_DEVICE_PA_END" for s e
    by (auto simp: io_ranges intro: order_trans order.strict_trans2)
  have "\<not> in_range a IO_PIC_PA_START IO_PIC_PA_END" "\<not> in_range a IO_CUDA_PA_START IO_CUDA_PA_END"
    "\<not> in_range a IO_NVRAM_PA_START IO_NVRAM_PA_END"
    using sub[of IO_PIC_PA_START IO_PIC_PA_END] sub[of IO_CUDA_PA_START IO_CUDA_PA_END] sub[of IO_NVRAM_PA_START IO_NVRAM_PA_END] assms(6)
    by (auto simp: IO_PIC_PA_START_def IO_PIC_PA_END_def IO_CUDA_PA_START_def IO_CUDA_PA_END_def IO_NVRAM_PA_START_def IO_NVRAM_PA_END_def)
  then show ?thesis
    using assms by (simp add: physical_accesses io_bus_def io_read_def io_write_def io_mem_read_impl_def io_mem_write_impl_def Let_def)
qed

theorem unmapped_access_fatal_witness:
  "ppc_read_physical_word bare_bus 0x90000000 demo_machine = Inl Ppc_Fatal \<and>
   ppc_write_physical_word bare_bus 0x90000000 0 demo_machine = Inl Ppc_Fatal"
  by (rule unmapped_access_fatal) (simp_all add: io_ranges)

end
