(* ===== verification/Jitc_Alu.thy ===== *)
theory Jitc_Alu
  imports Ppc_Opc Ppc_Mmu
begin

text \<open>
  src/cpu/cpu_jitc_aarch64/ppc_alu.cc: the functions that the code generator for aarch64 hosts calls for instructions it does
  not translate, written by hand for every instruction (the interpreter has templates, see \<open>Ppc_Sem_Alu\<close>).  They keep the
  carry in a variable of its own, \<open>xer_ca\<close>, and not in \<open>xer\<close>.  The code generators for the two x86 hosts have copies of
  these functions.  \<open>PPC_ALU_ERR\<close> is \<open>ppc_fatal\<close>; \<open>PPC_OPC_ASSERT\<close> is empty.  The names carry the suffix \<open>_a64\<close>.
\<close>

unbundle bit_operations_syntax

subsection \<open>Helpers\<close>

definition ppc_update_cr0 :: "uint32 \<Rightarrow> cpu \<Rightarrow> cpu" where
  "ppc_update_cr0 r c =
     (let c = c\<lparr>cr := cr c AND 0x0fffffff\<rparr>;
          c = (if r = 0 then c\<lparr>cr := cr c OR CR_CR0_EQ\<rparr>
               else if istrue (r AND 0x80000000) then c\<lparr>cr := cr c OR CR_CR0_LT\<rparr>
               else c\<lparr>cr := cr c OR CR_CR0_GT\<rparr>)
      in if istrue (xer c AND XER_SO) then c\<lparr>cr := cr c OR CR_CR0_SO\<rparr> else c)"

definition rc_cr0 :: "nat \<Rightarrow> cpu \<Rightarrow> cpu" where
  "rc_cr0 r c = (if istrue (current_opc c AND PPC_OPC_Rc) then ppc_update_cr0 (gpr c r) c else c)"

definition unimplemented :: opc_function where "unimplemented c = Inl Ppc_Fatal"

definition ppc_carry_3 :: "uint32 \<Rightarrow> uint32 \<Rightarrow> uint32 \<Rightarrow> bool" where
  "ppc_carry_3 a b c \<longleftrightarrow> (if a + b < a then True else if a + b + c < c then True else False)"

definition ppc_word_rotl :: "uint32 \<Rightarrow> nat \<Rightarrow> uint32" where
  "ppc_word_rotl w n = (let n = n mod 32 in shl32 w n OR shr32 w (32 - n))"

text \<open>\<open>ppc_mask\<close>.\<close>

definition ppc_mask_int :: "nat \<Rightarrow> nat \<Rightarrow> uint32" where
  "ppc_mask_int MB ME =
     (if MB \<le> ME then (if ME - MB = 31 then 0xffffffff else shl32 (shl32 1 (ME - MB + 1) - 1) (31 - ME))
      else ppc_word_rotl (shl32 1 (32 - MB + ME + 1) - 1) (31 - ME))"

definition put_cr_bit :: "nat \<Rightarrow> bool \<Rightarrow> cpu \<Rightarrow> cpu" where
  "put_cr_bit b on c =
     c\<lparr>cr := (if on then cr c OR push_bit (31 - b) 1 else cr c AND NOT (push_bit (31 - b) 1))\<rparr>"

text \<open>The loop of the arithmetic shifts of a negative number, with the carry it collects.\<close>

fun sraw_carry_loop :: "nat \<Rightarrow> uint32 \<Rightarrow> uint32 \<Rightarrow> uint32 \<times> uint32" where
  "sraw_carry_loop 0 v ca = (v, ca)"
| "sraw_carry_loop (Suc n) v ca =
     sraw_carry_loop n (drop_bit 1 v OR 0x80000000) (if istrue (v AND 1) then 1 else ca)"

subsection \<open>Integer instructions\<close>

definition ppc_opc_addx_a64 :: opc_function where
  "ppc_opc_addx_a64 c =
     (let (rD, rA, rB) = PPC_OPC_TEMPL_XO (current_opc c);
          c = write_gpr rD (gpr c rA + gpr c rB) c
      in Inr (rc_cr0 rD c))"

definition ppc_opc_addox_a64 :: opc_function where
  "ppc_opc_addox_a64 c =
     (let (rD, rA, rB) = PPC_OPC_TEMPL_XO (current_opc c);
          c = write_gpr rD (gpr c rA + gpr c rB) c
      in unimplemented (rc_cr0 rD c))"

definition ppc_opc_addcx_a64 :: opc_function where
  "ppc_opc_addcx_a64 c =
     (let (rD, rA, rB) = PPC_OPC_TEMPL_XO (current_opc c);
          a = gpr c rA;
          c = write_gpr rD (a + gpr c rB) c;
          c = c\<lparr>xer_ca := of_bool (gpr c rD < a)\<rparr>
      in Inr (rc_cr0 rD c))"

definition ppc_opc_addcox_a64 :: opc_function where
  "ppc_opc_addcox_a64 c =
     (let (rD, rA, rB) = PPC_OPC_TEMPL_XO (current_opc c);
          a = gpr c rA;
          c = write_gpr rD (a + gpr c rB) c;
          c = c\<lparr>xer_ca := of_bool (gpr c rD < a)\<rparr>
      in unimplemented (rc_cr0 rD c))"

definition ppc_opc_addex_a64 :: opc_function where
  "ppc_opc_addex_a64 c =
     (let (rD, rA, rB) = PPC_OPC_TEMPL_XO (current_opc c);
          a = gpr c rA;
          b = gpr c rB;
          ca = xer_ca c;
          c = write_gpr rD (a + b + ca) c;
          c = c\<lparr>xer_ca := of_bool (ppc_carry_3 a b ca)\<rparr>
      in Inr (rc_cr0 rD c))"

definition ppc_opc_addeox_a64 :: opc_function where
  "ppc_opc_addeox_a64 c =
     (let (rD, rA, rB) = PPC_OPC_TEMPL_XO (current_opc c);
          a = gpr c rA;
          b = gpr c rB;
          ca = xer_ca c;
          c = write_gpr rD (a + b + ca) c;
          c = c\<lparr>xer_ca := of_bool (ppc_carry_3 a b ca)\<rparr>
      in unimplemented (rc_cr0 rD c))"

definition ppc_opc_addi_a64 :: opc_function where
  "ppc_opc_addi_a64 c =
     (let (rD, rA, imm) = PPC_OPC_TEMPL_D_SImm (current_opc c);
          c = write_gpr rD ((if rA \<noteq> 0 then gpr c rA else 0) + imm) c
      in Inr c)"

definition ppc_opc_addic_a64 :: opc_function where
  "ppc_opc_addic_a64 c =
     (let (rD, rA, imm) = PPC_OPC_TEMPL_D_SImm (current_opc c);
          a = gpr c rA;
          c = write_gpr rD (a + imm) c;
          c = c\<lparr>xer_ca := of_bool (gpr c rD < a)\<rparr>
      in Inr c)"

definition ppc_opc_addic_rc_a64 :: opc_function where
  "ppc_opc_addic_rc_a64 c =
     (let (rD, rA, imm) = PPC_OPC_TEMPL_D_SImm (current_opc c);
          a = gpr c rA;
          c = write_gpr rD (a + imm) c;
          c = c\<lparr>xer_ca := of_bool (gpr c rD < a)\<rparr>
      in Inr (ppc_update_cr0 (gpr c rD) c))"

definition ppc_opc_addis_a64 :: opc_function where
  "ppc_opc_addis_a64 c =
     (let (rD, rA, imm) = PPC_OPC_TEMPL_D_Shift16 (current_opc c);
          c = write_gpr rD ((if rA \<noteq> 0 then gpr c rA else 0) + imm) c
      in Inr c)"

definition ppc_opc_addmex_a64 :: opc_function where
  "ppc_opc_addmex_a64 c =
     (let (rD, rA, rB) = PPC_OPC_TEMPL_XO (current_opc c);
          a = gpr c rA;
          ca = xer_ca c;
          c = write_gpr rD (a + ca + 0xffffffff) c;
          c = c\<lparr>xer_ca := of_bool (a \<noteq> 0 \<or> ca \<noteq> 0)\<rparr>
      in Inr (rc_cr0 rD c))"

definition ppc_opc_addmeox_a64 :: opc_function where
  "ppc_opc_addmeox_a64 c =
     (let (rD, rA, rB) = PPC_OPC_TEMPL_XO (current_opc c);
          a = gpr c rA;
          ca = xer_ca c;
          c = write_gpr rD (a + ca + 0xffffffff) c;
          c = c\<lparr>xer_ca := of_bool (a \<noteq> 0 \<or> ca \<noteq> 0)\<rparr>
      in unimplemented (rc_cr0 rD c))"

definition ppc_opc_addzex_a64 :: opc_function where
  "ppc_opc_addzex_a64 c =
     (let (rD, rA, rB) = PPC_OPC_TEMPL_XO (current_opc c);
          a = gpr c rA;
          ca = xer_ca c;
          c = write_gpr rD (a + ca) c;
          c = c\<lparr>xer_ca := of_bool (a = 0xffffffff \<and> ca \<noteq> 0)\<rparr>
      in Inr (rc_cr0 rD c))"

definition ppc_opc_addzeox_a64 :: opc_function where
  "ppc_opc_addzeox_a64 c =
     (let (rD, rA, rB) = PPC_OPC_TEMPL_XO (current_opc c);
          a = gpr c rA;
          ca = xer_ca c;
          c = write_gpr rD (a + ca) c;
          c = c\<lparr>xer_ca := of_bool (a = 0xffffffff \<and> ca \<noteq> 0)\<rparr>
      in unimplemented (rc_cr0 rD c))"

definition ppc_opc_andx_a64 :: opc_function where
  "ppc_opc_andx_a64 c =
     (let (rS, rA, rB) = PPC_OPC_TEMPL_X (current_opc c);
          c = write_gpr rA (gpr c rS AND gpr c rB) c
      in Inr (rc_cr0 rA c))"

definition ppc_opc_andcx_a64 :: opc_function where
  "ppc_opc_andcx_a64 c =
     (let (rS, rA, rB) = PPC_OPC_TEMPL_X (current_opc c);
          c = write_gpr rA (gpr c rS AND NOT (gpr c rB)) c
      in Inr (rc_cr0 rA c))"

definition ppc_opc_andi_rc_a64 :: opc_function where
  "ppc_opc_andi_rc_a64 c =
     (let (rS, rA, imm) = PPC_OPC_TEMPL_D_UImm (current_opc c);
          c = write_gpr rA (gpr c rS AND imm) c
      in Inr (ppc_update_cr0 (gpr c rA) c))"

definition ppc_opc_andis_rc_a64 :: opc_function where
  "ppc_opc_andis_rc_a64 c =
     (let (rS, rA, imm) = PPC_OPC_TEMPL_D_Shift16 (current_opc c);
          c = write_gpr rA (gpr c rS AND imm) c
      in Inr (ppc_update_cr0 (gpr c rA) c))"

definition ppc_opc_cmp_a64 :: opc_function where
  "ppc_opc_cmp_a64 c =
     (let (crf, rA, rB) = PPC_OPC_TEMPL_X (current_opc c);
          a = gpr c rA;
          b = gpr c rB;
          x = (if a <s b then 8 else if b <s a then 4 else 2 :: uint32);
          x = (if istrue (xer c AND XER_SO) then x OR 1 else x);
          i = 7 - crf div 4
      in Inr (c\<lparr>cr := (cr c AND ppc_cmp_and_mask i) OR push_bit (i * 4) x\<rparr>))"

definition ppc_opc_cmpi_a64 :: opc_function where
  "ppc_opc_cmpi_a64 c =
     (let (crf, rA, imm) = PPC_OPC_TEMPL_D_SImm (current_opc c);
          a = gpr c rA;
          b = imm;
          x = (if a <s b then 8 else if b <s a then 4 else 2 :: uint32);
          x = (if istrue (xer c AND XER_SO) then x OR 1 else x);
          i = 7 - crf div 4
      in Inr (c\<lparr>cr := (cr c AND ppc_cmp_and_mask i) OR push_bit (i * 4) x\<rparr>))"

definition ppc_opc_cmpl_a64 :: opc_function where
  "ppc_opc_cmpl_a64 c =
     (let (crf, rA, rB) = PPC_OPC_TEMPL_X (current_opc c);
          a = gpr c rA;
          b = gpr c rB;
          x = (if a < b then 8 else if b < a then 4 else 2 :: uint32);
          x = (if istrue (xer c AND XER_SO) then x OR 1 else x);
          i = 7 - crf div 4
      in Inr (c\<lparr>cr := (cr c AND ppc_cmp_and_mask i) OR push_bit (i * 4) x\<rparr>))"

definition ppc_opc_cmpli_a64 :: opc_function where
  "ppc_opc_cmpli_a64 c =
     (let (crf, rA, imm) = PPC_OPC_TEMPL_D_UImm (current_opc c);
          a = gpr c rA;
          b = imm;
          x = (if a < b then 8 else if b < a then 4 else 2 :: uint32);
          x = (if istrue (xer c AND XER_SO) then x OR 1 else x);
          i = 7 - crf div 4
      in Inr (c\<lparr>cr := (cr c AND ppc_cmp_and_mask i) OR push_bit (i * 4) x\<rparr>))"

definition ppc_opc_cntlzwx_a64 :: opc_function where
  "ppc_opc_cntlzwx_a64 c =
     (let (rS, rA, rB) = PPC_OPC_TEMPL_X (current_opc c);
          c = write_gpr rA (of_nat (cntlzw_loop 32 (gpr c rS) 0x80000000)) c
      in Inr (rc_cr0 rA c))"

definition ppc_opc_crand_a64 :: opc_function where
  "ppc_opc_crand_a64 c =
     (let (crD, crA, crB) = PPC_OPC_TEMPL_X (current_opc c)
      in Inr (put_cr_bit crD (istrue (cr c AND push_bit (31 - crA) 1) \<and> istrue (cr c AND push_bit (31 - crB) 1)) c))"

definition ppc_opc_crandc_a64 :: opc_function where
  "ppc_opc_crandc_a64 c =
     (let (crD, crA, crB) = PPC_OPC_TEMPL_X (current_opc c)
      in Inr (put_cr_bit crD (istrue (cr c AND push_bit (31 - crA) 1) \<and> \<not> istrue (cr c AND push_bit (31 - crB) 1)) c))"

definition ppc_opc_creqv_a64 :: opc_function where
  "ppc_opc_creqv_a64 c =
     (let (crD, crA, crB) = PPC_OPC_TEMPL_X (current_opc c)
      in Inr (put_cr_bit crD ((istrue (cr c AND push_bit (31 - crA) 1) \<and> istrue (cr c AND push_bit (31 - crB) 1)) \<or> (\<not> istrue (cr c AND push_bit (31 - crA) 1) \<and> \<not> istrue (cr c AND push_bit (31 - crB) 1))) c))"

definition ppc_opc_crnand_a64 :: opc_function where
  "ppc_opc_crnand_a64 c =
     (let (crD, crA, crB) = PPC_OPC_TEMPL_X (current_opc c)
      in Inr (put_cr_bit crD (\<not> (istrue (cr c AND push_bit (31 - crA) 1) \<and> istrue (cr c AND push_bit (31 - crB) 1))) c))"

definition ppc_opc_crnor_a64 :: opc_function where
  "ppc_opc_crnor_a64 c =
     (let (crD, crA, crB) = PPC_OPC_TEMPL_X (current_opc c);
          t = push_bit (31 - crA) 1 OR push_bit (31 - crB) 1
      in Inr (put_cr_bit crD (\<not> istrue (cr c AND t)) c))"

definition ppc_opc_cror_a64 :: opc_function where
  "ppc_opc_cror_a64 c =
     (let (crD, crA, crB) = PPC_OPC_TEMPL_X (current_opc c);
          t = push_bit (31 - crA) 1 OR push_bit (31 - crB) 1
      in Inr (put_cr_bit crD (istrue (cr c AND t)) c))"

definition ppc_opc_crorc_a64 :: opc_function where
  "ppc_opc_crorc_a64 c =
     (let (crD, crA, crB) = PPC_OPC_TEMPL_X (current_opc c)
      in Inr (put_cr_bit crD (istrue (cr c AND push_bit (31 - crA) 1) \<or> \<not> istrue (cr c AND push_bit (31 - crB) 1)) c))"

definition ppc_opc_crxor_a64 :: opc_function where
  "ppc_opc_crxor_a64 c =
     (let (crD, crA, crB) = PPC_OPC_TEMPL_X (current_opc c)
      in Inr (put_cr_bit crD ((\<not> istrue (cr c AND push_bit (31 - crA) 1) \<and> istrue (cr c AND push_bit (31 - crB) 1)) \<or> (istrue (cr c AND push_bit (31 - crA) 1) \<and> \<not> istrue (cr c AND push_bit (31 - crB) 1))) c))"

definition ppc_opc_divwx_a64 :: opc_function where
  "ppc_opc_divwx_a64 c =
     (let (rD, rA, rB) = PPC_OPC_TEMPL_XO (current_opc c)
      in and_then (if gpr c rB = 0 then Inr c else map_sum Host_Undefined (\<lambda>q. write_gpr rD q c) (ppc_div_s (gpr c rA) (gpr c rB))) (\<lambda>c. Inr (rc_cr0 rD c)))"

definition ppc_opc_divwox_a64 :: opc_function where
  "ppc_opc_divwox_a64 c =
     (let (rD, rA, rB) = PPC_OPC_TEMPL_XO (current_opc c)
      in and_then (if gpr c rB = 0 then Inr c else map_sum Host_Undefined (\<lambda>q. write_gpr rD q c) (ppc_div_s (gpr c rA) (gpr c rB))) (\<lambda>c. unimplemented (rc_cr0 rD c)))"

definition ppc_opc_divwux_a64 :: opc_function where
  "ppc_opc_divwux_a64 c =
     (let (rD, rA, rB) = PPC_OPC_TEMPL_XO (current_opc c)
      in and_then (if gpr c rB = 0 then Inr c else map_sum Host_Undefined (\<lambda>q. write_gpr rD q c) (ppc_div_u (gpr c rA) (gpr c rB))) (\<lambda>c. Inr (rc_cr0 rD c)))"

definition ppc_opc_divwuox_a64 :: opc_function where
  "ppc_opc_divwuox_a64 c =
     (let (rD, rA, rB) = PPC_OPC_TEMPL_XO (current_opc c)
      in and_then (if gpr c rB = 0 then Inr c else map_sum Host_Undefined (\<lambda>q. write_gpr rD q c) (ppc_div_u (gpr c rA) (gpr c rB))) (\<lambda>c. unimplemented (rc_cr0 rD c)))"

definition ppc_opc_eqvx_a64 :: opc_function where
  "ppc_opc_eqvx_a64 c =
     (let (rS, rA, rB) = PPC_OPC_TEMPL_X (current_opc c);
          c = write_gpr rA (NOT (gpr c rS XOR gpr c rB)) c
      in Inr (rc_cr0 rA c))"

definition ppc_opc_extsbx_a64 :: opc_function where
  "ppc_opc_extsbx_a64 c =
     (let (rS, rA, rB) = PPC_OPC_TEMPL_X (current_opc c);
          c = write_gpr rA (gpr c rS) c;
          c = write_gpr rA (if istrue (gpr c rA AND 0x80) then gpr c rA OR 0xffffff00 else gpr c rA AND NOT 0xffffff00) c
      in Inr (rc_cr0 rA c))"

definition ppc_opc_extshx_a64 :: opc_function where
  "ppc_opc_extshx_a64 c =
     (let (rS, rA, rB) = PPC_OPC_TEMPL_X (current_opc c);
          c = write_gpr rA (gpr c rS) c;
          c = write_gpr rA (if istrue (gpr c rA AND 0x8000) then gpr c rA OR 0xffff0000 else gpr c rA AND NOT 0xffff0000) c
      in Inr (rc_cr0 rA c))"

definition ppc_opc_mulhwx_a64 :: opc_function where
  "ppc_opc_mulhwx_a64 c =
     (let (rD, rA, rB) = PPC_OPC_TEMPL_XO (current_opc c);
          p = word_of_int (sint (gpr c rA) * sint (gpr c rB)) :: uint64;
          c = write_gpr rD (ucast (drop_bit 32 p)) c
      in Inr (rc_cr0 rD c))"

definition ppc_opc_mulhwux_a64 :: opc_function where
  "ppc_opc_mulhwux_a64 c =
     (let (rD, rA, rB) = PPC_OPC_TEMPL_XO (current_opc c);
          p = ucast (gpr c rA) * ucast (gpr c rB) :: uint64;
          c = write_gpr rD (ucast (drop_bit 32 p)) c
      in Inr (rc_cr0 rD c))"

definition ppc_opc_mulli_a64 :: opc_function where
  "ppc_opc_mulli_a64 c =
     (let (rD, rA, imm) = PPC_OPC_TEMPL_D_SImm (current_opc c);
          c = write_gpr rD (gpr c rA * imm) c
      in Inr c)"

definition ppc_opc_mullwx_a64 :: opc_function where
  "ppc_opc_mullwx_a64 c =
     (let (rD, rA, rB) = PPC_OPC_TEMPL_XO (current_opc c);
          c = write_gpr rD (gpr c rA * gpr c rB) c;
          c = rc_cr0 rD c
      in if istrue (current_opc c AND PPC_OPC_OE) then unimplemented c else Inr c)"

definition ppc_opc_nandx_a64 :: opc_function where
  "ppc_opc_nandx_a64 c =
     (let (rS, rA, rB) = PPC_OPC_TEMPL_X (current_opc c);
          c = write_gpr rA (NOT (gpr c rS AND gpr c rB)) c
      in Inr (rc_cr0 rA c))"

definition ppc_opc_negx_a64 :: opc_function where
  "ppc_opc_negx_a64 c =
     (let (rD, rA, rB) = PPC_OPC_TEMPL_XO (current_opc c);
          c = write_gpr rD (- gpr c rA) c
      in Inr (rc_cr0 rD c))"

definition ppc_opc_negox_a64 :: opc_function where
  "ppc_opc_negox_a64 c =
     (let (rD, rA, rB) = PPC_OPC_TEMPL_XO (current_opc c);
          c = write_gpr rD (- gpr c rA) c
      in unimplemented (rc_cr0 rD c))"

definition ppc_opc_norx_a64 :: opc_function where
  "ppc_opc_norx_a64 c =
     (let (rS, rA, rB) = PPC_OPC_TEMPL_X (current_opc c);
          c = write_gpr rA (NOT (gpr c rS OR gpr c rB)) c
      in Inr (rc_cr0 rA c))"

definition ppc_opc_orx_a64 :: opc_function where
  "ppc_opc_orx_a64 c =
     (let (rS, rA, rB) = PPC_OPC_TEMPL_X (current_opc c);
          c = write_gpr rA (gpr c rS OR gpr c rB) c
      in Inr (rc_cr0 rA c))"

definition ppc_opc_orcx_a64 :: opc_function where
  "ppc_opc_orcx_a64 c =
     (let (rS, rA, rB) = PPC_OPC_TEMPL_X (current_opc c);
          c = write_gpr rA (gpr c rS OR NOT (gpr c rB)) c
      in Inr (rc_cr0 rA c))"

definition ppc_opc_ori_a64 :: opc_function where
  "ppc_opc_ori_a64 c =
     (let (rS, rA, imm) = PPC_OPC_TEMPL_D_UImm (current_opc c);
          c = write_gpr rA (gpr c rS OR imm) c
      in Inr c)"

definition ppc_opc_oris_a64 :: opc_function where
  "ppc_opc_oris_a64 c =
     (let (rS, rA, imm) = PPC_OPC_TEMPL_D_Shift16 (current_opc c);
          c = write_gpr rA (gpr c rS OR imm) c
      in Inr c)"

definition ppc_opc_rlwimix_a64 :: opc_function where
  "ppc_opc_rlwimix_a64 c =
     (let (rS, rA, SH, MB, ME) = PPC_OPC_TEMPL_M (current_opc c);
          v = ppc_word_rotl (gpr c rS) SH;
          m = ppc_mask_int MB ME;
          c = write_gpr rA ((v AND m) OR (gpr c rA AND NOT m)) c
      in Inr (rc_cr0 rA c))"

definition ppc_opc_rlwinmx_a64 :: opc_function where
  "ppc_opc_rlwinmx_a64 c =
     (let (rS, rA, SH, MB, ME) = PPC_OPC_TEMPL_M (current_opc c);
          v = ppc_word_rotl (gpr c rS) SH;
          m = ppc_mask_int MB ME;
          c = write_gpr rA (v AND m) c
      in Inr (rc_cr0 rA c))"

definition ppc_opc_rlwnmx_a64 :: opc_function where
  "ppc_opc_rlwnmx_a64 c =
     (let (rS, rA, rB, MB, ME) = PPC_OPC_TEMPL_M (current_opc c);
          v = ppc_word_rotl (gpr c rS) (unat (gpr c rB));
          m = ppc_mask_int MB ME;
          c = write_gpr rA (v AND m) c
      in Inr (rc_cr0 rA c))"

definition ppc_opc_slwx_a64 :: opc_function where
  "ppc_opc_slwx_a64 c =
     (let (rS, rA, rB) = PPC_OPC_TEMPL_X (current_opc c);
          s = gpr c rB AND 0x3f;
          c = write_gpr rA (if 31 < s then 0 else push_bit (unat s) (gpr c rS)) c
      in Inr (rc_cr0 rA c))"

definition ppc_opc_srawx_a64 :: opc_function where
  "ppc_opc_srawx_a64 c =
     (let (rS, rA, rB) = PPC_OPC_TEMPL_X (current_opc c);
          n = unat (gpr c rB AND 0x3f);
          c = write_gpr rA (gpr c rS) c;
          c = c\<lparr>xer_ca := 0\<rparr>;
          c = (if istrue (gpr c rA AND 0x80000000) then
                (let (v, ca) = sraw_carry_loop n (gpr c rA) 0; c = write_gpr rA v c in if ca \<noteq> 0 then c\<lparr>xer_ca := 1\<rparr> else c)
              else if 31 < n then write_gpr rA 0 c else write_gpr rA (drop_bit n (gpr c rA)) c)
      in Inr (rc_cr0 rA c))"

definition ppc_opc_srawix_a64 :: opc_function where
  "ppc_opc_srawix_a64 c =
     (let (rS, rA, SH) = PPC_OPC_TEMPL_X (current_opc c);
          n = SH;
          c = write_gpr rA (gpr c rS) c;
          c = c\<lparr>xer_ca := 0\<rparr>;
          c = (if istrue (gpr c rA AND 0x80000000) then
                (let (v, ca) = sraw_carry_loop n (gpr c rA) 0; c = write_gpr rA v c in if ca \<noteq> 0 then c\<lparr>xer_ca := 1\<rparr> else c)
              else write_gpr rA (drop_bit n (gpr c rA)) c)
      in Inr (rc_cr0 rA c))"

definition ppc_opc_srwx_a64 :: opc_function where
  "ppc_opc_srwx_a64 c =
     (let (rS, rA, rB) = PPC_OPC_TEMPL_X (current_opc c);
          s = gpr c rB AND 0x3f;
          c = write_gpr rA (if 31 < s then 0 else drop_bit (unat s) (gpr c rS)) c
      in Inr (rc_cr0 rA c))"

definition ppc_opc_subfx_a64 :: opc_function where
  "ppc_opc_subfx_a64 c =
     (let (rD, rA, rB) = PPC_OPC_TEMPL_XO (current_opc c);
          c = write_gpr rD (NOT (gpr c rA) + gpr c rB + 1) c
      in Inr (rc_cr0 rD c))"

definition ppc_opc_subfox_a64 :: opc_function where
  "ppc_opc_subfox_a64 c =
     (let (rD, rA, rB) = PPC_OPC_TEMPL_XO (current_opc c);
          c = write_gpr rD (NOT (gpr c rA) + gpr c rB + 1) c
      in unimplemented (rc_cr0 rD c))"

definition ppc_opc_subfcx_a64 :: opc_function where
  "ppc_opc_subfcx_a64 c =
     (let (rD, rA, rB) = PPC_OPC_TEMPL_XO (current_opc c);
          a = gpr c rA;
          b = gpr c rB;
          c = write_gpr rD (NOT a + b + 1) c;
          c = c\<lparr>xer_ca := of_bool (ppc_carry_3 (NOT a) b 1)\<rparr>
      in Inr (rc_cr0 rD c))"

definition ppc_opc_subfcox_a64 :: opc_function where
  "ppc_opc_subfcox_a64 c =
     (let (rD, rA, rB) = PPC_OPC_TEMPL_XO (current_opc c);
          a = gpr c rA;
          b = gpr c rB;
          c = write_gpr rD (NOT a + b + 1) c;
          c = c\<lparr>xer_ca := of_bool (ppc_carry_3 (NOT a) b 1)\<rparr>
      in unimplemented (rc_cr0 rD c))"

definition ppc_opc_subfex_a64 :: opc_function where
  "ppc_opc_subfex_a64 c =
     (let (rD, rA, rB) = PPC_OPC_TEMPL_XO (current_opc c);
          a = gpr c rA;
          b = gpr c rB;
          ca = xer_ca c;
          c = write_gpr rD (NOT a + b + ca) c;
          c = c\<lparr>xer_ca := of_bool (ppc_carry_3 (NOT a) b ca)\<rparr>
      in Inr (rc_cr0 rD c))"

definition ppc_opc_subfeox_a64 :: opc_function where
  "ppc_opc_subfeox_a64 c =
     (let (rD, rA, rB) = PPC_OPC_TEMPL_XO (current_opc c);
          a = gpr c rA;
          b = gpr c rB;
          ca = xer_ca c;
          c = write_gpr rD (NOT a + b + ca) c;
          c = c\<lparr>xer_ca := of_bool (ppc_carry_3 (NOT a) b ca)\<rparr>
      in unimplemented (rc_cr0 rD c))"

definition ppc_opc_subfic_a64 :: opc_function where
  "ppc_opc_subfic_a64 c =
     (let (rD, rA, imm) = PPC_OPC_TEMPL_D_SImm (current_opc c);
          a = gpr c rA;
          c = write_gpr rD (NOT a + imm + 1) c;
          c = c\<lparr>xer_ca := of_bool (ppc_carry_3 (NOT a) imm 1)\<rparr>
      in Inr c)"

definition ppc_opc_subfmex_a64 :: opc_function where
  "ppc_opc_subfmex_a64 c =
     (let (rD, rA, rB) = PPC_OPC_TEMPL_XO (current_opc c);
          a = gpr c rA;
          ca = xer_ca c;
          c = write_gpr rD (NOT a + ca + 0xffffffff) c;
          c = c\<lparr>xer_ca := of_bool (a \<noteq> 0xffffffff \<or> ca \<noteq> 0)\<rparr>
      in Inr (rc_cr0 rD c))"

definition ppc_opc_subfmeox_a64 :: opc_function where
  "ppc_opc_subfmeox_a64 c =
     (let (rD, rA, rB) = PPC_OPC_TEMPL_XO (current_opc c);
          a = gpr c rA;
          ca = xer_ca c;
          c = write_gpr rD (NOT a + ca + 0xffffffff) c;
          c = c\<lparr>xer_ca := of_bool (a \<noteq> 0xffffffff \<or> ca \<noteq> 0)\<rparr>
      in unimplemented (rc_cr0 rD c))"

definition ppc_opc_subfzex_a64 :: opc_function where
  "ppc_opc_subfzex_a64 c =
     (let (rD, rA, rB) = PPC_OPC_TEMPL_XO (current_opc c);
          a = gpr c rA;
          ca = xer_ca c;
          c = write_gpr rD (NOT a + ca) c;
          c = c\<lparr>xer_ca := of_bool (a = 0 \<and> ca \<noteq> 0)\<rparr>
      in Inr (rc_cr0 rD c))"

definition ppc_opc_subfzeox_a64 :: opc_function where
  "ppc_opc_subfzeox_a64 c =
     (let (rD, rA, rB) = PPC_OPC_TEMPL_XO (current_opc c);
          a = gpr c rA;
          ca = xer_ca c;
          c = write_gpr rD (NOT a + ca) c;
          c = c\<lparr>xer_ca := of_bool (a = 0 \<and> ca \<noteq> 0)\<rparr>
      in unimplemented (rc_cr0 rD c))"

definition ppc_opc_xorx_a64 :: opc_function where
  "ppc_opc_xorx_a64 c =
     (let (rS, rA, rB) = PPC_OPC_TEMPL_X (current_opc c);
          c = write_gpr rA (gpr c rS XOR gpr c rB) c
      in Inr (rc_cr0 rA c))"

definition ppc_opc_xori_a64 :: opc_function where
  "ppc_opc_xori_a64 c =
     (let (rS, rA, imm) = PPC_OPC_TEMPL_D_UImm (current_opc c);
          c = write_gpr rA (gpr c rS XOR imm) c
      in Inr c)"

definition ppc_opc_xoris_a64 :: opc_function where
  "ppc_opc_xoris_a64 c =
     (let (rS, rA, imm) = PPC_OPC_TEMPL_D_Shift16 (current_opc c);
          c = write_gpr rA (gpr c rS XOR imm) c
      in Inr c)"

subsection \<open>Branches\<close>

definition lk_a64 :: "cpu \<Rightarrow> cpu" where
  "lk_a64 c = (if istrue (current_opc c AND PPC_OPC_LK) then c\<lparr>lr := pc c + 4\<rparr> else c)"

definition ppc_opc_bx_a64 :: opc_function where
  "ppc_opc_bx_a64 c =
     (let li = PPC_OPC_TEMPL_I (current_opc c);
          li = (if current_opc c AND PPC_OPC_AA = 0 then li + pc c else li);
          c = lk_a64 c
      in Inr (c\<lparr>npc := li\<rparr>))"

definition ppc_opc_bcx_a64 :: opc_function where
  "ppc_opc_bcx_a64 c =
     (let (BO, BI, BD) = PPC_OPC_TEMPL_B (current_opc c);
          c = (if BO AND 4 = 0 then c\<lparr>ctr := ctr c - 1\<rparr> else c);
          bo2 = istrue (BO AND 2);
          bo8 = istrue (BO AND 8);
          b = istrue (cr c AND push_bit (31 - BI) 1);
          taken = ((istrue (BO AND 4) \<or> (ctr c \<noteq> 0) \<noteq> bo2) \<and> (istrue (BO AND 16) \<or> \<not> (b \<noteq> bo8)))
      in if taken then
           (let BD = (if current_opc c AND PPC_OPC_AA = 0 then BD + pc c else BD);
                c = lk_a64 c
            in Inr (c\<lparr>npc := BD\<rparr>))
         else Inr c)"

definition ppc_opc_bcctrx_a64 :: opc_function where
  "ppc_opc_bcctrx_a64 c =
     (let (BO, BI, BD) = PPC_OPC_TEMPL_XL (current_opc c);
          bo8 = istrue (BO AND 8);
          b = istrue (cr c AND push_bit (31 - BI) 1)
      in if istrue (BO AND 16) \<or> \<not> (b \<noteq> bo8) then
           (let c = lk_a64 c in Inr (c\<lparr>npc := ctr c AND 0xfffffffc\<rparr>))
         else Inr c)"

text \<open>A return to an address from \<open>0xbf000000\<close> to \<open>0xbfffffff\<close> is a fatal error.\<close>

definition ppc_opc_bclrx_a64 :: opc_function where
  "ppc_opc_bclrx_a64 c =
     (let (BO, BI, BD) = PPC_OPC_TEMPL_XL (current_opc c);
          c = (if BO AND 4 = 0 then c\<lparr>ctr := ctr c - 1\<rparr> else c);
          bo2 = istrue (BO AND 2);
          bo8 = istrue (BO AND 8);
          b = istrue (cr c AND push_bit (31 - BI) 1)
      in if (istrue (BO AND 4) \<or> (ctr c \<noteq> 0) \<noteq> bo2) \<and> (istrue (BO AND 16) \<or> \<not> (b \<noteq> bo8)) then
           (let BD = lr c AND 0xfffffffc;
                c = lk_a64 c;
                c = c\<lparr>npc := BD\<rparr>
            in if 0xbf000000 \<le> BD \<and> BD < 0xc0000000 then unimplemented c else Inr c)
         else Inr c)"

subsection \<open>Condition register and FPSCR\<close>

definition ppc_opc_mcrf_a64 :: opc_function where
  "ppc_opc_mcrf_a64 c =
     (let (crD, crS, bla) = PPC_OPC_TEMPL_X (current_opc c);
          crD = 7 - crD div 4;
          crS = 7 - crS div 4;
          x = drop_bit (crS * 4) (cr c) AND 0xf
      in Inr (c\<lparr>cr := (cr c AND ppc_cmp_and_mask crD) OR push_bit (crD * 4) x\<rparr>))"

definition ppc_opc_mcrxr_a64 :: opc_function where
  "ppc_opc_mcrxr_a64 c =
     (let (crD, a, b) = PPC_OPC_TEMPL_X (current_opc c);
          crD = 7 - crD div 4;
          x = drop_bit 28 ((xer c AND 0xf0000000) OR (if xer_ca c \<noteq> 0 then XER_CA else 0));
          c = c\<lparr>cr := (cr c AND ppc_cmp_and_mask crD) OR push_bit (crD * 4) x\<rparr>
      in Inr (c\<lparr>xer := NOT 0xf0000000, xer_ca := 0\<rparr>))"

definition ppc_opc_mfcr_a64 :: opc_function where
  "ppc_opc_mfcr_a64 c =
     (let (rD, rA, rB) = PPC_OPC_TEMPL_X (current_opc c) in Inr (write_gpr rD (cr c) c))"

definition expand_field_mask :: "uint32 \<Rightarrow> uint32" where
  "expand_field_mask m =
     (if istrue (m AND 0x80) then 0xf0000000 else 0) OR (if istrue (m AND 0x40) then 0x0f000000 else 0) OR
     (if istrue (m AND 0x20) then 0x00f00000 else 0) OR (if istrue (m AND 0x10) then 0x000f0000 else 0) OR
     (if istrue (m AND 0x08) then 0x0000f000 else 0) OR (if istrue (m AND 0x04) then 0x00000f00 else 0) OR
     (if istrue (m AND 0x02) then 0x000000f0 else 0) OR (if istrue (m AND 0x01) then 0x0000000f else 0)"

definition ppc_opc_mtcrf_a64 :: opc_function where
  "ppc_opc_mtcrf_a64 c =
     (let (rS, crm) = PPC_OPC_TEMPL_XFX (current_opc c);
          CRM = expand_field_mask crm
      in Inr (c\<lparr>cr := (gpr c rS AND CRM) OR (cr c AND NOT CRM)\<rparr>))"

definition rc_cr1 :: opc_function where
  "rc_cr1 c = (if istrue (current_opc c AND PPC_OPC_Rc) then unimplemented c else Inr c)"

definition ppc_opc_mffsx_a64 :: opc_function where
  "ppc_opc_mffsx_a64 c =
     (let (frD, rA, rB) = PPC_OPC_TEMPL_X (current_opc c) in rc_cr1 (c\<lparr>fpr := (fpr c)(frD := ucast (fpscr c))\<rparr>))"

definition ppc_opc_mtfsb0x_a64 :: opc_function where
  "ppc_opc_mtfsb0x_a64 c =
     (let (crbD, n1, n2) = PPC_OPC_TEMPL_X (current_opc c)
      in rc_cr1 (if crbD \<noteq> 1 \<and> crbD \<noteq> 2 then c\<lparr>fpscr := fpscr c AND NOT (push_bit (31 - crbD) 1)\<rparr> else c))"

definition ppc_opc_mtfsb1x_a64 :: opc_function where
  "ppc_opc_mtfsb1x_a64 c =
     (let (crbD, n1, n2) = PPC_OPC_TEMPL_X (current_opc c)
      in rc_cr1 (if crbD \<noteq> 1 \<and> crbD \<noteq> 2 then c\<lparr>fpscr := fpscr c OR push_bit (31 - crbD) 1\<rparr> else c))"

definition ppc_opc_mtfsfx_a64 :: opc_function where
  "ppc_opc_mtfsfx_a64 c =
     (let (frB, fm) = PPC_OPC_TEMPL_XFL (current_opc c);
          FM = expand_field_mask fm
      in rc_cr1 (c\<lparr>fpscr := ucast ((fpr c frB AND ucast FM) OR ucast (fpscr c AND NOT FM))\<rparr>))"

definition ppc_opc_mtfsfix_a64 :: opc_function where
  "ppc_opc_mtfsfix_a64 c =
     (let (crfD, n1, imm) = PPC_OPC_TEMPL_X (current_opc c);
          crfD = 7 - crfD div 4;
          imm = of_nat (imm div 2) :: uint32
      in rc_cr1 (c\<lparr>fpscr := (fpscr c AND ppc_cmp_and_mask crfD) OR push_bit (crfD * 4) imm\<rparr>))"

definition ppc_opc_eieio_a64 :: opc_function where "ppc_opc_eieio_a64 c = Inr c"
definition ppc_opc_isync_a64 :: opc_function where "ppc_opc_isync_a64 c = Inr c"
definition ppc_opc_sync_a64 :: opc_function where "ppc_opc_sync_a64 c = Inr c"
definition ppc_opc_mcrfs_a64 :: opc_function where "ppc_opc_mcrfs_a64 = unimplemented"
definition ppc_opc_eciwx_a64 :: opc_function where "ppc_opc_eciwx_a64 = unimplemented"
definition ppc_opc_ecowx_a64 :: opc_function where "ppc_opc_ecowx_a64 = unimplemented"

lemmas a64_alu_defs =
  ppc_opc_addx_a64_def
  ppc_opc_addox_a64_def
  ppc_opc_addcx_a64_def
  ppc_opc_addcox_a64_def
  ppc_opc_addex_a64_def
  ppc_opc_addeox_a64_def
  ppc_opc_addi_a64_def
  ppc_opc_addic_a64_def
  ppc_opc_addic_rc_a64_def
  ppc_opc_addis_a64_def
  ppc_opc_addmex_a64_def
  ppc_opc_addmeox_a64_def
  ppc_opc_addzex_a64_def
  ppc_opc_addzeox_a64_def
  ppc_opc_andx_a64_def
  ppc_opc_andcx_a64_def
  ppc_opc_andi_rc_a64_def
  ppc_opc_andis_rc_a64_def
  ppc_opc_cmp_a64_def
  ppc_opc_cmpi_a64_def
  ppc_opc_cmpl_a64_def
  ppc_opc_cmpli_a64_def
  ppc_opc_cntlzwx_a64_def
  ppc_opc_crand_a64_def
  ppc_opc_crandc_a64_def
  ppc_opc_creqv_a64_def
  ppc_opc_crnand_a64_def
  ppc_opc_crnor_a64_def
  ppc_opc_cror_a64_def
  ppc_opc_crorc_a64_def
  ppc_opc_crxor_a64_def
  ppc_opc_divwx_a64_def
  ppc_opc_divwox_a64_def
  ppc_opc_divwux_a64_def
  ppc_opc_divwuox_a64_def
  ppc_opc_eqvx_a64_def
  ppc_opc_extsbx_a64_def
  ppc_opc_extshx_a64_def
  ppc_opc_mulhwx_a64_def
  ppc_opc_mulhwux_a64_def
  ppc_opc_mulli_a64_def
  ppc_opc_mullwx_a64_def
  ppc_opc_nandx_a64_def
  ppc_opc_negx_a64_def
  ppc_opc_negox_a64_def
  ppc_opc_norx_a64_def
  ppc_opc_orx_a64_def
  ppc_opc_orcx_a64_def
  ppc_opc_ori_a64_def
  ppc_opc_oris_a64_def
  ppc_opc_rlwimix_a64_def
  ppc_opc_rlwinmx_a64_def
  ppc_opc_rlwnmx_a64_def
  ppc_opc_slwx_a64_def
  ppc_opc_srawx_a64_def
  ppc_opc_srawix_a64_def
  ppc_opc_srwx_a64_def
  ppc_opc_subfx_a64_def
  ppc_opc_subfox_a64_def
  ppc_opc_subfcx_a64_def
  ppc_opc_subfcox_a64_def
  ppc_opc_subfex_a64_def
  ppc_opc_subfeox_a64_def
  ppc_opc_subfic_a64_def
  ppc_opc_subfmex_a64_def
  ppc_opc_subfmeox_a64_def
  ppc_opc_subfzex_a64_def
  ppc_opc_subfzeox_a64_def
  ppc_opc_xorx_a64_def
  ppc_opc_xori_a64_def
  ppc_opc_xoris_a64_def

end
