(* ===== verification/Jitc_Alu_Refines.thy ===== *)
theory Jitc_Alu_Refines
  imports Jitc_Alu Ppc_Insn_Props Ppc_Opc
begin

text \<open>
  The fallback handlers of the code generator against the interpreter's handlers.  \<open>merged\<close> reads a state of the first as a
  state of the second: the carry, which the code generator keeps in \<open>xer_ca\<close>, is put at its place in \<open>xer\<close>.
\<close>

unbundle bit_operations_syntax

definition merged :: "cpu \<Rightarrow> cpu" where
  "merged c = c\<lparr>xer := (xer c AND NOT XER_CA) OR (if xer_ca c \<noteq> 0 then XER_CA else 0), xer_ca := 0\<rparr>"

definition carry_ok :: "cpu \<Rightarrow> bool" where "carry_ok c \<longleftrightarrow> xer_ca c \<le> 1"

definition follows :: "opc_function \<Rightarrow> opc_function \<Rightarrow> cpu \<Rightarrow> bool" where
  "follows f g c \<longleftrightarrow> g (merged c) = map_sum id merged (f c) \<and> (case f c of Inl e \<Rightarrow> True | Inr d \<Rightarrow> carry_ok d)"

lemma merged_simps [simp]:
  "gpr (merged c) = gpr c" "fpr (merged c) = fpr c" "cr (merged c) = cr c" "fpscr (merged c) = fpscr c"
  "lr (merged c) = lr c" "ctr (merged c) = ctr c" "msr (merged c) = msr c" "pc (merged c) = pc c" "npc (merged c) = npc c"
  "current_opc (merged c) = current_opc c" "xer_ca (merged c) = 0"
  by (simp_all add: merged_def)

lemma and_not_or_absorb:
  fixes x a s :: "'a::len word"
  shows "((x AND NOT a) OR a) AND NOT a = x AND NOT a"
    and "a AND s = 0 \<Longrightarrow> (x AND NOT a) AND s = x AND s" and "a AND s = 0 \<Longrightarrow> ((x AND NOT a) OR a) AND s = x AND s"
  by (auto simp: bit_eq_iff bit_simps)

lemma merged_so [simp]: "xer (merged c) AND XER_SO = xer c AND XER_SO"
proof -
  have "XER_CA AND XER_SO = 0" by (simp add: XER_CA_def XER_SO_def)
  then show ?thesis by (simp add: merged_def and_not_or_absorb)
qed

lemma merged_updates [simp]:
  "merged (c\<lparr>cr := x\<rparr>) = (merged c)\<lparr>cr := x\<rparr>" "merged (c\<lparr>gpr := g\<rparr>) = (merged c)\<lparr>gpr := g\<rparr>"
  "merged (c\<lparr>fpr := f\<rparr>) = (merged c)\<lparr>fpr := f\<rparr>" "merged (c\<lparr>fpscr := x\<rparr>) = (merged c)\<lparr>fpscr := x\<rparr>"
  "merged (c\<lparr>lr := x\<rparr>) = (merged c)\<lparr>lr := x\<rparr>" "merged (c\<lparr>ctr := x\<rparr>) = (merged c)\<lparr>ctr := x\<rparr>"
  "merged (c\<lparr>npc := x\<rparr>) = (merged c)\<lparr>npc := x\<rparr>"
  by (simp_all add: merged_def)

lemma merged_carry [simp]: "merged (c\<lparr>xer_ca := of_bool b\<rparr>) = write_xer_ca b (merged c)"
  by (simp add: merged_def write_xer_ca_def and_not_or_absorb or.assoc)

lemma merged_read_ca: "carry_ok c \<Longrightarrow> read_xer_ca (merged c) = xer_ca c"
proof -
  assume "carry_ok c"
  then have "unat (xer_ca c) \<le> 1" by (simp add: carry_ok_def word_le_nat_alt)
  then have "xer_ca c = 0 \<or> xer_ca c = 1" unfolding word_unat_eq_iff by (simp only: unat_0 unat_1) presburger
  moreover have "((x AND NOT XER_CA) OR XER_CA) AND XER_CA \<noteq> 0" "(x AND NOT XER_CA) AND XER_CA = 0" for x
    by (simp_all add: and.assoc bit.conj_disj_distrib2) (simp add: XER_CA_def)
  ultimately show ?thesis by (auto simp: merged_def read_xer_ca_def)
qed

lemma carry_ok_updates [simp]:
  "carry_ok (c\<lparr>cr := x\<rparr>) = carry_ok c" "carry_ok (c\<lparr>gpr := g\<rparr>) = carry_ok c" "carry_ok (c\<lparr>fpr := f\<rparr>) = carry_ok c"
  "carry_ok (c\<lparr>fpscr := x\<rparr>) = carry_ok c" "carry_ok (c\<lparr>lr := x\<rparr>) = carry_ok c" "carry_ok (c\<lparr>ctr := x\<rparr>) = carry_ok c"
  "carry_ok (c\<lparr>npc := x\<rparr>) = carry_ok c" "carry_ok (c\<lparr>xer_ca := of_bool b\<rparr>)"
  by (simp_all add: carry_ok_def)

subsection \<open>The helpers agree\<close>

lemma ppc_update_cr0_eq: "ppc_update_cr0 r c = write_cr0_from_result r c"
  by (simp add: ppc_update_cr0_def write_cr0_from_result_def Let_def)

lemma merged_write_gpr [simp]: "merged (write_gpr r v c) = write_gpr r v (merged c)" "carry_ok (write_gpr r v c) = carry_ok c"
  "xer_ca (write_gpr r v c) = xer_ca c"
  by (simp_all add: write_gpr_def)

lemma merged_write_cr0 [simp]: "merged (write_cr0_from_result v c) = write_cr0_from_result v (merged c)"
  "carry_ok (write_cr0_from_result v c) = carry_ok c"
  by (simp_all add: write_cr0_from_result_def Let_def)

lemma merged_rc_cr0 [simp]: "merged (rc_cr0 r c) = sem_rc concrete_sem (current_opc c) (gpr c r) (merged c)"
  "carry_ok (rc_cr0 r c) = carry_ok c"
  by (simp_all add: rc_cr0_def sem_rc_def ppc_update_cr0_eq concrete_sem_def)

lemma current_opc_rc_cr0 [simp]: "current_opc (rc_cr0 r c) = current_opc c"
  by (simp add: rc_cr0_def ppc_update_cr0_def Let_def)

lemma ppc_carry_3_eq: "ppc_carry_3 = carry_3"
  by (intro ext) (simp add: ppc_carry_3_def carry_3_def)

lemma mod_32_and: "n mod 32 = unat (of_nat n AND (31::uint32))"
proof -
  have m: "(31 :: uint32) = mask 5" by (simp add: mask_eq_exp_minus_1)
  show ?thesis unfolding m
    by (simp only: take_bit_eq_mask [symmetric] unsigned_take_bit_eq)
     (simp add: take_bit_eq_mod unat_of_nat mod_mod_cancel)
qed

lemma ppc_word_rotl_eq: "ppc_word_rotl w n = ppc_rotl w (of_nat n)"
  by (simp add: ppc_word_rotl_def ppc_rotl_def Let_def flip: mod_32_and)

lemma ppc_mask_int_eq: "ppc_mask_int = ppc_mask"
  by (intro ext) (simp add: ppc_mask_int_def ppc_mask_def ppc_word_rotl_def Let_def)

lemma put_cr_bit_eq: "put_cr_bit b v c = write_cr_bit b v c"
  by (simp add: put_cr_bit_def write_cr_bit_def)

lemma merged_write_cr_bit [simp]: "merged (write_cr_bit b v c) = write_cr_bit b v (merged c)" "carry_ok (write_cr_bit b v c) = carry_ok c"
  by (simp_all add: write_cr_bit_def)

lemma sraw_carry_loop_eq: "sraw_carry_loop n v (of_bool b) = map_prod id of_bool (sraw_loop n v b)"
proof (induction n arbitrary: v b)
  case (Suc n)
  have "(if v AND 1 \<noteq> 0 then 1 else of_bool b) = (of_bool (v AND 1 \<noteq> 0 \<or> b) :: uint32)" by simp
  then show ?case by (simp only: sraw_carry_loop.simps sraw_loop.simps Suc.IH)
qed simp


subsection \<open>Handler by handler\<close>

lemma merged_compares [simp]:
  "merged (write_cr_field_signed f a b c) = write_cr_field_signed f a b (merged c)" "carry_ok (write_cr_field_signed f a b c) = carry_ok c"
  "merged (write_cr_field_unsigned f a b c) = write_cr_field_unsigned f a b (merged c)"
  "carry_ok (write_cr_field_unsigned f a b c) = carry_ok c"
  by (simp_all add: write_cr_field_signed_def write_cr_field_unsigned_def Let_def)

lemma back_end_simps:
  "s_read_gpr concrete_sem = (\<lambda>r c. (gpr c r, c))"
  "s_write_gpr concrete_sem = write_gpr"
  "s_read_lr concrete_sem = (\<lambda>c. (lr c, c))"
  "s_write_lr concrete_sem = (\<lambda>v c. c\<lparr>lr := v\<rparr>)"
  "s_read_ctr concrete_sem = (\<lambda>c. (ctr c, c))"
  "s_write_ctr concrete_sem = (\<lambda>v c. c\<lparr>ctr := v\<rparr>)"
  "s_read_xer concrete_sem = (\<lambda>c. (xer c, c))"
  "s_write_xer concrete_sem = (\<lambda>v c. c\<lparr>xer := v\<rparr>)"
  "s_read_cr concrete_sem = (\<lambda>c. (cr c, c))"
  "s_write_cr_masked concrete_sem = write_cr_masked"
  "s_read_cr_field concrete_sem = (\<lambda>f c. (read_cr_field f c, c))"
  "s_write_cr_field concrete_sem = write_cr_field"
  "s_everything concrete_sem = (\<lambda>c. c)"
  "s_read_xer_ca concrete_sem = (\<lambda>c. (read_xer_ca c, c))"
  "s_write_xer_ca concrete_sem = write_xer_ca"
  "s_write_cr0_from_result concrete_sem = write_cr0_from_result"
  "s_write_cr_field_signed concrete_sem = write_cr_field_signed"
  "s_write_cr_field_unsigned concrete_sem = write_cr_field_unsigned"
  "s_write_cr_bit concrete_sem = write_cr_bit"
  "s_get_cr_bit concrete_sem = (\<lambda>b c. (get_cr_bit b c, c))"
  "s_imm concrete_sem = (\<lambda>v. v)"
  "s_add concrete_sem = (\<lambda>a b. a + b)"
  "s_and concrete_sem = (\<lambda>a b. a AND b)"
  "s_or concrete_sem = (\<lambda>a b. a OR b)"
  "s_xor concrete_sem = (\<lambda>a b. a XOR b)"
  "s_not concrete_sem = (\<lambda>a. NOT a)"
  "s_neg concrete_sem = ppc_neg"
  "s_nand concrete_sem = (\<lambda>a b. NOT (a AND b))"
  "s_nor concrete_sem = (\<lambda>a b. NOT (a OR b))"
  "s_andc concrete_sem = (\<lambda>a b. a AND NOT b)"
  "s_orc concrete_sem = (\<lambda>a b. a OR NOT b)"
  "s_eqv concrete_sem = (\<lambda>a b. NOT (a XOR b))"
  "s_mul concrete_sem = (\<lambda>a b. a * b)"
  "s_mulhs concrete_sem = ppc_mulhs"
  "s_mulhu concrete_sem = ppc_mulhu"
  "s_div_s concrete_sem = ppc_div_s"
  "s_div_u concrete_sem = ppc_div_u"
  "s_shl concrete_sem = ppc_shl"
  "s_shr concrete_sem = ppc_shr"
  "s_sraw concrete_sem = (\<lambda>a sh c. (ppc_sraw a sh, c))"
  "s_rotl concrete_sem = ppc_rotl"
  "s_mask concrete_sem = ppc_mask"
  "s_extend_sign_byte concrete_sem = ppc_extend_sign_byte"
  "s_extend_sign_half concrete_sem = ppc_extend_sign_half"
  "s_cntlzw concrete_sem = ppc_cntlzw"
  "s_carry_add concrete_sem = carry_add"
  "s_carry_3 concrete_sem = carry_3"
  by (simp_all add: concrete_sem_def)

lemma ppc_extend_eq:
  "(if a AND 0x80 \<noteq> 0 then a OR 0xffffff00 else a AND NOT 0xffffff00) = ppc_extend_sign_byte a"
  "(if a AND 0x8000 \<noteq> 0 then a OR 0xffff0000 else a AND NOT 0xffff0000) = ppc_extend_sign_half a"
proof -
  have "NOT 0xffffff00 = (0xff :: uint32)" "NOT 0xffff0000 = (0xffff :: uint32)" by simp_all
  then show "(if a AND 0x80 \<noteq> 0 then a OR 0xffffff00 else a AND NOT 0xffffff00) = ppc_extend_sign_byte a"
    "(if a AND 0x8000 \<noteq> 0 then a OR 0xffff0000 else a AND NOT 0xffff0000) = ppc_extend_sign_half a"
    by (simp_all only: ppc_extend_sign_byte_def ppc_extend_sign_half_def)
qed

lemma a64_neg_eq: "ppc_neg a = - a"
  by (simp add: ppc_neg_def)

lemma ppc_cmp_and_mask_eq: "f < 8 \<Longrightarrow> ppc_cmp_and_mask (7 - f) = NOT (push_bit ((7 - f) * 4) 0xf)"
proof -
  assume "f < 8"
  then have "f \<in> {0, 1, 2, 3, 4, 5, 6, 7}" by auto
  then show ?thesis by (auto simp: ppc_cmp_and_mask_def)
qed

lemma field_number_less [simp]: "reg5 n opc div 4 < 8"
  using reg5_less[of n opc] by linarith

lemma and_or_bits: "x AND (a OR b) = 0 \<longleftrightarrow> x AND a = 0 \<and> x AND b = (0 :: uint32)"
  by (simp add: bit.conj_disj_distrib or_eq_0_iff)

lemma merged_carry_numerals [simp]: "merged (c\<lparr>xer_ca := 1\<rparr>) = write_xer_ca True (merged c)"
  "merged (c\<lparr>xer_ca := 0\<rparr>) = write_xer_ca False (merged c)" "carry_ok (c\<lparr>xer_ca := 1\<rparr>)" "carry_ok (c\<lparr>xer_ca := 0\<rparr>)"
  using merged_carry[where c = c and b = True] merged_carry[where c = c and b = False] by (simp_all add: carry_ok_def)

lemma write_xer_ca_gpr: "write_xer_ca b (c\<lparr>gpr := g\<rparr>) = (write_xer_ca b c)\<lparr>gpr := g\<rparr>"
  by (simp add: write_xer_ca_def)

lemma write_cr_bit_cong: "P = Q \<Longrightarrow> write_cr_bit d P c = write_cr_bit d Q c"
  by simp

lemma sraw_carry_loop_0: "sraw_carry_loop n v 0 = map_prod id of_bool (sraw_loop n v False)"
  using sraw_carry_loop_eq[of n v False] by simp

lemma reg5_and_63: "unat (of_nat (reg5 i opc) AND (0x3f :: uint32)) = reg5 i opc"
proof -
  have m: "(0x3f :: uint32) = mask 6" by (simp add: mask_eq_exp_minus_1)
  have "reg5 i opc < 64" using reg5_less[of i opc] by linarith
  then show ?thesis unfolding m
    by (simp only: take_bit_eq_mask [symmetric] unsigned_take_bit_eq) (simp add: take_bit_eq_mod unat_of_nat)
qed

lemmas follows_simps = follows_def run_sem_def run_sem_err_def Let_def back_end_simps write_gpr_def get_cr_bit_def sem_base_def
  ppc_carry_3_eq ppc_word_rotl_eq ppc_mask_int_eq put_cr_bit_eq ppc_update_cr0_eq merged_read_ca carry_add_def unimplemented_def
  split_beta

lemma follows_add:
  assumes "carry_ok c"
  shows "follows ppc_opc_addx_a64 ppc_opc_addx c"
    and "follows ppc_opc_addox_a64 ppc_opc_addox c"
    and "follows ppc_opc_addcx_a64 ppc_opc_addcx c"
    and "follows ppc_opc_addcox_a64 ppc_opc_addcox c"
    and "follows ppc_opc_addex_a64 ppc_opc_addex c"
    and "follows ppc_opc_addeox_a64 ppc_opc_addeox c"
    and "follows ppc_opc_addi_a64 ppc_opc_addi c"
    and "follows ppc_opc_addic_a64 ppc_opc_addic c"
    and "follows ppc_opc_addic_rc_a64 ppc_opc_addic_rc c"
    and "follows ppc_opc_addis_a64 ppc_opc_addis c"
    and "follows ppc_opc_addmex_a64 ppc_opc_addmex c"
    and "follows ppc_opc_addmeox_a64 ppc_opc_addmeox c"
    and "follows ppc_opc_addzex_a64 ppc_opc_addzex c"
    and "follows ppc_opc_addzeox_a64 ppc_opc_addzeox c"
  using assms
  by (simp_all add: follows_simps ppc_opc_addx_a64_def ppc_opc_addx_def ppc_opc_addox_a64_def ppc_opc_addox_def ppc_opc_addcx_a64_def ppc_opc_addcx_def ppc_opc_addcox_a64_def ppc_opc_addcox_def ppc_opc_addex_a64_def ppc_opc_addex_def ppc_opc_addeox_a64_def ppc_opc_addeox_def ppc_opc_addi_a64_def ppc_opc_addi_def ppc_opc_addic_a64_def ppc_opc_addic_def ppc_opc_addic_rc_a64_def ppc_opc_addic_rc_def ppc_opc_addis_a64_def ppc_opc_addis_def ppc_opc_addmex_a64_def ppc_opc_addmex_def ppc_opc_addmeox_a64_def ppc_opc_addmeox_def ppc_opc_addzex_a64_def ppc_opc_addzex_def ppc_opc_addzeox_a64_def ppc_opc_addzeox_def sem_alu_defs)

lemma follows_logic:
  assumes "carry_ok c"
  shows "follows ppc_opc_andx_a64 ppc_opc_andx c"
    and "follows ppc_opc_andcx_a64 ppc_opc_andcx c"
    and "follows ppc_opc_andi_rc_a64 ppc_opc_andi_rc c"
    and "follows ppc_opc_andis_rc_a64 ppc_opc_andis_rc c"
    and "follows ppc_opc_orx_a64 ppc_opc_orx c"
    and "follows ppc_opc_orcx_a64 ppc_opc_orcx c"
    and "follows ppc_opc_ori_a64 ppc_opc_ori c"
    and "follows ppc_opc_oris_a64 ppc_opc_oris c"
    and "follows ppc_opc_xorx_a64 ppc_opc_xorx c"
    and "follows ppc_opc_xori_a64 ppc_opc_xori c"
    and "follows ppc_opc_xoris_a64 ppc_opc_xoris c"
    and "follows ppc_opc_nandx_a64 ppc_opc_nandx c"
    and "follows ppc_opc_norx_a64 ppc_opc_norx c"
    and "follows ppc_opc_eqvx_a64 ppc_opc_eqvx c"
  using assms
  by (simp_all add: follows_simps ppc_opc_andx_a64_def ppc_opc_andx_def ppc_opc_andcx_a64_def ppc_opc_andcx_def ppc_opc_andi_rc_a64_def ppc_opc_andi_rc_def ppc_opc_andis_rc_a64_def ppc_opc_andis_rc_def ppc_opc_orx_a64_def ppc_opc_orx_def ppc_opc_orcx_a64_def ppc_opc_orcx_def ppc_opc_ori_a64_def ppc_opc_ori_def ppc_opc_oris_a64_def ppc_opc_oris_def ppc_opc_xorx_a64_def ppc_opc_xorx_def ppc_opc_xori_a64_def ppc_opc_xori_def ppc_opc_xoris_a64_def ppc_opc_xoris_def ppc_opc_nandx_a64_def ppc_opc_nandx_def ppc_opc_norx_a64_def ppc_opc_norx_def ppc_opc_eqvx_a64_def ppc_opc_eqvx_def sem_alu_defs)

lemma follows_extend:
  assumes "carry_ok c"
  shows "follows ppc_opc_extsbx_a64 ppc_opc_extsbx c"
    and "follows ppc_opc_extshx_a64 ppc_opc_extshx c"
    and "follows ppc_opc_cntlzwx_a64 ppc_opc_cntlzwx c"
  using assms
  by (simp_all add: follows_simps ppc_opc_extsbx_a64_def ppc_opc_extsbx_def ppc_opc_extshx_a64_def ppc_opc_extshx_def ppc_opc_cntlzwx_a64_def ppc_opc_cntlzwx_def sem_alu_defs ppc_extend_eq ppc_cntlzw_def)

lemma follows_sub:
  assumes "carry_ok c"
  shows "follows ppc_opc_subfx_a64 ppc_opc_subfx c"
    and "follows ppc_opc_subfox_a64 ppc_opc_subfox c"
    and "follows ppc_opc_subfcx_a64 ppc_opc_subfcx c"
    and "follows ppc_opc_subfcox_a64 ppc_opc_subfcox c"
    and "follows ppc_opc_subfex_a64 ppc_opc_subfex c"
    and "follows ppc_opc_subfeox_a64 ppc_opc_subfeox c"
    and "follows ppc_opc_subfic_a64 ppc_opc_subfic c"
    and "follows ppc_opc_subfmex_a64 ppc_opc_subfmex c"
    and "follows ppc_opc_subfmeox_a64 ppc_opc_subfmeox c"
    and "follows ppc_opc_subfzex_a64 ppc_opc_subfzex c"
    and "follows ppc_opc_subfzeox_a64 ppc_opc_subfzeox c"
  using assms
  by (simp_all add: follows_simps ppc_opc_subfx_a64_def ppc_opc_subfx_def ppc_opc_subfox_a64_def ppc_opc_subfox_def ppc_opc_subfcx_a64_def ppc_opc_subfcx_def ppc_opc_subfcox_a64_def ppc_opc_subfcox_def ppc_opc_subfex_a64_def ppc_opc_subfex_def ppc_opc_subfeox_a64_def ppc_opc_subfeox_def ppc_opc_subfic_a64_def ppc_opc_subfic_def ppc_opc_subfmex_a64_def ppc_opc_subfmex_def ppc_opc_subfmeox_a64_def ppc_opc_subfmeox_def ppc_opc_subfzex_a64_def ppc_opc_subfzex_def ppc_opc_subfzeox_a64_def ppc_opc_subfzeox_def sem_alu_defs)

lemma follows_mul:
  assumes "carry_ok c"
  shows "follows ppc_opc_negx_a64 ppc_opc_negx c"
    and "follows ppc_opc_negox_a64 ppc_opc_negox c"
    and "follows ppc_opc_mulli_a64 ppc_opc_mulli c"
    and "follows ppc_opc_mulhwx_a64 ppc_opc_mulhwx c"
    and "follows ppc_opc_mulhwux_a64 ppc_opc_mulhwux c"
  using assms
  by (simp_all add: follows_simps ppc_opc_negx_a64_def ppc_opc_negx_def ppc_opc_negox_a64_def ppc_opc_negox_def ppc_opc_mulli_a64_def ppc_opc_mulli_def ppc_opc_mulhwx_a64_def ppc_opc_mulhwx_def ppc_opc_mulhwux_a64_def ppc_opc_mulhwux_def sem_alu_defs a64_neg_eq ppc_mulhs_def ppc_mulhu_def)

lemma follows_rotate:
  assumes "carry_ok c"
  shows "follows ppc_opc_slwx_a64 ppc_opc_slwx c"
    and "follows ppc_opc_srwx_a64 ppc_opc_srwx c"
    and "follows ppc_opc_rlwinmx_a64 ppc_opc_rlwinmx c"
    and "follows ppc_opc_rlwnmx_a64 ppc_opc_rlwnmx c"
    and "follows ppc_opc_rlwimix_a64 ppc_opc_rlwimix c"
  using assms
  by (simp_all add: follows_simps ppc_opc_slwx_a64_def ppc_opc_slwx_def ppc_opc_srwx_a64_def ppc_opc_srwx_def ppc_opc_rlwinmx_a64_def ppc_opc_rlwinmx_def ppc_opc_rlwnmx_a64_def ppc_opc_rlwnmx_def ppc_opc_rlwimix_a64_def ppc_opc_rlwimix_def sem_alu_defs ppc_shl_def ppc_shr_def)

lemma follows_sraw:
  assumes "carry_ok c"
  shows "follows ppc_opc_srawx_a64 ppc_opc_srawx c"
    and "follows ppc_opc_srawix_a64 ppc_opc_srawix c"
  using assms
  by (simp_all add: follows_simps ppc_opc_srawx_a64_def ppc_opc_srawx_def ppc_opc_srawix_a64_def ppc_opc_srawix_def sem_alu_defs
      ppc_sraw_def sraw_carry_loop_0 word_less_nat_alt templ_defs reg5_and_63 write_xer_ca_gpr)

lemma follows_cmp:
  assumes "carry_ok c"
  shows "follows ppc_opc_cmp_a64 ppc_opc_cmp c"
    and "follows ppc_opc_cmpi_a64 ppc_opc_cmpi c"
    and "follows ppc_opc_cmpl_a64 ppc_opc_cmpl c"
    and "follows ppc_opc_cmpli_a64 ppc_opc_cmpli c"
  using assms
  by (simp_all add: follows_simps ppc_opc_cmp_a64_def ppc_opc_cmp_def ppc_opc_cmpi_a64_def ppc_opc_cmpi_def ppc_opc_cmpl_a64_def ppc_opc_cmpl_def ppc_opc_cmpli_a64_def ppc_opc_cmpli_def sem_alu_defs templ_defs ppc_cmp_and_mask_eq write_cr_field_signed_def write_cr_field_unsigned_def)

lemma follows_cr:
  assumes "carry_ok c"
  shows "follows ppc_opc_crand_a64 ppc_opc_crand c"
    and "follows ppc_opc_crandc_a64 ppc_opc_crandc c"
    and "follows ppc_opc_creqv_a64 ppc_opc_creqv c"
    and "follows ppc_opc_crnand_a64 ppc_opc_crnand c"
    and "follows ppc_opc_crnor_a64 ppc_opc_crnor c"
    and "follows ppc_opc_cror_a64 ppc_opc_cror c"
    and "follows ppc_opc_crorc_a64 ppc_opc_crorc c"
    and "follows ppc_opc_crxor_a64 ppc_opc_crxor c"
  using assms
  by (simp_all add: follows_simps ppc_opc_crand_a64_def ppc_opc_crand_def ppc_opc_crandc_a64_def ppc_opc_crandc_def ppc_opc_creqv_a64_def ppc_opc_creqv_def ppc_opc_crnand_a64_def ppc_opc_crnand_def ppc_opc_crnor_a64_def ppc_opc_crnor_def ppc_opc_cror_a64_def ppc_opc_cror_def ppc_opc_crorc_a64_def ppc_opc_crorc_def ppc_opc_crxor_a64_def ppc_opc_crxor_def sem_alu_defs and_or_bits)
    (auto intro!: write_cr_bit_cong)


text \<open>
  The divisions agree unless the divisor is 0, where the one leaves the register alone and the other reaches a division that
  C++ does not define.
\<close>

lemma follows_divide:
  assumes "carry_ok c" "gpr c (reg5 11 (current_opc c)) \<noteq> 0"
  shows "follows ppc_opc_divwx_a64 ppc_opc_divwx c" and "follows ppc_opc_divwux_a64 ppc_opc_divwux c"
    and "follows ppc_opc_divwox_a64 ppc_opc_divwox c" and "follows ppc_opc_divwuox_a64 ppc_opc_divwuox c"
  using assms
  by (auto simp: follows_simps ppc_opc_divwx_a64_def ppc_opc_divwx_def ppc_opc_divwux_a64_def ppc_opc_divwux_def
      ppc_opc_divwox_a64_def ppc_opc_divwox_def ppc_opc_divwuox_a64_def ppc_opc_divwuox_def sem_alu_defs templ_defs
      run_div_def and_then_def split: sum.splits)

lemma divide_by_zero:
  assumes "gpr c (reg5 11 (current_opc c)) = 0"
  shows "ppc_opc_divwx_a64 c = Inr (rc_cr0 (reg5 21 (current_opc c)) c)"
    and "ppc_opc_divwux_a64 c = Inr (rc_cr0 (reg5 21 (current_opc c)) c)"
    and "ppc_opc_divwx c = Inl (Host_Undefined Div_By_Zero)" and "ppc_opc_divwux c = Inl (Host_Undefined Div_By_Zero)"
  using assms
  by (simp_all add: follows_simps ppc_opc_divwx_a64_def ppc_opc_divwx_def ppc_opc_divwux_a64_def ppc_opc_divwux_def sem_alu_defs
      templ_defs run_div_def and_then_def ppc_div_s_def ppc_div_u_def)

lemma follows_mullw:
  assumes "carry_ok c"
  shows "current_opc c AND PPC_OPC_OE = 0 \<Longrightarrow> follows ppc_opc_mullwx_a64 ppc_opc_mullwx c"
    and "current_opc c AND PPC_OPC_OE \<noteq> 0 \<Longrightarrow> ppc_opc_mullwx_a64 c = Inl Ppc_Fatal"
  using assms by (simp_all add: follows_simps ppc_opc_mullwx_a64_def ppc_opc_mullwx_def sem_alu_defs)

subsection \<open>Branches, condition register and FPSCR\<close>

lemma lk_a64_eq: "lk_a64 = set_lr_if_lk"
  by (intro ext) (simp add: lk_a64_def set_lr_if_lk_def)

lemma merged_lk [simp]: "merged (set_lr_if_lk c) = set_lr_if_lk (merged c)" "carry_ok (set_lr_if_lk c) = carry_ok c"
  "ctr (set_lr_if_lk c) = ctr c"
  by (simp_all add: set_lr_if_lk_def)

lemma follows_branch:
  assumes "carry_ok c"
  shows "follows ppc_opc_bx_a64 ppc_opc_bx c" and "follows ppc_opc_bcx_a64 ppc_opc_bcx c" and "follows ppc_opc_bcctrx_a64 ppc_opc_bcctrx c"
  using assms
  by (simp_all add: follows_def Let_def split_beta lk_a64_eq ppc_opc_bx_a64_def ppc_opc_bx_def ppc_opc_bcx_a64_def ppc_opc_bcx_def
      ppc_opc_bcctrx_a64_def ppc_opc_bcctrx_def branch_ctr_ok_def branch_cr_ok_def)

definition bclr_taken :: "cpu \<Rightarrow> bool" where
  "bclr_taken c \<longleftrightarrow> (let (BO, BI, BD) = PPC_OPC_TEMPL_XL (current_opc c) in
     branch_ctr_ok BO (if BO AND 4 = 0 then c\<lparr>ctr := ctr c - 1\<rparr> else c) \<and> branch_cr_ok BO BI c)"

lemma follows_bclr:
  assumes "carry_ok c"
  shows "\<not> (0xbf000000 \<le> lr c AND 0xfffffffc \<and> lr c AND 0xfffffffc < 0xc0000000) \<Longrightarrow> follows ppc_opc_bclrx_a64 ppc_opc_bclrx c"
    and "\<not> bclr_taken c \<Longrightarrow> follows ppc_opc_bclrx_a64 ppc_opc_bclrx c"
    and "bclr_taken c \<Longrightarrow> 0xbf000000 \<le> lr c AND 0xfffffffc \<Longrightarrow> lr c AND 0xfffffffc < 0xc0000000 \<Longrightarrow> ppc_opc_bclrx_a64 c = Inl Ppc_Fatal"
  using assms
  by (auto simp: follows_def Let_def split_beta lk_a64_eq ppc_opc_bclrx_a64_def ppc_opc_bclrx_def branch_ctr_ok_def branch_cr_ok_def
      unimplemented_def bclr_taken_def)

lemma expand_field_mask_eq: "expand_field_mask m = crm_expand m 8 0"
  by (simp add: expand_field_mask_def eval_nat_numeral cr_field_mask_def)

lemma rc_cr1_eq: "rc_cr1 = rc_unimplemented"
  by (intro ext) (simp add: rc_cr1_def rc_unimplemented_def unimplemented_def)

lemma follows_registers:
  assumes "carry_ok c"
  shows "follows ppc_opc_mcrf_a64 ppc_opc_mcrf c" and "follows ppc_opc_mfcr_a64 ppc_opc_mfcr c" and "follows ppc_opc_mtcrf_a64 ppc_opc_mtcrf c"
  using assms
  by (simp_all add: follows_simps ppc_opc_mcrf_a64_def ppc_opc_mcrf_def ppc_opc_mfcr_a64_def ppc_opc_mfcr_def ppc_opc_mtcrf_a64_def
      ppc_opc_mtcrf_def sem_spr_defs templ_defs read_cr_field_def write_cr_field_def write_cr_masked_def ppc_cmp_and_mask_eq
      expand_field_mask_eq and.assoc)

lemma mtfsfx_expand: "ppc_opc_mtfsfx c =
    (let (frB, fm) = PPC_OPC_TEMPL_XFL (current_opc c); FM = expand_field_mask fm
     in rc_unimplemented (c\<lparr>fpscr := ucast (fpr c frB AND ucast FM) OR (fpscr c AND NOT FM)\<rparr>))"
  unfolding ppc_opc_mtfsfx_def expand_field_mask_def by (rule refl)

lemma ucast_or_ucast: "ucast (x OR ucast y) = ucast x OR y" for x :: uint64 and y :: uint32
  by (rule bit_word_eqI) (simp add: bit_simps)

lemma follows_fpscr:
  assumes "carry_ok c"
  shows "follows ppc_opc_mffsx_a64 ppc_opc_mffsx c" and "follows ppc_opc_mtfsb0x_a64 ppc_opc_mtfsb0x c"
    and "follows ppc_opc_mtfsb1x_a64 ppc_opc_mtfsb1x c" and "follows ppc_opc_mtfsfix_a64 ppc_opc_mtfsfix c"
    and "follows ppc_opc_mtfsfx_a64 ppc_opc_mtfsfx c"
  using assms
  by (simp_all add: follows_def Let_def split_beta rc_cr1_eq rc_unimplemented_def ppc_opc_mffsx_a64_def ppc_opc_mffsx_def
      ppc_opc_mtfsb0x_a64_def ppc_opc_mtfsb0x_def ppc_opc_mtfsb1x_a64_def ppc_opc_mtfsb1x_def ppc_opc_mtfsfix_a64_def ppc_opc_mtfsfix_def
      ppc_opc_mtfsfx_a64_def mtfsfx_expand ucast_or_ucast)

lemma follows_trivial:
  assumes "carry_ok c"
  shows "follows ppc_opc_mcrfs_a64 ppc_opc_mcrfs c"
    and "follows ppc_opc_eciwx_a64 ppc_opc_eciwx c"
    and "follows ppc_opc_ecowx_a64 ppc_opc_ecowx c"
    and "follows ppc_opc_eieio_a64 ppc_opc_eieio c"
    and "follows ppc_opc_isync_a64 ppc_opc_isync c"
    and "follows ppc_opc_sync_a64 ppc_opc_sync c"
  using assms by (simp_all add: follows_def unimplemented_def ppc_opc_mcrfs_a64_def ppc_opc_mcrfs_def ppc_opc_eciwx_a64_def ppc_opc_eciwx_def ppc_opc_ecowx_a64_def ppc_opc_ecowx_def ppc_opc_eieio_a64_def ppc_opc_eieio_def ppc_opc_isync_a64_def ppc_opc_isync_def ppc_opc_sync_a64_def ppc_opc_sync_def)

subsection \<open>All of them\<close>

text \<open>The handlers that agree whatever the instruction's operands are, each with the interpreter's.\<close>

definition fallback_pairs :: "(opc_function \<times> opc_function) list" where
  "fallback_pairs = [(ppc_opc_addx_a64, ppc_opc_addx), (ppc_opc_addox_a64, ppc_opc_addox), (ppc_opc_addcx_a64, ppc_opc_addcx),
     (ppc_opc_addcox_a64, ppc_opc_addcox), (ppc_opc_addex_a64, ppc_opc_addex), (ppc_opc_addeox_a64, ppc_opc_addeox),
     (ppc_opc_addi_a64, ppc_opc_addi), (ppc_opc_addic_a64, ppc_opc_addic), (ppc_opc_addic_rc_a64, ppc_opc_addic_rc),
     (ppc_opc_addis_a64, ppc_opc_addis), (ppc_opc_addmex_a64, ppc_opc_addmex), (ppc_opc_addmeox_a64, ppc_opc_addmeox),
     (ppc_opc_addzex_a64, ppc_opc_addzex), (ppc_opc_addzeox_a64, ppc_opc_addzeox), (ppc_opc_andx_a64, ppc_opc_andx),
     (ppc_opc_andcx_a64, ppc_opc_andcx), (ppc_opc_andi_rc_a64, ppc_opc_andi_rc), (ppc_opc_andis_rc_a64, ppc_opc_andis_rc),
     (ppc_opc_cmp_a64, ppc_opc_cmp), (ppc_opc_cmpi_a64, ppc_opc_cmpi), (ppc_opc_cmpl_a64, ppc_opc_cmpl),
     (ppc_opc_cmpli_a64, ppc_opc_cmpli), (ppc_opc_cntlzwx_a64, ppc_opc_cntlzwx), (ppc_opc_crand_a64, ppc_opc_crand),
     (ppc_opc_crandc_a64, ppc_opc_crandc), (ppc_opc_creqv_a64, ppc_opc_creqv), (ppc_opc_crnand_a64, ppc_opc_crnand),
     (ppc_opc_crnor_a64, ppc_opc_crnor), (ppc_opc_cror_a64, ppc_opc_cror), (ppc_opc_crorc_a64, ppc_opc_crorc),
     (ppc_opc_crxor_a64, ppc_opc_crxor), (ppc_opc_eqvx_a64, ppc_opc_eqvx), (ppc_opc_extsbx_a64, ppc_opc_extsbx),
     (ppc_opc_extshx_a64, ppc_opc_extshx), (ppc_opc_mulhwx_a64, ppc_opc_mulhwx), (ppc_opc_mulhwux_a64, ppc_opc_mulhwux),
     (ppc_opc_mulli_a64, ppc_opc_mulli), (ppc_opc_nandx_a64, ppc_opc_nandx), (ppc_opc_negx_a64, ppc_opc_negx),
     (ppc_opc_negox_a64, ppc_opc_negox), (ppc_opc_norx_a64, ppc_opc_norx), (ppc_opc_orx_a64, ppc_opc_orx),
     (ppc_opc_orcx_a64, ppc_opc_orcx), (ppc_opc_ori_a64, ppc_opc_ori), (ppc_opc_oris_a64, ppc_opc_oris),
     (ppc_opc_rlwimix_a64, ppc_opc_rlwimix), (ppc_opc_rlwinmx_a64, ppc_opc_rlwinmx), (ppc_opc_rlwnmx_a64, ppc_opc_rlwnmx),
     (ppc_opc_slwx_a64, ppc_opc_slwx), (ppc_opc_srawx_a64, ppc_opc_srawx), (ppc_opc_srawix_a64, ppc_opc_srawix),
     (ppc_opc_srwx_a64, ppc_opc_srwx), (ppc_opc_subfx_a64, ppc_opc_subfx), (ppc_opc_subfox_a64, ppc_opc_subfox),
     (ppc_opc_subfcx_a64, ppc_opc_subfcx), (ppc_opc_subfcox_a64, ppc_opc_subfcox), (ppc_opc_subfex_a64, ppc_opc_subfex),
     (ppc_opc_subfeox_a64, ppc_opc_subfeox), (ppc_opc_subfic_a64, ppc_opc_subfic), (ppc_opc_subfmex_a64, ppc_opc_subfmex),
     (ppc_opc_subfmeox_a64, ppc_opc_subfmeox), (ppc_opc_subfzex_a64, ppc_opc_subfzex), (ppc_opc_subfzeox_a64, ppc_opc_subfzeox),
     (ppc_opc_xorx_a64, ppc_opc_xorx), (ppc_opc_xori_a64, ppc_opc_xori), (ppc_opc_xoris_a64, ppc_opc_xoris),
     (ppc_opc_bx_a64, ppc_opc_bx), (ppc_opc_bcx_a64, ppc_opc_bcx), (ppc_opc_bcctrx_a64, ppc_opc_bcctrx),
     (ppc_opc_mcrf_a64, ppc_opc_mcrf), (ppc_opc_mfcr_a64, ppc_opc_mfcr), (ppc_opc_mtcrf_a64, ppc_opc_mtcrf),
     (ppc_opc_mffsx_a64, ppc_opc_mffsx), (ppc_opc_mtfsb0x_a64, ppc_opc_mtfsb0x), (ppc_opc_mtfsb1x_a64, ppc_opc_mtfsb1x),
     (ppc_opc_mtfsfix_a64, ppc_opc_mtfsfix), (ppc_opc_mtfsfx_a64, ppc_opc_mtfsfx), (ppc_opc_mcrfs_a64, ppc_opc_mcrfs),
     (ppc_opc_eciwx_a64, ppc_opc_eciwx), (ppc_opc_ecowx_a64, ppc_opc_ecowx), (ppc_opc_eieio_a64, ppc_opc_eieio),
     (ppc_opc_isync_a64, ppc_opc_isync), (ppc_opc_sync_a64, ppc_opc_sync)]"

definition divide_pairs :: "(opc_function \<times> opc_function) list" where
  "divide_pairs = [(ppc_opc_divwx_a64, ppc_opc_divwx), (ppc_opc_divwox_a64, ppc_opc_divwox), (ppc_opc_divwux_a64, ppc_opc_divwux),
     (ppc_opc_divwuox_a64, ppc_opc_divwuox)]"

lemmas follows_rules = follows_add follows_logic follows_extend follows_sub follows_mul follows_rotate follows_sraw follows_cmp follows_cr
  follows_branch follows_registers follows_fpscr follows_trivial

text \<open>C38: the fallback handlers of the code generator in \<open>fallback_pairs\<close> compute what the interpreter's handlers compute,
  whatever the operands: integer arithmetic, logic, rotates and shifts, comparisons, the condition register, the moves to and
  from FPSCR, branches, and the handlers without effect.  So do the four divisions for a divisor that is not zero, \<open>mullw\<close>
  without overflow recording, and \<open>bclr\<close> except where the branch is taken to 0xbf000000 up to 0xbfffffff, which is a fatal error.
  (For the excepted cases and \<open>mcrxr\<close> see \<open>fallbacks_differ\<close>; \<open>mfspr\<close>, \<open>mtspr\<close>, \<open>mtmsr\<close>, \<open>rfi\<close>, \<open>sc\<close>, \<open>tw\<close>, the \<open>tlb\<close>
  instructions and the fallbacks of the memory, floating-point and vector units have no model.)\<close>

theorem fallbacks_follow_interpreter:
  assumes "carry_ok c"
  shows "list_all (\<lambda>(f, g). follows f g c) fallback_pairs \<and>
    (gpr c (reg5 11 (current_opc c)) \<noteq> 0 \<longrightarrow> list_all (\<lambda>(f, g). follows f g c) divide_pairs) \<and>
    (current_opc c AND PPC_OPC_OE = 0 \<longrightarrow> follows ppc_opc_mullwx_a64 ppc_opc_mullwx c) \<and>
    (if bclr_taken c \<and> 0xbf000000 \<le> lr c AND 0xfffffffc \<and> lr c AND 0xfffffffc < 0xc0000000
     then ppc_opc_bclrx_a64 c = Inl Ppc_Fatal else follows ppc_opc_bclrx_a64 ppc_opc_bclrx c)"
proof -
  have "list_all (\<lambda>(f, g). follows f g c) fallback_pairs" using assms by (simp add: fallback_pairs_def follows_rules)
  moreover have "gpr c (reg5 11 (current_opc c)) \<noteq> 0 \<longrightarrow> list_all (\<lambda>(f, g). follows f g c) divide_pairs"
    using assms by (simp add: divide_pairs_def follows_divide)
  ultimately show ?thesis using follows_mullw(1)[OF assms] follows_bclr[OF assms] by auto
qed

text \<open>A processor that holds a carry in the code generator's place and is about to execute \<open>divw. r3, r5, r7\<close>.\<close>

definition a64_demo :: cpu where
  "a64_demo = pair_cpu\<lparr>xer_ca := 1, current_opc := 0x7C653BD7\<rparr>"

lemma a64_demo_state: "carry_ok a64_demo" "gpr a64_demo (reg5 11 (current_opc a64_demo)) = 2" "reg5 11 (current_opc a64_demo) = 7"
  "current_opc a64_demo AND PPC_OPC_OE = 0"
  by (simp_all add: a64_demo_def pair_cpu_def carry_ok_def reg5_def field5_def PPC_OPC_OE_def)

theorem fallbacks_follow_interpreter_witness:
  "carry_ok a64_demo \<and> follows ppc_opc_divwx_a64 ppc_opc_divwx a64_demo \<and> follows ppc_opc_mullwx_a64 ppc_opc_mullwx a64_demo \<and>
   list_all (\<lambda>(f, g). follows f g a64_demo) fallback_pairs"
  using fallbacks_follow_interpreter[OF a64_demo_state(1)] a64_demo_state by (simp add: divide_pairs_def)

text \<open>
  C39: where the two disagree: a division by zero is skipped by the one and reaches the host's undefined division in the other;
  the product with overflow recording is a fatal error in the one and the plain product in the other; and \<open>mcrxr\<close>, which
  the interpreter does not implement, sets all the bits of XER but the four it should clear.
\<close>

theorem fallbacks_differ:
  assumes "carry_ok c"
  shows "(gpr c (reg5 11 (current_opc c)) = 0 \<longrightarrow>
      ppc_opc_divwx_a64 c = Inr (rc_cr0 (reg5 21 (current_opc c)) c) \<and> ppc_opc_divwx (merged c) = Inl (Host_Undefined Div_By_Zero)) \<and>
    (current_opc c AND PPC_OPC_OE \<noteq> 0 \<longrightarrow> ppc_opc_mullwx_a64 c = Inl Ppc_Fatal \<and> (\<exists>d. ppc_opc_mullwx (merged c) = Inr d)) \<and>
    (\<exists>d. ppc_opc_mcrxr_a64 c = Inr d \<and> xer d = 0x0fffffff) \<and> ppc_opc_mcrxr (merged c) = Inl Ppc_Fatal"
proof -
  have "gpr c (reg5 11 (current_opc c)) = 0 \<Longrightarrow> gpr (merged c) (reg5 11 (current_opc (merged c))) = 0" by simp
  then show ?thesis
    using assms divide_by_zero(1)[of c] divide_by_zero(3)[of "merged c"] follows_mullw(2)[of c]
    by (auto simp: ppc_opc_mcrxr_a64_def ppc_opc_mcrxr_def ppc_opc_mullwx_def run_sem_def Let_def split_beta)
qed

theorem fallbacks_differ_witness:
  "gpr (a64_demo\<lparr>gpr := (\<lambda>_. 0)\<rparr>) 7 = 0 \<and> ppc_opc_divwx (merged (a64_demo\<lparr>gpr := (\<lambda>_. 0)\<rparr>)) = Inl (Host_Undefined Div_By_Zero)"
  using fallbacks_differ[of "a64_demo\<lparr>gpr := (\<lambda>_. 0)\<rparr>"] a64_demo_state(1) by simp

end
