(* ===== verification/A64_Asm.thy ===== *)
theory A64_Asm
  imports Ppc_Prelude
begin

text \<open>
  src/cpu/cpu_jitc_aarch64/aarch64asm.cc: the encoders of the host's instructions, one function per instruction form.  A C++
  \<open>int\<close> is an \<open>int\<close>; the result is the instruction word, or the error that the assertions end the program with
  (\<open>PPC_CPU_ERR\<close> is \<open>ppc_fatal\<close>).  The parameters \<open>shift\<close>, \<open>bit\<close> and \<open>offset\<close> are \<open>sh\<close>, \<open>b\<close> and \<open>ofs\<close>.
\<close>

unbundle bit_operations_syntax

text \<open>
  How the code generator fails: a fatal error of its own, a null pointer that it follows, an access behind the end of an array,
  or a loop without an end.
\<close>

datatype jit_error = Jit_Fatal | Jit_Null | Jit_Overrun | Jit_Hangs

type_synonym a64_result = "jit_error + uint32"

subsection \<open>Assertions\<close>

definition reg_ok :: "int \<Rightarrow> bool" where "reg_ok r \<longleftrightarrow> 0 \<le> r \<and> r \<le> 31"

definition range_ok :: "int \<Rightarrow> int \<Rightarrow> int \<Rightarrow> bool" where "range_ok lo hi v \<longleftrightarrow> lo \<le> v \<and> v \<le> hi"

definition align_ok :: "int \<Rightarrow> int \<Rightarrow> bool" where "align_ok a v \<longleftrightarrow> v mod a = 0"

subsection \<open>Encoders\<close>

definition a64_MOVZ :: "int \<Rightarrow> uint16 \<Rightarrow> int \<Rightarrow> a64_result" where
  "a64_MOVZ rd imm16 sh =
    (let hw = sh sdiv 16
     in if reg_ok rd \<and> range_ok 0 48 sh \<and> align_ok 16 sh
      then Inr (0xd2800000 OR push_bit 21 (word_of_int hw) OR push_bit 5 (ucast imm16) OR (word_of_int rd))
      else Inl Jit_Fatal)"

definition a64_MOVK :: "int \<Rightarrow> uint16 \<Rightarrow> int \<Rightarrow> a64_result" where
  "a64_MOVK rd imm16 sh =
    (let hw = sh sdiv 16
     in if reg_ok rd \<and> range_ok 0 48 sh \<and> align_ok 16 sh
      then Inr (0xf2800000 OR push_bit 21 (word_of_int hw) OR push_bit 5 (ucast imm16) OR (word_of_int rd))
      else Inl Jit_Fatal)"

definition a64_MOVN :: "int \<Rightarrow> uint16 \<Rightarrow> int \<Rightarrow> a64_result" where
  "a64_MOVN rd imm16 sh =
    (let hw = sh sdiv 16
     in if reg_ok rd \<and> range_ok 0 48 sh \<and> align_ok 16 sh
      then Inr (0x92800000 OR push_bit 21 (word_of_int hw) OR push_bit 5 (ucast imm16) OR (word_of_int rd))
      else Inl Jit_Fatal)"

definition a64_MOVZw :: "int \<Rightarrow> uint16 \<Rightarrow> int \<Rightarrow> a64_result" where
  "a64_MOVZw rd imm16 sh =
    (let hw = sh sdiv 16
     in if reg_ok rd \<and> range_ok 0 16 sh \<and> align_ok 16 sh
      then Inr (0x52800000 OR push_bit 21 (word_of_int hw) OR push_bit 5 (ucast imm16) OR (word_of_int rd))
      else Inl Jit_Fatal)"

definition a64_MOVKw :: "int \<Rightarrow> uint16 \<Rightarrow> int \<Rightarrow> a64_result" where
  "a64_MOVKw rd imm16 sh =
    (let hw = sh sdiv 16
     in if reg_ok rd \<and> range_ok 0 16 sh \<and> align_ok 16 sh
      then Inr (0x72800000 OR push_bit 21 (word_of_int hw) OR push_bit 5 (ucast imm16) OR (word_of_int rd))
      else Inl Jit_Fatal)"

definition a64_MOVNw :: "int \<Rightarrow> uint16 \<Rightarrow> int \<Rightarrow> a64_result" where
  "a64_MOVNw rd imm16 sh =
    (let hw = sh sdiv 16
     in if reg_ok rd \<and> range_ok 0 16 sh \<and> align_ok 16 sh
      then Inr (0x12800000 OR push_bit 21 (word_of_int hw) OR push_bit 5 (ucast imm16) OR (word_of_int rd))
      else Inl Jit_Fatal)"

definition a64_ADD_imm :: "int \<Rightarrow> int \<Rightarrow> uint32 \<Rightarrow> a64_result" where
  "a64_ADD_imm rd rn imm12 =
    (if reg_ok rd \<and> reg_ok rn \<and> imm12 \<le> 0xfff
      then Inr (0x91000000 OR push_bit 10 imm12 OR push_bit 5 (word_of_int rn) OR (word_of_int rd))
      else Inl Jit_Fatal)"

definition a64_SUB_imm :: "int \<Rightarrow> int \<Rightarrow> uint32 \<Rightarrow> a64_result" where
  "a64_SUB_imm rd rn imm12 =
    (if reg_ok rd \<and> reg_ok rn \<and> imm12 \<le> 0xfff
      then Inr (0xd1000000 OR push_bit 10 imm12 OR push_bit 5 (word_of_int rn) OR (word_of_int rd))
      else Inl Jit_Fatal)"

definition a64_ADDS_imm :: "int \<Rightarrow> int \<Rightarrow> uint32 \<Rightarrow> a64_result" where
  "a64_ADDS_imm rd rn imm12 =
    (if reg_ok rd \<and> reg_ok rn \<and> imm12 \<le> 0xfff
      then Inr (0xb1000000 OR push_bit 10 imm12 OR push_bit 5 (word_of_int rn) OR (word_of_int rd))
      else Inl Jit_Fatal)"

definition a64_SUBS_imm :: "int \<Rightarrow> int \<Rightarrow> uint32 \<Rightarrow> a64_result" where
  "a64_SUBS_imm rd rn imm12 =
    (if reg_ok rd \<and> reg_ok rn \<and> imm12 \<le> 0xfff
      then Inr (0xf1000000 OR push_bit 10 imm12 OR push_bit 5 (word_of_int rn) OR (word_of_int rd))
      else Inl Jit_Fatal)"

definition a64_CMP_imm :: "int \<Rightarrow> uint32 \<Rightarrow> a64_result" where
  "a64_CMP_imm rn imm12 =
    (a64_SUBS_imm 31 rn imm12)"

definition a64_ADDw_imm :: "int \<Rightarrow> int \<Rightarrow> uint32 \<Rightarrow> a64_result" where
  "a64_ADDw_imm rd rn imm12 =
    (if reg_ok rd \<and> reg_ok rn \<and> imm12 \<le> 0xfff
      then Inr (0x11000000 OR push_bit 10 imm12 OR push_bit 5 (word_of_int rn) OR (word_of_int rd))
      else Inl Jit_Fatal)"

definition a64_SUBw_imm :: "int \<Rightarrow> int \<Rightarrow> uint32 \<Rightarrow> a64_result" where
  "a64_SUBw_imm rd rn imm12 =
    (if reg_ok rd \<and> reg_ok rn \<and> imm12 \<le> 0xfff
      then Inr (0x51000000 OR push_bit 10 imm12 OR push_bit 5 (word_of_int rn) OR (word_of_int rd))
      else Inl Jit_Fatal)"

definition a64_ADDSw_imm :: "int \<Rightarrow> int \<Rightarrow> uint32 \<Rightarrow> a64_result" where
  "a64_ADDSw_imm rd rn imm12 =
    (if reg_ok rd \<and> reg_ok rn \<and> imm12 \<le> 0xfff
      then Inr (0x31000000 OR push_bit 10 imm12 OR push_bit 5 (word_of_int rn) OR (word_of_int rd))
      else Inl Jit_Fatal)"

definition a64_SUBSw_imm :: "int \<Rightarrow> int \<Rightarrow> uint32 \<Rightarrow> a64_result" where
  "a64_SUBSw_imm rd rn imm12 =
    (if reg_ok rd \<and> reg_ok rn \<and> imm12 \<le> 0xfff
      then Inr (0x71000000 OR push_bit 10 imm12 OR push_bit 5 (word_of_int rn) OR (word_of_int rd))
      else Inl Jit_Fatal)"

definition a64_CMPw_imm :: "int \<Rightarrow> uint32 \<Rightarrow> a64_result" where
  "a64_CMPw_imm rn imm12 =
    (a64_SUBSw_imm 31 rn imm12)"

definition a64_ADD_reg :: "int \<Rightarrow> int \<Rightarrow> int \<Rightarrow> a64_result" where
  "a64_ADD_reg rd rn rm =
    (if reg_ok rd \<and> reg_ok rn \<and> reg_ok rm
      then Inr (0x8b000000 OR push_bit 16 (word_of_int rm) OR push_bit 5 (word_of_int rn) OR (word_of_int rd))
      else Inl Jit_Fatal)"

definition a64_SUB_reg :: "int \<Rightarrow> int \<Rightarrow> int \<Rightarrow> a64_result" where
  "a64_SUB_reg rd rn rm =
    (if reg_ok rd \<and> reg_ok rn \<and> reg_ok rm
      then Inr (0xcb000000 OR push_bit 16 (word_of_int rm) OR push_bit 5 (word_of_int rn) OR (word_of_int rd))
      else Inl Jit_Fatal)"

definition a64_AND_reg :: "int \<Rightarrow> int \<Rightarrow> int \<Rightarrow> a64_result" where
  "a64_AND_reg rd rn rm =
    (if reg_ok rd \<and> reg_ok rn \<and> reg_ok rm
      then Inr (0x8a000000 OR push_bit 16 (word_of_int rm) OR push_bit 5 (word_of_int rn) OR (word_of_int rd))
      else Inl Jit_Fatal)"

definition a64_ORR_reg :: "int \<Rightarrow> int \<Rightarrow> int \<Rightarrow> a64_result" where
  "a64_ORR_reg rd rn rm =
    (if reg_ok rd \<and> reg_ok rn \<and> reg_ok rm
      then Inr (0xaa000000 OR push_bit 16 (word_of_int rm) OR push_bit 5 (word_of_int rn) OR (word_of_int rd))
      else Inl Jit_Fatal)"

definition a64_EOR_reg :: "int \<Rightarrow> int \<Rightarrow> int \<Rightarrow> a64_result" where
  "a64_EOR_reg rd rn rm =
    (if reg_ok rd \<and> reg_ok rn \<and> reg_ok rm
      then Inr (0xca000000 OR push_bit 16 (word_of_int rm) OR push_bit 5 (word_of_int rn) OR (word_of_int rd))
      else Inl Jit_Fatal)"

definition a64_ADDS_reg :: "int \<Rightarrow> int \<Rightarrow> int \<Rightarrow> a64_result" where
  "a64_ADDS_reg rd rn rm =
    (if reg_ok rd \<and> reg_ok rn \<and> reg_ok rm
      then Inr (0xab000000 OR push_bit 16 (word_of_int rm) OR push_bit 5 (word_of_int rn) OR (word_of_int rd))
      else Inl Jit_Fatal)"

definition a64_SUBS_reg :: "int \<Rightarrow> int \<Rightarrow> int \<Rightarrow> a64_result" where
  "a64_SUBS_reg rd rn rm =
    (if reg_ok rd \<and> reg_ok rn \<and> reg_ok rm
      then Inr (0xeb000000 OR push_bit 16 (word_of_int rm) OR push_bit 5 (word_of_int rn) OR (word_of_int rd))
      else Inl Jit_Fatal)"

definition a64_ADDw_reg :: "int \<Rightarrow> int \<Rightarrow> int \<Rightarrow> a64_result" where
  "a64_ADDw_reg rd rn rm =
    (if reg_ok rd \<and> reg_ok rn \<and> reg_ok rm
      then Inr (0x0b000000 OR push_bit 16 (word_of_int rm) OR push_bit 5 (word_of_int rn) OR (word_of_int rd))
      else Inl Jit_Fatal)"

definition a64_ADDw_reg_lsr :: "int \<Rightarrow> int \<Rightarrow> int \<Rightarrow> int \<Rightarrow> a64_result" where
  "a64_ADDw_reg_lsr rd rn rm sh =
    (if reg_ok rd \<and> reg_ok rn \<and> reg_ok rm \<and> range_ok 0 31 sh
      then Inr (0x0b400000 OR push_bit 16 (word_of_int rm) OR push_bit 10 (word_of_int sh) OR push_bit 5 (word_of_int rn) OR (word_of_int rd))
      else Inl Jit_Fatal)"

definition a64_CMNw_imm :: "int \<Rightarrow> uint32 \<Rightarrow> a64_result" where
  "a64_CMNw_imm rn imm12 =
    (if reg_ok rn \<and> imm12 \<le> 0xfff
      then Inr (0x31000000 OR push_bit 10 imm12 OR push_bit 5 (word_of_int rn) OR 0x1f)
      else Inl Jit_Fatal)"

definition a64_SXTW :: "int \<Rightarrow> int \<Rightarrow> a64_result" where
  "a64_SXTW rd rn =
    (if reg_ok rd \<and> reg_ok rn then Inr (0x93407c00 OR push_bit 5 (word_of_int rn) OR (word_of_int rd)) else Inl Jit_Fatal)"

definition a64_SXTBw :: "int \<Rightarrow> int \<Rightarrow> a64_result" where
  "a64_SXTBw rd rn =
    (if reg_ok rd \<and> reg_ok rn then Inr (0x13001c00 OR push_bit 5 (word_of_int rn) OR (word_of_int rd)) else Inl Jit_Fatal)"

definition a64_SXTHw :: "int \<Rightarrow> int \<Rightarrow> a64_result" where
  "a64_SXTHw rd rn =
    (if reg_ok rd \<and> reg_ok rn then Inr (0x13003c00 OR push_bit 5 (word_of_int rn) OR (word_of_int rd)) else Inl Jit_Fatal)"

definition a64_AND_imm :: "int \<Rightarrow> int \<Rightarrow> int \<Rightarrow> int \<Rightarrow> int \<Rightarrow> a64_result" where
  "a64_AND_imm rd rn N immr imms =
    (if reg_ok rd \<and> reg_ok rn \<and> range_ok 0 1 N \<and> range_ok 0 63 immr \<and> range_ok 0 63 imms
      then Inr (0x92000000 OR push_bit 22 (word_of_int N) OR push_bit 16 (word_of_int immr) OR push_bit 10 (word_of_int imms) OR push_bit 5 (word_of_int rn) OR (word_of_int rd))
      else Inl Jit_Fatal)"

definition a64_ORR_imm :: "int \<Rightarrow> int \<Rightarrow> int \<Rightarrow> int \<Rightarrow> int \<Rightarrow> a64_result" where
  "a64_ORR_imm rd rn N immr imms =
    (if reg_ok rd \<and> reg_ok rn \<and> range_ok 0 1 N \<and> range_ok 0 63 immr \<and> range_ok 0 63 imms
      then Inr (0xb2000000 OR push_bit 22 (word_of_int N) OR push_bit 16 (word_of_int immr) OR push_bit 10 (word_of_int imms) OR push_bit 5 (word_of_int rn) OR (word_of_int rd))
      else Inl Jit_Fatal)"

definition a64_EOR_imm :: "int \<Rightarrow> int \<Rightarrow> int \<Rightarrow> int \<Rightarrow> int \<Rightarrow> a64_result" where
  "a64_EOR_imm rd rn N immr imms =
    (if reg_ok rd \<and> reg_ok rn \<and> range_ok 0 1 N \<and> range_ok 0 63 immr \<and> range_ok 0 63 imms
      then Inr (0xd2000000 OR push_bit 22 (word_of_int N) OR push_bit 16 (word_of_int immr) OR push_bit 10 (word_of_int imms) OR push_bit 5 (word_of_int rn) OR (word_of_int rd))
      else Inl Jit_Fatal)"

definition a64_SUBw_reg :: "int \<Rightarrow> int \<Rightarrow> int \<Rightarrow> a64_result" where
  "a64_SUBw_reg rd rn rm =
    (if reg_ok rd \<and> reg_ok rn \<and> reg_ok rm
      then Inr (0x4b000000 OR push_bit 16 (word_of_int rm) OR push_bit 5 (word_of_int rn) OR (word_of_int rd))
      else Inl Jit_Fatal)"

definition a64_ANDw_reg :: "int \<Rightarrow> int \<Rightarrow> int \<Rightarrow> a64_result" where
  "a64_ANDw_reg rd rn rm =
    (if reg_ok rd \<and> reg_ok rn \<and> reg_ok rm
      then Inr (0x0a000000 OR push_bit 16 (word_of_int rm) OR push_bit 5 (word_of_int rn) OR (word_of_int rd))
      else Inl Jit_Fatal)"

definition a64_ORRw_reg :: "int \<Rightarrow> int \<Rightarrow> int \<Rightarrow> a64_result" where
  "a64_ORRw_reg rd rn rm =
    (if reg_ok rd \<and> reg_ok rn \<and> reg_ok rm
      then Inr (0x2a000000 OR push_bit 16 (word_of_int rm) OR push_bit 5 (word_of_int rn) OR (word_of_int rd))
      else Inl Jit_Fatal)"

definition a64_EORw_reg :: "int \<Rightarrow> int \<Rightarrow> int \<Rightarrow> a64_result" where
  "a64_EORw_reg rd rn rm =
    (if reg_ok rd \<and> reg_ok rn \<and> reg_ok rm
      then Inr (0x4a000000 OR push_bit 16 (word_of_int rm) OR push_bit 5 (word_of_int rn) OR (word_of_int rd))
      else Inl Jit_Fatal)"

definition a64_ADDSw_reg :: "int \<Rightarrow> int \<Rightarrow> int \<Rightarrow> a64_result" where
  "a64_ADDSw_reg rd rn rm =
    (if reg_ok rd \<and> reg_ok rn \<and> reg_ok rm
      then Inr (0x2b000000 OR push_bit 16 (word_of_int rm) OR push_bit 5 (word_of_int rn) OR (word_of_int rd))
      else Inl Jit_Fatal)"

definition a64_SUBSw_reg :: "int \<Rightarrow> int \<Rightarrow> int \<Rightarrow> a64_result" where
  "a64_SUBSw_reg rd rn rm =
    (if reg_ok rd \<and> reg_ok rn \<and> reg_ok rm
      then Inr (0x6b000000 OR push_bit 16 (word_of_int rm) OR push_bit 5 (word_of_int rn) OR (word_of_int rd))
      else Inl Jit_Fatal)"

definition a64_CMPw_reg :: "int \<Rightarrow> int \<Rightarrow> a64_result" where
  "a64_CMPw_reg rn rm =
    (a64_SUBSw_reg 31 rn rm)"

definition a64_MOV :: "int \<Rightarrow> int \<Rightarrow> a64_result" where
  "a64_MOV rd rn =
    (a64_ORR_reg rd 31 rn)"

definition a64_MOVw :: "int \<Rightarrow> int \<Rightarrow> a64_result" where
  "a64_MOVw rd rn =
    (a64_ORRw_reg rd 31 rn)"

definition a64_ANDSw_reg :: "int \<Rightarrow> int \<Rightarrow> int \<Rightarrow> a64_result" where
  "a64_ANDSw_reg rd rn rm =
    (if reg_ok rd \<and> reg_ok rn \<and> reg_ok rm
      then Inr (0x6a000000 OR push_bit 16 (word_of_int rm) OR push_bit 5 (word_of_int rn) OR (word_of_int rd))
      else Inl Jit_Fatal)"

definition a64_TSTw_reg :: "int \<Rightarrow> int \<Rightarrow> a64_result" where
  "a64_TSTw_reg rn rm =
    (a64_ANDSw_reg 31 rn rm)"

definition a64_ANDSw_imm :: "int \<Rightarrow> int \<Rightarrow> int \<Rightarrow> int \<Rightarrow> a64_result" where
  "a64_ANDSw_imm rd rn immr imms =
    (if reg_ok rd \<and> reg_ok rn \<and> range_ok 0 31 immr \<and> range_ok 0 31 imms
      then Inr (0x72000000 OR push_bit 16 (word_of_int immr) OR push_bit 10 (word_of_int imms) OR push_bit 5 (word_of_int rn) OR (word_of_int rd))
      else Inl Jit_Fatal)"

definition a64_TSTw_imm :: "int \<Rightarrow> int \<Rightarrow> int \<Rightarrow> a64_result" where
  "a64_TSTw_imm rn immr imms =
    (a64_ANDSw_imm 31 rn immr imms)"

definition a64_MADDw :: "int \<Rightarrow> int \<Rightarrow> int \<Rightarrow> int \<Rightarrow> a64_result" where
  "a64_MADDw rd rn rm ra =
    (if reg_ok rd \<and> reg_ok rn \<and> reg_ok rm \<and> reg_ok ra
      then Inr (0x1b000000 OR push_bit 16 (word_of_int rm) OR push_bit 10 (word_of_int ra) OR push_bit 5 (word_of_int rn) OR (word_of_int rd))
      else Inl Jit_Fatal)"

definition a64_MULw :: "int \<Rightarrow> int \<Rightarrow> int \<Rightarrow> a64_result" where
  "a64_MULw rd rn rm =
    (a64_MADDw rd rn rm 31)"

definition a64_NEGw :: "int \<Rightarrow> int \<Rightarrow> a64_result" where
  "a64_NEGw rd rm =
    (a64_SUBw_reg rd 31 rm)"

definition a64_LSLw_imm :: "int \<Rightarrow> int \<Rightarrow> int \<Rightarrow> a64_result" where
  "a64_LSLw_imm rd rn sh =
    (let immr = (- sh) AND 31; imms = 31 - sh
     in if reg_ok rd \<and> reg_ok rn \<and> range_ok 0 31 sh
      then Inr (0x53000000 OR push_bit 16 (word_of_int immr) OR push_bit 10 (word_of_int imms) OR push_bit 5 (word_of_int rn) OR (word_of_int rd))
      else Inl Jit_Fatal)"

definition a64_LSRw_imm :: "int \<Rightarrow> int \<Rightarrow> int \<Rightarrow> a64_result" where
  "a64_LSRw_imm rd rn sh =
    (if reg_ok rd \<and> reg_ok rn \<and> range_ok 0 31 sh
      then Inr (0x53000000 OR push_bit 16 (word_of_int sh) OR push_bit 10 31 OR push_bit 5 (word_of_int rn) OR (word_of_int rd))
      else Inl Jit_Fatal)"

definition a64_LSR_imm :: "int \<Rightarrow> int \<Rightarrow> int \<Rightarrow> a64_result" where
  "a64_LSR_imm rd rn sh =
    (if reg_ok rd \<and> reg_ok rn \<and> range_ok 0 63 sh
      then Inr (0xd340fc00 OR push_bit 16 (word_of_int sh) OR push_bit 5 (word_of_int rn) OR (word_of_int rd))
      else Inl Jit_Fatal)"

definition a64_ASRw_imm :: "int \<Rightarrow> int \<Rightarrow> int \<Rightarrow> a64_result" where
  "a64_ASRw_imm rd rn sh =
    (if reg_ok rd \<and> reg_ok rn \<and> range_ok 0 31 sh
      then Inr (0x13000000 OR push_bit 16 (word_of_int sh) OR push_bit 10 31 OR push_bit 5 (word_of_int rn) OR (word_of_int rd))
      else Inl Jit_Fatal)"

definition a64_RORw_imm :: "int \<Rightarrow> int \<Rightarrow> int \<Rightarrow> a64_result" where
  "a64_RORw_imm rd rn sh =
    (if reg_ok rd \<and> reg_ok rn \<and> range_ok 0 31 sh
      then Inr (0x13800000 OR push_bit 16 (word_of_int rn) OR push_bit 10 (word_of_int sh) OR push_bit 5 (word_of_int rn) OR (word_of_int rd))
      else Inl Jit_Fatal)"

definition a64_LSLw_reg :: "int \<Rightarrow> int \<Rightarrow> int \<Rightarrow> a64_result" where
  "a64_LSLw_reg rd rn rm =
    (if reg_ok rd \<and> reg_ok rn \<and> reg_ok rm
      then Inr (0x1ac02000 OR push_bit 16 (word_of_int rm) OR push_bit 5 (word_of_int rn) OR (word_of_int rd))
      else Inl Jit_Fatal)"

definition a64_LSRw_reg :: "int \<Rightarrow> int \<Rightarrow> int \<Rightarrow> a64_result" where
  "a64_LSRw_reg rd rn rm =
    (if reg_ok rd \<and> reg_ok rn \<and> reg_ok rm
      then Inr (0x1ac02400 OR push_bit 16 (word_of_int rm) OR push_bit 5 (word_of_int rn) OR (word_of_int rd))
      else Inl Jit_Fatal)"

definition a64_RORw_reg :: "int \<Rightarrow> int \<Rightarrow> int \<Rightarrow> a64_result" where
  "a64_RORw_reg rd rn rm =
    (if reg_ok rd \<and> reg_ok rn \<and> reg_ok rm
      then Inr (0x1ac02c00 OR push_bit 16 (word_of_int rm) OR push_bit 5 (word_of_int rn) OR (word_of_int rd))
      else Inl Jit_Fatal)"

definition a64_ORRw_imm :: "int \<Rightarrow> int \<Rightarrow> int \<Rightarrow> int \<Rightarrow> a64_result" where
  "a64_ORRw_imm rd rn immr imms =
    (if reg_ok rd \<and> reg_ok rn
      then Inr (0x32000000 OR push_bit 16 (word_of_int immr) OR push_bit 10 (word_of_int imms) OR push_bit 5 (word_of_int rn) OR (word_of_int rd))
      else Inl Jit_Fatal)"

definition a64_ANDw_imm :: "int \<Rightarrow> int \<Rightarrow> int \<Rightarrow> int \<Rightarrow> a64_result" where
  "a64_ANDw_imm rd rn immr imms =
    (if reg_ok rd \<and> reg_ok rn
      then Inr (0x12000000 OR push_bit 16 (word_of_int immr) OR push_bit 10 (word_of_int imms) OR push_bit 5 (word_of_int rn) OR (word_of_int rd))
      else Inl Jit_Fatal)"

definition a64_EORw_imm :: "int \<Rightarrow> int \<Rightarrow> int \<Rightarrow> int \<Rightarrow> a64_result" where
  "a64_EORw_imm rd rn immr imms =
    (if reg_ok rd \<and> reg_ok rn
      then Inr (0x52000000 OR push_bit 16 (word_of_int immr) OR push_bit 10 (word_of_int imms) OR push_bit 5 (word_of_int rn) OR (word_of_int rd))
      else Inl Jit_Fatal)"

definition a64_LDR :: "int \<Rightarrow> int \<Rightarrow> int \<Rightarrow> a64_result" where
  "a64_LDR rt rn ofs =
    (let uoff = word_of_int ofs div 8 :: uint32
     in if reg_ok rt \<and> reg_ok rn \<and> align_ok 8 ofs \<and> range_ok 0 32760 ofs
      then Inr (0xf9400000 OR push_bit 10 uoff OR push_bit 5 (word_of_int rn) OR (word_of_int rt))
      else Inl Jit_Fatal)"

definition a64_STR :: "int \<Rightarrow> int \<Rightarrow> int \<Rightarrow> a64_result" where
  "a64_STR rt rn ofs =
    (let uoff = word_of_int ofs div 8 :: uint32
     in if reg_ok rt \<and> reg_ok rn \<and> align_ok 8 ofs \<and> range_ok 0 32760 ofs
      then Inr (0xf9000000 OR push_bit 10 uoff OR push_bit 5 (word_of_int rn) OR (word_of_int rt))
      else Inl Jit_Fatal)"

definition a64_LDRw :: "int \<Rightarrow> int \<Rightarrow> int \<Rightarrow> a64_result" where
  "a64_LDRw rt rn ofs =
    (let uoff = word_of_int ofs div 4 :: uint32
     in if reg_ok rt \<and> reg_ok rn \<and> align_ok 4 ofs \<and> range_ok 0 16380 ofs
      then Inr (0xb9400000 OR push_bit 10 uoff OR push_bit 5 (word_of_int rn) OR (word_of_int rt))
      else Inl Jit_Fatal)"

definition a64_STRw :: "int \<Rightarrow> int \<Rightarrow> int \<Rightarrow> a64_result" where
  "a64_STRw rt rn ofs =
    (let uoff = word_of_int ofs div 4 :: uint32
     in if reg_ok rt \<and> reg_ok rn \<and> align_ok 4 ofs \<and> range_ok 0 16380 ofs
      then Inr (0xb9000000 OR push_bit 10 uoff OR push_bit 5 (word_of_int rn) OR (word_of_int rt))
      else Inl Jit_Fatal)"

definition a64_LDRBw :: "int \<Rightarrow> int \<Rightarrow> int \<Rightarrow> a64_result" where
  "a64_LDRBw rt rn ofs =
    (let uoff = word_of_int ofs :: uint32
     in if reg_ok rt \<and> reg_ok rn \<and> range_ok 0 4095 ofs
      then Inr (0x39400000 OR push_bit 10 uoff OR push_bit 5 (word_of_int rn) OR (word_of_int rt))
      else Inl Jit_Fatal)"

definition a64_STRBw :: "int \<Rightarrow> int \<Rightarrow> int \<Rightarrow> a64_result" where
  "a64_STRBw rt rn ofs =
    (let uoff = word_of_int ofs :: uint32
     in if reg_ok rt \<and> reg_ok rn \<and> range_ok 0 4095 ofs
      then Inr (0x39000000 OR push_bit 10 uoff OR push_bit 5 (word_of_int rn) OR (word_of_int rt))
      else Inl Jit_Fatal)"

definition a64_LDRHw :: "int \<Rightarrow> int \<Rightarrow> int \<Rightarrow> a64_result" where
  "a64_LDRHw rt rn ofs =
    (let uoff = word_of_int ofs div 2 :: uint32
     in if reg_ok rt \<and> reg_ok rn \<and> align_ok 2 ofs \<and> range_ok 0 8190 ofs
      then Inr (0x79400000 OR push_bit 10 uoff OR push_bit 5 (word_of_int rn) OR (word_of_int rt))
      else Inl Jit_Fatal)"

definition a64_STRHw :: "int \<Rightarrow> int \<Rightarrow> int \<Rightarrow> a64_result" where
  "a64_STRHw rt rn ofs =
    (let uoff = word_of_int ofs div 2 :: uint32
     in if reg_ok rt \<and> reg_ok rn \<and> align_ok 2 ofs \<and> range_ok 0 8190 ofs
      then Inr (0x79000000 OR push_bit 10 uoff OR push_bit 5 (word_of_int rn) OR (word_of_int rt))
      else Inl Jit_Fatal)"

definition a64_LDRw_reg :: "int \<Rightarrow> int \<Rightarrow> int \<Rightarrow> bool \<Rightarrow> a64_result" where
  "a64_LDRw_reg rt rn rm sh =
    (let S = if sh then 1 else 0 :: uint32
     in if reg_ok rt \<and> reg_ok rn \<and> reg_ok rm
      then Inr (0xb8606800 OR push_bit 12 S OR push_bit 16 (word_of_int rm) OR push_bit 5 (word_of_int rn) OR (word_of_int rt))
      else Inl Jit_Fatal)"

definition a64_LDR_reg :: "int \<Rightarrow> int \<Rightarrow> int \<Rightarrow> bool \<Rightarrow> a64_result" where
  "a64_LDR_reg rt rn rm sh =
    (let S = if sh then 1 else 0 :: uint32
     in if reg_ok rt \<and> reg_ok rn \<and> reg_ok rm
      then Inr (0xf8606800 OR push_bit 12 S OR push_bit 16 (word_of_int rm) OR push_bit 5 (word_of_int rn) OR (word_of_int rt))
      else Inl Jit_Fatal)"

definition a64_STP_pre :: "int \<Rightarrow> int \<Rightarrow> int \<Rightarrow> int \<Rightarrow> a64_result" where
  "a64_STP_pre rt1 rt2 rn ofs =
    (let simm7 = ofs sdiv 8
     in if reg_ok rt1 \<and> reg_ok rt2 \<and> reg_ok rn \<and> align_ok 8 ofs \<and> range_ok (- 64) 63 simm7
      then Inr (0xa9800000 OR push_bit 15 ((word_of_int simm7) AND 0x7f) OR push_bit 10 (word_of_int rt2) OR push_bit 5 (word_of_int rn) OR (word_of_int rt1))
      else Inl Jit_Fatal)"

definition a64_LDP_post :: "int \<Rightarrow> int \<Rightarrow> int \<Rightarrow> int \<Rightarrow> a64_result" where
  "a64_LDP_post rt1 rt2 rn ofs =
    (let simm7 = ofs sdiv 8
     in if reg_ok rt1 \<and> reg_ok rt2 \<and> reg_ok rn \<and> align_ok 8 ofs \<and> range_ok (- 64) 63 simm7
      then Inr (0xa8c00000 OR push_bit 15 ((word_of_int simm7) AND 0x7f) OR push_bit 10 (word_of_int rt2) OR push_bit 5 (word_of_int rn) OR (word_of_int rt1))
      else Inl Jit_Fatal)"

definition a64_B :: "int \<Rightarrow> a64_result" where
  "a64_B ofs =
    (let imm26 = ofs sdiv 4
     in if range_ok (- 0x2000000) 0x1ffffff imm26 then Inr (0x14000000 OR ((word_of_int imm26) AND 0x03ffffff)) else Inl Jit_Fatal)"

definition a64_BL :: "int \<Rightarrow> a64_result" where
  "a64_BL ofs =
    (let imm26 = ofs sdiv 4
     in if range_ok (- 0x2000000) 0x1ffffff imm26 then Inr (0x94000000 OR ((word_of_int imm26) AND 0x03ffffff)) else Inl Jit_Fatal)"

definition a64_BR :: "int \<Rightarrow> a64_result" where
  "a64_BR rn =
    (if reg_ok rn then Inr (0xd61f0000 OR push_bit 5 (word_of_int rn)) else Inl Jit_Fatal)"

definition a64_BLR :: "int \<Rightarrow> a64_result" where
  "a64_BLR rn =
    (if reg_ok rn then Inr (0xd63f0000 OR push_bit 5 (word_of_int rn)) else Inl Jit_Fatal)"

definition a64_RET :: "int \<Rightarrow> a64_result" where
  "a64_RET rn =
    (if reg_ok rn then Inr (0xd65f0000 OR push_bit 5 (word_of_int rn)) else Inl Jit_Fatal)"

definition a64_Bcc :: "uint32 \<Rightarrow> int \<Rightarrow> a64_result" where
  "a64_Bcc cond ofs =
    (let imm19 = ofs sdiv 4
     in if range_ok (- 0x40000) 0x3ffff imm19
      then Inr (0x54000000 OR push_bit 5 ((word_of_int imm19) AND 0x7ffff) OR cond)
      else Inl Jit_Fatal)"

definition a64_CBZ :: "int \<Rightarrow> int \<Rightarrow> a64_result" where
  "a64_CBZ rt ofs =
    (let imm19 = ofs sdiv 4
     in if reg_ok rt \<and> range_ok (- 0x40000) 0x3ffff imm19
      then Inr (0xb4000000 OR push_bit 5 ((word_of_int imm19) AND 0x7ffff) OR (word_of_int rt))
      else Inl Jit_Fatal)"

definition a64_CBNZ :: "int \<Rightarrow> int \<Rightarrow> a64_result" where
  "a64_CBNZ rt ofs =
    (let imm19 = ofs sdiv 4
     in if reg_ok rt \<and> range_ok (- 0x40000) 0x3ffff imm19
      then Inr (0xb5000000 OR push_bit 5 ((word_of_int imm19) AND 0x7ffff) OR (word_of_int rt))
      else Inl Jit_Fatal)"

definition a64_CBZw :: "int \<Rightarrow> int \<Rightarrow> a64_result" where
  "a64_CBZw rt ofs =
    (let imm19 = ofs sdiv 4
     in if reg_ok rt \<and> range_ok (- 0x40000) 0x3ffff imm19
      then Inr (0x34000000 OR push_bit 5 ((word_of_int imm19) AND 0x7ffff) OR (word_of_int rt))
      else Inl Jit_Fatal)"

definition a64_CBNZw :: "int \<Rightarrow> int \<Rightarrow> a64_result" where
  "a64_CBNZw rt ofs =
    (let imm19 = ofs sdiv 4
     in if reg_ok rt \<and> range_ok (- 0x40000) 0x3ffff imm19
      then Inr (0x35000000 OR push_bit 5 ((word_of_int imm19) AND 0x7ffff) OR (word_of_int rt))
      else Inl Jit_Fatal)"

definition a64_TBZ :: "int \<Rightarrow> int \<Rightarrow> int \<Rightarrow> a64_result" where
  "a64_TBZ rt b ofs =
    (let imm14 = ofs sdiv 4; b5 = word_of_int (drop_bit 5 b AND 1) :: uint32; b40 = word_of_int (b AND 0x1f) :: uint32
     in if reg_ok rt \<and> range_ok 0 63 b \<and> range_ok (- 0x2000) 0x1fff imm14
      then Inr (0x36000000 OR push_bit 31 b5 OR push_bit 19 b40 OR push_bit 5 ((word_of_int imm14) AND 0x3fff) OR (word_of_int rt))
      else Inl Jit_Fatal)"

definition a64_TBNZ :: "int \<Rightarrow> int \<Rightarrow> int \<Rightarrow> a64_result" where
  "a64_TBNZ rt b ofs =
    (let imm14 = ofs sdiv 4; b5 = word_of_int (drop_bit 5 b AND 1) :: uint32; b40 = word_of_int (b AND 0x1f) :: uint32
     in if reg_ok rt \<and> range_ok 0 63 b \<and> range_ok (- 0x2000) 0x1fff imm14
      then Inr (0x37000000 OR push_bit 31 b5 OR push_bit 19 b40 OR push_bit 5 ((word_of_int imm14) AND 0x3fff) OR (word_of_int rt))
      else Inl Jit_Fatal)"

definition a64_CSELw :: "int \<Rightarrow> int \<Rightarrow> int \<Rightarrow> uint32 \<Rightarrow> a64_result" where
  "a64_CSELw rd rn rm cond =
    (if reg_ok rd \<and> reg_ok rn \<and> reg_ok rm
      then Inr (0x1a800000 OR push_bit 16 (word_of_int rm) OR push_bit 12 cond OR push_bit 5 (word_of_int rn) OR (word_of_int rd))
      else Inl Jit_Fatal)"

definition a64_CSINCw :: "int \<Rightarrow> int \<Rightarrow> int \<Rightarrow> uint32 \<Rightarrow> a64_result" where
  "a64_CSINCw rd rn rm cond =
    (if reg_ok rd \<and> reg_ok rn \<and> reg_ok rm
      then Inr (0x1a800400 OR push_bit 16 (word_of_int rm) OR push_bit 12 cond OR push_bit 5 (word_of_int rn) OR (word_of_int rd))
      else Inl Jit_Fatal)"

definition a64_BFIw :: "int \<Rightarrow> int \<Rightarrow> int \<Rightarrow> int \<Rightarrow> a64_result" where
  "a64_BFIw rd rn lsb width =
    (let immr = (32 - lsb) AND 31; imms = width - 1
     in if reg_ok rd \<and> reg_ok rn \<and> range_ok 0 31 lsb \<and> range_ok 1 (32 - lsb) width
      then Inr (0x33000000 OR push_bit 16 (word_of_int immr) OR push_bit 10 (word_of_int imms) OR push_bit 5 (word_of_int rn) OR (word_of_int rd))
      else Inl Jit_Fatal)"

definition a64_UDIVw :: "int \<Rightarrow> int \<Rightarrow> int \<Rightarrow> a64_result" where
  "a64_UDIVw rd rn rm =
    (if reg_ok rd \<and> reg_ok rn \<and> reg_ok rm
      then Inr (0x1ac00800 OR push_bit 16 (word_of_int rm) OR push_bit 5 (word_of_int rn) OR (word_of_int rd))
      else Inl Jit_Fatal)"

definition a64_SDIVw :: "int \<Rightarrow> int \<Rightarrow> int \<Rightarrow> a64_result" where
  "a64_SDIVw rd rn rm =
    (if reg_ok rd \<and> reg_ok rn \<and> reg_ok rm
      then Inr (0x1ac00c00 OR push_bit 16 (word_of_int rm) OR push_bit 5 (word_of_int rn) OR (word_of_int rd))
      else Inl Jit_Fatal)"

definition a64_LSLVw :: "int \<Rightarrow> int \<Rightarrow> int \<Rightarrow> a64_result" where
  "a64_LSLVw rd rn rm =
    (if reg_ok rd \<and> reg_ok rn \<and> reg_ok rm
      then Inr (0x1ac02000 OR push_bit 16 (word_of_int rm) OR push_bit 5 (word_of_int rn) OR (word_of_int rd))
      else Inl Jit_Fatal)"

definition a64_LSRVw :: "int \<Rightarrow> int \<Rightarrow> int \<Rightarrow> a64_result" where
  "a64_LSRVw rd rn rm =
    (if reg_ok rd \<and> reg_ok rn \<and> reg_ok rm
      then Inr (0x1ac02400 OR push_bit 16 (word_of_int rm) OR push_bit 5 (word_of_int rn) OR (word_of_int rd))
      else Inl Jit_Fatal)"

definition a64_LSLV :: "int \<Rightarrow> int \<Rightarrow> int \<Rightarrow> a64_result" where
  "a64_LSLV rd rn rm =
    (if reg_ok rd \<and> reg_ok rn \<and> reg_ok rm
      then Inr (0x9ac02000 OR push_bit 16 (word_of_int rm) OR push_bit 5 (word_of_int rn) OR (word_of_int rd))
      else Inl Jit_Fatal)"

definition a64_LSRV :: "int \<Rightarrow> int \<Rightarrow> int \<Rightarrow> a64_result" where
  "a64_LSRV rd rn rm =
    (if reg_ok rd \<and> reg_ok rn \<and> reg_ok rm
      then Inr (0x9ac02400 OR push_bit 16 (word_of_int rm) OR push_bit 5 (word_of_int rn) OR (word_of_int rd))
      else Inl Jit_Fatal)"

definition a64_ASRV :: "int \<Rightarrow> int \<Rightarrow> int \<Rightarrow> a64_result" where
  "a64_ASRV rd rn rm =
    (if reg_ok rd \<and> reg_ok rn \<and> reg_ok rm
      then Inr (0x9ac02800 OR push_bit 16 (word_of_int rm) OR push_bit 5 (word_of_int rn) OR (word_of_int rd))
      else Inl Jit_Fatal)"

definition a64_UMULL :: "int \<Rightarrow> int \<Rightarrow> int \<Rightarrow> a64_result" where
  "a64_UMULL rd rn rm =
    (if reg_ok rd \<and> reg_ok rn \<and> reg_ok rm
      then Inr (0x9ba07c00 OR push_bit 16 (word_of_int rm) OR push_bit 5 (word_of_int rn) OR (word_of_int rd))
      else Inl Jit_Fatal)"

definition a64_SMULL :: "int \<Rightarrow> int \<Rightarrow> int \<Rightarrow> a64_result" where
  "a64_SMULL rd rn rm =
    (if reg_ok rd \<and> reg_ok rn \<and> reg_ok rm
      then Inr (0x9b207c00 OR push_bit 16 (word_of_int rm) OR push_bit 5 (word_of_int rn) OR (word_of_int rd))
      else Inl Jit_Fatal)"

definition a64_ORNw :: "int \<Rightarrow> int \<Rightarrow> int \<Rightarrow> a64_result" where
  "a64_ORNw rd rn rm =
    (if reg_ok rd \<and> reg_ok rn \<and> reg_ok rm
      then Inr (0x2a200000 OR push_bit 16 (word_of_int rm) OR push_bit 5 (word_of_int rn) OR (word_of_int rd))
      else Inl Jit_Fatal)"

definition a64_MVNw :: "int \<Rightarrow> int \<Rightarrow> a64_result" where
  "a64_MVNw rd rm =
    (if reg_ok rd \<and> reg_ok rm
      then Inr (0x2a200000 OR push_bit 16 (word_of_int rm) OR push_bit 5 31 OR (word_of_int rd))
      else Inl Jit_Fatal)"

definition a64_CLZw :: "int \<Rightarrow> int \<Rightarrow> a64_result" where
  "a64_CLZw rd rn =
    (if reg_ok rd \<and> reg_ok rn then Inr (0x5ac01000 OR push_bit 5 (word_of_int rn) OR (word_of_int rd)) else Inl Jit_Fatal)"

definition a64_NOP :: "a64_result" where
  "a64_NOP  =
    (Inr (0xd503201f))"

definition a64_REV :: "int \<Rightarrow> int \<Rightarrow> a64_result" where
  "a64_REV rd rn =
    (if reg_ok rd \<and> reg_ok rn then Inr (0xdac00c00 OR push_bit 5 (word_of_int rn) OR (word_of_int rd)) else Inl Jit_Fatal)"

definition a64_REV16w :: "int \<Rightarrow> int \<Rightarrow> a64_result" where
  "a64_REV16w rd rn =
    (if reg_ok rd \<and> reg_ok rn then Inr (0x5ac00400 OR push_bit 5 (word_of_int rn) OR (word_of_int rd)) else Inl Jit_Fatal)"

definition a64_REVw :: "int \<Rightarrow> int \<Rightarrow> a64_result" where
  "a64_REVw rd rn =
    (if reg_ok rd \<and> reg_ok rn then Inr (0x5ac00800 OR push_bit 5 (word_of_int rn) OR (word_of_int rd)) else Inl Jit_Fatal)"

definition a64_LDR_D :: "int \<Rightarrow> int \<Rightarrow> int \<Rightarrow> a64_result" where
  "a64_LDR_D dt rn uimm =
    (let uoff = word_of_int uimm div 8 :: uint32
     in if reg_ok dt \<and> reg_ok rn \<and> align_ok 8 uimm \<and> range_ok 0 32760 uimm
      then Inr (0xfd400000 OR push_bit 10 uoff OR push_bit 5 (word_of_int rn) OR (word_of_int dt))
      else Inl Jit_Fatal)"

definition a64_STR_D :: "int \<Rightarrow> int \<Rightarrow> int \<Rightarrow> a64_result" where
  "a64_STR_D dt rn uimm =
    (let uoff = word_of_int uimm div 8 :: uint32
     in if reg_ok dt \<and> reg_ok rn \<and> align_ok 8 uimm \<and> range_ok 0 32760 uimm
      then Inr (0xfd000000 OR push_bit 10 uoff OR push_bit 5 (word_of_int rn) OR (word_of_int dt))
      else Inl Jit_Fatal)"

definition a64_FADD_D :: "int \<Rightarrow> int \<Rightarrow> int \<Rightarrow> a64_result" where
  "a64_FADD_D dd dn dm =
    (if reg_ok dd \<and> reg_ok dn \<and> reg_ok dm
      then Inr (0x1e602800 OR push_bit 16 (word_of_int dm) OR push_bit 5 (word_of_int dn) OR (word_of_int dd))
      else Inl Jit_Fatal)"

definition a64_FSUB_D :: "int \<Rightarrow> int \<Rightarrow> int \<Rightarrow> a64_result" where
  "a64_FSUB_D dd dn dm =
    (if reg_ok dd \<and> reg_ok dn \<and> reg_ok dm
      then Inr (0x1e603800 OR push_bit 16 (word_of_int dm) OR push_bit 5 (word_of_int dn) OR (word_of_int dd))
      else Inl Jit_Fatal)"

definition a64_FMUL_D :: "int \<Rightarrow> int \<Rightarrow> int \<Rightarrow> a64_result" where
  "a64_FMUL_D dd dn dm =
    (if reg_ok dd \<and> reg_ok dn \<and> reg_ok dm
      then Inr (0x1e600800 OR push_bit 16 (word_of_int dm) OR push_bit 5 (word_of_int dn) OR (word_of_int dd))
      else Inl Jit_Fatal)"

definition a64_FDIV_D :: "int \<Rightarrow> int \<Rightarrow> int \<Rightarrow> a64_result" where
  "a64_FDIV_D dd dn dm =
    (if reg_ok dd \<and> reg_ok dn \<and> reg_ok dm
      then Inr (0x1e601800 OR push_bit 16 (word_of_int dm) OR push_bit 5 (word_of_int dn) OR (word_of_int dd))
      else Inl Jit_Fatal)"

definition a64_FNEG_D :: "int \<Rightarrow> int \<Rightarrow> a64_result" where
  "a64_FNEG_D dd dn =
    (if reg_ok dd \<and> reg_ok dn then Inr (0x1e614000 OR push_bit 5 (word_of_int dn) OR (word_of_int dd)) else Inl Jit_Fatal)"

definition a64_FABS_D :: "int \<Rightarrow> int \<Rightarrow> a64_result" where
  "a64_FABS_D dd dn =
    (if reg_ok dd \<and> reg_ok dn then Inr (0x1e60c000 OR push_bit 5 (word_of_int dn) OR (word_of_int dd)) else Inl Jit_Fatal)"

definition a64_FSQRT_D :: "int \<Rightarrow> int \<Rightarrow> a64_result" where
  "a64_FSQRT_D dd dn =
    (if reg_ok dd \<and> reg_ok dn then Inr (0x1e61c000 OR push_bit 5 (word_of_int dn) OR (word_of_int dd)) else Inl Jit_Fatal)"

definition a64_FMADD_D :: "int \<Rightarrow> int \<Rightarrow> int \<Rightarrow> int \<Rightarrow> a64_result" where
  "a64_FMADD_D dd dn dm da =
    (if reg_ok dd \<and> reg_ok dn \<and> reg_ok dm \<and> reg_ok da
      then Inr (0x1f400000 OR push_bit 16 (word_of_int dm) OR push_bit 10 (word_of_int da) OR push_bit 5 (word_of_int dn) OR (word_of_int dd))
      else Inl Jit_Fatal)"

definition a64_FMSUB_D :: "int \<Rightarrow> int \<Rightarrow> int \<Rightarrow> int \<Rightarrow> a64_result" where
  "a64_FMSUB_D dd dn dm da =
    (if reg_ok dd \<and> reg_ok dn \<and> reg_ok dm \<and> reg_ok da
      then Inr (0x1f408000 OR push_bit 16 (word_of_int dm) OR push_bit 10 (word_of_int da) OR push_bit 5 (word_of_int dn) OR (word_of_int dd))
      else Inl Jit_Fatal)"

definition a64_FNMADD_D :: "int \<Rightarrow> int \<Rightarrow> int \<Rightarrow> int \<Rightarrow> a64_result" where
  "a64_FNMADD_D dd dn dm da =
    (if reg_ok dd \<and> reg_ok dn \<and> reg_ok dm \<and> reg_ok da
      then Inr (0x1f600000 OR push_bit 16 (word_of_int dm) OR push_bit 10 (word_of_int da) OR push_bit 5 (word_of_int dn) OR (word_of_int dd))
      else Inl Jit_Fatal)"

definition a64_FNMSUB_D :: "int \<Rightarrow> int \<Rightarrow> int \<Rightarrow> int \<Rightarrow> a64_result" where
  "a64_FNMSUB_D dd dn dm da =
    (if reg_ok dd \<and> reg_ok dn \<and> reg_ok dm \<and> reg_ok da
      then Inr (0x1f608000 OR push_bit 16 (word_of_int dm) OR push_bit 10 (word_of_int da) OR push_bit 5 (word_of_int dn) OR (word_of_int dd))
      else Inl Jit_Fatal)"

definition a64_FCVT_S_D :: "int \<Rightarrow> int \<Rightarrow> a64_result" where
  "a64_FCVT_S_D sd dn =
    (if reg_ok sd \<and> reg_ok dn then Inr (0x1e624000 OR push_bit 5 (word_of_int dn) OR (word_of_int sd)) else Inl Jit_Fatal)"

definition a64_FCVT_D_S :: "int \<Rightarrow> int \<Rightarrow> a64_result" where
  "a64_FCVT_D_S dd sn =
    (if reg_ok dd \<and> reg_ok sn then Inr (0x1e22c000 OR push_bit 5 (word_of_int sn) OR (word_of_int dd)) else Inl Jit_Fatal)"

definition a64_FCMP_D :: "int \<Rightarrow> int \<Rightarrow> a64_result" where
  "a64_FCMP_D dn dm =
    (if reg_ok dn \<and> reg_ok dm
      then Inr (0x1e602000 OR push_bit 16 (word_of_int dm) OR push_bit 5 (word_of_int dn))
      else Inl Jit_Fatal)"

definition a64_FCMP_D_zero :: "int \<Rightarrow> a64_result" where
  "a64_FCMP_D_zero dn =
    (if reg_ok dn then Inr (0x1e602008 OR push_bit 5 (word_of_int dn)) else Inl Jit_Fatal)"

definition a64_FCVTZS_W_D :: "int \<Rightarrow> int \<Rightarrow> a64_result" where
  "a64_FCVTZS_W_D wd dn =
    (if reg_ok wd \<and> reg_ok dn then Inr (0x1e780000 OR push_bit 5 (word_of_int dn) OR (word_of_int wd)) else Inl Jit_Fatal)"

definition a64_FCSEL_D :: "int \<Rightarrow> int \<Rightarrow> int \<Rightarrow> uint32 \<Rightarrow> a64_result" where
  "a64_FCSEL_D dd dn dm cond =
    (if reg_ok dd \<and> reg_ok dn \<and> reg_ok dm
      then Inr (0x1e600c00 OR push_bit 16 (word_of_int dm) OR push_bit 12 cond OR push_bit 5 (word_of_int dn) OR (word_of_int dd))
      else Inl Jit_Fatal)"

definition a64_FMOV_D_X :: "int \<Rightarrow> int \<Rightarrow> a64_result" where
  "a64_FMOV_D_X dd xn =
    (if reg_ok dd \<and> reg_ok xn then Inr (0x9e670000 OR push_bit 5 (word_of_int xn) OR (word_of_int dd)) else Inl Jit_Fatal)"

definition a64_FMOV_X_D :: "int \<Rightarrow> int \<Rightarrow> a64_result" where
  "a64_FMOV_X_D xd dn =
    (if reg_ok xd \<and> reg_ok dn then Inr (0x9e660000 OR push_bit 5 (word_of_int dn) OR (word_of_int xd)) else Inl Jit_Fatal)"

definition a64_FMOV_S_W :: "int \<Rightarrow> int \<Rightarrow> a64_result" where
  "a64_FMOV_S_W sd wn =
    (if reg_ok sd \<and> reg_ok wn then Inr (0x1e270000 OR push_bit 5 (word_of_int wn) OR (word_of_int sd)) else Inl Jit_Fatal)"

definition a64_FMOV_W_S :: "int \<Rightarrow> int \<Rightarrow> a64_result" where
  "a64_FMOV_W_S wd sn =
    (if reg_ok wd \<and> reg_ok sn then Inr (0x1e260000 OR push_bit 5 (word_of_int sn) OR (word_of_int wd)) else Inl Jit_Fatal)"

definition a64_ADRP :: "int \<Rightarrow> int \<Rightarrow> a64_result" where
  "a64_ADRP rd ofs =
    (let imm = signed_take_bit 31 (drop_bit 12 ofs); immlo = word_of_int (imm AND 0x3) :: uint32; immhi = word_of_int (drop_bit 2 imm AND 0x7ffff) :: uint32
     in if reg_ok rd \<and> range_ok (- 0x100000) 0xfffff imm
      then Inr (0x90000000 OR push_bit 29 immlo OR push_bit 5 immhi OR (word_of_int rd))
      else Inl Jit_Fatal)"

definition a64_ADR :: "int \<Rightarrow> int \<Rightarrow> a64_result" where
  "a64_ADR rd ofs =
    (let immlo = word_of_int (ofs AND 0x3) :: uint32; immhi = word_of_int (drop_bit 2 ofs AND 0x7ffff) :: uint32
     in if reg_ok rd \<and> range_ok (- 0x100000) 0xfffff ofs
      then Inr (0x10000000 OR push_bit 29 immlo OR push_bit 5 immhi OR (word_of_int rd))
      else Inl Jit_Fatal)"

lemmas a64_defs = a64_MOVZ_def
  a64_MOVK_def
  a64_MOVN_def
  a64_MOVZw_def
  a64_MOVKw_def
  a64_MOVNw_def
  a64_ADD_imm_def
  a64_SUB_imm_def
  a64_ADDS_imm_def
  a64_SUBS_imm_def
  a64_CMP_imm_def
  a64_ADDw_imm_def
  a64_SUBw_imm_def
  a64_ADDSw_imm_def
  a64_SUBSw_imm_def
  a64_CMPw_imm_def
  a64_ADD_reg_def
  a64_SUB_reg_def
  a64_AND_reg_def
  a64_ORR_reg_def
  a64_EOR_reg_def
  a64_ADDS_reg_def
  a64_SUBS_reg_def
  a64_ADDw_reg_def
  a64_ADDw_reg_lsr_def
  a64_CMNw_imm_def
  a64_SXTW_def
  a64_SXTBw_def
  a64_SXTHw_def
  a64_AND_imm_def
  a64_ORR_imm_def
  a64_EOR_imm_def
  a64_SUBw_reg_def
  a64_ANDw_reg_def
  a64_ORRw_reg_def
  a64_EORw_reg_def
  a64_ADDSw_reg_def
  a64_SUBSw_reg_def
  a64_CMPw_reg_def
  a64_MOV_def
  a64_MOVw_def
  a64_ANDSw_reg_def
  a64_TSTw_reg_def
  a64_ANDSw_imm_def
  a64_TSTw_imm_def
  a64_MADDw_def
  a64_MULw_def
  a64_NEGw_def
  a64_LSLw_imm_def
  a64_LSRw_imm_def
  a64_LSR_imm_def
  a64_ASRw_imm_def
  a64_RORw_imm_def
  a64_LSLw_reg_def
  a64_LSRw_reg_def
  a64_RORw_reg_def
  a64_ORRw_imm_def
  a64_ANDw_imm_def
  a64_EORw_imm_def
  a64_LDR_def
  a64_STR_def
  a64_LDRw_def
  a64_STRw_def
  a64_LDRBw_def
  a64_STRBw_def
  a64_LDRHw_def
  a64_STRHw_def
  a64_LDRw_reg_def
  a64_LDR_reg_def
  a64_STP_pre_def
  a64_LDP_post_def
  a64_B_def
  a64_BL_def
  a64_BR_def
  a64_BLR_def
  a64_RET_def
  a64_Bcc_def
  a64_CBZ_def
  a64_CBNZ_def
  a64_CBZw_def
  a64_CBNZw_def
  a64_TBZ_def
  a64_TBNZ_def
  a64_CSELw_def
  a64_CSINCw_def
  a64_BFIw_def
  a64_UDIVw_def
  a64_SDIVw_def
  a64_LSLVw_def
  a64_LSRVw_def
  a64_LSLV_def
  a64_LSRV_def
  a64_ASRV_def
  a64_UMULL_def
  a64_SMULL_def
  a64_ORNw_def
  a64_MVNw_def
  a64_CLZw_def
  a64_NOP_def
  a64_REV_def
  a64_REV16w_def
  a64_REVw_def
  a64_LDR_D_def
  a64_STR_D_def
  a64_FADD_D_def
  a64_FSUB_D_def
  a64_FMUL_D_def
  a64_FDIV_D_def
  a64_FNEG_D_def
  a64_FABS_D_def
  a64_FSQRT_D_def
  a64_FMADD_D_def
  a64_FMSUB_D_def
  a64_FNMADD_D_def
  a64_FNMSUB_D_def
  a64_FCVT_S_D_def
  a64_FCVT_D_S_def
  a64_FCMP_D_def
  a64_FCMP_D_zero_def
  a64_FCVTZS_W_D_def
  a64_FCSEL_D_def
  a64_FMOV_D_X_def
  a64_FMOV_X_D_def
  a64_FMOV_S_W_def
  a64_FMOV_W_S_def
  a64_ADRP_def
  a64_ADR_def

end
