(* ===== verification/Jitc_Cache.thy ===== *)
theory Jitc_Cache
  imports A64_Asm Ppc_Mmu
begin

text \<open>
  src/cpu/cpu_jitc_aarch64/jitc.cc and jitc.h: the translation cache.  Translated code lives in fragments of 512 bytes; a client
  page (a page of guest memory with translations) has a chain of fragments and a table of entry points; the client pages in use
  form a doubly linked list from the least to the most recently used.  Pointers to fragments and client pages are numbers, the
  null pointer is \<open>None\<close>; \<open>frag\<close> and \<open>page\<close> are the objects they point to.  \<open>mem_pages\<close> is the length of
  the array \<open>clientPages\<close>.  Native addresses are 64-bit words, and \<open>native\<close> is the code, a word at each address.
\<close>

unbundle bit_operations_syntax

definition FRAGMENT_SIZE :: nat where "FRAGMENT_SIZE = 512"

record tc_fragment =
  tcf_base :: uint64
  tcf_prev :: "nat option"

record client_page =
  entrypoints :: "nat \<Rightarrow> uint64"
  tcf_current :: "nat option"
  baseaddress :: uint32
  bytesLeft :: uint32
  tcp :: uint64
  moreRU :: "nat option"
  lessRU :: "nat option"

record jitc_state =
  clientPages :: "nat \<Rightarrow> nat option"
  mem_pages :: nat
  LRUpage :: "nat option"
  MRUpage :: "nat option"
  freeFragmentsList :: "nat option"
  freeClientPages :: "nat option"
  translationCache :: uint64
  destroy_write :: uint64
  destroy_oopages :: uint64
  destroy_ootc :: uint64
  currentPage :: nat
  frag :: "nat \<Rightarrow> tc_fragment"
  page :: "nat \<Rightarrow> client_page"
  native :: "uint64 \<Rightarrow> uint32"

type_synonym 'a jit = "jit_error + 'a"

definition deref :: "nat option \<Rightarrow> nat jit" where
  "deref p = (case p of None \<Rightarrow> Inl Jit_Null | Some a \<Rightarrow> Inr a)"

definition set_page :: "nat \<Rightarrow> (client_page \<Rightarrow> client_page) \<Rightarrow> jitc_state \<Rightarrow> jitc_state" where
  "set_page cp f s = s\<lparr>page := (page s)(cp := f (page s cp))\<rparr>"

definition set_frag :: "nat \<Rightarrow> (tc_fragment \<Rightarrow> tc_fragment) \<Rightarrow> jitc_state \<Rightarrow> jitc_state" where
  "set_frag t f s = s\<lparr>frag := (frag s)(t := f (frag s t))\<rparr>"

subsection \<open>The table of client pages\<close>

definition page_index :: "uint32 \<Rightarrow> nat" where "page_index baseaddr = unat (drop_bit 12 baseaddr)"

definition set_client_page :: "uint32 \<Rightarrow> nat option \<Rightarrow> jitc_state \<Rightarrow> jitc_state jit" where
  "set_client_page baseaddr cp s =
     (if page_index baseaddr < mem_pages s then Inr (s\<lparr>clientPages := (clientPages s)(page_index baseaddr := cp)\<rparr>)
      else Inl Jit_Overrun)"

definition jitcMapClientPage :: "uint32 \<Rightarrow> nat \<Rightarrow> jitc_state \<Rightarrow> jitc_state jit" where
  "jitcMapClientPage baseaddr cp s =
     and_then (set_client_page baseaddr (Some cp) s) (\<lambda>s. Inr (set_page cp (\<lambda>p. p\<lparr>baseaddress := baseaddr\<rparr>) s))"

definition jitcUnmapClientPage :: "nat \<Rightarrow> jitc_state \<Rightarrow> jitc_state jit" where
  "jitcUnmapClientPage cp s = set_client_page (baseaddress (page s cp)) None s"

subsection \<open>The list of client pages\<close>

definition jitcTouchClientPage :: "nat \<Rightarrow> jitc_state \<Rightarrow> jitc_state jit" where
  "jitcTouchClientPage cp s =
     (case moreRU (page s cp) of
        None \<Rightarrow> Inr s
      | Some m \<Rightarrow>
          let s = (case lessRU (page s cp) of
                     Some l \<Rightarrow> set_page l (\<lambda>p. p\<lparr>moreRU := Some m\<rparr>) (set_page m (\<lambda>p. p\<lparr>lessRU := Some l\<rparr>) s)
                   | None \<Rightarrow> set_page m (\<lambda>p. p\<lparr>lessRU := None\<rparr>) (s\<lparr>LRUpage := Some m\<rparr>));
              s = set_page cp (\<lambda>p. p\<lparr>moreRU := None\<rparr>) s;
              s = set_page cp (\<lambda>p. p\<lparr>lessRU := MRUpage s\<rparr>) s
          in and_then (deref (MRUpage s)) (\<lambda>mru.
               Inr ((set_page mru (\<lambda>p. p\<lparr>moreRU := Some cp\<rparr>) s)\<lparr>MRUpage := Some cp\<rparr>)))"

definition jitcFreeClientPage :: "nat \<Rightarrow> jitc_state \<Rightarrow> jitc_state" where
  "jitcFreeClientPage cp s =
     (let s = (case lessRU (page s cp) of
                 None \<Rightarrow>
                   (case moreRU (page s cp) of
                      None \<Rightarrow> s\<lparr>LRUpage := None, MRUpage := None\<rparr>
                    | Some m \<Rightarrow> set_page m (\<lambda>p. p\<lparr>lessRU := None\<rparr>) (s\<lparr>LRUpage := Some m\<rparr>))
               | Some l \<Rightarrow>
                   (case moreRU (page s cp) of
                      None \<Rightarrow> set_page l (\<lambda>p. p\<lparr>moreRU := None\<rparr>) (s\<lparr>MRUpage := Some l\<rparr>)
                    | Some m \<Rightarrow> set_page l (\<lambda>p. p\<lparr>moreRU := Some m\<rparr>) (set_page m (\<lambda>p. p\<lparr>lessRU := Some l\<rparr>) s)))
      in (set_page cp (\<lambda>p. p\<lparr>moreRU := freeClientPages s\<rparr>) s)\<lparr>freeClientPages := Some cp\<rparr>)"

subsection \<open>Fragments\<close>

text \<open>\<open>jitcDestroyFragments\<close> follows a chain and moves each fragment to the free list; \<open>None\<close> when it does not return.\<close>

partial_function (option) jitcDestroyFragments :: "nat option \<Rightarrow> jitc_state \<Rightarrow> jitc_state option" where
  "jitcDestroyFragments tcf s =
     (case tcf of
        None \<Rightarrow> Some s
      | Some t \<Rightarrow>
          (let s' = set_frag t (\<lambda>f. f\<lparr>tcf_prev := freeFragmentsList s\<rparr>) s
           in jitcDestroyFragments (tcf_prev (frag s t)) (s'\<lparr>freeFragmentsList := Some t\<rparr>)))"

definition jitcDestroyClientPage :: "nat \<Rightarrow> jitc_state \<Rightarrow> jitc_state jit" where
  "jitcDestroyClientPage cp s =
     (case jitcDestroyFragments (tcf_current (page s cp)) s of
        None \<Rightarrow> Inl Jit_Hangs
      | Some s \<Rightarrow> jitcUnmapClientPage cp (set_page cp (\<lambda>p. p\<lparr>entrypoints := (\<lambda>_. 0), tcf_current := None\<rparr>) s))"

definition jitcDestroyAndFreeClientPage :: "nat \<Rightarrow> jitc_state \<Rightarrow> jitc_state jit" where
  "jitcDestroyAndFreeClientPage cp s =
     and_then (jitcDestroyClientPage cp (s\<lparr>destroy_write := destroy_write s + 1\<rparr>)) (\<lambda>s. Inr (jitcFreeClientPage cp s))"

definition jitcDestroyAndTouchClientPage :: "nat \<Rightarrow> jitc_state \<Rightarrow> jitc_state jit" where
  "jitcDestroyAndTouchClientPage cp s =
     and_then (jitcDestroyClientPage cp (s\<lparr>destroy_oopages := destroy_oopages s + 1\<rparr>)) (jitcTouchClientPage cp)"

definition jitcGetFragment :: "jitc_state \<Rightarrow> (nat \<times> jitc_state) jit" where
  "jitcGetFragment s =
     and_then (deref (freeFragmentsList s)) (\<lambda>t.
       let s = s\<lparr>freeFragmentsList := tcf_prev (frag s t)\<rparr>
       in Inr (t, set_frag t (\<lambda>f. f\<lparr>tcf_prev := None\<rparr>) s))"

definition jitcAllocFragment :: "jitc_state \<Rightarrow> (nat \<times> jitc_state) jit" where
  "jitcAllocFragment s =
     and_then
       (if freeFragmentsList s = None then
          let s = s\<lparr>destroy_write := destroy_write s - 1, destroy_ootc := destroy_ootc s + 1\<rparr>
          in and_then (deref (LRUpage s)) (\<lambda>cp. jitcDestroyAndFreeClientPage cp s)
        else Inr s)
       jitcGetFragment"

subsection \<open>Creating client pages\<close>

definition destroy_lru :: "jitc_state \<Rightarrow> jitc_state jit" where
  "destroy_lru s = (case LRUpage s of None \<Rightarrow> Inr s | Some cp \<Rightarrow> jitcDestroyAndTouchClientPage cp s)"

definition jitcCreateClientPage :: "uint32 \<Rightarrow> jitc_state \<Rightarrow> (nat \<times> jitc_state) jit" where
  "jitcCreateClientPage baseaddr s =
     and_then
       (case freeClientPages s of
          Some cp \<Rightarrow>
            let s = s\<lparr>freeClientPages := moreRU (page s cp)\<rparr>;
                s = (case MRUpage s of
                       Some mru \<Rightarrow>
                         (set_page cp (\<lambda>p. p\<lparr>lessRU := Some mru\<rparr>) (set_page mru (\<lambda>p. p\<lparr>moreRU := Some cp\<rparr>) s))\<lparr>MRUpage := Some cp\<rparr>
                     | None \<Rightarrow> (set_page cp (\<lambda>p. p\<lparr>lessRU := None\<rparr>) s)\<lparr>LRUpage := Some cp, MRUpage := Some cp\<rparr>)
            in Inr (cp, set_page cp (\<lambda>p. p\<lparr>moreRU := None\<rparr>) s)
        | None \<Rightarrow>
            and_then (deref (LRUpage s)) (\<lambda>cp.
            and_then (jitcDestroyAndTouchClientPage cp s) (\<lambda>s.
            and_then (destroy_lru s) (\<lambda>s.
            and_then (destroy_lru s) (\<lambda>s.
            and_then (destroy_lru s) (\<lambda>s.
            and_then (destroy_lru s) (\<lambda>s. Inr (cp, s))))))))
       (\<lambda>(cp, s). and_then (jitcMapClientPage baseaddr cp s) (\<lambda>s. Inr (cp, s)))"

definition jitcGetOrCreateClientPage :: "uint32 \<Rightarrow> jitc_state \<Rightarrow> (nat \<times> jitc_state) jit" where
  "jitcGetOrCreateClientPage baseaddr s =
     (if page_index baseaddr < mem_pages s then
        (case clientPages s (page_index baseaddr) of
           Some cp \<Rightarrow> Inr (cp, s)
         | None \<Rightarrow> jitcCreateClientPage baseaddr s)
      else Inl Jit_Overrun)"

end
