(* ===== verification/Jitc_Cache_Inv.thy ===== *)
theory Jitc_Cache_Inv
  imports "HOL-Library.Multiset" Jitc_Cache
begin

text \<open>
  The linked lists of the translation cache as lists: segments of the doubly linked list of client pages, chains of fragments,
  and the chain of free client pages.
\<close>

subsection \<open>Doubly linked segments\<close>

definition head_or :: "nat list \<Rightarrow> nat option \<Rightarrow> nat option" where
  "head_or xs r = (case xs of [] \<Rightarrow> r | x # _ \<Rightarrow> Some x)"

definition last_or :: "nat option \<Rightarrow> nat list \<Rightarrow> nat option" where
  "last_or l xs = (if xs = [] then l else Some (last xs))"

lemma head_or_simps [simp]: "head_or [] r = r" "head_or (x # xs) r = Some x" "head_or (xs @ ys) r = head_or xs (head_or ys r)"
  by (simp_all add: head_or_def split: list.splits)

lemma last_or_simps [simp]: "last_or l [] = l" "last_or l (x # xs) = last_or (Some x) xs" "last_or l (xs @ ys) = last_or (last_or l xs) ys"
  by (simp_all add: last_or_def)

lemma last_or_in: "last_or l xs = Some y \<Longrightarrow> y \<in> set xs \<or> xs = [] \<and> l = Some y"
  by (auto simp: last_or_def split: if_splits)

lemma head_or_in: "head_or xs r = Some y \<Longrightarrow> y \<in> set xs \<or> xs = [] \<and> r = Some y"
  by (cases xs) auto

text \<open>\<open>dll pg l xs r\<close>: the objects \<open>xs\<close> are linked, the first one's predecessor is \<open>l\<close>, the last one's successor \<open>r\<close>.\<close>

fun dll :: "(nat \<Rightarrow> client_page) \<Rightarrow> nat option \<Rightarrow> nat list \<Rightarrow> nat option \<Rightarrow> bool" where
  "dll pg l [] r \<longleftrightarrow> True"
| "dll pg l (x # xs) r \<longleftrightarrow> lessRU (pg x) = l \<and> moreRU (pg x) = head_or xs r \<and> dll pg (Some x) xs r"

lemma dll_append [simp]: "dll pg l (xs @ ys) r \<longleftrightarrow> dll pg l xs (head_or ys r) \<and> dll pg (last_or l xs) ys r"
  by (induction xs arbitrary: l) auto

lemma dll_cong:
  assumes "\<And>x. x \<in> set xs \<Longrightarrow> lessRU (pg' x) = lessRU (pg x) \<and> moreRU (pg' x) = moreRU (pg x)"
  shows "dll pg' l xs r = dll pg l xs r"
  using assms by (induction xs arbitrary: l) auto

lemma dll_update [simp]: "x \<notin> set xs \<Longrightarrow> dll (pg(x := p)) l xs r = dll pg l xs r"
  by (rule dll_cong) auto

lemma dll_right: "dll pg l (xs @ [y]) r' \<Longrightarrow> moreRU (pg y) = r'"
  by simp

text \<open>Changing the successor of the last object, the predecessor of the first.\<close>

lemma dll_set_right:
  assumes "dll pg l xs r" "distinct xs" "xs \<noteq> []"
  shows "dll (pg(last xs := (pg (last xs))\<lparr>moreRU := r'\<rparr>)) l xs r'"
proof -
  obtain ys y where x: "xs = ys @ [y]" using assms(3) by (metis rev_exhaust)
  show ?thesis using assms by (simp add: x)
qed

lemma dll_set_left:
  assumes "dll pg l xs r" "distinct xs" "xs \<noteq> []"
  shows "dll (pg(hd xs := (pg (hd xs))\<lparr>lessRU := l'\<rparr>)) l' xs r"
  using assms by (cases xs) auto

subsection \<open>Chains\<close>

text \<open>A singly linked list, from a pointer on.\<close>

fun chain :: "(nat \<Rightarrow> nat option) \<Rightarrow> nat option \<Rightarrow> nat list \<Rightarrow> bool" where
  "chain nx p [] \<longleftrightarrow> p = None"
| "chain nx p (x # xs) \<longleftrightarrow> p = Some x \<and> chain nx (nx x) xs"

lemma chain_cong: "(\<And>x. x \<in> set xs \<Longrightarrow> nx' x = nx x) \<Longrightarrow> chain nx' p xs = chain nx p xs"
  by (induction xs arbitrary: p) auto

lemma chain_update [simp]: "x \<notin> set xs \<Longrightarrow> chain (nx(x := q)) p xs = chain nx p xs"
  by (rule chain_cong) auto

lemma chain_None [simp]: "chain nx None xs \<longleftrightarrow> xs = []"
  by (cases xs) auto

lemma chain_Some: "chain nx (Some t) xs \<longleftrightarrow> (\<exists>ys. xs = t # ys \<and> chain nx (nx t) ys)"
  by (cases xs) auto

abbreviation frag_next :: "jitc_state \<Rightarrow> nat \<Rightarrow> nat option" where "frag_next s \<equiv> \<lambda>t. tcf_prev (frag s t)"

abbreviation page_next :: "jitc_state \<Rightarrow> nat \<Rightarrow> nat option" where "page_next s \<equiv> \<lambda>cp. moreRU (page s cp)"

text \<open>Freeing a chain puts it, reversed, before the free fragments.\<close>

definition moved_chain :: "nat list \<Rightarrow> jitc_state \<Rightarrow> jitc_state \<Rightarrow> bool" where
  "moved_chain ts s s' \<longleftrightarrow>
     s' = s\<lparr>frag := frag s', freeFragmentsList := freeFragmentsList s'\<rparr> \<and>
     (\<forall>t. t \<notin> set ts \<longrightarrow> frag s' t = frag s t) \<and> (\<forall>t. tcf_base (frag s' t) = tcf_base (frag s t))"

lemma jitcDestroyFragments_chain:
  assumes "chain (frag_next s) p ts" "chain (frag_next s) (freeFragmentsList s) fs" "distinct ts" "set ts \<inter> set fs = {}"
  shows "\<exists>s'. jitcDestroyFragments p s = Some s' \<and> moved_chain ts s s' \<and> chain (frag_next s') (freeFragmentsList s') (rev ts @ fs)"
  using assms
proof (induction ts arbitrary: p s fs)
  case Nil
  then show ?case by (simp add: jitcDestroyFragments.simps[of None] moved_chain_def)
next
  case (Cons t ts)
  let ?s = "(set_frag t (\<lambda>f. f\<lparr>tcf_prev := freeFragmentsList s\<rparr>) s)\<lparr>freeFragmentsList := Some t\<rparr>"
  have nx: "frag_next ?s = (frag_next s)(t := freeFragmentsList s)" by (auto simp: set_frag_def)
  have d: "t \<notin> set ts" "t \<notin> set fs" using Cons.prems(3,4) by auto
  have "chain (frag_next ?s) (frag_next s t) ts" unfolding nx using Cons.prems(1) d by simp
  moreover have "chain (frag_next ?s) (freeFragmentsList ?s) (t # fs)" unfolding nx using Cons.prems(2) d by simp
  moreover have "set ts \<inter> set (t # fs) = {}" "distinct ts" using Cons.prems(3,4) by auto
  ultimately obtain s' where s': "jitcDestroyFragments (frag_next s t) ?s = Some s'" "moved_chain ts ?s s'"
    "chain (frag_next s') (freeFragmentsList s') (rev ts @ t # fs)"
    using Cons.IH by blast
  have "jitcDestroyFragments p s = Some s'"
    using Cons.prems(1) s'(1) by (simp add: jitcDestroyFragments.simps[of "Some t"] Let_def)
  moreover have "moved_chain (t # ts) s s'"
  proof -
    have "s' = ?s\<lparr>frag := frag s', freeFragmentsList := freeFragmentsList s'\<rparr>" using s'(2) unfolding moved_chain_def by (rule conjunct1)
    then have "s' = s\<lparr>frag := frag s', freeFragmentsList := freeFragmentsList s'\<rparr>" by (simp add: set_frag_def)
    then show ?thesis using s'(2) by (auto simp: moved_chain_def set_frag_def)
  qed
  ultimately show ?case using s'(3) by auto
qed

subsection \<open>Taking an object out, and putting it at the end\<close>

definition relink :: "nat list \<Rightarrow> nat list \<Rightarrow> (nat \<Rightarrow> client_page) \<Rightarrow> nat \<Rightarrow> client_page" where
  "relink as bs pg x =
     (let p = (if as \<noteq> [] \<and> x = last as then (pg x)\<lparr>moreRU := head_or bs None\<rparr> else pg x)
      in if bs \<noteq> [] \<and> x = hd bs then p\<lparr>lessRU := last_or None as\<rparr> else p)"

lemma dll_relink:
  assumes "dll pg None (as @ cp # bs) None" "distinct (as @ cp # bs)"
  shows "dll (relink as bs pg) None (as @ bs) None"
proof -
  have d: "dll pg None as (Some cp)" "dll pg (Some cp) bs None" using assms(1) by simp_all
  have "dll (relink as bs pg) None as (head_or bs None)"
  proof (cases "as = []")
    case False
    have "dll (pg(last as := (pg (last as))\<lparr>moreRU := head_or bs None\<rparr>)) None as (head_or bs None)"
      using dll_set_right[OF d(1) _ False] assms(2) by simp
    moreover have "x \<in> set as \<Longrightarrow> bs = [] \<or> x \<noteq> hd bs" for x using assms(2) by (cases bs) auto
    ultimately show ?thesis
      by (subst dll_cong[where pg = "pg(last as := (pg (last as))\<lparr>moreRU := head_or bs None\<rparr>)"])
        (use last_in_set[OF False] in \<open>auto simp: relink_def False Let_def\<close>)
  qed simp
  moreover have "dll (relink as bs pg) (last_or None as) bs None"
  proof (cases "bs = []")
    case False
    have "dll (pg(hd bs := (pg (hd bs))\<lparr>lessRU := last_or None as\<rparr>)) (last_or None as) bs None"
      using dll_set_left[OF d(2) _ False] assms(2) by simp
    moreover have "x \<in> set bs \<Longrightarrow> as = [] \<or> x \<noteq> last as" for x using assms(2) by (auto dest: last_in_set)
    ultimately show ?thesis
      by (subst dll_cong[where pg = "pg(hd bs := (pg (hd bs))\<lparr>lessRU := last_or None as\<rparr>)"])
        (use hd_in_set[OF False] in \<open>auto simp: relink_def False Let_def\<close>)
  qed simp
  ultimately show ?thesis by simp
qed

lemma relink_other: "x \<notin> set as \<union> set bs \<Longrightarrow> relink as bs pg x = pg x"
  by (auto simp: relink_def Let_def dest: last_in_set hd_in_set)

lemma relink_fields [simp]:
  "entrypoints (relink as bs pg x) = entrypoints (pg x)" "tcf_current (relink as bs pg x) = tcf_current (pg x)"
  "baseaddress (relink as bs pg x) = baseaddress (pg x)" "bytesLeft (relink as bs pg x) = bytesLeft (pg x)"
  "tcp (relink as bs pg x) = tcp (pg x)"
  by (simp_all add: relink_def Let_def)

lemma dll_snoc:
  assumes "dll pg None zs None" "distinct zs" "cp \<notin> set zs" "lessRU (pg' cp) = last_or None zs" "moreRU (pg' cp) = None"
    and "\<And>x. x \<in> set zs \<Longrightarrow> lessRU (pg' x) = lessRU (pg x) \<and> moreRU (pg' x) = (if x = last zs then Some cp else moreRU (pg x))"
  shows "dll pg' None (zs @ [cp]) None"
proof (cases "zs = []")
  case False
  have "dll (pg(last zs := (pg (last zs))\<lparr>moreRU := Some cp\<rparr>)) None zs (Some cp)"
    using dll_set_right[OF assms(1,2) False] by simp
  then have "dll pg' None zs (Some cp)"
    by (subst dll_cong[where pg = "pg(last zs := (pg (last zs))\<lparr>moreRU := Some cp\<rparr>)"]) (auto simp: assms(6))
  then show ?thesis using assms(4,5) by simp
qed (use assms(4,5) in simp)

lemma dll_at:
  assumes "dll pg None (as @ cp # bs) None"
  shows "lessRU (pg cp) = last_or None as" "moreRU (pg cp) = head_or bs None"
  using assms by simp_all

text \<open>
  The invariant of the translation cache and its operations.  \<open>cache_ok np nf ls s xs ys own fs\<close>: of the \<open>np\<close> client pages,
  \<open>xs\<close> are in use, from the least to the most recently used, and \<open>ys\<close> are free; page \<open>cp\<close> has the fragments
  \<open>own cp\<close>, the fragments \<open>fs\<close> are free, the fragments \<open>ls\<close> have just been taken and are in no list, and every one of
  the \<open>nf\<close> fragments is in one place.
\<close>

definition lru_ok :: "jitc_state \<Rightarrow> nat list \<Rightarrow> bool" where
  "lru_ok s xs \<longleftrightarrow> dll (page s) None xs None \<and> distinct xs \<and> LRUpage s = head_or xs None \<and> MRUpage s = last_or None xs"

definition pages_ok :: "nat \<Rightarrow> jitc_state \<Rightarrow> nat list \<Rightarrow> nat list \<Rightarrow> bool" where
  "pages_ok np s xs ys \<longleftrightarrow>
     chain (page_next s) (freeClientPages s) ys \<and> distinct ys \<and> set xs \<inter> set ys = {} \<and> set xs \<union> set ys = {..<np}"

definition frags_ok :: "nat \<Rightarrow> nat \<Rightarrow> nat multiset \<Rightarrow> jitc_state \<Rightarrow> nat list \<Rightarrow> (nat \<Rightarrow> nat list) \<Rightarrow> nat list \<Rightarrow> bool" where
  "frags_ok np nf ls s xs own fs \<longleftrightarrow>
     chain (frag_next s) (freeFragmentsList s) fs \<and> (\<forall>cp<np. chain (frag_next s) (tcf_current (page s cp)) (own cp)) \<and>
     (\<forall>cp<np. cp \<notin> set xs \<longrightarrow> own cp = []) \<and> mset fs + (\<Sum>cp<np. mset (own cp)) + ls = mset [0..<nf]"

definition map_ok :: "jitc_state \<Rightarrow> nat list \<Rightarrow> bool" where
  "map_ok s xs \<longleftrightarrow>
     (\<forall>i cp. clientPages s i = Some cp \<longrightarrow> i < mem_pages s \<and> cp \<in> set xs \<and> page_index (baseaddress (page s cp)) = i) \<and>
     (\<forall>cp\<in>set xs. page_index (baseaddress (page s cp)) < mem_pages s)"

definition cache_ok ::
  "nat \<Rightarrow> nat \<Rightarrow> nat multiset \<Rightarrow> jitc_state \<Rightarrow> nat list \<Rightarrow> nat list \<Rightarrow> (nat \<Rightarrow> nat list) \<Rightarrow> nat list \<Rightarrow> bool" where
  "cache_ok np nf ls s xs ys own fs \<longleftrightarrow> lru_ok s xs \<and> pages_ok np s xs ys \<and> frags_ok np nf ls s xs own fs \<and> map_ok s xs"

lemma set_page_simps [simp]:
  "page (set_page cp f s) = (page s)(cp := f (page s cp))" "LRUpage (set_page cp f s) = LRUpage s" "MRUpage (set_page cp f s) = MRUpage s"
  "clientPages (set_page cp f s) = clientPages s" "mem_pages (set_page cp f s) = mem_pages s" "frag (set_page cp f s) = frag s"
  "freeFragmentsList (set_page cp f s) = freeFragmentsList s" "freeClientPages (set_page cp f s) = freeClientPages s"
  "native (set_page cp f s) = native s" "currentPage (set_page cp f s) = currentPage s" "translationCache (set_page cp f s) = translationCache s"
  by (simp_all add: set_page_def)

subsection \<open>What the list operations do\<close>

definition touched :: "nat list \<Rightarrow> nat \<Rightarrow> nat list \<Rightarrow> (nat \<Rightarrow> client_page) \<Rightarrow> nat \<Rightarrow> client_page" where
  "touched as cp bs pg =
     (let p = (relink as bs pg)(cp := (pg cp)\<lparr>moreRU := None, lessRU := last_or None bs\<rparr>)
      in p(last bs := (p (last bs))\<lparr>moreRU := Some cp\<rparr>))"

lemma jitcTouchClientPage_eq:
  assumes "lru_ok s (as @ cp # bs)"
  shows "jitcTouchClientPage cp s =
    (if bs = [] then Inr s
     else Inr (s\<lparr>page := touched as cp bs (page s), LRUpage := head_or (as @ bs) None, MRUpage := Some cp\<rparr>))"
proof (cases bs)
  case Nil
  then show ?thesis using assms by (simp add: lru_ok_def jitcTouchClientPage_def)
next
  case (Cons m bs')
  have at: "lessRU (page s cp) = last_or None as" "moreRU (page s cp) = Some m"
    using assms Cons by (simp_all add: lru_ok_def)
  have d: "cp \<noteq> m" "m \<notin> set as" "cp \<notin> set as" "cp \<notin> set bs" using assms Cons by (auto simp: lru_ok_def)
  have mru: "MRUpage s = Some (last bs)" using assms Cons by (auto simp: lru_ok_def last_or_def)
  have lb: "last bs \<in> set bs" "last bs \<noteq> cp" using Cons d(4) last_in_set[of bs] by auto
  show ?thesis
  proof (cases "as = []")
    case True
    then show ?thesis
      using at d mru lb Cons unfolding jitcTouchClientPage_def
      by (simp add: Let_def deref_def touched_def fun_eq_iff relink_def set_page_def last_or_def)
  next
    case False
    have la: "last as \<in> set as" using False by simp
    have "set as \<inter> set bs = {}" using assms by (simp add: lru_ok_def)
    then have "last as \<noteq> m" "last as \<noteq> cp" "last as \<noteq> last bs" using la d lb(1) by auto
    moreover have "LRUpage s = head_or as None" using assms False by (cases as) (simp_all add: lru_ok_def)
    ultimately show ?thesis
      using at d mru lb Cons False unfolding jitcTouchClientPage_def
      by (simp add: Let_def deref_def touched_def fun_eq_iff relink_def set_page_def last_or_def head_or_def split: list.splits)
  qed
qed

definition freed :: "nat list \<Rightarrow> nat \<Rightarrow> nat list \<Rightarrow> nat option \<Rightarrow> (nat \<Rightarrow> client_page) \<Rightarrow> nat \<Rightarrow> client_page" where
  "freed as cp bs fr pg = (relink as bs pg)(cp := (pg cp)\<lparr>moreRU := fr\<rparr>)"

lemma jitcFreeClientPage_eq:
  assumes "lru_ok s (as @ cp # bs)"
  shows "jitcFreeClientPage cp s =
    s\<lparr>page := freed as cp bs (freeClientPages s) (page s), LRUpage := head_or (as @ bs) None, MRUpage := last_or None (as @ bs),
      freeClientPages := Some cp\<rparr>"
proof -
  have at: "lessRU (page s cp) = last_or None as" "moreRU (page s cp) = head_or bs None" using assms by (simp_all add: lru_ok_def)
  have d: "cp \<notin> set as" "cp \<notin> set bs" "set as \<inter> set bs = {}" using assms by (simp_all add: lru_ok_def)
  have e: "LRUpage s = head_or as (Some cp)" "MRUpage s = last_or (Some cp) bs" using assms by (simp_all add: lru_ok_def)
  show ?thesis
  proof (cases "as = []"; cases bs)
    assume "as = []" "bs = []"
    then show ?thesis using at d unfolding jitcFreeClientPage_def by (simp add: Let_def freed_def fun_eq_iff relink_def set_page_def)
  next
    fix m bs' assume c: "as = []" "bs = m # bs'"
    then show ?thesis using at d e unfolding jitcFreeClientPage_def
      by (simp add: Let_def freed_def fun_eq_iff relink_def set_page_def)
  next
    assume c: "as \<noteq> []" "bs = []"
    have "last as \<noteq> cp" "head_or as (Some cp) = head_or as None" using c d last_in_set[of as] by (auto simp: head_or_def split: list.splits)
    then show ?thesis using at d e c unfolding jitcFreeClientPage_def
      by (simp add: Let_def freed_def fun_eq_iff relink_def set_page_def last_or_def)
  next
    fix m bs' assume c: "as \<noteq> []" "bs = m # bs'"
    have "last as \<noteq> cp" "last as \<noteq> m" "head_or as (Some cp) = head_or as (Some m)" "m \<noteq> cp"
      using c d last_in_set[of as] by (auto simp: head_or_def split: list.splits)
    then show ?thesis using at d e c unfolding jitcFreeClientPage_def
      by (simp add: Let_def freed_def fun_eq_iff relink_def set_page_def last_or_def)
  qed
qed

lemma head_or_nonempty: "xs \<noteq> [] \<Longrightarrow> head_or xs r = head_or xs r'"
  by (cases xs) simp_all

lemma lru_ok_freed:
  assumes "lru_ok s (as @ cp # bs)"
  shows "lru_ok (jitcFreeClientPage cp s) (as @ bs)"
proof -
  have "dll (relink as bs (page s)) None (as @ bs) None" using assms by (intro dll_relink[of _ as cp]) (simp_all add: lru_ok_def)
  moreover have "cp \<notin> set (as @ bs)" using assms by (simp add: lru_ok_def)
  ultimately have "dll (freed as cp bs (freeClientPages s) (page s)) None (as @ bs) None" by (simp only: freed_def dll_update not_False_eq_True)
  then show ?thesis using assms by (simp add: jitcFreeClientPage_eq[OF assms] lru_ok_def)
qed

lemma lru_ok_touched:
  assumes "lru_ok s (as @ cp # bs)" "jitcTouchClientPage cp s = Inr s'"
  shows "lru_ok s' (as @ bs @ [cp])"
proof (cases "bs = []")
  case True
  then show ?thesis using assms by (simp add: jitcTouchClientPage_eq[OF assms(1)])
next
  case False
  have d: "cp \<notin> set (as @ bs)" "distinct (as @ bs)" using assms(1) by (auto simp: lru_ok_def)
  have r: "dll (relink as bs (page s)) None (as @ bs) None" using assms(1) by (intro dll_relink[of _ as cp]) (simp_all add: lru_ok_def)
  have l: "last (as @ bs) = last bs" "last bs \<noteq> cp" using False d last_in_set[of bs] by auto
  have "dll (touched as cp bs (page s)) None ((as @ bs) @ [cp]) None"
  proof (rule dll_snoc[OF r d(2,1)])
    show "lessRU (touched as cp bs (page s) cp) = last_or None (as @ bs)" using False l by (simp add: touched_def Let_def last_or_def)
    show "moreRU (touched as cp bs (page s) cp) = None" using l by (simp add: touched_def Let_def)
    fix x assume "x \<in> set (as @ bs)"
    then have "x \<noteq> cp" using d by auto
    then show "lessRU (touched as cp bs (page s) x) = lessRU (relink as bs (page s) x) \<and>
        moreRU (touched as cp bs (page s) x) = (if x = last (as @ bs) then Some cp else moreRU (relink as bs (page s) x))"
      using l by (simp add: touched_def Let_def)
  qed
  moreover have "s' = s\<lparr>page := touched as cp bs (page s), LRUpage := head_or (as @ bs) None, MRUpage := Some cp\<rparr>"
    using assms(2) False by (simp add: jitcTouchClientPage_eq[OF assms(1)])
  moreover have "head_or (as @ bs) None = head_or ((as @ bs) @ [cp]) None" using False by (cases as; cases bs) simp_all
  moreover have "distinct ((as @ bs) @ [cp])" using d by simp
  ultimately show ?thesis by (simp add: lru_ok_def)
qed

lemma touched_fields [simp]:
  "entrypoints (touched as cp bs pg x) = entrypoints (pg x)" "tcf_current (touched as cp bs pg x) = tcf_current (pg x)"
  "baseaddress (touched as cp bs pg x) = baseaddress (pg x)" "bytesLeft (touched as cp bs pg x) = bytesLeft (pg x)"
  "tcp (touched as cp bs pg x) = tcp (pg x)"
  by (simp_all add: touched_def Let_def)

lemma freed_fields [simp]:
  "entrypoints (freed as cp bs fr pg x) = entrypoints (pg x)" "tcf_current (freed as cp bs fr pg x) = tcf_current (pg x)"
  "baseaddress (freed as cp bs fr pg x) = baseaddress (pg x)" "bytesLeft (freed as cp bs fr pg x) = bytesLeft (pg x)"
  "tcp (freed as cp bs fr pg x) = tcp (pg x)"
  by (simp_all add: freed_def)

lemma touched_other: "bs \<noteq> [] \<Longrightarrow> x \<notin> set (as @ cp # bs) \<Longrightarrow> touched as cp bs pg x = pg x"
  using last_in_set[of bs] by (auto simp: touched_def Let_def relink_other)

lemma freed_other: "x \<notin> set (as @ cp # bs) \<Longrightarrow> freed as cp bs fr pg x = pg x"
  by (simp add: freed_def relink_other)

subsection \<open>Touching\<close>

definition same_pages :: "jitc_state \<Rightarrow> jitc_state \<Rightarrow> bool" where
  "same_pages s s' \<longleftrightarrow>
     frag s' = frag s \<and> freeFragmentsList s' = freeFragmentsList s \<and> clientPages s' = clientPages s \<and> mem_pages s' = mem_pages s \<and>
     native s' = native s \<and> translationCache s' = translationCache s \<and> currentPage s' = currentPage s \<and>
     (\<forall>x. entrypoints (page s' x) = entrypoints (page s x) \<and> tcf_current (page s' x) = tcf_current (page s x) \<and>
          baseaddress (page s' x) = baseaddress (page s x) \<and> bytesLeft (page s' x) = bytesLeft (page s x) \<and> tcp (page s' x) = tcp (page s x))"

lemma same_pages_refl [simp]: "same_pages s s"
  by (simp add: same_pages_def)

lemma same_pages_frags: "same_pages s s' \<Longrightarrow> set xs' = set xs \<Longrightarrow> frags_ok np nf ls s' xs' own fs = frags_ok np nf ls s xs own fs"
  by (simp add: same_pages_def frags_ok_def)

lemma same_pages_map: "same_pages s s' \<Longrightarrow> set xs' = set xs \<Longrightarrow> map_ok s' xs' = map_ok s xs"
  by (simp add: same_pages_def map_ok_def)

lemma cache_ok_touch:
  assumes "cache_ok np nf ls s (as @ cp # bs) ys own fs"
  shows "\<exists>s'. jitcTouchClientPage cp s = Inr s' \<and> cache_ok np nf ls s' (as @ bs @ [cp]) ys own fs \<and> same_pages s s'"
proof -
  have l: "lru_ok s (as @ cp # bs)" using assms by (simp add: cache_ok_def)
  have "\<exists>s'. jitcTouchClientPage cp s = Inr s'" by (simp add: jitcTouchClientPage_eq[OF l])
  then obtain s' where t: "jitcTouchClientPage cp s = Inr s'" by blast
  have s': "s' = (if bs = [] then s else s\<lparr>page := touched as cp bs (page s), LRUpage := head_or (as @ bs) None, MRUpage := Some cp\<rparr>)"
    using t by (simp add: jitcTouchClientPage_eq[OF l] split: if_splits)
  have sp: "same_pages s s'" by (simp add: s' same_pages_def)
  have "pages_ok np s' (as @ bs @ [cp]) ys"
  proof -
    have p: "pages_ok np s (as @ cp # bs) ys" using assms by (simp add: cache_ok_def)
    have "x \<in> set ys \<Longrightarrow> x \<notin> set (as @ cp # bs)" for x using p by (auto simp: pages_ok_def)
    then have "x \<in> set ys \<Longrightarrow> page_next s' x = page_next s x" for x using touched_other[of bs x as cp "page s"] by (simp add: s')
    then have "chain (page_next s') (freeClientPages s') ys = chain (page_next s) (freeClientPages s) ys"
      by (subst chain_cong[where nx = "page_next s"]) (auto simp: s')
    then show ?thesis using p by (auto simp: pages_ok_def)
  qed
  moreover have "lru_ok s' (as @ bs @ [cp])" using lru_ok_touched[OF l t] .
  ultimately show ?thesis
    using assms t sp same_pages_frags[OF sp, of "as @ bs @ [cp]" "as @ cp # bs"] same_pages_map[OF sp, of "as @ bs @ [cp]" "as @ cp # bs"]
    by (auto simp: cache_ok_def)
qed

subsection \<open>Freeing and destroying\<close>

lemma cache_ok_free:
  assumes "cache_ok np nf ls s (as @ cp # bs) ys own fs" "own cp = []" "\<And>i. clientPages s i \<noteq> Some cp"
  shows "cache_ok np nf ls (jitcFreeClientPage cp s) (as @ bs) (cp # ys) own fs"
proof -
  have l: "lru_ok s (as @ cp # bs)" and p: "pages_ok np s (as @ cp # bs) ys" and f: "frags_ok np nf ls s (as @ cp # bs) own fs"
    and m: "map_ok s (as @ cp # bs)" using assms(1) by (simp_all add: cache_ok_def)
  let ?s = "jitcFreeClientPage cp s"
  note e = jitcFreeClientPage_eq[OF l]
  have d: "distinct (as @ cp # bs)" using l by (simp add: lru_ok_def)
  have "x \<in> set ys \<Longrightarrow> x \<notin> set (as @ cp # bs)" for x using p by (auto simp: pages_ok_def)
  then have nx: "x \<in> set ys \<Longrightarrow> page_next ?s x = page_next s x" for x
    using freed_other[of x as cp bs "freeClientPages s" "page s"] by (simp add: e)
  have "chain (page_next ?s) (freeClientPages s) ys" using p nx by (subst chain_cong[where nx = "page_next s"]) (auto simp: pages_ok_def)
  moreover have "freeClientPages ?s = Some cp" "page_next ?s cp = freeClientPages s" by (simp_all add: e freed_def)
  ultimately have "pages_ok np ?s (as @ bs) (cp # ys)" using p d by (auto simp: pages_ok_def)
  moreover have "frags_ok np nf ls ?s (as @ bs) own fs" using f assms(2) by (auto simp: frags_ok_def e)
  moreover have "map_ok ?s (as @ bs)" using m assms(3) by (auto simp: map_ok_def e)
  ultimately show ?thesis using lru_ok_freed[OF l] by (simp add: cache_ok_def)
qed

lemma frags_okI:
  assumes "chain (frag_next s) (freeFragmentsList s) fs" "\<And>c. c < np \<Longrightarrow> chain (frag_next s) (tcf_current (page s c)) (own c)"
    "\<And>c. c < np \<Longrightarrow> c \<notin> set xs \<Longrightarrow> own c = []" "mset fs + (\<Sum>cp<np. mset (own cp)) + ls = mset [0..<nf]"
  shows "frags_ok np nf ls s xs own fs"
  using assms by (simp add: frags_ok_def)

lemma frags_split:
  assumes "frags_ok np nf ls s xs own fs" "cp < np"
  shows "distinct (own cp)" "set (own cp) \<inter> set fs = {}" "distinct fs" "c < np \<Longrightarrow> c \<noteq> cp \<Longrightarrow> set (own cp) \<inter> set (own c) = {}"
    "set (own cp) \<union> set fs \<subseteq> {..<nf}" "t \<in># ls \<Longrightarrow> t \<notin> set fs \<and> t \<notin> set (own cp) \<and> t < nf"
proof -
  let ?R = "\<Sum>c\<in>{..<np} - {cp}. mset (own c)"
  obtain rs where rs: "?R = mset rs" by (metis ex_mset)
  obtain lss where lss: "ls = mset lss" by (metis ex_mset)
  have "(\<Sum>c<np. mset (own c)) = mset (own cp) + mset rs" using assms(2) rs by (simp add: sum.remove[of "{..<np}" cp])
  then have e: "mset (fs @ own cp @ rs @ lss) = mset [0..<nf]" using assms(1) lss by (simp add: frags_ok_def ac_simps)
  then have d: "distinct (fs @ own cp @ rs @ lss)" using mset_eq_imp_distinct_iff[OF e] by simp
  have st: "set (fs @ own cp @ rs @ lss) = {..<nf}" using mset_eq_setD[OF e] by (simp add: atLeast0LessThan)
  show "distinct (own cp)" "set (own cp) \<inter> set fs = {}" "distinct fs" using d by auto
  show "set (own cp) \<union> set fs \<subseteq> {..<nf}" using st by auto
  show "set (own cp) \<inter> set (own c) = {}" if "c < np" "c \<noteq> cp"
  proof -
    have "?R = mset (own c) + (\<Sum>x\<in>{..<np} - {cp} - {c}. mset (own x))" using that by (intro sum.remove) auto
    then have "set (own c) \<subseteq> set rs" using rs by (metis set_mset_mset set_mset_union sup_ge1)
    then show ?thesis using d by auto
  qed
  show "t \<notin> set fs \<and> t \<notin> set (own cp) \<and> t < nf" if "t \<in># ls"
  proof -
    have "t \<in> set lss" using that lss by simp
    then show ?thesis using d st by auto
  qed
qed

lemma sum_own_update:
  fixes np :: nat
  assumes "cp < np"
  shows "(\<Sum>c<np. mset ((own(cp := ts)) c)) + mset (own cp) = (\<Sum>c<np. mset (own c)) + mset ts"
proof -
  have "(\<Sum>c<np. mset ((own(cp := ts)) c)) = mset ts + (\<Sum>c\<in>{..<np} - {cp}. mset ((own(cp := ts)) c))"
    using assms by (subst sum.remove[of "{..<np}" cp]) auto
  also have "(\<Sum>c\<in>{..<np} - {cp}. mset ((own(cp := ts)) c)) = (\<Sum>c\<in>{..<np} - {cp}. mset (own c))" by (intro sum.cong) auto
  finally show ?thesis using assms by (simp add: sum.remove[of "{..<np}" cp "\<lambda>c. mset (own c)"])
qed

lemma cache_ok_lt: "cache_ok np nf ls s xs ys own fs \<Longrightarrow> cp \<in> set xs \<Longrightarrow> cp < np"
  by (auto simp: cache_ok_def pages_ok_def)

text \<open>Destroying the translations of a page.\<close>

lemma cache_ok_destroy:
  assumes "cache_ok np nf ls s xs ys own fs" "cp \<in> set xs"
  shows "\<exists>s'. jitcDestroyClientPage cp s = Inr s' \<and> cache_ok np nf ls s' xs ys (own(cp := [])) (rev (own cp) @ fs) \<and>
    (\<forall>i. clientPages s' i \<noteq> Some cp) \<and> tcf_current (page s' cp) = None \<and> entrypoints (page s' cp) = (\<lambda>_. 0) \<and>
    baseaddress (page s' cp) = baseaddress (page s cp) \<and> tcp (page s' cp) = tcp (page s cp) \<and> bytesLeft (page s' cp) = bytesLeft (page s cp) \<and>
    (\<forall>c. c \<noteq> cp \<longrightarrow> page s' c = page s c) \<and> (\<forall>t. tcf_base (frag s' t) = tcf_base (frag s t)) \<and>
    (\<forall>i. clientPages s' i = (if i = page_index (baseaddress (page s cp)) then None else clientPages s i)) \<and>
    (\<forall>t. t \<notin> set (own cp) \<longrightarrow> frag s' t = frag s t) \<and> native s' = native s \<and> translationCache s' = translationCache s \<and>
    currentPage s' = currentPage s \<and> mem_pages s' = mem_pages s"
proof -
  have l: "lru_ok s xs" and p: "pages_ok np s xs ys" and f: "frags_ok np nf ls s xs own fs" and m: "map_ok s xs"
    using assms(1) by (simp_all add: cache_ok_def)
  have cp: "cp < np" using cache_ok_lt[OF assms] .
  note sp = frags_split[OF f cp]
  have ch: "chain (frag_next s) (tcf_current (page s cp)) (own cp)" "chain (frag_next s) (freeFragmentsList s) fs"
    using f cp by (simp_all add: frags_ok_def)
  obtain s1 where s1: "jitcDestroyFragments (tcf_current (page s cp)) s = Some s1" "moved_chain (own cp) s s1"
    "chain (frag_next s1) (freeFragmentsList s1) (rev (own cp) @ fs)"
    using jitcDestroyFragments_chain[OF ch sp(1,2)] by blast
  have e1: "s1 = s\<lparr>frag := frag s1, freeFragmentsList := freeFragmentsList s1\<rparr>" using s1(2) unfolding moved_chain_def by (rule conjunct1)
  define s2 where "s2 = set_page cp (\<lambda>p. p\<lparr>entrypoints := (\<lambda>_. 0), tcf_current := None\<rparr>) s1"
  have eq1: "page s1 = page s" "clientPages s1 = clientPages s" "mem_pages s1 = mem_pages s" "LRUpage s1 = LRUpage s" "MRUpage s1 = MRUpage s"
    "freeClientPages s1 = freeClientPages s" "native s1 = native s" "translationCache s1 = translationCache s" "currentPage s1 = currentPage s"
    by (subst e1, simp)+
  have b: "page_index (baseaddress (page s cp)) < mem_pages s" using m assms(2) by (simp add: map_ok_def)
  define s' where "s' = s2\<lparr>clientPages := (clientPages s2)(page_index (baseaddress (page s cp)) := None)\<rparr>"
  have r: "jitcDestroyClientPage cp s = Inr s'"
    using b by (simp add: jitcDestroyClientPage_def s1(1) jitcUnmapClientPage_def set_client_page_def s'_def eq1 flip: s2_def) (simp add: s2_def eq1)
  have pg: "page s' = (page s)(cp := (page s cp)\<lparr>entrypoints := (\<lambda>_. 0), tcf_current := None\<rparr>)"
    by (simp add: s'_def s2_def eq1)
  have "lru_ok s' xs"
  proof -
    have "dll (page s') None xs None = dll (page s) None xs None" by (rule dll_cong) (simp add: pg)
    then show ?thesis using l by (simp add: lru_ok_def s'_def s2_def eq1)
  qed
  moreover have "pages_ok np s' xs ys"
  proof -
    have "page_next s' = page_next s" by (auto simp: pg)
    then show ?thesis using p by (simp add: pages_ok_def s'_def s2_def eq1)
  qed
  moreover have "frags_ok np nf ls s' xs (own(cp := [])) (rev (own cp) @ fs)"
  proof -
    have fr: "frag s' = frag s1" by (simp add: s'_def s2_def)
    have un: "t \<notin> set (own cp) \<Longrightarrow> frag_next s1 t = frag_next s t" for t using s1(2) by (simp add: moved_chain_def)
    have "chain (frag_next s') (tcf_current (page s' c)) ((own(cp := [])) c)" if c: "c < np" for c
    proof (cases "c = cp")
      case False
      have "chain (frag_next s1) (tcf_current (page s c)) (own c) = chain (frag_next s) (tcf_current (page s c)) (own c)"
        by (rule chain_cong) (use sp(4)[OF c False] un in blast)
      then show ?thesis using f c False by (simp add: fr pg frags_ok_def)
    qed (simp add: pg)
    moreover
    have E: "mset (rev (own cp) @ fs) + (\<Sum>c<np. mset ((own(cp := [])) c)) = mset fs + (\<Sum>c<np. mset (own c))"
      using sum_own_update[OF cp, of own "[]"] by (simp add: ac_simps)
    then have "mset (rev (own cp) @ fs) + (\<Sum>c<np. mset ((own(cp := [])) c)) + ls = mset [0..<nf]"
      using f unfolding E frags_ok_def by blast
    moreover have "freeFragmentsList s' = freeFragmentsList s1" by (simp add: s'_def s2_def)
    moreover have "c < np \<Longrightarrow> c \<notin> set xs \<Longrightarrow> (own(cp := [])) c = []" for c using f by (simp add: frags_ok_def)
    ultimately show ?thesis using s1(3) by (intro frags_okI) (simp_all only: fr)
  qed
  moreover have "map_ok s' xs" using m by (auto simp: map_ok_def s'_def s2_def eq1 split: if_splits)
  moreover have "clientPages s' i \<noteq> Some cp" for i using m by (auto simp: map_ok_def s'_def s2_def eq1)
  ultimately show ?thesis
    using r s1(2) by (auto simp: cache_ok_def pg moved_chain_def) (simp_all add: s'_def s2_def eq1)
qed

subsection \<open>Taking fragments\<close>

lemma cache_ok_get:
  assumes "cache_ok np nf {#} s xs ys own (t # fs)"
  shows "\<exists>s'. jitcGetFragment s = Inr (t, s') \<and> cache_ok np nf {#t#} s' xs ys own fs \<and> tcf_prev (frag s' t) = None \<and>
    page s' = page s \<and> clientPages s' = clientPages s \<and> (\<forall>u. u \<noteq> t \<longrightarrow> frag s' u = frag s u) \<and>
    (\<forall>u. tcf_base (frag s' u) = tcf_base (frag s u)) \<and> native s' = native s \<and> translationCache s' = translationCache s \<and>
    currentPage s' = currentPage s \<and> mem_pages s' = mem_pages s \<and> t < nf"
proof -
  have f: "frags_ok np nf {#} s xs own (t # fs)" using assms by (simp add: cache_ok_def)
  have ch: "freeFragmentsList s = Some t" "chain (frag_next s) (frag_next s t) fs" using f by (simp_all add: frags_ok_def)
  define s' where "s' = set_frag t (\<lambda>f. f\<lparr>tcf_prev := None\<rparr>) (s\<lparr>freeFragmentsList := frag_next s t\<rparr>)"
  have r: "jitcGetFragment s = Inr (t, s')" using ch(1) by (simp add: jitcGetFragment_def deref_def Let_def s'_def)
  have S: "mset (t # fs) + (\<Sum>c<np. mset (own c)) = mset [0..<nf]" using f unfolding frags_ok_def by simp
  have "t \<in># mset [0..<nf]" unfolding S [symmetric] by simp
  then have tn: "t < nf" by simp
  have nx: "frag_next s' = (frag_next s)(t := None)" by (auto simp: s'_def set_frag_def)
  have "t \<notin> set fs \<and> (\<forall>c<np. t \<notin> set (own c))"
  proof -
    have "distinct (t # fs)"
    proof -
      obtain rs where "(\<Sum>c<np. mset (own c)) = mset rs" by (metis ex_mset)
      then have "mset ((t # fs) @ rs) = mset [0..<nf]" using S by simp
      then show ?thesis using mset_eq_imp_distinct_iff[of "(t # fs) @ rs" "[0..<nf]"] by simp
    qed
    moreover have "t \<notin> set (own c)" if "c < np" for c using frags_split(2)[OF f that] by auto
    ultimately show ?thesis by auto
  qed
  then have "frags_ok np nf {#t#} s' xs own fs"
    using f ch(2) S unfolding frags_ok_def nx by (simp add: s'_def set_frag_def ac_simps)
  moreover have "lru_ok s' xs" "pages_ok np s' xs ys" "map_ok s' xs"
    using assms by (simp_all add: cache_ok_def lru_ok_def pages_ok_def map_ok_def s'_def set_frag_def)
  ultimately show ?thesis using r tn by (auto simp: cache_ok_def s'_def set_frag_def)
qed

text \<open>Taking a fragment fails exactly when none is free and the least recently used page has none either.\<close>

lemma alloc_fails:
  assumes "cache_ok np nf {#} s xs ys own fs"
  shows "(fs = [] \<and> (xs = [] \<or> own (hd xs) = []) \<longrightarrow> jitcAllocFragment s = Inl Jit_Null) \<and>
    (\<not> (fs = [] \<and> (xs = [] \<or> own (hd xs) = [])) \<longrightarrow>
      (\<exists>t s' xs' ys' own' fs'. jitcAllocFragment s = Inr (t, s') \<and> cache_ok np nf {#t#} s' xs' ys' own' fs' \<and> tcf_prev (frag s' t) = None \<and>
         (fs \<noteq> [] \<longrightarrow> xs' = xs \<and> own' = own) \<and> (fs = [] \<longrightarrow> xs' = tl xs \<and> own' = own(hd xs := [])) \<and>
         (\<forall>c. (fs = [] \<longrightarrow> c \<noteq> hd xs) \<longrightarrow> tcf_current (page s' c) = tcf_current (page s c) \<and> entrypoints (page s' c) = entrypoints (page s c) \<and>
            baseaddress (page s' c) = baseaddress (page s c) \<and> tcp (page s' c) = tcp (page s c) \<and> bytesLeft (page s' c) = bytesLeft (page s c)) \<and>
         (\<forall>u. tcf_base (frag s' u) = tcf_base (frag s u)) \<and> native s' = native s \<and> translationCache s' = translationCache s \<and>
         currentPage s' = currentPage s \<and> mem_pages s' = mem_pages s \<and> t < nf))"
proof (cases fs)
  case (Cons t fs')
  then obtain s' where s': "jitcGetFragment s = Inr (t, s')" "cache_ok np nf {#t#} s' xs ys own fs'" "frag_next s' t = None" "page s' = page s"
    "\<forall>u. tcf_base (frag s' u) = tcf_base (frag s u)" "native s' = native s" "translationCache s' = translationCache s"
    "currentPage s' = currentPage s" "mem_pages s' = mem_pages s" "t < nf"
    using cache_ok_get[of np nf s xs ys own t fs'] assms by blast
  have "freeFragmentsList s = Some t" using assms Cons by (simp add: cache_ok_def frags_ok_def)
  then have a: "jitcAllocFragment s = Inr (t, s')" using s'(1) by (simp add: jitcAllocFragment_def)
  show ?thesis
    by (rule conjI, simp add: Cons, rule impI, intro exI[of _ t] exI[of _ s'] exI[of _ xs] exI[of _ ys] exI[of _ own] exI[of _ fs'])
      (use a s' Cons in simp)
next
  case Nil
  have ff: "freeFragmentsList s = None" using assms Nil by (simp add: cache_ok_def frags_ok_def)
  have lru: "LRUpage s = head_or xs None" using assms by (simp add: cache_ok_def lru_ok_def)
  show ?thesis
  proof (cases xs)
    case Nil': Nil
    then show ?thesis using ff lru Nil by (simp add: jitcAllocFragment_def Let_def deref_def)
  next
    case xs: (Cons cp bs)
    define s0 where "s0 = s\<lparr>destroy_write := destroy_write s - 1, destroy_ootc := destroy_ootc s + 1\<rparr>\<lparr>destroy_write := destroy_write s - 1 + 1\<rparr>"
    have c0: "cache_ok np nf {#} s0 xs ys own fs"
      using assms by (simp add: s0_def cache_ok_def lru_ok_def pages_ok_def frags_ok_def map_ok_def)
    obtain s1 where s1: "jitcDestroyClientPage cp s0 = Inr s1" "cache_ok np nf {#} s1 xs ys (own(cp := [])) (rev (own cp) @ fs)"
      "\<forall>i. clientPages s1 i \<noteq> Some cp" "\<forall>c. c \<noteq> cp \<longrightarrow> page s1 c = page s0 c" "\<forall>t. tcf_base (frag s1 t) = tcf_base (frag s0 t)"
      "native s1 = native s0" "translationCache s1 = translationCache s0" "currentPage s1 = currentPage s0" "mem_pages s1 = mem_pages s0"
      using cache_ok_destroy[OF c0, of cp] xs by auto
    have al: "jitcAllocFragment s = jitcGetFragment (jitcFreeClientPage cp s1)"
      using ff lru xs s1(1) by (simp add: jitcAllocFragment_def Let_def deref_def jitcDestroyAndFreeClientPage_def s0_def)
    have c2: "cache_ok np nf {#} (jitcFreeClientPage cp s1) bs (cp # ys) (own(cp := [])) (rev (own cp))"
      using cache_ok_free[of np nf "{#}" s1 "[]" cp bs ys "own(cp := [])" "rev (own cp) @ fs"] s1(2,3) xs Nil by simp
    have l1: "lru_ok s1 ([] @ cp # bs)" using s1(2) xs by (simp add: cache_ok_def)
    note fe = jitcFreeClientPage_eq[OF l1]
    show ?thesis
    proof (cases "own cp = []")
      case True
      then have "freeFragmentsList (jitcFreeClientPage cp s1) = None" using c2 by (simp add: cache_ok_def frags_ok_def)
      then show ?thesis using al xs Nil True by (simp add: jitcGetFragment_def deref_def)
    next
      case False
      then obtain t fs' where rv: "rev (own cp) = t # fs'" by (cases "rev (own cp)") auto
      obtain s' where s': "jitcGetFragment (jitcFreeClientPage cp s1) = Inr (t, s')" "cache_ok np nf {#t#} s' bs (cp # ys) (own(cp := [])) fs'"
        "frag_next s' t = None" "page s' = page (jitcFreeClientPage cp s1)"
        "\<forall>u. tcf_base (frag s' u) = tcf_base (frag (jitcFreeClientPage cp s1) u)" "native s' = native (jitcFreeClientPage cp s1)"
        "translationCache s' = translationCache (jitcFreeClientPage cp s1)" "currentPage s' = currentPage (jitcFreeClientPage cp s1)"
        "mem_pages s' = mem_pages (jitcFreeClientPage cp s1)" "t < nf"
        using cache_ok_get[of np nf "jitcFreeClientPage cp s1" bs "cp # ys" "own(cp := [])" t fs'] c2 rv by auto
      show ?thesis
        by (rule conjI, simp add: xs False Nil, rule impI,
            intro exI[of _ t] exI[of _ s'] exI[of _ bs] exI[of _ "cp # ys"] exI[of _ "own(cp := [])"] exI[of _ fs'])
          (use al s' s1 xs Nil in \<open>simp add: fe s0_def\<close>)
    qed
  qed
qed

subsection \<open>Creating a page\<close>

text \<open>What destroying pages may change: fragments become free, pages lose their translations and their place in the table.\<close>

definition only_destroyed :: "jitc_state \<Rightarrow> jitc_state \<Rightarrow> bool" where
  "only_destroyed s s' \<longleftrightarrow>
     (\<forall>i. clientPages s' i = None \<or> clientPages s' i = clientPages s i) \<and> mem_pages s' = mem_pages s \<and> native s' = native s \<and>
     translationCache s' = translationCache s \<and> currentPage s' = currentPage s \<and> (\<forall>t. tcf_base (frag s' t) = tcf_base (frag s t)) \<and>
     (\<forall>c. tcf_current (page s' c) = None \<and> entrypoints (page s' c) = (\<lambda>_. 0) \<or>
        tcf_current (page s' c) = tcf_current (page s c) \<and> entrypoints (page s' c) = entrypoints (page s c)) \<and>
     (\<forall>c. baseaddress (page s' c) = baseaddress (page s c) \<and> tcp (page s' c) = tcp (page s c) \<and> bytesLeft (page s' c) = bytesLeft (page s c))"

lemma only_destroyed_refl [simp]: "only_destroyed s s"
  by (simp add: only_destroyed_def)

lemma only_destroyed_trans: "only_destroyed s s1 \<Longrightarrow> only_destroyed s1 s2 \<Longrightarrow> only_destroyed s s2"
  unfolding only_destroyed_def by (intro conjI allI; metis)

lemma cache_ok_recycle:
  assumes "cache_ok np nf ls s (cp # bs) ys own fs"
  shows "\<exists>s'. jitcDestroyAndTouchClientPage cp s = Inr s' \<and> cache_ok np nf ls s' (bs @ [cp]) ys (own(cp := [])) (rev (own cp) @ fs) \<and>
    only_destroyed s s' \<and> (\<forall>i. clientPages s' i \<noteq> Some cp) \<and> tcf_current (page s' cp) = None"
proof -
  define s0 where "s0 = s\<lparr>destroy_oopages := destroy_oopages s + 1\<rparr>"
  have c0: "cache_ok np nf ls s0 (cp # bs) ys own fs"
    using assms by (simp add: s0_def cache_ok_def lru_ok_def pages_ok_def frags_ok_def map_ok_def)
  obtain s1 where s1: "jitcDestroyClientPage cp s0 = Inr s1" "cache_ok np nf ls s1 (cp # bs) ys (own(cp := [])) (rev (own cp) @ fs)"
      "\<forall>i. clientPages s1 i \<noteq> Some cp" "tcf_current (page s1 cp) = None" "entrypoints (page s1 cp) = (\<lambda>_. 0)"
      "baseaddress (page s1 cp) = baseaddress (page s0 cp)" "tcp (page s1 cp) = tcp (page s0 cp)" "bytesLeft (page s1 cp) = bytesLeft (page s0 cp)"
      "\<forall>c. c \<noteq> cp \<longrightarrow> page s1 c = page s0 c" "\<forall>t. tcf_base (frag s1 t) = tcf_base (frag s0 t)"
      "\<forall>i. clientPages s1 i = (if i = page_index (baseaddress (page s0 cp)) then None else clientPages s0 i)"
      "native s1 = native s0" "translationCache s1 = translationCache s0" "currentPage s1 = currentPage s0" "mem_pages s1 = mem_pages s0"
    using cache_ok_destroy[OF c0, of cp] by auto
  obtain s2 where s2: "jitcTouchClientPage cp s1 = Inr s2" "cache_ok np nf ls s2 (bs @ [cp]) ys (own(cp := [])) (rev (own cp) @ fs)"
    "same_pages s1 s2"
    using cache_ok_touch[of np nf ls s1 "[]" cp bs ys "own(cp := [])" "rev (own cp) @ fs"] s1(2) by (auto simp del: fun_upd_apply)
  have "only_destroyed s s1"
    unfolding only_destroyed_def using s1(4-) by (intro conjI allI) (auto simp: s0_def, metis+)
  moreover have "only_destroyed s1 s2" using s2(3) by (simp add: only_destroyed_def same_pages_def)
  ultimately have "only_destroyed s s2" by (rule only_destroyed_trans)
  moreover have "jitcDestroyAndTouchClientPage cp s = Inr s2" using s1(1) s2(1) by (simp add: jitcDestroyAndTouchClientPage_def s0_def)
  moreover have "\<forall>i. clientPages s2 i \<noteq> Some cp" "tcf_current (page s2 cp) = None" using s1(3,4) s2(3) by (simp_all add: same_pages_def)
  ultimately show ?thesis using s2(2) by blast
qed

lemma cache_ok_destroy_lru:
  assumes "cache_ok np nf ls s xs ys own fs"
  shows "\<exists>s' xs' own' fs'. destroy_lru s = Inr s' \<and> cache_ok np nf ls s' xs' ys own' fs' \<and> set xs' = set xs \<and> only_destroyed s s' \<and>
    (\<forall>c. own c = [] \<longrightarrow> own' c = [])"
proof (cases xs)
  case Nil
  then have "destroy_lru s = Inr s" using assms by (simp add: cache_ok_def lru_ok_def destroy_lru_def)
  then show ?thesis using assms by (intro exI[of _ s] exI[of _ xs] exI[of _ own] exI[of _ fs]) simp
next
  case (Cons cp bs)
  then have l: "LRUpage s = Some cp" using assms by (simp add: cache_ok_def lru_ok_def)
  obtain s' where "jitcDestroyAndTouchClientPage cp s = Inr s'" "cache_ok np nf ls s' (bs @ [cp]) ys (own(cp := [])) (rev (own cp) @ fs)"
    "only_destroyed s s'"
    using cache_ok_recycle assms Cons by blast
  then show ?thesis using l Cons
    by (intro exI[of _ s'] exI[of _ "bs @ [cp]"] exI[of _ "own(cp := [])"] exI[of _ "rev (own cp) @ fs"]) (auto simp: destroy_lru_def)
qed

lemma cache_ok_map:
  assumes "lru_ok s xs" "pages_ok np s xs ys" "frags_ok np nf ls s xs own fs" "cp \<in> set xs" "page_index baseaddr < mem_pages s"
    and "\<And>i c. clientPages s i = Some c \<Longrightarrow> i < mem_pages s \<and> c \<in> set xs \<and> c \<noteq> cp \<and> page_index (baseaddress (page s c)) = i"
    and "\<And>c. c \<in> set xs \<Longrightarrow> c \<noteq> cp \<Longrightarrow> page_index (baseaddress (page s c)) < mem_pages s"
  shows "\<exists>s'. jitcMapClientPage baseaddr cp s = Inr s' \<and> cache_ok np nf ls s' xs ys own fs \<and> clientPages s' (page_index baseaddr) = Some cp \<and>
    baseaddress (page s' cp) = baseaddr \<and> tcf_current (page s' cp) = tcf_current (page s cp)"
proof -
  define s' where "s' = set_page cp (\<lambda>p. p\<lparr>baseaddress := baseaddr\<rparr>) (s\<lparr>clientPages := (clientPages s)(page_index baseaddr := Some cp)\<rparr>)"
  have r: "jitcMapClientPage baseaddr cp s = Inr s'" using assms(5) by (simp add: jitcMapClientPage_def set_client_page_def s'_def)
  have pg: "page s' = (page s)(cp := (page s cp)\<lparr>baseaddress := baseaddr\<rparr>)" by (simp add: s'_def)
  have "dll (page s') None xs None = dll (page s) None xs None" by (rule dll_cong) (simp add: pg)
  then have "lru_ok s' xs" using assms(1) by (simp add: lru_ok_def s'_def)
  moreover have "page_next s' = page_next s" by (auto simp: pg)
  then have "pages_ok np s' xs ys" using assms(2) by (simp add: pages_ok_def s'_def)
  moreover have "frags_ok np nf ls s' xs own fs"
  proof -
    have "tcf_current (page s' c) = tcf_current (page s c)" for c by (simp add: pg)
    then show ?thesis using assms(3) by (simp add: frags_ok_def) (simp add: s'_def)
  qed
  moreover have "map_ok s' xs"
    unfolding map_ok_def using assms(4,5) assms(6) assms(7) by (auto simp: s'_def split: if_splits)
  ultimately show ?thesis using r by (auto simp: cache_ok_def s'_def)
qed

text \<open>The first part of the branch with a free page: the page moves from the free list to the end of the list of used pages.\<close>

lemma lru_ok_append:
  assumes l: "lru_ok s xs" and n: "cp \<notin> set xs"
    and s1: "s1 = (case MRUpage s of
       Some mru \<Rightarrow> (set_page cp (\<lambda>p. p\<lparr>lessRU := Some mru\<rparr>) (set_page mru (\<lambda>p. p\<lparr>moreRU := Some cp\<rparr>) s))\<lparr>MRUpage := Some cp\<rparr>
     | None \<Rightarrow> (set_page cp (\<lambda>p. p\<lparr>lessRU := None\<rparr>) s)\<lparr>LRUpage := Some cp, MRUpage := Some cp\<rparr>)"
    and s2: "s2 = set_page cp (\<lambda>p. p\<lparr>moreRU := None\<rparr>) s1"
  shows "lru_ok s2 (xs @ [cp])" "\<And>c. c \<notin> set xs \<Longrightarrow> c \<noteq> cp \<Longrightarrow> page s2 c = page s c"
    "\<And>c. entrypoints (page s2 c) = entrypoints (page s c) \<and> tcf_current (page s2 c) = tcf_current (page s c) \<and>
          baseaddress (page s2 c) = baseaddress (page s c) \<and> bytesLeft (page s2 c) = bytesLeft (page s c) \<and> tcp (page s2 c) = tcp (page s c)"
    "freeClientPages s2 = freeClientPages s" "clientPages s2 = clientPages s" "mem_pages s2 = mem_pages s" "frag s2 = frag s"
    "freeFragmentsList s2 = freeFragmentsList s"
proof -
  have mru: "MRUpage s = last_or None xs" "LRUpage s = head_or xs None" "distinct xs" "dll (page s) None xs None" using l by (simp_all add: lru_ok_def)
  have c: "(xs = [] \<longrightarrow> s2 = (set_page cp (\<lambda>p. p\<lparr>lessRU := None, moreRU := None\<rparr>) s)\<lparr>LRUpage := Some cp, MRUpage := Some cp\<rparr>) \<and>
    (xs \<noteq> [] \<longrightarrow> s2 = (set_page cp (\<lambda>p. p\<lparr>lessRU := Some (last xs), moreRU := None\<rparr>) (set_page (last xs) (\<lambda>p. p\<lparr>moreRU := Some cp\<rparr>) s))\<lparr>MRUpage := Some cp\<rparr>)"
    using n last_in_set[of xs] by (auto simp: s1 s2 mru(1) last_or_def set_page_def)
  have "dll (page s2) None (xs @ [cp]) None"
    using c n last_in_set[of xs] by (intro dll_snoc[OF mru(4,3) n]) (auto simp: last_or_def)
  then show "lru_ok s2 (xs @ [cp])" using c n mru by (cases xs) (auto simp: lru_ok_def)
  show "\<And>c. c \<notin> set xs \<Longrightarrow> c \<noteq> cp \<Longrightarrow> page s2 c = page s c" using c last_in_set[of xs] by (cases "xs = []") auto
  show "\<And>c. entrypoints (page s2 c) = entrypoints (page s c) \<and> tcf_current (page s2 c) = tcf_current (page s c) \<and>
          baseaddress (page s2 c) = baseaddress (page s c) \<and> bytesLeft (page s2 c) = bytesLeft (page s c) \<and> tcp (page s2 c) = tcp (page s c)"
    "freeClientPages s2 = freeClientPages s" "clientPages s2 = clientPages s" "mem_pages s2 = mem_pages s" "frag s2 = frag s"
    "freeFragmentsList s2 = freeFragmentsList s"
    using c by (cases "xs = []"; simp)+
qed

end
