(* ===== verification/A64_Imm.thy ===== *)
theory A64_Imm
  imports A64_Asm
begin

text \<open>
  src/cpu/cpu_jitc_aarch64/aarch64asm.h: the encoders of logical immediates, constants that a logical instruction of the host
  can hold.  Such a constant repeats an element of 2, 4, 8, 16, 32 (or 64) bits, and the element is a run of ones, rotated.
  \<open>log_imm32\<close> and \<open>log_imm64\<close> are the constants that an encoding stands for.
\<close>

unbundle bit_operations_syntax

subsection \<open>The encoders\<close>

text \<open>\<open>__builtin_ctz\<close>, the number of zeros below the lowest one.\<close>

definition ctz :: "'a::len word \<Rightarrow> nat" where
  "ctz w = length (takeWhile (\<lambda>i. \<not> bit w i) [0..<LENGTH('a)])"

definition log_imm_mask :: "nat \<Rightarrow> uint32" where
  "log_imm_mask sz = (if sz = 32 then 0xffffffff else shl32 1 sz - 1)"

definition log_imm_repeats :: "nat \<Rightarrow> uint32 \<Rightarrow> uint32 \<Rightarrow> bool" where
  "log_imm_repeats sz elem val = list_all (\<lambda>k. drop_bit (k * sz) val AND log_imm_mask sz = elem) [1..<32 div sz]"

definition log_imm_size_enc :: "nat \<Rightarrow> nat" where
  "log_imm_size_enc sz =
     (if sz = 32 then 0 else if sz = 16 then 0x20 else if sz = 8 then 0x30 else if sz = 4 then 0x38 else 0x3c)"

text \<open>One round of the loop over the sizes.\<close>

definition log_imm_at :: "nat \<Rightarrow> uint32 \<Rightarrow> (nat \<times> nat) option" where
  "log_imm_at sz val =
     (let m = log_imm_mask sz;
          elem = val AND m
      in if \<not> log_imm_repeats sz elem val then None
         else if elem = 0 \<or> elem = m then None
         else let doubled = push_bit sz (ucast elem :: uint64) OR ucast elem;
                  lo = ctz elem;
                  rotated = ucast (drop_bit lo doubled) AND m;
                  ones = ctz (NOT rotated)
              in if rotated \<noteq> shl32 1 ones - 1 then None
                 else Some ((sz - lo) mod sz, log_imm_size_enc sz OR (ones - 1)))"

primrec log_imm_loop :: "uint32 \<Rightarrow> nat list \<Rightarrow> (nat \<times> nat) option" where
  "log_imm_loop val [] = None"
| "log_imm_loop val (sz # szs) = (case log_imm_at sz val of Some e \<Rightarrow> Some e | None \<Rightarrow> log_imm_loop val szs)"

definition a64_encode_log_imm32 :: "uint32 \<Rightarrow> (nat \<times> nat) option" where
  "a64_encode_log_imm32 val = (if val = 0 \<or> val = 0xffffffff then None else log_imm_loop val [32, 16, 8, 4, 2])"

text \<open>A 64-bit shift by 64, for a constant whose lowest bit is set, is undefined in C++; the hosts shift by 0.\<close>

definition a64_encode_log_imm64 :: "uint64 \<Rightarrow> (nat \<times> nat \<times> nat) option" where
  "a64_encode_log_imm64 val =
     (if val = 0 \<or> val = 0xffffffffffffffff then None
      else let lo = ucast val :: uint32;
               hi = ucast (drop_bit 32 val) :: uint32
           in case (if lo = hi then a64_encode_log_imm32 lo else None) of
                Some (immr, imms) \<Rightarrow> Some (0, immr, imms)
              | None \<Rightarrow>
                  (let lo_bit = ctz val;
                       rotated = drop_bit lo_bit val OR push_bit ((64 - lo_bit) mod 64) val;
                       ones = ctz (NOT rotated);
                       expected = (if ones = 64 then NOT 0 else push_bit ones 1 - 1)
                   in if rotated \<noteq> expected then None
                      else Some (1, (64 - lo_bit) mod 64, ones - 1)))"

text \<open>The sizes of the sequences that load a constant, which the generator uses to compute the offsets of branches.\<close>

definition a64_movw_size :: "uint32 \<Rightarrow> nat" where
  "a64_movw_size imm =
     (let lo = ucast (imm AND 0xffff) :: uint16;
          hi = ucast (drop_bit 16 imm AND 0xffff) :: uint16
      in if hi = 0xffff \<and> lo \<noteq> 0xffff then 4
         else if lo = 0xffff \<and> hi \<noteq> 0xffff \<and> hi \<noteq> 0 then 4
         else if lo = 0 \<and> hi \<noteq> 0 then 4
         else if hi \<noteq> 0 then 8 else 4)"

definition a64_mov64_size :: "uint64 \<Rightarrow> nat" where
  "a64_mov64_size imm =
     4 + (if drop_bit 16 imm \<noteq> 0 then 4 else 0) + (if drop_bit 32 imm \<noteq> 0 then 4 else 0) + (if drop_bit 48 imm \<noteq> 0 then 4 else 0)"

definition a64_bl_size :: "uint64 \<Rightarrow> nat" where "a64_bl_size addr = a64_mov64_size addr + 4"

subsection \<open>What an encoding stands for\<close>

definition log_imm_size :: "nat \<Rightarrow> nat" where
  "log_imm_size imms = (if imms < 0x20 then 32 else if imms < 0x30 then 16 else if imms < 0x38 then 8 else if imms < 0x3c then 4 else 2)"

text \<open>Bit \<open>i\<close> is set when it lies in the run of \<open>imms + 1\<close> ones that has been rotated right by \<open>immr\<close>.\<close>

definition log_imm_bit :: "nat \<Rightarrow> nat \<Rightarrow> nat \<Rightarrow> nat \<Rightarrow> bool" where
  "log_imm_bit sz immr imms i \<longleftrightarrow> (i + immr) mod sz \<le> imms mod sz"

definition log_imm32 :: "nat \<Rightarrow> nat \<Rightarrow> uint32" where
  "log_imm32 immr imms = horner_sum of_bool 2 (map (log_imm_bit (log_imm_size imms) immr imms) [0..<32])"

definition log_imm64 :: "nat \<Rightarrow> nat \<Rightarrow> nat \<Rightarrow> uint64" where
  "log_imm64 N immr imms =
     horner_sum of_bool 2 (map (log_imm_bit (if N = 1 then 64 else log_imm_size imms) immr imms) [0..<64])"

lemma bit_log_imm32: "i < 32 \<Longrightarrow> bit (log_imm32 immr imms) i \<longleftrightarrow> log_imm_bit (log_imm_size imms) immr imms i"
  by (simp add: log_imm32_def bit_horner_sum_bit_iff)

lemma bit_log_imm64:
  "i < 64 \<Longrightarrow> bit (log_imm64 N immr imms) i \<longleftrightarrow> log_imm_bit (if N = 1 then 64 else log_imm_size imms) immr imms i"
  by (simp add: log_imm64_def bit_horner_sum_bit_iff)

subsection \<open>Trailing zeros\<close>

lemma ctz_less: "w \<noteq> 0 \<Longrightarrow> ctz w < LENGTH('a)" for w :: "'a::len word"
proof -
  assume "w \<noteq> 0"
  then obtain i where i: "i < LENGTH('a)" "bit w i" by (metis bit_imp_le_length bit_eqI bit_0_eq bot_apply bot_bool_def)
  have "\<not> (\<forall>x \<in> set [0..<LENGTH('a)]. \<not> bit w x)" using i by auto
  then have "length (takeWhile (\<lambda>i. \<not> bit w i) [0..<LENGTH('a)]) < length [0..<LENGTH('a)]"
    by (metis length_takeWhile_le order_le_imp_less_or_eq takeWhile_eq_all_conv takeWhile_eq_take take_all order_refl)
  then show ?thesis by (simp add: ctz_def)
qed

lemma bit_below_ctz: "i < ctz w \<Longrightarrow> \<not> bit w i" for w :: "'a::len word"
proof -
  assume i: "i < ctz w"
  then have "takeWhile (\<lambda>i. \<not> bit w i) [0..<LENGTH('a)] ! i \<in> set (takeWhile (\<lambda>i. \<not> bit w i) [0..<LENGTH('a)])"
    by (simp add: ctz_def)
  moreover have "takeWhile (\<lambda>i. \<not> bit w i) [0..<LENGTH('a)] ! i = i"
    using i length_takeWhile_le[of "\<lambda>i. \<not> bit w i" "[0..<LENGTH('a)]"] by (simp add: ctz_def takeWhile_nth)
  ultimately show ?thesis by (metis set_takeWhileD)
qed

lemma bit_at_ctz: "w \<noteq> 0 \<Longrightarrow> bit w (ctz w)" for w :: "'a::len word"
  using ctz_less[of w] nth_length_takeWhile[of "\<lambda>i. \<not> bit w i" "[0..<LENGTH('a)]"] by (simp add: ctz_def)

subsection \<open>One size\<close>

abbreviation log_imm_sizes :: "nat set" where "log_imm_sizes \<equiv> {2, 4, 8, 16, 32}"

text \<open>The constant repeats an element of \<open>sz\<close> bits with ones from \<open>lo\<close> on, all of them inside the element.\<close>

definition run_of :: "nat \<Rightarrow> nat \<Rightarrow> nat \<Rightarrow> uint32 \<Rightarrow> bool" where
  "run_of sz lo ones val \<longleftrightarrow> 0 < ones \<and> ones < sz \<and> lo + ones \<le> sz \<and>
     (\<forall>i<32. bit val i \<longleftrightarrow> lo \<le> i mod sz \<and> i mod sz < lo + ones)"

lemma shl_minus_1: "n < 32 \<Longrightarrow> shl32 1 n - 1 = mask n"
  by (simp add: mask_eq_exp_minus_1)

lemma bit_log_imm_mask: "sz \<in> log_imm_sizes \<Longrightarrow> bit (log_imm_mask sz) i \<longleftrightarrow> i < sz"
proof -
  assume "sz \<in> log_imm_sizes"
  then have "log_imm_mask sz = mask sz" "sz \<le> 32" by (auto simp: log_imm_mask_def mask_eq_exp_minus_1)
  then show ?thesis by (simp add: bit_simps) linarith
qed

lemma log_imm_repeats_iff:
  assumes "sz \<in> log_imm_sizes"
  shows "log_imm_repeats sz (val AND log_imm_mask sz) val \<longleftrightarrow> (\<forall>i<32. bit val i = bit val (i mod sz))"
proof
  assume r: "log_imm_repeats sz (val AND log_imm_mask sz) val"
  show "\<forall>i<32. bit val i = bit val (i mod sz)"
  proof (intro allI impI)
    fix i :: nat assume i: "i < 32"
    show "bit val i = bit val (i mod sz)"
    proof (cases "i div sz = 0")
      case True
      then show ?thesis using assms by (auto simp: div_eq_0_iff)
    next
      case False
      have "i div sz < 32 div sz" using assms i by auto
      then have "drop_bit (i div sz * sz) val AND log_imm_mask sz = val AND log_imm_mask sz"
        using r False by (auto simp: log_imm_repeats_def list_all_iff)
      then have "bit (drop_bit (i div sz * sz) val AND log_imm_mask sz) (i mod sz) = bit (val AND log_imm_mask sz) (i mod sz)" by simp
      moreover have "i mod sz < sz" using assms by auto
      ultimately show ?thesis by (simp add: bit_and_iff bit_drop_bit_eq bit_log_imm_mask[OF assms] add.commute)
    qed
  qed
next
  assume p: "\<forall>i<32. bit val i = bit val (i mod sz)"
  have "drop_bit (k * sz) val AND log_imm_mask sz = val AND log_imm_mask sz" if k: "k < 32 div sz" for k
  proof (rule bit_word_eqI)
    fix j assume "j < LENGTH(32)"
    show "bit (drop_bit (k * sz) val AND log_imm_mask sz) j = bit (val AND log_imm_mask sz) j"
    proof (cases "j < sz")
      case True
      have "k * sz + j < 32" using assms k True by auto
      then have "bit val (k * sz + j) = bit val j" using p[rule_format, of "k * sz + j"] True by simp
      then show ?thesis by (simp add: bit_and_iff bit_drop_bit_eq)
    qed (simp add: bit_and_iff bit_log_imm_mask[OF assms])
  qed
  then show "log_imm_repeats sz (val AND log_imm_mask sz) val" by (auto simp: log_imm_repeats_def list_all_iff)
qed

lemma add_mod_once: "a < n \<Longrightarrow> b < n \<Longrightarrow> (a + b) mod n = (if a + b < n then a + b else a + b - n)" for n :: nat
  by (simp add: mod_if)

lemma bit_rotated:
  assumes "sz \<in> log_imm_sizes" "lo < sz"
    and e: "\<And>i. bit (elem :: uint32) i \<Longrightarrow> i < sz"
  shows "bit (ucast (drop_bit lo (push_bit sz (ucast elem :: uint64) OR ucast elem)) AND log_imm_mask sz) j \<longleftrightarrow>
    j < sz \<and> bit elem ((lo + j) mod sz)"
proof (cases "j < sz")
  case True
  have "lo + j < 64" "j < 32" using assms(1,2) True by auto
  moreover have "(lo + j) mod sz = (if lo + j < sz then lo + j else lo + j - sz)"
    using assms(2) True by (rule add_mod_once)
  ultimately show ?thesis using True e[of "lo + j"] e[of "lo + j - sz"]
    by (auto simp: bit_and_iff bit_unsigned_iff bit_drop_bit_eq bit_or_iff bit_push_bit_iff bit_log_imm_mask[OF assms(1)])
qed (simp add: bit_and_iff bit_log_imm_mask[OF assms(1)])

lemma ctz_not_mask: "n < 32 \<Longrightarrow> ctz (NOT (mask n :: uint32)) = n"
proof -
  assume n: "n < 32"
  have b: "bit (NOT (mask n :: uint32)) i \<longleftrightarrow> n \<le> i" if "i < 32" for i using that n by (simp add: bit_simps) linarith
  then have nz: "NOT (mask n :: uint32) \<noteq> 0" using n by (metis bit_0_eq bot_apply bot_bool_def order_refl)
  show ?thesis
  proof (rule ccontr)
    assume d: "ctz (NOT (mask n :: uint32)) \<noteq> n"
    show False
    proof (cases "ctz (NOT (mask n :: uint32)) < n")
      case True then show ?thesis using bit_at_ctz[OF nz] b n by simp
    next
      case False then show ?thesis using bit_below_ctz[of n "NOT (mask n :: uint32)"] b n d by simp
    qed
  qed
qed

lemma ctz_0: "ctz (0 :: uint32) = 32"
proof -
  have "takeWhile (\<lambda>i. \<not> bit (0 :: uint32) i) [0..<32] = [0..<32]" by (subst takeWhile_eq_all_conv) simp
  then have "length (takeWhile (\<lambda>i. \<not> bit (0 :: uint32) i) [0..<32]) = length [0..<32 :: nat]" by (rule arg_cong)
  then show ?thesis by (simp add: ctz_def)
qed

lemma ctz_mask_minus: "rotated = shl32 1 (ctz (NOT rotated)) - 1 \<longleftrightarrow> (\<exists>n<32. rotated = mask n)" for rotated :: uint32
proof
  assume r: "rotated = shl32 1 (ctz (NOT rotated)) - 1"
  have "NOT rotated \<noteq> 0"
  proof
    assume z: "NOT rotated = 0"
    then have "ctz (NOT rotated) = 32" by (simp only: ctz_0)
    with r have "rotated = 0" by (simp add: shl32_def)
    with z show False by simp
  qed
  then have "ctz (NOT rotated) < 32" using ctz_less[of "NOT rotated"] by simp
  then show "\<exists>n<32. rotated = mask n" using r shl_minus_1 by metis
next
  assume "\<exists>n<32. rotated = mask n"
  then obtain n where "n < 32" "rotated = mask n" by blast
  then show "rotated = shl32 1 (ctz (NOT rotated)) - 1" by (simp only: ctz_not_mask shl_minus_1)
qed

text \<open>The encoding of a run.\<close>

definition enc_of :: "nat \<Rightarrow> nat \<Rightarrow> nat \<Rightarrow> nat \<times> nat" where
  "enc_of sz lo ones = ((sz - lo) mod sz, log_imm_size_enc sz OR (ones - 1))"

lemma log_imm_at_run:
  assumes sz: "sz \<in> log_imm_sizes" and e: "log_imm_at sz val = Some e"
  shows "\<exists>lo ones. run_of sz lo ones val \<and> e = enc_of sz lo ones"
proof -
  define elem where "elem = val AND log_imm_mask sz"
  define lo where "lo = ctz elem"
  define rotated where "rotated = ucast (drop_bit lo (push_bit sz (ucast elem :: uint64) OR ucast elem)) AND log_imm_mask sz"
  define ones where "ones = ctz (NOT rotated)"
  have rep: "log_imm_repeats sz elem val" and nz: "elem \<noteq> 0" "elem \<noteq> log_imm_mask sz" and rot: "rotated = shl32 1 ones - 1"
    and enc: "e = enc_of sz lo ones"
    using e unfolding log_imm_at_def Let_def elem_def [symmetric] lo_def [symmetric] rotated_def [symmetric] ones_def [symmetric] enc_of_def
    by (auto split: if_splits)
  have be: "bit elem i \<longleftrightarrow> i < sz \<and> bit val i" for i by (auto simp: elem_def bit_and_iff bit_log_imm_mask[OF sz])
  have lo: "lo < sz" using bit_at_ctz[OF nz(1)] be by (simp add: lo_def)
  obtain n where n: "n < 32" "rotated = mask n" using rot ctz_mask_minus unfolding ones_def by blast
  then have ones: "ones = n" by (simp add: ones_def ctz_not_mask)
  have br: "bit rotated j \<longleftrightarrow> j < sz \<and> bit elem ((lo + j) mod sz)" for j
    unfolding rotated_def by (rule bit_rotated[OF sz lo]) (simp add: be)
  have bm: "bit rotated j \<longleftrightarrow> j < n" for j using n by (auto simp: bit_mask_iff)
  have pos: "0 < n" using br[of 0] bm[of 0] lo bit_at_ctz[OF nz(1)] by (simp add: lo_def)
  have "n \<le> sz" using br[of "n - 1"] bm[of "n - 1"] pos by linarith
  have fit: "lo + n \<le> sz"
  proof (rule ccontr)
    assume "\<not> lo + n \<le> sz"
    then have "0 < lo" using \<open>n \<le> sz\<close> by linarith
    then have "bit elem ((lo + (sz - lo)) mod sz)" using br[of "sz - lo"] bm[of "sz - lo"] \<open>\<not> lo + n \<le> sz\<close> lo by linarith
    then have "bit elem 0" using lo by simp
    moreover note \<open>0 < lo\<close>
    ultimately show False using bit_below_ctz[of 0 elem] by (simp add: lo_def)
  qed
  have el: "bit elem i \<longleftrightarrow> lo \<le> i \<and> i < lo + n" if i: "i < sz" for i
  proof (cases "lo \<le> i")
    case True
    then have "(lo + (i - lo)) mod sz = i" "i - lo < sz" using i by simp_all
    then show ?thesis using br[of "i - lo"] bm[of "i - lo"] True by auto
  next
    case False
    then show ?thesis using bit_below_ctz[of i elem] by (simp add: lo_def)
  qed
  have "n < sz"
  proof (rule ccontr)
    assume "\<not> n < sz"
    then have "lo = 0" "n = sz" using fit \<open>n \<le> sz\<close> by auto
    then have "elem = log_imm_mask sz" using el be by (intro bit_eqI) (auto simp: bit_log_imm_mask[OF sz])
    with nz show False by simp
  qed
  moreover have "bit val i \<longleftrightarrow> lo \<le> i mod sz \<and> i mod sz < lo + n" if "i < 32" for i
  proof -
    have "i mod sz < sz" using lo by simp
    then show ?thesis
      using rep[unfolded elem_def log_imm_repeats_iff[OF sz]] that el[of "i mod sz"] be[of "i mod sz"] by simp
  qed
  ultimately show ?thesis using pos fit enc ones by (auto simp: run_of_def)
qed

lemma if_guards: "R \<Longrightarrow> \<not> P \<Longrightarrow> \<not> Q \<Longrightarrow> (if \<not> R then n else if P \<or> Q then n else e) = e"
  by simp

lemma run_log_imm_at:
  assumes sz: "sz \<in> log_imm_sizes" and r: "run_of sz lo ones val"
  shows "log_imm_at sz val = Some (enc_of sz lo ones)"
proof -
  define elem where "elem = val AND log_imm_mask sz"
  have sz32: "sz \<le> 32" and szp: "0 < sz" using sz by auto
  have be: "bit elem i \<longleftrightarrow> lo \<le> i \<and> i < lo + ones" for i
  proof (cases "i < sz")
    case True
    then have "bit val i \<longleftrightarrow> lo \<le> i mod sz \<and> i mod sz < lo + ones" using r sz32 by (simp add: run_of_def)
    then show ?thesis using True by (simp add: elem_def bit_and_iff bit_log_imm_mask[OF sz])
  next
    case False
    then show ?thesis using r by (auto simp: elem_def bit_and_iff bit_log_imm_mask[OF sz] run_of_def)
  qed
  have bnd: "0 < ones" "ones < sz" "lo + ones \<le> sz" using r by (simp_all add: run_of_def)
  have nz: "elem \<noteq> 0" using be[of lo] bnd by auto
  have lo: "ctz elem = lo"
  proof (rule ccontr)
    assume d: "ctz elem \<noteq> lo"
    show False
    proof (cases "ctz elem < lo")
      case True then show ?thesis using bit_at_ctz[OF nz] be by simp
    next
      case False then show ?thesis using bit_below_ctz[of lo elem] be[of lo] bnd d by simp
    qed
  qed
  have rep: "log_imm_repeats sz elem val"
    unfolding elem_def log_imm_repeats_iff[OF sz]
  proof (intro allI impI)
    fix i :: nat assume i: "i < 32"
    have "i mod sz < 32" using mod_less_divisor[OF szp, of i] sz32 by linarith
    then show "bit val i = bit val (i mod sz)" using r i by (simp add: run_of_def)
  qed
  have ne: "elem \<noteq> log_imm_mask sz"
  proof
    assume q: "elem = log_imm_mask sz"
    then have "bit elem 0" "bit elem (sz - 1)" using szp by (simp_all add: bit_log_imm_mask[OF sz])
    then show False using be bnd by auto
  qed
  define rotated where "rotated = ucast (drop_bit lo (push_bit sz (ucast elem :: uint64) OR ucast elem)) AND log_imm_mask sz"
  have "rotated = mask ones"
  proof (rule bit_word_eqI)
    fix j assume "j < LENGTH(32)"
    have "lo < sz" using bnd by linarith
    then have b: "bit rotated j \<longleftrightarrow> j < sz \<and> bit elem ((lo + j) mod sz)"
      unfolding rotated_def by (rule bit_rotated[OF sz]) (use be bnd in auto)
    have m: "bit (mask ones :: uint32) j \<longleftrightarrow> j < ones" using \<open>j < LENGTH(32)\<close> by (simp add: bit_mask_iff)
    show "bit rotated j = bit (mask ones :: uint32) j"
    proof (cases "j < sz")
      case True
      have k: "(lo + j) mod sz = (if lo + j < sz then lo + j else lo + j - sz)" using \<open>lo < sz\<close> True by (rule add_mod_once)
      show ?thesis unfolding b be k m using True bnd by (cases "lo + j < sz") simp_all
    next
      case False
      then show ?thesis unfolding b m using bnd by simp
    qed
  qed
  moreover have "ones < 32" using bnd sz32 by linarith
  ultimately have c: "ctz (NOT rotated) = ones" and r: "(rotated \<noteq> shl32 1 ones - 1) = False" by (simp_all only: ctz_not_mask shl_minus_1 simp_thms)
  show ?thesis
    unfolding log_imm_at_def Let_def elem_def [symmetric] lo rotated_def [symmetric] c r enc_of_def if_False
    by (rule if_guards[OF rep nz ne])
qed

subsection \<open>All sizes\<close>

lemma log_imm_fields:
  "\<forall>sz\<in>set [2, 4, 8, 16, 32]. \<forall>n\<in>set [1..<sz]. log_imm_size (log_imm_size_enc sz OR (n - 1)) = sz \<and>
     (log_imm_size_enc sz OR (n - 1)) mod sz = n - 1 \<and> log_imm_size_enc sz OR (n - 1) < 64"
  by code_simp

lemma rotated_run_iff:
  assumes "0 < ones" "lo + ones \<le> sz"
  shows "((i :: nat) + (sz - lo) mod sz) mod sz \<le> ones - 1 \<longleftrightarrow> lo \<le> i mod sz \<and> i mod sz < lo + ones"
proof -
  have j: "i mod sz < sz" using assms by simp
  have "(i + (sz - lo) mod sz) mod sz = (i mod sz + (sz - lo)) mod sz" by (simp add: mod_simps)
  also have "\<dots> = (if lo \<le> i mod sz then i mod sz - lo else i mod sz + (sz - lo))"
  proof (cases "lo = 0")
    case False
    then show ?thesis using assms j add_mod_once[of "i mod sz" sz "sz - lo"] by auto
  qed simp
  finally show ?thesis using assms j by auto
qed

lemma run_of_log_imm32:
  assumes "sz \<in> log_imm_sizes" "run_of sz lo ones val"
  shows "log_imm32 (fst (enc_of sz lo ones)) (snd (enc_of sz lo ones)) = val" "snd (enc_of sz lo ones) < 64"
proof -
  have n: "0 < ones" "ones < sz" "lo + ones \<le> sz" using assms(2) by (simp_all add: run_of_def)
  have f: "log_imm_size (log_imm_size_enc sz OR (ones - 1)) = sz" "(log_imm_size_enc sz OR (ones - 1)) mod sz = ones - 1"
    "log_imm_size_enc sz OR (ones - 1) < 64"
    using log_imm_fields assms(1) n by auto
  show "log_imm32 (fst (enc_of sz lo ones)) (snd (enc_of sz lo ones)) = val"
  proof (rule bit_word_eqI)
    fix i assume "i < LENGTH(32)"
    then have i: "i < 32" by simp
    show "bit (log_imm32 (fst (enc_of sz lo ones)) (snd (enc_of sz lo ones))) i = bit val i"
      unfolding bit_log_imm32[OF i] log_imm_bit_def enc_of_def fst_conv snd_conv f rotated_run_iff[OF n(1,3)]
      using assms(2) i by (simp add: run_of_def)
  qed
  show "snd (enc_of sz lo ones) < 64" unfolding enc_of_def snd_conv by (rule f(3))
qed

lemma log_imm_loop_Some: "log_imm_loop val szs = Some e \<Longrightarrow> \<exists>sz\<in>set szs. log_imm_at sz val = Some e"
  by (induction szs) (auto split: option.splits)

lemma log_imm_loop_None: "log_imm_loop val szs = None \<Longrightarrow> sz \<in> set szs \<Longrightarrow> log_imm_at sz val = None"
  by (induction szs) (auto split: option.splits)

lemma encode_run:
  "a64_encode_log_imm32 val = Some e \<Longrightarrow> \<exists>sz\<in>log_imm_sizes. \<exists>lo ones. run_of sz lo ones val \<and> e = enc_of sz lo ones"
  using log_imm_loop_Some[of val "[32, 16, 8, 4, 2]" e] log_imm_at_run[of _ val e]
  by (auto simp: a64_encode_log_imm32_def split: if_splits)

lemma run_of_proper: "run_of sz lo ones val \<Longrightarrow> sz \<in> log_imm_sizes \<Longrightarrow> val \<noteq> 0 \<and> val \<noteq> 0xffffffff"
proof -
  assume r: "run_of sz lo ones val" and sz: "sz \<in> log_imm_sizes"
  have "bit val lo" using r sz by (auto simp: run_of_def)
  define j where "j = (if lo = 0 then ones else 0)"
  have "j < 32" "\<not> bit val j" using r sz by (auto simp: run_of_def j_def)
  moreover have "bit (0xffffffff :: uint32) j"
  proof -
    have "(0xffffffff :: uint32) = mask 32" by (simp add: mask_eq_exp_minus_1)
    then show ?thesis using \<open>j < 32\<close> by (simp only: bit_mask_iff) simp
  qed
  ultimately show ?thesis using \<open>bit val lo\<close> by auto
qed

lemma run_encode:
  assumes "sz \<in> log_imm_sizes" "run_of sz lo ones val"
  shows "\<exists>e. a64_encode_log_imm32 val = Some e"
proof (cases "log_imm_loop val [32, 16, 8, 4, 2]")
  case None
  moreover have "sz \<in> set [32, 16, 8, 4, 2]" using assms(1) by auto
  ultimately have "log_imm_at sz val = None" by (rule log_imm_loop_None)
  then show ?thesis using run_log_imm_at[OF assms] by simp
next
  case (Some e)
  then show ?thesis using run_of_proper[OF assms(2,1)] by (simp add: a64_encode_log_imm32_def)
qed

subsection \<open>64 bits\<close>

lemma ctz_0_64: "ctz (0 :: uint64) = 64"
proof -
  have "takeWhile (\<lambda>i. \<not> bit (0 :: uint64) i) [0..<64] = [0..<64]" by (subst takeWhile_eq_all_conv) simp
  then have "length (takeWhile (\<lambda>i. \<not> bit (0 :: uint64) i) [0..<64]) = length [0..<64 :: nat]" by (rule arg_cong)
  then show ?thesis by (simp add: ctz_def)
qed

lemma bit_rotated64:
  fixes val :: uint64
  assumes "lo < 64" "j < 64"
  shows "bit (drop_bit lo val OR push_bit ((64 - lo) mod 64) val) j \<longleftrightarrow> (if lo = 0 then bit val j else if lo + j < 64 then bit val (lo + j) \<or> 64 - lo \<le> j \<and> bit val (j - (64 - lo)) else bit val (lo + j - 64))"
proof (cases "lo = 0")
  case False
  then have "(64 - lo) mod 64 = 64 - lo" using assms by simp
  moreover have "\<not> lo + j < 64 \<Longrightarrow> \<not> bit val (lo + j)" using bit_imp_le_length[of val "lo + j"] by auto
  ultimately show ?thesis using False assms by (auto simp: bit_or_iff bit_drop_bit_eq bit_push_bit_iff add.commute)
qed (use assms in \<open>simp add: bit_or_iff\<close>)

lemma wide_run:
  fixes val :: uint64
  defines "lo \<equiv> ctz val"
  defines "rot \<equiv> drop_bit lo val OR push_bit ((64 - lo) mod 64) val"
  assumes v: "val \<noteq> 0" and n: "n < 64" and r: "rot = mask n"
  shows "0 < n" "lo + n \<le> 64" "i < 64 \<Longrightarrow> bit val i \<longleftrightarrow> lo \<le> i \<and> i < lo + n"
proof -
  have lo: "lo < 64" using ctz_less[OF v] by (simp add: lo_def)
  have low: "\<not> bit val i" if "i < lo" for i using that bit_below_ctz[of i val] by (simp add: lo_def)
  have m: "bit rot j \<longleftrightarrow> j < n" for j using n by (auto simp: r bit_mask_iff)
  have up: "bit rot (i - lo) \<longleftrightarrow> bit val i" if "lo \<le> i" "i < 64" for i
    using that bit_rotated64[OF lo, of "i - lo" val] by (auto simp: rot_def)
  show "0 < n" using up[of lo] m[of 0] bit_at_ctz[OF v] lo by (simp add: lo_def)
  show "lo + n \<le> 64"
  proof (rule ccontr)
    assume o: "\<not> lo + n \<le> 64"
    then have p: "0 < lo" using n by linarith
    then have "bit rot (64 - lo)" using m o lo by simp
    then have "bit val 0" using bit_rotated64[OF lo, of "64 - lo" val] p lo by (simp add: rot_def)
    then show False using low p by simp
  qed
  show "bit val i \<longleftrightarrow> lo \<le> i \<and> i < lo + n" if "i < 64"
  proof (cases "lo \<le> i")
    case True
    then show ?thesis using up[OF True that] m[of "i - lo"] by auto
  qed (use low in simp)
qed

lemma wide_not_full:
  fixes val :: uint64
  assumes "val \<noteq> 0" "val \<noteq> NOT 0"
  shows "drop_bit (ctz val) val OR push_bit ((64 - ctz val) mod 64) val \<noteq> NOT 0"
proof
  define lo where "lo = ctz val"
  assume f: "drop_bit (ctz val) val OR push_bit ((64 - ctz val) mod 64) val = NOT 0"
  have lo: "lo < 64" using ctz_less[OF assms(1)] by (simp add: lo_def)
  show False
  proof (cases "lo = 0")
    case True
    then show ?thesis using f assms(2) by (simp add: lo_def)
  next
    case False
    have "bit (NOT (0 :: uint64)) (64 - lo)" using False by (simp add: bit_not_iff)
    then have "bit val 0" using bit_rotated64[OF lo, of "64 - lo" val] False lo f by (simp add: lo_def)
    then show ?thesis using bit_below_ctz[of 0 val] False by (simp add: lo_def)
  qed
qed

lemma ctz_not_mask64: "n < 64 \<Longrightarrow> ctz (NOT (mask n :: uint64)) = n"
proof -
  assume n: "n < 64"
  have b: "bit (NOT (mask n :: uint64)) i \<longleftrightarrow> n \<le> i" if "i < 64" for i using that n by (simp add: bit_simps) linarith
  then have nz: "NOT (mask n :: uint64) \<noteq> 0" using n by (metis bit_0_eq bot_apply bot_bool_def order_refl)
  then have l: "ctz (NOT (mask n :: uint64)) < 64" using ctz_less[OF nz] by simp
  have "\<not> ctz (NOT (mask n :: uint64)) < n" using bit_at_ctz[OF nz] b l by fastforce
  moreover have "\<not> n < ctz (NOT (mask n :: uint64))" using bit_below_ctz[of n "NOT (mask n :: uint64)"] b[of n] n by blast
  ultimately show ?thesis by linarith
qed

lemma encode64_wide:
  fixes val :: uint64
  defines "rot \<equiv> drop_bit (ctz val) val OR push_bit ((64 - ctz val) mod 64) val"
  assumes v: "val \<noteq> 0" "val \<noteq> NOT 0" and rot: "rot = (if ctz (NOT rot) = 64 then NOT 0 else push_bit (ctz (NOT rot)) 1 - 1)"
  shows "log_imm64 1 ((64 - ctz val) mod 64) (ctz (NOT rot) - 1) = val" "ctz (NOT rot) - 1 < 64"
proof -
  define n where "n = ctz (NOT rot)"
  have "rot \<noteq> NOT 0" using wide_not_full[OF v] by (simp add: rot_def)
  then have nz: "NOT rot \<noteq> 0" by (metis bit.double_compl)
  then have n: "n < 64" using ctz_less[OF nz] by (simp add: n_def)
  then have r: "rot = mask n" using rot by (simp add: mask_eq_exp_minus_1 flip: n_def)
  note w = wide_run[OF v(1) n r[unfolded rot_def]]
  have "log_imm64 1 ((64 - ctz val) mod 64) (n - 1) = val"
  proof (rule bit_word_eqI)
    fix i assume "i < LENGTH(64)"
    then have i: "i < 64" by simp
    have k: "(n - 1) mod 64 = n - 1" using n by simp
    show "bit (log_imm64 1 ((64 - ctz val) mod 64) (n - 1)) i = bit val i"
      unfolding bit_log_imm64[OF i] log_imm_bit_def if_P[OF refl] k rotated_run_iff[OF w(1,2)] using w(3)[OF i] i by simp
  qed
  then show "log_imm64 1 ((64 - ctz val) mod 64) (ctz (NOT rot) - 1) = val" "ctz (NOT rot) - 1 < 64" using n by (simp_all add: n_def)
qed

lemma log_imm64_double: "imms < 64 \<Longrightarrow> log_imm64 0 immr imms = (let w = log_imm32 immr imms in push_bit 32 (ucast w) OR ucast w)"
proof -
  define sz where "sz = log_imm_size imms"
  have sz: "sz \<in> log_imm_sizes" by (simp add: sz_def log_imm_size_def)
  have p: "(i + 32 + immr) mod sz = (i + immr) mod sz" for i
  proof -
    have "sz dvd 32" using sz by auto
    then obtain k where "32 = sz * k" by (auto simp: dvd_def)
    then have "i + 32 + immr = (i + immr) + sz * k" by simp
    then show ?thesis by (metis mod_mult_self2)
  qed
  show ?thesis unfolding Let_def
  proof (rule bit_word_eqI)
    fix i assume "i < LENGTH(64)"
    then have i: "i < 64" by simp
    show "bit (log_imm64 0 immr imms) i = bit (push_bit 32 (ucast (log_imm32 immr imms)) OR ucast (log_imm32 immr imms) :: uint64) i"
    proof (cases "i < 32")
      case True
      then show ?thesis
        using i by (simp add: bit_log_imm64 bit_or_iff bit_push_bit_iff bit_unsigned_iff bit_log_imm32 log_imm_bit_def)
    next
      case False
      then have "bit (log_imm32 immr imms) (i - 32) \<longleftrightarrow> (i - 32 + immr) mod sz \<le> imms mod sz"
        using i by (simp add: bit_log_imm32 log_imm_bit_def sz_def)
      moreover have "(i - 32 + immr) mod sz = (i + immr) mod sz" using p[of "i - 32"] False by simp
      moreover have "\<not> bit (log_imm32 immr imms) i" using False bit_imp_le_length[of "log_imm32 immr imms" i] by auto
      ultimately show ?thesis
        using i False by (simp add: bit_log_imm64 bit_or_iff bit_push_bit_iff bit_unsigned_iff log_imm_bit_def sz_def) linarith?
    qed
  qed
qed

subsection \<open>The encoders are exact\<close>

lemma encode32_value: "a64_encode_log_imm32 val = Some e \<Longrightarrow> log_imm32 (fst e) (snd e) = val \<and> fst e < 32 \<and> snd e < 64"
proof -
  assume "a64_encode_log_imm32 val = Some e"
  then obtain sz lo ones where r: "sz \<in> log_imm_sizes" "run_of sz lo ones val" "e = enc_of sz lo ones" using encode_run by blast
  have "(sz - lo) mod sz < sz" "sz \<le> 32" using r(1) by auto
  then show ?thesis using run_of_log_imm32[OF r(1,2)] r(3) by (simp add: enc_of_def) linarith?
qed

text \<open>
  C40: a constant that the encoder for logical immediates accepts is the constant its encoding stands for, and it accepts
  exactly the constants that repeat an element of 2, 4, 8, 16 or 32 bits with one run of ones, not cut by the end of the element.
\<close>

theorem log_imm32_exact:
  "(\<forall>immr imms. a64_encode_log_imm32 val = Some (immr, imms) \<longrightarrow> log_imm32 immr imms = val \<and> immr < 32 \<and> imms < 64) \<and>
   ((\<exists>e. a64_encode_log_imm32 val = Some e) \<longleftrightarrow> (\<exists>sz\<in>{2, 4, 8, 16, 32}. \<exists>lo ones. run_of sz lo ones val))"
  using encode32_value[of val] encode_run[of val] run_encode[of _ _ _ val] by fastforce

theorem log_imm32_exact_witness: "a64_encode_log_imm32 0x00ff00ff = Some (0, 0x27) \<and> log_imm32 0 0x27 = 0x00ff00ff"
proof -
  have "a64_encode_log_imm32 0x00ff00ff = Some (0, 0x27)" by code_simp
  then show ?thesis using log_imm32_exact[of "0x00ff00ff"] by blast
qed

text \<open>A run that goes around the end of the element is a valid immediate of the host that the encoder does not find.\<close>

lemma wrapped_run_missed: "a64_encode_log_imm32 0x80000001 = None" "log_imm32 1 1 = 0x80000001"
  by code_simp+

lemma if_None_Some: "(if x \<noteq> y then None else Some p) = Some q \<Longrightarrow> x = y \<and> q = p"
  by (simp split: if_splits)

text \<open>A 64-bit constant that the encoder accepts is the one its encoding stands for.\<close>

theorem log_imm64_value:
  assumes "a64_encode_log_imm64 val = Some (N, immr, imms)"
  shows "log_imm64 N immr imms = val \<and> (N = 0 \<or> N = 1) \<and> immr < 64 \<and> imms < 64"
proof -
  have f: "(0xffffffffffffffff :: uint64) = NOT 0" by simp
  have v: "val \<noteq> 0" "val \<noteq> NOT 0" using assms unfolding f [symmetric] by (auto simp: a64_encode_log_imm64_def split: if_splits)
  show ?thesis
  proof (cases "if ucast val = (ucast (drop_bit 32 val) :: uint32) then a64_encode_log_imm32 (ucast val) else None")
    case (Some e)
    then have eq: "ucast val = (ucast (drop_bit 32 val) :: uint32)" and en: "a64_encode_log_imm32 (ucast val) = Some e"
      by (auto split: if_splits)
    obtain r s where e: "e = (r, s)" by (cases e)
    then have g: "N = 0" "immr = r" "imms = s" using assms v Some unfolding a64_encode_log_imm64_def f Let_def by simp_all
    have w: "log_imm32 immr imms = ucast val" "immr < 32" "imms < 64" using encode32_value[OF en] e g by simp_all
    have "log_imm64 0 immr imms = push_bit 32 (ucast (ucast val :: uint32)) OR ucast (ucast val :: uint32)"
      using log_imm64_double[OF w(3), of immr] w(1) by (simp add: Let_def)
    also have "\<dots> = push_bit 32 (ucast (ucast (drop_bit 32 val) :: uint32)) OR ucast (ucast val :: uint32)" using eq by simp
    also have "\<dots> = val"
    proof (rule bit_word_eqI)
      fix i assume "i < LENGTH(64)"
      then show "bit (push_bit 32 (ucast (ucast (drop_bit 32 val) :: uint32)) OR ucast (ucast val :: uint32) :: uint64) i = bit val i"
        by (cases "i < 32") (auto simp: bit_or_iff bit_push_bit_iff bit_unsigned_iff bit_drop_bit_eq)
    qed
    finally show ?thesis using g w by simp
  next
    case None
    let ?rot = "drop_bit (ctz val) val OR push_bit ((64 - ctz val) mod 64) val"
    have "(if ?rot \<noteq> (if ctz (NOT ?rot) = 64 then NOT 0 else push_bit (ctz (NOT ?rot)) 1 - 1) then None
        else Some (1, (64 - ctz val) mod 64, ctz (NOT ?rot) - 1)) = Some (N, immr, imms)"
      using assms v None unfolding a64_encode_log_imm64_def f Let_def by simp
    note k = if_None_Some[OF this]
    have r: "?rot = (if ctz (NOT ?rot) = 64 then NOT 0 else push_bit (ctz (NOT ?rot)) 1 - 1)" using k by (rule conjunct1)
    have g: "N = 1" "immr = (64 - ctz val) mod 64" "imms = ctz (NOT ?rot) - 1" using k[THEN conjunct2] by (simp_all only: prod.inject)
    have "(64 - ctz val) mod 64 < 64" by simp
    with encode64_wide[OF v r] show ?thesis unfolding g by blast
  qed
qed

theorem log_imm64_value_witness:
  "a64_encode_log_imm64 0x7fffffffffffffff = Some (1, 0, 62) \<and> log_imm64 1 0 62 = 0x7fffffffffffffff"
proof -
  have "a64_encode_log_imm64 0x7fffffffffffffff = Some (1, 0, 62)" by code_simp
  then show ?thesis using log_imm64_value by blast
qed

end
