(* ===== verification/Jitc_Emit.thy ===== *)
theory Jitc_Emit
  imports Jitc_Cache A64_Imm
begin

text \<open>
  src/cpu/cpu_jitc_aarch64/jitc.cc and jitc.h: writing native instructions into the fragments of the current page, the assembler
  methods, and the branches whose target is filled in later.  Between two fragments that do not follow each other in memory goes a
  branch, for which 4 bytes are kept free.  The host's instruction cache and write protection are not modelled.
\<close>

unbundle bit_operations_syntax

subsection \<open>Fragments of the current page\<close>

definition cur_page :: "jitc_state \<Rightarrow> client_page" where "cur_page s = page s (currentPage s)"

definition set_cur :: "(client_page \<Rightarrow> client_page) \<Rightarrow> jitc_state \<Rightarrow> jitc_state" where
  "set_cur f s = set_page (currentPage s) f s"

definition put_native :: "uint64 \<Rightarrow> uint32 \<Rightarrow> jitc_state \<Rightarrow> jitc_state" where
  "put_native a w s = s\<lparr>native := (native s)(a := w)\<rparr>"

text \<open>The difference of two native addresses as a \<open>sint32\<close>.\<close>

definition native_diff :: "uint64 \<Rightarrow> uint64 \<Rightarrow> int" where
  "native_diff to from = sint (ucast (to - from) :: uint32)"

definition jitcEmitBranch :: "uint64 \<Rightarrow> uint64 \<Rightarrow> jitc_state \<Rightarrow> jitc_state jit" where
  "jitcEmitBranch from to s = and_then (a64_B (native_diff to from)) (\<lambda>b. Inr (put_native from b s))"

text \<open>The result is true when the new fragment does not directly follow.\<close>

definition jitcEmitNextFragment :: "jitc_state \<Rightarrow> (bool \<times> jitc_state) jit" where
  "jitcEmitNextFragment s =
     (let tcf_old = tcf_current (cur_page s);
          tcp_old = tcp (cur_page s)
      in and_then (jitcAllocFragment s) (\<lambda>(t, s).
           let s = set_cur (\<lambda>p. p\<lparr>tcf_current := Some t\<rparr>) s;
               s = set_frag t (\<lambda>f. f\<lparr>tcf_prev := tcf_old\<rparr>) s
           in if tcf_base (frag s t) - tcp (cur_page s) < 20
              then Inr (False, set_cur (\<lambda>p. p\<lparr>bytesLeft := bytesLeft p + of_nat FRAGMENT_SIZE\<rparr>) s)
              else let s = set_cur (\<lambda>p. p\<lparr>tcp := tcf_base (frag s t), bytesLeft := of_nat FRAGMENT_SIZE\<rparr>) s
                   in and_then (jitcEmitBranch tcp_old (tcp (cur_page s)) s) (\<lambda>s. Inr (True, s))))"

definition TRANSLATION_CACHE_SIZE :: uint64 where "TRANSLATION_CACHE_SIZE = 0x4000000"

definition in_cache :: "jitc_state \<Rightarrow> uint64 \<Rightarrow> bool" where
  "in_cache s a \<longleftrightarrow> \<not> (a < translationCache s \<or> translationCache s + TRANSLATION_CACHE_SIZE \<le> a)"

definition emit32 :: "uint32 \<Rightarrow> jitc_state \<Rightarrow> jitc_state jit" where
  "emit32 instr s =
     and_then (if bytesLeft (cur_page s) \<le> 4 then and_then (jitcEmitNextFragment s) (\<lambda>(_, s). Inr s) else Inr s) (\<lambda>s.
       if bytesLeft (cur_page s) < 4 then Inl Jit_Fatal
       else if \<not> in_cache s (tcp (cur_page s)) then Inl Jit_Fatal
       else if (case tcf_current (cur_page s) of
                  None \<Rightarrow> False
                | Some t \<Rightarrow> tcf_base (frag s t) + of_nat FRAGMENT_SIZE < tcp (cur_page s) + ucast (bytesLeft (cur_page s)))
       then Inl Jit_Fatal
       else Inr (set_cur (\<lambda>p. p\<lparr>tcp := tcp p + 4, bytesLeft := bytesLeft p - 4\<rparr>) (put_native (tcp (cur_page s)) instr s)))"

definition emitAssure :: "uint32 \<Rightarrow> jitc_state \<Rightarrow> (bool \<times> jitc_state) jit" where
  "emitAssure size' s =
     (if sint (bytesLeft (cur_page s)) - sint size' < 4 then and_then (jitcEmitNextFragment s) (\<lambda>(_, s). Inr (False, s))
      else Inr (True, s))"

definition emit_code :: "a64_result \<Rightarrow> jitc_state \<Rightarrow> jitc_state jit" where
  "emit_code r s = and_then r (\<lambda>w. emit32 w s)"

definition asmHERE :: "jitc_state \<Rightarrow> uint64" where "asmHERE s = tcp (cur_page s)"

text \<open>The gap up to the next multiple of \<open>align\<close> is filled with no-operations, unless a new fragment is begun instead.\<close>

fun emit_nops :: "nat \<Rightarrow> jitc_state \<Rightarrow> jitc_state jit" where
  "emit_nops 0 s = Inr s"
| "emit_nops (Suc n) s =
     and_then a64_NOP (\<lambda>w.
       emit_nops n (set_cur (\<lambda>p. p\<lparr>tcp := tcp p + 4, bytesLeft := bytesLeft p - 4\<rparr>) (put_native (tcp (cur_page s)) w s)))"

definition jitcEmitAlign :: "nat \<Rightarrow> jitc_state \<Rightarrow> jitc_state jit" where
  "jitcEmitAlign align s =
     (let missalign = unat (tcp (cur_page s)) mod align
      in if missalign = 0 then Inr s
         else let bytes = align - missalign
              in if bytesLeft (cur_page s) - of_nat bytes < 4
                 then and_then (jitcEmitNextFragment s) (\<lambda>(new, s). if new then Inr s else emit_nops (bytes div 4) s)
                 else emit_nops (bytes div 4) s)"

end
