(* ===== verification/Jitc_Cache_Props.thy ===== *)
theory Jitc_Cache_Props
  imports Jitc_Cache_Inv Jitc_Emit
begin

text \<open>
  What the operations of the translation cache promise: they keep it well formed, a page is found again, and where they fail.
\<close>

definition cache_wf :: "nat \<Rightarrow> nat \<Rightarrow> jitc_state \<Rightarrow> bool" where
  "cache_wf np nf s \<longleftrightarrow> (\<exists>xs ys own fs. cache_ok np nf {#} s xs ys own fs)"

lemma create_free:
  assumes c: "cache_ok np nf ls s xs (cp # ys) own fs" and b: "page_index baseaddr < mem_pages s"
    and n: "clientPages s (page_index baseaddr) = None"
  shows "\<exists>s'. jitcCreateClientPage baseaddr s = Inr (cp, s') \<and> cache_ok np nf ls s' (xs @ [cp]) ys own fs \<and>
    clientPages s' (page_index baseaddr) = Some cp \<and> baseaddress (page s' cp) = baseaddr \<and> tcf_current (page s' cp) = None"
proof -
  have l: "lru_ok s xs" and p: "pages_ok np s xs (cp # ys)" and f: "frags_ok np nf ls s xs own fs" and m: "map_ok s xs"
    using c by (simp_all add: cache_ok_def)
  define s0 where "s0 = s\<lparr>freeClientPages := moreRU (page s cp)\<rparr>"
  define s1 where "s1 = (case MRUpage s0 of
       Some mru \<Rightarrow> (set_page cp (\<lambda>p. p\<lparr>lessRU := Some mru\<rparr>) (set_page mru (\<lambda>p. p\<lparr>moreRU := Some cp\<rparr>) s0))\<lparr>MRUpage := Some cp\<rparr>
     | None \<Rightarrow> (set_page cp (\<lambda>p. p\<lparr>lessRU := None\<rparr>) s0)\<lparr>LRUpage := Some cp, MRUpage := Some cp\<rparr>)"
  define s2 where "s2 = set_page cp (\<lambda>p. p\<lparr>moreRU := None\<rparr>) s1"
  have fr: "freeClientPages s = Some cp" "chain (page_next s) (page_next s cp) ys" using p by (simp_all add: pages_ok_def)
  have n0: "cp \<notin> set xs" "cp \<notin> set ys" "cp < np" using p by (auto simp: pages_ok_def)
  have l0: "lru_ok s0 xs" using l by (simp add: lru_ok_def s0_def)
  note A = lru_ok_append[OF l0 n0(1) s1_def s2_def]
  have "chain (page_next s2) (freeClientPages s2) ys"
  proof -
    have "x \<in> set ys \<Longrightarrow> x \<notin> set xs \<and> x \<noteq> cp" for x using p n0 by (auto simp: pages_ok_def)
    then have "x \<in> set ys \<Longrightarrow> page_next s2 x = page_next s x" for x using A(2)[of x] by (simp add: s0_def)
    then show ?thesis using fr(2) A(4) by (subst chain_cong[where nx = "page_next s"]) (auto simp: s0_def)
  qed
  then have p2: "pages_ok np s2 (xs @ [cp]) ys" using p by (auto simp: pages_ok_def)
  have f2: "frags_ok np nf ls s2 (xs @ [cp]) own fs" using f A(3,7,8) by (simp add: frags_ok_def s0_def)
  have oc: "own cp = []" "tcf_current (page s cp) = None"
  proof -
    show "own cp = []" using f n0 by (simp add: frags_ok_def)
    moreover have "chain (frag_next s) (tcf_current (page s cp)) (own cp)" using f n0(3) by (simp add: frags_ok_def)
    ultimately show "tcf_current (page s cp) = None" by simp
  qed
  obtain s' where s': "jitcMapClientPage baseaddr cp s2 = Inr s'" "cache_ok np nf ls s' (xs @ [cp]) ys own fs"
    "clientPages s' (page_index baseaddr) = Some cp" "baseaddress (page s' cp) = baseaddr" "tcf_current (page s' cp) = tcf_current (page s2 cp)"
  proof -
    have "\<exists>s'. jitcMapClientPage baseaddr cp s2 = Inr s' \<and> cache_ok np nf ls s' (xs @ [cp]) ys own fs \<and>
      clientPages s' (page_index baseaddr) = Some cp \<and> baseaddress (page s' cp) = baseaddr \<and> tcf_current (page s' cp) = tcf_current (page s2 cp)"
    proof (rule cache_ok_map[OF A(1) p2 f2])
      show "cp \<in> set (xs @ [cp])" by simp
      show "page_index baseaddr < mem_pages s2" using b A(6) by (simp add: s0_def)
      show "i < mem_pages s2 \<and> c \<in> set (xs @ [cp]) \<and> c \<noteq> cp \<and> page_index (baseaddress (page s2 c)) = i" if "clientPages s2 i = Some c" for i c
        using that m A(3)[of c] n0(1) by (auto simp: A(5,6) s0_def map_ok_def)
      show "page_index (baseaddress (page s2 c)) < mem_pages s2" if "c \<in> set (xs @ [cp])" "c \<noteq> cp" for c
        using that m A(3)[of c] by (auto simp: A(6) s0_def map_ok_def)
    qed
    then show ?thesis using that by blast
  qed
  have "jitcCreateClientPage baseaddr s = Inr (cp, s')"
    using s'(1) fr(1) by (simp add: jitcCreateClientPage_def Let_def flip: s0_def s1_def s2_def)
  then show ?thesis using s' oc A(3)[of cp] by (simp add: s0_def)
qed

lemma create_full:
  assumes c: "cache_ok np nf ls s xs [] own fs" and b: "page_index baseaddr < mem_pages s" and np: "0 < np"
  shows "\<exists>cp s' xs' own' fs'. jitcCreateClientPage baseaddr s = Inr (cp, s') \<and> cache_ok np nf ls s' xs' [] own' fs' \<and> cp \<in> set xs' \<and>
    clientPages s' (page_index baseaddr) = Some cp \<and> baseaddress (page s' cp) = baseaddr \<and> tcf_current (page s' cp) = None"
proof -
  have p: "pages_ok np s xs []" using c by (simp add: cache_ok_def)
  then have "set xs = {..<np}" and nofree: "freeClientPages s = None" by (simp_all add: pages_ok_def)
  then obtain cp bs where xs: "xs = cp # bs" using np by (cases xs) auto
  have lru: "LRUpage s = Some cp" using c xs by (simp add: cache_ok_def lru_ok_def)
  obtain s1 where s1: "jitcDestroyAndTouchClientPage cp s = Inr s1" "cache_ok np nf ls s1 (bs @ [cp]) [] (own(cp := [])) (rev (own cp) @ fs)"
    "only_destroyed s s1" "\<forall>i. clientPages s1 i \<noteq> Some cp" "tcf_current (page s1 cp) = None"
    using cache_ok_recycle c xs by blast
  obtain s2 x2 o2 f2 where s2: "destroy_lru s1 = Inr s2" "cache_ok np nf ls s2 x2 [] o2 f2" "set x2 = set (bs @ [cp])" "only_destroyed s1 s2"
    "\<forall>c. (own(cp := [])) c = [] \<longrightarrow> o2 c = []" using cache_ok_destroy_lru[OF s1(2)] by blast
  obtain s3 x3 o3 f3 where s3: "destroy_lru s2 = Inr s3" "cache_ok np nf ls s3 x3 [] o3 f3" "set x3 = set x2" "only_destroyed s2 s3"
    "\<forall>c. o2 c = [] \<longrightarrow> o3 c = []" using cache_ok_destroy_lru[OF s2(2)] by blast
  obtain s4 x4 o4 f4 where s4: "destroy_lru s3 = Inr s4" "cache_ok np nf ls s4 x4 [] o4 f4" "set x4 = set x3" "only_destroyed s3 s4"
    "\<forall>c. o3 c = [] \<longrightarrow> o4 c = []" using cache_ok_destroy_lru[OF s3(2)] by blast
  obtain s5 x5 o5 f5 where s5: "destroy_lru s4 = Inr s5" "cache_ok np nf ls s5 x5 [] o5 f5" "set x5 = set x4" "only_destroyed s4 s5"
    "\<forall>c. o4 c = [] \<longrightarrow> o5 c = []" using cache_ok_destroy_lru[OF s4(2)] by blast
  have od: "only_destroyed s1 s5" using s2(4) s3(4) s4(4) s5(4) only_destroyed_trans by blast
  have x5: "cp \<in> set x5" using s2(3) s3(3) s4(3) s5(3) by simp
  have nomap: "clientPages s5 i \<noteq> Some cp" for i using od s1(4) unfolding only_destroyed_def by (metis option.distinct(1))
  have cur: "tcf_current (page s5 cp) = None" using od s1(5) unfolding only_destroyed_def by metis
  have mp: "mem_pages s5 = mem_pages s" using od s1(3) by (simp add: only_destroyed_def)
  have parts: "lru_ok s5 x5" "pages_ok np s5 x5 []" "frags_ok np nf ls s5 x5 o5 f5" and m5: "map_ok s5 x5" using s5(2) by (simp_all add: cache_ok_def)
  have "\<exists>s'. jitcMapClientPage baseaddr cp s5 = Inr s' \<and> cache_ok np nf ls s' x5 [] o5 f5 \<and>
    clientPages s' (page_index baseaddr) = Some cp \<and> baseaddress (page s' cp) = baseaddr \<and> tcf_current (page s' cp) = tcf_current (page s5 cp)"
  proof (rule cache_ok_map[OF parts x5])
    show "page_index baseaddr < mem_pages s5" using b mp by simp
    show "i < mem_pages s5 \<and> c \<in> set x5 \<and> c \<noteq> cp \<and> page_index (baseaddress (page s5 c)) = i" if "clientPages s5 i = Some c" for i c
      using that m5 nomap[of i] by (auto simp: map_ok_def)
    show "page_index (baseaddress (page s5 c)) < mem_pages s5" if "c \<in> set x5" for c using that m5 by (simp add: map_ok_def)
  qed
  then obtain s' where s': "jitcMapClientPage baseaddr cp s5 = Inr s'" "cache_ok np nf ls s' x5 [] o5 f5"
    "clientPages s' (page_index baseaddr) = Some cp" "baseaddress (page s' cp) = baseaddr" "tcf_current (page s' cp) = tcf_current (page s5 cp)"
    by blast
  have "jitcCreateClientPage baseaddr s = Inr (cp, s')"
    using nofree lru s1(1) s2(1) s3(1) s4(1) s5(1) s'(1) by (simp add: jitcCreateClientPage_def deref_def)
  then show ?thesis using s' x5 cur by (intro exI[of _ cp] exI[of _ s'] exI[of _ x5] exI[of _ o5] exI[of _ f5]) simp
qed

subsection \<open>Initialisation\<close>

text \<open>
  \<open>JITC::init\<close> of src/cpu/cpu_jitc_aarch64/jitc.cc, as far as it sets up the translation cache, and the allocation that
  begins the translation of a page.  The objects that \<open>ppc_malloc\<close> returns are numbered in the order of their creation; their
  fields start as they are in the argument state.  Sizes are natural numbers: \<open>tcSize\<close> is at most 0xfffffe00, so that the loop over
  the fragments does not wrap.
\<close>

function init_fragments :: "uint64 \<Rightarrow> nat \<Rightarrow> nat \<Rightarrow> nat \<Rightarrow> jitc_state \<Rightarrow> jitc_state" where
  "init_fragments tc tcSize addr t s =
     (if addr < tcSize then
        (let s = set_frag t (\<lambda>f. f\<lparr>tcf_prev := Some (t + 1)\<rparr>) s;
             s = set_frag (t + 1) (\<lambda>f. f\<lparr>tcf_base := tc + of_nat addr\<rparr>) s
         in init_fragments tc tcSize (addr + FRAGMENT_SIZE) (t + 1) s)
      else set_frag t (\<lambda>f. f\<lparr>tcf_prev := None\<rparr>) s)"
  by pat_completeness auto
termination by (relation "measure (\<lambda>(tc, tcSize, addr, t, s). tcSize - addr)") (auto simp: FRAGMENT_SIZE_def)

definition clear_page :: "client_page \<Rightarrow> client_page" where
  "clear_page p = p\<lparr>entrypoints := (\<lambda>_. 0), tcf_current := None\<rparr>"

function init_pages :: "nat \<Rightarrow> nat \<Rightarrow> jitc_state \<Rightarrow> jitc_state" where
  "init_pages maxClientPages i s =
     (if i < maxClientPages then
        (let s = set_page (i - 1) (\<lambda>p. p\<lparr>moreRU := Some i\<rparr>) s;
             s = set_page i (\<lambda>p. p\<lparr>lessRU := Some (i - 1)\<rparr>) s
         in init_pages maxClientPages (i + 1) (set_page i clear_page s))
      else set_page (i - 1) (\<lambda>p. p\<lparr>moreRU := None\<rparr>) s)"
  by pat_completeness auto
termination by (relation "measure (\<lambda>(m, i, s). m - i)") auto

declare init_fragments.simps [simp del] init_pages.simps [simp del]

text \<open>\<open>tc\<close> is the result of \<open>sys_alloc_read_write_execute\<close>; without memory for the cache the result is \<open>None\<close>.\<close>

definition jitc_init :: "nat \<Rightarrow> nat \<Rightarrow> nat \<Rightarrow> uint64 \<Rightarrow> jitc_state \<Rightarrow> jitc_state option" where
  "jitc_init maxClientPages tcSize memory_size tc s =
     (if tc = 0 then None
      else
        let s = s\<lparr>translationCache := tc, destroy_write := 0, destroy_oopages := 0, destroy_ootc := 0,
                  clientPages := (\<lambda>_. None), mem_pages := memory_size div 4096, freeFragmentsList := Some 0\<rparr>;
            s = set_frag 0 (\<lambda>f. f\<lparr>tcf_base := tc\<rparr>) s;
            s = init_fragments tc tcSize FRAGMENT_SIZE 0 s;
            s = set_page 0 (\<lambda>p. (clear_page p)\<lparr>lessRU := None\<rparr>) s;
            s = init_pages maxClientPages 1 (s\<lparr>LRUpage := None, freeClientPages := Some 0\<rparr>)
        in Some (s\<lparr>MRUpage := None\<rparr>))"

text \<open>The numbers of pages and fragments.\<close>

definition num_pages :: "nat \<Rightarrow> nat" where "num_pages maxClientPages = max 1 maxClientPages"

definition num_fragments :: "nat \<Rightarrow> nat" where "num_fragments tcSize = max 1 ((tcSize + 511) div 512)"

lemma init_fragments_other:
  "init_fragments tc tcSize addr t s = s\<lparr>frag := frag (init_fragments tc tcSize addr t s)\<rparr>"
  by (induction tc tcSize addr t s rule: init_fragments.induct, subst (1 2) init_fragments.simps)
    (auto simp: Let_def set_frag_def)

lemma init_pages_other: "init_pages m i s = s\<lparr>page := page (init_pages m i s)\<rparr>"
  by (induction m i s rule: init_pages.induct, subst (1 2) init_pages.simps) (auto simp: Let_def set_page_def)

lemma init_fragments_chain:
  assumes "addr = 512 * (t + 1)" "tcf_base (frag s t) = tc + of_nat (512 * t)" "t + 1 \<le> num_fragments tcSize"
  shows "chain (frag_next (init_fragments tc tcSize addr t s)) (Some t) [t..<num_fragments tcSize] \<and>
    (\<forall>u. t \<le> u \<and> u < num_fragments tcSize \<longrightarrow> tcf_base (frag (init_fragments tc tcSize addr t s) u) = tc + of_nat (512 * u)) \<and>
    (\<forall>u<t. frag (init_fragments tc tcSize addr t s) u = frag s u)"
  using assms
proof (induction tc tcSize addr t s rule: init_fragments.induct)
  case (1 tc tcSize addr t s)
  let ?n = "num_fragments tcSize"
  show ?case
  proof (cases "addr < tcSize")
    case True
    define s1 where "s1 = set_frag t (\<lambda>f. f\<lparr>tcf_prev := Some (t + 1)\<rparr>) s"
    define s2 where "s2 = set_frag (t + 1) (\<lambda>f. f\<lparr>tcf_base := tc + of_nat addr\<rparr>) s1"
    have n: "t + 2 \<le> ?n" using True "1.prems"(1) by (simp add: num_fragments_def)
    have r: "init_fragments tc tcSize addr t s = init_fragments tc tcSize (addr + FRAGMENT_SIZE) (t + 1) s2"
      by (subst init_fragments.simps) (simp add: True s1_def s2_def Let_def)
    let ?r = "init_fragments tc tcSize (addr + FRAGMENT_SIZE) (t + 1) s2"
    have ih: "chain (frag_next ?r) (Some (t + 1)) [t + 1..<?n] \<and>
      (\<forall>u. t + 1 \<le> u \<and> u < ?n \<longrightarrow> tcf_base (frag ?r u) = tc + of_nat (512 * u)) \<and> (\<forall>u<t + 1. frag ?r u = frag s2 u)"
      by (rule "1.IH"[OF True s1_def s2_def]) (use "1.prems" n in \<open>simp_all add: FRAGMENT_SIZE_def s2_def set_frag_def\<close>)
    have t: "frag ?r t = (frag s t)\<lparr>tcf_prev := Some (t + 1)\<rparr>" using ih by (simp add: s2_def s1_def set_frag_def)
    have "[t..<?n] = t # [t + 1..<?n]" using n by (simp add: upt_conv_Cons)
    moreover have "\<forall>u. t \<le> u \<and> u < ?n \<longrightarrow> tcf_base (frag ?r u) = tc + of_nat (512 * u)"
    proof (intro allI impI)
      fix u assume "t \<le> u \<and> u < ?n"
      then show "tcf_base (frag ?r u) = tc + of_nat (512 * u)"
        using ih t "1.prems"(2) by (cases "u = t") simp_all
    qed
    moreover have "\<forall>u<t. frag ?r u = frag s u" using ih by (simp add: s2_def s1_def set_frag_def)
    ultimately show ?thesis unfolding r using ih t by simp
  next
    case False
    have n: "?n = t + 1" using False "1.prems"(1,3) by (simp add: num_fragments_def)
    have r: "init_fragments tc tcSize addr t s = set_frag t (\<lambda>f. f\<lparr>tcf_prev := None\<rparr>) s"
      by (subst init_fragments.simps) (simp add: False)
    have "t \<le> u \<and> u < ?n \<longleftrightarrow> u = t" for u using n by auto
    then show ?thesis unfolding r using n "1.prems"(2) by (auto simp: set_frag_def)
  qed
qed

lemma init_pages_chain:
  assumes "1 \<le> i" "i \<le> num_pages m" "tcf_current (page s (i - 1)) = None"
  shows "chain (page_next (init_pages m i s)) (Some (i - 1)) [i - 1..<num_pages m] \<and>
    (\<forall>c. i - 1 \<le> c \<and> c < num_pages m \<longrightarrow> tcf_current (page (init_pages m i s) c) = None) \<and>
    (\<forall>c<i - 1. page (init_pages m i s) c = page s c)"
  using assms
proof (induction m i s rule: init_pages.induct)
  case (1 m i s)
  let ?n = "num_pages m"
  show ?case
  proof (cases "i < m")
    case True
    define s1 where "s1 = set_page (i - 1) (\<lambda>p. p\<lparr>moreRU := Some i\<rparr>) s"
    define s2 where "s2 = set_page i (\<lambda>p. p\<lparr>lessRU := Some (i - 1)\<rparr>) s1"
    let ?r = "init_pages m (i + 1) (set_page i clear_page s2)"
    have n: "i + 1 \<le> ?n" using True by (simp add: num_pages_def)
    have r: "init_pages m i s = ?r" by (subst init_pages.simps) (simp add: True s1_def s2_def Let_def)
    have ih: "chain (page_next ?r) (Some (i + 1 - 1)) [i + 1 - 1..<?n] \<and>
      (\<forall>c. i + 1 - 1 \<le> c \<and> c < ?n \<longrightarrow> tcf_current (page ?r c) = None) \<and> (\<forall>c<i + 1 - 1. page ?r c = page (set_page i clear_page s2) c)"
      by (rule "1.IH"[OF True s1_def s2_def]) (use n in \<open>simp_all add: clear_page_def\<close>)
    have t: "page ?r (i - 1) = (page s (i - 1))\<lparr>moreRU := Some i\<rparr>" using ih "1.prems"(1) by (simp add: s2_def s1_def)
    have "[i - 1..<?n] = (i - 1) # [i..<?n]" using n "1.prems"(1) by (simp add: upt_conv_Cons)
    moreover have "\<forall>c. i - 1 \<le> c \<and> c < ?n \<longrightarrow> tcf_current (page ?r c) = None"
    proof (intro allI impI)
      fix c assume "i - 1 \<le> c \<and> c < ?n"
      then consider "c = i - 1" | "i + 1 - 1 \<le> c" "c < ?n" by linarith
      then show "tcf_current (page ?r c) = None" using ih t "1.prems"(3) by cases simp_all
    qed
    moreover have "\<forall>c<i - 1. page ?r c = page s c" using ih by (simp add: s2_def s1_def)
    ultimately show ?thesis unfolding r using ih t by simp
  next
    case False
    have n: "?n = i" using False "1.prems"(1,2) by (simp add: num_pages_def)
    have r: "init_pages m i s = set_page (i - 1) (\<lambda>p. p\<lparr>moreRU := None\<rparr>) s" by (subst init_pages.simps) (simp add: False)
    have "c = i - 1" if "i - 1 \<le> c \<and> c < ?n" for c using that n "1.prems"(1) by linarith
    moreover have "[i - 1..<?n] = [i - 1]" using n "1.prems"(1) by (simp add: upt_conv_Cons)
    ultimately show ?thesis unfolding r using "1.prems"(3) by auto
  qed
qed

text \<open>After initialisation the cache is well formed: no page in use, every page and every fragment free, the fragments side by side.\<close>

lemma jitc_init_ok:
  assumes "jitc_init m tcSize memory_size tc s = Some s'"
  shows "cache_ok (num_pages m) (num_fragments tcSize) {#} s' [] [0..<num_pages m] (\<lambda>_. []) [0..<num_fragments tcSize]"
    and "u < num_fragments tcSize \<Longrightarrow> tcf_base (frag s' u) = tc + of_nat (512 * u)"
    and "mem_pages s' = memory_size div 4096" "translationCache s' = tc" "clientPages s' = (\<lambda>_. None)"
proof -
  define s0 where "s0 = s\<lparr>translationCache := tc, destroy_write := 0, destroy_oopages := 0, destroy_ootc := 0,
    clientPages := (\<lambda>_. None), mem_pages := memory_size div 4096, freeFragmentsList := Some 0\<rparr>"
  define s1 where "s1 = set_frag 0 (\<lambda>f. f\<lparr>tcf_base := tc\<rparr>) s0"
  define s2 where "s2 = init_fragments tc tcSize FRAGMENT_SIZE 0 s1"
  define s3 where "s3 = (set_page 0 (\<lambda>p. (clear_page p)\<lparr>lessRU := None\<rparr>) s2)\<lparr>LRUpage := None, freeClientPages := Some 0\<rparr>"
  define s4 where "s4 = init_pages m 1 s3"
  have s': "s' = s4\<lparr>MRUpage := None\<rparr>"
    using assms by (simp add: jitc_init_def Let_def split: if_splits flip: s0_def) (simp add: s4_def s3_def s2_def s1_def)
  have e2: "s2 = s1\<lparr>frag := frag s2\<rparr>" unfolding s2_def by (rule init_fragments_other)
  have e4: "s4 = s3\<lparr>page := page s4\<rparr>" unfolding s4_def by (rule init_pages_other)
  have f: "chain (frag_next s2) (Some 0) [0..<num_fragments tcSize]"
    "\<And>u. u < num_fragments tcSize \<Longrightarrow> tcf_base (frag s2 u) = tc + of_nat (512 * u)"
    using init_fragments_chain[of FRAGMENT_SIZE 0 s1 tc tcSize]
    by (simp_all add: FRAGMENT_SIZE_def s2_def num_fragments_def s1_def set_frag_def)
  have g: "chain (page_next s4) (Some 0) [0..<num_pages m]" "\<And>c. c < num_pages m \<Longrightarrow> tcf_current (page s4 c) = None"
    using init_pages_chain[of 1 m s3] by (simp_all add: s4_def num_pages_def s3_def clear_page_def)
  have eq: "frag s4 = frag s2" "freeFragmentsList s4 = Some 0" "LRUpage s4 = None" "freeClientPages s4 = Some 0" "mem_pages s4 = memory_size div 4096"
    "translationCache s4 = tc" "clientPages s4 = (\<lambda>_. None)"
    by (subst e4, simp add: s3_def, (subst e2, simp add: s1_def set_frag_def s0_def)?)+
  show "cache_ok (num_pages m) (num_fragments tcSize) {#} s' [] [0..<num_pages m] (\<lambda>_. []) [0..<num_fragments tcSize]"
    using f g by (simp add: cache_ok_def lru_ok_def pages_ok_def frags_ok_def map_ok_def s' eq atLeast0LessThan)
  show "u < num_fragments tcSize \<Longrightarrow> tcf_base (frag s' u) = tc + of_nat (512 * u)" "mem_pages s' = memory_size div 4096" "translationCache s' = tc"
    "clientPages s' = (\<lambda>_. None)"
    using f(2) by (simp_all add: s' eq)
qed

subsection \<open>Beginning the translation of a page\<close>

text \<open>The first part of \<open>jitcStartTranslation\<close>: the page gets its first fragment.\<close>

definition first_fragment :: "nat \<Rightarrow> jitc_state \<Rightarrow> jitc_state jit" where
  "first_fragment cp s =
     and_then (jitcAllocFragment s) (\<lambda>(t, s).
       let s = set_page cp (\<lambda>p. p\<lparr>tcf_current := Some t\<rparr>) s;
           s = set_page cp (\<lambda>p. p\<lparr>tcp := tcf_base (frag s t), bytesLeft := of_nat FRAGMENT_SIZE\<rparr>) s
       in if in_cache s (tcp (page s cp)) then Inr s else Inl Jit_Fatal)"

definition blank_jitc :: jitc_state where
  "blank_jitc = \<lparr>clientPages = (\<lambda>_. None), mem_pages = 0, LRUpage = None, MRUpage = None, freeFragmentsList = None, freeClientPages = None,
     translationCache = 0, destroy_write = 0, destroy_oopages = 0, destroy_ootc = 0, currentPage = 0,
     frag = (\<lambda>_. \<lparr>tcf_base = 0, tcf_prev = None\<rparr>),
     page = (\<lambda>_. \<lparr>entrypoints = (\<lambda>_. 0), tcf_current = None, baseaddress = 0, bytesLeft = 0, tcp = 0, moreRU = None, lessRU = None\<rparr>),
     native = (\<lambda>_. 0)\<rparr>"

text \<open>The page of an address is looked up or created and touched, and its translation is begun.\<close>

definition translate_page :: "uint32 \<Rightarrow> jitc_state \<Rightarrow> jitc_state jit" where
  "translate_page base s =
     and_then (jitcGetOrCreateClientPage base s) (\<lambda>(cp, s).
     and_then (jitcTouchClientPage cp s) (\<lambda>s.
     and_then (first_fragment cp s) (\<lambda>s. Inr (s\<lparr>currentPage := cp\<rparr>))))"

fun translate_pages :: "uint32 list \<Rightarrow> jitc_state \<Rightarrow> jitc_state jit" where
  "translate_pages [] s = Inr s"
| "translate_pages (b # bs) s = and_then (translate_page b s) (translate_pages bs)"

definition new_cache :: "nat \<Rightarrow> nat \<Rightarrow> jitc_state" where
  "new_cache np nf = the (jitc_init np (512 * nf) 0x10000 0x10000 blank_jitc)"

definition jit_error_of :: "'a jit \<Rightarrow> jit_error option" where
  "jit_error_of r = (case r of Inl e \<Rightarrow> Some e | Inr _ \<Rightarrow> None)"

lemmas cache_ops = translate_page_def jitcGetOrCreateClientPage_def jitcCreateClientPage_def jitcTouchClientPage_def first_fragment_def
  jitcAllocFragment_def jitcGetFragment_def jitcDestroyAndFreeClientPage_def jitcDestroyAndTouchClientPage_def jitcDestroyClientPage_def
  jitcFreeClientPage_def jitcMapClientPage_def jitcUnmapClientPage_def set_client_page_def deref_def destroy_lru_def Let_def page_index_def
  set_page_def set_frag_def in_cache_def TRANSLATION_CACHE_SIZE_def FRAGMENT_SIZE_def jitcEmitNextFragment_def cur_page_def set_cur_def


lemma and_then_weak: "r = r' \<Longrightarrow> and_then r k = and_then r' k"
  by simp

lemmas run_cache = jitc_init_def cache_ops init_fragments.simps init_pages.simps clear_page_def blank_jitc_def jitcDestroyFragments.simps
  jit_error_of_def new_cache_def jitcEmitBranch_def native_diff_def a64_B_def range_ok_def put_native_def


subsection \<open>Properties\<close>

text \<open>
  For every page of the guest's memory \<open>jitcGetOrCreateClientPage\<close> returns a client page that the table holds for this address,
  from any well-formed cache, and leaves the cache well formed: the pages are in one list each, in the order of their use, and every
  fragment belongs to one page or is free.
\<close>

theorem client_page_found:
  fixes np nf :: nat
  assumes "cache_wf np nf s" "0 < np" "page_index baseaddr < mem_pages s"
  shows "\<exists>cp s'. jitcGetOrCreateClientPage baseaddr s = Inr (cp, s') \<and> cache_wf np nf s' \<and> cp < np \<and>
    clientPages s' (page_index baseaddr) = Some cp \<and> page_index (baseaddress (page s' cp)) = page_index baseaddr"
proof -
  obtain xs ys own fs where c: "cache_ok np nf {#} s xs ys own fs" using assms(1) by (auto simp: cache_wf_def)
  have lt: "cache_ok np nf {#} s' xs' ys' own' fs' \<Longrightarrow> clientPages s' i = Some cp \<Longrightarrow> cp < np" for s' xs' ys' own' fs' i cp
    by (metis cache_ok_def cache_ok_lt map_ok_def)
  show ?thesis
  proof (cases "clientPages s (page_index baseaddr)")
    case (Some cp)
    then have "page_index (baseaddress (page s cp)) = page_index baseaddr" using c by (simp add: cache_ok_def map_ok_def)
    then show ?thesis using Some assms lt[OF c Some] by (simp add: jitcGetOrCreateClientPage_def)
  next
    case None
    have "\<exists>cp s' xs' ys' own' fs'. jitcCreateClientPage baseaddr s = Inr (cp, s') \<and> cache_ok np nf {#} s' xs' ys' own' fs' \<and>
      clientPages s' (page_index baseaddr) = Some cp \<and> baseaddress (page s' cp) = baseaddr"
    proof (cases ys)
      case Nil
      then show ?thesis using create_full[OF _ assms(3,2)] c by meson
    next
      case (Cons cp ys')
      then show ?thesis using create_free[OF _ assms(3) None] c by meson
    qed
    then obtain cp s' xs' ys' own' fs' where n: "jitcCreateClientPage baseaddr s = Inr (cp, s')" "cache_ok np nf {#} s' xs' ys' own' fs'"
      "clientPages s' (page_index baseaddr) = Some cp" "baseaddress (page s' cp) = baseaddr" by blast
    have "cache_wf np nf s'" using n(2) by (auto simp: cache_wf_def)
    moreover have "jitcGetOrCreateClientPage baseaddr s = Inr (cp, s')" using None assms(3) n(1) by (simp add: jitcGetOrCreateClientPage_def)
    ultimately show ?thesis using n lt[OF n(2,3)] by blast
  qed
qed

lemma new_cache_wf: "cache_wf (num_pages np) (num_fragments (512 * nf)) (new_cache np nf)" "mem_pages (new_cache np nf) = 16"
proof -
  obtain s where s: "jitc_init np (512 * nf) 0x10000 0x10000 blank_jitc = Some s" by (simp add: jitc_init_def)
  then show "cache_wf (num_pages np) (num_fragments (512 * nf)) (new_cache np nf)" "mem_pages (new_cache np nf) = 16"
    using jitc_init_ok(1)[OF s] jitc_init_ok(3)[OF s] by (auto simp: cache_wf_def new_cache_def)
qed

lemma new_cache_2_4: "cache_wf 2 4 (new_cache 2 4)"
proof -
  have "num_pages 2 = 2" "num_fragments (512 * 4) = 4" by (simp_all add: num_pages_def num_fragments_def)
  then show ?thesis using new_cache_wf(1)[where np = 2 and nf = 4] by metis
qed

lemma client_page_found_witness:
  "\<exists>cp s'. jitcGetOrCreateClientPage 0x3000 (new_cache 2 4) = Inr (cp, s') \<and> cache_wf 2 4 s' \<and> cp < 2 \<and>
    clientPages s' 3 = Some cp \<and> page_index (baseaddress (page s' cp)) = 3"
  using client_page_found[OF new_cache_2_4, where baseaddr = "0x3000"] new_cache_wf(2)[where np = 2 and nf = 4]
  by (simp add: page_index_def)

text \<open>
  On a well-formed cache taking a fragment follows a null pointer exactly when no fragment is free and no page is in use or the
  least recently used one has no translations; in all other cases a fragment is returned.
\<close>

theorem alloc_fragment_fails:
  assumes "cache_wf np nf s"
  shows "(jitcAllocFragment s = Inl Jit_Null \<longleftrightarrow>
      freeFragmentsList s = None \<and> (\<forall>cp. LRUpage s = Some cp \<longrightarrow> tcf_current (page s cp) = None)) \<and>
    (jitcAllocFragment s \<noteq> Inl Jit_Null \<longrightarrow> (\<exists>t s'. jitcAllocFragment s = Inr (t, s') \<and> t < nf \<and> tcf_prev (frag s' t) = None))"
proof -
  obtain xs ys own fs where c: "cache_ok np nf {#} s xs ys own fs" using assms by (auto simp: cache_wf_def)
  have f: "freeFragmentsList s = None \<longleftrightarrow> fs = []" using c by (cases fs) (auto simp: cache_ok_def frags_ok_def)
  have l: "LRUpage s = head_or xs None" using c by (simp add: cache_ok_def lru_ok_def)
  have h: "xs \<noteq> [] \<Longrightarrow> tcf_current (page s (hd xs)) = None \<longleftrightarrow> own (hd xs) = []"
  proof -
    assume "xs \<noteq> []"
    then have "hd xs < np" using cache_ok_lt[OF c] by simp
    then have "chain (frag_next s) (tcf_current (page s (hd xs))) (own (hd xs))" using c by (simp add: cache_ok_def frags_ok_def)
    then show ?thesis by (cases "own (hd xs)") auto
  qed
  have e: "(\<forall>cp. LRUpage s = Some cp \<longrightarrow> tcf_current (page s cp) = None) \<longleftrightarrow> xs = [] \<or> own (hd xs) = []"
    using h l by (cases xs) auto
  show ?thesis unfolding f e using alloc_fails[OF c] by (cases "fs = [] \<and> (xs = [] \<or> own (hd xs) = [])") auto
qed

lemma alloc_fragment_fails_witness: "\<exists>t s'. jitcAllocFragment (new_cache 2 4) = Inr (t, s') \<and> t < 4"
proof -
  have "freeFragmentsList (new_cache 2 4) = Some 0" by (simp add: run_cache)
  then show ?thesis using alloc_fragment_fails[OF new_cache_2_4] by auto
qed

text \<open>
  The null pointer is reached.  When \<open>jitcCreateClientPage\<close> runs out of pages it empties five and moves them to the recently used
  end without freeing them; in a cache of two pages and two fragments the page whose translation grows over the second fragment then
  finds no free fragment and an empty page to take one from.
\<close>

theorem alloc_fragment_null_reached:
  "jit_error_of (and_then (translate_pages [0x1000, 0x2000, 0x3000] (new_cache 2 2))
     (\<lambda>s. and_then (jitcEmitNextFragment s) (\<lambda>(_, s). jitcEmitNextFragment s))) = Some Jit_Null"
  by (simp add: run_cache cong: and_then_weak option.case_cong_weak)

text \<open>
  An emptied page keeps its old address.  When it is destroyed a second time, the table loses the entry of another page that has been
  created for this address in between: that page stays in use with its translations, and a store to its memory cannot find it.
\<close>

theorem emptied_page_unmaps_other:
  "case translate_pages [0x1000, 0x2000, 0x3000, 0x4000, 0x5000, 0x6000, 0x7000, 0x8000, 0x2000, 0x3000] (new_cache 7 20) of
     Inr s \<Rightarrow> clientPages s 2 = None \<and> baseaddress (page s 5) = 0x2000 \<and> tcf_current (page s 5) \<noteq> None \<and> lessRU (page s 5) \<noteq> None
   | Inl _ \<Rightarrow> False"
  by (simp add: run_cache cong: and_then_weak option.case_cong_weak sum.case_cong_weak)

end
