(* ===== verification/Jitc_Asm.thy ===== *)
theory Jitc_Asm
  imports Jitc_Emit
begin

text \<open>
  src/cpu/cpu_jitc_aarch64/jitc.cc and jitc.h: the assembler methods of \<open>JITC\<close>, which encode one or a few instructions and emit
  them.  Registers are numbers, the zero register 31 and the pointer to the CPU state 20; of the overloaded methods \<open>_imm\<close> has a constant
  for its last argument and \<open>_reg\<close> a register.  \<open>stubs\<close> is the offset of the stubs in the CPU state.
\<close>

unbundle bit_operations_syntax

subsection \<open>One instruction\<close>

definition asmNOP :: "jitc_state \<Rightarrow> jitc_state jit" where
  "asmNOP s = emit_code a64_NOP s"

definition asmMOV_reg :: "int \<Rightarrow> int \<Rightarrow> jitc_state \<Rightarrow> jitc_state jit" where
  "asmMOV_reg rd rs s = emit_code (a64_MOV rd rs) s"

definition asmLDRw_cpu :: "int \<Rightarrow> uint32 \<Rightarrow> jitc_state \<Rightarrow> jitc_state jit" where
  "asmLDRw_cpu rd ofs s = emit_code (a64_LDRw rd 20 (sint ofs)) s"

definition asmSTRw_cpu :: "int \<Rightarrow> uint32 \<Rightarrow> jitc_state \<Rightarrow> jitc_state jit" where
  "asmSTRw_cpu rs ofs s = emit_code (a64_STRw rs 20 (sint ofs)) s"

definition asmLDR_cpu :: "int \<Rightarrow> uint32 \<Rightarrow> jitc_state \<Rightarrow> jitc_state jit" where
  "asmLDR_cpu rd ofs s = emit_code (a64_LDR rd 20 (sint ofs)) s"

definition asmSTR_cpu :: "int \<Rightarrow> uint32 \<Rightarrow> jitc_state \<Rightarrow> jitc_state jit" where
  "asmSTR_cpu rs ofs s = emit_code (a64_STR rs 20 (sint ofs)) s"

definition asmLDR_D_cpu :: "int \<Rightarrow> uint32 \<Rightarrow> jitc_state \<Rightarrow> jitc_state jit" where
  "asmLDR_D_cpu dd ofs s = emit_code (a64_LDR_D dd 20 (sint ofs)) s"

definition asmSTR_D_cpu :: "int \<Rightarrow> uint32 \<Rightarrow> jitc_state \<Rightarrow> jitc_state jit" where
  "asmSTR_D_cpu dd ofs s = emit_code (a64_STR_D dd 20 (sint ofs)) s"

definition asmFADD_D :: "int \<Rightarrow> int \<Rightarrow> int \<Rightarrow> jitc_state \<Rightarrow> jitc_state jit" where
  "asmFADD_D dd dn dm s = emit_code (a64_FADD_D dd dn dm) s"

definition asmFSUB_D :: "int \<Rightarrow> int \<Rightarrow> int \<Rightarrow> jitc_state \<Rightarrow> jitc_state jit" where
  "asmFSUB_D dd dn dm s = emit_code (a64_FSUB_D dd dn dm) s"

definition asmFMUL_D :: "int \<Rightarrow> int \<Rightarrow> int \<Rightarrow> jitc_state \<Rightarrow> jitc_state jit" where
  "asmFMUL_D dd dn dm s = emit_code (a64_FMUL_D dd dn dm) s"

definition asmFDIV_D :: "int \<Rightarrow> int \<Rightarrow> int \<Rightarrow> jitc_state \<Rightarrow> jitc_state jit" where
  "asmFDIV_D dd dn dm s = emit_code (a64_FDIV_D dd dn dm) s"

definition asmFSQRT_D :: "int \<Rightarrow> int \<Rightarrow> jitc_state \<Rightarrow> jitc_state jit" where
  "asmFSQRT_D dd dn s = emit_code (a64_FSQRT_D dd dn) s"

definition asmFABS_D :: "int \<Rightarrow> int \<Rightarrow> jitc_state \<Rightarrow> jitc_state jit" where
  "asmFABS_D dd dn s = emit_code (a64_FABS_D dd dn) s"

definition asmFNEG_D :: "int \<Rightarrow> int \<Rightarrow> jitc_state \<Rightarrow> jitc_state jit" where
  "asmFNEG_D dd dn s = emit_code (a64_FNEG_D dd dn) s"

definition asmFMADD_D :: "int \<Rightarrow> int \<Rightarrow> int \<Rightarrow> int \<Rightarrow> jitc_state \<Rightarrow> jitc_state jit" where
  "asmFMADD_D dd dn dm da s = emit_code (a64_FMADD_D dd dn dm da) s"

definition asmFMSUB_D :: "int \<Rightarrow> int \<Rightarrow> int \<Rightarrow> int \<Rightarrow> jitc_state \<Rightarrow> jitc_state jit" where
  "asmFMSUB_D dd dn dm da s = emit_code (a64_FMSUB_D dd dn dm da) s"

definition asmFNMADD_D :: "int \<Rightarrow> int \<Rightarrow> int \<Rightarrow> int \<Rightarrow> jitc_state \<Rightarrow> jitc_state jit" where
  "asmFNMADD_D dd dn dm da s = emit_code (a64_FNMADD_D dd dn dm da) s"

definition asmFNMSUB_D :: "int \<Rightarrow> int \<Rightarrow> int \<Rightarrow> int \<Rightarrow> jitc_state \<Rightarrow> jitc_state jit" where
  "asmFNMSUB_D dd dn dm da s = emit_code (a64_FNMSUB_D dd dn dm da) s"

definition asmFCVT_S_D :: "int \<Rightarrow> int \<Rightarrow> jitc_state \<Rightarrow> jitc_state jit" where
  "asmFCVT_S_D sd dn s = emit_code (a64_FCVT_S_D sd dn) s"

definition asmFCVT_D_S :: "int \<Rightarrow> int \<Rightarrow> jitc_state \<Rightarrow> jitc_state jit" where
  "asmFCVT_D_S dd sn s = emit_code (a64_FCVT_D_S dd sn) s"

definition asmFCVTZS_W_D :: "int \<Rightarrow> int \<Rightarrow> jitc_state \<Rightarrow> jitc_state jit" where
  "asmFCVTZS_W_D wd dn s = emit_code (a64_FCVTZS_W_D wd dn) s"

definition asmFCMP_D :: "int \<Rightarrow> int \<Rightarrow> jitc_state \<Rightarrow> jitc_state jit" where
  "asmFCMP_D dn dm s = emit_code (a64_FCMP_D dn dm) s"

definition asmFCMP_D_zero :: "int \<Rightarrow> jitc_state \<Rightarrow> jitc_state jit" where
  "asmFCMP_D_zero dn s = emit_code (a64_FCMP_D_zero dn) s"

definition asmFCSEL_D :: "int \<Rightarrow> int \<Rightarrow> int \<Rightarrow> uint32 \<Rightarrow> jitc_state \<Rightarrow> jitc_state jit" where
  "asmFCSEL_D dd dn dm cond s = emit_code (a64_FCSEL_D dd dn dm cond) s"

definition asmFMOV_D_X :: "int \<Rightarrow> int \<Rightarrow> jitc_state \<Rightarrow> jitc_state jit" where
  "asmFMOV_D_X dd xn s = emit_code (a64_FMOV_D_X dd xn) s"

definition asmFMOV_S_W :: "int \<Rightarrow> int \<Rightarrow> jitc_state \<Rightarrow> jitc_state jit" where
  "asmFMOV_S_W sd wn s = emit_code (a64_FMOV_S_W sd wn) s"

definition asmFMOV_W_S :: "int \<Rightarrow> int \<Rightarrow> jitc_state \<Rightarrow> jitc_state jit" where
  "asmFMOV_W_S wd sn s = emit_code (a64_FMOV_W_S wd sn) s"

definition asmBR :: "int \<Rightarrow> jitc_state \<Rightarrow> jitc_state jit" where
  "asmBR rn s = emit_code (a64_BR rn) s"

definition asmRET :: "jitc_state \<Rightarrow> jitc_state jit" where
  "asmRET s = emit_code (a64_RET 30) s"

definition asmADDw_reg :: "int \<Rightarrow> int \<Rightarrow> int \<Rightarrow> jitc_state \<Rightarrow> jitc_state jit" where
  "asmADDw_reg rd rn rm s = emit_code (a64_ADDw_reg rd rn rm) s"

definition asmSUBw_reg :: "int \<Rightarrow> int \<Rightarrow> int \<Rightarrow> jitc_state \<Rightarrow> jitc_state jit" where
  "asmSUBw_reg rd rn rm s = emit_code (a64_SUBw_reg rd rn rm) s"

definition asmANDw :: "int \<Rightarrow> int \<Rightarrow> int \<Rightarrow> jitc_state \<Rightarrow> jitc_state jit" where
  "asmANDw rd rn rm s = emit_code (a64_ANDw_reg rd rn rm) s"

definition asmORRw :: "int \<Rightarrow> int \<Rightarrow> int \<Rightarrow> jitc_state \<Rightarrow> jitc_state jit" where
  "asmORRw rd rn rm s = emit_code (a64_ORRw_reg rd rn rm) s"

definition asmEORw :: "int \<Rightarrow> int \<Rightarrow> int \<Rightarrow> jitc_state \<Rightarrow> jitc_state jit" where
  "asmEORw rd rn rm s = emit_code (a64_EORw_reg rd rn rm) s"

definition asmMULw :: "int \<Rightarrow> int \<Rightarrow> int \<Rightarrow> jitc_state \<Rightarrow> jitc_state jit" where
  "asmMULw rd rn rm s = emit_code (a64_MULw rd rn rm) s"

definition asmNEGw :: "int \<Rightarrow> int \<Rightarrow> jitc_state \<Rightarrow> jitc_state jit" where
  "asmNEGw rd rm s = emit_code (a64_NEGw rd rm) s"

definition asmADDw_imm :: "int \<Rightarrow> int \<Rightarrow> uint32 \<Rightarrow> jitc_state \<Rightarrow> jitc_state jit" where
  "asmADDw_imm rd rn imm12 s = emit_code (a64_ADDw_imm rd rn imm12) s"

definition asmSUBw_imm :: "int \<Rightarrow> int \<Rightarrow> uint32 \<Rightarrow> jitc_state \<Rightarrow> jitc_state jit" where
  "asmSUBw_imm rd rn imm12 s = emit_code (a64_SUBw_imm rd rn imm12) s"

definition asmCMPw_reg :: "int \<Rightarrow> int \<Rightarrow> jitc_state \<Rightarrow> jitc_state jit" where
  "asmCMPw_reg rn rm s = emit_code (a64_CMPw_reg rn rm) s"

definition asmCMPw_imm :: "int \<Rightarrow> uint32 \<Rightarrow> jitc_state \<Rightarrow> jitc_state jit" where
  "asmCMPw_imm rn imm12 s = emit_code (a64_CMPw_imm rn imm12) s"

definition asmADDSw :: "int \<Rightarrow> int \<Rightarrow> int \<Rightarrow> jitc_state \<Rightarrow> jitc_state jit" where
  "asmADDSw rd rn rm s = emit_code (a64_ADDSw_reg rd rn rm) s"

definition asmSUBSw_reg :: "int \<Rightarrow> int \<Rightarrow> int \<Rightarrow> jitc_state \<Rightarrow> jitc_state jit" where
  "asmSUBSw_reg rd rn rm s = emit_code (a64_SUBSw_reg rd rn rm) s"

definition asmSUBSw_imm :: "int \<Rightarrow> int \<Rightarrow> uint32 \<Rightarrow> jitc_state \<Rightarrow> jitc_state jit" where
  "asmSUBSw_imm rd rn imm12 s = emit_code (a64_SUBSw_imm rd rn imm12) s"

definition asmTBZ :: "int \<Rightarrow> int \<Rightarrow> int \<Rightarrow> jitc_state \<Rightarrow> jitc_state jit" where
  "asmTBZ rt b ofs s = emit_code (a64_TBZ rt b ofs) s"

definition asmTBNZ :: "int \<Rightarrow> int \<Rightarrow> int \<Rightarrow> jitc_state \<Rightarrow> jitc_state jit" where
  "asmTBNZ rt b ofs s = emit_code (a64_TBNZ rt b ofs) s"

definition asmCBZw :: "int \<Rightarrow> int \<Rightarrow> jitc_state \<Rightarrow> jitc_state jit" where
  "asmCBZw rt ofs s = emit_code (a64_CBZw rt ofs) s"

definition asmCBNZw :: "int \<Rightarrow> int \<Rightarrow> jitc_state \<Rightarrow> jitc_state jit" where
  "asmCBNZw rt ofs s = emit_code (a64_CBNZw rt ofs) s"

definition asmTSTw :: "int \<Rightarrow> int \<Rightarrow> int \<Rightarrow> jitc_state \<Rightarrow> jitc_state jit" where
  "asmTSTw rn immr imms s = emit_code (a64_TSTw_imm rn immr imms) s"

definition asmANDw_imm :: "int \<Rightarrow> int \<Rightarrow> int \<Rightarrow> int \<Rightarrow> jitc_state \<Rightarrow> jitc_state jit" where
  "asmANDw_imm rd rn immr imms s = emit_code (a64_ANDw_imm rd rn immr imms) s"

definition asmLSRw_imm :: "int \<Rightarrow> int \<Rightarrow> int \<Rightarrow> jitc_state \<Rightarrow> jitc_state jit" where
  "asmLSRw_imm rd rn sh s = emit_code (a64_LSRw_imm rd rn sh) s"

definition asmASRw_imm :: "int \<Rightarrow> int \<Rightarrow> int \<Rightarrow> jitc_state \<Rightarrow> jitc_state jit" where
  "asmASRw_imm rd rn sh s = emit_code (a64_ASRw_imm rd rn sh) s"

definition asmLSR_imm :: "int \<Rightarrow> int \<Rightarrow> int \<Rightarrow> jitc_state \<Rightarrow> jitc_state jit" where
  "asmLSR_imm rd rn sh s = emit_code (a64_LSR_imm rd rn sh) s"

definition asmRORw_imm :: "int \<Rightarrow> int \<Rightarrow> int \<Rightarrow> jitc_state \<Rightarrow> jitc_state jit" where
  "asmRORw_imm rd rn sh s = emit_code (a64_RORw_imm rd rn sh) s"

definition asmRORw :: "int \<Rightarrow> int \<Rightarrow> int \<Rightarrow> jitc_state \<Rightarrow> jitc_state jit" where
  "asmRORw rd rn rm s = emit_code (a64_RORw_reg rd rn rm) s"

definition asmADD :: "int \<Rightarrow> int \<Rightarrow> uint32 \<Rightarrow> jitc_state \<Rightarrow> jitc_state jit" where
  "asmADD rd rn imm12 s = emit_code (a64_ADD_imm rd rn imm12) s"

definition asmLDRw_reg :: "int \<Rightarrow> int \<Rightarrow> int \<Rightarrow> bool \<Rightarrow> jitc_state \<Rightarrow> jitc_state jit" where
  "asmLDRw_reg rt rn rm sh s = emit_code (a64_LDRw_reg rt rn rm sh) s"

definition asmLDR_reg :: "int \<Rightarrow> int \<Rightarrow> int \<Rightarrow> bool \<Rightarrow> jitc_state \<Rightarrow> jitc_state jit" where
  "asmLDR_reg rt rn rm sh s = emit_code (a64_LDR_reg rt rn rm sh) s"

definition asmREVw :: "int \<Rightarrow> int \<Rightarrow> jitc_state \<Rightarrow> jitc_state jit" where
  "asmREVw rd rn s = emit_code (a64_REVw rd rn) s"

definition asmREV16w :: "int \<Rightarrow> int \<Rightarrow> jitc_state \<Rightarrow> jitc_state jit" where
  "asmREV16w rd rn s = emit_code (a64_REV16w rd rn) s"

definition asmBFIw :: "int \<Rightarrow> int \<Rightarrow> int \<Rightarrow> int \<Rightarrow> jitc_state \<Rightarrow> jitc_state jit" where
  "asmBFIw rd rn lsb width s = emit_code (a64_BFIw rd rn lsb width) s"

definition asmCSELw :: "int \<Rightarrow> int \<Rightarrow> int \<Rightarrow> uint32 \<Rightarrow> jitc_state \<Rightarrow> jitc_state jit" where
  "asmCSELw rd rn rm cond s = emit_code (a64_CSELw rd rn rm cond) s"

definition asmCSINCw :: "int \<Rightarrow> int \<Rightarrow> int \<Rightarrow> uint32 \<Rightarrow> jitc_state \<Rightarrow> jitc_state jit" where
  "asmCSINCw rd rn rm cond s = emit_code (a64_CSINCw rd rn rm cond) s"

definition asmUDIVw :: "int \<Rightarrow> int \<Rightarrow> int \<Rightarrow> jitc_state \<Rightarrow> jitc_state jit" where
  "asmUDIVw rd rn rm s = emit_code (a64_UDIVw rd rn rm) s"

definition asmSDIVw :: "int \<Rightarrow> int \<Rightarrow> int \<Rightarrow> jitc_state \<Rightarrow> jitc_state jit" where
  "asmSDIVw rd rn rm s = emit_code (a64_SDIVw rd rn rm) s"

definition asmLSLV :: "int \<Rightarrow> int \<Rightarrow> int \<Rightarrow> jitc_state \<Rightarrow> jitc_state jit" where
  "asmLSLV rd rn rm s = emit_code (a64_LSLV rd rn rm) s"

definition asmLSRV :: "int \<Rightarrow> int \<Rightarrow> int \<Rightarrow> jitc_state \<Rightarrow> jitc_state jit" where
  "asmLSRV rd rn rm s = emit_code (a64_LSRV rd rn rm) s"

definition asmUMULL :: "int \<Rightarrow> int \<Rightarrow> int \<Rightarrow> jitc_state \<Rightarrow> jitc_state jit" where
  "asmUMULL rd rn rm s = emit_code (a64_UMULL rd rn rm) s"

definition asmSMULL :: "int \<Rightarrow> int \<Rightarrow> int \<Rightarrow> jitc_state \<Rightarrow> jitc_state jit" where
  "asmSMULL rd rn rm s = emit_code (a64_SMULL rd rn rm) s"

definition asmASRV :: "int \<Rightarrow> int \<Rightarrow> int \<Rightarrow> jitc_state \<Rightarrow> jitc_state jit" where
  "asmASRV rd rn rm s = emit_code (a64_ASRV rd rn rm) s"

definition asmSXTW :: "int \<Rightarrow> int \<Rightarrow> jitc_state \<Rightarrow> jitc_state jit" where
  "asmSXTW rd rn s = emit_code (a64_SXTW rd rn) s"

definition asmORNw :: "int \<Rightarrow> int \<Rightarrow> int \<Rightarrow> jitc_state \<Rightarrow> jitc_state jit" where
  "asmORNw rd rn rm s = emit_code (a64_ORNw rd rn rm) s"

definition asmMVNw :: "int \<Rightarrow> int \<Rightarrow> jitc_state \<Rightarrow> jitc_state jit" where
  "asmMVNw rd rm s = emit_code (a64_MVNw rd rm) s"

definition asmCLZw :: "int \<Rightarrow> int \<Rightarrow> jitc_state \<Rightarrow> jitc_state jit" where
  "asmCLZw rd rn s = emit_code (a64_CLZw rd rn) s"

definition asmADDw_lsr :: "int \<Rightarrow> int \<Rightarrow> int \<Rightarrow> int \<Rightarrow> jitc_state \<Rightarrow> jitc_state jit" where
  "asmADDw_lsr rd rn rm sh s = emit_code (a64_ADDw_reg_lsr rd rn rm sh) s"

definition asmCMNw :: "int \<Rightarrow> uint32 \<Rightarrow> jitc_state \<Rightarrow> jitc_state jit" where
  "asmCMNw rn imm12 s = emit_code (a64_CMNw_imm rn imm12) s"

definition asmLSLVw :: "int \<Rightarrow> int \<Rightarrow> int \<Rightarrow> jitc_state \<Rightarrow> jitc_state jit" where
  "asmLSLVw rd rn rm s = emit_code (a64_LSLVw rd rn rm) s"

definition asmSXTBw :: "int \<Rightarrow> int \<Rightarrow> jitc_state \<Rightarrow> jitc_state jit" where
  "asmSXTBw rd rn s = emit_code (a64_SXTBw rd rn) s"

definition asmSXTHw :: "int \<Rightarrow> int \<Rightarrow> jitc_state \<Rightarrow> jitc_state jit" where
  "asmSXTHw rd rn s = emit_code (a64_SXTHw rd rn) s"

definition asmAND_imm :: "int \<Rightarrow> int \<Rightarrow> int \<Rightarrow> int \<Rightarrow> int \<Rightarrow> jitc_state \<Rightarrow> jitc_state jit" where
  "asmAND_imm rd rn N immr imms s = emit_code (a64_AND_imm rd rn N immr imms) s"

definition asmORR_imm :: "int \<Rightarrow> int \<Rightarrow> int \<Rightarrow> int \<Rightarrow> int \<Rightarrow> jitc_state \<Rightarrow> jitc_state jit" where
  "asmORR_imm rd rn N immr imms s = emit_code (a64_ORR_imm rd rn N immr imms) s"

definition asmEOR_imm :: "int \<Rightarrow> int \<Rightarrow> int \<Rightarrow> int \<Rightarrow> int \<Rightarrow> jitc_state \<Rightarrow> jitc_state jit" where
  "asmEOR_imm rd rn N immr imms s = emit_code (a64_EOR_imm rd rn N immr imms) s"


subsection \<open>Constants, calls, immediate operands\<close>

definition asmMOV_imm :: "int \<Rightarrow> uint32 \<Rightarrow> jitc_state \<Rightarrow> jitc_state jit" where
  "asmMOV_imm rd imm s =
     (let lo = ucast imm :: uint16; hi = ucast (drop_bit 16 imm) :: uint16
      in if hi = 0xffff \<and> lo \<noteq> 0xffff then emit_code (a64_MOVNw rd (NOT lo) 0) s
         else if lo = 0xffff \<and> hi \<noteq> 0xffff \<and> hi \<noteq> 0 then emit_code (a64_MOVNw rd (NOT hi) 16) s
         else if lo = 0 \<and> hi \<noteq> 0 then emit_code (a64_MOVZw rd hi 16) s
         else and_then (emit_code (a64_MOVZw rd lo 0) s) (\<lambda>s. if hi \<noteq> 0 then emit_code (a64_MOVKw rd hi 16) s else Inr s))"

definition asmMOV64 :: "int \<Rightarrow> uint64 \<Rightarrow> jitc_state \<Rightarrow> jitc_state jit" where
  "asmMOV64 rd imm s =
     and_then (emit_code (a64_MOVZ rd (ucast imm) 0) s) (\<lambda>s.
     and_then (if drop_bit 16 imm \<noteq> 0 then emit_code (a64_MOVK rd (ucast (drop_bit 16 imm)) 16) s else Inr s) (\<lambda>s.
     and_then (if drop_bit 32 imm \<noteq> 0 then emit_code (a64_MOVK rd (ucast (drop_bit 32 imm)) 32) s else Inr s) (\<lambda>s.
       if drop_bit 48 imm \<noteq> 0 then emit_code (a64_MOVK rd (ucast (drop_bit 48 imm)) 48) s else Inr s)))"

definition asmBL :: "uint64 \<Rightarrow> jitc_state \<Rightarrow> jitc_state jit" where
  "asmBL to s =
     and_then (emitAssure (of_nat (a64_bl_size to)) s) (\<lambda>(_, s).
     and_then (asmMOV64 16 to s) (\<lambda>s. emit_code (a64_BLR 16) s))"

definition asmB :: "uint64 \<Rightarrow> jitc_state \<Rightarrow> jitc_state jit" where
  "asmB to s =
     (let ofs = sint (to - tcp (cur_page s));
          imm26 = sint (word_of_int (ofs sdiv 4) :: uint32)
      in if imm26 \<le> 0x1ffffff \<and> imm26 \<ge> - 0x2000000 then emit_code (a64_B (sint (word_of_int ofs :: uint32))) s
         else and_then (emitAssure (of_nat (a64_mov64_size to) + 4) s) (\<lambda>(_, s).
              and_then (asmMOV64 16 to s) (asmBR 16)))"

definition asmCALL :: "uint64 \<Rightarrow> jitc_state \<Rightarrow> jitc_state jit" where
  "asmCALL to s = asmBL to s"

definition asmCALL_cpu :: "uint32 \<Rightarrow> int \<Rightarrow> jitc_state \<Rightarrow> jitc_state jit" where
  "asmCALL_cpu stubs stubIndex s =
     (let ofs = stubs + word_of_int stubIndex * 8
      in and_then (emitAssure 8 s) (\<lambda>(_, s). and_then (asmLDR_cpu 16 ofs s) (\<lambda>s. emit_code (a64_BLR 16) s)))"

definition asmTSTw_val :: "int \<Rightarrow> uint32 \<Rightarrow> jitc_state \<Rightarrow> jitc_state jit" where
  "asmTSTw_val rn m s =
     (case a64_encode_log_imm32 m of
        None \<Rightarrow> Inl Jit_Fatal
      | Some (immr, imms) \<Rightarrow> emit_code (a64_TSTw_imm rn (int immr) (int imms)) s)"

definition asmANDw_val :: "int \<Rightarrow> int \<Rightarrow> uint32 \<Rightarrow> jitc_state \<Rightarrow> jitc_state jit" where
  "asmANDw_val rd rn m s =
     (case a64_encode_log_imm32 m of
        None \<Rightarrow> Inl Jit_Fatal
      | Some (immr, imms) \<Rightarrow> emit_code (a64_ANDw_imm rd rn (int immr) (int imms)) s)"

definition asmAND_val :: "int \<Rightarrow> int \<Rightarrow> uint64 \<Rightarrow> jitc_state \<Rightarrow> jitc_state jit" where
  "asmAND_val rd rn m s =
     (case a64_encode_log_imm64 m of
        None \<Rightarrow> Inl Jit_Fatal
      | Some (N, immr, imms) \<Rightarrow> emit_code (a64_AND_imm rd rn (int N) (int immr) (int imms)) s)"

definition asmORR_val :: "int \<Rightarrow> int \<Rightarrow> uint64 \<Rightarrow> jitc_state \<Rightarrow> jitc_state jit" where
  "asmORR_val rd rn m s =
     (case a64_encode_log_imm64 m of
        None \<Rightarrow> Inl Jit_Fatal
      | Some (N, immr, imms) \<Rightarrow> emit_code (a64_ORR_imm rd rn (int N) (int immr) (int imms)) s)"

definition asmEOR_val :: "int \<Rightarrow> int \<Rightarrow> uint64 \<Rightarrow> jitc_state \<Rightarrow> jitc_state jit" where
  "asmEOR_val rd rn m s =
     (case a64_encode_log_imm64 m of
        None \<Rightarrow> Inl Jit_Fatal
      | Some (N, immr, imms) \<Rightarrow> emit_code (a64_EOR_imm rd rn (int N) (int immr) (int imms)) s)"

definition asmORRw_imm_or_reg :: "int \<Rightarrow> int \<Rightarrow> uint32 \<Rightarrow> int \<Rightarrow> jitc_state \<Rightarrow> (bool \<times> jitc_state) jit" where
  "asmORRw_imm_or_reg rd rn val tmp s =
     (case a64_encode_log_imm32 val of
        Some (immr, imms) \<Rightarrow> and_then (emit_code (a64_ORRw_imm rd rn (int immr) (int imms)) s) (\<lambda>s. Inr (True, s))
      | None \<Rightarrow> and_then (asmMOV_imm tmp val s) (\<lambda>s. and_then (asmORRw rd rn tmp s) (\<lambda>s. Inr (False, s))))"

definition asmEORw_imm_or_reg :: "int \<Rightarrow> int \<Rightarrow> uint32 \<Rightarrow> int \<Rightarrow> jitc_state \<Rightarrow> (bool \<times> jitc_state) jit" where
  "asmEORw_imm_or_reg rd rn val tmp s =
     (case a64_encode_log_imm32 val of
        Some (immr, imms) \<Rightarrow> and_then (emit_code (a64_EORw_imm rd rn (int immr) (int imms)) s) (\<lambda>s. Inr (True, s))
      | None \<Rightarrow> and_then (asmMOV_imm tmp val s) (\<lambda>s. and_then (asmEORw rd rn tmp s) (\<lambda>s. Inr (False, s))))"

definition asmANDw_imm_or_reg :: "int \<Rightarrow> int \<Rightarrow> uint32 \<Rightarrow> int \<Rightarrow> jitc_state \<Rightarrow> (bool \<times> jitc_state) jit" where
  "asmANDw_imm_or_reg rd rn val tmp s =
     (case a64_encode_log_imm32 val of
        Some (immr, imms) \<Rightarrow> and_then (emit_code (a64_ANDw_imm rd rn (int immr) (int imms)) s) (\<lambda>s. Inr (True, s))
      | None \<Rightarrow> and_then (asmMOV_imm tmp val s) (\<lambda>s. and_then (asmANDw rd rn tmp s) (\<lambda>s. Inr (False, s))))"

definition asmCSETw :: "int \<Rightarrow> uint32 \<Rightarrow> jitc_state \<Rightarrow> jitc_state jit" where
  "asmCSETw rd cond s = emit_code (a64_CSINCw rd 31 31 (cond XOR 1)) s"

subsection \<open>Forward branches and fixups\<close>

definition asmBccForward :: "uint32 \<Rightarrow> uint32 \<Rightarrow> jitc_state \<Rightarrow> jitc_state jit" where
  "asmBccForward cond skip_bytes s = emit_code (a64_Bcc cond (sint (skip_bytes + 4))) s"

definition asmBForward :: "uint32 \<Rightarrow> jitc_state \<Rightarrow> jitc_state jit" where
  "asmBForward skip_bytes s = emit_code (a64_B (sint (skip_bytes + 4))) s"

definition asmBFixup :: "jitc_state \<Rightarrow> (uint64 \<times> jitc_state) jit" where
  "asmBFixup s = (let at = asmHERE s in and_then (emit_code (a64_B 0) s) (\<lambda>s. Inr (at, s)))"

definition asmBccFixup :: "uint32 \<Rightarrow> jitc_state \<Rightarrow> (uint64 \<times> jitc_state) jit" where
  "asmBccFixup cond s =
     and_then (emitAssure 8 s) (\<lambda>(_, s).
     and_then (emit_code (a64_Bcc (cond XOR 1) 8) s) (\<lambda>s.
       let at = asmHERE s in and_then (emit_code (a64_B 0) s) (\<lambda>s. Inr (at, s))))"

definition asmCBZwFixup :: "int \<Rightarrow> jitc_state \<Rightarrow> (uint64 \<times> jitc_state) jit" where
  "asmCBZwFixup rt s =
     and_then (emitAssure 8 s) (\<lambda>(_, s).
     and_then (emit_code (a64_CBNZw rt 8) s) (\<lambda>s.
       let at = asmHERE s in and_then (emit_code (a64_B 0) s) (\<lambda>s. Inr (at, s))))"

definition asmCBNZwFixup :: "int \<Rightarrow> jitc_state \<Rightarrow> (uint64 \<times> jitc_state) jit" where
  "asmCBNZwFixup rt s =
     and_then (emitAssure 8 s) (\<lambda>(_, s).
     and_then (emit_code (a64_CBZw rt 8) s) (\<lambda>s.
       let at = asmHERE s in and_then (emit_code (a64_B 0) s) (\<lambda>s. Inr (at, s))))"

definition resolve_word :: "int \<Rightarrow> uint32 \<Rightarrow> uint32 jit" where
  "resolve_word ofs old =
     (let imm19 = ofs sdiv 4; imm26 = ofs sdiv 4
      in if old AND 0x7e000000 = 0x34000000 then
           if imm19 < - 0x40000 \<or> imm19 \<ge> 0x40000 then Inl Jit_Fatal
           else Inr ((old AND 0xff00001f) OR push_bit 5 (word_of_int imm19 AND 0x7ffff))
         else if old AND 0xff000010 = 0x54000000 then
           if imm19 < - 0x40000 \<or> imm19 \<ge> 0x40000 then Inl Jit_Fatal
           else Inr ((old AND 0xff00001f) OR push_bit 5 (word_of_int imm19 AND 0x7ffff))
         else if old AND 0x7c000000 = 0x14000000 then
           if imm26 < - 0x2000000 \<or> imm26 \<ge> 0x2000000 then Inl Jit_Fatal
           else Inr ((old AND 0xfc000000) OR (word_of_int imm26 AND 0x03ffffff))
         else Inl Jit_Fatal)"

definition asmResolveFixup :: "uint64 \<Rightarrow> uint64 \<Rightarrow> jitc_state \<Rightarrow> jitc_state jit" where
  "asmResolveFixup at to s =
     (let to = if to = 0 then asmHERE s else to
      in and_then (resolve_word (native_diff to at) (native s at)) (\<lambda>w. Inr (put_native at w s)))"

definition asmAssertHERE :: "uint64 \<Rightarrow> jitc_state \<Rightarrow> jitc_state jit" where
  "asmAssertHERE expected s = (if tcp (cur_page s) \<noteq> expected then Inl Jit_Fatal else Inr s)"

end
