(* ===== verification/Jitc_Emit_Props.thy ===== *)
theory Jitc_Emit_Props
  imports Jitc_Asm Jitc_Cache_Inv
begin

text \<open>
  Emitted code runs in the order of its emission: the fragments of a page are joined by branches, and writing them changes neither
  the code already written nor that of other pages.
\<close>

unbundle bit_operations_syntax

subsection \<open>Addresses in the translation cache\<close>

abbreviation cache_bytes :: nat where "cache_bytes \<equiv> 0x4000000"

definition placed :: "nat \<Rightarrow> jitc_state \<Rightarrow> bool" where
  "placed nf s \<longleftrightarrow> 512 * nf \<le> cache_bytes \<and> unat (translationCache s) + cache_bytes < 2 ^ 64 \<and>
     (\<forall>t<nf. tcf_base (frag s t) = translationCache s + of_nat (512 * t))"

text \<open>The address at an offset in the cache.\<close>

definition at_ofs :: "jitc_state \<Rightarrow> nat \<Rightarrow> uint64" where "at_ofs s x = translationCache s + of_nat x"

lemma unat_at_ofs: "placed nf s \<Longrightarrow> x \<le> cache_bytes \<Longrightarrow> unat (at_ofs s x) = unat (translationCache s) + x"
  unfolding placed_def at_ofs_def by (subst unat_add_lem[THEN iffD1]) (auto simp: unat_of_nat take_bit_nat_eq_self)

lemma at_ofs_inject: "placed nf s \<Longrightarrow> x \<le> cache_bytes \<Longrightarrow> y \<le> cache_bytes \<Longrightarrow> at_ofs s x = at_ofs s y \<longleftrightarrow> x = y"
  using unat_at_ofs[of nf s x] unat_at_ofs[of nf s y] by (metis add_left_cancel)

lemma at_ofs_plus: "at_ofs s x + of_nat n = at_ofs s (x + n)"
  by (simp add: at_ofs_def)

lemma in_cache_at_ofs: "placed nf s \<Longrightarrow> x < cache_bytes \<Longrightarrow> in_cache s (at_ofs s x)"
proof -
  assume p: "placed nf s" and x: "x < cache_bytes"
  have u: "unat (at_ofs s x) = unat (translationCache s) + x" using unat_at_ofs[OF p] x by simp
  have "unat (translationCache s + TRANSLATION_CACHE_SIZE) = unat (translationCache s) + cache_bytes"
    using unat_at_ofs[OF p, of cache_bytes] by (simp add: at_ofs_def TRANSLATION_CACHE_SIZE_def)
  then show ?thesis using u x by (simp add: in_cache_def word_less_nat_alt word_le_nat_alt)
qed

lemma at_ofs_minus: "y \<le> x \<Longrightarrow> at_ofs s x - at_ofs s y = of_nat (x - y)"
  by (simp add: at_ofs_def of_nat_diff)

lemma at_ofs_minus_neg: "x \<le> y \<Longrightarrow> at_ofs s x - at_ofs s y = - of_nat (y - x)"
  by (simp add: at_ofs_def of_nat_diff)

lemma ucast_word_of_int_32: "(ucast (word_of_int k :: uint64) :: uint32) = word_of_int k"
  by transfer (simp add: take_bit_take_bit)

lemma native_diff_ofs:
  assumes "x < cache_bytes" "y < cache_bytes"
  shows "native_diff (at_ofs s x) (at_ofs s y) = int x - int y"
proof -
  have "at_ofs s x - at_ofs s y = word_of_int (int x - int y)" by (simp add: at_ofs_def)
  then have "native_diff (at_ofs s x) (at_ofs s y) = sint (word_of_int (int x - int y) :: uint32)"
    by (simp only: native_diff_def ucast_word_of_int_32)
  also have "\<dots> = int x - int y" using assms unfolding sint_sbintrunc' by (intro signed_take_bit_int_eq_self) simp_all
  finally show ?thesis .
qed

subsection \<open>The page being translated\<close>

text \<open>
  \<open>emit_ready nf s xs ys own fs p\<close>: the next instruction goes to the offset \<open>p\<close>, which is in the newest fragment of the current
  page, and what is left of the fragment holds at least one instruction.
\<close>

definition emit_ready :: "nat \<Rightarrow> nat \<Rightarrow> jitc_state \<Rightarrow> nat list \<Rightarrow> nat list \<Rightarrow> (nat \<Rightarrow> nat list) \<Rightarrow> nat list \<Rightarrow> nat \<Rightarrow> bool" where
  "emit_ready np nf s xs ys own fs p \<longleftrightarrow>
     cache_ok np nf {#} s xs ys own fs \<and> placed nf s \<and> currentPage s \<in> set xs \<and> p mod 4 = 0 \<and> p div 512 < nf \<and>
     (\<exists>ts. own (currentPage s) = p div 512 # ts) \<and> tcp (cur_page s) = at_ofs s p \<and> bytesLeft (cur_page s) = of_nat (512 - p mod 512)"

lemma put_native_simps [simp]:
  "page (put_native a w s) = page s" "frag (put_native a w s) = frag s" "currentPage (put_native a w s) = currentPage s"
  "translationCache (put_native a w s) = translationCache s" "native (put_native a w s) = (native s)(a := w)"
  "clientPages (put_native a w s) = clientPages s" "mem_pages (put_native a w s) = mem_pages s" "LRUpage (put_native a w s) = LRUpage s"
  "MRUpage (put_native a w s) = MRUpage s" "freeFragmentsList (put_native a w s) = freeFragmentsList s"
  "freeClientPages (put_native a w s) = freeClientPages s"
  by (simp_all add: put_native_def)

lemma set_frag_simps [simp]:
  "frag (set_frag t f s) = (frag s)(t := f (frag s t))" "page (set_frag t f s) = page s" "currentPage (set_frag t f s) = currentPage s"
  "translationCache (set_frag t f s) = translationCache s" "native (set_frag t f s) = native s" "clientPages (set_frag t f s) = clientPages s"
  "mem_pages (set_frag t f s) = mem_pages s" "LRUpage (set_frag t f s) = LRUpage s" "MRUpage (set_frag t f s) = MRUpage s"
  "freeFragmentsList (set_frag t f s) = freeFragmentsList s" "freeClientPages (set_frag t f s) = freeClientPages s"
  by (simp_all add: set_frag_def)

lemma cache_ok_put [simp]: "cache_ok np nf ls (put_native a w s) xs ys own fs = cache_ok np nf ls s xs ys own fs"
  by (simp add: cache_ok_def lru_ok_def pages_ok_def frags_ok_def map_ok_def)

lemma cache_ok_cur:
  assumes "cache_ok np nf ls s xs ys own fs"
    and "\<And>p. moreRU (f p) = moreRU p \<and> lessRU (f p) = lessRU p \<and> tcf_current (f p) = tcf_current p \<and> baseaddress (f p) = baseaddress p"
  shows "cache_ok np nf ls (set_cur f s) xs ys own fs"
proof -
  let ?s = "set_cur f s"
  have e: "moreRU (page ?s c) = moreRU (page s c) \<and> lessRU (page ?s c) = lessRU (page s c) \<and>
    tcf_current (page ?s c) = tcf_current (page s c) \<and> baseaddress (page ?s c) = baseaddress (page s c)" for c
    using assms(2) by (simp add: set_cur_def)
  then have "dll (page ?s) None xs None = dll (page s) None xs None" by (intro dll_cong) simp
  then show ?thesis
    using assms(1) e by (simp add: cache_ok_def lru_ok_def pages_ok_def frags_ok_def map_ok_def) (simp add: set_cur_def)
qed

text \<open>A fragment that was taken becomes the newest of the current page.\<close>

lemma cache_ok_attach:
  fixes np nf :: nat
  assumes c: "cache_ok np nf {#t#} s xs ys own fs" and x: "currentPage s \<in> set xs"
  defines "s' \<equiv> set_frag t (\<lambda>f. f\<lparr>tcf_prev := tcf_current (cur_page s)\<rparr>) (set_cur (\<lambda>p. p\<lparr>tcf_current := Some t\<rparr>) s)"
  shows "cache_ok np nf {#} s' xs ys (own(currentPage s := t # own (currentPage s))) fs"
proof -
  let ?cp = "currentPage s"
  have f: "frags_ok np nf {#t#} s xs own fs" and l: "lru_ok s xs" and p: "pages_ok np s xs ys" and m: "map_ok s xs"
    using c by (simp_all add: cache_ok_def)
  have cp: "?cp < np" using cache_ok_lt[OF c x] .
  have nx: "frag_next s' = (frag_next s)(t := tcf_current (page s ?cp))" by (auto simp: s'_def cur_page_def set_cur_def)
  have n: "t \<notin> set fs" "\<And>c. c < np \<Longrightarrow> t \<notin> set (own c)"
    using frags_split(6)[OF f] cp by auto
  have pg: "page s' = (page s)(?cp := (page s ?cp)\<lparr>tcf_current := Some t\<rparr>)" by (simp add: s'_def set_cur_def)
  have ch: "chain (frag_next s) (freeFragmentsList s) fs" "\<And>c. c < np \<Longrightarrow> chain (frag_next s) (tcf_current (page s c)) (own c)"
    using f by (simp_all add: frags_ok_def)
  have "frags_ok np nf {#} s' xs (own(?cp := t # own ?cp)) fs"
  proof (rule frags_okI)
    show "chain (frag_next s') (freeFragmentsList s') fs" using ch(1) n(1) unfolding nx by (simp add: s'_def set_cur_def)
    show "chain (frag_next s') (tcf_current (page s' c)) ((own(?cp := t # own ?cp)) c)" if "c < np" for c
      using ch(2)[OF that] ch(2)[OF cp] n(2)[OF that] n(2)[OF cp] unfolding nx by (simp add: pg)
    show "(own(?cp := t # own ?cp)) c = []" if "c < np" "c \<notin> set xs" for c using f x that by (auto simp: frags_ok_def)
    have "(\<Sum>c<np. mset ((own(?cp := t # own ?cp)) c)) = (\<Sum>c<np. mset (own c)) + {#t#}"
      using sum_own_update[OF cp, of own "t # own ?cp"] by simp
    moreover have "mset fs + (\<Sum>c<np. mset (own c)) + {#t#} = mset [0..<nf]" using f unfolding frags_ok_def by blast
    ultimately show "mset fs + (\<Sum>c<np. mset ((own(?cp := t # own ?cp)) c)) + {#} = mset [0..<nf]" by (simp add: ac_simps)
  qed
  moreover have "lru_ok s' xs"
  proof -
    have "dll (page s') None xs None = dll (page s) None xs None" by (rule dll_cong) (simp add: pg)
    then show ?thesis using l by (simp add: lru_ok_def) (simp add: s'_def set_cur_def)
  qed
  moreover have "pages_ok np s' xs ys"
  proof -
    have "page_next s' = page_next s" by (auto simp: pg)
    then show ?thesis using p by (simp add: pages_ok_def) (simp add: s'_def set_cur_def)
  qed
  moreover have "map_ok s' xs" using m by (simp add: map_ok_def pg) (simp add: s'_def set_cur_def)
  ultimately show ?thesis by (simp add: cache_ok_def)
qed

lemma add_in_fragment: "p mod 512 + n < (512::nat) \<Longrightarrow> (p + n) div 512 = p div 512 \<and> (p + n) mod 512 = p mod 512 + n"
proof -
  assume n: "p mod 512 + n < 512"
  have e: "p + n = (p mod 512 + n) + 512 * (p div 512)" using mod_mult_div_eq[of p 512] by linarith
  have "(p + n) div 512 = p div 512" unfolding e using n by (subst div_mult_self2) simp_all
  moreover have "(p + n) mod 512 = p mod 512 + n" unfolding e using n by (subst mod_mult_self2) simp
  ultimately show ?thesis by blast
qed

text \<open>What \<open>emit_ready\<close> says of the current fragment.\<close>

lemma emit_ready_bounds:
  assumes "emit_ready np nf s xs ys own fs p"
  shows "p < cache_bytes" "512 * (p div 512) + 512 \<le> cache_bytes" "tcf_current (cur_page s) = Some (p div 512)"
    "tcf_base (frag s (p div 512)) = at_ofs s (512 * (p div 512))" "currentPage s < np" "p div 512 \<notin> set fs" "p mod 512 \<le> 508"
    "t \<in> set fs \<Longrightarrow> t < nf"
proof -
  have c: "cache_ok np nf {#} s xs ys own fs" and pl: "placed nf s" and d: "p div 512 < nf" using assms by (simp_all add: emit_ready_def)
  have "512 * nf \<le> cache_bytes" using pl by (simp add: placed_def)
  then show "512 * (p div 512) + 512 \<le> cache_bytes" using d by linarith
  then show "p < cache_bytes" by linarith
  show cp: "currentPage s < np" using assms cache_ok_lt[OF c] by (simp add: emit_ready_def)
  have f: "frags_ok np nf {#} s xs own fs" using c by (simp add: cache_ok_def)
  obtain ts where o: "own (currentPage s) = p div 512 # ts" using assms by (auto simp: emit_ready_def)
  have "chain (frag_next s) (tcf_current (cur_page s)) (own (currentPage s))" using f cp by (simp add: frags_ok_def cur_page_def)
  then show "tcf_current (cur_page s) = Some (p div 512)" by (simp add: o)
  show "tcf_base (frag s (p div 512)) = at_ofs s (512 * (p div 512))" using pl d by (simp add: placed_def at_ofs_def)
  show "p div 512 \<notin> set fs" "t \<in> set fs \<Longrightarrow> t < nf" using frags_split(2,5)[OF f cp] o by auto
  have "p mod 4 = 0" using assms by (simp add: emit_ready_def)
  then have "4 dvd p mod 512" by (simp add: dvd_mod_iff mod_eq_0_iff_dvd)
  then obtain q where "p mod 512 = 4 * q" by (elim dvdE)
  moreover have "p mod 512 < 512" by simp
  ultimately have "q \<le> 127" by linarith
  then show "p mod 512 \<le> 508" unfolding \<open>p mod 512 = 4 * q\<close> by linarith
qed

text \<open>The end of the method, when there is room.\<close>

definition store_instr :: "uint32 \<Rightarrow> jitc_state \<Rightarrow> jitc_state" where
  "store_instr w s = set_cur (\<lambda>p. p\<lparr>tcp := tcp p + 4, bytesLeft := bytesLeft p - 4\<rparr>) (put_native (tcp (cur_page s)) w s)"

lemma emit32_room:
  assumes "bytesLeft (cur_page s) = of_nat k" "4 < k" "k < 2 ^ 32" "in_cache s (tcp (cur_page s))" "tcf_current (cur_page s) = Some t"
    "tcf_base (frag s t) + 512 = tcp (cur_page s) + of_nat k"
  shows "emit32 w s = Inr (store_instr w s)"
proof -
  have b: "\<not> bytesLeft (cur_page s) \<le> 4" "\<not> bytesLeft (cur_page s) < 4"
    using assms(1-3) by (simp_all add: word_less_nat_alt word_le_nat_alt unat_of_nat take_bit_nat_eq_self)
  have "(ucast (bytesLeft (cur_page s)) :: uint64) = of_nat k" using assms(1,3) by (simp add: unsigned_of_nat take_bit_nat_eq_self)
  then show ?thesis using assms b by (simp add: emit32_def store_instr_def FRAGMENT_SIZE_def)
qed

lemma store_instr_simps [simp]:
  "frag (store_instr w s) = frag s" "currentPage (store_instr w s) = currentPage s" "translationCache (store_instr w s) = translationCache s"
  "native (store_instr w s) = (native s)(tcp (cur_page s) := w)" "tcp (cur_page (store_instr w s)) = tcp (cur_page s) + 4"
  "bytesLeft (cur_page (store_instr w s)) = bytesLeft (cur_page s) - 4" "at_ofs (store_instr w s) = at_ofs s"
  by (simp_all add: store_instr_def set_cur_def cur_page_def at_ofs_def fun_eq_iff)

lemma cache_ok_store [simp]: "cache_ok np nf ls s xs ys own fs \<Longrightarrow> cache_ok np nf ls (store_instr w s) xs ys own fs"
  unfolding store_instr_def by (rule cache_ok_cur) simp_all

lemma placed_store [simp]: "placed nf (store_instr w s) = placed nf s"
  by (simp add: placed_def)

lemma emit32_same:
  assumes r: "emit_ready np nf s xs ys own fs p" and m: "p mod 512 < 508"
  shows "emit32 w s = Inr (store_instr w s)" "emit_ready np nf (store_instr w s) xs ys own fs (p + 4)"
proof -
  note b = emit_ready_bounds[OF r]
  have t: "tcp (cur_page s) = at_ofs s p" "bytesLeft (cur_page s) = of_nat (512 - p mod 512)" "placed nf s"
    using r by (simp_all add: emit_ready_def)
  have e: "p + (512 - p mod 512) = 512 * (p div 512) + 512" using div_mult_mod_eq[of p 512] m by linarith
  show "emit32 w s = Inr (store_instr w s)"
  proof (rule emit32_room[OF t(2) _ _ _ b(3)])
    show "tcf_base (frag s (p div 512)) + 512 = tcp (cur_page s) + of_nat (512 - p mod 512)"
      unfolding t(1) b(4) at_ofs_plus e using at_ofs_plus[of s "512 * (p div 512)" 512] by simp
    show "in_cache s (tcp (cur_page s))" using in_cache_at_ofs[OF t(3) b(1)] t(1) by simp
  qed (use m in simp_all)
  have d: "(p + 4) div 512 = p div 512" "(p + 4) mod 512 = p mod 512 + 4" "(p + 4) mod 4 = p mod 4"
    using add_in_fragment[of p 4] m by simp_all
  have "(of_nat (512 - p mod 512) :: uint32) - 4 = of_nat (512 - (p + 4) mod 512)" using m unfolding d(2) by (simp add: of_nat_diff)
  then show "emit_ready np nf (store_instr w s) xs ys own fs (p + 4)"
    using r at_ofs_plus[of s p 4] unfolding emit_ready_def d(1,3) by (simp add: t)
qed

subsection \<open>The next fragment\<close>

text \<open>The word at \<open>from\<close> is a branch to \<open>to\<close>.\<close>

definition branches :: "uint32 \<Rightarrow> uint64 \<Rightarrow> uint64 \<Rightarrow> bool" where
  "branches w from to \<longleftrightarrow> (\<exists>d. a64_B d = Inr w \<and> d mod 4 = 0 \<and> to = from + word_of_int d)"

lemma emit_branch:
  assumes "x < cache_bytes" "y < cache_bytes" "x mod 4 = 0" "y mod 4 = 0"
  shows "\<exists>w. jitcEmitBranch (at_ofs s x) (at_ofs s y) s' = Inr (put_native (at_ofs s x) w s') \<and> branches w (at_ofs s x) (at_ofs s y)"
proof -
  define d where "d = int y - int x"
  have nd: "native_diff (at_ofs s y) (at_ofs s x) = d" unfolding d_def by (rule native_diff_ofs) (use assms in auto)
  have bd: "- 0x4000000 < d" "d < 0x4000000" using assms(1,2) by (auto simp: d_def)
  obtain x' y' where "x = 4 * x'" "y = 4 * y'" using assms(3,4) unfolding mod_eq_0_iff_dvd by (elim dvdE)
  then have d4: "d = 4 * (int y' - int x')" by (simp add: d_def)
  have s4: "d sdiv 4 = int y' - int x'" by (simp add: d4 signed_divide_int_def sgn_if abs_if)
  have "- 0x1000000 < int y' - int x'" "int y' - int x' < 0x1000000" using bd unfolding d4 by simp_all
  then have "range_ok (- 0x2000000) 0x1ffffff (d sdiv 4)" by (simp add: s4 range_ok_def)
  then obtain w where w: "a64_B d = Inr w" by (simp add: a64_B_def Let_def)
  have "at_ofs s y = at_ofs s x + word_of_int d" by (simp add: at_ofs_def d_def)
  moreover have "d mod 4 = 0" by (simp add: d4)
  ultimately have "branches w (at_ofs s x) (at_ofs s y)" using w by (auto simp: branches_def)
  then show ?thesis using w by (auto simp: jitcEmitBranch_def nd)
qed

lemma emit32_next:
  assumes "bytesLeft (cur_page s) \<le> 4" "jitcEmitNextFragment s = Inr (b, s')" "\<not> bytesLeft (cur_page s') \<le> 4"
  shows "emit32 w s = emit32 w s'"
  using assms by (simp add: emit32_def)

lemma far_fragment:
  assumes "placed nf s" "512 * t < cache_bytes" "p < cache_bytes" "p mod 512 = 508" "t \<noteq> p div 512"
  shows "at_ofs s (512 * t) - at_ofs s p < 20 \<longleftrightarrow> t = p div 512 + 1"
proof -
  have p: "p = 512 * (p div 512) + 508" using assms(4) mult_div_mod_eq[of 512 p] by linarith
  show ?thesis
  proof (cases "t > p div 512")
    case True
    then have "p \<le> 512 * t" using p by linarith
    then have e: "at_ofs s (512 * t) - at_ofs s p = of_nat (512 * t - p)" by (rule at_ofs_minus)
    have "unat (of_nat (512 * t - p) :: uint64) = 512 * t - p" using assms(2) by (simp add: unat_of_nat take_bit_nat_eq_self)
    then have "at_ofs s (512 * t) - at_ofs s p < 20 \<longleftrightarrow> 512 * t - p < 20" unfolding e by (simp add: word_less_nat_alt)
    also have "\<dots> \<longleftrightarrow> t = p div 512 + 1" using True p by auto
    finally show ?thesis .
  next
    case False
    then have l: "512 * t < p" using assms(5) p by linarith
    then have e: "at_ofs s (512 * t) - at_ofs s p = - of_nat (p - 512 * t)" by (intro at_ofs_minus_neg) simp
    define n where "n = p - 512 * t"
    have n: "0 < n" "n < cache_bytes" using l assms(3) by (auto simp: n_def)
    have "(of_nat (2 ^ 64 - n) :: uint64) + of_nat n = of_nat (2 ^ 64)" using n(2) by (subst of_nat_add[symmetric]) simp
    then have "(of_nat (2 ^ 64 - n) :: uint64) + of_nat n = 0" by simp
    then have "- of_nat n = (of_nat (2 ^ 64 - n) :: uint64)" by (metis minus_unique add.commute)
    moreover have "unat (of_nat (2 ^ 64 - n) :: uint64) = 2 ^ 64 - n" using n by (simp add: unat_of_nat take_bit_nat_eq_self del: of_nat_diff)
    ultimately have "unat (- of_nat n :: uint64) = 2 ^ 64 - n" by simp
    then have "\<not> at_ofs s (512 * t) - at_ofs s p < 20" unfolding e n_def[symmetric] using n(2) by (simp add: word_less_nat_alt)
    then show ?thesis using False by simp
  qed
qed

text \<open>
  With no room for a second instruction, and a fragment \<open>t\<close> free: either \<open>t\<close> follows directly, and the instruction goes to the last place
  of the old fragment, or this place gets a branch to \<open>t\<close> and the instruction is the first of \<open>t\<close>.
\<close>

lemma emit32_fragment:
  assumes r: "emit_ready np nf s xs ys own (t # fs) p" and m: "p mod 512 = 508"
  defines "own' \<equiv> own(currentPage s := t # own (currentPage s))"
  shows "\<exists>s' p'. emit32 w s = Inr s' \<and> emit_ready np nf s' xs ys own' fs p' \<and> translationCache s' = translationCache s \<and>
    currentPage s' = currentPage s \<and>
    (t = p div 512 + 1 \<and> p' = p + 4 \<and> native s' = (native s)(at_ofs s p := w) \<or>
     p' = 512 * t + 4 \<and> t \<noteq> p div 512 \<and>
       (\<exists>b. branches b (at_ofs s p) (at_ofs s (512 * t)) \<and> native s' = (native s)(at_ofs s p := b, at_ofs s (512 * t) := w)))"
proof -
  note bd = emit_ready_bounds[OF r]
  have c: "cache_ok np nf {#} s xs ys own (t # fs)" and pl: "placed nf s" and x: "currentPage s \<in> set xs" and p4: "p mod 4 = 0"
    and tp: "tcp (cur_page s) = at_ofs s p" and bl: "bytesLeft (cur_page s) = 4"
    using r m by (simp_all add: emit_ready_def)
  have tn: "t < nf" "t \<noteq> p div 512" using bd(6) bd(8)[of t] by auto
  have t512: "512 * t + 512 \<le> cache_bytes" using pl tn(1) unfolding placed_def by linarith
  have pe: "p = 512 * (p div 512) + 508" using m mult_div_mod_eq[of 512 p] by linarith
  obtain s1 where s1: "jitcGetFragment s = Inr (t, s1)" "cache_ok np nf {#t#} s1 xs ys own fs" "page s1 = page s"
    "\<forall>u. tcf_base (frag s1 u) = tcf_base (frag s u)" "native s1 = native s" "translationCache s1 = translationCache s" "currentPage s1 = currentPage s"
    using cache_ok_get[OF c] by blast
  have al: "jitcAllocFragment s = Inr (t, s1)" using s1(1) c by (simp add: jitcAllocFragment_def cache_ok_def frags_ok_def)
  define s2 where "s2 = set_frag t (\<lambda>f. f\<lparr>tcf_prev := tcf_current (cur_page s1)\<rparr>) (set_cur (\<lambda>p. p\<lparr>tcf_current := Some t\<rparr>) s1)"
  have cs1: "cur_page s1 = cur_page s" using s1(3,7) by (simp add: cur_page_def)
  have c2: "cache_ok np nf {#} s2 xs ys own' fs"
    unfolding s2_def own'_def using cache_ok_attach[OF s1(2)] x s1(7) by simp
  have e2: "currentPage s2 = currentPage s" "translationCache s2 = translationCache s" "native s2 = native s"
    "\<And>u. tcf_base (frag s2 u) = tcf_base (frag s u)" "cur_page s2 = (cur_page s)\<lparr>tcf_current := Some t\<rparr>"
    using s1(3-7) by (simp_all add: s2_def set_cur_def cur_page_def)
  have pl2: "placed nf s2" using pl by (simp add: placed_def e2)
  have base: "tcf_base (frag s2 t) = at_ofs s (512 * t)" using pl tn(1) by (simp add: e2(4) placed_def at_ofs_def)
  have ao: "at_ofs s2 = at_ofs s" by (simp add: at_ofs_def fun_eq_iff e2)
  have nx: "jitcEmitNextFragment s =
    (if at_ofs s (512 * t) - at_ofs s p < 20 then Inr (False, set_cur (\<lambda>p. p\<lparr>bytesLeft := bytesLeft p + 512\<rparr>) s2)
     else let s = set_cur (\<lambda>p. p\<lparr>tcp := at_ofs s (512 * t), bytesLeft := 512\<rparr>) s2
          in and_then (jitcEmitBranch (tcp (cur_page s1)) (tcp (cur_page s)) s) (\<lambda>s. Inr (True, s)))"
  proof -
    have "jitcEmitNextFragment s =
      (if tcf_base (frag s2 t) - tcp (cur_page s2) < 20 then Inr (False, set_cur (\<lambda>p. p\<lparr>bytesLeft := bytesLeft p + of_nat FRAGMENT_SIZE\<rparr>) s2)
       else let s' = set_cur (\<lambda>p. p\<lparr>tcp := tcf_base (frag s2 t), bytesLeft := of_nat FRAGMENT_SIZE\<rparr>) s2
            in and_then (jitcEmitBranch (tcp (cur_page s)) (tcp (cur_page s')) s') (\<lambda>s. Inr (True, s)))"
      unfolding jitcEmitNextFragment_def Let_def al and_then_simps prod.case cs1[symmetric] s2_def[symmetric] ..
    then show ?thesis using base tp cs1 by (simp add: FRAGMENT_SIZE_def e2(5))
  qed
  show ?thesis
  proof (cases "t = p div 512 + 1")
    case True
    define s3 where "s3 = set_cur (\<lambda>p. p\<lparr>bytesLeft := bytesLeft p + 512\<rparr>) s2"
    have c3: "cache_ok np nf {#} s3 xs ys own' fs" unfolding s3_def by (rule cache_ok_cur[OF c2]) simp
    have e3: "currentPage s3 = currentPage s" "translationCache s3 = translationCache s" "native s3 = native s" "frag s3 = frag s2"
      "cur_page s3 = (cur_page s)\<lparr>tcf_current := Some t, bytesLeft := 516\<rparr>"
      using e2 bl by (simp_all add: s3_def set_cur_def cur_page_def)
    have ao3: "at_ofs s3 = at_ofs s" by (simp add: at_ofs_def fun_eq_iff e3)
    have n: "jitcEmitNextFragment s = Inr (False, s3)"
      using far_fragment[OF pl _ bd(1) m tn(2)] t512 True by (simp add: nx s3_def)
    have "emit32 w s = emit32 w s3" by (rule emit32_next[OF _ n]) (simp_all add: bl e3)
    also have "\<dots> = Inr (store_instr w s3)"
    proof (rule emit32_room[where k = 516 and t = t])
      show "in_cache s3 (tcp (cur_page s3))" using in_cache_at_ofs[OF pl bd(1)] by (simp add: e3 tp in_cache_def)
      have "512 * t + 512 = p + 516" using True pe by linarith
      then show "tcf_base (frag s3 t) + 512 = tcp (cur_page s3) + of_nat 516"
        using base at_ofs_plus[of s "512 * t" 512] at_ofs_plus[of s p 516] by (simp add: e3 tp add.commute)
    qed (simp_all add: e3)
    finally have em: "emit32 w s = Inr (store_instr w s3)" .
    have "p + 4 = 512 * t" using True pe by linarith
    then have "emit_ready np nf (store_instr w s3) xs ys own' fs (p + 4)"
      using c3 pl2 x tn(1) at_ofs_plus[of s p 4] unfolding emit_ready_def
      by (simp add: e3 ao3 tp own'_def placed_def at_ofs_def e2)
    then show ?thesis using em True by (intro exI[of _ "store_instr w s3"] exI[of _ "p + 4"]) (simp add: e3 tp)
  next
    case False
    define s3 where "s3 = set_cur (\<lambda>p. p\<lparr>tcp := at_ofs s (512 * t), bytesLeft := 512\<rparr>) s2"
    have c3: "cache_ok np nf {#} s3 xs ys own' fs" unfolding s3_def by (rule cache_ok_cur[OF c2]) simp
    obtain b where b: "jitcEmitBranch (at_ofs s p) (at_ofs s (512 * t)) s3 = Inr (put_native (at_ofs s p) b s3)"
      "branches b (at_ofs s p) (at_ofs s (512 * t))"
      using emit_branch[of p "512 * t" s s3] bd(1) t512 p4 by auto
    define s4 where "s4 = put_native (at_ofs s p) b s3"
    have e4: "currentPage s4 = currentPage s" "translationCache s4 = translationCache s" "native s4 = (native s)(at_ofs s p := b)"
      "frag s4 = frag s2" "cur_page s4 = (cur_page s)\<lparr>tcf_current := Some t, tcp := at_ofs s (512 * t), bytesLeft := 512\<rparr>"
      using e2 by (simp_all add: s4_def s3_def set_cur_def cur_page_def)
    have ao4: "at_ofs s4 = at_ofs s" by (simp add: at_ofs_def fun_eq_iff e4)
    have n: "jitcEmitNextFragment s = Inr (True, s4)"
    proof -
      have "cur_page s3 = (cur_page s)\<lparr>tcf_current := Some t, tcp := at_ofs s (512 * t), bytesLeft := 512\<rparr>"
        using e2 by (simp add: s3_def set_cur_def cur_page_def)
      then show ?thesis
        using far_fragment[OF pl _ bd(1) m tn(2)] t512 False b(1) tp cs1 by (simp add: nx s4_def Let_def flip: s3_def)
    qed
    have "emit32 w s = emit32 w s4" by (rule emit32_next[OF _ n]) (simp_all add: bl e4)
    also have "\<dots> = Inr (store_instr w s4)"
    proof (rule emit32_room[where k = 512 and t = t])
      show "in_cache s4 (tcp (cur_page s4))" using in_cache_at_ofs[OF pl, of "512 * t"] t512 by (simp add: e4 in_cache_def)
      show "tcf_base (frag s4 t) + 512 = tcp (cur_page s4) + of_nat 512" using base by (simp add: e4)
    qed (simp_all add: e4)
    finally have em: "emit32 w s = Inr (store_instr w s4)" .
    have "cache_ok np nf {#} s4 xs ys own' fs" using c3 by (simp add: s4_def)
    moreover have "(512 * t + 4) div 512 = t \<and> (512 * t + 4) mod 512 = 4" using add_in_fragment[of "512 * t" 4] by simp
    moreover have "(512 * t + 4) mod 4 = 0" using mod_mult_self1_is_0[of 4 "128 * t + 1"] by simp
    ultimately have "emit_ready np nf (store_instr w s4) xs ys own' fs (512 * t + 4)"
      using pl2 x tn(1) at_ofs_plus[of s "512 * t" 4] unfolding emit_ready_def by (simp add: e4 ao4 own'_def placed_def e2)
    then show ?thesis using em b(2) tn(2) by (intro exI[of _ "store_instr w s4"] exI[of _ "512 * t + 4"]) (auto simp: e4)
  qed
qed

subsection \<open>Code\<close>

text \<open>
  From \<open>a\<close> on, the processor executes the words \<open>ws\<close> one after the other, apart from branches between them, and arrives at \<open>e\<close>.
\<close>

inductive code_at :: "(uint64 \<Rightarrow> uint32) \<Rightarrow> uint64 \<Rightarrow> uint32 list \<Rightarrow> uint64 \<Rightarrow> bool" for m where
  code_end: "code_at m a [] a"
| code_word: "m a = w \<Longrightarrow> code_at m (a + 4) ws e \<Longrightarrow> code_at m a (w # ws) e"
| code_link: "branches (m a) a b \<Longrightarrow> code_at m b ws e \<Longrightarrow> code_at m a ws e"

fun emit_all :: "uint32 list \<Rightarrow> jitc_state \<Rightarrow> jitc_state jit" where
  "emit_all [] s = Inr s"
| "emit_all (w # ws) s = and_then (emit32 w s) (emit_all ws)"

text \<open>How many instructions fit, with the fragments \<open>fs\<close> free.\<close>

definition emit_room :: "nat \<Rightarrow> nat list \<Rightarrow> nat" where
  "emit_room p fs = (508 - p mod 512) div 4 + 127 * length fs"

text \<open>The places that further instructions may change.\<close>

definition open_place :: "nat \<Rightarrow> nat list \<Rightarrow> nat \<Rightarrow> bool" where
  "open_place p fs x \<longleftrightarrow> x div 512 = p div 512 \<and> p \<le> x \<or> x div 512 \<in> set fs"

lemma emit32_step:
  assumes r: "emit_ready np nf s xs ys own fs p" and n: "0 < emit_room p fs"
  shows "\<exists>s' own' fs' p'. emit32 w s = Inr s' \<and> emit_ready np nf s' xs ys own' fs' p' \<and> translationCache s' = translationCache s \<and>
    emit_room p fs \<le> Suc (emit_room p' fs') \<and>
    (\<forall>x. open_place p' fs' x \<longrightarrow> open_place p fs x \<and> x \<noteq> p) \<and>
    (\<forall>x<cache_bytes. \<not> open_place p fs x \<longrightarrow> native s' (at_ofs s x) = native s (at_ofs s x)) \<and>
    (native s' (at_ofs s p) = w \<and> p' = p + 4 \<or>
     (\<exists>q<cache_bytes. branches (native s' (at_ofs s p)) (at_ofs s p) (at_ofs s q) \<and> native s' (at_ofs s q) = w \<and> p' = q + 4 \<and>
        \<not> open_place p' fs' q))"
proof -
  note bd = emit_ready_bounds[OF r]
  have pl: "placed nf s" using r by (simp add: emit_ready_def)
  have inj: "x < cache_bytes \<Longrightarrow> y < cache_bytes \<Longrightarrow> at_ofs s x = at_ofs s y \<longleftrightarrow> x = y" for x y using at_ofs_inject[OF pl, of x y] by simp
  show ?thesis
  proof (cases "p mod 512 < 508")
    case True
    have d: "(p + 4) div 512 = p div 512" "(p + 4) mod 512 = p mod 512 + 4" using add_in_fragment[of p 4] True by simp_all
    have "(508 - p mod 512) div 4 \<le> Suc ((504 - p mod 512) div 4)" by linarith
    then have "emit_room p fs \<le> Suc (emit_room (p + 4) fs)" unfolding emit_room_def d by simp
    moreover have "tcp (cur_page s) = at_ofs s p" using r by (simp add: emit_ready_def)
    ultimately show ?thesis
      using emit32_same[OF r True, of w] bd(1,6) inj
      by (intro exI[of _ "store_instr w s"] exI[of _ own] exI[of _ fs] exI[of _ "p + 4"]) (auto simp: open_place_def d)
  next
    case False
    then have m: "p mod 512 = 508" using bd(7) by simp
    then obtain t fs' where fs: "fs = t # fs'" using n by (cases fs) (auto simp: emit_room_def)
    define own' where "own' = own(currentPage s := t # own (currentPage s))"
    obtain s' p' where s': "emit32 w s = Inr s'" "emit_ready np nf s' xs ys own' fs' p'" "translationCache s' = translationCache s"
      "t = p div 512 + 1 \<and> p' = p + 4 \<and> native s' = (native s)(at_ofs s p := w) \<or>
       p' = 512 * t + 4 \<and> t \<noteq> p div 512 \<and>
         (\<exists>b. branches b (at_ofs s p) (at_ofs s (512 * t)) \<and> native s' = (native s)(at_ofs s p := b, at_ofs s (512 * t) := w))"
      using emit32_fragment[OF r[unfolded fs] m, of w] unfolding own'_def by blast
    have tn: "t < nf" using bd(8)[of t] fs by simp
    then have t512: "512 * t < cache_bytes" using pl unfolding placed_def by linarith
    have pe: "p = 512 * (p div 512) + 508" using m mult_div_mod_eq[of 512 p] by linarith
    have p': "p' div 512 = t" "512 * t \<le> p'" "p' mod 512 \<le> 4"
    proof -
      have "p' = 512 * t \<or> p' = 512 * t + 4" using s'(4) pe by auto
      then show "p' div 512 = t" "512 * t \<le> p'" "p' mod 512 \<le> 4" using add_in_fragment[of "512 * t" 4] by auto
    qed
    have tfs: "t \<notin> set fs'" using emit_ready_bounds(6)[OF s'(2)] p'(1) by simp
    have "emit_room p fs \<le> Suc (emit_room p' fs')" using p'(3) m by (simp add: emit_room_def fs)
    moreover have "\<forall>x. open_place p' fs' x \<longrightarrow> open_place p fs x \<and> x \<noteq> p" using p' bd(6) fs by (auto simp: open_place_def)
    moreover have "\<forall>x<cache_bytes. \<not> open_place p fs x \<longrightarrow> native s' (at_ofs s x) = native s (at_ofs s x)"
    proof (intro allI impI)
      fix x assume x: "x < cache_bytes" "\<not> open_place p fs x"
      then have "x \<noteq> p" "x \<noteq> 512 * t" by (auto simp: open_place_def fs)
      then show "native s' (at_ofs s x) = native s (at_ofs s x)" using s'(4) inj[OF x(1)] bd(1) t512 by auto
    qed
    moreover have "native s' (at_ofs s p) = w \<and> p' = p + 4 \<or>
      (\<exists>q<cache_bytes. branches (native s' (at_ofs s p)) (at_ofs s p) (at_ofs s q) \<and> native s' (at_ofs s q) = w \<and> p' = q + 4 \<and> \<not> open_place p' fs' q)"
      using s'(4)
    proof (elim disjE conjE exE)
      fix b assume b: "p' = 512 * t + 4" "t \<noteq> p div 512" "branches b (at_ofs s p) (at_ofs s (512 * t))"
        "native s' = (native s)(at_ofs s p := b, at_ofs s (512 * t) := w)"
      have "512 * t \<noteq> p" using b(2) by auto
      then show ?thesis using b t512 bd(1) tfs inj[of p "512 * t"] by (intro disjI2 exI[of _ "512 * t"]) (auto simp: open_place_def)
    qed simp
    ultimately show ?thesis using s'(1,2,3) by blast
  qed
qed

lemma emit_all_code:
  assumes "emit_ready np nf s xs ys own fs p" "length ws \<le> emit_room p fs"
  shows "\<exists>s' own' fs' p'. emit_all ws s = Inr s' \<and> emit_ready np nf s' xs ys own' fs' p' \<and>
    code_at (native s') (at_ofs s p) ws (at_ofs s p') \<and> translationCache s' = translationCache s \<and>
    (\<forall>x<cache_bytes. \<not> open_place p fs x \<longrightarrow> native s' (at_ofs s x) = native s (at_ofs s x))"
  using assms
proof (induction ws arbitrary: s own fs p)
  case Nil
  then show ?case by (auto intro: code_end)
next
  case (Cons w ws)
  obtain s1 own1 fs1 p1 where s1: "emit32 w s = Inr s1" "emit_ready np nf s1 xs ys own1 fs1 p1" "translationCache s1 = translationCache s"
    "emit_room p fs \<le> Suc (emit_room p1 fs1)" "\<forall>x. open_place p1 fs1 x \<longrightarrow> open_place p fs x \<and> x \<noteq> p"
    "\<forall>x<cache_bytes. \<not> open_place p fs x \<longrightarrow> native s1 (at_ofs s x) = native s (at_ofs s x)"
    "native s1 (at_ofs s p) = w \<and> p1 = p + 4 \<or>
     (\<exists>q<cache_bytes. branches (native s1 (at_ofs s p)) (at_ofs s p) (at_ofs s q) \<and> native s1 (at_ofs s q) = w \<and> p1 = q + 4 \<and>
        \<not> open_place p1 fs1 q)"
    using emit32_step[OF Cons.prems(1), of w] Cons.prems(2) by auto
  have ao: "at_ofs s1 = at_ofs s" by (simp add: at_ofs_def fun_eq_iff s1(3))
  obtain s' own' fs' p' where s': "emit_all ws s1 = Inr s'" "emit_ready np nf s' xs ys own' fs' p'"
    "code_at (native s') (at_ofs s p1) ws (at_ofs s p')" "translationCache s' = translationCache s1"
    "\<forall>x<cache_bytes. \<not> open_place p1 fs1 x \<longrightarrow> native s' (at_ofs s x) = native s1 (at_ofs s x)"
    using Cons.IH[OF s1(2)] Cons.prems(2) s1(4) unfolding ao by auto
  have pb: "p < cache_bytes" using emit_ready_bounds(1)[OF Cons.prems(1)] .
  have "native s' (at_ofs s p) = native s1 (at_ofs s p)" using s'(5) s1(5) pb by blast
  then have "code_at (native s') (at_ofs s p) (w # ws) (at_ofs s p')"
    using s1(7)
  proof (elim disjE exE conjE)
    assume k: "native s' (at_ofs s p) = native s1 (at_ofs s p)" "native s1 (at_ofs s p) = w" "p1 = p + 4"
    have "at_ofs s p + 4 = at_ofs s p1" using k(3) at_ofs_plus[of s p 4] by simp
    then have "code_at (native s') (at_ofs s p + 4) ws (at_ofs s p')" using s'(3) by simp
    moreover have "native s' (at_ofs s p) = w" unfolding k(1) by (rule k(2))
    ultimately show ?thesis by (rule code_word[rotated])
  next
    fix q assume k: "native s' (at_ofs s p) = native s1 (at_ofs s p)" "q < cache_bytes" "branches (native s1 (at_ofs s p)) (at_ofs s p) (at_ofs s q)"
      "native s1 (at_ofs s q) = w" "p1 = q + 4" "\<not> open_place p1 fs1 q"
    then have w: "native s' (at_ofs s q) = w" using s'(5) by blast
    have "at_ofs s q + 4 = at_ofs s p1" using k(5) at_ofs_plus[of s q 4] by simp
    then have "code_at (native s') (at_ofs s q + 4) ws (at_ofs s p')" using s'(3) by simp
    with w have "code_at (native s') (at_ofs s q) (w # ws) (at_ofs s p')" by (rule code_word)
    moreover have "branches (native s' (at_ofs s p)) (at_ofs s p) (at_ofs s q)" using k(3) unfolding k(1) .
    ultimately show ?thesis by (rule code_link[rotated])
  qed
  moreover have "\<forall>x<cache_bytes. \<not> open_place p fs x \<longrightarrow> native s' (at_ofs s x) = native s (at_ofs s x)"
  proof (intro allI impI)
    fix x assume x: "x < cache_bytes" "\<not> open_place p fs x"
    then have "\<not> open_place p1 fs1 x" using s1(5) by blast
    then have "native s' (at_ofs s x) = native s1 (at_ofs s x)" using s'(5) x(1) by blast
    also have "\<dots> = native s (at_ofs s x)" using s1(6) x by blast
    finally show "native s' (at_ofs s x) = native s (at_ofs s x)" .
  qed
  ultimately show ?case using s1(1,3) s'(1,2,4) by auto
qed

end
