(* ===== verification/Spec2Isabelle.thy ===== *)
theory Spec2Isabelle
  imports Ppc_Page_Sound Ppc_Interrupts Ppc_User_Mode Ppc_Paged_Access Ppc_Insn_Props Io_Cuda_Protocol Io_Nvram
    Ppc_Vec_Correct Ppc_Vec_Run Ppc_Fpu_Props Tools_Props Io_Gcard_Props Io_Bus_Props
    Jitc_Alu_Refines Jitc_Cache_Props Jitc_Emit_Props
begin

text \<open>
  PearPC, an emulator of a PowerPC computer: its processor, and the devices around it.

  \<^bold>\<open>The program.\<close>  \<open>src/src/cpu\<close> holds the processor.  \<open>cpu_generic\<close> is the interpreter: one C function
  per instruction, working on the global \<open>gCPU\<close>, reached through the tables of \<open>ppc_dec.cc\<close> and driven by the
  loop of \<open>ppc_cpu.cc\<close>.  The headers \<open>ppc_semantics_*.h\<close> give the integer, memory, branch and register
  instructions once more, as templates over a back end: \<open>ppc_concrete_sem.h\<close> executes a template on the state
  (the interpreter's handlers instantiate it), \<open>ppc_liveness_sem.h\<close> runs it to find which registers it reads and
  writes, and \<open>ppc_liveness.h\<close> builds from these sets the control flow graph of a page and the registers that
  are dead at each block, which the code generators use to leave out the computation of flags.  \<open>src/src/io\<close>
  holds the devices; they reach the processor through \<open>ppc_cpu_raise_ext_exception\<close> and its opposite, called on
  device threads, through memory-mapped registers, and through DMA.

  \<^bold>\<open>The model.\<close>  A definition has the name of the function, type or constant it translates; a suffix \<open>_rc\<close>
  stands for the C names that end in an underscore.  Machine integers are words of their width.  The state of
  the processor is the record \<open>cpu\<close>, with memory and devices the record \<open>mach\<close>.  A function of the source that
  may stop the emulator returns a sum: \<open>Inl\<close> an error (\<open>Ppc_Fatal\<close>: \<open>PPC_FATAL\<close> and its relatives;
  \<open>Host_Undefined\<close>: an operation the C++ standard leaves undefined; \<open>Bad_Access\<close>: an access outside an array),
  \<open>Inr\<close> the new state.  Code outside \<open>src\<close> and parts not modelled are parameters: the record \<open>bus\<close> for
  memory-mapped devices, \<open>handlers\<close> for what the tables of \<open>ppc_dec.cc\<close> reach in other files,
  \<open>junk\<close> for the local structures that the floating-point handlers read before they set them, \<open>host_float\<close> for the arithmetic of the
  host's float type, \<open>cuda_env\<close> for the host's clock and keyboard lights.

  \<^item> \<open>Ppc_Prelude\<close>: facts on words, bits, masks and aligned numbers that the rest shares.
  \<^item> \<open>Ppc_Decode\<close> (\<open>ppc_opc_decode.h\<close>), \<open>Ppc_Cpu\<close> (\<open>common.h\<close>, \<open>ppc_cpu.h\<close>): instruction fields; the state.
  \<^item> \<open>Ppc_Sem\<close>, \<open>Ppc_Sem_Alu\<close>, \<open>Ppc_Sem_Mem\<close>, \<open>Ppc_Sem_Spr\<close>: the templates, over the record \<open>alu_sem\<close> of back-end
    operations.  \<open>Ppc_Concrete\<close> and \<open>Ppc_Liveness_Sem\<close> are the two back ends, \<open>Ppc_Dispatch\<close> is
    \<open>ppc_analyze_insn\<close>.
  \<^item> \<open>Ppc_Exc\<close>, \<open>Ppc_Alu\<close>, \<open>Ppc_Opc\<close>, \<open>Ppc_Mmu\<close>, \<open>Ppc_Mem_Opc\<close>, \<open>Ppc_Dec\<close>, \<open>Ppc_Run\<close>: the files of the
    interpreter, with every handler; the loop with the interleaving of device threads is \<open>flag_step\<close>.
  \<^item> \<open>Ppc_Vec_Base\<close> (\<open>ppc_vec.h\<close>, the union \<open>Vector_t\<close> on a little-endian host), \<open>Ppc_Vec\<close> and \<open>Ppc_Vec_Dec\<close>
    (\<open>ppc_vec.cc\<close>), \<open>Ppc_Vec_Mem\<close> (the vector part of \<open>ppc_mmu.cc\<close>), \<open>Ppc_Vec_Dec\<close> and \<open>Ppc_Vec_Run\<close> (the vector
    group of \<open>ppc_dec.cc\<close>): the vector unit; \<open>with_vectors\<close> puts it into the tables.
  \<^item> \<open>Ppc_Fpu_Base\<close> (\<open>ppc_fpu.h\<close>), \<open>Ppc_Fpu\<close> (the arithmetic of \<open>ppc_fpu.cc\<close>), \<open>Ppc_Fpu_Opc\<close> (its instructions, the single
    precision part of \<open>ppc_mmu.cc\<close>, the floating-point groups of \<open>ppc_dec.cc\<close>): the floating-point unit, which computes
    on unpacked numbers with integers only; \<open>with_fpu\<close> puts it into the tables.
  \<^item> \<open>Ppc_Liveness\<close>: scanning of blocks, construction of the graph, the solver.
  \<^item> \<open>Tools_Tree\<close> (\<open>BinaryTree\<close> and \<open>AVLTree\<close> of \<open>tools/data.cc\<close>: a node is a constructor, a place in the tree a path
    to it, the handle of a node the subtree below it), \<open>Tools_Array\<close> (\<open>Array\<close>; the size of its buffer is computed in \<open>int\<close>,
    with an overflow as failure).  The comparison of keys is a parameter.
  \<^item> \<open>Io_Pic\<close>, \<open>Io_Cuda\<close>, \<open>Io_Nvram\<close>: interrupt controller, CUDA, non-volatile memory.
  \<^item> \<open>Io_Pci\<close> (\<open>pci.cc\<close>; the devices are in an \<open>AVLTree\<close>, their virtual functions the record \<open>PCI_virtual\<close>, a derived
    class an extension of the record \<open>PCI_Device\<close>), \<open>Io_Pci_Devices\<close> (\<open>macio.cc\<close>, \<open>usb.cc\<close>, \<open>serial.cc\<close> and what
    \<open>pci_init\<close> puts on the bus), \<open>Io_Gcard\<close> (\<open>gcard.cc\<close>: frame buffer, modes, calls of the guest's driver).
  \<^item> \<open>Io_Bus\<close> (\<open>io.h\<close>): which device answers at an address; its \<open>io_bus\<close> is a value for the parameter \<open>bus\<close> of the
    memory model.
  \<^item> \<open>Jitc_Alu\<close> (\<open>cpu_jitc_aarch64/ppc_alu.cc\<close>): the handlers that code generated for an aarch64 host calls back for integer,
    condition and branch instructions.  \<open>A64_Asm\<close>, \<open>A64_Imm\<close> (\<open>aarch64asm.h\<close>, \<open>aarch64asm.cc\<close>): the encoders of the host's
    instructions and of its logical immediates.  \<open>Jitc_Cache\<close>, \<open>Jitc_Emit\<close> (\<open>jitc.cc\<close>, \<open>jitc.h\<close>): the translation cache,
    its fragments and pages, and writing code into it; \<open>Jitc_Asm\<close> the assembler's methods and forward branches;
    \<open>Jitc_Cache_Props\<close> also the set-up of the cache.

  \<^bold>\<open>What is shown.\<close>
  \<^item> \<open>Ppc_Arith\<close>, \<open>Ppc_Insn_Props\<close>: the arithmetic of the concrete back end (carries, products, shifts, masks,
    leading zeros) and, on the handlers, what instruction sequences compute on 64-bit numbers; where division
    leaves the defined operations of the host.
  \<^item> \<open>Ppc_Dataflow\<close>, \<open>Ppc_Live_Solver\<close>: the solver ends, its sets satisfy the data flow equations and are
    exactly the registers some path uses; the bound of its work list can be exceeded.
  \<^item> \<open>Ppc_Live_Sound\<close>, \<open>Ppc_Exec_Sound\<close>: a locale states what it means for a back end to
    simulate a template; the two back ends interpret it, and so every handler respects the sets of its
    template.  \<open>Ppc_Page_Run\<close>, \<open>Ppc_Page_Sound\<close> carry this to runs through a page: states that
    differ in dead registers only stay in lockstep, up to the first opaque instruction, load, store, floating-point or vector
    instruction, linking branch or absolute branch: there \<open>page_run\<close> stops.
  \<^item> \<open>Ppc_User_Mode\<close>: user programs cannot change supervisor state.
  \<^item> \<open>Ppc_Interrupts\<close>: exception entry and \<open>rfi\<close>, service of interrupts, and the races between the loop and the
    device threads.
  \<^item> \<open>Ppc_Store\<close>, \<open>Ppc_Page_Table\<close>, \<open>Ppc_Access\<close>, \<open>Ppc_Paged_Access\<close>: guest memory as a store of words; SDR1, the entries
    \<open>ppc_mmu_page_create\<close> makes and the translation that finds them; accesses that cross pages, with
    address translation off and through mappings of pages to scattered frames; DMA; the store conditional.
  \<^item> \<open>Ppc_Vec_Props\<close>, \<open>Ppc_Vec_Correct\<close>: loops over the elements of a register
    that is its own source, saturation, shifts of 128 bits, unaligned loads, and the elements on which two
    instructions go wrong.
  \<^item> \<open>Ppc_Fpu_Round\<close>, \<open>Ppc_Fpu_Int\<close>: the real number a register stands for, what unpacking, rounding and
    packing do to it.  \<open>Ppc_Fpu_Int\<close>, \<open>Ppc_Fpu_Single\<close>: comparison, conversion to integers, single
    precision.  \<open>Ppc_Fpu_Nearest\<close>: correct rounding, as a property among all numbers; \<open>Ppc_Fpu_Div\<close> and
    \<open>Ppc_Fpu_Formed\<close>: division is correctly rounded, multiplication is cut first.  \<open>Ppc_Fpu_Formed\<close>: the form of
    unpacked numbers is kept.  \<open>Ppc_Fpu_Props\<close>: the instructions.
  \<^item> \<open>Io_Pic\<close>: over every history of requests, withdrawals, register stores and interrupts taken the registers and the
    interrupt line are what the history asks for; delivery, masking, and an acknowledgement that loses an interrupt.
    \<open>Io_Cuda\<close>: the transfer buffer is never left.  \<open>Io_Cuda_Protocol\<close>: a driver that follows the protocol
    gets every event and every reply.  \<open>Io_Nvram\<close>: cells and checksum.
  \<^item> \<open>Tools_Avl_Ops\<close>, \<open>Tools_Props\<close>: the trees are sorted lists, for every comparison that the
    locale \<open>comparator\<close> allows, with the comparisons of the integer classes and of the PCI devices as interpretations;
    balance factors stay right, loops over a tree end.  \<open>Tools_Array\<close>: an array is a list, up to 715827882 slots.
  \<^item> \<open>Io_Pci_Config\<close>, \<open>Io_Pci_Bars\<close>, \<open>Io_Pci_Props\<close>: what the configuration ports do, sizes and
    addresses of regions, decoding of accesses.  \<open>Io_Gcard_Props\<close>: setting a mode and asking for it.
  \<^item> \<open>Io_Fb\<close>, \<open>Io_Bus_Props\<close>: the CPU with bus and devices: the frame buffer as big-endian memory, an interrupt enabled
    over the bus, replay, addresses without a device.
  \<^item> \<open>Jitc_Alu_Refines\<close>: the fallback handlers follow the interpreter's, with the exceptions it names.  \<open>A64_Imm\<close>: which
    constants the encoder accepts and what they decode to.  \<open>Jitc_Cache_Inv\<close>, \<open>Jitc_Cache_Props\<close>: what the operations on fragments and pages keep,
    when they fail, and two ways in which pages are mixed up.  \<open>Jitc_Emit_Props\<close>: emitted code runs in the order of its emission,
    over the branches between fragments.

  \<^bold>\<open>Bounds.\<close>  The solver and the discovery of blocks run on fuel that a measure shows to be enough
  (\<open>ppc_build_page_cfg_returns\<close>).  The loops over containers, over the size of an array's buffer and over the list of fragments
  are partial functions with \<open>None\<close> for a loop that does not end; on well-formed containers they are shown to return.  The other
  loops have a constant bound or a measure.  A guest's receive loop has fuel for one byte more than the packet.

  \<^bold>\<open>Not modelled.\<close>  The just-in-time compilers for x86 and x86-64; of the one for aarch64 the generators of memory,
  floating-point and vector code, the fallbacks for \<open>mfspr\<close>, \<open>mtspr\<close>, \<open>mtmsr\<close>, \<open>rfi\<close>, \<open>sc\<close>, \<open>tw\<close> and the \<open>tlb\<close>
  instructions, and the execution of what is emitted, which needs a model of the host's processor.
  The drives and network cards (on the bus they are a parameter), the PROM with its Forth interpreter, and the lists,
  strings and streams of \<open>tools\<close> are left for extensions.  The user interface, debugger, configuration and the host layer
  are input and output of the host.
\<close>

end
